(* ===== verification/Prelude.thy ===== *)
theory Prelude
  imports Complex_Main "HOL-Library.AList" "HOL-Library.Sublist" "HOL-Library.Multiset"
begin

text \<open>
  Shared vocabulary of the development: the JavaScript standard library as the modelled code
  uses it, and generic lemmas.

  Strings. A JavaScript string is modelled as a \<open>string\<close> (a list of \<open>char\<close>), one \<open>char\<close> per
  UTF-16 code unit, so the model ranges over the strings whose code units are below 256.
  \<open>trim\<close>, \<open>toLowerCase\<close>, \<open>includes\<close>, \<open>split\<close> and \<open>join\<close> are written out on that range.

  Sorting. \<open>Array.prototype.sort\<close> with a comparator is a stable sort; for a comparator that is
  consistent (a total preorder) ECMA-262 fixes its result, and \<open>js_sort\<close> computes it by insertion.
  \<open>String.prototype.localeCompare\<close> depends on the host's collation tables: it is a parameter
  \<open>lc\<close> of every definition that sorts by it.

  Undefined. A value that may be \<open>undefined\<close> is an \<open>option\<close>; \<open>a ?? b\<close> is \<open>or_else\<close>.
\<close>

named_theorems form_defs \<open>definitions of the form tables and of the functions around them\<close>
named_theorems path_defs \<open>definitions of the path builders\<close>
named_theorems parse_defs \<open>definitions of the parsers\<close>

type_synonym path = "string list"
type_synonym collation = "string \<Rightarrow> string \<Rightarrow> int"

definition or_else :: "'a option \<Rightarrow> 'a \<Rightarrow> 'a" where
  "or_else x d = (case x of None \<Rightarrow> d | Some a \<Rightarrow> a)"

lemma or_else_simps [simp]: "or_else None d = d" "or_else (Some a) d = a"
  by (simp_all add: or_else_def)

subsection \<open>Strings\<close>

definition js_space :: "char \<Rightarrow> bool" where
  "js_space c \<longleftrightarrow> c \<in> {CHR 0x09, CHR 0x0A, CHR 0x0B, CHR 0x0C, CHR 0x0D, CHR 0x20, CHR 0xA0}"

definition js_trim :: "string \<Rightarrow> string" where
  "js_trim s = rev (dropWhile js_space (rev (dropWhile js_space s)))"

definition trimmed :: "string \<Rightarrow> bool" where
  "trimmed s \<longleftrightarrow> js_trim s = s"

definition js_lower_char :: "char \<Rightarrow> char" where
  "js_lower_char c =
     (let n = (of_char c :: nat)
      in if (65 \<le> n \<and> n \<le> 90) \<or> (192 \<le> n \<and> n \<le> 222 \<and> n \<noteq> 215) then char_of (n + 32) else c)"

definition js_lower :: "string \<Rightarrow> string" where
  "js_lower s = map js_lower_char s"

definition js_includes :: "string \<Rightarrow> string \<Rightarrow> bool" where
  "js_includes s sub \<longleftrightarrow> sublist sub s"

fun js_join :: "string \<Rightarrow> string list \<Rightarrow> string" where
  "js_join sep [] = ''''"
| "js_join sep [x] = x"
| "js_join sep (x # y # ys) = x @ sep @ js_join sep (y # ys)"

fun js_split :: "char \<Rightarrow> string \<Rightarrow> string list" where
  "js_split sep [] = ['''']"
| "js_split sep (c # cs) =
     (if c = sep then '''' # js_split sep cs
      else (case js_split sep cs of [] \<Rightarrow> [[c]] | x # xs \<Rightarrow> (c # x) # xs))"

lemma js_trim_Nil [simp]: "js_trim '''' = ''''"
  by (simp add: js_trim_def)

lemma dropWhile_idem: "dropWhile P (dropWhile P xs) = dropWhile P xs"
  by (induction xs) auto

lemma dropWhile_hd: "dropWhile P xs = y # ys \<Longrightarrow> \<not> P y"
  by (induction xs) (auto split: if_splits)

text \<open>Stripping the end of a string whose first character is no space leaves that character.\<close>

lemma dropWhile_rev_strip:
  assumes "\<not> P x"
  shows "\<exists>ys. rev (dropWhile P (rev (x # xs))) = x # ys"
proof (cases "\<forall>y \<in> set xs. P y")
  case True
  then show ?thesis using assms by (simp add: dropWhile_append)
next
  case False
  then have "rev (dropWhile P (rev (x # xs))) = x # rev (dropWhile P (rev xs))"
    by (simp add: dropWhile_append)
  then show ?thesis by blast
qed

lemma js_trim_idem [simp]: "js_trim (js_trim s) = js_trim s"
proof (cases "dropWhile js_space s")
  case Nil
  then have "js_trim s = ''''" by (simp only: js_trim_def rev.simps dropWhile.simps)
  then show ?thesis by simp
next
  case (Cons c cs)
  then have c: "\<not> js_space c" by (rule dropWhile_hd)
  obtain ys where ys: "rev (dropWhile js_space (rev (c # cs))) = c # ys"
    using dropWhile_rev_strip [of js_space c cs] c by blast
  have "js_trim s = c # ys" by (simp only: js_trim_def Cons ys)
  moreover have "rev (c # ys) = dropWhile js_space (rev (c # cs))"
    by (metis ys rev_rev_ident)
  moreover have "dropWhile js_space (c # ys) = c # ys" using c by simp
  ultimately show ?thesis by (metis js_trim_def dropWhile_idem rev_rev_ident)
qed

lemma trimmed_trim [simp]: "trimmed (js_trim s)"
  by (simp add: trimmed_def)

lemma trimmed_Nil [simp]: "trimmed ''''"
  by (simp add: trimmed_def)

lemma trimmedD: "trimmed s \<Longrightarrow> js_trim s = s"
  by (simp add: trimmed_def)

lemma trim_empty_iff: "js_trim s = '''' \<longleftrightarrow> (\<forall>c \<in> set s. js_space c)"
proof
  assume "js_trim s = ''''"
  then have "dropWhile js_space (rev (dropWhile js_space s)) = []"
    by (simp only: js_trim_def rev_is_Nil_conv)
  then have all: "\<forall>c \<in> set (dropWhile js_space s). js_space c"
    by (simp only: dropWhile_eq_Nil_conv set_rev)
  have "dropWhile js_space s = []"
  proof (cases "dropWhile js_space s")
    case (Cons c cs)
    then show ?thesis using all dropWhile_hd [OF Cons] by simp
  qed
  then show "\<forall>c \<in> set s. js_space c" by (simp only: dropWhile_eq_Nil_conv)
next
  assume "\<forall>c \<in> set s. js_space c"
  then have "dropWhile js_space s = []" by simp
  then show "js_trim s = ''''" by (simp only: js_trim_def rev.simps dropWhile.simps)
qed

lemma js_split_not_Nil [simp]: "js_split sep s \<noteq> []"
  by (cases s) (auto split: list.splits)

text \<open>Splitting undoes joining when no part holds the separator.\<close>

lemma js_split_append:
  "sep \<notin> set x \<Longrightarrow> js_split sep (x @ sep # rest) = x # js_split sep rest"
  by (induction x) auto

lemma js_split_single: "sep \<notin> set x \<Longrightarrow> js_split sep x = [x]"
  by (induction x) auto

lemma js_split_join:
  "xs \<noteq> [] \<Longrightarrow> \<forall>x \<in> set xs. sep \<notin> set x \<Longrightarrow> js_split sep (js_join [sep] xs) = xs"
  by (induction "[sep]" xs rule: js_join.induct) (auto simp: js_split_append js_split_single)

lemma js_join_inj:
  assumes "js_join [sep] xs = js_join [sep] ys" "xs \<noteq> []" "ys \<noteq> []"
    and "\<forall>x \<in> set xs. sep \<notin> set x" "\<forall>y \<in> set ys. sep \<notin> set y"
  shows "xs = ys"
  using assms js_split_join by metis

subsection \<open>Sorting with a comparator\<close>

fun js_insert :: "('a \<Rightarrow> 'a \<Rightarrow> int) \<Rightarrow> 'a \<Rightarrow> 'a list \<Rightarrow> 'a list" where
  "js_insert c x [] = [x]"
| "js_insert c x (y # ys) = (if c x y \<le> 0 then x # y # ys else y # js_insert c x ys)"

fun js_sort :: "('a \<Rightarrow> 'a \<Rightarrow> int) \<Rightarrow> 'a list \<Rightarrow> 'a list" where
  "js_sort c [] = []"
| "js_sort c (x # xs) = js_insert c x (js_sort c xs)"

text \<open>What ECMA-262 asks of a comparator for the order of the result to be fixed.\<close>

definition consistent :: "('a \<Rightarrow> 'a \<Rightarrow> int) \<Rightarrow> bool" where
  "consistent c \<longleftrightarrow>
     (\<forall>a b. (c a b \<le> 0 \<or> c b a \<le> 0)) \<and> (\<forall>a b. (0 < c a b) = (c b a < 0)) \<and>
     (\<forall>a b d. c a b \<le> 0 \<longrightarrow> c b d \<le> 0 \<longrightarrow> c a d \<le> 0)"

definition sorted_by :: "('a \<Rightarrow> 'a \<Rightarrow> int) \<Rightarrow> 'a list \<Rightarrow> bool" where
  "sorted_by c xs \<longleftrightarrow> sorted_wrt (\<lambda>a b. c a b \<le> 0) xs"

lemma mset_js_insert [simp]: "mset (js_insert c x xs) = add_mset x (mset xs)"
  by (induction xs) auto

lemma mset_js_sort [simp]: "mset (js_sort c xs) = mset xs"
  by (induction xs) auto

lemma set_js_insert [simp]: "set (js_insert c x xs) = insert x (set xs)"
  by (induction xs) auto

lemma set_js_sort [simp]: "set (js_sort c xs) = set xs"
  by (induction xs) auto

lemma length_js_sort [simp]: "length (js_sort c xs) = length xs"
  by (metis mset_js_sort size_mset)

lemma sorted_js_insert:
  assumes "consistent c" and "sorted_by c xs"
  shows "sorted_by c (js_insert c x xs)"
  using assms
proof (induction xs)
  case Nil
  then show ?case by (simp add: sorted_by_def)
next
  case (Cons y ys)
  show ?case
  proof (cases "c x y \<le> 0")
    case True
    then show ?thesis using Cons.prems by (force simp: sorted_by_def consistent_def)
  next
    case False
    then have "c y x \<le> 0" using Cons.prems(1) by (auto simp: consistent_def)
    then show ?thesis using False Cons by (auto simp: sorted_by_def)
  qed
qed

lemma sorted_js_sort: "consistent c \<Longrightarrow> sorted_by c (js_sort c xs)"
proof (induction xs)
  case Nil
  show ?case by (simp add: sorted_by_def)
next
  case (Cons x xs)
  then show ?case by (simp add: sorted_js_insert)
qed

text \<open>Stability: the elements that compare equal to \<open>a\<close> keep their order.\<close>

lemma js_insert_stable:
  assumes "consistent c"
  shows "filter (\<lambda>y. c a y = 0) (js_insert c x xs) = filter (\<lambda>y. c a y = 0) (x # xs)"
proof (induction xs)
  case Nil
  show ?case by simp
next
  case (Cons y ys)
  have *: "\<not> (c a x = 0 \<and> c a y = 0)" if "\<not> c x y \<le> 0"
  proof
    assume "c a x = 0 \<and> c a y = 0"
    then have "c x a \<le> 0" "c a y \<le> 0" using assms unfolding consistent_def by (metis linorder_not_less order_refl)+
    then have "c x y \<le> 0" using assms unfolding consistent_def by blast
    with that show False ..
  qed
  show ?case using Cons * by auto
qed

lemma js_sort_stable:
  "consistent c \<Longrightarrow> filter (\<lambda>y. c a y = 0) (js_sort c xs) = filter (\<lambda>y. c a y = 0) xs"
  by (induction xs) (auto simp: js_insert_stable)

text \<open>A list that is already sorted is left alone, whatever the comparator.\<close>

lemma js_insert_sorted: "sorted_by c (x # xs) \<Longrightarrow> js_insert c x xs = x # xs"
  by (cases xs) (auto simp: sorted_by_def)

lemma js_sort_sorted: "sorted_by c xs \<Longrightarrow> js_sort c xs = xs"
proof (induction xs)
  case (Cons x xs)
  then have "js_sort c xs = xs" by (simp add: sorted_by_def)
  then show ?case using Cons.prems by (simp add: js_insert_sorted)
qed simp

lemma js_sort_cong:
  "(\<And>a b. a \<in> set xs \<Longrightarrow> b \<in> set xs \<Longrightarrow> c a b = d a b) \<Longrightarrow> js_sort c xs = js_sort d xs"
proof (induction xs)
  case (Cons x xs)
  have "js_insert c x ys = js_insert d x ys" if "set ys \<subseteq> set xs" for ys
    using that by (induction ys) (use Cons.prems in auto)
  then show ?case using Cons by simp
qed simp

lemma consistent_cmp: "consistent (\<lambda>x y. cmp (f x) (f y))" if "consistent cmp"
  using that by (auto simp: consistent_def)

text \<open>A comparator that orders by \<open>c1\<close> and breaks ties by \<open>c2\<close>: the code's \<open>c1 || c2\<close>.\<close>

definition js_or :: "int \<Rightarrow> int \<Rightarrow> int" where
  "js_or a b = (if a \<noteq> 0 then a else b)"

subsection \<open>Association lists as insertion-ordered maps\<close>

lemma map_of_AList_update: "map_of (AList.update k v al) = (map_of al)(k \<mapsto> v)"
  by (rule update_conv')

lemma map_of_AList_delete: "map_of (AList.delete k al) = (map_of al)(k := None)"
  by (rule delete_conv')

end
