(* ===== verification/JsNumber.thy ===== *)
theory JsNumber
  imports Prelude
begin

text \<open>
  JavaScript numbers as the modelled code uses them: \<open>Number(s)\<close> (ECMA-262 StringToNumber),
  \<open>String(n)\<close> (Number::toString), subtraction in comparators, \<open>Math.floor\<close> and \<open>Math.round\<close>.

  A number is \<open>NaN\<close>, an infinity or an exact rational: rounding to binary64 is not modelled, so
  the model is exact for the integers up to \<open>2^53\<close> (rule numbers, ports, sizes, counters) and for
  the short decimals this code reads. Negative zero is identified with zero.
\<close>

datatype jsnum = NaN | PInf | NInf | Num rat

subsection \<open>Number to string\<close>

definition digit_char :: "nat \<Rightarrow> char" where
  "digit_char d = char_of (48 + d)"

fun nat_str :: "nat \<Rightarrow> string" where
  "nat_str n = (if n < 10 then [digit_char n] else nat_str (n div 10) @ [digit_char (n mod 10)])"

declare nat_str.simps [simp del]

text \<open>Drops trailing zeros of a significand, counting them into the exponent.\<close>

function strip_zeros :: "nat \<Rightarrow> int \<Rightarrow> nat \<times> int" where
  "strip_zeros m e = (if m \<noteq> 0 \<and> m mod 10 = 0 then strip_zeros (m div 10) (e + 1) else (m, e))"
  by pat_completeness auto
termination
  by (relation "measure (\<lambda>(m, e). m)") auto

declare strip_zeros.simps [simp del]

text \<open>
  The decimal significand and exponent of a non-negative rational. A denominator \<open>b\<close> of a
  terminating decimal divides \<open>10^b\<close>, so \<open>b\<close> steps of multiplying by ten are enough.
\<close>

fun dec_digits :: "nat \<Rightarrow> rat \<Rightarrow> int \<Rightarrow> nat \<times> int" where
  "dec_digits 0 q e = (nat \<lfloor>q\<rfloor>, e)"
| "dec_digits (Suc k) q e =
     (if of_int \<lfloor>q\<rfloor> = q then (nat \<lfloor>q\<rfloor>, e) else dec_digits k (q * 10) (e - 1))"

text \<open>Number::toString on a positive value \<open>m * 10^e\<close> with \<open>m\<close> not divisible by ten.\<close>

definition dec_str :: "nat \<Rightarrow> int \<Rightarrow> string" where
  "dec_str m e =
     (let ds = nat_str m; k = int (length ds); n = e + k
      in if k \<le> n \<and> n \<le> 21 then ds @ replicate (nat (n - k)) (CHR ''0'')
         else if 0 < n \<and> n \<le> 21 then take (nat n) ds @ ''.'' @ drop (nat n) ds
         else if -6 < n \<and> n \<le> 0 then ''0.'' @ replicate (nat (- n)) (CHR ''0'') @ ds
         else (let x = n - 1; sg = (if x < 0 then ''-'' else ''+'') @ nat_str (nat \<bar>x\<bar>)
               in if k = 1 then ds @ ''e'' @ sg
                  else take 1 ds @ ''.'' @ drop 1 ds @ ''e'' @ sg))"

definition pos_str :: "rat \<Rightarrow> string" where
  "pos_str q =
     (case dec_digits (nat (snd (quotient_of q))) q 0 of
        (m, e) \<Rightarrow> (case strip_zeros m e of (m', e') \<Rightarrow> dec_str m' e'))"

definition js_num_str :: "jsnum \<Rightarrow> string" where
  "js_num_str x =
     (case x of NaN \<Rightarrow> ''NaN'' | PInf \<Rightarrow> ''Infinity'' | NInf \<Rightarrow> ''-Infinity''
      | Num q \<Rightarrow> if q = 0 then ''0'' else if q < 0 then ''-'' @ pos_str (- q) else pos_str q)"

subsection \<open>String to number\<close>

definition digit_of :: "char \<Rightarrow> nat option" where
  "digit_of c = (let n = (of_char c :: nat) in if 48 \<le> n \<and> n \<le> 57 then Some (n - 48) else None)"

definition hex_of :: "char \<Rightarrow> nat option" where
  "hex_of c =
     (let n = (of_char c :: nat)
      in if 48 \<le> n \<and> n \<le> 57 then Some (n - 48)
         else if 65 \<le> n \<and> n \<le> 70 then Some (n - 55)
         else if 97 \<le> n \<and> n \<le> 102 then Some (n - 87) else None)"

text \<open>All characters of \<open>s\<close> as digits of base \<open>b\<close>, on top of an accumulator.\<close>

fun digits_acc :: "(char \<Rightarrow> nat option) \<Rightarrow> nat \<Rightarrow> nat \<Rightarrow> string \<Rightarrow> nat option" where
  "digits_acc f b acc [] = Some acc"
| "digits_acc f b acc (c # cs) =
     (case f c of None \<Rightarrow> None
      | Some d \<Rightarrow> if d < b then digits_acc f b (acc * b + d) cs else None)"

definition digits_val :: "(char \<Rightarrow> nat option) \<Rightarrow> nat \<Rightarrow> string \<Rightarrow> nat option" where
  "digits_val f b s = (if s = [] then None else digits_acc f b 0 s)"

definition dec_nat :: "string \<Rightarrow> nat option" where
  "dec_nat s = digits_val digit_of 10 s"

definition opt_num :: "nat option \<Rightarrow> jsnum" where
  "opt_num x = (case x of None \<Rightarrow> NaN | Some n \<Rightarrow> Num (of_nat n))"

definition pow10 :: "int \<Rightarrow> rat" where
  "pow10 e = (if 0 \<le> e then 10 ^ nat e else 1 / 10 ^ nat (- e))"

text \<open>The character class \<open>[A-Za-z0-9]\<close>.\<close>

definition is_alnum :: "char \<Rightarrow> bool" where
  "is_alnum c =
     (let n = (of_char c :: nat)
      in (65 \<le> n \<and> n \<le> 90) \<or> (97 \<le> n \<and> n \<le> 122) \<or> (48 \<le> n \<and> n \<le> 57))"

definition is_digit :: "char \<Rightarrow> bool" where
  "is_digit c \<longleftrightarrow> digit_of c \<noteq> None"

text \<open>The exponent part of a decimal literal: nothing, or \<open>e\<close> and a signed integer.\<close>

definition exp_part :: "string \<Rightarrow> int option" where
  "exp_part s =
     (case s of [] \<Rightarrow> Some 0
      | c # cs \<Rightarrow>
          if c = CHR ''e'' \<or> c = CHR ''E'' then
            (case cs of [] \<Rightarrow> None
             | d # ds \<Rightarrow>
                 if d = CHR ''-'' then map_option (\<lambda>n. - int n) (dec_nat ds)
                 else if d = CHR ''+'' then map_option int (dec_nat ds)
                 else map_option int (dec_nat cs))
          else None)"

text \<open>An unsigned decimal literal: digits, an optional fraction, an optional exponent.\<close>

definition unsigned_num :: "string \<Rightarrow> jsnum" where
  "unsigned_num s =
     (let ip = takeWhile is_digit s; r = dropWhile is_digit s;
          fp = (case r of c # cs \<Rightarrow> if c = CHR ''.'' then takeWhile is_digit cs else [] | [] \<Rightarrow> []);
          r' = (case r of c # cs \<Rightarrow> if c = CHR ''.'' then dropWhile is_digit cs else r | [] \<Rightarrow> [])
      in case dec_nat (ip @ fp) of None \<Rightarrow> NaN
         | Some m \<Rightarrow>
             (case exp_part r' of None \<Rightarrow> NaN
              | Some e \<Rightarrow> Num (of_nat m * pow10 (e - int (length fp)))))"

definition js_neg :: "jsnum \<Rightarrow> jsnum" where
  "js_neg x = (case x of NaN \<Rightarrow> NaN | PInf \<Rightarrow> NInf | NInf \<Rightarrow> PInf | Num q \<Rightarrow> Num (- q))"

definition decimal_num :: "string \<Rightarrow> jsnum" where
  "decimal_num s = (if s = ''Infinity'' then PInf else unsigned_num s)"

text \<open>\<open>Number(s)\<close>.\<close>

definition js_number :: "string \<Rightarrow> jsnum" where
  "js_number s =
     (let t = js_trim s; p = take 2 t
      in if t = [] then Num 0
         else if p = ''0x'' \<or> p = ''0X'' then opt_num (digits_val hex_of 16 (drop 2 t))
         else if p = ''0o'' \<or> p = ''0O'' then opt_num (digits_val hex_of 8 (drop 2 t))
         else if p = ''0b'' \<or> p = ''0B'' then opt_num (digits_val hex_of 2 (drop 2 t))
         else if take 1 t = ''-'' then js_neg (decimal_num (drop 1 t))
         else if take 1 t = ''+'' then decimal_num (drop 1 t)
         else decimal_num t)"

definition js_finite :: "jsnum \<Rightarrow> bool" where
  "js_finite x = (case x of Num _ \<Rightarrow> True | _ \<Rightarrow> False)"

subsection \<open>Arithmetic\<close>

definition js_add :: "jsnum \<Rightarrow> jsnum \<Rightarrow> jsnum" where
  "js_add x y =
     (case (x, y) of (NaN, _) \<Rightarrow> NaN | (_, NaN) \<Rightarrow> NaN
      | (PInf, NInf) \<Rightarrow> NaN | (NInf, PInf) \<Rightarrow> NaN
      | (PInf, _) \<Rightarrow> PInf | (_, PInf) \<Rightarrow> PInf | (NInf, _) \<Rightarrow> NInf | (_, NInf) \<Rightarrow> NInf
      | (Num p, Num q) \<Rightarrow> Num (p + q))"

definition js_sub :: "jsnum \<Rightarrow> jsnum \<Rightarrow> jsnum" where
  "js_sub x y = js_add x (js_neg y)"

definition js_half :: "jsnum \<Rightarrow> jsnum" where
  "js_half x = (case x of Num q \<Rightarrow> Num (q / 2) | _ \<Rightarrow> x)"

definition js_floor :: "jsnum \<Rightarrow> jsnum" where
  "js_floor x = (case x of Num q \<Rightarrow> Num (of_int \<lfloor>q\<rfloor>) | _ \<Rightarrow> x)"

text \<open>\<open>x <= y\<close>, which is false when either side is \<open>NaN\<close>.\<close>

definition js_le :: "jsnum \<Rightarrow> jsnum \<Rightarrow> bool" where
  "js_le x y =
     (case (x, y) of (NaN, _) \<Rightarrow> False | (_, NaN) \<Rightarrow> False | (NInf, _) \<Rightarrow> True | (_, PInf) \<Rightarrow> True
      | (Num p, Num q) \<Rightarrow> p \<le> q | _ \<Rightarrow> False)"

text \<open>\<open>Math.max\<close> and \<open>Math.min\<close> of two numbers.\<close>

definition js_max :: "jsnum \<Rightarrow> jsnum \<Rightarrow> jsnum" where
  "js_max x y = (if x = NaN \<or> y = NaN then NaN else if js_le x y then y else x)"

definition js_min :: "jsnum \<Rightarrow> jsnum \<Rightarrow> jsnum" where
  "js_min x y = (if x = NaN \<or> y = NaN then NaN else if js_le x y then x else y)"

lemma js_max_Num [simp]: "js_max (Num p) (Num q) = Num (max p q)"
  by (simp add: js_max_def js_le_def max_def)

lemma js_min_Num [simp]: "js_min (Num p) (Num q) = Num (min p q)"
  by (simp add: js_min_def js_le_def min_def)

text \<open>The comparator \<open>(a, b) => a - b\<close>: its sign, \<open>NaN\<close> counting as zero.\<close>

definition js_num_cmp :: "jsnum \<Rightarrow> jsnum \<Rightarrow> int" where
  "js_num_cmp x y =
     (case js_sub x y of NaN \<Rightarrow> 0 | PInf \<Rightarrow> 1 | NInf \<Rightarrow> -1
      | Num q \<Rightarrow> if q < 0 then -1 else if 0 < q then 1 else 0)"

text \<open>\<open>Math.round\<close>: the nearest integer, halves towards positive infinity.\<close>

definition js_round :: "rat \<Rightarrow> int" where
  "js_round q = \<lfloor>q + 1 / 2\<rfloor>"

subsection \<open>Natural numbers print and parse back\<close>

lemma of_char_digit: "d < 10 \<Longrightarrow> of_char (digit_char d) = (48 + d :: nat)"
  by (simp add: digit_char_def)

lemma digit_of_digit_char [simp]: "d < 10 \<Longrightarrow> digit_of (digit_char d) = Some d"
  by (simp add: digit_of_def of_char_digit Let_def)

lemma is_digit_digit_char [simp]: "d < 10 \<Longrightarrow> is_digit (digit_char d)"
  by (simp add: is_digit_def)

lemma digits_acc_append:
  "digits_acc f b acc (xs @ ys) =
     (case digits_acc f b acc xs of None \<Rightarrow> None | Some a \<Rightarrow> digits_acc f b a ys)"
  by (induction xs arbitrary: acc) (auto split: option.splits)

lemma nat_str_not_Nil [simp]: "nat_str n \<noteq> []"
  by (subst nat_str.simps) simp

lemma digits_acc_nat_str: "digits_acc digit_of 10 0 (nat_str n) = Some n"
proof (induction n rule: nat_str.induct)
  case (1 n)
  show ?case
  proof (cases "n < 10")
    case True
    then show ?thesis by (subst nat_str.simps) simp
  next
    case False
    then show ?thesis
      by (subst nat_str.simps) (simp add: digits_acc_append "1.IH")
  qed
qed

lemma dec_nat_nat_str [simp]: "dec_nat (nat_str n) = Some n"
  by (simp add: dec_nat_def digits_val_def digits_acc_nat_str)

lemma nat_str_inj [simp]: "nat_str m = nat_str n \<longleftrightarrow> m = n"
  using dec_nat_nat_str by (metis option.inject)

lemma nat_str_digits: "c \<in> set (nat_str n) \<Longrightarrow> \<exists>d < 10. c = digit_char d"
proof (induction n rule: nat_str.induct)
  case (1 n)
  show ?case
  proof (cases "n < 10")
    case True
    then show ?thesis using "1.prems" by (subst (asm) nat_str.simps) auto
  next
    case False
    then have "c \<in> set (nat_str (n div 10)) \<or> c = digit_char (n mod 10)"
      using "1.prems" by (subst (asm) nat_str.simps) auto
    moreover have "n mod 10 < 10" by simp
    ultimately show ?thesis using "1.IH" [OF False] by blast
  qed
qed

lemma nat_str_is_digit: "c \<in> set (nat_str n) \<Longrightarrow> is_digit c"
  using nat_str_digits by fastforce

lemma is_digit_code: "is_digit c \<longleftrightarrow> 48 \<le> (of_char c :: nat) \<and> (of_char c :: nat) \<le> 57"
  by (auto simp: is_digit_def digit_of_def Let_def)

lemma is_digit_not_space: "is_digit c \<Longrightarrow> \<not> js_space c"
  by (auto simp: is_digit_code js_space_def)

lemma js_trim_digits: "\<forall>c \<in> set s. is_digit c \<Longrightarrow> js_trim s = s"
proof (cases s)
  case (Cons c cs)
  assume d: "\<forall>c \<in> set s. is_digit c"
  then have "dropWhile js_space s = s" using Cons by (simp add: is_digit_not_space)
  moreover have "dropWhile js_space (rev s) = rev s"
    using d by (metis dropWhile_eq_self_iff is_digit_not_space list.set_sel(1) set_rev)
  ultimately show ?thesis by (simp add: js_trim_def)
qed simp

lemma unsigned_num_digits:
  "\<forall>c \<in> set s. is_digit c \<Longrightarrow> dec_nat s = Some n \<Longrightarrow> unsigned_num s = Num (of_nat n)"
proof -
  assume d: "\<forall>c \<in> set s. is_digit c" and n: "dec_nat s = Some n"
  have tw: "takeWhile is_digit s = s" and dw: "dropWhile is_digit s = []" using d by auto
  show ?thesis using n by (simp add: unsigned_num_def exp_part_def pow10_def tw dw)
qed

lemma js_number_digits:
  assumes d: "\<forall>c \<in> set s. is_digit c" and n: "dec_nat s = Some n"
  shows "js_number s = Num (of_nat n)"
proof -
  have ne: "s \<noteq> []" using n by (auto simp: dec_nat_def digits_val_def)
  have nd: "\<not> is_digit (CHR ''x'')" "\<not> is_digit (CHR ''X'')" "\<not> is_digit (CHR ''o'')"
    "\<not> is_digit (CHR ''O'')" "\<not> is_digit (CHR ''b'')" "\<not> is_digit (CHR ''B'')"
    "\<not> is_digit (CHR ''-'')" "\<not> is_digit (CHR ''+'')" "\<not> is_digit (CHR ''I'')"
    by (simp_all add: is_digit_code)
  have all2: "\<forall>c \<in> set (take 2 s). is_digit c" "\<forall>c \<in> set (take 1 s). is_digit c"
    using d by (meson in_set_takeD)+
  have "take 2 s \<noteq> ''0x''" "take 2 s \<noteq> ''0X''" "take 2 s \<noteq> ''0o''" "take 2 s \<noteq> ''0O''"
    "take 2 s \<noteq> ''0b''" "take 2 s \<noteq> ''0B''" "take 1 s \<noteq> ''-''" "take 1 s \<noteq> ''+''"
    "s \<noteq> ''Infinity''"
    using all2 nd d by auto
  then show ?thesis
    using ne d n by (simp add: js_number_def js_trim_digits decimal_num_def unsigned_num_digits)
qed

lemma js_number_nat_str [simp]: "js_number (nat_str n) = Num (of_nat n)"
  by (rule js_number_digits) (auto intro: nat_str_is_digit)

lemma trimmed_nat_str [simp]: "trimmed (nat_str n)"
  unfolding trimmed_def by (rule js_trim_digits) (auto intro: nat_str_is_digit)

text \<open>The printer agrees with \<open>nat_str\<close> on the natural numbers below \<open>10^21\<close>.\<close>

lemma length_nat_str_le: "n < 10 ^ k \<Longrightarrow> 0 < k \<Longrightarrow> length (nat_str n) \<le> k"
proof (induction k arbitrary: n)
  case (Suc k)
  show ?case
  proof (cases "n < 10")
    case True
    then show ?thesis by (subst nat_str.simps) simp
  next
    case False
    then have "0 < k" using Suc.prems by (cases k) auto
    moreover have "n div 10 < 10 ^ k" using Suc.prems by (simp add: less_mult_imp_div_less)
    ultimately have "length (nat_str (n div 10)) \<le> k" by (rule Suc.IH [rotated])
    then show ?thesis using False by (subst nat_str.simps) simp
  qed
qed simp

lemma digit_char_0 [simp]: "digit_char 0 = CHR ''0''"
  by code_simp

lemma nat_str_mult10:
  assumes "m \<noteq> 0"
  shows "nat_str (m * 10) = nat_str m @ ''0''"
  using assms by (subst nat_str.simps) simp

lemma strip_zeros_str:
  "strip_zeros m e = (m', e') \<Longrightarrow> 0 < m \<Longrightarrow>
     e \<le> e' \<and> nat_str m = nat_str m' @ replicate (nat (e' - e)) (CHR ''0'')"
proof (induction m e arbitrary: m' e' rule: strip_zeros.induct)
  case (1 m e)
  show ?case
  proof (cases "m mod 10 = 0")
    case True
    then have r: "strip_zeros (m div 10) (e + 1) = (m', e')"
      using "1.prems" by (subst (asm) strip_zeros.simps) simp
    have pos: "0 < m div 10" using True "1.prems"(2) by auto
    from "1.IH" r True pos "1.prems"(2) have ih: "e + 1 \<le> e'"
      "nat_str (m div 10) = nat_str m' @ replicate (nat (e' - (e + 1))) (CHR ''0'')" by auto
    have "m = m div 10 * 10" using True by auto
    then have "nat_str m = nat_str (m div 10) @ ''0''" using nat_str_mult10 pos by (metis less_irrefl)
    also have "\<dots> = nat_str m' @ replicate (Suc (nat (e' - (e + 1)))) (CHR ''0'')"
      by (simp add: ih(2) replicate_append_same)
    also have "Suc (nat (e' - (e + 1))) = nat (e' - e)" using ih(1) by simp
    finally show ?thesis using ih(1) by simp
  next
    case False
    then show ?thesis using "1.prems" by (subst (asm) strip_zeros.simps) simp
  qed
qed

lemma js_num_str_nat:
  assumes "n < 10 ^ 21"
  shows "js_num_str (Num (of_nat n)) = nat_str n"
proof (cases "n = 0")
  case True
  then show ?thesis by (simp add: js_num_str_def nat_str.simps [of 0])
next
  case False
  obtain m e where s: "strip_zeros n 0 = (m, e)" by fastforce
  from strip_zeros_str [OF s] False
  have *: "0 \<le> e" "nat_str n = nat_str m @ replicate (nat e) (CHR ''0'')" by auto
  have len: "length (nat_str n) \<le> 21" using length_nat_str_le [OF assms] by simp
  have "length (nat_str m) + nat e \<le> 21" using *(2) len by simp
  then have le: "int (length (nat_str m)) + e \<le> 21" using *(1) by linarith
  have "quotient_of (of_nat n) = (int n, 1)" by (simp add: of_nat_rat quotient_of_Fract normalize_def)
  then have "pos_str (of_nat n) = dec_str m e"
    by (simp add: pos_str_def s)
  also have "\<dots> = nat_str n"
    using * le by (simp add: dec_str_def Let_def add.commute)
  finally show ?thesis using False by (simp add: js_num_str_def)
qed

subsection \<open>The numeric comparator is consistent on numbers\<close>

lemma js_num_cmp_Num [simp]:
  "js_num_cmp (Num p) (Num q) = (if p < q then -1 else if q < p then 1 else 0)"
  by (simp add: js_num_cmp_def js_sub_def js_add_def js_neg_def)

end
