(* ===== verification/ConfigTree.thy ===== *)
theory ConfigTree
  imports JsNumber
begin

text \<open>
  The untyped JSON tree VyOS returns for a configuration section and the helpers that walk it
  (\<open>lib/configTree.ts\<close>), the op type of the pending-changes cart (\<open>ConfigOp\<close> of
  \<open>lib/vyosApi.ts\<close>) and the diff of a multi-value leaf (\<open>lib/configOps.ts\<close>).

  A JSON object is the list of its entries in the order \<open>Object.entries\<close> enumerates them; a
  value of type \<open>unknown\<close> is a \<open>json option\<close>, \<open>None\<close> being \<open>undefined\<close>. Only own properties are
  modelled: no key the code looks up is a property of \<open>Object.prototype\<close>.
\<close>

datatype json =
    JNull
  | JBool bool
  | JNum jsnum
  | JStr string
  | JArr "json list"
  | JObj "(string \<times> json) list"

type_synonym unknown = "json option"

text \<open>\<open>String(v)\<close>; an array joins its elements with commas, \<open>null\<close> elements being empty.\<close>

fun js_String :: "json \<Rightarrow> string" where
  "js_String JNull = ''null''"
| "js_String (JBool b) = (if b then ''true'' else ''false'')"
| "js_String (JNum n) = js_num_str n"
| "js_String (JStr s) = s"
| "js_String (JArr xs) = js_join '','' (map (\<lambda>x. if x = JNull then '''' else js_String x) xs)"
| "js_String (JObj es) = ''[object Object]''"

definition isRecord :: "unknown \<Rightarrow> bool" where
  "isRecord v = (case v of Some (JObj es) \<Rightarrow> True | _ \<Rightarrow> False)"

definition asString :: "unknown \<Rightarrow> string option" where
  "asString v = (case v of None \<Rightarrow> None | Some JNull \<Rightarrow> None | Some j \<Rightarrow> Some (js_String j))"

definition asArray :: "unknown \<Rightarrow> string list" where
  "asArray v =
     (case v of None \<Rightarrow> [] | Some JNull \<Rightarrow> [] | Some (JArr xs) \<Rightarrow> map js_String xs
      | Some j \<Rightarrow> [js_String j])"

definition asStringArray :: "unknown \<Rightarrow> string list" where
  "asStringArray v =
     (case v of Some (JArr xs) \<Rightarrow> map js_String xs | Some (JStr s) \<Rightarrow> [s] | _ \<Rightarrow> [])"

definition child :: "unknown \<Rightarrow> string \<Rightarrow> unknown" where
  "child node key = (case node of Some (JObj es) \<Rightarrow> map_of es key | _ \<Rightarrow> None)"

definition isFlagPresent :: "unknown \<Rightarrow> string \<Rightarrow> bool" where
  "isFlagPresent node key =
     (case node of Some (JObj es) \<Rightarrow> map_of es key \<noteq> None | _ \<Rightarrow> False)"

text \<open>\<open>Object.entries(node)\<close> of a node that passed \<open>isRecord\<close>.\<close>

definition entries :: "unknown \<Rightarrow> (string \<times> json) list" where
  "entries node = (case node of Some (JObj es) \<Rightarrow> es | _ \<Rightarrow> [])"

text \<open>
  The parsers' idiom \<open>if (!isRecord(root)) return []; Object.entries(root).map(f).sort(cmp)\<close>.
\<close>

definition parse_entries ::
    "(string \<Rightarrow> unknown \<Rightarrow> 'a) \<Rightarrow> ('a \<Rightarrow> 'a \<Rightarrow> int) \<Rightarrow> unknown \<Rightarrow> 'a list" where
  "parse_entries f cmp node =
     (if isRecord node then js_sort cmp (map (\<lambda>(k, r). f k (Some r)) (entries node)) else [])"

text \<open>\<open>.sort((a, b) => Number(a.f) - Number(b.f))\<close>.\<close>

definition by_number :: "('a \<Rightarrow> string) \<Rightarrow> 'a \<Rightarrow> 'a \<Rightarrow> int" where
  "by_number num a b = js_num_cmp (js_number (num a)) (js_number (num b))"

text \<open>\<open>xs[0]\<close>.\<close>

definition js_first :: "'a list \<Rightarrow> 'a option" where
  "js_first xs = (case xs of [] \<Rightarrow> None | x # _ \<Rightarrow> Some x)"

text \<open>The subtree at a path: \<open>child\<close> along its segments.\<close>

definition tree_get :: "unknown \<Rightarrow> path \<Rightarrow> unknown" where
  "tree_get v p = foldl child v p"

text \<open>What a form reads from a leaf: \<open>asString(v) ?? ''\<close>.\<close>

definition read_str :: "unknown \<Rightarrow> string" where
  "read_str v = or_else (asString v) ''''"

text \<open>\<open>LITERALS.find((a) => a === raw)\<close>: a string read as one of a union of literals.\<close>

definition find_literal :: "string list \<Rightarrow> string option \<Rightarrow> string option" where
  "find_literal xs x = (case x of None \<Rightarrow> None | Some s \<Rightarrow> List.find (\<lambda>a. a = s) xs)"

lemma isFlagPresent_child [simp]: "isFlagPresent v k \<longleftrightarrow> child v k \<noteq> None"
  by (auto simp: isFlagPresent_def child_def split: option.splits json.splits)

lemma child_None [simp]: "child None k = None"
  by (simp add: child_def)

lemma tree_get_Nil [simp]: "tree_get v [] = v"
  by (simp add: tree_get_def)

lemma tree_get_Cons [simp]: "tree_get v (k # p) = tree_get (child v k) p"
  by (simp add: tree_get_def)

lemma tree_get_append: "tree_get v (p @ q) = tree_get (tree_get v p) q"
  by (simp add: tree_get_def)

lemma tree_get_None [simp]: "tree_get None p = None"
  by (induction p) auto

lemma read_str_simps [simp]:
  "read_str None = ''''" "read_str (Some (JStr s)) = s" "read_str (Some JNull) = ''''"
  by (simp_all add: read_str_def asString_def)

lemma or_else_asString [simp]: "or_else (asString v) '''' = read_str v"
  by (simp add: read_str_def)

lemma find_eq: "List.find (\<lambda>a. a = s) xs = (if s \<in> set xs then Some s else None)"
  by (induction xs) auto

lemma read_find_literal [simp]:
  "or_else (find_literal xs (asString v)) '''' = (if read_str v \<in> set xs then read_str v else '''')"
  by (cases "asString v") (auto simp: find_literal_def read_str_def find_eq)

lemma asString_None [simp]: "asString None = None"
  by (simp add: asString_def)

lemma asArray_None [simp]: "asArray None = []" "asStringArray None = []"
  by (simp_all add: asArray_def asStringArray_def)

lemma isRecord_None [simp]: "\<not> isRecord None"
  by (simp add: isRecord_def)

lemma parse_entries_None [simp]: "parse_entries f cmp None = []"
  by (simp add: parse_entries_def)

lemma set_parse_entries:
  "set (parse_entries f cmp v) = (\<lambda>(k, r). f k (Some r)) ` set (entries v)"
  by (auto simp: parse_entries_def entries_def isRecord_def split: option.splits json.splits)

lemma mset_parse_entries:
  "mset (parse_entries f cmp v) = mset (map (\<lambda>(k, r). f k (Some r)) (entries v))"
  by (auto simp: parse_entries_def entries_def isRecord_def split: option.splits json.splits)

lemma sorted_parse_entries: "consistent cmp \<Longrightarrow> sorted_by cmp (parse_entries f cmp v)"
  by (simp add: parse_entries_def sorted_js_sort) (simp add: sorted_by_def)

subsection \<open>Config ops\<close>

datatype ConfigOpKind = Set_op | Delete_op | Comment_op

record ConfigOp =
  co_op :: ConfigOpKind
  co_path :: path
  co_value :: "string option"

definition set_op :: "path \<Rightarrow> string \<Rightarrow> ConfigOp" where
  "set_op p v = \<lparr>co_op = Set_op, co_path = p, co_value = Some v\<rparr>"

definition set_flag :: "path \<Rightarrow> ConfigOp" where
  "set_flag p = \<lparr>co_op = Set_op, co_path = p, co_value = None\<rparr>"

definition delete_op :: "path \<Rightarrow> ConfigOp" where
  "delete_op p = \<lparr>co_op = Delete_op, co_path = p, co_value = None\<rparr>"

definition delete_value_op :: "path \<Rightarrow> string \<Rightarrow> ConfigOp" where
  "delete_value_op p v = \<lparr>co_op = Delete_op, co_path = p, co_value = Some v\<rparr>"

lemmas op_defs = set_op_def set_flag_def delete_op_def delete_value_op_def

subsection \<open>Multi-value leaves\<close>

text \<open>
  A JavaScript \<open>Set\<close> built from an array iterates over the distinct values in the order of
  their first occurrence.
\<close>

fun set_order :: "'a list \<Rightarrow> 'a list" where
  "set_order [] = []"
| "set_order (x # xs) = x # filter (\<lambda>y. y \<noteq> x) (set_order xs)"

lemma set_set_order [simp]: "set (set_order xs) = set xs"
  by (induction xs) auto

lemma distinct_set_order [simp]: "distinct (set_order xs)"
  by (induction xs) auto

definition multiValueDiffOps :: "path \<Rightarrow> string list \<Rightarrow> string list \<Rightarrow> ConfigOp list" where
  "multiValueDiffOps p oldValues newValues =
     (let oldSet = set_order oldValues; newSet = set_order newValues
      in map (set_op p) (filter (\<lambda>v. v \<notin> set oldSet) newSet)
         @ map (delete_value_op p) (filter (\<lambda>v. v \<notin> set newSet) oldSet))"

text \<open>
  How VyOS applies ops to one multi-value leaf: \<open>set\<close> adds the value unless it is there,
  \<open>delete\<close> with a value removes that value, \<open>delete\<close> without a value removes the leaf.
\<close>

definition leaf_step :: "ConfigOp \<Rightarrow> string list \<Rightarrow> string list" where
  "leaf_step op vs =
     (case (co_op op, co_value op) of
        (Set_op, Some v) \<Rightarrow> if v \<in> set vs then vs else vs @ [v]
      | (Delete_op, Some v) \<Rightarrow> removeAll v vs
      | (Delete_op, None) \<Rightarrow> []
      | _ \<Rightarrow> vs)"

lemma set_fold_leaf_set:
  "set (fold leaf_step (map (set_op p) vs) ws) = set ws \<union> set vs"
  by (induction vs arbitrary: ws) (auto simp: leaf_step_def op_defs)

lemma set_fold_leaf_delete:
  "set (fold leaf_step (map (delete_value_op p) vs) ws) = set ws - set vs"
  by (induction vs arbitrary: ws) (auto simp: leaf_step_def op_defs)

lemma multiValueDiffOps_effect:
  assumes "set ws = set old"
  shows "set (fold leaf_step (multiValueDiffOps p old new) ws) = set new"
  using assms
  by (auto simp: multiValueDiffOps_def Let_def set_fold_leaf_set set_fold_leaf_delete)

lemma multiValueDiffOps_minimal:
  "length (multiValueDiffOps p old new) = card (set new - set old) + card (set old - set new)"
proof -
  have *: "length (filter (\<lambda>v. v \<notin> B) (set_order xs)) = card (set xs - B)" for xs :: "string list" and B
  proof -
    have "card (set xs - B) = card (set (filter (\<lambda>v. v \<notin> B) (set_order xs)))"
      by (rule arg_cong [where f = card]) auto
    also have "\<dots> = length (filter (\<lambda>v. v \<notin> B) (set_order xs))"
      by (rule distinct_card) simp
    finally show ?thesis by simp
  qed
  show ?thesis by (simp add: multiValueDiffOps_def Let_def *)
qed

text \<open>The diff never deletes the whole leaf, and never touches another path.\<close>

lemma multiValueDiffOps_shape:
  "op \<in> set (multiValueDiffOps p old new) \<Longrightarrow> co_path op = p \<and> co_value op \<noteq> None"
  by (auto simp: multiValueDiffOps_def Let_def op_defs)

end
