(* ===== verification/FormDiff.thy ===== *)
theory FormDiff
  imports ConfigTree
begin

text \<open>
  The set-or-delete diff every edit form of the application runs (written out in
  \<open>diffToOps\<close> of \<open>lib/dhcpConfigForm.ts\<close> and \<open>lib/interfaceConfigForm.ts\<close>, and as the two loops
  over \<open>SCALAR_FIELDS\<close> and \<open>FLAG_FIELDS\<close> of the other forms), and the contract of a
  configuration store. The locale \<open>config_store\<close> states what a form relies on when its ops are
  applied; its lemmas say that the store then holds the form's values and nothing else changed.
\<close>

type_synonym 'v scalar_field = "('v \<Rightarrow> string) \<times> path"
type_synonym 'v flag_field = "('v \<Rightarrow> bool) \<times> path"

definition scalar_diff :: "path \<Rightarrow> string \<Rightarrow> string \<Rightarrow> ConfigOp list" where
  "scalar_diff p old new =
     (if old = new then []
      else if js_trim new = '''' then [delete_op p]
      else [set_op p (js_trim new)])"

definition flag_diff :: "path \<Rightarrow> bool \<Rightarrow> bool \<Rightarrow> ConfigOp list" where
  "flag_diff p old new = (if old = new then [] else [if new then set_flag p else delete_op p])"

definition diffToOps ::
    "path \<Rightarrow> 'v scalar_field list \<Rightarrow> 'v flag_field list \<Rightarrow> 'v \<Rightarrow> 'v \<Rightarrow> ConfigOp list" where
  "diffToOps basePath scalarFields flagFields before values =
     concat (map (\<lambda>(get, segments). scalar_diff (basePath @ segments) (get before) (get values))
       scalarFields)
     @ concat (map (\<lambda>(get, segments). flag_diff (basePath @ segments) (get before) (get values))
       flagFields)"

text \<open>Every text input of the form is free of surrounding white space.\<close>

definition trimmed_form :: "'v scalar_field list \<Rightarrow> 'v \<Rightarrow> bool" where
  "trimmed_form sfs v \<longleftrightarrow> list_all (\<lambda>(get, seg). trimmed (get v)) sfs"

text \<open>The form reads its fields from the subtree at its base path.\<close>

definition reads :: "'v scalar_field list \<Rightarrow> 'v flag_field list \<Rightarrow> unknown \<Rightarrow> 'v \<Rightarrow> bool" where
  "reads sfs ffs t v \<longleftrightarrow>
     list_all (\<lambda>(get, seg). read_str (tree_get t seg) = get v) sfs
     \<and> list_all (\<lambda>(get, seg). (tree_get t seg \<noteq> None) = get v) ffs"

text \<open>What a scalar field holds once its edit is applied: untouched, or the trimmed input.\<close>

definition edited :: "string \<Rightarrow> string \<Rightarrow> string" where
  "edited old new = (if old = new then old else js_trim new)"

lemma edited_trimmed [simp]: "trimmed new \<Longrightarrow> edited old new = new"
  by (simp add: edited_def trimmedD)

lemma edited_same [simp]: "edited v v = v"
  by (simp add: edited_def)

subsection \<open>Edits at paths\<close>

datatype edit = Scalar_edit string string | Flag_edit bool bool

fun edit_ops :: "path \<times> edit \<Rightarrow> ConfigOp list" where
  "edit_ops (p, Scalar_edit old new) = scalar_diff p old new"
| "edit_ops (p, Flag_edit old new) = flag_diff p old new"

text \<open>The old side of an edit is what the tree holds; the new side is what it should hold.\<close>

fun edit_before :: "unknown \<Rightarrow> edit \<Rightarrow> bool" where
  "edit_before v (Scalar_edit old new) \<longleftrightarrow> read_str v = old"
| "edit_before v (Flag_edit old new) \<longleftrightarrow> (v \<noteq> None) = old"

fun edit_after :: "unknown \<Rightarrow> edit \<Rightarrow> bool" where
  "edit_after v (Scalar_edit old new) \<longleftrightarrow> read_str v = edited old new"
| "edit_after v (Flag_edit old new) \<longleftrightarrow> (v \<noteq> None) = new"

text \<open>What an edit makes of the subtree at its path, whatever was there.\<close>

fun edit_result :: "edit \<Rightarrow> unknown \<Rightarrow> unknown" where
  "edit_result (Scalar_edit old new) v =
     (if old = new then v else if js_trim new = '''' then None else Some (JStr (js_trim new)))"
| "edit_result (Flag_edit old new) v =
     (if old = new then v else if new then Some (or_else v (JObj [])) else None)"

text \<open>What a form's edit from \<open>b\<close> to \<open>v\<close> makes of the leaves of a subtree.\<close>

definition edited_tree ::
    "'v scalar_field list \<Rightarrow> 'v flag_field list \<Rightarrow> 'v \<Rightarrow> 'v \<Rightarrow> unknown \<Rightarrow> unknown \<Rightarrow> bool" where
  "edited_tree sfs ffs b v t t' \<longleftrightarrow>
     list_all (\<lambda>(get, seg).
       tree_get t' seg = edit_result (Scalar_edit (get b) (get v)) (tree_get t seg)) sfs
     \<and> list_all (\<lambda>(get, seg).
       tree_get t' seg = edit_result (Flag_edit (get b) (get v)) (tree_get t seg)) ffs"

lemma edit_result_read:
  "read_str v = old \<Longrightarrow> trimmed new \<Longrightarrow> read_str (edit_result (Scalar_edit old new) v) = new"
  by (auto simp: trimmedD)

lemma reads_edited:
  assumes "edited_tree sfs ffs b v t t'" and "reads sfs ffs t b" and "trimmed_form sfs v"
  shows "reads sfs ffs t' v"
proof -
  have "read_str (tree_get t' seg) = get v" if "(get, seg) \<in> set sfs" for get seg
  proof -
    have "tree_get t' seg = edit_result (Scalar_edit (get b) (get v)) (tree_get t seg)"
      and "read_str (tree_get t seg) = get b" and "trimmed (get v)"
      using assms that unfolding edited_tree_def reads_def trimmed_form_def list_all_iff by fast+
    then show ?thesis by (simp only: edit_result_read)
  qed
  moreover have "(tree_get t' seg \<noteq> None) = get v" if "(get, seg) \<in> set ffs" for get seg
  proof -
    have "tree_get t' seg = edit_result (Flag_edit (get b) (get v)) (tree_get t seg)"
      and "(tree_get t seg \<noteq> None) = get b"
      using assms that unfolding edited_tree_def reads_def list_all_iff by fast+
    then show ?thesis by simp
  qed
  ultimately show ?thesis unfolding reads_def list_all_iff by blast
qed

subsection \<open>Number inputs\<close>

text \<open>\<open>asNumber\<close> of the parsers (\<open>dhcpConfigParse.ts\<close>, \<open>interfaceParse.ts\<close>).\<close>

definition asNumber :: "unknown \<Rightarrow> jsnum option" where
  "asNumber v =
     (case asString v of None \<Rightarrow> None
      | Some s \<Rightarrow> (let n = js_number s in if js_finite n then Some n else None))"

text \<open>A number input that is shown as it is stored: empty, or a number printed canonically.\<close>

definition number_text :: "string \<Rightarrow> bool" where
  "number_text s \<longleftrightarrow> s = '''' \<or> (js_finite (js_number s) \<and> js_num_str (js_number s) = s)"

definition number_leaf :: "unknown \<Rightarrow> bool" where
  "number_leaf v \<longleftrightarrow> (case asString v of None \<Rightarrow> True | Some s \<Rightarrow> s \<noteq> '''' \<and> number_text s)"

lemma asNumber_text:
  "number_leaf v \<Longrightarrow> (case asNumber v of Some n \<Rightarrow> js_num_str n | None \<Rightarrow> '''') = read_str v"
  by (cases "asString v") (auto simp: number_leaf_def number_text_def asNumber_def read_str_def Let_def)

lemma number_leaf_edit:
  "number_leaf v \<Longrightarrow> number_text new \<Longrightarrow> trimmed new \<Longrightarrow>
     number_leaf (edit_result (Scalar_edit old new) v)"
  by (auto simp: number_leaf_def asString_def trimmedD)

lemma number_text_nat_str: "n < 10 ^ 21 \<Longrightarrow> number_text (nat_str n)"
  unfolding number_text_def js_number_nat_str js_num_str_nat by (simp add: js_finite_def)

subsection \<open>The edits of a form\<close>

definition form_edits ::
    "path \<Rightarrow> 'v scalar_field list \<Rightarrow> 'v flag_field list \<Rightarrow> 'v \<Rightarrow> 'v \<Rightarrow> (path \<times> edit) list" where
  "form_edits base sfs ffs before values =
     map (\<lambda>(get, seg). (base @ seg, Scalar_edit (get before) (get values))) sfs
     @ map (\<lambda>(get, seg). (base @ seg, Flag_edit (get before) (get values))) ffs"

lemma diffToOps_edits:
  "diffToOps base sfs ffs before values = concat (map edit_ops (form_edits base sfs ffs before values))"
proof -
  have s: "map edit_ops (map (\<lambda>(get, seg). (base @ seg, Scalar_edit (get before) (get values))) sfs)
      = map (\<lambda>(get, seg). scalar_diff (base @ seg) (get before) (get values)) sfs"
    by (auto simp: case_prod_beta)
  have f: "map edit_ops (map (\<lambda>(get, seg). (base @ seg, Flag_edit (get before) (get values))) ffs)
      = map (\<lambda>(get, seg). flag_diff (base @ seg) (get before) (get values)) ffs"
    by (auto simp: case_prod_beta)
  show ?thesis
    unfolding diffToOps_def form_edits_def map_append concat_append s f ..
qed

text \<open>Two paths neither of which leads through the other.\<close>

definition indep :: "path \<Rightarrow> path \<Rightarrow> bool" where
  "indep p q \<longleftrightarrow> \<not> prefix p q \<and> \<not> prefix q p"

fun indep_all :: "path list \<Rightarrow> bool" where
  "indep_all [] \<longleftrightarrow> True"
| "indep_all (p # ps) \<longleftrightarrow> list_all (indep p) ps \<and> indep_all ps"

lemma indep_sym: "indep p q \<longleftrightarrow> indep q p"
  by (auto simp: indep_def)

lemma indep_append [simp]: "indep (b @ p) (b @ q) \<longleftrightarrow> indep p q"
  by (simp add: indep_def)

lemma indep_Cons [simp]: "indep (a # p) (b # q) \<longleftrightarrow> a \<noteq> b \<or> indep p q"
  by (auto simp: indep_def)

lemma indep_Nil [simp]: "\<not> indep [] q" "\<not> indep q []"
  by (auto simp: indep_def)

lemma indep_extend: "indep p q \<Longrightarrow> indep (p @ r) (q @ t)"
  by (metis indep_def prefix_same_cases prefix_order.trans prefixI)

lemma indep_extend_left: "indep p q \<Longrightarrow> indep (p @ r) q"
  using indep_extend [of p q r "[]"] by simp

lemma indep_all_map_append [simp]: "indep_all (map ((@) b) ps) \<longleftrightarrow> indep_all ps"
  by (induction ps) (auto simp: list_all_iff)

lemma indep_all_edits:
  "indep_all (map fst (form_edits base sfs ffs b v)) \<longleftrightarrow> indep_all (map snd sfs @ map snd ffs)"
proof -
  have "map fst (form_edits base sfs ffs b v) = map ((@) base) (map snd sfs @ map snd ffs)"
    by (auto simp: form_edits_def case_prod_beta)
  then show ?thesis by (simp only: indep_all_map_append)
qed

subsection \<open>The contract of a configuration store\<close>

text \<open>
  \<open>st_set p v\<close> sets a leaf (the empty value sets a valueless node), \<open>st_del p\<close> deletes the
  subtree at a path and \<open>st_get\<close> reads the tree.
\<close>

definition apply_op ::
    "(path \<Rightarrow> string \<Rightarrow> 's \<Rightarrow> 's) \<Rightarrow> (path \<Rightarrow> 's \<Rightarrow> 's) \<Rightarrow> ConfigOp \<Rightarrow> 's \<Rightarrow> 's" where
  "apply_op st_set st_del op s =
     (case co_op op of
        Set_op \<Rightarrow> st_set (co_path op) (or_else (co_value op) '''') s
      | Delete_op \<Rightarrow> st_del (co_path op) s
      | Comment_op \<Rightarrow> s)"

definition apply_ops ::
    "(path \<Rightarrow> string \<Rightarrow> 's \<Rightarrow> 's) \<Rightarrow> (path \<Rightarrow> 's \<Rightarrow> 's) \<Rightarrow> ConfigOp list \<Rightarrow> 's \<Rightarrow> 's" where
  "apply_ops st_set st_del ops s = fold (apply_op st_set st_del) ops s"

lemma apply_ops_simps [simp]:
  "apply_ops f g [] s = s"
  "apply_ops f g (op # ops) s = apply_ops f g ops (apply_op f g op s)"
  by (simp_all add: apply_ops_def)

lemma apply_ops_append [simp]:
  "apply_ops f g (xs @ ys) s = apply_ops f g ys (apply_ops f g xs s)"
  by (simp add: apply_ops_def)

lemma apply_op_simps [simp]:
  "apply_op f g (set_op p v) s = f p v s"
  "apply_op f g (set_flag p) s = f p '''' s"
  "apply_op f g (delete_op p) s = g p s"
  "apply_op f g (delete_value_op p v) s = g p s"
  by (simp_all add: apply_op_def op_defs)

locale config_store =
  fixes st_set :: "path \<Rightarrow> string \<Rightarrow> 's \<Rightarrow> 's"
    and st_del :: "path \<Rightarrow> 's \<Rightarrow> 's"
    and st_get :: "'s \<Rightarrow> path \<Rightarrow> unknown"
  assumes get_child: "st_get s (p @ [k]) = child (st_get s p) k"
    and get_set_value: "p \<noteq> [] \<Longrightarrow> v \<noteq> '''' \<Longrightarrow> st_get (st_set p v s) p = Some (JStr v)"
    and get_set_flag: "p \<noteq> [] \<Longrightarrow>
      st_get (st_set p '''' s) p = Some (or_else (st_get s p) (JObj []))"
    and get_set_other: "indep p q \<Longrightarrow> st_get (st_set p v s) q = st_get s q"
    and get_del: "p \<noteq> [] \<Longrightarrow> st_get (st_del p s) p = None"
    and get_del_other: "indep p q \<Longrightarrow> st_get (st_del p s) q = st_get s q"
begin

lemma get_append: "st_get s (p @ q) = tree_get (st_get s p) q"
proof (induction q rule: rev_induct)
  case (snoc k q)
  have "st_get s (p @ q @ [k]) = child (st_get s (p @ q)) k"
    using get_child [of s "p @ q" k] by simp
  then show ?case by (simp add: snoc tree_get_append)
qed simp

lemma edit_effect:
  assumes "p \<noteq> []" and "edit_before (st_get s p) e"
  shows "edit_after (st_get (apply_ops st_set st_del (edit_ops (p, e)) s) p) e"
  using assms
  by (cases e) (auto simp: scalar_diff_def flag_diff_def edited_def get_set_value get_set_flag get_del)

lemma op_frame:
  "indep (co_path op) q \<Longrightarrow> st_get (apply_op st_set st_del op s) q = st_get s q"
  by (auto simp: apply_op_def get_set_other get_del_other split: ConfigOpKind.splits)

lemma ops_frame:
  "\<forall>op \<in> set ops. indep (co_path op) q \<Longrightarrow>
     st_get (apply_ops st_set st_del ops s) q = st_get s q"
  by (induction ops arbitrary: s) (auto simp: op_frame)

lemma edit_paths: "op \<in> set (edit_ops (p, e)) \<Longrightarrow> co_path op = p"
  by (cases e) (auto simp: scalar_diff_def flag_diff_def op_defs split: if_splits)

lemma edits_frame:
  assumes "\<forall>p \<in> fst ` set es. indep p q"
  shows "st_get (apply_ops st_set st_del (concat (map edit_ops es)) s) q = st_get s q"
  by (rule ops_frame) (use assms edit_paths in fastforce)

lemma edits_effect:
  assumes "indep_all (map fst es)" and "\<forall>p \<in> fst ` set es. p \<noteq> []"
    and "\<forall>(p, e) \<in> set es. edit_before (st_get s p) e"
  shows "\<forall>(p, e) \<in> set es. edit_after (st_get (apply_ops st_set st_del (concat (map edit_ops es)) s) p) e"
  using assms
proof (induction es arbitrary: s)
  case (Cons pe es)
  obtain p e where pe: "pe = (p, e)" by fastforce
  let ?s' = "apply_ops st_set st_del (edit_ops (p, e)) s"
  have ind: "\<forall>q \<in> fst ` set es. indep p q" using Cons.prems(1) pe by (auto simp: list_all_iff)
  then have same: "st_get ?s' q = st_get s q" if "q \<in> fst ` set es" for q
    using that edits_frame [of "[(p, e)]" q s] by auto
  have head: "edit_after (st_get ?s' p) e"
    by (rule edit_effect) (use Cons.prems pe in auto)
  have "st_get (apply_ops st_set st_del (concat (map edit_ops es)) ?s') p = st_get ?s' p"
    by (rule edits_frame) (use ind indep_sym in blast)
  with head have 1: "edit_after (st_get (apply_ops st_set st_del (concat (map edit_ops es)) ?s') p) e"
    by simp
  have "\<forall>(q, d) \<in> set es. edit_before (st_get ?s' q) d"
    using Cons.prems(3) same by (fastforce simp: image_iff)
  then have 2: "\<forall>(q, d) \<in> set es.
      edit_after (st_get (apply_ops st_set st_del (concat (map edit_ops es)) ?s') q) d"
    using Cons.IH [of ?s'] Cons.prems by simp
  show ?case using 1 2 pe by auto
qed simp

lemma edit_result_get:
  "p \<noteq> [] \<Longrightarrow> st_get (apply_ops st_set st_del (edit_ops (p, e)) s) p = edit_result e (st_get s p)"
  by (cases e) (auto simp: scalar_diff_def flag_diff_def get_set_value get_set_flag get_del)

lemma edits_result:
  assumes "indep_all (map fst es)" and "\<forall>p \<in> fst ` set es. p \<noteq> []"
  shows "\<forall>(p, e) \<in> set es.
    st_get (apply_ops st_set st_del (concat (map edit_ops es)) s) p = edit_result e (st_get s p)"
  using assms
proof (induction es arbitrary: s)
  case (Cons pe es)
  obtain p e where pe: "pe = (p, e)" by fastforce
  let ?s' = "apply_ops st_set st_del (edit_ops (p, e)) s"
  have ind: "\<forall>q \<in> fst ` set es. indep p q" using Cons.prems(1) pe by (auto simp: list_all_iff)
  then have same: "st_get ?s' q = st_get s q" if "q \<in> fst ` set es" for q
    using that edits_frame [of "[(p, e)]" q s] by auto
  have "st_get (apply_ops st_set st_del (concat (map edit_ops es)) ?s') p = st_get ?s' p"
    by (rule edits_frame) (use ind indep_sym in blast)
  moreover have "st_get ?s' p = edit_result e (st_get s p)"
    by (rule edit_result_get) (use Cons.prems pe in auto)
  moreover have "st_get (apply_ops st_set st_del (concat (map edit_ops es)) ?s') q
      = edit_result d (st_get s q)" if qd: "(q, d) \<in> set es" for q d
  proof -
    have "st_get (apply_ops st_set st_del (concat (map edit_ops es)) ?s') q
        = edit_result d (st_get ?s' q)"
      using Cons.IH [of ?s'] Cons.prems qd by auto
    moreover have "q \<in> fst ` set es" using qd by force
    ultimately show ?thesis by (simp only: same)
  qed
  ultimately show ?case by (auto simp: pe)
qed simp

text \<open>The subtree of each field after a form's ops, from the subtree before them.\<close>

lemma form_result:
  assumes "indep_all (map snd sfs @ map snd ffs)" and "[] \<notin> set (map snd sfs @ map snd ffs)"
  shows "edited_tree sfs ffs b v (st_get s base)
    (st_get (apply_ops st_set st_del (diffToOps base sfs ffs b v) s) base)"
proof -
  let ?es = "form_edits base sfs ffs b v"
  let ?t = "apply_ops st_set st_del (concat (map edit_ops ?es)) s"
  have "\<forall>p \<in> fst ` set ?es. p \<noteq> []" using assms(2) by (force simp: form_edits_def)
  then have r: "\<forall>(p, e) \<in> set ?es. st_get ?t p = edit_result e (st_get s p)"
    using edits_result [of ?es s] assms(1) by (simp add: indep_all_edits)
  have "st_get ?t (base @ seg) = edit_result (Scalar_edit (get b) (get v)) (st_get s (base @ seg))"
    if "(get, seg) \<in> set sfs" for get seg
  proof -
    have "(base @ seg, Scalar_edit (get b) (get v)) \<in> set ?es" using that unfolding form_edits_def by force
    from bspec [OF r this] show ?thesis by (simp only: prod.case)
  qed
  moreover have "st_get ?t (base @ seg) = edit_result (Flag_edit (get b) (get v)) (st_get s (base @ seg))"
    if "(get, seg) \<in> set ffs" for get seg
  proof -
    have "(base @ seg, Flag_edit (get b) (get v)) \<in> set ?es" using that unfolding form_edits_def by force
    from bspec [OF r this] show ?thesis by (simp only: prod.case)
  qed
  ultimately show ?thesis
    unfolding edited_tree_def diffToOps_edits list_all_iff get_append [symmetric] by blast
qed

text \<open>
  A form diffed against what the store holds: afterwards every field holds the form's value.
\<close>

lemma form_effect:
  assumes ind: "indep_all (map snd sfs @ map snd ffs)"
    and ne: "[] \<notin> set (map snd sfs @ map snd ffs)"
    and s: "\<forall>(get, seg) \<in> set sfs. read_str (st_get s (base @ seg)) = get b"
    and f: "\<forall>(get, seg) \<in> set ffs. (st_get s (base @ seg) \<noteq> None) = get b"
  shows "(\<forall>(get, seg) \<in> set sfs.
            read_str (st_get (apply_ops st_set st_del (diffToOps base sfs ffs b v) s) (base @ seg))
              = edited (get b) (get v))
       \<and> (\<forall>(get, seg) \<in> set ffs.
            (st_get (apply_ops st_set st_del (diffToOps base sfs ffs b v) s) (base @ seg) \<noteq> None)
              = get v)"
proof -
  let ?es = "form_edits base sfs ffs b v"
  have "\<forall>p \<in> fst ` set ?es. p \<noteq> []" using ne by (force simp: form_edits_def)
  moreover have "\<forall>(p, e) \<in> set ?es. edit_before (st_get s p) e"
    using s f by (fastforce simp: form_edits_def)
  ultimately have *: "\<forall>(p, e) \<in> set ?es.
      edit_after (st_get (apply_ops st_set st_del (concat (map edit_ops ?es)) s) p) e"
    using edits_effect [of ?es s] ind by (simp add: indep_all_edits)
  define t where "t = apply_ops st_set st_del (concat (map edit_ops ?es)) s"
  have t: "\<forall>(p, e) \<in> set ?es. edit_after (st_get t p) e" using * by (simp only: t_def)
  have "read_str (st_get t (base @ seg)) = edited (get b) (get v)" if "(get, seg) \<in> set sfs" for get seg
  proof -
    have "(base @ seg, Scalar_edit (get b) (get v)) \<in> set ?es"
      using that unfolding form_edits_def by force
    from bspec [OF t this] show ?thesis by simp
  qed
  moreover have "(st_get t (base @ seg) \<noteq> None) = get v" if "(get, seg) \<in> set ffs" for get seg
  proof -
    have "(base @ seg, Flag_edit (get b) (get v)) \<in> set ?es"
      using that unfolding form_edits_def by force
    from bspec [OF t this] show ?thesis by simp
  qed
  ultimately show ?thesis unfolding diffToOps_edits t_def [symmetric] by blast
qed

text \<open>The same on the subtree at the form's base path, with the form's values trimmed.\<close>

lemma form_roundtrip:
  assumes "indep_all (map snd sfs @ map snd ffs)"
    and "[] \<notin> set (map snd sfs @ map snd ffs)"
    and "reads sfs ffs (st_get s base) b"
    and "trimmed_form sfs v"
  shows "reads sfs ffs (st_get (apply_ops st_set st_del (diffToOps base sfs ffs b v) s) base) v"
proof -
  have 1: "\<forall>(get, seg) \<in> set sfs. read_str (st_get s (base @ seg)) = get b"
    and 2: "\<forall>(get, seg) \<in> set ffs. (st_get s (base @ seg) \<noteq> None) = get b"
    and t: "\<forall>(get, seg) \<in> set sfs. trimmed (get v)"
    using assms(3,4) by (auto simp: reads_def trimmed_form_def list_all_iff get_append)
  show ?thesis
    using form_effect [OF assms(1,2) 1 2, of v] t
    unfolding reads_def list_all_iff get_append [symmetric] by fastforce
qed

lemma diff_frame:
  assumes "\<forall>seg \<in> set (map snd sfs @ map snd ffs). indep (base @ seg) q"
  shows "st_get (apply_ops st_set st_del (diffToOps base sfs ffs b v) s) q = st_get s q"
  unfolding diffToOps_edits
  by (rule edits_frame) (use assms in \<open>force simp: form_edits_def\<close>)

lemma diff_frame_outside:
  "indep base q \<Longrightarrow> st_get (apply_ops st_set st_del (diffToOps base sfs ffs b v) s) q = st_get s q"
  by (rule diff_frame) (auto intro: indep_extend_left)

end

lemma diffToOps_nochange: "diffToOps base sfs ffs v v = []"
  by (induction sfs) (auto simp: diffToOps_def scalar_diff_def flag_diff_def concat_eq_Nil_conv)

end
