(* ===== verification/FakeVyos.thy ===== *)
theory FakeVyos
  imports FormDiff
begin

text \<open>
  The device the application talks to, as the repository itself simulates it
  (\<open>backend/internal/testutil/fakevyos.go\<close>): a nested map of configuration nodes, the handler of
  \<open>/configure\<close>, which applies a batch in order and stops at the first malformed command, and the
  handler of \<open>/config-file\<close> (save, confirm, load). A node map is the list of its entries;
  \<open>AList.update\<close> and \<open>AList.delete\<close> are Go's map assignment and \<open>delete\<close>.

  The node maps satisfy the contract \<open>config_store\<close>, so every lemma about applying a form's ops
  holds of this device.
\<close>

type_synonym node_map = "(string \<times> json) list"

definition as_map :: "unknown \<Rightarrow> node_map" where
  "as_map v = (case v of Some (JObj m) \<Rightarrow> m | _ \<Rightarrow> [])"

fun getNested :: "unknown \<Rightarrow> path \<Rightarrow> unknown" where
  "getNested cur [] = cur"
| "getNested cur (seg # p) =
     (case cur of Some (JObj m) \<Rightarrow> getNested (map_of m seg) p | _ \<Rightarrow> None)"

fun setNested :: "path \<Rightarrow> string \<Rightarrow> node_map \<Rightarrow> node_map" where
  "setNested [] v m = m"
| "setNested [seg] v m =
     (if v = '''' then (if map_of m seg = None then AList.update seg (JObj []) m else m)
      else AList.update seg (JStr v) m)"
| "setNested (seg # q # p) v m =
     AList.update seg (JObj (setNested (q # p) v (as_map (map_of m seg)))) m"

fun deleteNested :: "path \<Rightarrow> node_map \<Rightarrow> node_map" where
  "deleteNested [] m = m"
| "deleteNested [seg] m = AList.delete seg m"
| "deleteNested (seg # q # p) m =
     (case map_of m seg of
        Some (JObj n) \<Rightarrow> AList.update seg (JObj (deleteNested (q # p) n)) m
      | _ \<Rightarrow> m)"

definition device_get :: "node_map \<Rightarrow> path \<Rightarrow> unknown" where
  "device_get m p = getNested (Some (JObj m)) p"

definition device_apply :: "ConfigOp list \<Rightarrow> node_map \<Rightarrow> node_map" where
  "device_apply ops m = apply_ops setNested deleteNested ops m"

subsection \<open>The node maps are a configuration store\<close>

lemma child_map_of [simp]: "child (Some (JObj m)) k = map_of m k"
  by (simp add: child_def)

lemma getNested_tree_get: "getNested v p = tree_get v p"
proof (induction v p rule: getNested.induct)
  case (2 cur seg p)
  then show ?case by (auto simp: child_def split: option.splits json.splits)
qed simp

lemma device_get_tree: "device_get m p = tree_get (Some (JObj m)) p"
  by (simp add: device_get_def getNested_tree_get)

lemma device_get_Cons [simp]: "device_get m (k # p) = tree_get (map_of m k) p"
  by (simp add: device_get_tree)

lemma tree_get_as_map: "p \<noteq> [] \<Longrightarrow> tree_get (Some (JObj (as_map v))) p = tree_get v p"
  by (cases p) (auto simp: as_map_def child_def split: option.splits json.splits)

lemma setNested_value:
  "p \<noteq> [] \<Longrightarrow> v \<noteq> '''' \<Longrightarrow> device_get (setNested p v m) p = Some (JStr v)"
  by (induction p v m rule: setNested.induct) (auto simp: map_of_AList_update device_get_tree)

lemma setNested_flag:
  "p \<noteq> [] \<Longrightarrow> device_get (setNested p '''' m) p = Some (or_else (device_get m p) (JObj []))"
proof (induction p "''''::string" m rule: setNested.induct)
  case (3 seg q p m)
  have "device_get (as_map (map_of m seg)) (q # p) = device_get m (seg # q # p)"
    by (simp only: device_get_tree tree_get_as_map list.distinct not_False_eq_True)
       (simp only: tree_get_Cons child_map_of)
  then show ?case using 3 by (simp add: map_of_AList_update device_get_tree)
qed (auto simp: map_of_AList_update device_get_tree)

lemma setNested_other: "indep p q \<Longrightarrow> device_get (setNested p v m) q = device_get m q"
proof (induction p v m arbitrary: q rule: setNested.induct)
  case (2 seg v m)
  then obtain k r where q: "q = k # r" by (cases q) auto
  with 2 have "k \<noteq> seg" by (auto simp: indep_def)
  then show ?case by (simp add: q map_of_AList_update)
next
  case (3 seg s p v m)
  then obtain k r where q: "q = k # r" by (cases q) auto
  show ?case
  proof (cases "k = seg")
    case True
    then have i: "indep (s # p) r" using "3.prems" q by simp
    then have r: "r \<noteq> []" by auto
    have "device_get (setNested (seg # s # p) v m) q
        = device_get (setNested (s # p) v (as_map (map_of m seg))) r"
      by (simp add: q True map_of_AList_update device_get_tree)
    also have "\<dots> = device_get (as_map (map_of m seg)) r" by (rule "3.IH" [OF i])
    also have "\<dots> = device_get m q" by (simp add: q True device_get_tree tree_get_as_map r)
    finally show ?thesis .
  next
    case False
    then show ?thesis by (simp add: q map_of_AList_update)
  qed
qed simp

lemma deleteNested_gone: "p \<noteq> [] \<Longrightarrow> device_get (deleteNested p m) p = None"
proof (induction p m rule: deleteNested.induct)
  case (3 seg q p m)
  show ?case
  proof (cases "\<exists>n. map_of m seg = Some (JObj n)")
    case True
    then show ?thesis using 3 by (auto simp: map_of_AList_update device_get_tree)
  next
    case False
    then have "child (map_of m seg) q = None"
      by (auto simp: child_def split: option.splits json.splits)
    moreover have "deleteNested (seg # q # p) m = m"
      using False by (auto split: option.splits json.splits)
    ultimately show ?thesis by (simp only: device_get_Cons tree_get_Cons tree_get_None)
  qed
qed (auto simp: map_of_AList_delete device_get_tree)

lemma deleteNested_other: "indep p q \<Longrightarrow> device_get (deleteNested p m) q = device_get m q"
proof (induction p m arbitrary: q rule: deleteNested.induct)
  case (2 seg m)
  then obtain k r where q: "q = k # r" by (cases q) auto
  with 2 have "k \<noteq> seg" by (auto simp: indep_def)
  then show ?case by (simp add: q map_of_AList_delete)
next
  case (3 seg s p m)
  then obtain k r where q: "q = k # r" by (cases q) auto
  show ?case
  proof (cases "\<exists>n. map_of m seg = Some (JObj n)")
    case True
    then obtain n where n: "map_of m seg = Some (JObj n)" ..
    have d: "deleteNested (seg # s # p) m = AList.update seg (JObj (deleteNested (s # p) n)) m"
      by (simp add: n)
    show ?thesis
    proof (cases "k = seg")
      case True
      then have "indep (s # p) r" using "3.prems" q by simp
      then have "device_get (deleteNested (s # p) n) r = device_get n r"
        using "3.IH" n by blast
      then show ?thesis unfolding d q True by (simp add: map_of_AList_update n device_get_tree)
    next
      case False
      then show ?thesis unfolding d q by (simp add: map_of_AList_update)
    qed
  next
    case False
    then have "deleteNested (seg # s # p) m = m" by (auto split: option.splits json.splits)
    then show ?thesis by (simp only:)
  qed
qed simp

interpretation device: config_store setNested deleteNested device_get
proof unfold_locales
  show "device_get s (p @ [k]) = child (device_get s p) k" for s p k
    by (simp add: device_get_tree tree_get_append)
qed (auto intro: setNested_value setNested_flag setNested_other deleteNested_gone deleteNested_other)

lemmas form_applied = device.form_roundtrip [folded device_apply_def]

lemmas form_results = device.form_result [folded device_apply_def]

lemmas form_frame = device.diff_frame [folded device_apply_def]

lemmas form_frame_outside = device.diff_frame_outside [folded device_apply_def]

lemmas device_get_append = device.get_append

lemma device_apply_append [simp]:
  "device_apply (xs @ ys) m = device_apply ys (device_apply xs m)"
  by (simp add: device_apply_def)

lemma device_apply_simps [simp]:
  "device_apply [] m = m"
  "device_apply (op # ops) m = device_apply ops (apply_op setNested deleteNested op m)"
  by (simp_all add: device_apply_def)

subsection \<open>Edit forms\<close>

text \<open>The subtree above a written or deleted path.\<close>

lemma setNested_subtree:
  "q \<noteq> [] \<Longrightarrow> device_get (setNested (p @ q) v m) p = Some (JObj (setNested q v (as_map (device_get m p))))"
proof (induction p arbitrary: m)
  case Nil
  then show ?case by (simp add: device_get_tree as_map_def)
next
  case (Cons k p)
  then obtain k' r where r: "p @ q = k' # r" by (cases "p @ q") auto
  have "device_get (setNested ((k # p) @ q) v m) (k # p)
      = device_get (setNested (p @ q) v (as_map (map_of m k))) p"
    by (simp add: r map_of_AList_update device_get_tree)
  also have "\<dots> = Some (JObj (setNested q v (as_map (device_get (as_map (map_of m k)) p))))"
    by (rule Cons.IH [OF Cons.prems])
  also have "as_map (device_get (as_map (map_of m k)) p) = as_map (device_get m (k # p))"
    by (cases p) (auto simp: device_get_tree tree_get_as_map as_map_def child_def
      split: option.splits json.splits)
  finally show ?case .
qed

lemma deleteNested_subtree:
  "q \<noteq> [] \<Longrightarrow> device_get (deleteNested (p @ q) m) p
     = (case device_get m p of Some (JObj n) \<Rightarrow> Some (JObj (deleteNested q n)) | t \<Rightarrow> t)"
proof (induction p arbitrary: m)
  case (Cons k p)
  then obtain k' r where r: "p @ q = k' # r" by (cases "p @ q") auto
  show ?case
  proof (cases "\<exists>n. map_of m k = Some (JObj n)")
    case True
    then obtain n where n: "map_of m k = Some (JObj n)" ..
    have "device_get (deleteNested ((k # p) @ q) m) (k # p) = device_get (deleteNested (p @ q) n) p"
      by (simp add: r n map_of_AList_update device_get_tree)
    with Cons.IH [OF Cons.prems, of n] show ?thesis by (simp add: n device_get_tree)
  next
    case False
    then have "deleteNested ((k # p) @ q) m = m" by (simp add: r split: option.splits json.splits)
    moreover have "device_get m (k # p) \<noteq> Some (JObj n)" for n
      using False by (cases p) (auto simp: child_def tree_get_None split: option.splits json.splits)
    ultimately show ?thesis by (simp split: option.splits json.splits)
  qed
qed (simp add: device_get_tree)

text \<open>Ops at other leaves of the subtree leave what the tables read.\<close>

lemma reads_frame:
  assumes "\<forall>op \<in> set ops. \<exists>r. co_path op = p @ r \<and>
    (\<forall>seg \<in> set (map snd sfs @ map snd ffs). indep r seg)"
  shows "reads sfs ffs (device_get (device_apply ops m) p) v \<longleftrightarrow> reads sfs ffs (device_get m p) v"
proof -
  have "device_get (device_apply ops m) (p @ seg) = device_get m (p @ seg)"
    if "seg \<in> set (map snd sfs @ map snd ffs)" for seg
    unfolding device_apply_def by (rule device.ops_frame) (use assms that in fastforce)
  then have *: "tree_get (device_get (device_apply ops m) p) seg = tree_get (device_get m p) seg"
    if "seg \<in> set (map snd sfs @ map snd ffs)" for seg
    using that by (simp only: device_get_append)
  have s: "snd x \<in> set (map snd sfs @ map snd ffs)" if "x \<in> set sfs" for x using that by simp
  have f: "snd x \<in> set (map snd sfs @ map snd ffs)" if "x \<in> set ffs" for x using that by simp
  show ?thesis
    unfolding reads_def list_all_iff case_prod_beta
    by (intro arg_cong2 [where f = "(\<and>)"] ball_cong [OF refl]) (simp_all only: * [OF s] * [OF f])
qed

text \<open>Ops strictly below a node that is a record leave it a record.\<close>

lemma isRecord_iff: "isRecord v \<longleftrightarrow> (\<exists>n. v = Some (JObj n))"
  by (auto simp: isRecord_def split: option.splits json.splits)

lemma op_keeps_record:
  assumes "isRecord (device_get m p)" and "co_path op = p @ q" and "q \<noteq> []"
  shows "isRecord (device_get (apply_op setNested deleteNested op m) p)"
  using assms(1)
  by (cases "co_op op") (auto simp: apply_op_def assms(2) setNested_subtree [OF assms(3)]
      deleteNested_subtree [OF assms(3)] isRecord_iff)

lemma ops_keep_record:
  "isRecord (device_get m p) \<Longrightarrow> \<forall>op \<in> set ops. \<exists>q. q \<noteq> [] \<and> co_path op = p @ q \<or> indep (co_path op) p \<Longrightarrow>
     isRecord (device_get (device_apply ops m) p)"
proof (induction ops arbitrary: m)
  case (Cons op ops)
  from Cons.prems(2) consider q where "q \<noteq> []" "co_path op = p @ q" | "indep (co_path op) p" by auto
  then have "isRecord (device_get (apply_op setNested deleteNested op m) p)"
    using op_keeps_record [OF Cons.prems(1)] Cons.prems(1) by cases (blast, simp add: device.op_frame)
  with Cons show ?case by simp
qed simp

text \<open>Ops below a node that exists leave it in existence.\<close>

lemma ops_keep_present:
  "device_get m p \<noteq> None \<Longrightarrow> \<forall>op \<in> set ops. \<exists>q. q \<noteq> [] \<and> co_path op = p @ q \<Longrightarrow>
     device_get (device_apply ops m) p \<noteq> None"
proof (induction ops arbitrary: m)
  case (Cons op ops)
  then obtain q where q: "q \<noteq> []" "co_path op = p @ q" by auto
  have "device_get (apply_op setNested deleteNested op m) p \<noteq> None"
    using Cons.prems(1) by (cases "co_op op") (auto simp: apply_op_def q(2) setNested_subtree [OF q(1)]
        deleteNested_subtree [OF q(1)] split: json.splits)
  with Cons show ?case by simp
qed simp

text \<open>Two groups of fields written one after the other.\<close>

lemma indep_all_append:
  "indep_all (xs @ ys) \<longleftrightarrow> indep_all xs \<and> indep_all ys \<and> (\<forall>x \<in> set xs. \<forall>y \<in> set ys. indep x y)"
  by (induction xs) (auto simp: list_all_iff)

lemma indep_all_swap:
  assumes "indep_all ((a @ a') @ (b @ b'))"
  shows "indep_all (a @ b) \<and> indep_all (a' @ b') \<and> (\<forall>x \<in> set (a @ b). \<forall>y \<in> set (a' @ b'). indep x y)"
proof -
  have "\<forall>x \<in> set a'. \<forall>y \<in> set b. indep x y" using assms by (simp add: indep_all_append)
  then have "\<forall>x \<in> set b. \<forall>y \<in> set a'. indep x y" using indep_sym by blast
  then show ?thesis using assms by (simp add: indep_all_append ball_Un)
qed

lemma reads_append:
  "reads (sfs @ sfs') (ffs @ ffs') t v \<longleftrightarrow> reads sfs ffs t v \<and> reads sfs' ffs' t v"
  by (auto simp: reads_def)

lemma diff_path:
  "op \<in> set (diffToOps p sfs ffs b v) \<Longrightarrow> \<exists>seg \<in> set (map snd sfs @ map snd ffs). co_path op = p @ seg"
  unfolding diffToOps_edits form_edits_def by (auto dest!: device.edit_paths) force+

lemma two_stage:
  assumes ind: "indep_all (map snd (sfs @ sfs') @ map snd (ffs @ ffs'))"
    and ne: "[] \<notin> set (map snd (sfs @ sfs') @ map snd (ffs @ ffs'))"
    and b: "reads (sfs @ sfs') (ffs @ ffs') (device_get m p) b" and v: "trimmed_form (sfs @ sfs') v"
  shows "reads (sfs @ sfs') (ffs @ ffs')
    (device_get (device_apply (diffToOps p sfs ffs b v @ diffToOps p sfs' ffs' b v) m) p) v"
proof -
  let ?m1 = "device_apply (diffToOps p sfs ffs b v) m"
  let ?m2 = "device_apply (diffToOps p sfs' ffs' b v) ?m1"
  note sw = indep_all_swap [OF ind [unfolded map_append]]
  have i: "indep_all (map snd sfs @ map snd ffs)" "indep_all (map snd sfs' @ map snd ffs')"
    using sw by blast+
  have c: "indep x y" if "x \<in> set (map snd sfs @ map snd ffs)" "y \<in> set (map snd sfs' @ map snd ffs')" for x y
    using sw that by blast
  have n: "[] \<notin> set (map snd sfs @ map snd ffs)" "[] \<notin> set (map snd sfs' @ map snd ffs')"
    using ne by auto
  have f1: "\<forall>op \<in> set (diffToOps p sfs ffs b v). \<exists>r. co_path op = p @ r \<and>
      (\<forall>seg \<in> set (map snd sfs' @ map snd ffs'). indep r seg)"
  proof
    fix op assume "op \<in> set (diffToOps p sfs ffs b v)"
    from diff_path [OF this] obtain seg where "seg \<in> set (map snd sfs @ map snd ffs)"
      and "co_path op = p @ seg" by blast
    then show "\<exists>r. co_path op = p @ r \<and> (\<forall>seg \<in> set (map snd sfs' @ map snd ffs'). indep r seg)"
      using c by blast
  qed
  have f2: "\<forall>op \<in> set (diffToOps p sfs' ffs' b v). \<exists>r. co_path op = p @ r \<and>
      (\<forall>seg \<in> set (map snd sfs @ map snd ffs). indep r seg)"
  proof
    fix op assume "op \<in> set (diffToOps p sfs' ffs' b v)"
    from diff_path [OF this] obtain seg where "seg \<in> set (map snd sfs' @ map snd ffs')"
      and "co_path op = p @ seg" by blast
    then show "\<exists>r. co_path op = p @ r \<and> (\<forall>seg \<in> set (map snd sfs @ map snd ffs). indep r seg)"
      using c [THEN indep_sym [THEN iffD1]] by blast
  qed
  have b1: "reads sfs ffs (device_get m p) b" and b2: "reads sfs' ffs' (device_get m p) b"
    using b by (simp_all add: reads_append)
  have t: "trimmed_form sfs v" "trimmed_form sfs' v" using v by (simp_all add: trimmed_form_def)
  have r1: "reads sfs ffs (device_get ?m1 p) v" by (rule form_applied [OF i(1) n(1) b1 t(1)])
  have "reads sfs' ffs' (device_get ?m1 p) b"
    using reads_frame [OF f1, of m b] b2 by (simp only:)
  then have r2: "reads sfs' ffs' (device_get ?m2 p) v" by (rule form_applied [OF i(2) n(2) _ t(2)])
  have "reads sfs ffs (device_get ?m2 p) v" using reads_frame [OF f2, of ?m1 v] r1 by (simp only:)
  with r2 show ?thesis by (simp add: reads_append)
qed

text \<open>An item of the configuration as the application has parsed it from the device, if it exists.\<close>

definition device_item :: "(unknown \<Rightarrow> 'a) \<Rightarrow> node_map \<Rightarrow> path \<Rightarrow> 'a option" where
  "device_item parse m p = map_option (\<lambda>r. parse (Some r)) (device_get m p)"

lemma device_item_values:
  "to (parse None) = blank \<Longrightarrow>
     (case device_item parse m p of Some x \<Rightarrow> to x | None \<Rightarrow> blank) = to (parse (device_get m p))"
  by (cases "device_get m p") (auto simp: device_item_def)

text \<open>
  The contract of an edit form. Its tables \<open>sfs\<close> and \<open>ffs\<close> name independent leaves. The form of the
  parsed subtree (\<open>toForm (parse t)\<close>) can represent some subtrees (\<open>ok\<close>) and hold some values
  (\<open>valid\<close>); a subtree whose leaves were edited from what the form shows into such values shows those
  values, and can still be represented. The form of an item that does not exist is \<open>blank\<close>.
\<close>

locale form_contract =
  fixes sfs :: "'v scalar_field list"
    and ffs :: "'v flag_field list"
    and toForm :: "'a \<Rightarrow> 'v"
    and parse :: "unknown \<Rightarrow> 'a"
    and blank :: 'v
    and ok :: "unknown \<Rightarrow> bool"
    and valid :: "'v \<Rightarrow> bool"
  assumes fields_indep: "indep_all (map snd sfs @ map snd ffs)"
    and fields_not_Nil: "[] \<notin> set (map snd sfs @ map snd ffs)"
    and shows_edited: "edited_tree sfs ffs (toForm (parse t)) v t t' \<Longrightarrow> ok t \<Longrightarrow> valid v \<Longrightarrow>
      trimmed_form sfs v \<Longrightarrow> toForm (parse t') = v"
    and ok_edited: "edited_tree sfs ffs (toForm (parse t)) v t t' \<Longrightarrow> ok t \<Longrightarrow> valid v \<Longrightarrow>
      trimmed_form sfs v \<Longrightarrow> ok t'"
    and blank_form: "toForm (parse None) = blank"
begin

lemma before_form:
  "(case device_item parse m p of Some x \<Rightarrow> toForm x | None \<Rightarrow> blank) = toForm (parse (device_get m p))"
  by (rule device_item_values [where to = toForm and parse = parse, OF blank_form])

lemma shows_after:
  assumes "ok (device_get m p)" and "valid v" and "trimmed_form sfs v"
  shows "toForm (parse (device_get
    (device_apply (diffToOps p sfs ffs (toForm (parse (device_get m p))) v) m) p)) = v"
  by (rule shows_edited [OF form_results [OF fields_indep fields_not_Nil] assms])

text \<open>The code's own shape: the form is compared with the item as last fetched, or with a blank.\<close>

lemma roundtrip:
  "ok (device_get m p) \<Longrightarrow> valid v \<Longrightarrow> trimmed_form sfs v \<Longrightarrow>
   toForm (parse (device_get (device_apply (diffToOps p sfs ffs
     (case device_item parse m p of Some x \<Rightarrow> toForm x | None \<Rightarrow> blank) v) m) p)) = v"
  unfolding before_form by (rule shows_after)

lemma ok_after:
  "ok (device_get m p) \<Longrightarrow> valid v \<Longrightarrow> trimmed_form sfs v \<Longrightarrow>
   ok (device_get (device_apply (diffToOps p sfs ffs
     (case device_item parse m p of Some x \<Rightarrow> toForm x | None \<Rightarrow> blank) v) m) p)"
  unfolding before_form by (rule ok_edited [OF form_results [OF fields_indep fields_not_Nil]])

lemma elsewhere:
  "indep p q \<Longrightarrow> device_get (device_apply (diffToOps p sfs ffs b v) m) q = device_get m q"
  by (rule form_frame_outside)

text \<open>Opening the form again after the ops are applied shows nothing left to queue.\<close>

lemma settled:
  assumes "ok (device_get m p)" and "valid v" and "trimmed_form sfs v"
    and "m' = device_apply (diffToOps p sfs ffs
      (case device_item parse m p of Some x \<Rightarrow> toForm x | None \<Rightarrow> blank) v) m"
  shows "diffToOps p sfs ffs
    (case device_item parse m' p of Some x \<Rightarrow> toForm x | None \<Rightarrow> blank) v = []"
  unfolding before_form assms(4) shows_after [OF assms(1-3)]
  by (rule diffToOps_nochange)

end

text \<open>
  The forms whose fields are read one by one from their leaves satisfy the contract: what \<open>toForm\<close>
  shows of a subtree is what the tables read there.
\<close>

locale edit_form =
  fixes sfs :: "'v scalar_field list"
    and ffs :: "'v flag_field list"
    and toForm :: "'a \<Rightarrow> 'v"
    and parse :: "unknown \<Rightarrow> 'a"
    and blank :: 'v
    and ok :: "unknown \<Rightarrow> bool"
    and valid :: "'v \<Rightarrow> bool"
  assumes table_indep: "indep_all (map snd sfs @ map snd ffs)"
    and table_not_Nil: "[] \<notin> set (map snd sfs @ map snd ffs)"
    and form_reads: "ok t \<Longrightarrow> reads sfs ffs t (toForm (parse t))"
    and reads_form: "reads sfs ffs t v \<Longrightarrow> ok t \<Longrightarrow> valid v \<Longrightarrow> toForm (parse t) = v"
    and keeps_ok: "edited_tree sfs ffs (toForm (parse t)) v t t' \<Longrightarrow> ok t \<Longrightarrow> valid v \<Longrightarrow>
      trimmed_form sfs v \<Longrightarrow> ok t'"
    and form_blank: "toForm (parse None) = blank"

sublocale edit_form \<subseteq> form_contract sfs ffs toForm parse blank ok valid
proof unfold_locales
  fix t t' v
  assume e: "edited_tree sfs ffs (toForm (parse t)) v t t'" and "ok t" "valid v" "trimmed_form sfs v"
  then have "ok t'" by (rule keeps_ok)
  moreover have "reads sfs ffs t' v"
    by (rule reads_edited [OF e form_reads [OF \<open>ok t\<close>] \<open>trimmed_form sfs v\<close>])
  ultimately show "toForm (parse t') = v" using reads_form \<open>valid v\<close> by blast
qed (fact table_indep table_not_Nil form_blank | erule (3) keeps_ok)+

subsection \<open>The request handlers\<close>

record fake_vyos =
  fv_config :: node_map
  fv_saved :: node_map
  fv_pending :: bool

record cmd_payload =
  cp_op :: string
  cp_path :: path
  cp_value :: string

datatype fake_reply = Fake_success | Fake_error nat

text \<open>The loop over the commands: it stops at the first bad one, the earlier ones stay applied.\<close>

fun run_commands :: "cmd_payload list \<Rightarrow> node_map \<Rightarrow> fake_reply \<times> node_map" where
  "run_commands [] m = (Fake_success, m)"
| "run_commands (c # cs) m =
     (if cp_path c = [] then (Fake_error 400, m)
      else if cp_op c = ''set'' then run_commands cs (setNested (cp_path c) (cp_value c) m)
      else if cp_op c = ''delete'' then run_commands cs (deleteNested (cp_path c) m)
      else if cp_op c = ''comment'' then run_commands cs m
      else (Fake_error 400, m))"

definition handleConfigure ::
    "cmd_payload list \<Rightarrow> int \<Rightarrow> fake_vyos \<Rightarrow> fake_reply \<times> fake_vyos" where
  "handleConfigure cmds confirm_time s =
     (case run_commands cmds (fv_config s) of
        (Fake_error e, m) \<Rightarrow> (Fake_error e, s\<lparr>fv_config := m\<rparr>)
      | (Fake_success, m) \<Rightarrow>
          (Fake_success,
           s\<lparr>fv_config := m, fv_pending := (if 0 < confirm_time then True else fv_pending s)\<rparr>))"

definition handleConfigFile ::
    "string \<Rightarrow> string \<Rightarrow> int \<Rightarrow> fake_vyos \<Rightarrow> fake_reply \<times> fake_vyos" where
  "handleConfigFile op file confirm_time s =
     (if op = ''save'' then (Fake_success, s\<lparr>fv_saved := fv_config s\<rparr>)
      else if op = ''confirm'' then (Fake_success, s\<lparr>fv_pending := False\<rparr>)
      else if op = ''load'' \<or> op = ''merge'' then
        (let s1 = (if op = ''load'' \<and> file \<noteq> '''' then s\<lparr>fv_config := fv_saved s\<rparr> else s)
         in (Fake_success, if 0 < confirm_time then s1\<lparr>fv_pending := True\<rparr> else s1))
      else (Fake_error 400, s))"

text \<open>How a \<open>ConfigOp\<close> of the frontend arrives: a missing value is the empty string.\<close>

definition op_name :: "ConfigOpKind \<Rightarrow> string" where
  "op_name k = (case k of Set_op \<Rightarrow> ''set'' | Delete_op \<Rightarrow> ''delete'' | Comment_op \<Rightarrow> ''comment'')"

definition to_payload :: "ConfigOp \<Rightarrow> cmd_payload" where
  "to_payload op = \<lparr>cp_op = op_name (co_op op), cp_path = co_path op,
     cp_value = or_else (co_value op) ''''\<rparr>"

lemma run_commands_ops:
  assumes "\<forall>op \<in> set ops. co_path op \<noteq> []"
  shows "run_commands (map to_payload ops) m = (Fake_success, device_apply ops m)"
  using assms
proof (induction ops arbitrary: m)
  case (Cons op ops)
  then show ?case
    by (cases "co_op op") (simp_all add: to_payload_def op_name_def device_apply_def apply_op_def)
qed (simp add: device_apply_def)

lemma run_commands_error:
  "run_commands cs m = (Fake_error e, m') \<Longrightarrow>
     \<exists>c \<in> set cs. cp_path c = [] \<or> cp_op c \<notin> {''set'', ''delete'', ''comment''}"
  by (induction cs m rule: run_commands.induct) (auto split: if_splits)

text \<open>The first \<open>n\<close> commands are applied, where the command at \<open>n\<close> is the bad one.\<close>

lemma run_commands_prefix:
  "run_commands cs m = (Fake_error e, m') \<Longrightarrow>
     \<exists>n < length cs. run_commands (take n cs) m = (Fake_success, m')"
proof (induction cs m rule: run_commands.induct)
  case (2 c cs m)
  show ?case
  proof (cases "cp_path c \<noteq> [] \<and> cp_op c \<in> {''set'', ''delete'', ''comment''}")
    case True
    with 2 have "\<exists>n < length cs. run_commands (take (Suc n) (c # cs)) m = (Fake_success, m')"
      by (auto split: if_splits)
    then show ?thesis by (metis Suc_less_eq length_Cons)
  next
    case False
    then have "m' = m" using "2.prems" by (auto split: if_splits)
    then show ?thesis by (intro exI [of _ 0]) simp
  qed
qed simp

end
