(* ===== verification/Firewall.thy ===== *)
theory Firewall
  imports FakeVyos
begin

text \<open>
  The firewall section: \<open>lib/firewallTypes.ts\<close> (its interfaces as records), \<open>lib/firewallParse.ts\<close>
  (zones, groups, rulesets, rules, global options) and the edit form of \<open>lib/firewallRuleForm.ts\<close>.
  A union of string literals is a \<open>string\<close>. \<open>firewall_form_roundtrip\<close> says that applying the ops
  of a form makes the device show the form.
\<close>

subsection \<open>Types\<close>

definition FIREWALL_FAMILIES :: "string list" where
  "FIREWALL_FAMILIES = [''ipv4'', ''ipv6'']"

definition BASE_CHAINS :: "string list" where
  "BASE_CHAINS = [''forward'', ''input'', ''output'']"

definition GROUP_TYPES :: "string list" where
  "GROUP_TYPES = [''address-group'', ''network-group'', ''port-group'', ''interface-group'',
     ''mac-group'', ''domain-group'']"

definition GROUP_MEMBER_LEAF :: "string \<Rightarrow> string" where
  "GROUP_MEMBER_LEAF t =
     or_else (map_of [(''address-group'', ''address''), (''network-group'', ''network''),
       (''port-group'', ''port''), (''interface-group'', ''interface''),
       (''mac-group'', ''mac-address''), (''domain-group'', ''address'')] t) ''undefined''"

record FirewallGroup =
  fg_type :: string
  fg_name :: string
  fg_description :: "string option"
  fg_members :: "string list"

record FirewallZone =
  fz_name :: string
  fz_description :: "string option"
  fz_localZone :: bool
  fz_interfaces :: "string list"
  fz_defaultAction :: "string option"
  fz_defaultLog :: bool
  fz_from :: "(string \<times> string) list"

record FirewallMatch =
  fm_address :: "string option"
  fm_port :: "string option"
  fm_addressGroup :: "string option"
  fm_networkGroup :: "string option"
  fm_portGroup :: "string option"
  fm_macGroup :: "string option"
  fm_domainGroup :: "string option"
  fm_macAddress :: "string option"

record FirewallRule =
  fr_number :: string
  fr_action :: "string option"
  fr_jumpTarget :: "string option"
  fr_protocol :: "string option"
  fr_description :: "string option"
  fr_disabled :: bool
  fr_log :: bool
  fr_source :: FirewallMatch
  fr_destination :: FirewallMatch
  fr_inboundInterface :: "string option"
  fr_outboundInterface :: "string option"
  fr_icmpTypeName :: "string option"
  fr_raw :: unknown

datatype ruleset_kind = Base_kind | Custom_kind

record FirewallRuleset =
  fs_id :: string
  fs_kind :: ruleset_kind
  fs_family :: string
  fs_defaultAction :: "string option"
  fs_description :: "string option"
  fs_rules :: "FirewallRule list"

record FirewallGlobalOptions =
  go_allPing :: "string option"
  go_broadcastPing :: "string option"
  go_synCookies :: "string option"
  go_logMartians :: "string option"
  go_ipSrcRoute :: "string option"
  go_stateInvalidAction :: "string option"
  go_stateEstablishedAction :: "string option"
  go_stateRelatedAction :: "string option"

subsection \<open>Zones and groups\<close>

definition parseZone :: "string \<Rightarrow> unknown \<Rightarrow> FirewallZone" where
  "parseZone name raw =
     \<lparr>fz_name = name,
      fz_description = asString (child raw ''description''),
      fz_localZone = isFlagPresent raw ''local-zone'',
      fz_interfaces = asArray (child raw ''interface''),
      fz_defaultAction = asString (child raw ''default-action''),
      fz_defaultLog = isFlagPresent raw ''default-log'',
      fz_from =
        fold (\<lambda>(srcZone, fromRaw) from.
            (let rulesetName = read_str (child (child (Some fromRaw) ''firewall'') ''name'')
             in if rulesetName \<noteq> '''' then AList.update srcZone rulesetName from else from))
          (entries (child raw ''from'')) []\<rparr>"

definition parseZones :: "collation \<Rightarrow> unknown \<Rightarrow> FirewallZone list" where
  "parseZones lc firewall =
     parse_entries parseZone (\<lambda>a b. lc (fz_name a) (fz_name b)) (child firewall ''zone'')"

definition zonePath :: "string \<Rightarrow> path \<Rightarrow> path" where
  "zonePath name rest = [''firewall'', ''zone'', name] @ rest"

definition parseGroup :: "string \<Rightarrow> string \<Rightarrow> unknown \<Rightarrow> FirewallGroup" where
  "parseGroup type name raw =
     \<lparr>fg_type = type, fg_name = name, fg_description = asString (child raw ''description''),
      fg_members = asArray (child raw (GROUP_MEMBER_LEAF type))\<rparr>"

definition parseGroups :: "collation \<Rightarrow> unknown \<Rightarrow> FirewallGroup list" where
  "parseGroups lc firewall =
     (let groupRoot = child firewall ''group''
      in if \<not> isRecord groupRoot then []
         else js_sort (\<lambda>a b. js_or (lc (fg_type a) (fg_type b)) (lc (fg_name a) (fg_name b)))
           (concat (map (\<lambda>type. map (\<lambda>(name, raw). parseGroup type name (Some raw))
              (entries (child groupRoot type))) GROUP_TYPES)))"

definition groupPath :: "string \<Rightarrow> string \<Rightarrow> path \<Rightarrow> path" where
  "groupPath type name rest = [''firewall'', ''group'', type, name] @ rest"

subsection \<open>Rulesets and rules\<close>

record RulesetRef =
  rr_id :: string
  rr_kind :: ruleset_kind
  rr_family :: string

definition rulesetPath :: "RulesetRef \<Rightarrow> path \<Rightarrow> path" where
  "rulesetPath ref rest =
     (case rr_kind ref of
        Base_kind \<Rightarrow> [''firewall'', rr_family ref, rr_id ref, ''filter''] @ rest
      | Custom_kind \<Rightarrow> [''firewall'', rr_family ref, ''name'', rr_id ref] @ rest)"

definition rulePath :: "RulesetRef \<Rightarrow> string \<Rightarrow> path \<Rightarrow> path" where
  "rulePath ref ruleNumber rest = rulesetPath ref ([''rule'', ruleNumber] @ rest)"

definition RULE_ACTIONS :: "string list" where
  "RULE_ACTIONS = [''accept'', ''drop'', ''reject'', ''continue'', ''jump'', ''queue'', ''return'',
     ''synproxy'']"

definition parseMatch :: "unknown \<Rightarrow> FirewallMatch" where
  "parseMatch raw =
     (let groupRoot = child raw ''group''
      in \<lparr>fm_address = asString (child raw ''address''),
          fm_port = asString (child raw ''port''),
          fm_addressGroup = asString (child groupRoot ''address-group''),
          fm_networkGroup = asString (child groupRoot ''network-group''),
          fm_portGroup = asString (child groupRoot ''port-group''),
          fm_macGroup = asString (child groupRoot ''mac-group''),
          fm_domainGroup = asString (child groupRoot ''domain-group''),
          fm_macAddress = asString (child raw ''mac-address'')\<rparr>)"

definition icmpNodeName :: "string \<Rightarrow> string" where
  "icmpNodeName family = (if family = ''ipv6'' then ''icmpv6'' else ''icmp'')"

definition parseRule :: "string \<Rightarrow> string \<Rightarrow> unknown \<Rightarrow> FirewallRule" where
  "parseRule family number raw =
     \<lparr>fr_number = number,
      fr_action = find_literal RULE_ACTIONS (asString (child raw ''action'')),
      fr_jumpTarget = asString (child raw ''jump-target''),
      fr_protocol = asString (child raw ''protocol''),
      fr_description = asString (child raw ''description''),
      fr_disabled = isFlagPresent raw ''disable'',
      fr_log = isFlagPresent raw ''log'',
      fr_source = parseMatch (child raw ''source''),
      fr_destination = parseMatch (child raw ''destination''),
      fr_inboundInterface = asString (child (child raw ''inbound-interface'') ''name''),
      fr_outboundInterface = asString (child (child raw ''outbound-interface'') ''name''),
      fr_icmpTypeName = asString (child (child raw (icmpNodeName family)) ''type-name''),
      fr_raw = raw\<rparr>"

definition rule_cmp :: "FirewallRule \<Rightarrow> FirewallRule \<Rightarrow> int" where
  "rule_cmp a b = js_num_cmp (js_number (fr_number a)) (js_number (fr_number b))"

definition parseRules :: "string \<Rightarrow> unknown \<Rightarrow> FirewallRule list" where
  "parseRules family raw = parse_entries (parseRule family) rule_cmp (child raw ''rule'')"

definition parseRulesets :: "unknown \<Rightarrow> FirewallRuleset list" where
  "parseRulesets firewall =
     concat (map (\<lambda>family.
       (let familyRoot = child firewall family
        in concat (map (\<lambda>chain.
             (let filterRoot = child (child familyRoot chain) ''filter''
              in if \<not> isRecord filterRoot then []
                 else [\<lparr>fs_id = chain, fs_kind = Base_kind, fs_family = family,
                        fs_defaultAction = asString (child filterRoot ''default-action''),
                        fs_description = None,
                        fs_rules = parseRules family filterRoot\<rparr>])) BASE_CHAINS)
           @ map (\<lambda>(name, raw).
               \<lparr>fs_id = name, fs_kind = Custom_kind, fs_family = family,
                fs_defaultAction = asString (child (Some raw) ''default-action''),
                fs_description = asString (child (Some raw) ''description''),
                fs_rules = parseRules family (Some raw)\<rparr>)
             (entries (child familyRoot ''name''))))
       FIREWALL_FAMILIES)"

subsection \<open>Global options\<close>

definition enableDisable :: "unknown \<Rightarrow> string option" where
  "enableDisable v =
     (let s = asString v in if s = Some ''enable'' \<or> s = Some ''disable'' then s else None)"

definition parseGlobalOptions :: "unknown \<Rightarrow> FirewallGlobalOptions" where
  "parseGlobalOptions firewall =
     (let node = child firewall ''global-options''; stateRoot = child node ''state-policy''
      in \<lparr>go_allPing = enableDisable (child node ''all-ping''),
          go_broadcastPing = enableDisable (child node ''broadcast-ping''),
          go_synCookies = enableDisable (child node ''syn-cookies''),
          go_logMartians = enableDisable (child node ''log-martians''),
          go_ipSrcRoute = enableDisable (child node ''ip-src-route''),
          go_stateInvalidAction = asString (child (child stateRoot ''invalid'') ''action''),
          go_stateEstablishedAction = asString (child (child stateRoot ''established'') ''action''),
          go_stateRelatedAction = asString (child (child stateRoot ''related'') ''action'')\<rparr>)"

definition globalOptionsPath :: "path \<Rightarrow> path" where
  "globalOptionsPath rest = [''firewall'', ''global-options''] @ rest"

subsection \<open>The rule form\<close>

record MatchFormValues =
  mf_address :: string
  mf_port :: string
  mf_macAddress :: string
  mf_addressGroup :: string
  mf_networkGroup :: string
  mf_portGroup :: string
  mf_macGroup :: string
  mf_domainGroup :: string

record RuleFormValues =
  rf_action :: string
  rf_jumpTarget :: string
  rf_protocol :: string
  rf_description :: string
  rf_disabled :: bool
  rf_log :: bool
  rf_source :: MatchFormValues
  rf_destination :: MatchFormValues
  rf_inboundInterface :: string
  rf_outboundInterface :: string
  rf_icmpTypeName :: string

definition blankMatch :: MatchFormValues where
  "blankMatch =
     \<lparr>mf_address = '''', mf_port = '''', mf_macAddress = '''', mf_addressGroup = '''',
      mf_networkGroup = '''', mf_portGroup = '''', mf_macGroup = '''', mf_domainGroup = ''''\<rparr>"

definition blankRuleFormValues :: RuleFormValues where
  "blankRuleFormValues =
     \<lparr>rf_action = '''', rf_jumpTarget = '''', rf_protocol = '''', rf_description = '''',
      rf_disabled = False, rf_log = False, rf_source = blankMatch, rf_destination = blankMatch,
      rf_inboundInterface = '''', rf_outboundInterface = '''', rf_icmpTypeName = ''''\<rparr>"

definition matchToFormValues :: "FirewallMatch \<Rightarrow> MatchFormValues" where
  "matchToFormValues match =
     \<lparr>mf_address = or_else (fm_address match) '''',
      mf_port = or_else (fm_port match) '''',
      mf_macAddress = or_else (fm_macAddress match) '''',
      mf_addressGroup = or_else (fm_addressGroup match) '''',
      mf_networkGroup = or_else (fm_networkGroup match) '''',
      mf_portGroup = or_else (fm_portGroup match) '''',
      mf_macGroup = or_else (fm_macGroup match) '''',
      mf_domainGroup = or_else (fm_domainGroup match) ''''\<rparr>"

definition ruleToFormValues :: "FirewallRule \<Rightarrow> RuleFormValues" where
  "ruleToFormValues rule =
     \<lparr>rf_action = or_else (fr_action rule) '''',
      rf_jumpTarget = or_else (fr_jumpTarget rule) '''',
      rf_protocol = or_else (fr_protocol rule) '''',
      rf_description = or_else (fr_description rule) '''',
      rf_disabled = fr_disabled rule,
      rf_log = fr_log rule,
      rf_source = matchToFormValues (fr_source rule),
      rf_destination = matchToFormValues (fr_destination rule),
      rf_inboundInterface = or_else (fr_inboundInterface rule) '''',
      rf_outboundInterface = or_else (fr_outboundInterface rule) '''',
      rf_icmpTypeName = or_else (fr_icmpTypeName rule) ''''\<rparr>"

definition RULE_SCALAR_FIELDS :: "string \<Rightarrow> RuleFormValues scalar_field list" where
  "RULE_SCALAR_FIELDS family =
     [(rf_action, [''action'']),
      (rf_jumpTarget, [''jump-target'']),
      (rf_protocol, [''protocol'']),
      (rf_description, [''description'']),
      (\<lambda>v. mf_address (rf_source v), [''source'', ''address'']),
      (\<lambda>v. mf_port (rf_source v), [''source'', ''port'']),
      (\<lambda>v. mf_macAddress (rf_source v), [''source'', ''mac-address'']),
      (\<lambda>v. mf_addressGroup (rf_source v), [''source'', ''group'', ''address-group'']),
      (\<lambda>v. mf_networkGroup (rf_source v), [''source'', ''group'', ''network-group'']),
      (\<lambda>v. mf_portGroup (rf_source v), [''source'', ''group'', ''port-group'']),
      (\<lambda>v. mf_macGroup (rf_source v), [''source'', ''group'', ''mac-group'']),
      (\<lambda>v. mf_domainGroup (rf_source v), [''source'', ''group'', ''domain-group'']),
      (\<lambda>v. mf_address (rf_destination v), [''destination'', ''address'']),
      (\<lambda>v. mf_port (rf_destination v), [''destination'', ''port'']),
      (\<lambda>v. mf_addressGroup (rf_destination v), [''destination'', ''group'', ''address-group'']),
      (\<lambda>v. mf_networkGroup (rf_destination v), [''destination'', ''group'', ''network-group'']),
      (\<lambda>v. mf_portGroup (rf_destination v), [''destination'', ''group'', ''port-group'']),
      (\<lambda>v. mf_macGroup (rf_destination v), [''destination'', ''group'', ''mac-group'']),
      (\<lambda>v. mf_domainGroup (rf_destination v), [''destination'', ''group'', ''domain-group'']),
      (rf_inboundInterface, [''inbound-interface'', ''name'']),
      (rf_outboundInterface, [''outbound-interface'', ''name'']),
      (rf_icmpTypeName, [if family = ''ipv6'' then ''icmpv6'' else ''icmp'', ''type-name''])]"

definition RULE_FLAG_FIELDS :: "RuleFormValues flag_field list" where
  "RULE_FLAG_FIELDS = [(rf_disabled, [''disable'']), (rf_log, [''log''])]"

definition ruleFormToOps ::
    "RulesetRef \<Rightarrow> string \<Rightarrow> FirewallRule option \<Rightarrow> RuleFormValues \<Rightarrow> ConfigOp list" where
  "ruleFormToOps ref ruleNumber before values =
     (let beforeValues = (case before of Some r \<Rightarrow> ruleToFormValues r | None \<Rightarrow> blankRuleFormValues)
      in diffToOps (rulePath ref ruleNumber []) (RULE_SCALAR_FIELDS (rr_family ref)) RULE_FLAG_FIELDS
           beforeValues values)"

lemmas firewall_form_defs =
  parseRule_def parseMatch_def ruleToFormValues_def matchToFormValues_def Let_def

lemma rulesetPath_append: "rulesetPath ref rest = rulesetPath ref [] @ rest"
  by (cases "rr_kind ref") (simp_all add: rulesetPath_def)

lemma rulePath_append: "rulePath ref n rest = rulePath ref n [] @ rest"
  by (metis append.assoc append_Nil2 rulePath_def rulesetPath_append)

lemma rulesetPath_not_Nil [simp]: "rulesetPath ref rest \<noteq> []"
  by (cases "rr_kind ref") (simp_all add: rulesetPath_def)

lemma rulePath_not_Nil [simp]: "rulePath ref n rest \<noteq> []"
  by (simp add: rulePath_def)

lemma rule_fields_indep:
  "indep_all (map snd (RULE_SCALAR_FIELDS family) @ map snd RULE_FLAG_FIELDS)"
  by (simp add: RULE_SCALAR_FIELDS_def RULE_FLAG_FIELDS_def)

lemma blank_rule: "blankRuleFormValues = ruleToFormValues (parseRule family n None)"
  by (simp add: firewall_form_defs blankRuleFormValues_def blankMatch_def find_literal_def)

lemma rule_form_reads:
  "reads (RULE_SCALAR_FIELDS family) RULE_FLAG_FIELDS t v \<Longrightarrow>
     read_str (child t ''action'') \<in> set ('''' # RULE_ACTIONS) \<Longrightarrow>
     ruleToFormValues (parseRule family n t)
       = v\<lparr>rf_destination := (rf_destination v)
             \<lparr>mf_macAddress := read_str (child (child t ''destination'') ''mac-address'')\<rparr>\<rparr>"
  by (auto simp: reads_def RULE_SCALAR_FIELDS_def RULE_FLAG_FIELDS_def firewall_form_defs
        icmpNodeName_def)

lemma rule_reads_form:
  "read_str (child t ''action'') \<in> set ('''' # RULE_ACTIONS) \<Longrightarrow>
     reads (RULE_SCALAR_FIELDS family) RULE_FLAG_FIELDS t (ruleToFormValues (parseRule family n t))"
  by (auto simp: reads_def RULE_SCALAR_FIELDS_def RULE_FLAG_FIELDS_def firewall_form_defs
        icmpNodeName_def)

definition device_rule :: "RulesetRef \<Rightarrow> string \<Rightarrow> node_map \<Rightarrow> FirewallRule option" where
  "device_rule ref n m =
     map_option (\<lambda>r. parseRule (rr_family ref) n (Some r)) (device_get m (rulePath ref n []))"

lemma device_rule_values:
  "(case device_rule ref n m of Some r \<Rightarrow> ruleToFormValues r | None \<Rightarrow> blankRuleFormValues)
     = ruleToFormValues (parseRule (rr_family ref) n (device_get m (rulePath ref n [])))"
  by (cases "device_get m (rulePath ref n [])") (simp_all add: device_rule_def blank_rule [of "rr_family ref" n])

lemma firewall_form_saved:
  assumes "trimmed_form (RULE_SCALAR_FIELDS (rr_family ref)) v"
    and "rf_action v \<in> set ('''' # RULE_ACTIONS)"
    and "read_str (device_get m (rulePath ref n [''action''])) \<in> set ('''' # RULE_ACTIONS)"
  shows "ruleToFormValues (parseRule (rr_family ref) n
           (device_get (device_apply (ruleFormToOps ref n (device_rule ref n m) v) m) (rulePath ref n [])))
         = v\<lparr>rf_destination := (rf_destination v)
              \<lparr>mf_macAddress :=
                 read_str (device_get m (rulePath ref n [''destination'', ''mac-address'']))\<rparr>\<rparr>"
proof -
  let ?p = "rulePath ref n []" and ?f = "rr_family ref"
  let ?b = "ruleToFormValues (parseRule ?f n (device_get m ?p))"
  let ?m = "device_apply (ruleFormToOps ref n (device_rule ref n m) v) m"
  have ops: "ruleFormToOps ref n (device_rule ref n m) v
      = diffToOps ?p (RULE_SCALAR_FIELDS ?f) RULE_FLAG_FIELDS ?b v"
    by (simp add: ruleFormToOps_def device_rule_values)
  have act: "read_str (child (device_get m ?p) ''action'') \<in> set ('''' # RULE_ACTIONS)"
    using assms(3) by (subst (asm) rulePath_append) (simp only: device_get_append tree_get_Cons tree_get_Nil)
  have new: "reads (RULE_SCALAR_FIELDS ?f) RULE_FLAG_FIELDS (device_get ?m ?p) v"
    unfolding ops
    by (rule form_applied [OF rule_fields_indep _ rule_reads_form [OF act] assms(1)])
       (simp add: RULE_SCALAR_FIELDS_def RULE_FLAG_FIELDS_def)
  have mac: "device_get ?m (rulePath ref n [''destination'', ''mac-address''])
      = device_get m (rulePath ref n [''destination'', ''mac-address''])"
    unfolding ops
    by (rule form_frame, subst rulePath_append)
       (simp add: RULE_SCALAR_FIELDS_def RULE_FLAG_FIELDS_def)
  have "read_str (child (device_get ?m ?p) ''action'') = rf_action v"
    using new by (simp add: reads_def RULE_SCALAR_FIELDS_def)
  then have "ruleToFormValues (parseRule ?f n (device_get ?m ?p))
      = v\<lparr>rf_destination := (rf_destination v)
           \<lparr>mf_macAddress := read_str (child (child (device_get ?m ?p) ''destination'') ''mac-address'')\<rparr>\<rparr>"
    using rule_form_reads [OF new] assms(2) by simp
  also have "child (child (device_get ?m ?p) ''destination'') ''mac-address''
      = device_get ?m (rulePath ref n [''destination'', ''mac-address''])"
    by (subst (2) rulePath_append) (simp only: device_get_append tree_get_Cons tree_get_Nil)
  finally show ?thesis by (simp only: mac)
qed

text \<open>
  C3. The rule form round trip. Take the form of the rule the device has at a rule number (a
  blank form when it has none), let the user edit it into any trimmed values with a known action,
  and apply the ops the form queues: the device then parses back to exactly the edited values.
  The one input the form does not write is the destination MAC address, which stays as the
  device has it.
\<close>

theorem firewall_form_roundtrip:
  assumes "trimmed_form (RULE_SCALAR_FIELDS (rr_family ref)) v"
    and "rf_action v \<in> set ('''' # RULE_ACTIONS)"
    and "read_str (device_get m (rulePath ref n [''action''])) \<in> set ('''' # RULE_ACTIONS)"
  shows "ruleToFormValues (parseRule (rr_family ref) n
           (device_get (device_apply (ruleFormToOps ref n (device_rule ref n m) v) m) (rulePath ref n [])))
         = v\<lparr>rf_destination := (rf_destination v)
              \<lparr>mf_macAddress :=
                 read_str (device_get m (rulePath ref n [''destination'', ''mac-address'']))\<rparr>\<rparr>"
  by (rule firewall_form_saved [OF assms])

end
