(* ===== verification/FirewallReorder.thy ===== *)
theory FirewallReorder
  imports Firewall
begin

text \<open>
  Drag-and-drop reordering of firewall rules (\<open>lib/firewallRuleForm.ts\<close>): the number picked for the
  moved rule, the fallback that renumbers every rule, and the replay of a rule's raw subtree as
  \<open>set\<close> ops. The main result is \<open>reorder_device\<close>: applied to the device, the ops make it show
  the rules in the requested order, each with its subtree intact.
\<close>

definition idealNumberBetween :: "jsnum option \<Rightarrow> jsnum option \<Rightarrow> jsnum option" where
  "idealNumberBetween prev next =
     (case (prev, next) of
        (None, None) \<Rightarrow> None
      | (None, Some n) \<Rightarrow> if js_le n (Num 1) then None else Some (js_floor (js_half n))
      | (Some p, None) \<Rightarrow> Some (js_add p (Num 10))
      | (Some p, Some n) \<Rightarrow>
          if js_le (js_sub n p) (Num 1) then None
          else Some (js_add p (js_floor (js_half (js_sub n p)))))"

definition moveItem :: "'a list \<Rightarrow> nat \<Rightarrow> nat \<Rightarrow> 'a list" where
  "moveItem arr fromIndex toIndex =
     (let rest = take fromIndex arr @ drop (Suc fromIndex) arr
      in take toIndex rest @ (arr ! fromIndex) # drop toIndex rest)"

text \<open>\<open>Object.entries\<close> of an empty object gives the flag node; arrays are multi-value leaves.\<close>

function subtreeToSetOps :: "path \<Rightarrow> json \<Rightarrow> ConfigOp list" where
  "subtreeToSetOps p JNull = [set_op p (js_String JNull)]"
| "subtreeToSetOps p (JBool b) = [set_op p (js_String (JBool b))]"
| "subtreeToSetOps p (JNum n) = [set_op p (js_String (JNum n))]"
| "subtreeToSetOps p (JStr s) = [set_op p (js_String (JStr s))]"
| "subtreeToSetOps p (JArr xs) = map (\<lambda>v. set_op p (js_String v)) xs"
| "subtreeToSetOps p (JObj es) =
     (if es = [] then [set_flag p]
      else concat (map (\<lambda>(key, value). subtreeToSetOps (p @ [key]) value) es))"
  by pat_completeness auto
termination
proof (relation "measure (\<lambda>(p, j). size j)")
  fix p :: path and es x and k :: string and v :: json
  assume "x \<in> set es" and "(k, v) = x"
  then have "size v < size (JObj es)"
    by (induction es) auto
  then show "((p @ [k], v), p, JObj es) \<in> measure (\<lambda>(p, j). size j)" by simp
qed simp

definition number_at :: "FirewallRule list \<Rightarrow> int \<Rightarrow> jsnum option" where
  "number_at rules i =
     (if 0 \<le> i \<and> i < int (length rules) then Some (js_number (fr_number (rules ! nat i))) else None)"

definition reorderRuleOps ::
    "RulesetRef \<Rightarrow> FirewallRule list \<Rightarrow> int \<Rightarrow> int \<Rightarrow> ConfigOp list" where
  "reorderRuleOps ref rules fromIndex toIndex =
     (if fromIndex = toIndex \<or> fromIndex < 0 \<or> fromIndex \<ge> int (length rules)
         \<or> toIndex < 0 \<or> toIndex \<ge> int (length rules) then []
      else
        (let reordered = moveItem rules (nat fromIndex) (nat toIndex);
             prevNumber = number_at reordered (toIndex - 1);
             nextNumber = number_at reordered (toIndex + 1);
             changes =
               (case idealNumberBetween prevNumber nextNumber of
                  Some idealNumber \<Rightarrow> [(reordered ! nat toIndex, js_num_str idealNumber)]
                | None \<Rightarrow>
                    filter (\<lambda>(rule, newNumber). fr_number rule \<noteq> newNumber)
                      (map (\<lambda>(i, rule). (rule, js_num_str (Num (of_nat ((i + 1) * 10)))))
                        (enumerate 0 reordered)))
         in map (\<lambda>(rule, newNumber). delete_op (rulePath ref (fr_number rule) [])) changes
            @ concat (map (\<lambda>(rule, newNumber).
                (case fr_raw rule of
                   Some raw \<Rightarrow> subtreeToSetOps (rulePath ref newNumber []) raw
                 | None \<Rightarrow> ruleFormToOps ref newNumber None (ruleToFormValues rule))) changes)))"

subsection \<open>Ops below a node act on the node's map\<close>

definition prefix_op :: "path \<Rightarrow> ConfigOp \<Rightarrow> ConfigOp" where
  "prefix_op b op = op\<lparr>co_path := b @ co_path op\<rparr>"

lemma prefix_op_simps [simp]:
  "prefix_op b (set_op p v) = set_op (b @ p) v" "prefix_op b (set_flag p) = set_flag (b @ p)"
  "prefix_op b (delete_op p) = delete_op (b @ p)"
  by (simp_all add: prefix_op_def op_defs)

lemma setNested_append:
  "p \<noteq> [] \<Longrightarrow> setNested (k # p) v m = AList.update k (JObj (setNested p v (as_map (map_of m k)))) m"
  by (cases p) auto

lemma deleteNested_append:
  "p \<noteq> [] \<Longrightarrow> map_of m k = Some (JObj n) \<Longrightarrow>
     deleteNested (k # p) m = AList.update k (JObj (deleteNested p n)) m"
  by (cases p) auto

lemma device_get_JObj:
  assumes "device_get m (k # b) = Some (JObj R)"
  obtains n where "map_of m k = Some (JObj n)" "device_get n b = Some (JObj R)"
proof (cases b)
  case Nil
  then show ?thesis using assms that by (simp add: device_get_tree)
next
  case (Cons c cs)
  then have "child (map_of m k) c \<noteq> None" using assms by (cases "child (map_of m k) c") auto
  then obtain n where "map_of m k = Some (JObj n)"
    by (auto simp: child_def split: option.splits json.splits)
  then show ?thesis using assms that by (simp add: device_get_tree)
qed

lemma setNested_focus:
  "device_get m b = Some (JObj R) \<Longrightarrow> p \<noteq> [] \<Longrightarrow>
     device_get (setNested (b @ p) v m) b = Some (JObj (setNested p v R))"
proof (induction b arbitrary: m)
  case (Cons k b)
  from Cons.prems(1) obtain n where n: "map_of m k = Some (JObj n)" "device_get n b = Some (JObj R)"
    by (rule device_get_JObj)
  then show ?case using Cons.IH [OF n(2) Cons.prems(2)] Cons.prems(2)
    by (simp add: setNested_append as_map_def map_of_AList_update device_get_tree)
qed (simp add: device_get_tree)

lemma deleteNested_focus:
  "device_get m b = Some (JObj R) \<Longrightarrow> p \<noteq> [] \<Longrightarrow>
     device_get (deleteNested (b @ p) m) b = Some (JObj (deleteNested p R))"
proof (induction b arbitrary: m)
  case (Cons k b)
  from Cons.prems(1) obtain n where n: "map_of m k = Some (JObj n)" "device_get n b = Some (JObj R)"
    by (rule device_get_JObj)
  then show ?case using Cons.IH [OF n(2) Cons.prems(2)] Cons.prems(2)
    by (simp add: deleteNested_append map_of_AList_update device_get_tree)
qed (simp add: device_get_tree)

lemma device_apply_focus:
  "device_get m b = Some (JObj R) \<Longrightarrow> \<forall>op \<in> set ops. co_path op \<noteq> [] \<Longrightarrow>
     device_get (device_apply (map (prefix_op b) ops) m) b = Some (JObj (device_apply ops R))"
proof (induction ops arbitrary: m R)
  case (Cons op ops)
  show ?case
  proof (cases "co_op op")
    case Set_op
    with Cons show ?thesis
      by (simp add: apply_op_def prefix_op_def setNested_focus)
  next
    case Delete_op
    with Cons show ?thesis
      by (simp add: apply_op_def prefix_op_def deleteNested_focus)
  next
    case Comment_op
    with Cons show ?thesis
      by (simp add: apply_op_def prefix_op_def)
  qed
qed simp

subsection \<open>Replaying a subtree\<close>

text \<open>
  A subtree the device can hold after single-valued \<open>set\<close> ops: nonempty leaf values, distinct keys.
\<close>

fun plain :: "json \<Rightarrow> bool" where
  "plain (JStr s) \<longleftrightarrow> s \<noteq> ''''"
| "plain (JObj es) \<longleftrightarrow> distinct (map fst es) \<and> (\<forall>e \<in> set es. plain (snd e))"
| "plain _ \<longleftrightarrow> False"

lemma subtreeToSetOps_prefix:
  "subtreeToSetOps (b @ p) j = map (prefix_op b) (subtreeToSetOps p j)"
proof (induction p j rule: subtreeToSetOps.induct)
  case (6 p es)
  have "map (\<lambda>(key, value). subtreeToSetOps (b @ p @ [key]) value) es
      = map (map (prefix_op b) \<circ> (\<lambda>(key, value). subtreeToSetOps (p @ [key]) value)) es"
  proof (rule map_cong [OF refl])
    fix e assume e: "e \<in> set es"
    obtain k v where kv: "e = (k, v)" by fastforce
    then have ne: "es \<noteq> []" using e by auto
    from "6.IH" [OF ne e kv [symmetric]] kv
    show "(case e of (key, value) \<Rightarrow> subtreeToSetOps (b @ p @ [key]) value)
        = (map (prefix_op b) \<circ> (\<lambda>(key, value). subtreeToSetOps (p @ [key]) value)) e"
      by simp
  qed
  then show ?case
    by (cases "es = []", simp) (simp_all only: append_assoc subtreeToSetOps.simps map_concat map_map
          if_True if_False list.simps prefix_op_simps)
qed (auto simp: comp_def)

lemma subtreeToSetOps_set:
  "op \<in> set (subtreeToSetOps p j) \<Longrightarrow> co_op op = Set_op \<and> (\<exists>q. co_path op = p @ q)"
proof (induction p j arbitrary: op rule: subtreeToSetOps.induct)
  case (6 p es)
  show ?case
  proof (cases "es = []")
    case True
    then show ?thesis using "6.prems" by (simp add: op_defs)
  next
    case False
    with "6.prems" obtain k v where kv: "(k, v) \<in> set es" "op \<in> set (subtreeToSetOps (p @ [k]) v)"
      by auto
    from "6.IH" [OF False kv(1) refl kv(2)] show ?thesis by auto
  qed
qed (auto simp: op_defs)

lemma plain_ops_not_Nil: "plain j \<Longrightarrow> subtreeToSetOps p j \<noteq> []"
proof (induction p j rule: subtreeToSetOps.induct)
  case (6 p es)
  show ?case
  proof (cases es)
    case (Cons e es')
    obtain k v where kv: "e = (k, v)" by fastforce
    have "subtreeToSetOps (p @ [k]) v \<noteq> []"
      by (rule "6.IH" [of e k v]) (use Cons kv "6.prems" in auto)
    then show ?thesis using Cons kv by simp
  qed simp
qed auto

lemma update_append: "k \<notin> fst ` set R \<Longrightarrow> AList.update k v (R @ S) = R @ AList.update k v S"
  by (induction R) auto

lemma map_of_append_fresh: "k \<notin> fst ` set R \<Longrightarrow> map_of (R @ S) k = map_of S k"
  by (induction R) auto

lemma set_ops_below_fresh:
  assumes "k \<notin> fst ` set R" and "\<forall>op \<in> set ops. co_op op = Set_op \<and> co_path op \<noteq> []"
  shows "device_apply (map (prefix_op [k]) ops) (R @ [(k, JObj n)]) = R @ [(k, JObj (device_apply ops n))]"
  using assms(2)
proof (induction ops arbitrary: n)
  case (Cons op ops)
  then show ?case using assms(1)
    by (simp add: apply_op_def prefix_op_def setNested_append as_map_def map_of_append_fresh
          update_append del: map_of_append)
qed simp

lemma set_ops_fresh:
  assumes "k \<notin> fst ` set R" and "\<forall>op \<in> set ops. co_op op = Set_op \<and> co_path op \<noteq> []"
    and "ops \<noteq> []"
  shows "device_apply (map (prefix_op [k]) ops) R = R @ [(k, JObj (device_apply ops []))]"
proof (cases ops)
  case (Cons op ops')
  have "map_of R k = None" using assms(1) by (simp add: map_of_eq_None_iff)
  then have "apply_op setNested deleteNested (prefix_op [k] op) R
      = R @ [(k, JObj (apply_op setNested deleteNested op []))]"
    using Cons assms update_append [of k R _ "[]"]
    by (simp add: apply_op_def prefix_op_def setNested_append as_map_def)
  then show ?thesis using Cons assms set_ops_below_fresh [of k R ops'] by simp
qed (use assms in simp)

lemma replay_entries:
  assumes "\<And>e acc. e \<in> set es \<Longrightarrow> fst e \<notin> fst ` set acc \<Longrightarrow>
      device_apply (subtreeToSetOps [fst e] (snd e)) acc = acc @ [e]"
    and "distinct (map fst es)" and "fst ` set es \<inter> fst ` set acc = {}"
  shows "device_apply (concat (map (\<lambda>(key, value). subtreeToSetOps [key] value) es)) acc = acc @ es"
  using assms
proof (induction es arbitrary: acc)
  case (Cons e es)
  have "device_apply (subtreeToSetOps [fst e] (snd e)) acc = acc @ [e]"
    using Cons.prems by simp
  moreover have "device_apply (concat (map (\<lambda>(key, value). subtreeToSetOps [key] value) es)) (acc @ [e])
      = (acc @ [e]) @ es"
  proof (rule Cons.IH)
    show "fst ` set es \<inter> fst ` set (acc @ [e]) = {}" using Cons.prems by auto
  qed (use Cons.prems in simp_all)
  ultimately show ?case by (cases e) simp
qed simp

lemma replay_subtree:
  "plain j \<Longrightarrow> k \<notin> fst ` set R \<Longrightarrow> device_apply (subtreeToSetOps [k] j) R = R @ [(k, j)]"
proof (induction j arbitrary: k R)
  case (JStr s)
  then show ?case using update_append [of k R _ "[]"] by simp
next
  case (JObj es)
  have map: "map_of R k = None" using JObj.prems(2) by (simp add: map_of_eq_None_iff)
  show ?case
  proof (cases "es = []")
    case True
    then show ?thesis using JObj.prems map update_append [of k R _ "[]"] by simp
  next
    case False
    let ?sub = "concat (map (\<lambda>(key, value). subtreeToSetOps [key] value) es)"
    have split: "subtreeToSetOps [k] (JObj es) = map (prefix_op [k]) ?sub"
      using False subtreeToSetOps_prefix [of "[k]"]
      by (auto simp: map_concat intro!: arg_cong [where f = concat])
    have "?sub \<noteq> []" using False JObj.prems(1) plain_ops_not_Nil by (cases es) auto
    moreover have "\<forall>op \<in> set ?sub. co_op op = Set_op \<and> co_path op \<noteq> []"
      using subtreeToSetOps_set by fastforce
    moreover have "device_apply ?sub [] = [] @ es"
    proof (rule replay_entries)
      fix e acc assume e: "e \<in> set es" "fst e \<notin> fst ` set (acc :: node_map)"
      have "snd e \<in> Basic_BNFs.snds e" by (cases e) simp
      with e JObj.prems show "device_apply (subtreeToSetOps [fst e] (snd e)) acc = acc @ [e]"
        using JObj.IH [of e "snd e" "fst e" acc] by simp
    qed (use JObj.prems in simp_all)
    ultimately show ?thesis using set_ops_fresh [of k R ?sub] JObj.prems(2)
      unfolding split append_Nil by metis
  qed
qed simp_all

subsection \<open>Rule numbers\<close>

definition rule_no :: "FirewallRule \<Rightarrow> nat" where
  "rule_no r = or_else (dec_nat (fr_number r)) 0"

text \<open>Rule numbers as VyOS accepts and prints them.\<close>

definition numbered :: "FirewallRule list \<Rightarrow> bool" where
  "numbered rules \<longleftrightarrow>
     (\<forall>r \<in> set rules. fr_number r = nat_str (rule_no r) \<and> 0 < rule_no r \<and> rule_no r \<le> 999999)"

lemma idealNumberBetween_nat:
  "idealNumberBetween (map_option (\<lambda>n. Num (of_nat n)) a) (map_option (\<lambda>n. Num (of_nat n)) b)
   = map_option (\<lambda>n. Num (of_nat n))
      (case (a, b) of
         (None, None) \<Rightarrow> None
       | (None, Some n) \<Rightarrow> if n \<le> 1 then None else Some (n div 2)
       | (Some p, None) \<Rightarrow> Some (p + 10)
       | (Some p, Some n) \<Rightarrow> if n \<le> p + 1 then None else Some (p + (n - p) div 2))"
proof -
  have half: "(of_int \<lfloor>(of_nat n :: rat) / 2\<rfloor> :: rat) = of_nat (n div 2)" for n
    by (simp add: floor_divide_of_nat_eq [of n 2, simplified])
  have sub: "(of_nat n :: rat) - of_nat p = of_nat (n - p)" if "p \<le> n" for n p
    using that by (simp add: of_nat_diff)
  have le: "(of_nat n :: rat) - of_nat p \<le> 1 \<longleftrightarrow> n \<le> p + 1" for n p
  proof -
    have "(of_nat n :: rat) - of_nat p \<le> 1 \<longleftrightarrow> (of_nat n :: rat) \<le> of_nat (p + 1)" by auto
    also have "\<dots> \<longleftrightarrow> n \<le> p + 1" by (rule of_nat_le_iff)
    finally show ?thesis .
  qed
  have one: "(of_nat n :: rat) \<le> 1 \<longleftrightarrow> n \<le> 1" for n
    using of_nat_le_iff [of n 1, where 'a = rat] by simp
  have num: "js_sub (Num x) (Num y) = Num (x - y)" "js_add (Num x) (Num y) = Num (x + y)"
    "js_le (Num x) (Num y) = (x \<le> y)" "js_half (Num x) = Num (x / 2)"
    "js_floor (Num x) = Num (of_int \<lfloor>x\<rfloor>)" for x y
    by (simp_all add: js_sub_def js_add_def js_neg_def js_le_def js_half_def js_floor_def)
  show ?thesis
  proof (cases a)
    case None
    show ?thesis by (cases b) (simp_all only: None idealNumberBetween_def num half one option.simps
          prod.case if_distrib [of "map_option _"])
  next
    case (Some p)
    show ?thesis
    proof (cases b)
      case None
      then show ?thesis by (simp add: Some idealNumberBetween_def num)
    next
      case (Some n)
      show ?thesis
      proof (cases "n \<le> p + 1")
        case True
        then show ?thesis using \<open>a = Some p\<close> Some le [of n p]
          by (simp only: idealNumberBetween_def num option.simps prod.case if_True)
      next
        case False
        then have "p \<le> n" by simp
        then show ?thesis using \<open>a = Some p\<close> Some le [of n p] False
          by (simp only: idealNumberBetween_def num option.simps prod.case if_False sub half
                of_nat_add)
      qed
    qed
  qed
qed

text \<open>An integer strictly between the neighbours, above zero.\<close>

lemma idealNumber_between:
  assumes "idealNumberBetween (map_option (\<lambda>n. Num (of_nat n)) a) (map_option (\<lambda>n. Num (of_nat n)) b)
      = Some x"
  obtains n where "x = Num (of_nat n)" "0 < n" "\<And>p. a = Some p \<Longrightarrow> p < n" "\<And>q. b = Some q \<Longrightarrow> n < q"
    "n \<le> or_else b (or_else a 0 + 10)"
proof -
  from assms [unfolded idealNumberBetween_nat] obtain n where n: "x = Num (of_nat n)"
    "(case (a, b) of (None, None) \<Rightarrow> None
       | (None, Some n) \<Rightarrow> if n \<le> 1 then None else Some (n div 2)
       | (Some p, None) \<Rightarrow> Some (p + 10)
       | (Some p, Some n) \<Rightarrow> if n \<le> p + 1 then None else Some (p + (n - p) div 2)) = Some n"
    by blast
  show thesis
    by (rule that [OF n(1)]) (use n(2) in \<open>auto split: option.splits if_splits\<close>)
qed

lemma sorted_insert_between:
  assumes "sorted_wrt (<) (xs @ ys)" "xs \<noteq> [] \<Longrightarrow> last xs < x" "ys \<noteq> [] \<Longrightarrow> x < hd ys"
  shows "sorted_wrt (<) (xs @ x # ys :: nat list)"
proof -
  have "\<forall>a \<in> set xs. a < x"
  proof (cases "xs = []")
    case False
    then obtain zs z where z: "xs = zs @ [z]" by (metis rev_exhaust)
    then show ?thesis using assms by (auto simp: sorted_wrt_append dest: less_trans)
  qed simp
  moreover have "\<forall>b \<in> set ys. x < b"
    using assms by (cases ys) (auto simp: sorted_wrt_append dest: less_trans)
  ultimately show ?thesis using assms(1) by (auto simp: sorted_wrt_append)
qed

subsection \<open>Moving an item\<close>

lemma mset_moveItem: "i < length xs \<Longrightarrow> mset (moveItem xs i j) = mset xs"
proof -
  assume i: "i < length xs"
  let ?rest = "take i xs @ drop (Suc i) xs"
  have "mset (moveItem xs i j) = add_mset (xs ! i) (mset (take j ?rest) + mset (drop j ?rest))"
    by (simp only: moveItem_def Let_def mset_append mset.simps union_mset_add_mset_right)
  also have "mset (take j ?rest) + mset (drop j ?rest) = mset ?rest"
    by (metis append_take_drop_id mset_append)
  also have "add_mset (xs ! i) (mset ?rest) = mset (take i xs @ xs ! i # drop (Suc i) xs)" by simp
  also have "\<dots> = mset xs" using i by (simp only: id_take_nth_drop [symmetric])
  finally show ?thesis .
qed

lemma length_moveItem: "i < length xs \<Longrightarrow> length (moveItem xs i j) = length xs"
  using mset_moveItem mset_eq_length by blast

text \<open>The item lands at its target, the others keep their order.\<close>

lemma moveItem_split:
  assumes "i < length xs" "j < length xs"
  obtains as bs where "moveItem xs i j = as @ xs ! i # bs" "length as = j"
    "as @ bs = take i xs @ drop (Suc i) xs"
proof
  let ?rest = "take i xs @ drop (Suc i) xs"
  show "moveItem xs i j = take j ?rest @ xs ! i # drop j ?rest"
    by (simp only: moveItem_def Let_def)
  show "length (take j ?rest) = j" using assms by simp
qed (rule append_take_drop_id)

subsection \<open>Renumbering on the device\<close>

lemma device_delete_keys:
  "device_apply (map (\<lambda>k. delete_op [k]) ks) R = filter (\<lambda>e. fst e \<notin> set ks) R"
proof (induction ks arbitrary: R)
  case (Cons k ks)
  have "AList.delete k R = filter (\<lambda>e. fst e \<noteq> k) R" by (auto simp: AList.delete_eq intro: filter_cong)
  with Cons show ?case by (auto simp: filter_filter intro: filter_cong)
qed simp

lemma device_replay_list:
  assumes "distinct (map fst (R @ xs))" and "\<forall>x \<in> set xs. plain (snd x)"
  shows "device_apply (concat (map (\<lambda>(k, j). subtreeToSetOps [k] j) xs)) R = R @ xs"
  using assms
proof (induction xs arbitrary: R)
  case (Cons x xs)
  obtain k j where x: "x = (k, j)" by fastforce
  have "device_apply (subtreeToSetOps [k] j) R = R @ [(k, j)]"
    by (rule replay_subtree) (use Cons.prems x in auto)
  moreover have "device_apply (concat (map (\<lambda>(k, j). subtreeToSetOps [k] j) xs)) (R @ [(k, j)])
      = (R @ [(k, j)]) @ xs"
    by (rule Cons.IH) (use Cons.prems x in auto)
  ultimately show ?case using x by simp
qed simp

text \<open>
  Renumbering in the abstract: each element of \<open>zs\<close> has an old entry and a new key; the pairs selected by
  \<open>P\<close> are deleted and recreated, and the others already have their number.
\<close>

lemma renumber_mset:
  fixes R :: node_map and old :: "'z \<Rightarrow> string \<times> json" and new :: "'z \<Rightarrow> string"
  assumes R: "mset R = mset (map old zs)" and d: "distinct (map fst R)"
    and P: "\<And>z. z \<in> set zs \<Longrightarrow> \<not> P z \<Longrightarrow> fst (old z) = new z"
  shows "mset (filter (\<lambda>e. fst e \<notin> set (map (\<lambda>z. fst (old z)) (filter P zs))) R
           @ map (\<lambda>z. (new z, snd (old z))) (filter P zs))
         = mset (map (\<lambda>z. (new z, snd (old z))) zs)"
proof -
  let ?old = "set (map (\<lambda>z. fst (old z)) (filter P zs))"
  have d': "distinct (map (\<lambda>z. fst (old z)) zs)"
  proof -
    have "mset (map fst R) = mset (map (\<lambda>z. fst (old z)) zs)"
      using R by (simp add: image_mset.compositionality comp_def)
    then show ?thesis using d mset_eq_imp_distinct_iff by blast
  qed
  then have inj: "z = y" if "z \<in> set zs" "y \<in> set zs" "fst (old z) = fst (old y)" for z y
    using that by (metis (mono_tags, lifting) distinct_map inj_onD)
  have iff: "fst (old z) \<notin> ?old \<longleftrightarrow> \<not> P z" if "z \<in> set zs" for z
  proof
    assume "\<not> P z"
    then show "fst (old z) \<notin> ?old" using inj [OF that] by auto
  qed (use that in auto)
  have "mset (filter (\<lambda>e. fst e \<notin> ?old) R) = mset (filter (\<lambda>e. fst e \<notin> ?old) (map old zs))"
    using R by (metis mset_filter)
  also have "filter (\<lambda>e. fst e \<notin> ?old) (map old zs) = map old (filter (\<lambda>z. fst (old z) \<notin> ?old) zs)"
    by (simp only: filter_map comp_def)
  also have "filter (\<lambda>z. fst (old z) \<notin> ?old) zs = filter (\<lambda>z. \<not> P z) zs"
    by (rule filter_cong [OF refl]) (rule iff)
  also have "map old (filter (\<lambda>z. \<not> P z) zs) = map (\<lambda>z. (new z, snd (old z))) (filter (\<lambda>z. \<not> P z) zs)"
    by (rule map_cong [OF refl]) (use P in \<open>auto simp: prod_eq_iff\<close>)
  finally have keep: "mset (filter (\<lambda>e. fst e \<notin> ?old) R)
      = mset (map (\<lambda>z. (new z, snd (old z))) (filter (\<lambda>z. \<not> P z) zs))" .
  have "mset (filter (\<lambda>z. \<not> P z) zs @ filter P zs) = mset zs"
    by (simp add: multiset_partition [symmetric] union_commute)
  then have "mset (map (\<lambda>z. (new z, snd (old z))) (filter (\<lambda>z. \<not> P z) zs @ filter P zs))
      = mset (map (\<lambda>z. (new z, snd (old z))) zs)"
    unfolding mset_map by (rule arg_cong)
  then show ?thesis by (simp only: mset_append map_append keep)
qed

text \<open>Sorting by distinct keys gives the one permutation in strictly ascending order.\<close>

lemma js_sort_unique:
  fixes f :: "'a \<Rightarrow> nat"
  assumes c: "\<And>a b. a \<in> set ys \<Longrightarrow> b \<in> set ys \<Longrightarrow>
      c a b = (if f a < f b then -1 else if f b < f a then 1 else 0)"
    and m: "mset xs = mset ys" and s: "sorted_wrt (<) (map f ys)"
  shows "js_sort c xs = ys"
proof -
  let ?d = "\<lambda>a b. if f a < f b then -1 else if f b < f a then 1 else 0 :: int"
  have set: "set xs = set ys" using m by (metis set_mset_mset)
  have cd: "js_sort c xs = js_sort ?d xs"
    by (rule js_sort_cong) (use c set in blast)
  have eq: "map f (js_sort ?d xs) = map f ys"
  proof (rule sorted_distinct_set_unique)
    have "consistent ?d" by (auto simp: consistent_def)
    then have "sorted_by ?d (js_sort ?d xs)" by (rule sorted_js_sort)
    then show "sorted (map f (js_sort ?d xs))"
      unfolding sorted_by_def sorted_map
      by (rule sorted_wrt_mono_rel [rotated]) (auto split: if_splits)
    show "distinct (map f (js_sort ?d xs))"
    proof -
      have "mset (map f (js_sort ?d xs)) = mset (map f ys)" using m by simp
      then show ?thesis using s mset_eq_imp_distinct_iff unfolding strict_sorted_iff by blast
    qed
    show "sorted (map f ys)" "distinct (map f ys)" using s by (simp_all add: strict_sorted_iff)
    show "set (map f (js_sort ?d xs)) = set (map f ys)" using set by simp
  qed
  have "inj_on f (set ys)" using s by (simp add: strict_sorted_iff distinct_map)
  then have "inj_on f (set (js_sort ?d xs) \<union> set ys)"
    unfolding set_js_sort set Un_absorb .
  with eq have "js_sort ?d xs = ys" by (rule map_inj_on)
  with cd show ?thesis by (rule trans)
qed

lemma rulePath_rule: "rulePath ref n [] = rulesetPath ref [''rule''] @ [n]"
  by (cases "rr_kind ref") (simp_all add: rulePath_def rulesetPath_def)

lemma parseRules_device:
  "parseRules family (device_get m (rulesetPath ref []))
     = parse_entries (parseRule family) rule_cmp (device_get m (rulesetPath ref [''rule'']))"
  by (subst (2) rulesetPath_append) (simp add: parseRules_def device_get_append)

lemma parseRule_sel [simp]:
  "fr_number (parseRule family k v) = k" "fr_raw (parseRule family k v) = v"
  by (simp_all add: parseRule_def)

lemma rule_cmp_numbered:
  "fr_number a = nat_str (rule_no a) \<Longrightarrow> fr_number b = nat_str (rule_no b) \<Longrightarrow>
     rule_cmp a b = (if rule_no a < rule_no b then -1 else if rule_no b < rule_no a then 1 else 0)"
  by (simp add: rule_cmp_def)

definition renumber_ops :: "RulesetRef \<Rightarrow> (FirewallRule \<times> nat) list \<Rightarrow> ConfigOp list" where
  "renumber_ops ref changes =
     map (\<lambda>(rule, n). delete_op (rulePath ref (fr_number rule) [])) changes
     @ concat (map (\<lambda>(rule, n). subtreeToSetOps (rulePath ref (nat_str n) []) (or_else (fr_raw rule) JNull))
         changes)"

text \<open>
  Renumbering on the device: \<open>zs\<close> pairs the rules, in the order wanted, with ascending numbers, and
  the pairs outside \<open>P\<close> already have their number.
\<close>

lemma renumber_device:
  assumes dev: "device_get m (rulesetPath ref [''rule'']) = Some (JObj R)"
    and dist: "distinct (map fst R)" and plain: "\<forall>e \<in> set R. plain (snd e)"
    and rules: "mset (map fst zs) = mset (map (\<lambda>(k, r). parseRule fam k (Some r)) R)"
    and P: "\<And>r n. (r, n) \<in> set zs \<Longrightarrow> \<not> P (r, n) \<Longrightarrow> fr_number r = nat_str n"
    and asc: "sorted_wrt (<) (map snd zs)"
  shows "parseRules fam (device_get (device_apply (renumber_ops ref (filter P zs)) m) (rulesetPath ref []))
    = map (\<lambda>(r, n). parseRule fam (nat_str n) (fr_raw r)) zs"
proof -
  let ?b = "rulesetPath ref [''rule'']"
  define old where "old z = (fr_number (fst z), or_else (fr_raw (fst z)) JNull)"
    for z :: "FirewallRule \<times> nat"
  define new where "new z = nat_str (snd z)" for z :: "FirewallRule \<times> nat"
  define olds where "olds = map (\<lambda>z. fst (old z)) (filter P zs)"
  define news where "news = map (\<lambda>z. (new z, snd (old z))) (filter P zs)"
  have rule_in: "\<exists>k j. (k, j) \<in> set R \<and> r = parseRule fam k (Some j)" if "(r, n) \<in> set zs" for r n
  proof -
    have "r \<in> set (map fst zs)" using that by force
    then have "r \<in># mset (map fst zs)" by (simp only: set_mset_mset)
    then show ?thesis unfolding rules by auto
  qed
  have R: "mset R = mset (map old zs)"
  proof -
    have "mset (map old zs)
        = image_mset (\<lambda>r. (fr_number r, or_else (fr_raw r) JNull)) (mset (map fst zs))"
      by (simp add: old_def [abs_def] image_mset.compositionality comp_def)
    also have "\<dots> = mset R"
      unfolding rules by (simp add: image_mset.compositionality comp_def case_prod_beta)
    finally show ?thesis ..
  qed
  have plain_news: "\<forall>x \<in> set news. plain (snd x)"
    unfolding news_def old_def using rule_in plain by fastforce
  have m1: "mset (filter (\<lambda>e. fst e \<notin> set olds) R @ news) = mset (map (\<lambda>z. (new z, snd (old z))) zs)"
    unfolding olds_def news_def
    by (rule renumber_mset [OF R dist]) (use P in \<open>auto simp: old_def new_def\<close>)
  have "distinct (map fst (filter (\<lambda>e. fst e \<notin> set olds) R @ news))"
  proof -
    have "mset (map fst (filter (\<lambda>e. fst e \<notin> set olds) R @ news)) = mset (map new zs)"
      unfolding mset_map m1 by (simp add: image_mset.compositionality comp_def)
    moreover have "distinct (map new zs)"
      using asc by (auto simp: new_def strict_sorted_iff distinct_map inj_on_def)
    ultimately show ?thesis using mset_eq_imp_distinct_iff by blast
  qed
  then have replay: "device_apply (concat (map (\<lambda>(k, j). subtreeToSetOps [k] j) news))
      (filter (\<lambda>e. fst e \<notin> set olds) R) = filter (\<lambda>e. fst e \<notin> set olds) R @ news"
    by (rule device_replay_list) (rule plain_news)
  have ops: "renumber_ops ref (filter P zs) = map (prefix_op ?b)
      (map (\<lambda>k. delete_op [k]) olds @ concat (map (\<lambda>(k, j). subtreeToSetOps [k] j) news))"
    unfolding renumber_ops_def olds_def news_def old_def new_def
    by (auto simp: rulePath_rule map_concat subtreeToSetOps_prefix intro!: arg_cong [where f = concat])
  have "device_get (device_apply (renumber_ops ref (filter P zs)) m) ?b
      = Some (JObj (filter (\<lambda>e. fst e \<notin> set olds) R @ news))"
    unfolding ops
    by (subst device_apply_focus [OF dev])
       (use subtreeToSetOps_set in \<open>fastforce simp: op_defs\<close>,
        simp only: device_apply_append device_delete_keys replay)
  then have "parseRules fam (device_get (device_apply (renumber_ops ref (filter P zs)) m) (rulesetPath ref []))
      = js_sort rule_cmp (map (\<lambda>(k, r). parseRule fam k (Some r))
          (filter (\<lambda>e. fst e \<notin> set olds) R @ news))"
    by (simp only: parseRules_device) (simp add: parse_entries_def isRecord_def entries_def)
  also have "\<dots> = map (\<lambda>(r, n). parseRule fam (nat_str n) (fr_raw r)) zs"
  proof (rule js_sort_unique [where f = rule_no])
    have "mset (map (\<lambda>(k, r). parseRule fam k (Some r)) (filter (\<lambda>e. fst e \<notin> set olds) R @ news))
        = mset (map (\<lambda>z. parseRule fam (new z) (Some (snd (old z)))) zs)"
      unfolding mset_map m1 by (simp add: image_mset.compositionality comp_def)
    also have "map (\<lambda>z. parseRule fam (new z) (Some (snd (old z)))) zs
        = map (\<lambda>(r, n). parseRule fam (nat_str n) (fr_raw r)) zs"
      by (rule map_cong [OF refl]) (use rule_in in \<open>fastforce simp: new_def old_def\<close>)
    finally show "mset (map (\<lambda>(k, r). parseRule fam k (Some r)) (filter (\<lambda>e. fst e \<notin> set olds) R @ news))
        = mset (map (\<lambda>(r, n). parseRule fam (nat_str n) (fr_raw r)) zs)" .
    show "sorted_wrt (<) (map rule_no (map (\<lambda>(r, n). parseRule fam (nat_str n) (fr_raw r)) zs))"
      using asc by (simp add: rule_no_def comp_def case_prod_beta)
  qed (auto simp: rule_cmp_def rule_no_def)
  finally show ?thesis .
qed

subsection \<open>The reorder operation\<close>

lemma js_sort_strict:
  fixes f :: "'a \<Rightarrow> nat"
  assumes c: "\<And>a b. a \<in> set xs \<Longrightarrow> b \<in> set xs \<Longrightarrow>
      c a b = (if f a < f b then -1 else if f b < f a then 1 else 0)"
    and d: "distinct (map f xs)"
  shows "sorted_wrt (<) (map f (js_sort c xs))"
proof -
  let ?d = "\<lambda>a b. if f a < f b then -1 else if f b < f a then 1 else 0 :: int"
  have "js_sort c xs = js_sort ?d xs" by (rule js_sort_cong) (rule c)
  moreover have "consistent ?d" by (auto simp: consistent_def)
  then have "sorted_by ?d (js_sort ?d xs)" by (rule sorted_js_sort)
  then have "sorted (map f (js_sort ?d xs))"
    unfolding sorted_by_def sorted_map
    by (rule sorted_wrt_mono_rel [rotated]) (auto split: if_splits)
  moreover have "mset (map f (js_sort ?d xs)) = mset (map f xs)" by simp
  then have "distinct (map f (js_sort ?d xs))" using d mset_eq_imp_distinct_iff by blast
  ultimately show ?thesis by (simp add: strict_sorted_iff)
qed

text \<open>What the reorder theorems assume of the rules on the device.\<close>

definition device_rules :: "RulesetRef \<Rightarrow> node_map \<Rightarrow> FirewallRule list" where
  "device_rules ref m = parseRules (rr_family ref) (device_get m (rulesetPath ref []))"

definition plain_ruleset :: "RulesetRef \<Rightarrow> node_map \<Rightarrow> bool" where
  "plain_ruleset ref m \<longleftrightarrow>
     (case device_get m (rulesetPath ref [''rule'']) of Some (JObj R) \<Rightarrow> plain (JObj R) | _ \<Rightarrow> False)
     \<and> numbered (device_rules ref m)"

lemma device_rules_sorted:
  assumes "plain_ruleset ref m"
  shows "sorted_wrt (<) (map rule_no (device_rules ref m))"
proof -
  from assms obtain R where R: "device_get m (rulesetPath ref [''rule'']) = Some (JObj R)"
      "distinct (map fst R)"
    by (auto simp: plain_ruleset_def split: option.splits json.splits)
  let ?rs = "map (\<lambda>(k, r). parseRule (rr_family ref) k (Some r)) R"
  have rules: "device_rules ref m = js_sort rule_cmp ?rs"
    unfolding device_rules_def parseRules_device R(1)
    by (simp add: parse_entries_def isRecord_def entries_def)
  have num: "\<forall>r \<in> set ?rs. fr_number r = nat_str (rule_no r)"
    using assms unfolding plain_ruleset_def numbered_def rules by simp
  have "distinct (map fr_number ?rs)" using R(2) by (simp add: comp_def case_prod_beta)
  then have "distinct (map rule_no ?rs)"
    using num unfolding distinct_map by (metis (no_types, lifting) inj_onCI inj_onD)
  then show ?thesis unfolding rules
    by (rule js_sort_strict [rotated]) (use num rule_cmp_numbered in blast)
qed

lemma strict_sorted_length:
  "sorted_wrt (<) (ns :: nat list) \<Longrightarrow> \<forall>n \<in> set ns. 0 < n \<and> n \<le> b \<Longrightarrow> length ns \<le> b"
proof -
  assume "sorted_wrt (<) ns" and b: "\<forall>n \<in> set ns. 0 < n \<and> n \<le> b"
  then have "length ns = card (set ns)" by (simp add: strict_sorted_iff distinct_card)
  also have "\<dots> \<le> card {1..b}" by (rule card_mono) (use b in auto)
  finally show ?thesis by simp
qed

lemma number_at_split:
  assumes "numbered (as @ r # bs)"
  shows "number_at (as @ r # bs) (int (length as) - 1)
      = map_option (\<lambda>n. Num (of_nat n)) (if as = [] then None else Some (rule_no (last as)))"
    and "number_at (as @ r # bs) (int (length as) + 1)
      = map_option (\<lambda>n. Num (of_nat n)) (if bs = [] then None else Some (rule_no (hd bs)))"
proof -
  have num: "js_number (fr_number x) = Num (of_nat (rule_no x))" if "x \<in> set (as @ r # bs)" for x
    using assms that unfolding numbered_def by (metis js_number_nat_str)
  show "number_at (as @ r # bs) (int (length as) - 1)
      = map_option (\<lambda>n. Num (of_nat n)) (if as = [] then None else Some (rule_no (last as)))"
  proof (cases as rule: rev_cases)
    case (snoc zs z)
    then show ?thesis using num [of z] by (simp add: number_at_def nth_append)
  qed (simp add: number_at_def)
  show "number_at (as @ r # bs) (int (length as) + 1)
      = map_option (\<lambda>n. Num (of_nat n)) (if bs = [] then None else Some (rule_no (hd bs)))"
  proof (cases bs)
    case (Cons z zs)
    have "nat (int (length as) + 1) = Suc (length as)" by simp
    then show ?thesis using Cons num [of z] by (simp add: number_at_def nth_append)
  qed (simp add: number_at_def)
qed

text \<open>The changes the operation makes to the moved list.\<close>

definition reorder_changes :: "FirewallRule list \<Rightarrow> nat \<Rightarrow> (FirewallRule \<times> string) list" where
  "reorder_changes moved j =
     (case idealNumberBetween (number_at moved (int j - 1)) (number_at moved (int j + 1)) of
        Some x \<Rightarrow> [(moved ! j, js_num_str x)]
      | None \<Rightarrow> filter (\<lambda>(rule, newNumber). fr_number rule \<noteq> newNumber)
          (map (\<lambda>(i, rule). (rule, js_num_str (Num (of_nat ((i + 1) * 10))))) (enumerate 0 moved)))"

lemma reorderRuleOps_changes:
  assumes "i < length rules" "j < length rules" "i \<noteq> j"
    and raw: "\<forall>r \<in> set rules. fr_raw r \<noteq> None"
    and ch: "reorder_changes (moveItem rules i j) j = map (\<lambda>(r, n). (r, nat_str n)) ch"
    and sub: "fst ` set ch \<subseteq> set rules"
  shows "reorderRuleOps ref rules (int i) (int j) = renumber_ops ref ch"
proof -
  have "\<not> (int i = int j \<or> int i < 0 \<or> int (length rules) \<le> int i \<or> int j < 0
      \<or> int (length rules) \<le> int j)" using assms by auto
  moreover have "concat (map (\<lambda>(rule, newNumber). case fr_raw rule of
          Some raw \<Rightarrow> subtreeToSetOps (rulePath ref newNumber []) raw
        | None \<Rightarrow> ruleFormToOps ref newNumber None (ruleToFormValues rule))
          (map (\<lambda>(r, n). (r, nat_str n)) ch))
      = concat (map (\<lambda>(rule, n).
          subtreeToSetOps (rulePath ref (nat_str n) []) (or_else (fr_raw rule) JNull)) ch)"
    unfolding map_map
  proof (intro arg_cong [where f = concat] map_cong refl)
    fix z assume "z \<in> set ch"
    then have "fr_raw (fst z) \<noteq> None" using sub raw by blast
    then show "((\<lambda>(rule, newNumber). case fr_raw rule of
          Some raw \<Rightarrow> subtreeToSetOps (rulePath ref newNumber []) raw
        | None \<Rightarrow> ruleFormToOps ref newNumber None (ruleToFormValues rule))
          \<circ> (\<lambda>(r, n). (r, nat_str n))) z
      = (case z of (rule, n) \<Rightarrow>
          subtreeToSetOps (rulePath ref (nat_str n) []) (or_else (fr_raw rule) JNull))"
      by (auto simp: case_prod_beta)
  qed
  ultimately show ?thesis
    unfolding reorderRuleOps_def Let_def nat_int reorder_changes_def [symmetric] ch renumber_ops_def
    by (simp add: comp_def case_prod_beta)
qed

text \<open>A gap between the neighbours: only the moved rule is renumbered.\<close>

lemma reorder_changes_gap:
  assumes num: "numbered (as @ r # bs)" and dist: "distinct (map rule_no (as @ r # bs))"
    and rest: "sorted_wrt (<) (map rule_no (as @ bs))"
    and x: "idealNumberBetween (number_at (as @ r # bs) (int (length as) - 1))
        (number_at (as @ r # bs) (int (length as) + 1)) = Some x"
  obtains n where "reorder_changes (as @ r # bs) (length as) = [(r, nat_str n)]" "0 < n"
    "sorted_wrt (<) (map rule_no as @ n # map rule_no bs)"
proof -
  let ?a = "if as = [] then None else Some (rule_no (last as))"
  let ?b = "if bs = [] then None else Some (rule_no (hd bs))"
  from x have "idealNumberBetween (map_option (\<lambda>n. Num (of_nat n)) ?a)
      (map_option (\<lambda>n. Num (of_nat n)) ?b) = Some x"
    using number_at_split [OF num] by (simp only:)
  then obtain n where n: "x = Num (of_nat n)" "0 < n" "\<And>p. ?a = Some p \<Longrightarrow> p < n"
      "\<And>q. ?b = Some q \<Longrightarrow> n < q" "n \<le> or_else ?b (or_else ?a 0 + 10)"
    by (rule idealNumber_between) blast
  have le: "rule_no y \<le> 999999" if "y \<in> set (as @ r # bs)" for y
    using num that by (auto simp: numbered_def)
  have "or_else ?b (or_else ?a 0 + 10) \<le> 999999 + 10"
    using le [of "last as"] le [of "hd bs"] by (auto simp: or_else_def)
  then have "js_num_str x = nat_str n" using n(1,5) js_num_str_nat [of n] by simp
  then have "reorder_changes (as @ r # bs) (length as) = [(r, nat_str n)]"
    by (simp add: reorder_changes_def x)
  moreover have "sorted_wrt (<) (map rule_no as @ n # map rule_no bs)"
    by (rule sorted_insert_between) (use rest n(3,4) in \<open>auto simp: last_map hd_map\<close>)
  ultimately show thesis using n(2) that by blast
qed

text \<open>No gap: every rule whose number is not its place in 10, 20, \<dots> is renumbered.\<close>

definition spaced :: "FirewallRule list \<Rightarrow> (FirewallRule \<times> nat) list" where
  "spaced moved = map (\<lambda>(i, r). (r, (i + 1) * 10)) (enumerate 0 moved)"

lemma spaced_fst: "map fst (spaced moved) = moved"
proof -
  have "map fst (spaced moved) = map snd (enumerate 0 moved)"
    by (simp only: spaced_def map_map comp_def case_prod_beta fst_conv)
  then show ?thesis by simp
qed

lemma spaced_snd: "map snd (spaced moved) = map (\<lambda>i. (i + 1) * 10) [0..<length moved]"
proof -
  have "map snd (spaced moved) = map (\<lambda>i. (i + 1) * 10) (map fst (enumerate 0 moved))"
    by (simp only: spaced_def map_map comp_def case_prod_beta snd_conv)
  then show ?thesis by (simp only: map_fst_enumerate add_0)
qed

lemma spaced_ascending: "sorted_wrt (<) (map snd (spaced moved))" "\<forall>n \<in> set (map snd (spaced moved)). 0 < n"
  unfolding spaced_snd
  by (simp only: sorted_wrt_map, rule sorted_wrt_mono_rel [OF _ sorted_wrt_upt], simp) simp

lemma reorder_changes_full:
  assumes small: "length moved \<le> 999999"
    and none: "idealNumberBetween (number_at moved (int j - 1)) (number_at moved (int j + 1)) = None"
  shows "reorder_changes moved j
    = map (\<lambda>(r, n). (r, nat_str n)) (filter (\<lambda>(r, n). fr_number r \<noteq> nat_str n) (spaced moved))"
proof -
  have str: "js_num_str (Num (of_nat ((i + 1) * 10))) = nat_str ((i + 1) * 10)" if "i < length moved" for i
    by (rule js_num_str_nat) (use that small in simp)
  have "map (\<lambda>(i, rule). (rule, js_num_str (Num (of_nat ((i + 1) * 10))))) (enumerate 0 moved)
      = map (\<lambda>(r, n). (r, nat_str n)) (spaced moved)"
    unfolding spaced_def map_map
    by (rule map_cong [OF refl])
       (use str in \<open>auto simp: in_set_enumerate_eq simp del: of_nat_mult of_nat_add\<close>)
  then show ?thesis
    by (simp only: reorder_changes_def none option.case filter_map comp_def case_prod_beta'
          fst_conv snd_conv)
qed

text \<open>The reorder ops renumber the moved list along ascending numbers.\<close>

lemma reorderRuleOps_renumber:
  assumes num: "numbered rules" and asc: "sorted_wrt (<) (map rule_no rules)"
    and raw: "\<forall>r \<in> set rules. fr_raw r \<noteq> None"
    and i: "i < length rules" and j: "j < length rules" and ij: "i \<noteq> j"
  obtains zs P where "reorderRuleOps ref rules (int i) (int j) = renumber_ops ref (filter P zs)"
    "map fst zs = moveItem rules i j" "sorted_wrt (<) (map snd zs)" "\<forall>n \<in> set (map snd zs). 0 < n"
    "\<And>r n. (r, n) \<in> set zs \<Longrightarrow> \<not> P (r, n) \<Longrightarrow> fr_number r = nat_str n"
proof -
  obtain as bs where mv: "moveItem rules i j = as @ rules ! i # bs" "length as = j"
      "as @ bs = take i rules @ drop (Suc i) rules"
    using moveItem_split [OF i j] by metis
  define r where "r = rules ! i"
  let ?mv = "as @ r # bs"
  have mvr: "moveItem rules i j = ?mv" by (simp add: mv(1) r_def)
  have mset: "mset ?mv = mset rules" using mset_moveItem [OF i, of j] mvr by simp
  then have set: "set ?mv = set rules" by (metis set_mset_mset)
  have num': "numbered ?mv" using num set unfolding numbered_def by simp
  have dist: "distinct (map rule_no ?mv)"
    using asc mset mset_eq_imp_distinct_iff mset_map strict_sorted_iff by metis
  have "sorted_wrt (<) (map rule_no (take i rules @ rules ! i # drop (Suc i) rules))"
    using asc i by (simp only: id_take_nth_drop [symmetric])
  then have rest: "sorted_wrt (<) (map rule_no (as @ bs))"
    unfolding mv(3) by (simp add: sorted_wrt_append)
  show thesis
  proof (cases "idealNumberBetween (number_at ?mv (int j - 1)) (number_at ?mv (int j + 1))")
    case (Some x)
    then obtain n where n: "reorder_changes ?mv j = [(r, nat_str n)]" "0 < n"
        "sorted_wrt (<) (map rule_no as @ n # map rule_no bs)"
      using reorder_changes_gap [OF num' dist rest] mv(2) by metis
    let ?zs = "map (\<lambda>x. (x, rule_no x)) as @ (r, n) # map (\<lambda>x. (x, rule_no x)) bs"
    have "r \<notin> set as" "r \<notin> set bs" using dist by auto
    then have "filter (\<lambda>x. x = r) as = []" "filter (\<lambda>x. x = r) bs = []"
      by (auto simp: filter_empty_conv)
    then have flt: "filter (\<lambda>z. fst z = r) ?zs = [(r, n)]"
      by (simp add: filter_map comp_def)
    have "reorderRuleOps ref rules (int i) (int j) = renumber_ops ref (filter (\<lambda>z. fst z = r) ?zs)"
      by (rule reorderRuleOps_changes [OF i j ij raw])
         (use n(1) set in \<open>simp_all only: flt mvr, auto\<close>)
    then show thesis
      by (rule that) (use num' n in \<open>auto simp: mvr numbered_def comp_def\<close>)
  next
    case None
    have "length ?mv \<le> 999999"
      using strict_sorted_length [OF asc, of 999999] num mset_eq_length [OF mset]
      by (auto simp: numbered_def)
    note ch = reorder_changes_full [OF this None]
    have "reorderRuleOps ref rules (int i) (int j)
        = renumber_ops ref (filter (\<lambda>(r, n). fr_number r \<noteq> nat_str n) (spaced ?mv))"
    proof (rule reorderRuleOps_changes [OF i j ij raw])
      show "fst ` set (filter (\<lambda>(r, n). fr_number r \<noteq> nat_str n) (spaced ?mv)) \<subseteq> set rules"
        using spaced_fst [of ?mv] set by (metis filter_is_subset image_mono list.set_map)
    qed (simp only: mvr ch)
    then show thesis
      by (rule that [OF _ _ spaced_ascending]) (simp_all add: spaced_fst mvr)
  qed
qed

lemma moveItem_same: "i < length xs \<Longrightarrow> moveItem xs i i = xs"
  by (simp add: moveItem_def Let_def id_take_nth_drop [symmetric])

lemma reorder_same: "reorderRuleOps ref rules i i = []"
  by (simp add: reorderRuleOps_def)

lemma reorder_applied:
  assumes "plain_ruleset ref m"
    and "i < length (device_rules ref m)" and "j < length (device_rules ref m)"
  shows "map fr_raw (device_rules ref
            (device_apply (reorderRuleOps ref (device_rules ref m) (int i) (int j)) m))
         = map fr_raw (moveItem (device_rules ref m) i j)
       \<and> sorted_wrt (<) (map rule_no (device_rules ref
            (device_apply (reorderRuleOps ref (device_rules ref m) (int i) (int j)) m)))"
proof (cases "i = j")
  case True
  then show ?thesis
    using assms(2) device_rules_sorted [OF assms(1)] by (simp add: reorder_same moveItem_same)
next
  case False
  from assms(1) obtain R where R: "device_get m (rulesetPath ref [''rule'']) = Some (JObj R)"
      "distinct (map fst R)" "\<forall>e \<in> set R. plain (snd e)" and num: "numbered (device_rules ref m)"
    by (auto simp: plain_ruleset_def split: option.splits json.splits)
  let ?fam = "rr_family ref"
  have rules: "mset (device_rules ref m) = mset (map (\<lambda>(k, r). parseRule ?fam k (Some r)) R)"
    unfolding device_rules_def parseRules_device R(1) mset_parse_entries by (simp add: entries_def)
  then have "set (device_rules ref m) = set (map (\<lambda>(k, r). parseRule ?fam k (Some r)) R)"
    by (metis set_mset_mset)
  then have raw: "\<forall>r \<in> set (device_rules ref m). fr_raw r \<noteq> None" by auto
  obtain zs P where z: "reorderRuleOps ref (device_rules ref m) (int i) (int j)
        = renumber_ops ref (filter P zs)"
      "map fst zs = moveItem (device_rules ref m) i j" "sorted_wrt (<) (map snd zs)"
      "\<And>r n. (r, n) \<in> set zs \<Longrightarrow> \<not> P (r, n) \<Longrightarrow> fr_number r = nat_str n"
    using reorderRuleOps_renumber [OF num device_rules_sorted [OF assms(1)] raw assms(2,3) False]
    by metis
  have "mset (map fst zs) = mset (map (\<lambda>(k, r). parseRule ?fam k (Some r)) R)"
    unfolding z(2) mset_moveItem [OF assms(2)] by (rule rules)
  then have "parseRules ?fam
        (device_get (device_apply (renumber_ops ref (filter P zs)) m) (rulesetPath ref []))
      = map (\<lambda>(r, n). parseRule ?fam (nat_str n) (fr_raw r)) zs"
    by (rule renumber_device [OF R]) (use z(3,4) in auto)
  then have new: "device_rules ref (device_apply (reorderRuleOps ref (device_rules ref m) (int i) (int j)) m)
      = map (\<lambda>(r, n). parseRule ?fam (nat_str n) (fr_raw r)) zs"
    by (simp only: z(1) device_rules_def [where m = "device_apply (renumber_ops ref (filter P zs)) m"])
  show ?thesis
    unfolding new using z(2,3)
    by (simp add: comp_def case_prod_beta rule_no_def flip: z(2))
qed

text \<open>
  C4. Reordering does what the user asked. For a ruleset on the device with VyOS rule numbers,
  apply the ops that drag the rule at \<open>i\<close> to \<open>j\<close>: the device then lists the rules in the order with
  that rule moved, every rule with the subtree it had (also the settings the form does not
  know), under strictly ascending numbers.
\<close>

theorem reorder_device:
  assumes "plain_ruleset ref m"
    and "i < length (device_rules ref m)" and "j < length (device_rules ref m)"
  shows "map fr_raw (device_rules ref
            (device_apply (reorderRuleOps ref (device_rules ref m) (int i) (int j)) m))
         = map fr_raw (moveItem (device_rules ref m) i j)
       \<and> sorted_wrt (<) (map rule_no (device_rules ref
            (device_apply (reorderRuleOps ref (device_rules ref m) (int i) (int j)) m)))"
  by (rule reorder_applied [OF assms])

subsection \<open>Replaying a subtree at any path\<close>

lemma set_ops_below:
  assumes "\<forall>op \<in> set ops. co_op op = Set_op \<and> co_path op \<noteq> []" and "ops \<noteq> []"
  shows "device_apply (map (prefix_op [k]) ops) m
    = AList.update k (JObj (device_apply ops (as_map (map_of m k)))) m"
  using assms
proof (induction ops arbitrary: m)
  case (Cons op ops)
  have "apply_op setNested deleteNested (prefix_op [k] op) m
      = AList.update k (JObj (apply_op setNested deleteNested op (as_map (map_of m k)))) m"
    using Cons.prems by (simp add: apply_op_def prefix_op_def setNested_append)
  then show ?case
    using Cons by (cases "ops = []") (simp_all add: map_of_AList_update as_map_def)
qed simp

text \<open>
  C5. A rule's subtree survives being replayed. Where the device has nothing at a path, applying
  the \<open>set\<close> ops of \<open>subtreeToSetOps\<close> for a subtree of single-valued leaves, flags and nested nodes
  gives the device exactly that subtree, entry order included.
\<close>

theorem subtree_replay:
  assumes "p \<noteq> []" and "plain j" and "device_get m p = None"
  shows "device_get (device_apply (subtreeToSetOps p j) m) p = Some j"
  using assms
proof (induction p arbitrary: m)
  case (Cons k p)
  show ?case
  proof (cases "p = []")
    case True
    then have "k \<notin> fst ` set m" using Cons.prems(3) by (simp add: map_of_eq_None_iff)
    then show ?thesis using True Cons.prems(2) replay_subtree [of j k m]
      by (simp add: map_of_append_fresh del: map_of_append)
  next
    case False
    have "subtreeToSetOps (k # p) j = map (prefix_op [k]) (subtreeToSetOps p j)"
      using subtreeToSetOps_prefix [of "[k]" p j] by simp
    moreover have "\<forall>op \<in> set (subtreeToSetOps p j). co_op op = Set_op \<and> co_path op \<noteq> []"
      using subtreeToSetOps_set False by fastforce
    ultimately have "device_apply (subtreeToSetOps (k # p) j) m
        = AList.update k (JObj (device_apply (subtreeToSetOps p j) (as_map (map_of m k)))) m"
      using set_ops_below plain_ops_not_Nil [OF Cons.prems(2)] by simp
    moreover have "device_get (as_map (map_of m k)) p = None"
      using Cons.prems(3) False by (simp add: device_get_tree tree_get_as_map)
    ultimately show ?thesis
      using Cons.IH [OF False Cons.prems(2)] by (simp add: map_of_AList_update device_get_tree)
  qed
qed simp

definition sample_ref :: RulesetRef where
  "sample_ref = \<lparr>rr_id = ''forward'', rr_kind = Base_kind, rr_family = ''ipv4''\<rparr>"

definition sample_rules :: node_map where
  "sample_rules =
     [(''10'', JObj [(''action'', JStr ''accept''), (''log'', JObj [])]),
      (''11'', JObj [(''action'', JStr ''drop'')])]"

definition sample_device :: node_map where
  "sample_device =
     [(''firewall'', JObj [(''ipv4'', JObj [(''forward'', JObj [(''filter'',
        JObj [(''rule'', JObj sample_rules)])])])])]"

lemma sample_get: "device_get sample_device (rulesetPath sample_ref [''rule'']) = Some (JObj sample_rules)"
  by (simp add: sample_device_def sample_ref_def rulesetPath_def device_get_tree child_def)

lemma sample_numbers: "''10'' = nat_str 10" "''11'' = nat_str 11"
  by code_simp+

lemma sample_device_rules:
  "device_rules sample_ref sample_device
     = map (\<lambda>(k, r). parseRule ''ipv4'' k (Some r)) sample_rules"
  unfolding device_rules_def parseRules_device sample_get
  by (simp add: parse_entries_def isRecord_def entries_def sample_rules_def sample_ref_def rule_cmp_def
        sample_numbers)

lemma sample_plain: "plain_ruleset sample_ref sample_device"
  unfolding plain_ruleset_def sample_get sample_device_rules
  by (simp add: numbered_def sample_rules_def rule_no_def) (simp add: sample_numbers)

theorem firewall_form_roundtrip_witness:
  "ruleToFormValues (parseRule ''ipv4'' ''10''
      (device_get (device_apply (ruleFormToOps sample_ref ''10'' (device_rule sample_ref ''10'' sample_device)
          (blankRuleFormValues\<lparr>rf_action := ''drop'', rf_disabled := True\<rparr>)) sample_device)
        (rulePath sample_ref ''10'' [])))
   = blankRuleFormValues\<lparr>rf_action := ''drop'', rf_disabled := True\<rparr>"
proof -
  let ?v = "blankRuleFormValues\<lparr>rf_action := ''drop'', rf_disabled := True\<rparr>"
  have 1: "trimmed_form (RULE_SCALAR_FIELDS (rr_family sample_ref)) ?v" by code_simp
  have 2: "rf_action ?v \<in> set ('''' # RULE_ACTIONS)" by code_simp
  have 3: "read_str (device_get sample_device (rulePath sample_ref ''10'' [''action'']))
      \<in> set ('''' # RULE_ACTIONS)" by code_simp
  have 4: "?v\<lparr>rf_destination := (rf_destination ?v)\<lparr>mf_macAddress :=
      read_str (device_get sample_device (rulePath sample_ref ''10'' [''destination'', ''mac-address'']))\<rparr>\<rparr> = ?v"
    by code_simp
  have 5: "rr_family sample_ref = ''ipv4''" by (simp add: sample_ref_def)
  show ?thesis using firewall_form_roundtrip [OF 1 2 3] unfolding 4 unfolding 5 .
qed

theorem reorder_device_witness:
  "map fr_raw (device_rules sample_ref
      (device_apply (reorderRuleOps sample_ref (device_rules sample_ref sample_device) (int 1) (int 0))
        sample_device))
   = [Some (JObj [(''action'', JStr ''drop'')]),
      Some (JObj [(''action'', JStr ''accept''), (''log'', JObj [])])]"
proof -
  have "length (device_rules sample_ref sample_device) = 2" by code_simp
  then have "1 < length (device_rules sample_ref sample_device)"
    "0 < length (device_rules sample_ref sample_device)" by simp_all
  moreover have "map fr_raw (moveItem (device_rules sample_ref sample_device) 1 0)
    = [Some (JObj [(''action'', JStr ''drop'')]),
       Some (JObj [(''action'', JStr ''accept''), (''log'', JObj [])])]" by code_simp
  ultimately show ?thesis using reorder_device [OF sample_plain, of 1 0] by simp
qed

theorem subtree_replay_witness:
  "device_get (device_apply (subtreeToSetOps [''a'', ''b''] (JObj [(''c'', JStr ''x''), (''d'', JObj [])]))
     []) [''a'', ''b''] = Some (JObj [(''c'', JStr ''x''), (''d'', JObj [])])"
  by (rule subtree_replay) (simp_all add: device_get_tree)

end
