(* ===== verification/Logs.thy ===== *)
theory Logs
  imports FakeVyos
begin

text \<open>
  The Logs page: \<open>lib/mergeLogLines.ts\<close>, which appends a freshly polled snapshot to the lines
  already displayed at their longest overlap, and the display state of \<open>hooks/useLogs.ts\<close>.

  The overlap is computed by a KMP failure function over \<open>next\<close>, a separator and the end of
  \<open>previous\<close>. The separator is a \<open>Symbol\<close> no line equals: lines are \<open>Some\<close>, it is \<open>None\<close>. The
  inner loop has no syntactic bound, so it is a \<open>partial_function\<close>; \<open>overlap_longest\<close> shows that
  it returns, and what.
\<close>

partial_function (option) kmp_back :: "'a list \<Rightarrow> nat list \<Rightarrow> 'a \<Rightarrow> nat \<Rightarrow> nat option" where
  "kmp_back combined failure x j =
     (if 0 < j \<and> x \<noteq> combined ! j then kmp_back combined failure x (failure ! (j - 1)) else Some j)"

definition kmp_step :: "'a list \<Rightarrow> nat \<Rightarrow> nat list \<Rightarrow> nat list option" where
  "kmp_step combined i failure =
     (case kmp_back combined failure (combined ! i) (failure ! (i - 1)) of
        None \<Rightarrow> None
      | Some j \<Rightarrow> Some (failure[i := (if combined ! i = combined ! j then Suc j else j)]))"

fun kmp_loop :: "'a list \<Rightarrow> nat list \<Rightarrow> nat list \<Rightarrow> nat list option" where
  "kmp_loop combined [] failure = Some failure"
| "kmp_loop combined (i # is) failure =
     (case kmp_step combined i failure of None \<Rightarrow> None | Some f \<Rightarrow> kmp_loop combined is f)"

definition longestSuffixPrefixOverlap :: "string list \<Rightarrow> string list \<Rightarrow> nat option" where
  "longestSuffixPrefixOverlap previous nextLines =
     (let bound = min (length previous) (length nextLines)
      in if bound = 0 then Some 0
         else
           (let tailOfPrevious = drop (length previous - bound) previous;
                combined = map Some nextLines @ [None] @ map Some tailOfPrevious;
                failure = replicate (length combined) 0
            in map_option (\<lambda>f. f ! (length combined - 1))
                 (kmp_loop combined [1..<length combined] failure)))"

definition mergeLogLines :: "string list \<Rightarrow> string list \<Rightarrow> string list option" where
  "mergeLogLines previous nextLines =
     (if previous = [] \<or> nextLines = [] then Some nextLines
      else map_option (\<lambda>overlap. if overlap = 0 then nextLines else previous @ drop overlap nextLines)
             (longestSuffixPrefixOverlap previous nextLines))"

definition MAX_DISPLAY_LINES :: nat where
  "MAX_DISPLAY_LINES = 5000"

text \<open>\<open>slice(-n)\<close>: the last \<open>n\<close> elements.\<close>

definition slice_last :: "nat \<Rightarrow> 'a list \<Rightarrow> 'a list" where
  "slice_last n xs = drop (length xs - n) xs"

datatype logs_event = Params_changed | Polled "string list" | Cleared

definition logs_step :: "logs_event \<Rightarrow> string list \<Rightarrow> string list option" where
  "logs_step e displayLines =
     (case e of
        Params_changed \<Rightarrow> Some []
      | Polled ls \<Rightarrow> map_option (slice_last MAX_DISPLAY_LINES) (mergeLogLines displayLines ls)
      | Cleared \<Rightarrow> Some [])"

fun logs_run :: "logs_event list \<Rightarrow> string list \<Rightarrow> string list option" where
  "logs_run [] d = Some d"
| "logs_run (e # es) d = (case logs_step e d of None \<Rightarrow> None | Some d' \<Rightarrow> logs_run es d')"

subsection \<open>Borders\<close>

text \<open>A proper border of the first \<open>n\<close> elements: a length \<open>k\<close> at which prefix and suffix agree.\<close>

definition border :: "'a list \<Rightarrow> nat \<Rightarrow> nat \<Rightarrow> bool" where
  "border c n k \<longleftrightarrow> k < n \<and> (\<forall>t < k. c ! t = c ! (n - k + t))"

definition max_border :: "'a list \<Rightarrow> nat \<Rightarrow> nat \<Rightarrow> bool" where
  "max_border c n k \<longleftrightarrow> border c n k \<and> (\<forall>k'. border c n k' \<longrightarrow> k' \<le> k)"

lemma border_trans: "border c n k \<Longrightarrow> border c k l \<Longrightarrow> border c n l"
proof -
  assume nk: "border c n k" and kl: "border c k l"
  have "c ! t = c ! (n - l + t)" if t: "t < l" for t
  proof -
    have "c ! t = c ! (k - l + t)" using kl t by (simp add: border_def)
    also have "\<dots> = c ! (n - k + (k - l + t))"
    proof -
      have "k - l + t < k" using kl t by (auto simp: border_def)
      then show ?thesis using nk unfolding border_def by blast
    qed
    also have "n - k + (k - l + t) = n - l + t" using nk kl by (simp add: border_def)
    finally show ?thesis .
  qed
  with nk kl show ?thesis by (auto simp: border_def)
qed

lemma border_below: "border c n k \<Longrightarrow> border c n l \<Longrightarrow> l < k \<Longrightarrow> border c k l"
proof -
  assume nk: "border c n k" and nl: "border c n l" and lk: "l < k"
  have "c ! t = c ! (k - l + t)" if t: "t < l" for t
  proof -
    have "c ! (k - l + t) = c ! (n - k + (k - l + t))" using nk lk t by (simp add: border_def)
    also have "n - k + (k - l + t) = n - l + t" using nk lk by (simp add: border_def)
    also have "c ! (n - l + t) = c ! t" using nl t by (simp add: border_def)
    finally show ?thesis ..
  qed
  with lk show ?thesis by (simp add: border_def)
qed

lemma border_Suc: "border c (Suc n) (Suc k) \<longleftrightarrow> border c n k \<and> c ! k = c ! n"
  by (auto simp: border_def less_Suc_eq)

lemma border_0: "0 < n \<Longrightarrow> border c n 0"
  by (simp add: border_def)

text \<open>
  The inner loop walks down the borders of the first \<open>i\<close> elements to the longest one that the
  element at \<open>i\<close> extends.
\<close>

lemma kmp_back_returns:
  assumes f: "\<forall>n. 1 \<le> n \<and> n \<le> i \<longrightarrow> max_border c n (failure ! (n - 1))"
    and "border c i j" and "\<forall>k. border c i k \<and> c ! k = c ! i \<longrightarrow> k \<le> j"
  shows "\<exists>j'. kmp_back c failure (c ! i) j = Some j' \<and> border c i j'
    \<and> (\<forall>k. border c i k \<and> c ! k = c ! i \<longrightarrow> k \<le> j') \<and> (j' = 0 \<or> c ! i = c ! j')"
  using assms(2,3)
proof (induction j rule: less_induct)
  case (less j)
  show ?case
  proof (cases "0 < j \<and> c ! i \<noteq> c ! j")
    case True
    let ?j = "failure ! (j - 1)"
    have "j < i" using less.prems(1) by (simp add: border_def)
    then have m: "max_border c j ?j" using f True by simp
    then have lt: "?j < j" by (simp add: max_border_def border_def)
    have b: "border c i ?j" using border_trans less.prems(1) m by (auto simp: max_border_def)
    have "k \<le> ?j" if k: "border c i k" "c ! k = c ! i" for k
    proof -
      have "k \<le> j" using less.prems(2) k by blast
      moreover have "k \<noteq> j" using k True by auto
      ultimately have "border c j k" using border_below [OF less.prems(1) k(1)] by simp
      then show ?thesis using m by (simp add: max_border_def)
    qed
    with less.IH [OF lt b] True show ?thesis by (subst kmp_back.simps) auto
  next
    case False
    have "kmp_back c failure (c ! i) j = Some j" by (subst kmp_back.simps) (use False in auto)
    then show ?thesis using less.prems False by auto
  qed
qed

definition failure_upto :: "'a list \<Rightarrow> nat \<Rightarrow> nat list \<Rightarrow> bool" where
  "failure_upto c i failure \<longleftrightarrow> length failure = length c
     \<and> (\<forall>n. 1 \<le> n \<and> n \<le> i \<longrightarrow> max_border c n (failure ! (n - 1)))"

lemma kmp_step_correct:
  assumes f: "failure_upto c i failure" and i: "1 \<le> i" "i < length c"
  shows "\<exists>f'. kmp_step c i failure = Some f' \<and> failure_upto c (Suc i) f'"
proof -
  let ?x = "c ! i"
  have mi: "max_border c i (failure ! (i - 1))" using f i by (simp add: failure_upto_def)
  have "\<exists>j'. kmp_back c failure ?x (failure ! (i - 1)) = Some j' \<and> border c i j'
      \<and> (\<forall>k. border c i k \<and> c ! k = ?x \<longrightarrow> k \<le> j') \<and> (j' = 0 \<or> ?x = c ! j')"
    by (rule kmp_back_returns) (use f mi in \<open>auto simp: failure_upto_def max_border_def\<close>)
  then obtain j where j: "kmp_back c failure ?x (failure ! (i - 1)) = Some j" "border c i j"
      "\<And>k. border c i k \<Longrightarrow> c ! k = ?x \<Longrightarrow> k \<le> j" "j = 0 \<or> ?x = c ! j" by blast
  let ?v = "if ?x = c ! j then Suc j else j"
  have "max_border c (Suc i) ?v"
  proof -
    have "border c (Suc i) ?v"
      using j(2,4) border_Suc [of c i j] by (auto intro: border_0)
    moreover have "k \<le> ?v" if "border c (Suc i) k" for k
    proof (cases k)
      case (Suc l)
      then have l: "border c i l" "c ! l = ?x" using that by (simp_all add: border_Suc)
      then have "l \<le> j" by (rule j(3))
      moreover have "?x = c ! j"
        using j(4) l(2) \<open>l \<le> j\<close> by (cases "l = j") auto
      ultimately show ?thesis using Suc by simp
    qed simp
    ultimately show ?thesis by (simp add: max_border_def)
  qed
  then have "failure_upto c (Suc i) (failure[i := ?v])"
    using f i by (auto simp: failure_upto_def nth_list_update le_Suc_eq)
  then show ?thesis using j(1) by (simp add: kmp_step_def)
qed

lemma kmp_loop_correct:
  assumes "failure_upto c i failure" and "1 \<le> i" and "i + n \<le> length c"
  shows "\<exists>f'. kmp_loop c [i..<i + n] failure = Some f' \<and> failure_upto c (i + n) f'"
  using assms
proof (induction n arbitrary: i failure)
  case (Suc n)
  then obtain f' where f': "kmp_step c i failure = Some f'" "failure_upto c (Suc i) f'"
    using kmp_step_correct [of c i failure] by auto
  have "[i..<i + Suc n] = i # [Suc i..<Suc i + n]" by (simp add: upt_conv_Cons)
  moreover have "\<exists>f''. kmp_loop c [Suc i..<Suc i + n] f' = Some f'' \<and> failure_upto c (Suc i + n) f''"
    by (rule Suc.IH [OF f'(2)]) (use Suc.prems in auto)
  ultimately show ?case using f'(1) by simp
qed simp

lemma kmp_correct:
  assumes "c \<noteq> []"
  shows "\<exists>f. kmp_loop c [1..<length c] (replicate (length c) 0) = Some f
    \<and> max_border c (length c) (f ! (length c - 1))"
proof -
  have start: "failure_upto c 1 (replicate (length c) 0)"
    using assms by (auto simp: failure_upto_def max_border_def border_def nth_replicate)
  have len: "1 + (length c - 1) = length c" using assms by (cases c) auto
  from kmp_loop_correct [OF start, of "length c - 1", unfolded len] obtain f where
    "kmp_loop c [1..<length c] (replicate (length c) 0) = Some f" "failure_upto c (length c) f"
    by blast
  moreover have "1 \<le> length c" using assms by (cases c) auto
  ultimately show ?thesis by (auto simp: failure_upto_def)
qed

subsection \<open>The overlap\<close>

text \<open>The specification: the last \<open>k\<close> lines of \<open>previous\<close> are the first \<open>k\<close> lines of \<open>next\<close>.\<close>

definition overlaps :: "'a list \<Rightarrow> 'a list \<Rightarrow> nat \<Rightarrow> bool" where
  "overlaps prev nxt k \<longleftrightarrow> k \<le> length prev \<and> k \<le> length nxt \<and> drop (length prev - k) prev = take k nxt"

lemma border_not_over_separator:
  fixes nxt tl :: "'a list"
  assumes tl: "length tl \<le> length nxt"
    and b: "border (map Some nxt @ [None] @ map Some tl) (Suc (length nxt + length tl)) k"
  shows "k \<le> length tl"
proof (rule ccontr)
  define c where "c = map Some nxt @ [None] @ map Some tl"
  assume big: "\<not> k \<le> length tl"
  let ?n = "length nxt" and ?c = "Suc (length nxt + length tl)"
  have k: "k < ?c" and eq: "\<And>t. t < k \<Longrightarrow> c ! t = c ! (?c - k + t)"
    using b unfolding c_def border_def by blast+
  have sep: "c ! ?n = None" by (simp add: c_def nth_append)
  show False
  proof (cases "k \<le> ?n")
    case True
    let ?t = "k - Suc (length tl)"
    have t: "?t < k" "?c - k + ?t = ?n" "?t < ?n" using big True by auto
    then have "c ! ?t = None" using eq [of ?t] sep by simp
    then show False using t(3) by (simp add: c_def nth_append)
  next
    case False
    then have "c ! (?c - k + ?n) = None" using eq [of ?n] sep by simp
    moreover obtain u where u: "?c - k = Suc u" using k by (metis Suc_diff_Suc)
    then have "u < length tl" using False by simp
    then have "c ! (?c - k + ?n) = Some (tl ! u)" by (simp add: u c_def nth_append)
    ultimately show False by simp
  qed
qed

lemma border_overlaps:
  fixes nxt tl :: "'a list"
  assumes tl: "length tl \<le> length nxt"
  shows "border (map Some nxt @ [None] @ map Some tl) (Suc (length nxt + length tl)) k
    \<longleftrightarrow> overlaps tl nxt k"
proof (cases "k \<le> length tl")
  case True
  let ?c = "map Some nxt @ [None] @ map Some tl"
  have nth: "?c ! t = Some (nxt ! t)"
    "?c ! (Suc (length nxt + length tl) - k + t) = Some (tl ! (length tl - k + t))" if "t < k" for t
  proof -
    show "?c ! t = Some (nxt ! t)" using that True tl by (simp add: nth_append)
    have i: "Suc (length nxt + length tl) - k + t = Suc (length nxt + (length tl - k + t))"
      using True by simp
    have c: "?c ! Suc (length nxt + u) = Some (tl ! u)" if "u < length tl" for u
      using that by (simp add: nth_append)
    show "?c ! (Suc (length nxt + length tl) - k + t) = Some (tl ! (length tl - k + t))"
      unfolding i by (rule c) (use that True in simp)
  qed
  have "k < Suc (length nxt + length tl)" using True by simp
  then have "border ?c (Suc (length nxt + length tl)) k
      \<longleftrightarrow> (\<forall>t < k. nxt ! t = tl ! (length tl - k + t))"
    unfolding border_def using nth by (metis option.inject)
  also have "\<dots> \<longleftrightarrow> drop (length tl - k) tl = take k nxt"
    using True tl by (auto simp: list_eq_iff_nth_eq)
  finally show ?thesis using True tl by (simp add: overlaps_def)
next
  case False
  then show ?thesis using border_not_over_separator [OF tl, of k] by (auto simp: overlaps_def)
qed

lemma overlaps_tail:
  "overlaps (drop (length prev - min (length prev) (length nxt)) prev) nxt k \<longleftrightarrow> overlaps prev nxt k"
proof (cases "k \<le> length prev \<and> k \<le> length nxt")
  case True
  then have "length prev - k = min (length prev) (length nxt) - k
      + (length prev - min (length prev) (length nxt))" by (auto simp: min_def)
  then show ?thesis using True by (auto simp: overlaps_def min_def)
qed (auto simp: overlaps_def)

lemma finite_overlaps: "finite {k. overlaps prev nxt k}"
  by (rule finite_subset [of _ "{..length nxt}"]) (auto simp: overlaps_def)

lemma overlaps_0: "overlaps prev nxt 0"
  by (simp add: overlaps_def)

text \<open>
  C11. The KMP pass computes the specification. \<open>longestSuffixPrefixOverlap\<close> always returns (its
  inner loop ends), and its value is the greatest length at which a suffix of \<open>previous\<close> equals a
  prefix of \<open>next\<close>.
\<close>

theorem overlap_longest:
  "longestSuffixPrefixOverlap previous nextLines = Some (Max {k. overlaps previous nextLines k})"
proof (cases "previous = [] \<or> nextLines = []")
  case True
  then have "overlaps previous nextLines k \<longleftrightarrow> k = 0" for k
    by (elim disjE; cases "k = 0") (simp_all add: overlaps_def)
  moreover have "longestSuffixPrefixOverlap previous nextLines = Some 0"
    using True by (elim disjE) (simp_all add: longestSuffixPrefixOverlap_def)
  ultimately show ?thesis by simp
next
  case False
  let ?b = "min (length previous) (length nextLines)"
  let ?tl = "drop (length previous - ?b) previous"
  let ?c = "map Some nextLines @ [None] @ map Some ?tl"
  have len: "length ?c = Suc (length nextLines + length ?tl)" by simp
  have tl: "length ?tl \<le> length nextLines" by auto
  have ne: "?c \<noteq> []" by simp
  obtain f where f: "kmp_loop ?c [1..<length ?c] (replicate (length ?c) 0) = Some f"
      "max_border ?c (length ?c) (f ! (length ?c - 1))"
    using kmp_correct [OF ne] by (elim exE conjE) (rule that)
  have iff: "border ?c (length ?c) k \<longleftrightarrow> overlaps previous nextLines k" for k
    unfolding len border_overlaps [OF tl] by (rule overlaps_tail)
  have "Max {k. overlaps previous nextLines k} = f ! (length ?c - 1)"
    using f(2) unfolding max_border_def iff by (intro Max_eqI [OF finite_overlaps]) auto
  moreover have "?b \<noteq> 0" using False by simp
  ultimately show ?thesis
    unfolding longestSuffixPrefixOverlap_def Let_def f(1) by (simp only: if_False option.map)
qed

lemma overlap_is_overlap:
  "longestSuffixPrefixOverlap prev nxt = Some k \<Longrightarrow> overlaps prev nxt k"
  using Max_in [OF finite_overlaps, of prev nxt] overlaps_0 by (auto simp: overlap_longest)

lemma overlap_greatest:
  "longestSuffixPrefixOverlap prev nxt = Some k \<Longrightarrow> overlaps prev nxt l \<Longrightarrow> l \<le> k"
  using Max_ge [OF finite_overlaps, of l prev nxt] by (simp add: overlap_longest)

subsection \<open>Merging\<close>

lemma mergeLogLines_overlap:
  obtains k where "overlaps prev nxt k" "\<And>l. overlaps prev nxt l \<Longrightarrow> l \<le> k"
    "mergeLogLines prev nxt = Some (if k = 0 then nxt else prev @ drop k nxt)"
proof -
  let ?k = "Max {k. overlaps prev nxt k}"
  have k: "overlaps prev nxt ?k" "\<And>l. overlaps prev nxt l \<Longrightarrow> l \<le> ?k"
    using overlap_is_overlap overlap_greatest overlap_longest by blast+
  have "mergeLogLines prev nxt = Some (if ?k = 0 then nxt else prev @ drop ?k nxt)"
  proof (cases "prev = [] \<or> nxt = []")
    case True
    then have "?k = 0" using k(1) by (auto simp: overlaps_def)
    then show ?thesis using True by (simp add: mergeLogLines_def)
  next
    case False
    then show ?thesis by (simp add: mergeLogLines_def overlap_longest)
  qed
  with k show thesis by (rule that)
qed

lemma merge_ends_with_snapshot_helper:
  "\<exists>m. mergeLogLines previous nextLines = Some m \<and> suffix nextLines m
     \<and> (prefix previous m \<or> m = nextLines)"
proof -
  obtain k where k: "overlaps previous nextLines k"
      "mergeLogLines previous nextLines = Some (if k = 0 then nextLines else previous @ drop k nextLines)"
    using mergeLogLines_overlap by metis
  show ?thesis
  proof (cases "k = 0")
    case False
    have "previous @ drop k nextLines
        = (take (length previous - k) previous @ drop (length previous - k) previous) @ drop k nextLines"
      by (simp only: append_take_drop_id)
    also have "\<dots> = take (length previous - k) previous @ nextLines"
      using k(1) by (simp add: overlaps_def)
    finally have "suffix nextLines (previous @ drop k nextLines)" unfolding suffix_def by blast
    then show ?thesis using k(2) False by auto
  qed (use k in auto)
qed

text \<open>
  No polled line is lost: a merge returns, what it returns ends with the whole new snapshot,
  and it either kept everything displayed before in front or is the snapshot itself.
\<close>

theorem merge_ends_with_snapshot:
  "\<exists>m. mergeLogLines previous nextLines = Some m \<and> suffix nextLines m
     \<and> (prefix previous m \<or> m = nextLines)"
  by (rule merge_ends_with_snapshot_helper)

text \<open>
  The sliding window: two successive snapshots of one log whose lines are distinct, the second
  starting inside the first, merge to the log from the start of the first to the end of the
  second, with nothing repeated and nothing missing.
\<close>

theorem merge_sliding_window:
  assumes "distinct (take e stream)" and "a \<le> a'" and "a' < b" and "b \<le> e" and "e \<le> length stream"
  shows "mergeLogLines (drop a (take b stream)) (drop a' (take e stream)) = Some (drop a (take e stream))"
proof -
  let ?p = "drop a (take b stream)" and ?n = "drop a' (take e stream)"
  have len: "length ?p = b - a" "length ?n = e - a'" using assms by auto
  have "drop (length ?p - (b - a')) ?p = drop a' (take b stream)"
    unfolding len using assms by simp
  also have "\<dots> = take (b - a') ?n" using assms by (simp add: take_drop min_def)
  finally have d: "drop (length ?p - (b - a')) ?p = take (b - a') ?n" .
  have o: "overlaps ?p ?n (b - a')"
    unfolding overlaps_def by (intro conjI d) (use assms len in simp_all)
  obtain k where k: "overlaps ?p ?n k" "\<And>l. overlaps ?p ?n l \<Longrightarrow> l \<le> k"
      "mergeLogLines ?p ?n = Some (if k = 0 then ?n else ?p @ drop k ?n)"
    using mergeLogLines_overlap by metis
  have "k = b - a'"
  proof (rule ccontr)
    assume "k \<noteq> b - a'"
    then have gt: "b - a' < k" using k(2) [OF o] by simp
    have kb: "k \<le> b - a" "k \<le> e - a'" "drop (b - a - k) ?p = take k ?n"
      using k(1) unfolding overlaps_def len by blast+
    have "drop (b - a - k) ?p ! 0 = take k ?n ! 0" by (simp only: kb(3))
    then have "stream ! (b - k) = stream ! a'" using kb(1,2) gt assms by (simp add: add.commute)
    moreover have "b - k \<noteq> a'" "b - k < e" "a' < e" using gt kb assms by auto
    ultimately show False using assms(1,5) by (simp add: distinct_conv_nth)
  qed
  moreover have "?p @ drop (b - a') ?n = drop a (take e stream)"
  proof -
    have "drop (b - a') ?n = drop b (take e stream)" using assms by simp
    moreover have "?p = take (b - a) (drop a (take e stream))"
      using assms by (simp add: take_drop min_def)
    moreover have "drop b (take e stream) = drop (b - a) (drop a (take e stream))" using assms by simp
    ultimately show ?thesis by (simp only: append_take_drop_id)
  qed
  ultimately show ?thesis using k(3) assms(3) by simp
qed

theorem merge_sliding_window_witness:
  "mergeLogLines (drop 0 (take 2 [''a'', ''b'', ''c''])) (drop 1 (take 3 [''a'', ''b'', ''c'']))
     = Some [''a'', ''b'', ''c'']"
  by (subst merge_sliding_window) simp_all

text \<open>
  The displayed log stays bounded and current: after a poll it has at most
  \<open>MAX_DISPLAY_LINES\<close> lines and ends with the (last \<open>MAX_DISPLAY_LINES\<close> lines of the) snapshot.
\<close>

theorem logs_poll_bounded:
  "\<exists>d'. logs_step (Polled ls) d = Some d' \<and> length d' \<le> MAX_DISPLAY_LINES
     \<and> suffix (slice_last MAX_DISPLAY_LINES ls) d'"
proof -
  obtain m where m: "mergeLogLines d ls = Some m" "suffix ls m"
    using merge_ends_with_snapshot_helper by blast
  then obtain zs where zs: "m = zs @ ls" by (auto simp: suffix_def)
  have "suffix (slice_last n ls) (slice_last n m)" for n
    unfolding zs slice_last_def by (simp add: suffix_def)
  then show ?thesis using m(1) by (simp add: logs_step_def slice_last_def)
qed

end
