(* ===== verification/DhcpConfig.thy ===== *)
theory DhcpConfig
  imports FakeVyos
begin

text \<open>
  The DHCP server section: \<open>lib/dhcpConfigTypes.ts\<close>, \<open>lib/dhcpConfigParse.ts\<close> and the edit forms
  of \<open>lib/dhcpConfigForm.ts\<close> (shared network, subnet, static mapping). \<open>lcn\<close> is the numeric
  collation the ranges are sorted by.
\<close>

record DHCPOptions =
  do_defaultRouter :: "string option"
  do_nameServers :: "string list"
  do_domainName :: "string option"
  do_ntpServers :: "string list"
  do_domainSearch :: "string list"

record DHCPRange =
  dr_id :: string
  dr_start :: "string option"
  dr_stop :: "string option"

record DHCPStaticMapping =
  dm_name :: string
  dm_mac :: "string option"
  dm_duid :: "string option"
  dm_ipAddress :: "string option"

record DHCPSubnet =
  ds_cidr :: string
  ds_subnetId :: "string option"
  ds_lease :: "jsnum option"
  ds_options :: DHCPOptions
  ds_ranges :: "DHCPRange list"
  ds_excludes :: "string list"
  ds_staticMappings :: "DHCPStaticMapping list"

record DHCPSharedNetwork =
  dn_name :: string
  dn_authoritative :: bool
  dn_options :: DHCPOptions
  dn_subnets :: "DHCPSubnet list"

subsection \<open>Parsing\<close>

definition parseOptions :: "unknown \<Rightarrow> DHCPOptions" where
  "parseOptions raw =
     (let node = child raw ''option''
      in \<lparr>do_defaultRouter = asString (child node ''default-router''),
          do_nameServers = asArray (child node ''name-server''),
          do_domainName = asString (child node ''domain-name''),
          do_ntpServers = asArray (child node ''ntp-server''),
          do_domainSearch = asArray (child node ''domain-search'')\<rparr>)"

definition parseRange :: "string \<Rightarrow> unknown \<Rightarrow> DHCPRange" where
  "parseRange i raw =
     \<lparr>dr_id = i, dr_start = asString (child raw ''start''), dr_stop = asString (child raw ''stop'')\<rparr>"

definition parseRanges :: "collation \<Rightarrow> unknown \<Rightarrow> DHCPRange list" where
  "parseRanges lcn subnetRaw =
     parse_entries parseRange (\<lambda>a b. lcn (dr_id a) (dr_id b)) (child subnetRaw ''range'')"

definition parseStaticMapping :: "string \<Rightarrow> unknown \<Rightarrow> DHCPStaticMapping" where
  "parseStaticMapping name raw =
     \<lparr>dm_name = name, dm_mac = asString (child raw ''mac''), dm_duid = asString (child raw ''duid''),
      dm_ipAddress = asString (child raw ''ip-address'')\<rparr>"

definition parseStaticMappings :: "collation \<Rightarrow> unknown \<Rightarrow> DHCPStaticMapping list" where
  "parseStaticMappings lc subnetRaw =
     parse_entries parseStaticMapping (\<lambda>a b. lc (dm_name a) (dm_name b))
       (child subnetRaw ''static-mapping'')"

definition parseSubnet :: "collation \<Rightarrow> collation \<Rightarrow> string \<Rightarrow> unknown \<Rightarrow> DHCPSubnet" where
  "parseSubnet lc lcn cidr raw =
     \<lparr>ds_cidr = cidr,
      ds_subnetId = asString (child raw ''subnet-id''),
      ds_lease = asNumber (child raw ''lease''),
      ds_options = parseOptions raw,
      ds_ranges = parseRanges lcn raw,
      ds_excludes = asArray (child raw ''exclude''),
      ds_staticMappings = parseStaticMappings lc raw\<rparr>"

definition parseSubnets :: "collation \<Rightarrow> collation \<Rightarrow> unknown \<Rightarrow> DHCPSubnet list" where
  "parseSubnets lc lcn networkRaw =
     parse_entries (parseSubnet lc lcn) (\<lambda>a b. lc (ds_cidr a) (ds_cidr b)) (child networkRaw ''subnet'')"

definition parseSharedNetwork :: "collation \<Rightarrow> collation \<Rightarrow> string \<Rightarrow> unknown \<Rightarrow> DHCPSharedNetwork" where
  "parseSharedNetwork lc lcn name raw =
     \<lparr>dn_name = name, dn_authoritative = isFlagPresent raw ''authoritative'',
      dn_options = parseOptions raw, dn_subnets = parseSubnets lc lcn raw\<rparr>"

definition parseSharedNetworks :: "collation \<Rightarrow> collation \<Rightarrow> unknown \<Rightarrow> DHCPSharedNetwork list" where
  "parseSharedNetworks lc lcn dhcpServer =
     parse_entries (parseSharedNetwork lc lcn) (\<lambda>a b. lc (dn_name a) (dn_name b))
       (child dhcpServer ''shared-network-name'')"

definition sharedNetworkPath :: "string \<Rightarrow> path \<Rightarrow> path" where
  "sharedNetworkPath name rest = [''service'', ''dhcp-server'', ''shared-network-name'', name] @ rest"

definition subnetPath :: "string \<Rightarrow> string \<Rightarrow> path \<Rightarrow> path" where
  "subnetPath networkName cidr rest = sharedNetworkPath networkName ([''subnet'', cidr] @ rest)"

definition rangePath :: "string \<Rightarrow> string \<Rightarrow> string \<Rightarrow> path \<Rightarrow> path" where
  "rangePath networkName cidr rangeId rest = subnetPath networkName cidr ([''range'', rangeId] @ rest)"

definition staticMappingPath :: "string \<Rightarrow> string \<Rightarrow> string \<Rightarrow> path \<Rightarrow> path" where
  "staticMappingPath networkName cidr mappingName rest =
     subnetPath networkName cidr ([''static-mapping'', mappingName] @ rest)"

subsection \<open>Forms\<close>

record DHCPOptionsFormValues =
  of_defaultRouter :: string
  of_domainName :: string

record SharedNetworkFormValues = DHCPOptionsFormValues +
  nf_authoritative :: bool

record SubnetFormValues = DHCPOptionsFormValues +
  sf_subnetId :: string
  sf_lease :: string

record StaticMappingFormValues =
  mv_mac :: string
  mv_duid :: string
  mv_ipAddress :: string

definition OPTIONS_SCALAR_FIELDS :: "'a DHCPOptionsFormValues_scheme scalar_field list" where
  "OPTIONS_SCALAR_FIELDS =
     [(of_defaultRouter, [''option'', ''default-router'']),
      (of_domainName, [''option'', ''domain-name''])]"

definition blankSharedNetworkFormValues :: SharedNetworkFormValues where
  "blankSharedNetworkFormValues =
     \<lparr>of_defaultRouter = '''', of_domainName = '''', nf_authoritative = False\<rparr>"

definition sharedNetworkToFormValues :: "DHCPSharedNetwork \<Rightarrow> SharedNetworkFormValues" where
  "sharedNetworkToFormValues network =
     \<lparr>of_defaultRouter = or_else (do_defaultRouter (dn_options network)) '''',
      of_domainName = or_else (do_domainName (dn_options network)) '''',
      nf_authoritative = dn_authoritative network\<rparr>"

definition SHARED_NETWORK_FLAG_FIELDS :: "SharedNetworkFormValues flag_field list" where
  "SHARED_NETWORK_FLAG_FIELDS = [(nf_authoritative, [''authoritative''])]"

definition sharedNetworkFormToOps ::
    "string \<Rightarrow> DHCPSharedNetwork option \<Rightarrow> SharedNetworkFormValues \<Rightarrow> ConfigOp list" where
  "sharedNetworkFormToOps name before values =
     (let beforeValues = (case before of Some n \<Rightarrow> sharedNetworkToFormValues n
                          | None \<Rightarrow> blankSharedNetworkFormValues)
      in diffToOps (sharedNetworkPath name []) OPTIONS_SCALAR_FIELDS SHARED_NETWORK_FLAG_FIELDS
           beforeValues values)"

definition blankSubnetFormValues :: SubnetFormValues where
  "blankSubnetFormValues =
     \<lparr>of_defaultRouter = '''', of_domainName = '''', sf_subnetId = '''', sf_lease = ''''\<rparr>"

definition subnetToFormValues :: "DHCPSubnet \<Rightarrow> SubnetFormValues" where
  "subnetToFormValues subnet =
     \<lparr>of_defaultRouter = or_else (do_defaultRouter (ds_options subnet)) '''',
      of_domainName = or_else (do_domainName (ds_options subnet)) '''',
      sf_subnetId = or_else (ds_subnetId subnet) '''',
      sf_lease = (case ds_lease subnet of Some n \<Rightarrow> js_num_str n | None \<Rightarrow> '''')\<rparr>"

definition SUBNET_SCALAR_FIELDS :: "SubnetFormValues scalar_field list" where
  "SUBNET_SCALAR_FIELDS =
     OPTIONS_SCALAR_FIELDS @ [(sf_subnetId, [''subnet-id'']), (sf_lease, [''lease''])]"

definition subnetFormToOps ::
    "string \<Rightarrow> string \<Rightarrow> DHCPSubnet option \<Rightarrow> SubnetFormValues \<Rightarrow> ConfigOp list" where
  "subnetFormToOps networkName cidr before values =
     (let beforeValues = (case before of Some s \<Rightarrow> subnetToFormValues s | None \<Rightarrow> blankSubnetFormValues)
      in diffToOps (subnetPath networkName cidr []) SUBNET_SCALAR_FIELDS [] beforeValues values)"

definition blankStaticMappingFormValues :: StaticMappingFormValues where
  "blankStaticMappingFormValues = \<lparr>mv_mac = '''', mv_duid = '''', mv_ipAddress = ''''\<rparr>"

definition staticMappingToFormValues :: "DHCPStaticMapping \<Rightarrow> StaticMappingFormValues" where
  "staticMappingToFormValues mapping =
     \<lparr>mv_mac = or_else (dm_mac mapping) '''', mv_duid = or_else (dm_duid mapping) '''',
      mv_ipAddress = or_else (dm_ipAddress mapping) ''''\<rparr>"

definition STATIC_MAPPING_SCALAR_FIELDS :: "StaticMappingFormValues scalar_field list" where
  "STATIC_MAPPING_SCALAR_FIELDS =
     [(mv_mac, [''mac'']), (mv_duid, [''duid'']), (mv_ipAddress, [''ip-address''])]"

definition staticMappingFormToOps ::
    "string \<Rightarrow> string \<Rightarrow> string \<Rightarrow> DHCPStaticMapping option \<Rightarrow> StaticMappingFormValues \<Rightarrow> ConfigOp list"
  where
  "staticMappingFormToOps networkName cidr mappingName before values =
     (let beforeValues = (case before of Some x \<Rightarrow> staticMappingToFormValues x
                          | None \<Rightarrow> blankStaticMappingFormValues)
      in diffToOps (staticMappingPath networkName cidr mappingName []) STATIC_MAPPING_SCALAR_FIELDS []
           beforeValues values)"

subsection \<open>Round trips\<close>

lemma subnet_fields:
  "indep_all (map snd SUBNET_SCALAR_FIELDS @ map snd ([] :: SubnetFormValues flag_field list))"
  "[] \<notin> set (map snd SUBNET_SCALAR_FIELDS @ map snd ([] :: SubnetFormValues flag_field list))"
  by (simp_all add: SUBNET_SCALAR_FIELDS_def OPTIONS_SCALAR_FIELDS_def)

lemma shared_network_fields:
  "indep_all (map snd (OPTIONS_SCALAR_FIELDS :: SharedNetworkFormValues scalar_field list)
     @ map snd SHARED_NETWORK_FLAG_FIELDS)"
  "[] \<notin> set (map snd (OPTIONS_SCALAR_FIELDS :: SharedNetworkFormValues scalar_field list)
     @ map snd SHARED_NETWORK_FLAG_FIELDS)"
  by (simp_all add: OPTIONS_SCALAR_FIELDS_def SHARED_NETWORK_FLAG_FIELDS_def)

lemma static_mapping_fields:
  "indep_all (map snd STATIC_MAPPING_SCALAR_FIELDS
     @ map snd ([] :: StaticMappingFormValues flag_field list))"
  "[] \<notin> set (map snd STATIC_MAPPING_SCALAR_FIELDS
     @ map snd ([] :: StaticMappingFormValues flag_field list))"
  by (simp_all add: STATIC_MAPPING_SCALAR_FIELDS_def)

lemma subnet_form_reads:
  "number_leaf (child t ''lease'') \<Longrightarrow>
     reads SUBNET_SCALAR_FIELDS [] t v \<longleftrightarrow> subnetToFormValues (parseSubnet lc lcn cidr t) = v"
  by (cases v) (auto simp: reads_def SUBNET_SCALAR_FIELDS_def OPTIONS_SCALAR_FIELDS_def
      subnetToFormValues_def parseSubnet_def parseOptions_def asNumber_text Let_def)

lemma static_mapping_form_reads:
  "reads STATIC_MAPPING_SCALAR_FIELDS [] t v
     \<longleftrightarrow> staticMappingToFormValues (parseStaticMapping name t) = v"
  by (cases v) (auto simp: reads_def STATIC_MAPPING_SCALAR_FIELDS_def staticMappingToFormValues_def
      parseStaticMapping_def)

lemma shared_network_form_reads:
  "reads OPTIONS_SCALAR_FIELDS SHARED_NETWORK_FLAG_FIELDS t v
     \<longleftrightarrow> sharedNetworkToFormValues (parseSharedNetwork lc lcn name t) = v"
  by (cases v) (auto simp: reads_def OPTIONS_SCALAR_FIELDS_def SHARED_NETWORK_FLAG_FIELDS_def
      sharedNetworkToFormValues_def parseSharedNetwork_def parseOptions_def Let_def)

lemma blank_subnet: "subnetToFormValues (parseSubnet lc lcn cidr None) = blankSubnetFormValues"
  by (simp add: subnetToFormValues_def blankSubnetFormValues_def parseSubnet_def parseOptions_def
      asNumber_def)

lemma blank_static_mapping:
  "staticMappingToFormValues (parseStaticMapping name None) = blankStaticMappingFormValues"
  by (simp add: staticMappingToFormValues_def blankStaticMappingFormValues_def parseStaticMapping_def)

lemma blank_shared_network:
  "sharedNetworkToFormValues (parseSharedNetwork lc lcn name None) = blankSharedNetworkFormValues"
  by (simp add: sharedNetworkToFormValues_def blankSharedNetworkFormValues_def parseSharedNetwork_def
      parseOptions_def)

interpretation subnet_form: edit_form SUBNET_SCALAR_FIELDS "[]" subnetToFormValues
  "parseSubnet lc lcn cidr" blankSubnetFormValues
  "\<lambda>t. number_leaf (child t ''lease'')" "\<lambda>v. number_text (sf_lease v)" for lc lcn cidr
proof unfold_locales
  fix t t' v
  assume e: "edited_tree SUBNET_SCALAR_FIELDS [] (subnetToFormValues (parseSubnet lc lcn cidr t)) v t t'"
    and ok: "number_leaf (child t ''lease'')" and valid: "number_text (sf_lease v)"
    and "trimmed_form SUBNET_SCALAR_FIELDS v"
  then have "trimmed (sf_lease v)" by (simp add: trimmed_form_def SUBNET_SCALAR_FIELDS_def)
  from number_leaf_edit [OF ok valid this] e show "number_leaf (child t' ''lease'')"
    by (simp add: edited_tree_def SUBNET_SCALAR_FIELDS_def del: edit_result.simps)
qed (simp_all only: not_False_eq_True subnet_fields blank_subnet
      subnet_form_reads [where lc = lc and lcn = lcn and cidr = cidr])

interpretation static_mapping_form: edit_form STATIC_MAPPING_SCALAR_FIELDS "[]"
  staticMappingToFormValues "parseStaticMapping name" blankStaticMappingFormValues
  "\<lambda>t. True" "\<lambda>v. True" for name
  by unfold_locales (simp_all only: not_False_eq_True static_mapping_fields blank_static_mapping
      static_mapping_form_reads [where name = name])

interpretation shared_network_form: edit_form OPTIONS_SCALAR_FIELDS SHARED_NETWORK_FLAG_FIELDS
  sharedNetworkToFormValues "parseSharedNetwork lc lcn name" blankSharedNetworkFormValues
  "\<lambda>t. True" "\<lambda>v. True" for lc lcn name
  by unfold_locales (simp_all only: not_False_eq_True shared_network_fields blank_shared_network
      shared_network_form_reads [where lc = lc and lcn = lcn and name = name])

text \<open>
  The DHCP subnet form round trip. Edit the form of a subnet on the device (a blank form when it
  has none) into trimmed values with a lease time that is empty or a canonical number; after the
  queued ops the device's subnet reads back as exactly those values.
\<close>

theorem subnet_form_roundtrip:
  assumes "trimmed_form SUBNET_SCALAR_FIELDS v" and "number_text (sf_lease v)"
    and "number_leaf (device_get m (subnetPath net cidr [''lease'']))"
  shows "subnetToFormValues (parseSubnet lc lcn cidr
           (device_get (device_apply (subnetFormToOps net cidr
               (device_item (parseSubnet lc lcn cidr) m (subnetPath net cidr [])) v) m)
             (subnetPath net cidr []))) = v"
  unfolding subnetFormToOps_def Let_def
  by (rule subnet_form.roundtrip [OF _ assms(2,1)])
     (use assms(3) in \<open>simp add: subnetPath_def sharedNetworkPath_def\<close>)

theorem subnet_form_roundtrip_witness:
  "subnetToFormValues (parseSubnet (\<lambda>a b. 0) (\<lambda>a b. 0) ''c''
      (device_get (device_apply (subnetFormToOps ''n'' ''c''
          (device_item (parseSubnet (\<lambda>a b. 0) (\<lambda>a b. 0) ''c'') [] (subnetPath ''n'' ''c'' []))
          \<lparr>of_defaultRouter = ''r'', of_domainName = '''', sf_subnetId = ''1'', sf_lease = ''''\<rparr>) [])
        (subnetPath ''n'' ''c'' [])))
   = \<lparr>of_defaultRouter = ''r'', of_domainName = '''', sf_subnetId = ''1'', sf_lease = ''''\<rparr>"
proof (rule subnet_form_roundtrip)
  show "trimmed_form SUBNET_SCALAR_FIELDS
      \<lparr>of_defaultRouter = ''r'', of_domainName = '''', sf_subnetId = ''1'', sf_lease = ''''\<rparr>"
    by code_simp
qed (simp_all add: number_text_def number_leaf_def subnetPath_def sharedNetworkPath_def)

text \<open>
  The DHCP static-mapping form round trip: the device's mapping, edited into trimmed values and
  with the queued ops applied, reads back as the values; no path off the mapping's own changes.
\<close>

theorem static_mapping_form_roundtrip:
  assumes "trimmed_form STATIC_MAPPING_SCALAR_FIELDS v"
    and "p = staticMappingPath net cidr name []" and "indep p q"
    and "m' = device_apply (staticMappingFormToOps net cidr name
               (device_item (parseStaticMapping name) m p) v) m"
  shows "staticMappingToFormValues (parseStaticMapping name (device_get m' p)) = v
       \<and> device_get m' q = device_get m q"
  using assms(1,3) unfolding assms(2,4) staticMappingFormToOps_def Let_def
  by (intro conjI static_mapping_form.roundtrip
        static_mapping_form.elsewhere TrueI)

theorem static_mapping_form_roundtrip_witness:
  "staticMappingToFormValues (parseStaticMapping ''a''
      (device_get (device_apply (staticMappingFormToOps ''n'' ''c'' ''a'' None
          \<lparr>mv_mac = ''x'', mv_duid = '''', mv_ipAddress = ''y''\<rparr>) [])
        (staticMappingPath ''n'' ''c'' ''a'' [])))
   = \<lparr>mv_mac = ''x'', mv_duid = '''', mv_ipAddress = ''y''\<rparr>"
proof -
  have "trimmed_form STATIC_MAPPING_SCALAR_FIELDS \<lparr>mv_mac = ''x'', mv_duid = '''', mv_ipAddress = ''y''\<rparr>"
    by code_simp
  moreover have "indep (staticMappingPath ''n'' ''c'' ''a'' []) [''system'']"
    and "device_item (parseStaticMapping ''a'') [] (staticMappingPath ''n'' ''c'' ''a'' []) = None"
    by (simp_all add: device_item_def staticMappingPath_def subnetPath_def sharedNetworkPath_def)
  ultimately show ?thesis
    using static_mapping_form_roundtrip [OF _ refl _ refl, where m = "[]" and net = "''n''"] by fastforce
qed

end
