(* ===== verification/Ipv4.thy ===== *)
theory Ipv4
  imports FakeVyos
begin

text \<open>
  IPv4 arithmetic (\<open>lib/ipv4.ts\<close>) and the identifier check (\<open>lib/vyosIdentifier.ts\<close>). An address
  parses to a natural number, which \<open>ipv4ToInt_bound\<close> keeps below \<open>2 ^ 32\<close>; canonical dotted quads
  round trip.
\<close>

fun octets_value :: "nat \<Rightarrow> string list \<Rightarrow> nat option" where
  "octets_value result [] = Some result"
| "octets_value result (part # parts) =
     (if \<not> (1 \<le> length part \<and> length part \<le> 3 \<and> list_all is_digit part) then None
      else (case dec_nat part of
              None \<Rightarrow> None
            | Some octet \<Rightarrow> if octet > 255 then None else octets_value (result * 256 + octet) parts))"

definition ipv4ToInt :: "string \<Rightarrow> nat option" where
  "ipv4ToInt address =
     (let parts = js_split (CHR ''.'') (js_trim address)
      in if length parts \<noteq> 4 then None else octets_value 0 parts)"

definition ipv4RangeSize :: "string \<Rightarrow> string \<Rightarrow> nat" where
  "ipv4RangeSize start stop =
     (case (ipv4ToInt start, ipv4ToInt stop) of
        (Some startInt, Some stopInt) \<Rightarrow> if stopInt < startInt then 0 else stopInt - startInt + 1
      | _ \<Rightarrow> 0)"

definition isValidIpv4 :: "string \<Rightarrow> bool" where
  "isValidIpv4 address \<longleftrightarrow> ipv4ToInt address \<noteq> None"

definition isIpv4InRange :: "string \<Rightarrow> string \<Rightarrow> string \<Rightarrow> bool" where
  "isIpv4InRange address start stop =
     (case (ipv4ToInt address, ipv4ToInt start, ipv4ToInt stop) of
        (Some addrInt, Some startInt, Some stopInt) \<Rightarrow> addrInt \<ge> startInt \<and> addrInt \<le> stopInt
      | _ \<Rightarrow> False)"

text \<open>\<open>/^[A-Za-z0-9][A-Za-z0-9_-]*$/\<close>.\<close>

definition isValidVyOSIdentifier :: "string \<Rightarrow> bool" where
  "isValidVyOSIdentifier name =
     (case name of [] \<Rightarrow> False
      | c # cs \<Rightarrow> is_alnum c \<and> list_all (\<lambda>d. is_alnum d \<or> d = CHR ''_'' \<or> d = CHR ''-'') cs)"

subsection \<open>Bounds\<close>

lemma octets_value_bound:
  "octets_value r parts = Some n \<Longrightarrow> r < 256 ^ k \<Longrightarrow> n < 256 ^ (k + length parts)"
proof (induction r parts arbitrary: k rule: octets_value.induct)
  case (2 r part parts)
  from "2.prems"(1) obtain oct where o: "dec_nat part = Some oct" "oct \<le> 255"
      "octets_value (r * 256 + oct) parts = Some n"
      and c: "1 \<le> length part \<and> length part \<le> 3 \<and> list_all is_digit part"
    by (auto split: if_splits option.splits)
  have "r * 256 + oct < 256 ^ Suc k" using o(2) "2.prems"(2) by simp
  then have "n < 256 ^ (Suc k + length parts)"
    using "2.IH" [of oct "Suc k"] c o by simp
  then show ?case by simp
qed simp

lemma ipv4ToInt_lt: "ipv4ToInt a = Some n \<Longrightarrow> n < 2 ^ 32"
  using octets_value_bound [of 0 "js_split (CHR ''.'') (js_trim a)" n 0]
  by (auto simp: ipv4ToInt_def Let_def split: if_splits)

subsection \<open>Dotted quads\<close>

definition dotted :: "nat list \<Rightarrow> string" where
  "dotted os = js_join ''.'' (map nat_str os)"

lemma length_nat_str_octet: "n \<le> 255 \<Longrightarrow> 1 \<le> length (nat_str n) \<and> length (nat_str n) \<le> 3"
  using length_nat_str_le [of n 3] by (cases "nat_str n") auto

lemma length_nat_str_pos [simp]: "Suc 0 \<le> length (nat_str n)"
  by (cases "nat_str n") auto

lemma octets_value_nat_str:
  "\<forall>n \<in> set os. n \<le> 255 \<Longrightarrow>
     octets_value r (map nat_str os) = Some (foldl (\<lambda>acc n. acc * 256 + n) r os)"
  by (induction os arbitrary: r)
     (auto simp: length_nat_str_octet list_all_iff nat_str_is_digit not_less)

lemma dot_not_in_nat_str: "CHR ''.'' \<notin> set (nat_str n)"
  using nat_str_is_digit [of "CHR ''.''" n] by (auto simp: is_digit_code)

lemma trimmed_dotted: "length os = 4 \<Longrightarrow> js_trim (dotted os) = dotted os"
proof -
  assume "length os = 4"
  then obtain a b c d where os: "os = [a, b, c, d]" by (auto simp: numeral_eq_Suc length_Suc_conv)
  let ?m = "''.'' @ nat_str b @ ''.'' @ nat_str c @ ''.''"
  have e: "dotted os = nat_str a @ ?m @ nat_str d" by (simp add: os dotted_def)
  have hd: "\<not> js_space x" if "x \<in> set (nat_str n)" for x n
    using that nat_str_is_digit is_digit_not_space by blast
  have "dropWhile js_space (dotted os) = dotted os"
    unfolding e using hd [of _ a] by (cases "nat_str a") simp_all
  moreover have "dropWhile js_space (rev (dotted os)) = rev (dotted os)"
    unfolding e
  proof (cases "rev (nat_str d)")
    case Nil
    then show "dropWhile js_space (rev (nat_str a @ ?m @ nat_str d)) = rev (nat_str a @ ?m @ nat_str d)"
      by simp
  next
    case (Cons x xs)
    then have "x \<in> set (nat_str d)" by (metis list.set_intros(1) set_rev)
    then have "\<not> js_space x" by (rule hd)
    then show "dropWhile js_space (rev (nat_str a @ ?m @ nat_str d)) = rev (nat_str a @ ?m @ nat_str d)"
      using Cons by simp
  qed
  ultimately show ?thesis by (simp add: js_trim_def)
qed

lemma dotted_parse:
  assumes "a \<le> 255" and "b \<le> 255" and "c \<le> 255" and "d \<le> 255"
  shows "ipv4ToInt (dotted [a, b, c, d]) = Some (((a * 256 + b) * 256 + c) * 256 + d)"
proof -
  have "js_split (CHR ''.'') (dotted [a, b, c, d]) = map nat_str [a, b, c, d]"
    unfolding dotted_def by (rule js_split_join) (use dot_not_in_nat_str in auto)
  then show ?thesis
    using assms octets_value_nat_str [of "[a, b, c, d]" 0]
    by (simp add: ipv4ToInt_def trimmed_dotted)
qed

text \<open>
  An address that parses is a 32-bit number, so sizes and comparisons stay exact in a
  JavaScript number.
\<close>

theorem ipv4ToInt_bound: "ipv4ToInt address = Some n \<Longrightarrow> n < 2 ^ 32"
  by (rule ipv4ToInt_lt)

theorem ipv4ToInt_bound_witness: "(((10 * 256 + 0) * 256 + 0) * 256 + 1 :: nat) < 2 ^ 32"
  by (rule ipv4ToInt_bound [OF dotted_parse [of 10 0 0 1]]) simp_all

text \<open>
  Dotted quads parse to their value: the address of four octets below 256, written with dots,
  is the base-256 number of the octets.
\<close>

theorem ipv4ToInt_dotted:
  assumes "a \<le> 255" and "b \<le> 255" and "c \<le> 255" and "d \<le> 255"
  shows "ipv4ToInt (dotted [a, b, c, d]) = Some (((a * 256 + b) * 256 + c) * 256 + d)"
  by (rule dotted_parse [OF assms])

theorem ipv4ToInt_dotted_witness: "ipv4ToInt (dotted [192, 168, 0, 1]) = Some 3232235521"
  by (subst ipv4ToInt_dotted) simp_all

text \<open>
  The size of a range counts its addresses: for bounds that parse, \<open>ipv4RangeSize\<close> is the
  number of 32-bit addresses from start to stop, zero for a reversed range.
\<close>

theorem ipv4RangeSize_counts:
  assumes "ipv4ToInt start = Some s" and "ipv4ToInt stop = Some e"
  shows "ipv4RangeSize start stop = card {n. n < 2 ^ 32 \<and> s \<le> n \<and> n \<le> e}"
proof -
  have "{n. n < 2 ^ 32 \<and> s \<le> n \<and> n \<le> e} = {s..e}"
    using ipv4ToInt_lt [OF assms(2)] by auto
  then show ?thesis using assms by (simp add: ipv4RangeSize_def Suc_diff_le)
qed

theorem ipv4RangeSize_counts_witness:
  "ipv4RangeSize (dotted [10, 0, 0, 1]) (dotted [10, 0, 0, 9])
     = card {n. n < 2 ^ 32 \<and> ((10 * 256 + 0) * 256 + 0) * 256 + 1 \<le> n
         \<and> n \<le> (((10 * 256 + 0) * 256 + 0) * 256 + 9 :: nat)}"
  by (rule ipv4RangeSize_counts) (rule dotted_parse; simp)+

lemma isIpv4InRange_iff:
  "isIpv4InRange a s e \<longleftrightarrow>
     (\<exists>x y z. ipv4ToInt a = Some x \<and> ipv4ToInt s = Some y \<and> ipv4ToInt e = Some z \<and> y \<le> x \<and> x \<le> z)"
  by (auto simp: isIpv4InRange_def split: option.splits)

lemma isIpv4InRange_size: "isIpv4InRange a s e \<Longrightarrow> 0 < ipv4RangeSize s e"
  by (auto simp: isIpv4InRange_iff ipv4RangeSize_def)

end
