(* ===== verification/DhcpLeases.thy ===== *)
theory DhcpLeases
  imports DhcpConfig Ipv4
begin

text \<open>
  Live DHCP leases against the configuration: \<open>lib/dhcpLeases.ts\<close> (name suggestion, the static
  mapping of a lease by scan and by index, grouping by pool) and \<open>lib/dhcpPoolUtilization.ts\<close>.
  A \<open>Map\<close> is the list of its entries in insertion order.
\<close>

record DHCPLease =
  dl_ipAddress :: string
  dl_macAddress :: string
  dl_state :: string
  dl_leaseStart :: string
  dl_leaseEnd :: string
  dl_remaining :: string
  dl_pool :: string
  dl_hostname :: string
  dl_origin :: string
  dl_subnet :: "string option"

definition subnetForLease :: "DHCPLease \<Rightarrow> DHCPSharedNetwork list \<Rightarrow> DHCPSubnet option" where
  "subnetForLease lease sharedNetworks =
     (let sub = or_else (dl_subnet lease) ''''
      in if sub = '''' then None
         else case List.find (\<lambda>n. dn_name n = dl_pool lease) sharedNetworks of
                None \<Rightarrow> None
              | Some network \<Rightarrow> List.find (\<lambda>s. ds_cidr s = sub) (dn_subnets network))"

text \<open>\<open>replace(/[^0-9a-fA-F]/g, '')\<close>.\<close>

definition is_hex :: "char \<Rightarrow> bool" where
  "is_hex c \<longleftrightarrow> hex_of c \<noteq> None"

definition suggestStaticMappingName :: "DHCPLease \<Rightarrow> string" where
  "suggestStaticMappingName lease =
     (let hostname = js_trim (dl_hostname lease)
      in if hostname \<noteq> '''' \<and> hostname \<noteq> ''-'' \<and> isValidVyOSIdentifier hostname then hostname
         else ''device-'' @ js_lower (filter is_hex (dl_macAddress lease)))"

definition existingStaticMappingNames :: "DHCPLease \<Rightarrow> DHCPSharedNetwork list \<Rightarrow> string list" where
  "existingStaticMappingNames lease sharedNetworks =
     (case subnetForLease lease sharedNetworks of
        Some subnet \<Rightarrow> map dm_name (ds_staticMappings subnet) | None \<Rightarrow> [])"

text \<open>\<open>m.mac?.trim().toLowerCase()\<close>.\<close>

definition norm_mac :: "string \<Rightarrow> string" where
  "norm_mac mac = js_lower (js_trim mac)"

definition mapping_mac :: "DHCPStaticMapping \<Rightarrow> string option" where
  "mapping_mac m = map_option norm_mac (dm_mac m)"

definition findStaticMapping ::
    "DHCPLease \<Rightarrow> DHCPSharedNetwork list \<Rightarrow> DHCPStaticMapping option" where
  "findStaticMapping lease sharedNetworks =
     (let mac = norm_mac (dl_macAddress lease)
      in if mac = '''' then None
         else case subnetForLease lease sharedNetworks of
                None \<Rightarrow> None
              | Some subnet \<Rightarrow> List.find (\<lambda>m. mapping_mac m = Some mac) (ds_staticMappings subnet))"

definition staticMappingIndexKey :: "string \<Rightarrow> string \<Rightarrow> string \<Rightarrow> string" where
  "staticMappingIndexKey poolName cidr mac = poolName @ [CHR 0x00] @ cidr @ [CHR 0x00] @ mac"

type_synonym mapping_index = "(string \<times> DHCPStaticMapping) list"

definition index_mapping ::
    "DHCPSharedNetwork \<Rightarrow> DHCPSubnet \<Rightarrow> DHCPStaticMapping \<Rightarrow> mapping_index \<Rightarrow> mapping_index" where
  "index_mapping network subnet mapping index =
     (let mac = or_else (mapping_mac mapping) ''''
      in if mac = '''' then index
         else AList.update (staticMappingIndexKey (dn_name network) (ds_cidr subnet) mac) mapping index)"

definition buildStaticMappingIndex :: "DHCPSharedNetwork list \<Rightarrow> mapping_index" where
  "buildStaticMappingIndex sharedNetworks =
     fold (\<lambda>network. fold (\<lambda>subnet. fold (index_mapping network subnet) (ds_staticMappings subnet))
       (dn_subnets network)) sharedNetworks []"

definition findStaticMappingIndexed :: "DHCPLease \<Rightarrow> mapping_index \<Rightarrow> DHCPStaticMapping option" where
  "findStaticMappingIndexed lease index =
     (let mac = norm_mac (dl_macAddress lease); sub = or_else (dl_subnet lease) ''''
      in if mac = '''' \<or> dl_pool lease = '''' \<or> sub = '''' then None
         else map_of index (staticMappingIndexKey (dl_pool lease) sub mac))"

definition UNKNOWN_POOL_LABEL :: string where
  "UNKNOWN_POOL_LABEL = ''Unknown''"

record DHCPLeaseGroup =
  lg_pool :: string
  lg_leases :: "DHCPLease list"

definition lease_pool :: "DHCPLease \<Rightarrow> string" where
  "lease_pool lease =
     (let p = js_trim (dl_pool lease) in if p = '''' then UNKNOWN_POOL_LABEL else p)"

definition add_to_group ::
    "DHCPLease \<Rightarrow> (string \<times> DHCPLease list) list \<Rightarrow> (string \<times> DHCPLease list) list" where
  "add_to_group lease groups =
     (let pool = lease_pool lease
      in case map_of groups pool of
           Some g \<Rightarrow> AList.update pool (g @ [lease]) groups
         | None \<Rightarrow> AList.update pool [lease] groups)"

definition groupLeasesByPool :: "collation \<Rightarrow> DHCPLease list \<Rightarrow> DHCPLeaseGroup list" where
  "groupLeasesByPool lc leases =
     map (\<lambda>(pool, poolLeases). \<lparr>lg_pool = pool, lg_leases = poolLeases\<rparr>)
       (js_sort (\<lambda>(a, _) (b, _). lc a b) (fold add_to_group leases []))"

subsection \<open>Pool utilization\<close>

record PoolUtilization =
  pu_size :: nat
  pu_leased :: nat
  pu_available :: nat
  pu_usagePercent :: int

definition range_size :: "DHCPRange \<Rightarrow> nat" where
  "range_size r =
     (let s = or_else (dr_start r) ''''; e = or_else (dr_stop r) ''''
      in if s \<noteq> '''' \<and> e \<noteq> '''' then ipv4RangeSize s e else 0)"

definition computePoolUtilization :: "DHCPSharedNetwork \<Rightarrow> DHCPLease list \<Rightarrow> PoolUtilization" where
  "computePoolUtilization network leases =
     (let size = sum_list (map range_size (concat (map ds_ranges (dn_subnets network))));
          leased = length (filter (\<lambda>l. dl_pool l = dn_name network) leases)
      in \<lparr>pu_size = size, pu_leased = leased, pu_available = size - leased,
          pu_usagePercent =
            (if size > 0 then min 100 (js_round (of_nat leased / of_nat size * 100)) else 0)\<rparr>)"

definition isAddressInDynamicRange :: "string \<Rightarrow> DHCPRange list \<Rightarrow> string list \<Rightarrow> bool" where
  "isAddressInDynamicRange address ranges excludes =
     (let t = js_trim address
      in if t = '''' \<or> list_ex (\<lambda>ex. js_trim ex = t) excludes then False
         else list_ex (\<lambda>r. case (dr_start r, dr_stop r) of
                (Some s, Some e) \<Rightarrow> isIpv4InRange t s e | _ \<Rightarrow> False) ranges)"

text \<open>
  Pool utilization is a percentage that agrees with the counts: it lies between 0 and 100, the
  available addresses are those not leased, and it is 100 exactly when (rounded) nothing is left.
\<close>

theorem pool_utilization_bounds:
  "0 \<le> pu_usagePercent (computePoolUtilization network leases)
   \<and> pu_usagePercent (computePoolUtilization network leases) \<le> 100
   \<and> pu_available (computePoolUtilization network leases)
       = pu_size (computePoolUtilization network leases) - pu_leased (computePoolUtilization network leases)
   \<and> (pu_size (computePoolUtilization network leases) = 0 \<or>
      (pu_usagePercent (computePoolUtilization network leases) = 100) =
        (199 * pu_size (computePoolUtilization network leases)
           \<le> 200 * pu_leased (computePoolUtilization network leases)))"
proof -
  define size where "size = pu_size (computePoolUtilization network leases)"
  define leased where "leased = pu_leased (computePoolUtilization network leases)"
  have pct: "pu_usagePercent (computePoolUtilization network leases)
      = (if size > 0 then min 100 (js_round (of_nat leased / of_nat size * 100)) else 0)"
    and av: "pu_available (computePoolUtilization network leases) = size - leased"
    by (simp_all only: size_def leased_def computePoolUtilization_def Let_def
        PoolUtilization.select_convs)
  have nn: "0 \<le> js_round (of_nat leased / of_nat size * 100)"
    by (simp add: js_round_def)
  have full: "min 100 (js_round (of_nat leased / of_nat size * 100)) = 100
      \<longleftrightarrow> 199 * size \<le> 200 * leased" if "0 < size"
  proof -
    have "min 100 (js_round (of_nat leased / of_nat size * 100)) = 100
        \<longleftrightarrow> (100 :: rat) \<le> of_nat leased / of_nat size * 100 + 1 / 2"
      by (simp add: js_round_def min_def le_floor_iff) linarith
    also have "\<dots> \<longleftrightarrow> 199 * (of_nat size :: rat) \<le> 200 * of_nat leased"
      using that by (simp add: field_simps)
    also have "\<dots> \<longleftrightarrow> (of_nat (199 * size) :: rat) \<le> of_nat (200 * leased)" by simp
    also have "\<dots> \<longleftrightarrow> 199 * size \<le> 200 * leased" by (rule of_nat_le_iff)
    finally show ?thesis .
  qed
  show ?thesis
    unfolding pct av size_def [symmetric] leased_def [symmetric] using nn full by auto
qed

subsection \<open>Grouping\<close>

lemma map_of_add_to_group:
  "map_of (add_to_group l groups) p =
     (if p = lease_pool l then Some (or_else (map_of groups p) [] @ [l]) else map_of groups p)"
  by (auto simp: add_to_group_def Let_def map_of_AList_update split: option.splits)

lemma group_fold:
  "map_of (fold add_to_group ls groups) p =
     (case or_else (map_of groups p) [] @ filter (\<lambda>l. lease_pool l = p) ls of
        [] \<Rightarrow> map_of groups p
      | g \<Rightarrow> if map_of groups p = None \<and> filter (\<lambda>l. lease_pool l = p) ls = [] then None else Some g)"
  by (induction ls arbitrary: groups)
     (auto simp: map_of_add_to_group or_else_def split: option.splits list.splits)

lemma distinct_add_to_group:
  "distinct (map fst groups) \<Longrightarrow> distinct (map fst (add_to_group l groups))"
  by (auto simp: add_to_group_def Let_def distinct_update split: option.splits)

lemma distinct_group_fold:
  "distinct (map fst groups) \<Longrightarrow> distinct (map fst (fold add_to_group ls groups))"
  by (induction ls arbitrary: groups) (auto simp: distinct_add_to_group)

lemma group_fold_entries:
  "(p, g) \<in> set (fold add_to_group ls []) \<longleftrightarrow> g = filter (\<lambda>l. lease_pool l = p) ls \<and> g \<noteq> []"
proof -
  have "(p, g) \<in> set (fold add_to_group ls []) \<longleftrightarrow> map_of (fold add_to_group ls []) p = Some g"
    using distinct_group_fold [of "[]" ls] by (simp add: map_of_eq_Some_iff)
  then show ?thesis by (auto simp: group_fold split: list.splits)
qed

text \<open>
  Grouping is a partition: the groups are exactly the non-empty classes of leases of one pool,
  each in the original order, no pool has two groups, and together they hold every lease once.
\<close>

theorem groupLeasesByPool_partition:
  "set (groupLeasesByPool lc leases)
     = {\<lparr>lg_pool = p, lg_leases = filter (\<lambda>l. lease_pool l = p) leases\<rparr> | p. p \<in> lease_pool ` set leases}
   \<and> distinct (map lg_pool (groupLeasesByPool lc leases))"
proof -
  let ?g = "fold add_to_group leases []"
  let ?c = "\<lambda>(a, _) (b, _). lc a b"
  have set: "set (groupLeasesByPool lc leases) = (\<lambda>(p, ls). \<lparr>lg_pool = p, lg_leases = ls\<rparr>) ` set ?g"
    by (simp add: groupLeasesByPool_def)
  have "mset (map fst (js_sort ?c ?g)) = mset (map fst ?g)" by simp
  then have "distinct (map fst (js_sort ?c ?g))"
    using distinct_group_fold [of "[]" leases] mset_eq_imp_distinct_iff by fastforce
  then have "distinct (map lg_pool (groupLeasesByPool lc leases))"
    by (simp add: groupLeasesByPool_def comp_def case_prod_beta)
  moreover have "set ?g = {(p, filter (\<lambda>l. lease_pool l = p) leases) | p. p \<in> lease_pool ` set leases}"
    by (auto simp: group_fold_entries filter_empty_conv)
  ultimately show ?thesis unfolding set by auto
qed

subsection \<open>The static mapping index\<close>

lemma key_inj:
  assumes "CHR 0x00 \<notin> set p" "CHR 0x00 \<notin> set c" "CHR 0x00 \<notin> set p'" "CHR 0x00 \<notin> set c'"
  shows "staticMappingIndexKey p c mac = staticMappingIndexKey p' c' mac'
    \<longleftrightarrow> p = p' \<and> c = c' \<and> mac = mac'"
proof -
  have cut: "xs @ z # ys = xs' @ z # ys' \<longleftrightarrow> xs = xs' \<and> ys = ys'"
    if "z \<notin> set xs" "z \<notin> set xs'" for xs xs' ys ys' and z :: char
    using that
  proof (induction xs arbitrary: xs')
    case Nil
    then show ?case by (cases xs') auto
  next
    case (Cons x xs)
    then show ?case by (cases xs') auto
  qed
  show ?thesis using assms by (simp add: staticMappingIndexKey_def cut)
qed

text \<open>
  What the code relies on: VyOS tags a network by its name, a subnet by its CIDR, neither holds a NUL
  character or is empty, and no two mappings of a subnet share a MAC address.
\<close>

definition tagged :: "DHCPSharedNetwork list \<Rightarrow> bool" where
  "tagged nets \<longleftrightarrow>
     distinct (map dn_name nets)
     \<and> list_all (\<lambda>n. dn_name n \<noteq> '''' \<and> CHR 0x00 \<notin> set (dn_name n)
         \<and> distinct (map ds_cidr (dn_subnets n))
         \<and> list_all (\<lambda>s. CHR 0x00 \<notin> set (ds_cidr s)
             \<and> distinct (filter (\<lambda>x. x \<noteq> None \<and> x \<noteq> Some '''') (map mapping_mac (ds_staticMappings s))))
           (dn_subnets n)) nets"

text \<open>The index as one list of (key, mapping) insertions.\<close>

definition index_entries :: "DHCPSharedNetwork list \<Rightarrow> (string \<times> DHCPStaticMapping) list" where
  "index_entries nets =
     concat (map (\<lambda>n. concat (map (\<lambda>s.
       map (\<lambda>m. (staticMappingIndexKey (dn_name n) (ds_cidr s) (or_else (mapping_mac m) ''''), m))
         (filter (\<lambda>m. or_else (mapping_mac m) '''' \<noteq> '''') (ds_staticMappings s)))
       (dn_subnets n))) nets)"

lemma index_subnet_fold:
  "fold (index_mapping n s) ms idx =
     fold (\<lambda>(k, m). AList.update k m)
       (map (\<lambda>m. (staticMappingIndexKey (dn_name n) (ds_cidr s) (or_else (mapping_mac m) ''''), m))
         (filter (\<lambda>m. or_else (mapping_mac m) '''' \<noteq> '''') ms)) idx"
  by (induction ms arbitrary: idx) (auto simp: index_mapping_def Let_def)

lemma fold_fold_concat: "fold (\<lambda>x. fold f (g x)) xs a = fold f (concat (map g xs)) a"
  by (induction xs arbitrary: a) auto

lemma build_entries:
  "buildStaticMappingIndex nets = fold (\<lambda>(k, m). AList.update k m) (index_entries nets) []"
proof -
  have "fold (index_mapping n s) (ds_staticMappings s) = fold (\<lambda>(k, m). AList.update k m)
       (map (\<lambda>m. (staticMappingIndexKey (dn_name n) (ds_cidr s) (or_else (mapping_mac m) ''''), m))
         (filter (\<lambda>m. or_else (mapping_mac m) '''' \<noteq> '''') (ds_staticMappings s)))" for n s
    by (rule ext) (rule index_subnet_fold)
  then show ?thesis
    unfolding buildStaticMappingIndex_def index_entries_def
    by (simp add: fold_fold_concat [abs_def] fold_fold_concat)
qed

lemma map_of_fold_update:
  "map_of (fold (\<lambda>(k, m). AList.update k m) es idx) k =
     (case map_of (rev es) k of Some v \<Rightarrow> Some v | None \<Rightarrow> map_of idx k)"
  by (induction es arbitrary: idx) (auto simp: map_of_AList_update map_add_def split: option.splits)

lemma index_entries_iff:
  "(k, m) \<in> set (index_entries nets) \<longleftrightarrow>
     (\<exists>n \<in> set nets. \<exists>s \<in> set (dn_subnets n). m \<in> set (ds_staticMappings s)
        \<and> or_else (mapping_mac m) '''' \<noteq> ''''
        \<and> k = staticMappingIndexKey (dn_name n) (ds_cidr s) (or_else (mapping_mac m) ''''))"
  by (auto simp: index_entries_def)

lemma tagged_unique:
  assumes "tagged nets" and "n \<in> set nets"
  shows "n' \<in> set nets \<Longrightarrow> dn_name n' = dn_name n \<Longrightarrow> n' = n"
    and "s \<in> set (dn_subnets n) \<Longrightarrow> s' \<in> set (dn_subnets n) \<Longrightarrow> ds_cidr s' = ds_cidr s \<Longrightarrow> s' = s"
    and "s \<in> set (dn_subnets n) \<Longrightarrow> m \<in> set (ds_staticMappings s) \<Longrightarrow> m' \<in> set (ds_staticMappings s) \<Longrightarrow>
      mapping_mac m = Some x \<Longrightarrow> mapping_mac m' = Some x \<Longrightarrow> x \<noteq> '''' \<Longrightarrow> m' = m"
proof -
  have d: "distinct (map dn_name nets)" "distinct (map ds_cidr (dn_subnets n))"
    using assms by (auto simp: tagged_def list_all_iff)
  show "n' \<in> set nets \<Longrightarrow> dn_name n' = dn_name n \<Longrightarrow> n' = n"
    using d(1) assms(2) by (auto simp: distinct_map inj_on_def)
  show "s \<in> set (dn_subnets n) \<Longrightarrow> s' \<in> set (dn_subnets n) \<Longrightarrow> ds_cidr s' = ds_cidr s \<Longrightarrow> s' = s"
    using d(2) by (auto simp: distinct_map inj_on_def)
  assume a: "s \<in> set (dn_subnets n)" "m \<in> set (ds_staticMappings s)" "m' \<in> set (ds_staticMappings s)"
    "mapping_mac m = Some x" "mapping_mac m' = Some x" "x \<noteq> ''''"
  have "distinct (map mapping_mac
      (filter (\<lambda>m. mapping_mac m \<noteq> None \<and> mapping_mac m \<noteq> Some '''') (ds_staticMappings s)))"
    using assms a(1) by (auto simp: tagged_def list_all_iff filter_map comp_def)
  then have "inj_on mapping_mac
      {m \<in> set (ds_staticMappings s). mapping_mac m \<noteq> None \<and> mapping_mac m \<noteq> Some ''''}"
    by (simp add: distinct_map)
  then show "m' = m" by (rule inj_onD) (use a in auto)
qed

lemma find_unique:
  assumes "\<And>x y. x \<in> set xs \<Longrightarrow> y \<in> set xs \<Longrightarrow> P x \<Longrightarrow> P y \<Longrightarrow> x = y"
  shows "List.find P xs = Some x \<longleftrightarrow> x \<in> set xs \<and> P x"
  using assms
proof (induction xs)
  case (Cons a xs)
  show ?case
  proof (cases "P a")
    case True
    then show ?thesis using Cons.prems by auto
  next
    case False
    then show ?thesis using Cons by auto
  qed
qed simp

lemma map_of_functional:
  assumes "\<And>v w. (k, v) \<in> set es \<Longrightarrow> (k, w) \<in> set es \<Longrightarrow> v = w"
  shows "map_of es k = Some v \<longleftrightarrow> (k, v) \<in> set es"
proof
  assume kv: "(k, v) \<in> set es"
  then have "k \<in> fst ` set es" by force
  then have "map_of es k \<noteq> None" by (simp add: map_of_eq_None_iff)
  then obtain w where "map_of es k = Some w" by blast
  then show "map_of es k = Some v" using assms kv map_of_SomeD by metis
qed (rule map_of_SomeD)

lemma index_functional:
  assumes "tagged nets" and "(k, m) \<in> set (index_entries nets)" and "(k, m') \<in> set (index_entries nets)"
  shows "m = m'"
proof -
  obtain n s where 1: "n \<in> set nets" "s \<in> set (dn_subnets n)" "m \<in> set (ds_staticMappings s)"
      "or_else (mapping_mac m) '''' \<noteq> ''''"
      "k = staticMappingIndexKey (dn_name n) (ds_cidr s) (or_else (mapping_mac m) '''')"
    using assms(2) index_entries_iff by auto
  obtain n' s' where 2: "n' \<in> set nets" "s' \<in> set (dn_subnets n')" "m' \<in> set (ds_staticMappings s')"
      "or_else (mapping_mac m') '''' \<noteq> ''''"
      "k = staticMappingIndexKey (dn_name n') (ds_cidr s') (or_else (mapping_mac m') '''')"
    using assms(3) index_entries_iff by auto
  have nul: "CHR 0x00 \<notin> set (dn_name x)" "y \<in> set (dn_subnets x) \<Longrightarrow> CHR 0x00 \<notin> set (ds_cidr y)"
    if "x \<in> set nets" for x y
    using assms(1) that by (auto simp: tagged_def list_all_iff)
  have "dn_name n' = dn_name n \<and> ds_cidr s' = ds_cidr s
      \<and> or_else (mapping_mac m') '''' = or_else (mapping_mac m) ''''"
    using 1(5) 2(5) key_inj nul(1) [OF 1(1)] nul(2) [OF 1(1,2)] nul(1) [OF 2(1)] nul(2) [OF 2(1,2)]
    by metis
  moreover from this have "n' = n" using tagged_unique(1) [OF assms(1) 1(1) 2(1)] by simp
  moreover from calculation have "s' = s" using tagged_unique(2) [OF assms(1) 1(1,2)] 2(2) by simp
  moreover have "mapping_mac m = Some (or_else (mapping_mac m) '''')"
    "mapping_mac m' = Some (or_else (mapping_mac m') '''')"
    using 1(4) 2(4) by (cases "mapping_mac m"; cases "mapping_mac m'"; simp)+
  ultimately show ?thesis
    using tagged_unique(3) [OF assms(1) 1(1,2,3), of m'] 1(4) 2(3) by metis
qed

text \<open>The mapping of a lease, as a relation.\<close>

definition lease_mapping ::
    "DHCPSharedNetwork list \<Rightarrow> string \<Rightarrow> string \<Rightarrow> string \<Rightarrow> DHCPStaticMapping \<Rightarrow> bool" where
  "lease_mapping nets pool sub mac m \<longleftrightarrow>
     (\<exists>n \<in> set nets. \<exists>s \<in> set (dn_subnets n). dn_name n = pool \<and> ds_cidr s = sub
        \<and> m \<in> set (ds_staticMappings s) \<and> mapping_mac m = Some mac)"

lemma scan_mapping:
  assumes "tagged nets"
  shows "findStaticMapping lease nets = Some m \<longleftrightarrow>
    norm_mac (dl_macAddress lease) \<noteq> '''' \<and> or_else (dl_subnet lease) '''' \<noteq> ''''
    \<and> lease_mapping nets (dl_pool lease) (or_else (dl_subnet lease) '''') (norm_mac (dl_macAddress lease)) m"
proof -
  define mac where "mac = norm_mac (dl_macAddress lease)"
  define sub where "sub = or_else (dl_subnet lease) ''''"
  have fn: "List.find (\<lambda>n. dn_name n = dl_pool lease) nets = Some n
      \<longleftrightarrow> n \<in> set nets \<and> dn_name n = dl_pool lease" for n
    by (rule find_unique) (use tagged_unique(1) [OF assms] in auto)
  have fs: "List.find (\<lambda>s. ds_cidr s = sub) (dn_subnets n) = Some s
      \<longleftrightarrow> s \<in> set (dn_subnets n) \<and> ds_cidr s = sub" if "n \<in> set nets" for n s
    by (rule find_unique) (use tagged_unique(2) [OF assms that] in auto)
  have fm: "List.find (\<lambda>m. mapping_mac m = Some mac) (ds_staticMappings s) = Some m
      \<longleftrightarrow> m \<in> set (ds_staticMappings s) \<and> mapping_mac m = Some mac"
    if "n \<in> set nets" "s \<in> set (dn_subnets n)" "mac \<noteq> ''''" for n s
    by (rule find_unique) (use tagged_unique(3) [OF assms that(1,2)] that(3) in blast)
  have sub_iff: "subnetForLease lease nets = Some s \<longleftrightarrow> sub \<noteq> '''' \<and>
      (\<exists>n. n \<in> set nets \<and> dn_name n = dl_pool lease \<and> s \<in> set (dn_subnets n) \<and> ds_cidr s = sub)" for s
    unfolding subnetForLease_def Let_def sub_def [symmetric]
    using fn fs by (auto split: option.splits) (metis option.distinct(1) option.inject)+
  show ?thesis
    unfolding findStaticMapping_def Let_def mac_def [symmetric] sub_def [symmetric] lease_mapping_def
    using sub_iff fm by (auto split: option.splits) (metis option.distinct(1) option.inject)+
qed

lemma indexed_mapping:
  assumes "tagged nets"
    and "CHR 0x00 \<notin> set (dl_pool lease)" and "CHR 0x00 \<notin> set (or_else (dl_subnet lease) '''')"
  shows "findStaticMappingIndexed lease (buildStaticMappingIndex nets) = Some m \<longleftrightarrow>
    norm_mac (dl_macAddress lease) \<noteq> '''' \<and> dl_pool lease \<noteq> '''' \<and> or_else (dl_subnet lease) '''' \<noteq> ''''
    \<and> lease_mapping nets (dl_pool lease) (or_else (dl_subnet lease) '''') (norm_mac (dl_macAddress lease)) m"
proof -
  let ?pool = "dl_pool lease"
  define mac where "mac = norm_mac (dl_macAddress lease)"
  define sub where "sub = or_else (dl_subnet lease) ''''"
  have "map_of (buildStaticMappingIndex nets) k = map_of (rev (index_entries nets)) k" for k
    by (simp add: build_entries map_of_fold_update split: option.splits)
  then have idx: "map_of (buildStaticMappingIndex nets) k = Some m \<longleftrightarrow> (k, m) \<in> set (index_entries nets)" for k
    using map_of_functional [of k "rev (index_entries nets)"] index_functional [OF assms(1)]
    by (metis set_rev)
  have nul: "CHR 0x00 \<notin> set (dn_name x)" "y \<in> set (dn_subnets x) \<Longrightarrow> CHR 0x00 \<notin> set (ds_cidr y)"
    if "x \<in> set nets" for x y
    using assms(1) that by (auto simp: tagged_def list_all_iff)
  have "(staticMappingIndexKey ?pool sub mac, m) \<in> set (index_entries nets)
      \<longleftrightarrow> lease_mapping nets ?pool sub mac m" if "mac \<noteq> ''''"
  proof -
    have "staticMappingIndexKey ?pool sub mac = staticMappingIndexKey (dn_name n) (ds_cidr s) x
        \<longleftrightarrow> ?pool = dn_name n \<and> sub = ds_cidr s \<and> mac = x"
      if "n \<in> set nets" "s \<in> set (dn_subnets n)" for n s x
      using key_inj assms(2,3) nul that unfolding sub_def by blast
    then show ?thesis
      unfolding index_entries_iff lease_mapping_def
      by (cases "mapping_mac m") (use that in \<open>auto, metis\<close>)
  qed
  then show ?thesis
    unfolding findStaticMappingIndexed_def Let_def mac_def [symmetric] sub_def [symmetric]
    using idx by auto
qed

text \<open>
  C18. The index answers what the scan answers: over networks and subnets tagged the way VyOS tags
  them and without duplicate MAC addresses in a subnet, looking a lease up in the precomputed index
  gives the same mapping (or none) as the linear scan.
\<close>

theorem findStaticMappingIndexed_scan:
  assumes "tagged nets"
    and "CHR 0x00 \<notin> set (dl_pool lease)" and "CHR 0x00 \<notin> set (or_else (dl_subnet lease) '''')"
  shows "findStaticMappingIndexed lease (buildStaticMappingIndex nets) = findStaticMapping lease nets"
proof -
  have "lease_mapping nets (dl_pool lease) sub mac m \<Longrightarrow> dl_pool lease \<noteq> ''''" for sub mac m
    using assms(1) by (auto simp: lease_mapping_def tagged_def list_all_iff)
  then have "findStaticMappingIndexed lease (buildStaticMappingIndex nets) = Some m
      \<longleftrightarrow> findStaticMapping lease nets = Some m" for m
    unfolding indexed_mapping [OF assms] scan_mapping [OF assms(1)] by blast
  then show ?thesis by (metis not_None_eq)
qed

definition sample_nets :: "DHCPSharedNetwork list" where
  "sample_nets =
     (let opts = parseOptions None
      in [\<lparr>dn_name = ''lan'', dn_authoritative = False, dn_options = opts,
           dn_subnets = [\<lparr>ds_cidr = ''10.0.0.0/24'', ds_subnetId = None, ds_lease = None,
             ds_options = opts, ds_ranges = [], ds_excludes = [],
             ds_staticMappings = [\<lparr>dm_name = ''pc'', dm_mac = Some ''AA:BB'', dm_duid = None,
               dm_ipAddress = Some ''10.0.0.5''\<rparr>]\<rparr>]\<rparr>])"

definition sample_lease :: DHCPLease where
  "sample_lease = \<lparr>dl_ipAddress = ''10.0.0.5'', dl_macAddress = ''aa:bb'', dl_state = ''active'',
     dl_leaseStart = '''', dl_leaseEnd = '''', dl_remaining = '''', dl_pool = ''lan'', dl_hostname = '''',
     dl_origin = ''local'', dl_subnet = Some ''10.0.0.0/24''\<rparr>"

theorem findStaticMappingIndexed_scan_witness:
  "findStaticMappingIndexed sample_lease (buildStaticMappingIndex sample_nets)
     = findStaticMapping sample_lease sample_nets
   \<and> findStaticMapping sample_lease sample_nets \<noteq> None"
proof
  have "tagged sample_nets" by code_simp
  moreover have "CHR 0x00 \<notin> set (dl_pool sample_lease)"
    "CHR 0x00 \<notin> set (or_else (dl_subnet sample_lease) '''')" by code_simp+
  ultimately show "findStaticMappingIndexed sample_lease (buildStaticMappingIndex sample_nets)
      = findStaticMapping sample_lease sample_nets" by (rule findStaticMappingIndexed_scan)
  show "findStaticMapping sample_lease sample_nets \<noteq> None" by code_simp
qed

text \<open>
  Without that assumption they differ: of two mappings with one MAC address the scan finds the first
  and the index holds the last.
\<close>

definition twin_nets :: "DHCPSharedNetwork list" where
  "twin_nets = map (\<lambda>n. n\<lparr>dn_subnets := map (\<lambda>s. s\<lparr>ds_staticMappings :=
     ds_staticMappings s @ map (\<lambda>m. m\<lparr>dm_name := ''other''\<rparr>) (ds_staticMappings s)\<rparr>) (dn_subnets n)\<rparr>) sample_nets"

text \<open>
  The index and the scan disagree when a subnet lists one MAC address twice: the scan gives the
  first mapping, the index the last.
\<close>

theorem findStaticMappingIndexed_twin:
  "map_option dm_name (findStaticMapping sample_lease twin_nets) = Some ''pc''
   \<and> map_option dm_name (findStaticMappingIndexed sample_lease (buildStaticMappingIndex twin_nets))
       = Some ''other''"
  by code_simp

end
