(* ===== verification/Masking.thy ===== *)
theory Masking
  imports FakeVyos
begin

text \<open>
  Sensitive-leaf masking (\<open>lib/masking.ts\<close> over \<open>shared/sensitive-fields.json\<close>) and the one function
  every display of a queued change goes through (\<open>describeChange\<close> and \<open>hasInvalidQuote\<close> of
  \<open>components/PendingChangesBar.tsx\<close>). The placeholder is made of bullets (U+2022), which are no
  \<open>char\<close>: it is the parameter \<open>ph\<close>.
\<close>

definition sensitive_leaf_names :: "string list" where
  "sensitive_leaf_names =
     [''password'', ''plaintext-password'', ''encrypted-password'', ''passphrase'', ''pre-shared-key'',
      ''preshared-key'', ''pre-shared-secret'', ''private-key'', ''secret'', ''secret-key'', ''api-key'',
      ''community'', ''credential'', ''credentials'', ''pin'', ''token'', ''key'', ''md5-key'', ''psk'',
      ''cak'', ''md5'', ''client-secret'', ''cisco-authentication'']"

definition sensitive_key_patterns :: "string list" where
  "sensitive_key_patterns =
     [''pass'', ''secret'', ''token'', ''key'', ''credential'', ''pwd'', ''private'', ''auth'']"

definition normalize_name :: "string \<Rightarrow> string" where
  "normalize_name name = map (\<lambda>c. if c = CHR ''_'' then CHR ''-'' else c) (js_lower name)"

definition isSensitiveLeaf :: "string \<Rightarrow> bool" where
  "isSensitiveLeaf leafName \<longleftrightarrow> normalize_name leafName \<in> set (map normalize_name sensitive_leaf_names)"

definition isSensitivePath :: "path \<Rightarrow> bool" where
  "isSensitivePath p = (if p = [] then False else isSensitiveLeaf (last p))"

definition isSensitiveIdentifier :: "string \<Rightarrow> bool" where
  "isSensitiveIdentifier name \<longleftrightarrow>
     list_ex (\<lambda>pattern. js_includes (normalize_name name) pattern)
       (map normalize_name sensitive_key_patterns)"

definition isMaskedPath :: "path \<Rightarrow> bool" where
  "isMaskedPath p =
     (if isSensitivePath p then True
      else if length p < 2 \<or> last p \<noteq> ''value'' then False
      else isSensitiveIdentifier (p ! (length p - 2)))"

definition maskValue :: "string \<Rightarrow> path \<Rightarrow> string \<Rightarrow> string" where
  "maskValue ph p v = (if isMaskedPath p then ph else v)"

definition describeChange :: "string \<Rightarrow> ConfigOp \<Rightarrow> string" where
  "describeChange ph op =
     (let v = (if or_else (co_value op) '''' \<noteq> ''''
               then '' '' @ [CHR 0x27] @ maskValue ph (co_path op) (or_else (co_value op) '''') @ [CHR 0x27]
               else '''')
      in op_name (co_op op) @ '' '' @ js_join '' '' (co_path op) @ v)"

definition hasInvalidQuote :: "ConfigOp \<Rightarrow> bool" where
  "hasInvalidQuote op \<longleftrightarrow>
     (case co_value op of Some v \<Rightarrow> CHR 0x27 \<in> set v | None \<Rightarrow> False)
     \<or> list_ex (\<lambda>segment. CHR 0x27 \<in> set segment) (co_path op)"

subsection \<open>What is masked\<close>

lemma js_lower_char_cases: "js_lower_char c = c \<or> (of_char c :: nat) \<ge> 65"
  by (auto simp: js_lower_char_def Let_def)

text \<open>Every name of the shared list is recognised, in any case.\<close>

lemma listed_is_sensitive: "name \<in> set sensitive_leaf_names \<Longrightarrow> isSensitiveLeaf name"
  by (auto simp: isSensitiveLeaf_def)

lemma normalize_case: "js_lower a = js_lower b \<Longrightarrow> isSensitiveLeaf a = isSensitiveLeaf b"
  by (simp add: isSensitiveLeaf_def normalize_name_def)

lemma sensitive_leaf_any_path: "isSensitiveLeaf leaf \<Longrightarrow> isMaskedPath (p @ [leaf])"
  by (simp add: isMaskedPath_def isSensitivePath_def)

lemma masked_identifier: "isSensitiveIdentifier key \<Longrightarrow> isMaskedPath (p @ [key, ''value''])"
  by (simp add: isMaskedPath_def nth_append)

text \<open>
  No secret reaches the screen: the description of a change on a masked path is the same for any
  two (non-empty) values, so it reveals nothing about the value.
\<close>

theorem describeChange_hides_secret:
  assumes "isMaskedPath p" and "v \<noteq> ''''" and "w \<noteq> ''''"
  shows "describeChange ph \<lparr>co_op = k, co_path = p, co_value = Some v\<rparr>
       = describeChange ph \<lparr>co_op = k, co_path = p, co_value = Some w\<rparr>"
  using assms by (simp add: describeChange_def maskValue_def)

theorem describeChange_hides_secret_witness:
  "describeChange ''***'' \<lparr>co_op = Set_op, co_path = [''user'', ''Plaintext_Password''], co_value = Some ''a''\<rparr>
   = describeChange ''***'' \<lparr>co_op = Set_op, co_path = [''user'', ''Plaintext_Password''], co_value = Some ''b''\<rparr>"
  by (rule describeChange_hides_secret) code_simp+

text \<open>
  Which paths are masked: exactly those whose last segment is a listed leaf name up to case and
  underscores, or a \<open>value\<close> leaf under an identifier that contains a listed pattern.
\<close>

theorem isMaskedPath_iff:
  "isMaskedPath p \<longleftrightarrow>
     (\<exists>q leaf. p = q @ [leaf] \<and> normalize_name leaf \<in> set sensitive_leaf_names)
     \<or> (\<exists>q key pat. p = q @ [key, ''value''] \<and> pat \<in> set sensitive_key_patterns
          \<and> sublist pat (normalize_name key))"
proof -
  have names: "map normalize_name sensitive_leaf_names = sensitive_leaf_names" by code_simp
  have pats: "map normalize_name sensitive_key_patterns = sensitive_key_patterns" by code_simp
  show ?thesis
  proof (cases p rule: rev_cases)
    case Nil
    then show ?thesis by (simp add: isMaskedPath_def isSensitivePath_def)
  next
    case (snoc q leaf)
    show ?thesis
    proof (cases q rule: rev_cases)
      case Nil
      then show ?thesis
        by (simp add: snoc isMaskedPath_def isSensitivePath_def isSensitiveLeaf_def names)
    next
      case (snoc r key)
      then show ?thesis
        by (auto simp: \<open>p = q @ [leaf]\<close> isMaskedPath_def isSensitivePath_def isSensitiveLeaf_def names
            isSensitiveIdentifier_def pats js_includes_def list_ex_iff nth_append)
    qed
  qed
qed

end
