(* ===== verification/PendingChanges.thy ===== *)
theory PendingChanges
  imports Masking
begin

text \<open>
  The shared changeset (\<open>store/pendingChanges.ts\<close>) and the record of committed but unsaved changes
  (\<open>store/unsavedCommit.ts\<close>): their operations, what reaches browser storage, and what the enable
  toggles show. The id \<open>crypto.randomUUID()\<close> hands out is an argument of \<open>add\<close>.

  \<open>withPendingEnable_device\<close> relates the toggle to the device: it shows what the device will have
  once the cart is applied.
\<close>

record PendingChange =
  pc_id :: string
  pc_op :: ConfigOp
  pc_label :: string

definition path_key :: "path \<Rightarrow> string" where
  "path_key p = js_join '' '' p"

definition latestPendingOp :: "PendingChange list \<Rightarrow> path \<Rightarrow> ConfigOp option" where
  "latestPendingOp changes p =
     map_option pc_op (List.find (\<lambda>c. path_key (co_path (pc_op c)) = path_key p) (rev changes))"

definition hasPendingSet :: "PendingChange list \<Rightarrow> path \<Rightarrow> bool" where
  "hasPendingSet changes p \<longleftrightarrow> map_option co_op (latestPendingOp changes p) = Some Set_op"

definition hasPendingDelete :: "PendingChange list \<Rightarrow> path \<Rightarrow> bool" where
  "hasPendingDelete changes p \<longleftrightarrow> map_option co_op (latestPendingOp changes p) = Some Delete_op"

text \<open>The override of \<open>parsed.enabled\<close>; the rest of \<open>parsed\<close> is passed through.\<close>

definition withPendingEnable :: "bool \<Rightarrow> path \<Rightarrow> PendingChange list \<Rightarrow> bool" where
  "withPendingEnable enabled p changes =
     (if hasPendingDelete changes p then False
      else if \<not> enabled \<and> hasPendingSet changes p then True
      else enabled)"

definition last_index :: "('a \<Rightarrow> bool) \<Rightarrow> 'a list \<Rightarrow> nat option" where
  "last_index P xs =
     (let hits = filter (\<lambda>i. P (xs ! i)) [0..<length xs]
      in if hits = [] then None else Some (last hits))"

definition remove_index :: "nat \<Rightarrow> 'a list \<Rightarrow> 'a list" where
  "remove_index i xs = take i xs @ drop (Suc i) xs"

definition same_op :: "ConfigOp \<Rightarrow> ConfigOp \<Rightarrow> bool" where
  "same_op a b \<longleftrightarrow> co_op a = co_op b \<and> co_value a = co_value b
     \<and> path_key (co_path a) = path_key (co_path b)"

definition cancelled_delete :: "PendingChange list \<Rightarrow> ConfigOp \<Rightarrow> nat option" where
  "cancelled_delete changes op =
     (if co_op op = Set_op \<and> co_value op = None then
        (case last_index (\<lambda>c. path_key (co_path (pc_op c)) = path_key (co_path op)) changes of
           None \<Rightarrow> None
         | Some i \<Rightarrow>
             if co_op (pc_op (changes ! i)) = Delete_op \<and> co_value (pc_op (changes ! i)) = None
             then Some i else None)
      else None)"

definition add_change ::
    "string \<Rightarrow> ConfigOp \<Rightarrow> string \<Rightarrow> PendingChange list \<Rightarrow> PendingChange list" where
  "add_change uuid op label changes =
     (if changes \<noteq> [] \<and> same_op (pc_op (last changes)) op then changes
      else case cancelled_delete changes op of
             Some i \<Rightarrow> remove_index i changes
           | None \<Rightarrow> changes @ [\<lparr>pc_id = uuid, pc_op = op, pc_label = label\<rparr>])"

definition remove_change :: "string \<Rightarrow> PendingChange list \<Rightarrow> PendingChange list" where
  "remove_change i changes = filter (\<lambda>c. pc_id c \<noteq> i) changes"

definition removeMany :: "string list \<Rightarrow> PendingChange list \<Rightarrow> PendingChange list" where
  "removeMany ids changes = filter (\<lambda>c. pc_id c \<notin> set ids) changes"

definition partialize :: "PendingChange list \<Rightarrow> PendingChange list" where
  "partialize changes =
     filter (\<lambda>c. or_else (co_value (pc_op c)) '''' = '''' \<or> \<not> isMaskedPath (co_path (pc_op c))) changes"

definition markCommitted :: "PendingChange list \<Rightarrow> PendingChange list \<Rightarrow> PendingChange list" where
  "markCommitted changes committedChanges = committedChanges @ changes"

definition markSaved :: "PendingChange list \<Rightarrow> PendingChange list" where
  "markSaved committedChanges = []"

definition partializeCommitted :: "PendingChange list \<Rightarrow> PendingChange list" where
  "partializeCommitted committedChanges =
     filter (\<lambda>c. or_else (co_value (pc_op c)) '''' = '''' \<or> \<not> isMaskedPath (co_path (pc_op c)))
       committedChanges"

subsection \<open>The latest op\<close>

text \<open>Paths as VyOS has them: at least one segment, and no white space in a segment.\<close>

definition plain_path :: "path \<Rightarrow> bool" where
  "plain_path p \<longleftrightarrow> p \<noteq> [] \<and> list_all (\<lambda>s. CHR '' '' \<notin> set s) p"

lemma path_key_inj: "plain_path p \<Longrightarrow> plain_path q \<Longrightarrow> path_key p = path_key q \<longleftrightarrow> p = q"
  unfolding path_key_def plain_path_def list_all_iff
  using js_join_inj [of "CHR '' ''" p q] by blast

lemma latestPendingOp_snoc:
  "latestPendingOp (cs @ [c]) p =
     (if path_key (co_path (pc_op c)) = path_key p then Some (pc_op c) else latestPendingOp cs p)"
  by (simp add: latestPendingOp_def)

lemma latestPendingOp_Nil [simp]: "latestPendingOp [] p = None"
  by (simp add: latestPendingOp_def)

lemma device_apply_snoc:
  "device_apply (map pc_op (cs @ [c])) m
     = apply_op setNested deleteNested (pc_op c) (device_apply (map pc_op cs) m)"
  by simp

lemma apply_op_at:
  assumes "p \<noteq> []" and "co_path op = p"
  shows "(device_get (apply_op setNested deleteNested op m) p \<noteq> None)
    = (case co_op op of Set_op \<Rightarrow> True | Delete_op \<Rightarrow> False | Comment_op \<Rightarrow> device_get m p \<noteq> None)"
  using assms device.get_set_value [of p _ m] device.get_set_flag [of p m] device.get_del [of p m]
  by (cases "co_op op"; cases "or_else (co_value op) '''' = ''''") (auto simp: apply_op_def)

text \<open>
  The toggle tells the future: when every queued op is at the feature's own path or unrelated to
  it (and none is a comment), what \<open>withPendingEnable\<close> shows is whether the device will have the
  feature's node once the whole cart is applied in order.
\<close>

theorem withPendingEnable_device:
  assumes "plain_path p"
    and "list_all (\<lambda>c. plain_path (co_path (pc_op c)) \<and> co_op (pc_op c) \<noteq> Comment_op
           \<and> (co_path (pc_op c) = p \<or> indep (co_path (pc_op c)) p)) changes"
  shows "withPendingEnable (device_get m p \<noteq> None) p changes
       = (device_get (device_apply (map pc_op changes) m) p \<noteq> None)"
  using assms(2)
proof (induction changes rule: rev_induct)
  case Nil
  then show ?case by (simp add: withPendingEnable_def hasPendingDelete_def hasPendingSet_def)
next
  case (snoc c cs)
  let ?m = "device_apply (map pc_op cs) m"
  have key: "path_key (co_path (pc_op c)) = path_key p \<longleftrightarrow> co_path (pc_op c) = p"
    using path_key_inj assms(1) snoc.prems by simp
  show ?case
  proof (cases "co_path (pc_op c) = p")
    case True
    have "p \<noteq> []" using assms(1) by (simp add: plain_path_def)
    from apply_op_at [OF this True, of ?m] snoc.prems show ?thesis
      unfolding device_apply_snoc
      by (cases "co_op (pc_op c)")
         (auto simp: withPendingEnable_def hasPendingDelete_def hasPendingSet_def
            latestPendingOp_snoc key True)
  next
    case False
    then have "device_get (apply_op setNested deleteNested (pc_op c) ?m) p = device_get ?m p"
      using snoc.prems by (intro device.op_frame) simp
    moreover have "withPendingEnable e p (cs @ [c]) = withPendingEnable e p cs" for e
      using False key
      by (auto simp: withPendingEnable_def hasPendingDelete_def hasPendingSet_def latestPendingOp_snoc)
    moreover have "withPendingEnable (device_get m p \<noteq> None) p cs = (device_get ?m p \<noteq> None)"
      using snoc by simp
    ultimately show ?thesis unfolding device_apply_snoc by simp
  qed
qed

theorem withPendingEnable_device_witness:
  "withPendingEnable (device_get [] [''service'', ''ssh''] \<noteq> None) [''service'', ''ssh'']
      [\<lparr>pc_id = ''1'', pc_op = set_flag [''service'', ''ssh''], pc_label = ''''\<rparr>]
   = (device_get (device_apply (map pc_op
        [\<lparr>pc_id = ''1'', pc_op = set_flag [''service'', ''ssh''], pc_label = ''''\<rparr>]) [])
        [''service'', ''ssh''] \<noteq> None)"
proof (rule withPendingEnable_device)
  show "plain_path [''service'', ''ssh'']" by code_simp
qed (simp add: op_defs plain_path_def)

subsection \<open>Queueing\<close>

lemma setNested_idem: "setNested p v (setNested p v m) = setNested p v m"
proof (induction p v m rule: setNested.induct)
  case (2 seg v m)
  then show ?case by (auto simp: map_of_AList_update)
next
  case (3 seg q p v m)
  then show ?case by (simp add: map_of_AList_update as_map_def)
qed simp

lemma deleteNested_idem: "deleteNested p (deleteNested p m) = deleteNested p m"
proof (induction p m rule: deleteNested.induct)
  case (3 seg q p m)
  show ?case
  proof (cases "\<exists>n. map_of m seg = Some (JObj n)")
    case True
    then show ?thesis using 3 by (auto simp: map_of_AList_update)
  next
    case False
    then have "deleteNested (seg # q # p) m = m" by (auto split: option.splits json.splits)
    then show ?thesis by (simp only:)
  qed
qed (simp_all add: delete_idem)

lemma apply_op_idem:
  "apply_op setNested deleteNested op (apply_op setNested deleteNested op m)
     = apply_op setNested deleteNested op m"
  by (cases "co_op op") (simp_all add: apply_op_def setNested_idem deleteNested_idem)

lemma same_op_eq:
  "plain_path (co_path a) \<Longrightarrow> plain_path (co_path b) \<Longrightarrow> same_op a b \<Longrightarrow> a = b"
  by (cases a; cases b) (auto simp: same_op_def path_key_inj)

lemma add_change_applied:
  assumes "plain_path (co_path op)" and "list_all (\<lambda>c. plain_path (co_path (pc_op c))) changes"
    and "cancelled_delete changes op = None"
  shows "device_apply (map pc_op (add_change uuid op label changes)) m
       = apply_op setNested deleteNested op (device_apply (map pc_op changes) m)"
proof (cases "changes \<noteq> [] \<and> same_op (pc_op (last changes)) op")
  case True
  then obtain cs c where cs: "changes = cs @ [c]" by (metis rev_exhaust)
  have "pc_op c = op"
    by (rule same_op_eq) (use True assms cs in auto)
  moreover have "add_change uuid op label changes = changes" using True by (simp add: add_change_def)
  ultimately show ?thesis unfolding cs by (simp add: apply_op_idem)
next
  case False
  then have "add_change uuid op label changes = changes @ [\<lparr>pc_id = uuid, pc_op = op, pc_label = label\<rparr>]"
    using assms(3) by (auto simp: add_change_def)
  then show ?thesis by simp
qed



text \<open>
  Enabling after disabling restores what was queued: where the last op queued for a path is a
  valueless \<open>delete\<close>, the valueless \<open>set\<close> of that path removes exactly that \<open>delete\<close>, adds nothing,
  and leaves every other queued change in its place.
\<close>

theorem add_change_cancels:
  assumes "co_op (pc_op d) = Delete_op" and "co_value (pc_op d) = None" and "co_path (pc_op d) = p"
    and "list_all (\<lambda>c. path_key (co_path (pc_op c)) \<noteq> path_key p) later"
  shows "add_change uuid (set_flag p) label (earlier @ [d] @ later) = earlier @ later"
proof -
  let ?cs = "earlier @ [d] @ later"
  let ?P = "\<lambda>c. path_key (co_path (pc_op c)) = path_key p"
  have nth_later: "\<not> ?P (?cs ! i)" if "length earlier < i" "i < length ?cs" for i
  proof -
    have "?cs ! i = later ! (i - Suc (length earlier))"
      using that by (simp add: nth_append nth_Cons')
    moreover have "i - Suc (length earlier) < length later" using that by simp
    ultimately show ?thesis using assms(4) by (simp add: list_all_length)
  qed
  have "[0..<length ?cs] = [0..<length earlier] @ length earlier # [Suc (length earlier)..<length ?cs]"
  proof -
    have "[0..<length ?cs] = [0..<length earlier] @ [length earlier..<length ?cs]"
      using upt_add_eq_append [of 0 "length earlier" "Suc (length later)"] by simp
    also have "[length earlier..<length ?cs] = length earlier # [Suc (length earlier)..<length ?cs]"
      by (rule upt_conv_Cons) simp
    finally show ?thesis .
  qed
  moreover have "filter (\<lambda>i. ?P (?cs ! i)) [Suc (length earlier)..<length ?cs] = []"
  proof (rule filter_False, rule ballI)
    fix i assume "i \<in> set [Suc (length earlier)..<length ?cs]"
    then have "length earlier < i" "i < length ?cs" by (simp_all only: set_upt atLeastLessThan_iff Suc_le_eq)
    then show "\<not> ?P (?cs ! i)" by (rule nth_later)
  qed
  moreover have "?P (?cs ! length earlier)" using assms(3) by simp
  ultimately have "filter (\<lambda>i. ?P (?cs ! i)) [0..<length ?cs]
      = filter (\<lambda>i. ?P (?cs ! i)) [0..<length earlier] @ [length earlier]"
    by (simp only: filter_append filter.simps if_True refl)
  then have idx: "last_index ?P ?cs = Some (length earlier)"
    unfolding last_index_def Let_def by (simp only: append_is_Nil_conv list.distinct simp_thms if_False last_snoc)
  have "cancelled_delete ?cs (set_flag p) = Some (length earlier)"
    using idx assms(1,2) by (simp add: cancelled_delete_def set_flag_def)
  moreover have "\<not> same_op (pc_op (last ?cs)) (set_flag p)"
  proof (cases later rule: rev_cases)
    case Nil
    then show ?thesis using assms(1) by (simp add: same_op_def set_flag_def)
  next
    case (snoc ls l)
    then show ?thesis using assms(4) by (simp add: same_op_def set_flag_def)
  qed
  ultimately show ?thesis by (simp add: add_change_def remove_index_def)
qed

theorem add_change_cancels_witness:
  "add_change ''3'' (set_flag [''service'', ''ssh'']) ''''
     ([\<lparr>pc_id = ''1'', pc_op = set_op [''a''] ''x'', pc_label = ''''\<rparr>]
      @ [\<lparr>pc_id = ''2'', pc_op = delete_op [''service'', ''ssh''], pc_label = ''''\<rparr>] @ [])
   = [\<lparr>pc_id = ''1'', pc_op = set_op [''a''] ''x'', pc_label = ''''\<rparr>] @ []"
  by (rule add_change_cancels) (simp_all add: op_defs)

subsection \<open>Storage\<close>

text \<open>
  Browser storage holds no secret: of the queued changes and of the committed ones, exactly those
  without a value on a masked path are written, in order.
\<close>

theorem stored_changes_no_secret:
  "(\<forall>c. c \<in> set (partialize changes) \<longleftrightarrow>
      c \<in> set changes \<and> \<not> (isMaskedPath (co_path (pc_op c)) \<and> or_else (co_value (pc_op c)) '''' \<noteq> ''''))
   \<and> (\<forall>c. c \<in> set (partializeCommitted committed) \<longleftrightarrow>
      c \<in> set committed \<and> \<not> (isMaskedPath (co_path (pc_op c)) \<and> or_else (co_value (pc_op c)) '''' \<noteq> ''''))
   \<and> subseq (partialize changes) changes \<and> subseq (partializeCommitted committed) committed"
  by (auto simp: partialize_def partializeCommitted_def)

end
