(* ===== verification/CommitEngine.thy ===== *)
theory CommitEngine
  imports PendingChanges
begin

text \<open>
  The commit/save engine: the handlers of \<open>components/PendingChangesBar.tsx\<close> (commit, keep, save,
  roll back, the end of the confirm window) over the two stores, against an abstract device that
  knows which committed changes are running but not saved and which change is on trial.

  A handler is split at its \<open>await\<close>: the click captures what the closure captures and leaves a request
  in flight, the reply runs the rest. Pages may queue changes in between. A failed reply is taken to
  mean that the device did nothing, and the countdown to end when the device reverts.
\<close>

datatype pending_action = Commit_action | Rollback_action

record bar =
  bar_changes :: "PendingChange list"
  bar_committed :: "PendingChange list"
  bar_pendingAction :: pending_action
  bar_pendingCommitChanges :: "PendingChange list"
  bar_saveAfterConfirm :: bool
  bar_busy :: bool
  bar_error :: "string option"
  bar_confirm :: bool

datatype request =
    Commit_request "PendingChange list" bool
  | Keep_request pending_action "PendingChange list" bool
  | Save_after_commit bool
  | Standalone_save
  | Rollback_request

datatype reply = Reply_ok bool | Reply_error string

text \<open>\<open>runCommit\<close> up to the request: allowed by the buttons' \<open>disabled\<close> and visibility conditions.\<close>

definition can_commit :: "bool \<Rightarrow> bar \<Rightarrow> bool" where
  "can_commit confirmSecondsValid b \<longleftrightarrow>
     bar_changes b \<noteq> [] \<and> \<not> bar_confirm b \<and> \<not> bar_busy b \<and> confirmSecondsValid
     \<and> \<not> list_ex (\<lambda>c. hasInvalidQuote (pc_op c)) (bar_changes b)"

definition runCommit :: "bool \<Rightarrow> bar \<Rightarrow> bar \<times> request" where
  "runCommit alsoSave b =
     (b\<lparr>bar_busy := True, bar_error := None\<rparr>, Commit_request (bar_changes b) alsoSave)"

definition runCommit_reply ::
    "PendingChange list \<Rightarrow> bool \<Rightarrow> reply \<Rightarrow> bar \<Rightarrow> bar \<times> request option" where
  "runCommit_reply committing alsoSave r b =
     (case r of
        Reply_ok pendingConfirm \<Rightarrow>
          if pendingConfirm then
            (b\<lparr>bar_pendingAction := Commit_action, bar_pendingCommitChanges := committing,
               bar_saveAfterConfirm := alsoSave, bar_confirm := True, bar_busy := False\<rparr>, None)
          else
            (let b1 = b\<lparr>bar_changes := removeMany (map pc_id committing) (bar_changes b),
                        bar_committed := markCommitted committing (bar_committed b)\<rparr>
             in if alsoSave then (b1, Some (Save_after_commit False))
                else (b1\<lparr>bar_busy := False\<rparr>, None))
      | Reply_error message \<Rightarrow> (b\<lparr>bar_error := Some message, bar_busy := False\<rparr>, None))"

text \<open>\<open>saveAfterSuccessfulCommit\<close> and the \<open>finally\<close> of its caller.\<close>

definition saveAfterSuccessfulCommit_reply :: "bool \<Rightarrow> reply \<Rightarrow> bar \<Rightarrow> bar \<times> request option" where
  "saveAfterSuccessfulCommit_reply fromKeep r b =
     (let b1 = (case r of
                  Reply_ok _ \<Rightarrow> b\<lparr>bar_committed := markSaved (bar_committed b)\<rparr>
                | Reply_error detail \<Rightarrow>
                    b\<lparr>bar_error := Some (''Applied but not saved: '' @ detail @
                        ''. Your change is live but will be lost on reboot unless you save.'')\<rparr>);
          b2 = b1\<lparr>bar_busy := False\<rparr>
      in (if fromKeep then b2\<lparr>bar_saveAfterConfirm := False\<rparr> else b2, None))"

definition handleKeep :: "bar \<Rightarrow> bar \<times> request" where
  "handleKeep b =
     (b\<lparr>bar_busy := True, bar_error := None\<rparr>,
      Keep_request (bar_pendingAction b) (bar_pendingCommitChanges b) (bar_saveAfterConfirm b))"

definition handleKeep_reply ::
    "pending_action \<Rightarrow> PendingChange list \<Rightarrow> bool \<Rightarrow> reply \<Rightarrow> bar \<Rightarrow> bar \<times> request option" where
  "handleKeep_reply pendingAction pendingCommitChanges saveAfterConfirm r b =
     (case r of
        Reply_ok _ \<Rightarrow>
          (let b1 = b\<lparr>bar_confirm := False\<rparr>
           in if pendingAction = Rollback_action then
                (b1\<lparr>bar_committed := markSaved (bar_committed b1), bar_busy := False,
                    bar_saveAfterConfirm := False\<rparr>, None)
              else
                (let b2 = b1\<lparr>bar_changes := removeMany (map pc_id pendingCommitChanges) (bar_changes b1),
                             bar_committed := markCommitted pendingCommitChanges (bar_committed b1)\<rparr>
                 in if saveAfterConfirm then (b2, Some (Save_after_commit True))
                    else (b2\<lparr>bar_busy := False, bar_saveAfterConfirm := False\<rparr>, None)))
      | Reply_error message \<Rightarrow>
          (b\<lparr>bar_error := Some message, bar_busy := False, bar_saveAfterConfirm := False\<rparr>, None))"

definition handleStandaloneSave :: "bar \<Rightarrow> bar \<times> request" where
  "handleStandaloneSave b = (b\<lparr>bar_busy := True, bar_error := None\<rparr>, Standalone_save)"

definition handleStandaloneSave_reply :: "reply \<Rightarrow> bar \<Rightarrow> bar \<times> request option" where
  "handleStandaloneSave_reply r b =
     (case r of
        Reply_ok _ \<Rightarrow> (b\<lparr>bar_committed := markSaved (bar_committed b), bar_busy := False\<rparr>, None)
      | Reply_error message \<Rightarrow> (b\<lparr>bar_error := Some message, bar_busy := False\<rparr>, None))"

definition runRollback :: "bar \<Rightarrow> bar \<times> request" where
  "runRollback b = (b\<lparr>bar_busy := True, bar_error := None\<rparr>, Rollback_request)"

definition runRollback_reply :: "reply \<Rightarrow> bar \<Rightarrow> bar \<times> request option" where
  "runRollback_reply r b =
     (case r of
        Reply_ok pendingConfirm \<Rightarrow>
          if pendingConfirm then
            (b\<lparr>bar_pendingAction := Rollback_action, bar_confirm := True, bar_busy := False\<rparr>, None)
          else (b\<lparr>bar_committed := markSaved (bar_committed b), bar_busy := False\<rparr>, None)
      | Reply_error message \<Rightarrow> (b\<lparr>bar_error := Some message, bar_busy := False\<rparr>, None))"

text \<open>The callback that \<open>useCommitConfirm\<close> runs when the window ends.\<close>

definition confirmExpired :: "bar \<Rightarrow> bar" where
  "confirmExpired b =
     b\<lparr>bar_confirm := False, bar_saveAfterConfirm := False,
       bar_error := Some (if bar_pendingAction b = Rollback_action
         then ''The confirm window ran out, so VyOS reverted the rollback and your committed changes are live again.''
         else ''The confirm window ran out, so VyOS reverted the commit. Your changes are still pending.'')\<rparr>"

definition shows_unsaved_bar :: "bar \<Rightarrow> bool" where
  "shows_unsaved_bar b \<longleftrightarrow>
     bar_changes b = [] \<and> \<not> bar_confirm b \<and> bar_error b = None \<and> bar_committed b \<noteq> []"

definition handle_reply :: "request \<Rightarrow> reply \<Rightarrow> bar \<Rightarrow> bar \<times> request option" where
  "handle_reply q r b =
     (case q of
        Commit_request committing alsoSave \<Rightarrow> runCommit_reply committing alsoSave r b
      | Keep_request a cs s \<Rightarrow> handleKeep_reply a cs s r b
      | Save_after_commit k \<Rightarrow> saveAfterSuccessfulCommit_reply k r b
      | Standalone_save \<Rightarrow> handleStandaloneSave_reply r b
      | Rollback_request \<Rightarrow> runRollback_reply r b)"

subsection \<open>The device\<close>

datatype trial = Trial_commit "PendingChange list" | Trial_rollback

record device =
  dv_unsaved :: "PendingChange list"
  dv_trial :: "trial option"

inductive serve :: "request \<Rightarrow> reply \<Rightarrow> device \<Rightarrow> device \<Rightarrow> bool" where
  serve_commit: "dv_trial d = None \<Longrightarrow>
    serve (Commit_request cs s) (Reply_ok False) d (d\<lparr>dv_unsaved := dv_unsaved d @ cs\<rparr>)"
| serve_commit_trial: "dv_trial d = None \<Longrightarrow>
    serve (Commit_request cs s) (Reply_ok True) d (d\<lparr>dv_trial := Some (Trial_commit cs)\<rparr>)"
| serve_keep: "dv_trial d = Some (Trial_commit cs) \<Longrightarrow>
    serve (Keep_request a ds s) (Reply_ok p) d (d\<lparr>dv_unsaved := dv_unsaved d @ cs, dv_trial := None\<rparr>)"
| serve_keep_rollback: "dv_trial d = Some Trial_rollback \<Longrightarrow>
    serve (Keep_request a ds s) (Reply_ok p) d (d\<lparr>dv_unsaved := [], dv_trial := None\<rparr>)"
| serve_save_after: "serve (Save_after_commit k) (Reply_ok p) d (d\<lparr>dv_unsaved := []\<rparr>)"
| serve_save: "serve Standalone_save (Reply_ok p) d (d\<lparr>dv_unsaved := []\<rparr>)"
| serve_rollback: "dv_trial d = None \<Longrightarrow>
    serve Rollback_request (Reply_ok False) d (d\<lparr>dv_unsaved := []\<rparr>)"
| serve_rollback_trial: "dv_trial d = None \<Longrightarrow>
    serve Rollback_request (Reply_ok True) d (d\<lparr>dv_trial := Some Trial_rollback\<rparr>)"
| serve_error: "serve q (Reply_error m) d d"

inductive_cases serve_commit_cases: "serve (Commit_request cs s) r d d'"
inductive_cases serve_keep_cases: "serve (Keep_request a cs s) r d d'"
inductive_cases serve_save_after_cases: "serve (Save_after_commit k) r d d'"
inductive_cases serve_save_cases: "serve Standalone_save r d d'"
inductive_cases serve_rollback_cases: "serve Rollback_request r d d'"

subsection \<open>The engine\<close>

text \<open>\<open>en_log\<close> is a ghost: every change ever queued.\<close>

record engine =
  en_bar :: bar
  en_request :: "request option"
  en_device :: device
  en_log :: "PendingChange list"

datatype engine_event =
    Queue_event string ConfigOp string
  | Remove_event string
  | Discard_event
  | Mark_saved_event
  | Commit_click bool bool
  | Keep_click
  | Save_click
  | Rollback_click
  | Expire_event
  | Reply_event reply

inductive engine_step :: "engine_event \<Rightarrow> engine \<Rightarrow> engine \<Rightarrow> bool" where
  step_queue: "uuid \<notin> pc_id ` set (en_log e) \<Longrightarrow>
    engine_step (Queue_event uuid op label) e
      (e\<lparr>en_bar := (en_bar e)\<lparr>bar_changes := add_change uuid op label (bar_changes (en_bar e))\<rparr>,
         en_log := en_log e @ [\<lparr>pc_id = uuid, pc_op = op, pc_label = label\<rparr>]\<rparr>)"
| step_remove: "\<not> bar_confirm (en_bar e) \<Longrightarrow>
    engine_step (Remove_event i) e
      (e\<lparr>en_bar := (en_bar e)\<lparr>bar_changes := remove_change i (bar_changes (en_bar e))\<rparr>\<rparr>)"
| step_discard: "\<not> bar_busy (en_bar e) \<Longrightarrow> \<not> bar_confirm (en_bar e) \<Longrightarrow>
    engine_step Discard_event e (e\<lparr>en_bar := (en_bar e)\<lparr>bar_changes := []\<rparr>\<rparr>)"
| step_mark_saved: "shows_unsaved_bar (en_bar e) \<Longrightarrow>
    engine_step Mark_saved_event e
      (e\<lparr>en_bar := (en_bar e)\<lparr>bar_committed := markSaved (bar_committed (en_bar e))\<rparr>,
         en_device := (en_device e)\<lparr>dv_unsaved := []\<rparr>\<rparr>)"
| step_commit: "can_commit valid (en_bar e) \<Longrightarrow> runCommit alsoSave (en_bar e) = (b, q) \<Longrightarrow>
    engine_step (Commit_click alsoSave valid) e (e\<lparr>en_bar := b, en_request := Some q\<rparr>)"
| step_keep: "bar_confirm (en_bar e) \<Longrightarrow> \<not> bar_busy (en_bar e) \<Longrightarrow> handleKeep (en_bar e) = (b, q) \<Longrightarrow>
    engine_step Keep_click e (e\<lparr>en_bar := b, en_request := Some q\<rparr>)"
| step_save: "shows_unsaved_bar (en_bar e) \<Longrightarrow> \<not> bar_busy (en_bar e) \<Longrightarrow>
    handleStandaloneSave (en_bar e) = (b, q) \<Longrightarrow>
    engine_step Save_click e (e\<lparr>en_bar := b, en_request := Some q\<rparr>)"
| step_rollback: "shows_unsaved_bar (en_bar e) \<Longrightarrow> \<not> bar_busy (en_bar e) \<Longrightarrow>
    runRollback (en_bar e) = (b, q) \<Longrightarrow>
    engine_step Rollback_click e (e\<lparr>en_bar := b, en_request := Some q\<rparr>)"
| step_expire: "bar_confirm (en_bar e) \<Longrightarrow>
    engine_step Expire_event e
      (e\<lparr>en_bar := confirmExpired (en_bar e), en_device := (en_device e)\<lparr>dv_trial := None\<rparr>\<rparr>)"
| step_reply: "en_request e = Some q \<Longrightarrow> serve q r (en_device e) d \<Longrightarrow>
    handle_reply q r (en_bar e) = (b, q') \<Longrightarrow>
    engine_step (Reply_event r) e (e\<lparr>en_bar := b, en_request := q', en_device := d\<rparr>)"

inductive_cases engine_step_reply: "engine_step (Reply_event r) e e'"

inductive engine_steps :: "engine \<Rightarrow> engine_event list \<Rightarrow> engine \<Rightarrow> bool" where
  steps_nil: "engine_steps e [] e"
| steps_cons: "engine_step ev e e' \<Longrightarrow> engine_steps e' evs e'' \<Longrightarrow> engine_steps e (ev # evs) e''"

definition initial_bar :: bar where
  "initial_bar = \<lparr>bar_changes = [], bar_committed = [], bar_pendingAction = Commit_action,
     bar_pendingCommitChanges = [], bar_saveAfterConfirm = False, bar_busy = False,
     bar_error = None, bar_confirm = False\<rparr>"

definition initial_engine :: engine where
  "initial_engine = \<lparr>en_bar = initial_bar, en_request = None,
     en_device = \<lparr>dv_unsaved = [], dv_trial = None\<rparr>, en_log = []\<rparr>"

definition reachable :: "engine \<Rightarrow> bool" where
  "reachable e \<longleftrightarrow> (\<exists>evs. engine_steps initial_engine evs e)"

subsection \<open>The bar agrees with the device\<close>

lemmas reply_defs = handle_reply_def runCommit_reply_def handleKeep_reply_def
  saveAfterSuccessfulCommit_reply_def handleStandaloneSave_reply_def runRollback_reply_def
  markCommitted_def markSaved_def

lemmas click_defs = runCommit_def handleKeep_def handleStandaloneSave_def runRollback_def

text \<open>What is on trial is what the bar would keep.\<close>

definition trial_agrees :: "bar \<Rightarrow> device \<Rightarrow> bool" where
  "trial_agrees b d \<longleftrightarrow>
     (case dv_trial d of
        None \<Rightarrow> \<not> bar_confirm b
      | Some (Trial_commit cs) \<Rightarrow>
          bar_confirm b \<and> bar_pendingAction b = Commit_action \<and> bar_pendingCommitChanges b = cs
      | Some Trial_rollback \<Rightarrow> bar_confirm b \<and> bar_pendingAction b = Rollback_action)"

definition request_agrees :: "request option \<Rightarrow> bar \<Rightarrow> device \<Rightarrow> bool" where
  "request_agrees q b d \<longleftrightarrow>
     (q = None) = (\<not> bar_busy b)
     \<and> (case q of
          None \<Rightarrow> True
        | Some (Keep_request a cs s) \<Rightarrow>
            dv_trial d = None \<or> (a = bar_pendingAction b \<and> cs = bar_pendingCommitChanges b)
        | Some _ \<Rightarrow> dv_trial d = None)"

definition agrees :: "engine \<Rightarrow> bool" where
  "agrees e \<longleftrightarrow>
     bar_committed (en_bar e) = dv_unsaved (en_device e)
     \<and> trial_agrees (en_bar e) (en_device e)
     \<and> request_agrees (en_request e) (en_bar e) (en_device e)"

lemma agrees_initial: "agrees initial_engine"
  by (simp add: agrees_def initial_engine_def initial_bar_def trial_agrees_def request_agrees_def)

lemma agrees_reply:
  assumes "serve q r (en_device e) d" and "en_request e = Some q"
    and "handle_reply q r (en_bar e) = (b, q')" and "agrees e"
  shows "agrees (e\<lparr>en_bar := b, en_request := q', en_device := d\<rparr>)"
  using assms
  by (induction q r "en_device e" d rule: serve.induct)
     (auto simp: agrees_def trial_agrees_def request_agrees_def reply_defs Let_def
        split: if_splits option.splits trial.splits request.splits)

lemma agrees_step: "engine_step ev e e' \<Longrightarrow> agrees e \<Longrightarrow> agrees e'"
proof (induction rule: engine_step.induct)
  case (step_reply e q r d b q')
  then show ?case by (intro agrees_reply)
qed (auto simp: agrees_def trial_agrees_def request_agrees_def click_defs confirmExpired_def
      can_commit_def shows_unsaved_bar_def markSaved_def
      split: option.splits trial.splits request.splits)

lemma agrees_steps: "engine_steps e evs e' \<Longrightarrow> agrees e \<Longrightarrow> agrees e'"
  by (induction rule: engine_steps.induct) (auto intro: agrees_step)


subsection \<open>No change is lost\<close>

definition request_changes :: "request option \<Rightarrow> PendingChange list" where
  "request_changes q =
     (case q of Some (Commit_request cs s) \<Rightarrow> cs | Some (Keep_request a cs s) \<Rightarrow> cs | _ \<Rightarrow> [])"

definition logged :: "engine \<Rightarrow> bool" where
  "logged e \<longleftrightarrow> distinct (map pc_id (en_log e))
     \<and> set (bar_changes (en_bar e)) \<subseteq> set (en_log e)
     \<and> set (bar_pendingCommitChanges (en_bar e)) \<subseteq> set (en_log e)
     \<and> set (request_changes (en_request e)) \<subseteq> set (en_log e)"

lemma set_add_change:
  "set (add_change uuid op label cs) \<subseteq> insert \<lparr>pc_id = uuid, pc_op = op, pc_label = label\<rparr> (set cs)"
  by (auto simp: add_change_def remove_index_def split: option.splits dest: in_set_takeD in_set_dropD)

lemma logged_step: "engine_step ev e e' \<Longrightarrow> logged e \<Longrightarrow> logged e'"
proof (induction rule: engine_step.induct)
  case (step_queue uuid e op label)
  then show ?case using set_add_change [of uuid op label "bar_changes (en_bar e)"]
    by (auto simp: logged_def)
next
  case (step_reply e q r d b q')
  then show ?case
    by (cases q; cases r)
       (auto simp: logged_def reply_defs removeMany_def request_changes_def Let_def split: if_splits)
qed (auto simp: logged_def click_defs confirmExpired_def remove_change_def request_changes_def
      split: option.splits request.splits)

lemma logged_steps: "engine_steps e evs e' \<Longrightarrow> logged e \<Longrightarrow> logged e'"
  by (induction rule: engine_steps.induct) (auto intro: logged_step)

text \<open>The events by which the user takes a change out of the cart.\<close>

definition user_edit :: "engine_event \<Rightarrow> bool" where
  "user_edit ev \<longleftrightarrow>
     (case ev of Queue_event _ _ _ \<Rightarrow> True | Remove_event _ \<Rightarrow> True | Discard_event \<Rightarrow> True | _ \<Rightarrow> False)"

lemma same_id_same_change:
  "logged e \<Longrightarrow> c \<in> set (en_log e) \<Longrightarrow> d \<in> set (en_log e) \<Longrightarrow> pc_id c = pc_id d \<Longrightarrow> c = d"
  by (auto simp: logged_def distinct_map inj_on_def)

lemma removed_is_committed:
  assumes "logged e" and "c \<in> set (bar_changes (en_bar e))" and "set cs \<subseteq> set (en_log e)"
  shows "c \<in> set (removeMany (map pc_id cs) (bar_changes (en_bar e))) \<or> c \<in> set cs"
proof (cases "pc_id c \<in> pc_id ` set cs")
  case True
  then obtain d where d: "d \<in> set cs" "pc_id c = pc_id d" by auto
  have "c = d"
    by (rule same_id_same_change [OF assms(1)]) (use assms d in \<open>auto simp: logged_def\<close>)
  then show ?thesis using d by simp
next
  case False
  then show ?thesis using assms(2) by (auto simp: removeMany_def)
qed

lemma not_lost_reply:
  assumes "logged e" and "c \<in> set (bar_changes (en_bar e))" and "en_request e = Some q"
    and "handle_reply q r (en_bar e) = (b, q')"
  shows "c \<in> set (bar_changes b) \<or> c \<in> set (bar_committed b)"
proof (cases q)
  case (Commit_request cs s)
  then have "set cs \<subseteq> set (en_log e)" using assms(1,3) by (simp add: logged_def request_changes_def)
  from removed_is_committed [OF assms(1,2) this] show ?thesis
    using assms Commit_request by (cases r) (auto simp: reply_defs Let_def split: if_splits)
next
  case (Keep_request a cs s)
  then have "set cs \<subseteq> set (en_log e)" using assms(1,3) by (simp add: logged_def request_changes_def)
  from removed_is_committed [OF assms(1,2) this] show ?thesis
    using assms Keep_request by (cases r) (auto simp: reply_defs Let_def split: if_splits)
qed (use assms in \<open>cases r; auto simp: reply_defs Let_def split: if_splits\<close>)+

text \<open>
  C7. The engine loses no change: in every reachable state, a queued change stays queued across any
  event that is not the user's own edit of the cart, unless it has just moved to the committed list.
  So failed commits, expired windows and rollbacks leave it pending.
\<close>

theorem no_change_lost:
  assumes "engine_steps initial_engine evs e" and "engine_step ev e e'" and "\<not> user_edit ev"
    and "c \<in> set (bar_changes (en_bar e))"
  shows "c \<in> set (bar_changes (en_bar e')) \<or> c \<in> set (bar_committed (en_bar e'))"
proof -
  have "logged initial_engine"
    by (simp add: logged_def initial_engine_def initial_bar_def request_changes_def)
  then have log: "logged e" using logged_steps assms(1) by blast
  show ?thesis
    using assms(2,3,4)
  proof (cases rule: engine_step.cases)
    case (step_reply q r d b q')
    then show ?thesis using not_lost_reply [OF log assms(4)] by auto
  qed (auto simp: user_edit_def click_defs confirmExpired_def)
qed

subsection \<open>A run\<close>

definition ssh_off :: PendingChange where
  "ssh_off = \<lparr>pc_id = ''1'', pc_op = delete_op [''service'', ''ssh''], pc_label = ''''\<rparr>"

definition with_cart :: "PendingChange list \<Rightarrow> engine" where
  "with_cart cs = initial_engine\<lparr>en_bar := initial_bar\<lparr>bar_changes := cs\<rparr>, en_log := [ssh_off]\<rparr>"

lemma run_queue:
  "engine_step (Queue_event ''1'' (delete_op [''service'', ''ssh'']) '''') initial_engine (with_cart [ssh_off])"
proof -
  have "with_cart [ssh_off] = initial_engine\<lparr>en_bar := (en_bar initial_engine)
      \<lparr>bar_changes := add_change ''1'' (delete_op [''service'', ''ssh'']) '''' (bar_changes (en_bar initial_engine))\<rparr>,
      en_log := en_log initial_engine @ [\<lparr>pc_id = ''1'', pc_op = delete_op [''service'', ''ssh''], pc_label = ''''\<rparr>]\<rparr>"
    by (simp add: with_cart_def ssh_off_def initial_engine_def initial_bar_def add_change_def
          cancelled_delete_def op_defs)
  then show ?thesis using step_queue [of "''1''" initial_engine] by (simp add: initial_engine_def)
qed

definition committing :: engine where
  "committing = (with_cart [ssh_off])
     \<lparr>en_bar := (en_bar (with_cart [ssh_off]))\<lparr>bar_busy := True, bar_error := None\<rparr>,
      en_request := Some (Commit_request [ssh_off] False)\<rparr>"

lemma run_commit: "engine_step (Commit_click False True) (with_cart [ssh_off]) committing"
  unfolding committing_def
proof (rule step_commit)
  show "can_commit True (en_bar (with_cart [ssh_off]))"
    by (simp add: can_commit_def with_cart_def initial_engine_def initial_bar_def hasInvalidQuote_def
          ssh_off_def op_defs)
  show "runCommit False (en_bar (with_cart [ssh_off]))
      = ((en_bar (with_cart [ssh_off]))\<lparr>bar_busy := True, bar_error := None\<rparr>, Commit_request [ssh_off] False)"
    by (simp add: runCommit_def with_cart_def)
qed


theorem no_change_lost_witness:
  "ssh_off \<in> set (bar_changes (en_bar committing)) \<or> ssh_off \<in> set (bar_committed (en_bar committing))"
  by (rule no_change_lost [OF steps_cons [OF run_queue steps_nil] run_commit])
     (simp_all add: user_edit_def with_cart_def)


end
