(* ===== verification/Session.thy ===== *)
theory Session
  imports PendingChanges
begin

text \<open>
  The session store (\<open>store/session.ts\<close>) and the request wrapper that reports expired sessions to it
  (\<open>lib/api.ts\<close>). Operations are functions on the session state and the pending-changes cart they
  clear; \<open>world_step\<close> is the state machine they form with the requests in flight, the route
  guard's probe (\<open>components/ProtectedRoute.tsx\<close>) and a page reload.

  Every cart entry carries, as a ghost, the user who queued it.
\<close>

datatype session_status = Unknown_status | Authenticated | Anonymous

record session =
  ss_user :: "string option"
  ss_lastUser :: "string option"
  ss_status :: session_status
  ss_sessionExpired :: bool
  ss_generation :: nat

definition initial_session :: session where
  "initial_session = \<lparr>ss_user = None, ss_lastUser = None, ss_status = Unknown_status,
     ss_sessionExpired = False, ss_generation = 0\<rparr>"

text \<open>\<open>checkSession\<close>, by the answer of the probe: the user, or a failure.\<close>

definition checkSession :: "string option \<Rightarrow> session \<Rightarrow> session" where
  "checkSession res s =
     (case res of
        Some u \<Rightarrow> s\<lparr>ss_user := Some u, ss_lastUser := Some u, ss_status := Authenticated,
                  ss_generation := ss_generation s + 1\<rparr>
      | None \<Rightarrow> s\<lparr>ss_user := None, ss_status := Anonymous\<rparr>)"

text \<open>A successful \<open>login\<close> as the user the server reports.\<close>

definition login :: "string \<Rightarrow> session \<times> 'c list \<Rightarrow> session \<times> 'c list" where
  "login resUser sc =
     (case sc of (s, cart) \<Rightarrow>
        (s\<lparr>ss_user := Some resUser, ss_lastUser := Some resUser, ss_status := Authenticated,
           ss_sessionExpired := False, ss_generation := ss_generation s + 1\<rparr>,
         if ss_lastUser s \<noteq> None \<and> ss_lastUser s \<noteq> Some resUser then [] else cart))"

definition logout :: "session \<times> 'c list \<Rightarrow> session \<times> 'c list" where
  "logout sc =
     (case sc of (s, cart) \<Rightarrow>
        (s\<lparr>ss_user := None, ss_lastUser := None, ss_status := Anonymous\<rparr>, []))"

definition handleUnauthorized :: "nat \<Rightarrow> session \<Rightarrow> session" where
  "handleUnauthorized requestGeneration s =
     (if requestGeneration \<noteq> ss_generation s then s
      else s\<lparr>ss_user := None, ss_status := Anonymous, ss_sessionExpired := (ss_status s = Authenticated)\<rparr>)"

subsection \<open>Requests\<close>

text \<open>\<open>document.cookie.split('; ')\<close>: splitting at a two-character separator.\<close>

fun split2 :: "char \<Rightarrow> char \<Rightarrow> string \<Rightarrow> string list" where
  "split2 a b [] = ['''']"
| "split2 a b [c] = [[c]]"
| "split2 a b (c # d # cs) =
     (if c = a \<and> d = b then '''' # split2 a b cs
      else (case split2 a b (d # cs) of [] \<Rightarrow> [[c]] | x # xs \<Rightarrow> (c # x) # xs))"

text \<open>\<open>decode\<close> is \<open>decodeURIComponent\<close>, \<open>encode\<close> the serialisation of \<open>URLSearchParams\<close>.\<close>

definition readCookie :: "(string \<Rightarrow> string) \<Rightarrow> string \<Rightarrow> string \<Rightarrow> string option" where
  "readCookie decode cookie name =
     (case List.find (\<lambda>row. prefix (name @ ''='') row) (split2 (CHR '';'') (CHR '' '') cookie) of
        None \<Rightarrow> None
      | Some row \<Rightarrow> Some (decode (js_join ''='' (drop 1 (js_split (CHR ''='') row)))))"

definition buildUrl ::
    "((string \<times> string) list \<Rightarrow> string) \<Rightarrow> string \<Rightarrow> (string \<times> string option) list option \<Rightarrow> string" where
  "buildUrl encode url query =
     (case query of
        None \<Rightarrow> url
      | Some q \<Rightarrow>
          (let params = fold (\<lambda>(k, v) ps. case v of None \<Rightarrow> ps | Some x \<Rightarrow> AList.update k x ps) q [];
               qs = encode params
           in if qs \<noteq> '''' then url @ ''?'' @ qs else url))"

definition CSRF_COOKIE_NAME :: string where
  "CSRF_COOKIE_NAME = ''vyos_client_csrf''"

definition CSRF_HEADER_NAME :: string where
  "CSRF_HEADER_NAME = ''X-CSRF-Token''"

definition UNAUTHORIZED_HANDLER_EXEMPT_PATHS :: "string list" where
  "UNAUTHORIZED_HANDLER_EXEMPT_PATHS = [''/api/auth/login'', ''/api/auth/session'']"

record api_request =
  ar_method :: string
  ar_headers :: "(string \<times> string) list"
  ar_body :: unknown
  ar_generation :: nat

text \<open>
  What \<open>apiRequest\<close> sends: \<open>options.body\<close> counts for the default method when it is truthy, for the
  content type when it is not \<open>undefined\<close>.
\<close>

definition js_truthy :: "unknown \<Rightarrow> bool" where
  "js_truthy v = (case v of None \<Rightarrow> False | Some JNull \<Rightarrow> False | Some (JBool b) \<Rightarrow> b
     | Some (JNum n) \<Rightarrow> n \<noteq> NaN \<and> n \<noteq> Num 0 | Some (JStr s) \<Rightarrow> s \<noteq> '''' | _ \<Rightarrow> True)"

definition apiRequest_send ::
    "string option \<Rightarrow> string option \<Rightarrow> unknown \<Rightarrow> nat \<Rightarrow> api_request" where
  "apiRequest_send csrf method_opt body generation =
     (let m = or_else method_opt (if js_truthy body then ''POST'' else ''GET'')
      in \<lparr>ar_method = m,
          ar_headers =
            (if body \<noteq> None then [(''Content-Type'', ''application/json'')] else [])
            @ (if m \<noteq> ''GET'' \<and> m \<noteq> ''HEAD'' then
                 (case csrf of Some c \<Rightarrow> if c \<noteq> '''' then [(CSRF_HEADER_NAME, c)] else [] | None \<Rightarrow> [])
               else []),
          ar_body = body, ar_generation = generation\<rparr>)"

datatype api_outcome = Api_value unknown | Api_error nat string

text \<open>
  What it makes of the response (status, JSON payload if the content type says so), and whether the
  handler for expired sessions is called.
\<close>

definition apiRequest_receive :: "string \<Rightarrow> nat \<Rightarrow> unknown \<Rightarrow> api_outcome \<times> bool" where
  "apiRequest_receive url status payload =
     (if status = 204 then (Api_value None, False)
      else if \<not> (200 \<le> status \<and> status \<le> 299) then
        (let message =
               (if isFlagPresent payload ''error'' then js_String (or_else (child payload ''error'') JNull)
                else ''request failed with status '' @ nat_str status)
         in (Api_error status message,
             status = 401 \<and> url \<notin> set UNAUTHORIZED_HANDLER_EXEMPT_PATHS))
      else (Api_value payload, False))"

subsection \<open>The state machine\<close>

record world =
  w_session :: session
  w_cart :: "(string \<times> PendingChange) list"
  w_inflight :: "nat list"

text \<open>
  The events: the route guard's probe answers, a login succeeds, the user logs out, a request is sent
  or the \<open>i\<close>-th one in flight comes back (with or without a 401), the signed-in user queues a change,
  the page is reloaded.
\<close>

datatype world_event =
    Probe "string option"
  | Login string
  | Logout
  | Send
  | Receive nat bool
  | Queue PendingChange
  | Reload

fun world_step :: "world_event \<Rightarrow> world \<Rightarrow> world" where
  "world_step (Probe res) w =
     (if ss_status (w_session w) = Unknown_status then w\<lparr>w_session := checkSession res (w_session w)\<rparr> else w)"
| "world_step (Login u) w =
     (case login u (w_session w, w_cart w) of (s, c) \<Rightarrow> w\<lparr>w_session := s, w_cart := c\<rparr>)"
| "world_step Logout w =
     (case logout (w_session w, w_cart w) of (s, c) \<Rightarrow> w\<lparr>w_session := s, w_cart := c\<rparr>)"
| "world_step Send w = w\<lparr>w_inflight := w_inflight w @ [ss_generation (w_session w)]\<rparr>"
| "world_step (Receive i unauthorized) w =
     (if i < length (w_inflight w) then
        w\<lparr>w_session := (if unauthorized then handleUnauthorized (w_inflight w ! i) (w_session w) else w_session w),
          w_inflight := take i (w_inflight w) @ drop (Suc i) (w_inflight w)\<rparr>
      else w)"
| "world_step (Queue c) w =
     (case ss_user (w_session w) of None \<Rightarrow> w | Some u \<Rightarrow> w\<lparr>w_cart := w_cart w @ [(u, c)]\<rparr>)"
| "world_step Reload w =
     w\<lparr>w_session := initial_session,
       w_cart := filter (\<lambda>(u, c). c \<in> set (partialize (map snd (w_cart w)))) (w_cart w),
       w_inflight := []\<rparr>"

definition initial_world :: world where
  "initial_world = \<lparr>w_session = initial_session, w_cart = [], w_inflight = []\<rparr>"

definition world_run :: "world_event list \<Rightarrow> world \<Rightarrow> world" where
  "world_run es w = fold world_step es w"

subsection \<open>A 401 that predates the session\<close>

definition keeps_page :: "world_event \<Rightarrow> bool" where
  "keeps_page e \<longleftrightarrow> e \<noteq> Reload"

lemma generation_step:
  "e \<noteq> Reload \<Longrightarrow> ss_generation (w_session w) \<le> ss_generation (w_session (world_step e w))"
  by (cases e) (auto simp: checkSession_def login_def logout_def handleUnauthorized_def
      split: option.splits)

lemma generation_run:
  "Reload \<notin> set es \<Longrightarrow> ss_generation (w_session w) \<le> ss_generation (w_session (world_run es w))"
proof (induction es arbitrary: w)
  case (Cons e es)
  then have "ss_generation (w_session w) \<le> ss_generation (w_session (world_step e w))"
    by (intro generation_step) auto
  also have "\<dots> \<le> ss_generation (w_session (world_run es (world_step e w)))"
    using Cons by simp
  finally show ?case by (simp add: world_run_def)
qed (simp add: world_run_def)

lemma world_run_append: "world_run (xs @ ys) w = world_run ys (world_run xs w)"
  by (simp add: world_run_def)

text \<open>
  C12. A stale 401 cannot log a user out: whatever happened on the page before and after, once someone
  has logged in, the 401 of a request sent before that login leaves the session as it is.
\<close>

theorem stale_unauthorized_ignored:
  assumes "Reload \<notin> set before" and "Reload \<notin> set after"
  shows "handleUnauthorized (ss_generation (w_session w))
           (w_session (world_run (before @ [Login u] @ after) w))
         = w_session (world_run (before @ [Login u] @ after) w)"
proof -
  let ?b = "world_run before w"
  have "ss_generation (w_session w) \<le> ss_generation (w_session ?b)"
    by (rule generation_run [OF assms(1)])
  also have "\<dots> < ss_generation (w_session (world_step (Login u) ?b))" by (simp add: login_def)
  also have "\<dots> \<le> ss_generation (w_session (world_run after (world_step (Login u) ?b)))"
    by (rule generation_run [OF assms(2)])
  finally have "ss_generation (w_session w)
      \<noteq> ss_generation (w_session (world_run (before @ [Login u] @ after) w))"
    by (simp add: world_run_append) (simp add: world_run_def)
  then show ?thesis by (simp add: handleUnauthorized_def)
qed

theorem stale_unauthorized_ignored_witness:
  "handleUnauthorized (ss_generation (w_session initial_world))
     (w_session (world_run ([Send] @ [Login ''admin''] @ [Send]) initial_world))
   = w_session (world_run ([Send] @ [Login ''admin''] @ [Send]) initial_world)"
  by (rule stale_unauthorized_ignored) simp_all

text \<open>A current 401 does end the session and says so.\<close>

lemma current_unauthorized:
  "ss_status s = Authenticated \<Longrightarrow>
     handleUnauthorized (ss_generation s) s
       = s\<lparr>ss_user := None, ss_status := Anonymous, ss_sessionExpired := True\<rparr>"
  by (simp add: handleUnauthorized_def)

subsection \<open>Whose changes\<close>

text \<open>Between reloads: the entries in the cart were queued by the last user to authenticate.\<close>

definition owned :: "world \<Rightarrow> bool" where
  "owned w \<longleftrightarrow>
     (\<forall>(u, c) \<in> set (w_cart w). ss_lastUser (w_session w) = Some u)
     \<and> (ss_user (w_session w) \<noteq> None \<longrightarrow> ss_lastUser (w_session w) = ss_user (w_session w))
     \<and> (ss_status (w_session w) = Unknown_status \<longrightarrow> w_cart w = [] \<and> ss_user (w_session w) = None)"

lemma owned_step: "owned w \<Longrightarrow> e \<noteq> Reload \<Longrightarrow> owned (world_step e w)"
proof (induction e w rule: world_step.induct)
  case (2 u w)
  show ?case
  proof (cases "ss_lastUser (w_session w) \<noteq> None \<and> ss_lastUser (w_session w) \<noteq> Some u")
    case True
    then show ?thesis by (simp add: owned_def login_def)
  next
    case False
    then have "owner = u" if "(owner, c) \<in> set (w_cart w)" for owner c
      using 2 that by (fastforce simp: owned_def)
    then show ?thesis using False by (auto simp: owned_def login_def)
  qed
next
  case (5 i unauthorized w)
  then show ?case by (auto simp: owned_def handleUnauthorized_def)
next
  case (6 c w)
  then show ?case by (auto simp: owned_def split: option.splits)
qed (auto simp: owned_def checkSession_def login_def logout_def split: option.splits)

lemma owned_run: "owned w \<Longrightarrow> Reload \<notin> set es \<Longrightarrow> owned (world_run es w)"
  by (induction es arbitrary: w) (auto simp: world_run_def owned_step)

text \<open>
  C13. No one commits another user's changes (within one page load): after any events without a reload,
  every change in the cart was queued by the user who is signed in, if someone is.
\<close>

theorem cart_belongs_to_user:
  assumes "Reload \<notin> set es"
    and "ss_user (w_session (world_run es initial_world)) = Some u"
  shows "\<forall>(owner, c) \<in> set (w_cart (world_run es initial_world)). owner = u"
proof -
  have "owned initial_world" by (simp add: owned_def initial_world_def initial_session_def)
  from owned_run [OF this assms(1)] assms(2) show ?thesis by (auto simp: owned_def)
qed

definition sample_change :: PendingChange where
  "sample_change = \<lparr>pc_id = ''1'', pc_op = set_op [''system'', ''host-name''] ''r1'', pc_label = ''''\<rparr>"

theorem cart_belongs_to_user_witness:
  "list_all (\<lambda>(owner, c). owner = ''alice'')
     (w_cart (world_run [Probe None, Login ''alice'', Queue sample_change] initial_world))"
  unfolding list_all_iff
  by (rule cart_belongs_to_user)
     (simp_all add: world_run_def initial_world_def initial_session_def checkSession_def login_def)


end
