(* ===== verification/Nat_Rules.thy ===== *)
theory Nat_Rules
  imports FakeVyos
begin

text \<open>
  The NAT section: the interfaces of \<open>lib/natTypes.ts\<close> as records, the parser of
  \<open>lib/natParse.ts\<close>, and the edit forms of \<open>lib/natRuleForm.ts\<close> (source and destination rules) and
  \<open>lib/natStaticForm.ts\<close> (1-to-1 rules). A rule kind is a string: source or destination.
\<close>

subsection \<open>Types\<close>

record NATMatch =
  nm_address :: "string option"
  nm_port :: "string option"
  nm_addressGroup :: "string option"
  nm_networkGroup :: "string option"
  nm_portGroup :: "string option"

record NATRule =
  nr_kind :: string
  nr_number :: string
  nr_description :: "string option"
  nr_interfaceName :: "string option"
  nr_protocol :: "string option"
  nr_source :: NATMatch
  nr_destination :: NATMatch
  nr_translationAddress :: "string option"
  nr_translationPort :: "string option"
  nr_redirectPort :: "string option"
  nr_disabled :: bool
  nr_exclude :: bool
  nr_log :: bool

record NATStaticRule =
  ns_number :: string
  ns_description :: "string option"
  ns_destinationAddress :: "string option"
  ns_interfaceName :: "string option"
  ns_translationAddress :: "string option"
  ns_log :: bool

record NATConfig =
  nc_sourceRules :: "NATRule list"
  nc_destinationRules :: "NATRule list"
  nc_staticRules :: "NATStaticRule list"

subsection \<open>Parsing\<close>

definition parseMatch_nat :: "unknown \<Rightarrow> NATMatch" where
  "parseMatch_nat raw =
     (let groupRoot = child raw ''group''
      in \<lparr>nm_address = asString (child raw ''address''),
          nm_port = asString (child raw ''port''),
          nm_addressGroup = asString (child groupRoot ''address-group''),
          nm_networkGroup = asString (child groupRoot ''network-group''),
          nm_portGroup = asString (child groupRoot ''port-group'')\<rparr>)"

definition interfaceSegment :: "string \<Rightarrow> string" where
  "interfaceSegment kind =
     (if kind = ''source'' then ''outbound-interface'' else ''inbound-interface'')"

definition parseRule_nat :: "string \<Rightarrow> string \<Rightarrow> unknown \<Rightarrow> NATRule" where
  "parseRule_nat kind number raw =
     (let translationRoot = child raw ''translation''
      in \<lparr>nr_kind = kind,
          nr_number = number,
          nr_description = asString (child raw ''description''),
          nr_interfaceName = asString (child (child raw (interfaceSegment kind)) ''name''),
          nr_protocol = asString (child raw ''protocol''),
          nr_source = parseMatch_nat (child raw ''source''),
          nr_destination = parseMatch_nat (child raw ''destination''),
          nr_translationAddress = asString (child translationRoot ''address''),
          nr_translationPort = asString (child translationRoot ''port''),
          nr_redirectPort = (if kind = ''destination''
                             then asString (child (child translationRoot ''redirect'') ''port'')
                             else None),
          nr_disabled = isFlagPresent raw ''disable'',
          nr_exclude = isFlagPresent raw ''exclude'',
          nr_log = isFlagPresent raw ''log''\<rparr>)"

definition parseRules_nat :: "string \<Rightarrow> unknown \<Rightarrow> NATRule list" where
  "parseRules_nat kind node =
     parse_entries (parseRule_nat kind) (\<lambda>a b. js_num_cmp (js_number (nr_number a)) (js_number (nr_number b)))
       (child node ''rule'')"

definition parseStaticRule :: "string \<Rightarrow> unknown \<Rightarrow> NATStaticRule" where
  "parseStaticRule number raw =
     \<lparr>ns_number = number,
      ns_description = asString (child raw ''description''),
      ns_destinationAddress = asString (child (child raw ''destination'') ''address''),
      ns_interfaceName = asString (child raw ''inbound-interface''),
      ns_translationAddress = asString (child (child raw ''translation'') ''address''),
      ns_log = isFlagPresent raw ''log''\<rparr>"

definition parseStaticRules :: "unknown \<Rightarrow> NATStaticRule list" where
  "parseStaticRules natRaw =
     parse_entries parseStaticRule (\<lambda>a b. js_num_cmp (js_number (ns_number a)) (js_number (ns_number b)))
       (child (child natRaw ''static'') ''rule'')"

definition parseNATConfig :: "unknown \<Rightarrow> NATConfig" where
  "parseNATConfig natRaw =
     \<lparr>nc_sourceRules = parseRules_nat ''source'' (child natRaw ''source''),
      nc_destinationRules = parseRules_nat ''destination'' (child natRaw ''destination''),
      nc_staticRules = parseStaticRules natRaw\<rparr>"

definition natRulePath :: "string \<Rightarrow> string \<Rightarrow> path \<Rightarrow> path" where
  "natRulePath kind number rest = [''nat'', kind, ''rule'', number] @ rest"

definition natRuleInterfacePath :: "string \<Rightarrow> string \<Rightarrow> path \<Rightarrow> path" where
  "natRuleInterfacePath kind number rest = natRulePath kind number ([interfaceSegment kind] @ rest)"

definition natStaticRulePath :: "string \<Rightarrow> path \<Rightarrow> path" where
  "natStaticRulePath number rest = [''nat'', ''static'', ''rule'', number] @ rest"

subsection \<open>The rule form\<close>

record NATMatchFormValues =
  nmv_address :: string
  nmv_port :: string
  nmv_addressGroup :: string
  nmv_networkGroup :: string
  nmv_portGroup :: string

record NATRuleFormValues =
  nrv_description :: string
  nrv_interfaceName :: string
  nrv_protocol :: string
  nrv_source :: NATMatchFormValues
  nrv_destination :: NATMatchFormValues
  nrv_translationAddress :: string
  nrv_translationPort :: string
  nrv_redirectPort :: string
  nrv_disabled :: bool
  nrv_exclude :: bool
  nrv_log :: bool

definition blankMatch_nat :: NATMatchFormValues where
  "blankMatch_nat =
     \<lparr>nmv_address = '''',
      nmv_port = '''',
      nmv_addressGroup = '''',
      nmv_networkGroup = '''',
      nmv_portGroup = ''''\<rparr>"

definition blankRuleFormValues_nat :: NATRuleFormValues where
  "blankRuleFormValues_nat =
     \<lparr>nrv_description = '''',
      nrv_interfaceName = '''',
      nrv_protocol = '''',
      nrv_source = blankMatch_nat,
      nrv_destination = blankMatch_nat,
      nrv_translationAddress = '''',
      nrv_translationPort = '''',
      nrv_redirectPort = '''',
      nrv_disabled = False,
      nrv_exclude = False,
      nrv_log = False\<rparr>"

definition matchToFormValues_nat :: "NATMatch \<Rightarrow> NATMatchFormValues" where
  "matchToFormValues_nat mtch =
     \<lparr>nmv_address = or_else (nm_address mtch) '''',
      nmv_port = or_else (nm_port mtch) '''',
      nmv_addressGroup = or_else (nm_addressGroup mtch) '''',
      nmv_networkGroup = or_else (nm_networkGroup mtch) '''',
      nmv_portGroup = or_else (nm_portGroup mtch) ''''\<rparr>"

definition ruleToFormValues_nat :: "NATRule \<Rightarrow> NATRuleFormValues" where
  "ruleToFormValues_nat rule =
     \<lparr>nrv_description = or_else (nr_description rule) '''',
      nrv_interfaceName = or_else (nr_interfaceName rule) '''',
      nrv_protocol = or_else (nr_protocol rule) '''',
      nrv_source = matchToFormValues_nat (nr_source rule),
      nrv_destination = matchToFormValues_nat (nr_destination rule),
      nrv_translationAddress = or_else (nr_translationAddress rule) '''',
      nrv_translationPort = or_else (nr_translationPort rule) '''',
      nrv_redirectPort = or_else (nr_redirectPort rule) '''',
      nrv_disabled = nr_disabled rule,
      nrv_exclude = nr_exclude rule,
      nrv_log = nr_log rule\<rparr>"

definition NAT_SCALAR_FIELDS :: "NATRuleFormValues scalar_field list" where
  "NAT_SCALAR_FIELDS =
     [(nrv_description, [''description'']),
      (nrv_protocol, [''protocol'']),
      (\<lambda>v. nmv_address (nrv_source v), [''source'', ''address'']),
      (\<lambda>v. nmv_port (nrv_source v), [''source'', ''port'']),
      (\<lambda>v. nmv_addressGroup (nrv_source v), [''source'', ''group'', ''address-group'']),
      (\<lambda>v. nmv_networkGroup (nrv_source v), [''source'', ''group'', ''network-group'']),
      (\<lambda>v. nmv_portGroup (nrv_source v), [''source'', ''group'', ''port-group'']),
      (\<lambda>v. nmv_address (nrv_destination v), [''destination'', ''address'']),
      (\<lambda>v. nmv_port (nrv_destination v), [''destination'', ''port'']),
      (\<lambda>v. nmv_addressGroup (nrv_destination v), [''destination'', ''group'', ''address-group'']),
      (\<lambda>v. nmv_networkGroup (nrv_destination v), [''destination'', ''group'', ''network-group'']),
      (\<lambda>v. nmv_portGroup (nrv_destination v), [''destination'', ''group'', ''port-group'']),
      (nrv_translationAddress, [''translation'', ''address'']),
      (nrv_translationPort, [''translation'', ''port'']),
      (nrv_redirectPort, [''translation'', ''redirect'', ''port''])]"

definition NAT_FLAG_FIELDS :: "NATRuleFormValues flag_field list" where
  "NAT_FLAG_FIELDS =
     [(nrv_disabled, [''disable'']),
      (nrv_exclude, [''exclude'']),
      (nrv_log, [''log''])]"

definition ruleFormToOps_nat ::
    "string \<Rightarrow> string \<Rightarrow> NATRule option \<Rightarrow> NATRuleFormValues \<Rightarrow> ConfigOp list" where
  "ruleFormToOps_nat kind ruleNumber before values =
     (let beforeValues = (case before of Some r \<Rightarrow> ruleToFormValues_nat r
                          | None \<Rightarrow> blankRuleFormValues_nat)
      in diffToOps (natRulePath kind ruleNumber []) NAT_SCALAR_FIELDS [] beforeValues values
         @ scalar_diff (natRuleInterfacePath kind ruleNumber [''name''])
             (nrv_interfaceName beforeValues) (nrv_interfaceName values)
         @ diffToOps (natRulePath kind ruleNumber []) [] NAT_FLAG_FIELDS beforeValues values)"

definition deleteRuleOp_nat :: "string \<Rightarrow> string \<Rightarrow> ConfigOp" where
  "deleteRuleOp_nat kind ruleNumber = delete_op (natRulePath kind ruleNumber [])"

subsection \<open>The static rule form\<close>

record NATStaticFormValues =
  nsv_description :: string
  nsv_destinationAddress :: string
  nsv_interfaceName :: string
  nsv_translationAddress :: string
  nsv_log :: bool

definition blankStaticFormValues :: NATStaticFormValues where
  "blankStaticFormValues =
     \<lparr>nsv_description = '''',
      nsv_destinationAddress = '''',
      nsv_interfaceName = '''',
      nsv_translationAddress = '''',
      nsv_log = False\<rparr>"

definition staticToFormValues :: "NATStaticRule \<Rightarrow> NATStaticFormValues" where
  "staticToFormValues rule =
     \<lparr>nsv_description = or_else (ns_description rule) '''',
      nsv_destinationAddress = or_else (ns_destinationAddress rule) '''',
      nsv_interfaceName = or_else (ns_interfaceName rule) '''',
      nsv_translationAddress = or_else (ns_translationAddress rule) '''',
      nsv_log = ns_log rule\<rparr>"

definition NAT_STATIC_SCALAR_FIELDS :: "NATStaticFormValues scalar_field list" where
  "NAT_STATIC_SCALAR_FIELDS =
     [(nsv_description, [''description'']),
      (nsv_destinationAddress, [''destination'', ''address'']),
      (nsv_interfaceName, [''inbound-interface'']),
      (nsv_translationAddress, [''translation'', ''address''])]"

definition NAT_STATIC_FLAG_FIELDS :: "NATStaticFormValues flag_field list" where
  "NAT_STATIC_FLAG_FIELDS = [(nsv_log, [''log''])]"

definition staticFormToOps ::
    "string \<Rightarrow> NATStaticRule option \<Rightarrow> NATStaticFormValues \<Rightarrow> ConfigOp list" where
  "staticFormToOps ruleNumber before values =
     (let beforeValues = (case before of Some x \<Rightarrow> staticToFormValues x | None \<Rightarrow> blankStaticFormValues)
      in diffToOps (natStaticRulePath ruleNumber []) NAT_STATIC_SCALAR_FIELDS NAT_STATIC_FLAG_FIELDS beforeValues values)"

definition deleteStaticRuleOp :: "string \<Rightarrow> ConfigOp" where
  "deleteStaticRuleOp ruleNumber = delete_op (natStaticRulePath ruleNumber [])"

subsection \<open>Round trips\<close>

lemma nat_static_fields:
  "indep_all (map snd NAT_STATIC_SCALAR_FIELDS @ map snd NAT_STATIC_FLAG_FIELDS)" "[] \<notin> set (map snd NAT_STATIC_SCALAR_FIELDS @ map snd NAT_STATIC_FLAG_FIELDS)"
  by (simp_all add: NAT_STATIC_SCALAR_FIELDS_def NAT_STATIC_FLAG_FIELDS_def )

lemmas nat_static_form_defs = staticToFormValues_def parseStaticRule_def

lemma nat_static_reads: "reads NAT_STATIC_SCALAR_FIELDS NAT_STATIC_FLAG_FIELDS t v \<longleftrightarrow> staticToFormValues (parseStaticRule number t) = v"
  by (cases v)
     (auto simp: reads_def NAT_STATIC_SCALAR_FIELDS_def NAT_STATIC_FLAG_FIELDS_def  nat_static_form_defs Let_def)

lemma nat_static_blank: "staticToFormValues (parseStaticRule number None) = blankStaticFormValues"
  by (simp add: nat_static_form_defs blankStaticFormValues_def Let_def)

interpretation nat_static_form: edit_form NAT_STATIC_SCALAR_FIELDS "NAT_STATIC_FLAG_FIELDS" staticToFormValues "parseStaticRule number" blankStaticFormValues
  "\<lambda>t. True" "\<lambda>v. True" for number
  by unfold_locales (simp_all only: not_False_eq_True nat_static_fields nat_static_blank nat_static_reads [where number = number])

text \<open>
  All the fields of a rule of one kind, in one table: the interface name sits at a node named after
  the kind. The form of a source rule does not show the redirect port, so it is required absent.
\<close>

definition NAT_FIELDS :: "string \<Rightarrow> NATRuleFormValues scalar_field list" where
  "NAT_FIELDS kind = NAT_SCALAR_FIELDS @ [(nrv_interfaceName, [interfaceSegment kind, ''name''])]"

definition nat_rule_ok :: "string \<Rightarrow> unknown \<Rightarrow> bool" where
  "nat_rule_ok kind t \<longleftrightarrow>
     kind = ''destination'' \<or> tree_get t [''translation'', ''redirect'', ''port''] = None"

definition nat_values_ok :: "string \<Rightarrow> NATRuleFormValues \<Rightarrow> bool" where
  "nat_values_ok kind v \<longleftrightarrow> kind = ''destination'' \<or> nrv_redirectPort v = ''''"

lemma ruleFormToOps_nat_diff:
  "ruleFormToOps_nat kind n before v
     = diffToOps (natRulePath kind n []) (NAT_FIELDS kind) NAT_FLAG_FIELDS
         (case before of Some r \<Rightarrow> ruleToFormValues_nat r | None \<Rightarrow> blankRuleFormValues_nat) v"
  by (simp add: ruleFormToOps_nat_def diffToOps_def NAT_FIELDS_def natRulePath_def
      natRuleInterfacePath_def Let_def)

lemmas nat_form_defs = ruleToFormValues_nat_def matchToFormValues_nat_def parseRule_nat_def
  parseMatch_nat_def

lemma nat_fields:
  "indep_all (map snd (NAT_FIELDS kind) @ map snd NAT_FLAG_FIELDS)"
  "[] \<notin> set (map snd (NAT_FIELDS kind) @ map snd NAT_FLAG_FIELDS)"
  by (simp_all add: NAT_FIELDS_def NAT_SCALAR_FIELDS_def NAT_FLAG_FIELDS_def interfaceSegment_def)

lemma nat_form_reads:
  "nat_rule_ok kind t \<Longrightarrow>
     reads (NAT_FIELDS kind) NAT_FLAG_FIELDS t (ruleToFormValues_nat (parseRule_nat kind n t))"
  by (auto simp: reads_def NAT_FIELDS_def NAT_SCALAR_FIELDS_def NAT_FLAG_FIELDS_def nat_form_defs
      Let_def nat_rule_ok_def)

lemma nat_reads_form:
  "reads (NAT_FIELDS kind) NAT_FLAG_FIELDS t v \<Longrightarrow> nat_values_ok kind v \<Longrightarrow>
     ruleToFormValues_nat (parseRule_nat kind n t) = v"
  by (cases v; cases "nrv_source v"; cases "nrv_destination v")
     (auto simp: reads_def NAT_FIELDS_def NAT_SCALAR_FIELDS_def NAT_FLAG_FIELDS_def nat_form_defs
       Let_def nat_values_ok_def)

lemma nat_blank: "ruleToFormValues_nat (parseRule_nat kind n None) = blankRuleFormValues_nat"
  by (simp add: nat_form_defs blankRuleFormValues_nat_def blankMatch_nat_def)

lemma nat_ok_edited:
  assumes e: "edited_tree (NAT_FIELDS kind) NAT_FLAG_FIELDS (ruleToFormValues_nat (parseRule_nat kind n t)) v t t'"
    and ok: "nat_rule_ok kind t" and valid: "nat_values_ok kind v"
  shows "nat_rule_ok kind t'"
proof (cases "kind = ''destination''")
  case False
  then have "nrv_redirectPort (ruleToFormValues_nat (parseRule_nat kind n t)) = ''''"
    and "nrv_redirectPort v = ''''"
    using valid by (simp_all add: nat_form_defs nat_values_ok_def Let_def)
  with e have "tree_get t' [''translation'', ''redirect'', ''port'']
      = tree_get t [''translation'', ''redirect'', ''port'']"
    by (simp add: edited_tree_def NAT_FIELDS_def NAT_SCALAR_FIELDS_def)
  with ok show ?thesis by (simp only: nat_rule_ok_def)
qed (simp add: nat_rule_ok_def)

interpretation nat_form: edit_form "NAT_FIELDS kind" NAT_FLAG_FIELDS ruleToFormValues_nat
  "parseRule_nat kind n" blankRuleFormValues_nat "nat_rule_ok kind" "nat_values_ok kind" for kind n
  by unfold_locales
     (fact nat_fields nat_form_reads nat_blank | erule (2) nat_ok_edited nat_reads_form
       | erule (1) nat_reads_form nat_form_reads)+

text \<open>
  The NAT rule form round trip, for source and destination rules. The device's rule, edited into
  trimmed values (with no redirect port on a source rule, whose form has none), reads back from the
  device as those values; the interface lands under the kind's own interface node; no path off the
  rule changes; and reopening the form leaves nothing to queue.
\<close>

theorem nat_form_roundtrip:
  assumes "trimmed_form (NAT_FIELDS kind) v" and "nat_values_ok kind v"
    and "p = natRulePath kind n []" and "nat_rule_ok kind (device_get m p)" and "indep p q"
    and "m' = device_apply (ruleFormToOps_nat kind n (device_item (parseRule_nat kind n) m p) v) m"
  shows "ruleToFormValues_nat (parseRule_nat kind n (device_get m' p)) = v
    \<and> read_str (device_get m' (natRuleInterfacePath kind n [''name''])) = nrv_interfaceName v
    \<and> device_get m' q = device_get m q
    \<and> ruleFormToOps_nat kind n (device_item (parseRule_nat kind n) m' p) v = []"
proof -
  have rt: "ruleToFormValues_nat (parseRule_nat kind n (device_get m' p)) = v"
    unfolding assms(6) ruleFormToOps_nat_diff assms(3) [symmetric]
    by (rule nat_form.roundtrip [OF assms(4,2,1)])
  have "device_get m' (natRuleInterfacePath kind n [''name''])
      = child (child (device_get m' p) (interfaceSegment kind)) ''name''"
    by (simp add: assms(3) natRuleInterfacePath_def natRulePath_def)
  then have "read_str (device_get m' (natRuleInterfacePath kind n [''name''])) = nrv_interfaceName v"
    using arg_cong [OF rt, of nrv_interfaceName] by (simp add: nat_form_defs Let_def)
  moreover have "device_get m' q = device_get m q"
    unfolding assms(6) ruleFormToOps_nat_diff assms(3) [symmetric]
    by (rule nat_form.elsewhere [OF assms(5)])
  moreover have "ruleFormToOps_nat kind n (device_item (parseRule_nat kind n) m' p) v = []"
    unfolding ruleFormToOps_nat_diff assms(3) [symmetric]
    by (rule nat_form.settled [OF assms(4,2,1)])
       (simp only: assms(6) ruleFormToOps_nat_diff assms(3))
  ultimately show ?thesis using rt by blast
qed

definition masquerade_values :: NATRuleFormValues where
  "masquerade_values = blankRuleFormValues_nat
     \<lparr>nrv_interfaceName := ''eth0'', nrv_translationAddress := ''masquerade'', nrv_log := True\<rparr>"

theorem nat_form_roundtrip_witness:
  "device_apply (ruleFormToOps_nat ''source'' ''10'' None masquerade_values) []
     = [(''nat'', JObj [(''source'', JObj [(''rule'', JObj [(''10'', JObj
         [(''translation'', JObj [(''address'', JStr ''masquerade'')]),
          (''outbound-interface'', JObj [(''name'', JStr ''eth0'')]), (''log'', JObj [])])])])])]
   \<and> ruleToFormValues_nat (parseRule_nat ''source'' ''10''
       (device_get (device_apply (ruleFormToOps_nat ''source'' ''10'' None masquerade_values) [])
         (natRulePath ''source'' ''10'' []))) = masquerade_values"
proof (intro conjI)
  let ?p = "natRulePath ''source'' ''10'' []"
  have "trimmed_form (NAT_FIELDS ''source'') masquerade_values"
    "nat_values_ok ''source'' masquerade_values" by code_simp+
  moreover have "nat_rule_ok ''source'' (device_get [] ?p)" "indep ?p [''system'']" by code_simp+
  ultimately have "ruleToFormValues_nat (parseRule_nat ''source'' ''10'' (device_get (device_apply
      (ruleFormToOps_nat ''source'' ''10'' (device_item (parseRule_nat ''source'' ''10'') [] ?p)
        masquerade_values) []) ?p)) = masquerade_values"
    using nat_form_roundtrip [OF _ _ refl _ _ refl] by blast
  moreover have "device_item (parseRule_nat ''source'' ''10'') [] ?p = None" by code_simp
  ultimately show "ruleToFormValues_nat (parseRule_nat ''source'' ''10'' (device_get (device_apply
      (ruleFormToOps_nat ''source'' ''10'' None masquerade_values) []) ?p)) = masquerade_values"
    by (simp only:)
qed code_simp

end
