(* ===== verification/Policy.thy ===== *)
theory Policy
  imports FakeVyos
begin

text \<open>
  The routing policy section: the interfaces of \<open>lib/policyTypes.ts\<close>, the parser of
  \<open>lib/policyParse.ts\<close> and the edit forms of \<open>lib/prefixListForm.ts\<close>, \<open>lib/policyListForm.ts\<close>,
  \<open>lib/routeMapForm.ts\<close> and \<open>lib/localRouteForm.ts\<close>. The literal unions (kinds, families, actions,
  origins) are strings; \<open>lc\<close> is the collation \<open>localeCompare\<close> sorts names by.
\<close>

subsection \<open>Types\<close>

record PolicyListRule =
  plr_number :: string
  plr_action :: "string option"
  plr_description :: "string option"
  plr_regex :: "string option"

record PolicyList =
  pl_kind :: string
  pl_name :: string
  pl_description :: "string option"
  pl_rules :: "PolicyListRule list"

record PrefixListRule =
  xlr_number :: string
  xlr_action :: "string option"
  xlr_description :: "string option"
  xlr_prefix :: "string option"
  xlr_ge :: "string option"
  xlr_le :: "string option"

record PrefixList =
  xl_family :: string
  xl_name :: string
  xl_description :: "string option"
  xl_rules :: "PrefixListRule list"

record RouteMapMatch =
  rmm_asPath :: "string option"
  rmm_communityList :: "string option"
  rmm_communityExactMatch :: bool
  rmm_ipPrefixList :: "string option"
  rmm_ipv6PrefixList :: "string option"
  rmm_protocol :: "string option"
  rmm_metric :: "string option"
  rmm_localPreference :: "string option"
  rmm_tag :: "string option"

definition blankRouteMapMatch :: RouteMapMatch where
  "blankRouteMapMatch =
     \<lparr>rmm_asPath = None,
      rmm_communityList = None,
      rmm_communityExactMatch = False,
      rmm_ipPrefixList = None,
      rmm_ipv6PrefixList = None,
      rmm_protocol = None,
      rmm_metric = None,
      rmm_localPreference = None,
      rmm_tag = None\<rparr>"

record RouteMapSet =
  rms_metric :: "string option"
  rms_localPreference :: "string option"
  rms_asPathPrepend :: "string option"
  rms_asPathExclude :: "string option"
  rms_communityAdd :: "string option"
  rms_communityReplace :: "string option"
  rms_communityNone :: bool
  rms_communityDelete :: "string option"
  rms_origin :: "string option"
  rms_tag :: "string option"
  rms_weight :: "string option"

definition blankRouteMapSet :: RouteMapSet where
  "blankRouteMapSet =
     \<lparr>rms_metric = None,
      rms_localPreference = None,
      rms_asPathPrepend = None,
      rms_asPathExclude = None,
      rms_communityAdd = None,
      rms_communityReplace = None,
      rms_communityNone = False,
      rms_communityDelete = None,
      rms_origin = None,
      rms_tag = None,
      rms_weight = None\<rparr>"

record RouteMapRule =
  rmr_number :: string
  rmr_action :: "string option"
  rmr_description :: "string option"
  rmr_call :: "string option"
  rmr_onMatchGoto :: "string option"
  rmr_onMatchNext :: bool
  rmr_match :: RouteMapMatch
  rmr_set :: RouteMapSet

record RouteMap =
  rm_name :: string
  rm_description :: "string option"
  rm_rules :: "RouteMapRule list"

record LocalRouteRule =
  lr_family :: string
  lr_number :: string
  lr_protocol :: "string option"
  lr_fwmark :: "string option"
  lr_sourceAddresses :: "string list"
  lr_sourcePort :: "string option"
  lr_destinationAddresses :: "string list"
  lr_destinationPort :: "string option"
  lr_inboundInterface :: "string option"
  lr_table :: "string option"
  lr_vrf :: "string option"

record PolicyConfig =
  pc_prefixLists :: "PrefixList list"
  pc_asPathLists :: "PolicyList list"
  pc_communityLists :: "PolicyList list"
  pc_extcommunityLists :: "PolicyList list"
  pc_largeCommunityLists :: "PolicyList list"
  pc_routeMaps :: "RouteMap list"
  pc_localRoutes :: "LocalRouteRule list"

subsection \<open>Parsing\<close>

definition parsePrefixListRule :: "string \<Rightarrow> unknown \<Rightarrow> PrefixListRule" where
  "parsePrefixListRule number raw =
     \<lparr>xlr_number = number,
      xlr_action = asString (child raw ''action''),
      xlr_description = asString (child raw ''description''),
      xlr_prefix = asString (child raw ''prefix''),
      xlr_ge = asString (child raw ''ge''),
      xlr_le = asString (child raw ''le'')\<rparr>"

definition parsePrefixList :: "string \<Rightarrow> string \<Rightarrow> unknown \<Rightarrow> PrefixList" where
  "parsePrefixList family name raw =
     \<lparr>xl_family = family, xl_name = name, xl_description = asString (child raw ''description''),
      xl_rules = parse_entries parsePrefixListRule (by_number xlr_number) (child raw ''rule'')\<rparr>"

definition parsePrefixLists :: "collation \<Rightarrow> string \<Rightarrow> unknown \<Rightarrow> PrefixList list" where
  "parsePrefixLists lc family node =
     parse_entries (parsePrefixList family) (\<lambda>a b. lc (xl_name a) (xl_name b)) node"

definition parsePolicyListRule :: "string \<Rightarrow> unknown \<Rightarrow> PolicyListRule" where
  "parsePolicyListRule number raw =
     \<lparr>plr_number = number,
      plr_action = asString (child raw ''action''),
      plr_description = asString (child raw ''description''),
      plr_regex = asString (child raw ''regex'')\<rparr>"

definition parsePolicyList :: "string \<Rightarrow> string \<Rightarrow> unknown \<Rightarrow> PolicyList" where
  "parsePolicyList kind name raw =
     \<lparr>pl_kind = kind, pl_name = name, pl_description = asString (child raw ''description''),
      pl_rules = parse_entries parsePolicyListRule (by_number plr_number) (child raw ''rule'')\<rparr>"

definition parsePolicyLists :: "collation \<Rightarrow> string \<Rightarrow> unknown \<Rightarrow> PolicyList list" where
  "parsePolicyLists lc kind node =
     parse_entries (parsePolicyList kind) (\<lambda>a b. lc (pl_name a) (pl_name b)) node"

definition parseRouteMapMatch :: "unknown \<Rightarrow> RouteMapMatch" where
  "parseRouteMapMatch raw =
     (let communityRoot = child raw ''community''
      in \<lparr>rmm_asPath = asString (child raw ''as-path''),
          rmm_communityList = asString (child communityRoot ''community-list''),
          rmm_communityExactMatch = isFlagPresent communityRoot ''exact-match'',
          rmm_ipPrefixList = asString (child (child (child raw ''ip'') ''address'') ''prefix-list''),
          rmm_ipv6PrefixList = asString (child (child (child raw ''ipv6'') ''address'') ''prefix-list''),
          rmm_protocol = asString (child raw ''protocol''),
          rmm_metric = asString (child raw ''metric''),
          rmm_localPreference = asString (child raw ''local-preference''),
          rmm_tag = asString (child raw ''tag'')\<rparr>)"

definition parseRouteMapSet :: "unknown \<Rightarrow> RouteMapSet" where
  "parseRouteMapSet raw =
     (let asPathRoot = child raw ''as-path'';
          communityRoot = child raw ''community''
      in \<lparr>rms_metric = asString (child raw ''metric''),
          rms_localPreference = asString (child raw ''local-preference''),
          rms_asPathPrepend = asString (child asPathRoot ''prepend''),
          rms_asPathExclude = asString (child asPathRoot ''exclude''),
          rms_communityAdd = js_first (asStringArray (child communityRoot ''add'')),
          rms_communityReplace = js_first (asStringArray (child communityRoot ''replace'')),
          rms_communityNone = isFlagPresent communityRoot ''none'',
          rms_communityDelete = asString (child communityRoot ''delete''),
          rms_origin = asString (child raw ''origin''),
          rms_tag = asString (child raw ''tag''),
          rms_weight = asString (child raw ''weight'')\<rparr>)"

definition parseRouteMapRule :: "string \<Rightarrow> unknown \<Rightarrow> RouteMapRule" where
  "parseRouteMapRule number raw =
     (let onMatchRoot = child raw ''on-match''
      in \<lparr>rmr_number = number,
          rmr_action = asString (child raw ''action''),
          rmr_description = asString (child raw ''description''),
          rmr_call = asString (child raw ''call''),
          rmr_onMatchGoto = asString (child onMatchRoot ''goto''),
          rmr_onMatchNext = isFlagPresent onMatchRoot ''next'',
          rmr_match = parseRouteMapMatch (child raw ''match''),
          rmr_set = parseRouteMapSet (child raw ''set'')\<rparr>)"

definition parseRouteMap :: "string \<Rightarrow> unknown \<Rightarrow> RouteMap" where
  "parseRouteMap name raw =
     \<lparr>rm_name = name, rm_description = asString (child raw ''description''),
      rm_rules = parse_entries parseRouteMapRule (by_number rmr_number) (child raw ''rule'')\<rparr>"

definition parseRouteMaps :: "collation \<Rightarrow> unknown \<Rightarrow> RouteMap list" where
  "parseRouteMaps lc node = parse_entries parseRouteMap (\<lambda>a b. lc (rm_name a) (rm_name b)) node"

definition parseLocalRouteRule :: "string \<Rightarrow> string \<Rightarrow> unknown \<Rightarrow> LocalRouteRule" where
  "parseLocalRouteRule family number raw =
     (let setRoot = child raw ''set'';
          sourceRoot = child raw ''source'';
          destinationRoot = child raw ''destination''
      in \<lparr>lr_family = family,
          lr_number = number,
          lr_protocol = asString (child raw ''protocol''),
          lr_fwmark = asString (child raw ''fwmark''),
          lr_sourceAddresses = asStringArray (child sourceRoot ''address''),
          lr_sourcePort = asString (child sourceRoot ''port''),
          lr_destinationAddresses = asStringArray (child destinationRoot ''address''),
          lr_destinationPort = asString (child destinationRoot ''port''),
          lr_inboundInterface = asString (child raw ''inbound-interface''),
          lr_table = asString (child setRoot ''table''),
          lr_vrf = asString (child setRoot ''vrf'')\<rparr>)"

definition parseLocalRoutes :: "string \<Rightarrow> unknown \<Rightarrow> LocalRouteRule list" where
  "parseLocalRoutes family node =
     parse_entries (parseLocalRouteRule family) (by_number lr_number) (child node ''rule'')"

definition parsePolicyConfig :: "collation \<Rightarrow> unknown \<Rightarrow> PolicyConfig" where
  "parsePolicyConfig lc policy =
     \<lparr>pc_prefixLists = parsePrefixLists lc ''ipv4'' (child policy ''prefix-list'')
        @ parsePrefixLists lc ''ipv6'' (child policy ''prefix-list6''),
      pc_asPathLists = parsePolicyLists lc ''as-path'' (child policy ''as-path-list''),
      pc_communityLists = parsePolicyLists lc ''community'' (child policy ''community-list''),
      pc_extcommunityLists = parsePolicyLists lc ''extcommunity'' (child policy ''extcommunity-list''),
      pc_largeCommunityLists = parsePolicyLists lc ''large-community'' (child policy ''large-community-list''),
      pc_routeMaps = parseRouteMaps lc (child policy ''route-map''),
      pc_localRoutes = parseLocalRoutes ''ipv4'' (child policy ''local-route'')
        @ parseLocalRoutes ''ipv6'' (child policy ''local-route6'')\<rparr>"

definition prefixListNode :: "string \<Rightarrow> string" where
  "prefixListNode family = (if family = ''ipv6'' then ''prefix-list6'' else ''prefix-list'')"

definition prefixListPath :: "string \<Rightarrow> string \<Rightarrow> path \<Rightarrow> path" where
  "prefixListPath family name rest = [''policy'', prefixListNode family, name] @ rest"

definition prefixListRulePath :: "string \<Rightarrow> string \<Rightarrow> string \<Rightarrow> path \<Rightarrow> path" where
  "prefixListRulePath family name number rest = prefixListPath family name ([''rule'', number] @ rest)"

definition policyListNode :: "string \<Rightarrow> string" where
  "policyListNode kind = kind @ ''-list''"

definition policyListPath :: "string \<Rightarrow> string \<Rightarrow> path \<Rightarrow> path" where
  "policyListPath kind name rest = [''policy'', policyListNode kind, name] @ rest"

definition policyListRulePath :: "string \<Rightarrow> string \<Rightarrow> string \<Rightarrow> path \<Rightarrow> path" where
  "policyListRulePath kind name number rest = policyListPath kind name ([''rule'', number] @ rest)"

definition routeMapPath :: "string \<Rightarrow> path \<Rightarrow> path" where
  "routeMapPath name rest = [''policy'', ''route-map'', name] @ rest"

definition routeMapRulePath :: "string \<Rightarrow> string \<Rightarrow> path \<Rightarrow> path" where
  "routeMapRulePath name number rest = routeMapPath name ([''rule'', number] @ rest)"

definition localRouteNode :: "string \<Rightarrow> string" where
  "localRouteNode family = (if family = ''ipv6'' then ''local-route6'' else ''local-route'')"

definition localRoutePath :: "string \<Rightarrow> path \<Rightarrow> path" where
  "localRoutePath family rest = [''policy'', localRouteNode family] @ rest"

definition localRouteRulePath :: "string \<Rightarrow> string \<Rightarrow> path \<Rightarrow> path" where
  "localRouteRulePath family number rest = localRoutePath family ([''rule'', number] @ rest)"

subsection \<open>Prefix lists\<close>

record PrefixListFormValues =
  xlv_description :: string

definition blankPrefixListFormValues :: PrefixListFormValues where
  "blankPrefixListFormValues =
     \<lparr>xlv_description = ''''\<rparr>"

definition prefixListToFormValues :: "PrefixList \<Rightarrow> PrefixListFormValues" where
  "prefixListToFormValues list =
     \<lparr>xlv_description = or_else (xl_description list) ''''\<rparr>"

definition PREFIX_LIST_FIELDS :: "PrefixListFormValues scalar_field list" where
  "PREFIX_LIST_FIELDS = [(xlv_description, [''description''])]"

definition prefixListFormToOps ::
    "string \<Rightarrow> string \<Rightarrow> PrefixList option \<Rightarrow> PrefixListFormValues \<Rightarrow> ConfigOp list" where
  "prefixListFormToOps family name before values =
     (let beforeValues = (case before of Some x \<Rightarrow> prefixListToFormValues x | None \<Rightarrow> blankPrefixListFormValues)
      in diffToOps (prefixListPath family name []) PREFIX_LIST_FIELDS [] beforeValues values)"

definition deletePrefixListOp :: "string \<Rightarrow> string \<Rightarrow> ConfigOp" where
  "deletePrefixListOp family name = delete_op (prefixListPath family name [])"

record PrefixListRuleFormValues =
  xrv_action :: string
  xrv_description :: string
  xrv_prefix :: string
  xrv_ge :: string
  xrv_le :: string

definition blankPrefixListRuleFormValues :: PrefixListRuleFormValues where
  "blankPrefixListRuleFormValues =
     \<lparr>xrv_action = '''',
      xrv_description = '''',
      xrv_prefix = '''',
      xrv_ge = '''',
      xrv_le = ''''\<rparr>"

definition prefixListRuleToFormValues :: "PrefixListRule \<Rightarrow> PrefixListRuleFormValues" where
  "prefixListRuleToFormValues rule =
     \<lparr>xrv_action = or_else (xlr_action rule) '''',
      xrv_description = or_else (xlr_description rule) '''',
      xrv_prefix = or_else (xlr_prefix rule) '''',
      xrv_ge = or_else (xlr_ge rule) '''',
      xrv_le = or_else (xlr_le rule) ''''\<rparr>"

definition PREFIX_LIST_RULE_FIELDS :: "PrefixListRuleFormValues scalar_field list" where
  "PREFIX_LIST_RULE_FIELDS =
     [(xrv_action, [''action'']),
      (xrv_description, [''description'']),
      (xrv_prefix, [''prefix'']),
      (xrv_ge, [''ge'']),
      (xrv_le, [''le''])]"

definition prefixListRuleFormToOps ::
    "string \<Rightarrow> string \<Rightarrow> string \<Rightarrow> PrefixListRule option \<Rightarrow> PrefixListRuleFormValues \<Rightarrow> ConfigOp list" where
  "prefixListRuleFormToOps family listName ruleNumber before values =
     (let beforeValues = (case before of Some x \<Rightarrow> prefixListRuleToFormValues x | None \<Rightarrow> blankPrefixListRuleFormValues)
      in diffToOps (prefixListRulePath family listName ruleNumber []) PREFIX_LIST_RULE_FIELDS [] beforeValues values)"

definition deletePrefixListRuleOp :: "string \<Rightarrow> string \<Rightarrow> string \<Rightarrow> ConfigOp" where
  "deletePrefixListRuleOp family listName ruleNumber = delete_op (prefixListRulePath family listName ruleNumber [])"

subsection \<open>AS-path and community lists\<close>

record PolicyListFormValues =
  plv_description :: string

definition blankPolicyListFormValues :: PolicyListFormValues where
  "blankPolicyListFormValues =
     \<lparr>plv_description = ''''\<rparr>"

definition policyListToFormValues :: "PolicyList \<Rightarrow> PolicyListFormValues" where
  "policyListToFormValues list =
     \<lparr>plv_description = or_else (pl_description list) ''''\<rparr>"

definition POLICY_LIST_FIELDS :: "PolicyListFormValues scalar_field list" where
  "POLICY_LIST_FIELDS = [(plv_description, [''description''])]"

definition policyListFormToOps ::
    "string \<Rightarrow> string \<Rightarrow> PolicyList option \<Rightarrow> PolicyListFormValues \<Rightarrow> ConfigOp list" where
  "policyListFormToOps kind name before values =
     (let beforeValues = (case before of Some x \<Rightarrow> policyListToFormValues x | None \<Rightarrow> blankPolicyListFormValues)
      in diffToOps (policyListPath kind name []) POLICY_LIST_FIELDS [] beforeValues values)"

definition deletePolicyListOp :: "string \<Rightarrow> string \<Rightarrow> ConfigOp" where
  "deletePolicyListOp kind name = delete_op (policyListPath kind name [])"

record PolicyListRuleFormValues =
  prv_action :: string
  prv_description :: string
  prv_regex :: string

definition blankPolicyListRuleFormValues :: PolicyListRuleFormValues where
  "blankPolicyListRuleFormValues =
     \<lparr>prv_action = '''',
      prv_description = '''',
      prv_regex = ''''\<rparr>"

definition policyListRuleToFormValues :: "PolicyListRule \<Rightarrow> PolicyListRuleFormValues" where
  "policyListRuleToFormValues rule =
     \<lparr>prv_action = or_else (plr_action rule) '''',
      prv_description = or_else (plr_description rule) '''',
      prv_regex = or_else (plr_regex rule) ''''\<rparr>"

definition POLICY_LIST_RULE_FIELDS :: "PolicyListRuleFormValues scalar_field list" where
  "POLICY_LIST_RULE_FIELDS =
     [(prv_action, [''action'']),
      (prv_description, [''description'']),
      (prv_regex, [''regex''])]"

definition policyListRuleFormToOps ::
    "string \<Rightarrow> string \<Rightarrow> string \<Rightarrow> PolicyListRule option \<Rightarrow> PolicyListRuleFormValues \<Rightarrow> ConfigOp list" where
  "policyListRuleFormToOps kind listName ruleNumber before values =
     (let beforeValues = (case before of Some x \<Rightarrow> policyListRuleToFormValues x | None \<Rightarrow> blankPolicyListRuleFormValues)
      in diffToOps (policyListRulePath kind listName ruleNumber []) POLICY_LIST_RULE_FIELDS [] beforeValues values)"

definition deletePolicyListRuleOp :: "string \<Rightarrow> string \<Rightarrow> string \<Rightarrow> ConfigOp" where
  "deletePolicyListRuleOp kind listName ruleNumber = delete_op (policyListRulePath kind listName ruleNumber [])"

subsection \<open>Route maps\<close>

record RouteMapFormValues =
  rmv_description :: string

definition blankRouteMapFormValues :: RouteMapFormValues where
  "blankRouteMapFormValues =
     \<lparr>rmv_description = ''''\<rparr>"

definition routeMapToFormValues :: "RouteMap \<Rightarrow> RouteMapFormValues" where
  "routeMapToFormValues rmap =
     \<lparr>rmv_description = or_else (rm_description rmap) ''''\<rparr>"

definition ROUTE_MAP_FIELDS :: "RouteMapFormValues scalar_field list" where
  "ROUTE_MAP_FIELDS = [(rmv_description, [''description''])]"

definition routeMapFormToOps ::
    "string \<Rightarrow> RouteMap option \<Rightarrow> RouteMapFormValues \<Rightarrow> ConfigOp list" where
  "routeMapFormToOps name before values =
     (let beforeValues = (case before of Some x \<Rightarrow> routeMapToFormValues x | None \<Rightarrow> blankRouteMapFormValues)
      in diffToOps (routeMapPath name []) ROUTE_MAP_FIELDS [] beforeValues values)"

definition deleteRouteMapOp :: "string \<Rightarrow> ConfigOp" where
  "deleteRouteMapOp name = delete_op (routeMapPath name [])"

record RouteMapMatchFormValues =
  rmmv_asPath :: string
  rmmv_communityList :: string
  rmmv_communityExactMatch :: bool
  rmmv_ipPrefixList :: string
  rmmv_ipv6PrefixList :: string
  rmmv_protocol :: string
  rmmv_metric :: string
  rmmv_localPreference :: string
  rmmv_tag :: string

definition blankMatch_rm :: RouteMapMatchFormValues where
  "blankMatch_rm =
     \<lparr>rmmv_asPath = '''',
      rmmv_communityList = '''',
      rmmv_communityExactMatch = False,
      rmmv_ipPrefixList = '''',
      rmmv_ipv6PrefixList = '''',
      rmmv_protocol = '''',
      rmmv_metric = '''',
      rmmv_localPreference = '''',
      rmmv_tag = ''''\<rparr>"

definition matchToFormValues_rm :: "RouteMapMatch \<Rightarrow> RouteMapMatchFormValues" where
  "matchToFormValues_rm mtch =
     \<lparr>rmmv_asPath = or_else (rmm_asPath mtch) '''',
      rmmv_communityList = or_else (rmm_communityList mtch) '''',
      rmmv_communityExactMatch = rmm_communityExactMatch mtch,
      rmmv_ipPrefixList = or_else (rmm_ipPrefixList mtch) '''',
      rmmv_ipv6PrefixList = or_else (rmm_ipv6PrefixList mtch) '''',
      rmmv_protocol = or_else (rmm_protocol mtch) '''',
      rmmv_metric = or_else (rmm_metric mtch) '''',
      rmmv_localPreference = or_else (rmm_localPreference mtch) '''',
      rmmv_tag = or_else (rmm_tag mtch) ''''\<rparr>"

record RouteMapSetFormValues =
  rmsv_metric :: string
  rmsv_localPreference :: string
  rmsv_asPathPrepend :: string
  rmsv_asPathExclude :: string
  rmsv_communityAdd :: string
  rmsv_communityReplace :: string
  rmsv_communityNone :: bool
  rmsv_communityDelete :: string
  rmsv_origin :: string
  rmsv_tag :: string
  rmsv_weight :: string

definition blankSet :: RouteMapSetFormValues where
  "blankSet =
     \<lparr>rmsv_metric = '''',
      rmsv_localPreference = '''',
      rmsv_asPathPrepend = '''',
      rmsv_asPathExclude = '''',
      rmsv_communityAdd = '''',
      rmsv_communityReplace = '''',
      rmsv_communityNone = False,
      rmsv_communityDelete = '''',
      rmsv_origin = '''',
      rmsv_tag = '''',
      rmsv_weight = ''''\<rparr>"

definition setToFormValues :: "RouteMapSet \<Rightarrow> RouteMapSetFormValues" where
  "setToFormValues st =
     \<lparr>rmsv_metric = or_else (rms_metric st) '''',
      rmsv_localPreference = or_else (rms_localPreference st) '''',
      rmsv_asPathPrepend = or_else (rms_asPathPrepend st) '''',
      rmsv_asPathExclude = or_else (rms_asPathExclude st) '''',
      rmsv_communityAdd = or_else (rms_communityAdd st) '''',
      rmsv_communityReplace = or_else (rms_communityReplace st) '''',
      rmsv_communityNone = rms_communityNone st,
      rmsv_communityDelete = or_else (rms_communityDelete st) '''',
      rmsv_origin = or_else (rms_origin st) '''',
      rmsv_tag = or_else (rms_tag st) '''',
      rmsv_weight = or_else (rms_weight st) ''''\<rparr>"

record RouteMapRuleFormValues =
  rmrv_action :: string
  rmrv_description :: string
  rmrv_call :: string
  rmrv_onMatchGoto :: string
  rmrv_onMatchNext :: bool
  rmrv_match :: RouteMapMatchFormValues
  rmrv_set :: RouteMapSetFormValues

definition blankRouteMapRuleFormValues :: RouteMapRuleFormValues where
  "blankRouteMapRuleFormValues =
     \<lparr>rmrv_action = '''',
      rmrv_description = '''',
      rmrv_call = '''',
      rmrv_onMatchGoto = '''',
      rmrv_onMatchNext = False,
      rmrv_match = blankMatch_rm,
      rmrv_set = blankSet\<rparr>"

definition routeMapRuleToFormValues :: "RouteMapRule \<Rightarrow> RouteMapRuleFormValues" where
  "routeMapRuleToFormValues rule =
     \<lparr>rmrv_action = or_else (rmr_action rule) '''',
      rmrv_description = or_else (rmr_description rule) '''',
      rmrv_call = or_else (rmr_call rule) '''',
      rmrv_onMatchGoto = or_else (rmr_onMatchGoto rule) '''',
      rmrv_onMatchNext = rmr_onMatchNext rule,
      rmrv_match = matchToFormValues_rm (rmr_match rule),
      rmrv_set = setToFormValues (rmr_set rule)\<rparr>"

definition ROUTE_MAP_SCALAR_FIELDS :: "RouteMapRuleFormValues scalar_field list" where
  "ROUTE_MAP_SCALAR_FIELDS =
     [(rmrv_action, [''action'']),
      (rmrv_description, [''description'']),
      (rmrv_call, [''call'']),
      (rmrv_onMatchGoto, [''on-match'', ''goto'']),
      (\<lambda>v. rmmv_asPath (rmrv_match v), [''match'', ''as-path'']),
      (\<lambda>v. rmmv_communityList (rmrv_match v), [''match'', ''community'', ''community-list'']),
      (\<lambda>v. rmmv_ipPrefixList (rmrv_match v), [''match'', ''ip'', ''address'', ''prefix-list'']),
      (\<lambda>v. rmmv_ipv6PrefixList (rmrv_match v), [''match'', ''ipv6'', ''address'', ''prefix-list'']),
      (\<lambda>v. rmmv_protocol (rmrv_match v), [''match'', ''protocol'']),
      (\<lambda>v. rmmv_metric (rmrv_match v), [''match'', ''metric'']),
      (\<lambda>v. rmmv_localPreference (rmrv_match v), [''match'', ''local-preference'']),
      (\<lambda>v. rmmv_tag (rmrv_match v), [''match'', ''tag'']),
      (\<lambda>v. rmsv_metric (rmrv_set v), [''set'', ''metric'']),
      (\<lambda>v. rmsv_localPreference (rmrv_set v), [''set'', ''local-preference'']),
      (\<lambda>v. rmsv_asPathPrepend (rmrv_set v), [''set'', ''as-path'', ''prepend'']),
      (\<lambda>v. rmsv_asPathExclude (rmrv_set v), [''set'', ''as-path'', ''exclude'']),
      (\<lambda>v. rmsv_communityAdd (rmrv_set v), [''set'', ''community'', ''add'']),
      (\<lambda>v. rmsv_communityReplace (rmrv_set v), [''set'', ''community'', ''replace'']),
      (\<lambda>v. rmsv_communityDelete (rmrv_set v), [''set'', ''community'', ''delete'']),
      (\<lambda>v. rmsv_origin (rmrv_set v), [''set'', ''origin'']),
      (\<lambda>v. rmsv_tag (rmrv_set v), [''set'', ''tag'']),
      (\<lambda>v. rmsv_weight (rmrv_set v), [''set'', ''weight''])]"

definition ROUTE_MAP_FLAG_FIELDS :: "RouteMapRuleFormValues flag_field list" where
  "ROUTE_MAP_FLAG_FIELDS =
     [(rmrv_onMatchNext, [''on-match'', ''next'']),
      (\<lambda>v. rmmv_communityExactMatch (rmrv_match v), [''match'', ''community'', ''exact-match'']),
      (\<lambda>v. rmsv_communityNone (rmrv_set v), [''set'', ''community'', ''none''])]"

definition routeMapRuleFormToOps ::
    "string \<Rightarrow> string \<Rightarrow> RouteMapRule option \<Rightarrow> RouteMapRuleFormValues \<Rightarrow> ConfigOp list" where
  "routeMapRuleFormToOps mapName ruleNumber before values =
     (let beforeValues = (case before of Some x \<Rightarrow> routeMapRuleToFormValues x | None \<Rightarrow> blankRouteMapRuleFormValues)
      in diffToOps (routeMapRulePath mapName ruleNumber []) ROUTE_MAP_SCALAR_FIELDS ROUTE_MAP_FLAG_FIELDS beforeValues values)"

definition deleteRouteMapRuleOp :: "string \<Rightarrow> string \<Rightarrow> ConfigOp" where
  "deleteRouteMapRuleOp mapName ruleNumber = delete_op (routeMapRulePath mapName ruleNumber [])"

subsection \<open>Local routes\<close>

record LocalRouteFormValues =
  lrv_protocol :: string
  lrv_fwmark :: string
  lrv_sourcePort :: string
  lrv_destinationPort :: string
  lrv_inboundInterface :: string
  lrv_table :: string
  lrv_vrf :: string

definition blankLocalRouteFormValues :: LocalRouteFormValues where
  "blankLocalRouteFormValues =
     \<lparr>lrv_protocol = '''',
      lrv_fwmark = '''',
      lrv_sourcePort = '''',
      lrv_destinationPort = '''',
      lrv_inboundInterface = '''',
      lrv_table = '''',
      lrv_vrf = ''''\<rparr>"

definition localRouteToFormValues :: "LocalRouteRule \<Rightarrow> LocalRouteFormValues" where
  "localRouteToFormValues rule =
     \<lparr>lrv_protocol = or_else (lr_protocol rule) '''',
      lrv_fwmark = or_else (lr_fwmark rule) '''',
      lrv_sourcePort = or_else (lr_sourcePort rule) '''',
      lrv_destinationPort = or_else (lr_destinationPort rule) '''',
      lrv_inboundInterface = or_else (lr_inboundInterface rule) '''',
      lrv_table = or_else (lr_table rule) '''',
      lrv_vrf = or_else (lr_vrf rule) ''''\<rparr>"

definition LOCAL_ROUTE_FIELDS :: "LocalRouteFormValues scalar_field list" where
  "LOCAL_ROUTE_FIELDS =
     [(lrv_protocol, [''protocol'']),
      (lrv_fwmark, [''fwmark'']),
      (lrv_sourcePort, [''source'', ''port'']),
      (lrv_destinationPort, [''destination'', ''port'']),
      (lrv_inboundInterface, [''inbound-interface'']),
      (lrv_table, [''set'', ''table'']),
      (lrv_vrf, [''set'', ''vrf''])]"

definition localRouteFormToOps ::
    "string \<Rightarrow> string \<Rightarrow> LocalRouteRule option \<Rightarrow> LocalRouteFormValues \<Rightarrow> ConfigOp list" where
  "localRouteFormToOps family ruleNumber before values =
     (let beforeValues = (case before of Some x \<Rightarrow> localRouteToFormValues x | None \<Rightarrow> blankLocalRouteFormValues)
      in diffToOps (localRouteRulePath family ruleNumber []) LOCAL_ROUTE_FIELDS [] beforeValues values)"

definition deleteLocalRouteOp :: "string \<Rightarrow> string \<Rightarrow> ConfigOp" where
  "deleteLocalRouteOp family ruleNumber = delete_op (localRouteRulePath family ruleNumber [])"

subsection \<open>The forms as edit forms\<close>

lemma prefix_list_fields:
  "indep_all (map snd PREFIX_LIST_FIELDS @ map snd ([] :: PrefixListFormValues flag_field list))" "[] \<notin> set (map snd PREFIX_LIST_FIELDS @ map snd ([] :: PrefixListFormValues flag_field list))"
  by (simp_all add: PREFIX_LIST_FIELDS_def  )

lemmas prefix_list_form_defs = prefixListToFormValues_def parsePrefixList_def

lemma prefix_list_reads: "reads PREFIX_LIST_FIELDS [] t v \<longleftrightarrow> prefixListToFormValues (parsePrefixList family name t) = v"
  by (cases v)
     (auto simp: reads_def PREFIX_LIST_FIELDS_def   prefix_list_form_defs Let_def)

lemma prefix_list_blank: "prefixListToFormValues (parsePrefixList family name None) = blankPrefixListFormValues"
  by (simp add: prefix_list_form_defs blankPrefixListFormValues_def Let_def)

interpretation prefix_list_form: edit_form PREFIX_LIST_FIELDS "[]" prefixListToFormValues "parsePrefixList family name" blankPrefixListFormValues
  "\<lambda>t. True" "\<lambda>v. True" for family name
  by unfold_locales (simp_all only: not_False_eq_True prefix_list_fields prefix_list_blank prefix_list_reads [where family = family and name = name])

lemma prefix_list_rule_fields:
  "indep_all (map snd PREFIX_LIST_RULE_FIELDS @ map snd ([] :: PrefixListRuleFormValues flag_field list))" "[] \<notin> set (map snd PREFIX_LIST_RULE_FIELDS @ map snd ([] :: PrefixListRuleFormValues flag_field list))"
  by (simp_all add: PREFIX_LIST_RULE_FIELDS_def  )

lemmas prefix_list_rule_form_defs = prefixListRuleToFormValues_def parsePrefixListRule_def

lemma prefix_list_rule_reads: "reads PREFIX_LIST_RULE_FIELDS [] t v \<longleftrightarrow> prefixListRuleToFormValues (parsePrefixListRule number t) = v"
  by (cases v)
     (auto simp: reads_def PREFIX_LIST_RULE_FIELDS_def   prefix_list_rule_form_defs Let_def)

lemma prefix_list_rule_blank: "prefixListRuleToFormValues (parsePrefixListRule number None) = blankPrefixListRuleFormValues"
  by (simp add: prefix_list_rule_form_defs blankPrefixListRuleFormValues_def Let_def)

interpretation prefix_list_rule_form: edit_form PREFIX_LIST_RULE_FIELDS "[]" prefixListRuleToFormValues "parsePrefixListRule number" blankPrefixListRuleFormValues
  "\<lambda>t. True" "\<lambda>v. True" for number
  by unfold_locales (simp_all only: not_False_eq_True prefix_list_rule_fields prefix_list_rule_blank prefix_list_rule_reads [where number = number])

lemma policy_list_fields:
  "indep_all (map snd POLICY_LIST_FIELDS @ map snd ([] :: PolicyListFormValues flag_field list))" "[] \<notin> set (map snd POLICY_LIST_FIELDS @ map snd ([] :: PolicyListFormValues flag_field list))"
  by (simp_all add: POLICY_LIST_FIELDS_def  )

lemmas policy_list_form_defs = policyListToFormValues_def parsePolicyList_def

lemma policy_list_reads: "reads POLICY_LIST_FIELDS [] t v \<longleftrightarrow> policyListToFormValues (parsePolicyList kind name t) = v"
  by (cases v)
     (auto simp: reads_def POLICY_LIST_FIELDS_def   policy_list_form_defs Let_def)

lemma policy_list_blank: "policyListToFormValues (parsePolicyList kind name None) = blankPolicyListFormValues"
  by (simp add: policy_list_form_defs blankPolicyListFormValues_def Let_def)

interpretation policy_list_form: edit_form POLICY_LIST_FIELDS "[]" policyListToFormValues "parsePolicyList kind name" blankPolicyListFormValues
  "\<lambda>t. True" "\<lambda>v. True" for kind name
  by unfold_locales (simp_all only: not_False_eq_True policy_list_fields policy_list_blank policy_list_reads [where kind = kind and name = name])

lemma policy_list_rule_fields:
  "indep_all (map snd POLICY_LIST_RULE_FIELDS @ map snd ([] :: PolicyListRuleFormValues flag_field list))" "[] \<notin> set (map snd POLICY_LIST_RULE_FIELDS @ map snd ([] :: PolicyListRuleFormValues flag_field list))"
  by (simp_all add: POLICY_LIST_RULE_FIELDS_def  )

lemmas policy_list_rule_form_defs = policyListRuleToFormValues_def parsePolicyListRule_def

lemma policy_list_rule_reads: "reads POLICY_LIST_RULE_FIELDS [] t v \<longleftrightarrow> policyListRuleToFormValues (parsePolicyListRule number t) = v"
  by (cases v)
     (auto simp: reads_def POLICY_LIST_RULE_FIELDS_def   policy_list_rule_form_defs Let_def)

lemma policy_list_rule_blank: "policyListRuleToFormValues (parsePolicyListRule number None) = blankPolicyListRuleFormValues"
  by (simp add: policy_list_rule_form_defs blankPolicyListRuleFormValues_def Let_def)

interpretation policy_list_rule_form: edit_form POLICY_LIST_RULE_FIELDS "[]" policyListRuleToFormValues "parsePolicyListRule number" blankPolicyListRuleFormValues
  "\<lambda>t. True" "\<lambda>v. True" for number
  by unfold_locales (simp_all only: not_False_eq_True policy_list_rule_fields policy_list_rule_blank policy_list_rule_reads [where number = number])

lemma route_map_fields:
  "indep_all (map snd ROUTE_MAP_FIELDS @ map snd ([] :: RouteMapFormValues flag_field list))" "[] \<notin> set (map snd ROUTE_MAP_FIELDS @ map snd ([] :: RouteMapFormValues flag_field list))"
  by (simp_all add: ROUTE_MAP_FIELDS_def  )

lemmas route_map_form_defs = routeMapToFormValues_def parseRouteMap_def

lemma route_map_reads: "reads ROUTE_MAP_FIELDS [] t v \<longleftrightarrow> routeMapToFormValues (parseRouteMap name t) = v"
  by (cases v)
     (auto simp: reads_def ROUTE_MAP_FIELDS_def   route_map_form_defs Let_def)

lemma route_map_blank: "routeMapToFormValues (parseRouteMap name None) = blankRouteMapFormValues"
  by (simp add: route_map_form_defs blankRouteMapFormValues_def Let_def)

interpretation route_map_form: edit_form ROUTE_MAP_FIELDS "[]" routeMapToFormValues "parseRouteMap name" blankRouteMapFormValues
  "\<lambda>t. True" "\<lambda>v. True" for name
  by unfold_locales (simp_all only: not_False_eq_True route_map_fields route_map_blank route_map_reads [where name = name])

lemma local_route_fields:
  "indep_all (map snd LOCAL_ROUTE_FIELDS @ map snd ([] :: LocalRouteFormValues flag_field list))" "[] \<notin> set (map snd LOCAL_ROUTE_FIELDS @ map snd ([] :: LocalRouteFormValues flag_field list))"
  by (simp_all add: LOCAL_ROUTE_FIELDS_def  )

lemmas local_route_form_defs = localRouteToFormValues_def parseLocalRouteRule_def

lemma local_route_reads: "reads LOCAL_ROUTE_FIELDS [] t v \<longleftrightarrow> localRouteToFormValues (parseLocalRouteRule family number t) = v"
  by (cases v)
     (auto simp: reads_def LOCAL_ROUTE_FIELDS_def   local_route_form_defs Let_def)

lemma local_route_blank: "localRouteToFormValues (parseLocalRouteRule family number None) = blankLocalRouteFormValues"
  by (simp add: local_route_form_defs blankLocalRouteFormValues_def Let_def)

interpretation local_route_form: edit_form LOCAL_ROUTE_FIELDS "[]" localRouteToFormValues "parseLocalRouteRule family number" blankLocalRouteFormValues
  "\<lambda>t. True" "\<lambda>v. True" for family number
  by unfold_locales (simp_all only: not_False_eq_True local_route_fields local_route_blank local_route_reads [where family = family and number = number])

text \<open>
  The route-map rule form shows one value of each community leaf, so a rule it can represent has at
  most one: the leaf is absent or a string.
\<close>

definition single_leaf :: "unknown \<Rightarrow> bool" where
  "single_leaf v \<longleftrightarrow> (case v of None \<Rightarrow> True | Some (JStr s) \<Rightarrow> True | _ \<Rightarrow> False)"

lemma single_leaf_simps [simp]: "single_leaf None" "single_leaf (Some (JStr s))"
  by (simp_all add: single_leaf_def)

lemma single_leaf_edit: "single_leaf v \<Longrightarrow> single_leaf (edit_result (Scalar_edit old new) v)"
  by simp

lemma single_leaf_read [simp]:
  "single_leaf v \<Longrightarrow> or_else (js_first (asStringArray v)) '''' = read_str v"
  by (auto simp: single_leaf_def asStringArray_def js_first_def split: option.splits json.splits)

definition route_map_rule_ok :: "unknown \<Rightarrow> bool" where
  "route_map_rule_ok t \<longleftrightarrow> single_leaf (tree_get t [''set'', ''community'', ''add''])
     \<and> single_leaf (tree_get t [''set'', ''community'', ''replace''])"

lemma route_map_rule_fields:
  "indep_all (map snd ROUTE_MAP_SCALAR_FIELDS @ map snd ROUTE_MAP_FLAG_FIELDS)"
  "[] \<notin> set (map snd ROUTE_MAP_SCALAR_FIELDS @ map snd ROUTE_MAP_FLAG_FIELDS)"
  by (simp_all add: ROUTE_MAP_SCALAR_FIELDS_def ROUTE_MAP_FLAG_FIELDS_def)

lemmas route_map_rule_form_defs = routeMapRuleToFormValues_def matchToFormValues_rm_def
  setToFormValues_def parseRouteMapRule_def parseRouteMapMatch_def parseRouteMapSet_def

lemmas route_map_rule_selectors = RouteMapRule.simps RouteMapMatch.simps RouteMapSet.simps
  RouteMapRuleFormValues.simps RouteMapMatchFormValues.simps RouteMapSetFormValues.simps

lemma route_map_rule_form_reads:
  "route_map_rule_ok t \<Longrightarrow> reads ROUTE_MAP_SCALAR_FIELDS ROUTE_MAP_FLAG_FIELDS t
     (routeMapRuleToFormValues (parseRouteMapRule number t))"
  unfolding reads_def ROUTE_MAP_SCALAR_FIELDS_def ROUTE_MAP_FLAG_FIELDS_def route_map_rule_form_defs
    Let_def route_map_rule_ok_def list.pred_inject prod.case route_map_rule_selectors
  by simp

lemma route_map_rule_reads_form:
  assumes "reads ROUTE_MAP_SCALAR_FIELDS ROUTE_MAP_FLAG_FIELDS t v" and "route_map_rule_ok t"
  shows "routeMapRuleToFormValues (parseRouteMapRule number t) = v"
  using assms
  unfolding reads_def ROUTE_MAP_SCALAR_FIELDS_def ROUTE_MAP_FLAG_FIELDS_def route_map_rule_form_defs
    Let_def route_map_rule_ok_def list.pred_inject prod.case route_map_rule_selectors
  by (intro RouteMapRuleFormValues.equality RouteMapMatchFormValues.equality
        RouteMapSetFormValues.equality; simp)

lemma route_map_rule_blank:
  "routeMapRuleToFormValues (parseRouteMapRule number None) = blankRouteMapRuleFormValues"
  by (simp add: route_map_rule_form_defs blankRouteMapRuleFormValues_def blankMatch_rm_def
      blankSet_def js_first_def)

lemma route_map_rule_ok_edited:
  "edited_tree ROUTE_MAP_SCALAR_FIELDS ROUTE_MAP_FLAG_FIELDS b v t t' \<Longrightarrow> route_map_rule_ok t \<Longrightarrow>
     route_map_rule_ok t'"
  by (simp add: edited_tree_def ROUTE_MAP_SCALAR_FIELDS_def route_map_rule_ok_def
      single_leaf_edit del: edit_result.simps)

interpretation route_map_rule_form: edit_form ROUTE_MAP_SCALAR_FIELDS ROUTE_MAP_FLAG_FIELDS
  routeMapRuleToFormValues "parseRouteMapRule number" blankRouteMapRuleFormValues
  route_map_rule_ok "\<lambda>v. True" for number
  by unfold_locales
     (fact route_map_rule_fields route_map_rule_blank
       | erule (1) route_map_rule_reads_form route_map_rule_ok_edited
       | erule route_map_rule_form_reads)+

subsection \<open>The order of rules\<close>

definition num_value :: "jsnum \<Rightarrow> rat" where
  "num_value n = (case n of Num q \<Rightarrow> q | _ \<Rightarrow> 0)"

lemma js_finite_value: "js_finite n \<Longrightarrow> n = Num (num_value n)"
  by (cases n) (simp_all add: js_finite_def num_value_def)

lemma parse_by_number:
  assumes "\<forall>(k, r) \<in> set (entries v). js_finite (js_number k)" and "\<And>k r. num (f k r) = k"
  shows "sorted_wrt (\<lambda>a b. js_le (js_number (num a)) (js_number (num b))) (parse_entries f (by_number num) v)
    \<and> mset (parse_entries f (by_number num) v) = mset (map (\<lambda>(k, r). f k (Some r)) (entries v))"
proof
  let ?n = "\<lambda>a. num_value (js_number (num a))"
  let ?d = "\<lambda>a b. js_num_cmp (Num (?n a)) (Num (?n b))"
  have fin: "js_finite (js_number (num a))" if "a \<in> set (parse_entries f (by_number num) v)" for a
    using that assms by (auto simp: set_parse_entries)
  have "parse_entries f (by_number num) v = parse_entries f ?d v"
    unfolding parse_entries_def
  proof (rule if_cong [OF refl _ refl], rule js_sort_cong)
    fix a b
    assume "a \<in> set (map (\<lambda>(k, r). f k (Some r)) (entries v))" "b \<in> set (map (\<lambda>(k, r). f k (Some r)) (entries v))"
    then have "js_finite (js_number (num a))" "js_finite (js_number (num b))" using assms by auto
    from this [THEN js_finite_value] show "by_number num a b = ?d a b" unfolding by_number_def by metis
  qed
  moreover have "consistent ?d" by (auto simp: consistent_def)
  ultimately have "sorted_by ?d (parse_entries f (by_number num) v)"
    using sorted_parse_entries by metis
  then show "sorted_wrt (\<lambda>a b. js_le (js_number (num a)) (js_number (num b))) (parse_entries f (by_number num) v)"
    unfolding sorted_by_def
  proof (rule sorted_wrt_mono_rel [rotated])
    fix a b
    assume ab: "a \<in> set (parse_entries f (by_number num) v)" "b \<in> set (parse_entries f (by_number num) v)"
      and "?d a b \<le> 0"
    then have "?n a \<le> ?n b" by (simp split: if_splits)
    then have "js_le (Num (?n a)) (Num (?n b))" by (simp add: js_le_def)
    then show "js_le (js_number (num a)) (js_number (num b))"
      using fin [OF ab(1), THEN js_finite_value] fin [OF ab(2), THEN js_finite_value] by metis
  qed
qed (rule mset_parse_entries)

text \<open>
  The rules of a prefix list and of a route map are shown in ascending order of their numbers,
  compared as numbers, and they are exactly the rules of the configuration, each once.
\<close>

theorem policy_rules_in_order:
  assumes "\<forall>(k, r) \<in> set (entries (child raw ''rule'')). js_finite (js_number k)"
  shows "sorted_wrt (\<lambda>a b. js_le (js_number (xlr_number a)) (js_number (xlr_number b)))
        (xl_rules (parsePrefixList family name raw))
    \<and> mset (xl_rules (parsePrefixList family name raw))
        = mset (map (\<lambda>(k, r). parsePrefixListRule k (Some r)) (entries (child raw ''rule'')))
    \<and> sorted_wrt (\<lambda>a b. js_le (js_number (rmr_number a)) (js_number (rmr_number b)))
        (rm_rules (parseRouteMap name raw))
    \<and> mset (rm_rules (parseRouteMap name raw))
        = mset (map (\<lambda>(k, r). parseRouteMapRule k (Some r)) (entries (child raw ''rule'')))"
  using parse_by_number [OF assms, of xlr_number parsePrefixListRule]
    parse_by_number [OF assms, of rmr_number parseRouteMapRule]
  by (simp add: parsePrefixList_def parseRouteMap_def parsePrefixListRule_def parseRouteMapRule_def Let_def)

theorem policy_rules_in_order_witness:
  "map xlr_number (xl_rules (parsePrefixList ''ipv4'' ''p''
     (Some (JObj [(''rule'', JObj [(''10'', JObj []), (''9'', JObj [])])])))) = [''9'', ''10'']"
proof -
  let ?raw = "Some (JObj [(''rule'', JObj [(''10'', JObj []), (''9'', JObj [])])])"
  have "\<forall>(k, r) \<in> set (entries (child ?raw ''rule'')). js_finite (js_number k)" by code_simp
  from policy_rules_in_order [OF this]
  have "sorted_wrt (\<lambda>a b. js_le (js_number (xlr_number a)) (js_number (xlr_number b)))
      (xl_rules (parsePrefixList ''ipv4'' ''p'' ?raw))" by blast
  moreover have "map xlr_number (xl_rules (parsePrefixList ''ipv4'' ''p'' ?raw)) = [''9'', ''10'']" by code_simp
  ultimately show ?thesis by blast
qed

text \<open>
  The route-map rule form round trip: a rule whose community leaves are absent or single-valued,
  edited into trimmed values, reads back from the device as those values and can still be edited by
  the form; nothing off the rule changes; and reopening the form leaves nothing to queue.
\<close>

theorem route_map_rule_form_roundtrip:
  assumes "trimmed_form ROUTE_MAP_SCALAR_FIELDS v" and "p = routeMapRulePath name n []"
    and "route_map_rule_ok (device_get m p)" and "indep p q"
    and "m' = device_apply (routeMapRuleFormToOps name n (device_item (parseRouteMapRule n) m p) v) m"
  shows "routeMapRuleToFormValues (parseRouteMapRule n (device_get m' p)) = v
    \<and> route_map_rule_ok (device_get m' p) \<and> device_get m' q = device_get m q
    \<and> routeMapRuleFormToOps name n (device_item (parseRouteMapRule n) m' p) v = []"
proof -
  have m': "m' = device_apply (diffToOps p ROUTE_MAP_SCALAR_FIELDS ROUTE_MAP_FLAG_FIELDS
      (case device_item (parseRouteMapRule n) m p of Some x \<Rightarrow> routeMapRuleToFormValues x
       | None \<Rightarrow> blankRouteMapRuleFormValues) v) m"
    by (simp add: assms(2,5) routeMapRuleFormToOps_def)
  have "edited_tree ROUTE_MAP_SCALAR_FIELDS ROUTE_MAP_FLAG_FIELDS
      (routeMapRuleToFormValues (parseRouteMapRule n (device_get m p))) v (device_get m p) (device_get m' p)"
    unfolding m' route_map_rule_form.before_form by (rule form_results [OF route_map_rule_fields])
  then have "route_map_rule_ok (device_get m' p)" by (rule route_map_rule_ok_edited [OF _ assms(3)])
  then show ?thesis
    unfolding routeMapRuleFormToOps_def Let_def assms(2) [symmetric]
    using route_map_rule_form.roundtrip [OF assms(3) TrueI assms(1), of n, folded m']
      route_map_rule_form.settled [OF assms(3) TrueI assms(1) m']
      route_map_rule_form.elsewhere [OF assms(4), of _ v m] by (simp add: m')
qed

definition sample_route_map_values :: RouteMapRuleFormValues where
  "sample_route_map_values = blankRouteMapRuleFormValues
     \<lparr>rmrv_action := ''permit'', rmrv_set := blankSet\<lparr>rmsv_communityAdd := ''65000:1''\<rparr>\<rparr>"

theorem route_map_rule_form_roundtrip_witness:
  "routeMapRuleToFormValues (parseRouteMapRule ''10'' (device_get
     (device_apply (routeMapRuleFormToOps ''m'' ''10'' None sample_route_map_values) [])
     (routeMapRulePath ''m'' ''10'' []))) = sample_route_map_values"
proof -
  let ?p = "routeMapRulePath ''m'' ''10'' []"
  have 1: "trimmed_form ROUTE_MAP_SCALAR_FIELDS sample_route_map_values"
    "route_map_rule_ok (device_get [] ?p)" "indep ?p [''system'']"
    "device_item (parseRouteMapRule ''10'') [] ?p = None" by code_simp+
  from route_map_rule_form_roundtrip [OF 1(1) refl 1(2,3) refl] 1(4) show ?thesis by simp
qed

end
