(* ===== verification/Bgp.thy ===== *)
theory Bgp
  imports FakeVyos
begin

text \<open>
  BGP: the interfaces of \<open>lib/bgpTypes.ts\<close>, the parser of \<open>lib/bgpParse.ts\<close>, the peer form of
  \<open>lib/bgpPeerForm.ts\<close> (neighbors and peer groups; its password is write-only) and the global form
  and network and redistribution ops of \<open>lib/bgpGlobalForm.ts\<close>. \<open>lc\<close> is the collation of
  \<open>localeCompare\<close>.
\<close>

subsection \<open>Types\<close>

record BGPAddressFamilySettings =
  af_nexthopSelf :: bool
  af_removePrivateAs :: bool
  af_softReconfigurationInbound :: bool
  af_maximumPrefix :: "string option"

definition blankAddressFamilySettings :: BGPAddressFamilySettings where
  "blankAddressFamilySettings =
     \<lparr>af_nexthopSelf = False,
      af_removePrivateAs = False,
      af_softReconfigurationInbound = False,
      af_maximumPrefix = None\<rparr>"

record BGPPeer =
  bp_identifier :: string
  bp_kind :: string
  bp_remoteAs :: "string option"
  bp_description :: "string option"
  bp_hasPassword :: bool
  bp_shutdown :: bool
  bp_passive :: bool
  bp_ebgpMultihop :: "string option"
  bp_updateSource :: "string option"
  bp_peerGroup :: "string option"
  bp_ipv4Unicast :: BGPAddressFamilySettings
  bp_ipv6Unicast :: BGPAddressFamilySettings

record BGPNetworkAdvertisement =
  bn_family :: string
  bn_prefix :: string

record BGPRedistribution =
  br_family :: string
  br_source :: string
  br_metric :: "string option"

record BGPConfig =
  bc_systemAs :: "string option"
  bc_routerId :: "string option"
  bc_neighbors :: "BGPPeer list"
  bc_peerGroups :: "BGPPeer list"
  bc_networks :: "BGPNetworkAdvertisement list"
  bc_redistributions :: "BGPRedistribution list"

subsection \<open>Parsing\<close>

definition parseAddressFamilySettings :: "unknown \<Rightarrow> BGPAddressFamilySettings" where
  "parseAddressFamilySettings raw =
     \<lparr>af_nexthopSelf = isFlagPresent raw ''nexthop-self'',
      af_removePrivateAs = isFlagPresent raw ''remove-private-as'',
      af_softReconfigurationInbound = isFlagPresent (child raw ''soft-reconfiguration'') ''inbound'',
      af_maximumPrefix = asString (child raw ''maximum-prefix'')\<rparr>"

definition parsePeer :: "string \<Rightarrow> string \<Rightarrow> unknown \<Rightarrow> BGPPeer" where
  "parsePeer identifier kind raw =
     (let afRoot = child raw ''address-family''
      in \<lparr>bp_identifier = identifier,
          bp_kind = kind,
          bp_remoteAs = asString (child raw ''remote-as''),
          bp_description = asString (child raw ''description''),
          bp_hasPassword = isFlagPresent raw ''password'',
          bp_shutdown = isFlagPresent raw ''shutdown'',
          bp_passive = isFlagPresent raw ''passive'',
          bp_ebgpMultihop = asString (child raw ''ebgp-multihop''),
          bp_updateSource = asString (child raw ''update-source''),
          bp_peerGroup = asString (child raw ''peer-group''),
          bp_ipv4Unicast = (if isRecord (child afRoot ''ipv4-unicast'')
                            then parseAddressFamilySettings (child afRoot ''ipv4-unicast'')
                            else blankAddressFamilySettings),
          bp_ipv6Unicast = (if isRecord (child afRoot ''ipv6-unicast'')
                            then parseAddressFamilySettings (child afRoot ''ipv6-unicast'')
                            else blankAddressFamilySettings)\<rparr>)"

definition parsePeers :: "collation \<Rightarrow> unknown \<Rightarrow> string \<Rightarrow> string \<Rightarrow> BGPPeer list" where
  "parsePeers lc bgp node kind =
     parse_entries (\<lambda>identifier raw. parsePeer identifier kind raw)
       (\<lambda>a b. lc (bp_identifier a) (bp_identifier b)) (child bgp node)"

definition afNode :: "string \<Rightarrow> string" where
  "afNode family = (if family = ''ipv4'' then ''ipv4-unicast'' else ''ipv6-unicast'')"

definition parseNetworks :: "collation \<Rightarrow> unknown \<Rightarrow> BGPNetworkAdvertisement list" where
  "parseNetworks lc bgp =
     js_sort (\<lambda>a b. js_or (lc (bn_family a) (bn_family b)) (lc (bn_prefix a) (bn_prefix b)))
       (concat (map (\<lambda>family.
          map (\<lambda>(pfx, _). \<lparr>bn_family = family, bn_prefix = pfx\<rparr>)
            (entries (child (child (child bgp ''address-family'') (afNode family)) ''network'')))
          [''ipv4'', ''ipv6'']))"

definition parseRedistributions :: "collation \<Rightarrow> unknown \<Rightarrow> BGPRedistribution list" where
  "parseRedistributions lc bgp =
     js_sort (\<lambda>a b. js_or (lc (br_family a) (br_family b)) (lc (br_source a) (br_source b)))
       (concat (map (\<lambda>family.
          map (\<lambda>(src, raw). \<lparr>br_family = family, br_source = src,
                 br_metric = asString (child (Some raw) ''metric'')\<rparr>)
            (entries (child (child (child bgp ''address-family'') (afNode family)) ''redistribute'')))
          [''ipv4'', ''ipv6'']))"

definition parseBGPConfig :: "collation \<Rightarrow> unknown \<Rightarrow> BGPConfig" where
  "parseBGPConfig lc bgp =
     \<lparr>bc_systemAs = asString (child bgp ''system-as''),
      bc_routerId = asString (child (child bgp ''parameters'') ''router-id''),
      bc_neighbors = parsePeers lc bgp ''neighbor'' ''neighbor'',
      bc_peerGroups = parsePeers lc bgp ''peer-group'' ''peer-group'',
      bc_networks = parseNetworks lc bgp,
      bc_redistributions = parseRedistributions lc bgp\<rparr>"

definition bgpPath :: "path \<Rightarrow> path" where
  "bgpPath rest = [''protocols'', ''bgp''] @ rest"

definition bgpPeerPath :: "string \<Rightarrow> string \<Rightarrow> path \<Rightarrow> path" where
  "bgpPeerPath kind identifier rest = bgpPath ([kind, identifier] @ rest)"

definition bgpAddressFamilyPath :: "string \<Rightarrow> path \<Rightarrow> path" where
  "bgpAddressFamilyPath family rest =
     bgpPath ([''address-family'', if family = ''ipv6'' then ''ipv6-unicast'' else ''ipv4-unicast''] @ rest)"

subsection \<open>The peer form\<close>

record BGPAddressFamilyFormValues =
  afv_nexthopSelf :: bool
  afv_removePrivateAs :: bool
  afv_softReconfigurationInbound :: bool
  afv_maximumPrefix :: string

record BGPPeerFormValues =
  bpv_remoteAs :: string
  bpv_description :: string
  bpv_password :: string
  bpv_shutdown :: bool
  bpv_passive :: bool
  bpv_ebgpMultihop :: string
  bpv_updateSource :: string
  bpv_peerGroup :: string
  bpv_ipv4Unicast :: BGPAddressFamilyFormValues
  bpv_ipv6Unicast :: BGPAddressFamilyFormValues

definition blankAddressFamilyFormValues :: BGPAddressFamilyFormValues where
  "blankAddressFamilyFormValues =
     \<lparr>afv_nexthopSelf = False,
      afv_removePrivateAs = False,
      afv_softReconfigurationInbound = False,
      afv_maximumPrefix = ''''\<rparr>"

definition blankPeerFormValues :: BGPPeerFormValues where
  "blankPeerFormValues =
     \<lparr>bpv_remoteAs = '''',
      bpv_description = '''',
      bpv_password = '''',
      bpv_shutdown = False,
      bpv_passive = False,
      bpv_ebgpMultihop = '''',
      bpv_updateSource = '''',
      bpv_peerGroup = '''',
      bpv_ipv4Unicast = blankAddressFamilyFormValues,
      bpv_ipv6Unicast = blankAddressFamilyFormValues\<rparr>"

definition addressFamilyToFormValues :: "BGPAddressFamilySettings \<Rightarrow> BGPAddressFamilyFormValues" where
  "addressFamilyToFormValues af =
     \<lparr>afv_nexthopSelf = af_nexthopSelf af,
      afv_removePrivateAs = af_removePrivateAs af,
      afv_softReconfigurationInbound = af_softReconfigurationInbound af,
      afv_maximumPrefix = or_else (af_maximumPrefix af) ''''\<rparr>"

definition peerToFormValues :: "BGPPeer \<Rightarrow> BGPPeerFormValues" where
  "peerToFormValues peer =
     \<lparr>bpv_remoteAs = or_else (bp_remoteAs peer) '''',
      bpv_description = or_else (bp_description peer) '''',
      bpv_password = '''',
      bpv_shutdown = bp_shutdown peer,
      bpv_passive = bp_passive peer,
      bpv_ebgpMultihop = or_else (bp_ebgpMultihop peer) '''',
      bpv_updateSource = or_else (bp_updateSource peer) '''',
      bpv_peerGroup = or_else (bp_peerGroup peer) '''',
      bpv_ipv4Unicast = addressFamilyToFormValues (bp_ipv4Unicast peer),
      bpv_ipv6Unicast = addressFamilyToFormValues (bp_ipv6Unicast peer)\<rparr>"

definition BGP_PEER_SCALAR_FIELDS :: "BGPPeerFormValues scalar_field list" where
  "BGP_PEER_SCALAR_FIELDS =
     [(bpv_remoteAs, [''remote-as'']),
      (bpv_description, [''description'']),
      (bpv_ebgpMultihop, [''ebgp-multihop'']),
      (bpv_updateSource, [''update-source'']),
      (bpv_peerGroup, [''peer-group'']),
      (\<lambda>v. afv_maximumPrefix (bpv_ipv4Unicast v), [''address-family'', ''ipv4-unicast'', ''maximum-prefix'']),
      (\<lambda>v. afv_maximumPrefix (bpv_ipv6Unicast v), [''address-family'', ''ipv6-unicast'', ''maximum-prefix''])]"

definition BGP_PEER_FLAG_FIELDS :: "BGPPeerFormValues flag_field list" where
  "BGP_PEER_FLAG_FIELDS =
     [(bpv_shutdown, [''shutdown'']),
      (bpv_passive, [''passive'']),
      (\<lambda>v. afv_nexthopSelf (bpv_ipv4Unicast v), [''address-family'', ''ipv4-unicast'', ''nexthop-self'']),
      (\<lambda>v. afv_removePrivateAs (bpv_ipv4Unicast v), [''address-family'', ''ipv4-unicast'', ''remove-private-as'']),
      (\<lambda>v. afv_softReconfigurationInbound (bpv_ipv4Unicast v), [''address-family'', ''ipv4-unicast'', ''soft-reconfiguration'', ''inbound'']),
      (\<lambda>v. afv_nexthopSelf (bpv_ipv6Unicast v), [''address-family'', ''ipv6-unicast'', ''nexthop-self'']),
      (\<lambda>v. afv_removePrivateAs (bpv_ipv6Unicast v), [''address-family'', ''ipv6-unicast'', ''remove-private-as'']),
      (\<lambda>v. afv_softReconfigurationInbound (bpv_ipv6Unicast v), [''address-family'', ''ipv6-unicast'', ''soft-reconfiguration'', ''inbound''])]"

definition password_ops :: "path \<Rightarrow> string \<Rightarrow> ConfigOp list" where
  "password_ops p password = (if js_trim password \<noteq> ''''
                              then [set_op p (js_trim password)]
                              else [])"

definition peerFormToOps ::
    "string \<Rightarrow> string \<Rightarrow> BGPPeer option \<Rightarrow> BGPPeerFormValues \<Rightarrow> ConfigOp list" where
  "peerFormToOps kind identifier before values =
     (let beforeValues = (case before of Some x \<Rightarrow> peerToFormValues x | None \<Rightarrow> blankPeerFormValues)
      in diffToOps (bgpPeerPath kind identifier []) BGP_PEER_SCALAR_FIELDS BGP_PEER_FLAG_FIELDS
           beforeValues values
         @ password_ops (bgpPeerPath kind identifier [''password'']) (bpv_password values))"

subsection \<open>Global settings, networks and redistribution\<close>

record BGPGlobalFormValues =
  bgv_systemAs :: string
  bgv_routerId :: string

definition blankGlobalFormValues_bgp :: BGPGlobalFormValues where
  "blankGlobalFormValues_bgp = \<lparr>bgv_systemAs = '''', bgv_routerId = ''''\<rparr>"

definition globalToFormValues_bgp :: "BGPConfig \<Rightarrow> BGPGlobalFormValues" where
  "globalToFormValues_bgp config =
     \<lparr>bgv_systemAs = or_else (bc_systemAs config) '''', bgv_routerId = or_else (bc_routerId config) ''''\<rparr>"

definition globalFormToOps_bgp :: "BGPConfig \<Rightarrow> BGPGlobalFormValues \<Rightarrow> ConfigOp list" where
  "globalFormToOps_bgp before values =
     (let beforeValues = globalToFormValues_bgp before
      in scalar_diff (bgpPath [''system-as'']) (bgv_systemAs beforeValues) (bgv_systemAs values)
         @ scalar_diff (bgpPath [''parameters'', ''router-id''])
             (bgv_routerId beforeValues) (bgv_routerId values))"

definition addNetworkOp :: "string \<Rightarrow> string \<Rightarrow> ConfigOp" where
  "addNetworkOp family pfx = set_flag (bgpAddressFamilyPath family [''network'', pfx])"

definition removeNetworkOp :: "string \<Rightarrow> string \<Rightarrow> ConfigOp" where
  "removeNetworkOp family pfx = delete_op (bgpAddressFamilyPath family [''network'', pfx])"

definition addRedistributionOps :: "string \<Rightarrow> string \<Rightarrow> string \<Rightarrow> ConfigOp list" where
  "addRedistributionOps family src metric =
     (let p = bgpAddressFamilyPath family [''redistribute'', src]; trimmedMetric = js_trim metric
      in set_flag p # (if trimmedMetric \<noteq> '''' then [set_op (p @ [''metric'']) trimmedMetric] else []))"

definition removeRedistributionOp :: "string \<Rightarrow> string \<Rightarrow> ConfigOp" where
  "removeRedistributionOp family src = delete_op (bgpAddressFamilyPath family [''redistribute'', src])"

subsection \<open>The forms on the device\<close>

lemma peer_fields:
  "indep_all (map snd BGP_PEER_SCALAR_FIELDS @ map snd BGP_PEER_FLAG_FIELDS)"
  "[] \<notin> set (map snd BGP_PEER_SCALAR_FIELDS @ map snd BGP_PEER_FLAG_FIELDS)"
  by (simp_all add: BGP_PEER_SCALAR_FIELDS_def BGP_PEER_FLAG_FIELDS_def)

text \<open>An address family that is no record has no settings: the guard of the parser changes nothing.\<close>

lemma parseAddressFamilySettings_guard:
  "(if isRecord v then parseAddressFamilySettings v else blankAddressFamilySettings)
     = parseAddressFamilySettings v"
proof (cases "isRecord v")
  case False
  then have "child v k = None" for k
    by (auto simp: isRecord_def child_def split: option.splits json.splits)
  then show ?thesis by (simp add: parseAddressFamilySettings_def blankAddressFamilySettings_def False)
qed simp

lemmas peer_form_defs = peerToFormValues_def addressFamilyToFormValues_def parsePeer_def
  parseAddressFamilySettings_guard parseAddressFamilySettings_def Let_def

lemma peer_reads:
  "reads BGP_PEER_SCALAR_FIELDS BGP_PEER_FLAG_FIELDS t v \<longleftrightarrow>
     peerToFormValues (parsePeer identifier kind t) = v\<lparr>bpv_password := ''''\<rparr>"
  by (cases v; cases "bpv_ipv4Unicast v"; cases "bpv_ipv6Unicast v")
     (auto simp: reads_def BGP_PEER_SCALAR_FIELDS_def BGP_PEER_FLAG_FIELDS_def peer_form_defs)

lemma peer_blank: "peerToFormValues (parsePeer identifier kind None) = blankPeerFormValues"
  by (simp add: peer_form_defs blankPeerFormValues_def blankAddressFamilyFormValues_def)

interpretation peer_form: edit_form BGP_PEER_SCALAR_FIELDS BGP_PEER_FLAG_FIELDS peerToFormValues
  "parsePeer ident kind" blankPeerFormValues "\<lambda>t. True" "\<lambda>v. bpv_password v = ''''"
  for ident kind
proof unfold_locales
  show "reads BGP_PEER_SCALAR_FIELDS BGP_PEER_FLAG_FIELDS t (peerToFormValues (parsePeer ident kind t))" for t
    by (subst peer_reads [of _ _ ident kind]) (simp add: peerToFormValues_def)
qed (simp_all add: peer_fields [simplified] peer_blank peer_reads [of _ _ ident kind])

lemma peer_password_blank:
  "diffToOps p BGP_PEER_SCALAR_FIELDS BGP_PEER_FLAG_FIELDS b (v\<lparr>bpv_password := ''''\<rparr>)
     = diffToOps p BGP_PEER_SCALAR_FIELDS BGP_PEER_FLAG_FIELDS b v"
  by (simp add: diffToOps_def BGP_PEER_SCALAR_FIELDS_def BGP_PEER_FLAG_FIELDS_def)

lemma bgpPeerPath_append: "bgpPeerPath kind i (r @ t) = bgpPeerPath kind i r @ t"
  by (simp add: bgpPeerPath_def bgpPath_def)

definition BGP_GLOBAL_FIELDS :: "BGPGlobalFormValues scalar_field list" where
  "BGP_GLOBAL_FIELDS = [(bgv_systemAs, [''system-as'']), (bgv_routerId, [''parameters'', ''router-id''])]"

lemma globalFormToOps_bgp_diff:
  "globalFormToOps_bgp before v = diffToOps (bgpPath []) BGP_GLOBAL_FIELDS [] (globalToFormValues_bgp before) v"
  by (simp add: globalFormToOps_bgp_def diffToOps_def BGP_GLOBAL_FIELDS_def bgpPath_def Let_def)

lemma bgp_global_fields:
  "indep_all (map snd BGP_GLOBAL_FIELDS @ map snd ([] :: BGPGlobalFormValues flag_field list))"
  "[] \<notin> set (map snd BGP_GLOBAL_FIELDS @ map snd ([] :: BGPGlobalFormValues flag_field list))"
  by (simp_all add: BGP_GLOBAL_FIELDS_def)

lemma bgp_global_reads:
  "reads BGP_GLOBAL_FIELDS [] t v \<longleftrightarrow> globalToFormValues_bgp (parseBGPConfig lc t) = v"
  by (cases v) (auto simp: reads_def BGP_GLOBAL_FIELDS_def globalToFormValues_bgp_def parseBGPConfig_def)

lemma bgp_global_blank: "globalToFormValues_bgp (parseBGPConfig lc None) = blankGlobalFormValues_bgp"
  by (simp add: globalToFormValues_bgp_def parseBGPConfig_def blankGlobalFormValues_bgp_def)

interpretation bgp_global_form: edit_form BGP_GLOBAL_FIELDS "[]" globalToFormValues_bgp
  "parseBGPConfig lc" blankGlobalFormValues_bgp "\<lambda>t. True" "\<lambda>v. True" for lc
  by unfold_locales (simp_all only: not_False_eq_True bgp_global_fields bgp_global_blank
      bgp_global_reads [where lc = lc])

text \<open>
  C22. The BGP peer form, with its write-only password. Edit the device's neighbor or peer group
  into trimmed values and apply the queued ops: every field reads back; the password on the device is
  the trimmed input, or untouched when the input is blank; the form opened again never shows it;
  and nothing off the peer changes.
\<close>

theorem bgp_peer_form:
  assumes "trimmed_form BGP_PEER_SCALAR_FIELDS v"
    and "p = bgpPeerPath kind i []" and "indep p q"
    and "m' = device_apply (peerFormToOps kind i (device_item (parsePeer i kind) m p) v) m"
  shows "peerToFormValues (parsePeer i kind (device_get m' p)) = v\<lparr>bpv_password := ''''\<rparr>
    \<and> device_get m' (bgpPeerPath kind i [''password''])
        = (if js_trim (bpv_password v) = '''' then device_get m (bgpPeerPath kind i [''password''])
           else Some (JStr (js_trim (bpv_password v))))
    \<and> device_get m' q = device_get m q"
proof -
  let ?b = "peerToFormValues (parsePeer i kind (device_get m p))"
  let ?d = "diffToOps p BGP_PEER_SCALAR_FIELDS BGP_PEER_FLAG_FIELDS ?b v"
  let ?w = "password_ops (p @ [''password'']) (bpv_password v)"
  let ?n = "device_apply ?d m"
  have pw: "bgpPeerPath kind i [''password''] = p @ [''password'']"
    using bgpPeerPath_append [of kind i "[]" "[''password'']"] assms(2) by simp
  have m': "m' = device_apply ?w ?n"
    by (simp add: assms(4) peerFormToOps_def peer_form.before_form assms(2) [symmetric] pw)
  have "reads BGP_PEER_SCALAR_FIELDS BGP_PEER_FLAG_FIELDS (device_get ?n p) v"
    by (rule form_applied [OF peer_fields _ assms(1)])
       (simp add: peer_reads [of _ _ i kind] peerToFormValues_def)
  moreover have "reads BGP_PEER_SCALAR_FIELDS BGP_PEER_FLAG_FIELDS (device_get m' p) v
      \<longleftrightarrow> reads BGP_PEER_SCALAR_FIELDS BGP_PEER_FLAG_FIELDS (device_get ?n p) v"
    unfolding m' by (rule reads_frame)
      (simp add: password_ops_def op_defs BGP_PEER_SCALAR_FIELDS_def BGP_PEER_FLAG_FIELDS_def)
  ultimately have 1: "peerToFormValues (parsePeer i kind (device_get m' p)) = v\<lparr>bpv_password := ''''\<rparr>"
    by (simp only: peer_reads [of _ _ i kind])
  have "device_get ?n (p @ [''password'']) = device_get m (p @ [''password''])"
    by (rule form_frame) (simp add: BGP_PEER_SCALAR_FIELDS_def BGP_PEER_FLAG_FIELDS_def)
  then have 2: "device_get m' (p @ [''password''])
      = (if js_trim (bpv_password v) = '''' then device_get m (p @ [''password''])
         else Some (JStr (js_trim (bpv_password v))))"
    by (simp add: m' password_ops_def setNested_value)
  have "device_get m' q = device_get ?n q"
    using indep_extend_left [OF assms(3)] by (simp add: m' password_ops_def setNested_other)
  also have "\<dots> = device_get m q" by (rule form_frame_outside [OF assms(3)])
  finally show ?thesis using 1 2 unfolding pw by blast
qed

definition sample_peer_values :: BGPPeerFormValues where
  "sample_peer_values = blankPeerFormValues
     \<lparr>bpv_remoteAs := ''65001'', bpv_password := '' s3 '', bpv_shutdown := True\<rparr>"

theorem bgp_peer_form_witness:
  "device_get (device_apply (peerFormToOps ''neighbor'' ''10.0.0.1'' None sample_peer_values) [])
     (bgpPeerPath ''neighbor'' ''10.0.0.1'' [''password'']) = Some (JStr ''s3'')"
proof -
  let ?p = "bgpPeerPath ''neighbor'' ''10.0.0.1'' []"
  have "trimmed_form BGP_PEER_SCALAR_FIELDS sample_peer_values" "indep ?p [''system'']" by code_simp+
  from bgp_peer_form [OF this(1) refl this(2) refl, of "[]"]
  have "device_get (device_apply (peerFormToOps ''neighbor'' ''10.0.0.1''
      (device_item (parsePeer ''10.0.0.1'' ''neighbor'') [] ?p) sample_peer_values) [])
      (bgpPeerPath ''neighbor'' ''10.0.0.1'' [''password''])
    = (if js_trim (bpv_password sample_peer_values) = ''''
       then device_get [] (bgpPeerPath ''neighbor'' ''10.0.0.1'' [''password''])
       else Some (JStr (js_trim (bpv_password sample_peer_values))))" by blast
  moreover have "device_item (parsePeer ''10.0.0.1'' ''neighbor'') [] ?p = None" by code_simp
  moreover have "js_trim (bpv_password sample_peer_values) = ''s3''" by code_simp
  ultimately show ?thesis by simp
qed

subsection \<open>Redistribution\<close>

text \<open>The redistributions listed for a family are the entries of its node.\<close>

lemma redistribution_mem:
  assumes "family \<in> {''ipv4'', ''ipv6''}"
  shows "r \<in> set (parseRedistributions lc bgp) \<and> br_family r = family \<longleftrightarrow>
    (\<exists>(s, raw) \<in> set (entries (child (child (child bgp ''address-family'') (afNode family)) ''redistribute'')).
       r = \<lparr>br_family = family, br_source = s, br_metric = asString (child (Some raw) ''metric'')\<rparr>)"
  using assms by (auto simp: parseRedistributions_def)

lemma entries_child: "child v k = Some r \<Longrightarrow> (k, r) \<in> set (entries v)"
  by (auto simp: child_def entries_def split: option.splits json.splits dest: map_of_SomeD)

lemma entries_no_child: "child v k = None \<Longrightarrow> (k, r) \<notin> set (entries v)"
  by (auto simp: child_def entries_def map_of_eq_None_iff image_iff split: option.splits json.splits)

lemma bgpAddressFamilyPath_node:
  "family \<in> {''ipv4'', ''ipv6''} \<Longrightarrow> bgpAddressFamilyPath family r = bgpPath [] @ [''address-family'', afNode family] @ r"
  by (auto simp: bgpAddressFamilyPath_def bgpPath_def afNode_def)

text \<open>
  Adding a redistribution with a metric makes the parsed configuration list it with the trimmed
  metric, and removing one leaves none of that family and source.
\<close>

theorem redistribution_add_remove:
  assumes "family \<in> {''ipv4'', ''ipv6''}" and "js_trim metric \<noteq> ''''"
  shows "\<lparr>br_family = family, br_source = s, br_metric = Some (js_trim metric)\<rparr>
      \<in> set (parseRedistributions lc
          (device_get (device_apply (addRedistributionOps family s metric) m) (bgpPath [])))
    \<and> (\<forall>r \<in> set (parseRedistributions lc
          (device_get (device_apply [removeRedistributionOp family s] m) (bgpPath []))).
        \<not> (br_family r = family \<and> br_source r = s))"
proof (rule conjI)
  let ?node = "\<lambda>m. child (child (child (device_get m (bgpPath [])) ''address-family'') (afNode family)) ''redistribute''"
  let ?p = "bgpAddressFamilyPath family [''redistribute'', s]"
  have node: "device_get m (?p @ r) = tree_get (child (?node m) s) r" for m r
    unfolding bgpAddressFamilyPath_node [OF assms(1)] by (simp add: bgpPath_def)
  let ?a = "device_apply (addRedistributionOps family s metric) m"
  have "device_get ?a (?p @ [''metric'']) = Some (JStr (js_trim metric))"
    using assms(2) by (simp add: addRedistributionOps_def Let_def setNested_value)
  then have c: "child (child (?node ?a) s) ''metric'' = Some (JStr (js_trim metric))"
    by (simp only: node tree_get_Cons tree_get_Nil)
  then obtain raw where raw: "child (?node ?a) s = Some raw" by (cases "child (?node ?a) s") auto
  with c have "asString (child (Some raw) ''metric'') = Some (js_trim metric)"
    by (simp add: asString_def)
  with entries_child [OF raw]
  show "\<lparr>br_family = family, br_source = s, br_metric = Some (js_trim metric)\<rparr>
      \<in> set (parseRedistributions lc (device_get ?a (bgpPath [])))"
    using redistribution_mem [OF assms(1), of _ lc "device_get ?a (bgpPath [])"] by fastforce
  let ?d = "device_apply [removeRedistributionOp family s] m"
  have "device_get ?d ?p = None"
    using deleteNested_gone [of ?p m]
    by (simp add: removeRedistributionOp_def bgpAddressFamilyPath_def bgpPath_def)
  then have "child (?node ?d) s = None" using node [of ?d "[]"] by simp
  then have "(s, raw) \<notin> set (entries (?node ?d))" for raw by (rule entries_no_child)
  then have "br_source r \<noteq> s"
    if "r \<in> set (parseRedistributions lc (device_get ?d (bgpPath []))) \<and> br_family r = family" for r
    using that unfolding redistribution_mem [OF assms(1)] by auto
  then show "\<forall>r \<in> set (parseRedistributions lc (device_get ?d (bgpPath []))).
      \<not> (br_family r = family \<and> br_source r = s)" by blast
qed

theorem redistribution_add_remove_witness:
  "\<lparr>br_family = ''ipv4'', br_source = ''ospf'', br_metric = Some ''5''\<rparr>
     \<in> set (parseRedistributions (\<lambda>a b. 0)
         (device_get (device_apply (addRedistributionOps ''ipv4'' ''ospf'' ''5'') []) (bgpPath [])))"
proof -
  have "js_trim ''5'' \<noteq> ''''" "js_trim ''5'' = ''5''" by code_simp+
  then show ?thesis
    using redistribution_add_remove [of "''ipv4''" "''5''" "''ospf''" "\<lambda>a b. 0" "[]"] by simp
qed

end
