(* ===== verification/Ospf.thy ===== *)
theory Ospf
  imports FakeVyos
begin

text \<open>
  OSPF: the interfaces of \<open>lib/ospfTypes.ts\<close>, the parser of \<open>lib/ospfParse.ts\<close>, the area form of
  \<open>lib/ospfAreaForm.ts\<close> (whose area type is a choice of subtrees), the global form of
  \<open>lib/ospfGlobalForm.ts\<close> and the interface form of \<open>lib/ospfInterfaceForm.ts\<close> (whose authentication
  secrets are write-only). A protocol is the string ospf or ospfv3; \<open>lc\<close> is the collation of
  \<open>localeCompare\<close>.
\<close>

subsection \<open>Types\<close>

record OSPFAreaRange =
  oar_prefix :: string
  oar_notAdvertise :: bool
  oar_cost :: "string option"
  oar_substitute :: "string option"

record OSPFArea =
  oa_id :: string
  oa_networks :: "string list"
  oa_areaType :: "string option"
  oa_noSummary :: bool
  oa_defaultCost :: "string option"
  oa_nssaTranslate :: "string option"
  oa_nssaDefaultInformationOriginate :: bool
  oa_authentication :: "string option"
  oa_ranges :: "OSPFAreaRange list"

record OSPFInterface =
  oi_name :: string
  oi_area :: "string option"
  oi_cost :: "string option"
  oi_priority :: "string option"
  oi_deadInterval :: "string option"
  oi_helloInterval :: "string option"
  oi_passive :: bool
  oi_networkType :: "string option"
  oi_mtuIgnore :: bool
  oi_bfd :: bool
  oi_authMode :: "string option"
  oi_hasPlaintextPassword :: bool
  oi_md5KeyId :: "string option"
  oi_hasMd5Key :: bool

record OSPFRedistribution =
  ord_source :: string
  ord_metric :: "string option"
  ord_metricType :: "string option"

record OSPFGlobalSettings =
  og_routerId :: "string option"
  og_autoCostReferenceBandwidth :: "string option"
  og_distanceGlobal :: "string option"
  og_distanceExternal :: "string option"
  og_distanceInterArea :: "string option"
  og_distanceIntraArea :: "string option"
  og_defaultInformationOriginateAlways :: bool
  og_defaultInformationOriginateMetric :: "string option"
  og_defaultInformationOriginateMetricType :: "string option"
  og_defaultMetric :: "string option"

definition blankGlobalSettings :: OSPFGlobalSettings where
  "blankGlobalSettings =
     \<lparr>og_routerId = None,
      og_autoCostReferenceBandwidth = None,
      og_distanceGlobal = None,
      og_distanceExternal = None,
      og_distanceInterArea = None,
      og_distanceIntraArea = None,
      og_defaultInformationOriginateAlways = False,
      og_defaultInformationOriginateMetric = None,
      og_defaultInformationOriginateMetricType = None,
      og_defaultMetric = None\<rparr>"

record OSPFProcessConfig =
  op_global :: OSPFGlobalSettings
  op_areas :: "OSPFArea list"
  op_interfaces :: "OSPFInterface list"
  op_redistributions :: "OSPFRedistribution list"

record OSPFConfig =
  oc_ospf :: OSPFProcessConfig
  oc_ospfv3 :: OSPFProcessConfig

subsection \<open>Parsing\<close>

definition parseAreaRange :: "string \<Rightarrow> string \<Rightarrow> unknown \<Rightarrow> OSPFAreaRange" where
  "parseAreaRange protocol pfx raw =
     \<lparr>oar_prefix = pfx,
      oar_notAdvertise = isFlagPresent raw ''not-advertise'',
      oar_cost = (if protocol = ''ospf'' then asString (child raw ''cost'') else None),
      oar_substitute = (if protocol = ''ospf''
                        then asString (child raw ''substitute'')
                        else None)\<rparr>"

definition area_type_of :: "unknown \<Rightarrow> string option" where
  "area_type_of raw =
     (let areaTypeRoot = child raw ''area-type''
      in if isRecord (child areaTypeRoot ''nssa'') then Some ''nssa''
         else if isRecord (child areaTypeRoot ''stub'') then Some ''stub'' else None)"

definition parseArea :: "collation \<Rightarrow> string \<Rightarrow> string \<Rightarrow> unknown \<Rightarrow> OSPFArea" where
  "parseArea lc protocol i raw =
     (let areaTypeRoot = child raw ''area-type'';
          stub = child areaTypeRoot ''stub'';
          nssa = child areaTypeRoot ''nssa'';
          areaType = area_type_of raw;
          activeTypeNode = (if areaType = Some ''nssa'' then nssa
                            else if areaType = Some ''stub'' then stub else None)
      in \<lparr>oa_id = i,
          oa_networks = (if protocol = ''ospf'' then asStringArray (child raw ''network'') else []),
          oa_areaType = areaType,
          oa_noSummary = isFlagPresent activeTypeNode ''no-summary'',
          oa_defaultCost = asString (child activeTypeNode ''default-cost''),
          oa_nssaTranslate =
            (if protocol = ''ospf'' \<and> areaType = Some ''nssa'' then asString (child nssa ''translate'')
             else None),
          oa_nssaDefaultInformationOriginate =
            (if protocol = ''ospfv3'' \<and> areaType = Some ''nssa''
             then isFlagPresent nssa ''default-information-originate'' else False),
          oa_authentication =
            (if protocol = ''ospf'' then asString (child raw ''authentication'') else None),
          oa_ranges = parse_entries (parseAreaRange protocol) (\<lambda>a b. lc (oar_prefix a) (oar_prefix b))
            (child raw ''range'')\<rparr>)"

definition parseAreas :: "collation \<Rightarrow> string \<Rightarrow> unknown \<Rightarrow> OSPFArea list" where
  "parseAreas lc protocol node =
     parse_entries (parseArea lc protocol) (\<lambda>a b. lc (oa_id a) (oa_id b)) (child node ''area'')"

record ospf_auth =
  au_authMode :: "string option"
  au_hasPlaintextPassword :: bool
  au_md5KeyId :: "string option"
  au_hasMd5Key :: bool

definition no_auth :: ospf_auth where
  "no_auth = \<lparr>au_authMode = None, au_hasPlaintextPassword = False, au_md5KeyId = None,
     au_hasMd5Key = False\<rparr>"

definition parseInterfaceAuth :: "collation \<Rightarrow> string \<Rightarrow> unknown \<Rightarrow> ospf_auth" where
  "parseInterfaceAuth lc protocol raw =
     (let authRoot = child raw ''authentication'';
          keyIdRoot = child (child authRoot ''md5'') ''key-id''
      in if protocol \<noteq> ''ospf'' then no_auth
         else if isFlagPresent authRoot ''null'' then no_auth\<lparr>au_authMode := Some ''null''\<rparr>
         else if isFlagPresent authRoot ''plaintext-password'' then
           no_auth\<lparr>au_authMode := Some ''plaintext-password'', au_hasPlaintextPassword := True\<rparr>
         else if isRecord keyIdRoot then
           (case js_sort (\<lambda>(a, _) (b, _). lc a b) (entries keyIdRoot) of
              [] \<Rightarrow> no_auth
            | (firstKeyId, firstKeyRaw) # _ \<Rightarrow>
                \<lparr>au_authMode = Some ''md5'', au_hasPlaintextPassword = False,
                 au_md5KeyId = Some firstKeyId,
                 au_hasMd5Key = isFlagPresent (Some firstKeyRaw) ''md5-key''\<rparr>)
         else no_auth)"

definition parseInterface :: "collation \<Rightarrow> string \<Rightarrow> string \<Rightarrow> unknown \<Rightarrow> OSPFInterface" where
  "parseInterface lc protocol name raw =
     (let auth = parseInterfaceAuth lc protocol raw
      in \<lparr>oi_name = name,
          oi_area = asString (child raw ''area''),
          oi_cost = asString (child raw ''cost''),
          oi_priority = asString (child raw ''priority''),
          oi_deadInterval = asString (child raw ''dead-interval''),
          oi_helloInterval = asString (child raw ''hello-interval''),
          oi_passive = isFlagPresent raw ''passive'',
          oi_networkType = asString (child raw ''network''),
          oi_mtuIgnore = isFlagPresent raw ''mtu-ignore'',
          oi_bfd = isFlagPresent raw ''bfd'',
          oi_authMode = au_authMode auth,
          oi_hasPlaintextPassword = au_hasPlaintextPassword auth,
          oi_md5KeyId = au_md5KeyId auth,
          oi_hasMd5Key = au_hasMd5Key auth\<rparr>)"

definition parseInterfaces :: "collation \<Rightarrow> string \<Rightarrow> unknown \<Rightarrow> OSPFInterface list" where
  "parseInterfaces lc protocol node =
     parse_entries (parseInterface lc protocol) (\<lambda>a b. lc (oi_name a) (oi_name b))
       (child node ''interface'')"

definition parseRedistributions_ospf :: "collation \<Rightarrow> unknown \<Rightarrow> OSPFRedistribution list" where
  "parseRedistributions_ospf lc node =
     parse_entries (\<lambda>src raw. \<lparr>ord_source = src, ord_metric = asString (child raw ''metric''),
         ord_metricType = asString (child raw ''metric-type'')\<rparr>)
       (\<lambda>a b. lc (ord_source a) (ord_source b)) (child node ''redistribute'')"

definition parseGlobalSettings :: "string \<Rightarrow> unknown \<Rightarrow> OSPFGlobalSettings" where
  "parseGlobalSettings protocol node =
     (let distanceRoot = child node ''distance'';
          perProtocolDistance = child distanceRoot protocol;
          originateRoot = child (child node ''default-information'') ''originate''
      in \<lparr>og_routerId = asString (child (child node ''parameters'') ''router-id''),
          og_autoCostReferenceBandwidth = asString (child (child node ''auto-cost'') ''reference-bandwidth''),
          og_distanceGlobal = asString (child distanceRoot ''global''),
          og_distanceExternal = asString (child perProtocolDistance ''external''),
          og_distanceInterArea = asString (child perProtocolDistance ''inter-area''),
          og_distanceIntraArea = asString (child perProtocolDistance ''intra-area''),
          og_defaultInformationOriginateAlways = isFlagPresent originateRoot ''always'',
          og_defaultInformationOriginateMetric = asString (child originateRoot ''metric''),
          og_defaultInformationOriginateMetricType = asString (child originateRoot ''metric-type''),
          og_defaultMetric = (if protocol = ''ospf''
                              then asString (child node ''default-metric'')
                              else None)\<rparr>)"

definition parseProcess :: "collation \<Rightarrow> string \<Rightarrow> unknown \<Rightarrow> OSPFProcessConfig" where
  "parseProcess lc protocol node =
     \<lparr>op_global = (if node = None
                          then blankGlobalSettings
                          else parseGlobalSettings protocol node),
      op_areas = parseAreas lc protocol node,
      op_interfaces = parseInterfaces lc protocol node,
      op_redistributions = parseRedistributions_ospf lc node\<rparr>"

definition parseOSPFConfig :: "collation \<Rightarrow> unknown \<Rightarrow> unknown \<Rightarrow> OSPFConfig" where
  "parseOSPFConfig lc ospf ospfv3 =
     \<lparr>oc_ospf = parseProcess lc ''ospf'' ospf, oc_ospfv3 = parseProcess lc ''ospfv3'' ospfv3\<rparr>"

definition ospfPath :: "string \<Rightarrow> path \<Rightarrow> path" where
  "ospfPath protocol rest = [''protocols'', protocol] @ rest"

definition ospfAreaPath :: "string \<Rightarrow> string \<Rightarrow> path \<Rightarrow> path" where
  "ospfAreaPath protocol areaId rest = ospfPath protocol ([''area'', areaId] @ rest)"

definition ospfInterfacePath :: "string \<Rightarrow> string \<Rightarrow> path \<Rightarrow> path" where
  "ospfInterfacePath protocol name rest = ospfPath protocol ([''interface'', name] @ rest)"

subsection \<open>The area form\<close>

record OSPFAreaFormValues =
  av_areaType :: string
  av_noSummary :: bool
  av_defaultCost :: string
  av_nssaTranslate :: string
  av_nssaDefaultInformationOriginate :: bool
  av_authentication :: string

definition blankAreaFormValues :: OSPFAreaFormValues where
  "blankAreaFormValues =
     \<lparr>av_areaType = '''',
      av_noSummary = False,
      av_defaultCost = '''',
      av_nssaTranslate = '''',
      av_nssaDefaultInformationOriginate = False,
      av_authentication = ''''\<rparr>"

definition areaToFormValues :: "OSPFArea \<Rightarrow> OSPFAreaFormValues" where
  "areaToFormValues area =
     \<lparr>av_areaType = or_else (oa_areaType area) '''',
      av_noSummary = oa_noSummary area,
      av_defaultCost = or_else (oa_defaultCost area) '''',
      av_nssaTranslate = or_else (oa_nssaTranslate area) '''',
      av_nssaDefaultInformationOriginate = oa_nssaDefaultInformationOriginate area,
      av_authentication = or_else (oa_authentication area) ''''\<rparr>"

text \<open>The ops that build the node of a newly chosen area type.\<close>

definition area_type_ops :: "string \<Rightarrow> path \<Rightarrow> OSPFAreaFormValues \<Rightarrow> ConfigOp list" where
  "area_type_ops protocol typeBase values =
     set_flag typeBase
     # (if av_noSummary values then [set_flag (typeBase @ [''no-summary''])] else [])
     @ (if av_defaultCost values \<noteq> ''''
        then [set_op (typeBase @ [''default-cost'']) (av_defaultCost values)] else [])
     @ (if av_areaType values = ''nssa''
        then (if protocol = ''ospf'' \<and> av_nssaTranslate values \<noteq> ''''
              then [set_op (typeBase @ [''translate'']) (av_nssaTranslate values)] else [])
             @ (if protocol = ''ospfv3'' \<and> av_nssaDefaultInformationOriginate values
                then [set_flag (typeBase @ [''default-information-originate''])] else [])
        else [])"

definition areaFormToOps ::
    "string \<Rightarrow> string \<Rightarrow> OSPFArea option \<Rightarrow> OSPFAreaFormValues \<Rightarrow> ConfigOp list" where
  "areaFormToOps protocol areaId before values =
     (let beforeValues = (case before of Some x \<Rightarrow> areaToFormValues x | None \<Rightarrow> blankAreaFormValues);
          base = ospfAreaPath protocol areaId [];
          typeBase = base @ [''area-type'', av_areaType values]
      in (if av_areaType beforeValues \<noteq> av_areaType values then
            (if av_areaType beforeValues \<noteq> '''' then [delete_op (base @ [''area-type''])] else [])
            @ (if av_areaType values \<noteq> '''' then area_type_ops protocol typeBase values else [])
          else if av_areaType values \<noteq> '''' then
            flag_diff (typeBase @ [''no-summary'']) (av_noSummary beforeValues) (av_noSummary values)
            @ scalar_diff (typeBase @ [''default-cost''])
                (av_defaultCost beforeValues) (av_defaultCost values)
            @ (if av_areaType values = ''nssa'' \<and> protocol = ''ospf''
               then scalar_diff (typeBase @ [''translate''])
                 (av_nssaTranslate beforeValues) (av_nssaTranslate values) else [])
            @ (if av_areaType values = ''nssa'' \<and> protocol = ''ospfv3''
               then flag_diff (typeBase @ [''default-information-originate''])
                 (av_nssaDefaultInformationOriginate beforeValues)
                 (av_nssaDefaultInformationOriginate values) else [])
          else [])
         @ (if protocol = ''ospf''
            then scalar_diff (base @ [''authentication''])
              (av_authentication beforeValues) (av_authentication values) else []))"

definition deleteAreaOp :: "string \<Rightarrow> string \<Rightarrow> ConfigOp" where
  "deleteAreaOp protocol areaId = delete_op (ospfAreaPath protocol areaId [])"

record AreaRangeOptions =
  ro_notAdvertise :: bool
  ro_cost :: "string option"
  ro_substitute :: "string option"

definition addAreaRangeOps ::
    "string \<Rightarrow> string \<Rightarrow> string \<Rightarrow> AreaRangeOptions \<Rightarrow> ConfigOp list" where
  "addAreaRangeOps protocol areaId pfx options =
     (let base = ospfAreaPath protocol areaId [''range'', pfx];
          cost = js_trim (or_else (ro_cost options) '''');
          substitute = js_trim (or_else (ro_substitute options) '''')
      in [set_flag base]
         @ (if ro_notAdvertise options then [set_flag (base @ [''not-advertise''])] else [])
         @ (if protocol = ''ospf'' \<and> cost \<noteq> '''' then [set_op (base @ [''cost'']) cost] else [])
         @ (if protocol = ''ospf'' \<and> substitute \<noteq> ''''
            then [set_op (base @ [''substitute'']) substitute] else []))"

definition removeAreaRangeOp :: "string \<Rightarrow> string \<Rightarrow> string \<Rightarrow> ConfigOp" where
  "removeAreaRangeOp protocol areaId pfx = delete_op (ospfAreaPath protocol areaId [''range'', pfx])"

subsection \<open>The global form\<close>

record OSPFGlobalFormValues =
  ogv_routerId :: string
  ogv_autoCostReferenceBandwidth :: string
  ogv_distanceGlobal :: string
  ogv_distanceExternal :: string
  ogv_distanceInterArea :: string
  ogv_distanceIntraArea :: string
  ogv_defaultInformationOriginateAlways :: bool
  ogv_defaultInformationOriginateMetric :: string
  ogv_defaultInformationOriginateMetricType :: string
  ogv_defaultMetric :: string

definition blankGlobalFormValues_ospf :: OSPFGlobalFormValues where
  "blankGlobalFormValues_ospf =
     \<lparr>ogv_routerId = '''',
      ogv_autoCostReferenceBandwidth = '''',
      ogv_distanceGlobal = '''',
      ogv_distanceExternal = '''',
      ogv_distanceInterArea = '''',
      ogv_distanceIntraArea = '''',
      ogv_defaultInformationOriginateAlways = False,
      ogv_defaultInformationOriginateMetric = '''',
      ogv_defaultInformationOriginateMetricType = '''',
      ogv_defaultMetric = ''''\<rparr>"

definition globalToFormValues_ospf :: "OSPFGlobalSettings \<Rightarrow> OSPFGlobalFormValues" where
  "globalToFormValues_ospf settings =
     \<lparr>ogv_routerId = or_else (og_routerId settings) '''',
      ogv_autoCostReferenceBandwidth = or_else (og_autoCostReferenceBandwidth settings) '''',
      ogv_distanceGlobal = or_else (og_distanceGlobal settings) '''',
      ogv_distanceExternal = or_else (og_distanceExternal settings) '''',
      ogv_distanceInterArea = or_else (og_distanceInterArea settings) '''',
      ogv_distanceIntraArea = or_else (og_distanceIntraArea settings) '''',
      ogv_defaultInformationOriginateAlways = og_defaultInformationOriginateAlways settings,
      ogv_defaultInformationOriginateMetric = or_else (og_defaultInformationOriginateMetric settings) '''',
      ogv_defaultInformationOriginateMetricType = or_else (og_defaultInformationOriginateMetricType settings) '''',
      ogv_defaultMetric = or_else (og_defaultMetric settings) ''''\<rparr>"

definition OSPF_GLOBAL_SCALAR_FIELDS :: "string \<Rightarrow> OSPFGlobalFormValues scalar_field list" where
  "OSPF_GLOBAL_SCALAR_FIELDS p =
     [(ogv_routerId, [''parameters'', ''router-id'']),
      (ogv_autoCostReferenceBandwidth, [''auto-cost'', ''reference-bandwidth'']),
      (ogv_distanceGlobal, [''distance'', ''global'']),
      (ogv_distanceExternal, [''distance'', p, ''external'']),
      (ogv_distanceInterArea, [''distance'', p, ''inter-area'']),
      (ogv_distanceIntraArea, [''distance'', p, ''intra-area'']),
      (ogv_defaultInformationOriginateMetric, [''default-information'', ''originate'', ''metric'']),
      (ogv_defaultInformationOriginateMetricType,
        [''default-information'', ''originate'', ''metric-type''])]"

definition OSPF_GLOBAL_FLAG_FIELDS :: "OSPFGlobalFormValues flag_field list" where
  "OSPF_GLOBAL_FLAG_FIELDS =
     [(ogv_defaultInformationOriginateAlways, [''default-information'', ''originate'', ''always''])]"

definition globalFormToOps_ospf ::
    "string \<Rightarrow> OSPFGlobalSettings \<Rightarrow> OSPFGlobalFormValues \<Rightarrow> ConfigOp list" where
  "globalFormToOps_ospf protocol before values =
     (let beforeValues = globalToFormValues_ospf before
      in diffToOps (ospfPath protocol []) (OSPF_GLOBAL_SCALAR_FIELDS protocol) OSPF_GLOBAL_FLAG_FIELDS
           beforeValues values
         @ (if protocol = ''ospf''
            then scalar_diff (ospfPath ''ospf'' [''default-metric''])
              (ogv_defaultMetric beforeValues) (ogv_defaultMetric values) else []))"

definition addRedistributionOps_ospf ::
    "string \<Rightarrow> string \<Rightarrow> string \<Rightarrow> string \<Rightarrow> ConfigOp list" where
  "addRedistributionOps_ospf protocol src metric metricType =
     (let p = ospfPath protocol [''redistribute'', src]; trimmedMetric = js_trim metric
      in [set_flag p]
         @ (if trimmedMetric \<noteq> '''' then [set_op (p @ [''metric'']) trimmedMetric] else [])
         @ (if metricType \<noteq> '''' then [set_op (p @ [''metric-type'']) metricType] else []))"

definition removeRedistributionOp_ospf :: "string \<Rightarrow> string \<Rightarrow> ConfigOp" where
  "removeRedistributionOp_ospf protocol src = delete_op (ospfPath protocol [''redistribute'', src])"

subsection \<open>The interface form\<close>

record OSPFInterfaceFormValues =
  oiv_area :: string
  oiv_cost :: string
  oiv_priority :: string
  oiv_deadInterval :: string
  oiv_helloInterval :: string
  oiv_passive :: bool
  oiv_networkType :: string
  oiv_mtuIgnore :: bool
  oiv_bfd :: bool
  oiv_authMode :: string
  oiv_plaintextPassword :: string
  oiv_md5KeyId :: string
  oiv_md5Key :: string

definition blankInterfaceFormValues :: OSPFInterfaceFormValues where
  "blankInterfaceFormValues =
     \<lparr>oiv_area = '''',
      oiv_cost = '''',
      oiv_priority = '''',
      oiv_deadInterval = '''',
      oiv_helloInterval = '''',
      oiv_passive = False,
      oiv_networkType = '''',
      oiv_mtuIgnore = False,
      oiv_bfd = False,
      oiv_authMode = '''',
      oiv_plaintextPassword = '''',
      oiv_md5KeyId = '''',
      oiv_md5Key = ''''\<rparr>"

definition interfaceToFormValues :: "OSPFInterface \<Rightarrow> OSPFInterfaceFormValues" where
  "interfaceToFormValues iface =
     \<lparr>oiv_area = or_else (oi_area iface) '''',
      oiv_cost = or_else (oi_cost iface) '''',
      oiv_priority = or_else (oi_priority iface) '''',
      oiv_deadInterval = or_else (oi_deadInterval iface) '''',
      oiv_helloInterval = or_else (oi_helloInterval iface) '''',
      oiv_passive = oi_passive iface,
      oiv_networkType = or_else (oi_networkType iface) '''',
      oiv_mtuIgnore = oi_mtuIgnore iface,
      oiv_bfd = oi_bfd iface,
      oiv_authMode = or_else (oi_authMode iface) '''',
      oiv_plaintextPassword = '''',
      oiv_md5KeyId = or_else (oi_md5KeyId iface) '''',
      oiv_md5Key = ''''\<rparr>"

definition OSPF_INTERFACE_SCALAR_FIELDS :: "OSPFInterfaceFormValues scalar_field list" where
  "OSPF_INTERFACE_SCALAR_FIELDS =
     [(oiv_area, [''area'']),
      (oiv_cost, [''cost'']),
      (oiv_priority, [''priority'']),
      (oiv_deadInterval, [''dead-interval'']),
      (oiv_helloInterval, [''hello-interval'']),
      (oiv_networkType, [''network''])]"

definition OSPF_INTERFACE_FLAG_FIELDS :: "OSPFInterfaceFormValues flag_field list" where
  "OSPF_INTERFACE_FLAG_FIELDS =
     [(oiv_passive, [''passive'']),
      (oiv_mtuIgnore, [''mtu-ignore'']),
      (oiv_bfd, [''bfd''])]"

definition auth_mode_changed :: "OSPFInterfaceFormValues \<Rightarrow> OSPFInterfaceFormValues \<Rightarrow> bool" where
  "auth_mode_changed beforeValues values \<longleftrightarrow> oiv_authMode beforeValues \<noteq> oiv_authMode values"

definition key_id_changed :: "OSPFInterfaceFormValues \<Rightarrow> OSPFInterfaceFormValues \<Rightarrow> bool" where
  "key_id_changed beforeValues values \<longleftrightarrow>
     oiv_authMode values = ''md5'' \<and> oiv_md5KeyId beforeValues \<noteq> oiv_md5KeyId values"

definition authSecretMissing ::
    "string \<Rightarrow> OSPFInterface option \<Rightarrow> OSPFInterfaceFormValues \<Rightarrow> bool" where
  "authSecretMissing protocol before values =
     (let beforeValues = (case before of Some x \<Rightarrow> interfaceToFormValues x
                          | None \<Rightarrow> blankInterfaceFormValues)
      in if protocol \<noteq> ''ospf'' then False
         else if \<not> auth_mode_changed beforeValues values \<and> \<not> key_id_changed beforeValues values
         then False
         else if oiv_authMode values = ''plaintext-password''
         then js_trim (oiv_plaintextPassword values) = ''''
         else if oiv_authMode values = ''md5''
         then js_trim (oiv_md5KeyId values) = '''' \<or> js_trim (oiv_md5Key values) = ''''
         else False)"

text \<open>The authentication part of the form: a rebuilt node, or a fresh secret on the same one.\<close>

definition auth_ops ::
    "path \<Rightarrow> OSPFInterfaceFormValues \<Rightarrow> OSPFInterfaceFormValues \<Rightarrow> ConfigOp list" where
  "auth_ops base beforeValues values =
     (let password = js_trim (oiv_plaintextPassword values);
          keyId = js_trim (oiv_md5KeyId values);
          key = js_trim (oiv_md5Key values);
          keyPath = base @ [''authentication'', ''md5'', ''key-id'', keyId];
          set_password = (if password \<noteq> ''''
            then [set_op (base @ [''authentication'', ''plaintext-password'']) password] else [])
      in if auth_mode_changed beforeValues values \<or> key_id_changed beforeValues values then
           (if oiv_authMode beforeValues \<noteq> '''' then [delete_op (base @ [''authentication''])] else [])
           @ (if oiv_authMode values = ''plaintext-password'' then set_password
              else if oiv_authMode values = ''md5'' then
                (if keyId \<noteq> ''''
                 then set_flag keyPath # (if key \<noteq> '''' then [set_op (keyPath @ [''md5-key'']) key] else [])
                 else [])
              else if oiv_authMode values = ''null'' then [set_flag (base @ [''authentication'', ''null''])]
              else [])
         else if oiv_authMode values = ''plaintext-password'' then set_password
         else if oiv_authMode values = ''md5'' then
           (if key \<noteq> '''' then [set_op (keyPath @ [''md5-key'']) key] else [])
         else [])"

definition interfaceFormToOps ::
    "string \<Rightarrow> string \<Rightarrow> OSPFInterface option \<Rightarrow> OSPFInterfaceFormValues \<Rightarrow> ConfigOp list" where
  "interfaceFormToOps protocol name before values =
     (let beforeValues = (case before of Some x \<Rightarrow> interfaceToFormValues x
                          | None \<Rightarrow> blankInterfaceFormValues);
          base = ospfInterfacePath protocol name []
      in diffToOps base OSPF_INTERFACE_SCALAR_FIELDS OSPF_INTERFACE_FLAG_FIELDS beforeValues values
         @ (if protocol = ''ospf'' then auth_ops base beforeValues values else []))"

definition deleteInterfaceOp :: "string \<Rightarrow> string \<Rightarrow> ConfigOp" where
  "deleteInterfaceOp protocol name = delete_op (ospfInterfacePath protocol name [])"

end
