(* ===== verification/OspfInterface.thy ===== *)
theory OspfInterface
  imports Ospf
begin

text \<open>
  The OSPF interface form on the device: what its authentication ops make of the authentication
  node (a rebuilt node when the mode or the key id changes, a fresh secret otherwise), and
  \<open>ospf_interface_form\<close>, which says that authentication is not lost by an edit that
  \<open>authSecretMissing\<close> lets through.
\<close>

subsection \<open>The interface form on the device\<close>

text \<open>The interface's authentication, as a function of its authentication node.\<close>

definition auth_of :: "collation \<Rightarrow> unknown \<Rightarrow> ospf_auth" where
  "auth_of lc a =
     (if child a ''null'' \<noteq> None then no_auth\<lparr>au_authMode := Some ''null''\<rparr>
      else if child a ''plaintext-password'' \<noteq> None then
        no_auth\<lparr>au_authMode := Some ''plaintext-password'', au_hasPlaintextPassword := True\<rparr>
      else (case js_sort (\<lambda>(a, _) (b, _). lc a b) (entries (child (child a ''md5'') ''key-id'')) of
              [] \<Rightarrow> no_auth
            | (k, r) # _ \<Rightarrow>
                \<lparr>au_authMode = Some ''md5'', au_hasPlaintextPassword = False, au_md5KeyId = Some k,
                 au_hasMd5Key = isFlagPresent (Some r) ''md5-key''\<rparr>))"

lemma not_record_entries: "\<not> isRecord v \<Longrightarrow> entries v = []"
  by (auto simp: isRecord_def entries_def split: option.splits json.splits)

lemma parseInterfaceAuth_ospf:
  "parseInterfaceAuth lc ''ospf'' t = auth_of lc (child t ''authentication'')"
  by (auto simp: parseInterfaceAuth_def auth_of_def Let_def dest: not_record_entries)

text \<open>A node with no authentication in it.\<close>

definition quiet_auth :: "unknown \<Rightarrow> bool" where
  "quiet_auth a \<longleftrightarrow> child a ''null'' = None \<and> child a ''plaintext-password'' = None
     \<and> entries (child (child a ''md5'') ''key-id'') = []"

lemma js_sort_Nil: "js_sort c xs = [] \<longleftrightarrow> xs = []"
  by (metis length_0_conv length_js_sort)

lemma auth_of_quiet: "quiet_auth a \<Longrightarrow> auth_of lc a = no_auth"
  by (simp add: auth_of_def quiet_auth_def)

lemma auth_mode_quiet: "au_authMode (auth_of lc a) = None \<longleftrightarrow> quiet_auth a"
  by (auto simp: auth_of_def quiet_auth_def no_auth_def js_sort_Nil split: list.splits)

lemma auth_of_modes:
  "or_else (au_authMode (auth_of lc a)) '''' \<in> {'''', ''null'', ''plaintext-password'', ''md5''}"
  by (auto simp: auth_of_def no_auth_def split: list.splits)

lemma map_fst_js_insert:
  "map fst (js_insert (\<lambda>(a, _) (b, _). c a b) x xs) = js_insert c (fst x) (map fst xs)"
  by (induction xs) (auto simp: case_prod_beta)

lemma map_fst_js_sort: "map fst (js_sort (\<lambda>(a, _) (b, _). c a b) xs) = js_sort c (map fst xs)"
  by (induction xs) (simp_all add: map_fst_js_insert)

text \<open>Rewriting the key of a key id that is there leaves the mode and the first key id.\<close>

lemma auth_of_same_keys:
  assumes "child a' ''null'' = child a ''null''"
    and "child a' ''plaintext-password'' = child a ''plaintext-password''"
    and "map fst (entries (child (child a' ''md5'') ''key-id''))
      = map fst (entries (child (child a ''md5'') ''key-id''))"
  shows "au_authMode (auth_of lc a') = au_authMode (auth_of lc a)
    \<and> au_md5KeyId (auth_of lc a') = au_md5KeyId (auth_of lc a)"
proof -
  let ?s = "\<lambda>a. js_sort (\<lambda>(a, _) (b, _). lc a b) (entries (child (child a ''md5'') ''key-id''))"
  have "map fst (?s a') = map fst (?s a)" by (simp only: map_fst_js_sort assms(3))
  then show ?thesis using assms(1,2)
    by (auto simp: auth_of_def split: list.splits)
qed

lemma map_fst_update: "map_of al k \<noteq> None \<Longrightarrow> map fst (AList.update k v al) = map fst al"
  by (induction al) auto

lemma as_map_entries: "as_map v = entries v"
  by (auto simp: as_map_def entries_def split: option.splits json.splits)

lemma map_of_as_map: "map_of (as_map v) k = child v k"
  by (auto simp: as_map_def child_def split: option.splits json.splits)

lemma build_password:
  assumes "quiet_auth (device_get m P)" and "x \<noteq> ''''"
  shows "auth_of lc (device_get (setNested (P @ [''plaintext-password'']) x m) P)
    = no_auth\<lparr>au_authMode := Some ''plaintext-password'', au_hasPlaintextPassword := True\<rparr>"
  using assms
  by (simp add: setNested_subtree auth_of_def quiet_auth_def map_of_AList_update map_of_as_map)

lemma build_null:
  assumes "quiet_auth (device_get m P)"
  shows "auth_of lc (device_get (setNested (P @ [''null'']) '''' m) P)
    = no_auth\<lparr>au_authMode := Some ''null''\<rparr>"
  using assms
  by (simp add: setNested_subtree auth_of_def quiet_auth_def map_of_AList_update map_of_as_map)

lemma build_md5:
  assumes "quiet_auth (device_get m P)" and "key \<noteq> ''''"
  shows "auth_of lc (device_get (setNested (P @ [''md5'', ''key-id'', k, ''md5-key'']) key
      (setNested (P @ [''md5'', ''key-id'', k]) '''' m)) P)
    = \<lparr>au_authMode = Some ''md5'', au_hasPlaintextPassword = False, au_md5KeyId = Some k,
       au_hasMd5Key = True\<rparr>"
proof -
  let ?A = "device_get m P"
  have e: "as_map (child (child ?A ''md5'') ''key-id'') = []"
    using assms(1) by (simp add: quiet_auth_def as_map_entries)
  have e': "as_map (child (Some (JObj (as_map (child ?A ''md5'')))) ''key-id'') = []"
    using e by (simp add: map_of_as_map)
  have 1: "device_get (setNested (P @ [''md5'', ''key-id'', k]) '''' m) P
      = Some (JObj (setNested [''md5'', ''key-id'', k] '''' (as_map ?A)))"
    by (rule setNested_subtree) simp
  have 2: "device_get (setNested (P @ [''md5'', ''key-id'', k, ''md5-key'']) key
      (setNested (P @ [''md5'', ''key-id'', k]) '''' m)) P
    = Some (JObj (setNested [''md5'', ''key-id'', k, ''md5-key''] key
        (setNested [''md5'', ''key-id'', k] '''' (as_map ?A))))"
    by (subst setNested_subtree) (simp_all only: 1 as_map_def json.case option.case list.distinct
      not_False_eq_True)
  show ?thesis
    using assms(1) unfolding 2
    by (simp add: assms(2) auth_of_def quiet_auth_def map_of_AList_update map_of_as_map e
        as_map_def [of "Some (JObj _)"] entries_def [of "Some (JObj _)"])
qed

lemma rekey_md5:
  assumes "k \<in> fst ` set (entries (child (child (device_get m P) ''md5'') ''key-id''))" and "key \<noteq> ''''"
    and "a' = device_get (setNested (P @ [''md5'', ''key-id'', k, ''md5-key'']) key m) P"
  shows "au_authMode (auth_of lc a') = au_authMode (auth_of lc (device_get m P))
    \<and> au_md5KeyId (auth_of lc a') = au_md5KeyId (auth_of lc (device_get m P))"
proof (rule auth_of_same_keys)
  let ?A = "device_get m P"
  let ?K = "as_map (child (child ?A ''md5'') ''key-id'')"
  have 1: "a' = Some (JObj (setNested [''md5'', ''key-id'', k, ''md5-key''] key (as_map ?A)))"
    unfolding assms(3) by (rule setNested_subtree) simp
  show "child a' ''null'' = child ?A ''null''"
    and "child a' ''plaintext-password'' = child ?A ''plaintext-password''"
    by (simp_all add: 1 map_of_AList_update map_of_as_map)
  have "entries (child (child a' ''md5'') ''key-id'')
      = AList.update k (JObj (AList.update ''md5-key'' (JStr key) (as_map (map_of ?K k)))) ?K"
    using assms(2) by (simp add: 1 map_of_AList_update map_of_as_map entries_def [of "Some (JObj _)"])
  moreover have "map_of ?K k \<noteq> None"
    using assms(1) by (simp add: as_map_entries map_of_eq_None_iff)
  ultimately show "map fst (entries (child (child a' ''md5'') ''key-id''))
      = map fst (entries (child (child ?A ''md5'') ''key-id''))"
    by (simp add: map_fst_update as_map_entries)
qed

text \<open>What the auth ops make of the authentication node, from what the form showed before.\<close>

definition shows_auth :: "collation \<Rightarrow> OSPFInterfaceFormValues \<Rightarrow> unknown \<Rightarrow> bool" where
  "shows_auth lc b a \<longleftrightarrow> oiv_authMode b = or_else (au_authMode (auth_of lc a)) ''''
     \<and> oiv_md5KeyId b = or_else (au_md5KeyId (auth_of lc a)) ''''"

definition auth_modes :: "string list" where
  "auth_modes = ['''', ''null'', ''plaintext-password'', ''md5'']"

lemma auth_ops_rebuild:
  assumes a: "shows_auth lc b (device_get m (p @ [''authentication'']))"
    and mode: "oiv_authMode v \<in> set auth_modes" and "trimmed (oiv_md5KeyId v)"
    and ch: "auth_mode_changed b v \<or> key_id_changed b v"
    and "oiv_authMode v = ''plaintext-password'' \<Longrightarrow> js_trim (oiv_plaintextPassword v) \<noteq> ''''"
    and "oiv_authMode v = ''md5'' \<Longrightarrow> oiv_md5KeyId v \<noteq> '''' \<and> js_trim (oiv_md5Key v) \<noteq> ''''"
  shows "auth_of lc (device_get (device_apply (auth_ops p b v) m) (p @ [''authentication'']))
    = (if oiv_authMode v = '''' then no_auth
       else \<lparr>au_authMode = Some (oiv_authMode v),
             au_hasPlaintextPassword = (oiv_authMode v = ''plaintext-password''),
             au_md5KeyId = (if oiv_authMode v = ''md5'' then Some (oiv_md5KeyId v) else None),
             au_hasMd5Key = (oiv_authMode v = ''md5'')\<rparr>)"
proof -
  let ?P = "p @ [''authentication'']"
  define d where "d = (if oiv_authMode b \<noteq> '''' then [delete_op ?P] else [])"
  define n where "n = device_apply d m"
  have quiet: "quiet_auth (device_get n ?P)"
  proof (cases "oiv_authMode b = ''''")
    case True
    then have "au_authMode (auth_of lc (device_get m ?P)) = None"
      using a by (auto simp: shows_auth_def auth_of_def no_auth_def split: list.splits if_splits)
    then show ?thesis using True by (simp add: auth_mode_quiet n_def d_def)
  next
    case False
    then show ?thesis by (simp add: n_def d_def deleteNested_gone quiet_auth_def entries_def)
  qed
  have key: "js_trim (oiv_md5KeyId v) = oiv_md5KeyId v" using assms(3) by (rule trimmedD)
  consider "oiv_authMode v = ''''" | "oiv_authMode v = ''null''"
    | "oiv_authMode v = ''plaintext-password''" | "oiv_authMode v = ''md5''"
    using mode by (auto simp: auth_modes_def)
  then show ?thesis
  proof cases
    case 1
    then have "device_apply (auth_ops p b v) m = n" using ch by (simp add: auth_ops_def n_def d_def)
    then show ?thesis using quiet by (simp add: 1 auth_of_quiet)
  next
    case 2
    then have "device_apply (auth_ops p b v) m = setNested (?P @ [''null'']) '''' n"
      using ch by (simp add: auth_ops_def n_def d_def)
    then show ?thesis by (simp only: build_null [OF quiet]) (simp add: 2 no_auth_def)
  next
    case 3
    then have "device_apply (auth_ops p b v) m
        = setNested (?P @ [''plaintext-password'']) (js_trim (oiv_plaintextPassword v)) n"
      using ch assms(5) by (simp add: auth_ops_def n_def d_def)
    then show ?thesis
      using assms(5) [OF 3] by (simp only: build_password [OF quiet] not_False_eq_True) (simp add: 3 no_auth_def)
  next
    case 4
    then have "device_apply (auth_ops p b v) m
        = setNested (?P @ [''md5'', ''key-id'', oiv_md5KeyId v, ''md5-key'']) (js_trim (oiv_md5Key v))
            (setNested (?P @ [''md5'', ''key-id'', oiv_md5KeyId v]) '''' n)"
      using ch assms(6) by (simp add: auth_ops_def n_def d_def key Let_def)
    then show ?thesis
      using assms(6) [OF 4] by (simp only: build_md5 [OF quiet] not_False_eq_True) (simp add: 4)
  qed
qed

lemma first_key_mem:
  "au_authMode (auth_of lc a) = Some ''md5'' \<Longrightarrow>
     \<exists>k. au_md5KeyId (auth_of lc a) = Some k \<and> k \<in> fst ` set (entries (child (child a ''md5'') ''key-id''))"
proof -
  assume md5: "au_authMode (auth_of lc a) = Some ''md5''"
  let ?xs = "js_sort (\<lambda>(a, _) (b, _). lc a b) (entries (child (child a ''md5'') ''key-id''))"
  from md5 obtain k r xs where xs: "?xs = (k, r) # xs"
    and "au_md5KeyId (auth_of lc a) = Some k"
    by (auto simp: auth_of_def no_auth_def split: if_splits list.splits)
  moreover have "(k, r) \<in> set (entries (child (child a ''md5'') ''key-id''))"
    using arg_cong [OF xs, of set] by auto
  ultimately show ?thesis by force
qed

lemma auth_ops_keep:
  assumes a: "shows_auth lc b (device_get m (p @ [''authentication'']))"
    and "trimmed (oiv_md5KeyId v)"
    and ch: "\<not> (auth_mode_changed b v \<or> key_id_changed b v)"
    and a': "a' = auth_of lc (device_get (device_apply (auth_ops p b v) m) (p @ [''authentication'']))"
  shows "au_authMode a' = au_authMode (auth_of lc (device_get m (p @ [''authentication''])))
    \<and> au_md5KeyId a' = au_md5KeyId (auth_of lc (device_get m (p @ [''authentication''])))"
proof -
  let ?P = "p @ [''authentication'']"
  let ?A = "device_get m ?P"
  have mode: "oiv_authMode v = or_else (au_authMode (auth_of lc ?A)) ''''"
    using a ch by (simp add: shows_auth_def auth_mode_changed_def)
  have key: "js_trim (oiv_md5KeyId v) = oiv_md5KeyId v" using assms(2) by (rule trimmedD)
  consider (same) "device_apply (auth_ops p b v) m = m"
    | (pw) "oiv_authMode v = ''plaintext-password''" "js_trim (oiv_plaintextPassword v) \<noteq> ''''"
      "device_apply (auth_ops p b v) m
         = setNested (?P @ [''plaintext-password'']) (js_trim (oiv_plaintextPassword v)) m"
    | (md5) "oiv_authMode v = ''md5''" "js_trim (oiv_md5Key v) \<noteq> ''''"
      "device_apply (auth_ops p b v) m
         = setNested (?P @ [''md5'', ''key-id'', oiv_md5KeyId v, ''md5-key'']) (js_trim (oiv_md5Key v)) m"
    using ch
    by (cases "oiv_authMode v = ''plaintext-password''"; cases "oiv_authMode v = ''md5''";
        cases "js_trim (oiv_plaintextPassword v) = ''''"; cases "js_trim (oiv_md5Key v) = ''''")
       (simp_all add: auth_ops_def key Let_def)
  then show ?thesis
  proof cases
    case same
    then show ?thesis by (simp add: a')
  next
    case pw
    have "child ?A ''null'' = None"
      using mode pw(1) by (auto simp: auth_of_def no_auth_def split: if_splits list.splits)
    moreover have "au_authMode (auth_of lc ?A) = Some ''plaintext-password''"
      using mode pw(1) by (cases "au_authMode (auth_of lc ?A)") auto
    moreover have "au_md5KeyId (auth_of lc ?A) = None"
      using mode pw(1) by (auto simp: auth_of_def no_auth_def split: if_splits list.splits)
    moreover have "device_get (device_apply (auth_ops p b v) m) ?P
        = Some (JObj (setNested [''plaintext-password''] (js_trim (oiv_plaintextPassword v)) (as_map ?A)))"
      unfolding pw(3) by (rule setNested_subtree) simp
    ultimately show ?thesis
      unfolding a' using pw(2)
      by (simp add: auth_of_def [of lc "Some _"] no_auth_def map_of_AList_update map_of_as_map)
  next
    case md5
    have "au_authMode (auth_of lc ?A) = Some ''md5''"
      using mode md5(1) by (cases "au_authMode (auth_of lc ?A)") auto
    from first_key_mem [OF this] obtain k where k: "au_md5KeyId (auth_of lc ?A) = Some k"
      and mem: "k \<in> fst ` set (entries (child (child ?A ''md5'') ''key-id''))" by blast
    have "oiv_md5KeyId v = k"
      using a ch md5(1) k by (simp add: shows_auth_def auth_mode_changed_def key_id_changed_def)
    with rekey_md5 [OF mem md5(2) refl, of lc] show ?thesis unfolding a' md5(3) by simp
  qed
qed

lemma ospf_interface_fields:
  "indep_all (map snd OSPF_INTERFACE_SCALAR_FIELDS @ map snd OSPF_INTERFACE_FLAG_FIELDS)"
  "[] \<notin> set (map snd OSPF_INTERFACE_SCALAR_FIELDS @ map snd OSPF_INTERFACE_FLAG_FIELDS)"
  by (simp_all add: OSPF_INTERFACE_SCALAR_FIELDS_def OSPF_INTERFACE_FLAG_FIELDS_def)

lemmas ospf_interface_defs = interfaceToFormValues_def parseInterface_def Let_def

text \<open>What the form shows, from its tables and the authentication node; it never shows a secret.\<close>

definition with_auth :: "ospf_auth \<Rightarrow> OSPFInterfaceFormValues \<Rightarrow> OSPFInterfaceFormValues" where
  "with_auth au v = v\<lparr>oiv_authMode := or_else (au_authMode au) '''',
     oiv_plaintextPassword := '''', oiv_md5KeyId := or_else (au_md5KeyId au) '''', oiv_md5Key := ''''\<rparr>"

lemma ospf_interface_shows:
  assumes "reads OSPF_INTERFACE_SCALAR_FIELDS OSPF_INTERFACE_FLAG_FIELDS t v"
  shows "interfaceToFormValues (parseInterface lc ''ospf'' name t)
    = with_auth (auth_of lc (child t ''authentication'')) v"
  using assms
  by (cases v) (simp add: reads_def OSPF_INTERFACE_SCALAR_FIELDS_def OSPF_INTERFACE_FLAG_FIELDS_def
      ospf_interface_defs parseInterfaceAuth_ospf with_auth_def)

lemma ospf_interface_reads:
  "reads OSPF_INTERFACE_SCALAR_FIELDS OSPF_INTERFACE_FLAG_FIELDS t
     (interfaceToFormValues (parseInterface lc protocol name t))"
  by (simp add: reads_def OSPF_INTERFACE_SCALAR_FIELDS_def OSPF_INTERFACE_FLAG_FIELDS_def
      ospf_interface_defs)

lemma ospf_interface_blank:
  "interfaceToFormValues (parseInterface lc ''ospf'' name None) = blankInterfaceFormValues"
  by (simp add: ospf_interface_defs parseInterfaceAuth_ospf auth_of_def no_auth_def entries_def
      blankInterfaceFormValues_def)

lemma auth_ops_paths: "op \<in> set (auth_ops p b v) \<Longrightarrow> \<exists>r. co_path op = p @ (''authentication'' # r)"
  by (auto simp: auth_ops_def Let_def op_defs split: if_splits)

text \<open>Either way the form reads back, and a rebuilt node has its secret.\<close>

lemma auth_ops_form:
  assumes sh: "shows_auth lc b (device_get m (p @ [''authentication'']))"
    and "oiv_authMode v \<in> set auth_modes" and "trimmed (oiv_md5KeyId v)"
    and sec: "auth_mode_changed b v \<or> key_id_changed b v \<Longrightarrow>
      (oiv_authMode v = ''plaintext-password'' \<longrightarrow> js_trim (oiv_plaintextPassword v) \<noteq> '''')
      \<and> (oiv_authMode v = ''md5'' \<longrightarrow> oiv_md5KeyId v \<noteq> '''' \<and> js_trim (oiv_md5Key v) \<noteq> '''')"
    and a': "a' = auth_of lc (device_get (device_apply (auth_ops p b v) m) (p @ [''authentication'']))"
  shows "with_auth a' v = v\<lparr>oiv_plaintextPassword := '''', oiv_md5Key := '''',
        oiv_md5KeyId := (if oiv_authMode v = ''md5'' then oiv_md5KeyId v else '''')\<rparr>
    \<and> (auth_mode_changed b v \<or> key_id_changed b v \<longrightarrow>
         au_hasPlaintextPassword a' = (oiv_authMode v = ''plaintext-password'')
         \<and> au_hasMd5Key a' = (oiv_authMode v = ''md5''))"
proof (cases "auth_mode_changed b v \<or> key_id_changed b v")
  case True
  have "a' = (if oiv_authMode v = '''' then no_auth
       else \<lparr>au_authMode = Some (oiv_authMode v),
             au_hasPlaintextPassword = (oiv_authMode v = ''plaintext-password''),
             au_md5KeyId = (if oiv_authMode v = ''md5'' then Some (oiv_md5KeyId v) else None),
             au_hasMd5Key = (oiv_authMode v = ''md5'')\<rparr>)"
    unfolding a' by (rule auth_ops_rebuild [OF sh assms(2,3) True]) (use sec [OF True] in blast)+
  then show ?thesis by (cases v) (simp add: with_auth_def no_auth_def)
next
  case False
  let ?a = "auth_of lc (device_get m (p @ [''authentication'']))"
  from auth_ops_keep [OF sh assms(3) False a']
  have "with_auth a' v
      = v\<lparr>oiv_plaintextPassword := '''', oiv_md5KeyId := oiv_md5KeyId b, oiv_md5Key := ''''\<rparr>"
    using sh False by (cases v) (simp add: with_auth_def shows_auth_def auth_mode_changed_def)
  moreover have "oiv_md5KeyId b = (if oiv_authMode v = ''md5'' then oiv_md5KeyId v else '''')"
  proof (cases "oiv_authMode v = ''md5''")
    case True
    then show ?thesis using False by (simp add: key_id_changed_def)
  next
    case nm: False
    then have "or_else (au_authMode ?a) '''' \<noteq> ''md5''"
      using sh False by (simp add: shows_auth_def auth_mode_changed_def)
    then have "au_md5KeyId ?a = None"
      by (auto simp: auth_of_def no_auth_def split: if_splits list.splits)
    then show ?thesis using sh nm by (simp add: shows_auth_def)
  qed
  ultimately show ?thesis using False by (cases v) simp
qed

text \<open>
  C25. The OSPF interface form and its authentication. Let the user edit the device's interface into
  trimmed values that \<open>authSecretMissing\<close> does not reject, and apply the queued ops. The form then
  reads back, with the secrets blank; if the authentication mode or the MD5 key id changed, the new
  mode has its secret on the device (the old node is deleted first, so this is where authentication
  could be lost); and nothing off the interface changes.
\<close>

theorem ospf_interface_form:
  assumes "trimmed_form OSPF_INTERFACE_SCALAR_FIELDS v" and "trimmed (oiv_md5KeyId v)"
    and "oiv_authMode v \<in> set auth_modes"
    and "p = ospfInterfacePath ''ospf'' name []" and "indep p q"
    and "before = device_item (parseInterface lc ''ospf'' name) m p"
    and "b = interfaceToFormValues (parseInterface lc ''ospf'' name (device_get m p))"
    and "\<not> authSecretMissing ''ospf'' before v"
    and "m' = device_apply (interfaceFormToOps ''ospf'' name before v) m"
    and "i = parseInterface lc ''ospf'' name (device_get m' p)"
  shows "interfaceToFormValues i = v\<lparr>oiv_plaintextPassword := '''', oiv_md5Key := '''',
        oiv_md5KeyId := (if oiv_authMode v = ''md5'' then oiv_md5KeyId v else '''')\<rparr>
    \<and> (auth_mode_changed b v \<or> key_id_changed b v \<longrightarrow>
         oi_hasPlaintextPassword i = (oiv_authMode v = ''plaintext-password'')
         \<and> oi_hasMd5Key i = (oiv_authMode v = ''md5''))
    \<and> device_get m' q = device_get m q"
proof -
  let ?b = "interfaceToFormValues (parseInterface lc ''ospf'' name (device_get m p))"
  have b: "b = ?b" by (rule assms(7))
  let ?A = "\<lambda>m. device_get m (p @ [''authentication''])"
  define n where "n = device_apply (diffToOps p OSPF_INTERFACE_SCALAR_FIELDS OSPF_INTERFACE_FLAG_FIELDS ?b v) m"
  have A: "child (device_get m p) ''authentication'' = ?A m" for m by (simp add: device_get_append)
  have before: "(case before of Some x \<Rightarrow> interfaceToFormValues x | None \<Rightarrow> blankInterfaceFormValues) = ?b"
    unfolding assms(6) by (rule device_item_values [where to = interfaceToFormValues
          and parse = "parseInterface lc ''ospf'' name", OF ospf_interface_blank])
  have m': "m' = device_apply (auth_ops p ?b v) n"
    by (simp add: assms(9) interfaceFormToOps_def before n_def assms(4) [symmetric] Let_def)
  have "?A n = ?A m" unfolding n_def
    by (rule form_frame) (simp add: OSPF_INTERFACE_SCALAR_FIELDS_def OSPF_INTERFACE_FLAG_FIELDS_def)
  then have sh: "shows_auth lc ?b (?A n)"
    by (simp add: shows_auth_def ospf_interface_defs parseInterfaceAuth_ospf A)
  have "reads OSPF_INTERFACE_SCALAR_FIELDS OSPF_INTERFACE_FLAG_FIELDS (device_get n p) v"
    unfolding n_def by (rule form_applied [OF ospf_interface_fields ospf_interface_reads assms(1)])
  moreover have "reads OSPF_INTERFACE_SCALAR_FIELDS OSPF_INTERFACE_FLAG_FIELDS (device_get m' p) v
      \<longleftrightarrow> reads OSPF_INTERFACE_SCALAR_FIELDS OSPF_INTERFACE_FLAG_FIELDS (device_get n p) v"
    unfolding m' by (rule reads_frame)
      (use auth_ops_paths in \<open>fastforce simp: OSPF_INTERFACE_SCALAR_FIELDS_def OSPF_INTERFACE_FLAG_FIELDS_def\<close>)
  ultimately have form: "interfaceToFormValues i = with_auth (auth_of lc (?A m')) v"
    unfolding assms(10) A [symmetric] by (intro ospf_interface_shows) simp
  have has: "oi_hasPlaintextPassword i = au_hasPlaintextPassword (auth_of lc (?A m'))"
    "oi_hasMd5Key i = au_hasMd5Key (auth_of lc (?A m'))"
    by (simp_all add: assms(10) parseInterface_def Let_def parseInterfaceAuth_ospf A)
  have q: "device_get m' q = device_get m q"
  proof -
    have "device_get m' q = device_get n q"
      unfolding m' device_apply_def by (rule device.ops_frame)
        (use auth_ops_paths assms(5) indep_extend_left in metis)
    also have "\<dots> = device_get m q" unfolding n_def by (rule form_frame_outside [OF assms(5)])
    finally show ?thesis .
  qed
  have "js_trim (oiv_md5KeyId v) = oiv_md5KeyId v" using assms(2) by (rule trimmedD)
  then have "auth_mode_changed ?b v \<or> key_id_changed ?b v \<Longrightarrow>
      (oiv_authMode v = ''plaintext-password'' \<longrightarrow> js_trim (oiv_plaintextPassword v) \<noteq> '''')
      \<and> (oiv_authMode v = ''md5'' \<longrightarrow> oiv_md5KeyId v \<noteq> '''' \<and> js_trim (oiv_md5Key v) \<noteq> '''')"
    using assms(8) by (auto simp: authSecretMissing_def before split: if_splits)
  from auth_ops_form [OF sh assms(3,2) this refl]
  show ?thesis using q unfolding form has m' b by blast
qed

definition sample_auth_values :: OSPFInterfaceFormValues where
  "sample_auth_values = blankInterfaceFormValues
     \<lparr>oiv_area := ''0'', oiv_authMode := ''md5'', oiv_md5KeyId := ''7'', oiv_md5Key := ''k''\<rparr>"

theorem ospf_interface_form_witness:
  "oi_hasMd5Key (parseInterface (\<lambda>a b. 0) ''ospf'' ''eth0'' (device_get (device_apply
     (interfaceFormToOps ''ospf'' ''eth0'' None sample_auth_values) []) (ospfInterfacePath ''ospf'' ''eth0'' [])))"
proof -
  let ?p = "ospfInterfacePath ''ospf'' ''eth0'' []"
  let ?parse = "parseInterface (\<lambda>a b. 0) ''ospf'' ''eth0''"
  have 1: "trimmed_form OSPF_INTERFACE_SCALAR_FIELDS sample_auth_values"
    "trimmed (oiv_md5KeyId sample_auth_values)" "oiv_authMode sample_auth_values \<in> set auth_modes"
    "indep ?p [''system'']" by code_simp+
  have 2: "None = device_item ?parse [] ?p" by code_simp
  have 3: "\<not> authSecretMissing ''ospf'' None sample_auth_values" by code_simp
  have 4: "auth_mode_changed (interfaceToFormValues (?parse (device_get [] ?p))) sample_auth_values"
    "oiv_authMode sample_auth_values = ''md5''" by code_simp+
  show ?thesis
    using ospf_interface_form [OF 1(1-3) refl 1(4) 2 refl 3 refl refl] 4 by simp
qed

end
