(* ===== verification/OspfArea.thy ===== *)
theory OspfArea
  imports Ospf
begin

text \<open>
  The OSPF area form on the device (\<open>ospf_area_form\<close>: the area type is a choice between subtrees, and
  changing it clears the old one) and the global form (\<open>ospf_global_form\<close>).
\<close>

subsection \<open>The area form on the device\<close>

text \<open>The edits of an area whose type stays as it is, in the order the form queues them.\<close>

definition area_edits ::
    "string \<Rightarrow> path \<Rightarrow> OSPFAreaFormValues \<Rightarrow> OSPFAreaFormValues \<Rightarrow> (path \<times> edit) list" where
  "area_edits protocol p b v =
     (let T = p @ [''area-type'', av_areaType v]
      in (if av_areaType v \<noteq> '''' then
            [(T @ [''no-summary''], Flag_edit (av_noSummary b) (av_noSummary v)),
             (T @ [''default-cost''], Scalar_edit (av_defaultCost b) (av_defaultCost v))]
            @ (if av_areaType v = ''nssa'' \<and> protocol = ''ospf''
               then [(T @ [''translate''], Scalar_edit (av_nssaTranslate b) (av_nssaTranslate v))] else [])
            @ (if av_areaType v = ''nssa'' \<and> protocol = ''ospfv3''
               then [(T @ [''default-information-originate''],
                  Flag_edit (av_nssaDefaultInformationOriginate b) (av_nssaDefaultInformationOriginate v))]
               else [])
          else [])
         @ (if protocol = ''ospf''
            then [(p @ [''authentication''], Scalar_edit (av_authentication b) (av_authentication v))]
            else []))"

text \<open>The values with the inputs the form hides for the type and the protocol left blank.\<close>

definition area_shown :: "string \<Rightarrow> OSPFAreaFormValues \<Rightarrow> OSPFAreaFormValues" where
  "area_shown protocol v =
     \<lparr>av_areaType = av_areaType v,
      av_noSummary = (av_areaType v \<noteq> '''' \<and> av_noSummary v),
      av_defaultCost = (if av_areaType v \<noteq> '''' then av_defaultCost v else ''''),
      av_nssaTranslate =
        (if av_areaType v = ''nssa'' \<and> protocol = ''ospf'' then av_nssaTranslate v else ''''),
      av_nssaDefaultInformationOriginate =
        (av_areaType v = ''nssa'' \<and> protocol = ''ospfv3'' \<and> av_nssaDefaultInformationOriginate v),
      av_authentication = (if protocol = ''ospf'' then av_authentication v else '''')\<rparr>"

definition area_values_ok :: "OSPFAreaFormValues \<Rightarrow> bool" where
  "area_values_ok v \<longleftrightarrow> av_areaType v \<in> set ['''', ''stub'', ''nssa''] \<and> trimmed (av_defaultCost v)
     \<and> trimmed (av_nssaTranslate v) \<and> trimmed (av_authentication v)"

text \<open>What the form shows of an area's subtree.\<close>

definition area_node :: "unknown \<Rightarrow> string \<Rightarrow> unknown" where
  "area_node t T = child (child t ''area-type'') T"

definition area_form :: "string \<Rightarrow> unknown \<Rightarrow> OSPFAreaFormValues" where
  "area_form protocol t =
     (let T = or_else (area_type_of t) ''''; node = (if T = '''' then None else area_node t T)
      in \<lparr>av_areaType = T,
          av_noSummary = (child node ''no-summary'' \<noteq> None),
          av_defaultCost = read_str (child node ''default-cost''),
          av_nssaTranslate =
            (if protocol = ''ospf'' \<and> T = ''nssa'' then read_str (child node ''translate'') else ''''),
          av_nssaDefaultInformationOriginate = (protocol = ''ospfv3'' \<and> T = ''nssa''
            \<and> child node ''default-information-originate'' \<noteq> None),
          av_authentication = (if protocol = ''ospf'' then read_str (child t ''authentication'') else '''')\<rparr>)"

lemma area_form: "areaToFormValues (parseArea lc protocol i t) = area_form protocol t"
  by (auto simp: areaToFormValues_def parseArea_def area_form_def area_type_of_def area_node_def Let_def)

lemma area_type_of_node:
  "or_else (area_type_of t) '''' =
     (if isRecord (area_node t ''nssa'') then ''nssa''
      else if isRecord (area_node t ''stub'') then ''stub'' else '''')"
  by (simp add: area_type_of_def area_node_def Let_def)


lemma area_edits_paths:
  "indep_all (map fst (area_edits protocol p b v))" "\<forall>q \<in> fst ` set (area_edits protocol p b v). q \<noteq> []"
  by (auto simp: area_edits_def Let_def)

lemma area_leaf:
  "device_get m (p @ [''area-type'', T, k]) = child (area_node (device_get m p) T) k"
  "device_get m (p @ [''area-type'', T]) = area_node (device_get m p) T"
  "device_get m (p @ [''authentication'']) = child (device_get m p) ''authentication''"
  by (simp_all add: device_get_append area_node_def)

text \<open>Editing an area without changing its type.\<close>

lemma area_edits_nodes:
  assumes "av_areaType v \<noteq> '''' \<Longrightarrow> isRecord (area_node (device_get m p) (av_areaType v))"
    and "m' = device_apply (concat (map edit_ops (area_edits protocol p b v))) m"
  shows "isRecord (area_node (device_get m' p) T) \<longleftrightarrow> isRecord (area_node (device_get m p) T)"
proof -
  let ?ops = "concat (map edit_ops (area_edits protocol p b v))"
  have paths: "\<exists>r. r \<noteq> [] \<and> co_path op = (p @ [''area-type'', av_areaType v]) @ r \<and> av_areaType v \<noteq> ''''
      \<or> co_path op = p @ [''authentication'']" if "op \<in> set ?ops" for op
  proof -
    from that obtain q e where "(q, e) \<in> set (area_edits protocol p b v)" "op \<in> set (edit_ops (q, e))"
      by auto
    with device.edit_paths show ?thesis
      by (auto simp: area_edits_def Let_def split: if_splits)
  qed
  show ?thesis
  proof (cases "T = av_areaType v \<and> T \<noteq> ''''")
    case True
    have "isRecord (device_get m' (p @ [''area-type'', T]))"
      unfolding assms(2) by (rule ops_keep_record)
        (use True assms(1) paths in \<open>fastforce simp: area_leaf\<close>)+
    then show ?thesis using True assms(1) by (auto simp: area_leaf)
  next
    case False
    have "indep (co_path op) (p @ [''area-type'', T])" if "op \<in> set ?ops" for op
      using paths [OF that] False by auto
    then have "device_get m' (p @ [''area-type'', T]) = device_get m (p @ [''area-type'', T])"
      unfolding assms(2) device_apply_def by (intro device.ops_frame) blast
    then show ?thesis by (simp add: area_leaf)
  qed
qed

lemma area_edits_effect:
  assumes ok: "area_values_ok v" and "protocol \<in> {''ospf'', ''ospfv3''}"
    and b: "b = area_form protocol (device_get m p)" and T: "av_areaType b = av_areaType v"
    and m': "m' = device_apply (concat (map edit_ops (area_edits protocol p b v))) m"
  shows "area_form protocol (device_get m' p) = area_shown protocol v"
proof -
  let ?N = "\<lambda>m. area_node (device_get m p)"
  have bT: "av_areaType b = or_else (area_type_of (device_get m p)) ''''"
    by (simp add: b area_form_def Let_def)
  have rec: "isRecord (?N m' T) \<longleftrightarrow> isRecord (?N m T)" for T
  proof (rule area_edits_nodes [OF _ m'])
    assume "av_areaType v \<noteq> ''''"
    then show "isRecord (?N m (av_areaType v))"
      using bT T by (auto simp: area_type_of_node split: if_splits)
  qed
  then have T': "or_else (area_type_of (device_get m' p)) '''' = av_areaType v"
    using bT T by (simp add: area_type_of_node)
  have R: "\<forall>(q, e) \<in> set (area_edits protocol p b v). device_get m' q = edit_result e (device_get m q)"
    unfolding m' device_apply_def by (rule device.edits_result [OF area_edits_paths])
  have tr: "trimmed (av_defaultCost v)" "trimmed (av_nssaTranslate v)" "trimmed (av_authentication v)"
    using ok by (simp_all add: area_values_ok_def)
  have S: "b = area_form protocol (device_get m p)" "or_else (area_type_of (device_get m p)) '''' = av_areaType v"
    using b bT T by simp_all
  have au: "protocol = ''ospf'' \<Longrightarrow> read_str (child (device_get m' p) ''authentication'') = av_authentication v"
    using R tr S by (auto simp: area_edits_def area_form_def area_leaf Let_def trimmedD)
  have leaf: "(child (?N m' (av_areaType v)) ''no-summary'' \<noteq> None) = av_noSummary v"
    "read_str (child (?N m' (av_areaType v)) ''default-cost'') = av_defaultCost v"
    if "av_areaType v \<noteq> ''''"
    using R tr S that by (auto simp: area_edits_def area_form_def area_leaf Let_def trimmedD)
  have nssa: "protocol = ''ospf'' \<Longrightarrow> read_str (child (?N m' ''nssa'') ''translate'') = av_nssaTranslate v"
    "protocol = ''ospfv3'' \<Longrightarrow>
       (child (?N m' ''nssa'') ''default-information-originate'' \<noteq> None) = av_nssaDefaultInformationOriginate v"
    if "av_areaType v = ''nssa''"
    using R tr S that by (auto simp: area_edits_def area_form_def area_leaf Let_def trimmedD)
  show ?thesis
    unfolding area_form_def T' Let_def area_shown_def using au leaf nssa by auto
qed

text \<open>Changing the type clears the old node first and starts from an empty one.\<close>

definition area_prefix :: "path \<Rightarrow> string \<Rightarrow> string \<Rightarrow> ConfigOp list" where
  "area_prefix p old new =
     (if old = new then []
      else (if old \<noteq> '''' then [delete_op (p @ [''area-type''])] else [])
           @ (if new \<noteq> '''' then [set_flag (p @ [''area-type'', new])] else []))"

definition area_restart :: "OSPFAreaFormValues \<Rightarrow> OSPFAreaFormValues \<Rightarrow> OSPFAreaFormValues" where
  "area_restart b v =
     (if av_areaType b = av_areaType v then b
      else blankAreaFormValues\<lparr>av_areaType := av_areaType v, av_authentication := av_authentication b\<rparr>)"

lemma areaFormToOps_edits:
  assumes "area_values_ok v" and "p = ospfAreaPath protocol i []"
    and "b = (case before of Some x \<Rightarrow> areaToFormValues x | None \<Rightarrow> blankAreaFormValues)"
  shows "areaFormToOps protocol i before v
    = area_prefix p (av_areaType b) (av_areaType v)
      @ concat (map edit_ops (area_edits protocol p (area_restart b v) v))"
proof -
  have *: "(if x \<noteq> '''' then [set_op q x] else []) = scalar_diff q '''' x" if "trimmed x" for q x
    using that by (auto simp: scalar_diff_def trimmedD)
  have tr: "trimmed (av_defaultCost v)" "trimmed (av_nssaTranslate v)"
    using assms(1) by (simp_all add: area_values_ok_def)
  show ?thesis
    by (simp add: areaFormToOps_def Let_def assms(2) assms(3) [symmetric] area_prefix_def
        area_restart_def area_edits_def area_type_ops_def blankAreaFormValues_def * tr flag_diff_def)
qed

text \<open>An area whose type nodes are absent or records: what VyOS can hold.\<close>

definition area_ok :: "unknown \<Rightarrow> bool" where
  "area_ok t \<longleftrightarrow> (\<forall>T \<in> set [''stub'', ''nssa'']. area_node t T = None \<or> isRecord (area_node t T))"

lemma area_prefix_effect:
  assumes ok: "area_ok (device_get m p)" and v: "av_areaType v \<in> set ['''', ''stub'', ''nssa'']"
    and b: "b = area_form protocol (device_get m p)"
    and n: "n = device_apply (area_prefix p (av_areaType b) (av_areaType v)) m"
  shows "area_form protocol (device_get n p) = area_restart b v"
proof (cases "av_areaType b = av_areaType v")
  case True
  then show ?thesis by (simp add: n area_prefix_def area_restart_def b)
next
  case False
  let ?P = "p @ [''area-type'']"
  define c where "c = (if av_areaType b \<noteq> '''' then deleteNested ?P m else m)"
  have auth_c: "device_get c (p @ [''authentication'']) = device_get m (p @ [''authentication''])"
    by (simp add: c_def deleteNested_other)
  have none: "area_node (device_get c p) T = None" if "T \<in> set [''stub'', ''nssa'']" for T
  proof (cases "av_areaType b = ''''")
    case True
    then have "\<not> isRecord (area_node (device_get m p) T)"
      using that b by (auto simp: area_form_def area_type_of_node Let_def split: if_splits)
    then show ?thesis using ok that True by (auto simp: area_ok_def c_def)
  next
    case False
    then have "child (device_get c p) ''area-type'' = None"
      using deleteNested_gone [of ?P m] by (simp add: c_def device_get_append)
    then show ?thesis by (simp add: area_node_def)
  qed
  have nc: "n = (if av_areaType v = '''' then c else setNested (?P @ [av_areaType v]) '''' c)"
    using False by (simp add: n area_prefix_def c_def)
  have new: "area_node (device_get n p) (av_areaType v) = Some (JObj [])" if "av_areaType v \<noteq> ''''"
    using setNested_flag [of "?P @ [av_areaType v]" c] none [of "av_areaType v"] v that
    by (simp add: nc area_leaf [symmetric])
  have other: "area_node (device_get n p) T = None" if "T \<in> set [''stub'', ''nssa'']" "T \<noteq> av_areaType v" for T
    using setNested_other [of "?P @ [av_areaType v]" "?P @ [T]" "''''" c] none [OF that(1)] that(2)
    by (simp add: nc area_leaf [symmetric])
  have "device_get n (p @ [''authentication'']) = device_get c (p @ [''authentication''])"
    by (simp add: nc setNested_other)
  then have auth: "child (device_get n p) ''authentication'' = child (device_get m p) ''authentication''"
    using auth_c by (simp add: area_leaf)
  have T: "or_else (area_type_of (device_get n p)) '''' = av_areaType v"
    using v new other [of "''stub''"] other [of "''nssa''"] by (auto simp: area_type_of_node isRecord_iff)
  show ?thesis
    unfolding area_form_def T Let_def using False v new
    by (auto simp: area_restart_def blankAreaFormValues_def auth b area_form_def Let_def)
qed


definition nssa_values :: OSPFAreaFormValues where
  "nssa_values = blankAreaFormValues
     \<lparr>av_areaType := ''nssa'', av_noSummary := True, av_nssaTranslate := ''always''\<rparr>"


subsection \<open>The global form on the device\<close>

definition OSPF_DEFAULT_METRIC :: "string \<Rightarrow> OSPFGlobalFormValues scalar_field list" where
  "OSPF_DEFAULT_METRIC protocol =
     (if protocol = ''ospf'' then [(ogv_defaultMetric, [''default-metric''])] else [])"

lemma globalFormToOps_ospf_diff:
  "globalFormToOps_ospf protocol before v
     = diffToOps (ospfPath protocol []) (OSPF_GLOBAL_SCALAR_FIELDS protocol) OSPF_GLOBAL_FLAG_FIELDS
         (globalToFormValues_ospf before) v
       @ diffToOps (ospfPath protocol []) (OSPF_DEFAULT_METRIC protocol) []
         (globalToFormValues_ospf before) v"
  by (simp add: globalFormToOps_ospf_def OSPF_DEFAULT_METRIC_def diffToOps_def ospfPath_def Let_def)

lemma ospf_global_fields:
  assumes "protocol \<in> {''ospf'', ''ospfv3''}"
  shows "indep_all (map snd (OSPF_GLOBAL_SCALAR_FIELDS protocol @ OSPF_DEFAULT_METRIC protocol)
      @ map snd (OSPF_GLOBAL_FLAG_FIELDS @ []))"
    and "[] \<notin> set (map snd (OSPF_GLOBAL_SCALAR_FIELDS protocol @ OSPF_DEFAULT_METRIC protocol)
      @ map snd (OSPF_GLOBAL_FLAG_FIELDS @ []))"
  using assms
  by (auto simp: OSPF_GLOBAL_SCALAR_FIELDS_def OSPF_DEFAULT_METRIC_def OSPF_GLOBAL_FLAG_FIELDS_def)

lemma parseProcess_global:
  "op_global (parseProcess lc protocol t) = parseGlobalSettings protocol t"
  by (simp add: parseProcess_def blankGlobalSettings_def parseGlobalSettings_def)

lemma ospf_global_reads:
  "reads (OSPF_GLOBAL_SCALAR_FIELDS protocol @ OSPF_DEFAULT_METRIC protocol)
     (OSPF_GLOBAL_FLAG_FIELDS @ []) t v
   \<longleftrightarrow> globalToFormValues_ospf (parseGlobalSettings protocol t)
     = (if protocol = ''ospf'' then v else v\<lparr>ogv_defaultMetric := ''''\<rparr>)"
  by (cases v) (auto simp: reads_def OSPF_GLOBAL_SCALAR_FIELDS_def OSPF_DEFAULT_METRIC_def
      OSPF_GLOBAL_FLAG_FIELDS_def globalToFormValues_ospf_def parseGlobalSettings_def Let_def)

text \<open>
  The OSPF global form, for both protocols: the trimmed values read back from the process's
  configuration, the default metric (an OSPFv2 leaf) staying blank for OSPFv3, and the ops of one
  protocol never touch the other.
\<close>

theorem ospf_global_form:
  assumes "protocol \<in> {''ospf'', ''ospfv3''}"
    and "trimmed_form (OSPF_GLOBAL_SCALAR_FIELDS protocol @ OSPF_DEFAULT_METRIC protocol) v"
    and "p = ospfPath protocol []" and "indep p q"
    and "m' = device_apply (globalFormToOps_ospf protocol
           (op_global (parseProcess lc protocol (device_get m p))) v) m"
  shows "globalToFormValues_ospf (op_global (parseProcess lc protocol (device_get m' p)))
        = (if protocol = ''ospf'' then v else v\<lparr>ogv_defaultMetric := ''''\<rparr>)
    \<and> device_get m' q = device_get m q"
proof
  let ?b = "globalToFormValues_ospf (parseGlobalSettings protocol (device_get m p))"
  have m': "m' = device_apply (diffToOps p (OSPF_GLOBAL_SCALAR_FIELDS protocol) OSPF_GLOBAL_FLAG_FIELDS ?b v
      @ diffToOps p (OSPF_DEFAULT_METRIC protocol) [] ?b v) m"
    by (simp only: assms(5) globalFormToOps_ospf_diff parseProcess_global assms(3))
  have "reads (OSPF_GLOBAL_SCALAR_FIELDS protocol @ OSPF_DEFAULT_METRIC protocol)
      (OSPF_GLOBAL_FLAG_FIELDS @ []) (device_get m p) ?b"
    unfolding ospf_global_reads by (simp add: globalToFormValues_ospf_def parseGlobalSettings_def Let_def)
  from two_stage [OF ospf_global_fields [OF assms(1)] this assms(2)]
  show "globalToFormValues_ospf (op_global (parseProcess lc protocol (device_get m' p)))
      = (if protocol = ''ospf'' then v else v\<lparr>ogv_defaultMetric := ''''\<rparr>)"
    unfolding parseProcess_global m' ospf_global_reads .
  show "device_get m' q = device_get m q"
    unfolding m' device_apply_append by (simp only: form_frame_outside [OF assms(4)])
qed

definition ospfv3_values :: OSPFGlobalFormValues where
  "ospfv3_values = blankGlobalFormValues_ospf
     \<lparr>ogv_routerId := ''1.1.1.1'', ogv_defaultInformationOriginateAlways := True\<rparr>"

theorem ospf_global_form_witness:
  "globalToFormValues_ospf (op_global (parseProcess (\<lambda>a b. 0) ''ospfv3'' (device_get (device_apply
     (globalFormToOps_ospf ''ospfv3'' (op_global (parseProcess (\<lambda>a b. 0) ''ospfv3''
        (device_get [] (ospfPath ''ospfv3'' [])))) ospfv3_values) []) (ospfPath ''ospfv3'' []))))
   = ospfv3_values"
proof -
  have "trimmed_form (OSPF_GLOBAL_SCALAR_FIELDS ''ospfv3'' @ OSPF_DEFAULT_METRIC ''ospfv3'') ospfv3_values"
    "indep (ospfPath ''ospfv3'' []) [''protocols'', ''ospf'']"
    "ospfv3_values\<lparr>ogv_defaultMetric := ''''\<rparr> = ospfv3_values" by code_simp+
  with ospf_global_form [OF _ this(1) refl this(2) refl, of "\<lambda>a b. 0" "[]"] show ?thesis by simp
qed

end
