(* ===== verification/Interfaces.thy ===== *)
theory Interfaces
  imports FakeVyos
begin

text \<open>
  Network interfaces: the interfaces of \<open>lib/interfaceTypes.ts\<close> as records (the fields every kind
  shares are a record the others extend), the parser of \<open>lib/interfaceParse.ts\<close>, the edit forms of
  \<open>lib/interfaceConfigForm.ts\<close> (Ethernet, VLAN, bonding, bridge) and the name tests of
  \<open>lib/interfaceType.ts\<close>. \<open>lc\<close> is the collation of \<open>localeCompare\<close>.
\<close>

subsection \<open>Types\<close>

record CommonInterface =
  ci_description :: "string option"
  ci_disabled :: bool
  ci_mac :: "string option"
  ci_mtu :: "jsnum option"
  ci_vrf :: "string option"

record InterfaceVlan = CommonInterface +
  vl_vlanId :: string
  vl_addresses :: "string list"

record EthernetInterface = CommonInterface +
  ei_name :: string
  ei_addresses :: "string list"
  ei_vlans :: "InterfaceVlan list"

definition BOND_MODES :: "string list" where
  "BOND_MODES = [''802.3ad'', ''active-backup'', ''broadcast'', ''round-robin'',
     ''transmit-load-balance'', ''adaptive-load-balance'', ''xor-hash'']"

definition BOND_HASH_POLICIES :: "string list" where
  "BOND_HASH_POLICIES = [''layer2'', ''layer2+3'', ''layer3+4'']"

definition BOND_LACP_RATES :: "string list" where
  "BOND_LACP_RATES = [''slow'', ''fast'']"

record BondInterface = CommonInterface +
  bi_name :: string
  bi_addresses :: "string list"
  bi_mode :: string
  bi_hashPolicy :: "string option"
  bi_primary :: "string option"
  bi_lacpRate :: "string option"
  bi_minLinks :: "jsnum option"
  bi_members :: "string list"
  bi_vlans :: "InterfaceVlan list"

definition BRIDGE_VLAN_PROTOCOLS :: "string list" where
  "BRIDGE_VLAN_PROTOCOLS = [''802.1q'', ''802.1ad'']"

record BridgeMember =
  bm_name :: string
  bm_priority :: "jsnum option"
  bm_cost :: "jsnum option"

record BridgeInterface = CommonInterface +
  gi_name :: string
  gi_addresses :: "string list"
  gi_stp :: bool
  gi_vlanAware :: bool
  gi_vlanProtocol :: "string option"
  gi_members :: "BridgeMember list"
  gi_vlans :: "InterfaceVlan list"

record Vrf =
  vrf_name :: string
  vrf_table :: string

subsection \<open>Parsing\<close>

definition parseVlan :: "string \<Rightarrow> unknown \<Rightarrow> InterfaceVlan" where
  "parseVlan vlanId raw =
     \<lparr>ci_description = asString (child raw ''description''),
      ci_disabled = isFlagPresent raw ''disable'',
      ci_mac = asString (child raw ''mac''),
      ci_mtu = asNumber (child raw ''mtu''),
      ci_vrf = asString (child raw ''vrf''),
      vl_vlanId = vlanId,
      vl_addresses = asArray (child raw ''address'')\<rparr>"

definition parseVlans :: "unknown \<Rightarrow> InterfaceVlan list" where
  "parseVlans parentRaw =
     parse_entries parseVlan
       (\<lambda>a b. js_num_cmp (js_number (vl_vlanId a)) (js_number (vl_vlanId b))) (child parentRaw ''vif'')"

definition vlanPath :: "path \<Rightarrow> string \<Rightarrow> path \<Rightarrow> path" where
  "vlanPath parentPath vlanId rest = parentPath @ [''vif'', vlanId] @ rest"

definition ethernetPath :: "string \<Rightarrow> path \<Rightarrow> path" where
  "ethernetPath name rest = [''interfaces'', ''ethernet'', name] @ rest"

definition parseEthernetInterface :: "string \<Rightarrow> unknown \<Rightarrow> EthernetInterface" where
  "parseEthernetInterface name raw =
     \<lparr>ci_description = asString (child raw ''description''),
      ci_disabled = isFlagPresent raw ''disable'',
      ci_mac = asString (child raw ''mac''),
      ci_mtu = asNumber (child raw ''mtu''),
      ci_vrf = asString (child raw ''vrf''),
      ei_name = name,
      ei_addresses = asArray (child raw ''address''),
      ei_vlans = parseVlans raw\<rparr>"

definition parseEthernetInterfaces :: "collation \<Rightarrow> unknown \<Rightarrow> EthernetInterface list" where
  "parseEthernetInterfaces lc interfaces =
     parse_entries parseEthernetInterface (\<lambda>a b. lc (ei_name a) (ei_name b)) (child interfaces ''ethernet'')"

definition bondPath :: "string \<Rightarrow> path \<Rightarrow> path" where
  "bondPath name rest = [''interfaces'', ''bonding'', name] @ rest"

definition parseBondInterface :: "string \<Rightarrow> unknown \<Rightarrow> BondInterface" where
  "parseBondInterface name raw =
     (let modeRaw = asString (child raw ''mode'');
          mode = (if or_else modeRaw '''' \<in> set BOND_MODES then or_else modeRaw '''' else ''802.3ad'');
          hashPolicyRaw = asString (child raw ''hash-policy'');
          hashPolicy = (if or_else hashPolicyRaw '''' \<in> set BOND_HASH_POLICIES
            then hashPolicyRaw else None);
          lacpRateRaw = asString (child raw ''lacp-rate'');
          lacpRate = (if or_else lacpRateRaw '''' \<in> set BOND_LACP_RATES then lacpRateRaw else None)
      in \<lparr>ci_description = asString (child raw ''description''),
          ci_disabled = isFlagPresent raw ''disable'',
          ci_mac = asString (child raw ''mac''),
          ci_mtu = asNumber (child raw ''mtu''),
          ci_vrf = asString (child raw ''vrf''),
          bi_name = name,
          bi_addresses = asArray (child raw ''address''),
          bi_mode = mode,
          bi_hashPolicy = hashPolicy,
          bi_primary = asString (child raw ''primary''),
          bi_lacpRate = lacpRate,
          bi_minLinks = asNumber (child raw ''min-links''),
          bi_members = asArray (child (child raw ''member'') ''interface''),
          bi_vlans = parseVlans raw\<rparr>)"

definition parseBondInterfaces :: "collation \<Rightarrow> unknown \<Rightarrow> BondInterface list" where
  "parseBondInterfaces lc interfaces =
     parse_entries parseBondInterface (\<lambda>a b. lc (bi_name a) (bi_name b)) (child interfaces ''bonding'')"

definition bridgePath :: "string \<Rightarrow> path \<Rightarrow> path" where
  "bridgePath name rest = [''interfaces'', ''bridge'', name] @ rest"

definition parseBridgeMembers :: "collation \<Rightarrow> unknown \<Rightarrow> BridgeMember list" where
  "parseBridgeMembers lc raw =
     parse_entries (\<lambda>name memberRaw. \<lparr>bm_name = name,
         bm_priority = asNumber (child memberRaw ''priority''),
         bm_cost = asNumber (child memberRaw ''cost'')\<rparr>)
       (\<lambda>a b. lc (bm_name a) (bm_name b)) (child (child raw ''member'') ''interface'')"

definition parseBridgeInterface :: "collation \<Rightarrow> string \<Rightarrow> unknown \<Rightarrow> BridgeInterface" where
  "parseBridgeInterface lc name raw =
     (let protocolRaw = asString (child raw ''protocol'');
          vlanProtocol = (if or_else protocolRaw '''' \<in> set BRIDGE_VLAN_PROTOCOLS
            then protocolRaw else None)
      in \<lparr>ci_description = asString (child raw ''description''),
          ci_disabled = isFlagPresent raw ''disable'',
          ci_mac = asString (child raw ''mac''),
          ci_mtu = asNumber (child raw ''mtu''),
          ci_vrf = asString (child raw ''vrf''),
          gi_name = name,
          gi_addresses = asArray (child raw ''address''),
          gi_stp = isFlagPresent raw ''stp'',
          gi_vlanAware = isFlagPresent raw ''enable-vlan'',
          gi_vlanProtocol = vlanProtocol,
          gi_members = parseBridgeMembers lc raw,
          gi_vlans = parseVlans raw\<rparr>)"

definition parseBridgeInterfaces :: "collation \<Rightarrow> unknown \<Rightarrow> BridgeInterface list" where
  "parseBridgeInterfaces lc interfaces =
     parse_entries (parseBridgeInterface lc) (\<lambda>a b. lc (gi_name a) (gi_name b))
       (child interfaces ''bridge'')"

definition vrfPath :: "string \<Rightarrow> path \<Rightarrow> path" where
  "vrfPath name rest = [''vrf'', ''name'', name] @ rest"

definition parseVrfs :: "collation \<Rightarrow> unknown \<Rightarrow> Vrf list" where
  "parseVrfs lc vrf =
     parse_entries (\<lambda>name raw. \<lparr>vrf_name = name, vrf_table = or_else (asString (child raw ''table'')) ''''\<rparr>)
       (\<lambda>a b. lc (vrf_name a) (vrf_name b)) (child vrf ''name'')"

subsection \<open>Interface names\<close>

text \<open>The regular expression: one of the prefixes, a digit, then digits and letters to the end.\<close>

definition matches_name :: "string list \<Rightarrow> string \<Rightarrow> bool" where
  "matches_name heads name \<longleftrightarrow>
     list_ex (\<lambda>p. take (length p) name = p
       \<and> (case drop (length p) name of [] \<Rightarrow> False | d # ds \<Rightarrow> is_digit d \<and> list_all is_alnum ds)) heads"

definition ETHERNET_INTERFACE_PATTERN :: "string list" where
  "ETHERNET_INTERFACE_PATTERN = [''lan'', ''eth'', ''eno'', ''ens'', ''enp'', ''enx'']"

definition PHYSICAL_INTERFACE_PATTERN :: "string list" where
  "PHYSICAL_INTERFACE_PATTERN =
     [''lan'', ''eth'', ''eno'', ''ens'', ''enp'', ''enx'', ''wlan'', ''wwan'']"

definition isPhysicalInterface :: "string \<Rightarrow> bool" where
  "isPhysicalInterface name = matches_name PHYSICAL_INTERFACE_PATTERN name"

definition isEthernetInterface :: "string \<Rightarrow> bool" where
  "isEthernetInterface name = matches_name ETHERNET_INTERFACE_PATTERN name"

definition isVlanInterface :: "string \<Rightarrow> bool" where
  "isVlanInterface name \<longleftrightarrow> CHR ''.'' \<in> set name"

lemma matches_name_no_dot:
  assumes "matches_name ps name" and "\<forall>p \<in> set ps. CHR ''.'' \<notin> set p"
  shows "CHR ''.'' \<notin> set name"
proof -
  from assms(1) obtain p d ds where p: "p \<in> set ps" "take (length p) name = p"
    and d: "drop (length p) name = d # ds" "is_digit d" "list_all is_alnum ds"
  proof -
    from assms(1) obtain p where p: "p \<in> set ps" "take (length p) name = p"
      and r: "case drop (length p) name of [] \<Rightarrow> False | d # ds \<Rightarrow> is_digit d \<and> list_all is_alnum ds"
      unfolding matches_name_def list_ex_iff by blast
    show thesis using p r by (cases "drop (length p) name") (auto intro: that)
  qed
  have "name = p @ d # ds" using append_take_drop_id [of "length p" name] p d by metis
  moreover have "d \<noteq> CHR ''.''" using d(2) by (auto simp: is_digit_def digit_of_def Let_def)
  moreover have "CHR ''.'' \<notin> set ds" using d(3) by (auto simp: list_all_iff is_alnum_def Let_def)
  ultimately show ?thesis using p assms(2) by auto
qed

lemma matches_name_mono:
  "set ps \<subseteq> set qs \<Longrightarrow> matches_name ps name \<Longrightarrow> matches_name qs name"
  by (auto simp: matches_name_def list_ex_iff)

text \<open>Every Ethernet name is a physical one, and no physical name is a VLAN's.\<close>

lemma isEthernetInterface_kinds:
  "isEthernetInterface name \<Longrightarrow> isPhysicalInterface name"
  "isPhysicalInterface name \<Longrightarrow> \<not> isVlanInterface name"
proof -
  show "isEthernetInterface name \<Longrightarrow> isPhysicalInterface name"
    unfolding isEthernetInterface_def isPhysicalInterface_def
    by (erule matches_name_mono [rotated])
       (simp add: ETHERNET_INTERFACE_PATTERN_def PHYSICAL_INTERFACE_PATTERN_def)
  show "isPhysicalInterface name \<Longrightarrow> \<not> isVlanInterface name"
    unfolding isPhysicalInterface_def isVlanInterface_def
    by (erule matches_name_no_dot) (simp add: PHYSICAL_INTERFACE_PATTERN_def)
qed

subsection \<open>Forms\<close>

record CommonInterfaceFormValues =
  cv_description :: string
  cv_disabled :: bool
  cv_mac :: string
  cv_mtu :: string
  cv_vrf :: string

definition blankCommonFormValues :: CommonInterfaceFormValues where
  "blankCommonFormValues =
     \<lparr>cv_description = '''', cv_disabled = False, cv_mac = '''', cv_mtu = '''', cv_vrf = ''''\<rparr>"

text \<open>\<open>n !== undefined ? String(n) : ''\<close>\<close>

definition num_text :: "jsnum option \<Rightarrow> string" where
  "num_text n = (case n of Some x \<Rightarrow> js_num_str x | None \<Rightarrow> '''')"

definition commonToFormValues :: "'a CommonInterface_scheme \<Rightarrow> CommonInterfaceFormValues" where
  "commonToFormValues iface =
     \<lparr>cv_description = or_else (ci_description iface) '''',
      cv_disabled = ci_disabled iface,
      cv_mac = or_else (ci_mac iface) '''',
      cv_mtu = num_text (ci_mtu iface),
      cv_vrf = or_else (ci_vrf iface) ''''\<rparr>"

definition COMMON_SCALAR_FIELDS :: "'a CommonInterfaceFormValues_scheme scalar_field list" where
  "COMMON_SCALAR_FIELDS =
     [(cv_description, [''description'']), (cv_mac, [''mac'']), (cv_mtu, [''mtu'']), (cv_vrf, [''vrf''])]"

definition COMMON_FLAG_FIELDS :: "'a CommonInterfaceFormValues_scheme flag_field list" where
  "COMMON_FLAG_FIELDS = [(cv_disabled, [''disable''])]"

definition blankEthernetFormValues :: CommonInterfaceFormValues where
  "blankEthernetFormValues = blankCommonFormValues"

definition ethernetToFormValues :: "EthernetInterface \<Rightarrow> CommonInterfaceFormValues" where
  "ethernetToFormValues iface = commonToFormValues iface"

definition ethernetFormToOps ::
    "string \<Rightarrow> EthernetInterface option \<Rightarrow> CommonInterfaceFormValues \<Rightarrow> ConfigOp list" where
  "ethernetFormToOps name before values =
     (let beforeValues = (case before of Some x \<Rightarrow> ethernetToFormValues x | None \<Rightarrow> blankEthernetFormValues)
      in diffToOps (ethernetPath name []) COMMON_SCALAR_FIELDS COMMON_FLAG_FIELDS beforeValues values)"

definition blankVlanFormValues :: CommonInterfaceFormValues where
  "blankVlanFormValues = blankCommonFormValues"

definition vlanToFormValues :: "InterfaceVlan \<Rightarrow> CommonInterfaceFormValues" where
  "vlanToFormValues vlan = commonToFormValues vlan"

definition vlanFormToOps ::
    "path \<Rightarrow> string \<Rightarrow> InterfaceVlan option \<Rightarrow> CommonInterfaceFormValues \<Rightarrow> ConfigOp list" where
  "vlanFormToOps parentPath vlanId before values =
     (let beforeValues = (case before of Some x \<Rightarrow> vlanToFormValues x | None \<Rightarrow> blankVlanFormValues)
      in diffToOps (vlanPath parentPath vlanId []) COMMON_SCALAR_FIELDS COMMON_FLAG_FIELDS
           beforeValues values)"

record BondFormValues = CommonInterfaceFormValues +
  bv_mode :: string
  bv_hashPolicy :: string
  bv_primary :: string
  bv_lacpRate :: string
  bv_minLinks :: string

text \<open>\<open>{ ...common, mode, ... }\<close>: the common values extended with a form's own fields.\<close>

definition blankBondFormValues :: BondFormValues where
  "blankBondFormValues = CommonInterfaceFormValues.extend blankCommonFormValues
     (BondFormValues.fields ''802.3ad'' '''' '''' '''' '''')"

definition bondToFormValues :: "BondInterface \<Rightarrow> BondFormValues" where
  "bondToFormValues bond = CommonInterfaceFormValues.extend (commonToFormValues bond)
     (BondFormValues.fields (bi_mode bond) (or_else (bi_hashPolicy bond) '''')
       (or_else (bi_primary bond) '''') (or_else (bi_lacpRate bond) '''') (num_text (bi_minLinks bond)))"

definition BOND_SCALAR_FIELDS :: "BondFormValues scalar_field list" where
  "BOND_SCALAR_FIELDS = COMMON_SCALAR_FIELDS @
     [(bv_mode, [''mode'']),
      (bv_hashPolicy, [''hash-policy'']),
      (bv_primary, [''primary'']),
      (bv_lacpRate, [''lacp-rate'']),
      (bv_minLinks, [''min-links''])]"

definition bondFormToOps :: "string \<Rightarrow> BondInterface option \<Rightarrow> BondFormValues \<Rightarrow> ConfigOp list" where
  "bondFormToOps name before values =
     (let beforeValues = (case before of Some x \<Rightarrow> bondToFormValues x | None \<Rightarrow> blankBondFormValues)
      in diffToOps (bondPath name []) BOND_SCALAR_FIELDS COMMON_FLAG_FIELDS beforeValues values)"

record BridgeFormValues = CommonInterfaceFormValues +
  gv_stp :: bool
  gv_vlanAware :: bool
  gv_vlanProtocol :: string

definition blankBridgeFormValues :: BridgeFormValues where
  "blankBridgeFormValues = CommonInterfaceFormValues.extend blankCommonFormValues
     (BridgeFormValues.fields False False '''')"

definition bridgeToFormValues :: "BridgeInterface \<Rightarrow> BridgeFormValues" where
  "bridgeToFormValues bridge = CommonInterfaceFormValues.extend (commonToFormValues bridge)
     (BridgeFormValues.fields (gi_stp bridge) (gi_vlanAware bridge)
       (or_else (gi_vlanProtocol bridge) ''''))"

definition BRIDGE_SCALAR_FIELDS :: "BridgeFormValues scalar_field list" where
  "BRIDGE_SCALAR_FIELDS = COMMON_SCALAR_FIELDS @ [(gv_vlanProtocol, [''protocol''])]"

definition BRIDGE_FLAG_FIELDS :: "BridgeFormValues flag_field list" where
  "BRIDGE_FLAG_FIELDS = COMMON_FLAG_FIELDS @ [(gv_stp, [''stp'']), (gv_vlanAware, [''enable-vlan''])]"

definition bridgeFormToOps ::
    "string \<Rightarrow> BridgeInterface option \<Rightarrow> BridgeFormValues \<Rightarrow> ConfigOp list" where
  "bridgeFormToOps name before values =
     (let beforeValues = (case before of Some x \<Rightarrow> bridgeToFormValues x | None \<Rightarrow> blankBridgeFormValues)
      in diffToOps (bridgePath name []) BRIDGE_SCALAR_FIELDS BRIDGE_FLAG_FIELDS beforeValues values)"

subsection \<open>The forms as edit forms\<close>

lemma num_text_read [simp]: "number_leaf v \<Longrightarrow> num_text (asNumber v) = read_str v"
  unfolding num_text_def by (rule asNumber_text)

lemma num_text_None [simp]: "num_text (asNumber None) = ''''"
  by (simp add: num_text_def asNumber_def)

lemma number_leaf_None [simp]: "number_leaf None"
  by (simp add: number_leaf_def)

text \<open>A subtree with an MTU the form shows as it is stored.\<close>

definition common_ok :: "unknown \<Rightarrow> bool" where
  "common_ok t \<longleftrightarrow> number_leaf (child t ''mtu'')"

lemma common_fields:
  "indep_all (map snd (COMMON_SCALAR_FIELDS :: 'a CommonInterfaceFormValues_scheme scalar_field list)
     @ map snd (COMMON_FLAG_FIELDS :: 'a CommonInterfaceFormValues_scheme flag_field list))"
  "[] \<notin> set (map snd (COMMON_SCALAR_FIELDS :: 'a CommonInterfaceFormValues_scheme scalar_field list)
     @ map snd (COMMON_FLAG_FIELDS :: 'a CommonInterfaceFormValues_scheme flag_field list))"
  by (simp_all add: COMMON_SCALAR_FIELDS_def COMMON_FLAG_FIELDS_def)

lemma common_ok_edited:
  assumes "edited_tree sfs ffs b v t t'" and "(cv_mtu, [''mtu'']) \<in> set sfs"
    and "common_ok t" and "number_text (cv_mtu v)" and "trimmed_form sfs v"
  shows "common_ok t'"
proof -
  have "child t' ''mtu'' = edit_result (Scalar_edit (cv_mtu b) (cv_mtu v)) (child t ''mtu'')"
    and "trimmed (cv_mtu v)"
    using assms(1,2,5) by (auto simp: edited_tree_def trimmed_form_def list_all_iff)
  then show ?thesis using assms(3,4) by (simp only: common_ok_def number_leaf_edit)
qed

lemma ethernet_reads:
  "common_ok t \<Longrightarrow> reads COMMON_SCALAR_FIELDS COMMON_FLAG_FIELDS t v
     \<longleftrightarrow> ethernetToFormValues (parseEthernetInterface name t) = v"
  by (cases v) (auto simp: reads_def COMMON_SCALAR_FIELDS_def COMMON_FLAG_FIELDS_def common_ok_def
      ethernetToFormValues_def commonToFormValues_def parseEthernetInterface_def)

lemma vlan_reads:
  "common_ok t \<Longrightarrow> reads COMMON_SCALAR_FIELDS COMMON_FLAG_FIELDS t v
     \<longleftrightarrow> vlanToFormValues (parseVlan vlanId t) = v"
  by (cases v) (auto simp: reads_def COMMON_SCALAR_FIELDS_def COMMON_FLAG_FIELDS_def common_ok_def
      vlanToFormValues_def commonToFormValues_def parseVlan_def)

lemma ethernet_blank: "ethernetToFormValues (parseEthernetInterface name None) = blankEthernetFormValues"
  by (simp add: ethernetToFormValues_def commonToFormValues_def parseEthernetInterface_def
      blankEthernetFormValues_def blankCommonFormValues_def)

lemma vlan_blank: "vlanToFormValues (parseVlan vlanId None) = blankVlanFormValues"
  by (simp add: vlanToFormValues_def commonToFormValues_def parseVlan_def blankVlanFormValues_def
      blankCommonFormValues_def)

interpretation ethernet_form: edit_form COMMON_SCALAR_FIELDS COMMON_FLAG_FIELDS ethernetToFormValues
  "parseEthernetInterface name" blankEthernetFormValues common_ok "\<lambda>v. number_text (cv_mtu v)" for name
proof unfold_locales
  show "edited_tree COMMON_SCALAR_FIELDS COMMON_FLAG_FIELDS
      (ethernetToFormValues (parseEthernetInterface name t)) v t t' \<Longrightarrow> common_ok t \<Longrightarrow>
      number_text (cv_mtu v) \<Longrightarrow> trimmed_form COMMON_SCALAR_FIELDS v \<Longrightarrow> common_ok t'" for t v t'
    by (erule common_ok_edited) (simp_all add: COMMON_SCALAR_FIELDS_def)
qed (simp_all only: not_False_eq_True common_fields ethernet_blank ethernet_reads [where name = name])

interpretation vlan_form: edit_form COMMON_SCALAR_FIELDS COMMON_FLAG_FIELDS vlanToFormValues
  "parseVlan vlanId" blankVlanFormValues common_ok "\<lambda>v. number_text (cv_mtu v)" for vlanId
proof unfold_locales
  show "edited_tree COMMON_SCALAR_FIELDS COMMON_FLAG_FIELDS (vlanToFormValues (parseVlan vlanId t)) v t t'
      \<Longrightarrow> common_ok t \<Longrightarrow> number_text (cv_mtu v) \<Longrightarrow> trimmed_form COMMON_SCALAR_FIELDS v \<Longrightarrow>
      common_ok t'" for t v t'
    by (erule common_ok_edited) (simp_all add: COMMON_SCALAR_FIELDS_def)
qed (simp_all only: not_False_eq_True common_fields vlan_blank vlan_reads [where vlanId = vlanId])

subsection \<open>Bonds and bridges\<close>

text \<open>
  A bond's mode is shown as its default when the device has none, so its form does not read its
  leaves one by one; what it shows after an edit follows from what the edit makes of each leaf.
\<close>

definition shown_literal :: "string list \<Rightarrow> string \<Rightarrow> unknown \<Rightarrow> string" where
  "shown_literal L d v = (if read_str v \<in> set L then read_str v else d)"

lemma shown_literal_edited:
  assumes "'''' \<notin> set L" and "new \<in> set (d # L)" and "trimmed new" and "d \<in> set ('''' # L)"
  shows "shown_literal L d (edit_result (Scalar_edit (shown_literal L d v) new) v) = new"
  using assms by (auto simp: shown_literal_def trimmedD)

lemma shown_text_edited:
  "trimmed new \<Longrightarrow> read_str (edit_result (Scalar_edit (read_str v) new) v) = new"
  by (rule edit_result_read [OF refl])

lemma shown_number_edited:
  assumes "number_leaf v" and "number_text new" and "trimmed new"
  shows "num_text (asNumber (edit_result (Scalar_edit (read_str v) new) v)) = new"
  using number_leaf_edit [OF assms, of "read_str v"] assms
  by (simp only: num_text_read shown_text_edited)

lemmas shown_edited = shown_literal_edited shown_text_edited shown_number_edited

lemma bond_shows:
  "bondToFormValues (parseBondInterface name t) =
     \<lparr>cv_description = read_str (child t ''description''),
      cv_disabled = (child t ''disable'' \<noteq> None),
      cv_mac = read_str (child t ''mac''),
      cv_mtu = num_text (asNumber (child t ''mtu'')),
      cv_vrf = read_str (child t ''vrf''),
      bv_mode = shown_literal BOND_MODES ''802.3ad'' (child t ''mode''),
      bv_hashPolicy = shown_literal BOND_HASH_POLICIES '''' (child t ''hash-policy''),
      bv_primary = read_str (child t ''primary''),
      bv_lacpRate = shown_literal BOND_LACP_RATES '''' (child t ''lacp-rate''),
      bv_minLinks = num_text (asNumber (child t ''min-links''))\<rparr>"
  by (simp add: bondToFormValues_def commonToFormValues_def parseBondInterface_def shown_literal_def
      CommonInterfaceFormValues.defs BondFormValues.defs Let_def)

lemma bridge_shows:
  "bridgeToFormValues (parseBridgeInterface lc name t) =
     \<lparr>cv_description = read_str (child t ''description''),
      cv_disabled = (child t ''disable'' \<noteq> None),
      cv_mac = read_str (child t ''mac''),
      cv_mtu = num_text (asNumber (child t ''mtu'')),
      cv_vrf = read_str (child t ''vrf''),
      gv_stp = (child t ''stp'' \<noteq> None),
      gv_vlanAware = (child t ''enable-vlan'' \<noteq> None),
      gv_vlanProtocol = shown_literal BRIDGE_VLAN_PROTOCOLS '''' (child t ''protocol'')\<rparr>"
  by (simp add: bridgeToFormValues_def commonToFormValues_def parseBridgeInterface_def
      shown_literal_def CommonInterfaceFormValues.defs BridgeFormValues.defs Let_def)

definition bond_ok :: "unknown \<Rightarrow> bool" where
  "bond_ok t \<longleftrightarrow> common_ok t \<and> number_leaf (child t ''min-links'')"

definition bond_values_ok :: "BondFormValues \<Rightarrow> bool" where
  "bond_values_ok v \<longleftrightarrow> number_text (cv_mtu v) \<and> number_text (bv_minLinks v)
     \<and> bv_mode v \<in> set BOND_MODES \<and> bv_hashPolicy v \<in> set ('''' # BOND_HASH_POLICIES)
     \<and> bv_lacpRate v \<in> set ('''' # BOND_LACP_RATES)"

lemma bond_fields:
  "indep_all (map snd BOND_SCALAR_FIELDS @ map snd (COMMON_FLAG_FIELDS :: BondFormValues flag_field list))"
  "[] \<notin> set (map snd BOND_SCALAR_FIELDS @ map snd (COMMON_FLAG_FIELDS :: BondFormValues flag_field list))"
  by (simp_all add: BOND_SCALAR_FIELDS_def COMMON_SCALAR_FIELDS_def COMMON_FLAG_FIELDS_def)

lemma bond_edited:
  assumes "edited_tree BOND_SCALAR_FIELDS COMMON_FLAG_FIELDS (bondToFormValues (parseBondInterface name t)) v t t'"
    and "bond_ok t" and "bond_values_ok v" and "trimmed_form BOND_SCALAR_FIELDS v"
  shows "bondToFormValues (parseBondInterface name t') = v \<and> bond_ok t'"
proof -
  have l: "'''' \<notin> set BOND_MODES" "'''' \<notin> set BOND_HASH_POLICIES" "'''' \<notin> set BOND_LACP_RATES"
    "''802.3ad'' \<in> set BOND_MODES"
    by (simp_all add: BOND_MODES_def BOND_HASH_POLICIES_def BOND_LACP_RATES_def)
  note defs = edited_tree_def trimmed_form_def BOND_SCALAR_FIELDS_def COMMON_SCALAR_FIELDS_def
    COMMON_FLAG_FIELDS_def bond_ok_def common_ok_def bond_values_ok_def bond_shows
  have "bondToFormValues (parseBondInterface name t') = v"
    using assms l by (cases v) (simp add: defs shown_edited insert_absorb del: edit_result.simps(1))
  moreover have "bond_ok t'"
    using assms by (simp add: defs number_leaf_edit del: edit_result.simps(1))
  ultimately show ?thesis ..
qed

lemma bond_blank: "bondToFormValues (parseBondInterface name None) = blankBondFormValues"
  unfolding bond_shows
  by (simp add: blankBondFormValues_def blankCommonFormValues_def shown_literal_def
      CommonInterfaceFormValues.defs BondFormValues.defs BOND_MODES_def BOND_HASH_POLICIES_def
      BOND_LACP_RATES_def)

interpretation bond_form: form_contract BOND_SCALAR_FIELDS COMMON_FLAG_FIELDS bondToFormValues
  "parseBondInterface name" blankBondFormValues bond_ok bond_values_ok for name
  by unfold_locales (fact bond_fields bond_blank | blast dest: bond_edited)+

definition bridge_values_ok :: "BridgeFormValues \<Rightarrow> bool" where
  "bridge_values_ok v \<longleftrightarrow> number_text (cv_mtu v) \<and> gv_vlanProtocol v \<in> set ('''' # BRIDGE_VLAN_PROTOCOLS)"

lemma bridge_fields:
  "indep_all (map snd BRIDGE_SCALAR_FIELDS @ map snd BRIDGE_FLAG_FIELDS)"
  "[] \<notin> set (map snd BRIDGE_SCALAR_FIELDS @ map snd BRIDGE_FLAG_FIELDS)"
  by (simp_all add: BRIDGE_SCALAR_FIELDS_def BRIDGE_FLAG_FIELDS_def COMMON_SCALAR_FIELDS_def
      COMMON_FLAG_FIELDS_def)

lemma bridge_edited:
  assumes "edited_tree BRIDGE_SCALAR_FIELDS BRIDGE_FLAG_FIELDS
      (bridgeToFormValues (parseBridgeInterface lc name t)) v t t'"
    and "common_ok t" and "bridge_values_ok v" and "trimmed_form BRIDGE_SCALAR_FIELDS v"
  shows "bridgeToFormValues (parseBridgeInterface lc name t') = v \<and> common_ok t'"
proof -
  have l: "'''' \<notin> set BRIDGE_VLAN_PROTOCOLS" by (simp add: BRIDGE_VLAN_PROTOCOLS_def)
  note defs = edited_tree_def trimmed_form_def BRIDGE_SCALAR_FIELDS_def BRIDGE_FLAG_FIELDS_def
    COMMON_SCALAR_FIELDS_def COMMON_FLAG_FIELDS_def common_ok_def bridge_values_ok_def bridge_shows
  have "bridgeToFormValues (parseBridgeInterface lc name t') = v"
    using assms l by (cases v) (simp add: defs shown_edited del: edit_result.simps(1))
  moreover have "common_ok t'"
    using assms by (simp add: defs number_leaf_edit del: edit_result.simps(1))
  ultimately show ?thesis ..
qed

lemma bridge_blank: "bridgeToFormValues (parseBridgeInterface lc name None) = blankBridgeFormValues"
  unfolding bridge_shows
  by (simp add: blankBridgeFormValues_def blankCommonFormValues_def shown_literal_def
      CommonInterfaceFormValues.defs BridgeFormValues.defs BRIDGE_VLAN_PROTOCOLS_def)

interpretation bridge_form: form_contract BRIDGE_SCALAR_FIELDS BRIDGE_FLAG_FIELDS bridgeToFormValues
  "parseBridgeInterface lc name" blankBridgeFormValues common_ok bridge_values_ok for lc name
  by unfold_locales (fact bridge_fields bridge_blank | blast dest: bridge_edited)+

text \<open>
  The bonding form, whose mode has a default the device need not store. Edited into values of the
  form's choices and applied, a bond reads back as those values, even where the device holds a mode
  or policy the form does not know; the form can edit it again; nothing else on the device changes.
\<close>

theorem bond_form_roundtrip:
  assumes "trimmed_form BOND_SCALAR_FIELDS v" and "bond_values_ok v"
    and "p = bondPath name []" and "bond_ok (device_get m p)" and "indep p q"
    and "m' = device_apply (bondFormToOps name (device_item (parseBondInterface name) m p) v) m"
  shows "bondToFormValues (parseBondInterface name (device_get m' p)) = v
    \<and> bond_ok (device_get m' p) \<and> device_get m' q = device_get m q
    \<and> bondFormToOps name (device_item (parseBondInterface name) m' p) v = []"
  unfolding assms(6) bondFormToOps_def Let_def assms(3) [symmetric]
  using bond_form.roundtrip [OF assms(4,2,1)] bond_form.ok_after [OF assms(4,2,1)]
    bond_form.elsewhere [OF assms(5)] bond_form.settled [OF assms(4,2,1) refl] by blast

theorem bond_form_roundtrip_witness:
  "bondToFormValues (parseBondInterface ''bond0'' (device_get (device_apply (bondFormToOps ''bond0'' None
     (blankBondFormValues\<lparr>cv_vrf := ''red''\<rparr>)) []) (bondPath ''bond0'' [])))
   = blankBondFormValues\<lparr>cv_vrf := ''red''\<rparr>"
proof -
  let ?p = "bondPath ''bond0'' []" and ?v = "blankBondFormValues\<lparr>cv_vrf := ''red''\<rparr>"
  have 1: "trimmed_form BOND_SCALAR_FIELDS ?v" "bond_ok (device_get [] ?p)" "indep ?p [''system'']"
    "device_item (parseBondInterface ''bond0'') [] ?p = None"
    by code_simp+
  have 2: "bond_values_ok ?v"
    by (simp add: bond_values_ok_def number_text_def blankBondFormValues_def blankCommonFormValues_def
        CommonInterfaceFormValues.defs BondFormValues.defs BOND_MODES_def)
  from bond_form_roundtrip [OF 1(1) 2 refl 1(2,3) refl] 1(4) show ?thesis by simp
qed

end
