(* ===== verification/System.thy ===== *)
theory System
  imports FakeVyos
begin

text \<open>
  The system section: the interfaces of \<open>lib/systemTypes.ts\<close>, the parser of \<open>lib/systemParse.ts\<close>, the
  general form and static host mappings of \<open>lib/systemGeneralForm.ts\<close>, the syslog ops of
  \<open>lib/systemSyslogForm.ts\<close> and the user form (write-only password) and public keys of
  \<open>lib/systemUserForm.ts\<close>. \<open>lc\<close> is the collation of \<open>localeCompare\<close>.
\<close>

subsection \<open>Types\<close>

record SystemGeneralSettings =
  sg_hostName :: "string option"
  sg_domainName :: "string option"
  sg_domainSearch :: "string list"
  sg_nameServers :: "string list"
  sg_timeZone :: "string option"

definition blankGeneralSettings :: SystemGeneralSettings where
  "blankGeneralSettings =
     \<lparr>sg_hostName = None,
      sg_domainName = None,
      sg_domainSearch = [],
      sg_nameServers = [],
      sg_timeZone = None\<rparr>"

record StaticHostMapping =
  shm_hostName :: string
  shm_addresses :: "string list"
  shm_aliases :: "string list"

record SystemUserPublicKey =
  pk_identifier :: string
  pk_type :: "string option"
  pk_options :: "string option"
  pk_hasKey :: bool

record SystemUser =
  su_username :: string
  su_fullName :: "string option"
  su_disabled :: bool
  su_hasPassword :: bool
  su_publicKeys :: "SystemUserPublicKey list"

record SyslogFacilityRule =
  sf_facility :: string
  sf_level :: "string option"

record SyslogRemoteHost =
  srh_address :: string
  srh_facilities :: "SyslogFacilityRule list"
  srh_protocol :: "string option"
  srh_port :: "string option"

record SystemSyslogConfig =
  ssc_local :: "SyslogFacilityRule list"
  ssc_remote :: "SyslogRemoteHost list"

definition blankSyslogConfig :: SystemSyslogConfig where
  "blankSyslogConfig =
     \<lparr>ssc_local = [],
      ssc_remote = []\<rparr>"

record SystemConfig =
  sc_general :: SystemGeneralSettings
  sc_staticHostMappings :: "StaticHostMapping list"
  sc_users :: "SystemUser list"
  sc_syslog :: SystemSyslogConfig

subsection \<open>Parsing\<close>

definition parseGeneralSettings :: "unknown \<Rightarrow> SystemGeneralSettings" where
  "parseGeneralSettings system =
     (if system = None then blankGeneralSettings
      else \<lparr>sg_hostName = asString (child system ''host-name''),
            sg_domainName = asString (child system ''domain-name''),
            sg_domainSearch = asStringArray (child system ''domain-search''),
            sg_nameServers = asStringArray (child system ''name-server''),
            sg_timeZone = asString (child system ''time-zone'')\<rparr>)"

definition parseStaticHostMappings :: "collation \<Rightarrow> unknown \<Rightarrow> StaticHostMapping list" where
  "parseStaticHostMappings lc system =
     parse_entries (\<lambda>hostName raw. \<lparr>shm_hostName = hostName,
         shm_addresses = asStringArray (child raw ''inet''),
         shm_aliases = asStringArray (child raw ''alias'')\<rparr>)
       (\<lambda>a b. lc (shm_hostName a) (shm_hostName b))
       (child (child system ''static-host-mapping'') ''host-name'')"

definition parsePublicKey :: "string \<Rightarrow> unknown \<Rightarrow> SystemUserPublicKey" where
  "parsePublicKey ident raw =
     \<lparr>pk_identifier = ident,
      pk_type = asString (child raw ''type''),
      pk_options = asString (child raw ''options''),
      pk_hasKey = (child raw ''key'' \<noteq> None)\<rparr>"

definition parseUser :: "collation \<Rightarrow> string \<Rightarrow> unknown \<Rightarrow> SystemUser" where
  "parseUser lc username raw =
     (let authRoot = child raw ''authentication''
      in \<lparr>su_username = username,
          su_fullName = asString (child raw ''full-name''),
          su_disabled = isFlagPresent raw ''disable'',
          su_hasPassword = (child authRoot ''encrypted-password'' \<noteq> None),
          su_publicKeys = parse_entries parsePublicKey (\<lambda>a b. lc (pk_identifier a) (pk_identifier b))
            (child authRoot ''public-keys'')\<rparr>)"

definition parseUsers :: "collation \<Rightarrow> unknown \<Rightarrow> SystemUser list" where
  "parseUsers lc system =
     parse_entries (parseUser lc) (\<lambda>a b. lc (su_username a) (su_username b))
       (child (child system ''login'') ''user'')"

definition parseFacilityRules :: "collation \<Rightarrow> unknown \<Rightarrow> SyslogFacilityRule list" where
  "parseFacilityRules lc node =
     parse_entries (\<lambda>facility raw. \<lparr>sf_facility = facility, sf_level = asString (child raw ''level'')\<rparr>)
       (\<lambda>a b. lc (sf_facility a) (sf_facility b)) (child node ''facility'')"

definition parseRemoteHost :: "collation \<Rightarrow> string \<Rightarrow> unknown \<Rightarrow> SyslogRemoteHost" where
  "parseRemoteHost lc address raw =
     \<lparr>srh_address = address,
      srh_facilities = parseFacilityRules lc raw,
      srh_protocol = asString (child raw ''protocol''),
      srh_port = asString (child raw ''port'')\<rparr>"

definition parseSyslogConfig :: "collation \<Rightarrow> unknown \<Rightarrow> SystemSyslogConfig" where
  "parseSyslogConfig lc system =
     (let syslogRoot = child system ''syslog''
      in if syslogRoot = None then blankSyslogConfig
         else \<lparr>ssc_local = parseFacilityRules lc (child syslogRoot ''local''),
               ssc_remote = parse_entries (parseRemoteHost lc)
                 (\<lambda>a b. lc (srh_address a) (srh_address b)) (child syslogRoot ''remote'')\<rparr>)"

definition parseSystemConfig :: "collation \<Rightarrow> unknown \<Rightarrow> SystemConfig" where
  "parseSystemConfig lc system =
     \<lparr>sc_general = parseGeneralSettings system,
      sc_staticHostMappings = parseStaticHostMappings lc system,
      sc_users = parseUsers lc system,
      sc_syslog = parseSyslogConfig lc system\<rparr>"

definition systemPath :: "path \<Rightarrow> path" where
  "systemPath rest = [''system''] @ rest"

definition staticHostMappingPath :: "string \<Rightarrow> path \<Rightarrow> path" where
  "staticHostMappingPath hostName rest = systemPath ([''static-host-mapping'', ''host-name'', hostName] @ rest)"

definition userPath :: "string \<Rightarrow> path \<Rightarrow> path" where
  "userPath username rest = systemPath ([''login'', ''user'', username] @ rest)"

definition publicKeyPath :: "string \<Rightarrow> string \<Rightarrow> path \<Rightarrow> path" where
  "publicKeyPath username ident rest =
     userPath username ([''authentication'', ''public-keys'', ident] @ rest)"

definition syslogLocalPath :: "path \<Rightarrow> path" where
  "syslogLocalPath rest = systemPath ([''syslog'', ''local''] @ rest)"

definition syslogRemotePath :: "string \<Rightarrow> path \<Rightarrow> path" where
  "syslogRemotePath address rest = systemPath ([''syslog'', ''remote'', address] @ rest)"

subsection \<open>General settings and host mappings\<close>

record SystemGeneralFormValues =
  sgv_hostName :: string
  sgv_domainName :: string
  sgv_timeZone :: string

definition blankGeneralFormValues :: SystemGeneralFormValues where
  "blankGeneralFormValues =
     \<lparr>sgv_hostName = '''',
      sgv_domainName = '''',
      sgv_timeZone = ''''\<rparr>"

definition generalToFormValues :: "SystemGeneralSettings \<Rightarrow> SystemGeneralFormValues" where
  "generalToFormValues settings =
     \<lparr>sgv_hostName = or_else (sg_hostName settings) '''',
      sgv_domainName = or_else (sg_domainName settings) '''',
      sgv_timeZone = or_else (sg_timeZone settings) ''''\<rparr>"

definition GENERAL_SCALAR_FIELDS :: "SystemGeneralFormValues scalar_field list" where
  "GENERAL_SCALAR_FIELDS =
     [(sgv_hostName, [''host-name'']),
      (sgv_domainName, [''domain-name'']),
      (sgv_timeZone, [''time-zone''])]"

definition generalFormToOps :: "SystemGeneralSettings \<Rightarrow> SystemGeneralFormValues \<Rightarrow> ConfigOp list" where
  "generalFormToOps before values =
     (let beforeValues = generalToFormValues before
      in diffToOps (systemPath []) GENERAL_SCALAR_FIELDS [] beforeValues values)"

definition addStaticHostMappingOps :: "string \<Rightarrow> string \<Rightarrow> string \<Rightarrow> ConfigOp list" where
  "addStaticHostMappingOps hostName address alias =
     (let base = staticHostMappingPath hostName []; trimmedAlias = js_trim alias
      in set_op (base @ [''inet'']) address
         # (if trimmedAlias \<noteq> '''' then [set_op (base @ [''alias'']) trimmedAlias] else []))"

definition deleteStaticHostMappingOp :: "string \<Rightarrow> ConfigOp" where
  "deleteStaticHostMappingOp hostName = delete_op (staticHostMappingPath hostName [])"

subsection \<open>Syslog\<close>

text \<open>\<open>{ set base; if (level) set base/level }\<close>, the shape of a facility rule.\<close>

definition facility_ops :: "path \<Rightarrow> string \<Rightarrow> ConfigOp list" where
  "facility_ops base level =
     set_flag base # (if level \<noteq> '''' then [set_op (base @ [''level'']) level] else [])"

definition addLocalFacilityOps :: "string \<Rightarrow> string \<Rightarrow> ConfigOp list" where
  "addLocalFacilityOps facility level = facility_ops (syslogLocalPath [''facility'', facility]) level"

definition removeLocalFacilityOp :: "string \<Rightarrow> ConfigOp" where
  "removeLocalFacilityOp facility = delete_op (syslogLocalPath [''facility'', facility])"

definition addRemoteHostOps ::
    "string \<Rightarrow> string \<Rightarrow> string \<Rightarrow> string \<Rightarrow> string \<Rightarrow> ConfigOp list" where
  "addRemoteHostOps address facility level protocol port =
     (let base = syslogRemotePath address []; trimmedPort = js_trim port
      in facility_ops (base @ [''facility'', facility]) level
         @ (if protocol \<noteq> '''' then [set_op (base @ [''protocol'']) protocol] else [])
         @ (if trimmedPort \<noteq> '''' then [set_op (base @ [''port'']) trimmedPort] else []))"

definition deleteRemoteHostOp :: "string \<Rightarrow> ConfigOp" where
  "deleteRemoteHostOp address = delete_op (syslogRemotePath address [])"

definition addRemoteFacilityOps :: "string \<Rightarrow> string \<Rightarrow> string \<Rightarrow> ConfigOp list" where
  "addRemoteFacilityOps address facility level =
     facility_ops (syslogRemotePath address [] @ [''facility'', facility]) level"

definition removeRemoteFacilityOp :: "string \<Rightarrow> string \<Rightarrow> ConfigOp" where
  "removeRemoteFacilityOp address facility =
     delete_op (syslogRemotePath address [] @ [''facility'', facility])"

definition setRemoteProtocolOp :: "string \<Rightarrow> string \<Rightarrow> ConfigOp" where
  "setRemoteProtocolOp address protocol = set_op (syslogRemotePath address [] @ [''protocol'']) protocol"

definition setRemotePortOp :: "string \<Rightarrow> string \<Rightarrow> ConfigOp" where
  "setRemotePortOp address port = set_op (syslogRemotePath address [] @ [''port'']) port"

subsection \<open>Users\<close>

record SystemUserFormValues =
  suv_fullName :: string
  suv_disabled :: bool
  suv_password :: string

definition blankUserFormValues :: SystemUserFormValues where
  "blankUserFormValues =
     \<lparr>suv_fullName = '''',
      suv_disabled = False,
      suv_password = ''''\<rparr>"

definition userToFormValues :: "SystemUser \<Rightarrow> SystemUserFormValues" where
  "userToFormValues user =
     \<lparr>suv_fullName = or_else (su_fullName user) '''',
      suv_disabled = su_disabled user,
      suv_password = ''''\<rparr>"

definition userFormToOps :: "string \<Rightarrow> SystemUser option \<Rightarrow> SystemUserFormValues \<Rightarrow> ConfigOp list" where
  "userFormToOps username before values =
     (let beforeValues = (case before of Some x \<Rightarrow> userToFormValues x | None \<Rightarrow> blankUserFormValues);
          base = userPath username [];
          trimmedPassword = js_trim (suv_password values)
      in (if before = None then [set_flag base] else [])
         @ scalar_diff (base @ [''full-name'']) (suv_fullName beforeValues) (suv_fullName values)
         @ flag_diff (base @ [''disable'']) (suv_disabled beforeValues) (suv_disabled values)
         @ (if trimmedPassword \<noteq> ''''
            then [set_op (base @ [''authentication'', ''plaintext-password'']) trimmedPassword] else []))"

definition deleteUserOp :: "string \<Rightarrow> ConfigOp" where
  "deleteUserOp username = delete_op (userPath username [])"

definition addPublicKeyOps ::
    "string \<Rightarrow> string \<Rightarrow> string \<Rightarrow> string \<Rightarrow> string \<Rightarrow> ConfigOp list" where
  "addPublicKeyOps username ident key type options =
     (let base = publicKeyPath username ident []; trimmedOptions = js_trim options
      in set_op (base @ [''key'']) key
         # (if type \<noteq> '''' then [set_op (base @ [''type'']) type] else [])
         @ (if trimmedOptions \<noteq> '''' then [set_op (base @ [''options'']) trimmedOptions] else []))"

definition removePublicKeyOp :: "string \<Rightarrow> string \<Rightarrow> ConfigOp" where
  "removePublicKeyOp username ident = delete_op (publicKeyPath username ident [])"

subsection \<open>The forms on the device\<close>

lemma general_fields:
  "indep_all (map snd GENERAL_SCALAR_FIELDS @ map snd ([] :: SystemGeneralFormValues flag_field list))" "[] \<notin> set (map snd GENERAL_SCALAR_FIELDS @ map snd ([] :: SystemGeneralFormValues flag_field list))"
  by (simp_all add: GENERAL_SCALAR_FIELDS_def  )

lemmas general_form_defs = generalToFormValues_def parseGeneralSettings_def blankGeneralSettings_def

lemma general_reads: "reads GENERAL_SCALAR_FIELDS [] t v \<longleftrightarrow> generalToFormValues (parseGeneralSettings t) = v"
  by (cases v)
     (auto simp: reads_def GENERAL_SCALAR_FIELDS_def   general_form_defs Let_def)

lemma general_blank: "generalToFormValues (parseGeneralSettings None) = blankGeneralFormValues"
  by (simp add: general_form_defs blankGeneralFormValues_def Let_def)

interpretation general_form: edit_form GENERAL_SCALAR_FIELDS "[]" generalToFormValues parseGeneralSettings blankGeneralFormValues
  "\<lambda>t. True" "\<lambda>v. True"
  by unfold_locales (simp_all only: not_False_eq_True general_fields general_blank general_reads)

definition USER_SCALAR_FIELDS :: "SystemUserFormValues scalar_field list" where
  "USER_SCALAR_FIELDS = [(suv_fullName, [''full-name''])]"

definition USER_FLAG_FIELDS :: "SystemUserFormValues flag_field list" where
  "USER_FLAG_FIELDS = [(suv_disabled, [''disable''])]"

lemma user_fields:
  "indep_all (map snd USER_SCALAR_FIELDS @ map snd USER_FLAG_FIELDS)"
  "[] \<notin> set (map snd USER_SCALAR_FIELDS @ map snd USER_FLAG_FIELDS)"
  by (simp_all add: USER_SCALAR_FIELDS_def USER_FLAG_FIELDS_def)

lemma user_reads:
  "reads USER_SCALAR_FIELDS USER_FLAG_FIELDS t v
     \<longleftrightarrow> userToFormValues (parseUser lc username t) = v\<lparr>suv_password := ''''\<rparr>"
  by (cases v) (auto simp: reads_def USER_SCALAR_FIELDS_def USER_FLAG_FIELDS_def userToFormValues_def
      parseUser_def Let_def)

lemma user_blank: "userToFormValues (parseUser lc username None) = blankUserFormValues"
  by (simp add: userToFormValues_def parseUser_def blankUserFormValues_def)

definition user_password_ops :: "path \<Rightarrow> string \<Rightarrow> ConfigOp list" where
  "user_password_ops base pw =
     (if js_trim pw \<noteq> '''' then [set_op (base @ [''authentication'', ''plaintext-password'']) (js_trim pw)] else [])"

lemma userFormToOps_diff:
  "userFormToOps username before v
     = (if before = None then [set_flag (userPath username [])] else [])
       @ diffToOps (userPath username []) USER_SCALAR_FIELDS USER_FLAG_FIELDS
           (case before of Some x \<Rightarrow> userToFormValues x | None \<Rightarrow> blankUserFormValues) v
       @ user_password_ops (userPath username []) (suv_password v)"
  by (simp add: userFormToOps_def diffToOps_def USER_SCALAR_FIELDS_def USER_FLAG_FIELDS_def
      user_password_ops_def Let_def)

text \<open>Setting a node that exists leaves it; setting one that does not makes an empty node.\<close>

lemma set_flag_missing:
  "p \<noteq> [] \<Longrightarrow> device_get m p = None \<Longrightarrow> device_get (setNested p '''' m) p = Some (JObj [])"
  by (simp add: setNested_flag)

text \<open>
  The user form, with its write-only password. Saving the form makes the user exist on the device
  (even when every field is left blank), with the full name and the disable flag of the form; the
  password is sent as the trimmed plain-text input only when it is not blank, and otherwise the
  authentication node is untouched; the form opened again never shows it; no other path changes.
\<close>

theorem system_user_form:
  assumes "trimmed_form USER_SCALAR_FIELDS v" and "p = userPath username []" and "indep p q"
    and "m' = device_apply (userFormToOps username (device_item (parseUser lc username) m p) v) m"
  shows "userToFormValues (parseUser lc username (device_get m' p)) = v\<lparr>suv_password := ''''\<rparr>
    \<and> (js_trim (suv_password v) \<noteq> '''' \<longrightarrow> device_get m' (p @ [''authentication'', ''plaintext-password''])
         = Some (JStr (js_trim (suv_password v))))
    \<and> (js_trim (suv_password v) = '''' \<longrightarrow>
         device_get m' (p @ [''authentication'']) = device_get m (p @ [''authentication'']))
    \<and> device_get m' p \<noteq> None
    \<and> device_get m' q = device_get m q"
proof -
  let ?b = "userToFormValues (parseUser lc username (device_get m p))"
  let ?new = "if device_get m p = None then [set_flag p] else []"
  define n where "n = device_apply ?new m"
  define d where "d = device_apply (diffToOps p USER_SCALAR_FIELDS USER_FLAG_FIELDS ?b v) n"
  have p: "p \<noteq> []" by (simp add: assms(2) userPath_def systemPath_def)
  have item: "(device_item (parseUser lc username) m p = None) = (device_get m p = None)"
    by (simp add: device_item_def)
  have m': "m' = device_apply (user_password_ops p (suv_password v)) d"
    unfolding assms(4) userFormToOps_diff item assms(2) [symmetric]
      device_item_values [where to = userToFormValues and parse = "parseUser lc username", OF user_blank]
    by (simp add: d_def n_def)
  have n_sub: "device_get n (p @ s) = device_get m (p @ s)" if "s \<noteq> []" for s
  proof (cases "device_get m p = None")
    case True
    then have "device_get n p = Some (JObj [])" by (simp add: n_def set_flag_missing p)
    then show ?thesis using that True by (cases s) (simp_all add: device_get_append)
  next
    case False
    then show ?thesis by (auto simp: n_def)
  qed
  have "reads USER_SCALAR_FIELDS USER_FLAG_FIELDS (device_get n p) ?b"
    using n_sub [of "[''full-name'']"] n_sub [of "[''disable'']"]
    by (simp add: reads_def USER_SCALAR_FIELDS_def USER_FLAG_FIELDS_def device_get_append
        userToFormValues_def parseUser_def Let_def)
  then have "reads USER_SCALAR_FIELDS USER_FLAG_FIELDS (device_get d p) v"
    unfolding d_def by (rule form_applied [OF user_fields _ assms(1)])
  moreover have "reads USER_SCALAR_FIELDS USER_FLAG_FIELDS (device_get m' p) v
      \<longleftrightarrow> reads USER_SCALAR_FIELDS USER_FLAG_FIELDS (device_get d p) v"
    unfolding m' by (rule reads_frame)
      (simp add: user_password_ops_def op_defs USER_SCALAR_FIELDS_def USER_FLAG_FIELDS_def)
  ultimately have "userToFormValues (parseUser lc username (device_get m' p)) = v\<lparr>suv_password := ''''\<rparr>"
    by (simp only: user_reads [of _ _ lc username])
  moreover have "device_get d (p @ [''authentication'']) = device_get n (p @ [''authentication''])"
    unfolding d_def by (rule form_frame) (simp add: USER_SCALAR_FIELDS_def USER_FLAG_FIELDS_def)
  moreover have "device_get m' p \<noteq> None"
  proof -
    have n: "device_get n p \<noteq> None" by (auto simp: n_def set_flag_missing p)
    have "device_get d p \<noteq> None" unfolding d_def
      by (rule ops_keep_present [OF n])
         (auto simp: diffToOps_def scalar_diff_def flag_diff_def op_defs USER_SCALAR_FIELDS_def USER_FLAG_FIELDS_def)
    then show ?thesis unfolding m'
      by (rule ops_keep_present) (auto simp: user_password_ops_def op_defs)
  qed
  moreover have "device_get m' q = device_get d q"
    using indep_extend_left [OF assms(3)] by (simp add: m' user_password_ops_def setNested_other)
  moreover have "device_get d q = device_get n q" unfolding d_def by (rule form_frame_outside [OF assms(3)])
  moreover have "device_get n q = device_get m q" using assms(3) by (simp add: n_def setNested_other)
  ultimately show ?thesis
    using n_sub [of "[''authentication'']"] p
    by (auto simp: m' user_password_ops_def setNested_value set_flag_missing)
qed

definition sample_user_values :: SystemUserFormValues where
  "sample_user_values = \<lparr>suv_fullName = ''Ann'', suv_disabled = False, suv_password = ''pw''\<rparr>"

theorem system_user_form_witness:
  "device_get (device_apply (userFormToOps ''ann'' None sample_user_values) [])
     (userPath ''ann'' [] @ [''authentication'', ''plaintext-password'']) = Some (JStr ''pw'')"
proof -
  let ?p = "userPath ''ann'' []"
  have 1: "trimmed_form USER_SCALAR_FIELDS sample_user_values" "indep ?p [''interfaces'']"
    "device_item (parseUser (\<lambda>a b. 0) ''ann'') [] ?p = None"
    "js_trim (suv_password sample_user_values) = ''pw''" by code_simp+
  from system_user_form [OF 1(1) refl 1(2) refl, of "\<lambda>a b. 0" "[]"] 1(3,4) show ?thesis by simp
qed

end
