(* ===== verification/StaticRoutes.thy ===== *)
theory StaticRoutes
  imports FakeVyos
begin

text \<open>
  Static routes: the interfaces of \<open>lib/routingTypes.ts\<close> and the parser and path builder of
  \<open>lib/routingParse.ts\<close>. \<open>lc\<close> is the collation of \<open>localeCompare\<close>.
\<close>

record StaticRouteNextHop =
  nh_address :: string
  nh_disabled :: bool
  nh_distance :: "string option"

record StaticRouteInterface =
  sri_interfaceName :: string
  sri_disabled :: bool
  sri_distance :: "string option"

record StaticRouteRejectOrBlackhole =
  rb_distance :: "string option"
  rb_tag :: "string option"

record StaticRoute =
  sr_family :: string
  sr_destination :: string
  sr_nextHops :: "StaticRouteNextHop list"
  sr_interfaces :: "StaticRouteInterface list"
  sr_dhcpInterfaces :: "string list"
  sr_reject :: "StaticRouteRejectOrBlackhole option"
  sr_blackhole :: "StaticRouteRejectOrBlackhole option"

definition chainName :: "string \<Rightarrow> string" where
  "chainName family = (if family = ''ipv6'' then ''route6'' else ''route'')"

definition parseNextHops :: "collation \<Rightarrow> unknown \<Rightarrow> StaticRouteNextHop list" where
  "parseNextHops lc raw =
     parse_entries (\<lambda>address r. \<lparr>nh_address = address, nh_disabled = isFlagPresent r ''disable'',
         nh_distance = asString (child r ''distance'')\<rparr>)
       (\<lambda>a b. lc (nh_address a) (nh_address b)) (child raw ''next-hop'')"

definition parseInterfaces_route :: "collation \<Rightarrow> unknown \<Rightarrow> StaticRouteInterface list" where
  "parseInterfaces_route lc raw =
     parse_entries (\<lambda>interfaceName r. \<lparr>sri_interfaceName = interfaceName,
         sri_disabled = isFlagPresent r ''disable'', sri_distance = asString (child r ''distance'')\<rparr>)
       (\<lambda>a b. lc (sri_interfaceName a) (sri_interfaceName b)) (child raw ''interface'')"

definition parseRejectOrBlackhole :: "unknown \<Rightarrow> StaticRouteRejectOrBlackhole option" where
  "parseRejectOrBlackhole raw =
     (if \<not> isRecord raw then None
      else Some \<lparr>rb_distance = asString (child raw ''distance''), rb_tag = asString (child raw ''tag'')\<rparr>)"

definition parseStaticRoute :: "collation \<Rightarrow> string \<Rightarrow> string \<Rightarrow> unknown \<Rightarrow> StaticRoute" where
  "parseStaticRoute lc family destination raw =
     \<lparr>sr_family = family,
      sr_destination = destination,
      sr_nextHops = parseNextHops lc raw,
      sr_interfaces = parseInterfaces_route lc raw,
      sr_dhcpInterfaces = asArray (child raw ''dhcp-interface''),
      sr_reject = (if isFlagPresent raw ''reject'' then parseRejectOrBlackhole (child raw ''reject'')
                   else None),
      sr_blackhole = (if isFlagPresent raw ''blackhole''
                      then parseRejectOrBlackhole (child raw ''blackhole'') else None)\<rparr>"

definition parseStaticRoutes :: "collation \<Rightarrow> unknown \<Rightarrow> StaticRoute list" where
  "parseStaticRoutes lc protocolsStatic =
     js_sort (\<lambda>a b. js_or (lc (sr_family a) (sr_family b)) (lc (sr_destination a) (sr_destination b)))
       (concat (map (\<lambda>family.
          map (\<lambda>(destination, raw). parseStaticRoute lc family destination (Some raw))
            (entries (child protocolsStatic (chainName family)))) [''ipv4'', ''ipv6'']))"

definition staticRoutePath :: "string \<Rightarrow> string \<Rightarrow> path \<Rightarrow> path" where
  "staticRoutePath family destination rest =
     [''protocols'', ''static'', chainName family, destination] @ rest"

lemma parseStaticRoute_family [simp]: "sr_family (parseStaticRoute lc family d raw) = family"
  by (simp add: parseStaticRoute_def)

text \<open>The routes of a family are the entries of its chain, whatever the collation.\<close>

lemma static_routes_mem:
  assumes "family \<in> {''ipv4'', ''ipv6''}"
  shows "r \<in> set (parseStaticRoutes lc v) \<and> sr_family r = family \<longleftrightarrow>
    (\<exists>(d, raw) \<in> set (entries (child v (chainName family))). r = parseStaticRoute lc family d (Some raw))"
  using assms by (auto simp: parseStaticRoutes_def)

lemma static_routes_count:
  "length (parseStaticRoutes lc v)
     = length (entries (child v ''route'')) + length (entries (child v ''route6''))"
  by (simp add: parseStaticRoutes_def chainName_def)

end
