(* ===== verification/LiveData.thy ===== *)
theory LiveData
  imports FakeVyos
begin

text \<open>
  Live operational data: the sample window of \<open>hooks/useSampleHistory.ts\<close>, the throughput history of
  \<open>hooks/useInterfaceThroughput.ts\<close> as a step function on its ref and state, \<open>formatBytes\<close> of
  \<open>lib/formatBytes.ts\<close>, and the table sorting of \<open>lib/sortable.ts\<close>. Times are integers
  (milliseconds); counters and rates are exact rationals.
\<close>

subsection \<open>Sample history\<close>

record Sample =
  sa_t :: int
  sa_v :: rat

definition DEFAULT_MAX_SAMPLES :: nat where
  "DEFAULT_MAX_SAMPLES = 150"

text \<open>\<open>slice(-n)\<close>; \<open>slice(-0)\<close> is \<open>slice(0)\<close>, the whole array.\<close>

definition slice_neg :: "nat \<Rightarrow> 'a list \<Rightarrow> 'a list" where
  "slice_neg n xs = (if n = 0 then xs else drop (length xs - n) xs)"

definition history_tick :: "nat \<Rightarrow> int \<Rightarrow> rat option \<Rightarrow> Sample list \<Rightarrow> Sample list" where
  "history_tick maxSamples dataUpdatedAt val samples =
     (case val of
        None \<Rightarrow> samples
      | Some v \<Rightarrow> if dataUpdatedAt = 0 then samples
                  else slice_neg maxSamples (samples @ [\<lparr>sa_t = dataUpdatedAt, sa_v = v\<rparr>]))"

lemma length_slice_neg: "0 < n \<Longrightarrow> length (slice_neg n xs) \<le> n"
  by (simp add: slice_neg_def)

lemma set_slice_neg: "x \<in> set (slice_neg n xs) \<Longrightarrow> x \<in> set xs"
  by (auto simp: slice_neg_def dest: in_set_dropD split: if_splits)

lemma sorted_slice_neg: "sorted_wrt P xs \<Longrightarrow> sorted_wrt P (slice_neg n xs)"
  by (auto simp: slice_neg_def sorted_wrt_drop)

lemma slice_neg_snoc: "slice_neg n (xs @ [x]) \<noteq> [] \<and> last (slice_neg n (xs @ [x])) = x"
  by (auto simp: slice_neg_def)

subsection \<open>Interface throughput\<close>

record NetworkInterface =
  ni_name :: string
  ni_rxBytes :: "rat option"
  ni_txBytes :: "rat option"

record ThroughputSample =
  ts_t :: int
  ts_rxBps :: rat
  ts_txBps :: rat

record baseline =
  bl_name :: string
  bl_t :: int
  bl_rx :: rat
  bl_tx :: rat

record throughput =
  th_prev :: "baseline option"
  th_samples :: "ThroughputSample list"

definition throughput_init :: throughput where
  "throughput_init = \<lparr>th_prev = None, th_samples = []\<rparr>"

record poll =
  po_interfaces :: "NetworkInterface list option"
  po_dataUpdatedAt :: int
  po_interfaceName :: "string option"

text \<open>The interface the poll shows under the selected name, with both counters.\<close>

definition selected :: "poll \<Rightarrow> (string \<times> rat \<times> rat) option" where
  "selected p =
     (case po_interfaceName p of
        None \<Rightarrow> None
      | Some name \<Rightarrow>
          if name = '''' then None
          else (case List.find (\<lambda>i. ni_name i = name) (or_else (po_interfaces p) []) of
                  None \<Rightarrow> None
                | Some i \<Rightarrow> (case (ni_rxBytes i, ni_txBytes i) of
                     (Some rx, Some tx) \<Rightarrow> Some (name, rx, tx) | _ \<Rightarrow> None)))"

text \<open>One run of the effect: every early return of the code is a branch.\<close>

definition throughput_tick :: "nat \<Rightarrow> poll \<Rightarrow> throughput \<Rightarrow> throughput" where
  "throughput_tick maxSamples p s =
     (if po_dataUpdatedAt p = 0 then s
      else case selected p of
        None \<Rightarrow> s
      | Some (name, rx, tx) \<Rightarrow>
          (let s' = s\<lparr>th_prev := Some \<lparr>bl_name = name, bl_t = po_dataUpdatedAt p, bl_rx = rx, bl_tx = tx\<rparr>\<rparr>
           in case th_prev s of
                None \<Rightarrow> s'\<lparr>th_samples := []\<rparr>
              | Some prev \<Rightarrow>
                  if bl_name prev \<noteq> name then s'\<lparr>th_samples := []\<rparr>
                  else if bl_t prev = po_dataUpdatedAt p then s'
                  else (let dtSeconds = of_int (po_dataUpdatedAt p - bl_t prev) / 1000
                        in if dtSeconds \<le> 0 then s'
                           else s'\<lparr>th_samples := slice_neg maxSamples (th_samples s @
                             [\<lparr>ts_t = po_dataUpdatedAt p,
                               ts_rxBps = max 0 ((rx - bl_rx prev) / dtSeconds),
                               ts_txBps = max 0 ((tx - bl_tx prev) / dtSeconds)\<rparr>])\<rparr>)))"

definition throughput_run :: "nat \<Rightarrow> poll list \<Rightarrow> throughput \<Rightarrow> throughput" where
  "throughput_run maxSamples ps s = fold (throughput_tick maxSamples) ps s"

text \<open>
  The invariant: a bounded window of non-negative rates, in strictly increasing time, none later than
  the baseline.
\<close>

definition throughput_inv :: "nat \<Rightarrow> throughput \<Rightarrow> bool" where
  "throughput_inv n s \<longleftrightarrow> length (th_samples s) \<le> n
     \<and> sorted_wrt (\<lambda>a b. ts_t a < ts_t b) (th_samples s)
     \<and> (\<forall>a \<in> set (th_samples s). 0 \<le> ts_rxBps a \<and> 0 \<le> ts_txBps a)
     \<and> (\<forall>a \<in> set (th_samples s). case th_prev s of None \<Rightarrow> False | Some b \<Rightarrow> ts_t a \<le> bl_t b)"

lemma throughput_tick_inv:
  assumes inv: "throughput_inv n s" and n: "0 < n"
    and time: "\<forall>b. th_prev s = Some b \<longrightarrow> bl_t b \<le> po_dataUpdatedAt p"
  shows "throughput_inv n (throughput_tick n p s)"
proof (cases "po_dataUpdatedAt p = 0 \<or> selected p = None")
  case True
  then show ?thesis using inv by (auto simp: throughput_tick_def)
next
  case False
  then obtain name rx tx where sel: "selected p = Some (name, rx, tx)" and t0: "po_dataUpdatedAt p \<noteq> 0"
    by (cases "selected p") auto
  show ?thesis
  proof (cases "th_prev s")
    case None
    then show ?thesis using n by (simp add: throughput_tick_def sel t0 throughput_inv_def Let_def)
  next
    case (Some prev)
    have le: "bl_t prev \<le> po_dataUpdatedAt p" using time Some by blast
    consider "bl_name prev \<noteq> name" | "bl_name prev = name" "bl_t prev = po_dataUpdatedAt p"
      | "bl_name prev = name" "bl_t prev < po_dataUpdatedAt p" using le by linarith
    then show ?thesis
    proof cases
      case 1
      then show ?thesis using n Some by (simp add: throughput_tick_def sel t0 throughput_inv_def Let_def)
    next
      case 2
      then show ?thesis using inv Some by (simp add: throughput_tick_def sel t0 throughput_inv_def Let_def)
    next
      case 3
      let ?x = "\<lparr>ts_t = po_dataUpdatedAt p,
        ts_rxBps = max 0 ((rx - bl_rx prev) / (of_int (po_dataUpdatedAt p - bl_t prev) / 1000)),
        ts_txBps = max 0 ((tx - bl_tx prev) / (of_int (po_dataUpdatedAt p - bl_t prev) / 1000))\<rparr>"
      have "\<not> of_int (po_dataUpdatedAt p - bl_t prev) / 1000 \<le> (0 :: rat)" using 3 by simp
      then have tick: "throughput_tick n p s = s
          \<lparr>th_prev := Some \<lparr>bl_name = name, bl_t = po_dataUpdatedAt p, bl_rx = rx, bl_tx = tx\<rparr>,
           th_samples := slice_neg n (th_samples s @ [?x])\<rparr>"
        using 3 Some by (simp add: throughput_tick_def sel t0 Let_def)
      have old: "\<forall>a \<in> set (th_samples s). ts_t a < po_dataUpdatedAt p"
        using inv Some 3 by (force simp: throughput_inv_def)
      have srt: "sorted_wrt (\<lambda>a b. ts_t a < ts_t b) (th_samples s @ [?x])"
        using inv old by (simp add: throughput_inv_def sorted_wrt_append)
      have all: "\<forall>a \<in> set (th_samples s @ [?x]). 0 \<le> ts_rxBps a \<and> 0 \<le> ts_txBps a
          \<and> ts_t a \<le> po_dataUpdatedAt p"
        using inv old by (auto simp: throughput_inv_def)
      define w where "w = slice_neg n (th_samples s @ [?x])"
      have "sorted_wrt (\<lambda>a b. ts_t a < ts_t b) w"
        unfolding w_def by (rule sorted_slice_neg [OF srt])
      moreover have "\<forall>a \<in> set w. 0 \<le> ts_rxBps a \<and> 0 \<le> ts_txBps a \<and> ts_t a \<le> po_dataUpdatedAt p"
        unfolding w_def by (intro ballI, drule set_slice_neg) (rule bspec [OF all])
      moreover have "length w \<le> n" unfolding w_def by (rule length_slice_neg [OF n])
      ultimately have w: "sorted_wrt (\<lambda>a b. ts_t a < ts_t b) w"
        "\<forall>a \<in> set w. 0 \<le> ts_rxBps a \<and> 0 \<le> ts_txBps a \<and> ts_t a \<le> po_dataUpdatedAt p"
        "length w \<le> n" by this+
      then show ?thesis
        unfolding throughput_inv_def tick w_def [symmetric] by simp
    qed
  qed
qed

lemma throughput_tick_time:
  "th_prev (throughput_tick n p s) = Some b \<Longrightarrow>
     th_prev s = Some b \<or> bl_t b = po_dataUpdatedAt p"
  by (auto simp: throughput_tick_def Let_def split: if_splits option.splits prod.splits)

lemma throughput_init_inv: "throughput_inv n throughput_init"
  by (simp add: throughput_init_def throughput_inv_def)

lemma throughput_init_prev: "th_prev throughput_init = None"
  by (simp add: throughput_init_def)

text \<open>
  The throughput chart. Over any sequence of polls in time order, from a fresh mount, the history
  holds at most the window's number of samples, in strictly increasing time, and no rate is ever
  negative, whatever the counters did.
\<close>

theorem throughput_history_inv:
  assumes "sorted (map po_dataUpdatedAt ps)" and "0 < n"
  shows "throughput_inv n (throughput_run n ps throughput_init)"
proof -
  have "throughput_inv n (throughput_run n qs s)"
    if "sorted (map po_dataUpdatedAt qs)" "throughput_inv n s"
      "\<forall>b. th_prev s = Some b \<longrightarrow> (\<forall>p \<in> set qs. bl_t b \<le> po_dataUpdatedAt p)" for qs s
    using that
  proof (induction qs arbitrary: s)
    case (Cons q qs)
    have "throughput_inv n (throughput_tick n q s)"
      by (rule throughput_tick_inv [OF Cons.prems(2) assms(2)]) (use Cons.prems(3) in simp)
    moreover have "\<forall>b. th_prev (throughput_tick n q s) = Some b \<longrightarrow>
        (\<forall>p \<in> set qs. bl_t b \<le> po_dataUpdatedAt p)"
      using throughput_tick_time [of n q s] Cons.prems(1,3) by auto
    ultimately show ?case using Cons by (simp add: throughput_run_def)
  qed (simp add: throughput_run_def)
  then show ?thesis
    using assms(1) throughput_init_inv throughput_init_prev by (metis option.distinct(1))
qed

definition sample_poll :: "string \<Rightarrow> int \<Rightarrow> rat \<Rightarrow> poll" where
  "sample_poll name t rx = \<lparr>po_interfaces = Some [\<lparr>ni_name = ''eth0'', ni_rxBytes = Some rx, ni_txBytes = Some 0\<rparr>],
     po_dataUpdatedAt = t, po_interfaceName = Some name\<rparr>"

lemma sample_poll_time: "po_dataUpdatedAt (sample_poll name t rx) = t"
  by (simp add: sample_poll_def)

theorem throughput_history_inv_witness:
  "throughput_inv 1 (throughput_run 1
     [sample_poll ''eth0'' 1000 500, sample_poll ''eth0'' 2000 100, sample_poll ''eth0'' 3000 300] throughput_init)"
proof (rule throughput_history_inv)
  show "sorted (map po_dataUpdatedAt
     [sample_poll ''eth0'' 1000 500, sample_poll ''eth0'' 2000 100, sample_poll ''eth0'' 3000 300])"
    by (simp only: list.map sample_poll_time) simp
qed simp

text \<open>
  Selecting an interface the poll does not list returns before the reset, so the chart goes on
  showing the previously selected interface's samples.
\<close>

lemma throughput_stale:
  "th_samples (throughput_run 150 [sample_poll ''eth0'' 1000 500, sample_poll ''eth0'' 2000 1500,
     sample_poll ''eth1'' 3000 0] throughput_init)
   = [\<lparr>ts_t = 2000, ts_rxBps = 1000, ts_txBps = 0\<rparr>]"
  by (simp add: throughput_run_def throughput_tick_def sample_poll_def selected_def throughput_init_def
      slice_neg_def Let_def)

subsection \<open>Byte counts\<close>

definition UNITS :: "string list" where
  "UNITS = [''B'', ''KB'', ''MB'', ''GB'', ''TB'']"

function scale_bytes :: "rat \<Rightarrow> nat \<Rightarrow> rat \<times> nat" where
  "scale_bytes v unitIndex =
     (if 1024 \<le> v \<and> unitIndex < length UNITS - 1 then scale_bytes (v / 1024) (Suc unitIndex)
      else (v, unitIndex))"
  by auto

termination by (relation "measure (\<lambda>(v, u). length UNITS - u)") auto

declare scale_bytes.simps [simp del]

text \<open>\<open>toFixed(d)\<close> of a non-negative number: the nearest multiple of \<open>10^-d\<close>, the larger of two.\<close>

definition to_fixed :: "nat \<Rightarrow> rat \<Rightarrow> string" where
  "to_fixed d q =
     (let n = nat \<lfloor>q * 10 ^ d + 1 / 2\<rfloor>; s = nat_str (n mod 10 ^ d)
      in if d = 0 then nat_str n
         else nat_str (n div 10 ^ d) @ ''.'' @ replicate (d - length s) CHR ''0'' @ s)"

definition formatBytes :: "rat \<Rightarrow> string" where
  "formatBytes bytes =
     (if bytes \<le> 0 then ''0 B''
      else (case scale_bytes bytes 0 of
              (v, u) \<Rightarrow> to_fixed (if u = 0 then 0 else 2) v @ '' '' @ UNITS ! u))"

lemma scale_bytes_spec:
  assumes "scale_bytes v u = (w, k)" and "u < length UNITS"
  shows "w * 1024 ^ (k - u) = v \<and> u \<le> k \<and> k < length UNITS
    \<and> (w < 1024 \<or> k = length UNITS - 1) \<and> (k = u \<or> 1 \<le> w)"
  using assms
proof (induction v u rule: scale_bytes.induct)
  case (1 v u)
  show ?case
  proof (cases "1024 \<le> v \<and> u < length UNITS - 1")
    case True
    then have "scale_bytes (v / 1024) (Suc u) = (w, k)"
      using "1.prems"(1) by (subst (asm) scale_bytes.simps) simp
    with "1.IH" [OF True] True have ih: "w * 1024 ^ (k - Suc u) = v / 1024" "Suc u \<le> k" "k < length UNITS"
      "w < 1024 \<or> k = length UNITS - 1" "k = Suc u \<or> 1 \<le> w" by auto
    then have "k - u = Suc (k - Suc u)" by simp
    then have "w * 1024 ^ (k - u) = v" using ih(1) by simp
    moreover have "1 \<le> w"
    proof (cases "k = Suc u")
      case kS: True
      then have "w = v / 1024" using ih(1) by simp
      then show ?thesis using True by simp
    qed (use ih(5) in simp)
    ultimately show ?thesis using ih by simp
  next
    case False
    then have "w = v \<and> k = u" using "1.prems"(1) by (subst (asm) scale_bytes.simps) auto
    then show ?thesis using False "1.prems"(2) by auto
  qed
qed

text \<open>
  C27. Byte counts. The scaling loop ends, and a positive count is printed as a value and one of the
  five units whose product is the count, the value being below 1024 unless the unit is the last and
  at least 1 unless the unit is the first.
\<close>

theorem formatBytes_unit:
  assumes "0 < bytes"
  shows "\<exists>v u. formatBytes bytes = to_fixed (if u = 0 then 0 else 2) v @ '' '' @ UNITS ! u
    \<and> v * 1024 ^ u = bytes \<and> u < length UNITS \<and> (v < 1024 \<or> u = length UNITS - 1) \<and> (u = 0 \<or> 1 \<le> v)"
proof -
  obtain v u where vu: "scale_bytes bytes 0 = (v, u)" by fastforce
  have "0 < length UNITS" by (simp add: UNITS_def)
  from scale_bytes_spec [OF vu this]
  show ?thesis using assms by (intro exI [of _ v] exI [of _ u]) (simp add: formatBytes_def vu)
qed

theorem formatBytes_unit_witness:
  "\<exists>v u. formatBytes 1536 = to_fixed (if u = 0 then 0 else 2) v @ '' '' @ UNITS ! u \<and> v * 1024 ^ u = 1536"
proof -
  have "(0 :: rat) < 1536" by simp
  from formatBytes_unit [OF this] show ?thesis by blast
qed

text \<open>Rounding happens after the unit is chosen, so a count just below a unit prints as 1024.\<close>

lemma formatBytes_rounds_up: "formatBytes 1048575 = ''1024.00 KB''"
proof -
  have "scale_bytes 1048575 0 = (1048575 / 1024, 1)"
    by (simp add: scale_bytes.simps [of 1048575] scale_bytes.simps [of "1048575 / 1024"] UNITS_def)
  moreover have "\<lfloor>1048575 / 1024 * 10 ^ 2 + 1 / 2 :: rat\<rfloor> = 102400"
    by (rule floor_unique) simp_all
  moreover have "nat_str 1024 = ''1024''" "nat_str 0 = ''0''" by code_simp+
  ultimately show ?thesis
    by (simp add: formatBytes_def to_fixed_def UNITS_def Let_def numeral_2_eq_2 [symmetric])
qed

subsection \<open>Table sorting\<close>

datatype SortDirection = Asc | Desc

record SortState =
  so_column :: string
  so_direction :: SortDirection

definition nextSortState :: "SortState \<Rightarrow> string \<Rightarrow> SortState" where
  "nextSortState current column =
     (if so_column current \<noteq> column then \<lparr>so_column = column, so_direction = Asc\<rparr>
      else \<lparr>so_column = column, so_direction = (if so_direction current = Asc then Desc else Asc)\<rparr>)"

definition sortRows :: "'a list \<Rightarrow> SortDirection \<Rightarrow> ('a \<Rightarrow> 'a \<Rightarrow> int) \<Rightarrow> 'a list" where
  "sortRows rows direction compare =
     (let sorted = js_sort compare rows in if direction = Asc then sorted else rev sorted)"

lemma nextSortState_twice: "nextSortState (nextSortState s c) c = \<lparr>so_column = c,
    so_direction = (if so_column s = c then so_direction s else Desc)\<rparr>"
  by (cases "so_direction s") (auto simp: nextSortState_def)

lemma sortRows_mset: "mset (sortRows rows d c) = mset rows"
  by (simp add: sortRows_def Let_def)

lemma sortRows_sorted:
  "consistent c \<Longrightarrow> sorted_wrt (\<lambda>a b. if d = Asc then c a b \<le> 0 else c b a \<le> 0) (sortRows rows d c)"
  using sorted_js_sort [of c rows] by (simp add: sortRows_def Let_def sorted_by_def sorted_wrt_rev)

end
