(* ===== verification/SavedForms.thy ===== *)
theory SavedForms
  imports FakeVyos
begin

text \<open>
  The contract of the forms that save in up to three steps: a bare \<open>set\<close> of the item when it is new,
  the diff of the form's fields, and further ops beside the fields (a write-only secret, a nested
  list). The locale is interpreted by the components; its lemma \<open>saved\<close> is what their properties
  rest on.
\<close>

lemma reads_diff_result:
  assumes "indep_all (map snd sfs @ map snd ffs)" and "[] \<notin> set (map snd sfs @ map snd ffs)"
    and "reads sfs ffs (device_get m p) b" and "trimmed_form sfs v"
    and "D \<in> {diffToOps p sfs ffs b v, diffToOps p [] ffs b v @ diffToOps p sfs [] b v}"
  shows "reads sfs ffs (device_get (device_apply D m) p) v"
proof -
  have "reads sfs ffs (device_get (device_apply (diffToOps p sfs ffs b v) m) p) v"
    by (rule form_applied [OF assms(1-4)])
  moreover have "reads ([] @ sfs) (ffs @ []) (device_get (device_apply
      (diffToOps p [] ffs b v @ diffToOps p sfs [] b v) m) p) v"
    by (rule two_stage) (use assms(1-4) in simp_all)
  ultimately show ?thesis using assms(5) by auto
qed

lemma diff_result_path:
  assumes "D \<in> {diffToOps p sfs ffs b v, diffToOps p [] ffs b v @ diffToOps p sfs [] b v}"
    and "op \<in> set D"
  shows "\<exists>seg \<in> set (map snd sfs @ map snd ffs). co_path op = p @ seg"
proof -
  have "op \<in> set (diffToOps p sfs ffs b v) \<or> op \<in> set (diffToOps p [] ffs b v)
      \<or> op \<in> set (diffToOps p sfs [] b v)" using assms by auto
  then show ?thesis by (auto dest: diff_path)
qed

lemma reads_cong:
  assumes "\<And>seg. seg \<in> set (map snd sfs @ map snd ffs) \<Longrightarrow> tree_get t seg = tree_get t' seg"
  shows "reads sfs ffs t v \<longleftrightarrow> reads sfs ffs t' v"
proof -
  have "tree_get t (snd x) = tree_get t' (snd x)" if "x \<in> set sfs" for x using assms that by simp
  moreover have "tree_get t (snd x) = tree_get t' (snd x)" if "x \<in> set ffs" for x using assms that by simp
  ultimately show ?thesis unfolding reads_def list_all_iff case_prod_beta by simp
qed

lemma device_frame:
  "\<forall>op \<in> set ops. indep (co_path op) q \<Longrightarrow> device_get (device_apply ops m) q = device_get m q"
  unfolding device_apply_def by (rule device.ops_frame)

lemma diff_result_frame:
  assumes "D \<in> {diffToOps p sfs ffs b v, diffToOps p [] ffs b v @ diffToOps p sfs [] b v}"
    and "\<forall>seg \<in> set (map snd sfs @ map snd ffs). indep seg r"
  shows "device_get (device_apply D m) (p @ r) = device_get m (p @ r)"
proof (rule device_frame, rule ballI)
  fix op assume "op \<in> set D"
  from diff_result_path [OF assms(1) this] obtain seg where "seg \<in> set (map snd sfs @ map snd ffs)"
    and "co_path op = p @ seg" by blast
  with assms(2) show "indep (co_path op) (p @ r)" by (metis indep_append)
qed

text \<open>Setting the bare node of a new item adds nothing below it.\<close>

lemma create_below:
  assumes "p \<noteq> []" and "pre = [] \<or> pre = [set_flag p]" and "s \<noteq> []"
  shows "device_get (device_apply pre m) (p @ s) = device_get m (p @ s)"
proof (cases "device_get m p")
  case None
  then have "device_get (setNested p '''' m) p = Some (JObj [])" using assms(1) by (simp add: setNested_flag)
  with None assms show ?thesis by (cases s) (auto simp: device_get_append)
next
  case (Some x)
  then have "device_get (setNested p '''' m) p = Some x" using assms(1) by (simp add: setNested_flag)
  with Some assms(2) show ?thesis by (auto simp: device_get_append)
qed

lemma deleteNested_below: "p \<noteq> [] \<Longrightarrow> device_get (deleteNested p m) (p @ r) = None"
  by (simp add: device_get_append deleteNested_gone)

text \<open>Creating the item and editing its fields touches nothing below it off the tables.\<close>

lemma edit_frame:
  assumes "p \<noteq> []" and "pre = [] \<or> pre = [set_flag p]"
    and "D \<in> {diffToOps p sfs ffs b v, diffToOps p [] ffs b v @ diffToOps p sfs [] b v}"
    and "\<forall>seg \<in> set (map snd sfs @ map snd ffs). indep seg r" and "r \<noteq> []"
  shows "device_get (device_apply (pre @ D) m) (p @ r) = device_get m (p @ r)"
  using diff_result_frame [OF assms(3,4), of "device_apply pre m"] create_below [OF assms(1,2,5), of m] by simp

text \<open>What relates a form's tables to its parser, field by field.\<close>

lemmas reads_simps = reads_def list.pred_inject prod.case tree_get_Cons tree_get_Nil read_str_def
  isFlagPresent_child simp_thms conj_assoc

locale saved_form =
  fixes sfs :: "'v scalar_field list"
    and ffs :: "'v flag_field list"
    and toForm :: "'a \<Rightarrow> 'v"
    and parse :: "unknown \<Rightarrow> 'a"
    and blank :: 'v
    and hide :: "'v \<Rightarrow> 'v"
  assumes table_indep: "indep_all (map snd sfs @ map snd ffs)"
    and table_not_Nil: "[] \<notin> set (map snd sfs @ map snd ffs)"
    and reads_form: "reads sfs ffs t v \<longleftrightarrow> toForm (parse t) = hide v"
    and hide_form: "hide (toForm x) = toForm x"
    and form_blank: "toForm (parse None) = blank"
begin

text \<open>
  \<open>hide v\<close> is \<open>v\<close> with the inputs blank that the tables do not hold (the write-only ones).
\<close>

lemma before_form:
  "(case device_item parse m p of Some x \<Rightarrow> toForm x | None \<Rightarrow> blank) = toForm (parse (device_get m p))"
  by (rule device_item_values [where to = toForm and parse = parse, OF form_blank])

lemma saved:
  assumes p: "p \<noteq> []" and v: "trimmed_form sfs v"
    and pre: "pre = [] \<or> pre = [set_flag p]"
    and D: "D \<in> {diffToOps p sfs ffs b v, diffToOps p [] ffs b v @ diffToOps p sfs [] b v}"
    and b: "b = (case device_item parse m p of Some x \<Rightarrow> toForm x | None \<Rightarrow> blank)"
    and ws: "\<forall>op \<in> set ws. \<exists>r. r \<noteq> [] \<and> co_path op = p @ r \<and>
      (\<forall>seg \<in> set (map snd sfs @ map snd ffs). indep r seg)"
    and m': "m' = device_apply (pre @ D @ ws) m"
  shows "toForm (parse (device_get m' p)) = hide v"
    and "indep p q \<Longrightarrow> device_get m' q = device_get m q"
    and "pre = [set_flag p] \<or> device_get m p \<noteq> None \<Longrightarrow> device_get m' p \<noteq> None"
proof -
  define n where "n = device_apply pre m"
  have m'n: "m' = device_apply ws (device_apply D n)" by (simp add: m' n_def)
  have bv: "b = toForm (parse (device_get m p))" by (simp add: b before_form)
  have below: "tree_get (device_get n p) s = tree_get (device_get m p) s" if "s \<noteq> []" for s
    using create_below [OF p pre that, of m] by (simp only: n_def device_get_append)
  have "reads sfs ffs (device_get m p) b" unfolding reads_form bv by (simp add: hide_form)
  then have "reads sfs ffs (device_get n p) b"
    by (subst reads_cong [where t' = "device_get m p"]) (metis below table_not_Nil, assumption)
  then have "reads sfs ffs (device_get (device_apply D n) p) v"
    by (rule reads_diff_result [OF table_indep table_not_Nil _ v D])
  moreover have "reads sfs ffs (device_get m' p) v \<longleftrightarrow> reads sfs ffs (device_get (device_apply D n) p) v"
    unfolding m'n by (rule reads_frame) (use ws in blast)
  ultimately show "toForm (parse (device_get m' p)) = hide v" by (simp only: reads_form)
  have Dp: "\<exists>seg. seg \<noteq> [] \<and> co_path op = p @ seg" if "op \<in> set D" for op
    using diff_result_path [OF D that] table_not_Nil by (metis)
  show "device_get m' q = device_get m q" if "indep p q"
  proof -
    have "indep (co_path op) q" if "op \<in> set (D @ ws)" for op
      using Dp ws that indep_extend_left [OF \<open>indep p q\<close>] by (auto; fastforce)
    then have "device_get m' q = device_get n q"
      unfolding m'n using device_frame [of D q n] device_frame [of ws q] by simp
    also have "\<dots> = device_get m q"
      unfolding n_def using pre that by (intro device_frame) (auto simp: op_defs)
    finally show ?thesis .
  qed
  show "device_get m' p \<noteq> None" if "pre = [set_flag p] \<or> device_get m p \<noteq> None"
  proof -
    have n: "device_get n p \<noteq> None" using that pre p by (auto simp: n_def setNested_flag)
    have "device_get (device_apply D n) p \<noteq> None" by (rule ops_keep_present [OF n]) (use Dp in blast)
    then show ?thesis unfolding m'n by (rule ops_keep_present) (use ws in blast)
  qed
qed

text \<open>A write-only secret beside the fields: sent when typed, and otherwise left as it is.\<close>

lemma secret:
  assumes m': "m' = device_apply (pre @ D @ (if t \<noteq> '''' then [set_op (p @ s) t] else [])) m"
    and D: "D \<in> {diffToOps p sfs ffs b v, diffToOps p [] ffs b v @ diffToOps p sfs [] b v}"
    and s: "\<forall>seg \<in> set (map snd sfs @ map snd ffs). indep seg s" "s \<noteq> []"
    and pre: "p \<noteq> []" "pre = [] \<or> pre = [set_flag p]"
  shows "device_get m' (p @ s) = (if t = '''' then device_get m (p @ s) else Some (JStr t))"
  using diff_result_frame [OF D s(1), of "device_apply pre m"] create_below [OF pre s(2), of m] s(2)
  by (auto simp: m' setNested_value)

text \<open>The shape of the code: a new item is created, and the form diffed against the one last fetched.\<close>

lemma saved_item:
  assumes m': "m' = device_apply ((if before = None then [set_flag p] else []) @ D @ ws) m"
    and before: "before = device_item parse m p"
    and D: "D \<in> {diffToOps p sfs ffs b v, diffToOps p [] ffs b v @ diffToOps p sfs [] b v}"
    and b: "b = (case before of Some x \<Rightarrow> toForm x | None \<Rightarrow> blank)"
    and p: "p \<noteq> []" and v: "trimmed_form sfs v"
    and ws: "\<forall>op \<in> set ws. \<exists>r. r \<noteq> [] \<and> co_path op = p @ r \<and>
      (\<forall>seg \<in> set (map snd sfs @ map snd ffs). indep r seg)"
    and q: "indep p q"
  shows "toForm (parse (device_get m' p)) = hide v \<and> device_get m' p \<noteq> None
    \<and> device_get m' q = device_get m q"
proof -
  let ?pre = "if before = None then [set_flag p] else []"
  have pre: "?pre = [] \<or> ?pre = [set_flag p]" and ex: "?pre = [set_flag p] \<or> device_get m p \<noteq> None"
    by (simp_all add: before device_item_def)
  note s = saved [OF p v pre D b [unfolded before] ws m']
  show ?thesis using s(1) s(2) [OF q] s(3) [OF ex] by blast
qed

lemma saved_fields:
  assumes m': "m' = device_apply (D @ ws) m"
    and D: "D \<in> {diffToOps p sfs ffs b v, diffToOps p [] ffs b v @ diffToOps p sfs [] b v}"
    and b: "b = (case device_item parse m p of Some x \<Rightarrow> toForm x | None \<Rightarrow> blank)"
    and p: "p \<noteq> []" and v: "trimmed_form sfs v"
    and ws: "\<forall>op \<in> set ws. \<exists>r. r \<noteq> [] \<and> co_path op = p @ r \<and>
      (\<forall>seg \<in> set (map snd sfs @ map snd ffs). indep r seg)"
    and q: "indep p q"
  shows "toForm (parse (device_get m' p)) = hide v \<and> device_get m' q = device_get m q"
  using saved [OF p v _ D b ws, of "[]"] q by (simp add: m')

end

end
