(* ===== verification/Containers.thy ===== *)
theory Containers
  imports SavedForms
begin

text \<open>
  Containers: the interfaces of \<open>lib/containerTypes.ts\<close>, the parser of \<open>lib/containerParse.ts\<close>, the
  container, network and registry forms (\<open>lib/containerForm.ts\<close>, \<open>lib/containerNetworkForm.ts\<close>,
  \<open>lib/containerRegistryForm.ts\<close>), the nested lists of \<open>lib/containerNestedForm.ts\<close> and the image
  matching of \<open>lib/containerImageMatch.ts\<close>. A type that omits the name (the result of the blank
  functions) is the full record with an empty name. \<open>lc\<close> is the collation of \<open>localeCompare\<close>.
\<close>

subsection \<open>Types\<close>

definition CONTAINER_CAPABILITIES :: "string list" where
  "CONTAINER_CAPABILITIES =
     [''net-admin'', ''net-bind-service'', ''net-raw'', ''chown'', ''mknod'', ''setpcap'', ''sys-admin'',
      ''sys-module'', ''sys-nice'', ''sys-rawio'', ''sys-time'']"

definition CONTAINER_RESTART_POLICIES :: "string list" where
  "CONTAINER_RESTART_POLICIES = [''no'', ''on-failure'', ''always'']"

definition CONTAINER_LOG_DRIVERS :: "string list" where
  "CONTAINER_LOG_DRIVERS = [''k8s-file'', ''journald'', ''none'']"

definition CONTAINER_VOLUME_MODES :: "string list" where
  "CONTAINER_VOLUME_MODES = [''ro'', ''rw'']"

definition CONTAINER_VOLUME_PROPAGATIONS :: "string list" where
  "CONTAINER_VOLUME_PROPAGATIONS =
     [''shared'', ''slave'', ''private'', ''rshared'', ''rslave'', ''rprivate'']"

definition CONTAINER_PORT_PROTOCOLS :: "string list" where
  "CONTAINER_PORT_PROTOCOLS = [''tcp'', ''udp'']"

definition CONTAINER_MACVLAN_MODES :: "string list" where
  "CONTAINER_MACVLAN_MODES = [''bridge'', ''private'', ''vepa'']"

record ContainerSysctlParameter =
  csp_parameter :: string
  csp_value :: string

record ContainerDevice =
  cd_id :: string
  cd_source :: "string option"
  cd_destination :: "string option"

record ContainerEnvironmentVariable =
  cev_name :: string
  cev_value :: string

record ContainerLabel =
  cl_name :: string
  cl_value :: string

record ContainerNetworkAttachment =
  cna_networkName :: string
  cna_addresses :: "string list"
  cna_mac :: "string option"

record ContainerPort =
  ctcp_id :: string
  ctcp_listenAddresses :: "string list"
  ctcp_source :: "string option"
  ctcp_destination :: "string option"
  ctcp_protocol :: "string option"

record ContainerTmpfs =
  ct_id :: string
  ct_destination :: "string option"
  ct_size :: "string option"

record ContainerVolume =
  ctcv_id :: string
  ctcv_source :: "string option"
  ctcv_destination :: "string option"
  ctcv_mode :: "string option"
  ctcv_propagation :: "string option"

record ContainerHealthCheck =
  chc_command :: "string option"
  chc_interval :: "string option"
  chc_timeout :: "string option"
  chc_retry :: "string option"

definition blankHealthCheck :: ContainerHealthCheck where
  "blankHealthCheck =
     \<lparr>chc_command = None, chc_interval = None, chc_timeout = None, chc_retry = None\<rparr>"

record ContainerDefinition =
  ctcd_name :: string
  ctcd_image :: "string option"
  ctcd_description :: "string option"
  ctcd_disabled :: bool
  ctcd_allowHostPid :: bool
  ctcd_allowHostNetworks :: bool
  ctcd_privileged :: bool
  ctcd_capabilities :: "string list"
  ctcd_entrypoint :: "string option"
  ctcd_command :: "string option"
  ctcd_arguments :: "string option"
  ctcd_hostName :: "string option"
  ctcd_restart :: "string option"
  ctcd_cpuQuota :: "string option"
  ctcd_memory :: "string option"
  ctcd_sharedMemory :: "string option"
  ctcd_uid :: "string option"
  ctcd_gid :: "string option"
  ctcd_logDriver :: "string option"
  ctcd_nameServers :: "string list"
  ctcd_sysctl :: "ContainerSysctlParameter list"
  ctcd_devices :: "ContainerDevice list"
  ctcd_environment :: "ContainerEnvironmentVariable list"
  ctcd_labels :: "ContainerLabel list"
  ctcd_networks :: "ContainerNetworkAttachment list"
  ctcd_ports :: "ContainerPort list"
  ctcd_tmpfs :: "ContainerTmpfs list"
  ctcd_volumes :: "ContainerVolume list"
  ctcd_healthCheck :: ContainerHealthCheck

definition blankContainerDefinition :: ContainerDefinition where
  "blankContainerDefinition =
     \<lparr>ctcd_name = '''',
       ctcd_image = None,
       ctcd_description = None,
       ctcd_disabled = False,
       ctcd_allowHostPid = False,
       ctcd_allowHostNetworks = False,
       ctcd_privileged = False,
       ctcd_capabilities = [],
       ctcd_entrypoint = None,
       ctcd_command = None,
       ctcd_arguments = None,
       ctcd_hostName = None,
       ctcd_restart = None,
       ctcd_cpuQuota = None,
       ctcd_memory = None,
       ctcd_sharedMemory = None,
       ctcd_uid = None,
       ctcd_gid = None,
       ctcd_logDriver = None,
       ctcd_nameServers = [],
       ctcd_sysctl = [],
       ctcd_devices = [],
       ctcd_environment = [],
       ctcd_labels = [],
       ctcd_networks = [],
       ctcd_ports = [],
       ctcd_tmpfs = [],
       ctcd_volumes = [],
       ctcd_healthCheck = blankHealthCheck\<rparr>"

record ContainerNetworkMacvlan =
  cnm_mode :: "string option"
  cnm_parent :: "string option"

record ContainerNetwork =
  cn_name :: string
  cn_description :: "string option"
  cn_mtu :: "string option"
  cn_gateways :: "string list"
  cn_prefixes :: "string list"
  cn_noNameServer :: bool
  cn_type :: "string option"
  cn_macvlan :: "ContainerNetworkMacvlan option"
  cn_vrf :: "string option"

definition blankContainerNetwork :: ContainerNetwork where
  "blankContainerNetwork =
     \<lparr>cn_name = '''',
       cn_description = None,
       cn_mtu = None,
       cn_gateways = [],
       cn_prefixes = [],
       cn_noNameServer = False,
       cn_type = None,
       cn_macvlan = None,
       cn_vrf = None\<rparr>"

record ContainerRegistryMirror =
  crm_address :: "string option"
  crm_hostName :: "string option"
  crm_port :: "string option"
  crm_path :: "string option"

record ContainerRegistry =
  cr_name :: string
  cr_username :: "string option"
  cr_hasPassword :: bool
  cr_disabled :: bool
  cr_insecure :: bool
  cr_mirror :: "ContainerRegistryMirror option"

definition blankContainerRegistry :: ContainerRegistry where
  "blankContainerRegistry =
     \<lparr>cr_name = '''',
       cr_username = None,
       cr_hasPassword = False,
       cr_disabled = False,
       cr_insecure = False,
       cr_mirror = None\<rparr>"

record ContainerConfig =
  cc_containers :: "ContainerDefinition list"
  cc_networks :: "ContainerNetwork list"
  cc_registries :: "ContainerRegistry list"

definition blankContainerConfig :: ContainerConfig where
  "blankContainerConfig = \<lparr>cc_containers = [], cc_networks = [], cc_registries = []\<rparr>"

subsection \<open>Parsing\<close>

definition parseSysctl ::
    "collation \<Rightarrow> unknown \<Rightarrow> ContainerSysctlParameter list" where
  "parseSysctl lc raw =
     parse_entries
       (\<lambda>parameter v. \<lparr>csp_parameter = parameter,
              csp_value = or_else (asString (child v ''value'')) ''''\<rparr>)
       (\<lambda>a b. lc (csp_parameter a) (csp_parameter b)) (child raw ''parameter'')"

definition parseDevices :: "collation \<Rightarrow> unknown \<Rightarrow> ContainerDevice list" where
  "parseDevices lc raw =
     parse_entries
       (\<lambda>i v. \<lparr>cd_id = i,
              cd_source = asString (child v ''source''),
              cd_destination = asString (child v ''destination'')\<rparr>)
       (\<lambda>a b. lc (cd_id a) (cd_id b)) (child raw ''device'')"

definition parseEnvironment ::
    "collation \<Rightarrow> unknown \<Rightarrow> ContainerEnvironmentVariable list" where
  "parseEnvironment lc raw =
     parse_entries
       (\<lambda>name v. \<lparr>cev_name = name,
              cev_value = or_else (asString (child v ''value'')) ''''\<rparr>)
       (\<lambda>a b. lc (cev_name a) (cev_name b)) (child raw ''environment'')"

definition parseLabels :: "collation \<Rightarrow> unknown \<Rightarrow> ContainerLabel list" where
  "parseLabels lc raw =
     parse_entries
       (\<lambda>name v. \<lparr>cl_name = name,
              cl_value = or_else (asString (child v ''value'')) ''''\<rparr>)
       (\<lambda>a b. lc (cl_name a) (cl_name b)) (child raw ''label'')"

definition parseNetworkAttachments ::
    "collation \<Rightarrow> unknown \<Rightarrow> ContainerNetworkAttachment list" where
  "parseNetworkAttachments lc raw =
     parse_entries
       (\<lambda>networkName v. \<lparr>cna_networkName = networkName,
              cna_addresses = asStringArray (child v ''address''),
              cna_mac = asString (child v ''mac'')\<rparr>)
       (\<lambda>a b. lc (cna_networkName a) (cna_networkName b)) (child raw ''network'')"

definition parsePorts :: "collation \<Rightarrow> unknown \<Rightarrow> ContainerPort list" where
  "parsePorts lc raw =
     parse_entries
       (\<lambda>i v. \<lparr>ctcp_id = i,
              ctcp_listenAddresses = asStringArray (child v ''listen-address''),
              ctcp_source = asString (child v ''source''),
              ctcp_destination = asString (child v ''destination''),
              ctcp_protocol = asString (child v ''protocol'')\<rparr>)
       (\<lambda>a b. lc (ctcp_id a) (ctcp_id b)) (child raw ''port'')"

definition parseTmpfs :: "collation \<Rightarrow> unknown \<Rightarrow> ContainerTmpfs list" where
  "parseTmpfs lc raw =
     parse_entries
       (\<lambda>i v. \<lparr>ct_id = i,
              ct_destination = asString (child v ''destination''),
              ct_size = asString (child v ''size'')\<rparr>) (\<lambda>a b. lc (ct_id a) (ct_id b))
       (child raw ''tmpfs'')"

definition parseVolumes :: "collation \<Rightarrow> unknown \<Rightarrow> ContainerVolume list" where
  "parseVolumes lc raw =
     parse_entries
       (\<lambda>i v. \<lparr>ctcv_id = i,
              ctcv_source = asString (child v ''source''),
              ctcv_destination = asString (child v ''destination''),
              ctcv_mode = asString (child v ''mode''),
              ctcv_propagation = asString (child v ''propagation'')\<rparr>)
       (\<lambda>a b. lc (ctcv_id a) (ctcv_id b)) (child raw ''volume'')"

definition parseHealthCheck :: "unknown \<Rightarrow> ContainerHealthCheck" where
  "parseHealthCheck raw =
     (let rootNode = child raw ''health-check''
      in if rootNode = None then blankHealthCheck
         else \<lparr>chc_command = asString (child rootNode ''command''),
                chc_interval = asString (child rootNode ''interval''),
                chc_timeout = asString (child rootNode ''timeout''),
                chc_retry = asString (child rootNode ''retry'')\<rparr>)"

definition parseContainerDefinition ::
    "collation \<Rightarrow> string \<Rightarrow> unknown \<Rightarrow> ContainerDefinition" where
  "parseContainerDefinition lc name raw =
     \<lparr>ctcd_name = name,
       ctcd_image = asString (child raw ''image''),
       ctcd_description = asString (child raw ''description''),
       ctcd_disabled = isFlagPresent raw ''disable'',
       ctcd_allowHostPid = isFlagPresent raw ''allow-host-pid'',
       ctcd_allowHostNetworks = isFlagPresent raw ''allow-host-networks'',
       ctcd_privileged = isFlagPresent raw ''privileged'',
       ctcd_capabilities = asStringArray (child raw ''capability''),
       ctcd_entrypoint = asString (child raw ''entrypoint''),
       ctcd_command = asString (child raw ''command''),
       ctcd_arguments = asString (child raw ''arguments''),
       ctcd_hostName = asString (child raw ''host-name''),
       ctcd_restart = asString (child raw ''restart''),
       ctcd_cpuQuota = asString (child raw ''cpu-quota''),
       ctcd_memory = asString (child raw ''memory''),
       ctcd_sharedMemory = asString (child raw ''shared-memory''),
       ctcd_uid = asString (child raw ''uid''),
       ctcd_gid = asString (child raw ''gid''),
       ctcd_logDriver = asString (child raw ''log-driver''),
       ctcd_nameServers = asStringArray (child raw ''name-server''),
       ctcd_sysctl = parseSysctl lc (child raw ''sysctl''),
       ctcd_devices = parseDevices lc raw,
       ctcd_environment = parseEnvironment lc raw,
       ctcd_labels = parseLabels lc raw,
       ctcd_networks = parseNetworkAttachments lc raw,
       ctcd_ports = parsePorts lc raw,
       ctcd_tmpfs = parseTmpfs lc raw,
       ctcd_volumes = parseVolumes lc raw,
       ctcd_healthCheck = parseHealthCheck raw\<rparr>"

definition parseContainers :: "collation \<Rightarrow> unknown \<Rightarrow> ContainerDefinition list" where
  "parseContainers lc container =
     parse_entries (parseContainerDefinition lc) (\<lambda>a b. lc (ctcd_name a) (ctcd_name b))
       (child container ''name'')"

text \<open>The \<open>type\<close> and \<open>macvlan\<close> fields of a network.\<close>

definition parseNetworkType :: "unknown \<Rightarrow> string option \<times> ContainerNetworkMacvlan option" where
  "parseNetworkType raw =
     (let typeRoot = child raw ''type''; macvlanRoot = child typeRoot ''macvlan''
      in if isFlagPresent typeRoot ''bridge'' then (Some ''bridge'', None)
         else if macvlanRoot \<noteq> None then
           (Some ''macvlan'',
            Some \<lparr>cnm_mode = asString (child macvlanRoot ''mode''),
                  cnm_parent = asString (child macvlanRoot ''parent'')\<rparr>)
         else (None, None))"

definition parseContainerNetwork :: "string \<Rightarrow> unknown \<Rightarrow> ContainerNetwork" where
  "parseContainerNetwork name raw =
     \<lparr>cn_name = name,
       cn_description = asString (child raw ''description''),
       cn_mtu = asString (child raw ''mtu''),
       cn_gateways = asStringArray (child raw ''gateway''),
       cn_prefixes = asStringArray (child raw ''prefix''),
       cn_noNameServer = isFlagPresent raw ''no-name-server'',
       cn_type = fst (parseNetworkType raw),
       cn_macvlan = snd (parseNetworkType raw),
       cn_vrf = asString (child raw ''vrf'')\<rparr>"

definition parseContainerNetworks :: "collation \<Rightarrow> unknown \<Rightarrow> ContainerNetwork list" where
  "parseContainerNetworks lc container =
     parse_entries parseContainerNetwork (\<lambda>a b. lc (cn_name a) (cn_name b))
       (child container ''network'')"

definition parseMirror :: "unknown \<Rightarrow> ContainerRegistryMirror option" where
  "parseMirror raw =
     (let rootNode = child raw ''mirror''
      in if rootNode = None then None
         else Some \<lparr>crm_address = asString (child rootNode ''address''),
                  crm_hostName = asString (child rootNode ''host-name''),
                  crm_port = asString (child rootNode ''port''),
                  crm_path = asString (child rootNode ''path'')\<rparr>)"

definition parseContainerRegistry :: "string \<Rightarrow> unknown \<Rightarrow> ContainerRegistry" where
  "parseContainerRegistry name raw =
     (let authRoot = child raw ''authentication''
      in \<lparr>cr_name = name,
           cr_username = asString (child authRoot ''username''),
           cr_hasPassword = child authRoot ''password'' \<noteq> None,
           cr_disabled = isFlagPresent raw ''disable'',
           cr_insecure = isFlagPresent raw ''insecure'',
           cr_mirror = parseMirror raw\<rparr>)"

definition parseContainerRegistries :: "collation \<Rightarrow> unknown \<Rightarrow> ContainerRegistry list" where
  "parseContainerRegistries lc container =
     parse_entries parseContainerRegistry (\<lambda>a b. lc (cr_name a) (cr_name b))
       (child container ''registry'')"

definition parseContainerConfig :: "collation \<Rightarrow> unknown \<Rightarrow> ContainerConfig" where
  "parseContainerConfig lc container =
     (if container = None then blankContainerConfig
      else \<lparr>cc_containers = parseContainers lc container,
             cc_networks = parseContainerNetworks lc container,
             cc_registries = parseContainerRegistries lc container\<rparr>)"

definition containerPath :: "path \<Rightarrow> path" where
  "containerPath rest = [''container''] @ rest"

definition containerNamePath :: "string \<Rightarrow> path \<Rightarrow> path" where
  "containerNamePath name rest = containerPath ([''name'', name] @ rest)"

definition containerSysctlPath :: "string \<Rightarrow> string \<Rightarrow> path \<Rightarrow> path" where
  "containerSysctlPath name parameter rest =
     containerNamePath name ([''sysctl'', ''parameter'', parameter] @ rest)"

definition containerDevicePath :: "string \<Rightarrow> string \<Rightarrow> path \<Rightarrow> path" where
  "containerDevicePath name i rest = containerNamePath name ([''device'', i] @ rest)"

definition containerEnvironmentPath :: "string \<Rightarrow> string \<Rightarrow> path \<Rightarrow> path" where
  "containerEnvironmentPath name varName rest =
     containerNamePath name ([''environment'', varName] @ rest)"

definition containerLabelPath :: "string \<Rightarrow> string \<Rightarrow> path \<Rightarrow> path" where
  "containerLabelPath name labelName rest = containerNamePath name ([''label'', labelName] @ rest)"

definition containerNetworkAttachmentPath :: "string \<Rightarrow> string \<Rightarrow> path \<Rightarrow> path" where
  "containerNetworkAttachmentPath name networkName rest =
     containerNamePath name ([''network'', networkName] @ rest)"

definition containerPortPath :: "string \<Rightarrow> string \<Rightarrow> path \<Rightarrow> path" where
  "containerPortPath name i rest = containerNamePath name ([''port'', i] @ rest)"

definition containerTmpfsPath :: "string \<Rightarrow> string \<Rightarrow> path \<Rightarrow> path" where
  "containerTmpfsPath name i rest = containerNamePath name ([''tmpfs'', i] @ rest)"

definition containerVolumePath :: "string \<Rightarrow> string \<Rightarrow> path \<Rightarrow> path" where
  "containerVolumePath name i rest = containerNamePath name ([''volume'', i] @ rest)"

definition containerHealthCheckPath :: "string \<Rightarrow> path \<Rightarrow> path" where
  "containerHealthCheckPath name rest = containerNamePath name ([''health-check''] @ rest)"

definition containerNetworkPath :: "string \<Rightarrow> path \<Rightarrow> path" where
  "containerNetworkPath name rest = containerPath ([''network'', name] @ rest)"

definition containerRegistryPath :: "string \<Rightarrow> path \<Rightarrow> path" where
  "containerRegistryPath name rest = containerPath ([''registry'', name] @ rest)"

subsection \<open>The container form\<close>

record ContainerFormValues =
  cfv_image :: string
  cfv_description :: string
  cfv_entrypoint :: string
  cfv_command :: string
  cfv_arguments :: string
  cfv_hostName :: string
  cfv_restart :: string
  cfv_cpuQuota :: string
  cfv_memory :: string
  cfv_sharedMemory :: string
  cfv_uid :: string
  cfv_gid :: string
  cfv_logDriver :: string
  cfv_disabled :: bool
  cfv_allowHostPid :: bool
  cfv_allowHostNetworks :: bool
  cfv_privileged :: bool
  cfv_capabilities :: "string list"

definition blankContainerFormValues :: ContainerFormValues where
  "blankContainerFormValues =
     \<lparr>cfv_image = '''',
       cfv_description = '''',
       cfv_entrypoint = '''',
       cfv_command = '''',
       cfv_arguments = '''',
       cfv_hostName = '''',
       cfv_restart = '''',
       cfv_cpuQuota = '''',
       cfv_memory = '''',
       cfv_sharedMemory = '''',
       cfv_uid = '''',
       cfv_gid = '''',
       cfv_logDriver = '''',
       cfv_disabled = False,
       cfv_allowHostPid = False,
       cfv_allowHostNetworks = False,
       cfv_privileged = False,
       cfv_capabilities = []\<rparr>"

definition containerToFormValues :: "ContainerDefinition \<Rightarrow> ContainerFormValues" where
  "containerToFormValues container =
     \<lparr>cfv_image = or_else (ctcd_image container) '''',
       cfv_description = or_else (ctcd_description container) '''',
       cfv_entrypoint = or_else (ctcd_entrypoint container) '''',
       cfv_command = or_else (ctcd_command container) '''',
       cfv_arguments = or_else (ctcd_arguments container) '''',
       cfv_hostName = or_else (ctcd_hostName container) '''',
       cfv_restart = or_else (ctcd_restart container) '''',
       cfv_cpuQuota = or_else (ctcd_cpuQuota container) '''',
       cfv_memory = or_else (ctcd_memory container) '''',
       cfv_sharedMemory = or_else (ctcd_sharedMemory container) '''',
       cfv_uid = or_else (ctcd_uid container) '''',
       cfv_gid = or_else (ctcd_gid container) '''',
       cfv_logDriver = or_else (ctcd_logDriver container) '''',
       cfv_disabled = ctcd_disabled container,
       cfv_allowHostPid = ctcd_allowHostPid container,
       cfv_allowHostNetworks = ctcd_allowHostNetworks container,
       cfv_privileged = ctcd_privileged container,
       cfv_capabilities = ctcd_capabilities container\<rparr>"

definition CONTAINER_SCALAR_FIELDS :: "ContainerFormValues scalar_field list" where
  "CONTAINER_SCALAR_FIELDS =
     [(cfv_image, [''image'']),
      (cfv_description, [''description'']),
      (cfv_entrypoint, [''entrypoint'']),
      (cfv_command, [''command'']),
      (cfv_arguments, [''arguments'']),
      (cfv_hostName, [''host-name'']),
      (cfv_restart, [''restart'']),
      (cfv_cpuQuota, [''cpu-quota'']),
      (cfv_memory, [''memory'']),
      (cfv_sharedMemory, [''shared-memory'']),
      (cfv_uid, [''uid'']),
      (cfv_gid, [''gid'']),
      (cfv_logDriver, [''log-driver''])]"

definition CONTAINER_FLAG_FIELDS :: "ContainerFormValues flag_field list" where
  "CONTAINER_FLAG_FIELDS =
     [(cfv_disabled, [''disable'']),
      (cfv_allowHostPid, [''allow-host-pid'']),
      (cfv_allowHostNetworks, [''allow-host-networks'']),
      (cfv_privileged, [''privileged''])]"

definition containerFormToOps ::
    "string \<Rightarrow> ContainerDefinition option \<Rightarrow> ContainerFormValues \<Rightarrow> ConfigOp list" where
  "containerFormToOps name before values =
     (let beforeValues = (case before of
               Some before' \<Rightarrow> containerToFormValues before'
             | None \<Rightarrow> blankContainerFormValues);
          base = containerNamePath name []
      in (if before = None then [set_flag base] else [])
         @ diffToOps base CONTAINER_SCALAR_FIELDS CONTAINER_FLAG_FIELDS beforeValues values
         @ multiValueDiffOps (base @ [''capability'']) (cfv_capabilities beforeValues)
             (cfv_capabilities values))"

definition deleteContainerOp :: "string \<Rightarrow> ConfigOp" where
  "deleteContainerOp name = delete_op (containerNamePath name [])"

subsection \<open>Nested lists\<close>

definition addDeviceOps ::
    "string \<Rightarrow> string \<Rightarrow> string \<Rightarrow> string \<Rightarrow> ConfigOp list" where
  "addDeviceOps containerName i source destination =
     (let base = containerDevicePath containerName i [];
          trimmedSource = js_trim source;
          trimmedDestination = js_trim destination
      in (if trimmedSource \<noteq> '''' then [set_op (base @ [''source'']) trimmedSource] else [])
         @ (if trimmedDestination \<noteq> ''''
            then [set_op (base @ [''destination'']) trimmedDestination]
            else []))"

definition removeDeviceOp :: "string \<Rightarrow> string \<Rightarrow> ConfigOp" where
  "removeDeviceOp containerName i = delete_op (containerDevicePath containerName i [])"

definition addPortOps ::
    "string \<Rightarrow> string \<Rightarrow> string \<Rightarrow> string \<Rightarrow> string \<Rightarrow> ConfigOp list" where
  "addPortOps containerName i source destination protocol =
     (let base = containerPortPath containerName i [];
          trimmedSource = js_trim source;
          trimmedDestination = js_trim destination
      in (if trimmedSource \<noteq> '''' then [set_op (base @ [''source'']) trimmedSource] else [])
         @ (if trimmedDestination \<noteq> ''''
            then [set_op (base @ [''destination'']) trimmedDestination]
            else [])
         @ (if protocol \<noteq> '''' then [set_op (base @ [''protocol'']) protocol] else []))"

definition removePortOp :: "string \<Rightarrow> string \<Rightarrow> ConfigOp" where
  "removePortOp containerName i = delete_op (containerPortPath containerName i [])"

definition addVolumeOps ::
    "string \<Rightarrow> string \<Rightarrow> string \<Rightarrow> string \<Rightarrow> string \<Rightarrow> string \<Rightarrow> ConfigOp list" where
  "addVolumeOps containerName i source destination mode propagation =
     (let base = containerVolumePath containerName i [];
          trimmedSource = js_trim source;
          trimmedDestination = js_trim destination
      in (if trimmedSource \<noteq> '''' then [set_op (base @ [''source'']) trimmedSource] else [])
         @ (if trimmedDestination \<noteq> ''''
            then [set_op (base @ [''destination'']) trimmedDestination]
            else [])
         @ (if mode \<noteq> '''' then [set_op (base @ [''mode'']) mode] else [])
         @ (if propagation \<noteq> '''' then [set_op (base @ [''propagation'']) propagation]
            else []))"

definition removeVolumeOp :: "string \<Rightarrow> string \<Rightarrow> ConfigOp" where
  "removeVolumeOp containerName i = delete_op (containerVolumePath containerName i [])"

definition addTmpfsOps ::
    "string \<Rightarrow> string \<Rightarrow> string \<Rightarrow> string \<Rightarrow> ConfigOp list" where
  "addTmpfsOps containerName i destination siz =
     (let base = containerTmpfsPath containerName i [];
          trimmedDestination = js_trim destination;
          trimmedSize = js_trim siz
      in (if trimmedDestination \<noteq> ''''
          then [set_op (base @ [''destination'']) trimmedDestination]
          else [])
         @ (if trimmedSize \<noteq> '''' then [set_op (base @ [''size'']) trimmedSize] else []))"

definition removeTmpfsOp :: "string \<Rightarrow> string \<Rightarrow> ConfigOp" where
  "removeTmpfsOp containerName i = delete_op (containerTmpfsPath containerName i [])"

definition addNetworkAttachmentOps ::
    "string \<Rightarrow> string \<Rightarrow> string \<Rightarrow> ConfigOp list" where
  "addNetworkAttachmentOps containerName networkName mac =
     (let base = containerNetworkAttachmentPath containerName networkName [];
          trimmedMac = js_trim mac
      in [set_flag base]
         @ (if trimmedMac \<noteq> '''' then [set_op (base @ [''mac'']) trimmedMac] else []))"

definition removeNetworkAttachmentOp :: "string \<Rightarrow> string \<Rightarrow> ConfigOp" where
  "removeNetworkAttachmentOp containerName networkName =
     delete_op (containerNetworkAttachmentPath containerName networkName [])"

record HealthCheckFormValues =
  hcfv_command :: string
  hcfv_interval :: string
  hcfv_timeout :: string
  hcfv_retry :: string

definition blankHealthCheckFormValues :: HealthCheckFormValues where
  "blankHealthCheckFormValues =
     \<lparr>hcfv_command = '''',
       hcfv_interval = '''',
       hcfv_timeout = '''',
       hcfv_retry = ''''\<rparr>"

definition healthCheckToFormValues :: "ContainerHealthCheck \<Rightarrow> HealthCheckFormValues" where
  "healthCheckToFormValues hc =
     \<lparr>hcfv_command = or_else (chc_command hc) '''',
       hcfv_interval = or_else (chc_interval hc) '''',
       hcfv_timeout = or_else (chc_timeout hc) '''',
       hcfv_retry = or_else (chc_retry hc) ''''\<rparr>"

definition HEALTH_CHECK_FIELDS :: "HealthCheckFormValues scalar_field list" where
  "HEALTH_CHECK_FIELDS =
     [(hcfv_command, [''command'']),
      (hcfv_interval, [''interval'']),
      (hcfv_timeout, [''timeout'']),
      (hcfv_retry, [''retry''])]"

definition healthCheckFormToOps ::
    "string \<Rightarrow> ContainerHealthCheck \<Rightarrow> HealthCheckFormValues \<Rightarrow> ConfigOp list" where
  "healthCheckFormToOps containerName before values =
     (let beforeValues = healthCheckToFormValues before;
          base = containerHealthCheckPath containerName []
      in diffToOps base HEALTH_CHECK_FIELDS [] beforeValues values)"

subsection \<open>The network form\<close>

record ContainerNetworkFormValues =
  cnfv_description :: string
  cnfv_mtu :: string
  cnfv_noNameServer :: bool
  cnfv_type :: string
  cnfv_macvlanMode :: string
  cnfv_macvlanParent :: string
  cnfv_vrf :: string

definition blankContainerNetworkFormValues :: ContainerNetworkFormValues where
  "blankContainerNetworkFormValues =
     \<lparr>cnfv_description = '''',
       cnfv_mtu = '''',
       cnfv_noNameServer = False,
       cnfv_type = '''',
       cnfv_macvlanMode = '''',
       cnfv_macvlanParent = '''',
       cnfv_vrf = ''''\<rparr>"

definition containerNetworkToFormValues :: "ContainerNetwork \<Rightarrow> ContainerNetworkFormValues" where
  "containerNetworkToFormValues network =
     \<lparr>cnfv_description = or_else (cn_description network) '''',
       cnfv_mtu = or_else (cn_mtu network) '''',
       cnfv_noNameServer = cn_noNameServer network,
       cnfv_type = or_else (cn_type network) '''',
       cnfv_macvlanMode = or_else (Option.bind (cn_macvlan network) cnm_mode) '''',
       cnfv_macvlanParent = or_else (Option.bind (cn_macvlan network) cnm_parent) '''',
       cnfv_vrf = or_else (cn_vrf network) ''''\<rparr>"

definition CONTAINER_NETWORK_SCALAR_FIELDS :: "ContainerNetworkFormValues scalar_field list" where
  "CONTAINER_NETWORK_SCALAR_FIELDS =
     [(cnfv_description, [''description'']),
      (cnfv_mtu, [''mtu'']),
      (cnfv_vrf, [''vrf''])]"

definition containerNetworkFormToOps ::
    "string \<Rightarrow> ContainerNetwork option \<Rightarrow> ContainerNetworkFormValues \<Rightarrow> ConfigOp list" where
  "containerNetworkFormToOps name before values =
     (let beforeValues = (case before of
               Some before' \<Rightarrow> containerNetworkToFormValues before'
             | None \<Rightarrow> blankContainerNetworkFormValues);
          base = containerNetworkPath name [];
          typePath = base @ [''type'']
      in diffToOps base CONTAINER_NETWORK_SCALAR_FIELDS [] beforeValues values
         @ flag_diff (base @ [''no-name-server'']) (cnfv_noNameServer beforeValues)
             (cnfv_noNameServer values)
         @ (if cnfv_type beforeValues \<noteq> cnfv_type values
            then (if cnfv_type beforeValues \<noteq> '''' then [delete_op typePath] else [])
                 @ (if cnfv_type values = ''bridge'' then [set_flag (typePath @ [''bridge''])]
                    else (if cnfv_type values = ''macvlan''
                          then [set_flag (typePath @ [''macvlan''])]
                               @ (if cnfv_macvlanMode values \<noteq> ''''
                                  then [set_op (typePath @ [''macvlan'', ''mode''])
                                          (cnfv_macvlanMode values)]
                                  else [])
                               @ (if cnfv_macvlanParent values \<noteq> ''''
                                  then [set_op (typePath @ [''macvlan'', ''parent''])
                                          (cnfv_macvlanParent values)]
                                  else [])
                          else []))
            else (if cnfv_type values = ''macvlan''
                  then scalar_diff (typePath @ [''macvlan'', ''mode''])
                         (cnfv_macvlanMode beforeValues) (cnfv_macvlanMode values)
                       @ scalar_diff (typePath @ [''macvlan'', ''parent''])
                           (cnfv_macvlanParent beforeValues) (cnfv_macvlanParent values)
                  else [])))"

definition deleteContainerNetworkOp :: "string \<Rightarrow> ConfigOp" where
  "deleteContainerNetworkOp name = delete_op (containerNetworkPath name [])"

subsection \<open>The registry form\<close>

record ContainerRegistryFormValues =
  crfv_username :: string
  crfv_password :: string
  crfv_disabled :: bool
  crfv_insecure :: bool
  crfv_mirrorAddress :: string
  crfv_mirrorHostName :: string
  crfv_mirrorPort :: string
  crfv_mirrorPath :: string

definition blankContainerRegistryFormValues :: ContainerRegistryFormValues where
  "blankContainerRegistryFormValues =
     \<lparr>crfv_username = '''',
       crfv_password = '''',
       crfv_disabled = False,
       crfv_insecure = False,
       crfv_mirrorAddress = '''',
       crfv_mirrorHostName = '''',
       crfv_mirrorPort = '''',
       crfv_mirrorPath = ''''\<rparr>"

definition containerRegistryToFormValues :: "ContainerRegistry \<Rightarrow> ContainerRegistryFormValues" where
  "containerRegistryToFormValues registry =
     \<lparr>crfv_username = or_else (cr_username registry) '''',
       crfv_password = '''',
       crfv_disabled = cr_disabled registry,
       crfv_insecure = cr_insecure registry,
       crfv_mirrorAddress = or_else (Option.bind (cr_mirror registry) crm_address) '''',
       crfv_mirrorHostName = or_else (Option.bind (cr_mirror registry) crm_hostName) '''',
       crfv_mirrorPort = or_else (Option.bind (cr_mirror registry) crm_port) '''',
       crfv_mirrorPath = or_else (Option.bind (cr_mirror registry) crm_path) ''''\<rparr>"

definition CONTAINER_REGISTRY_SCALAR_FIELDS :: "ContainerRegistryFormValues scalar_field list" where
  "CONTAINER_REGISTRY_SCALAR_FIELDS =
     [(crfv_username, [''authentication'', ''username'']),
      (crfv_mirrorAddress, [''mirror'', ''address'']),
      (crfv_mirrorHostName, [''mirror'', ''host-name'']),
      (crfv_mirrorPort, [''mirror'', ''port'']),
      (crfv_mirrorPath, [''mirror'', ''path''])]"

definition CONTAINER_REGISTRY_FLAG_FIELDS :: "ContainerRegistryFormValues flag_field list" where
  "CONTAINER_REGISTRY_FLAG_FIELDS =
     [(crfv_disabled, [''disable'']),
      (crfv_insecure, [''insecure''])]"

definition containerRegistryFormToOps ::
    "string \<Rightarrow> ContainerRegistry option \<Rightarrow> ContainerRegistryFormValues \<Rightarrow> ConfigOp list" where
  "containerRegistryFormToOps name before values =
     (let beforeValues = (case before of
               Some before' \<Rightarrow> containerRegistryToFormValues before'
             | None \<Rightarrow> blankContainerRegistryFormValues);
          base = containerRegistryPath name [];
          trimmedPassword = js_trim (crfv_password values)
      in diffToOps base CONTAINER_REGISTRY_SCALAR_FIELDS CONTAINER_REGISTRY_FLAG_FIELDS beforeValues
           values
         @ (if trimmedPassword \<noteq> ''''
            then [set_op (base @ [''authentication'', ''password'']) trimmedPassword]
            else []))"

definition deleteContainerRegistryOp :: "string \<Rightarrow> ConfigOp" where
  "deleteContainerRegistryOp name = delete_op (containerRegistryPath name [])"

subsection \<open>Images\<close>

record ContainerImage =
  ctci_id :: string
  ctci_tags :: "string list"
  ctci_sizeBytes :: jsnum
  ctci_containers :: jsnum
  ctci_createdAt :: jsnum

record ContainerImageUpdateCheck =
  ciuc_enabled :: bool
  ciuc_currentTag :: string
  ciuc_recognized :: bool
  ciuc_latestTag :: string
  ciuc_updateAvailable :: bool
  ciuc_newImageRef :: string
  ciuc_majorUpdate :: "bool option"

definition imageIsPulled :: "string \<Rightarrow> ContainerImage list \<Rightarrow> bool" where
  "imageIsPulled imageRef images =
     (let trm = js_trim imageRef
      in if trm = '''' then True else list_ex (\<lambda>img. trm \<in> set (ctci_tags img)) images)"

subsection \<open>Images that can be cleaned up\<close>

text \<open>\<open>new Set(containers.map((c) => c.image?.trim()).filter((ref) => !!ref))\<close>.\<close>

definition referenced_images :: "ContainerDefinition list \<Rightarrow> string list" where
  "referenced_images containers =
     filter (\<lambda>ref. ref \<noteq> '''') (List.map_filter (\<lambda>c. map_option js_trim (ctcd_image c)) containers)"

definition unreferencedImages ::
    "ContainerImage list \<Rightarrow> ContainerDefinition list \<Rightarrow> ContainerImage list" where
  "unreferencedImages images containers =
     filter (\<lambda>img. ctci_containers img = Num 0
         \<and> \<not> list_ex (\<lambda>tag. tag \<in> set (referenced_images containers)) (ctci_tags img)) images"

text \<open>
  Cleaning up unused images is safe. The images offered for deletion are used by no running
  container, and deleting all of them leaves every image that a configured container names as
  present, or as absent, as it was.
\<close>

theorem cleanup_keeps_images:
  "(\<forall>img \<in> set (unreferencedImages images containers). ctci_containers img = Num 0)
   \<and> (\<forall>c \<in> set containers. \<forall>ref. ctcd_image c = Some ref \<longrightarrow>
        imageIsPulled ref (filter (\<lambda>img. img \<notin> set (unreferencedImages images containers)) images)
          = imageIsPulled ref images)"
proof (intro conjI ballI allI impI)
  fix c ref
  assume c: "c \<in> set containers" and ref: "ctcd_image c = Some ref"
  have "js_trim ref \<in> set (referenced_images containers)" if "js_trim ref \<noteq> ''''"
    using c ref that by (force simp: referenced_images_def List.map_filter_def)
  then show "imageIsPulled ref (filter (\<lambda>img. img \<notin> set (unreferencedImages images containers)) images)
      = imageIsPulled ref images"
    by (auto simp: imageIsPulled_def unreferencedImages_def list_ex_iff Let_def)
qed (simp add: unreferencedImages_def)

end
