(* ===== verification/ContainerForms.thy ===== *)
theory ContainerForms
  imports Containers PendingChanges
begin

text \<open>
  The container forms on the device (a new container is always created, a network's type is a choice
  of subtrees, a registry's password is write-only) and the update check of a container's image.
\<close>

subsection \<open>The forms on the device\<close>

lemma container_paths:
  "containerNamePath n r = ''container'' # ''name'' # n # r"
  "containerNetworkPath n r = ''container'' # ''network'' # n # r"
  "containerRegistryPath n r = ''container'' # ''registry'' # n # r"
  by (simp_all add: containerNamePath_def containerNetworkPath_def containerRegistryPath_def containerPath_def)

text \<open>The container form without its capabilities, which are a list beside the fields.\<close>

abbreviation container_scalars :: "ContainerFormValues \<Rightarrow> ContainerFormValues" where
  "container_scalars v \<equiv> v\<lparr>cfv_capabilities := []\<rparr>"

interpretation container_form: saved_form CONTAINER_SCALAR_FIELDS CONTAINER_FLAG_FIELDS
  "\<lambda>c. container_scalars (containerToFormValues c)" "parseContainerDefinition lc name"
  blankContainerFormValues container_scalars for lc name
proof unfold_locales
  show "reads CONTAINER_SCALAR_FIELDS CONTAINER_FLAG_FIELDS t v
      \<longleftrightarrow> container_scalars (containerToFormValues (parseContainerDefinition lc name t)) = container_scalars v"
    for t v
    by (cases v) (simp only: reads_simps CONTAINER_SCALAR_FIELDS_def CONTAINER_FLAG_FIELDS_def
        containerToFormValues_def parseContainerDefinition_def ContainerDefinition.simps
        ContainerFormValues.simps ContainerFormValues.ext_inject)
qed (simp_all add: CONTAINER_SCALAR_FIELDS_def CONTAINER_FLAG_FIELDS_def containerToFormValues_def
    parseContainerDefinition_def blankContainerDefinition_def blankContainerFormValues_def)

lemma container_diff_capabilities:
  "diffToOps p CONTAINER_SCALAR_FIELDS CONTAINER_FLAG_FIELDS (container_scalars b) v
     = diffToOps p CONTAINER_SCALAR_FIELDS CONTAINER_FLAG_FIELDS b v"
  by (simp add: diffToOps_def CONTAINER_SCALAR_FIELDS_def CONTAINER_FLAG_FIELDS_def)

text \<open>
  The container form. Saving it makes the container exist, even when every field was left blank;
  each trimmed field reads back; the capabilities are sent as the difference of the two lists; and
  nothing off the container changes.
\<close>

theorem container_form_saved:
  assumes "trimmed_form CONTAINER_SCALAR_FIELDS v" and "p = containerNamePath name []" and "indep p q"
    and "before = device_item (parseContainerDefinition lc name) m p"
    and "m' = device_apply (containerFormToOps name before v) m"
  shows "container_scalars (containerToFormValues (parseContainerDefinition lc name (device_get m' p)))
      = container_scalars v
    \<and> device_get m' p \<noteq> None \<and> device_get m' q = device_get m q"
proof -
  let ?b = "case before of Some c \<Rightarrow> containerToFormValues c | None \<Rightarrow> blankContainerFormValues"
  let ?c = "case before of Some c \<Rightarrow> container_scalars (containerToFormValues c)
    | None \<Rightarrow> blankContainerFormValues"
  let ?pre = "if before = None then [set_flag p] else []"
  let ?ws = "multiValueDiffOps (p @ [''capability'']) (cfv_capabilities ?b) (cfv_capabilities v)"
  have "?c = container_scalars ?b" by (cases before) (simp_all add: blankContainerFormValues_def)
  then have m': "m' = device_apply (?pre @ diffToOps p CONTAINER_SCALAR_FIELDS CONTAINER_FLAG_FIELDS ?c v
      @ ?ws) m"
    by (simp add: assms(5) containerFormToOps_def Let_def assms(2) [symmetric] container_diff_capabilities)
  have ws: "\<forall>op \<in> set ?ws. \<exists>r. r \<noteq> [] \<and> co_path op = p @ r
      \<and> (\<forall>seg \<in> set (map snd CONTAINER_SCALAR_FIELDS @ map snd CONTAINER_FLAG_FIELDS). indep r seg)"
    by (rule ballI, rule exI [of _ "[''capability'']"])
      (auto simp: multiValueDiffOps_def op_defs CONTAINER_SCALAR_FIELDS_def CONTAINER_FLAG_FIELDS_def Let_def)
  show ?thesis
    by (rule container_form.saved_item [OF m' assms(4) insertI1 refl _ assms(1) ws assms(3)])
       (simp add: assms(2) container_paths)
qed

text \<open>The mirror of a registry, read leaf by leaf.\<close>

lemma mirror_leaves:
  "or_else (Option.bind (parseMirror t) crm_address) '''' = read_str (child (child t ''mirror'') ''address'')"
  "or_else (Option.bind (parseMirror t) crm_hostName) '''' = read_str (child (child t ''mirror'') ''host-name'')"
  "or_else (Option.bind (parseMirror t) crm_port) '''' = read_str (child (child t ''mirror'') ''port'')"
  "or_else (Option.bind (parseMirror t) crm_path) '''' = read_str (child (child t ''mirror'') ''path'')"
  by (simp_all add: parseMirror_def Let_def)

abbreviation registry_shown :: "ContainerRegistryFormValues \<Rightarrow> ContainerRegistryFormValues" where
  "registry_shown v \<equiv> v\<lparr>crfv_password := ''''\<rparr>"

interpretation registry_form: saved_form CONTAINER_REGISTRY_SCALAR_FIELDS CONTAINER_REGISTRY_FLAG_FIELDS
  containerRegistryToFormValues "parseContainerRegistry name" blankContainerRegistryFormValues
  registry_shown for name
proof unfold_locales
  show "reads CONTAINER_REGISTRY_SCALAR_FIELDS CONTAINER_REGISTRY_FLAG_FIELDS t v
      \<longleftrightarrow> containerRegistryToFormValues (parseContainerRegistry name t) = registry_shown v" for t v
    by (cases v) (simp only: reads_simps CONTAINER_REGISTRY_SCALAR_FIELDS_def
        CONTAINER_REGISTRY_FLAG_FIELDS_def containerRegistryToFormValues_def parseContainerRegistry_def
        Let_def mirror_leaves ContainerRegistry.simps ContainerRegistryFormValues.simps
        ContainerRegistryFormValues.ext_inject; blast)
  show "containerRegistryToFormValues (parseContainerRegistry name None) = blankContainerRegistryFormValues"
    by (simp add: containerRegistryToFormValues_def parseContainerRegistry_def parseMirror_def
        blankContainerRegistryFormValues_def)
qed (simp_all add: CONTAINER_REGISTRY_SCALAR_FIELDS_def CONTAINER_REGISTRY_FLAG_FIELDS_def
    containerRegistryToFormValues_def)

text \<open>
  The registry form, with its write-only password. Edited into trimmed values and applied, a
  registry reads back with the password blank; the password on the device is the trimmed input, or
  as it was when the input is blank; and nothing off the registry changes.
\<close>

theorem registry_form_saved:
  assumes "trimmed_form CONTAINER_REGISTRY_SCALAR_FIELDS v" and "p = containerRegistryPath name []"
    and "indep p q"
    and "m' = device_apply (containerRegistryFormToOps name
      (device_item (parseContainerRegistry name) m p) v) m"
  shows "containerRegistryToFormValues (parseContainerRegistry name (device_get m' p)) = registry_shown v
    \<and> device_get m' q = device_get m q
    \<and> device_get m' (p @ [''authentication'', ''password''])
        = (if js_trim (crfv_password v) = '''' then device_get m (p @ [''authentication'', ''password''])
           else Some (JStr (js_trim (crfv_password v))))"
proof -
  let ?b = "case device_item (parseContainerRegistry name) m p of
    Some c \<Rightarrow> containerRegistryToFormValues c | None \<Rightarrow> blankContainerRegistryFormValues"
  let ?D = "diffToOps p CONTAINER_REGISTRY_SCALAR_FIELDS CONTAINER_REGISTRY_FLAG_FIELDS ?b v"
  let ?t = "js_trim (crfv_password v)"
  have m': "m' = device_apply (?D @ (if ?t \<noteq> ''''
      then [set_op (p @ [''authentication'', ''password'']) ?t] else [])) m"
    by (simp add: assms(4) containerRegistryFormToOps_def Let_def assms(2))
  have p: "p \<noteq> []" by (simp add: assms(2) container_paths)
  show ?thesis
    using registry_form.saved_fields [OF m' insertI1 refl p assms(1) _ assms(3)]
      registry_form.secret [of m' "[]" ?D ?t p "[''authentication'', ''password'']" m, OF _ insertI1 _ _ p] m'
    by (simp add: op_defs CONTAINER_REGISTRY_SCALAR_FIELDS_def CONTAINER_REGISTRY_FLAG_FIELDS_def)
qed

text \<open>
  The network form, whose type is a choice between the subtrees \<open>type bridge\<close> and \<open>type macvlan\<close>. Its
  ops beside the fields are those of the type.
\<close>

definition network_type_ops ::
    "path \<Rightarrow> ContainerNetworkFormValues \<Rightarrow> ContainerNetworkFormValues \<Rightarrow> ConfigOp list" where
  "network_type_ops T b v =
     (if cnfv_type b \<noteq> cnfv_type v then
        (if cnfv_type b \<noteq> '''' then [delete_op T] else [])
        @ (if cnfv_type v = ''bridge'' then [set_flag (T @ [''bridge''])]
           else if cnfv_type v = ''macvlan'' then
             [set_flag (T @ [''macvlan''])]
             @ (if cnfv_macvlanMode v \<noteq> ''''
                then [set_op (T @ [''macvlan'', ''mode'']) (cnfv_macvlanMode v)] else [])
             @ (if cnfv_macvlanParent v \<noteq> ''''
                then [set_op (T @ [''macvlan'', ''parent'']) (cnfv_macvlanParent v)] else [])
           else [])
      else if cnfv_type v = ''macvlan'' then
        scalar_diff (T @ [''macvlan'', ''mode'']) (cnfv_macvlanMode b) (cnfv_macvlanMode v)
        @ scalar_diff (T @ [''macvlan'', ''parent'']) (cnfv_macvlanParent b) (cnfv_macvlanParent v)
      else [])"

definition NETWORK_FLAGS :: "ContainerNetworkFormValues flag_field list" where
  "NETWORK_FLAGS = [(cnfv_noNameServer, [''no-name-server''])]"

lemma containerNetworkFormToOps_split:
  "containerNetworkFormToOps name before v =
     (let b = (case before of Some x \<Rightarrow> containerNetworkToFormValues x
               | None \<Rightarrow> blankContainerNetworkFormValues); p = containerNetworkPath name []
      in diffToOps p CONTAINER_NETWORK_SCALAR_FIELDS NETWORK_FLAGS b v
         @ network_type_ops (p @ [''type'']) b v)"
  by (simp add: containerNetworkFormToOps_def network_type_ops_def NETWORK_FLAGS_def diffToOps_def Let_def
      cong: if_cong)

text \<open>What the form shows of a type node: the type, the macvlan mode and parent.\<close>

definition type_shown :: "unknown \<Rightarrow> string \<times> string \<times> string" where
  "type_shown k =
     (if child k ''bridge'' \<noteq> None then (''bridge'', '''', '''')
      else if child k ''macvlan'' \<noteq> None then
        (''macvlan'', read_str (child (child k ''macvlan'') ''mode''),
         read_str (child (child k ''macvlan'') ''parent''))
      else ('''', '''', ''''))"

lemma type_shown_get:
  "type_shown (device_get m T) =
     (if device_get m (T @ [''bridge'']) \<noteq> None then (''bridge'', '''', '''')
      else if device_get m (T @ [''macvlan'']) \<noteq> None then
        (''macvlan'', read_str (tree_get (device_get m (T @ [''macvlan''])) [''mode'']),
         read_str (tree_get (device_get m (T @ [''macvlan''])) [''parent'']))
      else ('''', '''', ''''))"
  by (simp add: type_shown_def device_get_append)

definition MACVLAN_FIELDS :: "ContainerNetworkFormValues scalar_field list" where
  "MACVLAN_FIELDS = [(cnfv_macvlanMode, [''mode'']), (cnfv_macvlanParent, [''parent''])]"

lemma macvlan_edit:
  assumes "device_get n (T @ [''bridge'']) = None" and "device_get n (T @ [''macvlan'']) \<noteq> None"
    and "reads MACVLAN_FIELDS [] (device_get n (T @ [''macvlan''])) b" and "trimmed_form MACVLAN_FIELDS v"
  shows "type_shown (device_get (device_apply (diffToOps (T @ [''macvlan'']) MACVLAN_FIELDS [] b v) n) T)
    = (''macvlan'', cnfv_macvlanMode v, cnfv_macvlanParent v)"
proof -
  let ?D = "diffToOps (T @ [''macvlan'']) MACVLAN_FIELDS [] b v"
  have p: "\<exists>r. r \<noteq> [] \<and> co_path op = (T @ [''macvlan'']) @ r" if "op \<in> set ?D" for op
    using diff_path [OF that] by (auto simp: MACVLAN_FIELDS_def)
  have "device_get (device_apply ?D n) (T @ [''bridge'']) = device_get n (T @ [''bridge''])"
    by (rule device_frame) (use p in fastforce)
  moreover have "device_get (device_apply ?D n) (T @ [''macvlan'']) \<noteq> None"
    by (rule ops_keep_present [OF assms(2)]) (use p in blast)
  moreover have "reads MACVLAN_FIELDS [] (device_get (device_apply ?D n) (T @ [''macvlan''])) v"
    by (rule form_applied [OF _ _ assms(3,4)]) (simp_all add: MACVLAN_FIELDS_def)
  ultimately show ?thesis using assms(1) by (simp add: type_shown_get reads_def MACVLAN_FIELDS_def)
qed

lemma type_ops_effect:
  assumes T: "T \<noteq> []" and b: "(cnfv_type b, cnfv_macvlanMode b, cnfv_macvlanParent b) = type_shown (device_get m T)"
    and v: "cnfv_type v \<in> {'''', ''bridge'', ''macvlan''}" "trimmed_form MACVLAN_FIELDS v"
  shows "type_shown (device_get (device_apply (network_type_ops T b v) m) T)
    = (cnfv_type v, if cnfv_type v = ''macvlan'' then cnfv_macvlanMode v else '''',
       if cnfv_type v = ''macvlan'' then cnfv_macvlanParent v else '''')"
proof (cases "cnfv_type b = cnfv_type v")
  case False
  let ?clear = "if cnfv_type b \<noteq> '''' then [delete_op T] else []"
  let ?n = "device_apply ?clear m"
  have n: "device_get ?n (T @ [''bridge'']) = None" "device_get ?n (T @ [''macvlan'']) = None"
    using b T by (auto simp: type_shown_def device_get_append deleteNested_gone split: if_splits)
  consider "cnfv_type v = ''''" | "cnfv_type v = ''bridge''" | "cnfv_type v = ''macvlan''" using v(1) by blast
  then show ?thesis
  proof cases
    case 1
    then have "network_type_ops T b v = ?clear" using False by (simp add: network_type_ops_def)
    then show ?thesis using 1 n by (simp only: type_shown_get) simp
  next
    case 2
    then have "network_type_ops T b v = ?clear @ [set_flag (T @ [''bridge''])]"
      using False by (simp add: network_type_ops_def)
    then have "device_apply (network_type_ops T b v) m = setNested (T @ [''bridge'']) '''' ?n"
      by (simp only: device_apply_append device_apply_simps apply_op_simps)
    then show ?thesis using 2 by (simp only: type_shown_get) (simp add: setNested_flag)
  next
    case 3
    let ?e = "v\<lparr>cnfv_macvlanMode := '''', cnfv_macvlanParent := ''''\<rparr>"
    let ?k = "setNested (T @ [''macvlan'']) '''' ?n"
    have "network_type_ops T b v = ?clear @ [set_flag (T @ [''macvlan''])]
        @ diffToOps (T @ [''macvlan'']) MACVLAN_FIELDS [] ?e v"
      using False 3 v(2) by (auto simp: network_type_ops_def diffToOps_def MACVLAN_FIELDS_def
          scalar_diff_def trimmed_form_def trimmedD)
    then have *: "device_apply (network_type_ops T b v) m
        = device_apply (diffToOps (T @ [''macvlan'']) MACVLAN_FIELDS [] ?e v) ?k"
      by (simp only: device_apply_append device_apply_simps apply_op_simps)
    have k: "device_get ?k (T @ [''macvlan'']) = Some (JObj [])" using n(2) by (simp add: setNested_flag)
    have "device_get ?k (T @ [''bridge'']) = None" using n(1) by (simp add: setNested_other)
    moreover have "reads MACVLAN_FIELDS [] (device_get ?k (T @ [''macvlan''])) ?e"
      unfolding k by (simp add: reads_def MACVLAN_FIELDS_def child_def)
    ultimately show ?thesis unfolding * using macvlan_edit [of ?k T ?e v] k v(2) 3 by simp
  qed
next
  case True
  show ?thesis
  proof (cases "cnfv_type v = ''macvlan''")
    case False
    then have "network_type_ops T b v = []" using True by (simp add: network_type_ops_def)
    then show ?thesis using b True False by (auto simp: type_shown_def split: if_splits)
  next
    case mac: True
    then have t: "type_shown (device_get m T) = (''macvlan'', cnfv_macvlanMode b, cnfv_macvlanParent b)"
      using b True by simp
    then have "device_get m (T @ [''bridge'']) = None" "device_get m (T @ [''macvlan'']) \<noteq> None"
      "reads MACVLAN_FIELDS [] (device_get m (T @ [''macvlan''])) b"
      unfolding type_shown_get by (auto simp: reads_def MACVLAN_FIELDS_def split: if_splits)
    from macvlan_edit [OF this v(2)] show ?thesis
      using True mac by (simp add: network_type_ops_def diffToOps_def MACVLAN_FIELDS_def)
  qed
qed

lemma network_form_shows:
  "containerNetworkToFormValues (parseContainerNetwork name t) =
     \<lparr>cnfv_description = read_str (child t ''description''), cnfv_mtu = read_str (child t ''mtu''),
      cnfv_noNameServer = (child t ''no-name-server'' \<noteq> None),
      cnfv_type = fst (type_shown (child t ''type'')),
      cnfv_macvlanMode = fst (snd (type_shown (child t ''type''))),
      cnfv_macvlanParent = snd (snd (type_shown (child t ''type''))),
      cnfv_vrf = read_str (child t ''vrf'')\<rparr>"
  by (auto simp: containerNetworkToFormValues_def parseContainerNetwork_def parseNetworkType_def
      type_shown_def Let_def)

abbreviation network_scalars :: "ContainerNetworkFormValues \<Rightarrow> ContainerNetworkFormValues" where
  "network_scalars v \<equiv> v\<lparr>cnfv_type := '''', cnfv_macvlanMode := '''', cnfv_macvlanParent := ''''\<rparr>"

interpretation network_form: saved_form CONTAINER_NETWORK_SCALAR_FIELDS NETWORK_FLAGS
  "\<lambda>n. network_scalars (containerNetworkToFormValues n)" "parseContainerNetwork name"
  blankContainerNetworkFormValues network_scalars for name
proof unfold_locales
  show "reads CONTAINER_NETWORK_SCALAR_FIELDS NETWORK_FLAGS t v
      \<longleftrightarrow> network_scalars (containerNetworkToFormValues (parseContainerNetwork name t)) = network_scalars v" for t v
    unfolding network_form_shows
    by (cases v) (auto simp: reads_def CONTAINER_NETWORK_SCALAR_FIELDS_def NETWORK_FLAGS_def)
qed (simp_all add: CONTAINER_NETWORK_SCALAR_FIELDS_def NETWORK_FLAGS_def network_form_shows
    blankContainerNetworkFormValues_def)

lemma network_diff_scalars:
  "diffToOps p CONTAINER_NETWORK_SCALAR_FIELDS NETWORK_FLAGS (network_scalars b) v
     = diffToOps p CONTAINER_NETWORK_SCALAR_FIELDS NETWORK_FLAGS b v"
  by (simp add: diffToOps_def CONTAINER_NETWORK_SCALAR_FIELDS_def NETWORK_FLAGS_def)

lemma network_type_paths:
  "op \<in> set (network_type_ops T b v) \<Longrightarrow> \<exists>r. co_path op = T @ r"
  by (auto simp: network_type_ops_def scalar_diff_def op_defs split: if_splits)

text \<open>
  C19. The network form, whose type is a choice between subtrees. Edit the device's network into any
  type and trimmed values and apply the queued ops: the fields, the type and, for a macvlan, its mode
  and parent read back, nothing of the old type survives, and nothing off the network changes.
\<close>

theorem container_network_form:
  assumes "trimmed_form CONTAINER_NETWORK_SCALAR_FIELDS v" and "trimmed_form MACVLAN_FIELDS v"
    and "cnfv_type v \<in> {'''', ''bridge'', ''macvlan''}"
    and "p = containerNetworkPath name []" and "indep p q"
    and "m' = device_apply (containerNetworkFormToOps name
      (device_item (parseContainerNetwork name) m p) v) m"
  shows "containerNetworkToFormValues (parseContainerNetwork name (device_get m' p))
      = (if cnfv_type v = ''macvlan'' then v else v\<lparr>cnfv_macvlanMode := '''', cnfv_macvlanParent := ''''\<rparr>)
    \<and> device_get m' q = device_get m q"
proof -
  let ?b = "containerNetworkToFormValues (parseContainerNetwork name (device_get m p))"
  let ?c = "case device_item (parseContainerNetwork name) m p of
    Some x \<Rightarrow> network_scalars (containerNetworkToFormValues x) | None \<Rightarrow> blankContainerNetworkFormValues"
  let ?D = "diffToOps p CONTAINER_NETWORK_SCALAR_FIELDS NETWORK_FLAGS ?c v"
  let ?ws = "network_type_ops (p @ [''type'']) ?b v"
  have "containerNetworkToFormValues (parseContainerNetwork name None) = blankContainerNetworkFormValues"
    by (simp add: network_form_shows blankContainerNetworkFormValues_def type_shown_def)
  note bv = device_item_values [where to = containerNetworkToFormValues and parse = "parseContainerNetwork name", OF this, of m p]
  have m': "m' = device_apply (?D @ ?ws) m"
    unfolding assms(6) containerNetworkFormToOps_split Let_def assms(4) [symmetric] bv
      network_form.before_form network_diff_scalars ..
  have p: "p \<noteq> []" by (simp add: assms(4) container_paths)
  have ws: "\<forall>op \<in> set ?ws. \<exists>r. r \<noteq> [] \<and> co_path op = p @ r \<and>
      (\<forall>seg \<in> set (map snd CONTAINER_NETWORK_SCALAR_FIELDS @ map snd NETWORK_FLAGS). indep r seg)"
    using network_type_paths by (force simp: CONTAINER_NETWORK_SCALAR_FIELDS_def NETWORK_FLAGS_def)
  note saved = network_form.saved_fields [OF m' insertI1 refl p assms(1) ws assms(5)]
  have "device_get (device_apply ?D m) (p @ [''type'']) = device_get m (p @ [''type''])"
    by (rule diff_result_frame [OF insertI1]) (simp add: CONTAINER_NETWORK_SCALAR_FIELDS_def NETWORK_FLAGS_def)
  then have "(cnfv_type ?b, cnfv_macvlanMode ?b, cnfv_macvlanParent ?b)
      = type_shown (device_get (device_apply ?D m) (p @ [''type'']))"
    by (simp add: network_form_shows device_get_append)
  from type_ops_effect [OF _ this assms(3,2)]
  have "type_shown (child (device_get m' p) ''type'') = (cnfv_type v,
      if cnfv_type v = ''macvlan'' then cnfv_macvlanMode v else '''',
      if cnfv_type v = ''macvlan'' then cnfv_macvlanParent v else '''')"
    by (simp add: m' device_get_append)
  then show ?thesis using saved unfolding network_form_shows by (cases v) auto
qed

definition sample_network_values :: ContainerNetworkFormValues where
  "sample_network_values = blankContainerNetworkFormValues\<lparr>cnfv_type := ''macvlan'', cnfv_macvlanParent := ''eth0''\<rparr>"

definition sample_network_device :: node_map where
  "sample_network_device = [(''container'', JObj [(''network'', JObj [(''lan'', JObj
     [(''type'', JObj [(''bridge'', JObj [])])])])])]"

theorem container_network_form_witness:
  "containerNetworkToFormValues (parseContainerNetwork ''lan'' (device_get (device_apply
     (containerNetworkFormToOps ''lan'' (device_item (parseContainerNetwork ''lan'')
        sample_network_device (containerNetworkPath ''lan'' [])) sample_network_values)
     sample_network_device) (containerNetworkPath ''lan'' []))) = sample_network_values"
proof -
  have 1: "trimmed_form CONTAINER_NETWORK_SCALAR_FIELDS sample_network_values"
    "trimmed_form MACVLAN_FIELDS sample_network_values"
    "cnfv_type sample_network_values \<in> {'''', ''bridge'', ''macvlan''}"
    "indep (containerNetworkPath ''lan'' []) [''system'']" "cnfv_type sample_network_values = ''macvlan''"
    by code_simp+
  from container_network_form [OF 1(1-3) refl 1(4) refl, of sample_network_device] 1(5) show ?thesis by simp
qed

definition sample_registry_values :: ContainerRegistryFormValues where
  "sample_registry_values = blankContainerRegistryFormValues\<lparr>crfv_username := ''me'', crfv_password := '' pw ''\<rparr>"

theorem registry_form_saved_witness:
  "device_get (device_apply (containerRegistryFormToOps ''docker.io'' None sample_registry_values) [])
     (containerRegistryPath ''docker.io'' [] @ [''authentication'', ''password'']) = Some (JStr ''pw'')"
proof -
  let ?p = "containerRegistryPath ''docker.io'' []"
  have 1: "trimmed_form CONTAINER_REGISTRY_SCALAR_FIELDS sample_registry_values" "indep ?p [''system'']"
    "device_item (parseContainerRegistry ''docker.io'') [] ?p = None"
    "js_trim (crfv_password sample_registry_values) = ''pw''" by code_simp+
  from registry_form_saved [OF 1(1) refl 1(2) refl, of "[]"] 1(3,4) show ?thesis by simp
qed

theorem container_form_saved_witness:
  "device_get (device_apply (containerFormToOps ''web'' None blankContainerFormValues) [])
     (containerNamePath ''web'' []) \<noteq> None"
proof -
  let ?p = "containerNamePath ''web'' []"
  have 1: "trimmed_form CONTAINER_SCALAR_FIELDS blankContainerFormValues" "indep ?p [''system'']"
    "None = device_item (parseContainerDefinition (\<lambda>a b. 0) ''web'') [] ?p" by code_simp+
  from container_form_saved [OF 1(1) refl 1(2,3) refl] show ?thesis by blast
qed

text \<open>
  Unlike a container, a new registry whose fields are left blank queues nothing: entering just its name
  and pressing the create button adds no registry.
\<close>

lemma blank_registry_not_created:
  "containerRegistryFormToOps name None blankContainerRegistryFormValues = []"
  by (simp add: containerRegistryFormToOps_def Let_def diffToOps_nochange
      blankContainerRegistryFormValues_def)

definition sample_image :: "string \<Rightarrow> string list \<Rightarrow> ContainerImage" where
  "sample_image i tags = \<lparr>ctci_id = i, ctci_tags = tags, ctci_sizeBytes = Num 1, ctci_containers = Num 0,
     ctci_createdAt = Num 0\<rparr>"

theorem cleanup_keeps_images_witness:
  "unreferencedImages [sample_image ''1'' [''nginx:1''], sample_image ''2'' [''redis:7'']]
     [blankContainerDefinition\<lparr>ctcd_image := Some '' nginx:1 ''\<rparr>] = [sample_image ''2'' [''redis:7'']]
   \<and> imageIsPulled ''nginx:1'' (filter (\<lambda>img. img \<notin> set (unreferencedImages
        [sample_image ''1'' [''nginx:1''], sample_image ''2'' [''redis:7'']]
        [blankContainerDefinition\<lparr>ctcd_image := Some ''nginx:1''\<rparr>]))
      [sample_image ''1'' [''nginx:1''], sample_image ''2'' [''redis:7'']])"
proof
  have "imageIsPulled ''nginx:1'' [sample_image ''1'' [''nginx:1''], sample_image ''2'' [''redis:7'']]"
    by code_simp
  moreover have "blankContainerDefinition\<lparr>ctcd_image := Some ''nginx:1''\<rparr>
    \<in> set [blankContainerDefinition\<lparr>ctcd_image := Some ''nginx:1''\<rparr>]" by simp
  ultimately show "imageIsPulled ''nginx:1'' (filter (\<lambda>img. img \<notin> set (unreferencedImages
        [sample_image ''1'' [''nginx:1''], sample_image ''2'' [''redis:7'']]
        [blankContainerDefinition\<lparr>ctcd_image := Some ''nginx:1''\<rparr>]))
      [sample_image ''1'' [''nginx:1''], sample_image ''2'' [''redis:7'']])"
    using cleanup_keeps_images [of "[sample_image ''1'' [''nginx:1''], sample_image ''2'' [''redis:7'']]"
      "[blankContainerDefinition\<lparr>ctcd_image := Some ''nginx:1''\<rparr>]"] by fastforce
qed code_simp

subsection \<open>The update check of a container\<close>

text \<open>
  The store of remembered results (\<open>store/containerImageUpdateChecks.ts\<close>) and the component that
  checks one container, as a state machine. Its handlers are cut at their awaits: a click on the check
  button captures the image the container has then, and the registry answers later. The registry is
  the parameter \<open>registry\<close>, which answers for an image; \<open>Rerender\<close> is the container list passing a new
  image to the component, which stays mounted because the list keys it by the container's name.
\<close>

record CachedContainerImageUpdateCheck =
  cu_result :: ContainerImageUpdateCheck
  cu_image :: string
  cu_checkedAt :: int

type_synonym update_checks = "(string \<times> CachedContainerImageUpdateCheck) list"

definition setCheck ::
    "int \<Rightarrow> string \<Rightarrow> string \<Rightarrow> ContainerImageUpdateCheck \<Rightarrow> update_checks \<Rightarrow> update_checks" where
  "setCheck now containerName img result checks =
     AList.update containerName \<lparr>cu_result = result, cu_image = img, cu_checkedAt = now\<rparr> checks"

definition clearCheck :: "string \<Rightarrow> update_checks \<Rightarrow> update_checks" where
  "clearCheck containerName checks = AList.delete containerName checks"

record update_view =
  uv_image :: string
  uv_checking :: "string option"
  uv_result :: "ContainerImageUpdateCheck option"
  uv_checkedAt :: "int option"
  uv_error :: "string option"
  uv_pulling :: "string option"
  uv_queued :: bool
  uv_checks :: update_checks
  uv_changes :: "PendingChange list"

definition mount_view ::
    "string \<Rightarrow> string \<Rightarrow> update_checks \<Rightarrow> PendingChange list \<Rightarrow> update_view" where
  "mount_view containerName img checks changes =
     (let cached = map_of checks containerName;
          cachedForCurrentImage = (if map_option cu_image cached = Some img then cached else None)
      in \<lparr>uv_image = img, uv_checking = None,
          uv_result = map_option cu_result cachedForCurrentImage,
          uv_checkedAt = map_option cu_checkedAt cachedForCurrentImage,
          uv_error = None, uv_pulling = None, uv_queued = False,
          uv_checks = checks, uv_changes = changes\<rparr>)"

definition upgradeInfo :: "update_view \<Rightarrow> ContainerImageUpdateCheck option" where
  "upgradeInfo s =
     (case uv_result s of
        Some r \<Rightarrow> if ciuc_enabled r \<and> ciuc_recognized r \<and> ciuc_updateAvailable r \<and> \<not> uv_queued s
                  then Some r else None
      | None \<Rightarrow> None)"

datatype view_event =
    Click_check
  | Check_reply int
  | Check_failed string
  | Click_upgrade
  | Pull_reply string string
  | Pull_failed string
  | Rerender string

definition view_step ::
    "(string \<Rightarrow> ContainerImageUpdateCheck) \<Rightarrow> string \<Rightarrow> view_event \<Rightarrow> update_view \<Rightarrow> update_view" where
  "view_step registry containerName e s =
     (let imagePath = containerNamePath containerName [''image'']
      in case e of
        Click_check \<Rightarrow>
          if uv_checking s \<noteq> None \<or> uv_pulling s \<noteq> None \<or> uv_queued s then s
          else s\<lparr>uv_checking := Some (uv_image s), uv_error := None, uv_result := None, uv_queued := False\<rparr>
      | Check_reply now \<Rightarrow>
          (case uv_checking s of
             None \<Rightarrow> s
           | Some img \<Rightarrow> s\<lparr>uv_result := Some (registry img), uv_checkedAt := Some now,
               uv_checks := setCheck now containerName img (registry img) (uv_checks s),
               uv_checking := None\<rparr>)
      | Check_failed message \<Rightarrow>
          if uv_checking s = None then s else s\<lparr>uv_error := Some message, uv_checking := None\<rparr>
      | Click_upgrade \<Rightarrow>
          (case upgradeInfo s of
             None \<Rightarrow> s
           | Some r \<Rightarrow>
               if uv_pulling s \<noteq> None \<or> hasPendingSet (uv_changes s) imagePath then s
               else s\<lparr>uv_pulling := Some (ciuc_newImageRef r), uv_error := None\<rparr>)
      | Pull_reply uuid label \<Rightarrow>
          (case uv_pulling s of
             None \<Rightarrow> s
           | Some newImageRef \<Rightarrow>
               s\<lparr>uv_changes := add_change uuid (set_op imagePath newImageRef) label (uv_changes s),
                 uv_queued := True, uv_pulling := None\<rparr>)
      | Pull_failed message \<Rightarrow>
          if uv_pulling s = None then s else s\<lparr>uv_error := Some message, uv_pulling := None\<rparr>
      | Rerender img \<Rightarrow> s\<lparr>uv_image := img\<rparr>)"

definition view_run ::
    "(string \<Rightarrow> ContainerImageUpdateCheck) \<Rightarrow> string \<Rightarrow> view_event list \<Rightarrow> update_view \<Rightarrow> update_view" where
  "view_run registry containerName es s = fold (view_step registry containerName) es s"

text \<open>Remembered results are the registry's answers for the images they are stored with.\<close>

definition checks_ok :: "(string \<Rightarrow> ContainerImageUpdateCheck) \<Rightarrow> update_checks \<Rightarrow> bool" where
  "checks_ok registry checks \<longleftrightarrow> (\<forall>(n, c) \<in> set checks. cu_result c = registry (cu_image c))"

definition view_current :: "(string \<Rightarrow> ContainerImageUpdateCheck) \<Rightarrow> update_view \<Rightarrow> bool" where
  "view_current registry s \<longleftrightarrow> checks_ok registry (uv_checks s)
     \<and> (uv_result s \<noteq> None \<longrightarrow> uv_result s = Some (registry (uv_image s)))
     \<and> (uv_checking s \<noteq> None \<longrightarrow> uv_checking s = Some (uv_image s))
     \<and> (uv_pulling s \<noteq> None \<longrightarrow> uv_pulling s = Some (ciuc_newImageRef (registry (uv_image s))))"

lemma checks_ok_setCheck:
  "checks_ok registry checks \<Longrightarrow> checks_ok registry (setCheck now n img (registry img) checks)"
  using set_update_distinct by (induction checks) (auto simp: checks_ok_def setCheck_def)

lemma mount_current: "checks_ok registry checks \<Longrightarrow> view_current registry (mount_view n img checks changes)"
  by (cases "map_of checks n")
     (auto simp: view_current_def mount_view_def checks_ok_def Let_def dest: map_of_SomeD)

lemma view_step_current:
  assumes "view_current registry s" and "\<forall>img. e = Rerender img \<longrightarrow> img = uv_image s"
  shows "view_current registry (view_step registry n e s) \<and> uv_image (view_step registry n e s) = uv_image s"
  using assms by (cases e) (auto simp: view_current_def view_step_def upgradeInfo_def checks_ok_setCheck
      Let_def split: option.splits)


definition sample_registry :: "string \<Rightarrow> ContainerImageUpdateCheck" where
  "sample_registry img = \<lparr>ciuc_enabled = True, ciuc_currentTag = ''1'', ciuc_recognized = True,
     ciuc_latestTag = ''2'', ciuc_updateAvailable = True, ciuc_newImageRef = img @ ''-new'',
     ciuc_majorUpdate = None\<rparr>"


text \<open>
  Editing the image while the card is shown breaks that: the result is read from the store on mount
  only, so the offer for the old image stays, and accepting it sets the container back to that image.
\<close>

lemma update_offer_stale:
  "let s = view_run sample_registry ''web'' [Click_check, Check_reply 5, Rerender ''redis:7'', Click_upgrade,
             Pull_reply ''u'' '''']
           (mount_view ''web'' ''nginx:1'' [] [])
   in uv_image s = ''redis:7'' \<and>
      map pc_op (uv_changes s) = [set_op [''container'', ''name'', ''web'', ''image''] ''nginx:1-new'']"
  by code_simp

end
