(* ===== verification/Qos.thy ===== *)
theory Qos
  imports SavedForms
begin

text \<open>
  Traffic policies: the interfaces of \<open>lib/qosTypes.ts\<close>, the parser of \<open>lib/qosParse.ts\<close> and the forms
  of every policy kind (\<open>lib/qosShaperForm.ts\<close>, \<open>lib/qosShaperHfscForm.ts\<close>, \<open>lib/qosLimiterForm.ts\<close>,
  \<open>lib/qosSimpleClassfulForm.ts\<close>, \<open>lib/qosSimplePolicyForm.ts\<close>), of the matches and match groups
  (\<open>lib/qosMatchForm.ts\<close>, \<open>lib/qosMatchGroupForm.ts\<close>) and of the interface bindings. A number that a
  form shows goes through \<open>js_num_str\<close>, JavaScript's number-to-text conversion.
\<close>

subsection \<open>Types\<close>

record QosMatch =
  qm_id :: string
  qm_description :: "string option"
  qm_interface :: "string option"
  qm_ipSourceAddress :: "string option"
  qm_ipSourcePort :: "string option"
  qm_ipDestinationAddress :: "string option"
  qm_ipDestinationPort :: "string option"
  qm_ipProtocol :: "string option"
  qm_ipDscp :: "string option"
  qm_ipMaxLength :: "jsnum option"
  qm_ipTcpAck :: bool
  qm_ipTcpSyn :: bool
  qm_ipv6SourceAddress :: "string option"
  qm_ipv6SourcePort :: "string option"
  qm_ipv6DestinationAddress :: "string option"
  qm_ipv6DestinationPort :: "string option"
  qm_ipv6Protocol :: "string option"
  qm_ipv6Dscp :: "string option"
  qm_ipv6MaxLength :: "jsnum option"
  qm_ipv6TcpAck :: bool
  qm_ipv6TcpSyn :: bool
  qm_etherSource :: "string option"
  qm_etherDestination :: "string option"
  qm_etherProtocol :: "string option"
  qm_mark :: "jsnum option"
  qm_vif :: "jsnum option"

record QosMatchGroup =
  qmg_name :: string
  qmg_description :: "string option"
  qmg_matches :: "QosMatch list"

record QosInterfaceBinding =
  qib_interface :: string
  qib_ingress :: "string option"
  qib_egress :: "string option"

record QosClassPolice =
  qcp_exceed :: string
  qcp_notExceed :: string

record QosLimiterClass =
  qlc_id :: string
  qlc_description :: "string option"
  qlc_bandwidth :: "string option"
  qlc_burst :: string
  qlc_mtu :: "jsnum option"
  qlc_police :: QosClassPolice
  qlc_matches :: "QosMatch list"
  qlc_matchGroups :: "string list"
  qlc_priority :: jsnum

record QosLimiterDefaultClass =
  qldc_bandwidth :: "string option"
  qldc_burst :: string
  qldc_mtu :: "jsnum option"
  qldc_police :: QosClassPolice

record QosLimiterPolicy =
  qlp_name :: string
  qlp_description :: "string option"
  qlp_classes :: "QosLimiterClass list"
  qlp_defaultClass :: QosLimiterDefaultClass

record QosShaperClass =
  qsc_id :: string
  qsc_description :: "string option"
  qsc_bandwidth :: "string option"
  qsc_burst :: string
  qsc_ceiling :: "string option"
  qsc_codelQuantum :: "jsnum option"
  qsc_flows :: "jsnum option"
  qsc_interval :: "jsnum option"
  qsc_matches :: "QosMatch list"
  qsc_matchGroups :: "string list"
  qsc_priority :: "jsnum option"
  qsc_queueAveragePacket :: "jsnum option"
  qsc_queueMaximumThreshold :: "jsnum option"
  qsc_queueMinimumThreshold :: "jsnum option"
  qsc_queueMarkProbability :: "jsnum option"
  qsc_queueLimit :: "jsnum option"
  qsc_queueType :: string
  qsc_setDscp :: "string option"
  qsc_target :: "jsnum option"

record QosShaperDefaultClass =
  qsdc_bandwidth :: "string option"
  qsdc_burst :: string
  qsdc_ceiling :: "string option"
  qsdc_codelQuantum :: "jsnum option"
  qsdc_flows :: "jsnum option"
  qsdc_interval :: "jsnum option"
  qsdc_priority :: jsnum
  qsdc_queueAveragePacket :: "jsnum option"
  qsdc_queueMaximumThreshold :: "jsnum option"
  qsdc_queueMinimumThreshold :: "jsnum option"
  qsdc_queueMarkProbability :: "jsnum option"
  qsdc_queueLimit :: "jsnum option"
  qsdc_queueType :: string
  qsdc_setDscp :: "string option"
  qsdc_target :: "jsnum option"

record QosShaperPolicy =
  qsp_name :: string
  qsp_description :: "string option"
  qsp_bandwidth :: string
  qsp_classes :: "QosShaperClass list"
  qsp_defaultClass :: QosShaperDefaultClass

record QosHfscCurve =
  qhc_d :: "jsnum option"
  qhc_m1 :: "string option"
  qhc_m2 :: "string option"

record QosHfscClass =
  qoqhc_id :: string
  qoqhc_description :: "string option"
  qoqhc_linkshare :: QosHfscCurve
  qoqhc_realtime :: QosHfscCurve
  qoqhc_upperlimit :: QosHfscCurve
  qoqhc_matches :: "QosMatch list"
  qoqhc_matchGroups :: "string list"

record QosHfscDefaultClass =
  qhdc_linkshare :: QosHfscCurve
  qhdc_realtime :: QosHfscCurve
  qhdc_upperlimit :: QosHfscCurve

record QosShaperHfscPolicy =
  qshp_name :: string
  qshp_description :: "string option"
  qshp_bandwidth :: string
  qshp_classes :: "QosHfscClass list"
  qshp_defaultClass :: QosHfscDefaultClass

record QosSimpleClassfulClass =
  qscc_id :: string
  qscc_description :: "string option"
  qscc_codelQuantum :: "jsnum option"
  qscc_flows :: "jsnum option"
  qscc_interval :: "jsnum option"
  qscc_quantum :: "jsnum option"
  qscc_matches :: "QosMatch list"
  qscc_matchGroups :: "string list"
  qscc_queueLimit :: "jsnum option"
  qscc_queueType :: string
  qscc_target :: "jsnum option"

record QosSimpleClassfulDefaultClass =
  qscdc_codelQuantum :: "jsnum option"
  qscdc_flows :: "jsnum option"
  qscdc_interval :: "jsnum option"
  qscdc_queueLimit :: "jsnum option"
  qscdc_queueType :: string
  qscdc_target :: "jsnum option"

record QosPriorityQueuePolicy =
  qpqp_name :: string
  qpqp_description :: "string option"
  qpqp_classes :: "QosSimpleClassfulClass list"
  qpqp_defaultClass :: QosSimpleClassfulDefaultClass

record QosRoundRobinPolicy =
  qrrp_name :: string
  qrrp_description :: "string option"
  qrrp_classes :: "QosSimpleClassfulClass list"
  qrrp_defaultClass :: QosSimpleClassfulDefaultClass

definition QOS_CAKE_FLOW_ISOLATION_MODES :: "string list" where
  "QOS_CAKE_FLOW_ISOLATION_MODES =
     [''blind'', ''src-host'', ''dst-host'', ''host'', ''flow'', ''dual-src-host'', ''dual-dst-host'',
      ''triple-isolate'']"

record QosCakePolicy =
  qoqcp_name :: string
  qoqcp_description :: "string option"
  qoqcp_bandwidth :: "string option"
  qoqcp_flowIsolation :: string
  qoqcp_flowIsolationNat :: bool
  qoqcp_noSplitGso :: bool
  qoqcp_ackFilterAggressive :: bool
  qoqcp_rtt :: jsnum

record QosFqCodelPolicy =
  qfcp_name :: string
  qfcp_description :: "string option"
  qfcp_codelQuantum :: "jsnum option"
  qfcp_flows :: "jsnum option"
  qfcp_interval :: "jsnum option"
  qfcp_queueLimit :: "jsnum option"
  qfcp_target :: "jsnum option"

record QosRateControlPolicy =
  qrcp_name :: string
  qrcp_description :: "string option"
  qrcp_bandwidth :: "string option"
  qrcp_burst :: string
  qrcp_latency :: jsnum

record QosConfig =
  qc_interfaces :: "QosInterfaceBinding list"
  qc_matchGroups :: "QosMatchGroup list"
  qc_shaperPolicies :: "QosShaperPolicy list"
  qc_shaperHfscPolicies :: "QosShaperHfscPolicy list"
  qc_limiterPolicies :: "QosLimiterPolicy list"
  qc_priorityQueuePolicies :: "QosPriorityQueuePolicy list"
  qc_roundRobinPolicies :: "QosRoundRobinPolicy list"
  qc_cakePolicies :: "QosCakePolicy list"
  qc_fqCodelPolicies :: "QosFqCodelPolicy list"
  qc_rateControlPolicies :: "QosRateControlPolicy list"

subsection \<open>Parsing\<close>

definition qosPath :: "path \<Rightarrow> path" where
  "qosPath rest = [''qos''] @ rest"

definition qosInterfacePath :: "string \<Rightarrow> path \<Rightarrow> path" where
  "qosInterfacePath ifname rest = qosPath [''interface''] @ [ifname] @ rest"

definition qosPolicyPath :: "string \<Rightarrow> string \<Rightarrow> path \<Rightarrow> path" where
  "qosPolicyPath ty name rest = qosPath [''policy''] @ [ty, name] @ rest"

definition qosClassPath ::
    "string \<Rightarrow> string \<Rightarrow> string \<Rightarrow> path \<Rightarrow> path" where
  "qosClassPath ty policyName classId rest =
     qosPolicyPath ty policyName [] @ [''class'', classId] @ rest"

definition qosDefaultClassPath :: "string \<Rightarrow> string \<Rightarrow> path \<Rightarrow> path" where
  "qosDefaultClassPath ty policyName rest = qosPolicyPath ty policyName [] @ [''default''] @ rest"

definition qosMatchGroupPath :: "string \<Rightarrow> path \<Rightarrow> path" where
  "qosMatchGroupPath name rest = qosPath [''traffic-match-group''] @ [name] @ rest"

definition parseQosMatch :: "string \<Rightarrow> unknown \<Rightarrow> QosMatch" where
  "parseQosMatch i raw =
     (let ip = child raw ''ip'';
          ipv6 = child raw ''ipv6'';
          ether = child raw ''ether'';
          ipSource = child ip ''source'';
          ipDest = child ip ''destination'';
          ipv6Source = child ipv6 ''source'';
          ipv6Dest = child ipv6 ''destination''
      in \<lparr>qm_id = i,
           qm_description = asString (child raw ''description''),
           qm_interface = asString (child raw ''interface''),
           qm_ipSourceAddress = asString (child ipSource ''address''),
           qm_ipSourcePort = asString (child ipSource ''port''),
           qm_ipDestinationAddress = asString (child ipDest ''address''),
           qm_ipDestinationPort = asString (child ipDest ''port''),
           qm_ipProtocol = asString (child ip ''protocol''),
           qm_ipDscp = asString (child ip ''dscp''),
           qm_ipMaxLength = asNumber (child ip ''max-length''),
           qm_ipTcpAck = isFlagPresent (child ip ''tcp'') ''ack'',
           qm_ipTcpSyn = isFlagPresent (child ip ''tcp'') ''syn'',
           qm_ipv6SourceAddress = asString (child ipv6Source ''address''),
           qm_ipv6SourcePort = asString (child ipv6Source ''port''),
           qm_ipv6DestinationAddress = asString (child ipv6Dest ''address''),
           qm_ipv6DestinationPort = asString (child ipv6Dest ''port''),
           qm_ipv6Protocol = asString (child ipv6 ''protocol''),
           qm_ipv6Dscp = asString (child ipv6 ''dscp''),
           qm_ipv6MaxLength = asNumber (child ipv6 ''max-length''),
           qm_ipv6TcpAck = isFlagPresent (child ipv6 ''tcp'') ''ack'',
           qm_ipv6TcpSyn = isFlagPresent (child ipv6 ''tcp'') ''syn'',
           qm_etherSource = asString (child ether ''source''),
           qm_etherDestination = asString (child ether ''destination''),
           qm_etherProtocol = asString (child ether ''protocol''),
           qm_mark = asNumber (child raw ''mark''),
           qm_vif = asNumber (child raw ''vif'')\<rparr>)"

definition parseQosMatches :: "collation \<Rightarrow> unknown \<Rightarrow> QosMatch list" where
  "parseQosMatches lc raw = parse_entries parseQosMatch (\<lambda>a b. lc (qm_id a) (qm_id b)) raw"

definition parseMatchGroup ::
    "collation \<Rightarrow> string \<Rightarrow> unknown \<Rightarrow> QosMatchGroup" where
  "parseMatchGroup lc name raw =
     \<lparr>qmg_name = name,
       qmg_description = asString (child raw ''description''),
       qmg_matches = parseQosMatches lc (child raw ''match'')\<rparr>"

definition parseMatchGroups :: "collation \<Rightarrow> unknown \<Rightarrow> QosMatchGroup list" where
  "parseMatchGroups lc raw =
     parse_entries (parseMatchGroup lc) (\<lambda>a b. lc (qmg_name a) (qmg_name b)) raw"

definition parseInterfaceBindings :: "collation \<Rightarrow> unknown \<Rightarrow> QosInterfaceBinding list" where
  "parseInterfaceBindings lc raw =
     parse_entries
       (\<lambda>ifname v. \<lparr>qib_interface = ifname,
              qib_ingress = asString (child v ''ingress''),
              qib_egress = asString (child v ''egress'')\<rparr>)
       (\<lambda>a b. lc (qib_interface a) (qib_interface b)) raw"

definition parseClassPolice :: "unknown \<Rightarrow> QosClassPolice" where
  "parseClassPolice raw =
     \<lparr>qcp_exceed = or_else (asString (child raw ''exceed'')) ''drop'',
       qcp_notExceed = or_else (asString (child raw ''not-exceed'')) ''ok''\<rparr>"

definition parseLimiterClass ::
    "collation \<Rightarrow> string \<Rightarrow> unknown \<Rightarrow> QosLimiterClass" where
  "parseLimiterClass lc i raw =
     \<lparr>qlc_id = i,
       qlc_description = asString (child raw ''description''),
       qlc_bandwidth = asString (child raw ''bandwidth''),
       qlc_burst = or_else (asString (child raw ''burst'')) ''15k'',
       qlc_mtu = asNumber (child raw ''mtu''),
       qlc_police = parseClassPolice raw,
       qlc_matches = parseQosMatches lc (child raw ''match''),
       qlc_matchGroups = asArray (child raw ''match-group''),
       qlc_priority = or_else (asNumber (child raw ''priority'')) (Num 20)\<rparr>"

definition parseLimiterDefaultClass :: "unknown \<Rightarrow> QosLimiterDefaultClass" where
  "parseLimiterDefaultClass raw =
     \<lparr>qldc_bandwidth = asString (child raw ''bandwidth''),
       qldc_burst = or_else (asString (child raw ''burst'')) ''15k'',
       qldc_mtu = asNumber (child raw ''mtu''),
       qldc_police = parseClassPolice raw\<rparr>"

definition parseLimiterPolicies :: "collation \<Rightarrow> unknown \<Rightarrow> QosLimiterPolicy list" where
  "parseLimiterPolicies lc raw =
     parse_entries
       (\<lambda>name v. let classRoot = child v ''class'';
                classes = parse_entries (parseLimiterClass lc) (by_number qlc_id) classRoot
            in \<lparr>qlp_name = name,
                 qlp_description = asString (child v ''description''),
                 qlp_classes = classes,
                 qlp_defaultClass = parseLimiterDefaultClass (child v ''default'')\<rparr>)
       (\<lambda>a b. lc (qlp_name a) (qlp_name b)) raw"

definition parseShaperClass ::
    "collation \<Rightarrow> string \<Rightarrow> unknown \<Rightarrow> QosShaperClass" where
  "parseShaperClass lc i raw =
     \<lparr>qsc_id = i,
       qsc_description = asString (child raw ''description''),
       qsc_bandwidth = asString (child raw ''bandwidth''),
       qsc_burst = or_else (asString (child raw ''burst'')) ''15k'',
       qsc_ceiling = asString (child raw ''ceiling''),
       qsc_codelQuantum = asNumber (child raw ''codel-quantum''),
       qsc_flows = asNumber (child raw ''flows''),
       qsc_interval = asNumber (child raw ''interval''),
       qsc_matches = parseQosMatches lc (child raw ''match''),
       qsc_matchGroups = asArray (child raw ''match-group''),
       qsc_priority = asNumber (child raw ''priority''),
       qsc_queueAveragePacket = asNumber (child raw ''queue-average-packet''),
       qsc_queueMaximumThreshold = asNumber (child raw ''queue-maximum-threshold''),
       qsc_queueMinimumThreshold = asNumber (child raw ''queue-minimum-threshold''),
       qsc_queueMarkProbability = asNumber (child raw ''queue-mark-probability''),
       qsc_queueLimit = asNumber (child raw ''queue-limit''),
       qsc_queueType = or_else (asString (child raw ''queue-type'')) ''fq-codel'',
       qsc_setDscp = asString (child raw ''set-dscp''),
       qsc_target = asNumber (child raw ''target'')\<rparr>"

definition parseShaperDefaultClass :: "unknown \<Rightarrow> QosShaperDefaultClass" where
  "parseShaperDefaultClass raw =
     \<lparr>qsdc_bandwidth = asString (child raw ''bandwidth''),
       qsdc_burst = or_else (asString (child raw ''burst'')) ''15k'',
       qsdc_ceiling = asString (child raw ''ceiling''),
       qsdc_codelQuantum = asNumber (child raw ''codel-quantum''),
       qsdc_flows = asNumber (child raw ''flows''),
       qsdc_interval = asNumber (child raw ''interval''),
       qsdc_priority = or_else (asNumber (child raw ''priority'')) (Num 20),
       qsdc_queueAveragePacket = asNumber (child raw ''queue-average-packet''),
       qsdc_queueMaximumThreshold = asNumber (child raw ''queue-maximum-threshold''),
       qsdc_queueMinimumThreshold = asNumber (child raw ''queue-minimum-threshold''),
       qsdc_queueMarkProbability = asNumber (child raw ''queue-mark-probability''),
       qsdc_queueLimit = asNumber (child raw ''queue-limit''),
       qsdc_queueType = or_else (asString (child raw ''queue-type'')) ''fq-codel'',
       qsdc_setDscp = asString (child raw ''set-dscp''),
       qsdc_target = asNumber (child raw ''target'')\<rparr>"

definition parseShaperPolicies :: "collation \<Rightarrow> unknown \<Rightarrow> QosShaperPolicy list" where
  "parseShaperPolicies lc raw =
     parse_entries
       (\<lambda>name v. let classRoot = child v ''class'';
                classes = parse_entries (parseShaperClass lc) (by_number qsc_id) classRoot
            in \<lparr>qsp_name = name,
                 qsp_description = asString (child v ''description''),
                 qsp_bandwidth = or_else (asString (child v ''bandwidth'')) ''auto'',
                 qsp_classes = classes,
                 qsp_defaultClass = parseShaperDefaultClass (child v ''default'')\<rparr>)
       (\<lambda>a b. lc (qsp_name a) (qsp_name b)) raw"

definition parseHfscCurve :: "unknown \<Rightarrow> QosHfscCurve" where
  "parseHfscCurve raw =
     \<lparr>qhc_d = asNumber (child raw ''d''),
       qhc_m1 = asString (child raw ''m1''),
       qhc_m2 = asString (child raw ''m2'')\<rparr>"

definition parseHfscClass ::
    "collation \<Rightarrow> string \<Rightarrow> unknown \<Rightarrow> QosHfscClass" where
  "parseHfscClass lc i raw =
     \<lparr>qoqhc_id = i,
       qoqhc_description = asString (child raw ''description''),
       qoqhc_linkshare = parseHfscCurve (child raw ''linkshare''),
       qoqhc_realtime = parseHfscCurve (child raw ''realtime''),
       qoqhc_upperlimit = parseHfscCurve (child raw ''upperlimit''),
       qoqhc_matches = parseQosMatches lc (child raw ''match''),
       qoqhc_matchGroups = asArray (child raw ''match-group'')\<rparr>"

definition parseHfscDefaultClass :: "unknown \<Rightarrow> QosHfscDefaultClass" where
  "parseHfscDefaultClass raw =
     \<lparr>qhdc_linkshare = parseHfscCurve (child raw ''linkshare''),
       qhdc_realtime = parseHfscCurve (child raw ''realtime''),
       qhdc_upperlimit = parseHfscCurve (child raw ''upperlimit'')\<rparr>"

definition parseShaperHfscPolicies :: "collation \<Rightarrow> unknown \<Rightarrow> QosShaperHfscPolicy list" where
  "parseShaperHfscPolicies lc raw =
     parse_entries
       (\<lambda>name v. let classRoot = child v ''class'';
                classes = parse_entries (parseHfscClass lc) (by_number qoqhc_id) classRoot
            in \<lparr>qshp_name = name,
                 qshp_description = asString (child v ''description''),
                 qshp_bandwidth = or_else (asString (child v ''bandwidth'')) ''auto'',
                 qshp_classes = classes,
                 qshp_defaultClass = parseHfscDefaultClass (child v ''default'')\<rparr>)
       (\<lambda>a b. lc (qshp_name a) (qshp_name b)) raw"

definition parseSimpleClassfulClass ::
    "collation \<Rightarrow> string \<Rightarrow> unknown \<Rightarrow> QosSimpleClassfulClass" where
  "parseSimpleClassfulClass lc i raw =
     \<lparr>qscc_id = i,
       qscc_description = asString (child raw ''description''),
       qscc_codelQuantum = asNumber (child raw ''codel-quantum''),
       qscc_flows = asNumber (child raw ''flows''),
       qscc_interval = asNumber (child raw ''interval''),
       qscc_quantum = asNumber (child raw ''quantum''),
       qscc_matches = parseQosMatches lc (child raw ''match''),
       qscc_matchGroups = asArray (child raw ''match-group''),
       qscc_queueLimit = asNumber (child raw ''queue-limit''),
       qscc_queueType = or_else (asString (child raw ''queue-type'')) ''drop-tail'',
       qscc_target = asNumber (child raw ''target'')\<rparr>"

definition parseSimpleClassfulDefaultClass :: "unknown \<Rightarrow> string \<Rightarrow> QosSimpleClassfulDefaultClass" where
  "parseSimpleClassfulDefaultClass raw fallbackQueueType =
     \<lparr>qscdc_codelQuantum = asNumber (child raw ''codel-quantum''),
       qscdc_flows = asNumber (child raw ''flows''),
       qscdc_interval = asNumber (child raw ''interval''),
       qscdc_queueLimit = asNumber (child raw ''queue-limit''),
       qscdc_queueType = or_else (asString (child raw ''queue-type'')) fallbackQueueType,
       qscdc_target = asNumber (child raw ''target'')\<rparr>"

definition parsePriorityQueuePolicies :: "collation \<Rightarrow> unknown \<Rightarrow> QosPriorityQueuePolicy list" where
  "parsePriorityQueuePolicies lc raw =
     parse_entries
       (\<lambda>name v. let classRoot = child v ''class'';
                classes = parse_entries (parseSimpleClassfulClass lc) (by_number qscc_id) classRoot
            in \<lparr>qpqp_name = name,
                 qpqp_description = asString (child v ''description''),
                 qpqp_classes = classes,
                 qpqp_defaultClass = parseSimpleClassfulDefaultClass (child v ''default'')
                     ''drop-tail''\<rparr>) (\<lambda>a b. lc (qpqp_name a) (qpqp_name b)) raw"

definition parseRoundRobinPolicies :: "collation \<Rightarrow> unknown \<Rightarrow> QosRoundRobinPolicy list" where
  "parseRoundRobinPolicies lc raw =
     parse_entries
       (\<lambda>name v. let classRoot = child v ''class'';
                classes = parse_entries (parseSimpleClassfulClass lc) (by_number qscc_id) classRoot
            in \<lparr>qrrp_name = name,
                 qrrp_description = asString (child v ''description''),
                 qrrp_classes = classes,
                 qrrp_defaultClass = parseSimpleClassfulDefaultClass (child v ''default'')
                     ''fair-queue''\<rparr>) (\<lambda>a b. lc (qrrp_name a) (qrrp_name b)) raw"

definition parseCakePolicies :: "collation \<Rightarrow> unknown \<Rightarrow> QosCakePolicy list" where
  "parseCakePolicies lc raw =
     parse_entries
       (\<lambda>name v. \<lparr>qoqcp_name = name,
              qoqcp_description = asString (child v ''description''),
              qoqcp_bandwidth = asString (child v ''bandwidth''),
              qoqcp_flowIsolation = or_else (asString (child v ''flow-isolation''))
                  ''triple-isolate'',
              qoqcp_flowIsolationNat = isFlagPresent v ''flow-isolation-nat'',
              qoqcp_noSplitGso = isFlagPresent v ''no-split-gso'',
              qoqcp_ackFilterAggressive = isFlagPresent (child v ''ack-filter'') ''aggressive'',
              qoqcp_rtt = or_else (asNumber (child v ''rtt'')) (Num 100)\<rparr>)
       (\<lambda>a b. lc (qoqcp_name a) (qoqcp_name b)) raw"

definition parseFqCodelPolicies :: "collation \<Rightarrow> unknown \<Rightarrow> QosFqCodelPolicy list" where
  "parseFqCodelPolicies lc raw =
     parse_entries
       (\<lambda>name v. \<lparr>qfcp_name = name,
              qfcp_description = asString (child v ''description''),
              qfcp_codelQuantum = asNumber (child v ''codel-quantum''),
              qfcp_flows = asNumber (child v ''flows''),
              qfcp_interval = asNumber (child v ''interval''),
              qfcp_queueLimit = asNumber (child v ''queue-limit''),
              qfcp_target = asNumber (child v ''target'')\<rparr>)
       (\<lambda>a b. lc (qfcp_name a) (qfcp_name b)) raw"

definition parseRateControlPolicies :: "collation \<Rightarrow> unknown \<Rightarrow> QosRateControlPolicy list" where
  "parseRateControlPolicies lc raw =
     parse_entries
       (\<lambda>name v. \<lparr>qrcp_name = name,
              qrcp_description = asString (child v ''description''),
              qrcp_bandwidth = asString (child v ''bandwidth''),
              qrcp_burst = or_else (asString (child v ''burst'')) ''15k'',
              qrcp_latency = or_else (asNumber (child v ''latency'')) (Num 50)\<rparr>)
       (\<lambda>a b. lc (qrcp_name a) (qrcp_name b)) raw"

definition parseQosConfig :: "collation \<Rightarrow> unknown \<Rightarrow> QosConfig" where
  "parseQosConfig lc qos =
     (let policy = child qos ''policy''
      in \<lparr>qc_interfaces = parseInterfaceBindings lc (child qos ''interface''),
           qc_matchGroups = parseMatchGroups lc (child qos ''traffic-match-group''),
           qc_shaperPolicies = parseShaperPolicies lc (child policy ''shaper''),
           qc_shaperHfscPolicies = parseShaperHfscPolicies lc (child policy ''shaper-hfsc''),
           qc_limiterPolicies = parseLimiterPolicies lc (child policy ''limiter''),
           qc_priorityQueuePolicies = parsePriorityQueuePolicies lc
               (child policy ''priority-queue''),
           qc_roundRobinPolicies = parseRoundRobinPolicies lc (child policy ''round-robin''),
           qc_cakePolicies = parseCakePolicies lc (child policy ''cake''),
           qc_fqCodelPolicies = parseFqCodelPolicies lc (child policy ''fq-codel''),
           qc_rateControlPolicies = parseRateControlPolicies lc (child policy ''rate-control'')\<rparr>)"

subsection \<open>Interface bindings\<close>

definition setQosInterfaceDirectionOp :: "string \<Rightarrow> string \<Rightarrow> string \<Rightarrow> ConfigOp" where
  "setQosInterfaceDirectionOp ifname direction policyName =
     (let p = qosInterfacePath ifname [direction]
      in if js_trim policyName = '''' then delete_op p else set_op p (js_trim policyName))"

definition deleteQosInterfaceBindingOp :: "string \<Rightarrow> ConfigOp" where
  "deleteQosInterfaceBindingOp ifname = delete_op (qosInterfacePath ifname [])"

subsection \<open>Matches\<close>

record QosMatchOptions =
  qmo_ipSourceAddress :: string
  qmo_ipSourcePort :: string
  qmo_ipDestinationAddress :: string
  qmo_ipDestinationPort :: string
  qmo_ipProtocol :: string
  qmo_ipDscp :: string
  qmo_ipv6SourceAddress :: string
  qmo_ipv6SourcePort :: string
  qmo_ipv6DestinationAddress :: string
  qmo_ipv6DestinationPort :: string
  qmo_ipv6Protocol :: string
  qmo_ipv6Dscp :: string
  qmo_interfaceName :: string
  qmo_mark :: string
  qmo_vif :: string

definition blankQosMatchOptions :: QosMatchOptions where
  "blankQosMatchOptions =
     \<lparr>qmo_ipSourceAddress = '''',
       qmo_ipSourcePort = '''',
       qmo_ipDestinationAddress = '''',
       qmo_ipDestinationPort = '''',
       qmo_ipProtocol = '''',
       qmo_ipDscp = '''',
       qmo_ipv6SourceAddress = '''',
       qmo_ipv6SourcePort = '''',
       qmo_ipv6DestinationAddress = '''',
       qmo_ipv6DestinationPort = '''',
       qmo_ipv6Protocol = '''',
       qmo_ipv6Dscp = '''',
       qmo_interfaceName = '''',
       qmo_mark = '''',
       qmo_vif = ''''\<rparr>"

definition addQosMatchOps ::
    "string list \<Rightarrow> string \<Rightarrow> QosMatchOptions \<Rightarrow> ConfigOp list" where
  "addQosMatchOps basePath matchId options =
     (let base = basePath @ [''match'', matchId]
      in [set_flag base]
         @ (if qmo_ipSourceAddress options \<noteq> ''''
            then [set_op (base @ [''ip'', ''source'', ''address'']) (qmo_ipSourceAddress options)]
            else [])
         @ (if qmo_ipSourcePort options \<noteq> ''''
            then [set_op (base @ [''ip'', ''source'', ''port'']) (qmo_ipSourcePort options)]
            else [])
         @ (if qmo_ipDestinationAddress options \<noteq> ''''
            then [set_op (base @ [''ip'', ''destination'', ''address''])
                    (qmo_ipDestinationAddress options)]
            else [])
         @ (if qmo_ipDestinationPort options \<noteq> ''''
            then [set_op (base @ [''ip'', ''destination'', ''port''])
                    (qmo_ipDestinationPort options)]
            else [])
         @ (if qmo_ipProtocol options \<noteq> ''''
            then [set_op (base @ [''ip'', ''protocol'']) (qmo_ipProtocol options)]
            else [])
         @ (if qmo_ipDscp options \<noteq> ''''
            then [set_op (base @ [''ip'', ''dscp'']) (qmo_ipDscp options)]
            else [])
         @ (if qmo_ipv6SourceAddress options \<noteq> ''''
            then [set_op (base @ [''ipv6'', ''source'', ''address''])
                    (qmo_ipv6SourceAddress options)]
            else [])
         @ (if qmo_ipv6SourcePort options \<noteq> ''''
            then [set_op (base @ [''ipv6'', ''source'', ''port'']) (qmo_ipv6SourcePort options)]
            else [])
         @ (if qmo_ipv6DestinationAddress options \<noteq> ''''
            then [set_op (base @ [''ipv6'', ''destination'', ''address''])
                    (qmo_ipv6DestinationAddress options)]
            else [])
         @ (if qmo_ipv6DestinationPort options \<noteq> ''''
            then [set_op (base @ [''ipv6'', ''destination'', ''port''])
                    (qmo_ipv6DestinationPort options)]
            else [])
         @ (if qmo_ipv6Protocol options \<noteq> ''''
            then [set_op (base @ [''ipv6'', ''protocol'']) (qmo_ipv6Protocol options)]
            else [])
         @ (if qmo_ipv6Dscp options \<noteq> ''''
            then [set_op (base @ [''ipv6'', ''dscp'']) (qmo_ipv6Dscp options)]
            else [])
         @ (if qmo_interfaceName options \<noteq> ''''
            then [set_op (base @ [''interface'']) (qmo_interfaceName options)]
            else [])
         @ (if qmo_mark options \<noteq> '''' then [set_op (base @ [''mark'']) (qmo_mark options)]
            else [])
         @ (if qmo_vif options \<noteq> '''' then [set_op (base @ [''vif'']) (qmo_vif options)]
            else []))"

definition removeQosMatchOp :: "string list \<Rightarrow> string \<Rightarrow> ConfigOp" where
  "removeQosMatchOp basePath matchId = delete_op (basePath @ [''match'', matchId])"

definition addQosMatchGroupRefOp :: "string list \<Rightarrow> string \<Rightarrow> ConfigOp" where
  "addQosMatchGroupRefOp basePath groupName = set_op (basePath @ [''match-group'']) groupName"

definition removeQosMatchGroupRefOp :: "string list \<Rightarrow> string \<Rightarrow> ConfigOp" where
  "removeQosMatchGroupRefOp basePath groupName =
     delete_value_op (basePath @ [''match-group'']) groupName"

subsection \<open>Match groups\<close>

record MatchGroupFormValues =
  mgfv_description :: string

definition matchGroupFormToOps ::
    "string \<Rightarrow> QosMatchGroup option \<Rightarrow> MatchGroupFormValues \<Rightarrow> ConfigOp list" where
  "matchGroupFormToOps name before values =
     (let base = qosMatchGroupPath name [];
          oldDescription = or_else (Option.bind before qmg_description) ''''
      in (if before = None then [set_flag base] else [])
         @ scalar_diff (base @ [''description'']) oldDescription (mgfv_description values))"

definition deleteMatchGroupOp :: "string \<Rightarrow> ConfigOp" where
  "deleteMatchGroupOp name = delete_op (qosMatchGroupPath name [])"

subsection \<open>Limiter\<close>

definition POLICY_TYPE :: string where
  "POLICY_TYPE = ''limiter''"

definition limiterPolicyPath :: "string \<Rightarrow> path \<Rightarrow> path" where
  "limiterPolicyPath name rest = qosPolicyPath POLICY_TYPE name rest"

definition limiterClassPath :: "string \<Rightarrow> string \<Rightarrow> path \<Rightarrow> path" where
  "limiterClassPath policyName classId rest = qosClassPath POLICY_TYPE policyName classId rest"

definition limiterDefaultClassPath :: "string \<Rightarrow> path \<Rightarrow> path" where
  "limiterDefaultClassPath policyName rest = qosDefaultClassPath POLICY_TYPE policyName rest"

record LimiterPolicyFormValues =
  lpfv_description :: string

definition limiterPolicyFormToOps ::
    "string \<Rightarrow> QosLimiterPolicy option \<Rightarrow> LimiterPolicyFormValues \<Rightarrow> ConfigOp list" where
  "limiterPolicyFormToOps name before values =
     (let base = limiterPolicyPath name [];
          oldDescription = or_else (Option.bind before qlp_description) ''''
      in (if before = None then [set_flag base] else [])
         @ scalar_diff (base @ [''description'']) oldDescription (lpfv_description values))"

definition deleteLimiterPolicyOp :: "string \<Rightarrow> ConfigOp" where
  "deleteLimiterPolicyOp name = delete_op (limiterPolicyPath name [])"

record LimiterClassFormValues =
  lcfv_description :: string
  lcfv_bandwidth :: string
  lcfv_burst :: string
  lcfv_mtu :: string
  lcfv_policeExceed :: string
  lcfv_policeNotExceed :: string
  lcfv_priority :: string

definition blankLimiterClassFormValues :: LimiterClassFormValues where
  "blankLimiterClassFormValues =
     \<lparr>lcfv_description = '''',
       lcfv_bandwidth = '''',
       lcfv_burst = ''15k'',
       lcfv_mtu = '''',
       lcfv_policeExceed = ''drop'',
       lcfv_policeNotExceed = ''ok'',
       lcfv_priority = ''20''\<rparr>"

definition limiterClassToFormValues :: "QosLimiterClass \<Rightarrow> LimiterClassFormValues" where
  "limiterClassToFormValues cls =
     \<lparr>lcfv_description = or_else (qlc_description cls) '''',
       lcfv_bandwidth = or_else (qlc_bandwidth cls) '''',
       lcfv_burst = qlc_burst cls,
       lcfv_mtu = (case qlc_mtu cls of
            Some mtu' \<Rightarrow> js_num_str mtu'
          | None \<Rightarrow> ''''),
       lcfv_policeExceed = qcp_exceed (qlc_police cls),
       lcfv_policeNotExceed = qcp_notExceed (qlc_police cls),
       lcfv_priority = js_num_str (qlc_priority cls)\<rparr>"

definition QOS_LIMITER_CLASS_SCALAR_FIELDS :: "LimiterClassFormValues scalar_field list" where
  "QOS_LIMITER_CLASS_SCALAR_FIELDS =
     [(lcfv_description, [''description'']),
      (lcfv_bandwidth, [''bandwidth'']),
      (lcfv_burst, [''burst'']),
      (lcfv_mtu, [''mtu'']),
      (lcfv_policeExceed, [''exceed'']),
      (lcfv_policeNotExceed, [''not-exceed'']),
      (lcfv_priority, [''priority''])]"

definition limiterClassFormToOps ::
    "string \<Rightarrow> string \<Rightarrow> QosLimiterClass option \<Rightarrow> LimiterClassFormValues \<Rightarrow> ConfigOp list" where
  "limiterClassFormToOps policyName classId before values =
     (let base = limiterClassPath policyName classId [];
          beforeValues = (case before of
               Some before' \<Rightarrow> limiterClassToFormValues before'
             | None \<Rightarrow> blankLimiterClassFormValues)
      in (if before = None then [set_flag base] else [])
         @ diffToOps base QOS_LIMITER_CLASS_SCALAR_FIELDS [] beforeValues values)"

definition deleteLimiterClassOp :: "string \<Rightarrow> string \<Rightarrow> ConfigOp" where
  "deleteLimiterClassOp policyName classId = delete_op (limiterClassPath policyName classId [])"

record LimiterDefaultClassFormValues =
  ldcfv_bandwidth :: string
  ldcfv_burst :: string
  ldcfv_mtu :: string
  ldcfv_policeExceed :: string
  ldcfv_policeNotExceed :: string

definition limiterDefaultClassToFormValues :: "QosLimiterDefaultClass \<Rightarrow> LimiterDefaultClassFormValues" where
  "limiterDefaultClassToFormValues cls =
     \<lparr>ldcfv_bandwidth = or_else (qldc_bandwidth cls) '''',
       ldcfv_burst = qldc_burst cls,
       ldcfv_mtu = (case qldc_mtu cls of
            Some mtu' \<Rightarrow> js_num_str mtu'
          | None \<Rightarrow> ''''),
       ldcfv_policeExceed = qcp_exceed (qldc_police cls),
       ldcfv_policeNotExceed = qcp_notExceed (qldc_police cls)\<rparr>"

definition QOS_LIMITER_DEFAULT_CLASS_SCALAR_FIELDS :: "LimiterDefaultClassFormValues scalar_field list" where
  "QOS_LIMITER_DEFAULT_CLASS_SCALAR_FIELDS =
     [(ldcfv_bandwidth, [''bandwidth'']),
      (ldcfv_burst, [''burst'']),
      (ldcfv_mtu, [''mtu'']),
      (ldcfv_policeExceed, [''exceed'']),
      (ldcfv_policeNotExceed, [''not-exceed''])]"

definition limiterDefaultClassFormToOps ::
    "string \<Rightarrow> LimiterDefaultClassFormValues \<Rightarrow> LimiterDefaultClassFormValues \<Rightarrow> ConfigOp list" where
  "limiterDefaultClassFormToOps policyName before values =
     (let base = limiterDefaultClassPath policyName []
      in diffToOps base QOS_LIMITER_DEFAULT_CLASS_SCALAR_FIELDS [] before values)"

subsection \<open>Shaper\<close>

definition POLICY_TYPE_qo :: string where
  "POLICY_TYPE_qo = ''shaper''"

definition shaperPolicyPath :: "string \<Rightarrow> path \<Rightarrow> path" where
  "shaperPolicyPath name rest = qosPolicyPath POLICY_TYPE_qo name rest"

definition shaperClassPath :: "string \<Rightarrow> string \<Rightarrow> path \<Rightarrow> path" where
  "shaperClassPath policyName classId rest = qosClassPath POLICY_TYPE_qo policyName classId rest"

definition shaperDefaultClassPath :: "string \<Rightarrow> path \<Rightarrow> path" where
  "shaperDefaultClassPath policyName rest = qosDefaultClassPath POLICY_TYPE_qo policyName rest"

record ShaperPolicyFormValues =
  spfv_description :: string
  spfv_bandwidth :: string

definition blankShaperPolicyFormValues :: ShaperPolicyFormValues where
  "blankShaperPolicyFormValues = \<lparr>spfv_description = '''', spfv_bandwidth = ''auto''\<rparr>"

definition shaperPolicyToFormValues :: "QosShaperPolicy \<Rightarrow> ShaperPolicyFormValues" where
  "shaperPolicyToFormValues policy =
     \<lparr>spfv_description = or_else (qsp_description policy) '''',
       spfv_bandwidth = qsp_bandwidth policy\<rparr>"

definition shaperPolicyFormToOps ::
    "string \<Rightarrow> QosShaperPolicy option \<Rightarrow> ShaperPolicyFormValues \<Rightarrow> ConfigOp list" where
  "shaperPolicyFormToOps name before values =
     (let base = shaperPolicyPath name [];
          beforeValues = (case before of
               Some before' \<Rightarrow> shaperPolicyToFormValues before'
             | None \<Rightarrow> blankShaperPolicyFormValues)
      in (if before = None then [set_flag base] else [])
         @ scalar_diff (base @ [''description'']) (spfv_description beforeValues)
             (spfv_description values)
         @ (if spfv_bandwidth beforeValues \<noteq> spfv_bandwidth values
            then [set_op (base @ [''bandwidth'']) (if js_trim (spfv_bandwidth values) = ''''
                     then ''auto''
                     else js_trim (spfv_bandwidth values))]
            else []))"

definition deleteShaperPolicyOp :: "string \<Rightarrow> ConfigOp" where
  "deleteShaperPolicyOp name = delete_op (shaperPolicyPath name [])"

record ShaperClassFormValues =
  scfv_description :: string
  scfv_bandwidth :: string
  scfv_burst :: string
  scfv_ceiling :: string
  scfv_queueType :: string
  scfv_queueLimit :: string
  scfv_setDscp :: string
  scfv_priority :: string

definition blankShaperClassFormValues :: ShaperClassFormValues where
  "blankShaperClassFormValues =
     \<lparr>scfv_description = '''',
       scfv_bandwidth = '''',
       scfv_burst = ''15k'',
       scfv_ceiling = '''',
       scfv_queueType = ''fq-codel'',
       scfv_queueLimit = '''',
       scfv_setDscp = '''',
       scfv_priority = ''''\<rparr>"

definition shaperClassToFormValues :: "QosShaperClass \<Rightarrow> ShaperClassFormValues" where
  "shaperClassToFormValues cls =
     \<lparr>scfv_description = or_else (qsc_description cls) '''',
       scfv_bandwidth = or_else (qsc_bandwidth cls) '''',
       scfv_burst = qsc_burst cls,
       scfv_ceiling = or_else (qsc_ceiling cls) '''',
       scfv_queueType = qsc_queueType cls,
       scfv_queueLimit = (case qsc_queueLimit cls of
            Some queueLimit' \<Rightarrow> js_num_str queueLimit'
          | None \<Rightarrow> ''''),
       scfv_setDscp = or_else (qsc_setDscp cls) '''',
       scfv_priority = (case qsc_priority cls of
            Some priority' \<Rightarrow> js_num_str priority'
          | None \<Rightarrow> '''')\<rparr>"

definition SHAPER_CLASS_FIELDS :: "ShaperClassFormValues scalar_field list" where
  "SHAPER_CLASS_FIELDS =
     [(scfv_description, [''description'']),
      (scfv_bandwidth, [''bandwidth'']),
      (scfv_burst, [''burst'']),
      (scfv_ceiling, [''ceiling'']),
      (scfv_queueType, [''queue-type'']),
      (scfv_queueLimit, [''queue-limit'']),
      (scfv_setDscp, [''set-dscp'']),
      (scfv_priority, [''priority''])]"

definition shaperClassFormToOps ::
    "string \<Rightarrow> string \<Rightarrow> QosShaperClass option \<Rightarrow> ShaperClassFormValues \<Rightarrow> ConfigOp list" where
  "shaperClassFormToOps policyName classId before values =
     (let base = shaperClassPath policyName classId [];
          beforeValues = (case before of
               Some before' \<Rightarrow> shaperClassToFormValues before'
             | None \<Rightarrow> blankShaperClassFormValues)
      in (if before = None then [set_flag base] else [])
         @ diffToOps base SHAPER_CLASS_FIELDS [] beforeValues values)"

definition deleteShaperClassOp :: "string \<Rightarrow> string \<Rightarrow> ConfigOp" where
  "deleteShaperClassOp policyName classId = delete_op (shaperClassPath policyName classId [])"

record ShaperDefaultClassFormValues =
  sdcfv_bandwidth :: string
  sdcfv_burst :: string
  sdcfv_ceiling :: string
  sdcfv_queueType :: string
  sdcfv_queueLimit :: string
  sdcfv_setDscp :: string
  sdcfv_priority :: string

definition shaperDefaultClassToFormValues :: "QosShaperDefaultClass \<Rightarrow> ShaperDefaultClassFormValues" where
  "shaperDefaultClassToFormValues cls =
     \<lparr>sdcfv_bandwidth = or_else (qsdc_bandwidth cls) '''',
       sdcfv_burst = qsdc_burst cls,
       sdcfv_ceiling = or_else (qsdc_ceiling cls) '''',
       sdcfv_queueType = qsdc_queueType cls,
       sdcfv_queueLimit = (case qsdc_queueLimit cls of
            Some queueLimit' \<Rightarrow> js_num_str queueLimit'
          | None \<Rightarrow> ''''),
       sdcfv_setDscp = or_else (qsdc_setDscp cls) '''',
       sdcfv_priority = js_num_str (qsdc_priority cls)\<rparr>"

definition SHAPER_DEFAULT_CLASS_FIELDS :: "ShaperDefaultClassFormValues scalar_field list" where
  "SHAPER_DEFAULT_CLASS_FIELDS =
     [(sdcfv_bandwidth, [''bandwidth'']),
      (sdcfv_burst, [''burst'']),
      (sdcfv_ceiling, [''ceiling'']),
      (sdcfv_queueType, [''queue-type'']),
      (sdcfv_queueLimit, [''queue-limit'']),
      (sdcfv_setDscp, [''set-dscp'']),
      (sdcfv_priority, [''priority''])]"

definition shaperDefaultClassFormToOps ::
    "string \<Rightarrow> ShaperDefaultClassFormValues \<Rightarrow> ShaperDefaultClassFormValues \<Rightarrow> ConfigOp list" where
  "shaperDefaultClassFormToOps policyName before values =
     (let base = shaperDefaultClassPath policyName []
      in diffToOps base SHAPER_DEFAULT_CLASS_FIELDS [] before values)"

subsection \<open>Shaper HFSC\<close>

definition POLICY_TYPE_qo2 :: string where
  "POLICY_TYPE_qo2 = ''shaper-hfsc''"

definition shaperHfscPolicyPath :: "string \<Rightarrow> path \<Rightarrow> path" where
  "shaperHfscPolicyPath name rest = qosPolicyPath POLICY_TYPE_qo2 name rest"

definition shaperHfscClassPath :: "string \<Rightarrow> string \<Rightarrow> path \<Rightarrow> path" where
  "shaperHfscClassPath policyName classId rest =
     qosClassPath POLICY_TYPE_qo2 policyName classId rest"

definition shaperHfscDefaultClassPath :: "string \<Rightarrow> path \<Rightarrow> path" where
  "shaperHfscDefaultClassPath policyName rest = qosDefaultClassPath POLICY_TYPE_qo2 policyName rest"

record ShaperHfscPolicyFormValues =
  shpfv_description :: string
  shpfv_bandwidth :: string

definition blankShaperHfscPolicyFormValues :: ShaperHfscPolicyFormValues where
  "blankShaperHfscPolicyFormValues =
     \<lparr>shpfv_description = '''', shpfv_bandwidth = ''auto''\<rparr>"

definition shaperHfscPolicyToFormValues :: "QosShaperHfscPolicy \<Rightarrow> ShaperHfscPolicyFormValues" where
  "shaperHfscPolicyToFormValues policy =
     \<lparr>shpfv_description = or_else (qshp_description policy) '''',
       shpfv_bandwidth = qshp_bandwidth policy\<rparr>"

definition shaperHfscPolicyFormToOps ::
    "string \<Rightarrow> QosShaperHfscPolicy option \<Rightarrow> ShaperHfscPolicyFormValues \<Rightarrow> ConfigOp list" where
  "shaperHfscPolicyFormToOps name before values =
     (let base = shaperHfscPolicyPath name [];
          beforeValues = (case before of
               Some before' \<Rightarrow> shaperHfscPolicyToFormValues before'
             | None \<Rightarrow> blankShaperHfscPolicyFormValues)
      in (if before = None then [set_flag base] else [])
         @ scalar_diff (base @ [''description'']) (shpfv_description beforeValues)
             (shpfv_description values)
         @ (if shpfv_bandwidth beforeValues \<noteq> shpfv_bandwidth values
            then [set_op (base @ [''bandwidth'']) (if js_trim (shpfv_bandwidth values) = ''''
                     then ''auto''
                     else js_trim (shpfv_bandwidth values))]
            else []))"

definition deleteShaperHfscPolicyOp :: "string \<Rightarrow> ConfigOp" where
  "deleteShaperHfscPolicyOp name = delete_op (shaperHfscPolicyPath name [])"

record HfscCurveFormValues =
  qohcfv_d :: string
  qohcfv_m1 :: string
  qohcfv_m2 :: string

definition blankCurveFormValues :: HfscCurveFormValues where
  "blankCurveFormValues = \<lparr>qohcfv_d = '''', qohcfv_m1 = '''', qohcfv_m2 = ''''\<rparr>"

definition curveToFormValues :: "QosHfscCurve \<Rightarrow> HfscCurveFormValues" where
  "curveToFormValues curve =
     \<lparr>qohcfv_d = (case qhc_d curve of Some d' \<Rightarrow> js_num_str d' | None \<Rightarrow> ''''),
       qohcfv_m1 = or_else (qhc_m1 curve) '''',
       qohcfv_m2 = or_else (qhc_m2 curve) ''''\<rparr>"

definition HFSC_CURVE_FIELDS :: "HfscCurveFormValues scalar_field list" where
  "HFSC_CURVE_FIELDS = [(qohcfv_d, [''d'']), (qohcfv_m1, [''m1'']), (qohcfv_m2, [''m2''])]"

definition curveOps :: "path \<Rightarrow> HfscCurveFormValues \<Rightarrow> HfscCurveFormValues \<Rightarrow> ConfigOp list" where
  "curveOps base before values = diffToOps base HFSC_CURVE_FIELDS [] before values"

record HfscClassFormValues =
  hcfva_description :: string
  hcfva_linkshare :: HfscCurveFormValues
  hcfva_realtime :: HfscCurveFormValues
  hcfva_upperlimit :: HfscCurveFormValues

definition blankHfscClassFormValues :: HfscClassFormValues where
  "blankHfscClassFormValues =
     \<lparr>hcfva_description = '''',
       hcfva_linkshare = blankCurveFormValues,
       hcfva_realtime = blankCurveFormValues,
       hcfva_upperlimit = blankCurveFormValues\<rparr>"

definition hfscClassToFormValues :: "QosHfscClass \<Rightarrow> HfscClassFormValues" where
  "hfscClassToFormValues cls =
     \<lparr>hcfva_description = or_else (qoqhc_description cls) '''',
       hcfva_linkshare = curveToFormValues (qoqhc_linkshare cls),
       hcfva_realtime = curveToFormValues (qoqhc_realtime cls),
       hcfva_upperlimit = curveToFormValues (qoqhc_upperlimit cls)\<rparr>"

definition hfscClassFormToOps ::
    "string \<Rightarrow> string \<Rightarrow> QosHfscClass option \<Rightarrow> HfscClassFormValues \<Rightarrow> ConfigOp list" where
  "hfscClassFormToOps policyName classId before values =
     (let base = shaperHfscClassPath policyName classId [];
          beforeValues = (case before of
               Some before' \<Rightarrow> hfscClassToFormValues before'
             | None \<Rightarrow> blankHfscClassFormValues)
      in (if before = None then [set_flag base] else [])
         @ scalar_diff (base @ [''description'']) (hcfva_description beforeValues)
             (hcfva_description values)
         @ curveOps (base @ [''linkshare'']) (hcfva_linkshare beforeValues) (hcfva_linkshare values)
         @ curveOps (base @ [''realtime'']) (hcfva_realtime beforeValues) (hcfva_realtime values)
         @ curveOps (base @ [''upperlimit'']) (hcfva_upperlimit beforeValues)
             (hcfva_upperlimit values))"

definition deleteHfscClassOp :: "string \<Rightarrow> string \<Rightarrow> ConfigOp" where
  "deleteHfscClassOp policyName classId = delete_op (shaperHfscClassPath policyName classId [])"

record HfscDefaultClassFormValues =
  hdcfv_linkshare :: HfscCurveFormValues
  hdcfv_realtime :: HfscCurveFormValues
  hdcfv_upperlimit :: HfscCurveFormValues

definition hfscDefaultClassToFormValues :: "QosHfscDefaultClass \<Rightarrow> HfscDefaultClassFormValues" where
  "hfscDefaultClassToFormValues cls =
     \<lparr>hdcfv_linkshare = curveToFormValues (qhdc_linkshare cls),
       hdcfv_realtime = curveToFormValues (qhdc_realtime cls),
       hdcfv_upperlimit = curveToFormValues (qhdc_upperlimit cls)\<rparr>"

definition hfscDefaultClassFormToOps ::
    "string \<Rightarrow> HfscDefaultClassFormValues \<Rightarrow> HfscDefaultClassFormValues \<Rightarrow> ConfigOp list" where
  "hfscDefaultClassFormToOps policyName before values =
     (let base = shaperHfscDefaultClassPath policyName []
      in curveOps (base @ [''linkshare'']) (hdcfv_linkshare before) (hdcfv_linkshare values)
         @ curveOps (base @ [''realtime'']) (hdcfv_realtime before) (hdcfv_realtime values)
         @ curveOps (base @ [''upperlimit'']) (hdcfv_upperlimit before) (hdcfv_upperlimit values))"

subsection \<open>Priority queue and round robin\<close>

definition simpleClassfulPolicyPath :: "string \<Rightarrow> string \<Rightarrow> path \<Rightarrow> path" where
  "simpleClassfulPolicyPath policyType name rest = qosPolicyPath policyType name rest"

definition simpleClassfulClassPath ::
    "string \<Rightarrow> string \<Rightarrow> string \<Rightarrow> path \<Rightarrow> path" where
  "simpleClassfulClassPath policyType policyName classId rest =
     qosClassPath policyType policyName classId rest"

definition simpleClassfulDefaultClassPath :: "string \<Rightarrow> string \<Rightarrow> path \<Rightarrow> path" where
  "simpleClassfulDefaultClassPath policyType policyName rest =
     qosDefaultClassPath policyType policyName rest"

record SimpleClassfulPolicyFormValues =
  scpfv_description :: string

text \<open>\<open>before\<close> is an object with an optional description, or \<open>undefined\<close>.\<close>

definition simpleClassfulPolicyFormToOps ::
    "string \<Rightarrow> string \<Rightarrow> string option option \<Rightarrow> SimpleClassfulPolicyFormValues \<Rightarrow> ConfigOp list" where
  "simpleClassfulPolicyFormToOps policyType name before values =
     (let base = simpleClassfulPolicyPath policyType name [];
          oldDescription = or_else (Option.bind before id) ''''
      in (if before = None then [set_flag base] else [])
         @ scalar_diff (base @ [''description'']) oldDescription (scpfv_description values))"

definition deleteSimpleClassfulPolicyOp :: "string \<Rightarrow> string \<Rightarrow> ConfigOp" where
  "deleteSimpleClassfulPolicyOp policyType name =
     delete_op (simpleClassfulPolicyPath policyType name [])"

record SimpleClassfulClassFormValues =
  sccfv_description :: string
  sccfv_codelQuantum :: string
  sccfv_flows :: string
  sccfv_interval :: string
  sccfv_quantum :: string
  sccfv_queueLimit :: string
  sccfv_queueType :: string
  sccfv_target :: string

definition blankSimpleClassfulClassFormValues :: "string \<Rightarrow> SimpleClassfulClassFormValues" where
  "blankSimpleClassfulClassFormValues defaultQueueType =
     \<lparr>sccfv_description = '''',
       sccfv_codelQuantum = '''',
       sccfv_flows = '''',
       sccfv_interval = '''',
       sccfv_quantum = '''',
       sccfv_queueLimit = '''',
       sccfv_queueType = defaultQueueType,
       sccfv_target = ''''\<rparr>"

definition simpleClassfulClassToFormValues :: "QosSimpleClassfulClass \<Rightarrow> SimpleClassfulClassFormValues" where
  "simpleClassfulClassToFormValues cls =
     \<lparr>sccfv_description = or_else (qscc_description cls) '''',
       sccfv_codelQuantum = (case qscc_codelQuantum cls of
            Some codelQuantum' \<Rightarrow> js_num_str codelQuantum'
          | None \<Rightarrow> ''''),
       sccfv_flows = (case qscc_flows cls of
            Some flows' \<Rightarrow> js_num_str flows'
          | None \<Rightarrow> ''''),
       sccfv_interval = (case qscc_interval cls of
            Some interval' \<Rightarrow> js_num_str interval'
          | None \<Rightarrow> ''''),
       sccfv_quantum = (case qscc_quantum cls of
            Some quantum' \<Rightarrow> js_num_str quantum'
          | None \<Rightarrow> ''''),
       sccfv_queueLimit = (case qscc_queueLimit cls of
            Some queueLimit' \<Rightarrow> js_num_str queueLimit'
          | None \<Rightarrow> ''''),
       sccfv_queueType = qscc_queueType cls,
       sccfv_target = (case qscc_target cls of
            Some target' \<Rightarrow> js_num_str target'
          | None \<Rightarrow> '''')\<rparr>"

definition CLASS_FIELDS :: "SimpleClassfulClassFormValues scalar_field list" where
  "CLASS_FIELDS =
     [(sccfv_description, [''description'']),
      (sccfv_codelQuantum, [''codel-quantum'']),
      (sccfv_flows, [''flows'']),
      (sccfv_interval, [''interval'']),
      (sccfv_quantum, [''quantum'']),
      (sccfv_queueLimit, [''queue-limit'']),
      (sccfv_queueType, [''queue-type'']),
      (sccfv_target, [''target''])]"

text \<open>A priority queue has no \<open>quantum\<close>: its row of the table is filtered out.\<close>

definition simpleClassfulClassFormToOps ::
    "string \<Rightarrow> string \<Rightarrow> string \<Rightarrow> QosSimpleClassfulClass option \<Rightarrow> SimpleClassfulClassFormValues
      \<Rightarrow> ConfigOp list" where
  "simpleClassfulClassFormToOps policyType policyName classId before values =
     (let base = simpleClassfulClassPath policyType policyName classId [];
          beforeValues = (case before of Some b \<Rightarrow> simpleClassfulClassToFormValues b
            | None \<Rightarrow> blankSimpleClassfulClassFormValues (sccfv_queueType values));
          fields = (if policyType = ''round-robin'' then CLASS_FIELDS
            else filter (\<lambda>f. hd (snd f) \<noteq> ''quantum'') CLASS_FIELDS)
      in (if before = None then [set_flag base] else []) @ diffToOps base fields [] beforeValues values)"

definition deleteSimpleClassfulClassOp :: "string \<Rightarrow> string \<Rightarrow> string \<Rightarrow> ConfigOp" where
  "deleteSimpleClassfulClassOp policyType policyName classId =
     delete_op (simpleClassfulClassPath policyType policyName classId [])"

record SimpleClassfulDefaultClassFormValues =
  scdcfv_codelQuantum :: string
  scdcfv_flows :: string
  scdcfv_interval :: string
  scdcfv_queueLimit :: string
  scdcfv_queueType :: string
  scdcfv_target :: string

definition simpleClassfulDefaultClassToFormValues ::
    "QosSimpleClassfulDefaultClass \<Rightarrow> SimpleClassfulDefaultClassFormValues" where
  "simpleClassfulDefaultClassToFormValues cls =
     \<lparr>scdcfv_codelQuantum = (case qscdc_codelQuantum cls of
            Some codelQuantum' \<Rightarrow> js_num_str codelQuantum'
          | None \<Rightarrow> ''''),
       scdcfv_flows = (case qscdc_flows cls of
            Some flows' \<Rightarrow> js_num_str flows'
          | None \<Rightarrow> ''''),
       scdcfv_interval = (case qscdc_interval cls of
            Some interval' \<Rightarrow> js_num_str interval'
          | None \<Rightarrow> ''''),
       scdcfv_queueLimit = (case qscdc_queueLimit cls of
            Some queueLimit' \<Rightarrow> js_num_str queueLimit'
          | None \<Rightarrow> ''''),
       scdcfv_queueType = qscdc_queueType cls,
       scdcfv_target = (case qscdc_target cls of
            Some target' \<Rightarrow> js_num_str target'
          | None \<Rightarrow> '''')\<rparr>"

definition DEFAULT_CLASS_FIELDS :: "SimpleClassfulDefaultClassFormValues scalar_field list" where
  "DEFAULT_CLASS_FIELDS =
     [(scdcfv_codelQuantum, [''codel-quantum'']),
      (scdcfv_flows, [''flows'']),
      (scdcfv_interval, [''interval'']),
      (scdcfv_queueLimit, [''queue-limit'']),
      (scdcfv_queueType, [''queue-type'']),
      (scdcfv_target, [''target''])]"

definition simpleClassfulDefaultClassFormToOps ::
    "string \<Rightarrow> string \<Rightarrow> SimpleClassfulDefaultClassFormValues \<Rightarrow> SimpleClassfulDefaultClassFormValues \<Rightarrow> ConfigOp list" where
  "simpleClassfulDefaultClassFormToOps policyType policyName before values =
     (let base = simpleClassfulDefaultClassPath policyType policyName []
      in diffToOps base DEFAULT_CLASS_FIELDS [] before values)"

subsection \<open>CAKE, FQ-CoDel and rate control\<close>

definition cakePolicyPath :: "string \<Rightarrow> path \<Rightarrow> path" where
  "cakePolicyPath name rest = qosPolicyPath ''cake'' name rest"

record CakeFormValues =
  qocfv_description :: string
  qocfv_bandwidth :: string
  qocfv_flowIsolation :: string
  qocfv_flowIsolationNat :: bool
  qocfv_noSplitGso :: bool
  qocfv_ackFilterAggressive :: bool
  qocfv_rtt :: string

definition blankCakeFormValues :: CakeFormValues where
  "blankCakeFormValues =
     \<lparr>qocfv_description = '''',
       qocfv_bandwidth = '''',
       qocfv_flowIsolation = ''triple-isolate'',
       qocfv_flowIsolationNat = False,
       qocfv_noSplitGso = False,
       qocfv_ackFilterAggressive = False,
       qocfv_rtt = ''100''\<rparr>"

definition cakeToFormValues :: "QosCakePolicy \<Rightarrow> CakeFormValues" where
  "cakeToFormValues policy =
     \<lparr>qocfv_description = or_else (qoqcp_description policy) '''',
       qocfv_bandwidth = or_else (qoqcp_bandwidth policy) '''',
       qocfv_flowIsolation = qoqcp_flowIsolation policy,
       qocfv_flowIsolationNat = qoqcp_flowIsolationNat policy,
       qocfv_noSplitGso = qoqcp_noSplitGso policy,
       qocfv_ackFilterAggressive = qoqcp_ackFilterAggressive policy,
       qocfv_rtt = js_num_str (qoqcp_rtt policy)\<rparr>"

definition cakeForm_flags :: "CakeFormValues flag_field list" where
  "cakeForm_flags =
     [(qocfv_flowIsolationNat, [''flow-isolation-nat'']),
      (qocfv_noSplitGso, [''no-split-gso'']),
      (qocfv_ackFilterAggressive, [''ack-filter'', ''aggressive''])]"

definition cakeForm_fields :: "CakeFormValues scalar_field list" where
  "cakeForm_fields =
     [(qocfv_description, [''description'']),
      (qocfv_bandwidth, [''bandwidth'']),
      (qocfv_flowIsolation, [''flow-isolation'']),
      (qocfv_rtt, [''rtt''])]"

definition cakeFormToOps ::
    "string \<Rightarrow> QosCakePolicy option \<Rightarrow> CakeFormValues \<Rightarrow> ConfigOp list" where
  "cakeFormToOps name before values =
     (let base = cakePolicyPath name [];
          beforeValues = (case before of
               Some before' \<Rightarrow> cakeToFormValues before'
             | None \<Rightarrow> blankCakeFormValues)
      in (if before = None then [set_flag base] else [])
         @ diffToOps base [] cakeForm_flags beforeValues values
         @ diffToOps base cakeForm_fields [] beforeValues values)"

definition deleteCakePolicyOp :: "string \<Rightarrow> ConfigOp" where
  "deleteCakePolicyOp name = delete_op (cakePolicyPath name [])"

definition fqCodelPolicyPath :: "string \<Rightarrow> path \<Rightarrow> path" where
  "fqCodelPolicyPath name rest = qosPolicyPath ''fq-codel'' name rest"

record FqCodelFormValues =
  fcfv_description :: string
  fcfv_codelQuantum :: string
  fcfv_flows :: string
  fcfv_interval :: string
  fcfv_queueLimit :: string
  fcfv_target :: string

definition blankFqCodelFormValues :: FqCodelFormValues where
  "blankFqCodelFormValues =
     \<lparr>fcfv_description = '''',
       fcfv_codelQuantum = '''',
       fcfv_flows = '''',
       fcfv_interval = '''',
       fcfv_queueLimit = '''',
       fcfv_target = ''''\<rparr>"

definition fqCodelToFormValues :: "QosFqCodelPolicy \<Rightarrow> FqCodelFormValues" where
  "fqCodelToFormValues policy =
     \<lparr>fcfv_description = or_else (qfcp_description policy) '''',
       fcfv_codelQuantum = (case qfcp_codelQuantum policy of
            Some codelQuantum' \<Rightarrow> js_num_str codelQuantum'
          | None \<Rightarrow> ''''),
       fcfv_flows = (case qfcp_flows policy of
            Some flows' \<Rightarrow> js_num_str flows'
          | None \<Rightarrow> ''''),
       fcfv_interval = (case qfcp_interval policy of
            Some interval' \<Rightarrow> js_num_str interval'
          | None \<Rightarrow> ''''),
       fcfv_queueLimit = (case qfcp_queueLimit policy of
            Some queueLimit' \<Rightarrow> js_num_str queueLimit'
          | None \<Rightarrow> ''''),
       fcfv_target = (case qfcp_target policy of
            Some target' \<Rightarrow> js_num_str target'
          | None \<Rightarrow> '''')\<rparr>"

definition FQ_CODEL_FIELDS :: "FqCodelFormValues scalar_field list" where
  "FQ_CODEL_FIELDS =
     [(fcfv_description, [''description'']),
      (fcfv_codelQuantum, [''codel-quantum'']),
      (fcfv_flows, [''flows'']),
      (fcfv_interval, [''interval'']),
      (fcfv_queueLimit, [''queue-limit'']),
      (fcfv_target, [''target''])]"

definition fqCodelFormToOps ::
    "string \<Rightarrow> QosFqCodelPolicy option \<Rightarrow> FqCodelFormValues \<Rightarrow> ConfigOp list" where
  "fqCodelFormToOps name before values =
     (let base = fqCodelPolicyPath name [];
          beforeValues = (case before of
               Some before' \<Rightarrow> fqCodelToFormValues before'
             | None \<Rightarrow> blankFqCodelFormValues)
      in (if before = None then [set_flag base] else [])
         @ diffToOps base FQ_CODEL_FIELDS [] beforeValues values)"

definition deleteFqCodelPolicyOp :: "string \<Rightarrow> ConfigOp" where
  "deleteFqCodelPolicyOp name = delete_op (fqCodelPolicyPath name [])"

definition rateControlPolicyPath :: "string \<Rightarrow> path \<Rightarrow> path" where
  "rateControlPolicyPath name rest = qosPolicyPath ''rate-control'' name rest"

record RateControlFormValues =
  rcfv_description :: string
  rcfv_bandwidth :: string
  rcfv_burst :: string
  rcfv_latency :: string

definition blankRateControlFormValues :: RateControlFormValues where
  "blankRateControlFormValues =
     \<lparr>rcfv_description = '''',
       rcfv_bandwidth = '''',
       rcfv_burst = ''15k'',
       rcfv_latency = ''50''\<rparr>"

definition rateControlToFormValues :: "QosRateControlPolicy \<Rightarrow> RateControlFormValues" where
  "rateControlToFormValues policy =
     \<lparr>rcfv_description = or_else (qrcp_description policy) '''',
       rcfv_bandwidth = or_else (qrcp_bandwidth policy) '''',
       rcfv_burst = qrcp_burst policy,
       rcfv_latency = js_num_str (qrcp_latency policy)\<rparr>"

definition RATE_CONTROL_FIELDS :: "RateControlFormValues scalar_field list" where
  "RATE_CONTROL_FIELDS =
     [(rcfv_description, [''description'']),
      (rcfv_bandwidth, [''bandwidth'']),
      (rcfv_burst, [''burst'']),
      (rcfv_latency, [''latency''])]"

definition rateControlFormToOps ::
    "string \<Rightarrow> QosRateControlPolicy option \<Rightarrow> RateControlFormValues \<Rightarrow> ConfigOp list" where
  "rateControlFormToOps name before values =
     (let base = rateControlPolicyPath name [];
          beforeValues = (case before of
               Some before' \<Rightarrow> rateControlToFormValues before'
             | None \<Rightarrow> blankRateControlFormValues)
      in (if before = None then [set_flag base] else [])
         @ diffToOps base RATE_CONTROL_FIELDS [] beforeValues values)"

definition deleteRateControlPolicyOp :: "string \<Rightarrow> ConfigOp" where
  "deleteRateControlPolicyOp name = delete_op (rateControlPolicyPath name [])"



end
