(* ===== verification/LoadBalancing.thy ===== *)
theory LoadBalancing
  imports SavedForms
begin

text \<open>
  Load balancing: the interfaces of \<open>lib/loadBalancingTypes.ts\<close>, the parser of
  \<open>lib/loadBalancingParse.ts\<close> and the forms of WAN load balancing (\<open>lib/loadBalancingWanForm.ts\<close>) and
  HAProxy (\<open>lib/loadBalancingHaproxyForm.ts\<close>). A form interface that extends the shared logging inputs
  is a record extending theirs.
\<close>

subsection \<open>Types\<close>

record WANMatch =
  wanm_address :: "string option"
  wanm_port :: "string option"
  wanm_addressGroup :: "string option"
  wanm_networkGroup :: "string option"
  wanm_portGroup :: "string option"
  wanm_domainGroup :: "string option"

definition WAN_HEALTH_TEST_TYPES :: "string list" where
  "WAN_HEALTH_TEST_TYPES = [''ping'', ''ttl'', ''user-defined'']"

record WANHealthTest =
  wanht_id :: string
  wanht_type :: string
  wanht_target :: "string option"
  wanht_testScript :: "string option"
  wanht_respTime :: jsnum
  wanht_ttlLimit :: jsnum

record WANInterfaceHealth =
  wanih_interface :: string
  wanih_nexthop :: "string option"
  wanih_failureCount :: jsnum
  wanih_successCount :: jsnum
  wanih_tests :: "WANHealthTest list"

record WANRuleInterface =
  wanri_name :: string
  wanri_weight :: jsnum

record WANRuleLimit =
  wanrl_rate :: jsnum
  wanrl_period :: string
  wanrl_burst :: jsnum
  wanrl_threshold :: string

record WANRule =
  wanr_id :: string
  wanr_description :: "string option"
  wanr_source :: WANMatch
  wanr_destination :: WANMatch
  wanr_exclude :: bool
  wanr_failover :: bool
  wanr_inboundInterface :: "string option"
  wanr_interfaces :: "WANRuleInterface list"
  wanr_limit :: "WANRuleLimit option"
  wanr_perPacketBalancing :: bool
  wanr_protocol :: string

record WANConfig =
  wanc_disableSourceNat :: bool
  wanc_enableLocalTraffic :: bool
  wanc_flushConnections :: bool
  wanc_onlyDefaultRoute :: bool
  wanc_hook :: "string option"
  wanc_stickyInbound :: bool
  wanc_interfaceHealth :: "WANInterfaceHealth list"
  wanc_rules :: "WANRule list"

definition HAPROXY_MODES :: "string list" where
  "HAPROXY_MODES = [''http'', ''tcp'']"

definition HAPROXY_LOG_FACILITIES :: "string list" where
  "HAPROXY_LOG_FACILITIES =
     [''auth'', ''cron'', ''daemon'', ''kern'', ''lpr'', ''mail'', ''news'', ''syslog'', ''user'',
      ''uucp'', ''local0'', ''local1'', ''local2'', ''local3'', ''local4'', ''local5'', ''local6'',
      ''local7'']"

definition HAPROXY_LOG_LEVELS :: "string list" where
  "HAPROXY_LOG_LEVELS =
     [''emerg'', ''alert'', ''crit'', ''err'', ''warning'', ''notice'', ''info'', ''debug'']"

record HAProxyLogging =
  hapl_facility :: "string option"
  hapl_level :: string

record HAProxyHttpResponseHeader =
  haphrh_id :: string
  haphrh_value :: string

record HAProxyListenAddress =
  hapla_address :: string
  hapla_acceptProxy :: bool

record HAProxyRule =
  hapr_id :: string
  hapr_domainNames :: "string list"
  hapr_wildcardDomain :: bool
  hapr_ssl :: "string option"
  hapr_urlPathBegin :: "string list"
  hapr_urlPathEnd :: "string list"
  hapr_urlPathExact :: "string list"
  hapr_setRedirectLocation :: "string option"
  hapr_setBackend :: "string option"
  hapr_setServer :: "string option"

record HAProxyService =
  haps_name :: string
  haps_backends :: "string list"
  haps_description :: "string option"
  haps_listenAddresses :: "HAProxyListenAddress list"
  haps_logging :: HAProxyLogging
  haps_mode :: string
  haps_port :: "jsnum option"
  haps_rules :: "HAProxyRule list"
  haps_tcpRequestInspectDelay :: "jsnum option"
  haps_httpResponseHeaders :: "HAProxyHttpResponseHeader list"
  haps_redirectHttpToHttps :: bool
  haps_timeoutClient :: "jsnum option"
  haps_httpCompressionAlgorithm :: "string option"
  haps_httpCompressionMimeTypes :: "string list"
  haps_sslCertificates :: "string list"

definition HAPROXY_BALANCE_ALGORITHMS :: "string list" where
  "HAPROXY_BALANCE_ALGORITHMS = [''source-address'', ''round-robin'', ''least-connection'']"

definition HAPROXY_HTTP_CHECK_METHODS :: "string list" where
  "HAPROXY_HTTP_CHECK_METHODS = [''options'', ''head'', ''get'', ''post'', ''put'']"

definition HAPROXY_HEALTH_CHECK_TYPES :: "string list" where
  "HAPROXY_HEALTH_CHECK_TYPES = [''ldap'', ''mysql'', ''pgsql'', ''redis'', ''smtp'']"

record HAProxyServer =
  lbhaps_name :: string
  lbhaps_address :: "string option"
  lbhaps_backup :: bool
  lbhaps_checkPort :: "jsnum option"
  lbhaps_port :: "jsnum option"
  lbhaps_sendProxy :: bool
  lbhaps_sendProxyV2 :: bool

record HAProxyBackend =
  hapb_name :: string
  hapb_balance :: string
  hapb_description :: "string option"
  hapb_logging :: HAProxyLogging
  hapb_mode :: string
  hapb_httpResponseHeaders :: "HAProxyHttpResponseHeader list"
  hapb_httpCheckMethod :: "string option"
  hapb_httpCheckUri :: "string option"
  hapb_httpCheckExpectStatus :: "jsnum option"
  hapb_httpCheckExpectString :: "string option"
  hapb_healthCheck :: "string option"
  hapb_httpServerClose :: bool
  hapb_rules :: "HAProxyRule list"
  hapb_servers :: "HAProxyServer list"
  hapb_sslCaCertificate :: "string option"
  hapb_sslNoVerify :: bool
  hapb_timeoutCheck :: "jsnum option"
  hapb_timeoutConnect :: "jsnum option"
  hapb_timeoutServer :: "jsnum option"
  hapb_timeoutTunnel :: "jsnum option"

definition HAPROXY_TLS_VERSIONS :: "string list" where
  "HAPROXY_TLS_VERSIONS = [''1.2'', ''1.3'']"

definition HAPROXY_SSL_CIPHERS :: "string list" where
  "HAPROXY_SSL_CIPHERS =
     [''ecdhe-ecdsa-aes128-gcm-sha256'',
      ''ecdhe-rsa-aes128-gcm-sha256'',
      ''ecdhe-ecdsa-aes256-gcm-sha384'',
      ''ecdhe-rsa-aes256-gcm-sha384'',
      ''ecdhe-ecdsa-chacha20-poly1305'',
      ''ecdhe-rsa-chacha20-poly1305'', ''dhe-rsa-aes128-gcm-sha256'', ''dhe-rsa-aes256-gcm-sha384'']"

record HAProxyGlobalParameters =
  hapgp_logging :: HAProxyLogging
  hapgp_maxConnections :: "jsnum option"
  hapgp_sslBindCiphers :: "string list"
  hapgp_tlsVersionMin :: string

record HAProxyGlobalTimeout =
  hapgt_check :: jsnum
  hapgt_connect :: jsnum
  hapgt_client :: jsnum
  hapgt_server :: jsnum
  hapgt_tunnel :: jsnum

record HAProxyConfig =
  hapc_services :: "HAProxyService list"
  hapc_backends :: "HAProxyBackend list"
  hapc_globalParameters :: HAProxyGlobalParameters
  hapc_globalTimeout :: HAProxyGlobalTimeout
  hapc_vrf :: "string option"

record LoadBalancingConfig =
  lbc_wan :: WANConfig
  lbc_haproxy :: HAProxyConfig

subsection \<open>Parsing\<close>

definition wanPath :: "path \<Rightarrow> path" where
  "wanPath rest = [''load-balancing'', ''wan''] @ rest"

definition wanInterfaceHealthPath :: "string \<Rightarrow> path \<Rightarrow> path" where
  "wanInterfaceHealthPath ifname rest = wanPath [''interface-health''] @ [ifname] @ rest"

definition wanHealthTestPath :: "string \<Rightarrow> string \<Rightarrow> path \<Rightarrow> path" where
  "wanHealthTestPath ifname testId rest =
     wanInterfaceHealthPath ifname [] @ [''test'', testId] @ rest"

definition wanRulePath :: "string \<Rightarrow> path \<Rightarrow> path" where
  "wanRulePath ruleId rest = wanPath [''rule''] @ [ruleId] @ rest"

definition wanRuleInterfacePath :: "string \<Rightarrow> string \<Rightarrow> path \<Rightarrow> path" where
  "wanRuleInterfacePath ruleId ifaceName rest =
     wanRulePath ruleId [] @ [''interface'', ifaceName] @ rest"

definition parseWANMatch :: "unknown \<Rightarrow> WANMatch" where
  "parseWANMatch raw =
     (let groupRoot = child raw ''group''
      in \<lparr>wanm_address = asString (child raw ''address''),
           wanm_port = asString (child raw ''port''),
           wanm_addressGroup = asString (child groupRoot ''address-group''),
           wanm_networkGroup = asString (child groupRoot ''network-group''),
           wanm_portGroup = asString (child groupRoot ''port-group''),
           wanm_domainGroup = asString (child groupRoot ''domain-group'')\<rparr>)"

definition parseWANHealthTest :: "string \<Rightarrow> unknown \<Rightarrow> WANHealthTest" where
  "parseWANHealthTest i raw =
     \<lparr>wanht_id = i,
       wanht_type = or_else (asString (child raw ''type'')) ''ping'',
       wanht_target = asString (child raw ''target''),
       wanht_testScript = asString (child raw ''test-script''),
       wanht_respTime = or_else (asNumber (child raw ''resp-time'')) (Num 5),
       wanht_ttlLimit = or_else (asNumber (child raw ''ttl-limit'')) (Num 1)\<rparr>"

definition parseWANInterfaceHealth :: "string \<Rightarrow> unknown \<Rightarrow> WANInterfaceHealth" where
  "parseWANInterfaceHealth ifname raw =
     (let testRoot = child raw ''test'';
          tests = parse_entries parseWANHealthTest (by_number wanht_id) testRoot
      in \<lparr>wanih_interface = ifname,
           wanih_nexthop = asString (child raw ''nexthop''),
           wanih_failureCount = or_else (asNumber (child raw ''failure-count'')) (Num 1),
           wanih_successCount = or_else (asNumber (child raw ''success-count'')) (Num 1),
           wanih_tests = tests\<rparr>)"

definition parseWANRuleLimit :: "unknown \<Rightarrow> WANRuleLimit option" where
  "parseWANRuleLimit raw =
     (if \<not> isRecord raw then None
      else Some \<lparr>wanrl_rate = or_else (asNumber (child raw ''rate'')) (Num 5),
               wanrl_period = or_else (asString (child raw ''period'')) ''second'',
               wanrl_burst = or_else (asNumber (child raw ''burst'')) (Num 5),
               wanrl_threshold = or_else (asString (child raw ''threshold'')) ''below''\<rparr>)"

definition parseWANRule :: "string \<Rightarrow> unknown \<Rightarrow> WANRule" where
  "parseWANRule i raw =
     (let ifaceRoot = child raw ''interface'';
          interfaces = (if isRecord ifaceRoot
             then map
                    (\<lambda>(k, r). (\<lambda>name v. \<lparr>wanri_name = name, wanri_weight = or_else (asNumber (child v ''weight'')) (Num 1)\<rparr>)
                           k (Some r)) (entries ifaceRoot)
             else [])
      in \<lparr>wanr_id = i,
           wanr_description = asString (child raw ''description''),
           wanr_source = parseWANMatch (child raw ''source''),
           wanr_destination = parseWANMatch (child raw ''destination''),
           wanr_exclude = isFlagPresent raw ''exclude'',
           wanr_failover = isFlagPresent raw ''failover'',
           wanr_inboundInterface = asString (child raw ''inbound-interface''),
           wanr_interfaces = interfaces,
           wanr_limit = parseWANRuleLimit (child raw ''limit''),
           wanr_perPacketBalancing = isFlagPresent raw ''per-packet-balancing'',
           wanr_protocol = or_else (asString (child raw ''protocol'')) ''all''\<rparr>)"

definition parseWANConfig :: "unknown \<Rightarrow> WANConfig" where
  "parseWANConfig wan =
     (let healthRoot = child wan ''interface-health'';
          interfaceHealth = (if isRecord healthRoot
             then map (\<lambda>(k, r). parseWANInterfaceHealth k (Some r)) (entries healthRoot)
             else []);
          ruleRoot = child wan ''rule'';
          rules = parse_entries parseWANRule (by_number wanr_id) ruleRoot
      in \<lparr>wanc_disableSourceNat = isFlagPresent wan ''disable-source-nat'',
           wanc_enableLocalTraffic = isFlagPresent wan ''enable-local-traffic'',
           wanc_flushConnections = isFlagPresent wan ''flush-connections'',
           wanc_onlyDefaultRoute = isFlagPresent wan ''only-default-route'',
           wanc_hook = asString (child wan ''hook''),
           wanc_stickyInbound = isFlagPresent (child wan ''sticky-connections'') ''inbound'',
           wanc_interfaceHealth = interfaceHealth,
           wanc_rules = rules\<rparr>)"

definition haproxyPath :: "path \<Rightarrow> path" where
  "haproxyPath rest = [''load-balancing'', ''haproxy''] @ rest"

definition haproxyServicePath :: "string \<Rightarrow> path \<Rightarrow> path" where
  "haproxyServicePath name rest = haproxyPath [''service''] @ [name] @ rest"

definition haproxyBackendPath :: "string \<Rightarrow> path \<Rightarrow> path" where
  "haproxyBackendPath name rest = haproxyPath [''backend''] @ [name] @ rest"

definition haproxyServerPath :: "string \<Rightarrow> string \<Rightarrow> path \<Rightarrow> path" where
  "haproxyServerPath backendName serverName rest =
     haproxyBackendPath backendName [] @ [''server'', serverName] @ rest"

definition haproxyServiceRulePath :: "string \<Rightarrow> string \<Rightarrow> path \<Rightarrow> path" where
  "haproxyServiceRulePath serviceName ruleId rest =
     haproxyServicePath serviceName [] @ [''rule'', ruleId] @ rest"

definition haproxyBackendRulePath :: "string \<Rightarrow> string \<Rightarrow> path \<Rightarrow> path" where
  "haproxyBackendRulePath backendName ruleId rest =
     haproxyBackendPath backendName [] @ [''rule'', ruleId] @ rest"

definition haproxyGlobalParametersPath :: "path \<Rightarrow> path" where
  "haproxyGlobalParametersPath rest = haproxyPath [''global-parameters''] @ rest"

definition haproxyGlobalTimeoutPath :: "path \<Rightarrow> path" where
  "haproxyGlobalTimeoutPath rest = haproxyPath [''timeout''] @ rest"

text \<open>Only the first facility of the node is shown.\<close>

definition parseHAProxyLogging :: "unknown \<Rightarrow> HAProxyLogging" where
  "parseHAProxyLogging raw =
     (case entries (child raw ''facility'') of
        [] \<Rightarrow> \<lparr>hapl_facility = None, hapl_level = ''err''\<rparr>
      | (facility, v) # _ \<Rightarrow>
          \<lparr>hapl_facility = Some facility,
            hapl_level = or_else (asString (child (Some v) ''level'')) ''err''\<rparr>)"

definition parseHTTPResponseHeaders :: "unknown \<Rightarrow> HAProxyHttpResponseHeader list" where
  "parseHTTPResponseHeaders raw =
     map
       (\<lambda>(k, r). (\<lambda>i v. \<lparr>haphrh_id = i, haphrh_value = or_else (asString (child v ''value'')) ''''\<rparr>)
              k (Some r)) (entries raw)"

definition parseHAProxyRule ::
    "string \<Rightarrow> unknown \<Rightarrow> string \<Rightarrow> HAProxyRule" where
  "parseHAProxyRule i raw kind =
     (let urlPath = child raw ''url-path'';
          setNode = child raw ''set''
      in \<lparr>hapr_id = i,
           hapr_domainNames = asArray (child raw ''domain-name''),
           hapr_wildcardDomain = isFlagPresent raw ''wildcard-domain'',
           hapr_ssl = asString (child raw ''ssl''),
           hapr_urlPathBegin = asArray (child urlPath ''begin''),
           hapr_urlPathEnd = asArray (child urlPath ''end''),
           hapr_urlPathExact = asArray (child urlPath ''exact''),
           hapr_setRedirectLocation = asString (child setNode ''redirect-location''),
           hapr_setBackend = (if kind = ''service'' then asString (child setNode ''backend'')
              else None),
           hapr_setServer = (if kind = ''backend'' then asString (child setNode ''server'')
              else None)\<rparr>)"

definition parseHAProxyRules :: "unknown \<Rightarrow> string \<Rightarrow> HAProxyRule list" where
  "parseHAProxyRules raw kind =
     parse_entries (\<lambda>i v. parseHAProxyRule i v kind) (by_number hapr_id) raw"

definition parseListenAddresses :: "unknown \<Rightarrow> HAProxyListenAddress list" where
  "parseListenAddresses raw =
     map
       (\<lambda>(k, r). (\<lambda>address v. \<lparr>hapla_address = address, hapla_acceptProxy = isFlagPresent v ''accept-proxy''\<rparr>)
              k (Some r)) (entries raw)"

definition parseHAProxyService :: "string \<Rightarrow> unknown \<Rightarrow> HAProxyService" where
  "parseHAProxyService name raw =
     (let tcpRequest = child raw ''tcp-request'';
          timeout = child raw ''timeout'';
          httpCompression = child raw ''http-compression'';
          ssl = child raw ''ssl''
      in \<lparr>haps_name = name,
           haps_backends = asArray (child raw ''backend''),
           haps_description = asString (child raw ''description''),
           haps_listenAddresses = parseListenAddresses (child raw ''listen-address''),
           haps_logging = parseHAProxyLogging (child raw ''logging''),
           haps_mode = or_else (asString (child raw ''mode'')) ''http'',
           haps_port = asNumber (child raw ''port''),
           haps_rules = parseHAProxyRules (child raw ''rule'') ''service'',
           haps_tcpRequestInspectDelay = asNumber (child tcpRequest ''inspect-delay''),
           haps_httpResponseHeaders = parseHTTPResponseHeaders (child raw ''http-response-headers''),
           haps_redirectHttpToHttps = isFlagPresent raw ''redirect-http-to-https'',
           haps_timeoutClient = asNumber (child timeout ''client''),
           haps_httpCompressionAlgorithm = asString (child httpCompression ''algorithm''),
           haps_httpCompressionMimeTypes = asArray (child httpCompression ''mime-type''),
           haps_sslCertificates = asArray (child ssl ''certificate'')\<rparr>)"

definition parseServers :: "unknown \<Rightarrow> HAProxyServer list" where
  "parseServers raw =
     map
       (\<lambda>(k, r). (\<lambda>name v. \<lparr>lbhaps_name = name, lbhaps_address = asString (child v ''address''), lbhaps_backup = isFlagPresent v ''backup'', lbhaps_checkPort = asNumber (child (child v ''check'') ''port''), lbhaps_port = asNumber (child v ''port''), lbhaps_sendProxy = isFlagPresent v ''send-proxy'', lbhaps_sendProxyV2 = isFlagPresent v ''send-proxy-v2''\<rparr>)
              k (Some r)) (entries raw)"

definition parseHAProxyBackend :: "string \<Rightarrow> unknown \<Rightarrow> HAProxyBackend" where
  "parseHAProxyBackend name raw =
     (let httpCheck = child raw ''http-check'';
          expect = child httpCheck ''expect'';
          timeout = child raw ''timeout'';
          ssl = child raw ''ssl''
      in \<lparr>hapb_name = name,
           hapb_balance = or_else (asString (child raw ''balance'')) ''round-robin'',
           hapb_description = asString (child raw ''description''),
           hapb_logging = parseHAProxyLogging (child raw ''logging''),
           hapb_mode = or_else (asString (child raw ''mode'')) ''http'',
           hapb_httpResponseHeaders = parseHTTPResponseHeaders (child raw ''http-response-headers''),
           hapb_httpCheckMethod = asString (child httpCheck ''method''),
           hapb_httpCheckUri = asString (child httpCheck ''uri''),
           hapb_httpCheckExpectStatus = asNumber (child expect ''status''),
           hapb_httpCheckExpectString = asString (child expect ''string''),
           hapb_healthCheck = asString (child raw ''health-check''),
           hapb_httpServerClose = isFlagPresent raw ''http-server-close'',
           hapb_rules = parseHAProxyRules (child raw ''rule'') ''backend'',
           hapb_servers = parseServers (child raw ''server''),
           hapb_sslCaCertificate = asString (child ssl ''ca-certificate''),
           hapb_sslNoVerify = isFlagPresent ssl ''no-verify'',
           hapb_timeoutCheck = asNumber (child timeout ''check''),
           hapb_timeoutConnect = asNumber (child timeout ''connect''),
           hapb_timeoutServer = asNumber (child timeout ''server''),
           hapb_timeoutTunnel = asNumber (child timeout ''tunnel'')\<rparr>)"

definition parseGlobalParameters :: "unknown \<Rightarrow> HAProxyGlobalParameters" where
  "parseGlobalParameters raw =
     \<lparr>hapgp_logging = parseHAProxyLogging (child raw ''logging''),
       hapgp_maxConnections = asNumber (child raw ''max-connections''),
       hapgp_sslBindCiphers = asArray (child raw ''ssl-bind-ciphers''),
       hapgp_tlsVersionMin = or_else (asString (child raw ''tls-version-min'')) ''1.3''\<rparr>"

definition parseGlobalTimeout :: "unknown \<Rightarrow> HAProxyGlobalTimeout" where
  "parseGlobalTimeout raw =
     \<lparr>hapgt_check = or_else (asNumber (child raw ''check'')) (Num 5),
       hapgt_connect = or_else (asNumber (child raw ''connect'')) (Num 10),
       hapgt_client = or_else (asNumber (child raw ''client'')) (Num 50),
       hapgt_server = or_else (asNumber (child raw ''server'')) (Num 50),
       hapgt_tunnel = or_else (asNumber (child raw ''tunnel'')) (Num 300)\<rparr>"

definition parseHAProxyConfig :: "collation \<Rightarrow> unknown \<Rightarrow> HAProxyConfig" where
  "parseHAProxyConfig lc haproxy =
     (let serviceRoot = child haproxy ''service'';
          services = parse_entries parseHAProxyService
              (\<lambda>a b. lc (haps_name a) (haps_name b)) serviceRoot;
          backendRoot = child haproxy ''backend'';
          backends = parse_entries parseHAProxyBackend
              (\<lambda>a b. lc (hapb_name a) (hapb_name b)) backendRoot
      in \<lparr>hapc_services = services,
           hapc_backends = backends,
           hapc_globalParameters = parseGlobalParameters (child haproxy ''global-parameters''),
           hapc_globalTimeout = parseGlobalTimeout (child haproxy ''timeout''),
           hapc_vrf = asString (child haproxy ''vrf'')\<rparr>)"

definition parseLoadBalancingConfig :: "collation \<Rightarrow> unknown \<Rightarrow> LoadBalancingConfig" where
  "parseLoadBalancingConfig lc raw =
     \<lparr>lbc_wan = parseWANConfig (child raw ''wan''),
       lbc_haproxy = parseHAProxyConfig lc (child raw ''haproxy'')\<rparr>"

subsection \<open>WAN\<close>

definition wanFlagOp :: "string \<Rightarrow> bool \<Rightarrow> ConfigOp" where
  "wanFlagOp segment enabled =
     (let p = wanPath [segment] in if enabled then set_flag p else delete_op p)"

definition toggleDisableSourceNatOp :: "bool \<Rightarrow> ConfigOp" where
  "toggleDisableSourceNatOp v = wanFlagOp ''disable-source-nat'' v"

definition toggleEnableLocalTrafficOp :: "bool \<Rightarrow> ConfigOp" where
  "toggleEnableLocalTrafficOp v = wanFlagOp ''enable-local-traffic'' v"

definition toggleFlushConnectionsOp :: "bool \<Rightarrow> ConfigOp" where
  "toggleFlushConnectionsOp v = wanFlagOp ''flush-connections'' v"

definition toggleOnlyDefaultRouteOp :: "bool \<Rightarrow> ConfigOp" where
  "toggleOnlyDefaultRouteOp v = wanFlagOp ''only-default-route'' v"

definition toggleStickyInboundOp :: "bool \<Rightarrow> ConfigOp" where
  "toggleStickyInboundOp enabled =
     (let p = wanPath [''sticky-connections'', ''inbound'']
      in if enabled then set_flag p else delete_op p)"

definition setWANHookOp :: "string \<Rightarrow> ConfigOp" where
  "setWANHookOp val =
     (let p = wanPath [''hook'']
      in if js_trim val = '''' then delete_op p else set_op p (js_trim val))"

record InterfaceHealthFormValues =
  ihfv_nexthop :: string
  ihfv_failureCount :: string
  ihfv_successCount :: string

definition blankInterfaceHealthFormValues :: InterfaceHealthFormValues where
  "blankInterfaceHealthFormValues =
     \<lparr>ihfv_nexthop = '''', ihfv_failureCount = '''', ihfv_successCount = ''''\<rparr>"

definition interfaceHealthToFormValues :: "WANInterfaceHealth \<Rightarrow> InterfaceHealthFormValues" where
  "interfaceHealthToFormValues health =
     \<lparr>ihfv_nexthop = or_else (wanih_nexthop health) '''',
       ihfv_failureCount = js_num_str (wanih_failureCount health),
       ihfv_successCount = js_num_str (wanih_successCount health)\<rparr>"

definition interfaceHealthForm_fields :: "InterfaceHealthFormValues scalar_field list" where
  "interfaceHealthForm_fields =
     [(ihfv_nexthop, [''nexthop'']),
      (ihfv_failureCount, [''failure-count'']),
      (ihfv_successCount, [''success-count''])]"

definition interfaceHealthFormToOps ::
    "string \<Rightarrow> WANInterfaceHealth option \<Rightarrow> InterfaceHealthFormValues \<Rightarrow> ConfigOp list" where
  "interfaceHealthFormToOps ifname before values =
     (let base = wanInterfaceHealthPath ifname [];
          beforeValues = (case before of
               Some before' \<Rightarrow> interfaceHealthToFormValues before'
             | None \<Rightarrow> blankInterfaceHealthFormValues)
      in (if before = None then [set_flag base] else [])
         @ diffToOps base interfaceHealthForm_fields [] beforeValues values)"

definition removeInterfaceHealthOp :: "string \<Rightarrow> ConfigOp" where
  "removeInterfaceHealthOp ifname = delete_op (wanInterfaceHealthPath ifname [])"

record AddWANHealthTestOps_options =
  awanhto_type :: string
  awanhto_target :: string
  awanhto_testScript :: string
  awanhto_respTime :: string
  awanhto_ttlLimit :: string

definition addWANHealthTestOps ::
    "string \<Rightarrow> string \<Rightarrow> AddWANHealthTestOps_options \<Rightarrow> ConfigOp list" where
  "addWANHealthTestOps ifname testId options =
     (let base = wanHealthTestPath ifname testId []
      in [set_flag base]
         @ (if awanhto_type options \<noteq> ''''
            then [set_op (base @ [''type'']) (awanhto_type options)]
            else [])
         @ (if awanhto_target options \<noteq> ''''
            then [set_op (base @ [''target'']) (awanhto_target options)]
            else [])
         @ (if awanhto_testScript options \<noteq> ''''
            then [set_op (base @ [''test-script'']) (awanhto_testScript options)]
            else [])
         @ (if awanhto_respTime options \<noteq> ''''
            then [set_op (base @ [''resp-time'']) (awanhto_respTime options)]
            else [])
         @ (if awanhto_ttlLimit options \<noteq> ''''
            then [set_op (base @ [''ttl-limit'']) (awanhto_ttlLimit options)]
            else []))"

definition removeWANHealthTestOp :: "string \<Rightarrow> string \<Rightarrow> ConfigOp" where
  "removeWANHealthTestOp ifname testId = delete_op (wanHealthTestPath ifname testId [])"

record WANRuleFormValues =
  wanrfv_description :: string
  wanrfv_source :: WANMatch
  wanrfv_destination :: WANMatch
  wanrfv_exclude :: bool
  wanrfv_failover :: bool
  wanrfv_inboundInterface :: string
  wanrfv_perPacketBalancing :: bool
  wanrfv_protocol :: string
  wanrfv_limitRate :: string
  wanrfv_limitPeriod :: string
  wanrfv_limitBurst :: string
  wanrfv_limitThreshold :: string

definition blankWANRuleFormValues :: WANRuleFormValues where
  "blankWANRuleFormValues =
     \<lparr>wanrfv_description = '''',
       wanrfv_source = \<lparr>wanm_address = None,
           wanm_port = None,
           wanm_addressGroup = None,
           wanm_networkGroup = None,
           wanm_portGroup = None,
           wanm_domainGroup = None\<rparr>,
       wanrfv_destination = \<lparr>wanm_address = None,
           wanm_port = None,
           wanm_addressGroup = None,
           wanm_networkGroup = None,
           wanm_portGroup = None,
           wanm_domainGroup = None\<rparr>,
       wanrfv_exclude = False,
       wanrfv_failover = False,
       wanrfv_inboundInterface = '''',
       wanrfv_perPacketBalancing = False,
       wanrfv_protocol = ''all'',
       wanrfv_limitRate = '''',
       wanrfv_limitPeriod = ''second'',
       wanrfv_limitBurst = '''',
       wanrfv_limitThreshold = ''below''\<rparr>"

definition wanRuleToFormValues :: "WANRule \<Rightarrow> WANRuleFormValues" where
  "wanRuleToFormValues rule =
     \<lparr>wanrfv_description = or_else (wanr_description rule) '''',
       wanrfv_source = wanr_source rule,
       wanrfv_destination = wanr_destination rule,
       wanrfv_exclude = wanr_exclude rule,
       wanrfv_failover = wanr_failover rule,
       wanrfv_inboundInterface = or_else (wanr_inboundInterface rule) '''',
       wanrfv_perPacketBalancing = wanr_perPacketBalancing rule,
       wanrfv_protocol = wanr_protocol rule,
       wanrfv_limitRate = (case wanr_limit rule of
            Some limit' \<Rightarrow> js_num_str (wanrl_rate limit')
          | None \<Rightarrow> ''''),
       wanrfv_limitPeriod = or_else (map_option wanrl_period (wanr_limit rule)) ''second'',
       wanrfv_limitBurst = (case wanr_limit rule of
            Some limit' \<Rightarrow> js_num_str (wanrl_burst limit')
          | None \<Rightarrow> ''''),
       wanrfv_limitThreshold = or_else (map_option wanrl_threshold (wanr_limit rule)) ''below''\<rparr>"

definition LOAD_BALANCING_WAN_MATCH_FIELDS :: "WANMatch scalar_field list" where
  "LOAD_BALANCING_WAN_MATCH_FIELDS =
     [(\<lambda>v. or_else (wanm_address v) '''', [''address'']),
      (\<lambda>v. or_else (wanm_port v) '''', [''port'']),
      (\<lambda>v. or_else (wanm_addressGroup v) '''', [''group'', ''address-group'']),
      (\<lambda>v. or_else (wanm_networkGroup v) '''', [''group'', ''network-group'']),
      (\<lambda>v. or_else (wanm_portGroup v) '''', [''group'', ''port-group'']),
      (\<lambda>v. or_else (wanm_domainGroup v) '''', [''group'', ''domain-group''])]"

definition WAN_RULE_FLAG_FIELDS :: "WANRuleFormValues flag_field list" where
  "WAN_RULE_FLAG_FIELDS =
     [(wanrfv_exclude, [''exclude'']),
      (wanrfv_failover, [''failover'']),
      (wanrfv_perPacketBalancing, [''per-packet-balancing''])]"

definition WAN_RULE_SCALAR_FIELDS :: "WANRuleFormValues scalar_field list" where
  "WAN_RULE_SCALAR_FIELDS =
     [(wanrfv_description, [''description'']),
      (wanrfv_inboundInterface, [''inbound-interface'']),
      (wanrfv_protocol, [''protocol''])]"

text \<open>The \<open>limit\<close> node is replaced as a whole when any of its inputs changed.\<close>

definition wan_limit_fields :: "WANRuleFormValues \<Rightarrow> (string \<times> string) list" where
  "wan_limit_fields values =
     [(''rate'', js_trim (wanrfv_limitRate values)),
      (''period'', wanrfv_limitPeriod values),
      (''burst'', js_trim (wanrfv_limitBurst values)),
      (''threshold'', wanrfv_limitThreshold values)]"

definition has_limit :: "WANRuleFormValues \<Rightarrow> bool" where
  "has_limit values \<longleftrightarrow>
     js_trim (wanrfv_limitRate values) \<noteq> '''' \<or> js_trim (wanrfv_limitBurst values) \<noteq> ''''"

definition limit_changed :: "WANRuleFormValues \<Rightarrow> WANRuleFormValues \<Rightarrow> bool" where
  "limit_changed beforeValues values \<longleftrightarrow>
     wanrfv_limitRate beforeValues \<noteq> wanrfv_limitRate values
     \<or> wanrfv_limitPeriod beforeValues \<noteq> wanrfv_limitPeriod values
     \<or> wanrfv_limitBurst beforeValues \<noteq> wanrfv_limitBurst values
     \<or> wanrfv_limitThreshold beforeValues \<noteq> wanrfv_limitThreshold values"

definition wan_limit_ops ::
    "path \<Rightarrow> bool \<Rightarrow> WANRuleFormValues \<Rightarrow> WANRuleFormValues \<Rightarrow> ConfigOp list" where
  "wan_limit_ops limitPath hadLimit beforeValues values =
     (if has_limit values \<noteq> hadLimit \<or> limit_changed beforeValues values
      then if \<not> has_limit values then (if hadLimit then [delete_op limitPath] else [])
        else (if hadLimit then [delete_op limitPath] else []) @ [set_flag limitPath]
          @ map (\<lambda>(segment, value). set_op (limitPath @ [segment]) value)
              (filter (\<lambda>(segment, value). value \<noteq> '''') (wan_limit_fields values))
      else [])"

definition wanRuleFormToOps ::
    "string \<Rightarrow> WANRule option \<Rightarrow> WANRuleFormValues \<Rightarrow> ConfigOp list" where
  "wanRuleFormToOps ruleId before values =
     (let base = wanRulePath ruleId [];
          beforeValues = (case before of Some b \<Rightarrow> wanRuleToFormValues b | None \<Rightarrow> blankWANRuleFormValues)
      in (if before = None then [set_flag base] else [])
         @ diffToOps base [] WAN_RULE_FLAG_FIELDS beforeValues values
         @ diffToOps base WAN_RULE_SCALAR_FIELDS [] beforeValues values
         @ diffToOps (base @ [''source'']) LOAD_BALANCING_WAN_MATCH_FIELDS []
             (wanrfv_source beforeValues) (wanrfv_source values)
         @ diffToOps (base @ [''destination'']) LOAD_BALANCING_WAN_MATCH_FIELDS []
             (wanrfv_destination beforeValues) (wanrfv_destination values)
         @ wan_limit_ops (base @ [''limit'']) (Option.bind before wanr_limit \<noteq> None) beforeValues values)"

definition deleteWANRuleOp :: "string \<Rightarrow> ConfigOp" where
  "deleteWANRuleOp ruleId = delete_op (wanRulePath ruleId [])"

definition addWANRuleInterfaceOps ::
    "string \<Rightarrow> string \<Rightarrow> string \<Rightarrow> ConfigOp list" where
  "addWANRuleInterfaceOps ruleId ifaceName weight =
     (let base = wanRuleInterfacePath ruleId ifaceName []
      in [set_flag base]
         @ (if js_trim weight \<noteq> '''' then [set_op (base @ [''weight'']) (js_trim weight)]
            else []))"

definition removeWANRuleInterfaceOp :: "string \<Rightarrow> string \<Rightarrow> ConfigOp" where
  "removeWANRuleInterfaceOp ruleId ifaceName = delete_op (wanRuleInterfacePath ruleId ifaceName [])"

subsection \<open>HAProxy\<close>

record LoggingFormValues =
  lfv_loggingFacility :: string
  lfv_loggingLevel :: string

definition loggingToFormValues :: "HAProxyLogging \<Rightarrow> LoggingFormValues" where
  "loggingToFormValues logging =
     \<lparr>lfv_loggingFacility = or_else (hapl_facility logging) '''',
       lfv_loggingLevel = hapl_level logging\<rparr>"

definition loggingOps ::
    "string list \<Rightarrow> 'a LoggingFormValues_scheme \<Rightarrow> 'a LoggingFormValues_scheme \<Rightarrow> ConfigOp list" where
  "loggingOps base before values =
     (let oldFacility = js_trim (lfv_loggingFacility before);
          newFacility = js_trim (lfv_loggingFacility values);
          facilityListPath = base @ [''logging'', ''facility'']
      in (if oldFacility = newFacility
          then (if newFacility \<noteq> ''''
                   \<and> lfv_loggingLevel before \<noteq> lfv_loggingLevel values
                then [set_op (facilityListPath @ [newFacility, ''level'']) (lfv_loggingLevel values)]
                else [])
          else (if oldFacility \<noteq> '''' then [delete_op (facilityListPath @ [oldFacility])]
                else [])
               @ (if newFacility \<noteq> ''''
                  then [set_flag (facilityListPath @ [newFacility])]
                       @ [set_op (facilityListPath @ [newFacility, ''level''])
                            (lfv_loggingLevel values)]
                  else [])))"

record HAProxyServiceFormValues = LoggingFormValues +
  hapsfv_description :: string
  hapsfv_mode :: string
  hapsfv_port :: string
  hapsfv_redirectHttpToHttps :: bool
  hapsfv_timeoutClient :: string
  hapsfv_httpCompressionAlgorithm :: string
  hapsfv_tcpRequestInspectDelay :: string

definition blankHAProxyServiceFormValues :: HAProxyServiceFormValues where
  "blankHAProxyServiceFormValues =
     \<lparr>lfv_loggingFacility = '''',
       lfv_loggingLevel = ''err'',
       hapsfv_description = '''',
       hapsfv_mode = ''http'',
       hapsfv_port = '''',
       hapsfv_redirectHttpToHttps = False,
       hapsfv_timeoutClient = '''',
       hapsfv_httpCompressionAlgorithm = '''',
       hapsfv_tcpRequestInspectDelay = ''''\<rparr>"

definition haproxyServiceToFormValues :: "HAProxyService \<Rightarrow> HAProxyServiceFormValues" where
  "haproxyServiceToFormValues service =
     \<lparr>lfv_loggingFacility = lfv_loggingFacility (loggingToFormValues (haps_logging service)),
       lfv_loggingLevel = lfv_loggingLevel (loggingToFormValues (haps_logging service)),
       hapsfv_description = or_else (haps_description service) '''',
       hapsfv_mode = haps_mode service,
       hapsfv_port = (case haps_port service of
            Some port' \<Rightarrow> js_num_str port'
          | None \<Rightarrow> ''''),
       hapsfv_redirectHttpToHttps = haps_redirectHttpToHttps service,
       hapsfv_timeoutClient = (case haps_timeoutClient service of
            Some timeoutClient' \<Rightarrow> js_num_str timeoutClient'
          | None \<Rightarrow> ''''),
       hapsfv_httpCompressionAlgorithm = or_else (haps_httpCompressionAlgorithm service) '''',
       hapsfv_tcpRequestInspectDelay = (case haps_tcpRequestInspectDelay service of
            Some tcpRequestInspectDelay' \<Rightarrow> js_num_str tcpRequestInspectDelay'
          | None \<Rightarrow> '''')\<rparr>"

definition haproxyServiceForm_flags :: "HAProxyServiceFormValues flag_field list" where
  "haproxyServiceForm_flags =
     [(hapsfv_redirectHttpToHttps, [''redirect-http-to-https''])]"

definition haproxyServiceForm_fields :: "HAProxyServiceFormValues scalar_field list" where
  "haproxyServiceForm_fields =
     [(hapsfv_description, [''description'']),
      (hapsfv_mode, [''mode'']),
      (hapsfv_port, [''port'']),
      (hapsfv_timeoutClient, [''timeout'', ''client'']),
      (hapsfv_httpCompressionAlgorithm, [''http-compression'', ''algorithm'']),
      (hapsfv_tcpRequestInspectDelay, [''tcp-request'', ''inspect-delay''])]"

definition haproxyServiceFormToOps ::
    "string \<Rightarrow> HAProxyService option \<Rightarrow> HAProxyServiceFormValues \<Rightarrow> ConfigOp list" where
  "haproxyServiceFormToOps name before values =
     (let base = haproxyServicePath name [];
          beforeValues = (case before of
               Some before' \<Rightarrow> haproxyServiceToFormValues before'
             | None \<Rightarrow> blankHAProxyServiceFormValues)
      in (if before = None then [set_flag base] else [])
         @ diffToOps base [] haproxyServiceForm_flags beforeValues values
         @ diffToOps base haproxyServiceForm_fields [] beforeValues values
         @ loggingOps base beforeValues values)"

definition deleteHAProxyServiceOp :: "string \<Rightarrow> ConfigOp" where
  "deleteHAProxyServiceOp name = delete_op (haproxyServicePath name [])"

definition addHAProxyListenAddressOps :: "string \<Rightarrow> string \<Rightarrow> bool \<Rightarrow> ConfigOp list" where
  "addHAProxyListenAddressOps serviceName address acceptProxy =
     (let base = haproxyServicePath serviceName [] @ [''listen-address'', address]
      in [set_flag base] @ (if acceptProxy then [set_flag (base @ [''accept-proxy''])] else []))"

definition removeHAProxyListenAddressOp :: "string \<Rightarrow> string \<Rightarrow> ConfigOp" where
  "removeHAProxyListenAddressOp serviceName address =
     delete_op (haproxyServicePath serviceName [] @ [''listen-address'', address])"

record HAProxyRuleOptions =
  hapro_domainNames :: string
  hapro_wildcardDomain :: bool
  hapro_ssl :: string
  hapro_urlPathBegin :: string
  hapro_urlPathEnd :: string
  hapro_urlPathExact :: string
  hapro_setRedirectLocation :: string
  hapro_setBackend :: string
  hapro_setServer :: string

definition ruleOps :: "string list \<Rightarrow> HAProxyRuleOptions \<Rightarrow> ConfigOp list" where
  "ruleOps base options =
     (let domains = filter (\<lambda>d. d \<noteq> '''') (map (\<lambda>d. js_trim d)
                 (js_split (CHR '','') (hapro_domainNames options)))
      in [set_flag base]
         @ concat (map (\<lambda>dom1. [set_op (base @ [''domain-name'']) dom1]) domains)
         @ (if hapro_wildcardDomain options then [set_flag (base @ [''wildcard-domain''])] else [])
         @ (if hapro_ssl options \<noteq> '''' then [set_op (base @ [''ssl'']) (hapro_ssl options)]
            else [])
         @ (if hapro_urlPathBegin options \<noteq> ''''
            then [set_op (base @ [''url-path'', ''begin'']) (hapro_urlPathBegin options)]
            else [])
         @ (if hapro_urlPathEnd options \<noteq> ''''
            then [set_op (base @ [''url-path'', ''end'']) (hapro_urlPathEnd options)]
            else [])
         @ (if hapro_urlPathExact options \<noteq> ''''
            then [set_op (base @ [''url-path'', ''exact'']) (hapro_urlPathExact options)]
            else [])
         @ (if hapro_setRedirectLocation options \<noteq> ''''
            then [set_op (base @ [''set'', ''redirect-location''])
                    (hapro_setRedirectLocation options)]
            else [])
         @ (if hapro_setBackend options \<noteq> ''''
            then [set_op (base @ [''set'', ''backend'']) (hapro_setBackend options)]
            else [])
         @ (if hapro_setServer options \<noteq> ''''
            then [set_op (base @ [''set'', ''server'']) (hapro_setServer options)]
            else []))"

definition addHAProxyServiceRuleOps ::
    "string \<Rightarrow> string \<Rightarrow> HAProxyRuleOptions \<Rightarrow> ConfigOp list" where
  "addHAProxyServiceRuleOps serviceName ruleId options =
     ruleOps (haproxyServiceRulePath serviceName ruleId []) options"

definition removeHAProxyServiceRuleOp :: "string \<Rightarrow> string \<Rightarrow> ConfigOp" where
  "removeHAProxyServiceRuleOp serviceName ruleId =
     delete_op (haproxyServiceRulePath serviceName ruleId [])"

definition addHAProxyBackendRuleOps ::
    "string \<Rightarrow> string \<Rightarrow> HAProxyRuleOptions \<Rightarrow> ConfigOp list" where
  "addHAProxyBackendRuleOps backendName ruleId options =
     ruleOps (haproxyBackendRulePath backendName ruleId []) options"

definition removeHAProxyBackendRuleOp :: "string \<Rightarrow> string \<Rightarrow> ConfigOp" where
  "removeHAProxyBackendRuleOp backendName ruleId =
     delete_op (haproxyBackendRulePath backendName ruleId [])"

record HAProxyBackendFormValues = LoggingFormValues +
  hapbfv_balance :: string
  hapbfv_description :: string
  hapbfv_mode :: string
  hapbfv_httpCheckMethod :: string
  hapbfv_httpCheckUri :: string
  hapbfv_httpCheckExpectStatus :: string
  hapbfv_httpCheckExpectString :: string
  hapbfv_healthCheck :: string
  hapbfv_httpServerClose :: bool
  hapbfv_sslCaCertificate :: string
  hapbfv_sslNoVerify :: bool
  hapbfv_timeoutCheck :: string
  hapbfv_timeoutConnect :: string
  hapbfv_timeoutServer :: string
  hapbfv_timeoutTunnel :: string

definition blankHAProxyBackendFormValues :: HAProxyBackendFormValues where
  "blankHAProxyBackendFormValues =
     \<lparr>lfv_loggingFacility = '''',
       lfv_loggingLevel = ''err'',
       hapbfv_balance = ''round-robin'',
       hapbfv_description = '''',
       hapbfv_mode = ''http'',
       hapbfv_httpCheckMethod = '''',
       hapbfv_httpCheckUri = '''',
       hapbfv_httpCheckExpectStatus = '''',
       hapbfv_httpCheckExpectString = '''',
       hapbfv_healthCheck = '''',
       hapbfv_httpServerClose = False,
       hapbfv_sslCaCertificate = '''',
       hapbfv_sslNoVerify = False,
       hapbfv_timeoutCheck = '''',
       hapbfv_timeoutConnect = '''',
       hapbfv_timeoutServer = '''',
       hapbfv_timeoutTunnel = ''''\<rparr>"

definition haproxyBackendToFormValues :: "HAProxyBackend \<Rightarrow> HAProxyBackendFormValues" where
  "haproxyBackendToFormValues backend =
     \<lparr>lfv_loggingFacility = lfv_loggingFacility (loggingToFormValues (hapb_logging backend)),
       lfv_loggingLevel = lfv_loggingLevel (loggingToFormValues (hapb_logging backend)),
       hapbfv_balance = hapb_balance backend,
       hapbfv_description = or_else (hapb_description backend) '''',
       hapbfv_mode = hapb_mode backend,
       hapbfv_httpCheckMethod = or_else (hapb_httpCheckMethod backend) '''',
       hapbfv_httpCheckUri = or_else (hapb_httpCheckUri backend) '''',
       hapbfv_httpCheckExpectStatus = (case hapb_httpCheckExpectStatus backend of
            Some httpCheckExpectStatus' \<Rightarrow> js_num_str httpCheckExpectStatus'
          | None \<Rightarrow> ''''),
       hapbfv_httpCheckExpectString = or_else (hapb_httpCheckExpectString backend) '''',
       hapbfv_healthCheck = or_else (hapb_healthCheck backend) '''',
       hapbfv_httpServerClose = hapb_httpServerClose backend,
       hapbfv_sslCaCertificate = or_else (hapb_sslCaCertificate backend) '''',
       hapbfv_sslNoVerify = hapb_sslNoVerify backend,
       hapbfv_timeoutCheck = (case hapb_timeoutCheck backend of
            Some timeoutCheck' \<Rightarrow> js_num_str timeoutCheck'
          | None \<Rightarrow> ''''),
       hapbfv_timeoutConnect = (case hapb_timeoutConnect backend of
            Some timeoutConnect' \<Rightarrow> js_num_str timeoutConnect'
          | None \<Rightarrow> ''''),
       hapbfv_timeoutServer = (case hapb_timeoutServer backend of
            Some timeoutServer' \<Rightarrow> js_num_str timeoutServer'
          | None \<Rightarrow> ''''),
       hapbfv_timeoutTunnel = (case hapb_timeoutTunnel backend of
            Some timeoutTunnel' \<Rightarrow> js_num_str timeoutTunnel'
          | None \<Rightarrow> '''')\<rparr>"

definition haproxyBackendForm_flags :: "HAProxyBackendFormValues flag_field list" where
  "haproxyBackendForm_flags =
     [(hapbfv_httpServerClose, [''http-server-close'']),
      (hapbfv_sslNoVerify, [''ssl'', ''no-verify''])]"

definition haproxyBackendForm_fields :: "HAProxyBackendFormValues scalar_field list" where
  "haproxyBackendForm_fields =
     [(hapbfv_balance, [''balance'']),
      (hapbfv_description, [''description'']),
      (hapbfv_mode, [''mode'']),
      (hapbfv_httpCheckMethod, [''http-check'', ''method'']),
      (hapbfv_httpCheckUri, [''http-check'', ''uri'']),
      (hapbfv_httpCheckExpectStatus, [''http-check'', ''expect'', ''status'']),
      (hapbfv_httpCheckExpectString, [''http-check'', ''expect'', ''string'']),
      (hapbfv_healthCheck, [''health-check'']),
      (hapbfv_sslCaCertificate, [''ssl'', ''ca-certificate'']),
      (hapbfv_timeoutCheck, [''timeout'', ''check'']),
      (hapbfv_timeoutConnect, [''timeout'', ''connect'']),
      (hapbfv_timeoutServer, [''timeout'', ''server'']),
      (hapbfv_timeoutTunnel, [''timeout'', ''tunnel''])]"

definition haproxyBackendFormToOps ::
    "string \<Rightarrow> HAProxyBackend option \<Rightarrow> HAProxyBackendFormValues \<Rightarrow> ConfigOp list" where
  "haproxyBackendFormToOps name before values =
     (let base = haproxyBackendPath name [];
          beforeValues = (case before of
               Some before' \<Rightarrow> haproxyBackendToFormValues before'
             | None \<Rightarrow> blankHAProxyBackendFormValues)
      in (if before = None then [set_flag base] else [])
         @ diffToOps base [] haproxyBackendForm_flags beforeValues values
         @ diffToOps base haproxyBackendForm_fields [] beforeValues values
         @ loggingOps base beforeValues values)"

definition deleteHAProxyBackendOp :: "string \<Rightarrow> ConfigOp" where
  "deleteHAProxyBackendOp name = delete_op (haproxyBackendPath name [])"

record HAProxyServerOptions =
  hapso_address :: string
  hapso_port :: string
  hapso_backup :: bool
  hapso_checkPort :: string
  hapso_sendProxy :: bool
  hapso_sendProxyV2 :: bool

definition addHAProxyServerOps ::
    "string \<Rightarrow> string \<Rightarrow> HAProxyServerOptions \<Rightarrow> ConfigOp list" where
  "addHAProxyServerOps backendName serverName options =
     (let base = haproxyServerPath backendName serverName []
      in [set_flag base]
         @ (if hapso_address options \<noteq> ''''
            then [set_op (base @ [''address'']) (hapso_address options)]
            else [])
         @ (if hapso_port options \<noteq> ''''
            then [set_op (base @ [''port'']) (hapso_port options)]
            else [])
         @ (if hapso_backup options then [set_flag (base @ [''backup''])] else [])
         @ (if hapso_checkPort options \<noteq> ''''
            then [set_op (base @ [''check'', ''port'']) (hapso_checkPort options)]
            else [])
         @ (if hapso_sendProxy options then [set_flag (base @ [''send-proxy''])] else [])
         @ (if hapso_sendProxyV2 options then [set_flag (base @ [''send-proxy-v2''])] else []))"

definition removeHAProxyServerOp :: "string \<Rightarrow> string \<Rightarrow> ConfigOp" where
  "removeHAProxyServerOp backendName serverName =
     delete_op (haproxyServerPath backendName serverName [])"

record HAProxyGlobalParametersFormValues = LoggingFormValues +
  hapgpfv_maxConnections :: string
  hapgpfv_tlsVersionMin :: string

definition haproxyGlobalParametersToFormValues :: "HAProxyGlobalParameters \<Rightarrow> HAProxyGlobalParametersFormValues" where
  "haproxyGlobalParametersToFormValues params =
     \<lparr>lfv_loggingFacility = lfv_loggingFacility (loggingToFormValues (hapgp_logging params)),
       lfv_loggingLevel = lfv_loggingLevel (loggingToFormValues (hapgp_logging params)),
       hapgpfv_maxConnections = (case hapgp_maxConnections params of
            Some maxConnections' \<Rightarrow> js_num_str maxConnections'
          | None \<Rightarrow> ''''),
       hapgpfv_tlsVersionMin = hapgp_tlsVersionMin params\<rparr>"

definition haproxyGlobalParametersForm_fields :: "HAProxyGlobalParametersFormValues scalar_field list" where
  "haproxyGlobalParametersForm_fields =
     [(hapgpfv_maxConnections, [''max-connections'']),
      (hapgpfv_tlsVersionMin, [''tls-version-min''])]"

definition haproxyGlobalParametersFormToOps ::
    "HAProxyGlobalParametersFormValues \<Rightarrow> HAProxyGlobalParametersFormValues \<Rightarrow> ConfigOp list" where
  "haproxyGlobalParametersFormToOps before values =
     (let base = haproxyGlobalParametersPath []
      in diffToOps base haproxyGlobalParametersForm_fields [] before values
         @ loggingOps base before values)"

record HAProxyGlobalTimeoutFormValues =
  hapgtfv_check :: string
  hapgtfv_connect :: string
  hapgtfv_client :: string
  hapgtfv_server :: string
  hapgtfv_tunnel :: string

definition haproxyGlobalTimeoutToFormValues :: "HAProxyGlobalTimeout \<Rightarrow> HAProxyGlobalTimeoutFormValues" where
  "haproxyGlobalTimeoutToFormValues timeout =
     \<lparr>hapgtfv_check = js_num_str (hapgt_check timeout),
       hapgtfv_connect = js_num_str (hapgt_connect timeout),
       hapgtfv_client = js_num_str (hapgt_client timeout),
       hapgtfv_server = js_num_str (hapgt_server timeout),
       hapgtfv_tunnel = js_num_str (hapgt_tunnel timeout)\<rparr>"

definition haproxyGlobalTimeoutForm_fields :: "HAProxyGlobalTimeoutFormValues scalar_field list" where
  "haproxyGlobalTimeoutForm_fields =
     [(hapgtfv_check, [''check'']),
      (hapgtfv_connect, [''connect'']),
      (hapgtfv_client, [''client'']),
      (hapgtfv_server, [''server'']),
      (hapgtfv_tunnel, [''tunnel''])]"

definition haproxyGlobalTimeoutFormToOps ::
    "HAProxyGlobalTimeoutFormValues \<Rightarrow> HAProxyGlobalTimeoutFormValues \<Rightarrow> ConfigOp list" where
  "haproxyGlobalTimeoutFormToOps before values =
     (let base = haproxyGlobalTimeoutPath []
      in diffToOps base haproxyGlobalTimeoutForm_fields [] before values)"

definition setHAProxyVrfOp :: "string \<Rightarrow> ConfigOp" where
  "setHAProxyVrfOp val =
     (let p = haproxyPath [''vrf'']
      in if js_trim val = '''' then delete_op p else set_op p (js_trim val))"



end
