(* ===== verification/HighAvailability.thy ===== *)
theory HighAvailability
  imports SavedForms
begin

text \<open>
  High availability: the interfaces of \<open>lib/haTypes.ts\<close>, the parser of \<open>lib/haParse.ts\<close> and the forms
  of VRRP groups and sync groups (\<open>lib/haVrrpForm.ts\<close>) and of connection tracking synchronisation
  (\<open>lib/haConntrackSyncForm.ts\<close>).
\<close>

subsection \<open>Types\<close>

record VRRPHealthCheck =
  vrrphc_failureCount :: jsnum
  vrrphc_interval :: jsnum
  vrrphc_ping :: "string option"
  vrrphc_script :: "string option"
  vrrphc_timeout :: "jsnum option"

record VRRPTransitionScripts =
  vrrpts_master :: "string option"
  vrrpts_backup :: "string option"
  vrrpts_fault :: "string option"
  vrrpts_stop :: "string option"

record VRRPAddress =
  vrrpa_address :: string
  vrrpa_interface :: "string option"

record VRRPGroup =
  vrrpg_name :: string
  vrrpg_interface :: "string option"
  vrrpg_vrid :: "string option"
  vrrpg_priority :: jsnum
  vrrpg_advertiseInterval :: jsnum
  vrrpg_description :: "string option"
  vrrpg_disabled :: bool
  vrrpg_noPreempt :: bool
  vrrpg_preemptDelay :: jsnum
  vrrpg_rfc3768Compatibility :: bool
  vrrpg_helloSourceAddress :: "string option"
  vrrpg_peerAddresses :: "string list"
  vrrpg_hasAuthenticationPassword :: bool
  vrrpg_authenticationType :: "string option"
  vrrpg_healthCheck :: "VRRPHealthCheck option"
  vrrpg_excludeVrrpInterface :: bool
  vrrpg_trackInterfaces :: "string list"
  vrrpg_transitionScripts :: VRRPTransitionScripts
  vrrpg_addresses :: "VRRPAddress list"
  vrrpg_excludedAddresses :: "VRRPAddress list"

record VRRPSyncGroup =
  vrrpsg_name :: string
  vrrpsg_members :: "string list"
  vrrpsg_healthCheck :: "VRRPHealthCheck option"
  vrrpsg_transitionScripts :: VRRPTransitionScripts

record VRRPGarpSettings =
  vrrpgs_interval :: string
  vrrpgs_masterDelay :: jsnum
  vrrpgs_masterRefresh :: jsnum
  vrrpgs_masterRefreshRepeat :: jsnum
  vrrpgs_masterRepeat :: jsnum

record VRRPGlobalSettings =
  havrrpgs_snmpTrap :: bool
  havrrpgs_startupDelay :: "jsnum option"
  havrrpgs_version :: "string option"
  havrrpgs_garp :: VRRPGarpSettings

record HAConfig =
  hac_disabled :: bool
  hac_global :: VRRPGlobalSettings
  hac_groups :: "VRRPGroup list"
  hac_syncGroups :: "VRRPSyncGroup list"

definition CONNTRACK_SYNC_ACCEPT_PROTOCOLS :: "string list" where
  "CONNTRACK_SYNC_ACCEPT_PROTOCOLS = [''tcp'', ''udp'', ''icmp'', ''icmp6'', ''sctp'', ''dccp'']"

definition CONNTRACK_SYNC_EXPECT_SYNC_PROTOCOLS :: "string list" where
  "CONNTRACK_SYNC_EXPECT_SYNC_PROTOCOLS =
     [''all'', ''ftp'', ''sip'', ''h323'', ''nfs'', ''sqlnet'']"

record ConntrackSyncInterface =
  csi_name :: string
  csi_peer :: "string option"
  csi_port :: "jsnum option"

record ConntrackSyncConfig =
  csc_acceptProtocols :: "string list"
  csc_disableExternalCache :: bool
  csc_disableSyslog :: bool
  csc_eventListenQueueSize :: jsnum
  csc_expectSync :: "string list"
  csc_startupResync :: bool
  csc_vrrpSyncGroup :: "string option"
  csc_ignoreAddresses :: "string list"
  csc_interfaces :: "ConntrackSyncInterface list"
  csc_listenAddresses :: "string list"
  csc_mcastGroup :: string
  csc_syncQueueSize :: jsnum
  csc_purgeTimeout :: jsnum

subsection \<open>Parsing\<close>

definition haPath :: "path \<Rightarrow> path" where
  "haPath rest = [''high-availability''] @ rest"

definition vrrpPath :: "path \<Rightarrow> path" where
  "vrrpPath rest = haPath ([''vrrp''] @ rest)"

definition vrrpGroupPath :: "string \<Rightarrow> path \<Rightarrow> path" where
  "vrrpGroupPath name rest = vrrpPath [''group''] @ [name] @ rest"

definition vrrpSyncGroupPath :: "string \<Rightarrow> path \<Rightarrow> path" where
  "vrrpSyncGroupPath name rest = vrrpPath [''sync-group''] @ [name] @ rest"

definition conntrackSyncPath :: "path \<Rightarrow> path" where
  "conntrackSyncPath rest = [''service'', ''conntrack-sync''] @ rest"

definition conntrackSyncInterfacePath :: "string \<Rightarrow> path \<Rightarrow> path" where
  "conntrackSyncInterfacePath name rest = conntrackSyncPath [''interface''] @ [name] @ rest"

definition parseVRRPHealthCheck :: "unknown \<Rightarrow> VRRPHealthCheck option" where
  "parseVRRPHealthCheck raw =
     (if \<not> isRecord raw then None
      else Some \<lparr>vrrphc_failureCount = or_else (asNumber (child raw ''failure-count'')) (Num 3),
               vrrphc_interval = or_else (asNumber (child raw ''interval'')) (Num 60),
               vrrphc_ping = asString (child raw ''ping''),
               vrrphc_script = asString (child raw ''script''),
               vrrphc_timeout = asNumber (child raw ''timeout'')\<rparr>)"

definition parseTransitionScripts :: "unknown \<Rightarrow> VRRPTransitionScripts" where
  "parseTransitionScripts raw =
     \<lparr>vrrpts_master = asString (child raw ''master''),
       vrrpts_backup = asString (child raw ''backup''),
       vrrpts_fault = asString (child raw ''fault''),
       vrrpts_stop = asString (child raw ''stop'')\<rparr>"

definition parseVRRPAddresses :: "unknown \<Rightarrow> VRRPAddress list" where
  "parseVRRPAddresses raw =
     map
       (\<lambda>(k, r). (\<lambda>address v. \<lparr>vrrpa_address = address, vrrpa_interface = asString (child v ''interface'')\<rparr>)
              k (Some r)) (entries raw)"

definition parseVRRPGroup :: "string \<Rightarrow> unknown \<Rightarrow> VRRPGroup" where
  "parseVRRPGroup name raw =
     (let auth = child raw ''authentication'';
          track = child raw ''track''
      in \<lparr>vrrpg_name = name,
           vrrpg_interface = asString (child raw ''interface''),
           vrrpg_vrid = asString (child raw ''vrid''),
           vrrpg_priority = or_else (asNumber (child raw ''priority'')) (Num 100),
           vrrpg_advertiseInterval = or_else (asNumber (child raw ''advertise-interval'')) (Num 1),
           vrrpg_description = asString (child raw ''description''),
           vrrpg_disabled = isFlagPresent raw ''disable'',
           vrrpg_noPreempt = isFlagPresent raw ''no-preempt'',
           vrrpg_preemptDelay = or_else (asNumber (child raw ''preempt-delay'')) (Num 0),
           vrrpg_rfc3768Compatibility = isFlagPresent raw ''rfc3768-compatibility'',
           vrrpg_helloSourceAddress = asString (child raw ''hello-source-address''),
           vrrpg_peerAddresses = asArray (child raw ''peer-address''),
           vrrpg_hasAuthenticationPassword = child auth ''password'' \<noteq> None,
           vrrpg_authenticationType = asString (child auth ''type''),
           vrrpg_healthCheck = parseVRRPHealthCheck (child raw ''health-check''),
           vrrpg_excludeVrrpInterface = isFlagPresent track ''exclude-vrrp-interface'',
           vrrpg_trackInterfaces = asArray (child track ''interface''),
           vrrpg_transitionScripts = parseTransitionScripts (child raw ''transition-script''),
           vrrpg_addresses = parseVRRPAddresses (child raw ''address''),
           vrrpg_excludedAddresses = parseVRRPAddresses (child raw ''excluded-address'')\<rparr>)"

definition parseVRRPSyncGroup :: "string \<Rightarrow> unknown \<Rightarrow> VRRPSyncGroup" where
  "parseVRRPSyncGroup name raw =
     \<lparr>vrrpsg_name = name,
       vrrpsg_members = asArray (child raw ''member''),
       vrrpsg_healthCheck = parseVRRPHealthCheck (child raw ''health-check''),
       vrrpsg_transitionScripts = parseTransitionScripts (child raw ''transition-script'')\<rparr>"

definition parseGarp :: "unknown \<Rightarrow> VRRPGarpSettings" where
  "parseGarp raw =
     \<lparr>vrrpgs_interval = or_else (asString (child raw ''interval'')) ''0'',
       vrrpgs_masterDelay = or_else (asNumber (child raw ''master-delay'')) (Num 5),
       vrrpgs_masterRefresh = or_else (asNumber (child raw ''master-refresh'')) (Num 5),
       vrrpgs_masterRefreshRepeat = or_else (asNumber (child raw ''master-refresh-repeat'')) (Num 1),
       vrrpgs_masterRepeat = or_else (asNumber (child raw ''master-repeat'')) (Num 5)\<rparr>"

definition parseHAConfig :: "collation \<Rightarrow> unknown \<Rightarrow> HAConfig" where
  "parseHAConfig lc highAvailability =
     (let vrrp = child highAvailability ''vrrp'';
          globalParams = child vrrp ''global-parameters'';
          groupRoot = child vrrp ''group'';
          groups = parse_entries parseVRRPGroup (\<lambda>a b. lc (vrrpg_name a) (vrrpg_name b))
              groupRoot;
          syncGroupRoot = child vrrp ''sync-group'';
          syncGroups = parse_entries parseVRRPSyncGroup
              (\<lambda>a b. lc (vrrpsg_name a) (vrrpsg_name b)) syncGroupRoot
      in \<lparr>hac_disabled = isFlagPresent highAvailability ''disable'',
           hac_global = \<lparr>havrrpgs_snmpTrap = isFlagPresent (child vrrp ''snmp'') ''trap'',
               havrrpgs_startupDelay = asNumber (child globalParams ''startup-delay''),
               havrrpgs_version = asString (child globalParams ''version''),
               havrrpgs_garp = parseGarp (child globalParams ''garp'')\<rparr>,
           hac_groups = groups,
           hac_syncGroups = syncGroups\<rparr>)"

definition parseConntrackSyncInterfaces :: "unknown \<Rightarrow> ConntrackSyncInterface list" where
  "parseConntrackSyncInterfaces raw =
     map
       (\<lambda>(k, r). (\<lambda>name v. \<lparr>csi_name = name, csi_peer = asString (child v ''peer''), csi_port = asNumber (child v ''port'')\<rparr>)
              k (Some r)) (entries raw)"

definition parseConntrackSyncConfig :: "unknown \<Rightarrow> ConntrackSyncConfig" where
  "parseConntrackSyncConfig conntrackSync =
     (let failoverVrrp = child (child conntrackSync ''failover-mechanism'') ''vrrp''
      in \<lparr>csc_acceptProtocols = asArray (child conntrackSync ''accept-protocol''),
           csc_disableExternalCache = isFlagPresent conntrackSync ''disable-external-cache'',
           csc_disableSyslog = isFlagPresent conntrackSync ''disable-syslog'',
           csc_eventListenQueueSize = or_else
               (asNumber (child conntrackSync ''event-listen-queue-size'')) (Num 8),
           csc_expectSync = asArray (child conntrackSync ''expect-sync''),
           csc_startupResync = isFlagPresent conntrackSync ''startup-resync'',
           csc_vrrpSyncGroup = asString (child failoverVrrp ''sync-group''),
           csc_ignoreAddresses = asArray (child conntrackSync ''ignore-address''),
           csc_interfaces = parseConntrackSyncInterfaces (child conntrackSync ''interface''),
           csc_listenAddresses = asArray (child conntrackSync ''listen-address''),
           csc_mcastGroup = or_else (asString (child conntrackSync ''mcast-group'')) ''225.0.0.50'',
           csc_syncQueueSize = or_else (asNumber (child conntrackSync ''sync-queue-size'')) (Num 1),
           csc_purgeTimeout = or_else (asNumber (child conntrackSync ''purge-timeout'')) (Num 60)\<rparr>)"

subsection \<open>VRRP\<close>

definition toggleHADisableOp :: "bool \<Rightarrow> ConfigOp" where
  "toggleHADisableOp disabled =
     (let p = haPath [''disable''] in if disabled then set_flag p else delete_op p)"

definition toggleVrrpSnmpTrapOp :: "bool \<Rightarrow> ConfigOp" where
  "toggleVrrpSnmpTrapOp enabled =
     (let p = vrrpPath [''snmp'', ''trap''] in if enabled then set_flag p else delete_op p)"

record VRRPGlobalFormValues =
  vrrpgfv_startupDelay :: string
  vrrpgfv_version :: string
  vrrpgfv_garpInterval :: string
  vrrpgfv_garpMasterDelay :: string
  vrrpgfv_garpMasterRefresh :: string
  vrrpgfv_garpMasterRefreshRepeat :: string
  vrrpgfv_garpMasterRepeat :: string

definition HA_VRRP_GLOBAL_SCALAR_FIELDS :: "VRRPGlobalFormValues scalar_field list" where
  "HA_VRRP_GLOBAL_SCALAR_FIELDS =
     [(vrrpgfv_startupDelay, [''global-parameters'', ''startup-delay'']),
      (vrrpgfv_version, [''global-parameters'', ''version'']),
      (vrrpgfv_garpInterval, [''global-parameters'', ''garp'', ''interval'']),
      (vrrpgfv_garpMasterDelay, [''global-parameters'', ''garp'', ''master-delay'']),
      (vrrpgfv_garpMasterRefresh, [''global-parameters'', ''garp'', ''master-refresh'']),
      (vrrpgfv_garpMasterRefreshRepeat, [''global-parameters'', ''garp'', ''master-refresh-repeat'']),
      (vrrpgfv_garpMasterRepeat, [''global-parameters'', ''garp'', ''master-repeat''])]"

definition vrrpGlobalFormToOps ::
    "VRRPGlobalFormValues \<Rightarrow> VRRPGlobalFormValues \<Rightarrow> ConfigOp list" where
  "vrrpGlobalFormToOps before values =
     diffToOps (vrrpPath []) HA_VRRP_GLOBAL_SCALAR_FIELDS [] before values"

record VRRPGroupFormValues =
  havrrpgfv_interface :: string
  havrrpgfv_vrid :: string
  havrrpgfv_priority :: string
  havrrpgfv_advertiseInterval :: string
  havrrpgfv_description :: string
  havrrpgfv_disabled :: bool
  havrrpgfv_noPreempt :: bool
  havrrpgfv_preemptDelay :: string
  havrrpgfv_rfc3768Compatibility :: bool
  havrrpgfv_helloSourceAddress :: string
  havrrpgfv_authenticationPassword :: string
  havrrpgfv_authenticationType :: string
  havrrpgfv_excludeVrrpInterface :: bool
  havrrpgfv_healthCheckPing :: string
  havrrpgfv_healthCheckScript :: string
  havrrpgfv_healthCheckFailureCount :: string
  havrrpgfv_healthCheckInterval :: string
  havrrpgfv_healthCheckTimeout :: string
  havrrpgfv_transitionMaster :: string
  havrrpgfv_transitionBackup :: string
  havrrpgfv_transitionFault :: string
  havrrpgfv_transitionStop :: string

definition blankVRRPGroupFormValues :: VRRPGroupFormValues where
  "blankVRRPGroupFormValues =
     \<lparr>havrrpgfv_interface = '''',
       havrrpgfv_vrid = '''',
       havrrpgfv_priority = '''',
       havrrpgfv_advertiseInterval = '''',
       havrrpgfv_description = '''',
       havrrpgfv_disabled = False,
       havrrpgfv_noPreempt = False,
       havrrpgfv_preemptDelay = '''',
       havrrpgfv_rfc3768Compatibility = False,
       havrrpgfv_helloSourceAddress = '''',
       havrrpgfv_authenticationPassword = '''',
       havrrpgfv_authenticationType = '''',
       havrrpgfv_excludeVrrpInterface = False,
       havrrpgfv_healthCheckPing = '''',
       havrrpgfv_healthCheckScript = '''',
       havrrpgfv_healthCheckFailureCount = '''',
       havrrpgfv_healthCheckInterval = '''',
       havrrpgfv_healthCheckTimeout = '''',
       havrrpgfv_transitionMaster = '''',
       havrrpgfv_transitionBackup = '''',
       havrrpgfv_transitionFault = '''',
       havrrpgfv_transitionStop = ''''\<rparr>"

definition vrrpGroupToFormValues :: "VRRPGroup \<Rightarrow> VRRPGroupFormValues" where
  "vrrpGroupToFormValues grp =
     \<lparr>havrrpgfv_interface = or_else (vrrpg_interface grp) '''',
       havrrpgfv_vrid = or_else (vrrpg_vrid grp) '''',
       havrrpgfv_priority = js_num_str (vrrpg_priority grp),
       havrrpgfv_advertiseInterval = js_num_str (vrrpg_advertiseInterval grp),
       havrrpgfv_description = or_else (vrrpg_description grp) '''',
       havrrpgfv_disabled = vrrpg_disabled grp,
       havrrpgfv_noPreempt = vrrpg_noPreempt grp,
       havrrpgfv_preemptDelay = js_num_str (vrrpg_preemptDelay grp),
       havrrpgfv_rfc3768Compatibility = vrrpg_rfc3768Compatibility grp,
       havrrpgfv_helloSourceAddress = or_else (vrrpg_helloSourceAddress grp) '''',
       havrrpgfv_authenticationPassword = '''',
       havrrpgfv_authenticationType = or_else (vrrpg_authenticationType grp) '''',
       havrrpgfv_excludeVrrpInterface = vrrpg_excludeVrrpInterface grp,
       havrrpgfv_healthCheckPing = or_else (Option.bind (vrrpg_healthCheck grp) vrrphc_ping) '''',
       havrrpgfv_healthCheckScript = or_else (Option.bind (vrrpg_healthCheck grp) vrrphc_script)
           '''',
       havrrpgfv_healthCheckFailureCount = (case vrrpg_healthCheck grp of
            Some healthCheck' \<Rightarrow> js_num_str (vrrphc_failureCount healthCheck')
          | None \<Rightarrow> ''''),
       havrrpgfv_healthCheckInterval = (case vrrpg_healthCheck grp of
            Some healthCheck' \<Rightarrow> js_num_str (vrrphc_interval healthCheck')
          | None \<Rightarrow> ''''),
       havrrpgfv_healthCheckTimeout = (case Option.bind (vrrpg_healthCheck grp) vrrphc_timeout of
            Some timeout' \<Rightarrow> js_num_str timeout'
          | None \<Rightarrow> ''''),
       havrrpgfv_transitionMaster = or_else (vrrpts_master (vrrpg_transitionScripts grp)) '''',
       havrrpgfv_transitionBackup = or_else (vrrpts_backup (vrrpg_transitionScripts grp)) '''',
       havrrpgfv_transitionFault = or_else (vrrpts_fault (vrrpg_transitionScripts grp)) '''',
       havrrpgfv_transitionStop = or_else (vrrpts_stop (vrrpg_transitionScripts grp)) ''''\<rparr>"

definition HA_VRRP_GROUP_FLAG_FIELDS :: "VRRPGroupFormValues flag_field list" where
  "HA_VRRP_GROUP_FLAG_FIELDS =
     [(havrrpgfv_disabled, [''disable'']),
      (havrrpgfv_noPreempt, [''no-preempt'']),
      (havrrpgfv_rfc3768Compatibility, [''rfc3768-compatibility'']),
      (havrrpgfv_excludeVrrpInterface, [''track'', ''exclude-vrrp-interface''])]"

definition HA_VRRP_GROUP_SCALAR_FIELDS :: "VRRPGroupFormValues scalar_field list" where
  "HA_VRRP_GROUP_SCALAR_FIELDS =
     [(havrrpgfv_interface, [''interface'']),
      (havrrpgfv_vrid, [''vrid'']),
      (havrrpgfv_priority, [''priority'']),
      (havrrpgfv_advertiseInterval, [''advertise-interval'']),
      (havrrpgfv_description, [''description'']),
      (havrrpgfv_preemptDelay, [''preempt-delay'']),
      (havrrpgfv_helloSourceAddress, [''hello-source-address'']),
      (havrrpgfv_healthCheckPing, [''health-check'', ''ping'']),
      (havrrpgfv_healthCheckScript, [''health-check'', ''script'']),
      (havrrpgfv_healthCheckFailureCount, [''health-check'', ''failure-count'']),
      (havrrpgfv_healthCheckInterval, [''health-check'', ''interval'']),
      (havrrpgfv_healthCheckTimeout, [''health-check'', ''timeout'']),
      (havrrpgfv_transitionMaster, [''transition-script'', ''master'']),
      (havrrpgfv_transitionBackup, [''transition-script'', ''backup'']),
      (havrrpgfv_transitionFault, [''transition-script'', ''fault'']),
      (havrrpgfv_transitionStop, [''transition-script'', ''stop''])]"

definition vrrpGroupFormToOps ::
    "string \<Rightarrow> VRRPGroup option \<Rightarrow> VRRPGroupFormValues \<Rightarrow> ConfigOp list" where
  "vrrpGroupFormToOps name before values =
     (let base = vrrpGroupPath name [];
          beforeValues = (case before of
               Some before' \<Rightarrow> vrrpGroupToFormValues before'
             | None \<Rightarrow> blankVRRPGroupFormValues);
          authPath = base @ [''authentication''];
          hadPassword = or_else (map_option vrrpg_hasAuthenticationPassword before) False;
          hadAuth = hadPassword \<and> havrrpgfv_authenticationType beforeValues \<noteq> '''';
          typedPassword = js_trim (havrrpgfv_authenticationPassword values);
          newType = js_trim (havrrpgfv_authenticationType values)
      in (if before = None then [set_flag base] else [])
         @ diffToOps base [] HA_VRRP_GROUP_FLAG_FIELDS beforeValues values
         @ diffToOps base HA_VRRP_GROUP_SCALAR_FIELDS [] beforeValues values
         @ (if newType = '''' then (if hadAuth then [delete_op authPath] else [])
            else (if typedPassword \<noteq> ''''
                  then [set_op (authPath @ [''password'']) typedPassword]
                       @ [set_op (authPath @ [''type'']) newType]
                  else (if hadPassword
                           \<and> newType \<noteq> havrrpgfv_authenticationType beforeValues
                        then [set_op (authPath @ [''type'']) newType]
                        else []))))"

definition deleteVRRPGroupOp :: "string \<Rightarrow> ConfigOp" where
  "deleteVRRPGroupOp name = delete_op (vrrpGroupPath name [])"

definition addVRRPGroupAddressOps ::
    "string \<Rightarrow> string \<Rightarrow> string \<Rightarrow> string \<Rightarrow> ConfigOp list" where
  "addVRRPGroupAddressOps groupName leaf address iface =
     (let base = vrrpGroupPath groupName [] @ [leaf, address]
      in [set_flag base]
         @ (if js_trim iface \<noteq> '''' then [set_op (base @ [''interface'']) (js_trim iface)]
            else []))"

definition removeVRRPGroupAddressOp :: "string \<Rightarrow> string \<Rightarrow> string \<Rightarrow> ConfigOp" where
  "removeVRRPGroupAddressOp groupName leaf address =
     delete_op (vrrpGroupPath groupName [] @ [leaf, address])"

record VRRPSyncGroupFormValues =
  vrrpsgfv_healthCheckPing :: string
  vrrpsgfv_healthCheckScript :: string
  vrrpsgfv_healthCheckFailureCount :: string
  vrrpsgfv_healthCheckInterval :: string
  vrrpsgfv_healthCheckTimeout :: string
  vrrpsgfv_transitionMaster :: string
  vrrpsgfv_transitionBackup :: string
  vrrpsgfv_transitionFault :: string
  vrrpsgfv_transitionStop :: string

definition blankVRRPSyncGroupFormValues :: VRRPSyncGroupFormValues where
  "blankVRRPSyncGroupFormValues =
     \<lparr>vrrpsgfv_healthCheckPing = '''',
       vrrpsgfv_healthCheckScript = '''',
       vrrpsgfv_healthCheckFailureCount = '''',
       vrrpsgfv_healthCheckInterval = '''',
       vrrpsgfv_healthCheckTimeout = '''',
       vrrpsgfv_transitionMaster = '''',
       vrrpsgfv_transitionBackup = '''',
       vrrpsgfv_transitionFault = '''',
       vrrpsgfv_transitionStop = ''''\<rparr>"

definition vrrpSyncGroupToFormValues :: "VRRPSyncGroup \<Rightarrow> VRRPSyncGroupFormValues" where
  "vrrpSyncGroupToFormValues grp =
     \<lparr>vrrpsgfv_healthCheckPing = or_else (Option.bind (vrrpsg_healthCheck grp) vrrphc_ping) '''',
       vrrpsgfv_healthCheckScript = or_else (Option.bind (vrrpsg_healthCheck grp) vrrphc_script)
           '''',
       vrrpsgfv_healthCheckFailureCount = (case vrrpsg_healthCheck grp of
            Some healthCheck' \<Rightarrow> js_num_str (vrrphc_failureCount healthCheck')
          | None \<Rightarrow> ''''),
       vrrpsgfv_healthCheckInterval = (case vrrpsg_healthCheck grp of
            Some healthCheck' \<Rightarrow> js_num_str (vrrphc_interval healthCheck')
          | None \<Rightarrow> ''''),
       vrrpsgfv_healthCheckTimeout = (case Option.bind (vrrpsg_healthCheck grp) vrrphc_timeout of
            Some timeout' \<Rightarrow> js_num_str timeout'
          | None \<Rightarrow> ''''),
       vrrpsgfv_transitionMaster = or_else (vrrpts_master (vrrpsg_transitionScripts grp)) '''',
       vrrpsgfv_transitionBackup = or_else (vrrpts_backup (vrrpsg_transitionScripts grp)) '''',
       vrrpsgfv_transitionFault = or_else (vrrpts_fault (vrrpsg_transitionScripts grp)) '''',
       vrrpsgfv_transitionStop = or_else (vrrpts_stop (vrrpsg_transitionScripts grp)) ''''\<rparr>"

definition SYNC_GROUP_SCALAR_FIELDS :: "VRRPSyncGroupFormValues scalar_field list" where
  "SYNC_GROUP_SCALAR_FIELDS =
     [(vrrpsgfv_healthCheckPing, [''health-check'', ''ping'']),
      (vrrpsgfv_healthCheckScript, [''health-check'', ''script'']),
      (vrrpsgfv_healthCheckFailureCount, [''health-check'', ''failure-count'']),
      (vrrpsgfv_healthCheckInterval, [''health-check'', ''interval'']),
      (vrrpsgfv_healthCheckTimeout, [''health-check'', ''timeout'']),
      (vrrpsgfv_transitionMaster, [''transition-script'', ''master'']),
      (vrrpsgfv_transitionBackup, [''transition-script'', ''backup'']),
      (vrrpsgfv_transitionFault, [''transition-script'', ''fault'']),
      (vrrpsgfv_transitionStop, [''transition-script'', ''stop''])]"

definition vrrpSyncGroupFormToOps ::
    "string \<Rightarrow> VRRPSyncGroup option \<Rightarrow> VRRPSyncGroupFormValues \<Rightarrow> ConfigOp list" where
  "vrrpSyncGroupFormToOps name before values =
     (let base = vrrpSyncGroupPath name [];
          beforeValues = (case before of
               Some before' \<Rightarrow> vrrpSyncGroupToFormValues before'
             | None \<Rightarrow> blankVRRPSyncGroupFormValues)
      in (if before = None then [set_flag base] else [])
         @ diffToOps base SYNC_GROUP_SCALAR_FIELDS [] beforeValues values)"

definition deleteVRRPSyncGroupOp :: "string \<Rightarrow> ConfigOp" where
  "deleteVRRPSyncGroupOp name = delete_op (vrrpSyncGroupPath name [])"

definition addVRRPSyncGroupMemberOp :: "string \<Rightarrow> string \<Rightarrow> ConfigOp" where
  "addVRRPSyncGroupMemberOp syncGroupName memberName =
     set_op (vrrpSyncGroupPath syncGroupName [''member'']) memberName"

definition removeVRRPSyncGroupMemberOp :: "string \<Rightarrow> string \<Rightarrow> ConfigOp" where
  "removeVRRPSyncGroupMemberOp syncGroupName memberName =
     delete_value_op (vrrpSyncGroupPath syncGroupName [''member'']) memberName"

subsection \<open>Connection tracking synchronisation\<close>

record ConntrackSyncFormValues =
  csfv_disableExternalCache :: bool
  csfv_disableSyslog :: bool
  csfv_eventListenQueueSize :: string
  csfv_startupResync :: bool
  csfv_vrrpSyncGroup :: string
  csfv_mcastGroup :: string
  csfv_syncQueueSize :: string
  csfv_purgeTimeout :: string

definition conntrackSyncToFormValues :: "ConntrackSyncConfig \<Rightarrow> ConntrackSyncFormValues" where
  "conntrackSyncToFormValues config =
     \<lparr>csfv_disableExternalCache = csc_disableExternalCache config,
       csfv_disableSyslog = csc_disableSyslog config,
       csfv_eventListenQueueSize = js_num_str (csc_eventListenQueueSize config),
       csfv_startupResync = csc_startupResync config,
       csfv_vrrpSyncGroup = or_else (csc_vrrpSyncGroup config) '''',
       csfv_mcastGroup = csc_mcastGroup config,
       csfv_syncQueueSize = js_num_str (csc_syncQueueSize config),
       csfv_purgeTimeout = js_num_str (csc_purgeTimeout config)\<rparr>"

definition HA_CONNTRACK_SYNC_FLAG_FIELDS :: "ConntrackSyncFormValues flag_field list" where
  "HA_CONNTRACK_SYNC_FLAG_FIELDS =
     [(csfv_disableExternalCache, [''disable-external-cache'']),
      (csfv_disableSyslog, [''disable-syslog'']),
      (csfv_startupResync, [''startup-resync''])]"

definition HA_CONNTRACK_SYNC_SCALAR_FIELDS :: "ConntrackSyncFormValues scalar_field list" where
  "HA_CONNTRACK_SYNC_SCALAR_FIELDS =
     [(csfv_eventListenQueueSize, [''event-listen-queue-size'']),
      (csfv_vrrpSyncGroup, [''failover-mechanism'', ''vrrp'', ''sync-group'']),
      (csfv_mcastGroup, [''mcast-group'']),
      (csfv_syncQueueSize, [''sync-queue-size'']),
      (csfv_purgeTimeout, [''purge-timeout''])]"

definition conntrackSyncFormToOps ::
    "ConntrackSyncFormValues \<Rightarrow> ConntrackSyncFormValues \<Rightarrow> ConfigOp list" where
  "conntrackSyncFormToOps before values =
     (let base = conntrackSyncPath []
      in diffToOps base [] HA_CONNTRACK_SYNC_FLAG_FIELDS before values
         @ diffToOps base HA_CONNTRACK_SYNC_SCALAR_FIELDS [] before values)"

definition addConntrackSyncInterfaceOps ::
    "string \<Rightarrow> string \<Rightarrow> string \<Rightarrow> ConfigOp list" where
  "addConntrackSyncInterfaceOps name peer port =
     (let base = conntrackSyncInterfacePath name []
      in [set_flag base]
         @ (if js_trim peer \<noteq> '''' then [set_op (base @ [''peer'']) (js_trim peer)] else [])
         @ (if js_trim port \<noteq> '''' then [set_op (base @ [''port'']) (js_trim port)] else []))"

definition removeConntrackSyncInterfaceOp :: "string \<Rightarrow> ConfigOp" where
  "removeConntrackSyncInterfaceOp name = delete_op (conntrackSyncInterfacePath name [])"

subsection \<open>The authentication of a VRRP group on the device\<close>

lemma vrrpGroupPath_eq: "vrrpGroupPath n r = [''high-availability'', ''vrrp'', ''group'', n] @ r"
  by (simp add: vrrpGroupPath_def vrrpPath_def haPath_def)

definition vrrp_auth_ops :: "path \<Rightarrow> bool \<Rightarrow> string \<Rightarrow> string \<Rightarrow> string \<Rightarrow> ConfigOp list" where
  "vrrp_auth_ops authPath hadPassword oldType typed newType =
     (if newType = '''' then (if hadPassword \<and> oldType \<noteq> '''' then [delete_op authPath] else [])
      else if typed \<noteq> '''' then [set_op (authPath @ [''password'']) typed, set_op (authPath @ [''type'']) newType]
      else if hadPassword \<and> newType \<noteq> oldType then [set_op (authPath @ [''type'']) newType] else [])"

lemma vrrpGroupFormToOps_split:
  "vrrpGroupFormToOps name before v =
     (let p = vrrpGroupPath name [];
          b = (case before of Some g \<Rightarrow> vrrpGroupToFormValues g | None \<Rightarrow> blankVRRPGroupFormValues)
      in (if before = None then [set_flag p] else [])
         @ (diffToOps p [] HA_VRRP_GROUP_FLAG_FIELDS b v @ diffToOps p HA_VRRP_GROUP_SCALAR_FIELDS [] b v)
         @ vrrp_auth_ops (p @ [''authentication'']) (or_else (map_option vrrpg_hasAuthenticationPassword before) False)
             (havrrpgfv_authenticationType b) (js_trim (havrrpgfv_authenticationPassword v))
             (js_trim (havrrpgfv_authenticationType v)))"
  by (simp add: vrrpGroupFormToOps_def vrrp_auth_ops_def Let_def)

lemma vrrp_before:
  assumes "before = device_item (parseVRRPGroup name) m p"
  shows "or_else (map_option vrrpg_hasAuthenticationPassword before) False
      \<longleftrightarrow> device_get m (p @ [''authentication'', ''password'']) \<noteq> None"
    and "havrrpgfv_authenticationType (case before of Some g \<Rightarrow> vrrpGroupToFormValues g
           | None \<Rightarrow> blankVRRPGroupFormValues)
      = read_str (device_get m (p @ [''authentication'', ''type'']))"
proof -
  have t: "tree_get x [a, b] = child (child x a) b" for x :: unknown and a b by simp
  show "or_else (map_option vrrpg_hasAuthenticationPassword before) False
      \<longleftrightarrow> device_get m (p @ [''authentication'', ''password'']) \<noteq> None"
    by (cases "device_get m p") (simp_all only: assms device_item_def device_get_append t option.map
      parseVRRPGroup_def Let_def VRRPGroup.simps or_else_simps child_None simp_thms)
  show "havrrpgfv_authenticationType (case before of Some g \<Rightarrow> vrrpGroupToFormValues g
           | None \<Rightarrow> blankVRRPGroupFormValues)
      = read_str (device_get m (p @ [''authentication'', ''type'']))"
    by (cases "device_get m p") (simp_all only: assms device_item_def device_get_append t option.map option.case
      parseVRRPGroup_def Let_def VRRPGroup.simps vrrpGroupToFormValues_def VRRPGroupFormValues.simps
      blankVRRPGroupFormValues_def or_else_simps child_None read_str_def asString_None)
qed

text \<open>
  C26. VyOS refuses a VRRP group with a password and no authentication type or the other way round.
  Saving the group form never makes one: if the device has both or neither, so it does afterwards;
  the password is the trimmed input when one was typed, and otherwise stays as it is or goes with
  the type.
\<close>

theorem vrrp_auth_complete:
  assumes "p = vrrpGroupPath name []" and "before = device_item (parseVRRPGroup name) m p"
    and "pw = p @ [''authentication'', ''password'']" and "ty = p @ [''authentication'', ''type'']"
    and "device_get m pw \<noteq> None \<longleftrightarrow> read_str (device_get m ty) \<noteq> ''''"
    and "m' = device_apply (vrrpGroupFormToOps name before v) m"
  shows "(device_get m' pw \<noteq> None \<longleftrightarrow> read_str (device_get m' ty) \<noteq> '''')
    \<and> device_get m' pw =
        (if js_trim (havrrpgfv_authenticationType v) = '''' then None
         else if js_trim (havrrpgfv_authenticationPassword v) = '''' then device_get m pw
         else Some (JStr (js_trim (havrrpgfv_authenticationPassword v))))"
proof -
  let ?b = "case before of Some g \<Rightarrow> vrrpGroupToFormValues g | None \<Rightarrow> blankVRRPGroupFormValues"
  let ?D = "diffToOps p [] HA_VRRP_GROUP_FLAG_FIELDS ?b v @ diffToOps p HA_VRRP_GROUP_SCALAR_FIELDS [] ?b v"
  let ?pre = "if before = None then [set_flag p] else []"
  let ?A = "p @ [''authentication'']"
  define n where "n = device_apply (?pre @ ?D) m"
  have p: "p \<noteq> []" by (simp add: assms(1) vrrpGroupPath_eq)
  have n: "device_get n (p @ (''authentication'' # s)) = device_get m (p @ (''authentication'' # s))" for s
    unfolding n_def by (rule edit_frame [OF p, where sfs = HA_VRRP_GROUP_SCALAR_FIELDS
      and ffs = HA_VRRP_GROUP_FLAG_FIELDS and b = ?b and v = v])
      (simp_all add: HA_VRRP_GROUP_SCALAR_FIELDS_def HA_VRRP_GROUP_FLAG_FIELDS_def)
  have m': "m' = device_apply (vrrp_auth_ops ?A (device_get m pw \<noteq> None) (read_str (device_get m ty))
      (js_trim (havrrpgfv_authenticationPassword v)) (js_trim (havrrpgfv_authenticationType v))) n"
    by (simp add: assms(6) vrrpGroupFormToOps_split Let_def n_def assms(1) [symmetric]
        vrrp_before [OF assms(2)] assms(3,4) del: append_assoc)
  have gone: "device_get (deleteNested ?A n) (p @ [''authentication'', x]) = None" for x
    using deleteNested_below [of ?A n "[x]"] by simp
  show ?thesis
    using assms(5) unfolding m' vrrp_auth_ops_def assms(3,4)
    by (auto simp add: setNested_value setNested_other n gone)
qed

definition sample_vrrp_values :: VRRPGroupFormValues where
  "sample_vrrp_values = blankVRRPGroupFormValues
     \<lparr>havrrpgfv_vrid := ''10'', havrrpgfv_authenticationPassword := '' pw '', havrrpgfv_authenticationType := ''ah''\<rparr>"

theorem vrrp_auth_complete_witness:
  "device_get (device_apply (vrrpGroupFormToOps ''LAN'' None sample_vrrp_values) [])
     (vrrpGroupPath ''LAN'' [] @ [''authentication'', ''password'']) = Some (JStr ''pw'')"
proof -
  let ?p = "vrrpGroupPath ''LAN'' []"
  have 1: "None = device_item (parseVRRPGroup ''LAN'') [] ?p"
    "(device_get [] (?p @ [''authentication'', ''password'']) \<noteq> None)
      = (read_str (device_get [] (?p @ [''authentication'', ''type''])) \<noteq> '''')"
    "js_trim (havrrpgfv_authenticationType sample_vrrp_values) = ''ah''"
    "js_trim (havrrpgfv_authenticationPassword sample_vrrp_values) = ''pw''" by code_simp+
  from vrrp_auth_complete [OF refl 1(1) refl refl 1(2) refl, of sample_vrrp_values] 1(3,4) show ?thesis by simp
qed

end
