(* ===== verification/ServiceDns.thy ===== *)
theory ServiceDns
  imports SavedForms
begin

text \<open>
  The DNS services: dynamic DNS and DNS forwarding, each with the interfaces of its
  \<open>lib/service*Types.ts\<close>, the parser of \<open>lib/service*Parse.ts\<close> and the forms of
  \<open>lib/service*Form.ts\<close>.
\<close>

subsection \<open>Dynamic DNS types\<close>

definition DYNAMIC_DNS_IP_VERSIONS :: "string list" where
  "DYNAMIC_DNS_IP_VERSIONS = [''ipv4'', ''ipv6'', ''both'']"

record DynamicDNSEntry =
  ddnse_name :: string
  ddnse_description :: "string option"
  ddnse_protocol :: "string option"
  ddnse_addressMode :: "string option"
  ddnse_addressInterface :: "string option"
  ddnse_addressWebUrl :: "string option"
  ddnse_addressWebSkip :: "string option"
  ddnse_ipVersion :: "string option"
  ddnse_hostNames :: "string list"
  ddnse_server :: "string option"
  ddnse_zone :: "string option"
  ddnse_username :: "string option"
  ddnse_hasPassword :: bool
  ddnse_hasKey :: bool
  ddnse_ttl :: "string option"
  ddnse_waitTime :: "string option"
  ddnse_expiryTime :: "string option"

definition blankDynamicDNSEntry :: DynamicDNSEntry where
  "blankDynamicDNSEntry =
     \<lparr>ddnse_name = '''',
       ddnse_description = None,
       ddnse_protocol = None,
       ddnse_addressMode = None,
       ddnse_addressInterface = None,
       ddnse_addressWebUrl = None,
       ddnse_addressWebSkip = None,
       ddnse_ipVersion = None,
       ddnse_hostNames = [],
       ddnse_server = None,
       ddnse_zone = None,
       ddnse_username = None,
       ddnse_hasPassword = False,
       ddnse_hasKey = False,
       ddnse_ttl = None,
       ddnse_waitTime = None,
       ddnse_expiryTime = None\<rparr>"

record DynamicDNSConfig =
  ddnsc_entries :: "DynamicDNSEntry list"
  ddnsc_interval :: "string option"
  ddnsc_vrf :: "string option"

definition blankDynamicDNSConfig :: DynamicDNSConfig where
  "blankDynamicDNSConfig =
     \<lparr>ddnsc_entries = [], ddnsc_interval = None, ddnsc_vrf = None\<rparr>"

subsection \<open>Dynamic DNS parser\<close>

text \<open>\<open>undefined\<close> modes are \<open>None\<close>; an interface takes precedence over a web check.\<close>

definition parseEntry :: "string \<Rightarrow> unknown \<Rightarrow> DynamicDNSEntry" where
  "parseEntry name raw =
     (let addressRoot = child raw ''address''; webRoot = child addressRoot ''web'';
          interfaceValue = asString (child addressRoot ''interface'')
      in blankDynamicDNSEntry
           \<lparr>ddnse_name := name,
            ddnse_description := asString (child raw ''description''),
            ddnse_protocol := asString (child raw ''protocol''),
            ddnse_addressMode :=
              (if interfaceValue \<noteq> None then Some ''interface''
               else if webRoot \<noteq> None then Some ''web'' else None),
            ddnse_addressInterface := interfaceValue,
            ddnse_addressWebUrl := asString (child webRoot ''url''),
            ddnse_addressWebSkip := asString (child webRoot ''skip''),
            ddnse_ipVersion := asString (child raw ''ip-version''),
            ddnse_hostNames := asStringArray (child raw ''host-name''),
            ddnse_server := asString (child raw ''server''),
            ddnse_zone := asString (child raw ''zone''),
            ddnse_username := asString (child raw ''username''),
            ddnse_hasPassword := child raw ''password'' \<noteq> None,
            ddnse_hasKey := child raw ''key'' \<noteq> None,
            ddnse_ttl := asString (child raw ''ttl''),
            ddnse_waitTime := asString (child raw ''wait-time''),
            ddnse_expiryTime := asString (child raw ''expiry-time'')\<rparr>)"

definition parseDynamicDNSConfig :: "collation \<Rightarrow> unknown \<Rightarrow> DynamicDNSConfig" where
  "parseDynamicDNSConfig lc dynamic =
     (if dynamic = None then blankDynamicDNSConfig
      else let nameRoot = child dynamic ''name'';
               ents = parse_entries parseEntry (\<lambda>a b. lc (ddnse_name a) (ddnse_name b))
                   nameRoot
           in \<lparr>ddnsc_entries = ents,
                ddnsc_interval = asString (child dynamic ''interval''),
                ddnsc_vrf = asString (child dynamic ''vrf'')\<rparr>)"

definition dynamicDnsPath :: "path \<Rightarrow> path" where
  "dynamicDnsPath rest = [''service'', ''dns'', ''dynamic''] @ rest"

definition dynamicDnsEntryPath :: "string \<Rightarrow> path \<Rightarrow> path" where
  "dynamicDnsEntryPath name rest = dynamicDnsPath ([''name'', name] @ rest)"

subsection \<open>Dynamic DNS forms\<close>

record DynamicDNSEntryFormValues =
  ddnsefv_description :: string
  ddnsefv_protocol :: string
  ddnsefv_addressMode :: string
  ddnsefv_addressInterface :: string
  ddnsefv_addressWebUrl :: string
  ddnsefv_addressWebSkip :: string
  ddnsefv_ipVersion :: string
  ddnsefv_server :: string
  ddnsefv_zone :: string
  ddnsefv_username :: string
  ddnsefv_password :: string
  ddnsefv_key :: string
  ddnsefv_ttl :: string
  ddnsefv_waitTime :: string
  ddnsefv_expiryTime :: string

definition blankDynamicDNSEntryFormValues :: DynamicDNSEntryFormValues where
  "blankDynamicDNSEntryFormValues =
     \<lparr>ddnsefv_description = '''',
       ddnsefv_protocol = '''',
       ddnsefv_addressMode = '''',
       ddnsefv_addressInterface = '''',
       ddnsefv_addressWebUrl = '''',
       ddnsefv_addressWebSkip = '''',
       ddnsefv_ipVersion = '''',
       ddnsefv_server = '''',
       ddnsefv_zone = '''',
       ddnsefv_username = '''',
       ddnsefv_password = '''',
       ddnsefv_key = '''',
       ddnsefv_ttl = '''',
       ddnsefv_waitTime = '''',
       ddnsefv_expiryTime = ''''\<rparr>"

definition dynamicDNSEntryToFormValues :: "DynamicDNSEntry \<Rightarrow> DynamicDNSEntryFormValues" where
  "dynamicDNSEntryToFormValues entry =
     \<lparr>ddnsefv_description = or_else (ddnse_description entry) '''',
       ddnsefv_protocol = or_else (ddnse_protocol entry) '''',
       ddnsefv_addressMode = or_else (ddnse_addressMode entry) '''',
       ddnsefv_addressInterface = or_else (ddnse_addressInterface entry) '''',
       ddnsefv_addressWebUrl = or_else (ddnse_addressWebUrl entry) '''',
       ddnsefv_addressWebSkip = or_else (ddnse_addressWebSkip entry) '''',
       ddnsefv_ipVersion = or_else (ddnse_ipVersion entry) '''',
       ddnsefv_server = or_else (ddnse_server entry) '''',
       ddnsefv_zone = or_else (ddnse_zone entry) '''',
       ddnsefv_username = or_else (ddnse_username entry) '''',
       ddnsefv_password = '''',
       ddnsefv_key = '''',
       ddnsefv_ttl = or_else (ddnse_ttl entry) '''',
       ddnsefv_waitTime = or_else (ddnse_waitTime entry) '''',
       ddnsefv_expiryTime = or_else (ddnse_expiryTime entry) ''''\<rparr>"

definition SERVICE_DNS_DYNAMIC_SCALAR_FIELDS :: "DynamicDNSEntryFormValues scalar_field list" where
  "SERVICE_DNS_DYNAMIC_SCALAR_FIELDS =
     [(ddnsefv_description, [''description'']),
      (ddnsefv_protocol, [''protocol'']),
      (ddnsefv_ipVersion, [''ip-version'']),
      (ddnsefv_server, [''server'']),
      (ddnsefv_zone, [''zone'']),
      (ddnsefv_username, [''username'']),
      (ddnsefv_ttl, [''ttl'']),
      (ddnsefv_waitTime, [''wait-time'']),
      (ddnsefv_expiryTime, [''expiry-time''])]"

definition dynamicDNSEntryFormToOps ::
    "string \<Rightarrow> DynamicDNSEntry option \<Rightarrow> DynamicDNSEntryFormValues \<Rightarrow> ConfigOp list" where
  "dynamicDNSEntryFormToOps name before values =
     (let beforeValues = (case before of
               Some before' \<Rightarrow> dynamicDNSEntryToFormValues before'
             | None \<Rightarrow> blankDynamicDNSEntryFormValues);
          base = dynamicDnsEntryPath name [];
          addressPath = base @ [''address''];
          addressChanged = (ddnsefv_addressMode beforeValues \<noteq> ddnsefv_addressMode values
             \<or> ddnsefv_addressMode values = ''interface''
               \<and> ddnsefv_addressInterface beforeValues \<noteq> ddnsefv_addressInterface values)
            \<or> ddnsefv_addressMode values = ''web''
              \<and> (ddnsefv_addressWebUrl beforeValues \<noteq> ddnsefv_addressWebUrl values
                 \<or> ddnsefv_addressWebSkip beforeValues \<noteq> ddnsefv_addressWebSkip values);
          trimmedPassword = js_trim (ddnsefv_password values);
          trimmedKey = js_trim (ddnsefv_key values)
      in diffToOps base SERVICE_DNS_DYNAMIC_SCALAR_FIELDS [] beforeValues values
         @ (if addressChanged
            then (if ddnsefv_addressMode beforeValues \<noteq> '''' then [delete_op addressPath]
                  else [])
                 @ (if ddnsefv_addressMode values = ''interface''
                       \<and> ddnsefv_addressInterface values \<noteq> ''''
                    then [set_op (addressPath @ [''interface'']) (ddnsefv_addressInterface values)]
                    else (if ddnsefv_addressMode values = ''web''
                          then (if ddnsefv_addressWebUrl values \<noteq> ''''
                                then [set_op (addressPath @ [''web'', ''url''])
                                        (ddnsefv_addressWebUrl values)]
                                else [])
                               @ (if ddnsefv_addressWebSkip values \<noteq> ''''
                                  then [set_op (addressPath @ [''web'', ''skip''])
                                          (ddnsefv_addressWebSkip values)]
                                  else [])
                          else []))
            else [])
         @ (if trimmedPassword \<noteq> '''' then [set_op (base @ [''password'']) trimmedPassword]
            else [])
         @ (if trimmedKey \<noteq> '''' then [set_op (base @ [''key'']) trimmedKey] else []))"

definition deleteDynamicDNSEntryOp :: "string \<Rightarrow> ConfigOp" where
  "deleteDynamicDNSEntryOp name = delete_op (dynamicDnsEntryPath name [])"

record DynamicDNSGlobalFormValues =
  ddnsgfv_interval :: string
  ddnsgfv_vrf :: string

definition blankDynamicDNSGlobalFormValues :: DynamicDNSGlobalFormValues where
  "blankDynamicDNSGlobalFormValues = \<lparr>ddnsgfv_interval = '''', ddnsgfv_vrf = ''''\<rparr>"

record DynamicDNSGlobalToFormValues_config =
  ddnsgtfv_interval :: "string option"
  ddnsgtfv_vrf :: "string option"

definition dynamicDNSGlobalToFormValues ::
    "DynamicDNSGlobalToFormValues_config \<Rightarrow> DynamicDNSGlobalFormValues" where
  "dynamicDNSGlobalToFormValues config =
     \<lparr>ddnsgfv_interval = or_else (ddnsgtfv_interval config) '''',
       ddnsgfv_vrf = or_else (ddnsgtfv_vrf config) ''''\<rparr>"

definition dynamicDNSGlobalForm_fields :: "DynamicDNSGlobalFormValues scalar_field list" where
  "dynamicDNSGlobalForm_fields =
     [(ddnsgfv_interval, [''interval'']),
      (ddnsgfv_vrf, [''vrf''])]"

definition dynamicDNSGlobalFormToOps ::
    "DynamicDNSGlobalToFormValues_config \<Rightarrow> DynamicDNSGlobalFormValues \<Rightarrow> ConfigOp list" where
  "dynamicDNSGlobalFormToOps before values =
     (let beforeValues = dynamicDNSGlobalToFormValues before
      in diffToOps (dynamicDnsPath []) dynamicDNSGlobalForm_fields [] beforeValues values)"

subsection \<open>DNS forwarding types\<close>

definition DNS_FORWARDING_DNSSEC_MODES :: "string list" where
  "DNS_FORWARDING_DNSSEC_MODES =
     [''off'', ''process-no-validate'', ''process'', ''log-fail'', ''validate'']"

record DNSForwardingNameServer =
  dnsfns_address :: string
  dnsfns_port :: "string option"

record DNSForwardingDomain =
  dnsfd_fqdn :: string
  dnsfd_nameServers :: "DNSForwardingNameServer list"
  dnsfd_addnta :: bool
  dnsfd_recursionDesired :: bool

definition blankDNSForwardingDomain :: DNSForwardingDomain where
  "blankDNSForwardingDomain =
     \<lparr>dnsfd_fqdn = '''',
       dnsfd_nameServers = [],
       dnsfd_addnta = False,
       dnsfd_recursionDesired = False\<rparr>"

record DNSForwardingConfig =
  dnsfc_enabled :: bool
  dnsfc_cacheSize :: "string option"
  dnsfc_dhcpInterfaces :: "string list"
  dnsfc_dnssec :: "string option"
  dnsfc_domains :: "DNSForwardingDomain list"
  dnsfc_allowFrom :: "string list"
  dnsfc_listenAddresses :: "string list"
  dnsfc_ignoreHostsFile :: bool
  dnsfc_noServeRfc1918 :: bool
  dnsfc_negativeTtl :: "string option"
  dnsfc_forwarders :: "DNSForwardingNameServer list"
  dnsfc_useSystemNameServers :: bool
  dnsfc_sourceAddresses :: "string list"
  dnsfc_port :: "string option"

definition blankDNSForwardingConfig :: DNSForwardingConfig where
  "blankDNSForwardingConfig =
     \<lparr>dnsfc_enabled = False,
       dnsfc_cacheSize = None,
       dnsfc_dhcpInterfaces = [],
       dnsfc_dnssec = None,
       dnsfc_domains = [],
       dnsfc_allowFrom = [],
       dnsfc_listenAddresses = [],
       dnsfc_ignoreHostsFile = False,
       dnsfc_noServeRfc1918 = False,
       dnsfc_negativeTtl = None,
       dnsfc_forwarders = [],
       dnsfc_useSystemNameServers = False,
       dnsfc_sourceAddresses = [],
       dnsfc_port = None\<rparr>"

subsection \<open>DNS forwarding parser\<close>

definition parseNameServers :: "collation \<Rightarrow> unknown \<Rightarrow> DNSForwardingNameServer list" where
  "parseNameServers lc rootNode =
     parse_entries
       (\<lambda>address raw. \<lparr>dnsfns_address = address,
              dnsfns_port = asString (child raw ''port'')\<rparr>)
       (\<lambda>a b. lc (dnsfns_address a) (dnsfns_address b)) rootNode"

definition parseDomain ::
    "collation \<Rightarrow> string \<Rightarrow> unknown \<Rightarrow> DNSForwardingDomain" where
  "parseDomain lc fqdn raw =
     \<lparr>dnsfd_fqdn = fqdn,
       dnsfd_nameServers = parseNameServers lc (child raw ''name-server''),
       dnsfd_addnta = isFlagPresent raw ''addnta'',
       dnsfd_recursionDesired = isFlagPresent raw ''recursion-desired''\<rparr>"

definition parseDNSForwardingConfig :: "collation \<Rightarrow> unknown \<Rightarrow> DNSForwardingConfig" where
  "parseDNSForwardingConfig lc forwarding =
     (if forwarding = None then blankDNSForwardingConfig
      else \<lparr>dnsfc_enabled = True,
             dnsfc_cacheSize = asString (child forwarding ''cache-size''),
             dnsfc_dhcpInterfaces = asStringArray (child forwarding ''dhcp''),
             dnsfc_dnssec = asString (child forwarding ''dnssec''),
             dnsfc_domains = parse_entries (parseDomain lc)
                 (\<lambda>a b. lc (dnsfd_fqdn a) (dnsfd_fqdn b)) (child forwarding ''domain''),
             dnsfc_allowFrom = asStringArray (child forwarding ''allow-from''),
             dnsfc_listenAddresses = asStringArray (child forwarding ''listen-address''),
             dnsfc_ignoreHostsFile = isFlagPresent forwarding ''ignore-hosts-file'',
             dnsfc_noServeRfc1918 = isFlagPresent forwarding ''no-serve-rfc1918'',
             dnsfc_negativeTtl = asString (child forwarding ''negative-ttl''),
             dnsfc_forwarders = parseNameServers lc (child forwarding ''name-server''),
             dnsfc_useSystemNameServers = isFlagPresent forwarding ''system'',
             dnsfc_sourceAddresses = asStringArray (child forwarding ''source-address''),
             dnsfc_port = asString (child forwarding ''port'')\<rparr>)"

definition dnsForwardingPath :: "path \<Rightarrow> path" where
  "dnsForwardingPath rest = [''service'', ''dns'', ''forwarding''] @ rest"

definition dnsForwardingDomainPath :: "string \<Rightarrow> path \<Rightarrow> path" where
  "dnsForwardingDomainPath fqdn rest = dnsForwardingPath ([''domain'', fqdn] @ rest)"

definition dnsForwardingForwarderPath :: "string \<Rightarrow> path \<Rightarrow> path" where
  "dnsForwardingForwarderPath address rest = dnsForwardingPath ([''name-server'', address] @ rest)"

definition dnsForwardingDomainNameServerPath :: "string \<Rightarrow> string \<Rightarrow> path \<Rightarrow> path" where
  "dnsForwardingDomainNameServerPath fqdn address rest =
     dnsForwardingDomainPath fqdn ([''name-server'', address] @ rest)"

subsection \<open>DNS forwarding forms\<close>

record DNSForwardingSettingsFormValues =
  dnsfsfv_cacheSize :: string
  dnsfsfv_dnssec :: string
  dnsfsfv_ignoreHostsFile :: bool
  dnsfsfv_noServeRfc1918 :: bool
  dnsfsfv_negativeTtl :: string
  dnsfsfv_useSystemNameServers :: bool
  dnsfsfv_port :: string

definition blankDNSForwardingSettingsFormValues :: DNSForwardingSettingsFormValues where
  "blankDNSForwardingSettingsFormValues =
     \<lparr>dnsfsfv_cacheSize = '''',
       dnsfsfv_dnssec = '''',
       dnsfsfv_ignoreHostsFile = False,
       dnsfsfv_noServeRfc1918 = False,
       dnsfsfv_negativeTtl = '''',
       dnsfsfv_useSystemNameServers = False,
       dnsfsfv_port = ''''\<rparr>"

definition dnsForwardingConfigToFormValues :: "DNSForwardingConfig \<Rightarrow> DNSForwardingSettingsFormValues" where
  "dnsForwardingConfigToFormValues config =
     \<lparr>dnsfsfv_cacheSize = or_else (dnsfc_cacheSize config) '''',
       dnsfsfv_dnssec = or_else (dnsfc_dnssec config) '''',
       dnsfsfv_ignoreHostsFile = dnsfc_ignoreHostsFile config,
       dnsfsfv_noServeRfc1918 = dnsfc_noServeRfc1918 config,
       dnsfsfv_negativeTtl = or_else (dnsfc_negativeTtl config) '''',
       dnsfsfv_useSystemNameServers = dnsfc_useSystemNameServers config,
       dnsfsfv_port = or_else (dnsfc_port config) ''''\<rparr>"

definition SERVICE_DNS_FORWARDING_FLAG_FIELDS :: "DNSForwardingSettingsFormValues flag_field list" where
  "SERVICE_DNS_FORWARDING_FLAG_FIELDS =
     [(dnsfsfv_ignoreHostsFile, [''ignore-hosts-file'']),
      (dnsfsfv_noServeRfc1918, [''no-serve-rfc1918'']),
      (dnsfsfv_useSystemNameServers, [''system''])]"

definition SERVICE_DNS_FORWARDING_SCALAR_FIELDS :: "DNSForwardingSettingsFormValues scalar_field list" where
  "SERVICE_DNS_FORWARDING_SCALAR_FIELDS =
     [(dnsfsfv_cacheSize, [''cache-size'']),
      (dnsfsfv_dnssec, [''dnssec'']),
      (dnsfsfv_negativeTtl, [''negative-ttl'']),
      (dnsfsfv_port, [''port''])]"

definition dnsForwardingSettingsFormToOps ::
    "DNSForwardingConfig \<Rightarrow> DNSForwardingSettingsFormValues \<Rightarrow> ConfigOp list" where
  "dnsForwardingSettingsFormToOps before values =
     (let beforeValues = dnsForwardingConfigToFormValues before
      in diffToOps (dnsForwardingPath []) [] SERVICE_DNS_FORWARDING_FLAG_FIELDS beforeValues values
         @ diffToOps (dnsForwardingPath []) SERVICE_DNS_FORWARDING_SCALAR_FIELDS [] beforeValues
             values)"

definition enableDNSForwardingOp :: ConfigOp where
  "enableDNSForwardingOp = set_flag (dnsForwardingPath [])"

definition disableDNSForwardingOp :: ConfigOp where
  "disableDNSForwardingOp = delete_op (dnsForwardingPath [])"

record DNSForwardingDomainFormValues =
  dnsfdfv_addnta :: bool
  dnsfdfv_recursionDesired :: bool

definition blankDNSForwardingDomainFormValues :: DNSForwardingDomainFormValues where
  "blankDNSForwardingDomainFormValues =
     \<lparr>dnsfdfv_addnta = False, dnsfdfv_recursionDesired = False\<rparr>"

definition dnsForwardingDomainToFormValues :: "DNSForwardingDomain \<Rightarrow> DNSForwardingDomainFormValues" where
  "dnsForwardingDomainToFormValues dom1 =
     \<lparr>dnsfdfv_addnta = dnsfd_addnta dom1,
       dnsfdfv_recursionDesired = dnsfd_recursionDesired dom1\<rparr>"

definition dnsForwardingDomainFormToOps ::
    "string \<Rightarrow> DNSForwardingDomain option \<Rightarrow> DNSForwardingDomainFormValues \<Rightarrow> ConfigOp list" where
  "dnsForwardingDomainFormToOps fqdn before values =
     (let beforeValues = (case before of
               Some before' \<Rightarrow> dnsForwardingDomainToFormValues before'
             | None \<Rightarrow> blankDNSForwardingDomainFormValues);
          base = dnsForwardingDomainPath fqdn []
      in (if before = None then [set_flag base] else [])
         @ flag_diff (base @ [''addnta'']) (dnsfdfv_addnta beforeValues) (dnsfdfv_addnta values)
         @ flag_diff (base @ [''recursion-desired'']) (dnsfdfv_recursionDesired beforeValues)
             (dnsfdfv_recursionDesired values))"

definition deleteDNSForwardingDomainOp :: "string \<Rightarrow> ConfigOp" where
  "deleteDNSForwardingDomainOp fqdn = delete_op (dnsForwardingDomainPath fqdn [])"

definition addNameServerOps ::
    "string list \<Rightarrow> string \<Rightarrow> string \<Rightarrow> ConfigOp list" where
  "addNameServerOps base address port =
     (let entryBase = base @ [address]
      in [set_flag entryBase]
         @ (if js_trim port \<noteq> '''' then [set_op (entryBase @ [''port'']) (js_trim port)]
            else []))"

definition removeNameServerOp :: "string list \<Rightarrow> string \<Rightarrow> ConfigOp" where
  "removeNameServerOp base address = delete_op (base @ [address])"



end
