(* ===== verification/ServiceNetwork.thy ===== *)
theory ServiceNetwork
  imports SavedForms
begin

text \<open>
  The network services (broadcast relay, DHCP relay, DHCPv6 server, router advertisements, NDP proxy,
  mDNS repeater, LLDP): types, parsers and forms of \<open>lib/service*Types.ts\<close>, \<open>lib/service*Parse.ts\<close>
  and \<open>lib/service*Form.ts\<close>.
\<close>

subsection \<open>Broadcast relay types\<close>

record BroadcastRelayInstance =
  bri_id :: string
  bri_disabled :: bool
  bri_address :: "string option"
  bri_description :: "string option"
  bri_interfaces :: "string list"
  bri_port :: "string option"

definition blankBroadcastRelayInstance :: BroadcastRelayInstance where
  "blankBroadcastRelayInstance =
     \<lparr>bri_id = '''',
       bri_disabled = False,
       bri_address = None,
       bri_description = None,
       bri_interfaces = [],
       bri_port = None\<rparr>"

record BroadcastRelayConfig =
  brc_enabled :: bool
  brc_disabled :: bool
  brc_instances :: "BroadcastRelayInstance list"

definition blankBroadcastRelayConfig :: BroadcastRelayConfig where
  "blankBroadcastRelayConfig =
     \<lparr>brc_enabled = False, brc_disabled = False, brc_instances = []\<rparr>"

subsection \<open>Broadcast relay parser\<close>

definition parseInstance :: "string \<Rightarrow> unknown \<Rightarrow> BroadcastRelayInstance" where
  "parseInstance i raw =
     \<lparr>bri_id = i,
       bri_disabled = isFlagPresent raw ''disable'',
       bri_address = asString (child raw ''address''),
       bri_description = asString (child raw ''description''),
       bri_interfaces = asStringArray (child raw ''interface''),
       bri_port = asString (child raw ''port'')\<rparr>"

definition parseBroadcastRelayConfig :: "unknown \<Rightarrow> BroadcastRelayConfig" where
  "parseBroadcastRelayConfig relay =
     (if relay = None then blankBroadcastRelayConfig
      else \<lparr>brc_enabled = True,
             brc_disabled = isFlagPresent relay ''disable'',
             brc_instances = parse_entries parseInstance (by_number bri_id) (child relay ''id'')\<rparr>)"

definition broadcastRelayPath :: "path \<Rightarrow> path" where
  "broadcastRelayPath rest = [''service'', ''broadcast-relay''] @ rest"

definition broadcastRelayInstancePath :: "string \<Rightarrow> path \<Rightarrow> path" where
  "broadcastRelayInstancePath i rest = broadcastRelayPath ([''id'', i] @ rest)"

subsection \<open>Broadcast relay forms\<close>

record BroadcastRelayInstanceFormValues =
  brifv_disabled :: bool
  brifv_address :: string
  brifv_description :: string
  brifv_port :: string

definition blankBroadcastRelayInstanceFormValues :: BroadcastRelayInstanceFormValues where
  "blankBroadcastRelayInstanceFormValues =
     \<lparr>brifv_disabled = False,
       brifv_address = '''',
       brifv_description = '''',
       brifv_port = ''''\<rparr>"

definition broadcastRelayInstanceToFormValues :: "BroadcastRelayInstance \<Rightarrow> BroadcastRelayInstanceFormValues" where
  "broadcastRelayInstanceToFormValues instance1 =
     \<lparr>brifv_disabled = bri_disabled instance1,
       brifv_address = or_else (bri_address instance1) '''',
       brifv_description = or_else (bri_description instance1) '''',
       brifv_port = or_else (bri_port instance1) ''''\<rparr>"

definition broadcastRelayInstanceForm_fields :: "BroadcastRelayInstanceFormValues scalar_field list" where
  "broadcastRelayInstanceForm_fields =
     [(brifv_address, [''address'']),
      (brifv_description, [''description'']),
      (brifv_port, [''port''])]"

definition broadcastRelayInstanceFormToOps ::
    "string \<Rightarrow> BroadcastRelayInstance option \<Rightarrow> BroadcastRelayInstanceFormValues \<Rightarrow> ConfigOp list" where
  "broadcastRelayInstanceFormToOps i before values =
     (let beforeValues = (case before of
               Some before' \<Rightarrow> broadcastRelayInstanceToFormValues before'
             | None \<Rightarrow> blankBroadcastRelayInstanceFormValues);
          base = broadcastRelayInstancePath i []
      in (if before = None then [set_flag base] else [])
         @ flag_diff (base @ [''disable'']) (brifv_disabled beforeValues) (brifv_disabled values)
         @ diffToOps base broadcastRelayInstanceForm_fields [] beforeValues values)"

definition deleteBroadcastRelayInstanceOp :: "string \<Rightarrow> ConfigOp" where
  "deleteBroadcastRelayInstanceOp i = delete_op (broadcastRelayInstancePath i [])"

definition enableBroadcastRelayOp :: ConfigOp where
  "enableBroadcastRelayOp = set_flag (broadcastRelayPath [])"

definition disableBroadcastRelayOp :: ConfigOp where
  "disableBroadcastRelayOp = delete_op (broadcastRelayPath [])"

definition toggleBroadcastRelayServiceDisableOp :: "bool \<Rightarrow> ConfigOp" where
  "toggleBroadcastRelayServiceDisableOp disabled =
     (let p = broadcastRelayPath [''disable''] in if disabled then set_flag p else delete_op p)"

subsection \<open>DHCP relay types\<close>

definition DHCP_RELAY_AGENTS_PACKETS_MODES :: "string list" where
  "DHCP_RELAY_AGENTS_PACKETS_MODES = [''append'', ''replace'', ''forward'', ''discard'']"

record DHCPRelayConfig =
  dhcprc_disabled :: bool
  dhcprc_interfaces :: "string list"
  dhcprc_listenInterfaces :: "string list"
  dhcprc_upstreamInterfaces :: "string list"
  dhcprc_hopCount :: "string option"
  dhcprc_maxSize :: "string option"
  dhcprc_relayAgentsPackets :: "string option"
  dhcprc_servers :: "string list"

definition blankDHCPRelayConfig :: DHCPRelayConfig where
  "blankDHCPRelayConfig =
     \<lparr>dhcprc_disabled = False,
       dhcprc_interfaces = [],
       dhcprc_listenInterfaces = [],
       dhcprc_upstreamInterfaces = [],
       dhcprc_hopCount = None,
       dhcprc_maxSize = None,
       dhcprc_relayAgentsPackets = None,
       dhcprc_servers = []\<rparr>"

record DHCPv6RelayListenInterface =
  dhcprli_interfaceName :: string
  dhcprli_address :: "string option"

record DHCPv6RelayUpstreamInterface =
  dhcprui_interfaceName :: string
  dhcprui_addresses :: "string list"

record DHCPv6RelayConfig =
  sndhcprc_disabled :: bool
  sndhcprc_listenInterfaces :: "DHCPv6RelayListenInterface list"
  sndhcprc_upstreamInterfaces :: "DHCPv6RelayUpstreamInterface list"
  sndhcprc_maxHopCount :: "string option"
  sndhcprc_useInterfaceIdOption :: bool

definition blankDHCPv6RelayConfig :: DHCPv6RelayConfig where
  "blankDHCPv6RelayConfig =
     \<lparr>sndhcprc_disabled = False,
       sndhcprc_listenInterfaces = [],
       sndhcprc_upstreamInterfaces = [],
       sndhcprc_maxHopCount = None,
       sndhcprc_useInterfaceIdOption = False\<rparr>"

subsection \<open>DHCP relay parser\<close>

definition parseDHCPRelayConfig :: "unknown \<Rightarrow> DHCPRelayConfig" where
  "parseDHCPRelayConfig relay =
     (if relay = None then blankDHCPRelayConfig
      else let relayOptions = child relay ''relay-options''
           in \<lparr>dhcprc_disabled = isFlagPresent relay ''disable'',
                dhcprc_interfaces = asStringArray (child relay ''interface''),
                dhcprc_listenInterfaces = asStringArray (child relay ''listen-interface''),
                dhcprc_upstreamInterfaces = asStringArray (child relay ''upstream-interface''),
                dhcprc_hopCount = asString (child relayOptions ''hop-count''),
                dhcprc_maxSize = asString (child relayOptions ''max-size''),
                dhcprc_relayAgentsPackets = asString (child relayOptions ''relay-agents-packets''),
                dhcprc_servers = asStringArray (child relay ''server'')\<rparr>)"

definition dhcpRelayPath :: "path \<Rightarrow> path" where
  "dhcpRelayPath rest = [''service'', ''dhcp-relay''] @ rest"

definition dhcpRelayOptionsPath :: "path \<Rightarrow> path" where
  "dhcpRelayOptionsPath rest = dhcpRelayPath ([''relay-options''] @ rest)"

definition parseListenInterface :: "string \<Rightarrow> unknown \<Rightarrow> DHCPv6RelayListenInterface" where
  "parseListenInterface interfaceName raw =
     \<lparr>dhcprli_interfaceName = interfaceName,
       dhcprli_address = asString (child raw ''address'')\<rparr>"

definition parseUpstreamInterface :: "string \<Rightarrow> unknown \<Rightarrow> DHCPv6RelayUpstreamInterface" where
  "parseUpstreamInterface interfaceName raw =
     \<lparr>dhcprui_interfaceName = interfaceName,
       dhcprui_addresses = asStringArray (child raw ''address'')\<rparr>"

definition parseDHCPv6RelayConfig :: "collation \<Rightarrow> unknown \<Rightarrow> DHCPv6RelayConfig" where
  "parseDHCPv6RelayConfig lc relay =
     (if relay = None then blankDHCPv6RelayConfig
      else \<lparr>sndhcprc_disabled = isFlagPresent relay ''disable'',
             sndhcprc_listenInterfaces = parse_entries parseListenInterface
                 (\<lambda>a b. lc (dhcprli_interfaceName a) (dhcprli_interfaceName b))
                 (child relay ''listen-interface''),
             sndhcprc_upstreamInterfaces = parse_entries parseUpstreamInterface
                 (\<lambda>a b. lc (dhcprui_interfaceName a) (dhcprui_interfaceName b))
                 (child relay ''upstream-interface''),
             sndhcprc_maxHopCount = asString (child relay ''max-hop-count''),
             sndhcprc_useInterfaceIdOption = isFlagPresent relay ''use-interface-id-option''\<rparr>)"

definition dhcpv6RelayPath :: "path \<Rightarrow> path" where
  "dhcpv6RelayPath rest = [''service'', ''dhcpv6-relay''] @ rest"

definition dhcpv6RelayListenInterfacePath :: "string \<Rightarrow> path \<Rightarrow> path" where
  "dhcpv6RelayListenInterfacePath interfaceName rest =
     dhcpv6RelayPath ([''listen-interface'', interfaceName] @ rest)"

definition dhcpv6RelayUpstreamInterfacePath :: "string \<Rightarrow> path \<Rightarrow> path" where
  "dhcpv6RelayUpstreamInterfacePath interfaceName rest =
     dhcpv6RelayPath ([''upstream-interface'', interfaceName] @ rest)"

subsection \<open>DHCP relay forms\<close>

record DHCPRelaySettingsFormValues =
  dhcprsfv_disabled :: bool
  dhcprsfv_hopCount :: string
  dhcprsfv_maxSize :: string
  dhcprsfv_relayAgentsPackets :: string

definition blankDHCPRelaySettingsFormValues :: DHCPRelaySettingsFormValues where
  "blankDHCPRelaySettingsFormValues =
     \<lparr>dhcprsfv_disabled = False,
       dhcprsfv_hopCount = '''',
       dhcprsfv_maxSize = '''',
       dhcprsfv_relayAgentsPackets = ''''\<rparr>"

definition dhcpRelayConfigToFormValues :: "DHCPRelayConfig \<Rightarrow> DHCPRelaySettingsFormValues" where
  "dhcpRelayConfigToFormValues config =
     \<lparr>dhcprsfv_disabled = dhcprc_disabled config,
       dhcprsfv_hopCount = or_else (dhcprc_hopCount config) '''',
       dhcprsfv_maxSize = or_else (dhcprc_maxSize config) '''',
       dhcprsfv_relayAgentsPackets = or_else (dhcprc_relayAgentsPackets config) ''''\<rparr>"

definition dhcpRelaySettingsForm_fields :: "DHCPRelaySettingsFormValues scalar_field list" where
  "dhcpRelaySettingsForm_fields =
     [(dhcprsfv_hopCount, dhcpRelayOptionsPath [''hop-count'']),
      (dhcprsfv_maxSize, dhcpRelayOptionsPath [''max-size'']),
      (dhcprsfv_relayAgentsPackets, dhcpRelayOptionsPath [''relay-agents-packets''])]"

definition dhcpRelaySettingsFormToOps ::
    "DHCPRelayConfig \<Rightarrow> DHCPRelaySettingsFormValues \<Rightarrow> ConfigOp list" where
  "dhcpRelaySettingsFormToOps before values =
     (let beforeValues = dhcpRelayConfigToFormValues before
      in flag_diff (dhcpRelayPath [''disable'']) (dhcprsfv_disabled beforeValues)
           (dhcprsfv_disabled values)
         @ diffToOps [] dhcpRelaySettingsForm_fields [] beforeValues values)"

record DHCPv6RelaySettingsFormValues =
  sndhcprsfv_disabled :: bool
  sndhcprsfv_maxHopCount :: string
  sndhcprsfv_useInterfaceIdOption :: bool

definition blankDHCPv6RelaySettingsFormValues :: DHCPv6RelaySettingsFormValues where
  "blankDHCPv6RelaySettingsFormValues =
     \<lparr>sndhcprsfv_disabled = False,
       sndhcprsfv_maxHopCount = '''',
       sndhcprsfv_useInterfaceIdOption = False\<rparr>"

definition dhcpv6RelayConfigToFormValues :: "DHCPv6RelayConfig \<Rightarrow> DHCPv6RelaySettingsFormValues" where
  "dhcpv6RelayConfigToFormValues config =
     \<lparr>sndhcprsfv_disabled = sndhcprc_disabled config,
       sndhcprsfv_maxHopCount = or_else (sndhcprc_maxHopCount config) '''',
       sndhcprsfv_useInterfaceIdOption = sndhcprc_useInterfaceIdOption config\<rparr>"

definition dhcpv6RelaySettingsFormToOps ::
    "DHCPv6RelayConfig \<Rightarrow> DHCPv6RelaySettingsFormValues \<Rightarrow> ConfigOp list" where
  "dhcpv6RelaySettingsFormToOps before values =
     (let beforeValues = dhcpv6RelayConfigToFormValues before
      in flag_diff (dhcpv6RelayPath [''disable'']) (sndhcprsfv_disabled beforeValues)
           (sndhcprsfv_disabled values)
         @ flag_diff (dhcpv6RelayPath [''use-interface-id-option''])
             (sndhcprsfv_useInterfaceIdOption beforeValues) (sndhcprsfv_useInterfaceIdOption values)
         @ scalar_diff (dhcpv6RelayPath [''max-hop-count'']) (sndhcprsfv_maxHopCount beforeValues)
             (sndhcprsfv_maxHopCount values))"

definition addDHCPv6RelayListenInterfaceOps :: "string \<Rightarrow> string \<Rightarrow> ConfigOp list" where
  "addDHCPv6RelayListenInterfaceOps interfaceName address =
     (let base = dhcpv6RelayListenInterfacePath interfaceName [];
          trimmedAddress = js_trim address
      in [set_flag base]
         @ (if trimmedAddress \<noteq> '''' then [set_op (base @ [''address'']) trimmedAddress]
            else []))"

definition removeDHCPv6RelayListenInterfaceOp :: "string \<Rightarrow> ConfigOp" where
  "removeDHCPv6RelayListenInterfaceOp interfaceName =
     delete_op (dhcpv6RelayListenInterfacePath interfaceName [])"

definition addDHCPv6RelayUpstreamInterfaceOp :: "string \<Rightarrow> ConfigOp" where
  "addDHCPv6RelayUpstreamInterfaceOp interfaceName =
     set_flag (dhcpv6RelayUpstreamInterfacePath interfaceName [])"

definition removeDHCPv6RelayUpstreamInterfaceOp :: "string \<Rightarrow> ConfigOp" where
  "removeDHCPv6RelayUpstreamInterfaceOp interfaceName =
     delete_op (dhcpv6RelayUpstreamInterfacePath interfaceName [])"

subsection \<open>DHCPv6 server types\<close>

definition DHCPV6_LOG_LEVELS :: "string list" where
  "DHCPV6_LOG_LEVELS = [''fatal'', ''error'', ''warn'', ''info'', ''debug'']"

record DHCPv6Option =
  dhcpo_nameServers :: "string list"
  dhcpo_domainSearch :: "string list"
  dhcpo_sntpServers :: "string list"

definition blankDHCPv6Option :: DHCPv6Option where
  "blankDHCPv6Option =
     \<lparr>dhcpo_nameServers = [], dhcpo_domainSearch = [], dhcpo_sntpServers = []\<rparr>"

record DHCPv6Range =
  dhcpr_id :: string
  dhcpr_prefix :: "string option"
  dhcpr_start :: "string option"
  dhcpr_stop :: "string option"

record DHCPv6PrefixDelegation =
  dhcppd_prefix :: string
  dhcppd_prefixLength :: "string option"
  dhcppd_delegatedLength :: "string option"
  dhcppd_excludedPrefix :: "string option"
  dhcppd_excludedPrefixLength :: "string option"

record DHCPv6StaticMapping =
  dhcpsm_hostname :: string
  dhcpsm_disabled :: bool
  dhcpsm_mac :: "string option"
  dhcpsm_duid :: "string option"
  dhcpsm_ipv6Addresses :: "string list"
  dhcpsm_ipv6Prefixes :: "string list"

record DHCPv6Subnet =
  dhcps_cidr :: string
  dhcps_interface :: "string option"
  dhcps_subnetId :: "string option"
  dhcps_leaseDefault :: "string option"
  dhcps_leaseMaximum :: "string option"
  dhcps_leaseMinimum :: "string option"
  dhcps_option :: DHCPv6Option
  dhcps_ranges :: "DHCPv6Range list"
  dhcps_staticMappings :: "DHCPv6StaticMapping list"
  dhcps_prefixDelegations :: "DHCPv6PrefixDelegation list"

definition blankDHCPv6Subnet :: DHCPv6Subnet where
  "blankDHCPv6Subnet =
     \<lparr>dhcps_cidr = '''',
       dhcps_interface = None,
       dhcps_subnetId = None,
       dhcps_leaseDefault = None,
       dhcps_leaseMaximum = None,
       dhcps_leaseMinimum = None,
       dhcps_option = blankDHCPv6Option,
       dhcps_ranges = [],
       dhcps_staticMappings = [],
       dhcps_prefixDelegations = []\<rparr>"

record DHCPv6SharedNetwork =
  dhcpsn_name :: string
  dhcpsn_disabled :: bool
  dhcpsn_description :: "string option"
  dhcpsn_interface :: "string option"
  dhcpsn_option :: DHCPv6Option
  dhcpsn_subnets :: "DHCPv6Subnet list"

definition blankDHCPv6SharedNetwork :: DHCPv6SharedNetwork where
  "blankDHCPv6SharedNetwork =
     \<lparr>dhcpsn_name = '''',
       dhcpsn_disabled = False,
       dhcpsn_description = None,
       dhcpsn_interface = None,
       dhcpsn_option = blankDHCPv6Option,
       dhcpsn_subnets = []\<rparr>"

record DHCPv6ServerConfig =
  dhcpsc_enabled :: bool
  dhcpsc_disabled :: bool
  dhcpsc_listenInterfaces :: "string list"
  dhcpsc_disableRouteAutoinstall :: bool
  dhcpsc_preference :: "string option"
  dhcpsc_logLevel :: "string option"
  dhcpsc_globalNameServers :: "string list"
  dhcpsc_sharedNetworks :: "DHCPv6SharedNetwork list"

definition blankDHCPv6ServerConfig :: DHCPv6ServerConfig where
  "blankDHCPv6ServerConfig =
     \<lparr>dhcpsc_enabled = False,
       dhcpsc_disabled = False,
       dhcpsc_listenInterfaces = [],
       dhcpsc_disableRouteAutoinstall = False,
       dhcpsc_preference = None,
       dhcpsc_logLevel = None,
       dhcpsc_globalNameServers = [],
       dhcpsc_sharedNetworks = []\<rparr>"

subsection \<open>DHCPv6 server parser\<close>

definition parseOption :: "unknown \<Rightarrow> DHCPv6Option" where
  "parseOption raw =
     (let rootNode = child raw ''option''
      in if rootNode = None then blankDHCPv6Option
         else \<lparr>dhcpo_nameServers = asStringArray (child rootNode ''name-server''),
                dhcpo_domainSearch = asStringArray (child rootNode ''domain-search''),
                dhcpo_sntpServers = asStringArray (child rootNode ''sntp-server'')\<rparr>)"

definition parseRange_sn :: "string \<Rightarrow> unknown \<Rightarrow> DHCPv6Range" where
  "parseRange_sn i raw =
     \<lparr>dhcpr_id = i,
       dhcpr_prefix = asString (child raw ''prefix''),
       dhcpr_start = asString (child raw ''start''),
       dhcpr_stop = asString (child raw ''stop'')\<rparr>"

definition parsePrefixDelegation :: "string \<Rightarrow> unknown \<Rightarrow> DHCPv6PrefixDelegation" where
  "parsePrefixDelegation pfx raw =
     \<lparr>dhcppd_prefix = pfx,
       dhcppd_prefixLength = asString (child raw ''prefix-length''),
       dhcppd_delegatedLength = asString (child raw ''delegated-length''),
       dhcppd_excludedPrefix = asString (child raw ''excluded-prefix''),
       dhcppd_excludedPrefixLength = asString (child raw ''excluded-prefix-length'')\<rparr>"

definition parseStaticMapping_sn :: "string \<Rightarrow> unknown \<Rightarrow> DHCPv6StaticMapping" where
  "parseStaticMapping_sn hostname raw =
     \<lparr>dhcpsm_hostname = hostname,
       dhcpsm_disabled = isFlagPresent raw ''disable'',
       dhcpsm_mac = asString (child raw ''mac''),
       dhcpsm_duid = asString (child raw ''duid''),
       dhcpsm_ipv6Addresses = asStringArray (child raw ''ipv6-address''),
       dhcpsm_ipv6Prefixes = asStringArray (child raw ''ipv6-prefix'')\<rparr>"

definition parseSubnet_sn ::
    "collation \<Rightarrow> string \<Rightarrow> unknown \<Rightarrow> DHCPv6Subnet" where
  "parseSubnet_sn lc cidr raw =
     (let leaseTime = child raw ''lease-time'';
          prefixDelegationRoot = child (child raw ''prefix-delegation'') ''prefix''
      in \<lparr>dhcps_cidr = cidr,
           dhcps_interface = asString (child raw ''interface''),
           dhcps_subnetId = asString (child raw ''subnet-id''),
           dhcps_leaseDefault = asString (child leaseTime ''default''),
           dhcps_leaseMaximum = asString (child leaseTime ''maximum''),
           dhcps_leaseMinimum = asString (child leaseTime ''minimum''),
           dhcps_option = parseOption raw,
           dhcps_ranges = parse_entries parseRange_sn (\<lambda>a b. lc (dhcpr_id a) (dhcpr_id b))
               (child raw ''range''),
           dhcps_staticMappings = parse_entries parseStaticMapping_sn
               (\<lambda>a b. lc (dhcpsm_hostname a) (dhcpsm_hostname b))
               (child raw ''static-mapping''),
           dhcps_prefixDelegations = parse_entries parsePrefixDelegation
               (\<lambda>a b. lc (dhcppd_prefix a) (dhcppd_prefix b)) prefixDelegationRoot\<rparr>)"

definition parseSharedNetwork_sn ::
    "collation \<Rightarrow> string \<Rightarrow> unknown \<Rightarrow> DHCPv6SharedNetwork" where
  "parseSharedNetwork_sn lc name raw =
     \<lparr>dhcpsn_name = name,
       dhcpsn_disabled = isFlagPresent raw ''disable'',
       dhcpsn_description = asString (child raw ''description''),
       dhcpsn_interface = asString (child raw ''interface''),
       dhcpsn_option = parseOption raw,
       dhcpsn_subnets = parse_entries (parseSubnet_sn lc)
           (\<lambda>a b. lc (dhcps_cidr a) (dhcps_cidr b)) (child raw ''subnet'')\<rparr>"

definition parseDHCPv6ServerConfig :: "collation \<Rightarrow> unknown \<Rightarrow> DHCPv6ServerConfig" where
  "parseDHCPv6ServerConfig lc dhcpv6Server =
     (if dhcpv6Server = None then blankDHCPv6ServerConfig
      else \<lparr>dhcpsc_enabled = True,
             dhcpsc_disabled = isFlagPresent dhcpv6Server ''disable'',
             dhcpsc_listenInterfaces = asStringArray (child dhcpv6Server ''listen-interface''),
             dhcpsc_disableRouteAutoinstall = isFlagPresent dhcpv6Server
                 ''disable-route-autoinstall'',
             dhcpsc_preference = asString (child dhcpv6Server ''preference''),
             dhcpsc_logLevel = asString (child dhcpv6Server ''log-level''),
             dhcpsc_globalNameServers = asStringArray (child
                    (child dhcpv6Server ''global-parameters'') ''name-server''),
             dhcpsc_sharedNetworks = parse_entries (parseSharedNetwork_sn lc)
                 (\<lambda>a b. lc (dhcpsn_name a) (dhcpsn_name b))
                 (child dhcpv6Server ''shared-network-name'')\<rparr>)"

definition dhcpv6ServerPath :: "path \<Rightarrow> path" where
  "dhcpv6ServerPath rest = [''service'', ''dhcpv6-server''] @ rest"

definition dhcpv6GlobalParametersPath :: "path \<Rightarrow> path" where
  "dhcpv6GlobalParametersPath rest = dhcpv6ServerPath ([''global-parameters''] @ rest)"

definition dhcpv6SharedNetworkPath :: "string \<Rightarrow> path \<Rightarrow> path" where
  "dhcpv6SharedNetworkPath name rest = dhcpv6ServerPath ([''shared-network-name'', name] @ rest)"

definition dhcpv6SubnetPath :: "string \<Rightarrow> string \<Rightarrow> path \<Rightarrow> path" where
  "dhcpv6SubnetPath networkName cidr rest =
     dhcpv6SharedNetworkPath networkName ([''subnet'', cidr] @ rest)"

definition dhcpv6RangePath ::
    "string \<Rightarrow> string \<Rightarrow> string \<Rightarrow> path \<Rightarrow> path" where
  "dhcpv6RangePath networkName cidr i rest =
     dhcpv6SubnetPath networkName cidr ([''range'', i] @ rest)"

definition dhcpv6StaticMappingPath ::
    "string \<Rightarrow> string \<Rightarrow> string \<Rightarrow> path \<Rightarrow> path" where
  "dhcpv6StaticMappingPath networkName cidr hostname rest =
     dhcpv6SubnetPath networkName cidr ([''static-mapping'', hostname] @ rest)"

definition dhcpv6PrefixDelegationPath ::
    "string \<Rightarrow> string \<Rightarrow> string \<Rightarrow> path \<Rightarrow> path" where
  "dhcpv6PrefixDelegationPath networkName cidr pfx rest =
     dhcpv6SubnetPath networkName cidr ([''prefix-delegation'', ''prefix'', pfx] @ rest)"

definition dhcpv6OptionPath :: "path \<Rightarrow> path \<Rightarrow> path" where
  "dhcpv6OptionPath base rest = base @ [''option''] @ rest"

subsection \<open>DHCPv6 server forms\<close>

record DHCPv6GlobalFormValues =
  dhcpgfv_disabled :: bool
  dhcpgfv_disableRouteAutoinstall :: bool
  dhcpgfv_preference :: string
  dhcpgfv_logLevel :: string

definition blankDHCPv6GlobalFormValues :: DHCPv6GlobalFormValues where
  "blankDHCPv6GlobalFormValues =
     \<lparr>dhcpgfv_disabled = False,
       dhcpgfv_disableRouteAutoinstall = False,
       dhcpgfv_preference = '''',
       dhcpgfv_logLevel = ''''\<rparr>"

definition dhcpv6ConfigToGlobalFormValues :: "DHCPv6ServerConfig \<Rightarrow> DHCPv6GlobalFormValues" where
  "dhcpv6ConfigToGlobalFormValues config =
     \<lparr>dhcpgfv_disabled = dhcpsc_disabled config,
       dhcpgfv_disableRouteAutoinstall = dhcpsc_disableRouteAutoinstall config,
       dhcpgfv_preference = or_else (dhcpsc_preference config) '''',
       dhcpgfv_logLevel = or_else (dhcpsc_logLevel config) ''''\<rparr>"

definition dhcpv6GlobalFormToOps ::
    "DHCPv6ServerConfig \<Rightarrow> DHCPv6GlobalFormValues \<Rightarrow> ConfigOp list" where
  "dhcpv6GlobalFormToOps before values =
     (let beforeValues = dhcpv6ConfigToGlobalFormValues before
      in flag_diff (dhcpv6ServerPath [''disable'']) (dhcpgfv_disabled beforeValues)
           (dhcpgfv_disabled values)
         @ flag_diff (dhcpv6ServerPath [''disable-route-autoinstall''])
             (dhcpgfv_disableRouteAutoinstall beforeValues) (dhcpgfv_disableRouteAutoinstall values)
         @ scalar_diff (dhcpv6ServerPath [''preference'']) (dhcpgfv_preference beforeValues)
             (dhcpgfv_preference values)
         @ scalar_diff (dhcpv6ServerPath [''log-level'']) (dhcpgfv_logLevel beforeValues)
             (dhcpgfv_logLevel values))"

definition enableDHCPv6ServerOp :: ConfigOp where
  "enableDHCPv6ServerOp = set_flag (dhcpv6ServerPath [])"

definition disableDHCPv6ServerOp :: ConfigOp where
  "disableDHCPv6ServerOp = delete_op (dhcpv6ServerPath [])"

record DHCPv6SharedNetworkFormValues =
  dhcpsnfv_disabled :: bool
  dhcpsnfv_description :: string
  dhcpsnfv_interface :: string

definition blankDHCPv6SharedNetworkFormValues :: DHCPv6SharedNetworkFormValues where
  "blankDHCPv6SharedNetworkFormValues =
     \<lparr>dhcpsnfv_disabled = False,
       dhcpsnfv_description = '''',
       dhcpsnfv_interface = ''''\<rparr>"

definition dhcpv6SharedNetworkToFormValues :: "DHCPv6SharedNetwork \<Rightarrow> DHCPv6SharedNetworkFormValues" where
  "dhcpv6SharedNetworkToFormValues network =
     \<lparr>dhcpsnfv_disabled = dhcpsn_disabled network,
       dhcpsnfv_description = or_else (dhcpsn_description network) '''',
       dhcpsnfv_interface = or_else (dhcpsn_interface network) ''''\<rparr>"

definition dhcpv6SharedNetworkFormToOps ::
    "string \<Rightarrow> DHCPv6SharedNetwork option \<Rightarrow> DHCPv6SharedNetworkFormValues \<Rightarrow> ConfigOp list" where
  "dhcpv6SharedNetworkFormToOps name before values =
     (let beforeValues = (case before of
               Some before' \<Rightarrow> dhcpv6SharedNetworkToFormValues before'
             | None \<Rightarrow> blankDHCPv6SharedNetworkFormValues);
          base = dhcpv6SharedNetworkPath name []
      in (if before = None then [set_flag base] else [])
         @ flag_diff (base @ [''disable'']) (dhcpsnfv_disabled beforeValues)
             (dhcpsnfv_disabled values)
         @ scalar_diff (base @ [''description'']) (dhcpsnfv_description beforeValues)
             (dhcpsnfv_description values)
         @ scalar_diff (base @ [''interface'']) (dhcpsnfv_interface beforeValues)
             (dhcpsnfv_interface values))"

definition deleteDHCPv6SharedNetworkOp :: "string \<Rightarrow> ConfigOp" where
  "deleteDHCPv6SharedNetworkOp name = delete_op (dhcpv6SharedNetworkPath name [])"

record DHCPv6SubnetFormValues =
  dhcpsfv_interface :: string
  dhcpsfv_subnetId :: string
  dhcpsfv_leaseDefault :: string
  dhcpsfv_leaseMaximum :: string
  dhcpsfv_leaseMinimum :: string

definition blankDHCPv6SubnetFormValues :: DHCPv6SubnetFormValues where
  "blankDHCPv6SubnetFormValues =
     \<lparr>dhcpsfv_interface = '''',
       dhcpsfv_subnetId = '''',
       dhcpsfv_leaseDefault = '''',
       dhcpsfv_leaseMaximum = '''',
       dhcpsfv_leaseMinimum = ''''\<rparr>"

definition dhcpv6SubnetToFormValues :: "DHCPv6Subnet \<Rightarrow> DHCPv6SubnetFormValues" where
  "dhcpv6SubnetToFormValues subnet =
     \<lparr>dhcpsfv_interface = or_else (dhcps_interface subnet) '''',
       dhcpsfv_subnetId = or_else (dhcps_subnetId subnet) '''',
       dhcpsfv_leaseDefault = or_else (dhcps_leaseDefault subnet) '''',
       dhcpsfv_leaseMaximum = or_else (dhcps_leaseMaximum subnet) '''',
       dhcpsfv_leaseMinimum = or_else (dhcps_leaseMinimum subnet) ''''\<rparr>"

definition SUBNET_SCALAR_FIELDS_sn :: "DHCPv6SubnetFormValues scalar_field list" where
  "SUBNET_SCALAR_FIELDS_sn =
     [(dhcpsfv_interface, [''interface'']),
      (dhcpsfv_subnetId, [''subnet-id'']),
      (dhcpsfv_leaseDefault, [''lease-time'', ''default'']),
      (dhcpsfv_leaseMaximum, [''lease-time'', ''maximum'']),
      (dhcpsfv_leaseMinimum, [''lease-time'', ''minimum''])]"

definition dhcpv6SubnetFormToOps ::
    "string \<Rightarrow> string \<Rightarrow> DHCPv6Subnet option \<Rightarrow> DHCPv6SubnetFormValues \<Rightarrow> ConfigOp list" where
  "dhcpv6SubnetFormToOps networkName cidr before values =
     (let beforeValues = (case before of
               Some before' \<Rightarrow> dhcpv6SubnetToFormValues before'
             | None \<Rightarrow> blankDHCPv6SubnetFormValues);
          base = dhcpv6SubnetPath networkName cidr []
      in (if before = None then [set_flag base] else [])
         @ diffToOps base SUBNET_SCALAR_FIELDS_sn [] beforeValues values)"

definition deleteDHCPv6SubnetOp :: "string \<Rightarrow> string \<Rightarrow> ConfigOp" where
  "deleteDHCPv6SubnetOp networkName cidr = delete_op (dhcpv6SubnetPath networkName cidr [])"

definition addDHCPv6RangeOps ::
    "string \<Rightarrow> string \<Rightarrow> string \<Rightarrow> string \<Rightarrow> string \<Rightarrow> string \<Rightarrow> ConfigOp list" where
  "addDHCPv6RangeOps networkName cidr i pfx start stop =
     (let base = dhcpv6RangePath networkName cidr i []
      in [set_flag base]
         @ (if js_trim pfx \<noteq> '''' then [set_op (base @ [''prefix'']) (js_trim pfx)] else [])
         @ (if js_trim start \<noteq> '''' then [set_op (base @ [''start'']) (js_trim start)]
            else [])
         @ (if js_trim stop \<noteq> '''' then [set_op (base @ [''stop'']) (js_trim stop)] else []))"

definition removeDHCPv6RangeOp :: "string \<Rightarrow> string \<Rightarrow> string \<Rightarrow> ConfigOp" where
  "removeDHCPv6RangeOp networkName cidr i = delete_op (dhcpv6RangePath networkName cidr i [])"

record AddDHCPv6StaticMappingOps_options =
  adhcpsmo_mac :: string
  adhcpsmo_duid :: string
  adhcpsmo_disabled :: bool

definition addDHCPv6StaticMappingOps ::
    "string \<Rightarrow> string \<Rightarrow> string \<Rightarrow> AddDHCPv6StaticMappingOps_options \<Rightarrow> ConfigOp list" where
  "addDHCPv6StaticMappingOps networkName cidr hostname options =
     (let base = dhcpv6StaticMappingPath networkName cidr hostname []
      in [set_flag base]
         @ (if js_trim (adhcpsmo_mac options) \<noteq> ''''
            then [set_op (base @ [''mac'']) (js_trim (adhcpsmo_mac options))]
            else [])
         @ (if js_trim (adhcpsmo_duid options) \<noteq> ''''
            then [set_op (base @ [''duid'']) (js_trim (adhcpsmo_duid options))]
            else [])
         @ (if adhcpsmo_disabled options then [set_flag (base @ [''disable''])] else []))"

definition removeDHCPv6StaticMappingOp :: "string \<Rightarrow> string \<Rightarrow> string \<Rightarrow> ConfigOp" where
  "removeDHCPv6StaticMappingOp networkName cidr hostname =
     delete_op (dhcpv6StaticMappingPath networkName cidr hostname [])"

record AddDHCPv6PrefixDelegationOps_options =
  adhcppdo_prefixLength :: string
  adhcppdo_delegatedLength :: string
  adhcppdo_excludedPrefix :: string
  adhcppdo_excludedPrefixLength :: string

definition addDHCPv6PrefixDelegationOps ::
    "string \<Rightarrow> string \<Rightarrow> string \<Rightarrow> AddDHCPv6PrefixDelegationOps_options \<Rightarrow> ConfigOp list" where
  "addDHCPv6PrefixDelegationOps networkName cidr pfx options =
     (let base = dhcpv6PrefixDelegationPath networkName cidr pfx []
      in [set_flag base]
         @ (if js_trim (adhcppdo_prefixLength options) \<noteq> ''''
            then [set_op (base @ [''prefix-length'']) (js_trim (adhcppdo_prefixLength options))]
            else [])
         @ (if js_trim (adhcppdo_delegatedLength options) \<noteq> ''''
            then [set_op (base @ [''delegated-length'']) (js_trim (adhcppdo_delegatedLength options))]
            else [])
         @ (if js_trim (adhcppdo_excludedPrefix options) \<noteq> ''''
            then [set_op (base @ [''excluded-prefix'']) (js_trim (adhcppdo_excludedPrefix options))]
            else [])
         @ (if js_trim (adhcppdo_excludedPrefixLength options) \<noteq> ''''
            then [set_op (base @ [''excluded-prefix-length''])
                    (js_trim (adhcppdo_excludedPrefixLength options))]
            else []))"

definition removeDHCPv6PrefixDelegationOp :: "string \<Rightarrow> string \<Rightarrow> string \<Rightarrow> ConfigOp" where
  "removeDHCPv6PrefixDelegationOp networkName cidr pfx =
     delete_op (dhcpv6PrefixDelegationPath networkName cidr pfx [])"

subsection \<open>Router advertisement types\<close>

definition RA_PREFERENCES :: "string list" where
  "RA_PREFERENCES = [''low'', ''medium'', ''high'']"

record RouterAdvertPrefix =
  rap_prefix :: string
  rap_noAutonomousFlag :: bool
  rap_noOnLinkFlag :: bool
  rap_deprecatePrefix :: bool
  rap_decrementLifetime :: bool
  rap_baseInterface :: "string option"
  rap_preferredLifetime :: "string option"
  rap_validLifetime :: "string option"

record RouterAdvertRoute =
  rar_prefix :: string
  rar_validLifetime :: "string option"
  rar_routePreference :: "string option"
  rar_noRemoveRoute :: bool

record RouterAdvertInterface =
  rai_interfaceName :: string
  rai_hopLimit :: "string option"
  rai_defaultLifetime :: "string option"
  rai_defaultPreference :: "string option"
  rai_dnssl :: "string list"
  rai_linkMtu :: "string option"
  rai_managedFlag :: bool
  rai_intervalMax :: "string option"
  rai_intervalMin :: "string option"
  rai_nameServers :: "string list"
  rai_nameServerLifetime :: "string option"
  rai_otherConfigFlag :: bool
  rai_sourceAddresses :: "string list"
  rai_reachableTime :: "string option"
  rai_retransTimer :: "string option"
  rai_noSendAdvert :: bool
  rai_noSendInterval :: bool
  rai_prefixes :: "RouterAdvertPrefix list"
  rai_routes :: "RouterAdvertRoute list"

definition blankRouterAdvertInterface :: RouterAdvertInterface where
  "blankRouterAdvertInterface =
     \<lparr>rai_interfaceName = '''',
       rai_hopLimit = None,
       rai_defaultLifetime = None,
       rai_defaultPreference = None,
       rai_dnssl = [],
       rai_linkMtu = None,
       rai_managedFlag = False,
       rai_intervalMax = None,
       rai_intervalMin = None,
       rai_nameServers = [],
       rai_nameServerLifetime = None,
       rai_otherConfigFlag = False,
       rai_sourceAddresses = [],
       rai_reachableTime = None,
       rai_retransTimer = None,
       rai_noSendAdvert = False,
       rai_noSendInterval = False,
       rai_prefixes = [],
       rai_routes = []\<rparr>"

record RouterAdvertConfig =
  rac_interfaces :: "RouterAdvertInterface list"

definition blankRouterAdvertConfig :: RouterAdvertConfig where
  "blankRouterAdvertConfig = \<lparr>rac_interfaces = []\<rparr>"

subsection \<open>Router advertisement parser\<close>

definition parsePrefix :: "string \<Rightarrow> unknown \<Rightarrow> RouterAdvertPrefix" where
  "parsePrefix pfx raw =
     \<lparr>rap_prefix = pfx,
       rap_noAutonomousFlag = isFlagPresent raw ''no-autonomous-flag'',
       rap_noOnLinkFlag = isFlagPresent raw ''no-on-link-flag'',
       rap_deprecatePrefix = isFlagPresent raw ''deprecate-prefix'',
       rap_decrementLifetime = isFlagPresent raw ''decrement-lifetime'',
       rap_baseInterface = asString (child raw ''base-interface''),
       rap_preferredLifetime = asString (child raw ''preferred-lifetime''),
       rap_validLifetime = asString (child raw ''valid-lifetime'')\<rparr>"

definition parseRoute :: "string \<Rightarrow> unknown \<Rightarrow> RouterAdvertRoute" where
  "parseRoute pfx raw =
     \<lparr>rar_prefix = pfx,
       rar_validLifetime = asString (child raw ''valid-lifetime''),
       rar_routePreference = asString (child raw ''route-preference''),
       rar_noRemoveRoute = isFlagPresent raw ''no-remove-route''\<rparr>"

definition parseInterface_sn ::
    "collation \<Rightarrow> string \<Rightarrow> unknown \<Rightarrow> RouterAdvertInterface" where
  "parseInterface_sn lc interfaceName raw =
     (let intervalRoot = child raw ''interval''
      in \<lparr>rai_interfaceName = interfaceName,
           rai_hopLimit = asString (child raw ''hop-limit''),
           rai_defaultLifetime = asString (child raw ''default-lifetime''),
           rai_defaultPreference = asString (child raw ''default-preference''),
           rai_dnssl = asStringArray (child raw ''dnssl''),
           rai_linkMtu = asString (child raw ''link-mtu''),
           rai_managedFlag = isFlagPresent raw ''managed-flag'',
           rai_intervalMax = asString (child intervalRoot ''max''),
           rai_intervalMin = asString (child intervalRoot ''min''),
           rai_nameServers = asStringArray (child raw ''name-server''),
           rai_nameServerLifetime = asString (child raw ''name-server-lifetime''),
           rai_otherConfigFlag = isFlagPresent raw ''other-config-flag'',
           rai_sourceAddresses = asStringArray (child raw ''source-address''),
           rai_reachableTime = asString (child raw ''reachable-time''),
           rai_retransTimer = asString (child raw ''retrans-timer''),
           rai_noSendAdvert = isFlagPresent raw ''no-send-advert'',
           rai_noSendInterval = isFlagPresent raw ''no-send-interval'',
           rai_prefixes = parse_entries parsePrefix (\<lambda>a b. lc (rap_prefix a) (rap_prefix b))
               (child raw ''prefix''),
           rai_routes = parse_entries parseRoute (\<lambda>a b. lc (rar_prefix a) (rar_prefix b))
               (child raw ''route'')\<rparr>)"

definition parseRouterAdvertConfig :: "collation \<Rightarrow> unknown \<Rightarrow> RouterAdvertConfig" where
  "parseRouterAdvertConfig lc routerAdvert =
     (if routerAdvert = None then blankRouterAdvertConfig
      else \<lparr>rac_interfaces = parse_entries (parseInterface_sn lc)
                 (\<lambda>a b. lc (rai_interfaceName a) (rai_interfaceName b))
                 (child routerAdvert ''interface'')\<rparr>)"

definition routerAdvertPath :: "path \<Rightarrow> path" where
  "routerAdvertPath rest = [''service'', ''router-advert''] @ rest"

definition routerAdvertInterfacePath :: "string \<Rightarrow> path \<Rightarrow> path" where
  "routerAdvertInterfacePath interfaceName rest =
     routerAdvertPath ([''interface'', interfaceName] @ rest)"

definition routerAdvertPrefixPath :: "string \<Rightarrow> string \<Rightarrow> path \<Rightarrow> path" where
  "routerAdvertPrefixPath interfaceName pfx rest =
     routerAdvertInterfacePath interfaceName ([''prefix'', pfx] @ rest)"

definition routerAdvertRoutePath :: "string \<Rightarrow> string \<Rightarrow> path \<Rightarrow> path" where
  "routerAdvertRoutePath interfaceName pfx rest =
     routerAdvertInterfacePath interfaceName ([''route'', pfx] @ rest)"

subsection \<open>Router advertisement forms\<close>

record RouterAdvertInterfaceFormValues =
  raifv_hopLimit :: string
  raifv_defaultLifetime :: string
  raifv_defaultPreference :: string
  raifv_linkMtu :: string
  raifv_managedFlag :: bool
  raifv_intervalMax :: string
  raifv_intervalMin :: string
  raifv_nameServerLifetime :: string
  raifv_otherConfigFlag :: bool
  raifv_reachableTime :: string
  raifv_retransTimer :: string
  raifv_noSendAdvert :: bool
  raifv_noSendInterval :: bool

definition blankRouterAdvertInterfaceFormValues :: RouterAdvertInterfaceFormValues where
  "blankRouterAdvertInterfaceFormValues =
     \<lparr>raifv_hopLimit = '''',
       raifv_defaultLifetime = '''',
       raifv_defaultPreference = '''',
       raifv_linkMtu = '''',
       raifv_managedFlag = False,
       raifv_intervalMax = '''',
       raifv_intervalMin = '''',
       raifv_nameServerLifetime = '''',
       raifv_otherConfigFlag = False,
       raifv_reachableTime = '''',
       raifv_retransTimer = '''',
       raifv_noSendAdvert = False,
       raifv_noSendInterval = False\<rparr>"

definition routerAdvertInterfaceToFormValues :: "RouterAdvertInterface \<Rightarrow> RouterAdvertInterfaceFormValues" where
  "routerAdvertInterfaceToFormValues ra =
     \<lparr>raifv_hopLimit = or_else (rai_hopLimit ra) '''',
       raifv_defaultLifetime = or_else (rai_defaultLifetime ra) '''',
       raifv_defaultPreference = or_else (rai_defaultPreference ra) '''',
       raifv_linkMtu = or_else (rai_linkMtu ra) '''',
       raifv_managedFlag = rai_managedFlag ra,
       raifv_intervalMax = or_else (rai_intervalMax ra) '''',
       raifv_intervalMin = or_else (rai_intervalMin ra) '''',
       raifv_nameServerLifetime = or_else (rai_nameServerLifetime ra) '''',
       raifv_otherConfigFlag = rai_otherConfigFlag ra,
       raifv_reachableTime = or_else (rai_reachableTime ra) '''',
       raifv_retransTimer = or_else (rai_retransTimer ra) '''',
       raifv_noSendAdvert = rai_noSendAdvert ra,
       raifv_noSendInterval = rai_noSendInterval ra\<rparr>"

definition SERVICE_ROUTER_ADVERT_SCALAR_FIELDS :: "RouterAdvertInterfaceFormValues scalar_field list" where
  "SERVICE_ROUTER_ADVERT_SCALAR_FIELDS =
     [(raifv_hopLimit, [''hop-limit'']),
      (raifv_defaultLifetime, [''default-lifetime'']),
      (raifv_defaultPreference, [''default-preference'']),
      (raifv_linkMtu, [''link-mtu'']),
      (raifv_intervalMax, [''interval'', ''max'']),
      (raifv_intervalMin, [''interval'', ''min'']),
      (raifv_nameServerLifetime, [''name-server-lifetime'']),
      (raifv_reachableTime, [''reachable-time'']),
      (raifv_retransTimer, [''retrans-timer''])]"

definition SERVICE_ROUTER_ADVERT_FLAG_FIELDS :: "RouterAdvertInterfaceFormValues flag_field list" where
  "SERVICE_ROUTER_ADVERT_FLAG_FIELDS =
     [(raifv_managedFlag, [''managed-flag'']),
      (raifv_otherConfigFlag, [''other-config-flag'']),
      (raifv_noSendAdvert, [''no-send-advert'']),
      (raifv_noSendInterval, [''no-send-interval''])]"

definition routerAdvertInterfaceFormToOps ::
    "string \<Rightarrow> RouterAdvertInterface option \<Rightarrow> RouterAdvertInterfaceFormValues \<Rightarrow> ConfigOp list" where
  "routerAdvertInterfaceFormToOps interfaceName before values =
     (let beforeValues = (case before of
               Some before' \<Rightarrow> routerAdvertInterfaceToFormValues before'
             | None \<Rightarrow> blankRouterAdvertInterfaceFormValues);
          base = routerAdvertInterfacePath interfaceName []
      in (if before = None then [set_flag base] else [])
         @ diffToOps base SERVICE_ROUTER_ADVERT_SCALAR_FIELDS SERVICE_ROUTER_ADVERT_FLAG_FIELDS
             beforeValues values)"

definition deleteRouterAdvertInterfaceOp :: "string \<Rightarrow> ConfigOp" where
  "deleteRouterAdvertInterfaceOp interfaceName =
     delete_op (routerAdvertInterfacePath interfaceName [])"

record AddRouterAdvertPrefixOps_options =
  arapo_noAutonomousFlag :: bool
  arapo_noOnLinkFlag :: bool
  arapo_deprecatePrefix :: bool
  arapo_decrementLifetime :: bool
  arapo_baseInterface :: string
  arapo_preferredLifetime :: string
  arapo_validLifetime :: string

definition addRouterAdvertPrefixOps ::
    "string \<Rightarrow> string \<Rightarrow> AddRouterAdvertPrefixOps_options \<Rightarrow> ConfigOp list" where
  "addRouterAdvertPrefixOps interfaceName pfx options =
     (let base = routerAdvertPrefixPath interfaceName pfx []
      in [set_flag base]
         @ (if arapo_noAutonomousFlag options then [set_flag (base @ [''no-autonomous-flag''])]
            else [])
         @ (if arapo_noOnLinkFlag options then [set_flag (base @ [''no-on-link-flag''])] else [])
         @ (if arapo_deprecatePrefix options then [set_flag (base @ [''deprecate-prefix''])] else [])
         @ (if arapo_decrementLifetime options then [set_flag (base @ [''decrement-lifetime''])]
            else [])
         @ (if arapo_baseInterface options \<noteq> ''''
            then [set_op (base @ [''base-interface'']) (arapo_baseInterface options)]
            else [])
         @ (if arapo_preferredLifetime options \<noteq> ''''
            then [set_op (base @ [''preferred-lifetime'']) (arapo_preferredLifetime options)]
            else [])
         @ (if arapo_validLifetime options \<noteq> ''''
            then [set_op (base @ [''valid-lifetime'']) (arapo_validLifetime options)]
            else []))"

definition removeRouterAdvertPrefixOp :: "string \<Rightarrow> string \<Rightarrow> ConfigOp" where
  "removeRouterAdvertPrefixOp interfaceName pfx =
     delete_op (routerAdvertPrefixPath interfaceName pfx [])"

record AddRouterAdvertRouteOps_options =
  araro_validLifetime :: string
  araro_routePreference :: string
  araro_noRemoveRoute :: bool

definition addRouterAdvertRouteOps ::
    "string \<Rightarrow> string \<Rightarrow> AddRouterAdvertRouteOps_options \<Rightarrow> ConfigOp list" where
  "addRouterAdvertRouteOps interfaceName pfx options =
     (let base = routerAdvertRoutePath interfaceName pfx []
      in [set_flag base]
         @ (if araro_validLifetime options \<noteq> ''''
            then [set_op (base @ [''valid-lifetime'']) (araro_validLifetime options)]
            else [])
         @ (if araro_routePreference options \<noteq> ''''
            then [set_op (base @ [''route-preference'']) (araro_routePreference options)]
            else [])
         @ (if araro_noRemoveRoute options then [set_flag (base @ [''no-remove-route''])] else []))"

definition removeRouterAdvertRouteOp :: "string \<Rightarrow> string \<Rightarrow> ConfigOp" where
  "removeRouterAdvertRouteOp interfaceName pfx =
     delete_op (routerAdvertRoutePath interfaceName pfx [])"

subsection \<open>NDP proxy types\<close>

definition NDP_PROXY_MODES :: "string list" where
  "NDP_PROXY_MODES = [''static'', ''auto'', ''interface'']"

record NDPProxyPrefix =
  ndppp_prefix :: string
  ndppp_disabled :: bool
  ndppp_mode :: "string option"
  ndppp_interface :: "string option"

definition blankNDPProxyPrefix :: NDPProxyPrefix where
  "blankNDPProxyPrefix =
     \<lparr>ndppp_prefix = '''',
       ndppp_disabled = False,
       ndppp_mode = None,
       ndppp_interface = None\<rparr>"

record NDPProxyInterface =
  ndppi_interfaceName :: string
  ndppi_disabled :: bool
  ndppi_enableRouterBit :: bool
  ndppi_timeout :: "string option"
  ndppi_ttl :: "string option"
  ndppi_prefixes :: "NDPProxyPrefix list"

definition blankNDPProxyInterface :: NDPProxyInterface where
  "blankNDPProxyInterface =
     \<lparr>ndppi_interfaceName = '''',
       ndppi_disabled = False,
       ndppi_enableRouterBit = False,
       ndppi_timeout = None,
       ndppi_ttl = None,
       ndppi_prefixes = []\<rparr>"

record NDPProxyConfig =
  ndppc_enabled :: bool
  ndppc_routeRefresh :: "string option"
  ndppc_interfaces :: "NDPProxyInterface list"

definition blankNDPProxyConfig :: NDPProxyConfig where
  "blankNDPProxyConfig =
     \<lparr>ndppc_enabled = False, ndppc_routeRefresh = None, ndppc_interfaces = []\<rparr>"

subsection \<open>NDP proxy parser\<close>

definition parsePrefix_sn :: "string \<Rightarrow> unknown \<Rightarrow> NDPProxyPrefix" where
  "parsePrefix_sn pfx raw =
     \<lparr>ndppp_prefix = pfx,
       ndppp_disabled = isFlagPresent raw ''disable'',
       ndppp_mode = asString (child raw ''mode''),
       ndppp_interface = asString (child raw ''interface'')\<rparr>"

definition parseInterface_sn2 ::
    "collation \<Rightarrow> string \<Rightarrow> unknown \<Rightarrow> NDPProxyInterface" where
  "parseInterface_sn2 lc interfaceName raw =
     \<lparr>ndppi_interfaceName = interfaceName,
       ndppi_disabled = isFlagPresent raw ''disable'',
       ndppi_enableRouterBit = isFlagPresent raw ''enable-router-bit'',
       ndppi_timeout = asString (child raw ''timeout''),
       ndppi_ttl = asString (child raw ''ttl''),
       ndppi_prefixes = parse_entries parsePrefix_sn
           (\<lambda>a b. lc (ndppp_prefix a) (ndppp_prefix b)) (child raw ''prefix'')\<rparr>"

definition parseNDPProxyConfig :: "collation \<Rightarrow> unknown \<Rightarrow> NDPProxyConfig" where
  "parseNDPProxyConfig lc ndpProxy =
     (if ndpProxy = None then blankNDPProxyConfig
      else \<lparr>ndppc_enabled = True,
             ndppc_routeRefresh = asString (child ndpProxy ''route-refresh''),
             ndppc_interfaces = parse_entries (parseInterface_sn2 lc)
                 (\<lambda>a b. lc (ndppi_interfaceName a) (ndppi_interfaceName b))
                 (child ndpProxy ''interface'')\<rparr>)"

definition ndpProxyPath :: "path \<Rightarrow> path" where
  "ndpProxyPath rest = [''service'', ''ndp-proxy''] @ rest"

definition ndpProxyInterfacePath :: "string \<Rightarrow> path \<Rightarrow> path" where
  "ndpProxyInterfacePath interfaceName rest = ndpProxyPath ([''interface'', interfaceName] @ rest)"

definition ndpProxyPrefixPath :: "string \<Rightarrow> string \<Rightarrow> path \<Rightarrow> path" where
  "ndpProxyPrefixPath interfaceName pfx rest =
     ndpProxyInterfacePath interfaceName ([''prefix'', pfx] @ rest)"

subsection \<open>NDP proxy forms\<close>

record NDPProxyInterfaceFormValues =
  ndppifv_disabled :: bool
  ndppifv_enableRouterBit :: bool
  ndppifv_timeout :: string
  ndppifv_ttl :: string

definition blankNDPProxyInterfaceFormValues :: NDPProxyInterfaceFormValues where
  "blankNDPProxyInterfaceFormValues =
     \<lparr>ndppifv_disabled = False,
       ndppifv_enableRouterBit = False,
       ndppifv_timeout = '''',
       ndppifv_ttl = ''''\<rparr>"

definition ndpProxyInterfaceToFormValues :: "NDPProxyInterface \<Rightarrow> NDPProxyInterfaceFormValues" where
  "ndpProxyInterfaceToFormValues iface =
     \<lparr>ndppifv_disabled = ndppi_disabled iface,
       ndppifv_enableRouterBit = ndppi_enableRouterBit iface,
       ndppifv_timeout = or_else (ndppi_timeout iface) '''',
       ndppifv_ttl = or_else (ndppi_ttl iface) ''''\<rparr>"

definition ndpProxyInterfaceForm_fields :: "NDPProxyInterfaceFormValues scalar_field list" where
  "ndpProxyInterfaceForm_fields =
     [(ndppifv_timeout, [''timeout'']),
      (ndppifv_ttl, [''ttl''])]"

definition ndpProxyInterfaceFormToOps ::
    "string \<Rightarrow> NDPProxyInterface option \<Rightarrow> NDPProxyInterfaceFormValues \<Rightarrow> ConfigOp list" where
  "ndpProxyInterfaceFormToOps interfaceName before values =
     (let beforeValues = (case before of
               Some before' \<Rightarrow> ndpProxyInterfaceToFormValues before'
             | None \<Rightarrow> blankNDPProxyInterfaceFormValues);
          base = ndpProxyInterfacePath interfaceName []
      in (if before = None then [set_flag base] else [])
         @ flag_diff (base @ [''disable'']) (ndppifv_disabled beforeValues)
             (ndppifv_disabled values)
         @ flag_diff (base @ [''enable-router-bit'']) (ndppifv_enableRouterBit beforeValues)
             (ndppifv_enableRouterBit values)
         @ diffToOps base ndpProxyInterfaceForm_fields [] beforeValues values)"

definition deleteNDPProxyInterfaceOp :: "string \<Rightarrow> ConfigOp" where
  "deleteNDPProxyInterfaceOp interfaceName = delete_op (ndpProxyInterfacePath interfaceName [])"

record AddNDPProxyPrefixOps_options =
  andpppo_mode :: string
  andpppo_interfaceRef :: string
  andpppo_disabled :: bool

definition addNDPProxyPrefixOps ::
    "string \<Rightarrow> string \<Rightarrow> AddNDPProxyPrefixOps_options \<Rightarrow> ConfigOp list" where
  "addNDPProxyPrefixOps interfaceName pfx options =
     (let base = ndpProxyPrefixPath interfaceName pfx []
      in [set_flag base]
         @ (if andpppo_mode options \<noteq> ''''
            then [set_op (base @ [''mode'']) (andpppo_mode options)]
            else [])
         @ (if js_trim (andpppo_interfaceRef options) \<noteq> ''''
            then [set_op (base @ [''interface'']) (js_trim (andpppo_interfaceRef options))]
            else [])
         @ (if andpppo_disabled options then [set_flag (base @ [''disable''])] else []))"

definition removeNDPProxyPrefixOp :: "string \<Rightarrow> string \<Rightarrow> ConfigOp" where
  "removeNDPProxyPrefixOp interfaceName pfx = delete_op (ndpProxyPrefixPath interfaceName pfx [])"

record NDPProxyGlobalFormValues =
  ndppgfv_routeRefresh :: string

definition blankNDPProxyGlobalFormValues :: NDPProxyGlobalFormValues where
  "blankNDPProxyGlobalFormValues = \<lparr>ndppgfv_routeRefresh = ''''\<rparr>"

record NdpProxyGlobalFormToOps_before =
  npgfto_routeRefresh :: "string option"

definition ndpProxyGlobalFormToOps ::
    "NdpProxyGlobalFormToOps_before \<Rightarrow> NDPProxyGlobalFormValues \<Rightarrow> ConfigOp list" where
  "ndpProxyGlobalFormToOps before values =
     (let beforeValue = or_else (npgfto_routeRefresh before) ''''
      in if beforeValue = ndppgfv_routeRefresh values then []
         else let p = ndpProxyPath [''route-refresh'']
              in if js_trim (ndppgfv_routeRefresh values) = '''' then [delete_op p]
                 else [set_op p (js_trim (ndppgfv_routeRefresh values))])"

definition enableNDPProxyOp :: ConfigOp where
  "enableNDPProxyOp = set_flag (ndpProxyPath [])"

definition disableNDPProxyOp :: ConfigOp where
  "disableNDPProxyOp = delete_op (ndpProxyPath [])"

subsection \<open>mDNS repeater types\<close>

definition MDNS_IP_VERSIONS :: "string list" where
  "MDNS_IP_VERSIONS = [''ipv4'', ''ipv6'', ''both'']"

record MdnsRepeaterConfig =
  mrc_enabled :: bool
  mrc_disabled :: bool
  mrc_interfaces :: "string list"
  mrc_ipVersion :: "string option"
  mrc_browseDomains :: "string list"
  mrc_allowServices :: "string list"
  mrc_cacheEntries :: "string option"
  mrc_vrrpDisable :: bool

definition blankMdnsRepeaterConfig :: MdnsRepeaterConfig where
  "blankMdnsRepeaterConfig =
     \<lparr>mrc_enabled = False,
       mrc_disabled = False,
       mrc_interfaces = [],
       mrc_ipVersion = None,
       mrc_browseDomains = [],
       mrc_allowServices = [],
       mrc_cacheEntries = None,
       mrc_vrrpDisable = False\<rparr>"

subsection \<open>mDNS repeater parser\<close>

definition parseMdnsRepeaterConfig :: "unknown \<Rightarrow> MdnsRepeaterConfig" where
  "parseMdnsRepeaterConfig repeater =
     (if repeater = None then blankMdnsRepeaterConfig
      else \<lparr>mrc_enabled = True,
             mrc_disabled = isFlagPresent repeater ''disable'',
             mrc_interfaces = asStringArray (child repeater ''interface''),
             mrc_ipVersion = asString (child repeater ''ip-version''),
             mrc_browseDomains = asStringArray (child repeater ''browse-domain''),
             mrc_allowServices = asStringArray (child repeater ''allow-service''),
             mrc_cacheEntries = asString (child repeater ''cache-entries''),
             mrc_vrrpDisable = isFlagPresent repeater ''vrrp-disable''\<rparr>)"

definition mdnsRepeaterPath :: "path \<Rightarrow> path" where
  "mdnsRepeaterPath rest = [''service'', ''mdns'', ''repeater''] @ rest"

subsection \<open>mDNS repeater forms\<close>

record MdnsRepeaterFormValues =
  mrfv_disabled :: bool
  mrfv_ipVersion :: string
  mrfv_cacheEntries :: string
  mrfv_vrrpDisable :: bool

definition blankMdnsRepeaterFormValues :: MdnsRepeaterFormValues where
  "blankMdnsRepeaterFormValues =
     \<lparr>mrfv_disabled = False,
       mrfv_ipVersion = '''',
       mrfv_cacheEntries = '''',
       mrfv_vrrpDisable = False\<rparr>"

definition mdnsConfigToFormValues :: "MdnsRepeaterConfig \<Rightarrow> MdnsRepeaterFormValues" where
  "mdnsConfigToFormValues config =
     \<lparr>mrfv_disabled = mrc_disabled config,
       mrfv_ipVersion = or_else (mrc_ipVersion config) '''',
       mrfv_cacheEntries = or_else (mrc_cacheEntries config) '''',
       mrfv_vrrpDisable = mrc_vrrpDisable config\<rparr>"

definition mdnsRepeaterFormToOps ::
    "MdnsRepeaterConfig \<Rightarrow> MdnsRepeaterFormValues \<Rightarrow> ConfigOp list" where
  "mdnsRepeaterFormToOps before values =
     (let beforeValues = mdnsConfigToFormValues before
      in flag_diff (mdnsRepeaterPath [''disable'']) (mrfv_disabled beforeValues)
           (mrfv_disabled values)
         @ flag_diff (mdnsRepeaterPath [''vrrp-disable'']) (mrfv_vrrpDisable beforeValues)
             (mrfv_vrrpDisable values)
         @ scalar_diff (mdnsRepeaterPath [''ip-version'']) (mrfv_ipVersion beforeValues)
             (mrfv_ipVersion values)
         @ scalar_diff (mdnsRepeaterPath [''cache-entries'']) (mrfv_cacheEntries beforeValues)
             (mrfv_cacheEntries values))"

definition enableMdnsRepeaterOp :: ConfigOp where
  "enableMdnsRepeaterOp = set_flag (mdnsRepeaterPath [])"

definition disableMdnsRepeaterOp :: ConfigOp where
  "disableMdnsRepeaterOp = delete_op (mdnsRepeaterPath [])"

subsection \<open>LLDP types\<close>

definition LLDP_MODES :: "string list" where
  "LLDP_MODES = [''disable'', ''rx-tx'', ''tx'', ''rx'']"

definition LLDP_DATUMS :: "string list" where
  "LLDP_DATUMS = [''WGS84'', ''NAD83'', ''MLLW'']"

record LLDPLocation =
  lldpl_altitude :: "string option"
  lldpl_datum :: "string option"
  lldpl_latitude :: "string option"
  lldpl_longitude :: "string option"
  lldpl_elin :: "string option"

definition blankLLDPLocation :: LLDPLocation where
  "blankLLDPLocation =
     \<lparr>lldpl_altitude = None,
       lldpl_datum = None,
       lldpl_latitude = None,
       lldpl_longitude = None,
       lldpl_elin = None\<rparr>"

record LLDPInterface =
  lldpi_interfaceName :: string
  lldpi_mode :: "string option"
  lldpi_location :: LLDPLocation

definition blankLLDPInterface :: LLDPInterface where
  "blankLLDPInterface =
     \<lparr>lldpi_interfaceName = '''',
       lldpi_mode = None,
       lldpi_location = blankLLDPLocation\<rparr>"

record LLDPConfig =
  lldpc_enabled :: bool
  lldpc_interfaces :: "LLDPInterface list"
  lldpc_legacyCdp :: bool
  lldpc_legacyEdp :: bool
  lldpc_legacyFdp :: bool
  lldpc_legacySonmp :: bool
  lldpc_managementAddresses :: "string list"
  lldpc_snmp :: bool

definition blankLLDPConfig :: LLDPConfig where
  "blankLLDPConfig =
     \<lparr>lldpc_enabled = False,
       lldpc_interfaces = [],
       lldpc_legacyCdp = False,
       lldpc_legacyEdp = False,
       lldpc_legacyFdp = False,
       lldpc_legacySonmp = False,
       lldpc_managementAddresses = [],
       lldpc_snmp = False\<rparr>"

subsection \<open>LLDP parser\<close>

definition parseLocation :: "unknown \<Rightarrow> LLDPLocation" where
  "parseLocation raw =
     (let locationRoot = child raw ''location'';
          coordRoot = child locationRoot ''coordinate-based''
      in \<lparr>lldpl_altitude = asString (child coordRoot ''altitude''),
           lldpl_datum = asString (child coordRoot ''datum''),
           lldpl_latitude = asString (child coordRoot ''latitude''),
           lldpl_longitude = asString (child coordRoot ''longitude''),
           lldpl_elin = asString (child locationRoot ''elin'')\<rparr>)"

definition parseInterface_sn3 :: "string \<Rightarrow> unknown \<Rightarrow> LLDPInterface" where
  "parseInterface_sn3 interfaceName raw =
     \<lparr>lldpi_interfaceName = interfaceName,
       lldpi_mode = asString (child raw ''mode''),
       lldpi_location = parseLocation raw\<rparr>"

definition parseLLDPConfig :: "collation \<Rightarrow> unknown \<Rightarrow> LLDPConfig" where
  "parseLLDPConfig lc lldp =
     (if lldp = None then blankLLDPConfig
      else let legacy = child lldp ''legacy-protocols''
           in \<lparr>lldpc_enabled = True,
                lldpc_interfaces = parse_entries parseInterface_sn3
                    (\<lambda>a b. lc (lldpi_interfaceName a) (lldpi_interfaceName b))
                    (child lldp ''interface''),
                lldpc_legacyCdp = isFlagPresent legacy ''cdp'',
                lldpc_legacyEdp = isFlagPresent legacy ''edp'',
                lldpc_legacyFdp = isFlagPresent legacy ''fdp'',
                lldpc_legacySonmp = isFlagPresent legacy ''sonmp'',
                lldpc_managementAddresses = asStringArray (child lldp ''management-address''),
                lldpc_snmp = isFlagPresent lldp ''snmp''\<rparr>)"

definition lldpPath :: "path \<Rightarrow> path" where
  "lldpPath rest = [''service'', ''lldp''] @ rest"

definition lldpInterfacePath :: "string \<Rightarrow> path \<Rightarrow> path" where
  "lldpInterfacePath interfaceName rest = lldpPath ([''interface'', interfaceName] @ rest)"

definition lldpInterfaceCoordinatePath :: "string \<Rightarrow> path \<Rightarrow> path" where
  "lldpInterfaceCoordinatePath interfaceName rest =
     lldpInterfacePath interfaceName ([''location'', ''coordinate-based''] @ rest)"

definition lldpInterfaceElinPath :: "string \<Rightarrow> path" where
  "lldpInterfaceElinPath interfaceName = lldpInterfacePath interfaceName [''location'', ''elin'']"

subsection \<open>LLDP forms\<close>

record LLDPInterfaceFormValues =
  lldpifv_mode :: string
  lldpifv_altitude :: string
  lldpifv_datum :: string
  lldpifv_latitude :: string
  lldpifv_longitude :: string
  lldpifv_elin :: string

definition blankLLDPInterfaceFormValues :: LLDPInterfaceFormValues where
  "blankLLDPInterfaceFormValues =
     \<lparr>lldpifv_mode = '''',
       lldpifv_altitude = '''',
       lldpifv_datum = '''',
       lldpifv_latitude = '''',
       lldpifv_longitude = '''',
       lldpifv_elin = ''''\<rparr>"

definition lldpInterfaceToFormValues :: "LLDPInterface \<Rightarrow> LLDPInterfaceFormValues" where
  "lldpInterfaceToFormValues iface =
     \<lparr>lldpifv_mode = or_else (lldpi_mode iface) '''',
       lldpifv_altitude = or_else (lldpl_altitude (lldpi_location iface)) '''',
       lldpifv_datum = or_else (lldpl_datum (lldpi_location iface)) '''',
       lldpifv_latitude = or_else (lldpl_latitude (lldpi_location iface)) '''',
       lldpifv_longitude = or_else (lldpl_longitude (lldpi_location iface)) '''',
       lldpifv_elin = or_else (lldpl_elin (lldpi_location iface)) ''''\<rparr>"

definition lldpInterfaceForm_fields :: "LLDPInterfaceFormValues scalar_field list" where
  "lldpInterfaceForm_fields =
     [(lldpifv_altitude, [''altitude'']),
      (lldpifv_datum, [''datum'']),
      (lldpifv_latitude, [''latitude'']),
      (lldpifv_longitude, [''longitude''])]"

definition lldpInterfaceFormToOps ::
    "string \<Rightarrow> LLDPInterface option \<Rightarrow> LLDPInterfaceFormValues \<Rightarrow> ConfigOp list" where
  "lldpInterfaceFormToOps interfaceName before values =
     (let beforeValues = (case before of
               Some before' \<Rightarrow> lldpInterfaceToFormValues before'
             | None \<Rightarrow> blankLLDPInterfaceFormValues);
          base = lldpInterfacePath interfaceName []
      in (if before = None then [set_flag base] else [])
         @ scalar_diff (base @ [''mode'']) (lldpifv_mode beforeValues) (lldpifv_mode values)
         @ diffToOps (lldpInterfaceCoordinatePath interfaceName []) lldpInterfaceForm_fields []
             beforeValues values
         @ scalar_diff (lldpInterfaceElinPath interfaceName) (lldpifv_elin beforeValues)
             (lldpifv_elin values))"

definition deleteLLDPInterfaceOp :: "string \<Rightarrow> ConfigOp" where
  "deleteLLDPInterfaceOp interfaceName = delete_op (lldpInterfacePath interfaceName [])"

record LLDPGeneralFormValues =
  lldpgfv_legacyCdp :: bool
  lldpgfv_legacyEdp :: bool
  lldpgfv_legacyFdp :: bool
  lldpgfv_legacySonmp :: bool
  lldpgfv_snmp :: bool

definition blankLLDPGeneralFormValues :: LLDPGeneralFormValues where
  "blankLLDPGeneralFormValues =
     \<lparr>lldpgfv_legacyCdp = False,
       lldpgfv_legacyEdp = False,
       lldpgfv_legacyFdp = False,
       lldpgfv_legacySonmp = False,
       lldpgfv_snmp = False\<rparr>"

record LldpConfigToGeneralFormValues_config =
  lctgfv_legacyCdp :: bool
  lctgfv_legacyEdp :: bool
  lctgfv_legacyFdp :: bool
  lctgfv_legacySonmp :: bool
  lctgfv_snmp :: bool

definition lldpConfigToGeneralFormValues :: "LldpConfigToGeneralFormValues_config \<Rightarrow> LLDPGeneralFormValues" where
  "lldpConfigToGeneralFormValues config =
     \<lparr>lldpgfv_legacyCdp = lctgfv_legacyCdp config,
       lldpgfv_legacyEdp = lctgfv_legacyEdp config,
       lldpgfv_legacyFdp = lctgfv_legacyFdp config,
       lldpgfv_legacySonmp = lctgfv_legacySonmp config,
       lldpgfv_snmp = lctgfv_snmp config\<rparr>"

definition lldpGeneralForm_flags :: "LLDPGeneralFormValues flag_field list" where
  "lldpGeneralForm_flags =
     [(lldpgfv_legacyCdp, lldpPath [''legacy-protocols'', ''cdp'']),
      (lldpgfv_legacyEdp, lldpPath [''legacy-protocols'', ''edp'']),
      (lldpgfv_legacyFdp, lldpPath [''legacy-protocols'', ''fdp'']),
      (lldpgfv_legacySonmp, lldpPath [''legacy-protocols'', ''sonmp'']),
      (lldpgfv_snmp, lldpPath [''snmp''])]"

definition lldpGeneralFormToOps ::
    "LLDPGeneralFormValues \<Rightarrow> LLDPGeneralFormValues \<Rightarrow> ConfigOp list" where
  "lldpGeneralFormToOps before values = diffToOps [] [] lldpGeneralForm_flags before values"

definition enableLLDPOp :: ConfigOp where
  "enableLLDPOp = set_flag (lldpPath [])"

definition disableLLDPOp :: ConfigOp where
  "disableLLDPOp = delete_op (lldpPath [])"



end
