(* ===== verification/ServiceManagement.thy ===== *)
theory ServiceManagement
  imports SavedForms
begin

text \<open>
  The management services (console server, HTTPS API, SSH, NTP, TFTP server, event handler): types,
  parsers and forms of \<open>lib/service*Types.ts\<close>, \<open>lib/service*Parse.ts\<close> and \<open>lib/service*Form.ts\<close>.
\<close>

subsection \<open>Console server types\<close>

definition CONSOLE_SPEEDS :: "string list" where
  "CONSOLE_SPEEDS =
     [''300'', ''1200'', ''2400'', ''4800'', ''9600'', ''19200'', ''38400'', ''57600'', ''115200'']"

definition CONSOLE_PARITIES :: "string list" where
  "CONSOLE_PARITIES = [''even'', ''odd'', ''none'']"

record ConsoleServerDevice =
  csd_name :: string
  csd_description :: "string option"
  csd_alias :: "string option"
  csd_speed :: "string option"
  csd_dataBits :: "string option"
  csd_stopBits :: "string option"
  csd_parity :: "string option"
  csd_sshPort :: "string option"

definition blankConsoleServerDevice :: ConsoleServerDevice where
  "blankConsoleServerDevice =
     \<lparr>csd_name = '''',
       csd_description = None,
       csd_alias = None,
       csd_speed = None,
       csd_dataBits = None,
       csd_stopBits = None,
       csd_parity = None,
       csd_sshPort = None\<rparr>"

record ConsoleServerConfig =
  smcsc_enabled :: bool
  smcsc_devices :: "ConsoleServerDevice list"

definition blankConsoleServerConfig :: ConsoleServerConfig where
  "blankConsoleServerConfig = \<lparr>smcsc_enabled = False, smcsc_devices = []\<rparr>"

subsection \<open>Console server parser\<close>

definition parseDevice :: "string \<Rightarrow> unknown \<Rightarrow> ConsoleServerDevice" where
  "parseDevice name raw =
     \<lparr>csd_name = name,
       csd_description = asString (child raw ''description''),
       csd_alias = asString (child raw ''alias''),
       csd_speed = asString (child raw ''speed''),
       csd_dataBits = asString (child raw ''data-bits''),
       csd_stopBits = asString (child raw ''stop-bits''),
       csd_parity = asString (child raw ''parity''),
       csd_sshPort = asString (child (child raw ''ssh'') ''port'')\<rparr>"

definition parseConsoleServerConfig :: "collation \<Rightarrow> unknown \<Rightarrow> ConsoleServerConfig" where
  "parseConsoleServerConfig lc consoleServer =
     (if consoleServer = None then blankConsoleServerConfig
      else \<lparr>smcsc_enabled = True,
             smcsc_devices = parse_entries parseDevice (\<lambda>a b. lc (csd_name a) (csd_name b))
                 (child consoleServer ''device'')\<rparr>)"

definition consoleServerPath :: "path \<Rightarrow> path" where
  "consoleServerPath rest = [''service'', ''console-server''] @ rest"

definition consoleServerDevicePath :: "string \<Rightarrow> path \<Rightarrow> path" where
  "consoleServerDevicePath name rest = consoleServerPath ([''device'', name] @ rest)"

subsection \<open>Console server forms\<close>

record ConsoleServerDeviceFormValues =
  csdfv_description :: string
  csdfv_alias :: string
  csdfv_speed :: string
  csdfv_dataBits :: string
  csdfv_stopBits :: string
  csdfv_parity :: string
  csdfv_sshPort :: string

definition blankConsoleServerDeviceFormValues :: ConsoleServerDeviceFormValues where
  "blankConsoleServerDeviceFormValues =
     \<lparr>csdfv_description = '''',
       csdfv_alias = '''',
       csdfv_speed = '''',
       csdfv_dataBits = '''',
       csdfv_stopBits = '''',
       csdfv_parity = '''',
       csdfv_sshPort = ''''\<rparr>"

definition consoleServerDeviceToFormValues :: "ConsoleServerDevice \<Rightarrow> ConsoleServerDeviceFormValues" where
  "consoleServerDeviceToFormValues device =
     \<lparr>csdfv_description = or_else (csd_description device) '''',
       csdfv_alias = or_else (csd_alias device) '''',
       csdfv_speed = or_else (csd_speed device) '''',
       csdfv_dataBits = or_else (csd_dataBits device) '''',
       csdfv_stopBits = or_else (csd_stopBits device) '''',
       csdfv_parity = or_else (csd_parity device) '''',
       csdfv_sshPort = or_else (csd_sshPort device) ''''\<rparr>"

definition SERVICE_CONSOLE_SERVER_SCALAR_FIELDS :: "ConsoleServerDeviceFormValues scalar_field list" where
  "SERVICE_CONSOLE_SERVER_SCALAR_FIELDS =
     [(csdfv_description, [''description'']),
      (csdfv_alias, [''alias'']),
      (csdfv_speed, [''speed'']),
      (csdfv_dataBits, [''data-bits'']),
      (csdfv_stopBits, [''stop-bits'']),
      (csdfv_parity, [''parity'']),
      (csdfv_sshPort, [''ssh'', ''port''])]"

definition consoleServerDeviceFormToOps ::
    "string \<Rightarrow> ConsoleServerDevice option \<Rightarrow> ConsoleServerDeviceFormValues \<Rightarrow> ConfigOp list" where
  "consoleServerDeviceFormToOps name before values =
     (let beforeValues = (case before of
               Some before' \<Rightarrow> consoleServerDeviceToFormValues before'
             | None \<Rightarrow> blankConsoleServerDeviceFormValues);
          base = consoleServerDevicePath name []
      in (if before = None then [set_flag base] else [])
         @ diffToOps base SERVICE_CONSOLE_SERVER_SCALAR_FIELDS [] beforeValues values)"

definition deleteConsoleServerDeviceOp :: "string \<Rightarrow> ConfigOp" where
  "deleteConsoleServerDeviceOp name = delete_op (consoleServerDevicePath name [])"

definition enableConsoleServerOp :: ConfigOp where
  "enableConsoleServerOp = set_flag (consoleServerPath [])"

definition disableConsoleServerOp :: ConfigOp where
  "disableConsoleServerOp = delete_op (consoleServerPath [])"

subsection \<open>HTTPS API types\<close>

record HTTPSAPIKey =
  httpsapik_id :: string
  httpsapik_hasKey :: bool

definition HTTPS_GRAPHQL_AUTH_TYPES :: "string list" where
  "HTTPS_GRAPHQL_AUTH_TYPES = [''key'', ''token'']"

definition HTTPS_TLS_VERSIONS :: "string list" where
  "HTTPS_TLS_VERSIONS = [''1.2'', ''1.3'']"

record HTTPSConfig =
  httpsc_enabled :: bool
  httpsc_apiKeys :: "HTTPSAPIKey list"
  httpsc_restStrict :: bool
  httpsc_graphqlIntrospection :: bool
  httpsc_graphqlAuthType :: "string option"
  httpsc_graphqlExpiration :: "string option"
  httpsc_graphqlSecretLength :: "string option"
  httpsc_graphqlCorsAllowOrigins :: "string list"
  httpsc_allowClientAddresses :: "string list"
  httpsc_enableHttpRedirect :: bool
  httpsc_listenAddresses :: "string list"
  httpsc_port :: "string option"
  httpsc_requestBodySizeLimit :: "string option"
  httpsc_caCertificate :: "string option"
  httpsc_certificate :: "string option"
  httpsc_dhParams :: "string option"
  httpsc_tlsVersions :: "string list"
  httpsc_vrf :: "string option"

definition blankHTTPSConfig :: HTTPSConfig where
  "blankHTTPSConfig =
     \<lparr>httpsc_enabled = False,
       httpsc_apiKeys = [],
       httpsc_restStrict = False,
       httpsc_graphqlIntrospection = False,
       httpsc_graphqlAuthType = None,
       httpsc_graphqlExpiration = None,
       httpsc_graphqlSecretLength = None,
       httpsc_graphqlCorsAllowOrigins = [],
       httpsc_allowClientAddresses = [],
       httpsc_enableHttpRedirect = False,
       httpsc_listenAddresses = [],
       httpsc_port = None,
       httpsc_requestBodySizeLimit = None,
       httpsc_caCertificate = None,
       httpsc_certificate = None,
       httpsc_dhParams = None,
       httpsc_tlsVersions = [],
       httpsc_vrf = None\<rparr>"

subsection \<open>HTTPS API parser\<close>

definition parseAPIKeys :: "collation \<Rightarrow> unknown \<Rightarrow> HTTPSAPIKey list" where
  "parseAPIKeys lc https =
     (let rootNode = child (child https ''api'') ''keys'';
          idRoot = child rootNode ''id''
      in parse_entries
           (\<lambda>i raw. \<lparr>httpsapik_id = i,
                  httpsapik_hasKey = child raw ''key'' \<noteq> None\<rparr>)
           (\<lambda>a b. lc (httpsapik_id a) (httpsapik_id b)) idRoot)"

definition parseHTTPSConfig :: "collation \<Rightarrow> unknown \<Rightarrow> HTTPSConfig" where
  "parseHTTPSConfig lc https =
     (if https = None then blankHTTPSConfig
      else let api = child https ''api'';
               graphql = child api ''graphql'';
               graphqlAuth = child graphql ''authentication'';
               certificates = child https ''certificates''
           in \<lparr>httpsc_enabled = True,
                httpsc_apiKeys = parseAPIKeys lc https,
                httpsc_restStrict = isFlagPresent (child api ''rest'') ''strict'',
                httpsc_graphqlIntrospection = isFlagPresent graphql ''introspection'',
                httpsc_graphqlAuthType = asString (child graphqlAuth ''type''),
                httpsc_graphqlExpiration = asString (child graphqlAuth ''expiration''),
                httpsc_graphqlSecretLength = asString (child graphqlAuth ''secret-length''),
                httpsc_graphqlCorsAllowOrigins = asStringArray (child (child graphql ''cors'')
                       ''allow-origin''),
                httpsc_allowClientAddresses = asStringArray (child (child https ''allow-client'')
                       ''address''),
                httpsc_enableHttpRedirect = isFlagPresent https ''enable-http-redirect'',
                httpsc_listenAddresses = asStringArray (child https ''listen-address''),
                httpsc_port = asString (child https ''port''),
                httpsc_requestBodySizeLimit = asString (child https ''request-body-size-limit''),
                httpsc_caCertificate = asString (child certificates ''ca-certificate''),
                httpsc_certificate = asString (child certificates ''certificate''),
                httpsc_dhParams = asString (child certificates ''dh-params''),
                httpsc_tlsVersions = asStringArray (child https ''tls-version''),
                httpsc_vrf = asString (child https ''vrf'')\<rparr>)"

definition httpsPath :: "path \<Rightarrow> path" where
  "httpsPath rest = [''service'', ''https''] @ rest"

definition httpsApiKeyPath :: "string \<Rightarrow> path \<Rightarrow> path" where
  "httpsApiKeyPath i rest = httpsPath ([''api'', ''keys'', ''id'', i] @ rest)"

definition httpsGraphqlAuthPath :: "path \<Rightarrow> path" where
  "httpsGraphqlAuthPath rest = httpsPath ([''api'', ''graphql'', ''authentication''] @ rest)"

definition httpsGraphqlCorsPath :: "path \<Rightarrow> path" where
  "httpsGraphqlCorsPath rest = httpsPath ([''api'', ''graphql'', ''cors''] @ rest)"

definition httpsAllowClientPath :: "path \<Rightarrow> path" where
  "httpsAllowClientPath rest = httpsPath ([''allow-client''] @ rest)"

definition httpsCertificatesPath :: "path \<Rightarrow> path" where
  "httpsCertificatesPath rest = httpsPath ([''certificates''] @ rest)"

subsection \<open>HTTPS API forms\<close>

record HTTPSFormValues =
  httpsfv_restStrict :: bool
  httpsfv_graphqlIntrospection :: bool
  httpsfv_enableHttpRedirect :: bool
  httpsfv_graphqlAuthType :: string
  httpsfv_graphqlExpiration :: string
  httpsfv_graphqlSecretLength :: string
  httpsfv_port :: string
  httpsfv_requestBodySizeLimit :: string
  httpsfv_caCertificate :: string
  httpsfv_certificate :: string
  httpsfv_dhParams :: string
  httpsfv_vrf :: string
  httpsfv_tlsVersions :: "string list"

definition blankHTTPSFormValues :: HTTPSFormValues where
  "blankHTTPSFormValues =
     \<lparr>httpsfv_restStrict = False,
       httpsfv_graphqlIntrospection = False,
       httpsfv_enableHttpRedirect = False,
       httpsfv_graphqlAuthType = '''',
       httpsfv_graphqlExpiration = '''',
       httpsfv_graphqlSecretLength = '''',
       httpsfv_port = '''',
       httpsfv_requestBodySizeLimit = '''',
       httpsfv_caCertificate = '''',
       httpsfv_certificate = '''',
       httpsfv_dhParams = '''',
       httpsfv_vrf = '''',
       httpsfv_tlsVersions = []\<rparr>"

definition httpsConfigToFormValues :: "HTTPSConfig \<Rightarrow> HTTPSFormValues" where
  "httpsConfigToFormValues config =
     \<lparr>httpsfv_restStrict = httpsc_restStrict config,
       httpsfv_graphqlIntrospection = httpsc_graphqlIntrospection config,
       httpsfv_enableHttpRedirect = httpsc_enableHttpRedirect config,
       httpsfv_graphqlAuthType = or_else (httpsc_graphqlAuthType config) '''',
       httpsfv_graphqlExpiration = or_else (httpsc_graphqlExpiration config) '''',
       httpsfv_graphqlSecretLength = or_else (httpsc_graphqlSecretLength config) '''',
       httpsfv_port = or_else (httpsc_port config) '''',
       httpsfv_requestBodySizeLimit = or_else (httpsc_requestBodySizeLimit config) '''',
       httpsfv_caCertificate = or_else (httpsc_caCertificate config) '''',
       httpsfv_certificate = or_else (httpsc_certificate config) '''',
       httpsfv_dhParams = or_else (httpsc_dhParams config) '''',
       httpsfv_vrf = or_else (httpsc_vrf config) '''',
       httpsfv_tlsVersions = httpsc_tlsVersions config\<rparr>"

definition SERVICE_HTTPS_FLAG_FIELDS :: "HTTPSFormValues flag_field list" where
  "SERVICE_HTTPS_FLAG_FIELDS =
     [(httpsfv_restStrict, httpsPath [''api'', ''rest'', ''strict'']),
      (httpsfv_graphqlIntrospection, httpsPath [''api'', ''graphql'', ''introspection'']),
      (httpsfv_enableHttpRedirect, httpsPath [''enable-http-redirect''])]"

definition SERVICE_HTTPS_SCALAR_FIELDS :: "HTTPSFormValues scalar_field list" where
  "SERVICE_HTTPS_SCALAR_FIELDS =
     [(httpsfv_graphqlAuthType, httpsGraphqlAuthPath [''type'']),
      (httpsfv_graphqlExpiration, httpsGraphqlAuthPath [''expiration'']),
      (httpsfv_graphqlSecretLength, httpsGraphqlAuthPath [''secret-length'']),
      (httpsfv_port, httpsPath [''port'']),
      (httpsfv_requestBodySizeLimit, httpsPath [''request-body-size-limit'']),
      (httpsfv_caCertificate, httpsCertificatesPath [''ca-certificate'']),
      (httpsfv_certificate, httpsCertificatesPath [''certificate'']),
      (httpsfv_dhParams, httpsCertificatesPath [''dh-params'']),
      (httpsfv_vrf, httpsPath [''vrf''])]"

definition httpsFormToOps :: "HTTPSConfig \<Rightarrow> HTTPSFormValues \<Rightarrow> ConfigOp list" where
  "httpsFormToOps before values =
     (let beforeValues = httpsConfigToFormValues before
      in diffToOps [] [] SERVICE_HTTPS_FLAG_FIELDS beforeValues values
         @ diffToOps [] SERVICE_HTTPS_SCALAR_FIELDS [] beforeValues values
         @ multiValueDiffOps (httpsPath [''tls-version'']) (httpsfv_tlsVersions beforeValues)
             (httpsfv_tlsVersions values))"

definition enableHTTPSOp :: ConfigOp where
  "enableHTTPSOp = set_flag (httpsPath [])"

definition disableHTTPSOp :: ConfigOp where
  "disableHTTPSOp = delete_op (httpsPath [])"

definition addHTTPSAPIKeyOp :: "string \<Rightarrow> string \<Rightarrow> ConfigOp" where
  "addHTTPSAPIKeyOp i key = set_op (httpsApiKeyPath i [] @ [''key'']) key"

definition removeHTTPSAPIKeyOp :: "string \<Rightarrow> ConfigOp" where
  "removeHTTPSAPIKeyOp i = delete_op (httpsApiKeyPath i [])"

subsection \<open>SSH types\<close>

definition SSH_LOG_LEVELS :: "string list" where
  "SSH_LOG_LEVELS = [''quiet'', ''fatal'', ''error'', ''info'', ''verbose'']"

record SSHConfig =
  sshc_enabled :: bool
  sshc_allowGroups :: "string list"
  sshc_allowUsers :: "string list"
  sshc_denyGroups :: "string list"
  sshc_denyUsers :: "string list"
  sshc_ciphers :: "string list"
  sshc_hostkeyAlgorithms :: "string list"
  sshc_pubkeyAcceptedAlgorithms :: "string list"
  sshc_keyExchangeAlgorithms :: "string list"
  sshc_macAlgorithms :: "string list"
  sshc_disableHostValidation :: bool
  sshc_disablePasswordAuthentication :: bool
  sshc_fidoPinRequired :: bool
  sshc_fidoTouchRequired :: bool
  sshc_dynamicProtectionBlockTime :: "string option"
  sshc_dynamicProtectionDetectTime :: "string option"
  sshc_dynamicProtectionThreshold :: "string option"
  sshc_dynamicProtectionAllowFrom :: "string list"
  sshc_listenAddresses :: "string list"
  sshc_loglevel :: "string option"
  sshc_ports :: "string list"
  sshc_rekeyData :: "string option"
  sshc_rekeyTime :: "string option"
  sshc_clientKeepaliveInterval :: "string option"
  sshc_trustedUserCA :: "string option"
  sshc_vrfs :: "string list"

definition blankSSHConfig :: SSHConfig where
  "blankSSHConfig =
     \<lparr>sshc_enabled = False,
       sshc_allowGroups = [],
       sshc_allowUsers = [],
       sshc_denyGroups = [],
       sshc_denyUsers = [],
       sshc_ciphers = [],
       sshc_hostkeyAlgorithms = [],
       sshc_pubkeyAcceptedAlgorithms = [],
       sshc_keyExchangeAlgorithms = [],
       sshc_macAlgorithms = [],
       sshc_disableHostValidation = False,
       sshc_disablePasswordAuthentication = False,
       sshc_fidoPinRequired = False,
       sshc_fidoTouchRequired = False,
       sshc_dynamicProtectionBlockTime = None,
       sshc_dynamicProtectionDetectTime = None,
       sshc_dynamicProtectionThreshold = None,
       sshc_dynamicProtectionAllowFrom = [],
       sshc_listenAddresses = [],
       sshc_loglevel = None,
       sshc_ports = [],
       sshc_rekeyData = None,
       sshc_rekeyTime = None,
       sshc_clientKeepaliveInterval = None,
       sshc_trustedUserCA = None,
       sshc_vrfs = []\<rparr>"

subsection \<open>SSH parser\<close>

definition parseSSHConfig :: "unknown \<Rightarrow> SSHConfig" where
  "parseSSHConfig ssh =
     (if ssh = None then blankSSHConfig
      else let accessControl = child ssh ''access-control'';
               allow = child accessControl ''allow'';
               deny = child accessControl ''deny'';
               dynamicProtection = child ssh ''dynamic-protection'';
               fido = child ssh ''fido''
           in \<lparr>sshc_enabled = True,
                sshc_allowGroups = asStringArray (child allow ''group''),
                sshc_allowUsers = asStringArray (child allow ''user''),
                sshc_denyGroups = asStringArray (child deny ''group''),
                sshc_denyUsers = asStringArray (child deny ''user''),
                sshc_ciphers = asStringArray (child ssh ''cipher''),
                sshc_hostkeyAlgorithms = asStringArray (child ssh ''hostkey-algorithm''),
                sshc_pubkeyAcceptedAlgorithms = asStringArray (child ssh
                       ''pubkey-accepted-algorithm''),
                sshc_keyExchangeAlgorithms = asStringArray (child ssh ''key-exchange''),
                sshc_macAlgorithms = asStringArray (child ssh ''mac''),
                sshc_disableHostValidation = isFlagPresent ssh ''disable-host-validation'',
                sshc_disablePasswordAuthentication = isFlagPresent ssh
                    ''disable-password-authentication'',
                sshc_fidoPinRequired = isFlagPresent fido ''pin-required'',
                sshc_fidoTouchRequired = isFlagPresent fido ''touch-required'',
                sshc_dynamicProtectionBlockTime = asString (child dynamicProtection ''block-time''),
                sshc_dynamicProtectionDetectTime = asString (child dynamicProtection ''detect-time''),
                sshc_dynamicProtectionThreshold = asString (child dynamicProtection ''threshold''),
                sshc_dynamicProtectionAllowFrom = asStringArray (child dynamicProtection
                       ''allow-from''),
                sshc_listenAddresses = asStringArray (child ssh ''listen-address''),
                sshc_loglevel = asString (child ssh ''loglevel''),
                sshc_ports = asStringArray (child ssh ''port''),
                sshc_rekeyData = asString (child (child ssh ''rekey'') ''data''),
                sshc_rekeyTime = asString (child (child ssh ''rekey'') ''time''),
                sshc_clientKeepaliveInterval = asString (child ssh ''client-keepalive-interval''),
                sshc_trustedUserCA = asString (child ssh ''trusted-user-ca''),
                sshc_vrfs = asStringArray (child ssh ''vrf'')\<rparr>)"

definition sshPath :: "path \<Rightarrow> path" where
  "sshPath rest = [''service'', ''ssh''] @ rest"

definition sshAllowPath :: "path \<Rightarrow> path" where
  "sshAllowPath rest = sshPath ([''access-control'', ''allow''] @ rest)"

definition sshDenyPath :: "path \<Rightarrow> path" where
  "sshDenyPath rest = sshPath ([''access-control'', ''deny''] @ rest)"

definition sshDynamicProtectionPath :: "path \<Rightarrow> path" where
  "sshDynamicProtectionPath rest = sshPath ([''dynamic-protection''] @ rest)"

definition sshRekeyPath :: "path \<Rightarrow> path" where
  "sshRekeyPath rest = sshPath ([''rekey''] @ rest)"

subsection \<open>SSH forms\<close>

record SSHFormValues =
  sshfv_disableHostValidation :: bool
  sshfv_disablePasswordAuthentication :: bool
  sshfv_fidoPinRequired :: bool
  sshfv_fidoTouchRequired :: bool
  sshfv_dynamicProtectionBlockTime :: string
  sshfv_dynamicProtectionDetectTime :: string
  sshfv_dynamicProtectionThreshold :: string
  sshfv_loglevel :: string
  sshfv_rekeyData :: string
  sshfv_rekeyTime :: string
  sshfv_clientKeepaliveInterval :: string
  sshfv_trustedUserCA :: string

definition blankSSHFormValues :: SSHFormValues where
  "blankSSHFormValues =
     \<lparr>sshfv_disableHostValidation = False,
       sshfv_disablePasswordAuthentication = False,
       sshfv_fidoPinRequired = False,
       sshfv_fidoTouchRequired = False,
       sshfv_dynamicProtectionBlockTime = '''',
       sshfv_dynamicProtectionDetectTime = '''',
       sshfv_dynamicProtectionThreshold = '''',
       sshfv_loglevel = '''',
       sshfv_rekeyData = '''',
       sshfv_rekeyTime = '''',
       sshfv_clientKeepaliveInterval = '''',
       sshfv_trustedUserCA = ''''\<rparr>"

definition sshConfigToFormValues :: "SSHConfig \<Rightarrow> SSHFormValues" where
  "sshConfigToFormValues config =
     \<lparr>sshfv_disableHostValidation = sshc_disableHostValidation config,
       sshfv_disablePasswordAuthentication = sshc_disablePasswordAuthentication config,
       sshfv_fidoPinRequired = sshc_fidoPinRequired config,
       sshfv_fidoTouchRequired = sshc_fidoTouchRequired config,
       sshfv_dynamicProtectionBlockTime = or_else (sshc_dynamicProtectionBlockTime config) '''',
       sshfv_dynamicProtectionDetectTime = or_else (sshc_dynamicProtectionDetectTime config) '''',
       sshfv_dynamicProtectionThreshold = or_else (sshc_dynamicProtectionThreshold config) '''',
       sshfv_loglevel = or_else (sshc_loglevel config) '''',
       sshfv_rekeyData = or_else (sshc_rekeyData config) '''',
       sshfv_rekeyTime = or_else (sshc_rekeyTime config) '''',
       sshfv_clientKeepaliveInterval = or_else (sshc_clientKeepaliveInterval config) '''',
       sshfv_trustedUserCA = or_else (sshc_trustedUserCA config) ''''\<rparr>"

definition SERVICE_SSH_FLAG_FIELDS :: "SSHFormValues flag_field list" where
  "SERVICE_SSH_FLAG_FIELDS =
     [(sshfv_disableHostValidation, sshPath [''disable-host-validation'']),
      (sshfv_disablePasswordAuthentication, sshPath [''disable-password-authentication'']),
      (sshfv_fidoPinRequired, sshPath [''fido'', ''pin-required'']),
      (sshfv_fidoTouchRequired, sshPath [''fido'', ''touch-required''])]"

definition SERVICE_SSH_SCALAR_FIELDS :: "SSHFormValues scalar_field list" where
  "SERVICE_SSH_SCALAR_FIELDS =
     [(sshfv_dynamicProtectionBlockTime, sshDynamicProtectionPath [''block-time'']),
      (sshfv_dynamicProtectionDetectTime, sshDynamicProtectionPath [''detect-time'']),
      (sshfv_dynamicProtectionThreshold, sshDynamicProtectionPath [''threshold'']),
      (sshfv_loglevel, sshPath [''loglevel'']),
      (sshfv_rekeyData, sshRekeyPath [''data'']),
      (sshfv_rekeyTime, sshRekeyPath [''time'']),
      (sshfv_clientKeepaliveInterval, sshPath [''client-keepalive-interval'']),
      (sshfv_trustedUserCA, sshPath [''trusted-user-ca''])]"

definition sshFormToOps :: "SSHConfig \<Rightarrow> SSHFormValues \<Rightarrow> ConfigOp list" where
  "sshFormToOps before values =
     (let beforeValues = sshConfigToFormValues before
      in diffToOps [] [] SERVICE_SSH_FLAG_FIELDS beforeValues values
         @ diffToOps [] SERVICE_SSH_SCALAR_FIELDS [] beforeValues values)"

definition enableSSHOp :: ConfigOp where
  "enableSSHOp = set_flag (sshPath [])"

definition disableSSHOp :: ConfigOp where
  "disableSSHOp = delete_op (sshPath [])"

subsection \<open>NTP types\<close>

record NTPServer =
  ntps_address :: string
  ntps_prefer :: bool
  ntps_pool :: bool
  ntps_noselect :: bool
  ntps_nts :: bool
  ntps_ptp :: bool
  ntps_interleave :: bool

definition NTP_LEAP_SECOND_MODES :: "string list" where
  "NTP_LEAP_SECOND_MODES = [''ignore'', ''smear'', ''system'', ''timezone'']"

record NTPConfig =
  ntpc_servers :: "NTPServer list"
  ntpc_allowClientAddresses :: "string list"
  ntpc_listenAddresses :: "string list"
  ntpc_sourceAddresses :: "string list"
  ntpc_interface :: "string option"
  ntpc_sourceInterface :: "string option"
  ntpc_vrf :: "string option"
  ntpc_leapSecond :: "string option"
  ntpc_localStratum :: "string option"

definition blankNTPConfig :: NTPConfig where
  "blankNTPConfig =
     \<lparr>ntpc_servers = [],
       ntpc_allowClientAddresses = [],
       ntpc_listenAddresses = [],
       ntpc_sourceAddresses = [],
       ntpc_interface = None,
       ntpc_sourceInterface = None,
       ntpc_vrf = None,
       ntpc_leapSecond = None,
       ntpc_localStratum = None\<rparr>"

subsection \<open>NTP parser\<close>

definition parseServer :: "string \<Rightarrow> unknown \<Rightarrow> NTPServer" where
  "parseServer address raw =
     \<lparr>ntps_address = address,
       ntps_prefer = isFlagPresent raw ''prefer'',
       ntps_pool = isFlagPresent raw ''pool'',
       ntps_noselect = isFlagPresent raw ''noselect'',
       ntps_nts = isFlagPresent raw ''nts'',
       ntps_ptp = isFlagPresent raw ''ptp'',
       ntps_interleave = isFlagPresent raw ''interleave''\<rparr>"

definition parseServers_sm :: "collation \<Rightarrow> unknown \<Rightarrow> NTPServer list" where
  "parseServers_sm lc ntp =
     (let rootNode = child ntp ''server''
      in parse_entries parseServer (\<lambda>a b. lc (ntps_address a) (ntps_address b)) rootNode)"

definition parseNTPConfig :: "collation \<Rightarrow> unknown \<Rightarrow> NTPConfig" where
  "parseNTPConfig lc ntp =
     (if ntp = None then blankNTPConfig
      else \<lparr>ntpc_servers = parseServers_sm lc ntp,
             ntpc_allowClientAddresses = asStringArray (child (child ntp ''allow-client'')
                    ''address''),
             ntpc_listenAddresses = asStringArray (child ntp ''listen-address''),
             ntpc_sourceAddresses = asStringArray (child ntp ''source-address''),
             ntpc_interface = asString (child ntp ''interface''),
             ntpc_sourceInterface = asString (child ntp ''source-interface''),
             ntpc_vrf = asString (child ntp ''vrf''),
             ntpc_leapSecond = asString (child ntp ''leap-second''),
             ntpc_localStratum = asString (child ntp ''local-stratum'')\<rparr>)"

definition ntpPath :: "path \<Rightarrow> path" where
  "ntpPath rest = [''service'', ''ntp''] @ rest"

definition ntpServerPath :: "string \<Rightarrow> path \<Rightarrow> path" where
  "ntpServerPath address rest = ntpPath ([''server'', address] @ rest)"

definition ntpAllowClientPath :: "path \<Rightarrow> path" where
  "ntpAllowClientPath rest = ntpPath ([''allow-client''] @ rest)"

subsection \<open>NTP forms\<close>

record NTPGeneralFormValues =
  ntpgfv_interface :: string
  ntpgfv_sourceInterface :: string
  ntpgfv_vrf :: string
  ntpgfv_leapSecond :: string
  ntpgfv_localStratum :: string

definition blankNTPGeneralFormValues :: NTPGeneralFormValues where
  "blankNTPGeneralFormValues =
     \<lparr>ntpgfv_interface = '''',
       ntpgfv_sourceInterface = '''',
       ntpgfv_vrf = '''',
       ntpgfv_leapSecond = '''',
       ntpgfv_localStratum = ''''\<rparr>"

definition ntpConfigToGeneralFormValues :: "NTPConfig \<Rightarrow> NTPGeneralFormValues" where
  "ntpConfigToGeneralFormValues config =
     \<lparr>ntpgfv_interface = or_else (ntpc_interface config) '''',
       ntpgfv_sourceInterface = or_else (ntpc_sourceInterface config) '''',
       ntpgfv_vrf = or_else (ntpc_vrf config) '''',
       ntpgfv_leapSecond = or_else (ntpc_leapSecond config) '''',
       ntpgfv_localStratum = or_else (ntpc_localStratum config) ''''\<rparr>"

definition SERVICE_NTP_SCALAR_FIELDS :: "NTPGeneralFormValues scalar_field list" where
  "SERVICE_NTP_SCALAR_FIELDS =
     [(ntpgfv_interface, [''interface'']),
      (ntpgfv_sourceInterface, [''source-interface'']),
      (ntpgfv_vrf, [''vrf'']),
      (ntpgfv_leapSecond, [''leap-second'']),
      (ntpgfv_localStratum, [''local-stratum''])]"

definition ntpGeneralFormToOps :: "NTPConfig \<Rightarrow> NTPGeneralFormValues \<Rightarrow> ConfigOp list" where
  "ntpGeneralFormToOps before values =
     (let beforeValues = ntpConfigToGeneralFormValues before
      in diffToOps (ntpPath []) SERVICE_NTP_SCALAR_FIELDS [] beforeValues values)"

record NTPServerFlags =
  ntpsf_prefer :: bool
  ntpsf_pool :: bool
  ntpsf_noselect :: bool
  ntpsf_nts :: bool
  ntpsf_ptp :: bool
  ntpsf_interleave :: bool

definition blankNTPServerFlags :: NTPServerFlags where
  "blankNTPServerFlags =
     \<lparr>ntpsf_prefer = False,
       ntpsf_pool = False,
       ntpsf_noselect = False,
       ntpsf_nts = False,
       ntpsf_ptp = False,
       ntpsf_interleave = False\<rparr>"

text \<open>The entries of the flags object, in the order of its fields.\<close>

definition NTP_SERVER_FLAGS :: "NTPServerFlags flag_field list" where
  "NTP_SERVER_FLAGS =
     [(ntpsf_prefer, [''prefer'']), (ntpsf_pool, [''pool'']), (ntpsf_noselect, [''noselect'']),
      (ntpsf_nts, [''nts'']), (ntpsf_ptp, [''ptp'']), (ntpsf_interleave, [''interleave''])]"

definition addNTPServerOps :: "string \<Rightarrow> NTPServerFlags \<Rightarrow> ConfigOp list" where
  "addNTPServerOps address flags =
     (let base = ntpServerPath address []
      in [set_flag base]
         @ concat (map (\<lambda>(enabled, flag). if enabled flags then [set_flag (base @ flag)] else [])
             NTP_SERVER_FLAGS))"

definition removeNTPServerOp :: "string \<Rightarrow> ConfigOp" where
  "removeNTPServerOp address = delete_op (ntpServerPath address [])"

subsection \<open>TFTP server types\<close>

record TFTPListenAddress =
  tftpla_address :: string
  tftpla_vrf :: "string option"

record TFTPServerConfig =
  tftpsc_enabled :: bool
  tftpsc_directory :: "string option"
  tftpsc_allowUpload :: bool
  tftpsc_port :: "string option"
  tftpsc_listenAddresses :: "TFTPListenAddress list"

definition blankTFTPServerConfig :: TFTPServerConfig where
  "blankTFTPServerConfig =
     \<lparr>tftpsc_enabled = False,
       tftpsc_directory = None,
       tftpsc_allowUpload = False,
       tftpsc_port = None,
       tftpsc_listenAddresses = []\<rparr>"

subsection \<open>TFTP server parser\<close>

definition parseTFTPServerConfig :: "collation \<Rightarrow> unknown \<Rightarrow> TFTPServerConfig" where
  "parseTFTPServerConfig lc tftp =
     (if tftp = None then blankTFTPServerConfig
      else \<lparr>tftpsc_enabled = True,
             tftpsc_directory = asString (child tftp ''directory''),
             tftpsc_allowUpload = isFlagPresent tftp ''allow-upload'',
             tftpsc_port = asString (child tftp ''port''),
             tftpsc_listenAddresses = parse_entries
                 (\<lambda>address raw. \<lparr>tftpla_address = address,
                        tftpla_vrf = asString (child raw ''vrf'')\<rparr>)
                 (\<lambda>a b. lc (tftpla_address a) (tftpla_address b))
                 (child tftp ''listen-address'')\<rparr>)"

definition tftpServerPath :: "path \<Rightarrow> path" where
  "tftpServerPath rest = [''service'', ''tftp-server''] @ rest"

definition tftpListenAddressPath :: "string \<Rightarrow> path \<Rightarrow> path" where
  "tftpListenAddressPath address rest = tftpServerPath ([''listen-address'', address] @ rest)"

subsection \<open>TFTP server forms\<close>

record TFTPServerFormValues =
  tftpsfv_directory :: string
  tftpsfv_allowUpload :: bool
  tftpsfv_port :: string

definition blankTFTPServerFormValues :: TFTPServerFormValues where
  "blankTFTPServerFormValues =
     \<lparr>tftpsfv_directory = '''', tftpsfv_allowUpload = False, tftpsfv_port = ''''\<rparr>"

definition tftpConfigToFormValues :: "TFTPServerConfig \<Rightarrow> TFTPServerFormValues" where
  "tftpConfigToFormValues config =
     \<lparr>tftpsfv_directory = or_else (tftpsc_directory config) '''',
       tftpsfv_allowUpload = tftpsc_allowUpload config,
       tftpsfv_port = or_else (tftpsc_port config) ''''\<rparr>"

definition tftpServerFormToOps ::
    "TFTPServerConfig \<Rightarrow> TFTPServerFormValues \<Rightarrow> ConfigOp list" where
  "tftpServerFormToOps before values =
     (let beforeValues = tftpConfigToFormValues before
      in scalar_diff (tftpServerPath [''directory'']) (tftpsfv_directory beforeValues)
           (tftpsfv_directory values)
         @ flag_diff (tftpServerPath [''allow-upload'']) (tftpsfv_allowUpload beforeValues)
             (tftpsfv_allowUpload values)
         @ scalar_diff (tftpServerPath [''port'']) (tftpsfv_port beforeValues) (tftpsfv_port values))"

definition enableTFTPServerOp :: ConfigOp where
  "enableTFTPServerOp = set_flag (tftpServerPath [])"

definition disableTFTPServerOp :: ConfigOp where
  "disableTFTPServerOp = delete_op (tftpServerPath [])"

definition addTFTPListenAddressOps :: "string \<Rightarrow> string \<Rightarrow> ConfigOp list" where
  "addTFTPListenAddressOps address vrf =
     (let base = tftpListenAddressPath address []
      in [set_flag base]
         @ (if js_trim vrf \<noteq> '''' then [set_op (base @ [''vrf'']) (js_trim vrf)] else []))"

definition removeTFTPListenAddressOp :: "string \<Rightarrow> ConfigOp" where
  "removeTFTPListenAddressOp address = delete_op (tftpListenAddressPath address [])"

subsection \<open>Event handler types\<close>

record EventHandlerEnvironmentVariable =
  ehev_name :: string
  ehev_value :: string

record EventHandlerEvent =
  ehe_name :: string
  ehe_filterPattern :: "string option"
  ehe_filterSyslogIdentifier :: "string option"
  ehe_scriptPath :: "string option"
  ehe_scriptArguments :: "string option"
  ehe_environment :: "EventHandlerEnvironmentVariable list"

definition blankEventHandlerEvent :: EventHandlerEvent where
  "blankEventHandlerEvent =
     \<lparr>ehe_name = '''',
       ehe_filterPattern = None,
       ehe_filterSyslogIdentifier = None,
       ehe_scriptPath = None,
       ehe_scriptArguments = None,
       ehe_environment = []\<rparr>"

record EventHandlerConfig =
  ehc_enabled :: bool
  ehc_events :: "EventHandlerEvent list"

definition blankEventHandlerConfig :: EventHandlerConfig where
  "blankEventHandlerConfig = \<lparr>ehc_enabled = False, ehc_events = []\<rparr>"

subsection \<open>Event handler parser\<close>

definition parseEvent ::
    "collation \<Rightarrow> string \<Rightarrow> unknown \<Rightarrow> EventHandlerEvent" where
  "parseEvent lc name raw =
     (let filterRoot = child raw ''filter'';
          scriptRoot = child raw ''script''
      in \<lparr>ehe_name = name,
           ehe_filterPattern = asString (child filterRoot ''pattern''),
           ehe_filterSyslogIdentifier = asString (child filterRoot ''syslog-identifier''),
           ehe_scriptPath = asString (child scriptRoot ''path''),
           ehe_scriptArguments = asString (child scriptRoot ''arguments''),
           ehe_environment = parse_entries
               (\<lambda>varName envRaw. \<lparr>ehev_name = varName,
                      ehev_value = or_else (asString (child envRaw ''value'')) ''''\<rparr>)
               (\<lambda>a b. lc (ehev_name a) (ehev_name b)) (child scriptRoot ''environment'')\<rparr>)"

definition parseEventHandlerConfig :: "collation \<Rightarrow> unknown \<Rightarrow> EventHandlerConfig" where
  "parseEventHandlerConfig lc eventHandler =
     (if eventHandler = None then blankEventHandlerConfig
      else \<lparr>ehc_enabled = True,
             ehc_events = parse_entries (parseEvent lc) (\<lambda>a b. lc (ehe_name a) (ehe_name b))
                 (child eventHandler ''event'')\<rparr>)"

definition eventHandlerPath :: "path \<Rightarrow> path" where
  "eventHandlerPath rest = [''service'', ''event-handler''] @ rest"

definition eventHandlerEventPath :: "string \<Rightarrow> path \<Rightarrow> path" where
  "eventHandlerEventPath name rest = eventHandlerPath ([''event'', name] @ rest)"

definition eventHandlerEnvironmentPath :: "string \<Rightarrow> path \<Rightarrow> path" where
  "eventHandlerEnvironmentPath name rest =
     eventHandlerEventPath name ([''script'', ''environment''] @ rest)"

subsection \<open>Event handler forms\<close>

record EventHandlerEventFormValues =
  ehefv_filterPattern :: string
  ehefv_filterSyslogIdentifier :: string
  ehefv_scriptPath :: string
  ehefv_scriptArguments :: string

definition blankEventHandlerEventFormValues :: EventHandlerEventFormValues where
  "blankEventHandlerEventFormValues =
     \<lparr>ehefv_filterPattern = '''',
       ehefv_filterSyslogIdentifier = '''',
       ehefv_scriptPath = '''',
       ehefv_scriptArguments = ''''\<rparr>"

definition eventHandlerEventToFormValues :: "EventHandlerEvent \<Rightarrow> EventHandlerEventFormValues" where
  "eventHandlerEventToFormValues event =
     \<lparr>ehefv_filterPattern = or_else (ehe_filterPattern event) '''',
       ehefv_filterSyslogIdentifier = or_else (ehe_filterSyslogIdentifier event) '''',
       ehefv_scriptPath = or_else (ehe_scriptPath event) '''',
       ehefv_scriptArguments = or_else (ehe_scriptArguments event) ''''\<rparr>"

definition eventHandlerEventForm_fields :: "EventHandlerEventFormValues scalar_field list" where
  "eventHandlerEventForm_fields =
     [(ehefv_filterPattern, [''filter'', ''pattern'']),
      (ehefv_filterSyslogIdentifier, [''filter'', ''syslog-identifier'']),
      (ehefv_scriptPath, [''script'', ''path'']),
      (ehefv_scriptArguments, [''script'', ''arguments''])]"

definition eventHandlerEventFormToOps ::
    "string \<Rightarrow> EventHandlerEvent option \<Rightarrow> EventHandlerEventFormValues \<Rightarrow> ConfigOp list" where
  "eventHandlerEventFormToOps name before values =
     (let beforeValues = (case before of
               Some before' \<Rightarrow> eventHandlerEventToFormValues before'
             | None \<Rightarrow> blankEventHandlerEventFormValues);
          base = eventHandlerEventPath name []
      in (if before = None then [set_flag base] else [])
         @ diffToOps base eventHandlerEventForm_fields [] beforeValues values)"

definition deleteEventHandlerEventOp :: "string \<Rightarrow> ConfigOp" where
  "deleteEventHandlerEventOp name = delete_op (eventHandlerEventPath name [])"

definition enableEventHandlerOp :: ConfigOp where
  "enableEventHandlerOp = set_flag (eventHandlerPath [])"

definition disableEventHandlerOp :: ConfigOp where
  "disableEventHandlerOp = delete_op (eventHandlerPath [])"



end
