(* ===== verification/ServiceMonitor.thy ===== *)
theory ServiceMonitor
  imports SavedForms
begin

text \<open>
  SNMP and the monitoring exporters: types, parsers and forms of \<open>lib/serviceSnmp*.ts\<close> and
  \<open>lib/serviceMonitoring*.ts\<close>.
\<close>

subsection \<open>SNMP types\<close>

definition SNMP_AUTHORIZATION_LEVELS :: "string list" where
  "SNMP_AUTHORIZATION_LEVELS = [''ro'', ''rw'']"

definition SNMP_PROTOCOLS :: "string list" where
  "SNMP_PROTOCOLS = [''udp'', ''tcp'']"

record SNMPCommunity =
  snmpc_name :: string
  snmpc_authorization :: "string option"
  snmpc_clients :: "string list"
  snmpc_networks :: "string list"

definition blankSNMPCommunity :: SNMPCommunity where
  "blankSNMPCommunity =
     \<lparr>snmpc_name = '''',
       snmpc_authorization = None,
       snmpc_clients = [],
       snmpc_networks = []\<rparr>"

record SNMPListenAddress =
  snmpla_address :: string
  snmpla_port :: "string option"

record SNMPTrapTarget =
  snmptt_address :: string
  snmptt_hasCommunity :: bool
  snmptt_port :: "string option"

record SNMPv3Group =
  snmpg_name :: string
  snmpg_mode :: "string option"
  snmpg_seclevel :: "string option"
  snmpg_view :: "string option"

record SNMPv3AuthConfig =
  snmpac_hasPassword :: bool
  snmpac_type :: "string option"

record SNMPv3PrivacyConfig =
  snmppc_hasPassword :: bool
  snmppc_type :: "string option"

record SNMPv3User =
  snmpu_name :: string
  snmpu_auth :: SNMPv3AuthConfig
  snmpu_group :: "string option"
  snmpu_mode :: "string option"
  snmpu_privacy :: SNMPv3PrivacyConfig

record SNMPv3ViewOid =
  snmpvo_oid :: string
  snmpvo_exclude :: "string list"
  snmpvo_mask :: "string option"

record SNMPv3View =
  snmpv_name :: string
  snmpv_oids :: "SNMPv3ViewOid list"

record SNMPv3TrapTarget =
  sosnmptt_address :: string
  sosnmptt_auth :: SNMPv3AuthConfig
  sosnmptt_privacy :: SNMPv3PrivacyConfig
  sosnmptt_port :: "string option"
  sosnmptt_protocol :: "string option"
  sosnmptt_type :: "string option"
  sosnmptt_user :: "string option"

record SNMPv3Config =
  snmpca_engineId :: "string option"
  snmpca_groups :: "SNMPv3Group list"
  snmpca_users :: "SNMPv3User list"
  snmpca_views :: "SNMPv3View list"
  snmpca_trapTargets :: "SNMPv3TrapTarget list"

record SNMPConfig =
  sosnmpc_enabled :: bool
  sosnmpc_communities :: "SNMPCommunity list"
  sosnmpc_contact :: "string option"
  sosnmpc_location :: "string option"
  sosnmpc_description :: "string option"
  sosnmpc_listenAddresses :: "SNMPListenAddress list"
  sosnmpc_trapSource :: "string option"
  sosnmpc_trapTargets :: "SNMPTrapTarget list"
  sosnmpc_protocol :: "string option"
  sosnmpc_v3 :: SNMPv3Config

definition blankSNMPv3Config :: SNMPv3Config where
  "blankSNMPv3Config =
     \<lparr>snmpca_engineId = None,
       snmpca_groups = [],
       snmpca_users = [],
       snmpca_views = [],
       snmpca_trapTargets = []\<rparr>"

definition blankSNMPConfig :: SNMPConfig where
  "blankSNMPConfig =
     \<lparr>sosnmpc_enabled = False,
       sosnmpc_communities = [],
       sosnmpc_contact = None,
       sosnmpc_location = None,
       sosnmpc_description = None,
       sosnmpc_listenAddresses = [],
       sosnmpc_trapSource = None,
       sosnmpc_trapTargets = [],
       sosnmpc_protocol = None,
       sosnmpc_v3 = blankSNMPv3Config\<rparr>"

definition SNMP_V3_ACCESS_MODES :: "string list" where
  "SNMP_V3_ACCESS_MODES = [''ro'', ''rw'']"

definition SNMP_V3_SECLEVELS :: "string list" where
  "SNMP_V3_SECLEVELS = [''noauth'', ''auth'', ''priv'']"

definition SNMP_V3_AUTH_TYPES :: "string list" where
  "SNMP_V3_AUTH_TYPES = [''md5'', ''sha'']"

definition SNMP_V3_PRIVACY_TYPES :: "string list" where
  "SNMP_V3_PRIVACY_TYPES = [''des'', ''aes'']"

definition SNMP_V3_TRAP_TYPES :: "string list" where
  "SNMP_V3_TRAP_TYPES = [''inform'', ''trap'']"

definition blankSNMPv3AuthConfig :: SNMPv3AuthConfig where
  "blankSNMPv3AuthConfig = \<lparr>snmpac_hasPassword = False, snmpac_type = None\<rparr>"

definition blankSNMPv3PrivacyConfig :: SNMPv3PrivacyConfig where
  "blankSNMPv3PrivacyConfig = \<lparr>snmppc_hasPassword = False, snmppc_type = None\<rparr>"

definition blankSNMPv3User :: SNMPv3User where
  "blankSNMPv3User =
     \<lparr>snmpu_name = '''',
       snmpu_auth = blankSNMPv3AuthConfig,
       snmpu_group = None,
       snmpu_mode = None,
       snmpu_privacy = blankSNMPv3PrivacyConfig\<rparr>"

definition blankSNMPv3ViewOid :: SNMPv3ViewOid where
  "blankSNMPv3ViewOid = \<lparr>snmpvo_oid = '''', snmpvo_exclude = [], snmpvo_mask = None\<rparr>"

definition blankSNMPv3View :: SNMPv3View where
  "blankSNMPv3View = \<lparr>snmpv_name = '''', snmpv_oids = []\<rparr>"

definition blankSNMPv3TrapTarget :: SNMPv3TrapTarget where
  "blankSNMPv3TrapTarget =
     \<lparr>sosnmptt_address = '''',
       sosnmptt_auth = blankSNMPv3AuthConfig,
       sosnmptt_privacy = blankSNMPv3PrivacyConfig,
       sosnmptt_port = None,
       sosnmptt_protocol = None,
       sosnmptt_type = None,
       sosnmptt_user = None\<rparr>"

subsection \<open>SNMP parser\<close>

definition parseCommunity :: "string \<Rightarrow> unknown \<Rightarrow> SNMPCommunity" where
  "parseCommunity name raw =
     \<lparr>snmpc_name = name,
       snmpc_authorization = asString (child raw ''authorization''),
       snmpc_clients = asStringArray (child raw ''client''),
       snmpc_networks = asStringArray (child raw ''network'')\<rparr>"

definition parseListenAddress :: "string \<Rightarrow> unknown \<Rightarrow> SNMPListenAddress" where
  "parseListenAddress address raw =
     \<lparr>snmpla_address = address, snmpla_port = asString (child raw ''port'')\<rparr>"

definition parseTrapTarget :: "string \<Rightarrow> unknown \<Rightarrow> SNMPTrapTarget" where
  "parseTrapTarget address raw =
     \<lparr>snmptt_address = address,
       snmptt_hasCommunity = child raw ''community'' \<noteq> None,
       snmptt_port = asString (child raw ''port'')\<rparr>"

definition parseV3Auth :: "unknown \<Rightarrow> SNMPv3AuthConfig" where
  "parseV3Auth raw =
     (let rootNode = child raw ''auth''
      in \<lparr>snmpac_hasPassword = child rootNode ''encrypted-password'' \<noteq> None
             \<or> child rootNode ''plaintext-password'' \<noteq> None,
           snmpac_type = asString (child rootNode ''type'')\<rparr>)"

definition parseV3Privacy :: "unknown \<Rightarrow> SNMPv3PrivacyConfig" where
  "parseV3Privacy raw =
     (let rootNode = child raw ''privacy''
      in \<lparr>snmppc_hasPassword = child rootNode ''encrypted-password'' \<noteq> None
             \<or> child rootNode ''plaintext-password'' \<noteq> None,
           snmppc_type = asString (child rootNode ''type'')\<rparr>)"

definition parseV3Group :: "string \<Rightarrow> unknown \<Rightarrow> SNMPv3Group" where
  "parseV3Group name raw =
     \<lparr>snmpg_name = name,
       snmpg_mode = asString (child raw ''mode''),
       snmpg_seclevel = asString (child raw ''seclevel''),
       snmpg_view = asString (child raw ''view'')\<rparr>"

definition parseV3User :: "string \<Rightarrow> unknown \<Rightarrow> SNMPv3User" where
  "parseV3User name raw =
     \<lparr>snmpu_name = name,
       snmpu_auth = parseV3Auth raw,
       snmpu_group = asString (child raw ''group''),
       snmpu_mode = asString (child raw ''mode''),
       snmpu_privacy = parseV3Privacy raw\<rparr>"

definition parseV3ViewOid :: "string \<Rightarrow> unknown \<Rightarrow> SNMPv3ViewOid" where
  "parseV3ViewOid oid raw =
     \<lparr>snmpvo_oid = oid,
       snmpvo_exclude = asStringArray (child raw ''exclude''),
       snmpvo_mask = asString (child raw ''mask'')\<rparr>"

definition parseV3View ::
    "collation \<Rightarrow> string \<Rightarrow> unknown \<Rightarrow> SNMPv3View" where
  "parseV3View lc name raw =
     \<lparr>snmpv_name = name,
       snmpv_oids = parse_entries parseV3ViewOid (\<lambda>a b. lc (snmpvo_oid a) (snmpvo_oid b))
           (child raw ''oid'')\<rparr>"

definition parseV3TrapTarget :: "string \<Rightarrow> unknown \<Rightarrow> SNMPv3TrapTarget" where
  "parseV3TrapTarget address raw =
     \<lparr>sosnmptt_address = address,
       sosnmptt_auth = parseV3Auth raw,
       sosnmptt_privacy = parseV3Privacy raw,
       sosnmptt_port = asString (child raw ''port''),
       sosnmptt_protocol = asString (child raw ''protocol''),
       sosnmptt_type = asString (child raw ''type''),
       sosnmptt_user = asString (child raw ''user'')\<rparr>"

definition parseSNMPv3Config :: "collation \<Rightarrow> unknown \<Rightarrow> SNMPv3Config" where
  "parseSNMPv3Config lc v3 =
     (if v3 = None then blankSNMPv3Config
      else \<lparr>snmpca_engineId = asString (child v3 ''engineid''),
             snmpca_groups = parse_entries parseV3Group
                 (\<lambda>a b. lc (snmpg_name a) (snmpg_name b)) (child v3 ''group''),
             snmpca_users = parse_entries parseV3User
                 (\<lambda>a b. lc (snmpu_name a) (snmpu_name b)) (child v3 ''user''),
             snmpca_views = parse_entries (parseV3View lc)
                 (\<lambda>a b. lc (snmpv_name a) (snmpv_name b)) (child v3 ''view''),
             snmpca_trapTargets = parse_entries parseV3TrapTarget
                 (\<lambda>a b. lc (sosnmptt_address a) (sosnmptt_address b))
                 (child v3 ''trap-target'')\<rparr>)"

definition parseSNMPConfig :: "collation \<Rightarrow> unknown \<Rightarrow> SNMPConfig" where
  "parseSNMPConfig lc snmp =
     (if snmp = None then blankSNMPConfig
      else \<lparr>sosnmpc_enabled = True,
             sosnmpc_communities = parse_entries parseCommunity
                 (\<lambda>a b. lc (snmpc_name a) (snmpc_name b)) (child snmp ''community''),
             sosnmpc_contact = asString (child snmp ''contact''),
             sosnmpc_location = asString (child snmp ''location''),
             sosnmpc_description = asString (child snmp ''description''),
             sosnmpc_listenAddresses = parse_entries parseListenAddress
                 (\<lambda>a b. lc (snmpla_address a) (snmpla_address b))
                 (child snmp ''listen-address''),
             sosnmpc_trapSource = asString (child snmp ''trap-source''),
             sosnmpc_trapTargets = parse_entries parseTrapTarget
                 (\<lambda>a b. lc (snmptt_address a) (snmptt_address b))
                 (child snmp ''trap-target''),
             sosnmpc_protocol = asString (child snmp ''protocol''),
             sosnmpc_v3 = parseSNMPv3Config lc (child snmp ''v3'')\<rparr>)"

definition snmpPath :: "path \<Rightarrow> path" where
  "snmpPath rest = [''service'', ''snmp''] @ rest"

definition snmpCommunityPath :: "string \<Rightarrow> path \<Rightarrow> path" where
  "snmpCommunityPath name rest = snmpPath ([''community'', name] @ rest)"

definition snmpListenAddressPath :: "string \<Rightarrow> path \<Rightarrow> path" where
  "snmpListenAddressPath address rest = snmpPath ([''listen-address'', address] @ rest)"

definition snmpTrapTargetPath :: "string \<Rightarrow> path \<Rightarrow> path" where
  "snmpTrapTargetPath address rest = snmpPath ([''trap-target'', address] @ rest)"

definition snmpV3Path :: "path \<Rightarrow> path" where
  "snmpV3Path rest = snmpPath ([''v3''] @ rest)"

definition snmpV3GroupPath :: "string \<Rightarrow> path \<Rightarrow> path" where
  "snmpV3GroupPath name rest = snmpV3Path ([''group'', name] @ rest)"

definition snmpV3UserPath :: "string \<Rightarrow> path \<Rightarrow> path" where
  "snmpV3UserPath name rest = snmpV3Path ([''user'', name] @ rest)"

definition snmpV3ViewPath :: "string \<Rightarrow> path \<Rightarrow> path" where
  "snmpV3ViewPath name rest = snmpV3Path ([''view'', name] @ rest)"

definition snmpV3ViewOidPath :: "string \<Rightarrow> string \<Rightarrow> path \<Rightarrow> path" where
  "snmpV3ViewOidPath viewName oid rest = snmpV3ViewPath viewName ([''oid'', oid] @ rest)"

definition snmpV3TrapTargetPath :: "string \<Rightarrow> path \<Rightarrow> path" where
  "snmpV3TrapTargetPath address rest = snmpV3Path ([''trap-target'', address] @ rest)"

subsection \<open>SNMP forms\<close>

record SNMPSettingsFormValues =
  snmpsfv_contact :: string
  snmpsfv_location :: string
  snmpsfv_description :: string
  snmpsfv_trapSource :: string
  snmpsfv_protocol :: string

definition blankSNMPSettingsFormValues :: SNMPSettingsFormValues where
  "blankSNMPSettingsFormValues =
     \<lparr>snmpsfv_contact = '''',
       snmpsfv_location = '''',
       snmpsfv_description = '''',
       snmpsfv_trapSource = '''',
       snmpsfv_protocol = ''''\<rparr>"

definition snmpConfigToFormValues :: "SNMPConfig \<Rightarrow> SNMPSettingsFormValues" where
  "snmpConfigToFormValues config =
     \<lparr>snmpsfv_contact = or_else (sosnmpc_contact config) '''',
       snmpsfv_location = or_else (sosnmpc_location config) '''',
       snmpsfv_description = or_else (sosnmpc_description config) '''',
       snmpsfv_trapSource = or_else (sosnmpc_trapSource config) '''',
       snmpsfv_protocol = or_else (sosnmpc_protocol config) ''''\<rparr>"

definition SERVICE_SNMP_SCALAR_FIELDS :: "SNMPSettingsFormValues scalar_field list" where
  "SERVICE_SNMP_SCALAR_FIELDS =
     [(snmpsfv_contact, [''contact'']),
      (snmpsfv_location, [''location'']),
      (snmpsfv_description, [''description'']),
      (snmpsfv_trapSource, [''trap-source'']),
      (snmpsfv_protocol, [''protocol''])]"

definition snmpSettingsFormToOps ::
    "SNMPConfig \<Rightarrow> SNMPSettingsFormValues \<Rightarrow> ConfigOp list" where
  "snmpSettingsFormToOps before values =
     (let beforeValues = snmpConfigToFormValues before
      in diffToOps (snmpPath []) SERVICE_SNMP_SCALAR_FIELDS [] beforeValues values)"

definition enableSNMPOp :: ConfigOp where
  "enableSNMPOp = set_flag (snmpPath [])"

definition disableSNMPOp :: ConfigOp where
  "disableSNMPOp = delete_op (snmpPath [])"

definition addSNMPCommunityOps :: "string \<Rightarrow> string \<Rightarrow> ConfigOp list" where
  "addSNMPCommunityOps name authorization =
     (let base = snmpCommunityPath name []
      in [set_flag base]
         @ (if authorization \<noteq> '''' then [set_op (base @ [''authorization'']) authorization]
            else []))"

definition removeSNMPCommunityOp :: "string \<Rightarrow> ConfigOp" where
  "removeSNMPCommunityOp name = delete_op (snmpCommunityPath name [])"

definition addSNMPListenAddressOps :: "string \<Rightarrow> string \<Rightarrow> ConfigOp list" where
  "addSNMPListenAddressOps address port =
     (let base = snmpListenAddressPath address []
      in [set_flag base]
         @ (if js_trim port \<noteq> '''' then [set_op (base @ [''port'']) (js_trim port)] else []))"

definition removeSNMPListenAddressOp :: "string \<Rightarrow> ConfigOp" where
  "removeSNMPListenAddressOp address = delete_op (snmpListenAddressPath address [])"

definition addSNMPTrapTargetOps ::
    "string \<Rightarrow> string \<Rightarrow> string \<Rightarrow> ConfigOp list" where
  "addSNMPTrapTargetOps address community port =
     (let base = snmpTrapTargetPath address []
      in [set_flag base]
         @ (if js_trim community \<noteq> ''''
            then [set_op (base @ [''community'']) (js_trim community)]
            else [])
         @ (if js_trim port \<noteq> '''' then [set_op (base @ [''port'']) (js_trim port)] else []))"

definition removeSNMPTrapTargetOp :: "string \<Rightarrow> ConfigOp" where
  "removeSNMPTrapTargetOp address = delete_op (snmpTrapTargetPath address [])"

definition snmpV3EngineIdFormToOps :: "string option \<Rightarrow> string \<Rightarrow> ConfigOp list" where
  "snmpV3EngineIdFormToOps before val =
     (let beforeValue = or_else before ''''
      in if beforeValue = val then []
         else let p = snmpV3Path [''engineid''];
                  trimmedValue = js_trim val
              in if trimmedValue = '''' then [delete_op p] else [set_op p trimmedValue])"

definition addSNMPv3GroupOps ::
    "string \<Rightarrow> string \<Rightarrow> string \<Rightarrow> string \<Rightarrow> ConfigOp list" where
  "addSNMPv3GroupOps name mode seclevel view =
     (let base = snmpV3GroupPath name []
      in [set_flag base]
         @ (if mode \<noteq> '''' then [set_op (base @ [''mode'']) mode] else [])
         @ (if seclevel \<noteq> '''' then [set_op (base @ [''seclevel'']) seclevel] else [])
         @ (if js_trim view \<noteq> '''' then [set_op (base @ [''view'']) (js_trim view)] else []))"

definition removeSNMPv3GroupOp :: "string \<Rightarrow> ConfigOp" where
  "removeSNMPv3GroupOp name = delete_op (snmpV3GroupPath name [])"

record SNMPv3UserFormOptions =
  snmpufo_authPassword :: string
  snmpufo_authType :: string
  snmpufo_group :: string
  snmpufo_mode :: string
  snmpufo_privacyPassword :: string
  snmpufo_privacyType :: string

definition addSNMPv3UserOps :: "string \<Rightarrow> SNMPv3UserFormOptions \<Rightarrow> ConfigOp list" where
  "addSNMPv3UserOps name options =
     (let base = snmpV3UserPath name [];
          trimmedAuthPassword = js_trim (snmpufo_authPassword options);
          trimmedPrivacyPassword = js_trim (snmpufo_privacyPassword options)
      in [set_flag base]
         @ (if js_trim (snmpufo_group options) \<noteq> ''''
            then [set_op (base @ [''group'']) (js_trim (snmpufo_group options))]
            else [])
         @ (if snmpufo_mode options \<noteq> ''''
            then [set_op (base @ [''mode'']) (snmpufo_mode options)]
            else [])
         @ (if trimmedAuthPassword \<noteq> ''''
            then [set_op (base @ [''auth'', ''plaintext-password'']) trimmedAuthPassword]
            else [])
         @ (if snmpufo_authType options \<noteq> ''''
            then [set_op (base @ [''auth'', ''type'']) (snmpufo_authType options)]
            else [])
         @ (if trimmedPrivacyPassword \<noteq> ''''
            then [set_op (base @ [''privacy'', ''plaintext-password'']) trimmedPrivacyPassword]
            else [])
         @ (if snmpufo_privacyType options \<noteq> ''''
            then [set_op (base @ [''privacy'', ''type'']) (snmpufo_privacyType options)]
            else []))"

definition removeSNMPv3UserOp :: "string \<Rightarrow> ConfigOp" where
  "removeSNMPv3UserOp name = delete_op (snmpV3UserPath name [])"

definition addSNMPv3ViewOp :: "string \<Rightarrow> ConfigOp" where
  "addSNMPv3ViewOp name = set_flag (snmpV3ViewPath name [])"

definition removeSNMPv3ViewOp :: "string \<Rightarrow> ConfigOp" where
  "removeSNMPv3ViewOp name = delete_op (snmpV3ViewPath name [])"

definition addSNMPv3ViewOidOps ::
    "string \<Rightarrow> string \<Rightarrow> string \<Rightarrow> ConfigOp list" where
  "addSNMPv3ViewOidOps viewName oid msk =
     (let base = snmpV3ViewOidPath viewName oid []
      in [set_flag base]
         @ (if js_trim msk \<noteq> '''' then [set_op (base @ [''mask'']) (js_trim msk)] else []))"

definition removeSNMPv3ViewOidOp :: "string \<Rightarrow> string \<Rightarrow> ConfigOp" where
  "removeSNMPv3ViewOidOp viewName oid = delete_op (snmpV3ViewOidPath viewName oid [])"

record SNMPv3TrapTargetFormOptions =
  snmpttfo_authPassword :: string
  snmpttfo_authType :: string
  snmpttfo_privacyPassword :: string
  snmpttfo_privacyType :: string
  snmpttfo_port :: string
  snmpttfo_protocol :: string
  snmpttfo_type :: string
  snmpttfo_user :: string

definition addSNMPv3TrapTargetOps ::
    "string \<Rightarrow> SNMPv3TrapTargetFormOptions \<Rightarrow> ConfigOp list" where
  "addSNMPv3TrapTargetOps address options =
     (let base = snmpV3TrapTargetPath address [];
          trimmedAuthPassword = js_trim (snmpttfo_authPassword options);
          trimmedPrivacyPassword = js_trim (snmpttfo_privacyPassword options)
      in [set_flag base]
         @ (if trimmedAuthPassword \<noteq> ''''
            then [set_op (base @ [''auth'', ''plaintext-password'']) trimmedAuthPassword]
            else [])
         @ (if snmpttfo_authType options \<noteq> ''''
            then [set_op (base @ [''auth'', ''type'']) (snmpttfo_authType options)]
            else [])
         @ (if trimmedPrivacyPassword \<noteq> ''''
            then [set_op (base @ [''privacy'', ''plaintext-password'']) trimmedPrivacyPassword]
            else [])
         @ (if snmpttfo_privacyType options \<noteq> ''''
            then [set_op (base @ [''privacy'', ''type'']) (snmpttfo_privacyType options)]
            else [])
         @ (if js_trim (snmpttfo_port options) \<noteq> ''''
            then [set_op (base @ [''port'']) (js_trim (snmpttfo_port options))]
            else [])
         @ (if snmpttfo_protocol options \<noteq> ''''
            then [set_op (base @ [''protocol'']) (snmpttfo_protocol options)]
            else [])
         @ (if snmpttfo_type options \<noteq> ''''
            then [set_op (base @ [''type'']) (snmpttfo_type options)]
            else [])
         @ (if js_trim (snmpttfo_user options) \<noteq> ''''
            then [set_op (base @ [''user'']) (js_trim (snmpttfo_user options))]
            else []))"

definition removeSNMPv3TrapTargetOp :: "string \<Rightarrow> ConfigOp" where
  "removeSNMPv3TrapTargetOp address = delete_op (snmpV3TrapTargetPath address [])"

subsection \<open>Monitoring types\<close>

definition PROMETHEUS_PEER_DESCRIPTION_FORMATS :: "string list" where
  "PROMETHEUS_PEER_DESCRIPTION_FORMATS = [''json'', ''plain-text'']"

record PrometheusNodeExporterConfig =
  pnec_enabled :: bool
  pnec_listenAddresses :: "string list"
  pnec_port :: "string option"
  pnec_vrf :: "string option"
  pnec_collectTextfile :: bool

definition blankPrometheusNodeExporterConfig :: PrometheusNodeExporterConfig where
  "blankPrometheusNodeExporterConfig =
     \<lparr>pnec_enabled = False,
       pnec_listenAddresses = [],
       pnec_port = None,
       pnec_vrf = None,
       pnec_collectTextfile = False\<rparr>"

record PrometheusFrrExporterConfig =
  pfec_enabled :: bool
  pfec_listenAddresses :: "string list"
  pfec_port :: "string option"
  pfec_vrf :: "string option"
  pfec_collectBgpAcceptFilteredPrefixes :: bool
  pfec_collectBgpAdvertisedPrefixes :: bool
  pfec_collectBgpPeerDescription :: "string option"
  pfec_collectBgpPeerGroup :: bool
  pfec_collectBgpPeerHostname :: bool
  pfec_collectBgpPeerType :: bool
  pfec_collectBgpL2Vpn :: bool
  pfec_collectOspfInstances :: "string list"
  pfec_collectPim :: bool
  pfec_collectDetailedRoutes :: bool

definition blankPrometheusFrrExporterConfig :: PrometheusFrrExporterConfig where
  "blankPrometheusFrrExporterConfig =
     \<lparr>pfec_enabled = False,
       pfec_listenAddresses = [],
       pfec_port = None,
       pfec_vrf = None,
       pfec_collectBgpAcceptFilteredPrefixes = False,
       pfec_collectBgpAdvertisedPrefixes = False,
       pfec_collectBgpPeerDescription = None,
       pfec_collectBgpPeerGroup = False,
       pfec_collectBgpPeerHostname = False,
       pfec_collectBgpPeerType = False,
       pfec_collectBgpL2Vpn = False,
       pfec_collectOspfInstances = [],
       pfec_collectPim = False,
       pfec_collectDetailedRoutes = False\<rparr>"

definition ZABBIX_DEBUG_LEVELS :: "string list" where
  "ZABBIX_DEBUG_LEVELS =
     [''basic'', ''critical'', ''error'', ''warning'', ''debug'', ''extended-debug'']"

record ZabbixServerActive =
  zsa_address :: string
  zsa_port :: "string option"

record ZabbixAgentConfig =
  zac_enabled :: bool
  zac_authMode :: "string option"
  zac_pskId :: "string option"
  zac_hasPskSecret :: bool
  zac_directory :: "string option"
  zac_hostName :: "string option"
  zac_bufferFlushInterval :: "string option"
  zac_bufferSize :: "string option"
  zac_debugLevel :: "string option"
  zac_logRemoteCommands :: bool
  zac_logSize :: "string option"
  zac_listenAddresses :: "string list"
  zac_port :: "string option"
  zac_servers :: "string list"
  zac_serverActive :: "ZabbixServerActive list"
  zac_timeout :: "string option"
  zac_vrf :: "string option"

definition blankZabbixAgentConfig :: ZabbixAgentConfig where
  "blankZabbixAgentConfig =
     \<lparr>zac_enabled = False,
       zac_authMode = None,
       zac_pskId = None,
       zac_hasPskSecret = False,
       zac_directory = None,
       zac_hostName = None,
       zac_bufferFlushInterval = None,
       zac_bufferSize = None,
       zac_debugLevel = None,
       zac_logRemoteCommands = False,
       zac_logSize = None,
       zac_listenAddresses = [],
       zac_port = None,
       zac_servers = [],
       zac_serverActive = [],
       zac_timeout = None,
       zac_vrf = None\<rparr>"

definition NETWORK_EVENT_LOG_LEVELS :: "string list" where
  "NETWORK_EVENT_LOG_LEVELS = [''info'', ''debug'']"

record NetworkEventConfig =
  nec_enabled :: bool
  nec_eventRoute :: bool
  nec_eventLink :: bool
  nec_eventAddr :: bool
  nec_eventNeigh :: bool
  nec_eventRule :: bool
  nec_queueSize :: "string option"
  nec_logLevel :: "string option"

definition blankNetworkEventConfig :: NetworkEventConfig where
  "blankNetworkEventConfig =
     \<lparr>nec_enabled = False,
       nec_eventRoute = False,
       nec_eventLink = False,
       nec_eventAddr = False,
       nec_eventNeigh = False,
       nec_eventRule = False,
       nec_queueSize = None,
       nec_logLevel = None\<rparr>"

record MonitoringConfig =
  mc_prometheusNodeExporter :: PrometheusNodeExporterConfig
  mc_prometheusFrrExporter :: PrometheusFrrExporterConfig
  mc_zabbixAgent :: ZabbixAgentConfig
  mc_networkEvent :: NetworkEventConfig

definition blankMonitoringConfig :: MonitoringConfig where
  "blankMonitoringConfig =
     \<lparr>mc_prometheusNodeExporter = blankPrometheusNodeExporterConfig,
       mc_prometheusFrrExporter = blankPrometheusFrrExporterConfig,
       mc_zabbixAgent = blankZabbixAgentConfig,
       mc_networkEvent = blankNetworkEventConfig\<rparr>"

subsection \<open>Monitoring parser\<close>

definition parseNodeExporter :: "unknown \<Rightarrow> PrometheusNodeExporterConfig" where
  "parseNodeExporter prometheus =
     (let rootNode = child prometheus ''node-exporter''
      in if rootNode = None then blankPrometheusNodeExporterConfig
         else \<lparr>pnec_enabled = True,
                pnec_listenAddresses = asStringArray (child rootNode ''listen-address''),
                pnec_port = asString (child rootNode ''port''),
                pnec_vrf = asString (child rootNode ''vrf''),
                pnec_collectTextfile = isFlagPresent (child rootNode ''collectors'') ''textfile''\<rparr>)"

definition parseFrrExporter :: "unknown \<Rightarrow> PrometheusFrrExporterConfig" where
  "parseFrrExporter prometheus =
     (let rootNode = child prometheus ''frr-exporter''
      in if rootNode = None then blankPrometheusFrrExporterConfig
         else let collector = child rootNode ''collector'';
                  bgp = child collector ''bgp''
              in \<lparr>pfec_enabled = True,
                   pfec_listenAddresses = asStringArray (child rootNode ''listen-address''),
                   pfec_port = asString (child rootNode ''port''),
                   pfec_vrf = asString (child rootNode ''vrf''),
                   pfec_collectBgpAcceptFilteredPrefixes = isFlagPresent bgp
                       ''accept-filtered-prefixes'',
                   pfec_collectBgpAdvertisedPrefixes = isFlagPresent bgp ''advertised-prefixes'',
                   pfec_collectBgpPeerDescription = asString (child bgp ''peer-description''),
                   pfec_collectBgpPeerGroup = isFlagPresent bgp ''peer-group'',
                   pfec_collectBgpPeerHostname = isFlagPresent bgp ''peer-hostname'',
                   pfec_collectBgpPeerType = isFlagPresent bgp ''peer-type'',
                   pfec_collectBgpL2Vpn = isFlagPresent collector ''bgp-l2-vpn'',
                   pfec_collectOspfInstances = asStringArray (child collector ''ospf-instance''),
                   pfec_collectPim = isFlagPresent collector ''pim'',
                   pfec_collectDetailedRoutes = isFlagPresent collector ''detailed-routes''\<rparr>)"

definition parseZabbixServerActive :: "string \<Rightarrow> unknown \<Rightarrow> ZabbixServerActive" where
  "parseZabbixServerActive address raw =
     \<lparr>zsa_address = address, zsa_port = asString (child raw ''port'')\<rparr>"

definition parseZabbixAgent :: "collation \<Rightarrow> unknown \<Rightarrow> ZabbixAgentConfig" where
  "parseZabbixAgent lc zabbix =
     (if zabbix = None then blankZabbixAgentConfig
      else let auth = child zabbix ''authentication'';
               psk = child auth ''psk'';
               limitsNode = child zabbix ''limits'';
               logNode = child zabbix ''log''
           in \<lparr>zac_enabled = True,
                zac_authMode = asString (child auth ''mode''),
                zac_pskId = asString (child psk ''id''),
                zac_hasPskSecret = child psk ''secret'' \<noteq> None,
                zac_directory = asString (child zabbix ''directory''),
                zac_hostName = asString (child zabbix ''host-name''),
                zac_bufferFlushInterval = asString (child limitsNode ''buffer-flush-interval''),
                zac_bufferSize = asString (child limitsNode ''buffer-size''),
                zac_debugLevel = asString (child logNode ''debug-level''),
                zac_logRemoteCommands = isFlagPresent logNode ''remote-commands'',
                zac_logSize = asString (child logNode ''size''),
                zac_listenAddresses = asStringArray (child zabbix ''listen-address''),
                zac_port = asString (child zabbix ''port''),
                zac_servers = asStringArray (child zabbix ''server''),
                zac_serverActive = parse_entries parseZabbixServerActive
                    (\<lambda>a b. lc (zsa_address a) (zsa_address b))
                    (child zabbix ''server-active''),
                zac_timeout = asString (child zabbix ''timeout''),
                zac_vrf = asString (child zabbix ''vrf'')\<rparr>)"

definition parseNetworkEvent :: "unknown \<Rightarrow> NetworkEventConfig" where
  "parseNetworkEvent networkEvent =
     (if networkEvent = None then blankNetworkEventConfig
      else let event = child networkEvent ''event''
           in \<lparr>nec_enabled = True,
                nec_eventRoute = isFlagPresent event ''route'',
                nec_eventLink = isFlagPresent event ''link'',
                nec_eventAddr = isFlagPresent event ''addr'',
                nec_eventNeigh = isFlagPresent event ''neigh'',
                nec_eventRule = isFlagPresent event ''rule'',
                nec_queueSize = asString (child networkEvent ''queue-size''),
                nec_logLevel = asString (child networkEvent ''log-level'')\<rparr>)"

definition parseMonitoringConfig :: "collation \<Rightarrow> unknown \<Rightarrow> MonitoringConfig" where
  "parseMonitoringConfig lc monitoring =
     (if monitoring = None then blankMonitoringConfig
      else let prometheus = child monitoring ''prometheus''
           in \<lparr>mc_prometheusNodeExporter = parseNodeExporter prometheus,
                mc_prometheusFrrExporter = parseFrrExporter prometheus,
                mc_zabbixAgent = parseZabbixAgent lc (child monitoring ''zabbix-agent''),
                mc_networkEvent = parseNetworkEvent (child monitoring ''network-event'')\<rparr>)"

definition monitoringPath :: "path \<Rightarrow> path" where
  "monitoringPath rest = [''service'', ''monitoring''] @ rest"

definition prometheusNodeExporterPath :: "path \<Rightarrow> path" where
  "prometheusNodeExporterPath rest = monitoringPath ([''prometheus'', ''node-exporter''] @ rest)"

definition prometheusFrrExporterPath :: "path \<Rightarrow> path" where
  "prometheusFrrExporterPath rest = monitoringPath ([''prometheus'', ''frr-exporter''] @ rest)"

definition zabbixAgentPath :: "path \<Rightarrow> path" where
  "zabbixAgentPath rest = monitoringPath ([''zabbix-agent''] @ rest)"

definition zabbixServerActivePath :: "string \<Rightarrow> path \<Rightarrow> path" where
  "zabbixServerActivePath address rest = zabbixAgentPath ([''server-active'', address] @ rest)"

definition networkEventPath :: "path \<Rightarrow> path" where
  "networkEventPath rest = monitoringPath ([''network-event''] @ rest)"

subsection \<open>Monitoring forms\<close>

record NodeExporterFormValues =
  nefv_port :: string
  nefv_vrf :: string
  nefv_collectTextfile :: bool

definition blankNodeExporterFormValues :: NodeExporterFormValues where
  "blankNodeExporterFormValues =
     \<lparr>nefv_port = '''', nefv_vrf = '''', nefv_collectTextfile = False\<rparr>"

definition nodeExporterConfigToFormValues :: "PrometheusNodeExporterConfig \<Rightarrow> NodeExporterFormValues" where
  "nodeExporterConfigToFormValues config =
     \<lparr>nefv_port = or_else (pnec_port config) '''',
       nefv_vrf = or_else (pnec_vrf config) '''',
       nefv_collectTextfile = pnec_collectTextfile config\<rparr>"

definition nodeExporterForm_fields :: "NodeExporterFormValues scalar_field list" where
  "nodeExporterForm_fields =
     [(nefv_port, [''port'']),
      (nefv_vrf, [''vrf''])]"

definition nodeExporterFormToOps ::
    "PrometheusNodeExporterConfig \<Rightarrow> NodeExporterFormValues \<Rightarrow> ConfigOp list" where
  "nodeExporterFormToOps before values =
     (let beforeValues = nodeExporterConfigToFormValues before;
          base = prometheusNodeExporterPath []
      in flag_diff (base @ [''collectors'', ''textfile'']) (nefv_collectTextfile beforeValues)
           (nefv_collectTextfile values)
         @ diffToOps base nodeExporterForm_fields [] beforeValues values)"

definition enableNodeExporterOp :: ConfigOp where
  "enableNodeExporterOp = set_flag (prometheusNodeExporterPath [])"

definition disableNodeExporterOp :: ConfigOp where
  "disableNodeExporterOp = delete_op (prometheusNodeExporterPath [])"

record FrrExporterFormValues =
  fefv_port :: string
  fefv_vrf :: string
  fefv_collectBgpAcceptFilteredPrefixes :: bool
  fefv_collectBgpAdvertisedPrefixes :: bool
  fefv_collectBgpPeerDescription :: string
  fefv_collectBgpPeerGroup :: bool
  fefv_collectBgpPeerHostname :: bool
  fefv_collectBgpPeerType :: bool
  fefv_collectBgpL2Vpn :: bool
  fefv_collectPim :: bool
  fefv_collectDetailedRoutes :: bool

definition blankFrrExporterFormValues :: FrrExporterFormValues where
  "blankFrrExporterFormValues =
     \<lparr>fefv_port = '''',
       fefv_vrf = '''',
       fefv_collectBgpAcceptFilteredPrefixes = False,
       fefv_collectBgpAdvertisedPrefixes = False,
       fefv_collectBgpPeerDescription = '''',
       fefv_collectBgpPeerGroup = False,
       fefv_collectBgpPeerHostname = False,
       fefv_collectBgpPeerType = False,
       fefv_collectBgpL2Vpn = False,
       fefv_collectPim = False,
       fefv_collectDetailedRoutes = False\<rparr>"

definition frrExporterConfigToFormValues :: "PrometheusFrrExporterConfig \<Rightarrow> FrrExporterFormValues" where
  "frrExporterConfigToFormValues config =
     \<lparr>fefv_port = or_else (pfec_port config) '''',
       fefv_vrf = or_else (pfec_vrf config) '''',
       fefv_collectBgpAcceptFilteredPrefixes = pfec_collectBgpAcceptFilteredPrefixes config,
       fefv_collectBgpAdvertisedPrefixes = pfec_collectBgpAdvertisedPrefixes config,
       fefv_collectBgpPeerDescription = or_else (pfec_collectBgpPeerDescription config) '''',
       fefv_collectBgpPeerGroup = pfec_collectBgpPeerGroup config,
       fefv_collectBgpPeerHostname = pfec_collectBgpPeerHostname config,
       fefv_collectBgpPeerType = pfec_collectBgpPeerType config,
       fefv_collectBgpL2Vpn = pfec_collectBgpL2Vpn config,
       fefv_collectPim = pfec_collectPim config,
       fefv_collectDetailedRoutes = pfec_collectDetailedRoutes config\<rparr>"

definition FRR_FLAG_FIELDS :: "FrrExporterFormValues flag_field list" where
  "FRR_FLAG_FIELDS =
     [(fefv_collectBgpAcceptFilteredPrefixes, [''collector'', ''bgp'', ''accept-filtered-prefixes'']),
      (fefv_collectBgpAdvertisedPrefixes, [''collector'', ''bgp'', ''advertised-prefixes'']),
      (fefv_collectBgpPeerGroup, [''collector'', ''bgp'', ''peer-group'']),
      (fefv_collectBgpPeerHostname, [''collector'', ''bgp'', ''peer-hostname'']),
      (fefv_collectBgpPeerType, [''collector'', ''bgp'', ''peer-type'']),
      (fefv_collectBgpL2Vpn, [''collector'', ''bgp-l2-vpn'']),
      (fefv_collectPim, [''collector'', ''pim'']),
      (fefv_collectDetailedRoutes, [''collector'', ''detailed-routes''])]"

definition frrExporterForm_fields :: "FrrExporterFormValues scalar_field list" where
  "frrExporterForm_fields =
     [(fefv_port, [''port'']),
      (fefv_vrf, [''vrf'']),
      (fefv_collectBgpPeerDescription, [''collector'', ''bgp'', ''peer-description''])]"

definition frrExporterFormToOps ::
    "PrometheusFrrExporterConfig \<Rightarrow> FrrExporterFormValues \<Rightarrow> ConfigOp list" where
  "frrExporterFormToOps before values =
     (let beforeValues = frrExporterConfigToFormValues before;
          base = prometheusFrrExporterPath []
      in diffToOps base [] FRR_FLAG_FIELDS beforeValues values
         @ diffToOps base frrExporterForm_fields [] beforeValues values)"

definition enableFrrExporterOp :: ConfigOp where
  "enableFrrExporterOp = set_flag (prometheusFrrExporterPath [])"

definition disableFrrExporterOp :: ConfigOp where
  "disableFrrExporterOp = delete_op (prometheusFrrExporterPath [])"

record ZabbixAgentFormValues =
  zafv_pskId :: string
  zafv_pskSecret :: string
  zafv_directory :: string
  zafv_hostName :: string
  zafv_bufferFlushInterval :: string
  zafv_bufferSize :: string
  zafv_debugLevel :: string
  zafv_logRemoteCommands :: bool
  zafv_logSize :: string
  zafv_port :: string
  zafv_timeout :: string
  zafv_vrf :: string

definition blankZabbixAgentFormValues :: ZabbixAgentFormValues where
  "blankZabbixAgentFormValues =
     \<lparr>zafv_pskId = '''',
       zafv_pskSecret = '''',
       zafv_directory = '''',
       zafv_hostName = '''',
       zafv_bufferFlushInterval = '''',
       zafv_bufferSize = '''',
       zafv_debugLevel = '''',
       zafv_logRemoteCommands = False,
       zafv_logSize = '''',
       zafv_port = '''',
       zafv_timeout = '''',
       zafv_vrf = ''''\<rparr>"

definition zabbixAgentConfigToFormValues :: "ZabbixAgentConfig \<Rightarrow> ZabbixAgentFormValues" where
  "zabbixAgentConfigToFormValues config =
     \<lparr>zafv_pskId = or_else (zac_pskId config) '''',
       zafv_pskSecret = '''',
       zafv_directory = or_else (zac_directory config) '''',
       zafv_hostName = or_else (zac_hostName config) '''',
       zafv_bufferFlushInterval = or_else (zac_bufferFlushInterval config) '''',
       zafv_bufferSize = or_else (zac_bufferSize config) '''',
       zafv_debugLevel = or_else (zac_debugLevel config) '''',
       zafv_logRemoteCommands = zac_logRemoteCommands config,
       zafv_logSize = or_else (zac_logSize config) '''',
       zafv_port = or_else (zac_port config) '''',
       zafv_timeout = or_else (zac_timeout config) '''',
       zafv_vrf = or_else (zac_vrf config) ''''\<rparr>"

definition zabbixAgentForm_fields :: "ZabbixAgentFormValues scalar_field list" where
  "zabbixAgentForm_fields =
     [(zafv_pskId, [''authentication'', ''psk'', ''id'']),
      (zafv_directory, [''directory'']),
      (zafv_hostName, [''host-name'']),
      (zafv_bufferFlushInterval, [''limits'', ''buffer-flush-interval'']),
      (zafv_bufferSize, [''limits'', ''buffer-size'']),
      (zafv_debugLevel, [''log'', ''debug-level'']),
      (zafv_logSize, [''log'', ''size'']),
      (zafv_port, [''port'']),
      (zafv_timeout, [''timeout'']),
      (zafv_vrf, [''vrf''])]"

definition zabbixAgentFormToOps ::
    "ZabbixAgentConfig \<Rightarrow> ZabbixAgentFormValues \<Rightarrow> ConfigOp list" where
  "zabbixAgentFormToOps before values =
     (let beforeValues = zabbixAgentConfigToFormValues before;
          base = zabbixAgentPath [];
          trimmedSecret = js_trim (zafv_pskSecret values)
      in flag_diff (base @ [''log'', ''remote-commands'']) (zafv_logRemoteCommands beforeValues)
           (zafv_logRemoteCommands values)
         @ diffToOps base zabbixAgentForm_fields [] beforeValues values
         @ (if js_trim (zafv_pskId values) \<noteq> ''''
               \<or> js_trim (zafv_pskSecret values) \<noteq> ''''
            then (if zac_authMode before \<noteq> Some ''pre-shared-secret''
                  then [set_op (base @ [''authentication'', ''mode'']) ''pre-shared-secret'']
                  else [])
            else [])
         @ (if trimmedSecret \<noteq> ''''
            then [set_op (base @ [''authentication'', ''psk'', ''secret'']) trimmedSecret]
            else []))"

definition enableZabbixAgentOp :: ConfigOp where
  "enableZabbixAgentOp = set_flag (zabbixAgentPath [])"

definition disableZabbixAgentOp :: ConfigOp where
  "disableZabbixAgentOp = delete_op (zabbixAgentPath [])"

definition addZabbixServerActiveOps :: "string \<Rightarrow> string \<Rightarrow> ConfigOp list" where
  "addZabbixServerActiveOps address port =
     (let base = zabbixServerActivePath address []
      in [set_flag base]
         @ (if js_trim port \<noteq> '''' then [set_op (base @ [''port'']) (js_trim port)] else []))"

definition removeZabbixServerActiveOp :: "string \<Rightarrow> ConfigOp" where
  "removeZabbixServerActiveOp address = delete_op (zabbixServerActivePath address [])"

record NetworkEventFormValues =
  sonefv_eventRoute :: bool
  sonefv_eventLink :: bool
  sonefv_eventAddr :: bool
  sonefv_eventNeigh :: bool
  sonefv_eventRule :: bool
  sonefv_queueSize :: string
  sonefv_logLevel :: string

definition blankNetworkEventFormValues :: NetworkEventFormValues where
  "blankNetworkEventFormValues =
     \<lparr>sonefv_eventRoute = False,
       sonefv_eventLink = False,
       sonefv_eventAddr = False,
       sonefv_eventNeigh = False,
       sonefv_eventRule = False,
       sonefv_queueSize = '''',
       sonefv_logLevel = ''''\<rparr>"

definition networkEventConfigToFormValues :: "NetworkEventConfig \<Rightarrow> NetworkEventFormValues" where
  "networkEventConfigToFormValues config =
     \<lparr>sonefv_eventRoute = nec_eventRoute config,
       sonefv_eventLink = nec_eventLink config,
       sonefv_eventAddr = nec_eventAddr config,
       sonefv_eventNeigh = nec_eventNeigh config,
       sonefv_eventRule = nec_eventRule config,
       sonefv_queueSize = or_else (nec_queueSize config) '''',
       sonefv_logLevel = or_else (nec_logLevel config) ''''\<rparr>"

definition NETWORK_EVENT_FLAG_FIELDS :: "NetworkEventFormValues flag_field list" where
  "NETWORK_EVENT_FLAG_FIELDS =
     [(sonefv_eventRoute, [''event'', ''route'']),
      (sonefv_eventLink, [''event'', ''link'']),
      (sonefv_eventAddr, [''event'', ''addr'']),
      (sonefv_eventNeigh, [''event'', ''neigh'']),
      (sonefv_eventRule, [''event'', ''rule''])]"

definition networkEventForm_fields :: "NetworkEventFormValues scalar_field list" where
  "networkEventForm_fields =
     [(sonefv_queueSize, [''queue-size'']),
      (sonefv_logLevel, [''log-level''])]"

definition networkEventFormToOps ::
    "NetworkEventConfig \<Rightarrow> NetworkEventFormValues \<Rightarrow> ConfigOp list" where
  "networkEventFormToOps before values =
     (let beforeValues = networkEventConfigToFormValues before;
          base = networkEventPath []
      in diffToOps base [] NETWORK_EVENT_FLAG_FIELDS beforeValues values
         @ diffToOps base networkEventForm_fields [] beforeValues values)"

definition enableNetworkEventOp :: ConfigOp where
  "enableNetworkEventOp = set_flag (networkEventPath [])"

definition disableNetworkEventOp :: ConfigOp where
  "disableNetworkEventOp = delete_op (networkEventPath [])"



end
