(* ===== verification/VpnAccelPpp.thy ===== *)
theory VpnAccelPpp
  imports SavedForms
begin

text \<open>
  The L2TP, PPTP and SSTP servers, which share the accel-ppp implementation: the interfaces of
  \<open>lib/vpnAccelPppTypes.ts\<close>, the parser of \<open>lib/vpnAccelPppParse.ts\<close> and the forms of
  \<open>lib/vpnAccelPppForm.ts\<close>.
\<close>

subsection \<open>Types\<close>

definition ACCEL_PPP_AUTH_MODES :: "string list" where
  "ACCEL_PPP_AUTH_MODES = [''local'', ''radius'', ''noauth'']"

definition ACCEL_PPP_PROTOCOLS :: "string list" where
  "ACCEL_PPP_PROTOCOLS = [''pap'', ''chap'', ''mschap'', ''mschap-v2'']"

definition ACCEL_PPP_MPPE_OPTIONS :: "string list" where
  "ACCEL_PPP_MPPE_OPTIONS = [''require'', ''prefer'', ''deny'']"

definition ACCEL_PPP_IP_OPTIONS :: "string list" where
  "ACCEL_PPP_IP_OPTIONS = [''deny'', ''allow'', ''prefer'', ''require'']"

definition ACCEL_PPP_LOG_LEVELS :: "string list" where
  "ACCEL_PPP_LOG_LEVELS = [''0'', ''1'', ''2'', ''3'', ''4'', ''5'']"

record AccelPppLocalUser =
  aplu_username :: string
  aplu_disabled :: bool
  aplu_hasPassword :: bool
  aplu_staticIp :: "string option"
  aplu_rateLimitUpload :: "string option"
  aplu_rateLimitDownload :: "string option"

definition blankAccelPppLocalUser :: AccelPppLocalUser where
  "blankAccelPppLocalUser =
     \<lparr>aplu_username = '''',
       aplu_disabled = False,
       aplu_hasPassword = False,
       aplu_staticIp = None,
       aplu_rateLimitUpload = None,
       aplu_rateLimitDownload = None\<rparr>"

record AccelPppClientIpPool =
  apcip_name :: string
  apcip_ranges :: "string list"
  apcip_nextPool :: "string option"

definition blankAccelPppClientIpPool :: AccelPppClientIpPool where
  "blankAccelPppClientIpPool =
     \<lparr>apcip_name = '''', apcip_ranges = [], apcip_nextPool = None\<rparr>"

record AccelPppClientIpv6PoolPrefix =
  apcipp_prefix :: string
  apcipp_mask :: "string option"

record AccelPppClientIpv6Pool =
  vaapcip_name :: string
  vaapcip_prefixes :: "AccelPppClientIpv6PoolPrefix list"

definition blankAccelPppClientIpv6Pool :: AccelPppClientIpv6Pool where
  "blankAccelPppClientIpv6Pool = \<lparr>vaapcip_name = '''', vaapcip_prefixes = []\<rparr>"

record AccelPppRadiusServer =
  aprs_address :: string
  aprs_hasKey :: bool
  aprs_port :: "string option"

record AccelPppRadius =
  apr_mode :: "string option"
  apr_servers :: "AccelPppRadiusServer list"
  apr_accountingInterimInterval :: "string option"
  apr_timeout :: "string option"
  apr_nasIdentifier :: "string option"

definition blankAccelPppRadius :: AccelPppRadius where
  "blankAccelPppRadius =
     \<lparr>apr_mode = None,
       apr_servers = [],
       apr_accountingInterimInterval = None,
       apr_timeout = None,
       apr_nasIdentifier = None\<rparr>"

record AccelPppAuthentication =
  apa_mode :: "string option"
  apa_protocols :: "string list"
  apa_localUsers :: "AccelPppLocalUser list"
  apa_radius :: AccelPppRadius

definition blankAccelPppAuthentication :: AccelPppAuthentication where
  "blankAccelPppAuthentication =
     \<lparr>apa_mode = None,
       apa_protocols = [],
       apa_localUsers = [],
       apa_radius = blankAccelPppRadius\<rparr>"

record AccelPppLimits =
  apl_connectionLimit :: "string option"
  apl_burst :: "string option"
  apl_timeout :: "string option"

record AccelPppPppOptions =
  appo_minMtu :: "string option"
  appo_mru :: "string option"
  appo_disableCcp :: bool
  appo_mppe :: "string option"
  appo_lcpEchoInterval :: "string option"
  appo_lcpEchoFailure :: "string option"
  appo_lcpEchoTimeout :: "string option"
  appo_ipv4 :: "string option"
  appo_ipv6 :: "string option"

definition blankAccelPppPppOptions :: AccelPppPppOptions where
  "blankAccelPppPppOptions =
     \<lparr>appo_minMtu = None,
       appo_mru = None,
       appo_disableCcp = False,
       appo_mppe = None,
       appo_lcpEchoInterval = None,
       appo_lcpEchoFailure = None,
       appo_lcpEchoTimeout = None,
       appo_ipv4 = None,
       appo_ipv6 = None\<rparr>"

record AccelPppExtendedScripts =
  apes_onPreUp :: "string option"
  apes_onUp :: "string option"
  apes_onDown :: "string option"
  apes_onChange :: "string option"

record L2tpIpsecSettings =
  lis_authMode :: "string option"
  lis_hasPresharedSecret :: bool
  lis_ikeLifetime :: "string option"
  lis_lifetime :: "string option"

definition blankL2tpIpsecSettings :: L2tpIpsecSettings where
  "blankL2tpIpsecSettings =
     \<lparr>lis_authMode = None,
       lis_hasPresharedSecret = False,
       lis_ikeLifetime = None,
       lis_lifetime = None\<rparr>"

record L2tpLns =
  ll_hasSharedSecret :: bool
  ll_hostName :: "string option"

definition blankL2tpLns :: L2tpLns where
  "blankL2tpLns = \<lparr>ll_hasSharedSecret = False, ll_hostName = None\<rparr>"

record SstpSsl =
  vass_caCertificate :: "string option"
  vass_certificate :: "string option"

definition blankSstpSsl :: SstpSsl where
  "blankSstpSsl = \<lparr>vass_caCertificate = None, vass_certificate = None\<rparr>"

record AccelPppConfig =
  apc_enabled :: bool
  apc_description :: "string option"
  apc_authentication :: AccelPppAuthentication
  apc_clientIpPools :: "AccelPppClientIpPool list"
  apc_clientIpv6Pools :: "AccelPppClientIpv6Pool list"
  apc_defaultPool :: "string option"
  apc_defaultIpv6Pool :: "string option"
  apc_extendedScripts :: AccelPppExtendedScripts
  apc_gatewayAddress :: "string option"
  apc_limits :: AccelPppLimits
  apc_maxConcurrentSessions :: "string option"
  apc_mtu :: "string option"
  apc_nameServers :: "string list"
  apc_pppOptions :: AccelPppPppOptions
  apc_shaperFwmark :: "string option"
  apc_snmpMasterAgent :: bool
  apc_threadCount :: "string option"
  apc_winsServers :: "string list"
  apc_logLevel :: "string option"
  apc_outsideAddress :: "string option"
  apc_ipsecSettings :: L2tpIpsecSettings
  apc_lns :: L2tpLns
  apc_ssl :: SstpSsl
  apc_port :: "string option"
  apc_hostName :: "string option"

definition blankAccelPppConfig :: AccelPppConfig where
  "blankAccelPppConfig =
     \<lparr>apc_enabled = False,
       apc_description = None,
       apc_authentication = blankAccelPppAuthentication,
       apc_clientIpPools = [],
       apc_clientIpv6Pools = [],
       apc_defaultPool = None,
       apc_defaultIpv6Pool = None,
       apc_extendedScripts = \<lparr>apes_onPreUp = None,
           apes_onUp = None,
           apes_onDown = None,
           apes_onChange = None\<rparr>,
       apc_gatewayAddress = None,
       apc_limits = \<lparr>apl_connectionLimit = None, apl_burst = None, apl_timeout = None\<rparr>,
       apc_maxConcurrentSessions = None,
       apc_mtu = None,
       apc_nameServers = [],
       apc_pppOptions = blankAccelPppPppOptions,
       apc_shaperFwmark = None,
       apc_snmpMasterAgent = False,
       apc_threadCount = None,
       apc_winsServers = [],
       apc_logLevel = None,
       apc_outsideAddress = None,
       apc_ipsecSettings = blankL2tpIpsecSettings,
       apc_lns = blankL2tpLns,
       apc_ssl = blankSstpSsl,
       apc_port = None,
       apc_hostName = None\<rparr>"

subsection \<open>Parsing\<close>

definition parseLocalUser :: "string \<Rightarrow> unknown \<Rightarrow> AccelPppLocalUser" where
  "parseLocalUser username raw =
     \<lparr>aplu_username = username,
       aplu_disabled = isFlagPresent raw ''disable'',
       aplu_hasPassword = child raw ''password'' \<noteq> None,
       aplu_staticIp = asString (child raw ''static-ip''),
       aplu_rateLimitUpload = asString (child (child raw ''rate-limit'') ''upload''),
       aplu_rateLimitDownload = asString (child (child raw ''rate-limit'') ''download'')\<rparr>"

definition parseRadiusServer :: "string \<Rightarrow> unknown \<Rightarrow> AccelPppRadiusServer" where
  "parseRadiusServer address raw =
     \<lparr>aprs_address = address,
       aprs_hasKey = child raw ''key'' \<noteq> None,
       aprs_port = asString (child raw ''port'')\<rparr>"

definition parseRadius :: "collation \<Rightarrow> unknown \<Rightarrow> AccelPppRadius" where
  "parseRadius lc raw =
     (let rootNode = child raw ''radius''
      in if rootNode = None then blankAccelPppRadius
         else \<lparr>apr_mode = None,
                apr_servers = parse_entries parseRadiusServer
                    (\<lambda>a b. lc (aprs_address a) (aprs_address b)) (child rootNode ''server''),
                apr_accountingInterimInterval = asString (child rootNode
                       ''accounting-interim-interval''),
                apr_timeout = asString (child rootNode ''timeout''),
                apr_nasIdentifier = asString (child rootNode ''nas-identifier'')\<rparr>)"

definition parseAuthentication_va :: "collation \<Rightarrow> unknown \<Rightarrow> AccelPppAuthentication" where
  "parseAuthentication_va lc raw =
     (let rootNode = child raw ''authentication''
      in \<lparr>apa_mode = asString (child rootNode ''mode''),
           apa_protocols = asStringArray (child rootNode ''protocols''),
           apa_localUsers = parse_entries parseLocalUser
               (\<lambda>a b. lc (aplu_username a) (aplu_username b))
               (child (child rootNode ''local-users'') ''username''),
           apa_radius = parseRadius lc rootNode\<rparr>)"

definition parseClientIpPool :: "string \<Rightarrow> unknown \<Rightarrow> AccelPppClientIpPool" where
  "parseClientIpPool name raw =
     \<lparr>apcip_name = name,
       apcip_ranges = asStringArray (child raw ''range''),
       apcip_nextPool = asString (child raw ''next-pool'')\<rparr>"

definition parsePrefix_va :: "unknown \<Rightarrow> AccelPppClientIpv6PoolPrefix" where
  "parsePrefix_va raw =
     \<lparr>apcipp_prefix = or_else (asString (child raw ''prefix'')) '''',
       apcipp_mask = asString (child raw ''mask'')\<rparr>"

text \<open>
  \<open>{ prefix, ...node }\<close>: the entries of the node are spread over an object that holds the prefix, and
  an entry of the node with the same key replaces its value in place.
\<close>

fun put_key :: "string \<Rightarrow> json \<Rightarrow> (string \<times> json) list \<Rightarrow> (string \<times> json) list" where
  "put_key k v [] = [(k, v)]"
| "put_key k v ((k', v') # es) = (if k = k' then (k, v) # es else (k', v') # put_key k v es)"

definition parseClientIpv6Pool :: "string \<Rightarrow> unknown \<Rightarrow> AccelPppClientIpv6Pool" where
  "parseClientIpv6Pool name raw =
     \<lparr>vaapcip_name = name,
       vaapcip_prefixes = map (\<lambda>(pfx, prefRaw).
         parsePrefix_va (Some (JObj (fold (\<lambda>(k, v). put_key k v) (entries (Some prefRaw))
           [(''prefix'', JStr pfx)])))) (entries (child raw ''prefix''))\<rparr>"

definition parsePppOptions :: "unknown \<Rightarrow> AccelPppPppOptions" where
  "parsePppOptions raw =
     (let rootNode = child raw ''ppp-options''
      in if rootNode = None then blankAccelPppPppOptions
         else \<lparr>appo_minMtu = asString (child rootNode ''min-mtu''),
                appo_mru = asString (child rootNode ''mru''),
                appo_disableCcp = isFlagPresent rootNode ''disable-ccp'',
                appo_mppe = asString (child rootNode ''mppe''),
                appo_lcpEchoInterval = asString (child rootNode ''lcp-echo-interval''),
                appo_lcpEchoFailure = asString (child rootNode ''lcp-echo-failure''),
                appo_lcpEchoTimeout = asString (child rootNode ''lcp-echo-timeout''),
                appo_ipv4 = asString (child rootNode ''ipv4''),
                appo_ipv6 = asString (child rootNode ''ipv6'')\<rparr>)"

definition parseLimits :: "unknown \<Rightarrow> AccelPppLimits" where
  "parseLimits raw =
     (let rootNode = child raw ''limits''
      in \<lparr>apl_connectionLimit = asString (child rootNode ''connection-limit''),
           apl_burst = asString (child rootNode ''burst''),
           apl_timeout = asString (child rootNode ''timeout'')\<rparr>)"

definition parseExtendedScripts :: "unknown \<Rightarrow> AccelPppExtendedScripts" where
  "parseExtendedScripts raw =
     (let rootNode = child raw ''extended-scripts''
      in \<lparr>apes_onPreUp = asString (child rootNode ''on-pre-up''),
           apes_onUp = asString (child rootNode ''on-up''),
           apes_onDown = asString (child rootNode ''on-down''),
           apes_onChange = asString (child rootNode ''on-change'')\<rparr>)"

definition parseL2tpIpsecSettings :: "unknown \<Rightarrow> L2tpIpsecSettings" where
  "parseL2tpIpsecSettings raw =
     (let rootNode = child raw ''ipsec-settings''
      in if rootNode = None then blankL2tpIpsecSettings
         else let auth = child rootNode ''authentication''
              in \<lparr>lis_authMode = asString (child auth ''mode''),
                   lis_hasPresharedSecret = child auth ''pre-shared-secret'' \<noteq> None,
                   lis_ikeLifetime = asString (child rootNode ''ike-lifetime''),
                   lis_lifetime = asString (child rootNode ''lifetime'')\<rparr>)"

definition parseL2tpLns :: "unknown \<Rightarrow> L2tpLns" where
  "parseL2tpLns raw =
     (let rootNode = child raw ''lns''
      in if rootNode = None then blankL2tpLns
         else \<lparr>ll_hasSharedSecret = child rootNode ''shared-secret'' \<noteq> None,
                ll_hostName = asString (child rootNode ''host-name'')\<rparr>)"

definition parseSstpSsl :: "unknown \<Rightarrow> SstpSsl" where
  "parseSstpSsl raw =
     (let rootNode = child raw ''ssl''
      in if rootNode = None then blankSstpSsl
         else \<lparr>vass_caCertificate = asString (child rootNode ''ca-certificate''),
                vass_certificate = asString (child rootNode ''certificate'')\<rparr>)"

definition parseAccelPppConfig ::
    "collation \<Rightarrow> string \<Rightarrow> unknown \<Rightarrow> AccelPppConfig" where
  "parseAccelPppConfig lc kind top1 =
     (if top1 = None then blankAccelPppConfig
      else let rootNode = (if kind = ''sstp'' then top1 else child top1 ''remote-access'')
           in if rootNode = None then blankAccelPppConfig
              else \<lparr>apc_enabled = True,
                     apc_description = asString (child rootNode ''description''),
                     apc_authentication = parseAuthentication_va lc rootNode,
                     apc_clientIpPools = parse_entries parseClientIpPool
                         (\<lambda>a b. lc (apcip_name a) (apcip_name b))
                         (child rootNode ''client-ip-pool''),
                     apc_clientIpv6Pools = parse_entries parseClientIpv6Pool
                         (\<lambda>a b. lc (vaapcip_name a) (vaapcip_name b))
                         (child rootNode ''client-ipv6-pool''),
                     apc_defaultPool = asString (child rootNode ''default-pool''),
                     apc_defaultIpv6Pool = asString (child rootNode ''default-ipv6-pool''),
                     apc_extendedScripts = parseExtendedScripts rootNode,
                     apc_gatewayAddress = asString (child rootNode ''gateway-address''),
                     apc_limits = parseLimits rootNode,
                     apc_maxConcurrentSessions = asString (child rootNode
                            ''max-concurrent-sessions''),
                     apc_mtu = asString (child rootNode ''mtu''),
                     apc_nameServers = asStringArray (child rootNode ''name-server''),
                     apc_pppOptions = parsePppOptions rootNode,
                     apc_shaperFwmark = asString (child (child rootNode ''shaper'') ''fwmark''),
                     apc_snmpMasterAgent = isFlagPresent (child rootNode ''snmp'') ''master-agent'',
                     apc_threadCount = asString (child rootNode ''thread-count''),
                     apc_winsServers = asStringArray (child rootNode ''wins-server''),
                     apc_logLevel = asString (child (child rootNode ''log'') ''level''),
                     apc_outsideAddress = (if kind = ''sstp'' then None
                        else asString (child rootNode ''outside-address'')),
                     apc_ipsecSettings = (if kind = ''l2tp'' then parseL2tpIpsecSettings rootNode
                        else blankL2tpIpsecSettings),
                     apc_lns = (if kind = ''l2tp'' then parseL2tpLns rootNode else blankL2tpLns),
                     apc_ssl = (if kind = ''sstp'' then parseSstpSsl rootNode else blankSstpSsl),
                     apc_port = (if kind = ''sstp'' then asString (child rootNode ''port'')
                        else None),
                     apc_hostName = (if kind = ''sstp'' then asString (child rootNode ''host-name'')
                        else None)\<rparr>)"

definition accelPppKindPath :: "string \<Rightarrow> path \<Rightarrow> path" where
  "accelPppKindPath kind rest = [''vpn'', kind] @ rest"

definition accelPppBasePath :: "string \<Rightarrow> path \<Rightarrow> path" where
  "accelPppBasePath kind rest =
     (if kind = ''sstp'' then accelPppKindPath kind rest
      else accelPppKindPath kind ([''remote-access''] @ rest))"

definition accelPppAuthPath :: "string \<Rightarrow> path \<Rightarrow> path" where
  "accelPppAuthPath kind rest = accelPppBasePath kind ([''authentication''] @ rest)"

definition accelPppLocalUserPath :: "string \<Rightarrow> string \<Rightarrow> path \<Rightarrow> path" where
  "accelPppLocalUserPath kind username rest =
     accelPppAuthPath kind ([''local-users'', ''username'', username] @ rest)"

definition accelPppRadiusServerPath :: "string \<Rightarrow> string \<Rightarrow> path \<Rightarrow> path" where
  "accelPppRadiusServerPath kind address rest =
     accelPppAuthPath kind ([''radius'', ''server'', address] @ rest)"

definition accelPppClientIpPoolPath :: "string \<Rightarrow> string \<Rightarrow> path \<Rightarrow> path" where
  "accelPppClientIpPoolPath kind name rest =
     accelPppBasePath kind ([''client-ip-pool'', name] @ rest)"

definition accelPppClientIpv6PoolPath :: "string \<Rightarrow> string \<Rightarrow> path \<Rightarrow> path" where
  "accelPppClientIpv6PoolPath kind name rest =
     accelPppBasePath kind ([''client-ipv6-pool'', name] @ rest)"

definition accelPppClientIpv6PoolPrefixPath ::
    "string \<Rightarrow> string \<Rightarrow> string \<Rightarrow> path \<Rightarrow> path" where
  "accelPppClientIpv6PoolPrefixPath kind name pfx rest =
     accelPppClientIpv6PoolPath kind name ([''prefix'', pfx] @ rest)"

definition accelPppPppOptionsPath :: "string \<Rightarrow> path \<Rightarrow> path" where
  "accelPppPppOptionsPath kind rest = accelPppBasePath kind ([''ppp-options''] @ rest)"

definition accelPppLimitsPath :: "string \<Rightarrow> path \<Rightarrow> path" where
  "accelPppLimitsPath kind rest = accelPppBasePath kind ([''limits''] @ rest)"

definition accelPppExtendedScriptsPath :: "string \<Rightarrow> path \<Rightarrow> path" where
  "accelPppExtendedScriptsPath kind rest = accelPppBasePath kind ([''extended-scripts''] @ rest)"

definition l2tpIpsecSettingsPath :: "path \<Rightarrow> path" where
  "l2tpIpsecSettingsPath rest = accelPppBasePath ''l2tp'' ([''ipsec-settings''] @ rest)"

definition l2tpIpsecAuthPath :: "path \<Rightarrow> path" where
  "l2tpIpsecAuthPath rest = l2tpIpsecSettingsPath ([''authentication''] @ rest)"

definition l2tpLnsPath :: "path \<Rightarrow> path" where
  "l2tpLnsPath rest = accelPppBasePath ''l2tp'' ([''lns''] @ rest)"

definition sstpSslPath :: "path \<Rightarrow> path" where
  "sstpSslPath rest = accelPppBasePath ''sstp'' ([''ssl''] @ rest)"

subsection \<open>Forms\<close>

definition enableAccelPppOp :: "string \<Rightarrow> ConfigOp" where
  "enableAccelPppOp kind = set_flag (accelPppKindPath kind [])"

definition disableAccelPppOp :: "string \<Rightarrow> ConfigOp" where
  "disableAccelPppOp kind = delete_op (accelPppKindPath kind [])"

record AccelPppLocalUserFormOptions =
  aplufo_password :: string
  aplufo_staticIp :: string
  aplufo_rateLimitUpload :: string
  aplufo_rateLimitDownload :: string

definition addAccelPppLocalUserOps ::
    "string \<Rightarrow> string \<Rightarrow> AccelPppLocalUserFormOptions \<Rightarrow> ConfigOp list" where
  "addAccelPppLocalUserOps kind username options =
     (let base = accelPppLocalUserPath kind username [];
          trimmedPassword = js_trim (aplufo_password options)
      in [set_flag base]
         @ (if trimmedPassword \<noteq> '''' then [set_op (base @ [''password'']) trimmedPassword]
            else [])
         @ (if js_trim (aplufo_staticIp options) \<noteq> ''''
            then [set_op (base @ [''static-ip'']) (js_trim (aplufo_staticIp options))]
            else [])
         @ (if js_trim (aplufo_rateLimitUpload options) \<noteq> ''''
            then [set_op (base @ [''rate-limit'', ''upload''])
                    (js_trim (aplufo_rateLimitUpload options))]
            else [])
         @ (if js_trim (aplufo_rateLimitDownload options) \<noteq> ''''
            then [set_op (base @ [''rate-limit'', ''download''])
                    (js_trim (aplufo_rateLimitDownload options))]
            else []))"

definition removeAccelPppLocalUserOp :: "string \<Rightarrow> string \<Rightarrow> ConfigOp" where
  "removeAccelPppLocalUserOp kind username = delete_op (accelPppLocalUserPath kind username [])"

definition toggleAccelPppLocalUserDisabledOp :: "string \<Rightarrow> string \<Rightarrow> bool \<Rightarrow> ConfigOp" where
  "toggleAccelPppLocalUserDisabledOp kind username disabled =
     (let p = accelPppLocalUserPath kind username [''disable'']
      in if disabled then set_flag p else delete_op p)"

definition addAccelPppRadiusServerOps ::
    "string \<Rightarrow> string \<Rightarrow> string \<Rightarrow> string \<Rightarrow> ConfigOp list" where
  "addAccelPppRadiusServerOps kind address key port =
     (let base = accelPppRadiusServerPath kind address [];
          trimmedKey = js_trim key
      in [set_flag base]
         @ (if trimmedKey \<noteq> '''' then [set_op (base @ [''key'']) trimmedKey] else [])
         @ (if js_trim port \<noteq> '''' then [set_op (base @ [''port'']) (js_trim port)] else []))"

definition removeAccelPppRadiusServerOp :: "string \<Rightarrow> string \<Rightarrow> ConfigOp" where
  "removeAccelPppRadiusServerOp kind address = delete_op (accelPppRadiusServerPath kind address [])"

record AddAccelPppClientIpPoolOps_options =
  aapcipo_ranges :: "string list"
  aapcipo_nextPool :: string

definition addAccelPppClientIpPoolOps ::
    "string \<Rightarrow> string \<Rightarrow> AddAccelPppClientIpPoolOps_options \<Rightarrow> ConfigOp list" where
  "addAccelPppClientIpPoolOps kind name options =
     (let base = accelPppClientIpPoolPath kind name []
      in [set_flag base]
         @ concat (map (\<lambda>rangeNode. [set_op (base @ [''range'']) rangeNode])
                (aapcipo_ranges options))
         @ (if js_trim (aapcipo_nextPool options) \<noteq> ''''
            then [set_op (base @ [''next-pool'']) (js_trim (aapcipo_nextPool options))]
            else []))"

definition removeAccelPppClientIpPoolOp :: "string \<Rightarrow> string \<Rightarrow> ConfigOp" where
  "removeAccelPppClientIpPoolOp kind name = delete_op (accelPppClientIpPoolPath kind name [])"

definition removeAccelPppClientIpv6PoolOp :: "string \<Rightarrow> string \<Rightarrow> ConfigOp" where
  "removeAccelPppClientIpv6PoolOp kind name = delete_op (accelPppClientIpv6PoolPath kind name [])"

definition addAccelPppClientIpv6PoolPrefixOps ::
    "string \<Rightarrow> string \<Rightarrow> string \<Rightarrow> string \<Rightarrow> ConfigOp list" where
  "addAccelPppClientIpv6PoolPrefixOps kind poolName pfx msk =
     (let base = accelPppClientIpv6PoolPrefixPath kind poolName pfx []
      in [set_flag base]
         @ (if js_trim msk \<noteq> '''' then [set_op (base @ [''mask'']) (js_trim msk)] else []))"

definition removeAccelPppClientIpv6PoolPrefixOp :: "string \<Rightarrow> string \<Rightarrow> string \<Rightarrow> ConfigOp" where
  "removeAccelPppClientIpv6PoolPrefixOp kind poolName pfx =
     delete_op (accelPppClientIpv6PoolPrefixPath kind poolName pfx [])"

record AccelPppSettingsFormValues =
  apsfv_description :: string
  apsfv_authMode :: string
  apsfv_authProtocols :: "string list"
  apsfv_defaultPool :: string
  apsfv_defaultIpv6Pool :: string
  apsfv_gatewayAddress :: string
  apsfv_connectionLimit :: string
  apsfv_burst :: string
  apsfv_limitsTimeout :: string
  apsfv_maxConcurrentSessions :: string
  apsfv_mtu :: string
  apsfv_minMtu :: string
  apsfv_mru :: string
  apsfv_disableCcp :: bool
  apsfv_mppe :: string
  apsfv_lcpEchoInterval :: string
  apsfv_lcpEchoFailure :: string
  apsfv_lcpEchoTimeout :: string
  apsfv_ipv4 :: string
  apsfv_ipv6 :: string
  apsfv_shaperFwmark :: string
  apsfv_snmpMasterAgent :: bool
  apsfv_threadCount :: string
  apsfv_logLevel :: string
  apsfv_onPreUp :: string
  apsfv_onUp :: string
  apsfv_onDown :: string
  apsfv_onChange :: string
  apsfv_radiusAccountingInterimInterval :: string
  apsfv_radiusTimeout :: string
  apsfv_radiusNasIdentifier :: string
  apsfv_outsideAddress :: string
  apsfv_ipsecAuthMode :: string
  apsfv_hasIpsecPresharedSecret :: string
  apsfv_ikeLifetime :: string
  apsfv_espLifetime :: string
  apsfv_hasLnsSharedSecret :: string
  apsfv_lnsHostName :: string
  apsfv_caCertificate :: string
  apsfv_certificate :: string
  apsfv_port :: string
  apsfv_sstpHostName :: string

definition blankAccelPppSettingsFormValues :: AccelPppSettingsFormValues where
  "blankAccelPppSettingsFormValues =
     \<lparr>apsfv_description = '''',
       apsfv_authMode = '''',
       apsfv_authProtocols = [],
       apsfv_defaultPool = '''',
       apsfv_defaultIpv6Pool = '''',
       apsfv_gatewayAddress = '''',
       apsfv_connectionLimit = '''',
       apsfv_burst = '''',
       apsfv_limitsTimeout = '''',
       apsfv_maxConcurrentSessions = '''',
       apsfv_mtu = '''',
       apsfv_minMtu = '''',
       apsfv_mru = '''',
       apsfv_disableCcp = False,
       apsfv_mppe = '''',
       apsfv_lcpEchoInterval = '''',
       apsfv_lcpEchoFailure = '''',
       apsfv_lcpEchoTimeout = '''',
       apsfv_ipv4 = '''',
       apsfv_ipv6 = '''',
       apsfv_shaperFwmark = '''',
       apsfv_snmpMasterAgent = False,
       apsfv_threadCount = '''',
       apsfv_logLevel = '''',
       apsfv_onPreUp = '''',
       apsfv_onUp = '''',
       apsfv_onDown = '''',
       apsfv_onChange = '''',
       apsfv_radiusAccountingInterimInterval = '''',
       apsfv_radiusTimeout = '''',
       apsfv_radiusNasIdentifier = '''',
       apsfv_outsideAddress = '''',
       apsfv_ipsecAuthMode = '''',
       apsfv_hasIpsecPresharedSecret = '''',
       apsfv_ikeLifetime = '''',
       apsfv_espLifetime = '''',
       apsfv_hasLnsSharedSecret = '''',
       apsfv_lnsHostName = '''',
       apsfv_caCertificate = '''',
       apsfv_certificate = '''',
       apsfv_port = '''',
       apsfv_sstpHostName = ''''\<rparr>"

definition accelPppConfigToSettingsFormValues :: "AccelPppConfig \<Rightarrow> AccelPppSettingsFormValues" where
  "accelPppConfigToSettingsFormValues config =
     \<lparr>apsfv_description = or_else (apc_description config) '''',
       apsfv_authMode = or_else (apa_mode (apc_authentication config)) '''',
       apsfv_authProtocols = apa_protocols (apc_authentication config),
       apsfv_defaultPool = or_else (apc_defaultPool config) '''',
       apsfv_defaultIpv6Pool = or_else (apc_defaultIpv6Pool config) '''',
       apsfv_gatewayAddress = or_else (apc_gatewayAddress config) '''',
       apsfv_connectionLimit = or_else (apl_connectionLimit (apc_limits config)) '''',
       apsfv_burst = or_else (apl_burst (apc_limits config)) '''',
       apsfv_limitsTimeout = or_else (apl_timeout (apc_limits config)) '''',
       apsfv_maxConcurrentSessions = or_else (apc_maxConcurrentSessions config) '''',
       apsfv_mtu = or_else (apc_mtu config) '''',
       apsfv_minMtu = or_else (appo_minMtu (apc_pppOptions config)) '''',
       apsfv_mru = or_else (appo_mru (apc_pppOptions config)) '''',
       apsfv_disableCcp = appo_disableCcp (apc_pppOptions config),
       apsfv_mppe = or_else (appo_mppe (apc_pppOptions config)) '''',
       apsfv_lcpEchoInterval = or_else (appo_lcpEchoInterval (apc_pppOptions config)) '''',
       apsfv_lcpEchoFailure = or_else (appo_lcpEchoFailure (apc_pppOptions config)) '''',
       apsfv_lcpEchoTimeout = or_else (appo_lcpEchoTimeout (apc_pppOptions config)) '''',
       apsfv_ipv4 = or_else (appo_ipv4 (apc_pppOptions config)) '''',
       apsfv_ipv6 = or_else (appo_ipv6 (apc_pppOptions config)) '''',
       apsfv_shaperFwmark = or_else (apc_shaperFwmark config) '''',
       apsfv_snmpMasterAgent = apc_snmpMasterAgent config,
       apsfv_threadCount = or_else (apc_threadCount config) '''',
       apsfv_logLevel = or_else (apc_logLevel config) '''',
       apsfv_onPreUp = or_else (apes_onPreUp (apc_extendedScripts config)) '''',
       apsfv_onUp = or_else (apes_onUp (apc_extendedScripts config)) '''',
       apsfv_onDown = or_else (apes_onDown (apc_extendedScripts config)) '''',
       apsfv_onChange = or_else (apes_onChange (apc_extendedScripts config)) '''',
       apsfv_radiusAccountingInterimInterval = or_else
           (apr_accountingInterimInterval (apa_radius (apc_authentication config))) '''',
       apsfv_radiusTimeout = or_else (apr_timeout (apa_radius (apc_authentication config))) '''',
       apsfv_radiusNasIdentifier = or_else
           (apr_nasIdentifier (apa_radius (apc_authentication config))) '''',
       apsfv_outsideAddress = or_else (apc_outsideAddress config) '''',
       apsfv_ipsecAuthMode = or_else (lis_authMode (apc_ipsecSettings config)) '''',
       apsfv_hasIpsecPresharedSecret = '''',
       apsfv_ikeLifetime = or_else (lis_ikeLifetime (apc_ipsecSettings config)) '''',
       apsfv_espLifetime = or_else (lis_lifetime (apc_ipsecSettings config)) '''',
       apsfv_hasLnsSharedSecret = '''',
       apsfv_lnsHostName = or_else (ll_hostName (apc_lns config)) '''',
       apsfv_caCertificate = or_else (vass_caCertificate (apc_ssl config)) '''',
       apsfv_certificate = or_else (vass_certificate (apc_ssl config)) '''',
       apsfv_port = or_else (apc_port config) '''',
       apsfv_sstpHostName = or_else (apc_hostName config) ''''\<rparr>"

text \<open>
  The fields that exist for the kind of server (\<open>l2tp\<close>, \<open>pptp\<close> or \<open>sstp\<close>) being edited, by their
  full paths.
\<close>

definition accelPppSettingsForm_flags :: "string \<Rightarrow> AccelPppSettingsFormValues flag_field list" where
  "accelPppSettingsForm_flags kind =
     [(apsfv_disableCcp, accelPppBasePath kind [''ppp-options'', ''disable-ccp'']),
      (apsfv_snmpMasterAgent, accelPppBasePath kind [''snmp'', ''master-agent''])]"

definition accelPppSettingsForm_fields :: "string \<Rightarrow> AccelPppSettingsFormValues scalar_field list" where
  "accelPppSettingsForm_fields kind =
     [(apsfv_description, accelPppBasePath kind [''description'']),
      (apsfv_authMode, accelPppAuthPath kind [''mode'']),
      (apsfv_defaultPool, accelPppBasePath kind [''default-pool'']),
      (apsfv_defaultIpv6Pool, accelPppBasePath kind [''default-ipv6-pool'']),
      (apsfv_gatewayAddress, accelPppBasePath kind [''gateway-address'']),
      (apsfv_connectionLimit, accelPppBasePath kind [''limits'', ''connection-limit'']),
      (apsfv_burst, accelPppBasePath kind [''limits'', ''burst'']),
      (apsfv_limitsTimeout, accelPppBasePath kind [''limits'', ''timeout'']),
      (apsfv_maxConcurrentSessions, accelPppBasePath kind [''max-concurrent-sessions'']),
      (apsfv_mtu, accelPppBasePath kind [''mtu'']),
      (apsfv_minMtu, accelPppBasePath kind [''ppp-options'', ''min-mtu'']),
      (apsfv_mru, accelPppBasePath kind [''ppp-options'', ''mru'']),
      (apsfv_mppe, accelPppBasePath kind [''ppp-options'', ''mppe'']),
      (apsfv_lcpEchoInterval, accelPppBasePath kind [''ppp-options'', ''lcp-echo-interval'']),
      (apsfv_lcpEchoFailure, accelPppBasePath kind [''ppp-options'', ''lcp-echo-failure'']),
      (apsfv_lcpEchoTimeout, accelPppBasePath kind [''ppp-options'', ''lcp-echo-timeout'']),
      (apsfv_ipv4, accelPppBasePath kind [''ppp-options'', ''ipv4'']),
      (apsfv_ipv6, accelPppBasePath kind [''ppp-options'', ''ipv6'']),
      (apsfv_shaperFwmark, accelPppBasePath kind [''shaper'', ''fwmark'']),
      (apsfv_threadCount, accelPppBasePath kind [''thread-count'']),
      (apsfv_logLevel, accelPppBasePath kind [''log'', ''level'']),
      (apsfv_onPreUp, accelPppBasePath kind [''extended-scripts'', ''on-pre-up'']),
      (apsfv_onUp, accelPppBasePath kind [''extended-scripts'', ''on-up'']),
      (apsfv_onDown, accelPppBasePath kind [''extended-scripts'', ''on-down'']),
      (apsfv_onChange, accelPppBasePath kind [''extended-scripts'', ''on-change'']),
      (apsfv_radiusAccountingInterimInterval, accelPppAuthPath kind [''radius'', ''accounting-interim-interval'']),
      (apsfv_radiusTimeout, accelPppAuthPath kind [''radius'', ''timeout'']),
      (apsfv_radiusNasIdentifier, accelPppAuthPath kind [''radius'', ''nas-identifier''])]
     @ (if kind \<noteq> ''sstp'' then [(apsfv_outsideAddress, accelPppBasePath kind [''outside-address''])] else [])
     @ (if kind = ''l2tp''
        then [(apsfv_ipsecAuthMode, l2tpIpsecAuthPath [''mode'']),
              (apsfv_ikeLifetime, l2tpIpsecSettingsPath [''ike-lifetime'']),
              (apsfv_espLifetime, l2tpIpsecSettingsPath [''lifetime'']),
              (apsfv_lnsHostName, l2tpLnsPath [''host-name''])]
        else [])
     @ (if kind = ''sstp''
        then [(apsfv_caCertificate, sstpSslPath [''ca-certificate'']),
              (apsfv_certificate, sstpSslPath [''certificate'']),
              (apsfv_port, accelPppBasePath kind [''port'']),
              (apsfv_sstpHostName, accelPppBasePath kind [''host-name''])]
        else [])"

definition accelPppSettingsFormToOps ::
    "string \<Rightarrow> AccelPppConfig \<Rightarrow> AccelPppSettingsFormValues \<Rightarrow> ConfigOp list" where
  "accelPppSettingsFormToOps kind before values =
     (let beforeValues = accelPppConfigToSettingsFormValues before;
          protocolsPath = accelPppAuthPath kind [''protocols''];
          trimmedIpsecSecret = js_trim (apsfv_hasIpsecPresharedSecret values);
          trimmedLnsSecret = js_trim (apsfv_hasLnsSharedSecret values)
      in diffToOps [] [] (accelPppSettingsForm_flags kind) beforeValues values
         @ diffToOps [] (accelPppSettingsForm_fields kind) [] beforeValues values
         @ (if apsfv_authProtocols values = [] \<and> apsfv_authProtocols beforeValues \<noteq> []
            then [delete_op protocolsPath]
            else multiValueDiffOps protocolsPath (apsfv_authProtocols beforeValues)
                   (apsfv_authProtocols values))
         @ (if kind = ''l2tp'' \<and> trimmedIpsecSecret \<noteq> ''''
            then [set_op (l2tpIpsecAuthPath [''pre-shared-secret'']) trimmedIpsecSecret] else [])
         @ (if kind = ''l2tp'' \<and> trimmedLnsSecret \<noteq> ''''
            then [set_op (l2tpLnsPath [''shared-secret'']) trimmedLnsSecret] else []))"



end
