(* ===== verification/VpnIpsec.thy ===== *)
theory VpnIpsec
  imports SavedForms
begin

text \<open>
  IPsec: the interfaces of \<open>lib/vpnIpsecTypes.ts\<close>, the parser of \<open>lib/vpnIpsecParse.ts\<close> and the forms
  of \<open>lib/vpnIpsecForm.ts\<close>.
\<close>

subsection \<open>Types\<close>

definition IPSEC_SECRET_TYPES :: "string list" where
  "IPSEC_SECRET_TYPES = [''plaintext'', ''base64'', ''hex'']"

record IPsecPsk =
  ipp_name :: string
  ipp_ids :: "string list"
  ipp_hasSecret :: bool
  ipp_secretType :: "string option"
  ipp_dhcpInterfaces :: "string list"

definition blankIPsecPsk :: IPsecPsk where
  "blankIPsecPsk =
     \<lparr>ipp_name = '''',
       ipp_ids = [],
       ipp_hasSecret = False,
       ipp_secretType = None,
       ipp_dhcpInterfaces = []\<rparr>"

record IPsecPpk =
  viipp_name :: string
  viipp_ids :: "string list"
  viipp_hasSecret :: bool
  viipp_secretType :: "string option"

definition blankIPsecPpk :: IPsecPpk where
  "blankIPsecPpk =
     \<lparr>viipp_name = '''',
       viipp_ids = [],
       viipp_hasSecret = False,
       viipp_secretType = None\<rparr>"

record IPsecPpkReference =
  ippr_id :: "string option"
  ippr_required :: bool

definition blankIPsecPpkReference :: IPsecPpkReference where
  "blankIPsecPpkReference = \<lparr>ippr_id = None, ippr_required = False\<rparr>"

definition IPSEC_ESP_MODES :: "string list" where
  "IPSEC_ESP_MODES = [''tunnel'', ''transport'']"

definition IPSEC_PFS_OPTIONS :: "string list" where
  "IPSEC_PFS_OPTIONS =
     [''enable'', ''disable'', ''dh-group1'', ''dh-group2'', ''dh-group5'', ''dh-group14'',
      ''dh-group15'', ''dh-group16'', ''dh-group17'', ''dh-group18'', ''dh-group19'',
      ''dh-group20'', ''dh-group21'', ''dh-group22'', ''dh-group23'', ''dh-group24'',
      ''dh-group25'', ''dh-group26'', ''dh-group27'', ''dh-group28'', ''dh-group29'',
      ''dh-group30'', ''dh-group31'', ''dh-group32'', ''dh-group33'', ''dh-group34'',
      ''dh-group35'']"

definition IPSEC_ENCRYPTION_CIPHERS :: "string list" where
  "IPSEC_ENCRYPTION_CIPHERS =
     [''null'', ''aes128'', ''aes192'', ''aes256'', ''aes128ctr'', ''aes192ctr'', ''aes256ctr'',
      ''aes128ccm64'', ''aes192ccm64'', ''aes256ccm64'', ''aes128ccm96'', ''aes192ccm96'',
      ''aes256ccm96'', ''aes128ccm128'', ''aes192ccm128'', ''aes256ccm128'', ''aes128gcm64'',
      ''aes192gcm64'', ''aes256gcm64'', ''aes128gcm96'', ''aes192gcm96'', ''aes256gcm96'',
      ''aes128gcm128'', ''aes192gcm128'', ''aes256gcm128'', ''aes128gmac'', ''aes192gmac'',
      ''aes256gmac'', ''3des'', ''blowfish128'', ''blowfish192'', ''blowfish256'', ''camellia128'',
      ''camellia192'', ''camellia256'', ''camellia128ctr'', ''camellia192ctr'', ''camellia256ctr'',
      ''camellia128ccm64'', ''camellia192ccm64'', ''camellia256ccm64'', ''camellia128ccm96'',
      ''camellia192ccm96'', ''camellia256ccm96'', ''camellia128ccm128'', ''camellia192ccm128'',
      ''camellia256ccm128'', ''serpent128'', ''serpent192'', ''serpent256'', ''twofish128'',
      ''twofish192'', ''twofish256'', ''cast128'', ''chacha20poly1305'']"

definition IPSEC_HASH_ALGORITHMS :: "string list" where
  "IPSEC_HASH_ALGORITHMS =
     [''md5'', ''md5_128'', ''sha1'', ''sha1_160'', ''sha256'', ''sha256_96'', ''sha384'', ''sha512'',
      ''aesxcbc'', ''aescmac'', ''aes128gmac'', ''aes192gmac'', ''aes256gmac'']"

definition IPSEC_ESN_OPTIONS :: "string list" where
  "IPSEC_ESN_OPTIONS = [''optional'', ''required'', ''disabled'']"

definition IPSEC_PRF_ALGORITHMS :: "string list" where
  "IPSEC_PRF_ALGORITHMS =
     [''prfmd5'', ''prfsha1'', ''prfaesxcbc'', ''prfaescmac'', ''prfsha256'', ''prfsha384'',
      ''prfsha512'']"

definition IPSEC_DH_GROUPS :: "string list" where
  "IPSEC_DH_GROUPS =
     [''1'', ''2'', ''5'', ''14'', ''15'', ''16'', ''17'', ''18'', ''19'', ''20'', ''21'', ''22'',
      ''23'', ''24'', ''25'', ''26'', ''27'', ''28'', ''29'', ''30'', ''31'', ''32'', ''33'',
      ''34'', ''35'']"

record IPsecEspProposal =
  ipep_id :: string
  ipep_encryption :: "string option"
  ipep_hash :: "string option"
  ipep_esn :: "string option"

record IPsecEspGroup =
  ipeg_name :: string
  ipeg_compression :: bool
  ipeg_lifetime :: "string option"
  ipeg_lifeBytes :: "string option"
  ipeg_lifePackets :: "string option"
  ipeg_disableRekey :: bool
  ipeg_mode :: "string option"
  ipeg_pfs :: "string option"
  ipeg_proposals :: "IPsecEspProposal list"

definition blankIPsecEspGroup :: IPsecEspGroup where
  "blankIPsecEspGroup =
     \<lparr>ipeg_name = '''',
       ipeg_compression = False,
       ipeg_lifetime = None,
       ipeg_lifeBytes = None,
       ipeg_lifePackets = None,
       ipeg_disableRekey = False,
       ipeg_mode = None,
       ipeg_pfs = None,
       ipeg_proposals = []\<rparr>"

record IPsecIkeProposal =
  ipip_id :: string
  ipip_dhGroup :: "string option"
  ipip_prf :: "string option"
  ipip_encryption :: "string option"
  ipip_hash :: "string option"
  ipip_esn :: "string option"

definition IPSEC_CLOSE_ACTIONS :: "string list" where
  "IPSEC_CLOSE_ACTIONS = [''none'', ''trap'', ''start'']"

definition IPSEC_DPD_ACTIONS :: "string list" where
  "IPSEC_DPD_ACTIONS = [''trap'', ''clear'', ''restart'']"

definition IPSEC_IKE_MODES :: "string list" where
  "IPSEC_IKE_MODES = [''main'', ''aggressive'']"

definition IPSEC_KEY_EXCHANGE_VERSIONS :: "string list" where
  "IPSEC_KEY_EXCHANGE_VERSIONS = [''ikev1'', ''ikev2'']"

record IPsecIkeGroup =
  ipig_name :: string
  ipig_closeAction :: "string option"
  ipig_dpdAction :: "string option"
  ipig_dpdInterval :: "string option"
  ipig_dpdTimeout :: "string option"
  ipig_ikev2Reauth :: bool
  ipig_keyExchange :: "string option"
  ipig_lifetime :: "string option"
  ipig_disableMobike :: bool
  ipig_mode :: "string option"
  ipig_proposals :: "IPsecIkeProposal list"

definition blankIPsecIkeGroup :: IPsecIkeGroup where
  "blankIPsecIkeGroup =
     \<lparr>ipig_name = '''',
       ipig_closeAction = None,
       ipig_dpdAction = None,
       ipig_dpdInterval = None,
       ipig_dpdTimeout = None,
       ipig_ikev2Reauth = False,
       ipig_keyExchange = None,
       ipig_lifetime = None,
       ipig_disableMobike = False,
       ipig_mode = None,
       ipig_proposals = []\<rparr>"

definition IPSEC_PEER_AUTH_MODES :: "string list" where
  "IPSEC_PEER_AUTH_MODES = [''pre-shared-secret'', ''rsa'', ''x509'']"

definition IPSEC_CHILDLESS_OPTIONS :: "string list" where
  "IPSEC_CHILDLESS_OPTIONS = [''allow'', ''prefer'', ''force'', ''never'']"

definition IPSEC_CONNECTION_TYPES :: "string list" where
  "IPSEC_CONNECTION_TYPES = [''initiate'', ''trap'', ''none'']"

definition IPSEC_IKEV2_REAUTH_OPTIONS :: "string list" where
  "IPSEC_IKEV2_REAUTH_OPTIONS = [''yes'', ''no'', ''inherit'']"

record IPsecX509Auth =
  ipxa_certificate :: "string option"
  ipxa_hasPassphrase :: bool
  ipxa_caCertificates :: "string list"

definition blankIPsecX509Auth :: IPsecX509Auth where
  "blankIPsecX509Auth =
     \<lparr>ipxa_certificate = None, ipxa_hasPassphrase = False, ipxa_caCertificates = []\<rparr>"

record IPsecRsaAuth =
  ipra_localKey :: "string option"
  ipra_hasPassphrase :: bool
  ipra_remoteKey :: "string option"

definition blankIPsecRsaAuth :: IPsecRsaAuth where
  "blankIPsecRsaAuth =
     \<lparr>ipra_localKey = None, ipra_hasPassphrase = False, ipra_remoteKey = None\<rparr>"

record IPsecPeerAuthentication =
  ippa_localId :: "string option"
  ippa_remoteId :: "string option"
  ippa_ppk :: IPsecPpkReference
  ippa_rsa :: IPsecRsaAuth
  ippa_x509 :: IPsecX509Auth
  ippa_mode :: "string option"
  ippa_useX509Id :: bool

definition blankIPsecPeerAuthentication :: IPsecPeerAuthentication where
  "blankIPsecPeerAuthentication =
     \<lparr>ippa_localId = None,
       ippa_remoteId = None,
       ippa_ppk = blankIPsecPpkReference,
       ippa_rsa = blankIPsecRsaAuth,
       ippa_x509 = blankIPsecX509Auth,
       ippa_mode = None,
       ippa_useX509Id = False\<rparr>"

record IPsecTunnel =
  ipt_id :: string
  ipt_disabled :: bool
  ipt_espGroup :: "string option"
  ipt_localPort :: "string option"
  ipt_localPrefixes :: "string list"
  ipt_protocol :: "string option"
  ipt_priority :: "string option"
  ipt_remotePort :: "string option"
  ipt_remotePrefixes :: "string list"

definition blankIPsecTunnel :: IPsecTunnel where
  "blankIPsecTunnel =
     \<lparr>ipt_id = '''',
       ipt_disabled = False,
       ipt_espGroup = None,
       ipt_localPort = None,
       ipt_localPrefixes = [],
       ipt_protocol = None,
       ipt_priority = None,
       ipt_remotePort = None,
       ipt_remotePrefixes = []\<rparr>"

record IPsecVti =
  ipv_bind :: "string option"
  ipv_espGroup :: "string option"
  ipv_localPrefixes :: "string list"
  ipv_remotePrefixes :: "string list"

definition blankIPsecVti :: IPsecVti where
  "blankIPsecVti =
     \<lparr>ipv_bind = None,
       ipv_espGroup = None,
       ipv_localPrefixes = [],
       ipv_remotePrefixes = []\<rparr>"

record IPsecPeer =
  ippb_name :: string
  ippb_disabled :: bool
  ippb_authentication :: IPsecPeerAuthentication
  ippb_childless :: "string option"
  ippb_connectionType :: "string option"
  ippb_defaultEspGroup :: "string option"
  ippb_description :: "string option"
  ippb_dhcpInterface :: "string option"
  ippb_forceUdpEncapsulation :: bool
  ippb_ikeGroup :: "string option"
  ippb_ikev2Reauth :: "string option"
  ippb_localAddress :: "string option"
  ippb_remoteAddresses :: "string list"
  ippb_replayWindow :: "string option"
  ippb_tunnels :: "IPsecTunnel list"
  ippb_virtualAddresses :: "string list"
  ippb_vti :: IPsecVti

definition blankIPsecPeer :: IPsecPeer where
  "blankIPsecPeer =
     \<lparr>ippb_name = '''',
       ippb_disabled = False,
       ippb_authentication = blankIPsecPeerAuthentication,
       ippb_childless = None,
       ippb_connectionType = None,
       ippb_defaultEspGroup = None,
       ippb_description = None,
       ippb_dhcpInterface = None,
       ippb_forceUdpEncapsulation = False,
       ippb_ikeGroup = None,
       ippb_ikev2Reauth = None,
       ippb_localAddress = None,
       ippb_remoteAddresses = [],
       ippb_replayWindow = None,
       ippb_tunnels = [],
       ippb_virtualAddresses = [],
       ippb_vti = blankIPsecVti\<rparr>"

definition IPSEC_RA_CLIENT_MODES :: "string list" where
  "IPSEC_RA_CLIENT_MODES = [''x509'', ''eap-tls'', ''eap-mschapv2'', ''eap-radius'']"

definition IPSEC_RA_SERVER_MODES :: "string list" where
  "IPSEC_RA_SERVER_MODES = [''pre-shared-secret'', ''x509'']"

definition IPSEC_RA_UNIQUE_OPTIONS :: "string list" where
  "IPSEC_RA_UNIQUE_OPTIONS = [''never'', ''keep'', ''replace'']"

record IPsecRemoteAccessLocalUser =
  ipralu_username :: string
  ipralu_disabled :: bool
  ipralu_hasPassword :: bool

definition blankIPsecRemoteAccessLocalUser :: IPsecRemoteAccessLocalUser where
  "blankIPsecRemoteAccessLocalUser =
     \<lparr>ipralu_username = '''', ipralu_disabled = False, ipralu_hasPassword = False\<rparr>"

record IPsecRemoteAccessAuthentication =
  ipraa_localId :: "string option"
  ipraa_x509 :: IPsecX509Auth
  ipraa_eapId :: "string option"
  ipraa_clientMode :: "string option"
  ipraa_localUsers :: "IPsecRemoteAccessLocalUser list"
  ipraa_alwaysSendCert :: bool
  ipraa_serverMode :: "string option"
  ipraa_ppk :: IPsecPpkReference
  ipraa_hasPreSharedSecret :: bool

definition blankIPsecRemoteAccessAuthentication :: IPsecRemoteAccessAuthentication where
  "blankIPsecRemoteAccessAuthentication =
     \<lparr>ipraa_localId = None,
       ipraa_x509 = blankIPsecX509Auth,
       ipraa_eapId = None,
       ipraa_clientMode = None,
       ipraa_localUsers = [],
       ipraa_alwaysSendCert = False,
       ipraa_serverMode = None,
       ipraa_ppk = blankIPsecPpkReference,
       ipraa_hasPreSharedSecret = False\<rparr>"

record IPsecRemoteAccessConnection =
  iprac_name :: string
  iprac_authentication :: IPsecRemoteAccessAuthentication
  iprac_childless :: "string option"
  iprac_description :: "string option"
  iprac_disabled :: bool
  iprac_espGroup :: "string option"
  iprac_ikeGroup :: "string option"
  iprac_localAddress :: "string option"
  iprac_dhcpInterface :: "string option"
  iprac_localTrafficSelectorPort :: "string option"
  iprac_localTrafficSelectorPrefixes :: "string list"
  iprac_replayWindow :: "string option"
  iprac_bind :: "string option"
  iprac_timeout :: "string option"
  iprac_pools :: "string list"
  iprac_unique :: "string option"

definition blankIPsecRemoteAccessConnection :: IPsecRemoteAccessConnection where
  "blankIPsecRemoteAccessConnection =
     \<lparr>iprac_name = '''',
       iprac_authentication = blankIPsecRemoteAccessAuthentication,
       iprac_childless = None,
       iprac_description = None,
       iprac_disabled = False,
       iprac_espGroup = None,
       iprac_ikeGroup = None,
       iprac_localAddress = None,
       iprac_dhcpInterface = None,
       iprac_localTrafficSelectorPort = None,
       iprac_localTrafficSelectorPrefixes = [],
       iprac_replayWindow = None,
       iprac_bind = None,
       iprac_timeout = None,
       iprac_pools = [],
       iprac_unique = None\<rparr>"

record IPsecRemoteAccessPool =
  iprap_name :: string
  iprap_excludePrefixes :: "string list"
  iprap_prefix :: "string option"
  iprap_rangeStart :: "string option"
  iprap_rangeStop :: "string option"
  iprap_nameServers :: "string list"

definition blankIPsecRemoteAccessPool :: IPsecRemoteAccessPool where
  "blankIPsecRemoteAccessPool =
     \<lparr>iprap_name = '''',
       iprap_excludePrefixes = [],
       iprap_prefix = None,
       iprap_rangeStart = None,
       iprap_rangeStop = None,
       iprap_nameServers = []\<rparr>"

record IPsecRemoteAccessRadiusServer =
  iprars_address :: string
  iprars_disabled :: bool
  iprars_hasKey :: bool
  iprars_port :: "string option"
  iprars_disableAccounting :: bool

record IPsecRemoteAccessRadius =
  iprar_sourceAddress :: "string option"
  iprar_timeout :: "string option"
  iprar_nasIdentifier :: "string option"
  iprar_servers :: "IPsecRemoteAccessRadiusServer list"

definition blankIPsecRemoteAccessRadius :: IPsecRemoteAccessRadius where
  "blankIPsecRemoteAccessRadius =
     \<lparr>iprar_sourceAddress = None,
       iprar_timeout = None,
       iprar_nasIdentifier = None,
       iprar_servers = []\<rparr>"

record IPsecRemoteAccessDhcp =
  iprad_interface :: "string option"
  iprad_server :: "string option"

record IPsecRemoteAccess =
  viipra_connections :: "IPsecRemoteAccessConnection list"
  viipra_dhcp :: IPsecRemoteAccessDhcp
  viipra_pools :: "IPsecRemoteAccessPool list"
  viipra_radius :: IPsecRemoteAccessRadius

definition blankIPsecRemoteAccess :: IPsecRemoteAccess where
  "blankIPsecRemoteAccess =
     \<lparr>viipra_connections = [],
       viipra_dhcp = \<lparr>iprad_interface = None, iprad_server = None\<rparr>,
       viipra_pools = [],
       viipra_radius = blankIPsecRemoteAccessRadius\<rparr>"

record IPsecOptions =
  ipo_disableRouteAutoinstall :: bool
  ipo_flexvpn :: bool
  ipo_interface :: "string option"
  ipo_virtualIp :: bool
  ipo_retransmissionAttempts :: "string option"
  ipo_retransmissionBase :: "string option"
  ipo_retransmissionTimeout :: "string option"

definition blankIPsecOptions :: IPsecOptions where
  "blankIPsecOptions =
     \<lparr>ipo_disableRouteAutoinstall = False,
       ipo_flexvpn = False,
       ipo_interface = None,
       ipo_virtualIp = False,
       ipo_retransmissionAttempts = None,
       ipo_retransmissionBase = None,
       ipo_retransmissionTimeout = None\<rparr>"

record IPsecConfig =
  ipc_enabled :: bool
  ipc_disableUniqreqids :: bool
  ipc_psks :: "IPsecPsk list"
  ipc_ppks :: "IPsecPpk list"
  ipc_espGroups :: "IPsecEspGroup list"
  ipc_ikeGroups :: "IPsecIkeGroup list"
  ipc_siteToSitePeers :: "IPsecPeer list"
  ipc_remoteAccess :: IPsecRemoteAccess
  ipc_options :: IPsecOptions

definition blankIPsecConfig :: IPsecConfig where
  "blankIPsecConfig =
     \<lparr>ipc_enabled = False,
       ipc_disableUniqreqids = False,
       ipc_psks = [],
       ipc_ppks = [],
       ipc_espGroups = [],
       ipc_ikeGroups = [],
       ipc_siteToSitePeers = [],
       ipc_remoteAccess = blankIPsecRemoteAccess,
       ipc_options = blankIPsecOptions\<rparr>"

subsection \<open>Parsing\<close>

definition parsePsk :: "string \<Rightarrow> unknown \<Rightarrow> IPsecPsk" where
  "parsePsk name raw =
     \<lparr>ipp_name = name,
       ipp_ids = asStringArray (child raw ''id''),
       ipp_hasSecret = child raw ''secret'' \<noteq> None,
       ipp_secretType = asString (child raw ''secret-type''),
       ipp_dhcpInterfaces = asStringArray (child raw ''dhcp-interface'')\<rparr>"

definition parsePpk :: "string \<Rightarrow> unknown \<Rightarrow> IPsecPpk" where
  "parsePpk name raw =
     \<lparr>viipp_name = name,
       viipp_ids = asStringArray (child raw ''id''),
       viipp_hasSecret = child raw ''secret'' \<noteq> None,
       viipp_secretType = asString (child raw ''secret-type'')\<rparr>"

definition parsePpkReference :: "unknown \<Rightarrow> IPsecPpkReference" where
  "parsePpkReference raw =
     (let rootNode = child raw ''ppk''
      in if rootNode = None then blankIPsecPpkReference
         else \<lparr>ippr_id = asString (child rootNode ''id''),
                ippr_required = isFlagPresent rootNode ''required''\<rparr>)"

definition parseX509Auth :: "unknown \<Rightarrow> IPsecX509Auth" where
  "parseX509Auth raw =
     (let rootNode = child raw ''x509''
      in if rootNode = None then blankIPsecX509Auth
         else \<lparr>ipxa_certificate = asString (child rootNode ''certificate''),
                ipxa_hasPassphrase = child rootNode ''passphrase'' \<noteq> None,
                ipxa_caCertificates = asStringArray (child rootNode ''ca-certificate'')\<rparr>)"

definition parseRsaAuth :: "unknown \<Rightarrow> IPsecRsaAuth" where
  "parseRsaAuth raw =
     (let rootNode = child raw ''rsa''
      in if rootNode = None then blankIPsecRsaAuth
         else \<lparr>ipra_localKey = asString (child rootNode ''local-key''),
                ipra_hasPassphrase = child rootNode ''passphrase'' \<noteq> None,
                ipra_remoteKey = asString (child rootNode ''remote-key'')\<rparr>)"

definition parseEspProposal :: "string \<Rightarrow> unknown \<Rightarrow> IPsecEspProposal" where
  "parseEspProposal i raw =
     \<lparr>ipep_id = i,
       ipep_encryption = asString (child raw ''encryption''),
       ipep_hash = asString (child raw ''hash''),
       ipep_esn = asString (child raw ''esn'')\<rparr>"

definition parseEspGroup :: "string \<Rightarrow> unknown \<Rightarrow> IPsecEspGroup" where
  "parseEspGroup name raw =
     \<lparr>ipeg_name = name,
       ipeg_compression = isFlagPresent raw ''compression'',
       ipeg_lifetime = asString (child raw ''lifetime''),
       ipeg_lifeBytes = asString (child raw ''life-bytes''),
       ipeg_lifePackets = asString (child raw ''life-packets''),
       ipeg_disableRekey = isFlagPresent raw ''disable-rekey'',
       ipeg_mode = asString (child raw ''mode''),
       ipeg_pfs = asString (child raw ''pfs''),
       ipeg_proposals = parse_entries parseEspProposal (by_number ipep_id) (child raw ''proposal'')\<rparr>"

definition parseIkeProposal :: "string \<Rightarrow> unknown \<Rightarrow> IPsecIkeProposal" where
  "parseIkeProposal i raw =
     \<lparr>ipip_id = i,
       ipip_dhGroup = asString (child raw ''dh-group''),
       ipip_prf = asString (child raw ''prf''),
       ipip_encryption = asString (child raw ''encryption''),
       ipip_hash = asString (child raw ''hash''),
       ipip_esn = asString (child raw ''esn'')\<rparr>"

definition parseIkeGroup :: "string \<Rightarrow> unknown \<Rightarrow> IPsecIkeGroup" where
  "parseIkeGroup name raw =
     (let dpd = child raw ''dead-peer-detection''
      in \<lparr>ipig_name = name,
           ipig_closeAction = asString (child raw ''close-action''),
           ipig_dpdAction = asString (child dpd ''action''),
           ipig_dpdInterval = asString (child dpd ''interval''),
           ipig_dpdTimeout = asString (child dpd ''timeout''),
           ipig_ikev2Reauth = isFlagPresent raw ''ikev2-reauth'',
           ipig_keyExchange = asString (child raw ''key-exchange''),
           ipig_lifetime = asString (child raw ''lifetime''),
           ipig_disableMobike = isFlagPresent raw ''disable-mobike'',
           ipig_mode = asString (child raw ''mode''),
           ipig_proposals = parse_entries parseIkeProposal (by_number ipip_id)
               (child raw ''proposal'')\<rparr>)"

definition parsePeerAuthentication :: "unknown \<Rightarrow> IPsecPeerAuthentication" where
  "parsePeerAuthentication raw =
     (let rootNode = child raw ''authentication''
      in \<lparr>ippa_localId = asString (child rootNode ''local-id''),
           ippa_remoteId = asString (child rootNode ''remote-id''),
           ippa_ppk = parsePpkReference rootNode,
           ippa_rsa = parseRsaAuth rootNode,
           ippa_x509 = parseX509Auth rootNode,
           ippa_mode = asString (child rootNode ''mode''),
           ippa_useX509Id = isFlagPresent rootNode ''use-x509-id''\<rparr>)"

definition parseTunnel :: "string \<Rightarrow> unknown \<Rightarrow> IPsecTunnel" where
  "parseTunnel i raw =
     (let localNode = child raw ''local'';
          remoteNode = child raw ''remote''
      in \<lparr>ipt_id = i,
           ipt_disabled = isFlagPresent raw ''disable'',
           ipt_espGroup = asString (child raw ''esp-group''),
           ipt_localPort = asString (child localNode ''port''),
           ipt_localPrefixes = asStringArray (child localNode ''prefix''),
           ipt_protocol = asString (child raw ''protocol''),
           ipt_priority = asString (child raw ''priority''),
           ipt_remotePort = asString (child remoteNode ''port''),
           ipt_remotePrefixes = asStringArray (child remoteNode ''prefix'')\<rparr>)"

definition parseVti :: "unknown \<Rightarrow> IPsecVti" where
  "parseVti raw =
     (let rootNode = child raw ''vti''
      in if rootNode = None then blankIPsecVti
         else let selector = child rootNode ''traffic-selector''
              in \<lparr>ipv_bind = asString (child rootNode ''bind''),
                   ipv_espGroup = asString (child rootNode ''esp-group''),
                   ipv_localPrefixes = asStringArray (child (child selector ''local'') ''prefix''),
                   ipv_remotePrefixes = asStringArray (child (child selector ''remote'') ''prefix'')\<rparr>)"

definition parsePeer_vi :: "string \<Rightarrow> unknown \<Rightarrow> IPsecPeer" where
  "parsePeer_vi name raw =
     \<lparr>ippb_name = name,
       ippb_disabled = isFlagPresent raw ''disable'',
       ippb_authentication = parsePeerAuthentication raw,
       ippb_childless = asString (child raw ''childless''),
       ippb_connectionType = asString (child raw ''connection-type''),
       ippb_defaultEspGroup = asString (child raw ''default-esp-group''),
       ippb_description = asString (child raw ''description''),
       ippb_dhcpInterface = asString (child raw ''dhcp-interface''),
       ippb_forceUdpEncapsulation = isFlagPresent raw ''force-udp-encapsulation'',
       ippb_ikeGroup = asString (child raw ''ike-group''),
       ippb_ikev2Reauth = asString (child raw ''ikev2-reauth''),
       ippb_localAddress = asString (child raw ''local-address''),
       ippb_remoteAddresses = asStringArray (child raw ''remote-address''),
       ippb_replayWindow = asString (child raw ''replay-window''),
       ippb_tunnels = parse_entries parseTunnel (by_number ipt_id) (child raw ''tunnel''),
       ippb_virtualAddresses = asStringArray (child raw ''virtual-address''),
       ippb_vti = parseVti raw\<rparr>"

definition parseLocalUser_vi :: "string \<Rightarrow> unknown \<Rightarrow> IPsecRemoteAccessLocalUser" where
  "parseLocalUser_vi username raw =
     \<lparr>ipralu_username = username,
       ipralu_disabled = isFlagPresent raw ''disable'',
       ipralu_hasPassword = child raw ''password'' \<noteq> None\<rparr>"

definition parseRemoteAccessAuthentication ::
    "collation \<Rightarrow> unknown \<Rightarrow> IPsecRemoteAccessAuthentication" where
  "parseRemoteAccessAuthentication lc raw =
     (let rootNode = child raw ''authentication''
      in \<lparr>ipraa_localId = asString (child rootNode ''local-id''),
           ipraa_x509 = parseX509Auth rootNode,
           ipraa_eapId = asString (child rootNode ''eap-id''),
           ipraa_clientMode = asString (child rootNode ''client-mode''),
           ipraa_localUsers = parse_entries parseLocalUser_vi
               (\<lambda>a b. lc (ipralu_username a) (ipralu_username b))
               (child (child rootNode ''local-users'') ''username''),
           ipraa_alwaysSendCert = isFlagPresent rootNode ''always-send-cert'',
           ipraa_serverMode = asString (child rootNode ''server-mode''),
           ipraa_ppk = parsePpkReference rootNode,
           ipraa_hasPreSharedSecret = child rootNode ''pre-shared-secret'' \<noteq> None\<rparr>)"

definition parseConnection ::
    "collation \<Rightarrow> string \<Rightarrow> unknown \<Rightarrow> IPsecRemoteAccessConnection" where
  "parseConnection lc name raw =
     (let selector = child raw ''local-traffic-selector''
      in \<lparr>iprac_name = name,
           iprac_authentication = parseRemoteAccessAuthentication lc raw,
           iprac_childless = asString (child raw ''childless''),
           iprac_description = asString (child raw ''description''),
           iprac_disabled = isFlagPresent raw ''disable'',
           iprac_espGroup = asString (child raw ''esp-group''),
           iprac_ikeGroup = asString (child raw ''ike-group''),
           iprac_localAddress = asString (child raw ''local-address''),
           iprac_dhcpInterface = asString (child raw ''dhcp-interface''),
           iprac_localTrafficSelectorPort = asString (child selector ''port''),
           iprac_localTrafficSelectorPrefixes = asStringArray (child selector ''prefix''),
           iprac_replayWindow = asString (child raw ''replay-window''),
           iprac_bind = asString (child raw ''bind''),
           iprac_timeout = asString (child raw ''timeout''),
           iprac_pools = asStringArray (child raw ''pool''),
           iprac_unique = asString (child raw ''unique'')\<rparr>)"

definition parsePool :: "string \<Rightarrow> unknown \<Rightarrow> IPsecRemoteAccessPool" where
  "parsePool name raw =
     (let rangeNode = child raw ''range''
      in \<lparr>iprap_name = name,
           iprap_excludePrefixes = asStringArray (child raw ''exclude''),
           iprap_prefix = asString (child raw ''prefix''),
           iprap_rangeStart = asString (child rangeNode ''start''),
           iprap_rangeStop = asString (child rangeNode ''stop''),
           iprap_nameServers = asStringArray (child raw ''name-server'')\<rparr>)"

definition parseRadiusServer_vi :: "string \<Rightarrow> unknown \<Rightarrow> IPsecRemoteAccessRadiusServer" where
  "parseRadiusServer_vi address raw =
     \<lparr>iprars_address = address,
       iprars_disabled = isFlagPresent raw ''disable'',
       iprars_hasKey = child raw ''key'' \<noteq> None,
       iprars_port = asString (child raw ''port''),
       iprars_disableAccounting = isFlagPresent raw ''disable-accounting''\<rparr>"

definition parseRemoteAccessRadius :: "collation \<Rightarrow> unknown \<Rightarrow> IPsecRemoteAccessRadius" where
  "parseRemoteAccessRadius lc raw =
     (let rootNode = child raw ''radius''
      in if rootNode = None then blankIPsecRemoteAccessRadius
         else \<lparr>iprar_sourceAddress = asString (child rootNode ''source-address''),
                iprar_timeout = asString (child rootNode ''timeout''),
                iprar_nasIdentifier = asString (child rootNode ''nas-identifier''),
                iprar_servers = parse_entries parseRadiusServer_vi
                    (\<lambda>a b. lc (iprars_address a) (iprars_address b))
                    (child rootNode ''server'')\<rparr>)"

definition parseRemoteAccess :: "collation \<Rightarrow> unknown \<Rightarrow> IPsecRemoteAccess" where
  "parseRemoteAccess lc raw =
     (let rootNode = child raw ''remote-access''
      in if rootNode = None then blankIPsecRemoteAccess
         else let dhcp = child rootNode ''dhcp''
              in \<lparr>viipra_connections = parse_entries (parseConnection lc)
                       (\<lambda>a b. lc (iprac_name a) (iprac_name b))
                       (child rootNode ''connection''),
                   viipra_dhcp = \<lparr>iprad_interface = asString (child dhcp ''interface''),
                       iprad_server = asString (child dhcp ''server'')\<rparr>,
                   viipra_pools = parse_entries parsePool
                       (\<lambda>a b. lc (iprap_name a) (iprap_name b)) (child rootNode ''pool''),
                   viipra_radius = parseRemoteAccessRadius lc rootNode\<rparr>)"

definition parseOptions_vi :: "unknown \<Rightarrow> IPsecOptions" where
  "parseOptions_vi ipsec =
     (let rootNode = child ipsec ''options''
      in if rootNode = None then blankIPsecOptions
         else let retransmission = child rootNode ''retransmission''
              in \<lparr>ipo_disableRouteAutoinstall = isFlagPresent rootNode ''disable-route-autoinstall'',
                   ipo_flexvpn = isFlagPresent rootNode ''flexvpn'',
                   ipo_interface = asString (child rootNode ''interface''),
                   ipo_virtualIp = isFlagPresent rootNode ''virtual-ip'',
                   ipo_retransmissionAttempts = asString (child retransmission ''attempts''),
                   ipo_retransmissionBase = asString (child retransmission ''base''),
                   ipo_retransmissionTimeout = asString (child retransmission ''timeout'')\<rparr>)"

definition parseIPsecConfig :: "collation \<Rightarrow> unknown \<Rightarrow> IPsecConfig" where
  "parseIPsecConfig lc ipsec =
     (if ipsec = None then blankIPsecConfig
      else let auth = child ipsec ''authentication''
           in \<lparr>ipc_enabled = True,
                ipc_disableUniqreqids = isFlagPresent ipsec ''disable-uniqreqids'',
                ipc_psks = parse_entries parsePsk (\<lambda>a b. lc (ipp_name a) (ipp_name b))
                    (child auth ''psk''),
                ipc_ppks = parse_entries parsePpk (\<lambda>a b. lc (viipp_name a) (viipp_name b))
                    (child auth ''ppk''),
                ipc_espGroups = parse_entries parseEspGroup
                    (\<lambda>a b. lc (ipeg_name a) (ipeg_name b)) (child ipsec ''esp-group''),
                ipc_ikeGroups = parse_entries parseIkeGroup
                    (\<lambda>a b. lc (ipig_name a) (ipig_name b)) (child ipsec ''ike-group''),
                ipc_siteToSitePeers = parse_entries parsePeer_vi
                    (\<lambda>a b. lc (ippb_name a) (ippb_name b))
                    (child (child ipsec ''site-to-site'') ''peer''),
                ipc_remoteAccess = parseRemoteAccess lc ipsec,
                ipc_options = parseOptions_vi ipsec\<rparr>)"

definition ipsecPath :: "path \<Rightarrow> path" where
  "ipsecPath rest = [''vpn'', ''ipsec''] @ rest"

definition ipsecAuthPath :: "path \<Rightarrow> path" where
  "ipsecAuthPath rest = ipsecPath ([''authentication''] @ rest)"

definition ipsecPskPath :: "string \<Rightarrow> path \<Rightarrow> path" where
  "ipsecPskPath name rest = ipsecAuthPath ([''psk'', name] @ rest)"

definition ipsecPpkPath :: "string \<Rightarrow> path \<Rightarrow> path" where
  "ipsecPpkPath name rest = ipsecAuthPath ([''ppk'', name] @ rest)"

definition ipsecEspGroupPath :: "string \<Rightarrow> path \<Rightarrow> path" where
  "ipsecEspGroupPath name rest = ipsecPath ([''esp-group'', name] @ rest)"

definition ipsecEspProposalPath :: "string \<Rightarrow> string \<Rightarrow> path \<Rightarrow> path" where
  "ipsecEspProposalPath name i rest = ipsecEspGroupPath name ([''proposal'', i] @ rest)"

definition ipsecIkeGroupPath :: "string \<Rightarrow> path \<Rightarrow> path" where
  "ipsecIkeGroupPath name rest = ipsecPath ([''ike-group'', name] @ rest)"

definition ipsecIkeProposalPath :: "string \<Rightarrow> string \<Rightarrow> path \<Rightarrow> path" where
  "ipsecIkeProposalPath name i rest = ipsecIkeGroupPath name ([''proposal'', i] @ rest)"

definition ipsecPeerPath :: "string \<Rightarrow> path \<Rightarrow> path" where
  "ipsecPeerPath name rest = ipsecPath ([''site-to-site'', ''peer'', name] @ rest)"

definition ipsecTunnelPath :: "string \<Rightarrow> string \<Rightarrow> path \<Rightarrow> path" where
  "ipsecTunnelPath peerName i rest = ipsecPeerPath peerName ([''tunnel'', i] @ rest)"

definition ipsecRemoteAccessPath :: "path \<Rightarrow> path" where
  "ipsecRemoteAccessPath rest = ipsecPath ([''remote-access''] @ rest)"

definition ipsecConnectionPath :: "string \<Rightarrow> path \<Rightarrow> path" where
  "ipsecConnectionPath name rest = ipsecRemoteAccessPath ([''connection'', name] @ rest)"

definition ipsecRemoteAccessPoolPath :: "string \<Rightarrow> path \<Rightarrow> path" where
  "ipsecRemoteAccessPoolPath name rest = ipsecRemoteAccessPath ([''pool'', name] @ rest)"

definition ipsecRemoteAccessRadiusServerPath :: "string \<Rightarrow> path \<Rightarrow> path" where
  "ipsecRemoteAccessRadiusServerPath address rest =
     ipsecRemoteAccessPath ([''radius'', ''server'', address] @ rest)"

definition ipsecOptionsPath :: "path \<Rightarrow> path" where
  "ipsecOptionsPath rest = ipsecPath ([''options''] @ rest)"

subsection \<open>Forms\<close>

definition enableIPsecOp :: ConfigOp where
  "enableIPsecOp = set_flag (ipsecPath [])"

definition disableIPsecOp :: ConfigOp where
  "disableIPsecOp = delete_op (ipsecPath [])"

definition toggleDisableUniqreqidsOp :: "bool \<Rightarrow> ConfigOp" where
  "toggleDisableUniqreqidsOp disabled =
     (let p = ipsecPath [''disable-uniqreqids''] in if disabled then set_flag p else delete_op p)"

record PskFormOptions =
  pfo_ids :: "string list"
  pfo_secret :: string
  pfo_secretType :: string

definition addPskOps :: "string \<Rightarrow> PskFormOptions \<Rightarrow> ConfigOp list" where
  "addPskOps name options =
     (let base = ipsecPskPath name [];
          trimmedSecret = js_trim (pfo_secret options)
      in [set_flag base]
         @ concat (map (\<lambda>i. [set_op (base @ [''id'']) i]) (pfo_ids options))
         @ (if trimmedSecret \<noteq> '''' then [set_op (base @ [''secret'']) trimmedSecret] else [])
         @ (if pfo_secretType options \<noteq> ''''
            then [set_op (base @ [''secret-type'']) (pfo_secretType options)]
            else []))"

definition removePskOp :: "string \<Rightarrow> ConfigOp" where
  "removePskOp name = delete_op (ipsecPskPath name [])"

definition addPpkOps :: "string \<Rightarrow> PskFormOptions \<Rightarrow> ConfigOp list" where
  "addPpkOps name options =
     (let base = ipsecPpkPath name [];
          trimmedSecret = js_trim (pfo_secret options)
      in [set_flag base]
         @ concat (map (\<lambda>i. [set_op (base @ [''id'']) i]) (pfo_ids options))
         @ (if trimmedSecret \<noteq> '''' then [set_op (base @ [''secret'']) trimmedSecret] else [])
         @ (if pfo_secretType options \<noteq> ''''
            then [set_op (base @ [''secret-type'']) (pfo_secretType options)]
            else []))"

definition removePpkOp :: "string \<Rightarrow> ConfigOp" where
  "removePpkOp name = delete_op (ipsecPpkPath name [])"

record EspGroupFormValues =
  egfv_compression :: bool
  egfv_lifetime :: string
  egfv_lifeBytes :: string
  egfv_lifePackets :: string
  egfv_disableRekey :: bool
  egfv_mode :: string
  egfv_pfs :: string

definition blankEspGroupFormValues :: EspGroupFormValues where
  "blankEspGroupFormValues =
     \<lparr>egfv_compression = False,
       egfv_lifetime = '''',
       egfv_lifeBytes = '''',
       egfv_lifePackets = '''',
       egfv_disableRekey = False,
       egfv_mode = '''',
       egfv_pfs = ''''\<rparr>"

definition espGroupToFormValues :: "IPsecEspGroup \<Rightarrow> EspGroupFormValues" where
  "espGroupToFormValues grp =
     \<lparr>egfv_compression = ipeg_compression grp,
       egfv_lifetime = or_else (ipeg_lifetime grp) '''',
       egfv_lifeBytes = or_else (ipeg_lifeBytes grp) '''',
       egfv_lifePackets = or_else (ipeg_lifePackets grp) '''',
       egfv_disableRekey = ipeg_disableRekey grp,
       egfv_mode = or_else (ipeg_mode grp) '''',
       egfv_pfs = or_else (ipeg_pfs grp) ''''\<rparr>"

definition espGroupForm_flags :: "EspGroupFormValues flag_field list" where
  "espGroupForm_flags =
     [(egfv_compression, [''compression'']),
      (egfv_disableRekey, [''disable-rekey''])]"

definition espGroupForm_fields :: "EspGroupFormValues scalar_field list" where
  "espGroupForm_fields =
     [(egfv_lifetime, [''lifetime'']),
      (egfv_lifeBytes, [''life-bytes'']),
      (egfv_lifePackets, [''life-packets'']),
      (egfv_mode, [''mode'']),
      (egfv_pfs, [''pfs''])]"

definition espGroupFormToOps ::
    "string \<Rightarrow> IPsecEspGroup option \<Rightarrow> EspGroupFormValues \<Rightarrow> ConfigOp list" where
  "espGroupFormToOps name before values =
     (let beforeValues = (case before of
               Some before' \<Rightarrow> espGroupToFormValues before'
             | None \<Rightarrow> blankEspGroupFormValues);
          base = ipsecEspGroupPath name []
      in (if before = None then [set_flag base] else [])
         @ diffToOps base [] espGroupForm_flags beforeValues values
         @ diffToOps base espGroupForm_fields [] beforeValues values)"

definition deleteEspGroupOp :: "string \<Rightarrow> ConfigOp" where
  "deleteEspGroupOp name = delete_op (ipsecEspGroupPath name [])"

record AddEspProposalOps_options =
  aepo_encryption :: string
  aepo_hash :: string
  aepo_esn :: string

definition addEspProposalOps ::
    "string \<Rightarrow> string \<Rightarrow> AddEspProposalOps_options \<Rightarrow> ConfigOp list" where
  "addEspProposalOps groupName i options =
     (let base = ipsecEspProposalPath groupName i []
      in [set_flag base]
         @ (if aepo_encryption options \<noteq> ''''
            then [set_op (base @ [''encryption'']) (aepo_encryption options)]
            else [])
         @ (if aepo_hash options \<noteq> '''' then [set_op (base @ [''hash'']) (aepo_hash options)]
            else [])
         @ (if aepo_esn options \<noteq> '''' then [set_op (base @ [''esn'']) (aepo_esn options)]
            else []))"

definition removeEspProposalOp :: "string \<Rightarrow> string \<Rightarrow> ConfigOp" where
  "removeEspProposalOp groupName i = delete_op (ipsecEspProposalPath groupName i [])"

record IkeGroupFormValues =
  igfv_closeAction :: string
  igfv_dpdAction :: string
  igfv_dpdInterval :: string
  igfv_dpdTimeout :: string
  igfv_ikev2Reauth :: bool
  igfv_keyExchange :: string
  igfv_lifetime :: string
  igfv_disableMobike :: bool
  igfv_mode :: string

definition blankIkeGroupFormValues :: IkeGroupFormValues where
  "blankIkeGroupFormValues =
     \<lparr>igfv_closeAction = '''',
       igfv_dpdAction = '''',
       igfv_dpdInterval = '''',
       igfv_dpdTimeout = '''',
       igfv_ikev2Reauth = False,
       igfv_keyExchange = '''',
       igfv_lifetime = '''',
       igfv_disableMobike = False,
       igfv_mode = ''''\<rparr>"

record IkeGroupToFormValues_group =
  igtfv_closeAction :: "string option"
  igtfv_dpdAction :: "string option"
  igtfv_dpdInterval :: "string option"
  igtfv_dpdTimeout :: "string option"
  igtfv_ikev2Reauth :: bool
  igtfv_keyExchange :: "string option"
  igtfv_lifetime :: "string option"
  igtfv_disableMobike :: bool
  igtfv_mode :: "string option"

definition ikeGroupToFormValues :: "IkeGroupToFormValues_group \<Rightarrow> IkeGroupFormValues" where
  "ikeGroupToFormValues grp =
     \<lparr>igfv_closeAction = or_else (igtfv_closeAction grp) '''',
       igfv_dpdAction = or_else (igtfv_dpdAction grp) '''',
       igfv_dpdInterval = or_else (igtfv_dpdInterval grp) '''',
       igfv_dpdTimeout = or_else (igtfv_dpdTimeout grp) '''',
       igfv_ikev2Reauth = igtfv_ikev2Reauth grp,
       igfv_keyExchange = or_else (igtfv_keyExchange grp) '''',
       igfv_lifetime = or_else (igtfv_lifetime grp) '''',
       igfv_disableMobike = igtfv_disableMobike grp,
       igfv_mode = or_else (igtfv_mode grp) ''''\<rparr>"

definition ikeGroupForm_flags :: "IkeGroupFormValues flag_field list" where
  "ikeGroupForm_flags =
     [(igfv_ikev2Reauth, [''ikev2-reauth'']),
      (igfv_disableMobike, [''disable-mobike''])]"

definition ikeGroupForm_fields :: "IkeGroupFormValues scalar_field list" where
  "ikeGroupForm_fields =
     [(igfv_closeAction, [''close-action'']),
      (igfv_dpdAction, [''dead-peer-detection'', ''action'']),
      (igfv_dpdInterval, [''dead-peer-detection'', ''interval'']),
      (igfv_dpdTimeout, [''dead-peer-detection'', ''timeout'']),
      (igfv_keyExchange, [''key-exchange'']),
      (igfv_lifetime, [''lifetime'']),
      (igfv_mode, [''mode''])]"

definition ikeGroupFormToOps ::
    "string \<Rightarrow> IkeGroupToFormValues_group option \<Rightarrow> IkeGroupFormValues \<Rightarrow> ConfigOp list" where
  "ikeGroupFormToOps name before values =
     (let beforeValues = (case before of
               Some before' \<Rightarrow> ikeGroupToFormValues before'
             | None \<Rightarrow> blankIkeGroupFormValues);
          base = ipsecIkeGroupPath name []
      in (if before = None then [set_flag base] else [])
         @ diffToOps base [] ikeGroupForm_flags beforeValues values
         @ diffToOps base ikeGroupForm_fields [] beforeValues values)"

definition deleteIkeGroupOp :: "string \<Rightarrow> ConfigOp" where
  "deleteIkeGroupOp name = delete_op (ipsecIkeGroupPath name [])"

record AddIkeProposalOps_options =
  aipo_dhGroup :: string
  aipo_prf :: string
  aipo_encryption :: string
  aipo_hash :: string
  aipo_esn :: string

definition addIkeProposalOps ::
    "string \<Rightarrow> string \<Rightarrow> AddIkeProposalOps_options \<Rightarrow> ConfigOp list" where
  "addIkeProposalOps groupName i options =
     (let base = ipsecIkeProposalPath groupName i []
      in [set_flag base]
         @ (if aipo_dhGroup options \<noteq> ''''
            then [set_op (base @ [''dh-group'']) (aipo_dhGroup options)]
            else [])
         @ (if aipo_prf options \<noteq> '''' then [set_op (base @ [''prf'']) (aipo_prf options)]
            else [])
         @ (if aipo_encryption options \<noteq> ''''
            then [set_op (base @ [''encryption'']) (aipo_encryption options)]
            else [])
         @ (if aipo_hash options \<noteq> '''' then [set_op (base @ [''hash'']) (aipo_hash options)]
            else [])
         @ (if aipo_esn options \<noteq> '''' then [set_op (base @ [''esn'']) (aipo_esn options)]
            else []))"

definition removeIkeProposalOp :: "string \<Rightarrow> string \<Rightarrow> ConfigOp" where
  "removeIkeProposalOp groupName i = delete_op (ipsecIkeProposalPath groupName i [])"

record PeerFormValues =
  pfv_disabled :: bool
  pfv_authMode :: string
  pfv_localId :: string
  pfv_remoteId :: string
  pfv_useX509Id :: bool
  pfv_childless :: string
  pfv_connectionType :: string
  pfv_defaultEspGroup :: string
  pfv_description :: string
  pfv_ikeGroup :: string
  pfv_ikev2Reauth :: string
  pfv_localAddress :: string
  pfv_replayWindow :: string
  pfv_forceUdpEncapsulation :: bool

definition blankPeerFormValues_vi :: PeerFormValues where
  "blankPeerFormValues_vi =
     \<lparr>pfv_disabled = False,
       pfv_authMode = '''',
       pfv_localId = '''',
       pfv_remoteId = '''',
       pfv_useX509Id = False,
       pfv_childless = '''',
       pfv_connectionType = '''',
       pfv_defaultEspGroup = '''',
       pfv_description = '''',
       pfv_ikeGroup = '''',
       pfv_ikev2Reauth = '''',
       pfv_localAddress = '''',
       pfv_replayWindow = '''',
       pfv_forceUdpEncapsulation = False\<rparr>"

definition peerToFormValues_vi :: "IPsecPeer \<Rightarrow> PeerFormValues" where
  "peerToFormValues_vi peer =
     \<lparr>pfv_disabled = ippb_disabled peer,
       pfv_authMode = or_else (ippa_mode (ippb_authentication peer)) '''',
       pfv_localId = or_else (ippa_localId (ippb_authentication peer)) '''',
       pfv_remoteId = or_else (ippa_remoteId (ippb_authentication peer)) '''',
       pfv_useX509Id = ippa_useX509Id (ippb_authentication peer),
       pfv_childless = or_else (ippb_childless peer) '''',
       pfv_connectionType = or_else (ippb_connectionType peer) '''',
       pfv_defaultEspGroup = or_else (ippb_defaultEspGroup peer) '''',
       pfv_description = or_else (ippb_description peer) '''',
       pfv_ikeGroup = or_else (ippb_ikeGroup peer) '''',
       pfv_ikev2Reauth = or_else (ippb_ikev2Reauth peer) '''',
       pfv_localAddress = or_else (ippb_localAddress peer) '''',
       pfv_replayWindow = or_else (ippb_replayWindow peer) '''',
       pfv_forceUdpEncapsulation = ippb_forceUdpEncapsulation peer\<rparr>"

definition peerForm_flags :: "PeerFormValues flag_field list" where
  "peerForm_flags =
     [(pfv_disabled, [''disable'']),
      (pfv_useX509Id, [''authentication'', ''use-x509-id'']),
      (pfv_forceUdpEncapsulation, [''force-udp-encapsulation''])]"

definition peerForm_fields :: "PeerFormValues scalar_field list" where
  "peerForm_fields =
     [(pfv_authMode, [''authentication'', ''mode'']),
      (pfv_localId, [''authentication'', ''local-id'']),
      (pfv_remoteId, [''authentication'', ''remote-id'']),
      (pfv_childless, [''childless'']),
      (pfv_connectionType, [''connection-type'']),
      (pfv_defaultEspGroup, [''default-esp-group'']),
      (pfv_description, [''description'']),
      (pfv_ikeGroup, [''ike-group'']),
      (pfv_ikev2Reauth, [''ikev2-reauth'']),
      (pfv_localAddress, [''local-address'']),
      (pfv_replayWindow, [''replay-window''])]"

definition peerFormToOps_vi ::
    "string \<Rightarrow> IPsecPeer option \<Rightarrow> PeerFormValues \<Rightarrow> ConfigOp list" where
  "peerFormToOps_vi name before values =
     (let beforeValues = (case before of
               Some before' \<Rightarrow> peerToFormValues_vi before'
             | None \<Rightarrow> blankPeerFormValues_vi);
          base = ipsecPeerPath name []
      in (if before = None then [set_flag base] else [])
         @ diffToOps base [] peerForm_flags beforeValues values
         @ diffToOps base peerForm_fields [] beforeValues values)"

definition deletePeerOp :: "string \<Rightarrow> ConfigOp" where
  "deletePeerOp name = delete_op (ipsecPeerPath name [])"

record AddTunnelOps_options =
  ato_espGroup :: string
  ato_protocol :: string

definition addTunnelOps ::
    "string \<Rightarrow> string \<Rightarrow> AddTunnelOps_options \<Rightarrow> ConfigOp list" where
  "addTunnelOps peerName i options =
     (let base = ipsecTunnelPath peerName i []
      in [set_flag base]
         @ (if ato_espGroup options \<noteq> ''''
            then [set_op (base @ [''esp-group'']) (ato_espGroup options)]
            else [])
         @ (if ato_protocol options \<noteq> ''''
            then [set_op (base @ [''protocol'']) (ato_protocol options)]
            else []))"

definition removeTunnelOp :: "string \<Rightarrow> string \<Rightarrow> ConfigOp" where
  "removeTunnelOp peerName i = delete_op (ipsecTunnelPath peerName i [])"

record ConnectionFormValues =
  vicfv_disabled :: bool
  vicfv_description :: string
  vicfv_espGroup :: string
  vicfv_ikeGroup :: string
  vicfv_localAddress :: string
  vicfv_clientMode :: string
  vicfv_serverMode :: string
  vicfv_eapId :: string
  vicfv_hasPreSharedSecret :: string
  vicfv_timeout :: string
  vicfv_unique :: string

definition blankConnectionFormValues :: ConnectionFormValues where
  "blankConnectionFormValues =
     \<lparr>vicfv_disabled = False,
       vicfv_description = '''',
       vicfv_espGroup = '''',
       vicfv_ikeGroup = '''',
       vicfv_localAddress = '''',
       vicfv_clientMode = '''',
       vicfv_serverMode = '''',
       vicfv_eapId = '''',
       vicfv_hasPreSharedSecret = '''',
       vicfv_timeout = '''',
       vicfv_unique = ''''\<rparr>"

definition connectionToFormValues :: "IPsecRemoteAccessConnection \<Rightarrow> ConnectionFormValues" where
  "connectionToFormValues conn =
     \<lparr>vicfv_disabled = iprac_disabled conn,
       vicfv_description = or_else (iprac_description conn) '''',
       vicfv_espGroup = or_else (iprac_espGroup conn) '''',
       vicfv_ikeGroup = or_else (iprac_ikeGroup conn) '''',
       vicfv_localAddress = or_else (iprac_localAddress conn) '''',
       vicfv_clientMode = or_else (ipraa_clientMode (iprac_authentication conn)) '''',
       vicfv_serverMode = or_else (ipraa_serverMode (iprac_authentication conn)) '''',
       vicfv_eapId = or_else (ipraa_eapId (iprac_authentication conn)) '''',
       vicfv_hasPreSharedSecret = '''',
       vicfv_timeout = or_else (iprac_timeout conn) '''',
       vicfv_unique = or_else (iprac_unique conn) ''''\<rparr>"

definition connectionForm_fields :: "ConnectionFormValues scalar_field list" where
  "connectionForm_fields =
     [(vicfv_description, [''description'']),
      (vicfv_espGroup, [''esp-group'']),
      (vicfv_ikeGroup, [''ike-group'']),
      (vicfv_localAddress, [''local-address'']),
      (vicfv_clientMode, [''authentication'', ''client-mode'']),
      (vicfv_serverMode, [''authentication'', ''server-mode'']),
      (vicfv_eapId, [''authentication'', ''eap-id'']),
      (vicfv_timeout, [''timeout'']),
      (vicfv_unique, [''unique''])]"

definition connectionFormToOps ::
    "string \<Rightarrow> IPsecRemoteAccessConnection option \<Rightarrow> ConnectionFormValues \<Rightarrow> ConfigOp list" where
  "connectionFormToOps name before values =
     (let beforeValues = (case before of
               Some before' \<Rightarrow> connectionToFormValues before'
             | None \<Rightarrow> blankConnectionFormValues);
          base = ipsecConnectionPath name [];
          trimmedSecret = js_trim (vicfv_hasPreSharedSecret values)
      in (if before = None then [set_flag base] else [])
         @ flag_diff (base @ [''disable'']) (vicfv_disabled beforeValues) (vicfv_disabled values)
         @ diffToOps base connectionForm_fields [] beforeValues values
         @ (if trimmedSecret \<noteq> ''''
            then [set_op (base @ [''authentication'', ''pre-shared-secret'']) trimmedSecret]
            else []))"

definition deleteConnectionOp :: "string \<Rightarrow> ConfigOp" where
  "deleteConnectionOp name = delete_op (ipsecConnectionPath name [])"

definition addRemoteAccessLocalUserOps ::
    "string \<Rightarrow> string \<Rightarrow> string \<Rightarrow> ConfigOp list" where
  "addRemoteAccessLocalUserOps connectionName username password =
     (let base = ipsecConnectionPath connectionName []
            @ [''authentication'', ''local-users'', ''username'', username];
          trm = js_trim password
      in [set_flag base] @ (if trm \<noteq> '''' then [set_op (base @ [''password'']) trm] else []))"

definition removeRemoteAccessLocalUserOp :: "string \<Rightarrow> string \<Rightarrow> ConfigOp" where
  "removeRemoteAccessLocalUserOp connectionName username =
     delete_op (ipsecConnectionPath connectionName []
        @ [''authentication'', ''local-users'', ''username'', username])"

record AddRemoteAccessPoolOps_options =
  viarapo_prefix :: string
  viarapo_rangeStart :: string
  viarapo_rangeStop :: string

definition addRemoteAccessPoolOps ::
    "string \<Rightarrow> AddRemoteAccessPoolOps_options \<Rightarrow> ConfigOp list" where
  "addRemoteAccessPoolOps name options =
     (let base = ipsecRemoteAccessPoolPath name []
      in [set_flag base]
         @ (if js_trim (viarapo_prefix options) \<noteq> ''''
            then [set_op (base @ [''prefix'']) (js_trim (viarapo_prefix options))]
            else [])
         @ (if js_trim (viarapo_rangeStart options) \<noteq> ''''
            then [set_op (base @ [''range'', ''start'']) (js_trim (viarapo_rangeStart options))]
            else [])
         @ (if js_trim (viarapo_rangeStop options) \<noteq> ''''
            then [set_op (base @ [''range'', ''stop'']) (js_trim (viarapo_rangeStop options))]
            else []))"

definition removeRemoteAccessPoolOp :: "string \<Rightarrow> ConfigOp" where
  "removeRemoteAccessPoolOp name = delete_op (ipsecRemoteAccessPoolPath name [])"

definition addRemoteAccessRadiusServerOps ::
    "string \<Rightarrow> string \<Rightarrow> string \<Rightarrow> ConfigOp list" where
  "addRemoteAccessRadiusServerOps address key port =
     (let base = ipsecRemoteAccessRadiusServerPath address [];
          trimmedKey = js_trim key
      in [set_flag base]
         @ (if trimmedKey \<noteq> '''' then [set_op (base @ [''key'']) trimmedKey] else [])
         @ (if js_trim port \<noteq> '''' then [set_op (base @ [''port'']) (js_trim port)] else []))"

definition removeRemoteAccessRadiusServerOp :: "string \<Rightarrow> ConfigOp" where
  "removeRemoteAccessRadiusServerOp address =
     delete_op (ipsecRemoteAccessRadiusServerPath address [])"

record RemoteAccessRadiusSettingsFormValues =
  rarsfv_sourceAddress :: string
  rarsfv_timeout :: string
  rarsfv_nasIdentifier :: string

definition blankRemoteAccessRadiusSettingsFormValues :: RemoteAccessRadiusSettingsFormValues where
  "blankRemoteAccessRadiusSettingsFormValues =
     \<lparr>rarsfv_sourceAddress = '''', rarsfv_timeout = '''', rarsfv_nasIdentifier = ''''\<rparr>"

record RemoteAccessRadiusToFormValues_radius =
  rartfv_sourceAddress :: "string option"
  rartfv_timeout :: "string option"
  rartfv_nasIdentifier :: "string option"

definition remoteAccessRadiusToFormValues ::
    "RemoteAccessRadiusToFormValues_radius \<Rightarrow> RemoteAccessRadiusSettingsFormValues" where
  "remoteAccessRadiusToFormValues radius =
     \<lparr>rarsfv_sourceAddress = or_else (rartfv_sourceAddress radius) '''',
       rarsfv_timeout = or_else (rartfv_timeout radius) '''',
       rarsfv_nasIdentifier = or_else (rartfv_nasIdentifier radius) ''''\<rparr>"

definition remoteAccessRadiusSettingsForm_fields :: "RemoteAccessRadiusSettingsFormValues scalar_field list" where
  "remoteAccessRadiusSettingsForm_fields =
     [(rarsfv_sourceAddress, [''source-address'']),
      (rarsfv_timeout, [''timeout'']),
      (rarsfv_nasIdentifier, [''nas-identifier''])]"

definition remoteAccessRadiusSettingsFormToOps ::
    "RemoteAccessRadiusToFormValues_radius \<Rightarrow> RemoteAccessRadiusSettingsFormValues \<Rightarrow> ConfigOp list" where
  "remoteAccessRadiusSettingsFormToOps before values =
     (let beforeValues = remoteAccessRadiusToFormValues before;
          base = ipsecRemoteAccessPath [''radius'']
      in diffToOps base remoteAccessRadiusSettingsForm_fields [] beforeValues values)"

record OptionsFormValues =
  ofv_disableRouteAutoinstall :: bool
  ofv_flexvpn :: bool
  ofv_virtualIp :: bool
  ofv_interface :: string
  ofv_retransmissionAttempts :: string
  ofv_retransmissionBase :: string
  ofv_retransmissionTimeout :: string

definition blankOptionsFormValues :: OptionsFormValues where
  "blankOptionsFormValues =
     \<lparr>ofv_disableRouteAutoinstall = False,
       ofv_flexvpn = False,
       ofv_virtualIp = False,
       ofv_interface = '''',
       ofv_retransmissionAttempts = '''',
       ofv_retransmissionBase = '''',
       ofv_retransmissionTimeout = ''''\<rparr>"

definition optionsToFormValues :: "IPsecOptions \<Rightarrow> OptionsFormValues" where
  "optionsToFormValues options =
     \<lparr>ofv_disableRouteAutoinstall = ipo_disableRouteAutoinstall options,
       ofv_flexvpn = ipo_flexvpn options,
       ofv_virtualIp = ipo_virtualIp options,
       ofv_interface = or_else (ipo_interface options) '''',
       ofv_retransmissionAttempts = or_else (ipo_retransmissionAttempts options) '''',
       ofv_retransmissionBase = or_else (ipo_retransmissionBase options) '''',
       ofv_retransmissionTimeout = or_else (ipo_retransmissionTimeout options) ''''\<rparr>"

definition optionsForm_flags :: "OptionsFormValues flag_field list" where
  "optionsForm_flags =
     [(ofv_disableRouteAutoinstall, [''disable-route-autoinstall'']),
      (ofv_flexvpn, [''flexvpn'']),
      (ofv_virtualIp, [''virtual-ip''])]"

definition optionsForm_fields :: "OptionsFormValues scalar_field list" where
  "optionsForm_fields =
     [(ofv_interface, [''interface'']),
      (ofv_retransmissionAttempts, [''retransmission'', ''attempts'']),
      (ofv_retransmissionBase, [''retransmission'', ''base'']),
      (ofv_retransmissionTimeout, [''retransmission'', ''timeout''])]"

definition optionsFormToOps :: "IPsecOptions \<Rightarrow> OptionsFormValues \<Rightarrow> ConfigOp list" where
  "optionsFormToOps before values =
     (let beforeValues = optionsToFormValues before;
          base = ipsecOptionsPath []
      in diffToOps base [] optionsForm_flags beforeValues values
         @ diffToOps base optionsForm_fields [] beforeValues values)"



end
