(* ===== verification/VpnOpenconnect.thy ===== *)
theory VpnOpenconnect
  imports SavedForms
begin

text \<open>
  OpenConnect: the interfaces of \<open>lib/vpnOpenconnectTypes.ts\<close>, the parser of
  \<open>lib/vpnOpenconnectParse.ts\<close> and the forms of \<open>lib/vpnOpenconnectForm.ts\<close>.
\<close>

subsection \<open>Types\<close>

definition OPENCONNECT_LOCAL_AUTH_MODES :: "string list" where
  "OPENCONNECT_LOCAL_AUTH_MODES = [''password'', ''otp'', ''password-otp'']"

definition OPENCONNECT_OTP_TOKEN_TYPES :: "string list" where
  "OPENCONNECT_OTP_TOKEN_TYPES = [''hotp-time'', ''hotp-event'']"

definition OPENCONNECT_TLS_VERSIONS :: "string list" where
  "OPENCONNECT_TLS_VERSIONS = [''1.0'', ''1.1'', ''1.2'', ''1.3'']"

record OpenconnectRadiusServer =
  ors_address :: string
  ors_disabled :: bool
  ors_hasKey :: bool
  ors_port :: "string option"

record OpenconnectAccounting =
  vooa_radiusEnabled :: bool
  vooa_radiusServers :: "OpenconnectRadiusServer list"

definition blankOpenconnectAccounting :: OpenconnectAccounting where
  "blankOpenconnectAccounting = \<lparr>vooa_radiusEnabled = False, vooa_radiusServers = []\<rparr>"

record OpenconnectOtp =
  oo_hasKey :: bool
  oo_otpLength :: "string option"
  oo_interval :: "string option"
  oo_tokenType :: "string option"

definition blankOpenconnectOtp :: OpenconnectOtp where
  "blankOpenconnectOtp =
     \<lparr>oo_hasKey = False, oo_otpLength = None, oo_interval = None, oo_tokenType = None\<rparr>"

record OpenconnectLocalUser =
  olu_username :: string
  olu_disabled :: bool
  olu_hasPassword :: bool
  olu_otp :: OpenconnectOtp

definition blankOpenconnectLocalUser :: OpenconnectLocalUser where
  "blankOpenconnectLocalUser =
     \<lparr>olu_username = '''',
       olu_disabled = False,
       olu_hasPassword = False,
       olu_otp = blankOpenconnectOtp\<rparr>"

record OpenconnectAuthRadius =
  vooar_servers :: "OpenconnectRadiusServer list"
  vooar_timeout :: "string option"
  vooar_groupconfig :: bool

definition blankOpenconnectAuthRadius :: OpenconnectAuthRadius where
  "blankOpenconnectAuthRadius =
     \<lparr>vooar_servers = [], vooar_timeout = None, vooar_groupconfig = False\<rparr>"

record OpenconnectAuthentication =
  oaa_localMode :: "string option"
  oaa_radiusEnabled :: bool
  oaa_certificateUserIdentifierField :: "string option"
  oaa_groups :: "string list"
  oaa_localUsers :: "OpenconnectLocalUser list"
  oaa_radius :: OpenconnectAuthRadius

definition blankOpenconnectAuthentication :: OpenconnectAuthentication where
  "blankOpenconnectAuthentication =
     \<lparr>oaa_localMode = None,
       oaa_radiusEnabled = False,
       oaa_certificateUserIdentifierField = None,
       oaa_groups = [],
       oaa_localUsers = [],
       oaa_radius = blankOpenconnectAuthRadius\<rparr>"

record OpenconnectListenPorts =
  olp_tcp :: "string option"
  olp_udp :: "string option"

record OpenconnectSsl =
  os_caCertificates :: "string list"
  os_certificate :: "string option"
  os_hasPassphrase :: bool

definition blankOpenconnectSsl :: OpenconnectSsl where
  "blankOpenconnectSsl =
     \<lparr>os_caCertificates = [], os_certificate = None, os_hasPassphrase = False\<rparr>"

record OpenconnectClientIpv6Pool =
  ocip_prefix :: "string option"
  ocip_mask :: "string option"

record OpenconnectNetworkSettings =
  ons_pushRoutes :: "string list"
  ons_clientIpv4Subnet :: "string option"
  ons_clientIpv6Pool :: OpenconnectClientIpv6Pool
  ons_nameServers :: "string list"
  ons_splitDns :: "string list"
  ons_tunnelAllDns :: "string option"

definition blankOpenconnectNetworkSettings :: OpenconnectNetworkSettings where
  "blankOpenconnectNetworkSettings =
     \<lparr>ons_pushRoutes = [],
       ons_clientIpv4Subnet = None,
       ons_clientIpv6Pool = \<lparr>ocip_prefix = None, ocip_mask = None\<rparr>,
       ons_nameServers = [],
       ons_splitDns = [],
       ons_tunnelAllDns = None\<rparr>"

record OpenconnectScript =
  voos_connect :: "string option"
  voos_disconnect :: "string option"

record OpenconnectConfig =
  vooc_enabled :: bool
  vooc_accounting :: OpenconnectAccounting
  vooc_authentication :: OpenconnectAuthentication
  vooc_listenAddress :: "string option"
  vooc_listenPorts :: OpenconnectListenPorts
  vooc_httpSecurityHeaders :: bool
  vooc_tlsVersionMin :: "string option"
  vooc_ssl :: OpenconnectSsl
  vooc_networkSettings :: OpenconnectNetworkSettings
  vooc_script :: OpenconnectScript

definition blankOpenconnectConfig :: OpenconnectConfig where
  "blankOpenconnectConfig =
     \<lparr>vooc_enabled = False,
       vooc_accounting = blankOpenconnectAccounting,
       vooc_authentication = blankOpenconnectAuthentication,
       vooc_listenAddress = None,
       vooc_listenPorts = \<lparr>olp_tcp = None, olp_udp = None\<rparr>,
       vooc_httpSecurityHeaders = False,
       vooc_tlsVersionMin = None,
       vooc_ssl = blankOpenconnectSsl,
       vooc_networkSettings = blankOpenconnectNetworkSettings,
       vooc_script = \<lparr>voos_connect = None, voos_disconnect = None\<rparr>\<rparr>"

subsection \<open>Parsing\<close>

definition parseRadiusServer_vo :: "string \<Rightarrow> unknown \<Rightarrow> OpenconnectRadiusServer" where
  "parseRadiusServer_vo address raw =
     \<lparr>ors_address = address,
       ors_disabled = isFlagPresent raw ''disable'',
       ors_hasKey = child raw ''key'' \<noteq> None,
       ors_port = (case asString (child raw ''port'') of
            Some x \<Rightarrow> Some x
          | None \<Rightarrow> asString (child raw ''acct-port''))\<rparr>"

definition parseAccounting :: "collation \<Rightarrow> unknown \<Rightarrow> OpenconnectAccounting" where
  "parseAccounting lc raw =
     (let rootNode = child raw ''accounting''
      in if rootNode = None then blankOpenconnectAccounting
         else let radius = child rootNode ''radius''
              in \<lparr>vooa_radiusEnabled = isFlagPresent (child rootNode ''mode'') ''radius'',
                   vooa_radiusServers = parse_entries parseRadiusServer_vo
                       (\<lambda>a b. lc (ors_address a) (ors_address b)) (child radius ''server'')\<rparr>)"

definition parseOtp :: "unknown \<Rightarrow> OpenconnectOtp" where
  "parseOtp raw =
     (let rootNode = child raw ''otp''
      in if rootNode = None then blankOpenconnectOtp
         else \<lparr>oo_hasKey = child rootNode ''key'' \<noteq> None,
                oo_otpLength = asString (child rootNode ''otp-length''),
                oo_interval = asString (child rootNode ''interval''),
                oo_tokenType = asString (child rootNode ''token-type'')\<rparr>)"

definition parseLocalUser_vo :: "string \<Rightarrow> unknown \<Rightarrow> OpenconnectLocalUser" where
  "parseLocalUser_vo username raw =
     \<lparr>olu_username = username,
       olu_disabled = isFlagPresent raw ''disable'',
       olu_hasPassword = child raw ''password'' \<noteq> None,
       olu_otp = parseOtp raw\<rparr>"

definition parseAuthRadius :: "collation \<Rightarrow> unknown \<Rightarrow> OpenconnectAuthRadius" where
  "parseAuthRadius lc raw =
     (let rootNode = child raw ''radius''
      in if rootNode = None then blankOpenconnectAuthRadius
         else \<lparr>vooar_servers = parse_entries parseRadiusServer_vo
                    (\<lambda>a b. lc (ors_address a) (ors_address b)) (child rootNode ''server''),
                vooar_timeout = asString (child rootNode ''timeout''),
                vooar_groupconfig = isFlagPresent rootNode ''groupconfig''\<rparr>)"

definition parseAuthentication :: "collation \<Rightarrow> unknown \<Rightarrow> OpenconnectAuthentication" where
  "parseAuthentication lc raw =
     (let rootNode = child raw ''authentication''
      in if rootNode = None then blankOpenconnectAuthentication
         else let mode = child rootNode ''mode''
              in \<lparr>oaa_localMode = asString (child mode ''local''),
                   oaa_radiusEnabled = isFlagPresent mode ''radius'',
                   oaa_certificateUserIdentifierField = asString (child (child mode ''certificate'')
                          ''user-identifier-field''),
                   oaa_groups = asStringArray (child rootNode ''group''),
                   oaa_localUsers = parse_entries parseLocalUser_vo
                       (\<lambda>a b. lc (olu_username a) (olu_username b))
                       (child (child rootNode ''local-users'') ''username''),
                   oaa_radius = parseAuthRadius lc rootNode\<rparr>)"

definition parseListenPorts :: "unknown \<Rightarrow> OpenconnectListenPorts" where
  "parseListenPorts raw =
     (let rootNode = child raw ''listen-ports''
      in \<lparr>olp_tcp = asString (child rootNode ''tcp''),
           olp_udp = asString (child rootNode ''udp'')\<rparr>)"

definition parseSsl :: "unknown \<Rightarrow> OpenconnectSsl" where
  "parseSsl raw =
     (let rootNode = child raw ''ssl''
      in if rootNode = None then blankOpenconnectSsl
         else \<lparr>os_caCertificates = asStringArray (child rootNode ''ca-certificate''),
                os_certificate = asString (child rootNode ''certificate''),
                os_hasPassphrase = child rootNode ''passphrase'' \<noteq> None\<rparr>)"

definition parseNetworkSettings :: "unknown \<Rightarrow> OpenconnectNetworkSettings" where
  "parseNetworkSettings raw =
     (let rootNode = child raw ''network-settings''
      in if rootNode = None then blankOpenconnectNetworkSettings
         else let pool = child rootNode ''client-ipv6-pool''
              in \<lparr>ons_pushRoutes = asStringArray (child rootNode ''push-route''),
                   ons_clientIpv4Subnet = asString (child (child rootNode ''client-ip-settings'')
                          ''subnet''),
                   ons_clientIpv6Pool = \<lparr>ocip_prefix = asString (child pool ''prefix''),
                       ocip_mask = asString (child pool ''mask'')\<rparr>,
                   ons_nameServers = asStringArray (child rootNode ''name-server''),
                   ons_splitDns = asStringArray (child rootNode ''split-dns''),
                   ons_tunnelAllDns = asString (child rootNode ''tunnel-all-dns'')\<rparr>)"

definition parseScript :: "unknown \<Rightarrow> OpenconnectScript" where
  "parseScript raw =
     (let rootNode = child raw ''script''
      in \<lparr>voos_connect = asString (child rootNode ''connect''),
           voos_disconnect = asString (child rootNode ''disconnect'')\<rparr>)"

definition parseOpenconnectConfig :: "collation \<Rightarrow> unknown \<Rightarrow> OpenconnectConfig" where
  "parseOpenconnectConfig lc top1 =
     (if top1 = None then blankOpenconnectConfig
      else \<lparr>vooc_enabled = True,
             vooc_accounting = parseAccounting lc top1,
             vooc_authentication = parseAuthentication lc top1,
             vooc_listenAddress = asString (child top1 ''listen-address''),
             vooc_listenPorts = parseListenPorts top1,
             vooc_httpSecurityHeaders = isFlagPresent top1 ''http-security-headers'',
             vooc_tlsVersionMin = asString (child top1 ''tls-version-min''),
             vooc_ssl = parseSsl top1,
             vooc_networkSettings = parseNetworkSettings top1,
             vooc_script = parseScript top1\<rparr>)"

definition openconnectPath :: "path \<Rightarrow> path" where
  "openconnectPath rest = [''vpn'', ''openconnect''] @ rest"

definition openconnectAccountingRadiusServerPath :: "string \<Rightarrow> path \<Rightarrow> path" where
  "openconnectAccountingRadiusServerPath address rest =
     openconnectPath ([''accounting'', ''radius'', ''server'', address] @ rest)"

definition openconnectAuthPath :: "path \<Rightarrow> path" where
  "openconnectAuthPath rest = openconnectPath ([''authentication''] @ rest)"

definition openconnectLocalUserPath :: "string \<Rightarrow> path \<Rightarrow> path" where
  "openconnectLocalUserPath username rest =
     openconnectAuthPath ([''local-users'', ''username'', username] @ rest)"

definition openconnectAuthRadiusServerPath :: "string \<Rightarrow> path \<Rightarrow> path" where
  "openconnectAuthRadiusServerPath address rest =
     openconnectAuthPath ([''radius'', ''server'', address] @ rest)"

definition openconnectSslPath :: "path \<Rightarrow> path" where
  "openconnectSslPath rest = openconnectPath ([''ssl''] @ rest)"

definition openconnectNetworkSettingsPath :: "path \<Rightarrow> path" where
  "openconnectNetworkSettingsPath rest = openconnectPath ([''network-settings''] @ rest)"

subsection \<open>Forms\<close>

definition enableOpenconnectOp :: ConfigOp where
  "enableOpenconnectOp = set_flag (openconnectPath [])"

definition disableOpenconnectOp :: ConfigOp where
  "disableOpenconnectOp = delete_op (openconnectPath [])"

definition addOpenconnectAccountingRadiusServerOps ::
    "string \<Rightarrow> string \<Rightarrow> string \<Rightarrow> ConfigOp list" where
  "addOpenconnectAccountingRadiusServerOps address key acctPort =
     (let base = openconnectAccountingRadiusServerPath address [];
          trimmedKey = js_trim key
      in [set_flag base]
         @ (if trimmedKey \<noteq> '''' then [set_op (base @ [''key'']) trimmedKey] else [])
         @ (if js_trim acctPort \<noteq> ''''
            then [set_op (base @ [''acct-port'']) (js_trim acctPort)]
            else []))"

definition removeOpenconnectAccountingRadiusServerOp :: "string \<Rightarrow> ConfigOp" where
  "removeOpenconnectAccountingRadiusServerOp address =
     delete_op (openconnectAccountingRadiusServerPath address [])"

definition toggleOpenconnectAccountingRadiusModeOp :: "bool \<Rightarrow> ConfigOp" where
  "toggleOpenconnectAccountingRadiusModeOp enabled =
     (let p = openconnectPath [''accounting'', ''mode'', ''radius'']
      in if enabled then set_flag p else delete_op p)"

record OpenconnectLocalUserFormOptions =
  olufo_password :: string
  olufo_otpKey :: string
  olufo_otpLength :: string
  olufo_otpInterval :: string
  olufo_otpTokenType :: string

definition addOpenconnectLocalUserOps ::
    "string \<Rightarrow> OpenconnectLocalUserFormOptions \<Rightarrow> ConfigOp list" where
  "addOpenconnectLocalUserOps username options =
     (let base = openconnectLocalUserPath username [];
          trimmedPassword = js_trim (olufo_password options);
          trimmedOtpKey = js_trim (olufo_otpKey options)
      in [set_flag base]
         @ (if trimmedPassword \<noteq> '''' then [set_op (base @ [''password'']) trimmedPassword]
            else [])
         @ (if trimmedOtpKey \<noteq> '''' then [set_op (base @ [''otp'', ''key'']) trimmedOtpKey]
            else [])
         @ (if js_trim (olufo_otpLength options) \<noteq> ''''
            then [set_op (base @ [''otp'', ''otp-length'']) (js_trim (olufo_otpLength options))]
            else [])
         @ (if js_trim (olufo_otpInterval options) \<noteq> ''''
            then [set_op (base @ [''otp'', ''interval'']) (js_trim (olufo_otpInterval options))]
            else [])
         @ (if olufo_otpTokenType options \<noteq> ''''
            then [set_op (base @ [''otp'', ''token-type'']) (olufo_otpTokenType options)]
            else []))"

definition removeOpenconnectLocalUserOp :: "string \<Rightarrow> ConfigOp" where
  "removeOpenconnectLocalUserOp username = delete_op (openconnectLocalUserPath username [])"

definition toggleOpenconnectLocalUserDisabledOp :: "string \<Rightarrow> bool \<Rightarrow> ConfigOp" where
  "toggleOpenconnectLocalUserDisabledOp username disabled =
     (let p = openconnectLocalUserPath username [''disable'']
      in if disabled then set_flag p else delete_op p)"

definition addOpenconnectAuthRadiusServerOps ::
    "string \<Rightarrow> string \<Rightarrow> string \<Rightarrow> ConfigOp list" where
  "addOpenconnectAuthRadiusServerOps address key port =
     (let base = openconnectAuthRadiusServerPath address [];
          trimmedKey = js_trim key
      in [set_flag base]
         @ (if trimmedKey \<noteq> '''' then [set_op (base @ [''key'']) trimmedKey] else [])
         @ (if js_trim port \<noteq> '''' then [set_op (base @ [''port'']) (js_trim port)] else []))"

definition removeOpenconnectAuthRadiusServerOp :: "string \<Rightarrow> ConfigOp" where
  "removeOpenconnectAuthRadiusServerOp address =
     delete_op (openconnectAuthRadiusServerPath address [])"

record OpenconnectSettingsFormValues =
  osfv_localAuthMode :: string
  osfv_radiusAuthEnabled :: bool
  osfv_certificateUserIdentifierField :: string
  osfv_radiusTimeout :: string
  osfv_radiusGroupconfig :: bool
  osfv_listenAddress :: string
  osfv_listenPortTcp :: string
  osfv_listenPortUdp :: string
  osfv_httpSecurityHeaders :: bool
  osfv_tlsVersionMin :: string
  osfv_certificate :: string
  osfv_hasPassphrase :: string
  osfv_clientIpv4Subnet :: string
  osfv_clientIpv6PoolPrefix :: string
  osfv_clientIpv6PoolMask :: string
  osfv_tunnelAllDns :: string
  osfv_scriptConnect :: string
  osfv_scriptDisconnect :: string

definition blankOpenconnectSettingsFormValues :: OpenconnectSettingsFormValues where
  "blankOpenconnectSettingsFormValues =
     \<lparr>osfv_localAuthMode = '''',
       osfv_radiusAuthEnabled = False,
       osfv_certificateUserIdentifierField = '''',
       osfv_radiusTimeout = '''',
       osfv_radiusGroupconfig = False,
       osfv_listenAddress = '''',
       osfv_listenPortTcp = '''',
       osfv_listenPortUdp = '''',
       osfv_httpSecurityHeaders = False,
       osfv_tlsVersionMin = '''',
       osfv_certificate = '''',
       osfv_hasPassphrase = '''',
       osfv_clientIpv4Subnet = '''',
       osfv_clientIpv6PoolPrefix = '''',
       osfv_clientIpv6PoolMask = '''',
       osfv_tunnelAllDns = '''',
       osfv_scriptConnect = '''',
       osfv_scriptDisconnect = ''''\<rparr>"

definition openconnectConfigToSettingsFormValues :: "OpenconnectConfig \<Rightarrow> OpenconnectSettingsFormValues" where
  "openconnectConfigToSettingsFormValues config =
     \<lparr>osfv_localAuthMode = or_else (oaa_localMode (vooc_authentication config)) '''',
       osfv_radiusAuthEnabled = oaa_radiusEnabled (vooc_authentication config),
       osfv_certificateUserIdentifierField = or_else
           (oaa_certificateUserIdentifierField (vooc_authentication config)) '''',
       osfv_radiusTimeout = or_else (vooar_timeout (oaa_radius (vooc_authentication config))) '''',
       osfv_radiusGroupconfig = vooar_groupconfig (oaa_radius (vooc_authentication config)),
       osfv_listenAddress = or_else (vooc_listenAddress config) '''',
       osfv_listenPortTcp = or_else (olp_tcp (vooc_listenPorts config)) '''',
       osfv_listenPortUdp = or_else (olp_udp (vooc_listenPorts config)) '''',
       osfv_httpSecurityHeaders = vooc_httpSecurityHeaders config,
       osfv_tlsVersionMin = or_else (vooc_tlsVersionMin config) '''',
       osfv_certificate = or_else (os_certificate (vooc_ssl config)) '''',
       osfv_hasPassphrase = '''',
       osfv_clientIpv4Subnet = or_else (ons_clientIpv4Subnet (vooc_networkSettings config)) '''',
       osfv_clientIpv6PoolPrefix = or_else
           (ocip_prefix (ons_clientIpv6Pool (vooc_networkSettings config))) '''',
       osfv_clientIpv6PoolMask = or_else
           (ocip_mask (ons_clientIpv6Pool (vooc_networkSettings config))) '''',
       osfv_tunnelAllDns = or_else (ons_tunnelAllDns (vooc_networkSettings config)) '''',
       osfv_scriptConnect = or_else (voos_connect (vooc_script config)) '''',
       osfv_scriptDisconnect = or_else (voos_disconnect (vooc_script config)) ''''\<rparr>"

definition openconnectSettingsForm_flags :: "OpenconnectSettingsFormValues flag_field list" where
  "openconnectSettingsForm_flags =
     [(osfv_radiusAuthEnabled, openconnectAuthPath [] @ [''mode'', ''radius'']),
      (osfv_radiusGroupconfig, openconnectAuthPath [] @ [''radius'', ''groupconfig'']),
      (osfv_httpSecurityHeaders, openconnectPath [''http-security-headers''])]"

definition openconnectSettingsForm_fields :: "OpenconnectSettingsFormValues scalar_field list" where
  "openconnectSettingsForm_fields =
     [(osfv_localAuthMode, openconnectAuthPath [] @ [''mode'', ''local'']),
      (osfv_certificateUserIdentifierField, openconnectAuthPath [] @ [''mode'', ''certificate'', ''user-identifier-field'']),
      (osfv_radiusTimeout, openconnectAuthPath [] @ [''radius'', ''timeout'']),
      (osfv_listenAddress, openconnectPath [''listen-address'']),
      (osfv_listenPortTcp, openconnectPath [''listen-ports'', ''tcp'']),
      (osfv_listenPortUdp, openconnectPath [''listen-ports'', ''udp'']),
      (osfv_tlsVersionMin, openconnectPath [''tls-version-min'']),
      (osfv_certificate, openconnectSslPath [] @ [''certificate'']),
      (osfv_clientIpv4Subnet, openconnectNetworkSettingsPath [] @ [''client-ip-settings'', ''subnet'']),
      (osfv_clientIpv6PoolPrefix, openconnectNetworkSettingsPath [] @ [''client-ipv6-pool'', ''prefix'']),
      (osfv_clientIpv6PoolMask, openconnectNetworkSettingsPath [] @ [''client-ipv6-pool'', ''mask'']),
      (osfv_tunnelAllDns, openconnectNetworkSettingsPath [] @ [''tunnel-all-dns'']),
      (osfv_scriptConnect, openconnectPath [''script'', ''connect'']),
      (osfv_scriptDisconnect, openconnectPath [''script'', ''disconnect''])]"

definition openconnectSettingsFormToOps ::
    "OpenconnectConfig \<Rightarrow> OpenconnectSettingsFormValues \<Rightarrow> ConfigOp list" where
  "openconnectSettingsFormToOps before values =
     (let beforeValues = openconnectConfigToSettingsFormValues before;
          authBase = openconnectAuthPath [];
          networkBase = openconnectNetworkSettingsPath [];
          sslBase = openconnectSslPath [];
          trimmedPassphrase = js_trim (osfv_hasPassphrase values)
      in diffToOps [] [] openconnectSettingsForm_flags beforeValues values
         @ diffToOps [] openconnectSettingsForm_fields [] beforeValues values
         @ (if trimmedPassphrase \<noteq> ''''
            then [set_op (sslBase @ [''passphrase'']) trimmedPassphrase]
            else []))"



end
