(* ===== verification/Pki.thy ===== *)
theory Pki
  imports SavedForms
begin

text \<open>
  Public key infrastructure: the interfaces of \<open>lib/pkiTypes.ts\<close>, the parser of \<open>lib/pkiParse.ts\<close> and
  the forms of authorities, certificates, other key material and the X.509 defaults (\<open>lib/pki*Form.ts\<close>).
  Key generation itself is done by the router.
\<close>

subsection \<open>Types\<close>

record PKICertificateAuthority =
  pkica_name :: string
  pkica_description :: "string option"
  pkica_certificate :: "string option"
  pkica_hasPrivateKey :: bool
  pkica_passwordProtected :: bool
  pkica_crls :: "string list"
  pkica_systemInstall :: bool
  pkica_revoked :: bool

record PKIAcmeSettings =
  pkias_domainNames :: "string list"
  pkias_email :: "string option"
  pkias_listenAddress :: "string option"
  pkias_rsaKeySize :: "string option"
  pkias_url :: "string option"

definition blankAcmeSettings :: PKIAcmeSettings where
  "blankAcmeSettings =
     \<lparr>pkias_domainNames = [],
       pkias_email = None,
       pkias_listenAddress = None,
       pkias_rsaKeySize = None,
       pkias_url = None\<rparr>"

record PKICertificate =
  pkic_name :: string
  pkic_description :: "string option"
  pkic_certificate :: "string option"
  pkic_hasPrivateKey :: bool
  pkic_passwordProtected :: bool
  pkic_revoked :: bool
  pkic_acme :: PKIAcmeSettings

record PKIDHParams =
  pkidhp_name :: string
  pkidhp_parameters :: "string option"

record PKIKeyPair =
  pkikp_name :: string
  pkikp_hasPublicKey :: bool
  pkikp_hasPrivateKey :: bool
  pkikp_passwordProtected :: bool

record PKIX509Defaults =
  pkixd_country :: "string option"
  pkixd_state :: "string option"
  pkixd_locality :: "string option"
  pkixd_organization :: "string option"

definition blankX509Defaults :: PKIX509Defaults where
  "blankX509Defaults =
     \<lparr>pkixd_country = None,
       pkixd_state = None,
       pkixd_locality = None,
       pkixd_organization = None\<rparr>"

record PKIConfig =
  pkpkic_cas :: "PKICertificateAuthority list"
  pkpkic_certificates :: "PKICertificate list"
  pkpkic_dhParams :: "PKIDHParams list"
  pkpkic_keyPairs :: "PKIKeyPair list"
  pkpkic_x509Defaults :: PKIX509Defaults

subsection \<open>Parsing\<close>

definition parseCA :: "string \<Rightarrow> unknown \<Rightarrow> PKICertificateAuthority" where
  "parseCA name raw =
     (let privateRoot = child raw ''private''
      in \<lparr>pkica_name = name,
           pkica_description = asString (child raw ''description''),
           pkica_certificate = asString (child raw ''certificate''),
           pkica_hasPrivateKey = child privateRoot ''key'' \<noteq> None,
           pkica_passwordProtected = isFlagPresent privateRoot ''password-protected'',
           pkica_crls = asStringArray (child raw ''crl''),
           pkica_systemInstall = isFlagPresent raw ''system-install'',
           pkica_revoked = isFlagPresent raw ''revoke''\<rparr>)"

definition parseCAs :: "collation \<Rightarrow> unknown \<Rightarrow> PKICertificateAuthority list" where
  "parseCAs lc rootNode =
     parse_entries parseCA (\<lambda>a b. lc (pkica_name a) (pkica_name b)) rootNode"

definition parseCertificate :: "string \<Rightarrow> unknown \<Rightarrow> PKICertificate" where
  "parseCertificate name raw =
     (let privateRoot = child raw ''private'';
          acmeRoot = child raw ''acme''
      in \<lparr>pkic_name = name,
           pkic_description = asString (child raw ''description''),
           pkic_certificate = asString (child raw ''certificate''),
           pkic_hasPrivateKey = child privateRoot ''key'' \<noteq> None,
           pkic_passwordProtected = isFlagPresent privateRoot ''password-protected'',
           pkic_revoked = isFlagPresent raw ''revoke'',
           pkic_acme = (if isRecord acmeRoot
              then \<lparr>pkias_domainNames = asStringArray (child acmeRoot ''domain-name''),
                     pkias_email = asString (child acmeRoot ''email''),
                     pkias_listenAddress = asString (child acmeRoot ''listen-address''),
                     pkias_rsaKeySize = asString (child acmeRoot ''rsa-key-size''),
                     pkias_url = asString (child acmeRoot ''url'')\<rparr>
              else blankAcmeSettings)\<rparr>)"

definition parseCertificates :: "collation \<Rightarrow> unknown \<Rightarrow> PKICertificate list" where
  "parseCertificates lc rootNode =
     parse_entries parseCertificate (\<lambda>a b. lc (pkic_name a) (pkic_name b)) rootNode"

definition parseDHParams :: "collation \<Rightarrow> unknown \<Rightarrow> PKIDHParams list" where
  "parseDHParams lc rootNode =
     parse_entries
       (\<lambda>name raw. \<lparr>pkidhp_name = name,
              pkidhp_parameters = asString (child raw ''parameters'')\<rparr>)
       (\<lambda>a b. lc (pkidhp_name a) (pkidhp_name b)) rootNode"

definition parseKeyPair :: "string \<Rightarrow> unknown \<Rightarrow> PKIKeyPair" where
  "parseKeyPair name raw =
     (let privateRoot = child raw ''private''
      in \<lparr>pkikp_name = name,
           pkikp_hasPublicKey = child (child raw ''public'') ''key'' \<noteq> None,
           pkikp_hasPrivateKey = child privateRoot ''key'' \<noteq> None,
           pkikp_passwordProtected = isFlagPresent privateRoot ''password-protected''\<rparr>)"

definition parseKeyPairs :: "collation \<Rightarrow> unknown \<Rightarrow> PKIKeyPair list" where
  "parseKeyPairs lc rootNode =
     parse_entries parseKeyPair (\<lambda>a b. lc (pkikp_name a) (pkikp_name b)) rootNode"

definition parseX509Defaults :: "unknown \<Rightarrow> PKIX509Defaults" where
  "parseX509Defaults pki =
     (let defaultRoot = child (child pki ''x509'') ''default''
      in if defaultRoot = None then blankX509Defaults
         else \<lparr>pkixd_country = asString (child defaultRoot ''country''),
                pkixd_state = asString (child defaultRoot ''state''),
                pkixd_locality = asString (child defaultRoot ''locality''),
                pkixd_organization = asString (child defaultRoot ''organization'')\<rparr>)"

definition parsePKIConfig :: "collation \<Rightarrow> unknown \<Rightarrow> PKIConfig" where
  "parsePKIConfig lc pki =
     \<lparr>pkpkic_cas = parseCAs lc (child pki ''ca''),
       pkpkic_certificates = parseCertificates lc (child pki ''certificate''),
       pkpkic_dhParams = parseDHParams lc (child pki ''dh''),
       pkpkic_keyPairs = parseKeyPairs lc (child pki ''key-pair''),
       pkpkic_x509Defaults = parseX509Defaults pki\<rparr>"

definition pkiCAPath :: "string \<Rightarrow> path \<Rightarrow> path" where
  "pkiCAPath name rest = [''pki'', ''ca'', name] @ rest"

definition pkiCertificatePath :: "string \<Rightarrow> path \<Rightarrow> path" where
  "pkiCertificatePath name rest = [''pki'', ''certificate'', name] @ rest"

definition pkiDHPath :: "string \<Rightarrow> path \<Rightarrow> path" where
  "pkiDHPath name rest = [''pki'', ''dh'', name] @ rest"

definition pkiKeyPairPath :: "string \<Rightarrow> path \<Rightarrow> path" where
  "pkiKeyPairPath name rest = [''pki'', ''key-pair'', name] @ rest"

definition pkiX509DefaultsPath :: "path \<Rightarrow> path" where
  "pkiX509DefaultsPath rest = [''pki'', ''x509'', ''default''] @ rest"

subsection \<open>Certificate authorities\<close>

record PKICAFormValues =
  pkicafv_description :: string
  pkicafv_certificate :: string
  pkicafv_privateKey :: string
  pkicafv_passwordProtected :: bool
  pkicafv_systemInstall :: bool
  pkicafv_revoked :: bool

definition blankCAFormValues :: PKICAFormValues where
  "blankCAFormValues =
     \<lparr>pkicafv_description = '''',
       pkicafv_certificate = '''',
       pkicafv_privateKey = '''',
       pkicafv_passwordProtected = False,
       pkicafv_systemInstall = False,
       pkicafv_revoked = False\<rparr>"

definition caToFormValues :: "PKICertificateAuthority \<Rightarrow> PKICAFormValues" where
  "caToFormValues ca =
     \<lparr>pkicafv_description = or_else (pkica_description ca) '''',
       pkicafv_certificate = or_else (pkica_certificate ca) '''',
       pkicafv_privateKey = '''',
       pkicafv_passwordProtected = pkica_passwordProtected ca,
       pkicafv_systemInstall = pkica_systemInstall ca,
       pkicafv_revoked = pkica_revoked ca\<rparr>"

definition caFormToOps ::
    "string \<Rightarrow> PKICertificateAuthority option \<Rightarrow> PKICAFormValues \<Rightarrow> ConfigOp list" where
  "caFormToOps name before values =
     (let beforeValues = (case before of
               Some before' \<Rightarrow> caToFormValues before'
             | None \<Rightarrow> blankCAFormValues);
          base = pkiCAPath name [];
          trimmedPrivateKey = js_trim (pkicafv_privateKey values)
      in scalar_diff (base @ [''description'']) (pkicafv_description beforeValues)
           (pkicafv_description values)
         @ scalar_diff (base @ [''certificate'']) (pkicafv_certificate beforeValues)
             (pkicafv_certificate values)
         @ flag_diff (base @ [''private'', ''password-protected''])
             (pkicafv_passwordProtected beforeValues) (pkicafv_passwordProtected values)
         @ flag_diff (base @ [''system-install'']) (pkicafv_systemInstall beforeValues)
             (pkicafv_systemInstall values)
         @ flag_diff (base @ [''revoke'']) (pkicafv_revoked beforeValues) (pkicafv_revoked values)
         @ (if trimmedPrivateKey \<noteq> ''''
            then [set_op (base @ [''private'', ''key'']) trimmedPrivateKey]
            else []))"

definition deleteCAOp :: "string \<Rightarrow> ConfigOp" where
  "deleteCAOp name = delete_op (pkiCAPath name [])"

subsection \<open>Certificates\<close>

record PKICertificateFormValues =
  pkicfv_description :: string
  pkicfv_certificate :: string
  pkicfv_privateKey :: string
  pkicfv_passwordProtected :: bool
  pkicfv_revoked :: bool
  pkicfv_acmeEmail :: string
  pkicfv_acmeListenAddress :: string
  pkicfv_acmeRsaKeySize :: string
  pkicfv_acmeUrl :: string

definition blankCertificateFormValues :: PKICertificateFormValues where
  "blankCertificateFormValues =
     \<lparr>pkicfv_description = '''',
       pkicfv_certificate = '''',
       pkicfv_privateKey = '''',
       pkicfv_passwordProtected = False,
       pkicfv_revoked = False,
       pkicfv_acmeEmail = '''',
       pkicfv_acmeListenAddress = '''',
       pkicfv_acmeRsaKeySize = '''',
       pkicfv_acmeUrl = ''''\<rparr>"

definition certificateToFormValues :: "PKICertificate \<Rightarrow> PKICertificateFormValues" where
  "certificateToFormValues cert =
     \<lparr>pkicfv_description = or_else (pkic_description cert) '''',
       pkicfv_certificate = or_else (pkic_certificate cert) '''',
       pkicfv_privateKey = '''',
       pkicfv_passwordProtected = pkic_passwordProtected cert,
       pkicfv_revoked = pkic_revoked cert,
       pkicfv_acmeEmail = or_else (pkias_email (pkic_acme cert)) '''',
       pkicfv_acmeListenAddress = or_else (pkias_listenAddress (pkic_acme cert)) '''',
       pkicfv_acmeRsaKeySize = or_else (pkias_rsaKeySize (pkic_acme cert)) '''',
       pkicfv_acmeUrl = or_else (pkias_url (pkic_acme cert)) ''''\<rparr>"

definition PKI_CERTIFICATE_SCALAR_FIELDS :: "PKICertificateFormValues scalar_field list" where
  "PKI_CERTIFICATE_SCALAR_FIELDS =
     [(pkicfv_description, [''description'']),
      (pkicfv_certificate, [''certificate'']),
      (pkicfv_acmeEmail, [''acme'', ''email'']),
      (pkicfv_acmeListenAddress, [''acme'', ''listen-address'']),
      (pkicfv_acmeRsaKeySize, [''acme'', ''rsa-key-size'']),
      (pkicfv_acmeUrl, [''acme'', ''url''])]"

definition certificateFormToOps ::
    "string \<Rightarrow> PKICertificate option \<Rightarrow> PKICertificateFormValues \<Rightarrow> ConfigOp list" where
  "certificateFormToOps name before values =
     (let beforeValues = (case before of
               Some before' \<Rightarrow> certificateToFormValues before'
             | None \<Rightarrow> blankCertificateFormValues);
          base = pkiCertificatePath name [];
          trimmedPrivateKey = js_trim (pkicfv_privateKey values)
      in diffToOps base PKI_CERTIFICATE_SCALAR_FIELDS [] beforeValues values
         @ flag_diff (base @ [''private'', ''password-protected''])
             (pkicfv_passwordProtected beforeValues) (pkicfv_passwordProtected values)
         @ flag_diff (base @ [''revoke'']) (pkicfv_revoked beforeValues) (pkicfv_revoked values)
         @ (if trimmedPrivateKey \<noteq> ''''
            then [set_op (base @ [''private'', ''key'']) trimmedPrivateKey]
            else []))"

definition deleteCertificateOp :: "string \<Rightarrow> ConfigOp" where
  "deleteCertificateOp name = delete_op (pkiCertificatePath name [])"

subsection \<open>Key material\<close>

record PKIKeyPairFormValues =
  pkikpfv_publicKey :: string
  pkikpfv_privateKey :: string
  pkikpfv_passwordProtected :: bool

definition blankKeyPairFormValues :: PKIKeyPairFormValues where
  "blankKeyPairFormValues =
     \<lparr>pkikpfv_publicKey = '''',
       pkikpfv_privateKey = '''',
       pkikpfv_passwordProtected = False\<rparr>"

definition keyPairToFormValues :: "PKIKeyPair \<Rightarrow> PKIKeyPairFormValues" where
  "keyPairToFormValues keyPair =
     \<lparr>pkikpfv_publicKey = '''',
       pkikpfv_privateKey = '''',
       pkikpfv_passwordProtected = pkikp_passwordProtected keyPair\<rparr>"

definition keyPairFormToOps ::
    "string \<Rightarrow> PKIKeyPair option \<Rightarrow> PKIKeyPairFormValues \<Rightarrow> ConfigOp list" where
  "keyPairFormToOps name before values =
     (let beforeValues = (case before of
               Some before' \<Rightarrow> keyPairToFormValues before'
             | None \<Rightarrow> blankKeyPairFormValues);
          base = pkiKeyPairPath name [];
          trimmedPublicKey = js_trim (pkikpfv_publicKey values);
          trimmedPrivateKey = js_trim (pkikpfv_privateKey values)
      in flag_diff (base @ [''private'', ''password-protected''])
           (pkikpfv_passwordProtected beforeValues) (pkikpfv_passwordProtected values)
         @ (if trimmedPublicKey \<noteq> ''''
            then [set_op (base @ [''public'', ''key'']) trimmedPublicKey]
            else [])
         @ (if trimmedPrivateKey \<noteq> ''''
            then [set_op (base @ [''private'', ''key'']) trimmedPrivateKey]
            else []))"

definition deleteKeyPairOp :: "string \<Rightarrow> ConfigOp" where
  "deleteKeyPairOp name = delete_op (pkiKeyPairPath name [])"

record PKIDHFormValues =
  pkidhfv_parameters :: string

definition blankDHFormValues :: PKIDHFormValues where
  "blankDHFormValues = \<lparr>pkidhfv_parameters = ''''\<rparr>"

definition dhToFormValues :: "PKIDHParams \<Rightarrow> PKIDHFormValues" where
  "dhToFormValues dh = \<lparr>pkidhfv_parameters = or_else (pkidhp_parameters dh) ''''\<rparr>"

definition dhFormToOps ::
    "string \<Rightarrow> PKIDHParams option \<Rightarrow> PKIDHFormValues \<Rightarrow> ConfigOp list" where
  "dhFormToOps name before values =
     (let beforeValues = (case before of
               Some before' \<Rightarrow> dhToFormValues before'
             | None \<Rightarrow> blankDHFormValues)
      in scalar_diff (pkiDHPath name [''parameters'']) (pkidhfv_parameters beforeValues)
           (pkidhfv_parameters values))"

definition deleteDHOp :: "string \<Rightarrow> ConfigOp" where
  "deleteDHOp name = delete_op (pkiDHPath name [])"

subsection \<open>X.509 defaults\<close>

record PKIX509DefaultsFormValues =
  pkixdfv_country :: string
  pkixdfv_state :: string
  pkixdfv_locality :: string
  pkixdfv_organization :: string

definition blankX509DefaultsFormValues :: PKIX509DefaultsFormValues where
  "blankX509DefaultsFormValues =
     \<lparr>pkixdfv_country = '''',
       pkixdfv_state = '''',
       pkixdfv_locality = '''',
       pkixdfv_organization = ''''\<rparr>"

definition x509DefaultsToFormValues :: "PKIX509Defaults \<Rightarrow> PKIX509DefaultsFormValues" where
  "x509DefaultsToFormValues defaults =
     \<lparr>pkixdfv_country = or_else (pkixd_country defaults) '''',
       pkixdfv_state = or_else (pkixd_state defaults) '''',
       pkixdfv_locality = or_else (pkixd_locality defaults) '''',
       pkixdfv_organization = or_else (pkixd_organization defaults) ''''\<rparr>"

definition PKI_X509_DEFAULTS_SCALAR_FIELDS :: "PKIX509DefaultsFormValues scalar_field list" where
  "PKI_X509_DEFAULTS_SCALAR_FIELDS =
     [(pkixdfv_country, [''country'']),
      (pkixdfv_state, [''state'']),
      (pkixdfv_locality, [''locality'']),
      (pkixdfv_organization, [''organization''])]"

definition x509DefaultsFormToOps ::
    "PKIX509Defaults \<Rightarrow> PKIX509DefaultsFormValues \<Rightarrow> ConfigOp list" where
  "x509DefaultsFormToOps before values =
     (let beforeValues = x509DefaultsToFormValues before
      in diffToOps (pkiX509DefaultsPath []) PKI_X509_DEFAULTS_SCALAR_FIELDS [] beforeValues values)"



end
