(* ===== verification/FormQueue.thy ===== *)
theory FormQueue
  imports Firewall LoadBalancing PendingChanges
begin

text \<open>
  A form's way to the router: the submit handlers of the components queue the ops of the form in the
  cart one by one (\<open>for (const op of ops) add(...)\<close>, e.g. \<open>submit\<close> of
  \<open>components/loadbalancing/WanRuleList.tsx\<close>), and the commit sends the cart to \<open>/configure\<close>. Where no op
  cancels a queued one this is the same as applying the form's ops; the WAN rule form, which replaces a
  node by deleting and recreating it, is where it is not.
\<close>

text \<open>The label of a change: the op, its path and, when there is one, its value in quotes.\<close>

definition change_label :: "ConfigOp \<Rightarrow> string" where
  "change_label op =
     op_name (co_op op) @ '' '' @ js_join '' '' (co_path op)
     @ (if or_else (co_value op) '''' = '''' then ''''
        else '' '' @ [CHR 0x27] @ or_else (co_value op) '''' @ [CHR 0x27])"

text \<open>The identifiers are those that \<open>crypto.randomUUID\<close> returns, one for each op.\<close>

definition queue_form :: "string list \<Rightarrow> ConfigOp list \<Rightarrow> PendingChange list \<Rightarrow> PendingChange list" where
  "queue_form uuids ops changes =
     fold (\<lambda>(uuid, op). add_change uuid op (change_label op)) (zip uuids ops) changes"

text \<open>No op of the list is a bare \<open>set\<close> of a path that an earlier one deletes.\<close>

fun uncancelled :: "ConfigOp list \<Rightarrow> ConfigOp list \<Rightarrow> bool" where
  "uncancelled seen [] = True"
| "uncancelled seen (op # ops) \<longleftrightarrow>
     \<not> (op = set_flag (co_path op) \<and> delete_op (co_path op) \<in> set seen) \<and> uncancelled (seen @ [op]) ops"

lemma uncancelled_cong: "set s = set s' \<Longrightarrow> uncancelled s ops \<longleftrightarrow> uncancelled s' ops"
proof (induction ops arbitrary: s s')
  case (Cons op ops)
  have "set (s @ [op]) = set (s' @ [op])" using Cons.prems by simp
  from Cons.IH [OF this] show ?case using Cons.prems by simp
qed simp

lemma last_index_nth: "last_index P xs = Some i \<Longrightarrow> i < length xs \<and> P (xs ! i)"
  by (auto simp: last_index_def Let_def split: if_splits dest!: last_in_set)

lemma cancelled_delete_queued:
  assumes "cancelled_delete changes op \<noteq> None" and "plain_path (co_path op)"
    and "list_all (\<lambda>c. plain_path (co_path (pc_op c))) changes"
  shows "op = set_flag (co_path op) \<and> delete_op (co_path op) \<in> set (map pc_op changes)"
proof -
  have bare: "co_op op = Set_op" "co_value op = None"
    using assms(1) by (auto simp: cancelled_delete_def split: if_splits)
  with assms(1) obtain i where
    i: "last_index (\<lambda>c. path_key (co_path (pc_op c)) = path_key (co_path op)) changes = Some i"
    and d: "co_op (pc_op (changes ! i)) = Delete_op" "co_value (pc_op (changes ! i)) = None"
    by (auto simp: cancelled_delete_def split: option.splits if_splits)
  from last_index_nth [OF i] have n: "i < length changes"
    and k: "path_key (co_path (pc_op (changes ! i))) = path_key (co_path op)" by auto
  have "plain_path (co_path (pc_op (changes ! i)))" using assms(3) n by (simp add: list_all_length)
  with k assms(2) have "co_path (pc_op (changes ! i)) = co_path op" by (simp add: path_key_inj)
  with d have "pc_op (changes ! i) = delete_op (co_path op)" by (simp add: op_defs)
  moreover have "pc_op (changes ! i) \<in> set (map pc_op changes)" using n by simp
  ultimately have "delete_op (co_path op) \<in> set (map pc_op changes)" by simp
  moreover have "op = set_flag (co_path op)" using bare by (simp add: op_defs)
  ultimately show ?thesis by blast
qed

lemma add_change_ops:
  assumes "cancelled_delete changes op = None" and "plain_path (co_path op)"
    and "list_all (\<lambda>c. plain_path (co_path (pc_op c))) changes"
  shows "set (map pc_op (add_change uuid op l changes)) = insert op (set (map pc_op changes))"
proof (cases "changes \<noteq> [] \<and> same_op (pc_op (last changes)) op")
  case True
  then have "last changes \<in> set changes" by simp
  with True assms(2,3) have "pc_op (last changes) = op" by (auto intro!: same_op_eq simp: list_all_iff)
  with \<open>last changes \<in> set changes\<close> True show ?thesis by (force simp: add_change_def)
next
  case False
  then show ?thesis using assms(1) by (auto simp: add_change_def)
qed

lemma queue_form_subset: "pc_op ` set (queue_form uuids ops changes) \<subseteq> set ops \<union> pc_op ` set changes"
proof (induction ops arbitrary: uuids changes)
  case (Cons op ops)
  have add: "pc_op ` set (add_change u op l changes) \<subseteq> insert op (pc_op ` set changes)" for u l
    by (auto simp: add_change_def remove_index_def dest: in_set_takeD in_set_dropD split: option.splits)
  show ?case
  proof (cases uuids)
    case (Cons u us)
    let ?c = "add_change u op (change_label op) changes"
    have "queue_form uuids (op # ops) changes = queue_form us ops ?c" by (simp add: queue_form_def Cons)
    moreover have "pc_op ` set (queue_form us ops ?c) \<subseteq> set ops \<union> pc_op ` set ?c" by (rule Cons.IH)
    ultimately show ?thesis using add [of u "change_label op"] by auto
  qed (auto simp: queue_form_def)
qed (simp add: queue_form_def)

lemma queue_form_applied:
  assumes "length uuids = length ops" and "list_all (\<lambda>op. plain_path (co_path op)) ops"
    and "list_all (\<lambda>c. plain_path (co_path (pc_op c))) changes"
    and "uncancelled (map pc_op changes) ops"
  shows "device_apply (map pc_op (queue_form uuids ops changes)) m
       = device_apply ops (device_apply (map pc_op changes) m)"
  using assms
proof (induction ops arbitrary: uuids changes)
  case (Cons op ops)
  then obtain u us where us: "uuids = u # us" and len: "length us = length ops" by (cases uuids) auto
  let ?c = "add_change u op (change_label op) changes"
  have plain: "plain_path (co_path op)" using Cons.prems by simp
  have none: "cancelled_delete changes op = None"
    using cancelled_delete_queued [OF _ plain Cons.prems(3)] Cons.prems(4) by fastforce
  have ops: "set (map pc_op ?c) = insert op (set (map pc_op changes))"
    by (rule add_change_ops [OF none plain Cons.prems(3)])
  then have "\<forall>o1 \<in> set (map pc_op ?c). plain_path (co_path o1)"
    using plain Cons.prems(3) by (auto simp: list_all_iff)
  then have c: "list_all (\<lambda>c. plain_path (co_path (pc_op c))) ?c" by (simp add: list_all_iff)
  have "uncancelled (map pc_op ?c) ops"
    using Cons.prems(4) uncancelled_cong [of "map pc_op ?c" "map pc_op changes @ [op]" ops] ops by simp
  with Cons.IH [OF len _ c] Cons.prems(2)
  have "device_apply (map pc_op (queue_form us ops ?c)) m = device_apply ops (device_apply (map pc_op ?c) m)"
    by simp
  also have "device_apply (map pc_op ?c) m = device_apply [op] (device_apply (map pc_op changes) m)"
    by (simp only: add_change_applied [OF plain Cons.prems(3) none] device_apply_simps)
  finally show ?case by (simp add: us queue_form_def)
qed (simp add: queue_form_def)

text \<open>A table's ops never cancel each other: no two are at the same path.\<close>

lemma co_path_delete: "co_path (delete_op p) = p"
  by (simp add: op_defs)

lemma uncancelled_distinct:
  "distinct (map co_path ops) \<Longrightarrow> co_path ` set seen \<inter> co_path ` set ops = {} \<Longrightarrow> uncancelled seen ops"
proof (induction ops arbitrary: seen)
  case (Cons op ops)
  have "co_path op \<notin> co_path ` set seen" using Cons.prems(2) by auto
  then have "delete_op (co_path op) \<notin> set seen"
    by (metis co_path_delete image_eqI)
  moreover have "uncancelled (seen @ [op]) ops"
  proof (rule Cons.IH)
    show "distinct (map co_path ops)" using Cons.prems(1) by simp
    have "co_path op \<notin> co_path ` set ops" using Cons.prems(1) by simp
    then show "co_path ` set (seen @ [op]) \<inter> co_path ` set ops = {}" using Cons.prems(2) by auto
  qed
  ultimately show ?case by simp
qed simp

lemma edit_ops_path: "edit_ops (p, e) = [] \<or> (\<exists>op. edit_ops (p, e) = [op] \<and> co_path op = p)"
  by (cases e) (auto simp: scalar_diff_def flag_diff_def op_defs)

lemma edits_paths: "op \<in> set (concat (map edit_ops es)) \<Longrightarrow> co_path op \<in> fst ` set es"
proof (induction es)
  case (Cons x es)
  obtain p e where "x = (p, e)" by (cases x)
  then show ?case using Cons edit_ops_path [of p e] by auto
qed simp

lemma edits_distinct: "distinct (map fst es) \<Longrightarrow> distinct (map co_path (concat (map edit_ops es)))"
proof (induction es)
  case (Cons x es)
  obtain p e where x: "x = (p, e)" by (cases x)
  have "p \<notin> co_path ` set (concat (map edit_ops es))"
    using edits_paths [of _ es] Cons.prems x by auto
  moreover have "distinct (map co_path (concat (map edit_ops es)))" using Cons by simp
  ultimately show ?case using edit_ops_path [of p e] x by auto
qed simp

lemma indep_all_distinct: "indep_all ps \<Longrightarrow> [] \<notin> set ps \<Longrightarrow> distinct ps"
  by (induction ps) (auto simp: list_all_iff indep_def)

lemma diff_uncancelled:
  assumes "indep_all (map snd sfs @ map snd ffs)" and "[] \<notin> set (map snd sfs @ map snd ffs)"
  shows "uncancelled [] (diffToOps p sfs ffs b v)"
proof -
  have "map fst (form_edits p sfs ffs b v) = map ((@) p) (map snd sfs @ map snd ffs)"
    by (auto simp: form_edits_def case_prod_beta)
  then have "distinct (map fst (form_edits p sfs ffs b v))"
    using indep_all_distinct [OF assms] by (simp add: distinct_map inj_on_def del: map_append)
  then show ?thesis
    unfolding diffToOps_edits by (intro uncancelled_distinct edits_distinct) auto
qed

subsection \<open>Queued, committed and read back\<close>

text \<open>
  C20. The cart does not change what a form does: when none of its ops recreates a path that it or the
  cart deletes, queueing the ops one by one and applying the cart is applying the cart as it was and
  then the ops, whatever identifiers the changes get.
\<close>

theorem queue_form_device:
  assumes "length uuids = length ops" and "list_all (\<lambda>op. plain_path (co_path op)) ops"
    and "list_all (\<lambda>c. plain_path (co_path (pc_op c))) changes"
    and "uncancelled (map pc_op changes) ops"
  shows "device_apply (map pc_op (queue_form uuids ops changes)) m
       = device_apply ops (device_apply (map pc_op changes) m)"
  by (rule queue_form_applied [OF assms])

text \<open>What the commit posts, and what the device then holds.\<close>

definition commit_cart :: "PendingChange list \<Rightarrow> int \<Rightarrow> fake_vyos \<Rightarrow> fake_reply \<times> fake_vyos" where
  "commit_cart changes confirm_time s = handleConfigure (map (to_payload \<circ> pc_op) changes) confirm_time s"

lemma plain_segments:
  "plain_path p \<Longrightarrow> list_all (\<lambda>s. CHR '' '' \<notin> set s) r \<Longrightarrow> plain_path (p @ r)"
  by (simp add: plain_path_def)

lemma diff_plain:
  assumes "plain_path p" and "\<forall>seg \<in> set (map snd sfs @ map snd ffs). list_all (\<lambda>s. CHR '' '' \<notin> set s) seg"
  shows "list_all (\<lambda>op. plain_path (co_path op)) (diffToOps p sfs ffs b v)"
proof -
  have "plain_path (co_path op)" if "op \<in> set (diffToOps p sfs ffs b v)" for op
  proof -
    from diff_path [OF that] obtain seg where seg: "seg \<in> set (map snd sfs @ map snd ffs)"
      and "co_path op = p @ seg" by auto
    then show ?thesis using plain_segments [OF assms(1)] bspec [OF assms(2) seg] by simp
  qed
  then show ?thesis by (simp add: list_all_iff)
qed

lemma committed_form:
  assumes "ops = diffToOps p sfs ffs b v" and "length uuids = length ops" and "plain_path p"
    and "indep_all (map snd sfs @ map snd ffs)" and "[] \<notin> set (map snd sfs @ map snd ffs)"
    and "\<forall>seg \<in> set (map snd sfs @ map snd ffs). list_all (\<lambda>s. CHR '' '' \<notin> set s) seg"
  shows "commit_cart (queue_form uuids ops []) c s
    = (Fake_success, s\<lparr>fv_config := device_apply ops (fv_config s),
         fv_pending := (if 0 < c then True else fv_pending s)\<rparr>)"
proof -
  let ?cart = "queue_form uuids ops []"
  have ops: "device_apply (map pc_op ?cart) m = device_apply ops m" for m
    using queue_form_applied [OF assms(2), of "[]"] diff_plain [OF assms(3,6)]
      diff_uncancelled [OF assms(4,5)] by (simp add: assms(1))
  have "pc_op ` set ?cart \<subseteq> set ops"
    using queue_form_subset [of uuids ops "[]"] by simp
  then have "\<forall>op \<in> set (map pc_op ?cart). co_path op \<noteq> []"
    using diff_plain [OF assms(3,6), of b v] by (auto simp: assms(1) list_all_iff plain_path_def)
  from run_commands_ops [OF this, of "fv_config s"] show ?thesis
    by (simp add: commit_cart_def handleConfigure_def ops)
qed

text \<open>
  From the form to the router and back. Take the form of the firewall rule the router has, edit it
  into any trimmed values with a known action, let the form queue its ops in an empty cart, and commit
  the cart: the router accepts it, and its configuration parses back to the edited values (the
  destination MAC address, which the form does not write, stays).
\<close>

theorem firewall_edit_committed:
  assumes "trimmed_form (RULE_SCALAR_FIELDS (rr_family ref)) v"
    and "rf_action v \<in> set ('''' # RULE_ACTIONS)"
    and "read_str (device_get (fv_config s) (rulePath ref n [''action''])) \<in> set ('''' # RULE_ACTIONS)"
    and "plain_path (rulePath ref n [])"
    and "ops = ruleFormToOps ref n (device_rule ref n (fv_config s)) v" and "length uuids = length ops"
  shows "fst (commit_cart (queue_form uuids ops []) c s) = Fake_success
    \<and> ruleToFormValues (parseRule (rr_family ref) n (device_get
        (fv_config (snd (commit_cart (queue_form uuids ops []) c s))) (rulePath ref n [])))
      = v\<lparr>rf_destination := (rf_destination v)
           \<lparr>mf_macAddress := read_str (device_get (fv_config s)
              (rulePath ref n [''destination'', ''mac-address'']))\<rparr>\<rparr>"
proof -
  have "commit_cart (queue_form uuids ops []) c s
    = (Fake_success, s\<lparr>fv_config := device_apply ops (fv_config s),
         fv_pending := (if 0 < c then True else fv_pending s)\<rparr>)"
    by (rule committed_form [OF _ assms(6,4) rule_fields_indep])
      (simp_all add: assms(5) ruleFormToOps_def Let_def RULE_SCALAR_FIELDS_def RULE_FLAG_FIELDS_def)
  then show ?thesis by (simp add: assms(5) firewall_form_saved [OF assms(1-3)])
qed

definition sample_cart :: "PendingChange list" where
  "sample_cart = [\<lparr>pc_id = ''0'', pc_op = set_op [''a''] ''x'', pc_label = ''''\<rparr>]"

theorem queue_form_device_witness:
  "device_apply (map pc_op (queue_form [''1'', ''2''] [set_op [''a''] ''y'', delete_op [''b'']] sample_cart)) []
   = device_apply [set_op [''a''] ''y'', delete_op [''b'']] (device_apply (map pc_op sample_cart) [])"
proof -
  let ?ops = "[set_op [''a''] ''y'', delete_op [''b'']]"
  have 1: "length [''1'', ''2''] = length ?ops" "list_all (\<lambda>op. plain_path (co_path op)) ?ops"
    "list_all (\<lambda>c. plain_path (co_path (pc_op c))) sample_cart" "uncancelled (map pc_op sample_cart) ?ops"
    by code_simp+
  show ?thesis by (rule queue_form_device [OF 1])
qed

definition drop_values :: RuleFormValues where
  "drop_values = blankRuleFormValues\<lparr>rf_action := ''drop'', rf_disabled := True\<rparr>"

definition forward_filter :: RulesetRef where
  "forward_filter = \<lparr>rr_id = ''forward'', rr_kind = Base_kind, rr_family = ''ipv4''\<rparr>"

definition blank_router :: fake_vyos where
  "blank_router = \<lparr>fv_config = [], fv_saved = [], fv_pending = False\<rparr>"

theorem firewall_edit_committed_witness:
  "ruleToFormValues (parseRule ''ipv4'' ''10'' (device_get (fv_config (snd (commit_cart (queue_form [''1'', ''2'']
      (ruleFormToOps forward_filter ''10'' None drop_values) []) 0 blank_router)))
      (rulePath forward_filter ''10'' []))) = drop_values"
proof -
  let ?ref = forward_filter and ?ops = "ruleFormToOps forward_filter ''10'' None drop_values"
  have 1: "trimmed_form (RULE_SCALAR_FIELDS (rr_family ?ref)) drop_values"
    "rf_action drop_values \<in> set ('''' # RULE_ACTIONS)"
    "read_str (device_get (fv_config blank_router) (rulePath ?ref ''10'' [''action''])) \<in> set ('''' # RULE_ACTIONS)"
    "plain_path (rulePath ?ref ''10'' [])"
    "?ops = ruleFormToOps ?ref ''10'' (device_rule ?ref ''10'' (fv_config blank_router)) drop_values"
    "length [''1'', ''2''] = length ?ops" "rr_family ?ref = ''ipv4''"
    "drop_values\<lparr>rf_destination := (rf_destination drop_values)\<lparr>mf_macAddress := read_str (device_get
      (fv_config blank_router) (rulePath ?ref ''10'' [''destination'', ''mac-address'']))\<rparr>\<rparr> = drop_values"
    by code_simp+
  from firewall_edit_committed [OF 1(1-6), of 0] 1(7,8) show ?thesis by simp
qed

end
