(* ===== verification/WanRules.thy ===== *)
theory WanRules
  imports FormQueue
begin

text \<open>
  The form of a WAN load-balancing rule on the device. Its \<open>limit\<close> node is replaced as a whole, so that a
  cleared input falls back to the router's default; applied directly the ops do that, and queued in
  the cart they do not.
\<close>

lemma wanRulePath_eq: "wanRulePath n r = [''load-balancing'', ''wan'', ''rule'', n] @ r"
  by (simp add: wanRulePath_def wanPath_def)

text \<open>Setting leaves below a node.\<close>

lemma set_leaves:
  assumes "distinct (map fst fs)" and "\<forall>(k, x) \<in> set fs. x \<noteq> ''''"
  shows "device_get (device_apply (map (\<lambda>(k, x). set_op (L @ [k]) x) fs) n) (L @ [k])
    = (case map_of fs k of Some x \<Rightarrow> Some (JStr x) | None \<Rightarrow> device_get n (L @ [k]))"
  using assms
proof (induction fs arbitrary: n)
  case (Cons f fs)
  obtain k' x where f: "f = (k', x)" by (cases f)
  let ?n = "setNested (L @ [k']) x n"
  have x: "x \<noteq> ''''" using Cons.prems(2) f by simp
  have "device_get ?n (L @ [k]) = (if k = k' then Some (JStr x) else device_get n (L @ [k]))"
    using x by (simp add: setNested_value setNested_other)
  moreover have "map_of fs k' = None" using Cons.prems(1) f by (simp add: map_of_eq_None_iff)
  moreover have "distinct (map fst fs)" "\<forall>(k, x) \<in> set fs. x \<noteq> ''''" using Cons.prems by auto
  note Cons.IH [OF this, of ?n]
  ultimately show ?case using f x by (auto split: option.splits)
qed simp

lemma wan_limit_applied:
  assumes "L \<noteq> []" and "had \<longleftrightarrow> isRecord (device_get n L)"
    and "m' = device_apply (wan_limit_ops L had b v) n"
  shows "has_limit v \<noteq> had \<or> limit_changed b v \<Longrightarrow> has_limit v \<Longrightarrow>
      device_get m' (L @ [k]) = map_option JStr (map_of (filter (\<lambda>(s, x). x \<noteq> '''') (wan_limit_fields v)) k)"
    and "\<not> has_limit v \<Longrightarrow> \<not> isRecord (device_get m' L)"
    and "\<not> (has_limit v \<noteq> had \<or> limit_changed b v) \<Longrightarrow> m' = n"
proof -
  let ?fs = "filter (\<lambda>(s, x). x \<noteq> '''') (wan_limit_fields v)"
  let ?pre = "if had then [delete_op L] else []"
  have fs: "distinct (map fst ?fs)" "\<forall>(k, x) \<in> set ?fs. x \<noteq> ''''"
    by (auto simp: wan_limit_fields_def)
  show "device_get m' (L @ [k]) = map_option JStr (map_of ?fs k)"
    if c: "has_limit v \<noteq> had \<or> limit_changed b v" and h: "has_limit v"
  proof -
    have "device_get (device_apply ?pre n) (L @ [k]) = None"
    proof (cases had)
      case True
      then show ?thesis using deleteNested_below [OF assms(1), of n "[k]"] by simp
    next
      case False
      then show ?thesis using assms(2)
        by (auto simp: device_get_append isRecord_def child_def split: option.splits json.splits)
    qed
    define n2 where "n2 = device_apply (?pre @ [set_flag L]) n"
    then have "device_get n2 (L @ [k]) = None"
      using create_below [OF assms(1), of "[set_flag L]" "[k]" "device_apply ?pre n"]
        \<open>device_get (device_apply ?pre n) (L @ [k]) = None\<close> by simp
    moreover have "m' = device_apply (map (\<lambda>(k, x). set_op (L @ [k]) x) ?fs) n2"
      using c h by (simp add: assms(3) wan_limit_ops_def n2_def)
    ultimately show ?thesis using set_leaves [OF fs, of L n2 k] by (simp split: option.splits)
  qed
  show "\<not> isRecord (device_get m' L)" if "\<not> has_limit v"
    using that assms(2)
    by (auto simp: assms(3) wan_limit_ops_def deleteNested_gone [OF assms(1)] isRecord_def)
  show "m' = n" if "\<not> (has_limit v \<noteq> had \<or> limit_changed b v)"
    using that by (simp add: assms(3) wan_limit_ops_def)
qed

text \<open>The ops before the limit are off its node.\<close>

definition wan_rule_edits :: "path \<Rightarrow> WANRuleFormValues \<Rightarrow> WANRuleFormValues \<Rightarrow> ConfigOp list" where
  "wan_rule_edits p b v =
     diffToOps p [] WAN_RULE_FLAG_FIELDS b v @ diffToOps p WAN_RULE_SCALAR_FIELDS [] b v
     @ diffToOps (p @ [''source'']) LOAD_BALANCING_WAN_MATCH_FIELDS [] (wanrfv_source b) (wanrfv_source v)
     @ diffToOps (p @ [''destination'']) LOAD_BALANCING_WAN_MATCH_FIELDS []
         (wanrfv_destination b) (wanrfv_destination v)"

lemma wan_rule_edits_frame:
  "device_get (device_apply (wan_rule_edits p b v) m) (p @ (''limit'' # r)) = device_get m (p @ (''limit'' # r))"
proof (rule device_frame, rule ballI)
  fix op assume "op \<in> set (wan_rule_edits p b v)"
  then have "\<exists>k s. k \<noteq> ''limit'' \<and> co_path op = p @ (k # s)"
    unfolding wan_rule_edits_def set_append Un_iff
    by (elim disjE) (drule diff_path; auto simp: WAN_RULE_FLAG_FIELDS_def WAN_RULE_SCALAR_FIELDS_def)+
  then show "indep (co_path op) (p @ (''limit'' # r))" by auto
qed

lemma wan_rule_had_limit:
  "Option.bind (device_item (parseWANRule n) m p) wanr_limit \<noteq> None \<longleftrightarrow> isRecord (device_get m (p @ [''limit'']))"
  by (cases "device_get m p") (simp_all add: device_item_def parseWANRule_def Let_def parseWANRuleLimit_def
    device_get_append isRecord_def)

text \<open>
  The limit of a WAN rule. When the form's ops are applied, a rule with a rate or a burst typed and
  an input of the limit changed has exactly the typed leaves below \<open>limit\<close>, so that a cleared input
  falls back to the router's default; without either the limit is gone; and untouched inputs leave the
  node as it is.
\<close>

theorem wan_limit_replaced:
  assumes "p = wanRulePath n []" and "before = device_item (parseWANRule n) m p"
    and "b = (case before of Some r \<Rightarrow> wanRuleToFormValues r | None \<Rightarrow> blankWANRuleFormValues)"
    and "had \<longleftrightarrow> isRecord (device_get m (p @ [''limit'']))"
    and "m' = device_apply (wanRuleFormToOps n before v) m"
  shows "if has_limit v \<noteq> had \<or> limit_changed b v
    then if has_limit v
      then device_get m' (p @ [''limit'', k])
        = map_option JStr (map_of (filter (\<lambda>(s, x). x \<noteq> '''') (wan_limit_fields v)) k)
      else parseWANRuleLimit (device_get m' (p @ [''limit''])) = None
    else device_get m' (p @ (''limit'' # r)) = device_get m (p @ (''limit'' # r))"
proof -
  let ?pre = "if before = None then [set_flag p] else []" and ?L = "p @ [''limit'']"
  define n1 where "n1 = device_apply (?pre @ wan_rule_edits p b v) m"
  have p: "p \<noteq> []" by (simp add: assms(1) wanRulePath_eq)
  have n1: "device_get n1 (p @ (''limit'' # s)) = device_get m (p @ (''limit'' # s))" for s
    using create_below [OF p, of ?pre "''limit'' # s" m] wan_rule_edits_frame [of p b v]
    by (simp add: n1_def)
  have had: "had \<longleftrightarrow> isRecord (device_get n1 ?L)" using n1 [of "[]"] assms(4) by simp
  have m': "m' = device_apply (wan_limit_ops ?L had b v) n1"
    using wan_rule_had_limit [of n m p] assms(4)
    by (simp add: assms(5) wanRuleFormToOps_def Let_def n1_def wan_rule_edits_def assms(1) [symmetric]
        assms(2) [symmetric] assms(3))
  have L: "?L \<noteq> []" by simp
  show ?thesis
    using wan_limit_applied [OF L had m'] n1 by (auto simp: parseWANRuleLimit_def)
qed

subsection \<open>The limit through the cart\<close>

text \<open>A rule limited to a rate of 10 and a burst of 20, and its form with the burst cleared.\<close>

definition limited_rule :: node_map where
  "limited_rule = device_apply
     [set_op (wanRulePath ''1'' [''limit'', ''rate'']) ''10'', set_op (wanRulePath ''1'' [''limit'', ''burst'']) ''20''] []"

definition burst_cleared :: WANRuleFormValues where
  "burst_cleared = (wanRuleToFormValues (parseWANRule ''1'' (device_get limited_rule (wanRulePath ''1'' []))))
     \<lparr>wanrfv_limitBurst := ''''\<rparr>"

definition burst_ops :: "ConfigOp list" where
  "burst_ops = wanRuleFormToOps ''1'' (device_item (parseWANRule ''1'') limited_rule (wanRulePath ''1'' []))
     burst_cleared"

theorem wan_limit_replaced_witness:
  "device_get (device_apply burst_ops limited_rule) (wanRulePath ''1'' [] @ [''limit'', ''burst'']) = None"
proof -
  let ?p = "wanRulePath ''1'' []"
  let ?before = "device_item (parseWANRule ''1'') limited_rule ?p"
  let ?b = "case ?before of Some r \<Rightarrow> wanRuleToFormValues r | None \<Rightarrow> blankWANRuleFormValues"
  have 1: "isRecord (device_get limited_rule (?p @ [''limit'']))" "has_limit burst_cleared"
    "limit_changed ?b burst_cleared"
    "map_option JStr (map_of (filter (\<lambda>(s, x). x \<noteq> '''') (wan_limit_fields burst_cleared)) ''burst'') = None"
    by code_simp+
  from wan_limit_replaced [OF refl refl refl refl refl, where n = "''1''" and m = limited_rule
      and v = burst_cleared and k = "''burst''"] 1
  show ?thesis by (simp add: burst_ops_def)
qed


end
