(* ===== verification/ConfigEditor.thy ===== *)
theory ConfigEditor
  imports FormQueue
begin

text \<open>
  The generic editors: the configuration tree (\<open>components/TreeNode.tsx\<close>), the chips of a multi-value
  leaf (\<open>components/ChipList.tsx\<close>, \<open>components/interfaces/AddressChips.tsx\<close>) and the list of tagged
  key-value pairs (\<open>components/KeyValuePairList.tsx\<close>). Each queues its ops in the cart as the user clicks.
\<close>

subsection \<open>The configuration tree\<close>

text \<open>The nodes the tree renders when everything is expanded, each with its path, from the root at \<open>p\<close>.\<close>

function tree_nodes :: "path \<Rightarrow> json \<Rightarrow> (path \<times> json) list" where
  "tree_nodes p (JObj es) = (p, JObj es) # concat (map (\<lambda>(key, value). tree_nodes (p @ [key]) value) es)"
| "tree_nodes p JNull = [(p, JNull)]"
| "tree_nodes p (JBool b) = [(p, JBool b)]"
| "tree_nodes p (JNum n) = [(p, JNum n)]"
| "tree_nodes p (JStr s) = [(p, JStr s)]"
| "tree_nodes p (JArr xs) = [(p, JArr xs)]"
  by pat_completeness auto
termination
proof (relation "measure (\<lambda>(p, j). size j)")
  fix p :: path and es x and k :: string and v :: json
  assume "x \<in> set es" and "(k, v) = x"
  then have "size v < size (JObj es)" by (induction es) auto
  then show "((p @ [k], v), p, JObj es) \<in> measure (\<lambda>(p, j). size j)" by simp
qed simp

text \<open>What a node shows before the user asks the server to reveal a value: its values, masked on a
  sensitive path. \<open>ph\<close> is the placeholder.\<close>

definition node_texts :: "string \<Rightarrow> path \<Rightarrow> json \<Rightarrow> string list" where
  "node_texts ph p value =
     (case value of
        JObj es \<Rightarrow> []
      | JArr xs \<Rightarrow> map (\<lambda>item. maskValue ph p (js_String item)) xs
      | v \<Rightarrow> [maskValue ph p (js_String v)])"

text \<open>
  The removals its buttons offer. The elements of a sensitive multi-value leaf are already masked by the
  server and cannot be named; the leaf can only be cleared.
\<close>

definition queueDelete :: "path \<Rightarrow> string option \<Rightarrow> ConfigOp" where
  "queueDelete p deleteValue = \<lparr>co_op = Delete_op, co_path = p, co_value = deleteValue\<rparr>"

definition node_removals :: "path \<Rightarrow> json \<Rightarrow> nat \<Rightarrow> ConfigOp list" where
  "node_removals p value depth =
     (case value of
        JObj es \<Rightarrow> if depth > 0 then [queueDelete p None] else []
      | JArr xs \<Rightarrow>
          if isMaskedPath p then (if xs \<noteq> [] then [queueDelete p None] else [])
          else map (\<lambda>item. queueDelete p (Some (js_String item))) xs
      | _ \<Rightarrow> [queueDelete p None])"

text \<open>The two rows of a leaf: replacing its value, adding a value; and adding a child to a node.\<close>

definition queueSet :: "path \<Rightarrow> string \<Rightarrow> ConfigOp list" where
  "queueSet p draft = (if draft = '''' then [] else [delete_op p, set_op p draft])"

definition add_value_ops :: "path \<Rightarrow> string list \<Rightarrow> string \<Rightarrow> ConfigOp list" where
  "add_value_ops p existingValues value =
     (if value = '''' \<or> value \<in> set existingValues then [] else [set_op p value])"

definition add_child_ops :: "path \<Rightarrow> string \<Rightarrow> string \<Rightarrow> ConfigOp list" where
  "add_child_ops p name value =
     (if name = '''' then []
      else let childPath = p @ [name]
        in [if value = '''' then set_flag childPath else set_op childPath value])"

fun distinct_keys :: "json \<Rightarrow> bool" where
  "distinct_keys (JObj es) \<longleftrightarrow> distinct (map fst es) \<and> list_all (\<lambda>(k, v). distinct_keys v) es"
| "distinct_keys j = True"

lemma leaf_get: "\<forall>es. j \<noteq> JObj es \<Longrightarrow> tree_get (Some j) r = Some v \<longleftrightarrow> r = [] \<and> v = j"
  by (cases r; cases j; auto simp: child_def)

lemma tree_nodes_from:
  "distinct_keys j \<Longrightarrow>
     (q, v) \<in> set (tree_nodes p j) \<longleftrightarrow> (\<exists>r. q = p @ r \<and> tree_get (Some j) r = Some v)"
proof (induction p j arbitrary: q v rule: tree_nodes.induct)
  case (1 p es)
  have IH: "(q, v) \<in> set (tree_nodes (p @ [k]) x) \<longleftrightarrow> (\<exists>r. q = (p @ [k]) @ r \<and> tree_get (Some x) r = Some v)"
    if "(k, x) \<in> set es" for k x
    using 1 that by (fastforce simp: list_all_iff)
  have child: "map_of es k = Some x \<longleftrightarrow> (k, x) \<in> set es" for k x
    using "1.prems" by (simp add: map_of_eq_Some_iff)
  have "(q, v) \<in> set (tree_nodes p (JObj es)) \<longleftrightarrow>
      (q = p \<and> v = JObj es) \<or> (\<exists>k x. (k, x) \<in> set es \<and> (q, v) \<in> set (tree_nodes (p @ [k]) x))"
    by auto
  also have "\<dots> \<longleftrightarrow> (q = p \<and> v = JObj es)
      \<or> (\<exists>k x r. (k, x) \<in> set es \<and> q = p @ (k # r) \<and> tree_get (Some x) r = Some v)"
    using IH by fastforce
  also have "\<dots> \<longleftrightarrow> (\<exists>r. q = p @ r \<and> tree_get (Some (JObj es)) r = Some v)"
  proof -
    have ex: "(\<exists>r. P r) \<longleftrightarrow> P [] \<or> (\<exists>k r. P (k # r))" for P :: "path \<Rightarrow> bool"
      by (metis list.exhaust)
    have "tree_get (Some (JObj es)) (k # r) = Some v \<longleftrightarrow>
        (\<exists>x. (k, x) \<in> set es \<and> tree_get (Some x) r = Some v)" for k r
      unfolding child [symmetric] by (cases "map_of es k") (simp_all add: child_def)
    then show ?thesis unfolding ex [of "\<lambda>r. q = p @ r \<and> tree_get (Some (JObj es)) r = Some v"] by auto
  qed
  finally show ?case .
qed (auto simp: leaf_get)


text \<open>
  C36. The tree keeps secrets: what it shows and offers to remove at a masked leaf does not depend on the
  values there, only on how many there are.
\<close>

definition same_shape :: "json \<Rightarrow> json \<Rightarrow> bool" where
  "same_shape v w \<longleftrightarrow>
     (case (v, w) of
        (JObj es, JObj fs) \<Rightarrow> True
      | (JObj es, _) \<Rightarrow> False
      | (_, JObj fs) \<Rightarrow> False
      | (JArr xs, JArr ys) \<Rightarrow> length xs = length ys
      | (JArr xs, _) \<Rightarrow> False
      | (_, JArr ys) \<Rightarrow> False
      | _ \<Rightarrow> True)"

theorem tree_hides_secrets:
  assumes "isMaskedPath p" and "same_shape v w"
  shows "node_texts ph p v = node_texts ph p w \<and> node_removals p v depth = node_removals p w depth"
proof -
  have m: "maskValue ph p x = ph" for x using assms(1) by (simp add: maskValue_def)
  have texts: "node_texts ph p v =
      (case v of JObj es \<Rightarrow> [] | JArr xs \<Rightarrow> replicate (length xs) ph | _ \<Rightarrow> [ph])" for v
    by (simp add: node_texts_def m map_replicate_const split: json.splits)
  have rm: "node_removals p v depth =
      (case v of JObj es \<Rightarrow> if depth > 0 then [queueDelete p None] else []
       | JArr xs \<Rightarrow> if length xs = 0 then [] else [queueDelete p None] | _ \<Rightarrow> [queueDelete p None])" for v
    using assms(1) by (simp add: node_removals_def split: json.splits)
  show ?thesis unfolding texts rm using assms(2)
    by (cases v; cases w; simp only: same_shape_def prod.case json.case simp_thms)
qed

subsection \<open>Editing a leaf through the cart\<close>

text \<open>What the user does to a leaf, and what is meant: the abstract view of a multi-value leaf.\<close>

datatype leaf_action = Replace string | Add_value "string list" string | Remove_value string | Clear_leaf

fun leaf_ops :: "path \<Rightarrow> leaf_action \<Rightarrow> ConfigOp list" where
  "leaf_ops p (Replace draft) = queueSet p draft"
| "leaf_ops p (Add_value shown v) = add_value_ops p shown v"
| "leaf_ops p (Remove_value v) = [queueDelete p (Some v)]"
| "leaf_ops p Clear_leaf = [queueDelete p None]"

fun leaf_effect :: "leaf_action \<Rightarrow> string list \<Rightarrow> string list" where
  "leaf_effect (Replace draft) vs = (if draft = '''' then vs else [draft])"
| "leaf_effect (Add_value shown v) vs = (if v = '''' \<or> v \<in> set shown \<or> v \<in> set vs then vs else vs @ [v])"
| "leaf_effect (Remove_value v) vs = removeAll v vs"
| "leaf_effect Clear_leaf vs = []"

text \<open>The leaf at \<open>p\<close> once the cart is committed, when it holds the values \<open>vs\<close> now.\<close>

definition cart_leaf :: "path \<Rightarrow> PendingChange list \<Rightarrow> string list \<Rightarrow> string list" where
  "cart_leaf p changes vs = fold leaf_step (filter (\<lambda>op. co_path op = p) (map pc_op changes)) vs"

lemma leaf_step_idem: "leaf_step op (leaf_step op vs) = leaf_step op vs"
  by (auto simp: leaf_step_def split: ConfigOpKind.splits option.splits)

lemma leaf_ops_effect: "fold leaf_step (leaf_ops p a) vs = leaf_effect a vs"
  by (cases a) (auto simp: queueSet_def add_value_ops_def queueDelete_def leaf_step_def op_defs)

lemma leaf_ops_shape: "op \<in> set (leaf_ops p a) \<Longrightarrow> co_path op = p \<and> op \<noteq> set_flag p"
  by (cases a) (auto simp: queueSet_def add_value_ops_def queueDelete_def op_defs split: if_splits)

text \<open>Queueing an op that cancels nothing steps every leaf by it.\<close>

lemma cart_leaf_add:
  assumes "plain_path (co_path op)" and "list_all (\<lambda>c. plain_path (co_path (pc_op c))) changes"
    and "op \<noteq> set_flag (co_path op)"
  shows "cart_leaf q (add_change uuid op l changes) vs
    = (if co_path op = q then leaf_step op (cart_leaf q changes vs) else cart_leaf q changes vs)"
proof (cases "changes \<noteq> [] \<and> same_op (pc_op (last changes)) op")
  case True
  then obtain cs c where cs: "changes = cs @ [c]" by (metis rev_exhaust)
  have "pc_op c = op" by (rule same_op_eq) (use True assms cs in auto)
  then show ?thesis using True by (simp add: add_change_def cart_leaf_def cs leaf_step_idem)
next
  case False
  have "cancelled_delete changes op = None"
    using cancelled_delete_queued [OF _ assms(1,2)] assms(3) by blast
  then have "add_change uuid op l changes = changes @ [\<lparr>pc_id = uuid, pc_op = op, pc_label = l\<rparr>]"
    using False by (auto simp: add_change_def)
  then show ?thesis by (simp add: cart_leaf_def)
qed

lemma cart_leaf_queue:
  assumes "length uuids = length ops" and "\<forall>op \<in> set ops. co_path op = p \<and> op \<noteq> set_flag p"
    and "plain_path p" and "list_all (\<lambda>c. plain_path (co_path (pc_op c))) changes"
  shows "cart_leaf q (queue_form uuids ops changes) vs
    = (if p = q then fold leaf_step ops (cart_leaf q changes vs) else cart_leaf q changes vs)"
  using assms
proof (induction ops arbitrary: uuids changes)
  case (Cons op ops)
  then obtain u us where us: "uuids = u # us" "length us = length ops" by (cases uuids) auto
  let ?c = "add_change u op (change_label op) changes"
  have op: "co_path op = p" "op \<noteq> set_flag (co_path op)" using Cons.prems(2) by auto
  have "pc_op ` set (queue_form [u] [op] changes) \<subseteq> set [op] \<union> pc_op ` set changes"
    by (rule queue_form_subset)
  then have "\<forall>o1 \<in> pc_op ` set ?c. plain_path (co_path o1)"
    using Cons.prems(3,4) op(1) by (auto simp: queue_form_def list_all_iff)
  then have c: "list_all (\<lambda>c. plain_path (co_path (pc_op c))) ?c" by (simp add: list_all_iff)
  have "cart_leaf q (queue_form us ops ?c) vs
      = (if p = q then fold leaf_step ops (cart_leaf q ?c vs) else cart_leaf q ?c vs)"
    by (rule Cons.IH) (use us c Cons.prems in auto)
  moreover have "cart_leaf q ?c vs
      = (if p = q then leaf_step op (cart_leaf q changes vs) else cart_leaf q changes vs)"
    using cart_leaf_add [OF _ Cons.prems(4) op(2)] op(1) Cons.prems(3) by simp
  ultimately show ?case by (simp add: us queue_form_def)
qed (simp add: queue_form_def)


subsection \<open>Chips and key-value pairs\<close>

definition chip_add :: "string list \<Rightarrow> path \<Rightarrow> string \<Rightarrow> string \<Rightarrow> ConfigOp list" where
  "chip_add values basePath leaf newValue =
     (let trimmedValue = js_trim newValue
      in if trimmedValue = '''' \<or> trimmedValue \<in> set values then []
         else [set_op (basePath @ [leaf]) trimmedValue])"

definition chip_remove :: "path \<Rightarrow> string \<Rightarrow> string \<Rightarrow> ConfigOp" where
  "chip_remove basePath leaf value = delete_value_op (basePath @ [leaf]) value"

definition address_add :: "path \<Rightarrow> string \<Rightarrow> ConfigOp list" where
  "address_add basePath value = (if value = '''' then [] else [set_op (basePath @ [''address'']) value])"

definition address_remove :: "path \<Rightarrow> string \<Rightarrow> ConfigOp" where
  "address_remove basePath value = delete_value_op (basePath @ [''address'']) value"

record kv_item =
  kv_id :: string
  kv_value :: string

definition kv_valid :: "kv_item list \<Rightarrow> string \<Rightarrow> string \<Rightarrow> bool" where
  "kv_valid items newId newValue \<longleftrightarrow>
     js_trim newId \<noteq> '''' \<and> \<not> list_ex (\<lambda>i. kv_id i = js_trim newId) items \<and> js_trim newValue \<noteq> ''''"

definition kv_add :: "kv_item list \<Rightarrow> path \<Rightarrow> string \<Rightarrow> string \<Rightarrow> ConfigOp list" where
  "kv_add items basePath newId newValue =
     (if \<not> kv_valid items newId newValue then []
      else [set_op (basePath @ [js_trim newId, ''value'']) (js_trim newValue)])"

definition kv_remove :: "path \<Rightarrow> string \<Rightarrow> ConfigOp" where
  "kv_remove basePath i = delete_op (basePath @ [i])"

text \<open>The chips are the additions and removals of the abstract leaf, on the trimmed input.\<close>

lemma chip_actions:
  "chip_add values basePath leaf v = leaf_ops (basePath @ [leaf]) (Add_value values (js_trim v))"
  "[chip_remove basePath leaf w] = leaf_ops (basePath @ [leaf]) (Remove_value w)"
  by (simp_all add: chip_add_def chip_remove_def add_value_ops_def queueDelete_def op_defs)

text \<open>A pair that was added reads back, one that was removed is gone, and the other pairs stay.\<close>

lemma kv_add_device:
  assumes "kv_valid items i v" and "m' = device_apply (kv_add items b i v) m"
  shows "device_get m' (b @ [js_trim i, ''value'']) = Some (JStr (js_trim v))
    \<and> (k \<noteq> js_trim i \<longrightarrow> device_get m' (b @ (k # r)) = device_get m (b @ (k # r)))"
  using assms by (auto simp: kv_add_def kv_valid_def setNested_value setNested_other)

lemma kv_remove_device:
  "device_get (device_apply [kv_remove b i] m) (b @ [i]) = None
   \<and> (k \<noteq> i \<longrightarrow> device_get (device_apply [kv_remove b i] m) (b @ (k # r)) = device_get m (b @ (k # r)))"
  by (auto simp: kv_remove_def deleteNested_gone deleteNested_other)

subsection \<open>Witnesses\<close>

definition sample_tree :: json where
  "sample_tree = JObj [(''system'', JObj [(''host-name'', JStr ''r1'')]), (''service'', JObj [])]"


theorem tree_hides_secrets_witness:
  "node_texts ''***'' [''vpn'', ''ipsec'', ''psk'', ''secret''] (JStr ''a'')
     = node_texts ''***'' [''vpn'', ''ipsec'', ''psk'', ''secret''] (JStr ''bcd'')"
proof -
  have 1: "isMaskedPath [''vpn'', ''ipsec'', ''psk'', ''secret'']" "same_shape (JStr ''a'') (JStr ''bcd'')"
    by code_simp+
  from tree_hides_secrets [OF 1] show ?thesis by blast
qed


end
