(* ===== verification/SafeApply.thy ===== *)
theory SafeApply
  imports JsNumber
begin

text \<open>
  The "safe apply" safety net: the seconds input (\<open>lib/safeApply.ts\<close>, \<open>useSafeApplyInput\<close> of
  \<open>hooks/useSafeApply.ts\<close>, the request field of \<open>lib/vyosApi.ts\<close>) and the countdown of an open
  commit-confirm window (\<open>hooks/useConfirmCountdown.ts\<close>, \<open>useCommitConfirm\<close>). Times are the integer
  milliseconds of \<open>Date.now()\<close>.
\<close>

subsection \<open>The seconds input\<close>

definition MIN_CONFIRM_SECONDS :: jsnum where "MIN_CONFIRM_SECONDS = Num 10"

definition MAX_CONFIRM_SECONDS :: jsnum where "MAX_CONFIRM_SECONDS = Num 600"

definition DEFAULT_CONFIRM_SECONDS :: jsnum where "DEFAULT_CONFIRM_SECONDS = Num 90"

definition round_num :: "jsnum \<Rightarrow> jsnum" where
  "round_num x = (case x of Num q \<Rightarrow> Num (of_int (js_round q)) | _ \<Rightarrow> x)"

definition clampConfirmSeconds :: "jsnum \<Rightarrow> jsnum" where
  "clampConfirmSeconds seconds = js_min MAX_CONFIRM_SECONDS (js_max MIN_CONFIRM_SECONDS (round_num seconds))"

text \<open>The default the backend reports, if it has answered.\<close>

definition useDefaultConfirmSeconds :: "jsnum option \<Rightarrow> jsnum" where
  "useDefaultConfirmSeconds safeApplyDefaultSeconds =
     clampConfirmSeconds (or_else safeApplyDefaultSeconds DEFAULT_CONFIRM_SECONDS)"

record safe_input =
  si_enabled :: bool
  si_edited :: "jsnum option"

definition si_seconds :: "jsnum option \<Rightarrow> safe_input \<Rightarrow> jsnum" where
  "si_seconds reported i = or_else (si_edited i) (useDefaultConfirmSeconds reported)"

definition si_valid :: "jsnum option \<Rightarrow> safe_input \<Rightarrow> bool" where
  "si_valid reported i \<longleftrightarrow>
     \<not> si_enabled i \<or> js_le MIN_CONFIRM_SECONDS (si_seconds reported i)
       \<and> js_le (si_seconds reported i) MAX_CONFIRM_SECONDS"

text \<open>\<open>confirmSeconds || undefined\<close> of the request, given \<open>safeApply ? confirmSeconds : undefined\<close>.\<close>

definition confirm_field :: "jsnum option \<Rightarrow> safe_input \<Rightarrow> jsnum option" where
  "confirm_field reported i =
     (if si_enabled i
      then (let s = si_seconds reported i in if s = NaN \<or> s = Num 0 then None else Some s)
      else None)"

text \<open>The window of a rollback, whose part of the bar has no input of its own.\<close>

definition rollback_seconds :: "jsnum option \<Rightarrow> safe_input \<Rightarrow> jsnum" where
  "rollback_seconds reported i =
     (if js_le MIN_CONFIRM_SECONDS (si_seconds reported i) \<and> js_le (si_seconds reported i) MAX_CONFIRM_SECONDS
      then si_seconds reported i else useDefaultConfirmSeconds reported)"

definition in_range :: "jsnum \<Rightarrow> bool" where
  "in_range s \<longleftrightarrow> (\<exists>q. s = Num q \<and> 10 \<le> q \<and> q \<le> 600)"

lemma js_le_in_range: "js_le MIN_CONFIRM_SECONDS s \<and> js_le s MAX_CONFIRM_SECONDS \<longleftrightarrow> in_range s"
  by (cases s) (auto simp: js_le_def MIN_CONFIRM_SECONDS_def MAX_CONFIRM_SECONDS_def in_range_def)

lemma clamp_range:
  assumes "s \<noteq> NaN"
  shows "\<exists>k :: int. clampConfirmSeconds s = Num (of_int k) \<and> 10 \<le> k \<and> k \<le> 600"
proof (cases s)
  case (Num q)
  have "clampConfirmSeconds s = Num (of_int (min 600 (max 10 (js_round q))))"
    by (simp add: Num clampConfirmSeconds_def round_num_def MIN_CONFIRM_SECONDS_def MAX_CONFIRM_SECONDS_def
        of_int_min of_int_max)
  then show ?thesis by (intro exI [of _ "min 600 (max 10 (js_round q))"]) simp
next
  case PInf
  then show ?thesis
    by (intro exI [of _ 600]) (simp add: clampConfirmSeconds_def round_num_def js_min_def js_max_def js_le_def
        MIN_CONFIRM_SECONDS_def MAX_CONFIRM_SECONDS_def)
next
  case NInf
  then show ?thesis
    by (intro exI [of _ 10]) (simp add: clampConfirmSeconds_def round_num_def js_min_def js_max_def js_le_def
        MIN_CONFIRM_SECONDS_def MAX_CONFIRM_SECONDS_def)
qed (use assms in simp)

text \<open>
  C37. The safety net is never dropped silently. With the toggle on, an input that counts as valid is sent,
  as a number of seconds the backend accepts; the untouched input is valid whatever number the backend
  reports as its default; and the window of a rollback is in range even when the input is not.
\<close>

theorem safe_apply_not_dropped:
  assumes "reported \<noteq> Some NaN"
  shows "(si_enabled i \<and> si_valid reported i \<longrightarrow>
        confirm_field reported i = Some (si_seconds reported i) \<and> in_range (si_seconds reported i))
    \<and> (si_edited i = None \<longrightarrow> si_valid reported i)
    \<and> in_range (rollback_seconds reported i)"
proof -
  have "or_else reported DEFAULT_CONFIRM_SECONDS \<noteq> NaN"
    using assms by (cases reported) (auto simp: DEFAULT_CONFIRM_SECONDS_def)
  from clamp_range [OF this] have d: "in_range (useDefaultConfirmSeconds reported)"
    by (auto simp: useDefaultConfirmSeconds_def in_range_def)
  have "confirm_field reported i = Some (si_seconds reported i)"
    if "si_enabled i" "in_range (si_seconds reported i)"
    using that by (auto simp: confirm_field_def in_range_def Let_def)
  with d show ?thesis
    by (auto simp: si_valid_def js_le_in_range rollback_seconds_def si_seconds_def)
qed

lemma safe_apply_not_dropped_witness:
  "confirm_field (Some (Num 300)) \<lparr>si_enabled = True, si_edited = None\<rparr> = Some (Num 300)
    \<and> \<not> si_valid None \<lparr>si_enabled = True, si_edited = Some (Num 0)\<rparr>
    \<and> rollback_seconds None \<lparr>si_enabled = True, si_edited = Some (Num 0)\<rparr> = Num 90"
proof -
  have d: "useDefaultConfirmSeconds (Some (Num 300)) = Num 300" "useDefaultConfirmSeconds None = Num 90"
    by code_simp+
  have "si_valid (Some (Num 300)) \<lparr>si_enabled = True, si_edited = None\<rparr>"
    using safe_apply_not_dropped [of "Some (Num 300)" "\<lparr>si_enabled = True, si_edited = None\<rparr>"] by simp
  with safe_apply_not_dropped [of "Some (Num 300)" "\<lparr>si_enabled = True, si_edited = None\<rparr>"] d show ?thesis
    by (simp add: si_seconds_def si_valid_def rollback_seconds_def js_le_in_range) (simp add: in_range_def)
qed

subsection \<open>The countdown\<close>

text \<open>
  \<open>useConfirmCountdown\<close>: whether its interval is set, and the seconds on screen. A tick also says whether
  it calls \<open>onExpire\<close>; a change of \<open>endsAt\<close> clears the old interval, sets a new one and ticks at once.
\<close>

record countdown =
  cd_running :: bool
  cd_secondsLeft :: int

definition countdown_tick :: "rat \<Rightarrow> int \<Rightarrow> countdown \<Rightarrow> countdown \<times> bool" where
  "countdown_tick endsAt now c =
     (let left = \<lceil>(endsAt - of_int now) / 1000\<rceil>
      in if left \<le> 0 then (c\<lparr>cd_running := False\<rparr>, True) else (c\<lparr>cd_secondsLeft := left\<rparr>, False))"

definition countdown_effect :: "rat option \<Rightarrow> int \<Rightarrow> countdown \<Rightarrow> countdown \<times> bool" where
  "countdown_effect endsAt now c =
     (case endsAt of None \<Rightarrow> (c\<lparr>cd_running := False\<rparr>, False)
      | Some e \<Rightarrow> countdown_tick e now (c\<lparr>cd_running := True\<rparr>))"

text \<open>
  \<open>useCommitConfirm\<close>: the window's end, its countdown, and how often its \<open>onExpire\<close> has run. Expiry closes
  the window (\<open>setEndsAt(null)\<close>) before it reports.
\<close>

record confirm_window =
  cw_endsAt :: "rat option"
  cw_count :: countdown
  cw_expired :: nat

definition cw_active :: "confirm_window \<Rightarrow> bool" where
  "cw_active w \<longleftrightarrow> cw_endsAt w \<noteq> None"

definition cw_after :: "countdown \<times> bool \<Rightarrow> confirm_window \<Rightarrow> confirm_window" where
  "cw_after r w =
     (if snd r then w\<lparr>cw_count := fst r, cw_endsAt := None, cw_expired := cw_expired w + 1\<rparr>
      else w\<lparr>cw_count := fst r\<rparr>)"

definition cw_start :: "rat option \<Rightarrow> rat \<Rightarrow> int \<Rightarrow> confirm_window \<Rightarrow> confirm_window" where
  "cw_start response requested now w =
     (let e = of_int now + or_else response requested * 1000
      in if cw_endsAt w = Some e then w
         else cw_after (countdown_effect (Some e) now (cw_count w)) (w\<lparr>cw_endsAt := Some e\<rparr>))"

definition cw_stop :: "int \<Rightarrow> confirm_window \<Rightarrow> confirm_window" where
  "cw_stop now w = cw_after (countdown_effect None now (cw_count w)) (w\<lparr>cw_endsAt := None\<rparr>)"

definition cw_tick :: "int \<Rightarrow> confirm_window \<Rightarrow> confirm_window" where
  "cw_tick now w =
     (case cw_endsAt w of None \<Rightarrow> w
      | Some e \<Rightarrow> if cd_running (cw_count w) then cw_after (countdown_tick e now (cw_count w)) w else w)"

datatype window_event = WStart "rat option" rat int | WStop int | WTick int

fun window_step :: "window_event \<Rightarrow> confirm_window \<Rightarrow> confirm_window" where
  "window_step (WStart response requested now) w = cw_start response requested now w"
| "window_step (WStop now) w = cw_stop now w"
| "window_step (WTick now) w = cw_tick now w"

text \<open>An interval is set exactly while the window is open.\<close>

definition window_ok :: "confirm_window \<Rightarrow> bool" where
  "window_ok w \<longleftrightarrow> (cd_running (cw_count w) \<longleftrightarrow> cw_active w)"

lemma window_ok_step: "window_ok w \<Longrightarrow> window_ok (window_step ev w)"
  by (cases ev) (auto simp: window_ok_def cw_active_def cw_start_def cw_stop_def cw_tick_def cw_after_def
      countdown_effect_def countdown_tick_def Let_def split: option.splits)

lemma ceiling_le_0_iff: "\<lceil>(e - of_int now) / 1000\<rceil> \<le> 0 \<longleftrightarrow> e \<le> of_int now" for e :: rat
  by (simp add: ceiling_le_iff)

lemma tick_open:
  assumes "window_ok w" "cw_endsAt w = Some e"
  shows "cw_tick now w =
    (if e \<le> of_int now
     then w\<lparr>cw_count := (cw_count w)\<lparr>cd_running := False\<rparr>, cw_endsAt := None, cw_expired := cw_expired w + 1\<rparr>
     else w\<lparr>cw_count := (cw_count w)\<lparr>cd_secondsLeft := \<lceil>(e - of_int now) / 1000\<rceil>\<rparr>\<rparr>)"
  using assms unfolding cw_tick_def countdown_tick_def Let_def ceiling_le_0_iff
  by (auto simp: window_ok_def cw_active_def cw_after_def)

lemma tick_closed: "cw_endsAt w = None \<Longrightarrow> cw_tick now w = w"
  by (simp add: cw_tick_def)

lemma ticks_closed: "cw_endsAt w = None \<Longrightarrow> fold cw_tick ts w = w"
  by (induction ts) (simp_all add: tick_closed)

lemma ticks_open:
  assumes "window_ok w" "cw_endsAt w = Some e"
  shows "(if \<exists>t \<in> set ts. e \<le> of_int t
     then cw_endsAt (fold cw_tick ts w) = None \<and> cw_expired (fold cw_tick ts w) = Suc (cw_expired w)
     else cw_endsAt (fold cw_tick ts w) = Some e \<and> cw_expired (fold cw_tick ts w) = cw_expired w)"
  using assms
proof (induction ts arbitrary: w)
  case (Cons t ts)
  have ok: "window_ok (cw_tick t w)"
    using window_ok_step [OF Cons.prems(1), of "WTick t"] by simp
  show ?case
  proof (cases "e \<le> of_int t")
    case True
    then show ?thesis using tick_open [OF Cons.prems] by (simp add: ticks_closed)
  next
    case False
    then have w': "cw_endsAt (cw_tick t w) = Some e" "cw_expired (cw_tick t w) = cw_expired w"
      using tick_open [OF Cons.prems] Cons.prems(2) by simp_all
    show ?thesis using Cons.IH [OF ok w'(1)] False w'(2) by simp
  qed
qed simp

lemma start_opens:
  assumes "window_ok w" "cw_endsAt w = None" "0 < or_else response requested"
  shows "window_ok (cw_start response requested now w)"
    "cw_endsAt (cw_start response requested now w) = Some (of_int now + or_else response requested * 1000)"
    "cw_expired (cw_start response requested now w) = cw_expired w"
proof -
  let ?e = "of_int now + or_else response requested * 1000"
  have "\<not> \<lceil>(?e - of_int now) / 1000\<rceil> \<le> 0"
    unfolding ceiling_le_0_iff using assms(3) by simp
  then show "window_ok (cw_start response requested now w)"
    "cw_endsAt (cw_start response requested now w) = Some ?e"
    "cw_expired (cw_start response requested now w) = cw_expired w"
    using assms(1,2) by (simp_all add: cw_start_def countdown_effect_def countdown_tick_def cw_after_def
        window_ok_def cw_active_def Let_def)
qed

text \<open>
  C31. An open commit-confirm window closes by itself, in time and once: however the browser throttles its
  timer, if the ticks keep coming then the window is closed and \<open>onExpire\<close> has run exactly once from the
  first tick at or after the end of the window the router reported (or was asked for), and until such a tick
  the window is open and nothing has run.
\<close>

theorem window_expires_once:
  fixes tick_at :: "nat \<Rightarrow> int"
  assumes "window_ok w" "cw_endsAt w = None" "0 < or_else response requested"
    and ticking: "\<And>bound. \<exists>n. bound \<le> tick_at n"
  shows "\<exists>n. of_int now + or_else response requested * 1000 \<le> rat_of_int (tick_at n)
    \<and> (\<forall>m. let v = fold cw_tick (List.map tick_at [0..<m]) (cw_start response requested now w)
           in if n < m then \<not> cw_active v \<and> cw_expired v = cw_expired w + 1
              else cw_active v \<and> cw_expired v = cw_expired w)"
proof -
  let ?e = "of_int now + or_else response requested * 1000"
  define n where "n = (LEAST n. ?e \<le> rat_of_int (tick_at n))"
  obtain k where "\<lceil>?e\<rceil> \<le> tick_at k" using ticking by blast
  then have k: "?e \<le> rat_of_int (tick_at k)" by (simp add: ceiling_le_iff)
  have n: "?e \<le> rat_of_int (tick_at n)" unfolding n_def using k by (rule LeastI)
  have least: "\<not> ?e \<le> rat_of_int (tick_at i)" if "i < n" for i
    using not_less_Least that unfolding n_def by blast
  let ?w = "cw_start response requested now w"
  let ?v = "\<lambda>m. fold cw_tick (List.map tick_at [0..<m]) ?w"
  have iff: "(\<exists>t \<in> set (List.map tick_at [0..<m]). ?e \<le> of_int t) = (n < m)" for m
    using n least by (auto simp: not_less) (metis le_less_trans not_le)
  have "if n < m then \<not> cw_active (?v m) \<and> cw_expired (?v m) = cw_expired w + 1
      else cw_active (?v m) \<and> cw_expired (?v m) = cw_expired w" for m
    using ticks_open [OF start_opens(1,2) [where now = now, OF assms(1-3)], of "List.map tick_at [0..<m]"]
    unfolding iff start_opens(3) [OF assms(1-3)] cw_active_def by (cases "n < m") auto
  with n show ?thesis by (intro exI [of _ n]) (simp add: Let_def)
qed

lemma window_expires_once_witness:
  "\<exists>n. rat_of_int 0 + or_else (Some 60) 10 * 1000 \<le> rat_of_int (int n * 45000)
    \<and> (\<forall>m. let v = fold cw_tick (List.map (\<lambda>i. int i * 45000) [0..<m])
               (cw_start (Some 60) 10 0 \<lparr>cw_endsAt = None, cw_count = \<lparr>cd_running = False, cd_secondsLeft = 0\<rparr>, cw_expired = 0\<rparr>)
           in if n < m then \<not> cw_active v \<and> cw_expired v = cw_expired \<lparr>cw_endsAt = None,
                cw_count = \<lparr>cd_running = False, cd_secondsLeft = 0\<rparr>, cw_expired = 0\<rparr> + 1
              else cw_active v \<and> cw_expired v = cw_expired \<lparr>cw_endsAt = None,
                cw_count = \<lparr>cd_running = False, cd_secondsLeft = 0\<rparr>, cw_expired = 0\<rparr>)"
proof (rule window_expires_once)
  show "\<exists>n. bound \<le> int n * 45000" for bound
    by (intro exI [of _ "nat bound"]) (auto simp: max_def)
qed (simp_all add: window_ok_def cw_active_def)

text \<open>
  While the window is open the seconds on screen are the whole seconds left at the last tick, rounded up.
\<close>

lemma seconds_shown:
  assumes "window_ok w" "cw_endsAt w = Some e" "of_int now < e"
  shows "1000 * (of_int (cd_secondsLeft (cw_count (cw_tick now w))) - 1) < e - of_int now
    \<and> e - of_int now \<le> 1000 * of_int (cd_secondsLeft (cw_count (cw_tick now w)))"
proof -
  let ?l = "rat_of_int \<lceil>(e - of_int now) / 1000\<rceil>"
  have "e - of_int now \<le> ?l * 1000"
    using le_of_int_ceiling [of "(e - of_int now) / 1000"]
      pos_divide_le_eq [of "1000::rat" "e - of_int now" ?l] by simp
  moreover have "(?l - 1) * 1000 < e - of_int now"
    using ceiling_correct [of "(e - of_int now) / 1000"] by (simp add: field_simps)
  ultimately show ?thesis
    using assms(3) by (simp add: tick_open [OF assms(1,2)] mult.commute)
qed

end
