(* ===== verification/VyosApi.thy ===== *)
theory VyosApi
  imports Session SafeApply
begin

text \<open>
  The endpoints of \<open>lib/vyosApi.ts\<close>, each as the call it makes of \<open>apiRequest\<close> (path, \<open>method\<close>, \<open>body\<close>
  and \<open>query\<close>), over the request wrapper of Session. Bodies are the JSON values that are sent: a field
  that is \<open>undefined\<close> is left out by \<open>JSON.stringify\<close>.
\<close>

record api_call =
  ac_path :: string
  ac_method :: "string option"
  ac_body :: unknown
  ac_query :: "(string \<times> string option) list option"

definition get_call :: "string \<Rightarrow> api_call" where
  "get_call p = \<lparr>ac_path = p, ac_method = None, ac_body = None, ac_query = None\<rparr>"

definition query_call :: "string \<Rightarrow> (string \<times> string option) list \<Rightarrow> api_call" where
  "query_call p q = \<lparr>ac_path = p, ac_method = None, ac_body = None, ac_query = Some q\<rparr>"

definition method_call :: "string \<Rightarrow> string \<Rightarrow> api_call" where
  "method_call p m = \<lparr>ac_path = p, ac_method = Some m, ac_body = None, ac_query = None\<rparr>"

definition json_object :: "(string \<times> unknown) list \<Rightarrow> json" where
  "json_object kvs = JObj (List.map_filter (\<lambda>(k, v). map_option (Pair k) v) kvs)"

definition body_call :: "string \<Rightarrow> (string \<times> unknown) list \<Rightarrow> api_call" where
  "body_call p kvs =
     \<lparr>ac_path = p, ac_method = None, ac_body = Some (json_object kvs), ac_query = None\<rparr>"

definition json_str :: "string \<Rightarrow> unknown" where
  "json_str s = Some (JStr s)"

definition json_strs :: "string list \<Rightarrow> unknown" where
  "json_strs xs = Some (JArr (map JStr xs))"

definition json_op :: "ConfigOp \<Rightarrow> json" where
  "json_op op = json_object [(''op'', json_str (op_name (co_op op))), (''path'', json_strs (co_path op)),
     (''value'', map_option JStr (co_value op))]"

text \<open>\<open>confirmSeconds || undefined\<close>.\<close>

definition positive_field :: "jsnum option \<Rightarrow> unknown" where
  "positive_field n = (case n of None \<Rightarrow> None | Some x \<Rightarrow> if x = NaN \<or> x = Num 0 then None else Some (JNum x))"

subsection \<open>Reads\<close>

definition getSession :: api_call where
  "getSession = get_call ''/api/auth/session''"

definition getSetCommands :: api_call where
  "getSetCommands = get_call ''/api/config/set-commands''"

definition getSystemInfo :: api_call where
  "getSystemInfo = get_call ''/api/system/info''"

definition getSystemImages :: api_call where
  "getSystemImages = get_call ''/api/system/images''"

definition getSystemResources :: api_call where
  "getSystemResources = get_call ''/api/system/resources''"

definition getInterfaces :: api_call where
  "getInterfaces = get_call ''/api/interfaces''"

definition getRoutes :: api_call where
  "getRoutes = get_call ''/api/routes''"

definition getDHCPLeases :: api_call where
  "getDHCPLeases = get_call ''/api/dhcp/leases''"

definition getContainerImages :: api_call where
  "getContainerImages = get_call ''/api/container/images''"

definition getWANLoadBalanceStatus :: api_call where
  "getWANLoadBalanceStatus = get_call ''/api/load-balancing/wan/status''"

definition getHAProxyStatus :: api_call where
  "getHAProxyStatus = get_call ''/api/load-balancing/haproxy/status''"

definition getVRRPStatus :: api_call where
  "getVRRPStatus = get_call ''/api/high-availability/vrrp/status''"

definition getConntrackSyncStatus :: api_call where
  "getConntrackSyncStatus = get_call ''/api/high-availability/conntrack-sync/status''"

definition getFileBrowserRoots :: api_call where
  "getFileBrowserRoots = get_call ''/api/files/roots''"

definition getPKIExpiry :: api_call where
  "getPKIExpiry = get_call ''/api/pki/expiry''"

definition getConfigTree :: "string list \<Rightarrow> api_call" where
  "getConfigTree p =
     query_call ''/api/config/tree'' [(''path'', if p = [] then None else Some (js_join '','' p))]"

definition getSelfUpgradeStatus :: "bool option \<Rightarrow> api_call" where
  "getSelfUpgradeStatus force =
     query_call ''/api/system/self-upgrade'' [(''force'', if force = Some True then Some ''true'' else None)]"

record GetLogsParams =
  glp_source :: string
  glp_facility :: "string option"
  glp_priority :: "string option"
  glp_container :: "string option"
  glp_lines :: "jsnum option"

definition getLogs :: "GetLogsParams \<Rightarrow> api_call" where
  "getLogs params =
     query_call ''/api/logs''
       [(''source'', Some (glp_source params)), (''facility'', glp_facility params),
        (''priority'', glp_priority params), (''container'', glp_container params),
        (''lines'', map_option js_num_str (glp_lines params))]"

definition getQosShaperStatus :: "string \<Rightarrow> api_call" where
  "getQosShaperStatus ifname = query_call ''/api/qos/shaper-status'' [(''interface'', Some ifname)]"

definition getFile :: "string \<Rightarrow> api_call" where
  "getFile p = query_call ''/api/files'' [(''path'', Some p)]"

text \<open>The name lists of the log sources.\<close>

definition LOG_FACILITIES :: "string list" where
  "LOG_FACILITIES =
     [''kern'', ''user'', ''mail'', ''daemon'', ''auth'', ''syslog'', ''lpr'', ''news'',
      ''uucp'', ''cron'', ''authpriv'', ''ftp'',
      ''local0'', ''local1'', ''local2'', ''local3'', ''local4'', ''local5'', ''local6'', ''local7'']"

definition LOG_PRIORITIES :: "string list" where
  "LOG_PRIORITIES = [''emerg'', ''alert'', ''crit'', ''err'', ''warning'', ''notice'', ''info'', ''debug'']"

subsection \<open>Requests with an effect or a secret\<close>

definition logout_call :: api_call where
  "logout_call = method_call ''/api/auth/logout'' ''POST''"

definition rebootSystem :: api_call where
  "rebootSystem = method_call ''/api/system/reboot'' ''POST''"

definition poweroffSystem :: api_call where
  "poweroffSystem = method_call ''/api/system/poweroff'' ''POST''"

definition confirmCommit :: api_call where
  "confirmCommit = method_call ''/api/config/commit/confirm'' ''POST''"

definition save_call :: api_call where
  "save_call = method_call ''/api/config/save'' ''POST''"

definition login_call :: "string \<Rightarrow> string \<Rightarrow> api_call" where
  "login_call username password =
     body_call ''/api/auth/login'' [(''username'', json_str username), (''password'', json_str password)]"

definition revealValue :: "string list \<Rightarrow> api_call" where
  "revealValue p = body_call ''/api/config/reveal'' [(''path'', json_strs p)]"

definition commit_call :: "ConfigOp list \<Rightarrow> jsnum option \<Rightarrow> api_call" where
  "commit_call ops confirmSeconds =
     body_call ''/api/config/commit''
       [(''ops'', Some (JArr (map json_op ops))), (''confirmSeconds'', positive_field confirmSeconds)]"

definition rollback_call :: "jsnum option \<Rightarrow> api_call" where
  "rollback_call confirmSeconds =
     body_call ''/api/config/rollback'' [(''confirmSeconds'', positive_field confirmSeconds)]"

definition importConfig :: "string \<Rightarrow> string \<Rightarrow> jsnum option \<Rightarrow> api_call" where
  "importConfig content mode confirmSeconds =
     body_call ''/api/config/import''
       [(''content'', json_str content), (''mode'', json_str mode),
        (''confirmSeconds'', positive_field confirmSeconds)]"

definition addSystemImage :: "string \<Rightarrow> api_call" where
  "addSystemImage url = body_call ''/api/system/images'' [(''url'', json_str url)]"

definition deleteSystemImage :: "string \<Rightarrow> api_call" where
  "deleteSystemImage name =
     \<lparr>ac_path = ''/api/system/images'', ac_method = Some ''DELETE'', ac_body = None,
      ac_query = Some [(''name'', Some name)]\<rparr>"

definition pullContainerImage :: "string \<Rightarrow> api_call" where
  "pullContainerImage name = body_call ''/api/container/images'' [(''name'', json_str name)]"

definition deleteContainerImage :: "string \<Rightarrow> api_call" where
  "deleteContainerImage name =
     \<lparr>ac_path = ''/api/container/images'', ac_method = Some ''DELETE'', ac_body = None,
      ac_query = Some [(''name'', Some name)]\<rparr>"

definition checkContainerImageUpdate :: "string \<Rightarrow> api_call" where
  "checkContainerImageUpdate img =
     body_call ''/api/container/images/check-update'' [(''image'', json_str img)]"

subsection \<open>What is sent\<close>

definition send_call ::
    "((string \<times> string) list \<Rightarrow> string) \<Rightarrow> string option \<Rightarrow> nat \<Rightarrow> api_call \<Rightarrow> string \<times> api_request" where
  "send_call encode csrf generation c =
     (buildUrl encode (ac_path c) (ac_query c), apiRequest_send csrf (ac_method c) (ac_body c) generation)"


text \<open>The calls that only read, and the calls that change the router, the session or reveal a secret.\<close>

inductive read_call :: "api_call \<Rightarrow> bool" where
  "read_call getSession"
| "read_call getSetCommands"
| "read_call getSystemInfo"
| "read_call getSystemImages"
| "read_call getSystemResources"
| "read_call getInterfaces"
| "read_call getRoutes"
| "read_call getDHCPLeases"
| "read_call getContainerImages"
| "read_call getWANLoadBalanceStatus"
| "read_call getHAProxyStatus"
| "read_call getVRRPStatus"
| "read_call getConntrackSyncStatus"
| "read_call getFileBrowserRoots"
| "read_call getPKIExpiry"
| "read_call (getConfigTree x1)"
| "read_call (getSelfUpgradeStatus x1)"
| "read_call (getLogs x1)"
| "read_call (getQosShaperStatus x1)"
| "read_call (getFile x1)"

inductive effect_call :: "api_call \<Rightarrow> bool" where
  "effect_call logout_call"
| "effect_call rebootSystem"
| "effect_call poweroffSystem"
| "effect_call confirmCommit"
| "effect_call save_call"
| "effect_call (login_call x1 x2)"
| "effect_call (revealValue x1)"
| "effect_call (commit_call x1 x2)"
| "effect_call (rollback_call x1)"
| "effect_call (importConfig x1 x2 x3)"
| "effect_call (addSystemImage x1)"
| "effect_call (deleteSystemImage x1)"
| "effect_call (pullContainerImage x1)"
| "effect_call (deleteContainerImage x1)"
| "effect_call (checkContainerImageUpdate x1)"

lemmas endpoint_defs =
  getSession_def getSetCommands_def getSystemInfo_def getSystemImages_def getSystemResources_def
  getInterfaces_def getRoutes_def getDHCPLeases_def getContainerImages_def
  getWANLoadBalanceStatus_def getHAProxyStatus_def getVRRPStatus_def getConntrackSyncStatus_def
  getFileBrowserRoots_def getPKIExpiry_def getConfigTree_def getSelfUpgradeStatus_def
  getLogs_def getQosShaperStatus_def getFile_def logout_call_def rebootSystem_def
  poweroffSystem_def confirmCommit_def save_call_def login_call_def revealValue_def
  commit_call_def rollback_call_def importConfig_def addSystemImage_def deleteSystemImage_def
  pullContainerImage_def deleteContainerImage_def checkContainerImageUpdate_def

lemmas call_defs = get_call_def query_call_def method_call_def body_call_def

lemma read_is_get: "read_call c \<Longrightarrow> ac_method c = None \<and> ac_body c = None"
  by (induction rule: read_call.induct) (simp_all add: endpoint_defs call_defs)

lemma effect_is_not_get:
  "effect_call c \<Longrightarrow> ac_method c \<in> {Some ''POST'', Some ''DELETE''} \<or> ac_method c = None \<and> js_truthy (ac_body c)"
  by (induction rule: effect_call.induct)
    (simp_all add: endpoint_defs call_defs json_object_def js_truthy_def)

text \<open>
  C40. Every request that changes the router or the session, or reveals a secret, is a POST or a DELETE
  and carries the CSRF token of the cookie; every other request is a GET without a body.
\<close>

theorem effects_protected:
  assumes "effect_call c \<or> read_call c"
  shows "if effect_call c
    then ar_method (snd (send_call encode csrf g c)) \<in> {''POST'', ''DELETE''}
      \<and> (\<forall>t. csrf = Some t \<and> t \<noteq> '''' \<longrightarrow>
            (CSRF_HEADER_NAME, t) \<in> set (ar_headers (snd (send_call encode csrf g c))))
    else ar_method (snd (send_call encode csrf g c)) = ''GET'' \<and> ar_body (snd (send_call encode csrf g c)) = None"
proof (cases "effect_call c")
  case True
  let ?m = "or_else (ac_method c) (if js_truthy (ac_body c) then ''POST'' else ''GET'')"
  from effect_is_not_get [OF True] have m: "?m = ''POST'' \<or> ?m = ''DELETE''" by fastforce
  then show ?thesis
    using True by (elim disjE) (simp_all add: send_call_def apiRequest_send_def Let_def)
next
  case False
  with assms have "read_call c" by simp
  from read_is_get [OF this] False show ?thesis
    by (simp add: send_call_def apiRequest_send_def Let_def js_truthy_def)
qed

text \<open>\<open>URLSearchParams.toString\<close> on names and values that need no escaping.\<close>

definition plain_query :: "(string \<times> string) list \<Rightarrow> string" where
  "plain_query kvs = js_join ''&'' (map (\<lambda>(k, v). k @ ''='' @ v) kvs)"

lemma effects_protected_witness:
  "ar_method (snd (send_call plain_query (Some ''t'') 0 (deleteSystemImage ''1.5''))) = ''DELETE''
    \<and> (CSRF_HEADER_NAME, ''t'') \<in> set (ar_headers (snd (send_call plain_query (Some ''t'') 0 (deleteSystemImage ''1.5''))))"
proof -
  have e: "effect_call (deleteSystemImage ''1.5'')" by (rule effect_call.intros)
  from effects_protected [of "deleteSystemImage ''1.5''" plain_query "Some ''t''" 0] e show ?thesis
    by (auto simp: send_call_def apiRequest_send_def deleteSystemImage_def Let_def)
qed

text \<open>
  Secrets stay out of the URL: the path whose value is revealed and the password that is typed are in
  the body of their request.
\<close>

lemma secrets_not_in_url:
  "fst (send_call encode csrf g (revealValue p)) = ''/api/config/reveal''"
  "fst (send_call encode csrf g (login_call u w)) = ''/api/auth/login''"
  "fst (send_call encode csrf g (commit_call ops s)) = ''/api/config/commit''"
  by (simp_all add: send_call_def endpoint_defs call_defs buildUrl_def)

end
