(* ===== verification/RuleNumbers.thy ===== *)
theory RuleNumbers
  imports FormQueue DhcpConfig
begin

text \<open>
  Numbers for new items: \<open>suggestNextNumber\<close> of the rule forms (\<open>components/firewall/RuleForm.tsx\<close>,
  \<open>components/nat/NATRuleForm.tsx\<close>, \<open>components/policy/RouteMapRuleForm.tsx\<close>,
  \<open>components/loadbalancing/WanRuleList.tsx\<close>), the check of the typed number, and the DHCP range list
  (\<open>components/dhcp/RangeList.tsx\<close>). The suggestion is free among the committed items; the queued ones
  are not looked at.
\<close>

subsection \<open>Suggestions\<close>

definition js_ceil :: "jsnum \<Rightarrow> jsnum" where
  "js_ceil x = (case x of Num q \<Rightarrow> Num (of_int \<lceil>q\<rceil>) | _ \<Rightarrow> x)"

definition js_scale :: "rat \<Rightarrow> jsnum \<Rightarrow> jsnum" where
  "js_scale k x = (case x of Num q \<Rightarrow> Num (k * q) | _ \<Rightarrow> x)"

text \<open>\<open>Math.ceil((max + 1) / 10) * 10\<close>.\<close>

definition next_ten :: "jsnum \<Rightarrow> jsnum" where
  "next_ten m = js_scale 10 (js_ceil (js_scale (1 / 10) (js_add m (Num 1))))"

definition suggestNextNumber :: "string list \<Rightarrow> string" where
  "suggestNextNumber existing =
     (if existing = [] then ''10''
      else js_num_str (next_ten
        (foldl js_max (Num 0) (filter (\<lambda>n. n \<noteq> NaN) (map js_number existing)))))"

definition suggestNextNumber_nat :: "string list \<Rightarrow> string" where
  "suggestNextNumber_nat existingNumbers =
     (if existingNumbers = [] then ''10''
      else js_num_str (next_ten (foldl (\<lambda>acc n. js_max acc (js_number n)) (Num 0) existingNumbers)))"

definition suggestNextNumber_route_map :: "string list \<Rightarrow> string" where
  "suggestNextNumber_route_map existingNumbers =
     (if existingNumbers = [] then ''10''
      else js_num_str (next_ten (foldl (\<lambda>acc n. js_max acc (js_number n)) (Num 0) existingNumbers)))"

definition suggestNextNumber_wan :: "string list \<Rightarrow> string" where
  "suggestNextNumber_wan existing =
     (let used = map js_number existing
      in case List.find (\<lambda>n. Num (of_nat n) \<notin> set used) (map (\<lambda>i. 10 * (i + 1)) [0..<999]) of
           Some n \<Rightarrow> js_num_str (Num (of_nat n))
         | None \<Rightarrow> ''1'')"

definition is_integer_from_0 :: "jsnum \<Rightarrow> bool" where
  "is_integer_from_0 x = (case x of Num q \<Rightarrow> q = of_int \<lfloor>q\<rfloor> \<and> 0 \<le> q | _ \<Rightarrow> False)"

definition suggestNextRangeId :: "DHCPRange list \<Rightarrow> string" where
  "suggestNextRangeId existing =
     (let numericIds = filter is_integer_from_0 (map (js_number \<circ> dr_id) existing)
      in js_num_str (if numericIds = [] then Num 0 else js_add (foldl js_max NInf numericIds) (Num 1)))"

subsection \<open>The typed number\<close>

text \<open>The input keeps digits only; a number is usable when it does not start with a zero and is free.\<close>

definition number_input :: "string \<Rightarrow> string" where
  "number_input s = filter is_digit s"

definition rule_number_re :: "string \<Rightarrow> bool" where
  "rule_number_re s = (case s of [] \<Rightarrow> False | c # cs \<Rightarrow> is_digit c \<and> c \<noteq> CHR ''0'' \<and> list_all is_digit cs)"

definition numberTaken :: "bool \<Rightarrow> string list \<Rightarrow> string \<Rightarrow> bool" where
  "numberTaken isCreate existingNumbers ruleNumber \<longleftrightarrow> isCreate \<and> ruleNumber \<in> set existingNumbers"

definition numberValid :: "bool \<Rightarrow> string list \<Rightarrow> string \<Rightarrow> bool" where
  "numberValid isCreate existingNumbers ruleNumber \<longleftrightarrow>
     rule_number_re ruleNumber \<and> \<not> numberTaken isCreate existingNumbers ruleNumber"

definition canSubmit_rule :: "bool \<Rightarrow> string list \<Rightarrow> string \<Rightarrow> RuleFormValues \<Rightarrow> bool" where
  "canSubmit_rule isCreate existingNumbers ruleNumber values \<longleftrightarrow>
     numberValid isCreate existingNumbers ruleNumber \<and> rf_action values \<noteq> ''''"

definition submit_rule ::
    "string list \<Rightarrow> RulesetRef \<Rightarrow> string list \<Rightarrow> string \<Rightarrow> FirewallRule option \<Rightarrow> RuleFormValues
     \<Rightarrow> PendingChange list \<Rightarrow> PendingChange list" where
  "submit_rule uuids ref existingNumbers ruleNumber rule values changes =
     (if canSubmit_rule (rule = None) existingNumbers ruleNumber values
      then queue_form uuids (ruleFormToOps ref ruleNumber rule values) changes else changes)"

subsection \<open>The suggestion is free\<close>

lemma foldl_max_nat:
  "foldl js_max (Num (of_nat a)) (map (\<lambda>n. Num (of_nat n)) ns) = Num (of_nat (foldl max a ns))"
  by (induction ns arbitrary: a) (simp_all add: of_nat_max [symmetric])

lemma foldl_max_ge: "a \<le> foldl max a ns \<and> (\<forall>n \<in> set ns. n \<le> foldl max a ns)" for ns :: "nat list"
proof (induction ns arbitrary: a)
  case (Cons n ns)
  from Cons [of "max a n"] show ?case by auto
qed simp

lemma foldl_max_in: "foldl max a ns = a \<or> foldl max a ns \<in> set ns" for ns :: "nat list"
proof (induction ns arbitrary: a)
  case (Cons n ns)
  from Cons [of "max a n"] show ?case by (auto simp: max_def split: if_splits)
qed simp

lemma next_ten_nat: "next_ten (Num (of_nat m)) = Num (of_nat (10 * (m div 10 + 1)))"
proof -
  have "\<lceil>(1 / 10 :: rat) * (of_nat m + 1)\<rceil> = int (m div 10 + 1)"
  proof (rule ceiling_unique)
    have "10 * (m div 10) < m + 1 \<and> m + 1 \<le> 10 * (m div 10 + 1)" by presburger
    then have "rat_of_nat (10 * (m div 10)) < rat_of_nat (m + 1)
      \<and> rat_of_nat (m + 1) \<le> rat_of_nat (10 * (m div 10 + 1))"
      by (simp only: of_nat_less_iff of_nat_le_iff)
    then show "rat_of_int (int (m div 10 + 1)) - 1 < 1 / 10 * (of_nat m + 1)"
      "1 / 10 * (of_nat m + 1) \<le> rat_of_int (int (m div 10 + 1))"
      by (simp_all add: field_simps)
  qed
  then show ?thesis
    by (simp add: next_ten_def js_scale_def js_ceil_def js_add_def algebra_simps)
qed

definition free_number :: "nat list \<Rightarrow> nat" where
  "free_number ns = (if ns = [] then 10 else 10 * (foldl max 0 ns div 10 + 1))"

lemma free_number_gt: "n \<in> set ns \<Longrightarrow> n < free_number ns"
  using foldl_max_ge [of 0 ns] by (fastforce simp: free_number_def)

lemma free_number_bound: "\<forall>n \<in> set ns. n < 10 ^ 20 \<Longrightarrow> free_number ns < 10 ^ 21"
  using foldl_max_in [of 0 ns] by (auto simp: free_number_def)

lemma suggestions:
  assumes "\<forall>n \<in> set ns. n < 10 ^ 20"
  shows "suggestNextNumber (map nat_str ns) = nat_str (free_number ns)"
    "suggestNextNumber_nat (map nat_str ns) = nat_str (free_number ns)"
    "suggestNextNumber_route_map (map nat_str ns) = nat_str (free_number ns)"
proof -
  have ten: "''10'' = nat_str 10" by code_simp
  have nums: "filter (\<lambda>n. n \<noteq> NaN) (map js_number (map nat_str ns)) = map (\<lambda>n. Num (of_nat n)) ns"
    by (induction ns) simp_all
  have str: "ns \<noteq> [] \<Longrightarrow> js_num_str (next_ten (Num (of_nat (foldl max 0 ns)))) = nat_str (free_number ns)"
    using js_num_str_nat [OF free_number_bound [OF assms]] by (simp only: next_ten_nat free_number_def if_False)
  have acc: "foldl (\<lambda>acc n. js_max acc (js_number n)) (Num (of_nat a)) (map nat_str ns)
      = Num (of_nat (foldl max a ns))" for a
    by (induction ns arbitrary: a) (simp_all add: of_nat_max [symmetric])
  have "foldl js_max (Num 0) (map (\<lambda>n. Num (of_nat n)) ns) = Num (of_nat (foldl max 0 ns))"
    using foldl_max_nat [of 0 ns] by simp
  with str show "suggestNextNumber (map nat_str ns) = nat_str (free_number ns)"
    unfolding suggestNextNumber_def nums by (simp add: ten free_number_def)
  from str acc [of 0] show "suggestNextNumber_nat (map nat_str ns) = nat_str (free_number ns)"
    "suggestNextNumber_route_map (map nat_str ns) = nat_str (free_number ns)"
    unfolding suggestNextNumber_nat_def suggestNextNumber_route_map_def
    by (simp_all add: ten free_number_def)
qed

lemma rule_number_re_nat_str: "0 < n \<Longrightarrow> rule_number_re (nat_str n)"
proof (induction n rule: nat_str.induct)
  case (1 n)
  show ?case
  proof (cases "n < 10")
    case True
    have "digit_char n \<noteq> CHR ''0''" using 1(2) True of_char_digit [OF True] by (auto dest: arg_cong [where f = of_char])
    then show ?thesis using True by (simp add: nat_str.simps [of n] rule_number_re_def)
  next
    case False
    with 1 have "rule_number_re (nat_str (n div 10))" by auto
    then show ?thesis using False
      by (subst nat_str.simps) (auto simp: rule_number_re_def split: list.splits)
  qed
qed



text \<open>
  The WAN list fills the first gap in 10, 20, ..., 9990. It has no check of its own, and with all of them
  taken it offers rule 1 whether or not there is one.
\<close>

lemma wan_suggestion_free:
  assumes "\<exists>i < 999. 10 * (i + 1) \<notin> set ns"
  shows "suggestNextNumber_wan (map nat_str ns) \<notin> set (map nat_str ns)"
proof -
  let ?c = "map (\<lambda>i. 10 * (i + 1)) [0..<999]"
  have used: "Num (of_nat n) \<in> set (map js_number (map nat_str ns)) \<longleftrightarrow> n \<in> set ns" for n
    by (auto simp: image_iff)
  obtain n where n: "List.find (\<lambda>n. n \<notin> set ns) ?c = Some n"
    using assms by (cases "List.find (\<lambda>n. n \<notin> set ns) ?c") (auto simp: find_None_iff)
  then have "n \<notin> set ns" and "n \<in> set ?c" by (auto simp: find_Some_iff)
  from this(2) have "n < 10 ^ 21" by auto
  with n have "suggestNextNumber_wan (map nat_str ns) = nat_str n"
    by (simp only: suggestNextNumber_wan_def Let_def used option.case js_num_str_nat)
  with \<open>n \<notin> set ns\<close> show ?thesis by auto
qed

subsection \<open>DHCP ranges\<close>

lemma range_id_nat:
  assumes "\<forall>r \<in> set rs. \<exists>n < 10 ^ 20. dr_id r = nat_str n"
  shows "\<exists>k. suggestNextRangeId rs = nat_str k \<and> (\<forall>r \<in> set rs. \<exists>n < k. dr_id r = nat_str n)"
proof -
  obtain f where f: "dr_id r = nat_str (f r)" "f r < 10 ^ 20" if "r \<in> set rs" for r
    using assms by metis
  have nums: "filter is_integer_from_0 (map (js_number \<circ> dr_id) rs) = map (\<lambda>n. Num (of_nat n)) (map f rs)"
    using f by (induction rs) (simp_all add: is_integer_from_0_def)
  show ?thesis
  proof (cases rs)
    case Nil
    have "suggestNextRangeId [] = nat_str 0" by code_simp
    with Nil show ?thesis by (intro exI [of _ 0]) simp
  next
    case (Cons r rs')
    let ?m = "foldl max (f r) (map f rs')"
    have first: "js_max NInf (Num q) = Num q" for q by (simp add: js_max_def js_le_def)
    have bound: "?m + 1 < 10 ^ 21"
      using foldl_max_in [of "f r" "map f rs'"] f(2) Cons by fastforce
    have "suggestNextRangeId rs = js_num_str (Num (of_nat (?m + 1)))"
      unfolding suggestNextRangeId_def nums
      using foldl_max_nat [of "f r" "map f rs'"] by (simp add: Cons first js_add_def add.commute)
    then have "suggestNextRangeId rs = nat_str (?m + 1)" by (simp only: js_num_str_nat [OF bound])
    moreover have "f x < ?m + 1" if "x \<in> set rs" for x
      using foldl_max_ge [of "f r" "map f rs'"] that by (auto simp: Cons less_Suc_eq_le)
    ultimately show ?thesis using f(1) by blast
  qed
qed

text \<open>The handlers of the list, with the labels of their changes.\<close>

definition quoted :: "string \<Rightarrow> string" where
  "quoted s = [CHR 0x27] @ s @ [CHR 0x27]"

definition range_add :: "string \<Rightarrow> string \<Rightarrow> DHCPRange list \<Rightarrow> string \<Rightarrow> string \<Rightarrow> (ConfigOp \<times> string) list" where
  "range_add networkName cidr ranges start stop =
     (if js_trim start = '''' \<or> js_trim stop = '''' then []
      else (let i = suggestNextRangeId ranges
            in [(set_op (rangePath networkName cidr i [''start'']) (js_trim start),
                 ''set ... range '' @ i @ '' start '' @ quoted (js_trim start)),
                (set_op (rangePath networkName cidr i [''stop'']) (js_trim stop),
                 ''set ... range '' @ i @ '' stop '' @ quoted (js_trim stop))]))"

definition range_remove :: "string \<Rightarrow> string \<Rightarrow> string \<Rightarrow> (ConfigOp \<times> string) list" where
  "range_remove networkName cidr i =
     [(delete_op (rangePath networkName cidr i []), ''delete ... range '' @ i)]"

definition queue_labelled :: "string list \<Rightarrow> (ConfigOp \<times> string) list \<Rightarrow> PendingChange list \<Rightarrow> PendingChange list" where
  "queue_labelled uuids adds changes =
     fold (\<lambda>(uuid, op, label). add_change uuid op label) (zip uuids adds) changes"

lemma add_change_plain:
  assumes "plain_path (co_path op)" and "list_all (\<lambda>c. plain_path (co_path (pc_op c))) changes"
  shows "list_all (\<lambda>c. plain_path (co_path (pc_op c))) (add_change u op l changes)"
  using assms by (auto simp: add_change_def remove_index_def list_all_iff
      dest: in_set_takeD in_set_dropD split: option.splits)

lemma queue_valued_applied:
  assumes "length uuids = length adds"
    and "list_all (\<lambda>(op, l). plain_path (co_path op) \<and> co_value op \<noteq> None) adds"
    and "list_all (\<lambda>c. plain_path (co_path (pc_op c))) changes"
  shows "device_apply (map pc_op (queue_labelled uuids adds changes)) m
       = device_apply (map fst adds) (device_apply (map pc_op changes) m)"
  using assms
proof (induction adds arbitrary: uuids changes)
  case (Cons a adds)
  obtain op l where a: "a = (op, l)" by (cases a)
  obtain u us where us: "uuids = u # us" "length us = length adds" using Cons.prems(1) by (cases uuids) auto
  have op: "plain_path (co_path op)" "co_value op \<noteq> None" using Cons.prems(2) by (simp_all add: a)
  have "cancelled_delete changes op = None" using op(2) by (auto simp: cancelled_delete_def)
  with add_change_applied [OF op(1) Cons.prems(3) this]
    Cons.IH [OF us(2) _ add_change_plain [OF op(1) Cons.prems(3)]] Cons.prems(2)
  show ?case by (simp add: us(1) a queue_labelled_def)
qed (simp add: queue_labelled_def)

lemma indep_last: "indep (p @ [a]) (p @ [b])" if "a \<noteq> b" for p :: path
  using that by (simp add: indep_def)

text \<open>
  C39. The range list shows the committed ranges, and numbers a new range from what it shows. Adding two
  ranges before committing gives both the same number: after the commit the device has only the second.
\<close>

theorem second_range_replaces_first:
  assumes "\<forall>s \<in> {s1, e1, s2, e2}. js_trim s \<noteq> ''''"
    and "plain_path (rangePath networkName cidr (suggestNextRangeId ranges) [])"
    and "length uuids = 4"
  shows "parseRange (suggestNextRangeId ranges) (device_get (device_apply (map pc_op
      (queue_labelled uuids (range_add networkName cidr ranges s1 e1 @ range_add networkName cidr ranges s2 e2) [])) m)
        (rangePath networkName cidr (suggestNextRangeId ranges) []))
    = \<lparr>dr_id = suggestNextRangeId ranges, dr_start = Some (js_trim s2), dr_stop = Some (js_trim e2)\<rparr>"
proof -
  let ?i = "suggestNextRangeId ranges"
  let ?p = "rangePath networkName cidr ?i []"
  let ?adds = "range_add networkName cidr ranges s1 e1 @ range_add networkName cidr ranges s2 e2"
  have path: "rangePath networkName cidr ?i r = ?p @ r" for r by (simp add: rangePath_def subnetPath_def sharedNetworkPath_def)
  have plain: "plain_path (?p @ [''start''])" "plain_path (?p @ [''stop''])"
    using plain_segments [OF assms(2)] by simp_all
  have adds: "map fst ?adds = [set_op (?p @ [''start'']) (js_trim s1), set_op (?p @ [''stop'']) (js_trim e1),
      set_op (?p @ [''start'']) (js_trim s2), set_op (?p @ [''stop'']) (js_trim e2)]"
    using assms(1) by (simp add: range_add_def Let_def path [of "[''start'']"] path [of "[''stop'']"])
  have "length uuids = length ?adds"
    using assms(1,3) by (simp add: range_add_def Let_def)
  moreover have "list_all (\<lambda>(op, l). plain_path (co_path op) \<and> co_value op \<noteq> None) ?adds"
    using assms(1) plain
    by (simp add: range_add_def Let_def path [of "[''start'']"] path [of "[''stop'']"] op_defs)
  ultimately have dev: "device_apply (map pc_op (queue_labelled uuids ?adds [])) m = device_apply (map fst ?adds) m"
    using queue_valued_applied [of uuids ?adds "[]" m] by simp
  let ?m = "setNested (?p @ [''stop'']) (js_trim e1) (setNested (?p @ [''start'']) (js_trim s1) m)"
  let ?d = "setNested (?p @ [''stop'']) (js_trim e2) (setNested (?p @ [''start'']) (js_trim s2) ?m)"
  have d: "device_apply (map pc_op (queue_labelled uuids ?adds [])) m = ?d"
    unfolding dev adds by (simp add: op_defs apply_op_def)
  have "device_get ?d (?p @ [''stop'']) = Some (JStr (js_trim e2))"
    by (rule setNested_value) (use assms(1) in auto)
  moreover have "device_get ?d (?p @ [''start'']) = Some (JStr (js_trim s2))"
    using setNested_other [OF indep_last [of "''stop''" "''start''" ?p]]
    by (simp add: setNested_value assms(1))
  ultimately show ?thesis unfolding d
    by (simp add: parseRange_def device_get_append asString_def)
qed

lemma second_range_replaces_first_witness:
  "parseRange ''0'' (device_get (device_apply (map pc_op (queue_labelled [''1'', ''2'', ''3'', ''4'']
      (range_add ''LAN'' ''192.0.2.0/24'' [] ''192.0.2.10'' ''192.0.2.20''
        @ range_add ''LAN'' ''192.0.2.0/24'' [] ''192.0.2.30'' ''192.0.2.40'') [])) [])
        (rangePath ''LAN'' ''192.0.2.0/24'' ''0'' []))
    = \<lparr>dr_id = ''0'', dr_start = Some ''192.0.2.30'', dr_stop = Some ''192.0.2.40''\<rparr>"
proof -
  have i: "suggestNextRangeId [] = ''0''" by code_simp
  have t: "\<forall>s \<in> {''192.0.2.10'', ''192.0.2.20'', ''192.0.2.30'', ''192.0.2.40''}. js_trim s \<noteq> ''''"
    "js_trim ''192.0.2.30'' = ''192.0.2.30''" "js_trim ''192.0.2.40'' = ''192.0.2.40''" by code_simp+
  have p: "plain_path (rangePath ''LAN'' ''192.0.2.0/24'' (suggestNextRangeId []) [])" by code_simp
  show ?thesis
    using second_range_replaces_first [OF t(1) p, of "[''1'', ''2'', ''3'', ''4'']" "[]"] unfolding i t by simp
qed

text \<open>
  The same holds of rules: the number check does not see the queued rule either, so a second new firewall
  rule is offered the number of the first, and the device has one rule that mixes the two.
\<close>

definition tcp_accept :: RuleFormValues where
  "tcp_accept = blankRuleFormValues\<lparr>rf_action := ''accept'', rf_protocol := ''tcp''\<rparr>"

lemma second_rule_merges:
  "let n = suggestNextNumber []; no_ops = [];
       cart = submit_rule [''3'', ''4''] forward_filter [] n None drop_values
                (submit_rule [''1'', ''2''] forward_filter [] n None tcp_accept no_ops);
       rule = parseRule ''ipv4'' n (device_get (device_apply (map pc_op cart) []) (rulePath forward_filter n []))
   in n = ''10'' \<and> fr_action rule = Some ''drop'' \<and> fr_protocol rule = Some ''tcp'' \<and> fr_disabled rule"
  by code_simp

end
