(* ===== verification/Handlers.thy ===== *)
theory Handlers
  imports RuleNumbers Ipv4
begin

text \<open>
  What the handlers of the list and form components share: the labels they put on changes, the checks of
  typed names, and the shape of what they queue.
\<close>

text \<open>The text a component keeps in its state for one of its input fields.\<close>

type_synonym text_input = string

subsection \<open>Labels and checks\<close>

text \<open>\<open>op.value ? ` '\${op.value}'` : ''\<close> and \<open>op.path[op.path.length - 1]\<close> in a template.\<close>

definition value_label :: "ConfigOp \<Rightarrow> string" where
  "value_label op =
     (if or_else (co_value op) '''' = '''' then '''' else '' '' @ quoted (or_else (co_value op) ''''))"

definition last_segment :: "string list \<Rightarrow> string" where
  "last_segment p = (if p = [] then ''undefined'' else last p)"

definition digits_re :: "string \<Rightarrow> bool" where
  "digits_re s \<longleftrightarrow> s \<noteq> '''' \<and> list_all is_digit s"

definition digits_between :: "nat \<Rightarrow> nat \<Rightarrow> string \<Rightarrow> bool" where
  "digits_between lo hi s \<longleftrightarrow> lo \<le> length s \<and> length s \<le> hi \<and> list_all is_digit s"

text \<open>Four groups of up to three digits separated by dots, a slash and up to two digits.\<close>

definition cidr_re :: "string \<Rightarrow> bool" where
  "cidr_re s =
     (case js_split (CHR ''/'') s of
        [a, n] \<Rightarrow> digits_between 1 2 n
          \<and> (case js_split (CHR ''.'') a of [p, q, r, t] \<Rightarrow> list_all (digits_between 1 3) [p, q, r, t] | _ \<Rightarrow> False)
      | _ \<Rightarrow> False)"

text \<open>The looser check of an IPv6 prefix, \<open>/^[0-9a-fA-F:]+\/\d{1,3}$/\<close>.\<close>

definition cidr6_re :: "string \<Rightarrow> bool" where
  "cidr6_re s =
     (case js_split (CHR ''/'') s of
        [a, n] \<Rightarrow> digits_between 1 3 n \<and> a \<noteq> '''' \<and> list_all (\<lambda>c. c \<in> set ''0123456789abcdefABCDEF:'') a
      | _ \<Rightarrow> False)"

text \<open>\<open>String(items.reduce((max, r) => Math.max(max, Number(r.id)), start) + 1)\<close>.\<close>

definition next_id :: "jsnum \<Rightarrow> string list \<Rightarrow> string" where
  "next_id start ids =
     js_num_str (js_add (foldl (\<lambda>mx i. js_max mx (js_number i)) start ids) (Num 1))"

subsection \<open>Well-formed changes\<close>

text \<open>
  A change a form may queue: at or below its section of the configuration, a \<open>set\<close> or a \<open>delete\<close> (only
  the commit dialog writes comments), and never a \<open>set\<close> of an empty value.
\<close>

definition op_ok :: "path \<Rightarrow> ConfigOp \<Rightarrow> bool" where
  "op_ok sec op \<longleftrightarrow> prefix sec (co_path op) \<and> co_op op \<noteq> Comment_op
     \<and> (co_op op = Set_op \<longrightarrow> co_value op \<noteq> Some '''')"

definition ops_ok :: "path \<Rightarrow> ConfigOp list \<Rightarrow> bool" where
  "ops_ok sec ops \<longleftrightarrow> list_all (op_ok sec) ops"

named_theorems ok_rules

lemma op_ok_simps [ok_rules]:
  "op_ok r (set_op p v) \<longleftrightarrow> prefix r p \<and> v \<noteq> ''''"
  "op_ok r (set_flag p) \<longleftrightarrow> prefix r p"
  "op_ok r (delete_op p) \<longleftrightarrow> prefix r p"
  "op_ok r (delete_value_op p v) \<longleftrightarrow> prefix r p"
  by (auto simp: op_ok_def op_defs)

lemma ops_ok_simps [ok_rules]:
  "ops_ok r [] \<longleftrightarrow> True"
  "ops_ok r (op # ops) \<longleftrightarrow> op_ok r op \<and> ops_ok r ops"
  "ops_ok r (xs @ ys) \<longleftrightarrow> ops_ok r xs \<and> ops_ok r ys"
  "ops_ok r (concat (map f ks)) \<longleftrightarrow> (\<forall>k \<in> set ks. ops_ok r (f k))"
  "ops_ok r (map (\<lambda>k. set_op (p k) (v k)) ks) \<longleftrightarrow> (\<forall>k \<in> set ks. op_ok r (set_op (p k) (v k)))"
  "ops_ok r (map (\<lambda>k. set_flag (p k)) ks) \<longleftrightarrow> (\<forall>k \<in> set ks. op_ok r (set_flag (p k)))"
  "ops_ok r (map (\<lambda>k. delete_op (p k)) ks) \<longleftrightarrow> (\<forall>k \<in> set ks. op_ok r (delete_op (p k)))"
  "ops_ok r (map (\<lambda>k. delete_value_op (p k) (v k)) ks) \<longleftrightarrow> (\<forall>k \<in> set ks. op_ok r (delete_value_op (p k) (v k)))"
  by (auto simp: ops_ok_def list_all_iff)

lemma fst_pair: "fst \<circ> (\<lambda>op. (op, l op)) = id"
  by auto

lemma ops_ok_labelled [ok_rules]: "ops_ok r (map fst (map (\<lambda>op. (op, l op)) ops)) \<longleftrightarrow> ops_ok r ops"
  by (simp add: fst_pair)

lemma scalar_diff_ok [ok_rules]: "prefix r p \<Longrightarrow> ops_ok r (scalar_diff p x y)"
  by (auto simp: scalar_diff_def ok_rules)

lemma flag_diff_ok [ok_rules]: "prefix r p \<Longrightarrow> ops_ok r (flag_diff p x y)"
  by (auto simp: flag_diff_def ok_rules)

lemma prefix_append_left [ok_rules]: "prefix r p \<Longrightarrow> prefix r (p @ q)"
  by (auto simp: prefix_def)

lemma diffToOps_ok_paths:
  assumes "\<forall>s \<in> snd ` set sfs \<union> snd ` set ffs. prefix r (p @ s)"
  shows "ops_ok r (diffToOps p sfs ffs b v)"
  using assms by (auto simp: diffToOps_def ops_ok_simps case_prod_beta intro!: scalar_diff_ok flag_diff_ok)

lemma diffToOps_ok [ok_rules]: "prefix r p \<Longrightarrow> ops_ok r (diffToOps p sfs ffs b v)"
  by (rule diffToOps_ok_paths) (simp add: prefix_append_left)

text \<open>No check of a typed name accepts the empty string.\<close>

lemma no_blank: "\<not> digits_re ''''" "\<not> cidr_re ''''" "\<not> cidr6_re ''''" "\<not> isValidVyOSIdentifier ''''"
  by (simp_all add: digits_re_def cidr_re_def cidr6_re_def isValidVyOSIdentifier_def)

text \<open>A diff of equal values is empty.\<close>

lemma same_rules:
  "scalar_diff p x x = []" "flag_diff p b b = []" "multiValueDiffOps p xs xs = []" "diffToOps p sfs ffs v v = []"
  by (auto simp: scalar_diff_def flag_diff_def multiValueDiffOps_def diffToOps_def case_prod_beta)

end
