(* ===== verification/UiRouting.thy ===== *)
theory UiRouting
  imports Handlers Bgp Ospf Policy StaticRoutes
begin

text \<open>
  The editors of the BGP, OSPF, policy and static route pages: for each component the condition its button is
  enabled under, the values its form starts from, and the changes (op and label) its handlers queue.
  The arguments are the props and the state a handler reads. A handler's resets of its own input
  fields and the closing of its panel are left out; a callback prop such as \<open>onAdd\<close> is whether the
  parent passes one.
\<close>

text \<open>\<open>components/bgp/BGPGlobalSettings.tsx\<close>\<close>

definition BGPGlobalSettings_submit ::
    "BGPConfig \<Rightarrow> BGPGlobalFormValues \<Rightarrow> (ConfigOp \<times> string) list" where
  "BGPGlobalSettings_submit bgp values =
     (let ops = globalFormToOps_bgp bgp values in map (\<lambda>op1. (op1, change_label op1)) ops)"

definition BGPGlobalSettings_values :: "BGPConfig \<Rightarrow> BGPGlobalFormValues" where
  "BGPGlobalSettings_values bgp = globalToFormValues_bgp bgp"

text \<open>\<open>components/bgp/BGPNetworksAndRedistribution.tsx\<close>\<close>

definition BGPNetworksAndRedistribution_NetworksSection_valid ::
    "BGPNetworkAdvertisement list \<Rightarrow> text_input \<Rightarrow> text_input \<Rightarrow> bool" where
  "BGPNetworksAndRedistribution_NetworksSection_valid networks family pfx =
     (let trimmedPrefix = js_trim pfx;
          taken = list_ex (\<lambda>n. bn_family n = family \<and> bn_prefix n = trimmedPrefix)
              networks
      in trimmedPrefix \<noteq> '''' \<and> \<not> taken)"

definition BGPNetworksAndRedistribution_NetworksSection_submit ::
    "BGPNetworkAdvertisement list \<Rightarrow> text_input \<Rightarrow> text_input \<Rightarrow> (ConfigOp \<times> string) list" where
  "BGPNetworksAndRedistribution_NetworksSection_submit networks family pfx =
     (let trimmedPrefix = js_trim pfx
      in (if \<not> BGPNetworksAndRedistribution_NetworksSection_valid networks family pfx then []
          else (let op1 = addNetworkOp family trimmedPrefix
                in [(op1, ''set '' @ js_join '' '' (co_path op1))])))"

definition BGPNetworksAndRedistribution_NetworksSection_queueRemove :: "BGPNetworkAdvertisement \<Rightarrow> (ConfigOp \<times> string) list" where
  "BGPNetworksAndRedistribution_NetworksSection_queueRemove n =
     (let op1 = removeNetworkOp (bn_family n) (bn_prefix n)
      in [(op1, ''delete '' @ js_join '' '' (co_path op1))])"

definition BGPNetworksAndRedistribution_RedistributionSection_submit ::
    "BGPRedistribution list \<Rightarrow> text_input \<Rightarrow> text_input \<Rightarrow> text_input \<Rightarrow> (ConfigOp \<times> string) list" where
  "BGPNetworksAndRedistribution_RedistributionSection_submit redistributions family source metric =
     (let taken = list_ex (\<lambda>r. br_family r = family \<and> br_source r = source)
              redistributions
      in (if taken then []
          else (let ops = addRedistributionOps family source metric
                in map (\<lambda>op1. (op1, change_label op1)) ops)))"

definition BGPNetworksAndRedistribution_RedistributionSection_queueRemove :: "BGPRedistribution \<Rightarrow> (ConfigOp \<times> string) list" where
  "BGPNetworksAndRedistribution_RedistributionSection_queueRemove r =
     (let op1 = removeRedistributionOp (br_family r) (br_source r)
      in [(op1, ''delete '' @ js_join '' '' (co_path op1))])"

text \<open>\<open>components/bgp/BGPPeerForm.tsx\<close>\<close>

definition BGPPeerForm_canSubmit ::
    "BGPPeer option \<Rightarrow> string list \<Rightarrow> text_input \<Rightarrow> BGPPeerFormValues \<Rightarrow> bool" where
  "BGPPeerForm_canSubmit peer existingIdentifiers ident values =
     (let trimmedIdentifier = js_trim ident;
          identifierTaken = peer = None \<and> trimmedIdentifier \<in> set existingIdentifiers
      in (trimmedIdentifier \<noteq> '''' \<and> \<not> identifierTaken)
         \<and> js_trim (bpv_remoteAs values) \<noteq> '''')"

definition BGPPeerForm_submit ::
    "string \<Rightarrow> BGPPeer option \<Rightarrow> string list \<Rightarrow> text_input \<Rightarrow> BGPPeerFormValues \<Rightarrow> (ConfigOp \<times> string) list" where
  "BGPPeerForm_submit kind peer existingIdentifiers ident values =
     (let trimmedIdentifier = js_trim ident
      in (if \<not> BGPPeerForm_canSubmit peer existingIdentifiers ident values then []
          else (let ops = peerFormToOps kind trimmedIdentifier peer values
                in map (\<lambda>op1. (op1, change_label op1)) ops)))"

definition BGPPeerForm_values :: "BGPPeer option \<Rightarrow> BGPPeerFormValues" where
  "BGPPeerForm_values peer =
     (case peer of
        Some peer' \<Rightarrow> peerToFormValues peer'
      | None \<Rightarrow> blankPeerFormValues)"

definition BGPPeerForm_queueRemovePassword ::
    "string \<Rightarrow> BGPPeer option \<Rightarrow> (ConfigOp \<times> string) list" where
  "BGPPeerForm_queueRemovePassword kind peer =
     (case peer of
        Some peer' \<Rightarrow> [(delete_op (bgpPeerPath kind (bp_identifier peer') [''password'']),
                ''delete protocols bgp '' @ kind @ '' ''
              @ bp_identifier peer' @ '' password'')]
      | None \<Rightarrow> [])"

text \<open>\<open>components/bgp/BGPPeerList.tsx\<close>\<close>

definition BGPPeerList_queueDelete :: "string \<Rightarrow> string \<Rightarrow> (ConfigOp \<times> string) list" where
  "BGPPeerList_queueDelete kind ident =
     [(delete_op (bgpPeerPath kind ident []), ''delete protocols bgp '' @ kind @ '' '' @ ident)]"

text \<open>\<open>components/ospf/OSPFAreaForm.tsx\<close>\<close>

definition OSPFAreaForm_canSubmit ::
    "OSPFArea option \<Rightarrow> string list \<Rightarrow> text_input \<Rightarrow> bool" where
  "OSPFAreaForm_canSubmit area existingIds i =
     (let trimmedId = js_trim i;
          idTaken = area = None \<and> trimmedId \<in> set existingIds
      in trimmedId \<noteq> '''' \<and> \<not> idTaken)"

definition OSPFAreaForm_submit ::
    "string \<Rightarrow> OSPFArea option \<Rightarrow> string list \<Rightarrow> text_input \<Rightarrow> OSPFAreaFormValues \<Rightarrow> text_input \<Rightarrow> text_input \<Rightarrow> (ConfigOp \<times> string) list" where
  "OSPFAreaForm_submit protocol area existingIds i values firstNetwork firstRangePrefix =
     (let trimmedId = js_trim i
      in (if \<not> OSPFAreaForm_canSubmit area existingIds i then []
          else (let ops = areaFormToOps protocol trimmedId area values
                in map (\<lambda>op1. (op1, change_label op1)) ops
                   @ (if protocol = ''ospf'' \<and> js_trim firstNetwork \<noteq> ''''
                      then [(set_op (ospfAreaPath protocol trimmedId [] @ [''network''])
                               (js_trim firstNetwork), ''set protocols ''
                             @ protocol @ '' area '' @ trimmedId
                             @ '' network ''
                             @ quoted (js_trim firstNetwork))]
                      else [])
                   @ (if js_trim firstRangePrefix \<noteq> ''''
                      then (let rangeOps = addAreaRangeOps protocol trimmedId
                                    (js_trim firstRangePrefix)
                                    \<lparr>ro_notAdvertise = False,
                                        ro_cost = None,
                                        ro_substitute = None\<rparr>
                            in map (\<lambda>op1. (op1, change_label op1)) rangeOps)
                      else []))))"

definition OSPFAreaForm_values :: "OSPFArea option \<Rightarrow> OSPFAreaFormValues" where
  "OSPFAreaForm_values area =
     (case area of
        Some area' \<Rightarrow> areaToFormValues area'
      | None \<Rightarrow> blankAreaFormValues)"

text \<open>\<open>components/ospf/OSPFAreaList.tsx\<close>\<close>

definition OSPFAreaList_queueDelete :: "string \<Rightarrow> string \<Rightarrow> (ConfigOp \<times> string) list" where
  "OSPFAreaList_queueDelete protocol areaId =
     (let op1 = deleteAreaOp protocol areaId in [(op1, ''delete '' @ js_join '' '' (co_path op1))])"

definition OSPFAreaList_RangesSection_valid :: "OSPFArea \<Rightarrow> text_input \<Rightarrow> bool" where
  "OSPFAreaList_RangesSection_valid area pfx =
     (let trimmedPrefix = js_trim pfx;
          taken = list_ex (\<lambda>r. oar_prefix r = trimmedPrefix) (oa_ranges area)
      in trimmedPrefix \<noteq> '''' \<and> \<not> taken)"

definition OSPFAreaList_RangesSection_submit ::
    "string \<Rightarrow> OSPFArea \<Rightarrow> text_input \<Rightarrow> bool \<Rightarrow> text_input \<Rightarrow> text_input \<Rightarrow> (ConfigOp \<times> string) list" where
  "OSPFAreaList_RangesSection_submit protocol area pfx notAdvertise cost substitute =
     (let trimmedPrefix = js_trim pfx
      in (if \<not> OSPFAreaList_RangesSection_valid area pfx then []
          else (let ops = addAreaRangeOps protocol (oa_id area) trimmedPrefix
                        \<lparr>ro_notAdvertise = notAdvertise,
                            ro_cost = Some cost,
                            ro_substitute = Some substitute\<rparr>
                in map (\<lambda>op1. (op1, change_label op1)) ops)))"

definition OSPFAreaList_RangesSection_queueRemove ::
    "string \<Rightarrow> OSPFArea \<Rightarrow> string \<Rightarrow> (ConfigOp \<times> string) list" where
  "OSPFAreaList_RangesSection_queueRemove protocol area rangePrefix =
     (let op1 = removeAreaRangeOp protocol (oa_id area) rangePrefix
      in [(op1, ''delete '' @ js_join '' '' (co_path op1))])"

text \<open>\<open>components/ospf/OSPFGlobalSettings.tsx\<close>\<close>

definition OSPFGlobalSettings_submit ::
    "string \<Rightarrow> OSPFGlobalSettings \<Rightarrow> OSPFGlobalFormValues \<Rightarrow> (ConfigOp \<times> string) list" where
  "OSPFGlobalSettings_submit protocol settings values =
     (let ops = globalFormToOps_ospf protocol settings values
      in map (\<lambda>op1. (op1, change_label op1)) ops)"

definition OSPFGlobalSettings_values :: "OSPFGlobalSettings \<Rightarrow> OSPFGlobalFormValues" where
  "OSPFGlobalSettings_values settings = globalToFormValues_ospf settings"

text \<open>\<open>components/ospf/OSPFInterfaceForm.tsx\<close>\<close>

definition OSPFInterfaceForm_canSubmit ::
    "string \<Rightarrow> OSPFInterface option \<Rightarrow> string list \<Rightarrow> text_input \<Rightarrow> OSPFInterfaceFormValues \<Rightarrow> bool" where
  "OSPFInterfaceForm_canSubmit protocol iface existingNames name values =
     (let trimmedName = js_trim name;
          nameTaken = iface = None \<and> trimmedName \<in> set existingNames;
          secretMissing = authSecretMissing protocol iface values
      in (trimmedName \<noteq> '''' \<and> \<not> nameTaken) \<and> \<not> secretMissing)"

definition OSPFInterfaceForm_submit ::
    "string \<Rightarrow> OSPFInterface option \<Rightarrow> string list \<Rightarrow> text_input \<Rightarrow> OSPFInterfaceFormValues \<Rightarrow> (ConfigOp \<times> string) list" where
  "OSPFInterfaceForm_submit protocol iface existingNames name values =
     (let trimmedName = js_trim name
      in (if \<not> OSPFInterfaceForm_canSubmit protocol iface existingNames name values then []
          else (let ops = interfaceFormToOps protocol trimmedName iface values
                in map (\<lambda>op1. (op1, change_label op1)) ops)))"

definition OSPFInterfaceForm_values :: "OSPFInterface option \<Rightarrow> OSPFInterfaceFormValues" where
  "OSPFInterfaceForm_values iface =
     (case iface of
        Some iface' \<Rightarrow> interfaceToFormValues iface'
      | None \<Rightarrow> blankInterfaceFormValues)"

definition OSPFInterfaceForm_queueClearAuthentication ::
    "string \<Rightarrow> OSPFInterface option \<Rightarrow> (ConfigOp \<times> string) list" where
  "OSPFInterfaceForm_queueClearAuthentication protocol iface =
     (case iface of
        Some iface' \<Rightarrow> (let p = ospfInterfacePath protocol (oi_name iface') [] @ [''authentication'']
             in [(delete_op p, ''delete '' @ js_join '' '' p)])
      | None \<Rightarrow> [])"

text \<open>\<open>components/ospf/OSPFInterfaceList.tsx\<close>\<close>

definition OSPFInterfaceList_queueDelete :: "string \<Rightarrow> string \<Rightarrow> (ConfigOp \<times> string) list" where
  "OSPFInterfaceList_queueDelete protocol name =
     (let op1 = deleteInterfaceOp protocol name
      in [(op1, ''delete '' @ js_join '' '' (co_path op1))])"

text \<open>\<open>components/ospf/OSPFRedistribution.tsx\<close>\<close>

definition OSPFRedistribution_submit ::
    "string \<Rightarrow> OSPFRedistribution list \<Rightarrow> text_input \<Rightarrow> text_input \<Rightarrow> text_input \<Rightarrow> (ConfigOp \<times> string) list" where
  "OSPFRedistribution_submit protocol redistributions source metric metricType =
     (let taken = list_ex (\<lambda>r. ord_source r = source) redistributions
      in (if taken then []
          else (let ops = addRedistributionOps_ospf protocol source metric metricType
                in map (\<lambda>op1. (op1, change_label op1)) ops)))"

definition OSPFRedistribution_queueRemove ::
    "string \<Rightarrow> OSPFRedistribution \<Rightarrow> (ConfigOp \<times> string) list" where
  "OSPFRedistribution_queueRemove protocol r =
     (let op1 = removeRedistributionOp_ospf protocol (ord_source r)
      in [(op1, ''delete '' @ js_join '' '' (co_path op1))])"

text \<open>\<open>components/policy/LocalRouteSection.tsx\<close>\<close>

definition LocalRouteSection_queueDelete :: "string \<Rightarrow> string \<Rightarrow> (ConfigOp \<times> string) list" where
  "LocalRouteSection_queueDelete family ruleNumber =
     (let op1 = deleteLocalRouteOp family ruleNumber
      in [(op1, ''delete '' @ js_join '' '' (co_path op1))])"

definition LocalRouteSection_RuleForm_canSubmit ::
    "LocalRouteRule option \<Rightarrow> string list \<Rightarrow> text_input \<Rightarrow> bool" where
  "LocalRouteSection_RuleForm_canSubmit rule existingNumbers ruleNumber =
     (let numberTaken1 = rule = None \<and> ruleNumber \<in> set existingNumbers;
          numberValid1 = rule_number_re ruleNumber \<and> \<not> numberTaken1
      in numberValid1)"

definition LocalRouteSection_RuleForm_submit ::
    "string \<Rightarrow> LocalRouteRule option \<Rightarrow> string list \<Rightarrow> text_input \<Rightarrow> LocalRouteFormValues \<Rightarrow> (ConfigOp \<times> string) list" where
  "LocalRouteSection_RuleForm_submit family rule existingNumbers ruleNumber values =
     (if \<not> LocalRouteSection_RuleForm_canSubmit rule existingNumbers ruleNumber then []
      else (let ops = localRouteFormToOps family ruleNumber rule values
            in map (\<lambda>op1. (op1, change_label op1)) ops))"

definition LocalRouteSection_RuleForm_values :: "LocalRouteRule option \<Rightarrow> LocalRouteFormValues" where
  "LocalRouteSection_RuleForm_values rule =
     (case rule of
        Some rule' \<Rightarrow> localRouteToFormValues rule'
      | None \<Rightarrow> blankLocalRouteFormValues)"

text \<open>\<open>components/policy/PolicyListSection.tsx\<close>\<close>

definition PolicyListSection_valid ::
    "PolicyList list \<Rightarrow> text_input \<Rightarrow> text_input \<Rightarrow> bool" where
  "PolicyListSection_valid lists1 name description =
     (let trimmedName = js_trim name;
          taken = list_ex (\<lambda>l. pl_name l = trimmedName) lists1
      in (trimmedName \<noteq> '''' \<and> \<not> taken) \<and> js_trim description \<noteq> '''')"

definition PolicyListSection_submitCreate ::
    "string \<Rightarrow> PolicyList list \<Rightarrow> text_input \<Rightarrow> text_input \<Rightarrow> text_input \<Rightarrow> text_input \<Rightarrow> (ConfigOp \<times> string) list" where
  "PolicyListSection_submitCreate kind lists1 name description firstRuleRegex firstRuleAction =
     (let trimmedName = js_trim name
      in (if \<not> PolicyListSection_valid lists1 name description then []
          else (let values = \<lparr>plv_description = description\<rparr>;
                    ops = policyListFormToOps kind trimmedName None values
                in map (\<lambda>op1. (op1, change_label op1)) ops
                   @ (if js_trim firstRuleRegex \<noteq> ''''
                      then (let ruleOps1 = policyListRuleFormToOps kind trimmedName ''10'' None
                                    \<lparr>prv_action = firstRuleAction,
                                        prv_description = prv_description blankPolicyListRuleFormValues,
                                        prv_regex = js_trim firstRuleRegex\<rparr>
                            in map (\<lambda>op1. (op1, change_label op1)) ruleOps1)
                      else []))))"

definition PolicyListSection_queueDelete :: "string \<Rightarrow> string \<Rightarrow> (ConfigOp \<times> string) list" where
  "PolicyListSection_queueDelete kind listName =
     (let op1 = deletePolicyListOp kind listName
      in [(op1, ''delete '' @ js_join '' '' (co_path op1))])"

definition PolicyListSection_RulesSection_valid ::
    "PolicyList \<Rightarrow> text_input \<Rightarrow> PolicyListRuleFormValues \<Rightarrow> bool" where
  "PolicyListSection_RulesSection_valid xs ruleNumber values =
     (let existingNumbers = map (\<lambda>r. plr_number r) (pl_rules xs);
          numberTaken1 = ruleNumber \<in> set existingNumbers;
          numberValid1 = rule_number_re ruleNumber \<and> \<not> numberTaken1
      in numberValid1 \<and> js_trim (prv_regex values) \<noteq> '''')"

definition PolicyListSection_RulesSection_submit ::
    "string \<Rightarrow> PolicyList \<Rightarrow> text_input \<Rightarrow> PolicyListRuleFormValues \<Rightarrow> (ConfigOp \<times> string) list" where
  "PolicyListSection_RulesSection_submit kind xs ruleNumber values =
     (if \<not> PolicyListSection_RulesSection_valid xs ruleNumber values then []
      else (let ops = policyListRuleFormToOps kind (pl_name xs) ruleNumber None values
            in map (\<lambda>op1. (op1, change_label op1)) ops))"

definition PolicyListSection_RulesSection_values :: PolicyListRuleFormValues where
  "PolicyListSection_RulesSection_values = blankPolicyListRuleFormValues"

definition PolicyListSection_RulesSection_queueRemove ::
    "string \<Rightarrow> PolicyList \<Rightarrow> string \<Rightarrow> (ConfigOp \<times> string) list" where
  "PolicyListSection_RulesSection_queueRemove kind xs ruleNum =
     (let op1 = deletePolicyListRuleOp kind (pl_name xs) ruleNum
      in [(op1, ''delete '' @ js_join '' '' (co_path op1))])"

text \<open>\<open>components/policy/PrefixListSection.tsx\<close>\<close>

definition PrefixListSection_valid ::
    "PrefixList list \<Rightarrow> text_input \<Rightarrow> text_input \<Rightarrow> bool" where
  "PrefixListSection_valid lists1 name description =
     (let trimmedName = js_trim name;
          taken = list_ex (\<lambda>l. xl_name l = trimmedName) lists1
      in (trimmedName \<noteq> '''' \<and> \<not> taken) \<and> js_trim description \<noteq> '''')"

definition PrefixListSection_submitCreate ::
    "string \<Rightarrow> PrefixList list \<Rightarrow> text_input \<Rightarrow> text_input \<Rightarrow> text_input \<Rightarrow> text_input \<Rightarrow> (ConfigOp \<times> string) list" where
  "PrefixListSection_submitCreate family lists1 name description firstRulePrefix firstRuleAction =
     (let trimmedName = js_trim name
      in (if \<not> PrefixListSection_valid lists1 name description then []
          else (let values = \<lparr>xlv_description = description\<rparr>;
                    ops = prefixListFormToOps family trimmedName None values
                in map (\<lambda>op1. (op1, change_label op1)) ops
                   @ (if js_trim firstRulePrefix \<noteq> ''''
                      then (let ruleOps1 = prefixListRuleFormToOps family trimmedName ''10'' None
                                    (blankPrefixListRuleFormValues\<lparr>xrv_action := firstRuleAction,
                                         xrv_prefix := js_trim firstRulePrefix\<rparr>)
                            in map (\<lambda>op1. (op1, change_label op1)) ruleOps1)
                      else []))))"

definition PrefixListSection_queueDelete :: "string \<Rightarrow> string \<Rightarrow> (ConfigOp \<times> string) list" where
  "PrefixListSection_queueDelete family listName =
     (let op1 = deletePrefixListOp family listName
      in [(op1, ''delete '' @ js_join '' '' (co_path op1))])"

definition PrefixListSection_RulesSection_valid ::
    "PrefixList \<Rightarrow> text_input \<Rightarrow> PrefixListRuleFormValues \<Rightarrow> bool" where
  "PrefixListSection_RulesSection_valid xs ruleNumber values =
     (let existingNumbers = map (\<lambda>r. xlr_number r) (xl_rules xs);
          numberTaken1 = ruleNumber \<in> set existingNumbers;
          numberValid1 = rule_number_re ruleNumber \<and> \<not> numberTaken1
      in numberValid1 \<and> js_trim (xrv_prefix values) \<noteq> '''')"

definition PrefixListSection_RulesSection_submit ::
    "string \<Rightarrow> PrefixList \<Rightarrow> text_input \<Rightarrow> PrefixListRuleFormValues \<Rightarrow> (ConfigOp \<times> string) list" where
  "PrefixListSection_RulesSection_submit family xs ruleNumber values =
     (if \<not> PrefixListSection_RulesSection_valid xs ruleNumber values then []
      else (let ops = prefixListRuleFormToOps family (xl_name xs) ruleNumber None values
            in map (\<lambda>op1. (op1, change_label op1)) ops))"

definition PrefixListSection_RulesSection_values :: PrefixListRuleFormValues where
  "PrefixListSection_RulesSection_values = blankPrefixListRuleFormValues"

definition PrefixListSection_RulesSection_queueRemove ::
    "string \<Rightarrow> PrefixList \<Rightarrow> string \<Rightarrow> (ConfigOp \<times> string) list" where
  "PrefixListSection_RulesSection_queueRemove family xs ruleNum =
     (let op1 = deletePrefixListRuleOp family (xl_name xs) ruleNum
      in [(op1, ''delete '' @ js_join '' '' (co_path op1))])"

text \<open>\<open>components/policy/RouteMapRuleForm.tsx\<close>\<close>

definition RouteMapRuleForm_canSubmit ::
    "RouteMapRule option \<Rightarrow> string list \<Rightarrow> text_input \<Rightarrow> bool" where
  "RouteMapRuleForm_canSubmit rule existingNumbers ruleNumber =
     (let numberTaken1 = rule = None \<and> ruleNumber \<in> set existingNumbers;
          numberValid1 = rule_number_re ruleNumber \<and> \<not> numberTaken1
      in numberValid1)"

definition RouteMapRuleForm_submit ::
    "string \<Rightarrow> RouteMapRule option \<Rightarrow> string list \<Rightarrow> text_input \<Rightarrow> RouteMapRuleFormValues \<Rightarrow> (ConfigOp \<times> string) list" where
  "RouteMapRuleForm_submit mapName rule existingNumbers ruleNumber values =
     (if \<not> RouteMapRuleForm_canSubmit rule existingNumbers ruleNumber then []
      else (let ops = routeMapRuleFormToOps mapName ruleNumber rule values
            in map (\<lambda>op1. (op1, change_label op1)) ops))"

definition RouteMapRuleForm_values :: "RouteMapRule option \<Rightarrow> RouteMapRuleFormValues" where
  "RouteMapRuleForm_values rule =
     (case rule of
        Some rule' \<Rightarrow> routeMapRuleToFormValues rule'
      | None \<Rightarrow> blankRouteMapRuleFormValues)"

text \<open>\<open>components/policy/RouteMapSection.tsx\<close>\<close>

definition RouteMapSection_valid :: "RouteMap list \<Rightarrow> text_input \<Rightarrow> bool" where
  "RouteMapSection_valid routeMaps name =
     (let trimmedName = js_trim name;
          taken = list_ex (\<lambda>m. rm_name m = trimmedName) routeMaps
      in trimmedName \<noteq> '''' \<and> \<not> taken)"

definition RouteMapSection_queueDelete :: "string \<Rightarrow> (ConfigOp \<times> string) list" where
  "RouteMapSection_queueDelete mapName =
     (let op1 = deleteRouteMapOp mapName in [(op1, ''delete '' @ js_join '' '' (co_path op1))])"

definition RouteMapSection_RulesSection_queueDelete ::
    "RouteMap \<Rightarrow> string \<Rightarrow> (ConfigOp \<times> string) list" where
  "RouteMapSection_RulesSection_queueDelete mp ruleNumber =
     (let op1 = deleteRouteMapRuleOp (rm_name mp) ruleNumber
      in [(op1, ''delete '' @ js_join '' '' (co_path op1))])"

text \<open>\<open>components/routing/StaticRouteCard.tsx\<close>\<close>

definition StaticRouteCard_queueDeleteRoute :: "StaticRoute \<Rightarrow> (ConfigOp \<times> string) list" where
  "StaticRouteCard_queueDeleteRoute route =
     (let basePath = staticRoutePath (sr_family route) (sr_destination route) [];
          chain = (if sr_family route = ''ipv6'' then ''route6'' else ''route'');
          pathLabel = ''protocols static '' @ chain @ '' '' @ sr_destination route
      in [(delete_op basePath, ''delete '' @ pathLabel)])"

record ViaEntry =
  ve_key :: string
  ve_disabled :: bool
  ve_distance :: "string option"

definition StaticRouteCard_ViaSection_queueRemove ::
    "string \<Rightarrow> string list \<Rightarrow> string \<Rightarrow> string \<Rightarrow> (ConfigOp \<times> string) list" where
  "StaticRouteCard_ViaSection_queueRemove leaf basePath pathLabel key =
     [(delete_op (basePath @ [leaf, key]), ''delete '' @ pathLabel @ '' '' @ leaf @ '' '' @ key)]"

definition StaticRouteCard_ViaSection_queueToggleDisabled ::
    "string \<Rightarrow> string list \<Rightarrow> string \<Rightarrow> string \<Rightarrow> bool \<Rightarrow> (ConfigOp \<times> string) list" where
  "StaticRouteCard_ViaSection_queueToggleDisabled leaf basePath pathLabel key disabled =
     (let p = basePath @ [leaf, key, ''disable'']
      in [(if disabled then delete_op p
           else set_flag p, (if disabled then ''delete'' else ''set'') @ '' '' @ pathLabel @ '' ''
                @ leaf @ '' '' @ key @ '' disable'')])"

definition StaticRouteCard_AddViaForm_valid :: "string list \<Rightarrow> text_input \<Rightarrow> bool" where
  "StaticRouteCard_AddViaForm_valid existingKeys key =
     (let trimmedKey = js_trim key
      in trimmedKey \<noteq> '''' \<and> \<not> (trimmedKey \<in> set existingKeys))"

definition StaticRouteCard_AddViaForm_submit ::
    "string \<Rightarrow> string list \<Rightarrow> string list \<Rightarrow> string \<Rightarrow> text_input \<Rightarrow> text_input \<Rightarrow> (ConfigOp \<times> string) list" where
  "StaticRouteCard_AddViaForm_submit leaf existingKeys basePath pathLabel key distance =
     (let trimmedKey = js_trim key
      in (if \<not> StaticRouteCard_AddViaForm_valid existingKeys key then []
          else (let entryPath = basePath @ [leaf, trimmedKey];
                    trimmedDistance = js_trim distance
                in [(set_flag entryPath, ''set '' @ pathLabel @ '' '' @ leaf @ '' '' @ trimmedKey)]
                   @ (if trimmedDistance \<noteq> ''''
                      then [(set_op (entryPath @ [''distance'']) trimmedDistance, ''set ''
                             @ pathLabel @ '' '' @ leaf @ '' ''
                             @ trimmedKey @ '' distance ''
                             @ quoted trimmedDistance)]
                      else []))))"

definition StaticRouteCard_RejectOrBlackholeSection_queueEnable ::
    "string \<Rightarrow> string list \<Rightarrow> string \<Rightarrow> text_input \<Rightarrow> text_input \<Rightarrow> (ConfigOp \<times> string) list" where
  "StaticRouteCard_RejectOrBlackholeSection_queueEnable kind basePath pathLabel distance tag =
     (let p = basePath @ [kind];
          trimmedDistance = js_trim distance;
          trimmedTag = js_trim tag
      in [(set_flag p, ''set '' @ pathLabel @ '' '' @ kind)]
         @ (if trimmedDistance \<noteq> ''''
            then [(set_op (p @ [''distance'']) trimmedDistance, ''set '' @ pathLabel @ '' '' @ kind
                   @ '' distance ''
                   @ quoted trimmedDistance)]
            else [])
         @ (if trimmedTag \<noteq> ''''
            then [(set_op (p @ [''tag'']) trimmedTag, ''set '' @ pathLabel @ '' '' @ kind
                   @ '' tag '' @ quoted trimmedTag)]
            else []))"

definition StaticRouteCard_RejectOrBlackholeSection_queueRemove ::
    "string \<Rightarrow> string list \<Rightarrow> string \<Rightarrow> (ConfigOp \<times> string) list" where
  "StaticRouteCard_RejectOrBlackholeSection_queueRemove kind basePath pathLabel =
     [(delete_op (basePath @ [kind]), ''delete '' @ pathLabel @ '' '' @ kind)]"

text \<open>\<open>pages/routing/StaticRoutesPage.tsx\<close>\<close>

definition StaticRoutesPage_CreateRouteForm_valid ::
    "string list \<Rightarrow> text_input \<Rightarrow> text_input \<Rightarrow> text_input \<Rightarrow> text_input \<Rightarrow> bool" where
  "StaticRoutesPage_CreateRouteForm_valid existingDestinations family destination viaKind viaValue =
     (let trimmedDestination = js_trim destination;
          destinationValid = (if family = ''ipv4'' then cidr_re trimmedDestination
             else cidr6_re trimmedDestination);
          destinationTaken = family @ '' '' @ trimmedDestination \<in> set existingDestinations;
          needsViaValue = (viaKind = ''next-hop'' \<or> viaKind = ''interface'')
            \<or> viaKind = ''dhcp-interface''
      in (destinationValid \<and> \<not> destinationTaken)
         \<and> (\<not> needsViaValue \<or> js_trim viaValue \<noteq> ''''))"

definition StaticRoutesPage_CreateRouteForm_submit ::
    "string list \<Rightarrow> text_input \<Rightarrow> text_input \<Rightarrow> text_input \<Rightarrow> text_input \<Rightarrow> text_input \<Rightarrow> text_input \<Rightarrow> (ConfigOp \<times> string) list" where
  "StaticRoutesPage_CreateRouteForm_submit existingDestinations family destination viaKind viaValue distance tag =
     (let trimmedDestination = js_trim destination
      in (if \<not> StaticRoutesPage_CreateRouteForm_valid existingDestinations family destination
               viaKind viaValue
          then []
          else (let base = staticRoutePath family trimmedDestination [];
                    chain = (if family = ''ipv6'' then ''route6'' else ''route'');
                    pathLabel = ''protocols static '' @ chain @ '' '' @ trimmedDestination;
                    trimmedDistance = js_trim distance;
                    trimmedTag = js_trim tag
                in (if viaKind = ''dhcp-interface''
                    then [(set_op (base @ [''dhcp-interface'']) (js_trim viaValue), ''set ''
                           @ pathLabel
                           @ '' dhcp-interface ''
                           @ quoted (js_trim viaValue))]
                    else (if viaKind = ''reject'' \<or> viaKind = ''blackhole''
                          then (let viaPath = base @ [viaKind]
                                in [(set_flag viaPath, ''set '' @ pathLabel @ '' '' @ viaKind)]
                                   @ (if trimmedDistance \<noteq> ''''
                                      then [(set_op (viaPath @ [''distance'']) trimmedDistance,
                                               ''set ''
                                             @ pathLabel
                                             @ '' ''
                                             @ viaKind
                                             @ '' distance ''
                                             @ quoted trimmedDistance)]
                                      else [])
                                   @ (if trimmedTag \<noteq> ''''
                                      then [(set_op (viaPath @ [''tag'']) trimmedTag, ''set ''
                                             @ pathLabel
                                             @ '' ''
                                             @ viaKind
                                             @ '' tag ''
                                             @ quoted trimmedTag)]
                                      else []))
                          else (let entryPath = base @ [viaKind, js_trim viaValue]
                                in [(set_flag entryPath, ''set '' @ pathLabel @ '' '' @ viaKind
                                     @ '' '' @ js_trim viaValue)]
                                   @ (if trimmedDistance \<noteq> ''''
                                      then [(set_op (entryPath @ [''distance'']) trimmedDistance,
                                               ''set ''
                                             @ pathLabel
                                             @ '' ''
                                             @ viaKind
                                             @ '' ''
                                             @ js_trim viaValue
                                             @ '' distance ''
                                             @ quoted trimmedDistance)]
                                      else [])))))))"

subsection \<open>What the editors queue\<close>

inductive routing_editor :: "string \<Rightarrow> (ConfigOp \<times> string) list \<Rightarrow> bool" where
  "routing_editor ''protocols'' (BGPGlobalSettings_submit bgp values)"
| "routing_editor ''protocols'' (BGPNetworksAndRedistribution_NetworksSection_submit networks family pfx)"
| "routing_editor ''protocols'' (BGPNetworksAndRedistribution_NetworksSection_queueRemove n)"
| "routing_editor ''protocols'' (BGPNetworksAndRedistribution_RedistributionSection_submit redistributions family source metric)"
| "routing_editor ''protocols'' (BGPNetworksAndRedistribution_RedistributionSection_queueRemove r)"
| "routing_editor ''protocols'' (BGPPeerForm_submit kind peer existingIdentifiers ident values)"
| "routing_editor ''protocols'' (BGPPeerForm_queueRemovePassword kind peer)"
| "routing_editor ''protocols'' (BGPPeerList_queueDelete kind ident)"
| "routing_editor ''protocols'' (OSPFAreaForm_submit protocol area existingIds i values firstNetwork firstRangePrefix)"
| "routing_editor ''protocols'' (OSPFAreaList_queueDelete protocol areaId)"
| "routing_editor ''protocols'' (OSPFAreaList_RangesSection_submit protocol area pfx notAdvertise cost substitute)"
| "routing_editor ''protocols'' (OSPFAreaList_RangesSection_queueRemove protocol area rangePrefix)"
| "routing_editor ''protocols'' (OSPFGlobalSettings_submit protocol settings values)"
| "routing_editor ''protocols'' (OSPFInterfaceForm_submit protocol iface existingNames name values)"
| "routing_editor ''protocols'' (OSPFInterfaceForm_queueClearAuthentication protocol iface)"
| "routing_editor ''protocols'' (OSPFInterfaceList_queueDelete protocol name)"
| "routing_editor ''protocols'' (OSPFRedistribution_submit protocol redistributions source metric metricType)"
| "routing_editor ''protocols'' (OSPFRedistribution_queueRemove protocol r)"
| "routing_editor ''policy'' (LocalRouteSection_queueDelete family ruleNumber)"
| "routing_editor ''policy'' (LocalRouteSection_RuleForm_submit family rule existingNumbers ruleNumber values)"
| "routing_editor ''policy'' (PolicyListSection_submitCreate kind lists1 name description firstRuleRegex firstRuleAction)"
| "routing_editor ''policy'' (PolicyListSection_queueDelete kind listName)"
| "routing_editor ''policy'' (PolicyListSection_RulesSection_submit kind xs ruleNumber values)"
| "routing_editor ''policy'' (PolicyListSection_RulesSection_queueRemove kind xs ruleNum)"
| "routing_editor ''policy'' (PrefixListSection_submitCreate family lists1 name description firstRulePrefix firstRuleAction)"
| "routing_editor ''policy'' (PrefixListSection_queueDelete family listName)"
| "routing_editor ''policy'' (PrefixListSection_RulesSection_submit family xs ruleNumber values)"
| "routing_editor ''policy'' (PrefixListSection_RulesSection_queueRemove family xs ruleNum)"
| "routing_editor ''policy'' (RouteMapRuleForm_submit mapName rule existingNumbers ruleNumber values)"
| "routing_editor ''policy'' (RouteMapSection_queueDelete mapName)"
| "routing_editor ''policy'' (RouteMapSection_RulesSection_queueDelete mp ruleNumber)"
| "routing_editor ''protocols'' (StaticRouteCard_queueDeleteRoute route)"
| "prefix [sec] basePath \<Longrightarrow> routing_editor sec (StaticRouteCard_ViaSection_queueRemove leaf basePath pathLabel key)"
| "prefix [sec] basePath \<Longrightarrow> routing_editor sec (StaticRouteCard_ViaSection_queueToggleDisabled leaf basePath pathLabel key disabled)"
| "prefix [sec] basePath \<Longrightarrow> routing_editor sec (StaticRouteCard_AddViaForm_submit leaf existingKeys basePath pathLabel key distance)"
| "prefix [sec] basePath \<Longrightarrow> routing_editor sec (StaticRouteCard_RejectOrBlackholeSection_queueEnable kind basePath pathLabel distance tag)"
| "prefix [sec] basePath \<Longrightarrow> routing_editor sec (StaticRouteCard_RejectOrBlackholeSection_queueRemove kind basePath pathLabel)"
| "routing_editor ''protocols'' (StaticRoutesPage_CreateRouteForm_submit existingDestinations family destination viaKind viaValue distance tag)"

lemmas routing_editor_defs =
  BGPGlobalSettings_submit_def globalFormToOps_bgp_def bgpPath_def
  BGPNetworksAndRedistribution_NetworksSection_submit_def
  BGPNetworksAndRedistribution_NetworksSection_valid_def addNetworkOp_def bgpAddressFamilyPath_def
  BGPNetworksAndRedistribution_NetworksSection_queueRemove_def removeNetworkOp_def
  BGPNetworksAndRedistribution_RedistributionSection_submit_def addRedistributionOps_def
  BGPNetworksAndRedistribution_RedistributionSection_queueRemove_def removeRedistributionOp_def
  BGPPeerForm_submit_def BGPPeerForm_canSubmit_def peerFormToOps_def password_ops_def
  bgpPeerPath_def BGPPeerForm_queueRemovePassword_def BGPPeerList_queueDelete_def
  OSPFAreaForm_submit_def ospfAreaPath_def ospfPath_def OSPFAreaForm_canSubmit_def
  addAreaRangeOps_def areaFormToOps_def area_type_ops_def OSPFAreaList_queueDelete_def
  deleteAreaOp_def OSPFAreaList_RangesSection_submit_def OSPFAreaList_RangesSection_valid_def
  OSPFAreaList_RangesSection_queueRemove_def removeAreaRangeOp_def OSPFGlobalSettings_submit_def
  globalFormToOps_ospf_def OSPFInterfaceForm_submit_def interfaceFormToOps_def
  ospfInterfacePath_def auth_ops_def OSPFInterfaceForm_canSubmit_def
  OSPFInterfaceForm_queueClearAuthentication_def OSPFInterfaceList_queueDelete_def
  deleteInterfaceOp_def OSPFRedistribution_submit_def addRedistributionOps_ospf_def
  OSPFRedistribution_queueRemove_def removeRedistributionOp_ospf_def
  LocalRouteSection_queueDelete_def deleteLocalRouteOp_def localRouteRulePath_def
  localRoutePath_def LocalRouteSection_RuleForm_submit_def
  LocalRouteSection_RuleForm_canSubmit_def localRouteFormToOps_def
  PolicyListSection_submitCreate_def PolicyListSection_valid_def policyListFormToOps_def
  policyListPath_def policyListRuleFormToOps_def policyListRulePath_def
  PolicyListSection_queueDelete_def deletePolicyListOp_def
  PolicyListSection_RulesSection_submit_def PolicyListSection_RulesSection_valid_def
  PolicyListSection_RulesSection_queueRemove_def deletePolicyListRuleOp_def
  PrefixListSection_submitCreate_def prefixListRuleFormToOps_def prefixListRulePath_def
  prefixListPath_def PrefixListSection_valid_def prefixListFormToOps_def
  PrefixListSection_queueDelete_def deletePrefixListOp_def
  PrefixListSection_RulesSection_submit_def PrefixListSection_RulesSection_valid_def
  PrefixListSection_RulesSection_queueRemove_def deletePrefixListRuleOp_def
  RouteMapRuleForm_submit_def routeMapRuleFormToOps_def routeMapRulePath_def routeMapPath_def
  RouteMapRuleForm_canSubmit_def RouteMapSection_queueDelete_def deleteRouteMapOp_def
  RouteMapSection_RulesSection_queueDelete_def deleteRouteMapRuleOp_def
  StaticRouteCard_queueDeleteRoute_def staticRoutePath_def
  StaticRouteCard_ViaSection_queueRemove_def StaticRouteCard_ViaSection_queueToggleDisabled_def
  StaticRouteCard_AddViaForm_submit_def StaticRouteCard_AddViaForm_valid_def
  StaticRouteCard_RejectOrBlackholeSection_queueEnable_def
  StaticRouteCard_RejectOrBlackholeSection_queueRemove_def
  StaticRoutesPage_CreateRouteForm_submit_def StaticRoutesPage_CreateRouteForm_valid_def

lemma routing_editor_ok: "routing_editor sec adds \<Longrightarrow> ops_ok [sec] (map fst adds)"
  by (induction rule: routing_editor.induct)
    (auto simp: routing_editor_defs Let_def ok_rules o_def case_prod_beta split: option.splits if_splits)

inductive routing_untouched :: "(ConfigOp \<times> string) list \<Rightarrow> bool" where
  "routing_untouched (BGPGlobalSettings_submit bgp (BGPGlobalSettings_values bgp))"
| "routing_untouched (BGPPeerForm_submit kind (Some peer) existingIdentifiers ident (BGPPeerForm_values (Some peer)))"
| "routing_untouched (OSPFGlobalSettings_submit protocol settings (OSPFGlobalSettings_values settings))"
| "routing_untouched (LocalRouteSection_RuleForm_submit family (Some rule) existingNumbers ruleNumber (LocalRouteSection_RuleForm_values (Some rule)))"
| "routing_untouched (RouteMapRuleForm_submit mapName (Some rule) existingNumbers ruleNumber (RouteMapRuleForm_values (Some rule)))"

lemmas routing_untouched_defs =
  BGPGlobalSettings_submit_def globalFormToOps_bgp_def bgpPath_def BGPGlobalSettings_values_def
  BGPPeerForm_submit_def BGPPeerForm_canSubmit_def peerFormToOps_def password_ops_def
  bgpPeerPath_def BGPPeerForm_values_def peerToFormValues_def OSPFGlobalSettings_submit_def
  globalFormToOps_ospf_def ospfPath_def OSPFGlobalSettings_values_def
  LocalRouteSection_RuleForm_submit_def LocalRouteSection_RuleForm_canSubmit_def
  localRouteFormToOps_def localRouteRulePath_def localRoutePath_def
  LocalRouteSection_RuleForm_values_def RouteMapRuleForm_submit_def routeMapRuleFormToOps_def
  routeMapRulePath_def routeMapPath_def RouteMapRuleForm_canSubmit_def RouteMapRuleForm_values_def

lemma routing_untouched_nothing: "routing_untouched adds \<Longrightarrow> adds = []"
  by (induction rule: routing_untouched.induct)
    (auto simp: routing_untouched_defs Let_def same_rules case_prod_beta split: option.splits if_splits)

inductive routing_creates :: "string \<Rightarrow> string list \<Rightarrow> (ConfigOp \<times> string) list \<Rightarrow> bool" where
  "routing_creates (js_trim ident) existingIdentifiers (BGPPeerForm_submit kind None existingIdentifiers ident values)"
| "routing_creates (js_trim name) existingNames (OSPFInterfaceForm_submit protocol None existingNames name values)"
| "routing_creates ruleNumber existingNumbers (LocalRouteSection_RuleForm_submit family None existingNumbers ruleNumber values)"
| "routing_creates ruleNumber existingNumbers (RouteMapRuleForm_submit mapName None existingNumbers ruleNumber values)"
| "routing_creates (js_trim key) existingKeys (StaticRouteCard_AddViaForm_submit leaf existingKeys basePath pathLabel key distance)"

lemmas routing_creates_defs =
  BGPPeerForm_submit_def BGPPeerForm_canSubmit_def OSPFInterfaceForm_submit_def
  OSPFInterfaceForm_canSubmit_def LocalRouteSection_RuleForm_submit_def
  LocalRouteSection_RuleForm_canSubmit_def RouteMapRuleForm_submit_def
  RouteMapRuleForm_canSubmit_def StaticRouteCard_AddViaForm_submit_def
  StaticRouteCard_AddViaForm_valid_def

lemma routing_creates_new: "routing_creates n existing adds \<Longrightarrow> adds = [] \<or> n \<noteq> '''' \<and> n \<notin> set existing"
  by (induction rule: routing_creates.induct) (auto simp: routing_creates_defs Let_def rule_number_re_def no_blank)

end
