(* ===== verification/UiServices.thy ===== *)
theory UiServices
  imports Handlers ServiceDns ServiceManagement ServiceMonitor ServiceNetwork
begin

text \<open>
  The editors of the service pages: for each component the condition its button is
  enabled under, the values its form starts from, and the changes (op and label) its handlers queue.
  The arguments are the props and the state a handler reads. A handler's resets of its own input
  fields and the closing of its panel are left out; a callback prop such as \<open>onAdd\<close> is whether the
  parent passes one.
\<close>

text \<open>\<open>components/service/BroadcastRelayList.tsx\<close>\<close>

definition BroadcastRelayList_onClick :: "(ConfigOp \<times> string) list" where
  "BroadcastRelayList_onClick =
     (let op1 = enableBroadcastRelayOp in [(op1, ''set '' @ js_join '' '' (co_path op1))])"

definition BroadcastRelayList_BroadcastRelayEnabled_queueDelete :: "string \<Rightarrow> (ConfigOp \<times> string) list" where
  "BroadcastRelayList_BroadcastRelayEnabled_queueDelete i =
     (let op1 = deleteBroadcastRelayInstanceOp i
      in [(op1, ''delete '' @ js_join '' '' (co_path op1))])"

definition BroadcastRelayList_BroadcastRelayEnabled_queueDisable :: "(ConfigOp \<times> string) list" where
  "BroadcastRelayList_BroadcastRelayEnabled_queueDisable =
     (let op1 = disableBroadcastRelayOp in [(op1, ''delete '' @ js_join '' '' (co_path op1))])"

definition BroadcastRelayList_BroadcastRelayEnabled_toggleServiceDisable :: "BroadcastRelayConfig \<Rightarrow> (ConfigOp \<times> string) list" where
  "BroadcastRelayList_BroadcastRelayEnabled_toggleServiceDisable config =
     (let op1 = toggleBroadcastRelayServiceDisableOp (\<not> brc_disabled config)
      in [(op1, op_name (co_op op1) @ '' '' @ js_join '' '' (co_path op1))])"

definition BroadcastRelayList_InstanceForm_canSubmit ::
    "BroadcastRelayInstance option \<Rightarrow> string list \<Rightarrow> text_input \<Rightarrow> bool" where
  "BroadcastRelayList_InstanceForm_canSubmit instance1 existingIds i =
     (let trimmedId = js_trim i;
          idTaken = instance1 = None \<and> trimmedId \<in> set existingIds
      in trimmedId \<noteq> '''' \<and> \<not> idTaken)"

definition BroadcastRelayList_InstanceForm_submit ::
    "BroadcastRelayInstance option \<Rightarrow> string list \<Rightarrow> text_input \<Rightarrow> BroadcastRelayInstanceFormValues \<Rightarrow> (ConfigOp \<times> string) list" where
  "BroadcastRelayList_InstanceForm_submit instance1 existingIds i values =
     (let trimmedId = js_trim i
      in (if \<not> BroadcastRelayList_InstanceForm_canSubmit instance1 existingIds i then []
          else (let ops = broadcastRelayInstanceFormToOps trimmedId instance1 values
                in map (\<lambda>op1. (op1, change_label op1)) ops)))"

definition BroadcastRelayList_InstanceForm_values ::
    "BroadcastRelayInstance option \<Rightarrow> BroadcastRelayInstanceFormValues" where
  "BroadcastRelayList_InstanceForm_values instance1 =
     (case instance1 of
        Some instance1' \<Rightarrow> broadcastRelayInstanceToFormValues instance1'
      | None \<Rightarrow> blankBroadcastRelayInstanceFormValues)"

text \<open>\<open>components/service/ConsoleServerList.tsx\<close>\<close>

definition ConsoleServerList_onClick :: "(ConfigOp \<times> string) list" where
  "ConsoleServerList_onClick =
     (let op1 = enableConsoleServerOp in [(op1, ''set '' @ js_join '' '' (co_path op1))])"

definition ConsoleServerList_ConsoleServerEnabled_queueDelete :: "string \<Rightarrow> (ConfigOp \<times> string) list" where
  "ConsoleServerList_ConsoleServerEnabled_queueDelete name =
     (let op1 = deleteConsoleServerDeviceOp name
      in [(op1, ''delete '' @ js_join '' '' (co_path op1))])"

definition ConsoleServerList_ConsoleServerEnabled_queueDisable :: "(ConfigOp \<times> string) list" where
  "ConsoleServerList_ConsoleServerEnabled_queueDisable =
     (let op1 = disableConsoleServerOp in [(op1, ''delete '' @ js_join '' '' (co_path op1))])"

definition ConsoleServerList_DeviceForm_canSubmit ::
    "ConsoleServerDevice option \<Rightarrow> string list \<Rightarrow> text_input \<Rightarrow> bool" where
  "ConsoleServerList_DeviceForm_canSubmit device1 existingNames name =
     (let trimmedName = js_trim name;
          nameTaken = device1 = None \<and> trimmedName \<in> set existingNames
      in trimmedName \<noteq> '''' \<and> \<not> nameTaken)"

definition ConsoleServerList_DeviceForm_submit ::
    "ConsoleServerDevice option \<Rightarrow> string list \<Rightarrow> text_input \<Rightarrow> ConsoleServerDeviceFormValues \<Rightarrow> (ConfigOp \<times> string) list" where
  "ConsoleServerList_DeviceForm_submit device1 existingNames name values =
     (let trimmedName = js_trim name
      in (if \<not> ConsoleServerList_DeviceForm_canSubmit device1 existingNames name then []
          else (let ops = consoleServerDeviceFormToOps trimmedName device1 values
                in map (\<lambda>op1. (op1, change_label op1)) ops)))"

definition ConsoleServerList_DeviceForm_values :: "ConsoleServerDevice option \<Rightarrow> ConsoleServerDeviceFormValues" where
  "ConsoleServerList_DeviceForm_values device1 =
     (case device1 of
        Some device' \<Rightarrow> consoleServerDeviceToFormValues device'
      | None \<Rightarrow> blankConsoleServerDeviceFormValues)"

text \<open>\<open>components/service/DhcpRelaySettings.tsx\<close>\<close>

definition DhcpRelaySettings_V4Settings_save ::
    "DHCPRelayConfig \<Rightarrow> DHCPRelaySettingsFormValues \<Rightarrow> (ConfigOp \<times> string) list" where
  "DhcpRelaySettings_V4Settings_save config values =
     (let ops = dhcpRelaySettingsFormToOps config values
      in map (\<lambda>op1. (op1, change_label op1)) ops)"

definition DhcpRelaySettings_V4Settings_values :: "DHCPRelayConfig \<Rightarrow> DHCPRelaySettingsFormValues" where
  "DhcpRelaySettings_V4Settings_values config = dhcpRelayConfigToFormValues config"

definition DhcpRelaySettings_V6Settings_save ::
    "DHCPv6RelayConfig \<Rightarrow> DHCPv6RelaySettingsFormValues \<Rightarrow> (ConfigOp \<times> string) list" where
  "DhcpRelaySettings_V6Settings_save config values =
     (let ops = dhcpv6RelaySettingsFormToOps config values
      in map (\<lambda>op1. (op1, change_label op1)) ops)"

definition DhcpRelaySettings_V6Settings_values :: "DHCPv6RelayConfig \<Rightarrow> DHCPv6RelaySettingsFormValues" where
  "DhcpRelaySettings_V6Settings_values config = dhcpv6RelayConfigToFormValues config"

definition DhcpRelaySettings_ListenInterfaces_valid :: "DHCPv6RelayConfig \<Rightarrow> text_input \<Rightarrow> bool" where
  "DhcpRelaySettings_ListenInterfaces_valid config interfaceName =
     (let trm = js_trim interfaceName;
          taken = list_ex (\<lambda>i. dhcprli_interfaceName i = trm)
              (sndhcprc_listenInterfaces config)
      in trm \<noteq> '''' \<and> \<not> taken)"

definition DhcpRelaySettings_ListenInterfaces_submit ::
    "DHCPv6RelayConfig \<Rightarrow> text_input \<Rightarrow> text_input \<Rightarrow> (ConfigOp \<times> string) list" where
  "DhcpRelaySettings_ListenInterfaces_submit config interfaceName address =
     (let trm = js_trim interfaceName
      in (if \<not> DhcpRelaySettings_ListenInterfaces_valid config interfaceName then []
          else (let ops = addDHCPv6RelayListenInterfaceOps trm address
                in map (\<lambda>op1. (op1, change_label op1)) ops)))"

definition DhcpRelaySettings_ListenInterfaces_onClick :: "DHCPv6RelayListenInterface \<Rightarrow> (ConfigOp \<times> string) list" where
  "DhcpRelaySettings_ListenInterfaces_onClick li =
     (let op1 = removeDHCPv6RelayListenInterfaceOp (dhcprli_interfaceName li)
      in [(op1, ''delete '' @ js_join '' '' (co_path op1))])"

definition DhcpRelaySettings_UpstreamInterfaces_valid :: "DHCPv6RelayConfig \<Rightarrow> text_input \<Rightarrow> bool" where
  "DhcpRelaySettings_UpstreamInterfaces_valid config interfaceName =
     (let trm = js_trim interfaceName;
          taken = list_ex (\<lambda>i. dhcprui_interfaceName i = trm)
              (sndhcprc_upstreamInterfaces config)
      in trm \<noteq> '''' \<and> \<not> taken)"

definition DhcpRelaySettings_UpstreamInterfaces_submit ::
    "DHCPv6RelayConfig \<Rightarrow> text_input \<Rightarrow> (ConfigOp \<times> string) list" where
  "DhcpRelaySettings_UpstreamInterfaces_submit config interfaceName =
     (let trm = js_trim interfaceName
      in (if \<not> DhcpRelaySettings_UpstreamInterfaces_valid config interfaceName then []
          else (let op1 = addDHCPv6RelayUpstreamInterfaceOp trm
                in [(op1, ''set '' @ js_join '' '' (co_path op1))])))"

definition DhcpRelaySettings_UpstreamInterfaces_onClick :: "DHCPv6RelayUpstreamInterface \<Rightarrow> (ConfigOp \<times> string) list" where
  "DhcpRelaySettings_UpstreamInterfaces_onClick ui =
     (let op1 = removeDHCPv6RelayUpstreamInterfaceOp (dhcprui_interfaceName ui)
      in [(op1, ''delete '' @ js_join '' '' (co_path op1))])"

text \<open>\<open>components/service/Dhcpv6ServerSettings.tsx\<close>\<close>

definition Dhcpv6ServerSettings_onClick :: "(ConfigOp \<times> string) list" where
  "Dhcpv6ServerSettings_onClick =
     (let op1 = enableDHCPv6ServerOp in [(op1, ''set '' @ js_join '' '' (co_path op1))])"

definition Dhcpv6ServerSettings_Dhcpv6ServerSettingsForm_save ::
    "DHCPv6ServerConfig \<Rightarrow> DHCPv6GlobalFormValues \<Rightarrow> (ConfigOp \<times> string) list" where
  "Dhcpv6ServerSettings_Dhcpv6ServerSettingsForm_save config values =
     (let ops = dhcpv6GlobalFormToOps config values
      in map (\<lambda>op1. (op1, change_label op1)) ops)"

definition Dhcpv6ServerSettings_Dhcpv6ServerSettingsForm_values :: "DHCPv6ServerConfig \<Rightarrow> DHCPv6GlobalFormValues" where
  "Dhcpv6ServerSettings_Dhcpv6ServerSettingsForm_values config =
     dhcpv6ConfigToGlobalFormValues config"

definition Dhcpv6ServerSettings_Dhcpv6ServerSettingsForm_queueDisable :: "(ConfigOp \<times> string) list" where
  "Dhcpv6ServerSettings_Dhcpv6ServerSettingsForm_queueDisable =
     (let op1 = disableDHCPv6ServerOp in [(op1, ''delete '' @ js_join '' '' (co_path op1))])"

definition Dhcpv6ServerSettings_SharedNetworkList_queueDelete :: "string \<Rightarrow> (ConfigOp \<times> string) list" where
  "Dhcpv6ServerSettings_SharedNetworkList_queueDelete name =
     (let op1 = deleteDHCPv6SharedNetworkOp name
      in [(op1, ''delete '' @ js_join '' '' (co_path op1))])"

definition Dhcpv6ServerSettings_SharedNetworkForm_canSubmit ::
    "DHCPv6SharedNetwork option \<Rightarrow> string list \<Rightarrow> text_input \<Rightarrow> bool" where
  "Dhcpv6ServerSettings_SharedNetworkForm_canSubmit network existingNames name =
     (let trimmedName = js_trim name;
          nameTaken = network = None \<and> trimmedName \<in> set existingNames
      in trimmedName \<noteq> '''' \<and> \<not> nameTaken)"

definition Dhcpv6ServerSettings_SharedNetworkForm_submit ::
    "DHCPv6SharedNetwork option \<Rightarrow> string list \<Rightarrow> text_input \<Rightarrow> DHCPv6SharedNetworkFormValues \<Rightarrow> text_input \<Rightarrow> text_input \<Rightarrow> text_input \<Rightarrow> text_input \<Rightarrow> (ConfigOp \<times> string) list" where
  "Dhcpv6ServerSettings_SharedNetworkForm_submit network existingNames name values firstSubnetCidr firstSubnetId firstRangeStart firstRangeStop =
     (let trimmedName = js_trim name
      in (if \<not> Dhcpv6ServerSettings_SharedNetworkForm_canSubmit network existingNames name
          then []
          else (let ops = dhcpv6SharedNetworkFormToOps trimmedName network values;
                    trimmedCidr = js_trim firstSubnetCidr
                in map (\<lambda>op1. (op1, change_label op1)) ops
                   @ (if network = None \<and> trimmedCidr \<noteq> ''''
                      then (let subnetId = js_trim firstSubnetId
                            in (if subnetId \<noteq> ''''
                                then [(set_op
                                         (dhcpv6SharedNetworkPath trimmedName []
                                            @ [''subnet'', trimmedCidr, ''subnet-id'']) subnetId,
                                         ''set ... subnet ''
                                       @ trimmedCidr
                                       @ '' subnet-id ''
                                       @ quoted subnetId)]
                                else [])
                               @ (if js_trim firstRangeStart \<noteq> ''''
                                     \<and> js_trim firstRangeStop \<noteq> ''''
                                  then (let rangeBase = dhcpv6RangePath trimmedName trimmedCidr
                                                ''0'' []
                                        in [(set_flag rangeBase, ''set ... range 0'')]
                                           @ [(set_op (rangeBase @ [''start''])
                                                 (js_trim firstRangeStart),
                                                 ''set ... range 0 start ''
                                               @ quoted (js_trim firstRangeStart))]
                                           @ [(set_op (rangeBase @ [''stop''])
                                                 (js_trim firstRangeStop), ''set ... range 0 stop ''
                                               @ quoted (js_trim firstRangeStop))])
                                  else []))
                      else []))))"

definition Dhcpv6ServerSettings_SharedNetworkForm_values :: "DHCPv6SharedNetwork option \<Rightarrow> DHCPv6SharedNetworkFormValues" where
  "Dhcpv6ServerSettings_SharedNetworkForm_values network =
     (case network of
        Some network' \<Rightarrow> dhcpv6SharedNetworkToFormValues network'
      | None \<Rightarrow> blankDHCPv6SharedNetworkFormValues)"

text \<open>\<open>components/service/Dhcpv6SubnetDetails.tsx\<close>\<close>

definition Dhcpv6SubnetDetails_queueDelete ::
    "DHCPv6SharedNetwork \<Rightarrow> string \<Rightarrow> (ConfigOp \<times> string) list" where
  "Dhcpv6SubnetDetails_queueDelete network cidr =
     (let op1 = deleteDHCPv6SubnetOp (dhcpsn_name network) cidr
      in [(op1, ''delete '' @ js_join '' '' (co_path op1))])"

definition Dhcpv6SubnetDetails_SubnetForm_canSubmit ::
    "DHCPv6Subnet option \<Rightarrow> string list \<Rightarrow> text_input \<Rightarrow> bool" where
  "Dhcpv6SubnetDetails_SubnetForm_canSubmit subnet existingCidrs cidr =
     (let trimmedCidr = js_trim cidr;
          taken = subnet = None \<and> trimmedCidr \<in> set existingCidrs
      in trimmedCidr \<noteq> '''' \<and> \<not> taken)"

definition Dhcpv6SubnetDetails_SubnetForm_submit ::
    "string \<Rightarrow> DHCPv6Subnet option \<Rightarrow> string list \<Rightarrow> text_input \<Rightarrow> DHCPv6SubnetFormValues \<Rightarrow> (ConfigOp \<times> string) list" where
  "Dhcpv6SubnetDetails_SubnetForm_submit networkName subnet existingCidrs cidr values =
     (let trimmedCidr = js_trim cidr
      in (if \<not> Dhcpv6SubnetDetails_SubnetForm_canSubmit subnet existingCidrs cidr then []
          else (let ops = dhcpv6SubnetFormToOps networkName trimmedCidr subnet values
                in map (\<lambda>op1. (op1, change_label op1)) ops)))"

definition Dhcpv6SubnetDetails_SubnetForm_values :: "DHCPv6Subnet option \<Rightarrow> DHCPv6SubnetFormValues" where
  "Dhcpv6SubnetDetails_SubnetForm_values subnet =
     (case subnet of
        Some subnet' \<Rightarrow> dhcpv6SubnetToFormValues subnet'
      | None \<Rightarrow> blankDHCPv6SubnetFormValues)"

definition Dhcpv6SubnetDetails_RangesSection_valid :: "DHCPv6Subnet \<Rightarrow> text_input \<Rightarrow> bool" where
  "Dhcpv6SubnetDetails_RangesSection_valid subnet i =
     (let trimmedId = js_trim i;
          taken = list_ex (\<lambda>r. dhcpr_id r = trimmedId) (dhcps_ranges subnet)
      in trimmedId \<noteq> '''' \<and> \<not> taken)"

definition Dhcpv6SubnetDetails_RangesSection_submit ::
    "string \<Rightarrow> DHCPv6Subnet \<Rightarrow> text_input \<Rightarrow> text_input \<Rightarrow> text_input \<Rightarrow> text_input \<Rightarrow> (ConfigOp \<times> string) list" where
  "Dhcpv6SubnetDetails_RangesSection_submit networkName subnet i pfx start stop =
     (let trimmedId = js_trim i
      in (if \<not> Dhcpv6SubnetDetails_RangesSection_valid subnet i then []
          else (let ops = addDHCPv6RangeOps networkName (dhcps_cidr subnet) trimmedId pfx start stop
                in map (\<lambda>op1. (op1, change_label op1)) ops)))"

definition Dhcpv6SubnetDetails_RangesSection_onClick ::
    "string \<Rightarrow> DHCPv6Subnet \<Rightarrow> DHCPv6Range \<Rightarrow> (ConfigOp \<times> string) list" where
  "Dhcpv6SubnetDetails_RangesSection_onClick networkName subnet r =
     (let op1 = removeDHCPv6RangeOp networkName (dhcps_cidr subnet) (dhcpr_id r)
      in [(op1, ''delete '' @ js_join '' '' (co_path op1))])"

definition Dhcpv6SubnetDetails_StaticMappingsSection_valid :: "DHCPv6Subnet \<Rightarrow> text_input \<Rightarrow> bool" where
  "Dhcpv6SubnetDetails_StaticMappingsSection_valid subnet hostname =
     (let trimmedHostname = js_trim hostname;
          taken = list_ex (\<lambda>m. dhcpsm_hostname m = trimmedHostname)
              (dhcps_staticMappings subnet)
      in trimmedHostname \<noteq> '''' \<and> \<not> taken)"

definition Dhcpv6SubnetDetails_StaticMappingsSection_submit ::
    "string \<Rightarrow> DHCPv6Subnet \<Rightarrow> text_input \<Rightarrow> text_input \<Rightarrow> text_input \<Rightarrow> (ConfigOp \<times> string) list" where
  "Dhcpv6SubnetDetails_StaticMappingsSection_submit networkName subnet hostname mac duid =
     (let trimmedHostname = js_trim hostname
      in (if \<not> Dhcpv6SubnetDetails_StaticMappingsSection_valid subnet hostname then []
          else (let ops = addDHCPv6StaticMappingOps networkName (dhcps_cidr subnet) trimmedHostname
                        \<lparr>adhcpsmo_mac = mac,
                            adhcpsmo_duid = duid,
                            adhcpsmo_disabled = False\<rparr>
                in map (\<lambda>op1. (op1, change_label op1)) ops)))"

definition Dhcpv6SubnetDetails_StaticMappingsSection_onClick ::
    "string \<Rightarrow> DHCPv6Subnet \<Rightarrow> DHCPv6StaticMapping \<Rightarrow> (ConfigOp \<times> string) list" where
  "Dhcpv6SubnetDetails_StaticMappingsSection_onClick networkName subnet m =
     (let op1 = removeDHCPv6StaticMappingOp networkName (dhcps_cidr subnet) (dhcpsm_hostname m)
      in [(op1, ''delete '' @ js_join '' '' (co_path op1))])"

definition Dhcpv6SubnetDetails_PrefixDelegationsSection_valid :: "DHCPv6Subnet \<Rightarrow> text_input \<Rightarrow> bool" where
  "Dhcpv6SubnetDetails_PrefixDelegationsSection_valid subnet pfx =
     (let trimmedPrefix = js_trim pfx;
          taken = list_ex (\<lambda>p. dhcppd_prefix p = trimmedPrefix)
              (dhcps_prefixDelegations subnet)
      in trimmedPrefix \<noteq> '''' \<and> \<not> taken)"

definition Dhcpv6SubnetDetails_PrefixDelegationsSection_submit ::
    "string \<Rightarrow> DHCPv6Subnet \<Rightarrow> text_input \<Rightarrow> text_input \<Rightarrow> text_input \<Rightarrow> (ConfigOp \<times> string) list" where
  "Dhcpv6SubnetDetails_PrefixDelegationsSection_submit networkName subnet pfx prefixLength delegatedLength =
     (let trimmedPrefix = js_trim pfx
      in (if \<not> Dhcpv6SubnetDetails_PrefixDelegationsSection_valid subnet pfx then []
          else (let ops = addDHCPv6PrefixDelegationOps networkName (dhcps_cidr subnet) trimmedPrefix
                        \<lparr>adhcppdo_prefixLength = prefixLength,
                            adhcppdo_delegatedLength = delegatedLength,
                            adhcppdo_excludedPrefix = '''',
                            adhcppdo_excludedPrefixLength = ''''\<rparr>
                in map (\<lambda>op1. (op1, change_label op1)) ops)))"

definition Dhcpv6SubnetDetails_PrefixDelegationsSection_onClick ::
    "string \<Rightarrow> DHCPv6Subnet \<Rightarrow> DHCPv6PrefixDelegation \<Rightarrow> (ConfigOp \<times> string) list" where
  "Dhcpv6SubnetDetails_PrefixDelegationsSection_onClick networkName subnet pd =
     (let op1 = removeDHCPv6PrefixDelegationOp networkName (dhcps_cidr subnet) (dhcppd_prefix pd)
      in [(op1, ''delete '' @ js_join '' '' (co_path op1))])"

text \<open>\<open>components/service/DnsForwardingSettings.tsx\<close>\<close>

definition DnsForwardingSettings_onClick :: "(ConfigOp \<times> string) list" where
  "DnsForwardingSettings_onClick =
     (let op1 = enableDNSForwardingOp in [(op1, ''set '' @ js_join '' '' (co_path op1))])"

definition DnsForwardingSettings_DnsForwardingSettingsForm_save ::
    "DNSForwardingConfig \<Rightarrow> DNSForwardingSettingsFormValues \<Rightarrow> (ConfigOp \<times> string) list" where
  "DnsForwardingSettings_DnsForwardingSettingsForm_save config values =
     (let ops = dnsForwardingSettingsFormToOps config values
      in map (\<lambda>op1. (op1, change_label op1)) ops)"

definition DnsForwardingSettings_DnsForwardingSettingsForm_values :: "DNSForwardingConfig \<Rightarrow> DNSForwardingSettingsFormValues" where
  "DnsForwardingSettings_DnsForwardingSettingsForm_values config =
     dnsForwardingConfigToFormValues config"

definition DnsForwardingSettings_DnsForwardingSettingsForm_queueDisable :: "(ConfigOp \<times> string) list" where
  "DnsForwardingSettings_DnsForwardingSettingsForm_queueDisable =
     (let op1 = disableDNSForwardingOp in [(op1, ''delete '' @ js_join '' '' (co_path op1))])"

definition DnsForwardingSettings_NameServersSection_valid :: "DNSForwardingNameServer list \<Rightarrow> text_input \<Rightarrow> bool" where
  "DnsForwardingSettings_NameServersSection_valid nameServers address =
     (let trimmedAddress = js_trim address;
          taken = list_ex (\<lambda>ns. dnsfns_address ns = trimmedAddress) nameServers
      in trimmedAddress \<noteq> '''' \<and> \<not> taken)"

definition DnsForwardingSettings_NameServersSection_submit ::
    "string list \<Rightarrow> DNSForwardingNameServer list \<Rightarrow> text_input \<Rightarrow> text_input \<Rightarrow> (ConfigOp \<times> string) list" where
  "DnsForwardingSettings_NameServersSection_submit base nameServers address port =
     (let trimmedAddress = js_trim address
      in (if \<not> DnsForwardingSettings_NameServersSection_valid nameServers address then []
          else (let ops = addNameServerOps base trimmedAddress port
                in map (\<lambda>op1. (op1, change_label op1)) ops)))"

definition DnsForwardingSettings_NameServersSection_onClick ::
    "string list \<Rightarrow> DNSForwardingNameServer \<Rightarrow> (ConfigOp \<times> string) list" where
  "DnsForwardingSettings_NameServersSection_onClick base ns =
     (let op1 = removeNameServerOp base (dnsfns_address ns)
      in [(op1, ''delete '' @ js_join '' '' (co_path op1))])"

definition DnsForwardingSettings_DomainsSection_valid :: "DNSForwardingConfig \<Rightarrow> text_input \<Rightarrow> bool" where
  "DnsForwardingSettings_DomainsSection_valid config fqdn =
     (let trimmedFqdn = js_trim fqdn;
          taken = list_ex (\<lambda>d. dnsfd_fqdn d = trimmedFqdn) (dnsfc_domains config)
      in trimmedFqdn \<noteq> '''' \<and> \<not> taken)"

definition DnsForwardingSettings_DomainsSection_submit ::
    "DNSForwardingConfig \<Rightarrow> text_input \<Rightarrow> bool \<Rightarrow> bool \<Rightarrow> (ConfigOp \<times> string) list" where
  "DnsForwardingSettings_DomainsSection_submit config fqdn addnta recursionDesired =
     (let trimmedFqdn = js_trim fqdn
      in (if \<not> DnsForwardingSettings_DomainsSection_valid config fqdn then []
          else (let ops = dnsForwardingDomainFormToOps trimmedFqdn None
                        \<lparr>dnsfdfv_addnta = addnta,
                            dnsfdfv_recursionDesired = recursionDesired\<rparr>
                in map (\<lambda>op1. (op1, change_label op1)) ops)))"

definition DnsForwardingSettings_DomainsSection_queueDelete :: "string \<Rightarrow> (ConfigOp \<times> string) list" where
  "DnsForwardingSettings_DomainsSection_queueDelete domainFqdn =
     (let op1 = deleteDNSForwardingDomainOp domainFqdn
      in [(op1, ''delete '' @ js_join '' '' (co_path op1))])"

text \<open>\<open>components/service/DynamicDnsList.tsx\<close>\<close>

definition DynamicDnsList_queueDelete :: "string \<Rightarrow> (ConfigOp \<times> string) list" where
  "DynamicDnsList_queueDelete name =
     (let op1 = deleteDynamicDNSEntryOp name in [(op1, ''delete '' @ js_join '' '' (co_path op1))])"

definition DynamicDnsList_EntryForm_canSubmit ::
    "DynamicDNSEntry option \<Rightarrow> string list \<Rightarrow> text_input \<Rightarrow> bool" where
  "DynamicDnsList_EntryForm_canSubmit entry existingNames name =
     (let trimmedName = js_trim name;
          nameTaken = entry = None \<and> trimmedName \<in> set existingNames
      in trimmedName \<noteq> '''' \<and> \<not> nameTaken)"

definition DynamicDnsList_EntryForm_submit ::
    "DynamicDNSEntry option \<Rightarrow> string list \<Rightarrow> text_input \<Rightarrow> DynamicDNSEntryFormValues \<Rightarrow> (ConfigOp \<times> string) list" where
  "DynamicDnsList_EntryForm_submit entry existingNames name values =
     (let trimmedName = js_trim name
      in (if \<not> DynamicDnsList_EntryForm_canSubmit entry existingNames name then []
          else (let ops = dynamicDNSEntryFormToOps trimmedName entry values
                in map (\<lambda>op1. (op1, change_label op1)) ops)))"

definition DynamicDnsList_EntryForm_values :: "DynamicDNSEntry option \<Rightarrow> DynamicDNSEntryFormValues" where
  "DynamicDnsList_EntryForm_values entry =
     (case entry of
        Some entry' \<Rightarrow> dynamicDNSEntryToFormValues entry'
      | None \<Rightarrow> blankDynamicDNSEntryFormValues)"

definition DynamicDnsList_GlobalSettings_save ::
    "DynamicDNSConfig \<Rightarrow> DynamicDNSGlobalFormValues \<Rightarrow> (ConfigOp \<times> string) list" where
  "DynamicDnsList_GlobalSettings_save config values =
     (let ops = dynamicDNSGlobalFormToOps
              \<lparr>ddnsgtfv_interval = ddnsc_interval config,
                  ddnsgtfv_vrf = ddnsc_vrf config\<rparr> values
      in map (\<lambda>op1. (op1, change_label op1)) ops)"

definition DynamicDnsList_GlobalSettings_values :: "DynamicDNSConfig \<Rightarrow> DynamicDNSGlobalFormValues" where
  "DynamicDnsList_GlobalSettings_values config =
     dynamicDNSGlobalToFormValues \<lparr>ddnsgtfv_interval = ddnsc_interval config,
         ddnsgtfv_vrf = ddnsc_vrf config\<rparr>"

text \<open>\<open>components/service/EventHandlerList.tsx\<close>\<close>

definition EventHandlerList_onClick :: "(ConfigOp \<times> string) list" where
  "EventHandlerList_onClick =
     (let op1 = enableEventHandlerOp in [(op1, ''set '' @ js_join '' '' (co_path op1))])"

definition EventHandlerList_EventHandlerEnabled_queueDelete :: "string \<Rightarrow> (ConfigOp \<times> string) list" where
  "EventHandlerList_EventHandlerEnabled_queueDelete name =
     (let op1 = deleteEventHandlerEventOp name in [(op1, ''delete '' @ js_join '' '' (co_path op1))])"

definition EventHandlerList_EventHandlerEnabled_queueDisable :: "(ConfigOp \<times> string) list" where
  "EventHandlerList_EventHandlerEnabled_queueDisable =
     (let op1 = disableEventHandlerOp in [(op1, ''delete '' @ js_join '' '' (co_path op1))])"

definition EventHandlerList_EventForm_canSubmit ::
    "EventHandlerEvent option \<Rightarrow> string list \<Rightarrow> text_input \<Rightarrow> bool" where
  "EventHandlerList_EventForm_canSubmit event existingNames name =
     (let trimmedName = js_trim name;
          nameTaken = event = None \<and> trimmedName \<in> set existingNames
      in trimmedName \<noteq> '''' \<and> \<not> nameTaken)"

definition EventHandlerList_EventForm_submit ::
    "EventHandlerEvent option \<Rightarrow> string list \<Rightarrow> text_input \<Rightarrow> EventHandlerEventFormValues \<Rightarrow> (ConfigOp \<times> string) list" where
  "EventHandlerList_EventForm_submit event existingNames name values =
     (let trimmedName = js_trim name
      in (if \<not> EventHandlerList_EventForm_canSubmit event existingNames name then []
          else (let ops = eventHandlerEventFormToOps trimmedName event values
                in map (\<lambda>op1. (op1, change_label op1)) ops)))"

definition EventHandlerList_EventForm_values :: "EventHandlerEvent option \<Rightarrow> EventHandlerEventFormValues" where
  "EventHandlerList_EventForm_values event =
     (case event of
        Some event' \<Rightarrow> eventHandlerEventToFormValues event'
      | None \<Rightarrow> blankEventHandlerEventFormValues)"

text \<open>\<open>components/service/HttpsSettings.tsx\<close>\<close>

definition HttpsSettings_onClick :: "(ConfigOp \<times> string) list" where
  "HttpsSettings_onClick =
     (let op1 = enableHTTPSOp in [(op1, ''set '' @ js_join '' '' (co_path op1))])"

definition HttpsSettings_HttpsSettingsForm_save ::
    "HTTPSConfig \<Rightarrow> HTTPSFormValues \<Rightarrow> (ConfigOp \<times> string) list" where
  "HttpsSettings_HttpsSettingsForm_save config values =
     (let ops = httpsFormToOps config values in map (\<lambda>op1. (op1, change_label op1)) ops)"

definition HttpsSettings_HttpsSettingsForm_values :: "HTTPSConfig \<Rightarrow> HTTPSFormValues" where
  "HttpsSettings_HttpsSettingsForm_values config = httpsConfigToFormValues config"

definition HttpsSettings_HttpsSettingsForm_queueDisable :: "(ConfigOp \<times> string) list" where
  "HttpsSettings_HttpsSettingsForm_queueDisable =
     (let op1 = disableHTTPSOp in [(op1, ''delete '' @ js_join '' '' (co_path op1))])"

definition HttpsSettings_ApiKeysSection_valid ::
    "HTTPSConfig \<Rightarrow> text_input \<Rightarrow> text_input \<Rightarrow> bool" where
  "HttpsSettings_ApiKeysSection_valid config i key =
     (let trimmedId = js_trim i;
          taken = list_ex (\<lambda>k. httpsapik_id k = trimmedId) (httpsc_apiKeys config)
      in (trimmedId \<noteq> '''' \<and> \<not> taken) \<and> js_trim key \<noteq> '''')"

definition HttpsSettings_ApiKeysSection_submit ::
    "HTTPSConfig \<Rightarrow> text_input \<Rightarrow> text_input \<Rightarrow> (ConfigOp \<times> string) list" where
  "HttpsSettings_ApiKeysSection_submit config i key =
     (let trimmedId = js_trim i
      in (if \<not> HttpsSettings_ApiKeysSection_valid config i key then []
          else (let op1 = addHTTPSAPIKeyOp trimmedId (js_trim key)
                in [(op1, ''set '' @ js_join '' '' (co_path op1))])))"

definition HttpsSettings_ApiKeysSection_onClick :: "HTTPSAPIKey \<Rightarrow> (ConfigOp \<times> string) list" where
  "HttpsSettings_ApiKeysSection_onClick apiKey =
     (let op1 = removeHTTPSAPIKeyOp (httpsapik_id apiKey)
      in [(op1, ''delete '' @ js_join '' '' (co_path op1))])"

text \<open>\<open>components/service/LldpList.tsx\<close>\<close>

definition LldpList_onClick :: "(ConfigOp \<times> string) list" where
  "LldpList_onClick = (let op1 = enableLLDPOp in [(op1, ''set '' @ js_join '' '' (co_path op1))])"

definition LldpList_LldpEnabled_saveGeneral ::
    "LLDPConfig \<Rightarrow> LLDPGeneralFormValues \<Rightarrow> (ConfigOp \<times> string) list" where
  "LldpList_LldpEnabled_saveGeneral config values =
     (let ops = lldpGeneralFormToOps
              (lldpConfigToGeneralFormValues \<lparr>lctgfv_legacyCdp = lldpc_legacyCdp config,
                     lctgfv_legacyEdp = lldpc_legacyEdp config,
                     lctgfv_legacyFdp = lldpc_legacyFdp config,
                     lctgfv_legacySonmp = lldpc_legacySonmp config,
                     lctgfv_snmp = lldpc_snmp config\<rparr>) values
      in map (\<lambda>op1. (op1, op_name (co_op op1) @ '' '' @ js_join '' '' (co_path op1))) ops)"

definition LldpList_LldpEnabled_values :: "LLDPConfig \<Rightarrow> LLDPGeneralFormValues" where
  "LldpList_LldpEnabled_values config =
     lldpConfigToGeneralFormValues \<lparr>lctgfv_legacyCdp = lldpc_legacyCdp config,
         lctgfv_legacyEdp = lldpc_legacyEdp config,
         lctgfv_legacyFdp = lldpc_legacyFdp config,
         lctgfv_legacySonmp = lldpc_legacySonmp config,
         lctgfv_snmp = lldpc_snmp config\<rparr>"

definition LldpList_LldpEnabled_queueDelete :: "string \<Rightarrow> (ConfigOp \<times> string) list" where
  "LldpList_LldpEnabled_queueDelete name =
     (let op1 = deleteLLDPInterfaceOp name in [(op1, ''delete '' @ js_join '' '' (co_path op1))])"

definition LldpList_LldpEnabled_queueDisable :: "(ConfigOp \<times> string) list" where
  "LldpList_LldpEnabled_queueDisable =
     (let op1 = disableLLDPOp in [(op1, ''delete '' @ js_join '' '' (co_path op1))])"

definition LldpList_InterfaceForm_canSubmit ::
    "LLDPInterface option \<Rightarrow> string list \<Rightarrow> text_input \<Rightarrow> bool" where
  "LldpList_InterfaceForm_canSubmit iface existingNames interfaceName =
     (let trimmedName = js_trim interfaceName;
          nameTaken = iface = None \<and> trimmedName \<in> set existingNames
      in trimmedName \<noteq> '''' \<and> \<not> nameTaken)"

definition LldpList_InterfaceForm_submit ::
    "LLDPInterface option \<Rightarrow> string list \<Rightarrow> text_input \<Rightarrow> LLDPInterfaceFormValues \<Rightarrow> (ConfigOp \<times> string) list" where
  "LldpList_InterfaceForm_submit iface existingNames interfaceName values =
     (let trimmedName = js_trim interfaceName
      in (if \<not> LldpList_InterfaceForm_canSubmit iface existingNames interfaceName then []
          else (let ops = lldpInterfaceFormToOps trimmedName iface values
                in map (\<lambda>op1. (op1, change_label op1)) ops)))"

definition LldpList_InterfaceForm_values :: "LLDPInterface option \<Rightarrow> LLDPInterfaceFormValues" where
  "LldpList_InterfaceForm_values iface =
     (case iface of
        Some iface' \<Rightarrow> lldpInterfaceToFormValues iface'
      | None \<Rightarrow> blankLLDPInterfaceFormValues)"

text \<open>\<open>components/service/MdnsSettings.tsx\<close>\<close>

definition MdnsSettings_onClick :: "(ConfigOp \<times> string) list" where
  "MdnsSettings_onClick =
     (let op1 = enableMdnsRepeaterOp in [(op1, ''set '' @ js_join '' '' (co_path op1))])"

definition MdnsSettings_MdnsSettingsForm_save ::
    "MdnsRepeaterConfig \<Rightarrow> MdnsRepeaterFormValues \<Rightarrow> (ConfigOp \<times> string) list" where
  "MdnsSettings_MdnsSettingsForm_save config values =
     (let ops = mdnsRepeaterFormToOps config values
      in map (\<lambda>op1. (op1, change_label op1)) ops)"

definition MdnsSettings_MdnsSettingsForm_values :: "MdnsRepeaterConfig \<Rightarrow> MdnsRepeaterFormValues" where
  "MdnsSettings_MdnsSettingsForm_values config = mdnsConfigToFormValues config"

definition MdnsSettings_MdnsSettingsForm_queueDisable :: "(ConfigOp \<times> string) list" where
  "MdnsSettings_MdnsSettingsForm_queueDisable =
     (let op1 = disableMdnsRepeaterOp in [(op1, ''delete '' @ js_join '' '' (co_path op1))])"

text \<open>\<open>components/service/MonitoringSettings.tsx\<close>\<close>

definition MonitoringSettings_NodeExporterSection_save ::
    "MonitoringConfig \<Rightarrow> NodeExporterFormValues \<Rightarrow> (ConfigOp \<times> string) list" where
  "MonitoringSettings_NodeExporterSection_save config values =
     (let nodeExporter = mc_prometheusNodeExporter config;
          ops = nodeExporterFormToOps nodeExporter values
      in map (\<lambda>op1. (op1, change_label op1)) ops)"

definition MonitoringSettings_NodeExporterSection_values :: "MonitoringConfig \<Rightarrow> NodeExporterFormValues" where
  "MonitoringSettings_NodeExporterSection_values config =
     (let nodeExporter = mc_prometheusNodeExporter config
      in nodeExporterConfigToFormValues nodeExporter)"

definition MonitoringSettings_NodeExporterSection_queueDisable :: "(ConfigOp \<times> string) list" where
  "MonitoringSettings_NodeExporterSection_queueDisable =
     (let op1 = disableNodeExporterOp in [(op1, ''delete '' @ js_join '' '' (co_path op1))])"

definition MonitoringSettings_NodeExporterSection_onClick :: "(ConfigOp \<times> string) list" where
  "MonitoringSettings_NodeExporterSection_onClick =
     (let op1 = enableNodeExporterOp in [(op1, ''set '' @ js_join '' '' (co_path op1))])"

definition MonitoringSettings_FrrExporterSection_save ::
    "MonitoringConfig \<Rightarrow> FrrExporterFormValues \<Rightarrow> (ConfigOp \<times> string) list" where
  "MonitoringSettings_FrrExporterSection_save config values =
     (let frrExporter = mc_prometheusFrrExporter config;
          ops = frrExporterFormToOps frrExporter values
      in map (\<lambda>op1. (op1, change_label op1)) ops)"

definition MonitoringSettings_FrrExporterSection_values :: "MonitoringConfig \<Rightarrow> FrrExporterFormValues" where
  "MonitoringSettings_FrrExporterSection_values config =
     (let frrExporter = mc_prometheusFrrExporter config in frrExporterConfigToFormValues frrExporter)"

definition MonitoringSettings_FrrExporterSection_queueDisable :: "(ConfigOp \<times> string) list" where
  "MonitoringSettings_FrrExporterSection_queueDisable =
     (let op1 = disableFrrExporterOp in [(op1, ''delete '' @ js_join '' '' (co_path op1))])"

definition MonitoringSettings_FrrExporterSection_onClick :: "(ConfigOp \<times> string) list" where
  "MonitoringSettings_FrrExporterSection_onClick =
     (let op1 = enableFrrExporterOp in [(op1, ''set '' @ js_join '' '' (co_path op1))])"

definition MonitoringSettings_ZabbixAgentSection_onClick :: "(ConfigOp \<times> string) list" where
  "MonitoringSettings_ZabbixAgentSection_onClick =
     (let op1 = enableZabbixAgentOp in [(op1, ''set '' @ js_join '' '' (co_path op1))])"

definition MonitoringSettings_ZabbixAgentForm_save ::
    "ZabbixAgentConfig \<Rightarrow> ZabbixAgentFormValues \<Rightarrow> (ConfigOp \<times> string) list" where
  "MonitoringSettings_ZabbixAgentForm_save zabbix values =
     (let ops = zabbixAgentFormToOps zabbix values
      in map (\<lambda>op1. (op1, change_label op1)) ops)"

definition MonitoringSettings_ZabbixAgentForm_values :: "ZabbixAgentConfig \<Rightarrow> ZabbixAgentFormValues" where
  "MonitoringSettings_ZabbixAgentForm_values zabbix = zabbixAgentConfigToFormValues zabbix"

definition MonitoringSettings_ZabbixAgentForm_queueDisable :: "(ConfigOp \<times> string) list" where
  "MonitoringSettings_ZabbixAgentForm_queueDisable =
     (let op1 = disableZabbixAgentOp in [(op1, ''delete '' @ js_join '' '' (co_path op1))])"

definition MonitoringSettings_ServerActiveSection_valid :: "ZabbixAgentConfig \<Rightarrow> text_input \<Rightarrow> bool" where
  "MonitoringSettings_ServerActiveSection_valid zabbix address =
     (let trm = js_trim address;
          taken = list_ex (\<lambda>s. zsa_address s = trm) (zac_serverActive zabbix)
      in trm \<noteq> '''' \<and> \<not> taken)"

definition MonitoringSettings_ServerActiveSection_submit ::
    "ZabbixAgentConfig \<Rightarrow> text_input \<Rightarrow> text_input \<Rightarrow> (ConfigOp \<times> string) list" where
  "MonitoringSettings_ServerActiveSection_submit zabbix address port =
     (let trm = js_trim address
      in (if \<not> MonitoringSettings_ServerActiveSection_valid zabbix address then []
          else (let ops = addZabbixServerActiveOps trm port
                in map (\<lambda>op1. (op1, change_label op1)) ops)))"

definition MonitoringSettings_ServerActiveSection_onClick :: "ZabbixServerActive \<Rightarrow> (ConfigOp \<times> string) list" where
  "MonitoringSettings_ServerActiveSection_onClick s =
     (let op1 = removeZabbixServerActiveOp (zsa_address s)
      in [(op1, ''delete '' @ js_join '' '' (co_path op1))])"

definition MonitoringSettings_NetworkEventSection_onClick :: "(ConfigOp \<times> string) list" where
  "MonitoringSettings_NetworkEventSection_onClick =
     (let op1 = enableNetworkEventOp in [(op1, ''set '' @ js_join '' '' (co_path op1))])"

definition MonitoringSettings_NetworkEventForm_save ::
    "NetworkEventConfig \<Rightarrow> NetworkEventFormValues \<Rightarrow> (ConfigOp \<times> string) list" where
  "MonitoringSettings_NetworkEventForm_save networkEvent values =
     (let ops = networkEventFormToOps networkEvent values
      in map (\<lambda>op1. (op1, change_label op1)) ops)"

definition MonitoringSettings_NetworkEventForm_values :: "NetworkEventConfig \<Rightarrow> NetworkEventFormValues" where
  "MonitoringSettings_NetworkEventForm_values networkEvent =
     networkEventConfigToFormValues networkEvent"

definition MonitoringSettings_NetworkEventForm_queueDisable :: "(ConfigOp \<times> string) list" where
  "MonitoringSettings_NetworkEventForm_queueDisable =
     (let op1 = disableNetworkEventOp in [(op1, ''delete '' @ js_join '' '' (co_path op1))])"

text \<open>\<open>components/service/NdpProxyList.tsx\<close>\<close>

definition NdpProxyList_onClick :: "(ConfigOp \<times> string) list" where
  "NdpProxyList_onClick =
     (let op1 = enableNDPProxyOp in [(op1, ''set '' @ js_join '' '' (co_path op1))])"

definition NdpProxyList_NdpProxyEnabled_queueDelete :: "string \<Rightarrow> (ConfigOp \<times> string) list" where
  "NdpProxyList_NdpProxyEnabled_queueDelete name =
     (let op1 = deleteNDPProxyInterfaceOp name in [(op1, ''delete '' @ js_join '' '' (co_path op1))])"

definition NdpProxyList_NdpProxyEnabled_queueDisable :: "(ConfigOp \<times> string) list" where
  "NdpProxyList_NdpProxyEnabled_queueDisable =
     (let op1 = disableNDPProxyOp in [(op1, ''delete '' @ js_join '' '' (co_path op1))])"

definition NdpProxyList_InterfaceForm_canSubmit ::
    "NDPProxyInterface option \<Rightarrow> string list \<Rightarrow> text_input \<Rightarrow> bool" where
  "NdpProxyList_InterfaceForm_canSubmit iface existingNames interfaceName =
     (let trimmedName = js_trim interfaceName;
          nameTaken = iface = None \<and> trimmedName \<in> set existingNames
      in trimmedName \<noteq> '''' \<and> \<not> nameTaken)"

definition NdpProxyList_InterfaceForm_submit ::
    "NDPProxyInterface option \<Rightarrow> string list \<Rightarrow> text_input \<Rightarrow> NDPProxyInterfaceFormValues \<Rightarrow> text_input \<Rightarrow> text_input \<Rightarrow> text_input \<Rightarrow> (ConfigOp \<times> string) list" where
  "NdpProxyList_InterfaceForm_submit iface existingNames interfaceName values firstPrefix firstPrefixMode firstPrefixInterfaceRef =
     (let trimmedName = js_trim interfaceName
      in (if \<not> NdpProxyList_InterfaceForm_canSubmit iface existingNames interfaceName then []
          else (let ops = ndpProxyInterfaceFormToOps trimmedName iface values
                in map (\<lambda>op1. (op1, change_label op1)) ops
                   @ (if iface = None \<and> js_trim firstPrefix \<noteq> ''''
                      then (let prefixOps = addNDPProxyPrefixOps trimmedName (js_trim firstPrefix)
                                    \<lparr>andpppo_mode = firstPrefixMode,
                                        andpppo_interfaceRef = firstPrefixInterfaceRef,
                                        andpppo_disabled = False\<rparr>
                            in map (\<lambda>op1. (op1, change_label op1)) prefixOps)
                      else []))))"

definition NdpProxyList_InterfaceForm_values :: "NDPProxyInterface option \<Rightarrow> NDPProxyInterfaceFormValues" where
  "NdpProxyList_InterfaceForm_values iface =
     (case iface of
        Some iface' \<Rightarrow> ndpProxyInterfaceToFormValues iface'
      | None \<Rightarrow> blankNDPProxyInterfaceFormValues)"

definition NdpProxyList_PrefixesSection_valid :: "NDPProxyInterface \<Rightarrow> text_input \<Rightarrow> bool" where
  "NdpProxyList_PrefixesSection_valid iface pfx =
     (let trimmedPrefix = js_trim pfx;
          taken = list_ex (\<lambda>p. ndppp_prefix p = trimmedPrefix) (ndppi_prefixes iface)
      in trimmedPrefix \<noteq> '''' \<and> \<not> taken)"

definition NdpProxyList_PrefixesSection_submit ::
    "NDPProxyInterface \<Rightarrow> text_input \<Rightarrow> text_input \<Rightarrow> text_input \<Rightarrow> (ConfigOp \<times> string) list" where
  "NdpProxyList_PrefixesSection_submit iface pfx mode interfaceRef =
     (let trimmedPrefix = js_trim pfx
      in (if \<not> NdpProxyList_PrefixesSection_valid iface pfx then []
          else (let ops = addNDPProxyPrefixOps (ndppi_interfaceName iface) trimmedPrefix
                        \<lparr>andpppo_mode = mode,
                            andpppo_interfaceRef = interfaceRef,
                            andpppo_disabled = False\<rparr>
                in map (\<lambda>op1. (op1, change_label op1)) ops)))"

definition NdpProxyList_PrefixesSection_onClick ::
    "NDPProxyInterface \<Rightarrow> NDPProxyPrefix \<Rightarrow> (ConfigOp \<times> string) list" where
  "NdpProxyList_PrefixesSection_onClick iface p =
     (let op1 = removeNDPProxyPrefixOp (ndppi_interfaceName iface) (ndppp_prefix p)
      in [(op1, ''delete '' @ js_join '' '' (co_path op1))])"

text \<open>\<open>components/service/NtpSettings.tsx\<close>\<close>

definition NtpSettings_ServersSection_valid :: "NTPConfig \<Rightarrow> text_input \<Rightarrow> bool" where
  "NtpSettings_ServersSection_valid config address =
     (let trimmedAddress = js_trim address;
          taken = list_ex (\<lambda>s. ntps_address s = trimmedAddress) (ntpc_servers config)
      in trimmedAddress \<noteq> '''' \<and> \<not> taken)"

definition NtpSettings_ServersSection_submit ::
    "NTPConfig \<Rightarrow> text_input \<Rightarrow> NTPServerFlags \<Rightarrow> (ConfigOp \<times> string) list" where
  "NtpSettings_ServersSection_submit config address flags =
     (let trimmedAddress = js_trim address
      in (if \<not> NtpSettings_ServersSection_valid config address then []
          else (let ops = addNTPServerOps trimmedAddress flags
                in map
                     (\<lambda>op1. (op1, op_name (co_op op1) @ '' '' @ js_join '' '' (co_path op1)))
                     ops)))"

definition NtpSettings_ServersSection_flags :: NTPServerFlags where
  "NtpSettings_ServersSection_flags = blankNTPServerFlags"

definition NtpSettings_ServersSection_queueRemove :: "string \<Rightarrow> (ConfigOp \<times> string) list" where
  "NtpSettings_ServersSection_queueRemove serverAddress =
     (let op1 = removeNTPServerOp serverAddress
      in [(op1, ''delete '' @ js_join '' '' (co_path op1))])"

definition NtpSettings_GeneralSettings_save ::
    "NTPConfig \<Rightarrow> NTPGeneralFormValues \<Rightarrow> (ConfigOp \<times> string) list" where
  "NtpSettings_GeneralSettings_save config values =
     (let ops = ntpGeneralFormToOps config values in map (\<lambda>op1. (op1, change_label op1)) ops)"

definition NtpSettings_GeneralSettings_values :: "NTPConfig \<Rightarrow> NTPGeneralFormValues" where
  "NtpSettings_GeneralSettings_values config = ntpConfigToGeneralFormValues config"

text \<open>\<open>components/service/RouterAdvertList.tsx\<close>\<close>

definition RouterAdvertList_queueDelete :: "string \<Rightarrow> (ConfigOp \<times> string) list" where
  "RouterAdvertList_queueDelete name =
     (let op1 = deleteRouterAdvertInterfaceOp name
      in [(op1, ''delete '' @ js_join '' '' (co_path op1))])"

definition RouterAdvertList_InterfaceForm_canSubmit ::
    "RouterAdvertInterface option \<Rightarrow> string list \<Rightarrow> text_input \<Rightarrow> bool" where
  "RouterAdvertList_InterfaceForm_canSubmit iface existingNames interfaceName =
     (let trimmedName = js_trim interfaceName;
          nameTaken = iface = None \<and> trimmedName \<in> set existingNames
      in trimmedName \<noteq> '''' \<and> \<not> nameTaken)"

definition RouterAdvertList_InterfaceForm_submit ::
    "RouterAdvertInterface option \<Rightarrow> string list \<Rightarrow> text_input \<Rightarrow> RouterAdvertInterfaceFormValues \<Rightarrow> text_input \<Rightarrow> text_input \<Rightarrow> (ConfigOp \<times> string) list" where
  "RouterAdvertList_InterfaceForm_submit iface existingNames interfaceName values firstPrefix firstRoutePrefix =
     (let trimmedName = js_trim interfaceName
      in (if \<not> RouterAdvertList_InterfaceForm_canSubmit iface existingNames interfaceName
          then []
          else (let ops = routerAdvertInterfaceFormToOps trimmedName iface values
                in map (\<lambda>op1. (op1, change_label op1)) ops
                   @ (if iface = None \<and> js_trim firstPrefix \<noteq> ''''
                      then (let prefixOps = addRouterAdvertPrefixOps trimmedName
                                    (js_trim firstPrefix) \<lparr>arapo_noAutonomousFlag = False,
                                      arapo_noOnLinkFlag = False,
                                      arapo_deprecatePrefix = False,
                                      arapo_decrementLifetime = False,
                                      arapo_baseInterface = '''',
                                      arapo_preferredLifetime = '''',
                                      arapo_validLifetime = ''''\<rparr>
                            in map (\<lambda>op1. (op1, change_label op1)) prefixOps)
                      else [])
                   @ (if iface = None \<and> js_trim firstRoutePrefix \<noteq> ''''
                      then (let routeOps = addRouterAdvertRouteOps trimmedName
                                    (js_trim firstRoutePrefix)
                                    \<lparr>araro_validLifetime = '''',
                                        araro_routePreference = '''',
                                        araro_noRemoveRoute = False\<rparr>
                            in map (\<lambda>op1. (op1, change_label op1)) routeOps)
                      else []))))"

definition RouterAdvertList_InterfaceForm_values :: "RouterAdvertInterface option \<Rightarrow> RouterAdvertInterfaceFormValues" where
  "RouterAdvertList_InterfaceForm_values iface =
     (case iface of
        Some iface' \<Rightarrow> routerAdvertInterfaceToFormValues iface'
      | None \<Rightarrow> blankRouterAdvertInterfaceFormValues)"

definition RouterAdvertList_PrefixesSection_valid :: "RouterAdvertInterface \<Rightarrow> text_input \<Rightarrow> bool" where
  "RouterAdvertList_PrefixesSection_valid iface pfx =
     (let trimmedPrefix = js_trim pfx;
          taken = list_ex (\<lambda>p. rap_prefix p = trimmedPrefix) (rai_prefixes iface)
      in trimmedPrefix \<noteq> '''' \<and> \<not> taken)"

definition RouterAdvertList_PrefixesSection_submit ::
    "RouterAdvertInterface \<Rightarrow> text_input \<Rightarrow> bool \<Rightarrow> bool \<Rightarrow> text_input \<Rightarrow> text_input \<Rightarrow> (ConfigOp \<times> string) list" where
  "RouterAdvertList_PrefixesSection_submit iface pfx noAutonomousFlag noOnLinkFlag preferredLifetime validLifetime =
     (let trimmedPrefix = js_trim pfx
      in (if \<not> RouterAdvertList_PrefixesSection_valid iface pfx then []
          else (let ops = addRouterAdvertPrefixOps (rai_interfaceName iface) trimmedPrefix
                        \<lparr>arapo_noAutonomousFlag = noAutonomousFlag,
                            arapo_noOnLinkFlag = noOnLinkFlag,
                            arapo_deprecatePrefix = False,
                            arapo_decrementLifetime = False,
                            arapo_baseInterface = '''',
                            arapo_preferredLifetime = preferredLifetime,
                            arapo_validLifetime = validLifetime\<rparr>
                in map (\<lambda>op1. (op1, change_label op1)) ops)))"

definition RouterAdvertList_PrefixesSection_onClick ::
    "RouterAdvertInterface \<Rightarrow> RouterAdvertPrefix \<Rightarrow> (ConfigOp \<times> string) list" where
  "RouterAdvertList_PrefixesSection_onClick iface p =
     (let op1 = removeRouterAdvertPrefixOp (rai_interfaceName iface) (rap_prefix p)
      in [(op1, ''delete '' @ js_join '' '' (co_path op1))])"

definition RouterAdvertList_RoutesSection_valid :: "RouterAdvertInterface \<Rightarrow> text_input \<Rightarrow> bool" where
  "RouterAdvertList_RoutesSection_valid iface pfx =
     (let trimmedPrefix = js_trim pfx;
          taken = list_ex (\<lambda>r. rar_prefix r = trimmedPrefix) (rai_routes iface)
      in trimmedPrefix \<noteq> '''' \<and> \<not> taken)"

definition RouterAdvertList_RoutesSection_submit ::
    "RouterAdvertInterface \<Rightarrow> text_input \<Rightarrow> text_input \<Rightarrow> text_input \<Rightarrow> (ConfigOp \<times> string) list" where
  "RouterAdvertList_RoutesSection_submit iface pfx validLifetime routePreference =
     (let trimmedPrefix = js_trim pfx
      in (if \<not> RouterAdvertList_RoutesSection_valid iface pfx then []
          else (let ops = addRouterAdvertRouteOps (rai_interfaceName iface) trimmedPrefix
                        \<lparr>araro_validLifetime = validLifetime,
                            araro_routePreference = routePreference,
                            araro_noRemoveRoute = False\<rparr>
                in map (\<lambda>op1. (op1, change_label op1)) ops)))"

definition RouterAdvertList_RoutesSection_onClick ::
    "RouterAdvertInterface \<Rightarrow> RouterAdvertRoute \<Rightarrow> (ConfigOp \<times> string) list" where
  "RouterAdvertList_RoutesSection_onClick iface r =
     (let op1 = removeRouterAdvertRouteOp (rai_interfaceName iface) (rar_prefix r)
      in [(op1, ''delete '' @ js_join '' '' (co_path op1))])"

text \<open>\<open>components/service/SnmpSettings.tsx\<close>\<close>

definition SnmpSettings_onClick :: "(ConfigOp \<times> string) list" where
  "SnmpSettings_onClick =
     (let op1 = enableSNMPOp in [(op1, ''set '' @ js_join '' '' (co_path op1))])"

definition SnmpSettings_SnmpSettingsForm_save ::
    "SNMPConfig \<Rightarrow> SNMPSettingsFormValues \<Rightarrow> (ConfigOp \<times> string) list" where
  "SnmpSettings_SnmpSettingsForm_save config values =
     (let ops = snmpSettingsFormToOps config values
      in map (\<lambda>op1. (op1, change_label op1)) ops)"

definition SnmpSettings_SnmpSettingsForm_values :: "SNMPConfig \<Rightarrow> SNMPSettingsFormValues" where
  "SnmpSettings_SnmpSettingsForm_values config = snmpConfigToFormValues config"

definition SnmpSettings_SnmpSettingsForm_queueDisable :: "(ConfigOp \<times> string) list" where
  "SnmpSettings_SnmpSettingsForm_queueDisable =
     (let op1 = disableSNMPOp in [(op1, ''delete '' @ js_join '' '' (co_path op1))])"

definition SnmpSettings_CommunitiesSection_valid :: "SNMPConfig \<Rightarrow> text_input \<Rightarrow> bool" where
  "SnmpSettings_CommunitiesSection_valid config name =
     (let trimmedName = js_trim name;
          taken = list_ex (\<lambda>c. snmpc_name c = trimmedName) (sosnmpc_communities config)
      in trimmedName \<noteq> '''' \<and> \<not> taken)"

definition SnmpSettings_CommunitiesSection_submit ::
    "SNMPConfig \<Rightarrow> text_input \<Rightarrow> text_input \<Rightarrow> (ConfigOp \<times> string) list" where
  "SnmpSettings_CommunitiesSection_submit config name authorization =
     (let trimmedName = js_trim name
      in (if \<not> SnmpSettings_CommunitiesSection_valid config name then []
          else (let ops = addSNMPCommunityOps trimmedName authorization
                in map (\<lambda>op1. (op1, change_label op1)) ops)))"

definition SnmpSettings_CommunitiesSection_onClick :: "SNMPCommunity \<Rightarrow> (ConfigOp \<times> string) list" where
  "SnmpSettings_CommunitiesSection_onClick community =
     (let op1 = removeSNMPCommunityOp (snmpc_name community)
      in [(op1, ''delete '' @ js_join '' '' (co_path op1))])"

definition SnmpSettings_ListenAddressesSection_valid :: "SNMPConfig \<Rightarrow> text_input \<Rightarrow> bool" where
  "SnmpSettings_ListenAddressesSection_valid config address =
     (let trm = js_trim address;
          taken = list_ex (\<lambda>l. snmpla_address l = trm) (sosnmpc_listenAddresses config)
      in trm \<noteq> '''' \<and> \<not> taken)"

definition SnmpSettings_ListenAddressesSection_submit ::
    "SNMPConfig \<Rightarrow> text_input \<Rightarrow> text_input \<Rightarrow> (ConfigOp \<times> string) list" where
  "SnmpSettings_ListenAddressesSection_submit config address port =
     (let trm = js_trim address
      in (if \<not> SnmpSettings_ListenAddressesSection_valid config address then []
          else (let ops = addSNMPListenAddressOps trm port
                in map (\<lambda>op1. (op1, change_label op1)) ops)))"

definition SnmpSettings_ListenAddressesSection_onClick :: "SNMPListenAddress \<Rightarrow> (ConfigOp \<times> string) list" where
  "SnmpSettings_ListenAddressesSection_onClick la =
     (let op1 = removeSNMPListenAddressOp (snmpla_address la)
      in [(op1, ''delete '' @ js_join '' '' (co_path op1))])"

definition SnmpSettings_TrapTargetsSection_valid :: "SNMPConfig \<Rightarrow> text_input \<Rightarrow> bool" where
  "SnmpSettings_TrapTargetsSection_valid config address =
     (let trm = js_trim address;
          taken = list_ex (\<lambda>t. snmptt_address t = trm) (sosnmpc_trapTargets config)
      in trm \<noteq> '''' \<and> \<not> taken)"

definition SnmpSettings_TrapTargetsSection_submit ::
    "SNMPConfig \<Rightarrow> text_input \<Rightarrow> text_input \<Rightarrow> text_input \<Rightarrow> (ConfigOp \<times> string) list" where
  "SnmpSettings_TrapTargetsSection_submit config address community port =
     (let trm = js_trim address
      in (if \<not> SnmpSettings_TrapTargetsSection_valid config address then []
          else (let ops = addSNMPTrapTargetOps trm community port
                in map (\<lambda>op1. (op1, change_label op1)) ops)))"

definition SnmpSettings_TrapTargetsSection_onClick :: "SNMPTrapTarget \<Rightarrow> (ConfigOp \<times> string) list" where
  "SnmpSettings_TrapTargetsSection_onClick t =
     (let op1 = removeSNMPTrapTargetOp (snmptt_address t)
      in [(op1, ''delete '' @ js_join '' '' (co_path op1))])"

text \<open>\<open>components/service/Snmpv3Section.tsx\<close>\<close>

definition Snmpv3Section_EngineIdField_save ::
    "SNMPv3Config \<Rightarrow> text_input \<Rightarrow> (ConfigOp \<times> string) list" where
  "Snmpv3Section_EngineIdField_save v3 val =
     (let ops = snmpV3EngineIdFormToOps (snmpca_engineId v3) val
      in map (\<lambda>op1. (op1, change_label op1)) ops)"

definition Snmpv3Section_GroupsSection_valid :: "SNMPv3Config \<Rightarrow> text_input \<Rightarrow> bool" where
  "Snmpv3Section_GroupsSection_valid v3 name =
     (let trm = js_trim name;
          taken = list_ex (\<lambda>g. snmpg_name g = trm) (snmpca_groups v3)
      in trm \<noteq> '''' \<and> \<not> taken)"

definition Snmpv3Section_GroupsSection_submit ::
    "SNMPv3Config \<Rightarrow> text_input \<Rightarrow> text_input \<Rightarrow> text_input \<Rightarrow> text_input \<Rightarrow> (ConfigOp \<times> string) list" where
  "Snmpv3Section_GroupsSection_submit v3 name mode seclevel view =
     (let trm = js_trim name
      in (if \<not> Snmpv3Section_GroupsSection_valid v3 name then []
          else (let ops = addSNMPv3GroupOps trm mode seclevel view
                in map (\<lambda>op1. (op1, change_label op1)) ops)))"

definition Snmpv3Section_GroupsSection_onClick :: "SNMPv3Group \<Rightarrow> (ConfigOp \<times> string) list" where
  "Snmpv3Section_GroupsSection_onClick g =
     (let op1 = removeSNMPv3GroupOp (snmpg_name g)
      in [(op1, ''delete '' @ js_join '' '' (co_path op1))])"

definition Snmpv3Section_UsersSection_valid :: "SNMPv3Config \<Rightarrow> text_input \<Rightarrow> bool" where
  "Snmpv3Section_UsersSection_valid v3 name =
     (let trm = js_trim name;
          taken = list_ex (\<lambda>u. snmpu_name u = trm) (snmpca_users v3)
      in trm \<noteq> '''' \<and> \<not> taken)"

definition Snmpv3Section_UsersSection_submit ::
    "SNMPv3Config \<Rightarrow> text_input \<Rightarrow> text_input \<Rightarrow> text_input \<Rightarrow> text_input \<Rightarrow> text_input \<Rightarrow> text_input \<Rightarrow> text_input \<Rightarrow> (ConfigOp \<times> string) list" where
  "Snmpv3Section_UsersSection_submit v3 name grp mode authPassword authType privacyPassword privacyType =
     (let trm = js_trim name
      in (if \<not> Snmpv3Section_UsersSection_valid v3 name then []
          else (let ops = addSNMPv3UserOps trm \<lparr>snmpufo_authPassword = authPassword,
                          snmpufo_authType = authType,
                          snmpufo_group = grp,
                          snmpufo_mode = mode,
                          snmpufo_privacyPassword = privacyPassword,
                          snmpufo_privacyType = privacyType\<rparr>
                in map (\<lambda>op1. (op1, change_label op1)) ops)))"

definition Snmpv3Section_UsersSection_onClick :: "SNMPv3User \<Rightarrow> (ConfigOp \<times> string) list" where
  "Snmpv3Section_UsersSection_onClick u =
     (let op1 = removeSNMPv3UserOp (snmpu_name u)
      in [(op1, ''delete '' @ js_join '' '' (co_path op1))])"

definition Snmpv3Section_ViewsSection_valid :: "SNMPv3Config \<Rightarrow> text_input \<Rightarrow> bool" where
  "Snmpv3Section_ViewsSection_valid v3 name =
     (let trm = js_trim name;
          taken = list_ex (\<lambda>v. snmpv_name v = trm) (snmpca_views v3)
      in trm \<noteq> '''' \<and> \<not> taken)"

definition Snmpv3Section_ViewsSection_submit ::
    "SNMPv3Config \<Rightarrow> text_input \<Rightarrow> (ConfigOp \<times> string) list" where
  "Snmpv3Section_ViewsSection_submit v3 name =
     (let trm = js_trim name
      in (if \<not> Snmpv3Section_ViewsSection_valid v3 name then []
          else (let op1 = addSNMPv3ViewOp trm in [(op1, ''set '' @ js_join '' '' (co_path op1))])))"

definition Snmpv3Section_ViewsSection_onClick :: "SNMPv3View \<Rightarrow> (ConfigOp \<times> string) list" where
  "Snmpv3Section_ViewsSection_onClick view =
     (let op1 = removeSNMPv3ViewOp (snmpv_name view)
      in [(op1, ''delete '' @ js_join '' '' (co_path op1))])"

definition Snmpv3Section_ViewOids_valid :: "SNMPv3View \<Rightarrow> text_input \<Rightarrow> bool" where
  "Snmpv3Section_ViewOids_valid view oid =
     (let trm = js_trim oid;
          taken = list_ex (\<lambda>o1. snmpvo_oid o1 = trm) (snmpv_oids view)
      in trm \<noteq> '''' \<and> \<not> taken)"

definition Snmpv3Section_ViewOids_submit ::
    "SNMPv3View \<Rightarrow> text_input \<Rightarrow> text_input \<Rightarrow> (ConfigOp \<times> string) list" where
  "Snmpv3Section_ViewOids_submit view oid msk =
     (let trm = js_trim oid
      in (if \<not> Snmpv3Section_ViewOids_valid view oid then []
          else (let ops = addSNMPv3ViewOidOps (snmpv_name view) trm msk
                in map (\<lambda>op1. (op1, change_label op1)) ops)))"

definition Snmpv3Section_ViewOids_onClick ::
    "SNMPv3View \<Rightarrow> SNMPv3ViewOid \<Rightarrow> (ConfigOp \<times> string) list" where
  "Snmpv3Section_ViewOids_onClick view o1 =
     (let op1 = removeSNMPv3ViewOidOp (snmpv_name view) (snmpvo_oid o1)
      in [(op1, ''delete '' @ js_join '' '' (co_path op1))])"

definition Snmpv3Section_V3TrapTargetsSection_valid :: "SNMPv3Config \<Rightarrow> text_input \<Rightarrow> bool" where
  "Snmpv3Section_V3TrapTargetsSection_valid v3 address =
     (let trm = js_trim address;
          taken = list_ex (\<lambda>t. sosnmptt_address t = trm) (snmpca_trapTargets v3)
      in trm \<noteq> '''' \<and> \<not> taken)"

definition Snmpv3Section_V3TrapTargetsSection_submit ::
    "SNMPv3Config \<Rightarrow> text_input \<Rightarrow> text_input \<Rightarrow> text_input \<Rightarrow> text_input \<Rightarrow> text_input \<Rightarrow> text_input \<Rightarrow> text_input \<Rightarrow> text_input \<Rightarrow> text_input \<Rightarrow> (ConfigOp \<times> string) list" where
  "Snmpv3Section_V3TrapTargetsSection_submit v3 address authPassword authType privacyPassword privacyType port protocol ty user =
     (let trm = js_trim address
      in (if \<not> Snmpv3Section_V3TrapTargetsSection_valid v3 address then []
          else (let ops = addSNMPv3TrapTargetOps trm \<lparr>snmpttfo_authPassword = authPassword,
                          snmpttfo_authType = authType,
                          snmpttfo_privacyPassword = privacyPassword,
                          snmpttfo_privacyType = privacyType,
                          snmpttfo_port = port,
                          snmpttfo_protocol = protocol,
                          snmpttfo_type = ty,
                          snmpttfo_user = user\<rparr>
                in map (\<lambda>op1. (op1, change_label op1)) ops)))"

definition Snmpv3Section_V3TrapTargetsSection_onClick :: "SNMPv3TrapTarget \<Rightarrow> (ConfigOp \<times> string) list" where
  "Snmpv3Section_V3TrapTargetsSection_onClick t =
     (let op1 = removeSNMPv3TrapTargetOp (sosnmptt_address t)
      in [(op1, ''delete '' @ js_join '' '' (co_path op1))])"

text \<open>\<open>components/service/SshSettings.tsx\<close>\<close>

definition SshSettings_onClick :: "(ConfigOp \<times> string) list" where
  "SshSettings_onClick = (let op1 = enableSSHOp in [(op1, ''set '' @ js_join '' '' (co_path op1))])"

definition SshSettings_SshSettingsForm_save ::
    "SSHConfig \<Rightarrow> SSHFormValues \<Rightarrow> (ConfigOp \<times> string) list" where
  "SshSettings_SshSettingsForm_save config values =
     (let ops = sshFormToOps config values in map (\<lambda>op1. (op1, change_label op1)) ops)"

definition SshSettings_SshSettingsForm_values :: "SSHConfig \<Rightarrow> SSHFormValues" where
  "SshSettings_SshSettingsForm_values config = sshConfigToFormValues config"

definition SshSettings_SshSettingsForm_queueDisable :: "(ConfigOp \<times> string) list" where
  "SshSettings_SshSettingsForm_queueDisable =
     (let op1 = disableSSHOp in [(op1, ''delete '' @ js_join '' '' (co_path op1))])"

text \<open>\<open>components/service/TftpSettings.tsx\<close>\<close>

definition TftpSettings_onClick :: "(ConfigOp \<times> string) list" where
  "TftpSettings_onClick =
     (let op1 = enableTFTPServerOp in [(op1, ''set '' @ js_join '' '' (co_path op1))])"

definition TftpSettings_TftpSettingsForm_save ::
    "TFTPServerConfig \<Rightarrow> TFTPServerFormValues \<Rightarrow> (ConfigOp \<times> string) list" where
  "TftpSettings_TftpSettingsForm_save config values =
     (let ops = tftpServerFormToOps config values in map (\<lambda>op1. (op1, change_label op1)) ops)"

definition TftpSettings_TftpSettingsForm_values :: "TFTPServerConfig \<Rightarrow> TFTPServerFormValues" where
  "TftpSettings_TftpSettingsForm_values config = tftpConfigToFormValues config"

definition TftpSettings_TftpSettingsForm_queueDisable :: "(ConfigOp \<times> string) list" where
  "TftpSettings_TftpSettingsForm_queueDisable =
     (let op1 = disableTFTPServerOp in [(op1, ''delete '' @ js_join '' '' (co_path op1))])"

definition TftpSettings_ListenAddressesSection_valid :: "TFTPServerConfig \<Rightarrow> text_input \<Rightarrow> bool" where
  "TftpSettings_ListenAddressesSection_valid config address =
     (let trm = js_trim address;
          taken = list_ex (\<lambda>l. tftpla_address l = trm) (tftpsc_listenAddresses config)
      in trm \<noteq> '''' \<and> \<not> taken)"

definition TftpSettings_ListenAddressesSection_submit ::
    "TFTPServerConfig \<Rightarrow> text_input \<Rightarrow> text_input \<Rightarrow> (ConfigOp \<times> string) list" where
  "TftpSettings_ListenAddressesSection_submit config address vrf =
     (let trm = js_trim address
      in (if \<not> TftpSettings_ListenAddressesSection_valid config address then []
          else (let ops = addTFTPListenAddressOps trm vrf
                in map (\<lambda>op1. (op1, change_label op1)) ops)))"

definition TftpSettings_ListenAddressesSection_onClick :: "TFTPListenAddress \<Rightarrow> (ConfigOp \<times> string) list" where
  "TftpSettings_ListenAddressesSection_onClick la =
     (let op1 = removeTFTPListenAddressOp (tftpla_address la)
      in [(op1, ''delete '' @ js_join '' '' (co_path op1))])"

subsection \<open>What the editors queue\<close>

lemma DhcpRelaySettings_V4Settings_save_ok [ok_rules]: "ops_ok [''service''] (map fst (DhcpRelaySettings_V4Settings_save config values))"
  by (auto simp: DhcpRelaySettings_V4Settings_save_def dhcpRelaySettingsFormToOps_def dhcpRelayPath_def dhcpRelaySettingsForm_fields_def dhcpRelayOptionsPath_def
      Let_def ok_rules diffToOps_ok_paths o_def case_prod_beta split: option.splits if_splits)

lemma LldpList_LldpEnabled_saveGeneral_ok [ok_rules]: "ops_ok [''service''] (map fst (LldpList_LldpEnabled_saveGeneral config values))"
  by (auto simp: LldpList_LldpEnabled_saveGeneral_def lldpGeneralFormToOps_def lldpGeneralForm_flags_def lldpPath_def
      Let_def ok_rules diffToOps_ok_paths o_def case_prod_beta split: option.splits if_splits)

lemma SshSettings_SshSettingsForm_save_ok [ok_rules]: "ops_ok [''service''] (map fst (SshSettings_SshSettingsForm_save config values))"
  by (auto simp: SshSettings_SshSettingsForm_save_def sshFormToOps_def SERVICE_SSH_FLAG_FIELDS_def SERVICE_SSH_SCALAR_FIELDS_def sshDynamicProtectionPath_def sshPath_def sshRekeyPath_def
      Let_def ok_rules diffToOps_ok_paths o_def case_prod_beta split: option.splits if_splits)

inductive services_editor :: "string \<Rightarrow> (ConfigOp \<times> string) list \<Rightarrow> bool" where
  "services_editor ''service'' (BroadcastRelayList_onClick)"
| "services_editor ''service'' (BroadcastRelayList_BroadcastRelayEnabled_queueDelete i)"
| "services_editor ''service'' (BroadcastRelayList_BroadcastRelayEnabled_queueDisable)"
| "services_editor ''service'' (BroadcastRelayList_BroadcastRelayEnabled_toggleServiceDisable config)"
| "services_editor ''service'' (BroadcastRelayList_InstanceForm_submit instance1 existingIds i values)"
| "services_editor ''service'' (ConsoleServerList_onClick)"
| "services_editor ''service'' (ConsoleServerList_ConsoleServerEnabled_queueDelete name)"
| "services_editor ''service'' (ConsoleServerList_ConsoleServerEnabled_queueDisable)"
| "services_editor ''service'' (ConsoleServerList_DeviceForm_submit device1 existingNames name values)"
| "services_editor ''service'' (DhcpRelaySettings_V4Settings_save config values)"
| "services_editor ''service'' (DhcpRelaySettings_V6Settings_save config values)"
| "services_editor ''service'' (DhcpRelaySettings_ListenInterfaces_submit config interfaceName address)"
| "services_editor ''service'' (DhcpRelaySettings_ListenInterfaces_onClick li)"
| "services_editor ''service'' (DhcpRelaySettings_UpstreamInterfaces_submit config interfaceName)"
| "services_editor ''service'' (DhcpRelaySettings_UpstreamInterfaces_onClick ui)"
| "services_editor ''service'' (Dhcpv6ServerSettings_onClick)"
| "services_editor ''service'' (Dhcpv6ServerSettings_Dhcpv6ServerSettingsForm_save config values)"
| "services_editor ''service'' (Dhcpv6ServerSettings_Dhcpv6ServerSettingsForm_queueDisable)"
| "services_editor ''service'' (Dhcpv6ServerSettings_SharedNetworkList_queueDelete name)"
| "services_editor ''service'' (Dhcpv6ServerSettings_SharedNetworkForm_submit network existingNames name values firstSubnetCidr firstSubnetId firstRangeStart firstRangeStop)"
| "services_editor ''service'' (Dhcpv6SubnetDetails_queueDelete network cidr)"
| "services_editor ''service'' (Dhcpv6SubnetDetails_SubnetForm_submit networkName subnet existingCidrs cidr values)"
| "services_editor ''service'' (Dhcpv6SubnetDetails_RangesSection_submit networkName subnet i pfx start stop)"
| "services_editor ''service'' (Dhcpv6SubnetDetails_RangesSection_onClick networkName subnet r)"
| "services_editor ''service'' (Dhcpv6SubnetDetails_StaticMappingsSection_submit networkName subnet hostname mac duid)"
| "services_editor ''service'' (Dhcpv6SubnetDetails_StaticMappingsSection_onClick networkName subnet m)"
| "services_editor ''service'' (Dhcpv6SubnetDetails_PrefixDelegationsSection_submit networkName subnet pfx prefixLength delegatedLength)"
| "services_editor ''service'' (Dhcpv6SubnetDetails_PrefixDelegationsSection_onClick networkName subnet pd)"
| "services_editor ''service'' (DnsForwardingSettings_onClick)"
| "services_editor ''service'' (DnsForwardingSettings_DnsForwardingSettingsForm_save config values)"
| "services_editor ''service'' (DnsForwardingSettings_DnsForwardingSettingsForm_queueDisable)"
| "services_editor ''service'' (DnsForwardingSettings_DomainsSection_submit config fqdn addnta recursionDesired)"
| "services_editor ''service'' (DnsForwardingSettings_DomainsSection_queueDelete domainFqdn)"
| "services_editor ''service'' (DynamicDnsList_queueDelete name)"
| "services_editor ''service'' (DynamicDnsList_EntryForm_submit entry existingNames name values)"
| "services_editor ''service'' (DynamicDnsList_GlobalSettings_save config values)"
| "services_editor ''service'' (EventHandlerList_onClick)"
| "services_editor ''service'' (EventHandlerList_EventHandlerEnabled_queueDelete name)"
| "services_editor ''service'' (EventHandlerList_EventHandlerEnabled_queueDisable)"
| "services_editor ''service'' (EventHandlerList_EventForm_submit event existingNames name values)"
| "services_editor ''service'' (HttpsSettings_onClick)"
| "services_editor ''service'' (HttpsSettings_HttpsSettingsForm_queueDisable)"
| "services_editor ''service'' (HttpsSettings_ApiKeysSection_submit config i key)"
| "services_editor ''service'' (HttpsSettings_ApiKeysSection_onClick apiKey)"
| "services_editor ''service'' (LldpList_onClick)"
| "services_editor ''service'' (LldpList_LldpEnabled_saveGeneral config values)"
| "services_editor ''service'' (LldpList_LldpEnabled_queueDelete name)"
| "services_editor ''service'' (LldpList_LldpEnabled_queueDisable)"
| "services_editor ''service'' (LldpList_InterfaceForm_submit iface existingNames interfaceName values)"
| "services_editor ''service'' (MdnsSettings_onClick)"
| "services_editor ''service'' (MdnsSettings_MdnsSettingsForm_save config values)"
| "services_editor ''service'' (MdnsSettings_MdnsSettingsForm_queueDisable)"
| "services_editor ''service'' (MonitoringSettings_NodeExporterSection_save config values)"
| "services_editor ''service'' (MonitoringSettings_NodeExporterSection_queueDisable)"
| "services_editor ''service'' (MonitoringSettings_NodeExporterSection_onClick)"
| "services_editor ''service'' (MonitoringSettings_FrrExporterSection_save config values)"
| "services_editor ''service'' (MonitoringSettings_FrrExporterSection_queueDisable)"
| "services_editor ''service'' (MonitoringSettings_FrrExporterSection_onClick)"
| "services_editor ''service'' (MonitoringSettings_ZabbixAgentSection_onClick)"
| "services_editor ''service'' (MonitoringSettings_ZabbixAgentForm_save zabbix values)"
| "services_editor ''service'' (MonitoringSettings_ZabbixAgentForm_queueDisable)"
| "services_editor ''service'' (MonitoringSettings_ServerActiveSection_submit zabbix address port)"
| "services_editor ''service'' (MonitoringSettings_ServerActiveSection_onClick s)"
| "services_editor ''service'' (MonitoringSettings_NetworkEventSection_onClick)"
| "services_editor ''service'' (MonitoringSettings_NetworkEventForm_save networkEvent values)"
| "services_editor ''service'' (MonitoringSettings_NetworkEventForm_queueDisable)"
| "services_editor ''service'' (NdpProxyList_onClick)"
| "services_editor ''service'' (NdpProxyList_NdpProxyEnabled_queueDelete name)"
| "services_editor ''service'' (NdpProxyList_NdpProxyEnabled_queueDisable)"
| "services_editor ''service'' (NdpProxyList_InterfaceForm_submit iface existingNames interfaceName values firstPrefix firstPrefixMode firstPrefixInterfaceRef)"
| "services_editor ''service'' (NdpProxyList_PrefixesSection_submit iface pfx mode interfaceRef)"
| "services_editor ''service'' (NdpProxyList_PrefixesSection_onClick iface p)"
| "services_editor ''service'' (NtpSettings_ServersSection_submit config address flags)"
| "services_editor ''service'' (NtpSettings_ServersSection_queueRemove serverAddress)"
| "services_editor ''service'' (NtpSettings_GeneralSettings_save config values)"
| "services_editor ''service'' (RouterAdvertList_queueDelete name)"
| "services_editor ''service'' (RouterAdvertList_InterfaceForm_submit iface existingNames interfaceName values firstPrefix firstRoutePrefix)"
| "services_editor ''service'' (RouterAdvertList_PrefixesSection_submit iface pfx noAutonomousFlag noOnLinkFlag preferredLifetime validLifetime)"
| "services_editor ''service'' (RouterAdvertList_PrefixesSection_onClick iface p)"
| "services_editor ''service'' (RouterAdvertList_RoutesSection_submit iface pfx validLifetime routePreference)"
| "services_editor ''service'' (RouterAdvertList_RoutesSection_onClick iface r)"
| "services_editor ''service'' (SnmpSettings_onClick)"
| "services_editor ''service'' (SnmpSettings_SnmpSettingsForm_save config values)"
| "services_editor ''service'' (SnmpSettings_SnmpSettingsForm_queueDisable)"
| "services_editor ''service'' (SnmpSettings_CommunitiesSection_submit config name authorization)"
| "services_editor ''service'' (SnmpSettings_CommunitiesSection_onClick community)"
| "services_editor ''service'' (SnmpSettings_ListenAddressesSection_submit config address port)"
| "services_editor ''service'' (SnmpSettings_ListenAddressesSection_onClick la)"
| "services_editor ''service'' (SnmpSettings_TrapTargetsSection_submit config address community port)"
| "services_editor ''service'' (SnmpSettings_TrapTargetsSection_onClick t)"
| "services_editor ''service'' (Snmpv3Section_EngineIdField_save v3 val)"
| "services_editor ''service'' (Snmpv3Section_GroupsSection_submit v3 name mode seclevel view)"
| "services_editor ''service'' (Snmpv3Section_GroupsSection_onClick g)"
| "services_editor ''service'' (Snmpv3Section_UsersSection_submit v3 name grp mode authPassword authType privacyPassword privacyType)"
| "services_editor ''service'' (Snmpv3Section_UsersSection_onClick u)"
| "services_editor ''service'' (Snmpv3Section_ViewsSection_submit v3 name)"
| "services_editor ''service'' (Snmpv3Section_ViewsSection_onClick view)"
| "services_editor ''service'' (Snmpv3Section_ViewOids_submit view oid msk)"
| "services_editor ''service'' (Snmpv3Section_ViewOids_onClick view o1)"
| "services_editor ''service'' (Snmpv3Section_V3TrapTargetsSection_submit v3 address authPassword authType privacyPassword privacyType port protocol ty user)"
| "services_editor ''service'' (Snmpv3Section_V3TrapTargetsSection_onClick t)"
| "services_editor ''service'' (SshSettings_onClick)"
| "services_editor ''service'' (SshSettings_SshSettingsForm_save config values)"
| "services_editor ''service'' (SshSettings_SshSettingsForm_queueDisable)"
| "services_editor ''service'' (TftpSettings_onClick)"
| "services_editor ''service'' (TftpSettings_TftpSettingsForm_save config values)"
| "services_editor ''service'' (TftpSettings_TftpSettingsForm_queueDisable)"
| "services_editor ''service'' (TftpSettings_ListenAddressesSection_submit config address vrf)"
| "services_editor ''service'' (TftpSettings_ListenAddressesSection_onClick la)"

lemmas services_editor_defs =
  BroadcastRelayList_onClick_def enableBroadcastRelayOp_def broadcastRelayPath_def
  BroadcastRelayList_BroadcastRelayEnabled_queueDelete_def deleteBroadcastRelayInstanceOp_def
  broadcastRelayInstancePath_def BroadcastRelayList_BroadcastRelayEnabled_queueDisable_def
  disableBroadcastRelayOp_def BroadcastRelayList_BroadcastRelayEnabled_toggleServiceDisable_def
  toggleBroadcastRelayServiceDisableOp_def BroadcastRelayList_InstanceForm_submit_def
  broadcastRelayInstanceFormToOps_def BroadcastRelayList_InstanceForm_canSubmit_def
  ConsoleServerList_onClick_def enableConsoleServerOp_def consoleServerPath_def
  ConsoleServerList_ConsoleServerEnabled_queueDelete_def deleteConsoleServerDeviceOp_def
  consoleServerDevicePath_def ConsoleServerList_ConsoleServerEnabled_queueDisable_def
  disableConsoleServerOp_def ConsoleServerList_DeviceForm_submit_def
  consoleServerDeviceFormToOps_def ConsoleServerList_DeviceForm_canSubmit_def
  DhcpRelaySettings_V6Settings_save_def dhcpv6RelaySettingsFormToOps_def dhcpv6RelayPath_def
  DhcpRelaySettings_ListenInterfaces_submit_def addDHCPv6RelayListenInterfaceOps_def
  dhcpv6RelayListenInterfacePath_def DhcpRelaySettings_ListenInterfaces_valid_def
  DhcpRelaySettings_ListenInterfaces_onClick_def removeDHCPv6RelayListenInterfaceOp_def
  DhcpRelaySettings_UpstreamInterfaces_submit_def addDHCPv6RelayUpstreamInterfaceOp_def
  dhcpv6RelayUpstreamInterfacePath_def DhcpRelaySettings_UpstreamInterfaces_valid_def
  DhcpRelaySettings_UpstreamInterfaces_onClick_def removeDHCPv6RelayUpstreamInterfaceOp_def
  Dhcpv6ServerSettings_onClick_def enableDHCPv6ServerOp_def dhcpv6ServerPath_def
  Dhcpv6ServerSettings_Dhcpv6ServerSettingsForm_save_def dhcpv6GlobalFormToOps_def
  Dhcpv6ServerSettings_Dhcpv6ServerSettingsForm_queueDisable_def disableDHCPv6ServerOp_def
  Dhcpv6ServerSettings_SharedNetworkList_queueDelete_def deleteDHCPv6SharedNetworkOp_def
  dhcpv6SharedNetworkPath_def Dhcpv6ServerSettings_SharedNetworkForm_submit_def
  dhcpv6SharedNetworkFormToOps_def Dhcpv6ServerSettings_SharedNetworkForm_canSubmit_def
  dhcpv6RangePath_def dhcpv6SubnetPath_def Dhcpv6SubnetDetails_queueDelete_def
  deleteDHCPv6SubnetOp_def Dhcpv6SubnetDetails_SubnetForm_submit_def
  Dhcpv6SubnetDetails_SubnetForm_canSubmit_def dhcpv6SubnetFormToOps_def
  Dhcpv6SubnetDetails_RangesSection_submit_def addDHCPv6RangeOps_def
  Dhcpv6SubnetDetails_RangesSection_valid_def Dhcpv6SubnetDetails_RangesSection_onClick_def
  removeDHCPv6RangeOp_def Dhcpv6SubnetDetails_StaticMappingsSection_submit_def
  Dhcpv6SubnetDetails_StaticMappingsSection_valid_def addDHCPv6StaticMappingOps_def
  dhcpv6StaticMappingPath_def Dhcpv6SubnetDetails_StaticMappingsSection_onClick_def
  removeDHCPv6StaticMappingOp_def Dhcpv6SubnetDetails_PrefixDelegationsSection_submit_def
  addDHCPv6PrefixDelegationOps_def dhcpv6PrefixDelegationPath_def
  Dhcpv6SubnetDetails_PrefixDelegationsSection_valid_def
  Dhcpv6SubnetDetails_PrefixDelegationsSection_onClick_def removeDHCPv6PrefixDelegationOp_def
  DnsForwardingSettings_onClick_def enableDNSForwardingOp_def dnsForwardingPath_def
  DnsForwardingSettings_DnsForwardingSettingsForm_save_def dnsForwardingSettingsFormToOps_def
  DnsForwardingSettings_DnsForwardingSettingsForm_queueDisable_def disableDNSForwardingOp_def
  DnsForwardingSettings_DomainsSection_submit_def dnsForwardingDomainFormToOps_def
  dnsForwardingDomainPath_def DnsForwardingSettings_DomainsSection_valid_def
  DnsForwardingSettings_DomainsSection_queueDelete_def deleteDNSForwardingDomainOp_def
  DynamicDnsList_queueDelete_def deleteDynamicDNSEntryOp_def dynamicDnsEntryPath_def
  dynamicDnsPath_def DynamicDnsList_EntryForm_submit_def DynamicDnsList_EntryForm_canSubmit_def
  dynamicDNSEntryFormToOps_def DynamicDnsList_GlobalSettings_save_def
  dynamicDNSGlobalFormToOps_def EventHandlerList_onClick_def enableEventHandlerOp_def
  eventHandlerPath_def EventHandlerList_EventHandlerEnabled_queueDelete_def
  deleteEventHandlerEventOp_def eventHandlerEventPath_def
  EventHandlerList_EventHandlerEnabled_queueDisable_def disableEventHandlerOp_def
  EventHandlerList_EventForm_submit_def eventHandlerEventFormToOps_def
  EventHandlerList_EventForm_canSubmit_def HttpsSettings_onClick_def enableHTTPSOp_def
  httpsPath_def HttpsSettings_HttpsSettingsForm_queueDisable_def disableHTTPSOp_def
  HttpsSettings_ApiKeysSection_submit_def HttpsSettings_ApiKeysSection_valid_def
  addHTTPSAPIKeyOp_def httpsApiKeyPath_def HttpsSettings_ApiKeysSection_onClick_def
  removeHTTPSAPIKeyOp_def LldpList_onClick_def enableLLDPOp_def lldpPath_def
  LldpList_LldpEnabled_queueDelete_def deleteLLDPInterfaceOp_def lldpInterfacePath_def
  LldpList_LldpEnabled_queueDisable_def disableLLDPOp_def LldpList_InterfaceForm_submit_def
  LldpList_InterfaceForm_canSubmit_def lldpInterfaceFormToOps_def lldpInterfaceCoordinatePath_def
  lldpInterfaceElinPath_def MdnsSettings_onClick_def enableMdnsRepeaterOp_def mdnsRepeaterPath_def
  MdnsSettings_MdnsSettingsForm_save_def mdnsRepeaterFormToOps_def
  MdnsSettings_MdnsSettingsForm_queueDisable_def disableMdnsRepeaterOp_def
  MonitoringSettings_NodeExporterSection_save_def nodeExporterFormToOps_def
  prometheusNodeExporterPath_def monitoringPath_def
  MonitoringSettings_NodeExporterSection_queueDisable_def disableNodeExporterOp_def
  MonitoringSettings_NodeExporterSection_onClick_def enableNodeExporterOp_def
  MonitoringSettings_FrrExporterSection_save_def frrExporterFormToOps_def
  prometheusFrrExporterPath_def MonitoringSettings_FrrExporterSection_queueDisable_def
  disableFrrExporterOp_def MonitoringSettings_FrrExporterSection_onClick_def
  enableFrrExporterOp_def MonitoringSettings_ZabbixAgentSection_onClick_def
  enableZabbixAgentOp_def zabbixAgentPath_def MonitoringSettings_ZabbixAgentForm_save_def
  zabbixAgentFormToOps_def MonitoringSettings_ZabbixAgentForm_queueDisable_def
  disableZabbixAgentOp_def MonitoringSettings_ServerActiveSection_submit_def
  MonitoringSettings_ServerActiveSection_valid_def addZabbixServerActiveOps_def
  zabbixServerActivePath_def MonitoringSettings_ServerActiveSection_onClick_def
  removeZabbixServerActiveOp_def MonitoringSettings_NetworkEventSection_onClick_def
  enableNetworkEventOp_def networkEventPath_def MonitoringSettings_NetworkEventForm_save_def
  networkEventFormToOps_def MonitoringSettings_NetworkEventForm_queueDisable_def
  disableNetworkEventOp_def NdpProxyList_onClick_def enableNDPProxyOp_def ndpProxyPath_def
  NdpProxyList_NdpProxyEnabled_queueDelete_def deleteNDPProxyInterfaceOp_def
  ndpProxyInterfacePath_def NdpProxyList_NdpProxyEnabled_queueDisable_def disableNDPProxyOp_def
  NdpProxyList_InterfaceForm_submit_def addNDPProxyPrefixOps_def ndpProxyPrefixPath_def
  ndpProxyInterfaceFormToOps_def NdpProxyList_InterfaceForm_canSubmit_def
  NdpProxyList_PrefixesSection_submit_def NdpProxyList_PrefixesSection_valid_def
  NdpProxyList_PrefixesSection_onClick_def removeNDPProxyPrefixOp_def
  NtpSettings_ServersSection_submit_def addNTPServerOps_def ntpServerPath_def ntpPath_def
  NtpSettings_ServersSection_valid_def NtpSettings_ServersSection_queueRemove_def
  removeNTPServerOp_def NtpSettings_GeneralSettings_save_def ntpGeneralFormToOps_def
  RouterAdvertList_queueDelete_def deleteRouterAdvertInterfaceOp_def routerAdvertInterfacePath_def
  routerAdvertPath_def RouterAdvertList_InterfaceForm_submit_def addRouterAdvertRouteOps_def
  routerAdvertRoutePath_def routerAdvertInterfaceFormToOps_def addRouterAdvertPrefixOps_def
  routerAdvertPrefixPath_def RouterAdvertList_InterfaceForm_canSubmit_def
  RouterAdvertList_PrefixesSection_submit_def RouterAdvertList_PrefixesSection_valid_def
  RouterAdvertList_PrefixesSection_onClick_def removeRouterAdvertPrefixOp_def
  RouterAdvertList_RoutesSection_submit_def RouterAdvertList_RoutesSection_valid_def
  RouterAdvertList_RoutesSection_onClick_def removeRouterAdvertRouteOp_def
  SnmpSettings_onClick_def enableSNMPOp_def snmpPath_def SnmpSettings_SnmpSettingsForm_save_def
  snmpSettingsFormToOps_def SnmpSettings_SnmpSettingsForm_queueDisable_def disableSNMPOp_def
  SnmpSettings_CommunitiesSection_submit_def addSNMPCommunityOps_def snmpCommunityPath_def
  SnmpSettings_CommunitiesSection_valid_def SnmpSettings_CommunitiesSection_onClick_def
  removeSNMPCommunityOp_def SnmpSettings_ListenAddressesSection_submit_def
  SnmpSettings_ListenAddressesSection_valid_def addSNMPListenAddressOps_def
  snmpListenAddressPath_def SnmpSettings_ListenAddressesSection_onClick_def
  removeSNMPListenAddressOp_def SnmpSettings_TrapTargetsSection_submit_def
  SnmpSettings_TrapTargetsSection_valid_def addSNMPTrapTargetOps_def snmpTrapTargetPath_def
  SnmpSettings_TrapTargetsSection_onClick_def removeSNMPTrapTargetOp_def
  Snmpv3Section_EngineIdField_save_def snmpV3EngineIdFormToOps_def snmpV3Path_def
  Snmpv3Section_GroupsSection_submit_def Snmpv3Section_GroupsSection_valid_def
  addSNMPv3GroupOps_def snmpV3GroupPath_def Snmpv3Section_GroupsSection_onClick_def
  removeSNMPv3GroupOp_def Snmpv3Section_UsersSection_submit_def addSNMPv3UserOps_def
  snmpV3UserPath_def Snmpv3Section_UsersSection_valid_def Snmpv3Section_UsersSection_onClick_def
  removeSNMPv3UserOp_def Snmpv3Section_ViewsSection_submit_def
  Snmpv3Section_ViewsSection_valid_def addSNMPv3ViewOp_def snmpV3ViewPath_def
  Snmpv3Section_ViewsSection_onClick_def removeSNMPv3ViewOp_def Snmpv3Section_ViewOids_submit_def
  addSNMPv3ViewOidOps_def snmpV3ViewOidPath_def Snmpv3Section_ViewOids_valid_def
  Snmpv3Section_ViewOids_onClick_def removeSNMPv3ViewOidOp_def
  Snmpv3Section_V3TrapTargetsSection_submit_def addSNMPv3TrapTargetOps_def
  snmpV3TrapTargetPath_def Snmpv3Section_V3TrapTargetsSection_valid_def
  Snmpv3Section_V3TrapTargetsSection_onClick_def removeSNMPv3TrapTargetOp_def
  SshSettings_onClick_def enableSSHOp_def sshPath_def SshSettings_SshSettingsForm_queueDisable_def
  disableSSHOp_def TftpSettings_onClick_def enableTFTPServerOp_def tftpServerPath_def
  TftpSettings_TftpSettingsForm_save_def tftpServerFormToOps_def
  TftpSettings_TftpSettingsForm_queueDisable_def disableTFTPServerOp_def
  TftpSettings_ListenAddressesSection_submit_def TftpSettings_ListenAddressesSection_valid_def
  addTFTPListenAddressOps_def tftpListenAddressPath_def
  TftpSettings_ListenAddressesSection_onClick_def removeTFTPListenAddressOp_def

lemma services_editor_ok: "services_editor sec adds \<Longrightarrow> ops_ok [sec] (map fst adds)"
  by (induction rule: services_editor.induct)
    (auto simp: services_editor_defs Let_def ok_rules o_def case_prod_beta split: option.splits if_splits)

inductive services_untouched :: "(ConfigOp \<times> string) list \<Rightarrow> bool" where
  "services_untouched (BroadcastRelayList_InstanceForm_submit (Some instance1) existingIds i (BroadcastRelayList_InstanceForm_values (Some instance1)))"
| "services_untouched (ConsoleServerList_DeviceForm_submit (Some device1) existingNames name (ConsoleServerList_DeviceForm_values (Some device1)))"
| "services_untouched (DhcpRelaySettings_V4Settings_save config (DhcpRelaySettings_V4Settings_values config))"
| "services_untouched (DhcpRelaySettings_V6Settings_save config (DhcpRelaySettings_V6Settings_values config))"
| "services_untouched (Dhcpv6ServerSettings_Dhcpv6ServerSettingsForm_save config (Dhcpv6ServerSettings_Dhcpv6ServerSettingsForm_values config))"
| "services_untouched (Dhcpv6ServerSettings_SharedNetworkForm_submit (Some network) existingNames name (Dhcpv6ServerSettings_SharedNetworkForm_values (Some network)) firstSubnetCidr firstSubnetId firstRangeStart firstRangeStop)"
| "services_untouched (Dhcpv6SubnetDetails_SubnetForm_submit networkName (Some subnet) existingCidrs cidr (Dhcpv6SubnetDetails_SubnetForm_values (Some subnet)))"
| "services_untouched (DnsForwardingSettings_DnsForwardingSettingsForm_save config (DnsForwardingSettings_DnsForwardingSettingsForm_values config))"
| "services_untouched (DynamicDnsList_EntryForm_submit (Some entry) existingNames name (DynamicDnsList_EntryForm_values (Some entry)))"
| "services_untouched (DynamicDnsList_GlobalSettings_save config (DynamicDnsList_GlobalSettings_values config))"
| "services_untouched (EventHandlerList_EventForm_submit (Some event) existingNames name (EventHandlerList_EventForm_values (Some event)))"
| "services_untouched (HttpsSettings_HttpsSettingsForm_save config (HttpsSettings_HttpsSettingsForm_values config))"
| "services_untouched (LldpList_LldpEnabled_saveGeneral config (LldpList_LldpEnabled_values config))"
| "services_untouched (LldpList_InterfaceForm_submit (Some iface) existingNames interfaceName (LldpList_InterfaceForm_values (Some iface)))"
| "services_untouched (MdnsSettings_MdnsSettingsForm_save config (MdnsSettings_MdnsSettingsForm_values config))"
| "services_untouched (MonitoringSettings_NodeExporterSection_save config (MonitoringSettings_NodeExporterSection_values config))"
| "services_untouched (MonitoringSettings_FrrExporterSection_save config (MonitoringSettings_FrrExporterSection_values config))"
| "services_untouched (MonitoringSettings_NetworkEventForm_save networkEvent (MonitoringSettings_NetworkEventForm_values networkEvent))"
| "services_untouched (NdpProxyList_InterfaceForm_submit (Some iface) existingNames interfaceName (NdpProxyList_InterfaceForm_values (Some iface)) firstPrefix firstPrefixMode firstPrefixInterfaceRef)"
| "services_untouched (NtpSettings_GeneralSettings_save config (NtpSettings_GeneralSettings_values config))"
| "services_untouched (RouterAdvertList_InterfaceForm_submit (Some iface) existingNames interfaceName (RouterAdvertList_InterfaceForm_values (Some iface)) firstPrefix firstRoutePrefix)"
| "services_untouched (SnmpSettings_SnmpSettingsForm_save config (SnmpSettings_SnmpSettingsForm_values config))"
| "services_untouched (SshSettings_SshSettingsForm_save config (SshSettings_SshSettingsForm_values config))"
| "services_untouched (TftpSettings_TftpSettingsForm_save config (TftpSettings_TftpSettingsForm_values config))"

lemmas services_untouched_defs =
  BroadcastRelayList_InstanceForm_submit_def broadcastRelayInstanceFormToOps_def
  broadcastRelayInstancePath_def broadcastRelayPath_def
  BroadcastRelayList_InstanceForm_canSubmit_def BroadcastRelayList_InstanceForm_values_def
  ConsoleServerList_DeviceForm_submit_def consoleServerDeviceFormToOps_def
  consoleServerDevicePath_def consoleServerPath_def ConsoleServerList_DeviceForm_canSubmit_def
  ConsoleServerList_DeviceForm_values_def DhcpRelaySettings_V4Settings_save_def
  dhcpRelaySettingsFormToOps_def dhcpRelayPath_def DhcpRelaySettings_V4Settings_values_def
  DhcpRelaySettings_V6Settings_save_def dhcpv6RelaySettingsFormToOps_def dhcpv6RelayPath_def
  DhcpRelaySettings_V6Settings_values_def Dhcpv6ServerSettings_Dhcpv6ServerSettingsForm_save_def
  dhcpv6GlobalFormToOps_def dhcpv6ServerPath_def
  Dhcpv6ServerSettings_Dhcpv6ServerSettingsForm_values_def
  Dhcpv6ServerSettings_SharedNetworkForm_submit_def dhcpv6SharedNetworkFormToOps_def
  dhcpv6SharedNetworkPath_def Dhcpv6ServerSettings_SharedNetworkForm_canSubmit_def
  dhcpv6RangePath_def dhcpv6SubnetPath_def Dhcpv6ServerSettings_SharedNetworkForm_values_def
  Dhcpv6SubnetDetails_SubnetForm_submit_def Dhcpv6SubnetDetails_SubnetForm_canSubmit_def
  dhcpv6SubnetFormToOps_def Dhcpv6SubnetDetails_SubnetForm_values_def
  DnsForwardingSettings_DnsForwardingSettingsForm_save_def dnsForwardingSettingsFormToOps_def
  dnsForwardingPath_def DnsForwardingSettings_DnsForwardingSettingsForm_values_def
  DynamicDnsList_EntryForm_submit_def DynamicDnsList_EntryForm_canSubmit_def
  dynamicDNSEntryFormToOps_def dynamicDnsEntryPath_def dynamicDnsPath_def
  DynamicDnsList_EntryForm_values_def dynamicDNSEntryToFormValues_def
  DynamicDnsList_GlobalSettings_save_def dynamicDNSGlobalFormToOps_def
  DynamicDnsList_GlobalSettings_values_def EventHandlerList_EventForm_submit_def
  eventHandlerEventFormToOps_def eventHandlerEventPath_def eventHandlerPath_def
  EventHandlerList_EventForm_canSubmit_def EventHandlerList_EventForm_values_def
  HttpsSettings_HttpsSettingsForm_save_def httpsFormToOps_def httpsPath_def
  HttpsSettings_HttpsSettingsForm_values_def LldpList_LldpEnabled_saveGeneral_def
  lldpGeneralFormToOps_def LldpList_LldpEnabled_values_def LldpList_InterfaceForm_submit_def
  LldpList_InterfaceForm_canSubmit_def lldpInterfaceFormToOps_def lldpInterfacePath_def
  lldpPath_def lldpInterfaceCoordinatePath_def lldpInterfaceElinPath_def
  LldpList_InterfaceForm_values_def MdnsSettings_MdnsSettingsForm_save_def
  mdnsRepeaterFormToOps_def mdnsRepeaterPath_def MdnsSettings_MdnsSettingsForm_values_def
  MonitoringSettings_NodeExporterSection_save_def nodeExporterFormToOps_def
  prometheusNodeExporterPath_def monitoringPath_def
  MonitoringSettings_NodeExporterSection_values_def MonitoringSettings_FrrExporterSection_save_def
  frrExporterFormToOps_def prometheusFrrExporterPath_def
  MonitoringSettings_FrrExporterSection_values_def MonitoringSettings_NetworkEventForm_save_def
  networkEventFormToOps_def networkEventPath_def MonitoringSettings_NetworkEventForm_values_def
  NdpProxyList_InterfaceForm_submit_def addNDPProxyPrefixOps_def ndpProxyPrefixPath_def
  ndpProxyInterfacePath_def ndpProxyPath_def ndpProxyInterfaceFormToOps_def
  NdpProxyList_InterfaceForm_canSubmit_def NdpProxyList_InterfaceForm_values_def
  NtpSettings_GeneralSettings_save_def ntpGeneralFormToOps_def ntpPath_def
  NtpSettings_GeneralSettings_values_def RouterAdvertList_InterfaceForm_submit_def
  addRouterAdvertRouteOps_def routerAdvertRoutePath_def routerAdvertInterfacePath_def
  routerAdvertPath_def routerAdvertInterfaceFormToOps_def addRouterAdvertPrefixOps_def
  routerAdvertPrefixPath_def RouterAdvertList_InterfaceForm_canSubmit_def
  RouterAdvertList_InterfaceForm_values_def SnmpSettings_SnmpSettingsForm_save_def
  snmpSettingsFormToOps_def snmpPath_def SnmpSettings_SnmpSettingsForm_values_def
  SshSettings_SshSettingsForm_save_def sshFormToOps_def SshSettings_SshSettingsForm_values_def
  TftpSettings_TftpSettingsForm_save_def tftpServerFormToOps_def tftpServerPath_def
  TftpSettings_TftpSettingsForm_values_def

lemma services_untouched_nothing: "services_untouched adds \<Longrightarrow> adds = []"
  by (induction rule: services_untouched.induct)
    (auto simp: services_untouched_defs Let_def same_rules case_prod_beta split: option.splits if_splits)

inductive services_creates :: "string \<Rightarrow> string list \<Rightarrow> (ConfigOp \<times> string) list \<Rightarrow> bool" where
  "services_creates (js_trim i) existingIds (BroadcastRelayList_InstanceForm_submit None existingIds i values)"
| "services_creates (js_trim name) existingNames (ConsoleServerList_DeviceForm_submit None existingNames name values)"
| "services_creates (js_trim name) existingNames (Dhcpv6ServerSettings_SharedNetworkForm_submit None existingNames name values firstSubnetCidr firstSubnetId firstRangeStart firstRangeStop)"
| "services_creates (js_trim cidr) existingCidrs (Dhcpv6SubnetDetails_SubnetForm_submit networkName None existingCidrs cidr values)"
| "services_creates (js_trim name) existingNames (DynamicDnsList_EntryForm_submit None existingNames name values)"
| "services_creates (js_trim name) existingNames (EventHandlerList_EventForm_submit None existingNames name values)"
| "services_creates (js_trim interfaceName) existingNames (LldpList_InterfaceForm_submit None existingNames interfaceName values)"
| "services_creates (js_trim interfaceName) existingNames (NdpProxyList_InterfaceForm_submit None existingNames interfaceName values firstPrefix firstPrefixMode firstPrefixInterfaceRef)"
| "services_creates (js_trim interfaceName) existingNames (RouterAdvertList_InterfaceForm_submit None existingNames interfaceName values firstPrefix firstRoutePrefix)"

lemmas services_creates_defs =
  BroadcastRelayList_InstanceForm_submit_def BroadcastRelayList_InstanceForm_canSubmit_def
  ConsoleServerList_DeviceForm_submit_def ConsoleServerList_DeviceForm_canSubmit_def
  Dhcpv6ServerSettings_SharedNetworkForm_submit_def
  Dhcpv6ServerSettings_SharedNetworkForm_canSubmit_def Dhcpv6SubnetDetails_SubnetForm_submit_def
  Dhcpv6SubnetDetails_SubnetForm_canSubmit_def DynamicDnsList_EntryForm_submit_def
  DynamicDnsList_EntryForm_canSubmit_def EventHandlerList_EventForm_submit_def
  EventHandlerList_EventForm_canSubmit_def LldpList_InterfaceForm_submit_def
  LldpList_InterfaceForm_canSubmit_def NdpProxyList_InterfaceForm_submit_def
  NdpProxyList_InterfaceForm_canSubmit_def RouterAdvertList_InterfaceForm_submit_def
  RouterAdvertList_InterfaceForm_canSubmit_def

lemma services_creates_new: "services_creates n existing adds \<Longrightarrow> adds = [] \<or> n \<noteq> '''' \<and> n \<notin> set existing"
  by (induction rule: services_creates.induct) (auto simp: services_creates_defs Let_def rule_number_re_def no_blank)

end
