(* ===== verification/UiVpn.thy ===== *)
theory UiVpn
  imports Handlers VpnAccelPpp VpnIpsec VpnOpenconnect
begin

text \<open>
  The editors of the VPN pages: for each component the condition its button is
  enabled under, the values its form starts from, and the changes (op and label) its handlers queue.
  The arguments are the props and the state a handler reads. A handler's resets of its own input
  fields and the closing of its panel are left out; a callback prop such as \<open>onAdd\<close> is whether the
  parent passes one.
\<close>

text \<open>\<open>components/vpn/AccelPppAuthenticationSection.tsx\<close>\<close>

definition AccelPppAuthenticationSection_save ::
    "string \<Rightarrow> AccelPppConfig \<Rightarrow> AccelPppSettingsFormValues \<Rightarrow> (ConfigOp \<times> string) list" where
  "AccelPppAuthenticationSection_save kind config values =
     (let ops = accelPppSettingsFormToOps kind config values
      in map (\<lambda>op1. (op1, change_label op1)) ops)"

definition AccelPppAuthenticationSection_values :: "AccelPppConfig \<Rightarrow> AccelPppSettingsFormValues" where
  "AccelPppAuthenticationSection_values config = accelPppConfigToSettingsFormValues config"

text \<open>\<open>components/vpn/AccelPppClientIpPoolsSection.tsx\<close>\<close>

definition AccelPppClientIpPoolsSection_valid :: "AccelPppConfig \<Rightarrow> text_input \<Rightarrow> bool" where
  "AccelPppClientIpPoolsSection_valid config name =
     (let clientIpPools = apc_clientIpPools config;
          trimmedName = js_trim name;
          taken = list_ex (\<lambda>p. apcip_name p = trimmedName) clientIpPools
      in trimmedName \<noteq> '''' \<and> \<not> taken)"

definition AccelPppClientIpPoolsSection_submit ::
    "string \<Rightarrow> AccelPppConfig \<Rightarrow> text_input \<Rightarrow> text_input \<Rightarrow> text_input \<Rightarrow> (ConfigOp \<times> string) list" where
  "AccelPppClientIpPoolsSection_submit kind config name rangesText nextPool =
     (let trimmedName = js_trim name;
          ranges = filter (\<lambda>s. s \<noteq> '''') (map (\<lambda>r. js_trim r)
                 (js_split (CHR '','') rangesText))
      in (if \<not> AccelPppClientIpPoolsSection_valid config name then []
          else (let ops = addAccelPppClientIpPoolOps kind trimmedName
                        \<lparr>aapcipo_ranges = ranges, aapcipo_nextPool = nextPool\<rparr>
                in map (\<lambda>op1. (op1, change_label op1)) ops)))"

definition AccelPppClientIpPoolsSection_onClick ::
    "string \<Rightarrow> AccelPppClientIpPool \<Rightarrow> (ConfigOp \<times> string) list" where
  "AccelPppClientIpPoolsSection_onClick kind pool =
     (let op1 = removeAccelPppClientIpPoolOp kind (apcip_name pool)
      in [(op1, ''delete '' @ js_join '' '' (co_path op1))])"

text \<open>\<open>components/vpn/AccelPppClientIpv6PoolsSection.tsx\<close>\<close>

definition AccelPppClientIpv6PoolsSection_valid :: "AccelPppConfig \<Rightarrow> text_input \<Rightarrow> bool" where
  "AccelPppClientIpv6PoolsSection_valid config name =
     (let clientIpv6Pools = apc_clientIpv6Pools config;
          trimmedName = js_trim name;
          taken = list_ex (\<lambda>p. vaapcip_name p = trimmedName) clientIpv6Pools
      in trimmedName \<noteq> '''' \<and> \<not> taken)"

definition AccelPppClientIpv6PoolsSection_submit ::
    "string \<Rightarrow> AccelPppConfig \<Rightarrow> text_input \<Rightarrow> text_input \<Rightarrow> text_input \<Rightarrow> (ConfigOp \<times> string) list" where
  "AccelPppClientIpv6PoolsSection_submit kind config name firstPrefix firstPrefixMask =
     (let trimmedName = js_trim name
      in (if \<not> AccelPppClientIpv6PoolsSection_valid config name then []
          else (let op1 = set_flag (accelPppClientIpv6PoolPath kind trimmedName [])
                in [(op1, ''set '' @ js_join '' '' (co_path op1))]
                   @ (if js_trim firstPrefix \<noteq> ''''
                      then (let prefixOps = addAccelPppClientIpv6PoolPrefixOps kind trimmedName
                                    (js_trim firstPrefix) (js_trim firstPrefixMask)
                            in map
                                 (\<lambda>prefixOp. (prefixOp, op_name (co_op prefixOp) @ '' ''
                                       @ js_join '' '' (co_path prefixOp)
                                       @ ''${prefixOp.value ? '')) prefixOps)
                      else []))))"

definition AccelPppClientIpv6PoolsSection_onClick ::
    "string \<Rightarrow> AccelPppClientIpv6Pool \<Rightarrow> (ConfigOp \<times> string) list" where
  "AccelPppClientIpv6PoolsSection_onClick kind pool =
     (let op1 = removeAccelPppClientIpv6PoolOp kind (vaapcip_name pool)
      in [(op1, ''delete '' @ js_join '' '' (co_path op1))])"

text \<open>\<open>components/vpn/AccelPppIpv6PoolPrefixList.tsx\<close>\<close>

definition AccelPppIpv6PoolPrefixList_valid ::
    "AccelPppClientIpv6PoolPrefix list \<Rightarrow> text_input \<Rightarrow> bool" where
  "AccelPppIpv6PoolPrefixList_valid prefixes1 pfx =
     (let trimmedPrefix = js_trim pfx;
          taken = list_ex (\<lambda>p. apcipp_prefix p = trimmedPrefix) prefixes1
      in trimmedPrefix \<noteq> '''' \<and> \<not> taken)"

definition AccelPppIpv6PoolPrefixList_submit ::
    "string \<Rightarrow> string \<Rightarrow> AccelPppClientIpv6PoolPrefix list \<Rightarrow> text_input \<Rightarrow> text_input \<Rightarrow> (ConfigOp \<times> string) list" where
  "AccelPppIpv6PoolPrefixList_submit kind poolName prefixes1 pfx msk =
     (let trimmedPrefix = js_trim pfx
      in (if \<not> AccelPppIpv6PoolPrefixList_valid prefixes1 pfx then []
          else (let ops = addAccelPppClientIpv6PoolPrefixOps kind poolName trimmedPrefix msk
                in map (\<lambda>op1. (op1, change_label op1)) ops)))"

definition AccelPppIpv6PoolPrefixList_onClick ::
    "string \<Rightarrow> string \<Rightarrow> AccelPppClientIpv6PoolPrefix \<Rightarrow> (ConfigOp \<times> string) list" where
  "AccelPppIpv6PoolPrefixList_onClick kind poolName p =
     (let op1 = removeAccelPppClientIpv6PoolPrefixOp kind poolName (apcipp_prefix p)
      in [(op1, ''delete '' @ js_join '' '' (co_path op1))])"

text \<open>\<open>components/vpn/AccelPppLocalUsersSubsection.tsx\<close>\<close>

definition AccelPppLocalUsersSubsection_valid :: "AccelPppConfig \<Rightarrow> text_input \<Rightarrow> bool" where
  "AccelPppLocalUsersSubsection_valid config username =
     (let localUsers = apa_localUsers (apc_authentication config);
          trm = js_trim username;
          taken = list_ex (\<lambda>u. aplu_username u = trm) localUsers
      in trm \<noteq> '''' \<and> \<not> taken)"

definition AccelPppLocalUsersSubsection_submit ::
    "string \<Rightarrow> AccelPppConfig \<Rightarrow> text_input \<Rightarrow> text_input \<Rightarrow> text_input \<Rightarrow> text_input \<Rightarrow> text_input \<Rightarrow> (ConfigOp \<times> string) list" where
  "AccelPppLocalUsersSubsection_submit kind config username password staticIp rateLimitUpload rateLimitDownload =
     (let trm = js_trim username
      in (if \<not> AccelPppLocalUsersSubsection_valid config username then []
          else (let ops = addAccelPppLocalUserOps kind trm \<lparr>aplufo_password = password,
                          aplufo_staticIp = staticIp,
                          aplufo_rateLimitUpload = rateLimitUpload,
                          aplufo_rateLimitDownload = rateLimitDownload\<rparr>
                in map (\<lambda>op1. (op1, change_label op1)) ops)))"

definition AccelPppLocalUsersSubsection_onClick ::
    "string \<Rightarrow> AccelPppLocalUser \<Rightarrow> (ConfigOp \<times> string) list" where
  "AccelPppLocalUsersSubsection_onClick kind user =
     (let op1 = toggleAccelPppLocalUserDisabledOp kind (aplu_username user)
              (\<not> aplu_disabled user)
      in [(op1, op_name (co_op op1) @ '' '' @ js_join '' '' (co_path op1))])"

definition AccelPppLocalUsersSubsection_onClick2 ::
    "string \<Rightarrow> AccelPppLocalUser \<Rightarrow> (ConfigOp \<times> string) list" where
  "AccelPppLocalUsersSubsection_onClick2 kind user =
     (let op1 = removeAccelPppLocalUserOp kind (aplu_username user)
      in [(op1, ''delete '' @ js_join '' '' (co_path op1))])"

text \<open>\<open>components/vpn/AccelPppRadiusServersSubsection.tsx\<close>\<close>

definition AccelPppRadiusServersSubsection_valid :: "AccelPppConfig \<Rightarrow> text_input \<Rightarrow> bool" where
  "AccelPppRadiusServersSubsection_valid config address =
     (let servers = apr_servers (apa_radius (apc_authentication config));
          trimmedAddress = js_trim address;
          taken = list_ex (\<lambda>s. aprs_address s = trimmedAddress) servers
      in trimmedAddress \<noteq> '''' \<and> \<not> taken)"

definition AccelPppRadiusServersSubsection_submit ::
    "string \<Rightarrow> AccelPppConfig \<Rightarrow> text_input \<Rightarrow> text_input \<Rightarrow> text_input \<Rightarrow> (ConfigOp \<times> string) list" where
  "AccelPppRadiusServersSubsection_submit kind config address key port =
     (let trimmedAddress = js_trim address
      in (if \<not> AccelPppRadiusServersSubsection_valid config address then []
          else (let ops = addAccelPppRadiusServerOps kind trimmedAddress key port
                in map (\<lambda>op1. (op1, change_label op1)) ops)))"

definition AccelPppRadiusServersSubsection_onClick ::
    "string \<Rightarrow> AccelPppRadiusServer \<Rightarrow> (ConfigOp \<times> string) list" where
  "AccelPppRadiusServersSubsection_onClick kind server =
     (let op1 = removeAccelPppRadiusServerOp kind (aprs_address server)
      in [(op1, ''delete '' @ js_join '' '' (co_path op1))])"

text \<open>\<open>components/vpn/AccelPppServer.tsx\<close>\<close>

definition AccelPppServer_onClick :: "string \<Rightarrow> (ConfigOp \<times> string) list" where
  "AccelPppServer_onClick kind =
     (let op1 = enableAccelPppOp kind in [(op1, ''set '' @ js_join '' '' (co_path op1))])"

definition AccelPppServer_onClick2 :: "string \<Rightarrow> (ConfigOp \<times> string) list" where
  "AccelPppServer_onClick2 kind =
     (let op1 = disableAccelPppOp kind in [(op1, ''delete '' @ js_join '' '' (co_path op1))])"

text \<open>\<open>components/vpn/AccelPppSettingsSection.tsx\<close>\<close>

definition AccelPppSettingsSection_save ::
    "string \<Rightarrow> AccelPppConfig \<Rightarrow> AccelPppSettingsFormValues \<Rightarrow> (ConfigOp \<times> string) list" where
  "AccelPppSettingsSection_save kind config values =
     (let ops = accelPppSettingsFormToOps kind config values
      in map (\<lambda>op1. (op1, change_label op1)) ops)"

definition AccelPppSettingsSection_values :: "AccelPppConfig \<Rightarrow> AccelPppSettingsFormValues" where
  "AccelPppSettingsSection_values config = accelPppConfigToSettingsFormValues config"

text \<open>\<open>components/vpn/IpsecEspGroupForm.tsx\<close>\<close>

definition IpsecEspGroupForm_canSubmit ::
    "IPsecEspGroup option \<Rightarrow> string list \<Rightarrow> text_input \<Rightarrow> bool" where
  "IpsecEspGroupForm_canSubmit grp existingNames name =
     (let trimmedName = js_trim name;
          nameTaken = grp = None \<and> trimmedName \<in> set existingNames
      in trimmedName \<noteq> '''' \<and> \<not> nameTaken)"

definition IpsecEspGroupForm_submit ::
    "IPsecEspGroup option \<Rightarrow> string list \<Rightarrow> text_input \<Rightarrow> EspGroupFormValues \<Rightarrow> text_input \<Rightarrow> text_input \<Rightarrow> (ConfigOp \<times> string) list" where
  "IpsecEspGroupForm_submit grp existingNames name values firstProposalEncryption firstProposalHash =
     (let trimmedName = js_trim name
      in (if \<not> IpsecEspGroupForm_canSubmit grp existingNames name then []
          else (let ops = espGroupFormToOps trimmedName grp values
                in map (\<lambda>op1. (op1, change_label op1)) ops
                   @ (if grp = None
                         \<and> (firstProposalEncryption \<noteq> ''''
                            \<or> firstProposalHash \<noteq> '''')
                      then (let proposalOps = addEspProposalOps trimmedName ''10''
                                    \<lparr>aepo_encryption = firstProposalEncryption,
                                        aepo_hash = firstProposalHash,
                                        aepo_esn = ''''\<rparr>
                            in map (\<lambda>op1. (op1, change_label op1)) proposalOps)
                      else []))))"

definition IpsecEspGroupForm_values :: "IPsecEspGroup option \<Rightarrow> EspGroupFormValues" where
  "IpsecEspGroupForm_values grp =
     (case grp of
        Some grp' \<Rightarrow> espGroupToFormValues grp'
      | None \<Rightarrow> blankEspGroupFormValues)"

text \<open>\<open>components/vpn/IpsecEspGroupsSection.tsx\<close>\<close>

definition IpsecEspGroupsSection_queueDelete :: "string \<Rightarrow> (ConfigOp \<times> string) list" where
  "IpsecEspGroupsSection_queueDelete name =
     (let op1 = deleteEspGroupOp name in [(op1, ''delete '' @ js_join '' '' (co_path op1))])"

text \<open>\<open>components/vpn/IpsecEspProposals.tsx\<close>\<close>

definition IpsecEspProposals_valid :: "IPsecEspGroup \<Rightarrow> text_input \<Rightarrow> bool" where
  "IpsecEspProposals_valid grp i =
     (let trimmedId = js_trim i;
          taken = list_ex (\<lambda>p. ipep_id p = trimmedId) (ipeg_proposals grp)
      in trimmedId \<noteq> '''' \<and> \<not> taken)"

definition IpsecEspProposals_submit ::
    "IPsecEspGroup \<Rightarrow> text_input \<Rightarrow> text_input \<Rightarrow> text_input \<Rightarrow> text_input \<Rightarrow> (ConfigOp \<times> string) list" where
  "IpsecEspProposals_submit grp i encryption hash esn =
     (let trimmedId = js_trim i
      in (if \<not> IpsecEspProposals_valid grp i then []
          else (let ops = addEspProposalOps (ipeg_name grp) trimmedId
                        \<lparr>aepo_encryption = encryption,
                            aepo_hash = hash,
                            aepo_esn = esn\<rparr>
                in map (\<lambda>op1. (op1, change_label op1)) ops)))"

definition IpsecEspProposals_onClick ::
    "IPsecEspGroup \<Rightarrow> IPsecEspProposal \<Rightarrow> (ConfigOp \<times> string) list" where
  "IpsecEspProposals_onClick grp p =
     (let op1 = removeEspProposalOp (ipeg_name grp) (ipep_id p)
      in [(op1, ''delete '' @ js_join '' '' (co_path op1))])"

text \<open>\<open>components/vpn/IpsecIkeGroupForm.tsx\<close>\<close>

definition IpsecIkeGroupForm_canSubmit ::
    "IPsecIkeGroup option \<Rightarrow> string list \<Rightarrow> text_input \<Rightarrow> bool" where
  "IpsecIkeGroupForm_canSubmit grp existingNames name =
     (let trimmedName = js_trim name;
          nameTaken = grp = None \<and> trimmedName \<in> set existingNames
      in trimmedName \<noteq> '''' \<and> \<not> nameTaken)"

definition IpsecIkeGroupForm_submit ::
    "IPsecIkeGroup option \<Rightarrow> string list \<Rightarrow> text_input \<Rightarrow> IkeGroupFormValues \<Rightarrow> text_input \<Rightarrow> text_input \<Rightarrow> text_input \<Rightarrow> (ConfigOp \<times> string) list" where
  "IpsecIkeGroupForm_submit grp existingNames name values firstProposalDhGroup firstProposalEncryption firstProposalHash =
     (let trimmedName = js_trim name
      in (if \<not> IpsecIkeGroupForm_canSubmit grp existingNames name then []
          else (let ops = ikeGroupFormToOps trimmedName
                        (map_option
                             (\<lambda>x. \<lparr>igtfv_closeAction = ipig_closeAction x,
                                    igtfv_dpdAction = ipig_dpdAction x,
                                    igtfv_dpdInterval = ipig_dpdInterval x,
                                    igtfv_dpdTimeout = ipig_dpdTimeout x,
                                    igtfv_ikev2Reauth = ipig_ikev2Reauth x,
                                    igtfv_keyExchange = ipig_keyExchange x,
                                    igtfv_lifetime = ipig_lifetime x,
                                    igtfv_disableMobike = ipig_disableMobike x,
                                    igtfv_mode = ipig_mode x\<rparr>) grp) values
                in map (\<lambda>op1. (op1, change_label op1)) ops
                   @ (if grp = None
                         \<and> ((firstProposalDhGroup \<noteq> ''''
                             \<or> firstProposalEncryption \<noteq> '''')
                            \<or> firstProposalHash \<noteq> '''')
                      then (let proposalOps = addIkeProposalOps trimmedName ''10''
                                    \<lparr>aipo_dhGroup = firstProposalDhGroup,
                                        aipo_prf = '''',
                                        aipo_encryption = firstProposalEncryption,
                                        aipo_hash = firstProposalHash,
                                        aipo_esn = ''''\<rparr>
                            in map (\<lambda>op1. (op1, change_label op1)) proposalOps)
                      else []))))"

definition IpsecIkeGroupForm_values :: "IPsecIkeGroup option \<Rightarrow> IkeGroupFormValues" where
  "IpsecIkeGroupForm_values grp =
     (case grp of
        Some grp' \<Rightarrow> ikeGroupToFormValues \<lparr>igtfv_closeAction = ipig_closeAction grp',
                igtfv_dpdAction = ipig_dpdAction grp',
                igtfv_dpdInterval = ipig_dpdInterval grp',
                igtfv_dpdTimeout = ipig_dpdTimeout grp',
                igtfv_ikev2Reauth = ipig_ikev2Reauth grp',
                igtfv_keyExchange = ipig_keyExchange grp',
                igtfv_lifetime = ipig_lifetime grp',
                igtfv_disableMobike = ipig_disableMobike grp',
                igtfv_mode = ipig_mode grp'\<rparr>
      | None \<Rightarrow> blankIkeGroupFormValues)"

text \<open>\<open>components/vpn/IpsecIkeGroupsSection.tsx\<close>\<close>

definition IpsecIkeGroupsSection_queueDelete :: "string \<Rightarrow> (ConfigOp \<times> string) list" where
  "IpsecIkeGroupsSection_queueDelete name =
     (let op1 = deleteIkeGroupOp name in [(op1, ''delete '' @ js_join '' '' (co_path op1))])"

text \<open>\<open>components/vpn/IpsecIkeProposals.tsx\<close>\<close>

definition IpsecIkeProposals_valid :: "IPsecIkeGroup \<Rightarrow> text_input \<Rightarrow> bool" where
  "IpsecIkeProposals_valid grp i =
     (let trimmedId = js_trim i;
          taken = list_ex (\<lambda>p. ipip_id p = trimmedId) (ipig_proposals grp)
      in trimmedId \<noteq> '''' \<and> \<not> taken)"

definition IpsecIkeProposals_submit ::
    "IPsecIkeGroup \<Rightarrow> text_input \<Rightarrow> text_input \<Rightarrow> text_input \<Rightarrow> text_input \<Rightarrow> text_input \<Rightarrow> (ConfigOp \<times> string) list" where
  "IpsecIkeProposals_submit grp i dhGroup prf encryption hash =
     (let trimmedId = js_trim i
      in (if \<not> IpsecIkeProposals_valid grp i then []
          else (let ops = addIkeProposalOps (ipig_name grp) trimmedId
                        \<lparr>aipo_dhGroup = dhGroup,
                            aipo_prf = prf,
                            aipo_encryption = encryption,
                            aipo_hash = hash,
                            aipo_esn = ''''\<rparr>
                in map (\<lambda>op1. (op1, change_label op1)) ops)))"

definition IpsecIkeProposals_onClick ::
    "IPsecIkeGroup \<Rightarrow> IPsecIkeProposal \<Rightarrow> (ConfigOp \<times> string) list" where
  "IpsecIkeProposals_onClick grp p =
     (let op1 = removeIkeProposalOp (ipig_name grp) (ipip_id p)
      in [(op1, ''delete '' @ js_join '' '' (co_path op1))])"

text \<open>\<open>components/vpn/IpsecPpkSection.tsx\<close>\<close>

definition IpsecPpkSection_valid :: "IPsecConfig \<Rightarrow> text_input \<Rightarrow> bool" where
  "IpsecPpkSection_valid config name =
     (let trimmedName = js_trim name;
          taken = list_ex (\<lambda>p. viipp_name p = trimmedName) (ipc_ppks config)
      in trimmedName \<noteq> '''' \<and> \<not> taken)"

definition IpsecPpkSection_submit ::
    "IPsecConfig \<Rightarrow> text_input \<Rightarrow> text_input \<Rightarrow> text_input \<Rightarrow> text_input \<Rightarrow> (ConfigOp \<times> string) list" where
  "IpsecPpkSection_submit config name ids secret secretType =
     (let trimmedName = js_trim name
      in (if \<not> IpsecPpkSection_valid config name then []
          else (let idList = filter (\<lambda>s. s \<noteq> '''')
                        (map (\<lambda>s. js_trim s) (js_split (CHR '','') ids));
                    ops = addPpkOps trimmedName \<lparr>pfo_ids = idList,
                          pfo_secret = secret,
                          pfo_secretType = secretType\<rparr>
                in map (\<lambda>op1. (op1, change_label op1)) ops)))"

definition IpsecPpkSection_onClick :: "IPsecPpk \<Rightarrow> (ConfigOp \<times> string) list" where
  "IpsecPpkSection_onClick ppk =
     (let op1 = removePpkOp (viipp_name ppk) in [(op1, ''delete '' @ js_join '' '' (co_path op1))])"

text \<open>\<open>components/vpn/IpsecPskSection.tsx\<close>\<close>

definition IpsecPskSection_valid :: "IPsecConfig \<Rightarrow> text_input \<Rightarrow> bool" where
  "IpsecPskSection_valid config name =
     (let trimmedName = js_trim name;
          taken = list_ex (\<lambda>p. ipp_name p = trimmedName) (ipc_psks config)
      in trimmedName \<noteq> '''' \<and> \<not> taken)"

definition IpsecPskSection_submit ::
    "IPsecConfig \<Rightarrow> text_input \<Rightarrow> text_input \<Rightarrow> text_input \<Rightarrow> text_input \<Rightarrow> (ConfigOp \<times> string) list" where
  "IpsecPskSection_submit config name ids secret secretType =
     (let trimmedName = js_trim name
      in (if \<not> IpsecPskSection_valid config name then []
          else (let idList = filter (\<lambda>s. s \<noteq> '''')
                        (map (\<lambda>s. js_trim s) (js_split (CHR '','') ids));
                    ops = addPskOps trimmedName \<lparr>pfo_ids = idList,
                          pfo_secret = secret,
                          pfo_secretType = secretType\<rparr>
                in map (\<lambda>op1. (op1, change_label op1)) ops)))"

definition IpsecPskSection_onClick :: "IPsecPsk \<Rightarrow> (ConfigOp \<times> string) list" where
  "IpsecPskSection_onClick psk =
     (let op1 = removePskOp (ipp_name psk) in [(op1, ''delete '' @ js_join '' '' (co_path op1))])"

text \<open>\<open>components/vpn/IpsecRemoteAccess.tsx\<close>\<close>

definition IpsecRemoteAccess_ConnectionsSection_queueDelete :: "string \<Rightarrow> (ConfigOp \<times> string) list" where
  "IpsecRemoteAccess_ConnectionsSection_queueDelete name =
     (let op1 = deleteConnectionOp name in [(op1, ''delete '' @ js_join '' '' (co_path op1))])"

definition IpsecRemoteAccess_ConnectionForm_canSubmit ::
    "IPsecRemoteAccessConnection option \<Rightarrow> string list \<Rightarrow> text_input \<Rightarrow> bool" where
  "IpsecRemoteAccess_ConnectionForm_canSubmit connection existingNames name =
     (let trimmedName = js_trim name;
          nameTaken = connection = None \<and> trimmedName \<in> set existingNames
      in trimmedName \<noteq> '''' \<and> \<not> nameTaken)"

definition IpsecRemoteAccess_ConnectionForm_submit ::
    "IPsecRemoteAccessConnection option \<Rightarrow> string list \<Rightarrow> text_input \<Rightarrow> ConnectionFormValues \<Rightarrow> (ConfigOp \<times> string) list" where
  "IpsecRemoteAccess_ConnectionForm_submit connection existingNames name values =
     (let trimmedName = js_trim name
      in (if \<not> IpsecRemoteAccess_ConnectionForm_canSubmit connection existingNames name then []
          else (let ops = connectionFormToOps trimmedName connection values
                in map (\<lambda>op1. (op1, change_label op1)) ops)))"

definition IpsecRemoteAccess_ConnectionForm_values :: "IPsecRemoteAccessConnection option \<Rightarrow> ConnectionFormValues" where
  "IpsecRemoteAccess_ConnectionForm_values connection =
     (case connection of
        Some connection' \<Rightarrow> connectionToFormValues connection'
      | None \<Rightarrow> blankConnectionFormValues)"

definition IpsecRemoteAccess_LocalUsersSection_valid :: "IPsecRemoteAccessConnection \<Rightarrow> text_input \<Rightarrow> bool" where
  "IpsecRemoteAccess_LocalUsersSection_valid connection username =
     (let trm = js_trim username;
          taken = list_ex (\<lambda>u. ipralu_username u = trm)
              (ipraa_localUsers (iprac_authentication connection))
      in trm \<noteq> '''' \<and> \<not> taken)"

definition IpsecRemoteAccess_LocalUsersSection_submit ::
    "IPsecRemoteAccessConnection \<Rightarrow> text_input \<Rightarrow> text_input \<Rightarrow> (ConfigOp \<times> string) list" where
  "IpsecRemoteAccess_LocalUsersSection_submit connection username password =
     (let trm = js_trim username
      in (if \<not> IpsecRemoteAccess_LocalUsersSection_valid connection username then []
          else (let ops = addRemoteAccessLocalUserOps (iprac_name connection) trm password
                in map (\<lambda>op1. (op1, change_label op1)) ops)))"

definition IpsecRemoteAccess_LocalUsersSection_onClick ::
    "IPsecRemoteAccessConnection \<Rightarrow> IPsecRemoteAccessLocalUser \<Rightarrow> (ConfigOp \<times> string) list" where
  "IpsecRemoteAccess_LocalUsersSection_onClick connection user =
     (let op1 = removeRemoteAccessLocalUserOp (iprac_name connection) (ipralu_username user)
      in [(op1, ''delete '' @ js_join '' '' (co_path op1))])"

definition IpsecRemoteAccess_PoolsSection_valid :: "IPsecConfig \<Rightarrow> text_input \<Rightarrow> bool" where
  "IpsecRemoteAccess_PoolsSection_valid config name =
     (let pools = viipra_pools (ipc_remoteAccess config);
          trimmedName = js_trim name;
          taken = list_ex (\<lambda>p. iprap_name p = trimmedName) pools
      in trimmedName \<noteq> '''' \<and> \<not> taken)"

definition IpsecRemoteAccess_PoolsSection_submit ::
    "IPsecConfig \<Rightarrow> text_input \<Rightarrow> text_input \<Rightarrow> text_input \<Rightarrow> text_input \<Rightarrow> (ConfigOp \<times> string) list" where
  "IpsecRemoteAccess_PoolsSection_submit config name pfx rangeStart rangeStop =
     (let trimmedName = js_trim name
      in (if \<not> IpsecRemoteAccess_PoolsSection_valid config name then []
          else (let ops = addRemoteAccessPoolOps trimmedName
                        \<lparr>viarapo_prefix = pfx,
                            viarapo_rangeStart = rangeStart,
                            viarapo_rangeStop = rangeStop\<rparr>
                in map (\<lambda>op1. (op1, change_label op1)) ops)))"

definition IpsecRemoteAccess_PoolsSection_onClick :: "IPsecRemoteAccessPool \<Rightarrow> (ConfigOp \<times> string) list" where
  "IpsecRemoteAccess_PoolsSection_onClick pool =
     (let op1 = removeRemoteAccessPoolOp (iprap_name pool)
      in [(op1, ''delete '' @ js_join '' '' (co_path op1))])"

definition IpsecRemoteAccess_RadiusSection_save ::
    "IPsecConfig \<Rightarrow> RemoteAccessRadiusSettingsFormValues \<Rightarrow> (ConfigOp \<times> string) list" where
  "IpsecRemoteAccess_RadiusSection_save config values =
     (let radius = viipra_radius (ipc_remoteAccess config);
          ops = remoteAccessRadiusSettingsFormToOps
              \<lparr>rartfv_sourceAddress = iprar_sourceAddress radius,
                  rartfv_timeout = iprar_timeout radius,
                  rartfv_nasIdentifier = iprar_nasIdentifier radius\<rparr> values
      in map (\<lambda>op1. (op1, change_label op1)) ops)"

definition IpsecRemoteAccess_RadiusSection_values :: "IPsecConfig \<Rightarrow> RemoteAccessRadiusSettingsFormValues" where
  "IpsecRemoteAccess_RadiusSection_values config =
     (let radius = viipra_radius (ipc_remoteAccess config)
      in remoteAccessRadiusToFormValues \<lparr>rartfv_sourceAddress = iprar_sourceAddress radius,
             rartfv_timeout = iprar_timeout radius,
             rartfv_nasIdentifier = iprar_nasIdentifier radius\<rparr>)"

definition IpsecRemoteAccess_RadiusSection_valid :: "IPsecConfig \<Rightarrow> text_input \<Rightarrow> bool" where
  "IpsecRemoteAccess_RadiusSection_valid config address =
     (let radius = viipra_radius (ipc_remoteAccess config);
          trimmedAddress = js_trim address;
          taken = list_ex (\<lambda>s. iprars_address s = trimmedAddress) (iprar_servers radius)
      in trimmedAddress \<noteq> '''' \<and> \<not> taken)"

definition IpsecRemoteAccess_RadiusSection_submitServer ::
    "IPsecConfig \<Rightarrow> text_input \<Rightarrow> text_input \<Rightarrow> text_input \<Rightarrow> (ConfigOp \<times> string) list" where
  "IpsecRemoteAccess_RadiusSection_submitServer config address key port =
     (let trimmedAddress = js_trim address
      in (if \<not> IpsecRemoteAccess_RadiusSection_valid config address then []
          else (let ops = addRemoteAccessRadiusServerOps trimmedAddress key port
                in map (\<lambda>op1. (op1, change_label op1)) ops)))"

definition IpsecRemoteAccess_RadiusSection_onClick ::
    "IPsecRemoteAccessRadiusServer \<Rightarrow> (ConfigOp \<times> string) list" where
  "IpsecRemoteAccess_RadiusSection_onClick server =
     (let op1 = removeRemoteAccessRadiusServerOp (iprars_address server)
      in [(op1, ''delete '' @ js_join '' '' (co_path op1))])"

text \<open>\<open>components/vpn/IpsecSettings.tsx\<close>\<close>

definition IpsecSettings_onClick :: "(ConfigOp \<times> string) list" where
  "IpsecSettings_onClick =
     (let op1 = enableIPsecOp in [(op1, ''set '' @ js_join '' '' (co_path op1))])"

definition IpsecSettings_IpsecSettingsForm_save ::
    "IPsecConfig \<Rightarrow> OptionsFormValues \<Rightarrow> (ConfigOp \<times> string) list" where
  "IpsecSettings_IpsecSettingsForm_save config values =
     (let ops = optionsFormToOps (ipc_options config) values
      in map (\<lambda>op1. (op1, change_label op1)) ops)"

definition IpsecSettings_IpsecSettingsForm_values :: "IPsecConfig \<Rightarrow> OptionsFormValues" where
  "IpsecSettings_IpsecSettingsForm_values config = optionsToFormValues (ipc_options config)"

definition IpsecSettings_IpsecSettingsForm_toggleUniqreqids :: "IPsecConfig \<Rightarrow> (ConfigOp \<times> string) list" where
  "IpsecSettings_IpsecSettingsForm_toggleUniqreqids config =
     (let op1 = toggleDisableUniqreqidsOp (\<not> ipc_disableUniqreqids config)
      in [(op1, op_name (co_op op1) @ '' '' @ js_join '' '' (co_path op1))])"

definition IpsecSettings_IpsecSettingsForm_queueDisable :: "(ConfigOp \<times> string) list" where
  "IpsecSettings_IpsecSettingsForm_queueDisable =
     (let op1 = disableIPsecOp in [(op1, ''delete '' @ js_join '' '' (co_path op1))])"

text \<open>\<open>components/vpn/IpsecSiteToSite.tsx\<close>\<close>

definition IpsecSiteToSite_queueDelete :: "string \<Rightarrow> (ConfigOp \<times> string) list" where
  "IpsecSiteToSite_queueDelete name =
     (let op1 = deletePeerOp name in [(op1, ''delete '' @ js_join '' '' (co_path op1))])"

definition IpsecSiteToSite_PeerForm_canSubmit ::
    "IPsecPeer option \<Rightarrow> string list \<Rightarrow> text_input \<Rightarrow> bool" where
  "IpsecSiteToSite_PeerForm_canSubmit peer existingNames name =
     (let trimmedName = js_trim name;
          nameTaken = peer = None \<and> trimmedName \<in> set existingNames
      in trimmedName \<noteq> '''' \<and> \<not> nameTaken)"

definition IpsecSiteToSite_PeerForm_submit ::
    "IPsecPeer option \<Rightarrow> string list \<Rightarrow> text_input \<Rightarrow> text_input \<Rightarrow> PeerFormValues \<Rightarrow> text_input \<Rightarrow> text_input \<Rightarrow> text_input \<Rightarrow> (ConfigOp \<times> string) list" where
  "IpsecSiteToSite_PeerForm_submit peer existingNames name remoteAddress values firstTunnelId firstTunnelLocalPrefix firstTunnelRemotePrefix =
     (let trimmedName = js_trim name
      in (if \<not> IpsecSiteToSite_PeerForm_canSubmit peer existingNames name then []
          else (let ops = peerFormToOps_vi trimmedName peer values;
                    trimmedTunnelId = js_trim firstTunnelId
                in map (\<lambda>op1. (op1, change_label op1)) ops
                   @ (if peer = None \<and> js_trim remoteAddress \<noteq> ''''
                      then (let p = ipsecPeerPath trimmedName [] @ [''remote-address'']
                            in [(set_op p (js_trim remoteAddress), ''set '' @ js_join '' '' p
                                 @ '' ''
                                 @ quoted (js_trim remoteAddress))])
                      else [])
                   @ (if peer = None \<and> trimmedTunnelId \<noteq> ''''
                      then (let tunnelOps = addTunnelOps trimmedName trimmedTunnelId
                                    \<lparr>ato_espGroup = '''', ato_protocol = ''''\<rparr>;
                                base = ipsecPeerPath trimmedName [] @ [''tunnel'', trimmedTunnelId]
                            in map (\<lambda>op1. (op1, change_label op1)) tunnelOps
                               @ (if js_trim firstTunnelLocalPrefix \<noteq> ''''
                                  then [(set_op (base @ [''local'', ''prefix''])
                                           (js_trim firstTunnelLocalPrefix), ''set ''
                                         @ js_join '' '' base
                                         @ '' local prefix ''
                                         @ quoted (js_trim firstTunnelLocalPrefix))]
                                  else [])
                               @ (if js_trim firstTunnelRemotePrefix \<noteq> ''''
                                  then [(set_op (base @ [''remote'', ''prefix''])
                                           (js_trim firstTunnelRemotePrefix), ''set ''
                                         @ js_join '' '' base
                                         @ '' remote prefix ''
                                         @ quoted (js_trim firstTunnelRemotePrefix))]
                                  else []))
                      else []))))"

definition IpsecSiteToSite_PeerForm_values :: "IPsecPeer option \<Rightarrow> PeerFormValues" where
  "IpsecSiteToSite_PeerForm_values peer =
     (case peer of
        Some peer' \<Rightarrow> peerToFormValues_vi peer'
      | None \<Rightarrow> blankPeerFormValues_vi)"

definition IpsecSiteToSite_TunnelsSection_valid :: "IPsecPeer \<Rightarrow> text_input \<Rightarrow> bool" where
  "IpsecSiteToSite_TunnelsSection_valid peer i =
     (let trimmedId = js_trim i;
          taken = list_ex (\<lambda>t. ipt_id t = trimmedId) (ippb_tunnels peer)
      in trimmedId \<noteq> '''' \<and> \<not> taken)"

definition IpsecSiteToSite_TunnelsSection_submit ::
    "IPsecPeer \<Rightarrow> text_input \<Rightarrow> text_input \<Rightarrow> text_input \<Rightarrow> (ConfigOp \<times> string) list" where
  "IpsecSiteToSite_TunnelsSection_submit peer i espGroup protocol =
     (let trimmedId = js_trim i
      in (if \<not> IpsecSiteToSite_TunnelsSection_valid peer i then []
          else (let ops = addTunnelOps (ippb_name peer) trimmedId
                        \<lparr>ato_espGroup = espGroup, ato_protocol = protocol\<rparr>
                in map (\<lambda>op1. (op1, change_label op1)) ops)))"

definition IpsecSiteToSite_TunnelsSection_onClick ::
    "IPsecPeer \<Rightarrow> IPsecTunnel \<Rightarrow> (ConfigOp \<times> string) list" where
  "IpsecSiteToSite_TunnelsSection_onClick peer tunnel =
     (let op1 = removeTunnelOp (ippb_name peer) (ipt_id tunnel)
      in [(op1, ''delete '' @ js_join '' '' (co_path op1))])"

text \<open>\<open>components/vpn/OpenconnectServer.tsx\<close>\<close>

definition OpenconnectServer_onClick :: "(ConfigOp \<times> string) list" where
  "OpenconnectServer_onClick =
     (let op1 = enableOpenconnectOp in [(op1, ''set '' @ js_join '' '' (co_path op1))])"

definition OpenconnectServer_onClick2 :: "(ConfigOp \<times> string) list" where
  "OpenconnectServer_onClick2 =
     (let op1 = disableOpenconnectOp in [(op1, ''delete '' @ js_join '' '' (co_path op1))])"

definition OpenconnectServer_SettingsSection_save ::
    "OpenconnectConfig \<Rightarrow> OpenconnectSettingsFormValues \<Rightarrow> (ConfigOp \<times> string) list" where
  "OpenconnectServer_SettingsSection_save config values =
     (let ops = openconnectSettingsFormToOps config values
      in map (\<lambda>op1. (op1, change_label op1)) ops)"

definition OpenconnectServer_SettingsSection_values :: "OpenconnectConfig \<Rightarrow> OpenconnectSettingsFormValues" where
  "OpenconnectServer_SettingsSection_values config = openconnectConfigToSettingsFormValues config"

definition OpenconnectServer_AuthenticationSection_save ::
    "OpenconnectConfig \<Rightarrow> OpenconnectSettingsFormValues \<Rightarrow> (ConfigOp \<times> string) list" where
  "OpenconnectServer_AuthenticationSection_save config values =
     (let ops = openconnectSettingsFormToOps config values
      in map (\<lambda>op1. (op1, change_label op1)) ops)"

definition OpenconnectServer_AuthenticationSection_values :: "OpenconnectConfig \<Rightarrow> OpenconnectSettingsFormValues" where
  "OpenconnectServer_AuthenticationSection_values config =
     openconnectConfigToSettingsFormValues config"

definition OpenconnectServer_LocalUsersSubsection_valid :: "OpenconnectConfig \<Rightarrow> text_input \<Rightarrow> bool" where
  "OpenconnectServer_LocalUsersSubsection_valid config username =
     (let localUsers = oaa_localUsers (vooc_authentication config);
          trm = js_trim username;
          taken = list_ex (\<lambda>u. olu_username u = trm) localUsers
      in trm \<noteq> '''' \<and> \<not> taken)"

definition OpenconnectServer_LocalUsersSubsection_submit ::
    "OpenconnectConfig \<Rightarrow> text_input \<Rightarrow> text_input \<Rightarrow> text_input \<Rightarrow> text_input \<Rightarrow> text_input \<Rightarrow> text_input \<Rightarrow> (ConfigOp \<times> string) list" where
  "OpenconnectServer_LocalUsersSubsection_submit config username password otpKey otpLength otpInterval otpTokenType =
     (let trm = js_trim username
      in (if \<not> OpenconnectServer_LocalUsersSubsection_valid config username then []
          else (let ops = addOpenconnectLocalUserOps trm \<lparr>olufo_password = password,
                          olufo_otpKey = otpKey,
                          olufo_otpLength = otpLength,
                          olufo_otpInterval = otpInterval,
                          olufo_otpTokenType = otpTokenType\<rparr>
                in map (\<lambda>op1. (op1, change_label op1)) ops)))"

definition OpenconnectServer_LocalUsersSubsection_onClick :: "OpenconnectLocalUser \<Rightarrow> (ConfigOp \<times> string) list" where
  "OpenconnectServer_LocalUsersSubsection_onClick user =
     (let op1 = toggleOpenconnectLocalUserDisabledOp (olu_username user) (\<not> olu_disabled user)
      in [(op1, op_name (co_op op1) @ '' '' @ js_join '' '' (co_path op1))])"

definition OpenconnectServer_LocalUsersSubsection_onClick2 :: "OpenconnectLocalUser \<Rightarrow> (ConfigOp \<times> string) list" where
  "OpenconnectServer_LocalUsersSubsection_onClick2 user =
     (let op1 = removeOpenconnectLocalUserOp (olu_username user)
      in [(op1, ''delete '' @ js_join '' '' (co_path op1))])"

definition OpenconnectServer_AuthRadiusServersSubsection_valid :: "OpenconnectConfig \<Rightarrow> text_input \<Rightarrow> bool" where
  "OpenconnectServer_AuthRadiusServersSubsection_valid config address =
     (let servers = vooar_servers (oaa_radius (vooc_authentication config));
          trimmedAddress = js_trim address;
          taken = list_ex (\<lambda>s. ors_address s = trimmedAddress) servers
      in trimmedAddress \<noteq> '''' \<and> \<not> taken)"

definition OpenconnectServer_AuthRadiusServersSubsection_submit ::
    "OpenconnectConfig \<Rightarrow> text_input \<Rightarrow> text_input \<Rightarrow> text_input \<Rightarrow> (ConfigOp \<times> string) list" where
  "OpenconnectServer_AuthRadiusServersSubsection_submit config address key port =
     (let trimmedAddress = js_trim address
      in (if \<not> OpenconnectServer_AuthRadiusServersSubsection_valid config address then []
          else (let ops = addOpenconnectAuthRadiusServerOps trimmedAddress key port
                in map (\<lambda>op1. (op1, change_label op1)) ops)))"

definition OpenconnectServer_AuthRadiusServersSubsection_onClick :: "OpenconnectRadiusServer \<Rightarrow> (ConfigOp \<times> string) list" where
  "OpenconnectServer_AuthRadiusServersSubsection_onClick server =
     (let op1 = removeOpenconnectAuthRadiusServerOp (ors_address server)
      in [(op1, ''delete '' @ js_join '' '' (co_path op1))])"

definition OpenconnectServer_AccountingSection_valid :: "OpenconnectConfig \<Rightarrow> text_input \<Rightarrow> bool" where
  "OpenconnectServer_AccountingSection_valid config address =
     (let accounting = vooc_accounting config;
          trimmedAddress = js_trim address;
          taken = list_ex (\<lambda>s. ors_address s = trimmedAddress)
              (vooa_radiusServers accounting)
      in trimmedAddress \<noteq> '''' \<and> \<not> taken)"

definition OpenconnectServer_AccountingSection_submit ::
    "OpenconnectConfig \<Rightarrow> text_input \<Rightarrow> text_input \<Rightarrow> text_input \<Rightarrow> (ConfigOp \<times> string) list" where
  "OpenconnectServer_AccountingSection_submit config address key port =
     (let trimmedAddress = js_trim address
      in (if \<not> OpenconnectServer_AccountingSection_valid config address then []
          else (let ops = addOpenconnectAccountingRadiusServerOps trimmedAddress key port
                in map (\<lambda>op1. (op1, change_label op1)) ops)))"

definition OpenconnectServer_AccountingSection_onChange :: "bool \<Rightarrow> (ConfigOp \<times> string) list" where
  "OpenconnectServer_AccountingSection_onChange eventChecked =
     (let op1 = toggleOpenconnectAccountingRadiusModeOp eventChecked
      in [(op1, op_name (co_op op1) @ '' '' @ js_join '' '' (co_path op1))])"

definition OpenconnectServer_AccountingSection_onClick2 :: "OpenconnectRadiusServer \<Rightarrow> (ConfigOp \<times> string) list" where
  "OpenconnectServer_AccountingSection_onClick2 server =
     (let op1 = removeOpenconnectAccountingRadiusServerOp (ors_address server)
      in [(op1, ''delete '' @ js_join '' '' (co_path op1))])"

subsection \<open>What the editors queue\<close>

lemma OpenconnectServer_SettingsSection_save_ok [ok_rules]: "ops_ok [''vpn''] (map fst (OpenconnectServer_SettingsSection_save config values))"
  by (auto simp: OpenconnectServer_SettingsSection_save_def openconnectSettingsFormToOps_def openconnectNetworkSettingsPath_def openconnectPath_def openconnectAuthPath_def openconnectSslPath_def openconnectSettingsForm_fields_def openconnectSettingsForm_flags_def
      Let_def ok_rules diffToOps_ok_paths o_def case_prod_beta split: option.splits if_splits)

lemma OpenconnectServer_AuthenticationSection_save_ok [ok_rules]: "ops_ok [''vpn''] (map fst (OpenconnectServer_AuthenticationSection_save config values))"
  by (auto simp: OpenconnectServer_AuthenticationSection_save_def openconnectSettingsFormToOps_def openconnectNetworkSettingsPath_def openconnectPath_def openconnectAuthPath_def openconnectSslPath_def openconnectSettingsForm_fields_def openconnectSettingsForm_flags_def
      Let_def ok_rules diffToOps_ok_paths o_def case_prod_beta split: option.splits if_splits)

inductive vpn_editor :: "string \<Rightarrow> (ConfigOp \<times> string) list \<Rightarrow> bool" where
  "vpn_editor ''vpn'' (AccelPppClientIpPoolsSection_submit kind config name rangesText nextPool)"
| "vpn_editor ''vpn'' (AccelPppClientIpPoolsSection_onClick kind pool)"
| "vpn_editor ''vpn'' (AccelPppClientIpv6PoolsSection_submit kind config name firstPrefix firstPrefixMask)"
| "vpn_editor ''vpn'' (AccelPppClientIpv6PoolsSection_onClick kind pool)"
| "vpn_editor ''vpn'' (AccelPppIpv6PoolPrefixList_submit kind poolName prefixes1 pfx msk)"
| "vpn_editor ''vpn'' (AccelPppIpv6PoolPrefixList_onClick kind poolName p)"
| "vpn_editor ''vpn'' (AccelPppLocalUsersSubsection_submit kind config username password staticIp rateLimitUpload rateLimitDownload)"
| "vpn_editor ''vpn'' (AccelPppLocalUsersSubsection_onClick kind user)"
| "vpn_editor ''vpn'' (AccelPppLocalUsersSubsection_onClick2 kind user)"
| "vpn_editor ''vpn'' (AccelPppRadiusServersSubsection_submit kind config address key port)"
| "vpn_editor ''vpn'' (AccelPppRadiusServersSubsection_onClick kind server)"
| "vpn_editor ''vpn'' (AccelPppServer_onClick kind)"
| "vpn_editor ''vpn'' (AccelPppServer_onClick2 kind)"
| "vpn_editor ''vpn'' (IpsecEspGroupForm_submit grp existingNames name values firstProposalEncryption firstProposalHash)"
| "vpn_editor ''vpn'' (IpsecEspGroupsSection_queueDelete name)"
| "vpn_editor ''vpn'' (IpsecEspProposals_submit grp i encryption hash esn)"
| "vpn_editor ''vpn'' (IpsecEspProposals_onClick grp p)"
| "vpn_editor ''vpn'' (IpsecIkeGroupForm_submit grp existingNames name values firstProposalDhGroup firstProposalEncryption firstProposalHash)"
| "vpn_editor ''vpn'' (IpsecIkeGroupsSection_queueDelete name)"
| "vpn_editor ''vpn'' (IpsecIkeProposals_submit grp i dhGroup prf encryption hash)"
| "vpn_editor ''vpn'' (IpsecIkeProposals_onClick grp p)"
| "vpn_editor ''vpn'' (IpsecPpkSection_submit config name ids secret secretType)"
| "vpn_editor ''vpn'' (IpsecPpkSection_onClick ppk)"
| "vpn_editor ''vpn'' (IpsecPskSection_submit config name ids secret secretType)"
| "vpn_editor ''vpn'' (IpsecPskSection_onClick psk)"
| "vpn_editor ''vpn'' (IpsecRemoteAccess_ConnectionsSection_queueDelete name)"
| "vpn_editor ''vpn'' (IpsecRemoteAccess_ConnectionForm_submit connection existingNames name values)"
| "vpn_editor ''vpn'' (IpsecRemoteAccess_LocalUsersSection_submit connection username password)"
| "vpn_editor ''vpn'' (IpsecRemoteAccess_LocalUsersSection_onClick connection user)"
| "vpn_editor ''vpn'' (IpsecRemoteAccess_PoolsSection_submit config name pfx rangeStart rangeStop)"
| "vpn_editor ''vpn'' (IpsecRemoteAccess_PoolsSection_onClick pool)"
| "vpn_editor ''vpn'' (IpsecRemoteAccess_RadiusSection_save config values)"
| "vpn_editor ''vpn'' (IpsecRemoteAccess_RadiusSection_submitServer config address key port)"
| "vpn_editor ''vpn'' (IpsecRemoteAccess_RadiusSection_onClick server)"
| "vpn_editor ''vpn'' (IpsecSettings_onClick)"
| "vpn_editor ''vpn'' (IpsecSettings_IpsecSettingsForm_save config values)"
| "vpn_editor ''vpn'' (IpsecSettings_IpsecSettingsForm_toggleUniqreqids config)"
| "vpn_editor ''vpn'' (IpsecSettings_IpsecSettingsForm_queueDisable)"
| "vpn_editor ''vpn'' (IpsecSiteToSite_queueDelete name)"
| "vpn_editor ''vpn'' (IpsecSiteToSite_PeerForm_submit peer existingNames name remoteAddress values firstTunnelId firstTunnelLocalPrefix firstTunnelRemotePrefix)"
| "vpn_editor ''vpn'' (IpsecSiteToSite_TunnelsSection_submit peer i espGroup protocol)"
| "vpn_editor ''vpn'' (IpsecSiteToSite_TunnelsSection_onClick peer tunnel)"
| "vpn_editor ''vpn'' (OpenconnectServer_onClick)"
| "vpn_editor ''vpn'' (OpenconnectServer_onClick2)"
| "vpn_editor ''vpn'' (OpenconnectServer_SettingsSection_save config values)"
| "vpn_editor ''vpn'' (OpenconnectServer_AuthenticationSection_save config values)"
| "vpn_editor ''vpn'' (OpenconnectServer_LocalUsersSubsection_submit config username password otpKey otpLength otpInterval otpTokenType)"
| "vpn_editor ''vpn'' (OpenconnectServer_LocalUsersSubsection_onClick user)"
| "vpn_editor ''vpn'' (OpenconnectServer_LocalUsersSubsection_onClick2 user)"
| "vpn_editor ''vpn'' (OpenconnectServer_AuthRadiusServersSubsection_submit config address key port)"
| "vpn_editor ''vpn'' (OpenconnectServer_AuthRadiusServersSubsection_onClick server)"
| "vpn_editor ''vpn'' (OpenconnectServer_AccountingSection_submit config address key port)"
| "vpn_editor ''vpn'' (OpenconnectServer_AccountingSection_onChange eventChecked)"
| "vpn_editor ''vpn'' (OpenconnectServer_AccountingSection_onClick2 server)"

lemmas vpn_editor_defs =
  AccelPppClientIpPoolsSection_submit_def addAccelPppClientIpPoolOps_def
  accelPppClientIpPoolPath_def accelPppBasePath_def accelPppKindPath_def
  AccelPppClientIpPoolsSection_valid_def AccelPppClientIpPoolsSection_onClick_def
  removeAccelPppClientIpPoolOp_def AccelPppClientIpv6PoolsSection_submit_def
  addAccelPppClientIpv6PoolPrefixOps_def accelPppClientIpv6PoolPrefixPath_def
  accelPppClientIpv6PoolPath_def AccelPppClientIpv6PoolsSection_valid_def
  AccelPppClientIpv6PoolsSection_onClick_def removeAccelPppClientIpv6PoolOp_def
  AccelPppIpv6PoolPrefixList_submit_def AccelPppIpv6PoolPrefixList_valid_def
  AccelPppIpv6PoolPrefixList_onClick_def removeAccelPppClientIpv6PoolPrefixOp_def
  AccelPppLocalUsersSubsection_submit_def AccelPppLocalUsersSubsection_valid_def
  addAccelPppLocalUserOps_def accelPppLocalUserPath_def accelPppAuthPath_def
  AccelPppLocalUsersSubsection_onClick_def toggleAccelPppLocalUserDisabledOp_def
  AccelPppLocalUsersSubsection_onClick2_def removeAccelPppLocalUserOp_def
  AccelPppRadiusServersSubsection_submit_def AccelPppRadiusServersSubsection_valid_def
  addAccelPppRadiusServerOps_def accelPppRadiusServerPath_def
  AccelPppRadiusServersSubsection_onClick_def removeAccelPppRadiusServerOp_def
  AccelPppServer_onClick_def enableAccelPppOp_def AccelPppServer_onClick2_def
  disableAccelPppOp_def IpsecEspGroupForm_submit_def espGroupFormToOps_def ipsecEspGroupPath_def
  ipsecPath_def addEspProposalOps_def ipsecEspProposalPath_def IpsecEspGroupForm_canSubmit_def
  IpsecEspGroupsSection_queueDelete_def deleteEspGroupOp_def IpsecEspProposals_submit_def
  IpsecEspProposals_valid_def IpsecEspProposals_onClick_def removeEspProposalOp_def
  IpsecIkeGroupForm_submit_def addIkeProposalOps_def ipsecIkeProposalPath_def
  ipsecIkeGroupPath_def ikeGroupFormToOps_def IpsecIkeGroupForm_canSubmit_def
  IpsecIkeGroupsSection_queueDelete_def deleteIkeGroupOp_def IpsecIkeProposals_submit_def
  IpsecIkeProposals_valid_def IpsecIkeProposals_onClick_def removeIkeProposalOp_def
  IpsecPpkSection_submit_def addPpkOps_def ipsecPpkPath_def ipsecAuthPath_def
  IpsecPpkSection_valid_def IpsecPpkSection_onClick_def removePpkOp_def IpsecPskSection_submit_def
  addPskOps_def ipsecPskPath_def IpsecPskSection_valid_def IpsecPskSection_onClick_def
  removePskOp_def IpsecRemoteAccess_ConnectionsSection_queueDelete_def deleteConnectionOp_def
  ipsecConnectionPath_def ipsecRemoteAccessPath_def IpsecRemoteAccess_ConnectionForm_submit_def
  connectionFormToOps_def IpsecRemoteAccess_ConnectionForm_canSubmit_def
  IpsecRemoteAccess_LocalUsersSection_submit_def addRemoteAccessLocalUserOps_def
  IpsecRemoteAccess_LocalUsersSection_valid_def IpsecRemoteAccess_LocalUsersSection_onClick_def
  removeRemoteAccessLocalUserOp_def IpsecRemoteAccess_PoolsSection_submit_def
  addRemoteAccessPoolOps_def ipsecRemoteAccessPoolPath_def
  IpsecRemoteAccess_PoolsSection_valid_def IpsecRemoteAccess_PoolsSection_onClick_def
  removeRemoteAccessPoolOp_def IpsecRemoteAccess_RadiusSection_save_def
  remoteAccessRadiusSettingsFormToOps_def IpsecRemoteAccess_RadiusSection_submitServer_def
  IpsecRemoteAccess_RadiusSection_valid_def addRemoteAccessRadiusServerOps_def
  ipsecRemoteAccessRadiusServerPath_def IpsecRemoteAccess_RadiusSection_onClick_def
  removeRemoteAccessRadiusServerOp_def IpsecSettings_onClick_def enableIPsecOp_def
  IpsecSettings_IpsecSettingsForm_save_def optionsFormToOps_def ipsecOptionsPath_def
  IpsecSettings_IpsecSettingsForm_toggleUniqreqids_def toggleDisableUniqreqidsOp_def
  IpsecSettings_IpsecSettingsForm_queueDisable_def disableIPsecOp_def
  IpsecSiteToSite_queueDelete_def deletePeerOp_def ipsecPeerPath_def
  IpsecSiteToSite_PeerForm_submit_def IpsecSiteToSite_PeerForm_canSubmit_def addTunnelOps_def
  ipsecTunnelPath_def peerFormToOps_vi_def IpsecSiteToSite_TunnelsSection_submit_def
  IpsecSiteToSite_TunnelsSection_valid_def IpsecSiteToSite_TunnelsSection_onClick_def
  removeTunnelOp_def OpenconnectServer_onClick_def enableOpenconnectOp_def openconnectPath_def
  OpenconnectServer_onClick2_def disableOpenconnectOp_def
  OpenconnectServer_LocalUsersSubsection_submit_def addOpenconnectLocalUserOps_def
  openconnectLocalUserPath_def openconnectAuthPath_def
  OpenconnectServer_LocalUsersSubsection_valid_def
  OpenconnectServer_LocalUsersSubsection_onClick_def toggleOpenconnectLocalUserDisabledOp_def
  OpenconnectServer_LocalUsersSubsection_onClick2_def removeOpenconnectLocalUserOp_def
  OpenconnectServer_AuthRadiusServersSubsection_submit_def
  OpenconnectServer_AuthRadiusServersSubsection_valid_def addOpenconnectAuthRadiusServerOps_def
  openconnectAuthRadiusServerPath_def OpenconnectServer_AuthRadiusServersSubsection_onClick_def
  removeOpenconnectAuthRadiusServerOp_def OpenconnectServer_AccountingSection_submit_def
  OpenconnectServer_AccountingSection_valid_def addOpenconnectAccountingRadiusServerOps_def
  openconnectAccountingRadiusServerPath_def OpenconnectServer_AccountingSection_onChange_def
  toggleOpenconnectAccountingRadiusModeOp_def OpenconnectServer_AccountingSection_onClick2_def
  removeOpenconnectAccountingRadiusServerOp_def

lemma vpn_editor_ok: "vpn_editor sec adds \<Longrightarrow> ops_ok [sec] (map fst adds)"
  by (induction rule: vpn_editor.induct)
    (auto simp: vpn_editor_defs Let_def ok_rules o_def case_prod_beta split: option.splits if_splits)

inductive vpn_untouched :: "(ConfigOp \<times> string) list \<Rightarrow> bool" where
  "vpn_untouched (AccelPppAuthenticationSection_save kind config (AccelPppAuthenticationSection_values config))"
| "vpn_untouched (AccelPppSettingsSection_save kind config (AccelPppSettingsSection_values config))"
| "vpn_untouched (IpsecEspGroupForm_submit (Some grp) existingNames name (IpsecEspGroupForm_values (Some grp)) firstProposalEncryption firstProposalHash)"
| "vpn_untouched (IpsecIkeGroupForm_submit (Some grp) existingNames name (IpsecIkeGroupForm_values (Some grp)) firstProposalDhGroup firstProposalEncryption firstProposalHash)"
| "vpn_untouched (IpsecRemoteAccess_ConnectionForm_submit (Some connection) existingNames name (IpsecRemoteAccess_ConnectionForm_values (Some connection)))"
| "vpn_untouched (IpsecRemoteAccess_RadiusSection_save config (IpsecRemoteAccess_RadiusSection_values config))"
| "vpn_untouched (IpsecSettings_IpsecSettingsForm_save config (IpsecSettings_IpsecSettingsForm_values config))"
| "vpn_untouched (IpsecSiteToSite_PeerForm_submit (Some peer) existingNames name remoteAddress (IpsecSiteToSite_PeerForm_values (Some peer)) firstTunnelId firstTunnelLocalPrefix firstTunnelRemotePrefix)"
| "vpn_untouched (OpenconnectServer_SettingsSection_save config (OpenconnectServer_SettingsSection_values config))"
| "vpn_untouched (OpenconnectServer_AuthenticationSection_save config (OpenconnectServer_AuthenticationSection_values config))"

lemmas vpn_untouched_defs =
  AccelPppAuthenticationSection_save_def accelPppSettingsFormToOps_def accelPppAuthPath_def
  accelPppBasePath_def accelPppKindPath_def l2tpIpsecAuthPath_def l2tpIpsecSettingsPath_def
  l2tpLnsPath_def AccelPppAuthenticationSection_values_def accelPppConfigToSettingsFormValues_def
  AccelPppSettingsSection_save_def AccelPppSettingsSection_values_def IpsecEspGroupForm_submit_def
  espGroupFormToOps_def ipsecEspGroupPath_def ipsecPath_def addEspProposalOps_def
  ipsecEspProposalPath_def IpsecEspGroupForm_canSubmit_def IpsecEspGroupForm_values_def
  IpsecIkeGroupForm_submit_def addIkeProposalOps_def ipsecIkeProposalPath_def
  ipsecIkeGroupPath_def ikeGroupFormToOps_def IpsecIkeGroupForm_canSubmit_def
  IpsecIkeGroupForm_values_def IpsecRemoteAccess_ConnectionForm_submit_def connectionFormToOps_def
  ipsecConnectionPath_def ipsecRemoteAccessPath_def IpsecRemoteAccess_ConnectionForm_canSubmit_def
  IpsecRemoteAccess_ConnectionForm_values_def connectionToFormValues_def
  IpsecRemoteAccess_RadiusSection_save_def remoteAccessRadiusSettingsFormToOps_def
  IpsecRemoteAccess_RadiusSection_values_def IpsecSettings_IpsecSettingsForm_save_def
  optionsFormToOps_def ipsecOptionsPath_def IpsecSettings_IpsecSettingsForm_values_def
  IpsecSiteToSite_PeerForm_submit_def IpsecSiteToSite_PeerForm_canSubmit_def addTunnelOps_def
  ipsecTunnelPath_def ipsecPeerPath_def peerFormToOps_vi_def IpsecSiteToSite_PeerForm_values_def
  OpenconnectServer_SettingsSection_save_def openconnectSettingsFormToOps_def
  openconnectNetworkSettingsPath_def openconnectPath_def openconnectAuthPath_def
  openconnectSslPath_def OpenconnectServer_SettingsSection_values_def
  openconnectConfigToSettingsFormValues_def OpenconnectServer_AuthenticationSection_save_def
  OpenconnectServer_AuthenticationSection_values_def

lemma vpn_untouched_nothing: "vpn_untouched adds \<Longrightarrow> adds = []"
  by (induction rule: vpn_untouched.induct)
    (auto simp: vpn_untouched_defs Let_def same_rules case_prod_beta split: option.splits if_splits)

inductive vpn_creates :: "string \<Rightarrow> string list \<Rightarrow> (ConfigOp \<times> string) list \<Rightarrow> bool" where
  "vpn_creates (js_trim name) existingNames (IpsecEspGroupForm_submit None existingNames name values firstProposalEncryption firstProposalHash)"
| "vpn_creates (js_trim name) existingNames (IpsecIkeGroupForm_submit None existingNames name values firstProposalDhGroup firstProposalEncryption firstProposalHash)"
| "vpn_creates (js_trim name) existingNames (IpsecRemoteAccess_ConnectionForm_submit None existingNames name values)"
| "vpn_creates (js_trim name) existingNames (IpsecSiteToSite_PeerForm_submit None existingNames name remoteAddress values firstTunnelId firstTunnelLocalPrefix firstTunnelRemotePrefix)"

lemmas vpn_creates_defs =
  IpsecEspGroupForm_submit_def IpsecEspGroupForm_canSubmit_def IpsecIkeGroupForm_submit_def
  IpsecIkeGroupForm_canSubmit_def IpsecRemoteAccess_ConnectionForm_submit_def
  IpsecRemoteAccess_ConnectionForm_canSubmit_def IpsecSiteToSite_PeerForm_submit_def
  IpsecSiteToSite_PeerForm_canSubmit_def

lemma vpn_creates_new: "vpn_creates n existing adds \<Longrightarrow> adds = [] \<or> n \<noteq> '''' \<and> n \<notin> set existing"
  by (induction rule: vpn_creates.induct) (auto simp: vpn_creates_defs Let_def rule_number_re_def no_blank)

end
