(* ===== verification/UiQos.thy ===== *)
theory UiQos
  imports Handlers HighAvailability Qos LoadBalancing
begin

text \<open>
  The editors of the QoS, load balancing and high availability pages: for each component the condition its button is
  enabled under, the values its form starts from, and the changes (op and label) its handlers queue.
  The arguments are the props and the state a handler reads. A handler's resets of its own input
  fields and the closing of its panel are left out; a callback prop such as \<open>onAdd\<close> is whether the
  parent passes one.
\<close>

text \<open>\<open>components/qos/CakePolicyList.tsx\<close>\<close>

definition CakePolicyList_queueDelete :: "string \<Rightarrow> (ConfigOp \<times> string) list" where
  "CakePolicyList_queueDelete name =
     [(deleteCakePolicyOp name, ''delete qos policy cake '' @ name)]"

definition CakePolicyList_onClick :: "text_input \<Rightarrow> (ConfigOp \<times> string) list" where
  "CakePolicyList_onClick newName =
     (let trm = js_trim newName;
          ops = cakeFormToOps trm None blankCakeFormValues
      in map (\<lambda>op1. (op1, change_label op1)) ops)"

definition CakePolicyList_CakeFields_submit ::
    "QosCakePolicy \<Rightarrow> CakeFormValues \<Rightarrow> (ConfigOp \<times> string) list" where
  "CakePolicyList_CakeFields_submit policy values =
     (let ops = cakeFormToOps (qoqcp_name policy) (Some policy) values
      in map (\<lambda>op1. (op1, change_label op1)) ops)"

definition CakePolicyList_CakeFields_values :: "QosCakePolicy \<Rightarrow> CakeFormValues" where
  "CakePolicyList_CakeFields_values policy = cakeToFormValues policy"

text \<open>\<open>components/qos/FqCodelPolicyList.tsx\<close>\<close>

definition FqCodelPolicyList_queueDelete :: "string \<Rightarrow> (ConfigOp \<times> string) list" where
  "FqCodelPolicyList_queueDelete name =
     [(deleteFqCodelPolicyOp name, ''delete qos policy fq-codel '' @ name)]"

definition FqCodelPolicyList_onClick :: "text_input \<Rightarrow> (ConfigOp \<times> string) list" where
  "FqCodelPolicyList_onClick newName =
     (let trm = js_trim newName;
          ops = fqCodelFormToOps trm None blankFqCodelFormValues
      in map (\<lambda>op1. (op1, change_label op1)) ops)"

definition FqCodelPolicyList_FqCodelFields_submit ::
    "QosFqCodelPolicy \<Rightarrow> FqCodelFormValues \<Rightarrow> (ConfigOp \<times> string) list" where
  "FqCodelPolicyList_FqCodelFields_submit policy values =
     (let ops = fqCodelFormToOps (qfcp_name policy) (Some policy) values
      in map (\<lambda>op1. (op1, change_label op1)) ops)"

definition FqCodelPolicyList_FqCodelFields_values :: "QosFqCodelPolicy \<Rightarrow> FqCodelFormValues" where
  "FqCodelPolicyList_FqCodelFields_values policy = fqCodelToFormValues policy"

text \<open>\<open>components/qos/LimiterPolicyList.tsx\<close>\<close>

definition LimiterPolicyList_queueDelete :: "string \<Rightarrow> (ConfigOp \<times> string) list" where
  "LimiterPolicyList_queueDelete name =
     [(deleteLimiterPolicyOp name, ''delete qos policy limiter '' @ name)]"

definition LimiterPolicyList_addPolicy ::
    "text_input \<Rightarrow> text_input \<Rightarrow> text_input \<Rightarrow> text_input \<Rightarrow> (ConfigOp \<times> string) list" where
  "LimiterPolicyList_addPolicy newName firstClassId firstClassBandwidth defaultBandwidth =
     (let trm = js_trim newName;
          ops = limiterPolicyFormToOps trm None \<lparr>lpfv_description = ''''\<rparr>;
          trimmedClassId = js_trim firstClassId
      in map (\<lambda>op1. (op1, op_name (co_op op1) @ '' '' @ js_join '' '' (co_path op1))) ops
         @ (if trimmedClassId \<noteq> ''''
            then (let classOps = limiterClassFormToOps trm trimmedClassId None
                          (blankLimiterClassFormValues\<lparr>lcfv_bandwidth := js_trim firstClassBandwidth\<rparr>)
                  in map (\<lambda>op1. (op1, change_label op1)) classOps)
            else [])
         @ (if js_trim defaultBandwidth \<noteq> ''''
            then (let before = \<lparr>ldcfv_bandwidth = '''',
                          ldcfv_burst = ''15k'',
                          ldcfv_mtu = '''',
                          ldcfv_policeExceed = ''drop'',
                          ldcfv_policeNotExceed = ''ok''\<rparr>;
                      defaultOps = limiterDefaultClassFormToOps trm before
                          (before\<lparr>ldcfv_bandwidth := js_trim defaultBandwidth\<rparr>)
                  in map (\<lambda>op1. (op1, change_label op1)) defaultOps)
            else []))"

definition LimiterPolicyList_LimiterClassList_queueDelete ::
    "QosLimiterPolicy \<Rightarrow> string \<Rightarrow> (ConfigOp \<times> string) list" where
  "LimiterPolicyList_LimiterClassList_queueDelete policy classId =
     [(deleteLimiterClassOp (qlp_name policy) classId, ''delete qos policy limiter ''
       @ qlp_name policy @ '' class '' @ classId)]"

definition LimiterPolicyList_LimiterClassList_onClick ::
    "QosLimiterPolicy \<Rightarrow> text_input \<Rightarrow> (ConfigOp \<times> string) list" where
  "LimiterPolicyList_LimiterClassList_onClick policy newId =
     (let existingIds = map (\<lambda>c. qlc_id c) (qlp_classes policy);
          trm = js_trim newId
      in (if \<not> (trm \<noteq> '''') \<or> trm \<in> set existingIds then []
          else (let ops = limiterClassFormToOps (qlp_name policy) trm None
                        blankLimiterClassFormValues
                in map
                     (\<lambda>op1. (op1, op_name (co_op op1) @ '' '' @ js_join '' '' (co_path op1)))
                     ops)))"

definition LimiterPolicyList_LimiterClassFields_submit ::
    "QosLimiterPolicy \<Rightarrow> QosLimiterClass \<Rightarrow> LimiterClassFormValues \<Rightarrow> (ConfigOp \<times> string) list" where
  "LimiterPolicyList_LimiterClassFields_submit policy cls values =
     (let ops = limiterClassFormToOps (qlp_name policy) (qlc_id cls) (Some cls) values
      in map (\<lambda>op1. (op1, change_label op1)) ops)"

definition LimiterPolicyList_LimiterClassFields_values :: "QosLimiterClass \<Rightarrow> LimiterClassFormValues" where
  "LimiterPolicyList_LimiterClassFields_values cls = limiterClassToFormValues cls"

definition LimiterPolicyList_LimiterDefaultClassPanel_submit ::
    "QosLimiterPolicy \<Rightarrow> LimiterDefaultClassFormValues \<Rightarrow> (ConfigOp \<times> string) list" where
  "LimiterPolicyList_LimiterDefaultClassPanel_submit policy values =
     (let before = limiterDefaultClassToFormValues (qlp_defaultClass policy);
          ops = limiterDefaultClassFormToOps (qlp_name policy) before values
      in map (\<lambda>op1. (op1, change_label op1)) ops)"

definition LimiterPolicyList_LimiterDefaultClassPanel_values :: "QosLimiterPolicy \<Rightarrow> LimiterDefaultClassFormValues" where
  "LimiterPolicyList_LimiterDefaultClassPanel_values policy =
     (let before = limiterDefaultClassToFormValues (qlp_defaultClass policy) in before)"

text \<open>\<open>components/qos/QosInterfaceBindingsList.tsx\<close>\<close>

definition QosInterfaceBindingsList_queueDelete ::
    "QosConfig \<Rightarrow> string \<Rightarrow> (ConfigOp \<times> string) list" where
  "QosInterfaceBindingsList_queueDelete qos ifname =
     [(deleteQosInterfaceBindingOp ifname, ''delete qos interface '' @ ifname)]"

definition QosInterfaceBindingsList_BindingRow_setDirection ::
    "string \<Rightarrow> string \<Rightarrow> string \<Rightarrow> (ConfigOp \<times> string) list" where
  "QosInterfaceBindingsList_BindingRow_setDirection interfaceName direction val =
     (let op1 = setQosInterfaceDirectionOp interfaceName direction val
      in [(op1, op_name (co_op op1)
           @ '' qos interface '' @ interfaceName @ '' '' @ direction @ ''${value ? '')])"

text \<open>\<open>components/qos/QosMatchGroupsList.tsx\<close>\<close>

definition QosMatchGroupsList_queueDelete :: "string \<Rightarrow> (ConfigOp \<times> string) list" where
  "QosMatchGroupsList_queueDelete name =
     [(deleteMatchGroupOp name, ''delete qos traffic-match-group '' @ name)]"

definition QosMatchGroupsList_addGroup ::
    "text_input \<Rightarrow> text_input \<Rightarrow> text_input \<Rightarrow> text_input \<Rightarrow> (ConfigOp \<times> string) list" where
  "QosMatchGroupsList_addGroup newName firstMatchId firstMatchDestAddress firstMatchDestPort =
     (let trm = js_trim newName;
          ops = matchGroupFormToOps trm None \<lparr>mgfv_description = ''''\<rparr>;
          trimmedMatchId = js_trim firstMatchId
      in map (\<lambda>op1. (op1, op_name (co_op op1) @ '' '' @ js_join '' '' (co_path op1))) ops
         @ (if trimmedMatchId \<noteq> ''''
            then (let matchOps = addQosMatchOps (qosMatchGroupPath trm []) trimmedMatchId
                          (blankQosMatchOptions\<lparr>qmo_ipDestinationAddress := js_trim firstMatchDestAddress,
                               qmo_ipDestinationPort := js_trim firstMatchDestPort\<rparr>)
                  in map (\<lambda>op1. (op1, change_label op1)) matchOps)
            else []))"

text \<open>\<open>components/qos/QosMatchList.tsx\<close>\<close>

definition QosMatchList_valid :: "QosMatch list \<Rightarrow> text_input \<Rightarrow> bool" where
  "QosMatchList_valid matches matchId =
     (let trimmedId = js_trim matchId;
          taken = list_ex (\<lambda>m. qm_id m = trimmedId) matches
      in trimmedId \<noteq> '''' \<and> \<not> taken)"

definition QosMatchList_submit ::
    "string list \<Rightarrow> QosMatch list \<Rightarrow> text_input \<Rightarrow> QosMatchOptions \<Rightarrow> (ConfigOp \<times> string) list" where
  "QosMatchList_submit basePath matches matchId options =
     (let trimmedId = js_trim matchId
      in (if \<not> QosMatchList_valid matches matchId then []
          else (let ops = addQosMatchOps basePath trimmedId options
                in map (\<lambda>op1. (op1, change_label op1)) ops)))"

definition QosMatchList_options :: QosMatchOptions where
  "QosMatchList_options = blankQosMatchOptions"

definition QosMatchList_queueRemove ::
    "string list \<Rightarrow> string \<Rightarrow> (ConfigOp \<times> string) list" where
  "QosMatchList_queueRemove basePath i =
     (let op1 = removeQosMatchOp basePath i in [(op1, ''delete '' @ js_join '' '' (co_path op1))])"

definition QosMatchList_addMatchGroupRef ::
    "string list \<Rightarrow> string list \<Rightarrow> string \<Rightarrow> text_input \<Rightarrow> (ConfigOp \<times> string) list" where
  "QosMatchList_addMatchGroupRef basePath matchGroups pathLabel newMatchGroup =
     (let trm = js_trim newMatchGroup
      in (if \<not> (trm \<noteq> '''') \<or> trm \<in> set matchGroups then []
          else (let op1 = addQosMatchGroupRefOp basePath trm
                in [(op1, ''set '' @ pathLabel @ '' match-group '' @ quoted trm)])))"

definition QosMatchList_removeMatchGroupRef ::
    "string list \<Rightarrow> string \<Rightarrow> (ConfigOp \<times> string) list" where
  "QosMatchList_removeMatchGroupRef basePath name =
     (let op1 = removeQosMatchGroupRefOp basePath name
      in [(op1, ''delete '' @ js_join '' '' (co_path op1))])"

text \<open>\<open>components/qos/RateControlPolicyList.tsx\<close>\<close>

definition RateControlPolicyList_queueDelete :: "string \<Rightarrow> (ConfigOp \<times> string) list" where
  "RateControlPolicyList_queueDelete name =
     [(deleteRateControlPolicyOp name, ''delete qos policy rate-control '' @ name)]"

definition RateControlPolicyList_onClick :: "text_input \<Rightarrow> (ConfigOp \<times> string) list" where
  "RateControlPolicyList_onClick newName =
     (let trm = js_trim newName;
          ops = rateControlFormToOps trm None blankRateControlFormValues
      in map (\<lambda>op1. (op1, change_label op1)) ops)"

definition RateControlPolicyList_RateControlFields_submit ::
    "QosRateControlPolicy \<Rightarrow> RateControlFormValues \<Rightarrow> (ConfigOp \<times> string) list" where
  "RateControlPolicyList_RateControlFields_submit policy values =
     (let ops = rateControlFormToOps (qrcp_name policy) (Some policy) values
      in map (\<lambda>op1. (op1, change_label op1)) ops)"

definition RateControlPolicyList_RateControlFields_values :: "QosRateControlPolicy \<Rightarrow> RateControlFormValues" where
  "RateControlPolicyList_RateControlFields_values policy = rateControlToFormValues policy"

text \<open>\<open>components/qos/ShaperHfscPolicyList.tsx\<close>\<close>

definition ShaperHfscPolicyList_queueDelete :: "string \<Rightarrow> (ConfigOp \<times> string) list" where
  "ShaperHfscPolicyList_queueDelete name =
     [(deleteShaperHfscPolicyOp name, ''delete qos policy shaper-hfsc '' @ name)]"

definition ShaperHfscPolicyList_addPolicy ::
    "text_input \<Rightarrow> text_input \<Rightarrow> text_input \<Rightarrow> text_input \<Rightarrow> (ConfigOp \<times> string) list" where
  "ShaperHfscPolicyList_addPolicy newName firstClassId firstClassLinkshareM2 defaultLinkshareM2 =
     (let trm = js_trim newName;
          ops = shaperHfscPolicyFormToOps trm None blankShaperHfscPolicyFormValues;
          trimmedClassId = js_trim firstClassId
      in map (\<lambda>op1. (op1, change_label op1)) ops
         @ (if trimmedClassId \<noteq> ''''
            then (let classOps = hfscClassFormToOps trm trimmedClassId None
                          (blankHfscClassFormValues\<lparr>hcfva_linkshare := \<lparr>qohcfv_d = '''',
                                   qohcfv_m1 = '''',
                                   qohcfv_m2 = js_trim firstClassLinkshareM2\<rparr>\<rparr>)
                  in map (\<lambda>op1. (op1, change_label op1)) classOps)
            else [])
         @ (if js_trim defaultLinkshareM2 \<noteq> ''''
            then (let before = \<lparr>hdcfv_linkshare = \<lparr>qohcfv_d = '''',
                              qohcfv_m1 = '''',
                              qohcfv_m2 = ''''\<rparr>,
                          hdcfv_realtime = \<lparr>qohcfv_d = '''',
                              qohcfv_m1 = '''',
                              qohcfv_m2 = ''''\<rparr>,
                          hdcfv_upperlimit = \<lparr>qohcfv_d = '''',
                              qohcfv_m1 = '''',
                              qohcfv_m2 = ''''\<rparr>\<rparr>;
                      defaultOps = hfscDefaultClassFormToOps trm before
                          (before\<lparr>hdcfv_linkshare := \<lparr>qohcfv_d = '''',
                                   qohcfv_m1 = '''',
                                   qohcfv_m2 = js_trim defaultLinkshareM2\<rparr>\<rparr>)
                  in map (\<lambda>op1. (op1, change_label op1)) defaultOps)
            else []))"

definition ShaperHfscPolicyList_HfscPolicyFields_submit ::
    "QosShaperHfscPolicy \<Rightarrow> ShaperHfscPolicyFormValues \<Rightarrow> (ConfigOp \<times> string) list" where
  "ShaperHfscPolicyList_HfscPolicyFields_submit policy values =
     (let ops = shaperHfscPolicyFormToOps (qshp_name policy) (Some policy) values
      in map (\<lambda>op1. (op1, change_label op1)) ops)"

definition ShaperHfscPolicyList_HfscPolicyFields_values :: "QosShaperHfscPolicy \<Rightarrow> ShaperHfscPolicyFormValues" where
  "ShaperHfscPolicyList_HfscPolicyFields_values policy =
     (let before = shaperHfscPolicyToFormValues policy in before)"

definition ShaperHfscPolicyList_HfscClassList_queueDelete ::
    "QosShaperHfscPolicy \<Rightarrow> string \<Rightarrow> (ConfigOp \<times> string) list" where
  "ShaperHfscPolicyList_HfscClassList_queueDelete policy classId =
     [(deleteHfscClassOp (qshp_name policy) classId, ''delete qos policy shaper-hfsc ''
       @ qshp_name policy @ '' class '' @ classId)]"

definition ShaperHfscPolicyList_HfscClassList_onClick ::
    "QosShaperHfscPolicy \<Rightarrow> text_input \<Rightarrow> (ConfigOp \<times> string) list" where
  "ShaperHfscPolicyList_HfscClassList_onClick policy newId =
     (let existingIds = map (\<lambda>c. qoqhc_id c) (qshp_classes policy);
          trm = js_trim newId
      in (if \<not> (trm \<noteq> '''') \<or> trm \<in> set existingIds then []
          else (let ops = hfscClassFormToOps (qshp_name policy) trm None blankHfscClassFormValues
                in map
                     (\<lambda>op1. (op1, op_name (co_op op1) @ '' '' @ js_join '' '' (co_path op1)))
                     ops)))"

definition ShaperHfscPolicyList_HfscClassFields_submit ::
    "QosShaperHfscPolicy \<Rightarrow> QosHfscClass \<Rightarrow> HfscClassFormValues \<Rightarrow> (ConfigOp \<times> string) list" where
  "ShaperHfscPolicyList_HfscClassFields_submit policy cls values =
     (let ops = hfscClassFormToOps (qshp_name policy) (qoqhc_id cls) (Some cls) values
      in map (\<lambda>op1. (op1, change_label op1)) ops)"

definition ShaperHfscPolicyList_HfscClassFields_values :: "QosHfscClass \<Rightarrow> HfscClassFormValues" where
  "ShaperHfscPolicyList_HfscClassFields_values cls = hfscClassToFormValues cls"

definition ShaperHfscPolicyList_HfscDefaultClassPanel_submit ::
    "QosShaperHfscPolicy \<Rightarrow> HfscDefaultClassFormValues \<Rightarrow> (ConfigOp \<times> string) list" where
  "ShaperHfscPolicyList_HfscDefaultClassPanel_submit policy values =
     (let before = hfscDefaultClassToFormValues (qshp_defaultClass policy);
          ops = hfscDefaultClassFormToOps (qshp_name policy) before values
      in map (\<lambda>op1. (op1, change_label op1)) ops)"

definition ShaperHfscPolicyList_HfscDefaultClassPanel_values :: "QosShaperHfscPolicy \<Rightarrow> HfscDefaultClassFormValues" where
  "ShaperHfscPolicyList_HfscDefaultClassPanel_values policy =
     (let before = hfscDefaultClassToFormValues (qshp_defaultClass policy) in before)"

text \<open>\<open>components/qos/ShaperPolicyList.tsx\<close>\<close>

definition ShaperPolicyList_queueDelete :: "string \<Rightarrow> (ConfigOp \<times> string) list" where
  "ShaperPolicyList_queueDelete name =
     [(deleteShaperPolicyOp name, ''delete qos policy shaper '' @ name)]"

definition ShaperPolicyList_addPolicy ::
    "text_input \<Rightarrow> text_input \<Rightarrow> text_input \<Rightarrow> text_input \<Rightarrow> text_input \<Rightarrow> text_input \<Rightarrow> (ConfigOp \<times> string) list" where
  "ShaperPolicyList_addPolicy newName firstClassId firstClassBandwidth firstClassCeiling defaultBandwidth defaultCeiling =
     (let trm = js_trim newName;
          ops = shaperPolicyFormToOps trm None blankShaperPolicyFormValues;
          trimmedClassId = js_trim firstClassId
      in map (\<lambda>op1. (op1, change_label op1)) ops
         @ (if trimmedClassId \<noteq> ''''
            then (let classOps = shaperClassFormToOps trm trimmedClassId None
                          (blankShaperClassFormValues\<lparr>scfv_bandwidth := js_trim firstClassBandwidth,
                               scfv_ceiling := js_trim firstClassCeiling\<rparr>)
                  in map (\<lambda>op1. (op1, change_label op1)) classOps)
            else [])
         @ (if js_trim defaultBandwidth \<noteq> '''' \<or> js_trim defaultCeiling \<noteq> ''''
            then (let before = \<lparr>sdcfv_bandwidth = '''',
                          sdcfv_burst = ''15k'',
                          sdcfv_ceiling = '''',
                          sdcfv_queueType = ''fq-codel'',
                          sdcfv_queueLimit = '''',
                          sdcfv_setDscp = '''',
                          sdcfv_priority = ''''\<rparr>;
                      defaultOps = shaperDefaultClassFormToOps trm before
                          (before\<lparr>sdcfv_bandwidth := js_trim defaultBandwidth,
                               sdcfv_ceiling := js_trim defaultCeiling\<rparr>)
                  in map (\<lambda>op1. (op1, change_label op1)) defaultOps)
            else []))"

definition ShaperPolicyList_ShaperPolicyFields_submit ::
    "QosShaperPolicy \<Rightarrow> ShaperPolicyFormValues \<Rightarrow> (ConfigOp \<times> string) list" where
  "ShaperPolicyList_ShaperPolicyFields_submit policy values =
     (let ops = shaperPolicyFormToOps (qsp_name policy) (Some policy) values
      in map (\<lambda>op1. (op1, change_label op1)) ops)"

definition ShaperPolicyList_ShaperPolicyFields_values :: "QosShaperPolicy \<Rightarrow> ShaperPolicyFormValues" where
  "ShaperPolicyList_ShaperPolicyFields_values policy =
     (let before = shaperPolicyToFormValues policy in before)"

definition ShaperPolicyList_ShaperClassList_queueDelete ::
    "QosShaperPolicy \<Rightarrow> string \<Rightarrow> (ConfigOp \<times> string) list" where
  "ShaperPolicyList_ShaperClassList_queueDelete policy classId =
     [(deleteShaperClassOp (qsp_name policy) classId, ''delete qos policy shaper ''
       @ qsp_name policy @ '' class '' @ classId)]"

definition ShaperPolicyList_ShaperClassList_onClick ::
    "QosShaperPolicy \<Rightarrow> text_input \<Rightarrow> (ConfigOp \<times> string) list" where
  "ShaperPolicyList_ShaperClassList_onClick policy newId =
     (let existingIds = map (\<lambda>c. qsc_id c) (qsp_classes policy);
          trm = js_trim newId
      in (if \<not> (trm \<noteq> '''') \<or> trm \<in> set existingIds then []
          else (let ops = shaperClassFormToOps (qsp_name policy) trm None blankShaperClassFormValues
                in map
                     (\<lambda>op1. (op1, op_name (co_op op1) @ '' '' @ js_join '' '' (co_path op1)))
                     ops)))"

definition ShaperPolicyList_ShaperClassFields_submit ::
    "QosShaperPolicy \<Rightarrow> QosShaperClass \<Rightarrow> ShaperClassFormValues \<Rightarrow> (ConfigOp \<times> string) list" where
  "ShaperPolicyList_ShaperClassFields_submit policy cls values =
     (let ops = shaperClassFormToOps (qsp_name policy) (qsc_id cls) (Some cls) values
      in map (\<lambda>op1. (op1, change_label op1)) ops)"

definition ShaperPolicyList_ShaperClassFields_values :: "QosShaperClass \<Rightarrow> ShaperClassFormValues" where
  "ShaperPolicyList_ShaperClassFields_values cls = shaperClassToFormValues cls"

definition ShaperPolicyList_ShaperDefaultClassPanel_submit ::
    "QosShaperPolicy \<Rightarrow> ShaperDefaultClassFormValues \<Rightarrow> (ConfigOp \<times> string) list" where
  "ShaperPolicyList_ShaperDefaultClassPanel_submit policy values =
     (let before = shaperDefaultClassToFormValues (qsp_defaultClass policy);
          ops = shaperDefaultClassFormToOps (qsp_name policy) before values
      in map (\<lambda>op1. (op1, change_label op1)) ops)"

definition ShaperPolicyList_ShaperDefaultClassPanel_values :: "QosShaperPolicy \<Rightarrow> ShaperDefaultClassFormValues" where
  "ShaperPolicyList_ShaperDefaultClassPanel_values policy =
     (let before = shaperDefaultClassToFormValues (qsp_defaultClass policy) in before)"

text \<open>\<open>components/qos/SimpleClassfulPolicyList.tsx\<close>\<close>

definition SimpleClassfulPolicyList_queueDelete :: "string \<Rightarrow> string \<Rightarrow> (ConfigOp \<times> string) list" where
  "SimpleClassfulPolicyList_queueDelete policyType name =
     [(deleteSimpleClassfulPolicyOp policyType name, ''delete qos policy '' @ policyType @ '' ''
       @ name)]"

definition SimpleClassfulPolicyList_addPolicy ::
    "string \<Rightarrow> text_input \<Rightarrow> text_input \<Rightarrow> (ConfigOp \<times> string) list" where
  "SimpleClassfulPolicyList_addPolicy policyType newName firstClassId =
     (let trm = js_trim newName;
          ops = simpleClassfulPolicyFormToOps policyType trm None
              \<lparr>scpfv_description = ''''\<rparr>;
          trimmedClassId = js_trim firstClassId
      in map (\<lambda>op1. (op1, change_label op1)) ops
         @ (if trimmedClassId \<noteq> ''''
            then (let classOps = simpleClassfulClassFormToOps policyType trm trimmedClassId None
                          (blankSimpleClassfulClassFormValues ''drop-tail'')
                  in map
                       (\<lambda>op1. (op1, op_name (co_op op1) @ '' ''
                             @ js_join '' '' (co_path op1))) classOps)
            else []))"

text \<open>\<open>components/loadbalancing/HaproxyBackendList.tsx\<close>\<close>

definition HaproxyBackendList_queueDelete :: "string \<Rightarrow> (ConfigOp \<times> string) list" where
  "HaproxyBackendList_queueDelete name =
     [(deleteHAProxyBackendOp name, ''delete load-balancing haproxy backend '' @ name)]"

definition HaproxyBackendList_HaproxyBackendFormPanel_nameValid ::
    "HAProxyBackend option \<Rightarrow> string list \<Rightarrow> text_input \<Rightarrow> bool" where
  "HaproxyBackendList_HaproxyBackendFormPanel_nameValid backend existingNames newName =
     (let name = (case backend of
               Some backend' \<Rightarrow> hapb_name backend'
             | None \<Rightarrow> js_trim newName);
          nameTaken = backend = None \<and> name \<in> set existingNames
      in \<not> (backend = None) \<or> name \<noteq> '''' \<and> \<not> nameTaken)"

definition HaproxyBackendList_HaproxyBackendFormPanel_submit ::
    "HAProxyBackend option \<Rightarrow> string list \<Rightarrow> text_input \<Rightarrow> HAProxyBackendFormValues \<Rightarrow> text_input \<Rightarrow> text_input \<Rightarrow> text_input \<Rightarrow> text_input \<Rightarrow> text_input \<Rightarrow> (ConfigOp \<times> string) list" where
  "HaproxyBackendList_HaproxyBackendFormPanel_submit backend existingNames newName values initialServerName initialServerAddress initialServerPort firstRuleDomainNames firstRuleSetServer =
     (let name = (case backend of
               Some backend' \<Rightarrow> hapb_name backend'
             | None \<Rightarrow> js_trim newName)
      in (if \<not> HaproxyBackendList_HaproxyBackendFormPanel_nameValid backend existingNames
               newName
          then []
          else (let ops = haproxyBackendFormToOps name backend values
                in map (\<lambda>op1. (op1, change_label op1)) ops
                   @ (if \<not> (backend \<noteq> None)
                         \<and> js_trim initialServerName \<noteq> ''''
                      then (let serverOps = addHAProxyServerOps name (js_trim initialServerName)
                                    \<lparr>hapso_address = js_trim initialServerAddress,
                                        hapso_port = js_trim initialServerPort,
                                        hapso_backup = False,
                                        hapso_checkPort = '''',
                                        hapso_sendProxy = False,
                                        hapso_sendProxyV2 = False\<rparr>
                            in map (\<lambda>op1. (op1, change_label op1)) serverOps)
                      else [])
                   @ (if \<not> (backend \<noteq> None)
                         \<and> (js_trim firstRuleDomainNames \<noteq> ''''
                            \<or> js_trim firstRuleSetServer \<noteq> '''')
                      then (let ruleOps1 = addHAProxyBackendRuleOps name ''1''
                                    \<lparr>hapro_domainNames = firstRuleDomainNames,
                                        hapro_wildcardDomain = False,
                                        hapro_ssl = '''',
                                        hapro_urlPathBegin = '''',
                                        hapro_urlPathEnd = '''',
                                        hapro_urlPathExact = '''',
                                        hapro_setRedirectLocation = '''',
                                        hapro_setBackend = '''',
                                        hapro_setServer = firstRuleSetServer\<rparr>
                            in map (\<lambda>op1. (op1, change_label op1)) ruleOps1)
                      else []))))"

definition HaproxyBackendList_HaproxyBackendFormPanel_values :: "HAProxyBackend option \<Rightarrow> HAProxyBackendFormValues" where
  "HaproxyBackendList_HaproxyBackendFormPanel_values backend =
     (case backend of
        Some backend' \<Rightarrow> haproxyBackendToFormValues backend'
      | None \<Rightarrow> blankHAProxyBackendFormValues)"

definition HaproxyBackendList_HaproxyServersSection_valid :: "HAProxyBackend \<Rightarrow> text_input \<Rightarrow> bool" where
  "HaproxyBackendList_HaproxyServersSection_valid backend name =
     (let trimmedName = js_trim name;
          taken = list_ex (\<lambda>s. lbhaps_name s = trimmedName) (hapb_servers backend)
      in trimmedName \<noteq> '''' \<and> \<not> taken)"

definition HaproxyBackendList_HaproxyServersSection_submit ::
    "HAProxyBackend \<Rightarrow> text_input \<Rightarrow> text_input \<Rightarrow> text_input \<Rightarrow> bool \<Rightarrow> (ConfigOp \<times> string) list" where
  "HaproxyBackendList_HaproxyServersSection_submit backend name address port backup =
     (let trimmedName = js_trim name
      in (if \<not> HaproxyBackendList_HaproxyServersSection_valid backend name then []
          else (let ops = addHAProxyServerOps (hapb_name backend) trimmedName
                        \<lparr>hapso_address = address,
                            hapso_port = port,
                            hapso_backup = backup,
                            hapso_checkPort = '''',
                            hapso_sendProxy = False,
                            hapso_sendProxyV2 = False\<rparr>
                in map (\<lambda>op1. (op1, change_label op1)) ops)))"

definition HaproxyBackendList_HaproxyServersSection_queueRemove ::
    "HAProxyBackend \<Rightarrow> string \<Rightarrow> (ConfigOp \<times> string) list" where
  "HaproxyBackendList_HaproxyServersSection_queueRemove backend serverName =
     (let op1 = removeHAProxyServerOp (hapb_name backend) serverName
      in [(op1, ''delete '' @ js_join '' '' (co_path op1))])"

definition HaproxyBackendList_HaproxyBackendRulesSection_submit ::
    "HAProxyBackend \<Rightarrow> text_input \<Rightarrow> text_input \<Rightarrow> (ConfigOp \<times> string) list" where
  "HaproxyBackendList_HaproxyBackendRulesSection_submit backend domainNames setServer =
     (let nextId = next_id (Num 0) (map (\<lambda>r. hapr_id r) (hapb_rules backend));
          ops = addHAProxyBackendRuleOps (hapb_name backend) nextId
              \<lparr>hapro_domainNames = domainNames,
                  hapro_wildcardDomain = False,
                  hapro_ssl = '''',
                  hapro_urlPathBegin = '''',
                  hapro_urlPathEnd = '''',
                  hapro_urlPathExact = '''',
                  hapro_setRedirectLocation = '''',
                  hapro_setBackend = '''',
                  hapro_setServer = setServer\<rparr>
      in map (\<lambda>op1. (op1, change_label op1)) ops)"

definition HaproxyBackendList_HaproxyBackendRulesSection_queueRemove ::
    "HAProxyBackend \<Rightarrow> string \<Rightarrow> (ConfigOp \<times> string) list" where
  "HaproxyBackendList_HaproxyBackendRulesSection_queueRemove backend ruleId =
     (let op1 = removeHAProxyBackendRuleOp (hapb_name backend) ruleId
      in [(op1, ''delete '' @ js_join '' '' (co_path op1))])"

text \<open>\<open>components/loadbalancing/HaproxyGlobalSettings.tsx\<close>\<close>

definition HaproxyGlobalSettings_submit ::
    "HAProxyGlobalParameters \<Rightarrow> HAProxyGlobalTimeout \<Rightarrow> string option \<Rightarrow> HAProxyGlobalParametersFormValues \<Rightarrow> HAProxyGlobalTimeoutFormValues \<Rightarrow> text_input \<Rightarrow> (ConfigOp \<times> string) list" where
  "HaproxyGlobalSettings_submit globalParameters globalTimeout vrf params timeout vrfValue =
     (let beforeParams = haproxyGlobalParametersToFormValues globalParameters;
          beforeTimeout = haproxyGlobalTimeoutToFormValues globalTimeout;
          ops = (let trimmedVrf = js_trim vrfValue
             in (haproxyGlobalParametersFormToOps beforeParams params
                 @ haproxyGlobalTimeoutFormToOps beforeTimeout timeout)
                @ (if trimmedVrf \<noteq> or_else vrf '''' then [setHAProxyVrfOp vrfValue] else []))
      in map (\<lambda>op1. (op1, change_label op1)) ops)"

definition HaproxyGlobalSettings_params :: "HAProxyGlobalParameters \<Rightarrow> HAProxyGlobalParametersFormValues" where
  "HaproxyGlobalSettings_params globalParameters =
     (let beforeParams = haproxyGlobalParametersToFormValues globalParameters in beforeParams)"

definition HaproxyGlobalSettings_timeout :: "HAProxyGlobalTimeout \<Rightarrow> HAProxyGlobalTimeoutFormValues" where
  "HaproxyGlobalSettings_timeout globalTimeout =
     (let beforeTimeout = haproxyGlobalTimeoutToFormValues globalTimeout in beforeTimeout)"

text \<open>\<open>components/loadbalancing/HaproxyServiceList.tsx\<close>\<close>

definition HaproxyServiceList_queueDelete :: "string \<Rightarrow> (ConfigOp \<times> string) list" where
  "HaproxyServiceList_queueDelete name =
     [(deleteHAProxyServiceOp name, ''delete load-balancing haproxy service '' @ name)]"

definition HaproxyServiceList_HaproxyServiceFormPanel_nameValid ::
    "HAProxyService option \<Rightarrow> string list \<Rightarrow> text_input \<Rightarrow> bool" where
  "HaproxyServiceList_HaproxyServiceFormPanel_nameValid service existingNames newName =
     (let name = (case service of
               Some service' \<Rightarrow> haps_name service'
             | None \<Rightarrow> js_trim newName);
          nameTaken = service = None \<and> name \<in> set existingNames
      in \<not> (service = None) \<or> name \<noteq> '''' \<and> \<not> nameTaken)"

definition HaproxyServiceList_HaproxyServiceFormPanel_submit ::
    "HAProxyService option \<Rightarrow> string list \<Rightarrow> text_input \<Rightarrow> HAProxyServiceFormValues \<Rightarrow> string list \<Rightarrow> text_input \<Rightarrow> text_input \<Rightarrow> text_input \<Rightarrow> (ConfigOp \<times> string) list" where
  "HaproxyServiceList_HaproxyServiceFormPanel_submit service existingNames newName values selectedBackends firstListenAddress firstRuleDomainNames firstRuleSetBackend =
     (let name = (case service of
               Some service' \<Rightarrow> haps_name service'
             | None \<Rightarrow> js_trim newName)
      in (if \<not> HaproxyServiceList_HaproxyServiceFormPanel_nameValid service existingNames
               newName
          then []
          else (let ops = (let base = haproxyServicePath name [];
                           before = set_order (or_else (map_option haps_backends service) []);
                           after = set_order selectedBackends
                       in haproxyServiceFormToOps name service values
                          @ concat (map
                                 (\<lambda>b. (if \<not> (b \<in> set before)
                                       then [set_op (base @ [''backend'']) b]
                                       else [])) after)
                          @ concat (map
                                 (\<lambda>b. (if \<not> (b \<in> set after)
                                       then [delete_value_op (base @ [''backend'']) b]
                                       else [])) before))
                in map (\<lambda>op1. (op1, change_label op1)) ops
                   @ (if service = None \<and> js_trim firstListenAddress \<noteq> ''''
                      then (let listenOps = addHAProxyListenAddressOps name
                                    (js_trim firstListenAddress) False
                            in map (\<lambda>op1. (op1, change_label op1)) listenOps)
                      else [])
                   @ (if service = None
                         \<and> (js_trim firstRuleDomainNames \<noteq> ''''
                            \<or> js_trim firstRuleSetBackend \<noteq> '''')
                      then (let ruleOps1 = addHAProxyServiceRuleOps name ''1''
                                    \<lparr>hapro_domainNames = firstRuleDomainNames,
                                        hapro_wildcardDomain = False,
                                        hapro_ssl = '''',
                                        hapro_urlPathBegin = '''',
                                        hapro_urlPathEnd = '''',
                                        hapro_urlPathExact = '''',
                                        hapro_setRedirectLocation = '''',
                                        hapro_setBackend = firstRuleSetBackend,
                                        hapro_setServer = ''''\<rparr>
                            in map (\<lambda>op1. (op1, change_label op1)) ruleOps1)
                      else []))))"

definition HaproxyServiceList_HaproxyServiceFormPanel_values :: "HAProxyService option \<Rightarrow> HAProxyServiceFormValues" where
  "HaproxyServiceList_HaproxyServiceFormPanel_values service =
     (case service of
        Some service' \<Rightarrow> haproxyServiceToFormValues service'
      | None \<Rightarrow> blankHAProxyServiceFormValues)"

definition HaproxyServiceList_HaproxyListenAddressesSection_valid :: "HAProxyService \<Rightarrow> text_input \<Rightarrow> bool" where
  "HaproxyServiceList_HaproxyListenAddressesSection_valid service address =
     (let trm = js_trim address;
          taken = list_ex (\<lambda>a. hapla_address a = trm) (haps_listenAddresses service)
      in trm \<noteq> '''' \<and> \<not> taken)"

definition HaproxyServiceList_HaproxyListenAddressesSection_submit ::
    "HAProxyService \<Rightarrow> text_input \<Rightarrow> bool \<Rightarrow> (ConfigOp \<times> string) list" where
  "HaproxyServiceList_HaproxyListenAddressesSection_submit service address acceptProxy =
     (let trm = js_trim address
      in (if \<not> HaproxyServiceList_HaproxyListenAddressesSection_valid service address then []
          else (let ops = addHAProxyListenAddressOps (haps_name service) trm acceptProxy
                in map (\<lambda>op1. (op1, change_label op1)) ops)))"

definition HaproxyServiceList_HaproxyListenAddressesSection_queueRemove ::
    "HAProxyService \<Rightarrow> string \<Rightarrow> (ConfigOp \<times> string) list" where
  "HaproxyServiceList_HaproxyListenAddressesSection_queueRemove service a =
     (let op1 = removeHAProxyListenAddressOp (haps_name service) a
      in [(op1, ''delete '' @ js_join '' '' (co_path op1))])"

definition HaproxyServiceList_HaproxyServiceRulesSection_submit ::
    "HAProxyService \<Rightarrow> text_input \<Rightarrow> text_input \<Rightarrow> text_input \<Rightarrow> (ConfigOp \<times> string) list" where
  "HaproxyServiceList_HaproxyServiceRulesSection_submit service domainNames urlPathBegin setBackend =
     (let nextId = next_id (Num 0) (map (\<lambda>r. hapr_id r) (haps_rules service));
          ops = addHAProxyServiceRuleOps (haps_name service) nextId
              \<lparr>hapro_domainNames = domainNames,
                  hapro_wildcardDomain = False,
                  hapro_ssl = '''',
                  hapro_urlPathBegin = urlPathBegin,
                  hapro_urlPathEnd = '''',
                  hapro_urlPathExact = '''',
                  hapro_setRedirectLocation = '''',
                  hapro_setBackend = setBackend,
                  hapro_setServer = ''''\<rparr>
      in map (\<lambda>op1. (op1, change_label op1)) ops)"

definition HaproxyServiceList_HaproxyServiceRulesSection_queueRemove ::
    "HAProxyService \<Rightarrow> string \<Rightarrow> (ConfigOp \<times> string) list" where
  "HaproxyServiceList_HaproxyServiceRulesSection_queueRemove service ruleId =
     (let op1 = removeHAProxyServiceRuleOp (haps_name service) ruleId
      in [(op1, ''delete '' @ js_join '' '' (co_path op1))])"

text \<open>\<open>components/loadbalancing/WanGlobalSettings.tsx\<close>\<close>

definition WanGlobalSettings_toggle ::
    "ConfigOp \<Rightarrow> string \<Rightarrow> (ConfigOp \<times> string) list" where
  "WanGlobalSettings_toggle op1 label = [(op1, label)]"

text \<open>\<open>components/loadbalancing/WanInterfaceHealthList.tsx\<close>\<close>

definition WanInterfaceHealthList_queueRemove :: "string \<Rightarrow> (ConfigOp \<times> string) list" where
  "WanInterfaceHealthList_queueRemove ifname =
     [(removeInterfaceHealthOp ifname, ''delete load-balancing wan interface-health '' @ ifname)]"

definition WanInterfaceHealthList_InterfaceHealthForm_valid ::
    "WANInterfaceHealth option \<Rightarrow> string list \<Rightarrow> text_input \<Rightarrow> bool" where
  "WanInterfaceHealthList_InterfaceHealthForm_valid health existingNames ifname =
     (let trm = js_trim ifname;
          taken = \<not> (health \<noteq> None) \<and> trm \<in> set existingNames
      in trm \<noteq> '''' \<and> \<not> taken)"

definition WanInterfaceHealthList_InterfaceHealthForm_submit ::
    "WANInterfaceHealth option \<Rightarrow> string list \<Rightarrow> text_input \<Rightarrow> InterfaceHealthFormValues \<Rightarrow> text_input \<Rightarrow> text_input \<Rightarrow> (ConfigOp \<times> string) list" where
  "WanInterfaceHealthList_InterfaceHealthForm_submit health existingNames ifname values firstTestType firstTestTarget =
     (let trm = js_trim ifname
      in (if \<not> WanInterfaceHealthList_InterfaceHealthForm_valid health existingNames ifname
          then []
          else (let ops = interfaceHealthFormToOps trm health values
                in map (\<lambda>op1. (op1, change_label op1)) ops
                   @ (if health = None \<and> js_trim firstTestTarget \<noteq> ''''
                      then (let testOps = addWANHealthTestOps trm ''0''
                                    \<lparr>awanhto_type = firstTestType,
                                        awanhto_target = js_trim firstTestTarget,
                                        awanhto_testScript = '''',
                                        awanhto_respTime = '''',
                                        awanhto_ttlLimit = ''''\<rparr>
                            in map (\<lambda>op1. (op1, change_label op1)) testOps)
                      else []))))"

definition WanInterfaceHealthList_InterfaceHealthForm_values :: "WANInterfaceHealth option \<Rightarrow> InterfaceHealthFormValues" where
  "WanInterfaceHealthList_InterfaceHealthForm_values health =
     (case health of
        Some health' \<Rightarrow> interfaceHealthToFormValues health'
      | None \<Rightarrow> blankInterfaceHealthFormValues)"

definition WanInterfaceHealthList_WanHealthTestsSection_submit ::
    "WANInterfaceHealth \<Rightarrow> text_input \<Rightarrow> text_input \<Rightarrow> text_input \<Rightarrow> text_input \<Rightarrow> text_input \<Rightarrow> (ConfigOp \<times> string) list" where
  "WanInterfaceHealthList_WanHealthTestsSection_submit health ty target testScript respTime ttlLimit =
     (let nextId = next_id (Num (- 1)) (map (\<lambda>r. wanht_id r) (wanih_tests health));
          ops = addWANHealthTestOps (wanih_interface health) nextId
              \<lparr>awanhto_type = ty,
                  awanhto_target = target,
                  awanhto_testScript = testScript,
                  awanhto_respTime = respTime,
                  awanhto_ttlLimit = ttlLimit\<rparr>
      in map (\<lambda>op1. (op1, change_label op1)) ops)"

definition WanInterfaceHealthList_WanHealthTestsSection_queueRemove ::
    "WANInterfaceHealth \<Rightarrow> string \<Rightarrow> (ConfigOp \<times> string) list" where
  "WanInterfaceHealthList_WanHealthTestsSection_queueRemove health testId =
     (let op1 = removeWANHealthTestOp (wanih_interface health) testId
      in [(op1, ''delete '' @ js_join '' '' (co_path op1))])"

text \<open>\<open>components/loadbalancing/WanRuleList.tsx\<close>\<close>

definition WanRuleList_queueDelete :: "string \<Rightarrow> (ConfigOp \<times> string) list" where
  "WanRuleList_queueDelete ruleId =
     [(deleteWANRuleOp ruleId, ''delete load-balancing wan rule '' @ ruleId)]"

definition WanRuleList_WanRuleFormPanel_submit ::
    "string \<Rightarrow> WANRule option \<Rightarrow> WANRuleFormValues \<Rightarrow> text_input \<Rightarrow> text_input \<Rightarrow> (ConfigOp \<times> string) list" where
  "WanRuleList_WanRuleFormPanel_submit ruleId rule values firstInterfaceName firstInterfaceWeight =
     (let ops = wanRuleFormToOps ruleId rule values
      in map (\<lambda>op1. (op1, change_label op1)) ops
         @ (if rule = None \<and> js_trim firstInterfaceName \<noteq> ''''
            then (let interfaceOps = addWANRuleInterfaceOps ruleId (js_trim firstInterfaceName)
                          (js_trim firstInterfaceWeight)
                  in map (\<lambda>op1. (op1, change_label op1)) interfaceOps)
            else []))"

definition WanRuleList_WanRuleFormPanel_values :: "WANRule option \<Rightarrow> WANRuleFormValues" where
  "WanRuleList_WanRuleFormPanel_values rule =
     (case rule of
        Some rule' \<Rightarrow> wanRuleToFormValues rule'
      | None \<Rightarrow> blankWANRuleFormValues)"

definition WanRuleList_WanRuleInterfacesSection_valid :: "WANRule \<Rightarrow> text_input \<Rightarrow> bool" where
  "WanRuleList_WanRuleInterfacesSection_valid rule name =
     (let trimmedName = js_trim name;
          taken = list_ex (\<lambda>i. wanri_name i = trimmedName) (wanr_interfaces rule)
      in trimmedName \<noteq> '''' \<and> \<not> taken)"

definition WanRuleList_WanRuleInterfacesSection_submit ::
    "WANRule \<Rightarrow> text_input \<Rightarrow> text_input \<Rightarrow> (ConfigOp \<times> string) list" where
  "WanRuleList_WanRuleInterfacesSection_submit rule name weight =
     (let trimmedName = js_trim name
      in (if \<not> WanRuleList_WanRuleInterfacesSection_valid rule name then []
          else (let ops = addWANRuleInterfaceOps (wanr_id rule) trimmedName weight
                in map (\<lambda>op1. (op1, change_label op1)) ops)))"

definition WanRuleList_WanRuleInterfacesSection_queueRemove :: "WANRule \<Rightarrow> string \<Rightarrow> (ConfigOp \<times> string) list" where
  "WanRuleList_WanRuleInterfacesSection_queueRemove rule ifaceName =
     (let op1 = removeWANRuleInterfaceOp (wanr_id rule) ifaceName
      in [(op1, ''delete '' @ js_join '' '' (co_path op1))])"

text \<open>\<open>components/highavailability/ConntrackSyncSettings.tsx\<close>\<close>

definition ConntrackSyncSettings_submit ::
    "ConntrackSyncConfig \<Rightarrow> ConntrackSyncFormValues \<Rightarrow> (ConfigOp \<times> string) list" where
  "ConntrackSyncSettings_submit config values =
     (let before = conntrackSyncToFormValues config;
          ops = conntrackSyncFormToOps before values
      in map (\<lambda>op1. (op1, change_label op1)) ops)"

definition ConntrackSyncSettings_values :: "ConntrackSyncConfig \<Rightarrow> ConntrackSyncFormValues" where
  "ConntrackSyncSettings_values config = (let before = conntrackSyncToFormValues config in before)"

definition ConntrackSyncSettings_ConntrackSyncInterfacesSection_valid :: "ConntrackSyncConfig \<Rightarrow> text_input \<Rightarrow> bool" where
  "ConntrackSyncSettings_ConntrackSyncInterfacesSection_valid config name =
     (let trimmedName = js_trim name;
          taken = list_ex (\<lambda>i. csi_name i = trimmedName) (csc_interfaces config)
      in trimmedName \<noteq> '''' \<and> \<not> taken)"

definition ConntrackSyncSettings_ConntrackSyncInterfacesSection_submit ::
    "ConntrackSyncConfig \<Rightarrow> text_input \<Rightarrow> text_input \<Rightarrow> text_input \<Rightarrow> (ConfigOp \<times> string) list" where
  "ConntrackSyncSettings_ConntrackSyncInterfacesSection_submit config name peer port =
     (let trimmedName = js_trim name
      in (if \<not> ConntrackSyncSettings_ConntrackSyncInterfacesSection_valid config name then []
          else (let ops = addConntrackSyncInterfaceOps trimmedName peer port
                in map (\<lambda>op1. (op1, change_label op1)) ops)))"

definition ConntrackSyncSettings_ConntrackSyncInterfacesSection_queueRemove :: "string \<Rightarrow> (ConfigOp \<times> string) list" where
  "ConntrackSyncSettings_ConntrackSyncInterfacesSection_queueRemove ifaceName =
     (let op1 = removeConntrackSyncInterfaceOp ifaceName
      in [(op1, ''delete '' @ js_join '' '' (co_path op1))])"

text \<open>\<open>components/highavailability/VrrpGlobalSettings.tsx\<close>\<close>

definition VrrpGlobalSettings_onChange :: "bool \<Rightarrow> (ConfigOp \<times> string) list" where
  "VrrpGlobalSettings_onChange eventChecked =
     (let op1 = toggleHADisableOp eventChecked
      in [(op1, op_name (co_op op1) @ '' high-availability disable'')])"

definition VrrpGlobalSettings_onChange2 :: "bool \<Rightarrow> (ConfigOp \<times> string) list" where
  "VrrpGlobalSettings_onChange2 eventChecked =
     (let op1 = toggleVrrpSnmpTrapOp eventChecked
      in [(op1, op_name (co_op op1) @ '' high-availability vrrp snmp trap'')])"

text \<open>\<open>components/highavailability/VrrpGroupList.tsx\<close>\<close>

definition VrrpGroupList_queueDelete :: "string \<Rightarrow> (ConfigOp \<times> string) list" where
  "VrrpGroupList_queueDelete name =
     [(deleteVRRPGroupOp name, ''delete high-availability vrrp group '' @ name)]"

definition VrrpGroupList_VrrpGroupFormPanel_nameValid ::
    "VRRPGroup option \<Rightarrow> string list \<Rightarrow> text_input \<Rightarrow> bool" where
  "VrrpGroupList_VrrpGroupFormPanel_nameValid grp existingNames newName =
     (let name = (case grp of
               Some grp' \<Rightarrow> vrrpg_name grp'
             | None \<Rightarrow> js_trim newName);
          nameTaken = grp = None \<and> name \<in> set existingNames
      in \<not> (grp = None) \<or> name \<noteq> '''' \<and> \<not> nameTaken)"

definition VrrpGroupList_VrrpGroupFormPanel_submit ::
    "VRRPGroup option \<Rightarrow> string list \<Rightarrow> text_input \<Rightarrow> VRRPGroupFormValues \<Rightarrow> text_input \<Rightarrow> text_input \<Rightarrow> (ConfigOp \<times> string) list" where
  "VrrpGroupList_VrrpGroupFormPanel_submit grp existingNames newName values firstAddress firstAddressInterface =
     (let name = (case grp of
               Some grp' \<Rightarrow> vrrpg_name grp'
             | None \<Rightarrow> js_trim newName)
      in (if \<not> VrrpGroupList_VrrpGroupFormPanel_nameValid grp existingNames newName then []
          else (let ops = vrrpGroupFormToOps name grp values
                in map (\<lambda>op1. (op1, change_label op1)) ops
                   @ (if grp = None \<and> js_trim firstAddress \<noteq> ''''
                      then (let addressOps = addVRRPGroupAddressOps name ''address''
                                    (js_trim firstAddress) (js_trim firstAddressInterface)
                            in map (\<lambda>op1. (op1, change_label op1)) addressOps)
                      else []))))"

definition VrrpGroupList_VrrpGroupFormPanel_values :: "VRRPGroup option \<Rightarrow> VRRPGroupFormValues" where
  "VrrpGroupList_VrrpGroupFormPanel_values grp =
     (case grp of
        Some grp' \<Rightarrow> vrrpGroupToFormValues grp'
      | None \<Rightarrow> blankVRRPGroupFormValues)"

definition VrrpGroupList_VrrpAddressesSection_valid :: "VRRPGroup \<Rightarrow> string \<Rightarrow> text_input \<Rightarrow> bool" where
  "VrrpGroupList_VrrpAddressesSection_valid grp leaf address =
     (let items = (if leaf = ''address'' then vrrpg_addresses grp else vrrpg_excludedAddresses grp);
          trm = js_trim address;
          taken = list_ex (\<lambda>a. vrrpa_address a = trm) items
      in trm \<noteq> '''' \<and> \<not> taken)"

definition VrrpGroupList_VrrpAddressesSection_submit ::
    "VRRPGroup \<Rightarrow> string \<Rightarrow> text_input \<Rightarrow> text_input \<Rightarrow> (ConfigOp \<times> string) list" where
  "VrrpGroupList_VrrpAddressesSection_submit grp leaf address iface =
     (let trm = js_trim address
      in (if \<not> VrrpGroupList_VrrpAddressesSection_valid grp leaf address then []
          else (let ops = addVRRPGroupAddressOps (vrrpg_name grp) leaf trm iface
                in map (\<lambda>op1. (op1, change_label op1)) ops)))"

definition VrrpGroupList_VrrpAddressesSection_queueRemove ::
    "VRRPGroup \<Rightarrow> string \<Rightarrow> string \<Rightarrow> (ConfigOp \<times> string) list" where
  "VrrpGroupList_VrrpAddressesSection_queueRemove grp leaf a =
     (let op1 = removeVRRPGroupAddressOp (vrrpg_name grp) leaf a
      in [(op1, ''delete '' @ js_join '' '' (co_path op1))])"

text \<open>\<open>components/highavailability/VrrpSyncGroupList.tsx\<close>\<close>

definition VrrpSyncGroupList_queueDelete :: "string \<Rightarrow> (ConfigOp \<times> string) list" where
  "VrrpSyncGroupList_queueDelete name =
     [(deleteVRRPSyncGroupOp name, ''delete high-availability vrrp sync-group '' @ name)]"

definition VrrpSyncGroupList_VrrpSyncGroupFormPanel_nameValid ::
    "VRRPSyncGroup option \<Rightarrow> string list \<Rightarrow> text_input \<Rightarrow> bool" where
  "VrrpSyncGroupList_VrrpSyncGroupFormPanel_nameValid syncGroup existingNames newName =
     (let name = (case syncGroup of
               Some syncGroup' \<Rightarrow> vrrpsg_name syncGroup'
             | None \<Rightarrow> js_trim newName);
          nameTaken = syncGroup = None \<and> name \<in> set existingNames
      in \<not> (syncGroup = None) \<or> name \<noteq> '''' \<and> \<not> nameTaken)"

definition VrrpSyncGroupList_VrrpSyncGroupFormPanel_submit ::
    "VRRPSyncGroup option \<Rightarrow> string list \<Rightarrow> text_input \<Rightarrow> VRRPSyncGroupFormValues \<Rightarrow> string list \<Rightarrow> (ConfigOp \<times> string) list" where
  "VrrpSyncGroupList_VrrpSyncGroupFormPanel_submit syncGroup existingNames newName values selectedMembers =
     (let name = (case syncGroup of
               Some syncGroup' \<Rightarrow> vrrpsg_name syncGroup'
             | None \<Rightarrow> js_trim newName)
      in (if \<not> VrrpSyncGroupList_VrrpSyncGroupFormPanel_nameValid syncGroup existingNames
               newName
          then []
          else (let ops = (let before = set_order (or_else (map_option vrrpsg_members syncGroup) []);
                           after = set_order selectedMembers
                       in vrrpSyncGroupFormToOps name syncGroup values
                          @ concat (map
                                 (\<lambda>m. (if \<not> (m \<in> set before)
                                       then [addVRRPSyncGroupMemberOp name m]
                                       else [])) after)
                          @ concat (map
                                 (\<lambda>m. (if \<not> (m \<in> set after)
                                       then [removeVRRPSyncGroupMemberOp name m]
                                       else [])) before))
                in map (\<lambda>op1. (op1, change_label op1)) ops)))"

definition VrrpSyncGroupList_VrrpSyncGroupFormPanel_values :: "VRRPSyncGroup option \<Rightarrow> VRRPSyncGroupFormValues" where
  "VrrpSyncGroupList_VrrpSyncGroupFormPanel_values syncGroup =
     (case syncGroup of
        Some syncGroup' \<Rightarrow> vrrpSyncGroupToFormValues syncGroup'
      | None \<Rightarrow> blankVRRPSyncGroupFormValues)"

subsection \<open>What the editors queue\<close>

inductive traffic_editor :: "string \<Rightarrow> (ConfigOp \<times> string) list \<Rightarrow> bool" where
  "traffic_editor ''qos'' (CakePolicyList_queueDelete name)"
| "traffic_editor ''qos'' (CakePolicyList_onClick newName)"
| "traffic_editor ''qos'' (CakePolicyList_CakeFields_submit policy values)"
| "traffic_editor ''qos'' (FqCodelPolicyList_queueDelete name)"
| "traffic_editor ''qos'' (FqCodelPolicyList_onClick newName)"
| "traffic_editor ''qos'' (FqCodelPolicyList_FqCodelFields_submit policy values)"
| "traffic_editor ''qos'' (LimiterPolicyList_queueDelete name)"
| "traffic_editor ''qos'' (LimiterPolicyList_addPolicy newName firstClassId firstClassBandwidth defaultBandwidth)"
| "traffic_editor ''qos'' (LimiterPolicyList_LimiterClassList_queueDelete policy classId)"
| "traffic_editor ''qos'' (LimiterPolicyList_LimiterClassList_onClick policy newId)"
| "traffic_editor ''qos'' (LimiterPolicyList_LimiterClassFields_submit policy cls values)"
| "traffic_editor ''qos'' (LimiterPolicyList_LimiterDefaultClassPanel_submit policy values)"
| "traffic_editor ''qos'' (QosInterfaceBindingsList_queueDelete qos ifname)"
| "traffic_editor ''qos'' (QosInterfaceBindingsList_BindingRow_setDirection interfaceName direction val)"
| "traffic_editor ''qos'' (QosMatchGroupsList_queueDelete name)"
| "prefix [sec] basePath \<Longrightarrow> traffic_editor sec (QosMatchList_queueRemove basePath i)"
| "prefix [sec] basePath \<Longrightarrow> traffic_editor sec (QosMatchList_removeMatchGroupRef basePath name)"
| "traffic_editor ''qos'' (RateControlPolicyList_queueDelete name)"
| "traffic_editor ''qos'' (RateControlPolicyList_onClick newName)"
| "traffic_editor ''qos'' (RateControlPolicyList_RateControlFields_submit policy values)"
| "traffic_editor ''qos'' (ShaperHfscPolicyList_queueDelete name)"
| "traffic_editor ''qos'' (ShaperHfscPolicyList_addPolicy newName firstClassId firstClassLinkshareM2 defaultLinkshareM2)"
| "traffic_editor ''qos'' (ShaperHfscPolicyList_HfscPolicyFields_submit policy values)"
| "traffic_editor ''qos'' (ShaperHfscPolicyList_HfscClassList_queueDelete policy classId)"
| "traffic_editor ''qos'' (ShaperHfscPolicyList_HfscClassList_onClick policy newId)"
| "traffic_editor ''qos'' (ShaperHfscPolicyList_HfscClassFields_submit policy cls values)"
| "traffic_editor ''qos'' (ShaperHfscPolicyList_HfscDefaultClassPanel_submit policy values)"
| "traffic_editor ''qos'' (ShaperPolicyList_queueDelete name)"
| "traffic_editor ''qos'' (ShaperPolicyList_addPolicy newName firstClassId firstClassBandwidth firstClassCeiling defaultBandwidth defaultCeiling)"
| "traffic_editor ''qos'' (ShaperPolicyList_ShaperPolicyFields_submit policy values)"
| "traffic_editor ''qos'' (ShaperPolicyList_ShaperClassList_queueDelete policy classId)"
| "traffic_editor ''qos'' (ShaperPolicyList_ShaperClassList_onClick policy newId)"
| "traffic_editor ''qos'' (ShaperPolicyList_ShaperClassFields_submit policy cls values)"
| "traffic_editor ''qos'' (ShaperPolicyList_ShaperDefaultClassPanel_submit policy values)"
| "traffic_editor ''qos'' (SimpleClassfulPolicyList_queueDelete policyType name)"
| "traffic_editor ''qos'' (SimpleClassfulPolicyList_addPolicy policyType newName firstClassId)"
| "traffic_editor ''load-balancing'' (HaproxyBackendList_queueDelete name)"
| "traffic_editor ''load-balancing'' (HaproxyBackendList_HaproxyServersSection_submit backend name address port backup)"
| "traffic_editor ''load-balancing'' (HaproxyBackendList_HaproxyServersSection_queueRemove backend serverName)"
| "traffic_editor ''load-balancing'' (HaproxyBackendList_HaproxyBackendRulesSection_submit backend domainNames setServer)"
| "traffic_editor ''load-balancing'' (HaproxyBackendList_HaproxyBackendRulesSection_queueRemove backend ruleId)"
| "traffic_editor ''load-balancing'' (HaproxyServiceList_queueDelete name)"
| "traffic_editor ''load-balancing'' (HaproxyServiceList_HaproxyListenAddressesSection_queueRemove service a)"
| "traffic_editor ''load-balancing'' (HaproxyServiceList_HaproxyServiceRulesSection_submit service domainNames urlPathBegin setBackend)"
| "traffic_editor ''load-balancing'' (HaproxyServiceList_HaproxyServiceRulesSection_queueRemove service ruleId)"
| "traffic_editor ''load-balancing'' (WanInterfaceHealthList_queueRemove ifname)"
| "traffic_editor ''load-balancing'' (WanInterfaceHealthList_InterfaceHealthForm_submit health existingNames ifname values firstTestType firstTestTarget)"
| "traffic_editor ''load-balancing'' (WanInterfaceHealthList_WanHealthTestsSection_submit health ty target testScript respTime ttlLimit)"
| "traffic_editor ''load-balancing'' (WanInterfaceHealthList_WanHealthTestsSection_queueRemove health testId)"
| "traffic_editor ''load-balancing'' (WanRuleList_queueDelete ruleId)"
| "traffic_editor ''load-balancing'' (WanRuleList_WanRuleInterfacesSection_submit rule name weight)"
| "traffic_editor ''load-balancing'' (WanRuleList_WanRuleInterfacesSection_queueRemove rule ifaceName)"
| "traffic_editor ''service'' (ConntrackSyncSettings_submit config values)"
| "traffic_editor ''service'' (ConntrackSyncSettings_ConntrackSyncInterfacesSection_submit config name peer port)"
| "traffic_editor ''service'' (ConntrackSyncSettings_ConntrackSyncInterfacesSection_queueRemove ifaceName)"
| "traffic_editor ''high-availability'' (VrrpGlobalSettings_onChange eventChecked)"
| "traffic_editor ''high-availability'' (VrrpGlobalSettings_onChange2 eventChecked)"
| "traffic_editor ''high-availability'' (VrrpGroupList_queueDelete name)"
| "traffic_editor ''high-availability'' (VrrpGroupList_VrrpGroupFormPanel_submit grp existingNames newName values firstAddress firstAddressInterface)"
| "traffic_editor ''high-availability'' (VrrpGroupList_VrrpAddressesSection_submit grp leaf address iface)"
| "traffic_editor ''high-availability'' (VrrpGroupList_VrrpAddressesSection_queueRemove grp leaf a)"
| "traffic_editor ''high-availability'' (VrrpSyncGroupList_queueDelete name)"

lemmas traffic_editor_defs =
  CakePolicyList_queueDelete_def deleteCakePolicyOp_def cakePolicyPath_def qosPolicyPath_def
  qosPath_def CakePolicyList_onClick_def cakeFormToOps_def CakePolicyList_CakeFields_submit_def
  FqCodelPolicyList_queueDelete_def deleteFqCodelPolicyOp_def fqCodelPolicyPath_def
  FqCodelPolicyList_onClick_def fqCodelFormToOps_def FqCodelPolicyList_FqCodelFields_submit_def
  LimiterPolicyList_queueDelete_def deleteLimiterPolicyOp_def limiterPolicyPath_def
  LimiterPolicyList_addPolicy_def limiterDefaultClassFormToOps_def limiterDefaultClassPath_def
  qosDefaultClassPath_def limiterClassFormToOps_def limiterClassPath_def qosClassPath_def
  limiterPolicyFormToOps_def LimiterPolicyList_LimiterClassList_queueDelete_def
  deleteLimiterClassOp_def LimiterPolicyList_LimiterClassList_onClick_def
  LimiterPolicyList_LimiterClassFields_submit_def
  LimiterPolicyList_LimiterDefaultClassPanel_submit_def QosInterfaceBindingsList_queueDelete_def
  deleteQosInterfaceBindingOp_def qosInterfacePath_def
  QosInterfaceBindingsList_BindingRow_setDirection_def setQosInterfaceDirectionOp_def
  QosMatchGroupsList_queueDelete_def deleteMatchGroupOp_def qosMatchGroupPath_def
  QosMatchList_queueRemove_def removeQosMatchOp_def QosMatchList_removeMatchGroupRef_def
  removeQosMatchGroupRefOp_def RateControlPolicyList_queueDelete_def deleteRateControlPolicyOp_def
  rateControlPolicyPath_def RateControlPolicyList_onClick_def rateControlFormToOps_def
  RateControlPolicyList_RateControlFields_submit_def ShaperHfscPolicyList_queueDelete_def
  deleteShaperHfscPolicyOp_def shaperHfscPolicyPath_def ShaperHfscPolicyList_addPolicy_def
  hfscClassFormToOps_def shaperHfscClassPath_def curveOps_def shaperHfscPolicyFormToOps_def
  hfscDefaultClassFormToOps_def shaperHfscDefaultClassPath_def
  ShaperHfscPolicyList_HfscPolicyFields_submit_def
  ShaperHfscPolicyList_HfscClassList_queueDelete_def deleteHfscClassOp_def
  ShaperHfscPolicyList_HfscClassList_onClick_def ShaperHfscPolicyList_HfscClassFields_submit_def
  ShaperHfscPolicyList_HfscDefaultClassPanel_submit_def ShaperPolicyList_queueDelete_def
  deleteShaperPolicyOp_def shaperPolicyPath_def ShaperPolicyList_addPolicy_def
  shaperPolicyFormToOps_def shaperClassFormToOps_def shaperClassPath_def
  shaperDefaultClassFormToOps_def shaperDefaultClassPath_def
  ShaperPolicyList_ShaperPolicyFields_submit_def ShaperPolicyList_ShaperClassList_queueDelete_def
  deleteShaperClassOp_def ShaperPolicyList_ShaperClassList_onClick_def
  ShaperPolicyList_ShaperClassFields_submit_def
  ShaperPolicyList_ShaperDefaultClassPanel_submit_def SimpleClassfulPolicyList_queueDelete_def
  deleteSimpleClassfulPolicyOp_def simpleClassfulPolicyPath_def
  SimpleClassfulPolicyList_addPolicy_def simpleClassfulClassFormToOps_def
  simpleClassfulClassPath_def simpleClassfulPolicyFormToOps_def HaproxyBackendList_queueDelete_def
  deleteHAProxyBackendOp_def haproxyBackendPath_def haproxyPath_def
  HaproxyBackendList_HaproxyServersSection_submit_def
  HaproxyBackendList_HaproxyServersSection_valid_def addHAProxyServerOps_def haproxyServerPath_def
  HaproxyBackendList_HaproxyServersSection_queueRemove_def removeHAProxyServerOp_def
  HaproxyBackendList_HaproxyBackendRulesSection_submit_def addHAProxyBackendRuleOps_def
  ruleOps_def haproxyBackendRulePath_def
  HaproxyBackendList_HaproxyBackendRulesSection_queueRemove_def removeHAProxyBackendRuleOp_def
  HaproxyServiceList_queueDelete_def deleteHAProxyServiceOp_def haproxyServicePath_def
  HaproxyServiceList_HaproxyListenAddressesSection_queueRemove_def
  removeHAProxyListenAddressOp_def HaproxyServiceList_HaproxyServiceRulesSection_submit_def
  addHAProxyServiceRuleOps_def haproxyServiceRulePath_def
  HaproxyServiceList_HaproxyServiceRulesSection_queueRemove_def removeHAProxyServiceRuleOp_def
  WanInterfaceHealthList_queueRemove_def removeInterfaceHealthOp_def wanInterfaceHealthPath_def
  wanPath_def WanInterfaceHealthList_InterfaceHealthForm_submit_def interfaceHealthFormToOps_def
  WanInterfaceHealthList_InterfaceHealthForm_valid_def addWANHealthTestOps_def
  wanHealthTestPath_def WanInterfaceHealthList_WanHealthTestsSection_submit_def
  WanInterfaceHealthList_WanHealthTestsSection_queueRemove_def removeWANHealthTestOp_def
  WanRuleList_queueDelete_def deleteWANRuleOp_def wanRulePath_def
  WanRuleList_WanRuleInterfacesSection_submit_def WanRuleList_WanRuleInterfacesSection_valid_def
  addWANRuleInterfaceOps_def wanRuleInterfacePath_def
  WanRuleList_WanRuleInterfacesSection_queueRemove_def removeWANRuleInterfaceOp_def
  ConntrackSyncSettings_submit_def conntrackSyncFormToOps_def conntrackSyncPath_def
  ConntrackSyncSettings_ConntrackSyncInterfacesSection_submit_def
  ConntrackSyncSettings_ConntrackSyncInterfacesSection_valid_def addConntrackSyncInterfaceOps_def
  conntrackSyncInterfacePath_def
  ConntrackSyncSettings_ConntrackSyncInterfacesSection_queueRemove_def
  removeConntrackSyncInterfaceOp_def VrrpGlobalSettings_onChange_def toggleHADisableOp_def
  haPath_def VrrpGlobalSettings_onChange2_def toggleVrrpSnmpTrapOp_def vrrpPath_def
  VrrpGroupList_queueDelete_def deleteVRRPGroupOp_def vrrpGroupPath_def
  VrrpGroupList_VrrpGroupFormPanel_submit_def vrrpGroupFormToOps_def addVRRPGroupAddressOps_def
  VrrpGroupList_VrrpGroupFormPanel_nameValid_def VrrpGroupList_VrrpAddressesSection_submit_def
  VrrpGroupList_VrrpAddressesSection_valid_def VrrpGroupList_VrrpAddressesSection_queueRemove_def
  removeVRRPGroupAddressOp_def VrrpSyncGroupList_queueDelete_def deleteVRRPSyncGroupOp_def
  vrrpSyncGroupPath_def

lemma traffic_editor_ok: "traffic_editor sec adds \<Longrightarrow> ops_ok [sec] (map fst adds)"
  by (induction rule: traffic_editor.induct)
    (auto simp: traffic_editor_defs Let_def ok_rules o_def case_prod_beta split: option.splits if_splits)

inductive traffic_untouched :: "(ConfigOp \<times> string) list \<Rightarrow> bool" where
  "traffic_untouched (CakePolicyList_CakeFields_submit policy (CakePolicyList_CakeFields_values policy))"
| "traffic_untouched (FqCodelPolicyList_FqCodelFields_submit policy (FqCodelPolicyList_FqCodelFields_values policy))"
| "traffic_untouched (LimiterPolicyList_LimiterClassFields_submit policy cls (LimiterPolicyList_LimiterClassFields_values cls))"
| "traffic_untouched (LimiterPolicyList_LimiterDefaultClassPanel_submit policy (LimiterPolicyList_LimiterDefaultClassPanel_values policy))"
| "traffic_untouched (RateControlPolicyList_RateControlFields_submit policy (RateControlPolicyList_RateControlFields_values policy))"
| "traffic_untouched (ShaperHfscPolicyList_HfscPolicyFields_submit policy (ShaperHfscPolicyList_HfscPolicyFields_values policy))"
| "traffic_untouched (ShaperHfscPolicyList_HfscClassFields_submit policy cls (ShaperHfscPolicyList_HfscClassFields_values cls))"
| "traffic_untouched (ShaperHfscPolicyList_HfscDefaultClassPanel_submit policy (ShaperHfscPolicyList_HfscDefaultClassPanel_values policy))"
| "traffic_untouched (ShaperPolicyList_ShaperPolicyFields_submit policy (ShaperPolicyList_ShaperPolicyFields_values policy))"
| "traffic_untouched (ShaperPolicyList_ShaperClassFields_submit policy cls (ShaperPolicyList_ShaperClassFields_values cls))"
| "traffic_untouched (ShaperPolicyList_ShaperDefaultClassPanel_submit policy (ShaperPolicyList_ShaperDefaultClassPanel_values policy))"
| "traffic_untouched (HaproxyBackendList_HaproxyBackendFormPanel_submit (Some backend) existingNames newName (HaproxyBackendList_HaproxyBackendFormPanel_values (Some backend)) initialServerName initialServerAddress initialServerPort firstRuleDomainNames firstRuleSetServer)"
| "traffic_untouched (WanInterfaceHealthList_InterfaceHealthForm_submit (Some health) existingNames ifname (WanInterfaceHealthList_InterfaceHealthForm_values (Some health)) firstTestType firstTestTarget)"
| "traffic_untouched (ConntrackSyncSettings_submit config (ConntrackSyncSettings_values config))"

lemmas traffic_untouched_defs =
  CakePolicyList_CakeFields_submit_def cakeFormToOps_def cakePolicyPath_def qosPolicyPath_def
  qosPath_def CakePolicyList_CakeFields_values_def FqCodelPolicyList_FqCodelFields_submit_def
  fqCodelFormToOps_def fqCodelPolicyPath_def FqCodelPolicyList_FqCodelFields_values_def
  LimiterPolicyList_LimiterClassFields_submit_def limiterClassFormToOps_def limiterClassPath_def
  qosClassPath_def LimiterPolicyList_LimiterClassFields_values_def
  LimiterPolicyList_LimiterDefaultClassPanel_submit_def limiterDefaultClassFormToOps_def
  limiterDefaultClassPath_def qosDefaultClassPath_def
  LimiterPolicyList_LimiterDefaultClassPanel_values_def
  RateControlPolicyList_RateControlFields_submit_def rateControlFormToOps_def
  rateControlPolicyPath_def RateControlPolicyList_RateControlFields_values_def
  ShaperHfscPolicyList_HfscPolicyFields_submit_def shaperHfscPolicyFormToOps_def
  shaperHfscPolicyPath_def ShaperHfscPolicyList_HfscPolicyFields_values_def
  ShaperHfscPolicyList_HfscClassFields_submit_def hfscClassFormToOps_def shaperHfscClassPath_def
  curveOps_def ShaperHfscPolicyList_HfscClassFields_values_def
  ShaperHfscPolicyList_HfscDefaultClassPanel_submit_def hfscDefaultClassFormToOps_def
  shaperHfscDefaultClassPath_def ShaperHfscPolicyList_HfscDefaultClassPanel_values_def
  ShaperPolicyList_ShaperPolicyFields_submit_def shaperPolicyFormToOps_def shaperPolicyPath_def
  ShaperPolicyList_ShaperPolicyFields_values_def ShaperPolicyList_ShaperClassFields_submit_def
  shaperClassFormToOps_def shaperClassPath_def ShaperPolicyList_ShaperClassFields_values_def
  ShaperPolicyList_ShaperDefaultClassPanel_submit_def shaperDefaultClassFormToOps_def
  shaperDefaultClassPath_def ShaperPolicyList_ShaperDefaultClassPanel_values_def
  HaproxyBackendList_HaproxyBackendFormPanel_submit_def addHAProxyServerOps_def
  haproxyServerPath_def haproxyBackendPath_def haproxyPath_def
  HaproxyBackendList_HaproxyBackendFormPanel_nameValid_def haproxyBackendFormToOps_def
  loggingOps_def addHAProxyBackendRuleOps_def ruleOps_def haproxyBackendRulePath_def
  HaproxyBackendList_HaproxyBackendFormPanel_values_def
  WanInterfaceHealthList_InterfaceHealthForm_submit_def interfaceHealthFormToOps_def
  wanInterfaceHealthPath_def wanPath_def WanInterfaceHealthList_InterfaceHealthForm_valid_def
  addWANHealthTestOps_def wanHealthTestPath_def
  WanInterfaceHealthList_InterfaceHealthForm_values_def ConntrackSyncSettings_submit_def
  conntrackSyncFormToOps_def conntrackSyncPath_def ConntrackSyncSettings_values_def

lemma traffic_untouched_nothing: "traffic_untouched adds \<Longrightarrow> adds = []"
  by (induction rule: traffic_untouched.induct)
    (auto simp: traffic_untouched_defs Let_def same_rules case_prod_beta split: option.splits if_splits)

inductive traffic_creates :: "string \<Rightarrow> string list \<Rightarrow> (ConfigOp \<times> string) list \<Rightarrow> bool" where
  "traffic_creates (js_trim newName) existingNames (HaproxyBackendList_HaproxyBackendFormPanel_submit None existingNames newName values initialServerName initialServerAddress initialServerPort firstRuleDomainNames firstRuleSetServer)"
| "traffic_creates (js_trim newName) existingNames (HaproxyServiceList_HaproxyServiceFormPanel_submit None existingNames newName values selectedBackends firstListenAddress firstRuleDomainNames firstRuleSetBackend)"
| "traffic_creates (js_trim ifname) existingNames (WanInterfaceHealthList_InterfaceHealthForm_submit None existingNames ifname values firstTestType firstTestTarget)"
| "traffic_creates (js_trim newName) existingNames (VrrpGroupList_VrrpGroupFormPanel_submit None existingNames newName values firstAddress firstAddressInterface)"
| "traffic_creates (js_trim newName) existingNames (VrrpSyncGroupList_VrrpSyncGroupFormPanel_submit None existingNames newName values selectedMembers)"

lemmas traffic_creates_defs =
  HaproxyBackendList_HaproxyBackendFormPanel_submit_def
  HaproxyBackendList_HaproxyBackendFormPanel_nameValid_def
  HaproxyServiceList_HaproxyServiceFormPanel_submit_def
  HaproxyServiceList_HaproxyServiceFormPanel_nameValid_def
  WanInterfaceHealthList_InterfaceHealthForm_submit_def
  WanInterfaceHealthList_InterfaceHealthForm_valid_def VrrpGroupList_VrrpGroupFormPanel_submit_def
  VrrpGroupList_VrrpGroupFormPanel_nameValid_def
  VrrpSyncGroupList_VrrpSyncGroupFormPanel_submit_def
  VrrpSyncGroupList_VrrpSyncGroupFormPanel_nameValid_def

lemma traffic_creates_new: "traffic_creates n existing adds \<Longrightarrow> adds = [] \<or> n \<noteq> '''' \<and> n \<notin> set existing"
  by (induction rule: traffic_creates.induct) (auto simp: traffic_creates_defs Let_def rule_number_re_def no_blank)

end
