(* ===== verification/UiNetwork.thy ===== *)
theory UiNetwork
  imports Handlers DhcpLeases FirewallReorder Interfaces Ipv4 Nat_Rules DhcpConfig Firewall
begin

text \<open>
  The editors of the firewall, NAT, DHCP and interface pages: for each component the condition its button is
  enabled under, the values its form starts from, and the changes (op and label) its handlers queue.
  The arguments are the props and the state a handler reads. A handler's resets of its own input
  fields and the closing of its panel are left out; a callback prop such as \<open>onAdd\<close> is whether the
  parent passes one.
\<close>

text \<open>\<open>components/firewall/RuleForm.tsx\<close>\<close>

definition RuleForm_canSubmit ::
    "FirewallRule option \<Rightarrow> string list \<Rightarrow> text_input \<Rightarrow> RuleFormValues \<Rightarrow> bool" where
  "RuleForm_canSubmit rule existingNumbers ruleNumber values =
     (let numberTaken1 = rule = None \<and> ruleNumber \<in> set existingNumbers;
          numberValid1 = rule_number_re ruleNumber \<and> \<not> numberTaken1
      in numberValid1 \<and> rf_action values \<noteq> '''')"

definition RuleForm_submit ::
    "RulesetRef \<Rightarrow> FirewallRule option \<Rightarrow> string list \<Rightarrow> text_input \<Rightarrow> RuleFormValues \<Rightarrow> (ConfigOp \<times> string) list" where
  "RuleForm_submit rulesetRef rule existingNumbers ruleNumber values =
     (if \<not> RuleForm_canSubmit rule existingNumbers ruleNumber values then []
      else (let ops = ruleFormToOps rulesetRef ruleNumber rule values
            in map (\<lambda>op1. (op1, change_label op1)) ops))"

definition RuleForm_values :: "FirewallRule option \<Rightarrow> RuleFormValues" where
  "RuleForm_values rule =
     (case rule of
        Some rule' \<Rightarrow> ruleToFormValues rule'
      | None \<Rightarrow> blankRuleFormValues)"

text \<open>\<open>components/firewall/ZoneMatrix.tsx\<close>\<close>

definition ZoneMatrix_queueSet ::
    "string \<Rightarrow> string \<Rightarrow> string \<Rightarrow> (ConfigOp \<times> string) list" where
  "ZoneMatrix_queueSet toZone fromZone rulesetName =
     [(set_op (zonePath toZone [''from'', fromZone, ''firewall'', ''name'']) rulesetName,
         ''set zone '' @ toZone @ '' from '' @ fromZone
       @ '' firewall name ''
       @ quoted rulesetName)]"

definition ZoneMatrix_queueRemove :: "string \<Rightarrow> string \<Rightarrow> (ConfigOp \<times> string) list" where
  "ZoneMatrix_queueRemove toZone fromZone =
     [(delete_op (zonePath toZone [''from'', fromZone]), ''delete zone '' @ toZone @ '' from ''
       @ fromZone)]"

text \<open>\<open>components/nat/NATRuleForm.tsx\<close>\<close>

definition NATRuleForm_canSubmit ::
    "NATRule option \<Rightarrow> string list \<Rightarrow> text_input \<Rightarrow> bool" where
  "NATRuleForm_canSubmit rule existingNumbers ruleNumber =
     (let numberTaken1 = rule = None \<and> ruleNumber \<in> set existingNumbers;
          numberValid1 = rule_number_re ruleNumber \<and> \<not> numberTaken1
      in numberValid1)"

definition NATRuleForm_submit ::
    "string \<Rightarrow> NATRule option \<Rightarrow> string list \<Rightarrow> text_input \<Rightarrow> NATRuleFormValues \<Rightarrow> (ConfigOp \<times> string) list" where
  "NATRuleForm_submit kind rule existingNumbers ruleNumber values =
     (if \<not> NATRuleForm_canSubmit rule existingNumbers ruleNumber then []
      else (let ops = ruleFormToOps_nat kind ruleNumber rule values
            in map (\<lambda>op1. (op1, change_label op1)) ops))"

definition NATRuleForm_values :: "NATRule option \<Rightarrow> NATRuleFormValues" where
  "NATRuleForm_values rule =
     (case rule of
        Some rule' \<Rightarrow> ruleToFormValues_nat rule'
      | None \<Rightarrow> blankRuleFormValues_nat)"

text \<open>\<open>components/nat/NATRuleList.tsx\<close>\<close>

definition NATRuleList_queueDelete :: "string \<Rightarrow> string \<Rightarrow> (ConfigOp \<times> string) list" where
  "NATRuleList_queueDelete kind ruleNumber =
     (let op1 = deleteRuleOp_nat kind ruleNumber
      in [(op1, ''delete '' @ js_join '' '' (co_path op1))])"

text \<open>\<open>components/nat/NATStaticRuleForm.tsx\<close>\<close>

definition NATStaticRuleForm_canSubmit ::
    "NATStaticRule option \<Rightarrow> string list \<Rightarrow> text_input \<Rightarrow> NATStaticFormValues \<Rightarrow> bool" where
  "NATStaticRuleForm_canSubmit rule existingNumbers ruleNumber values =
     (let numberTaken1 = rule = None \<and> ruleNumber \<in> set existingNumbers;
          numberValid1 = rule_number_re ruleNumber \<and> \<not> numberTaken1
      in (numberValid1 \<and> js_trim (nsv_destinationAddress values) \<noteq> '''')
         \<and> js_trim (nsv_translationAddress values) \<noteq> '''')"

definition NATStaticRuleForm_submit ::
    "NATStaticRule option \<Rightarrow> string list \<Rightarrow> text_input \<Rightarrow> NATStaticFormValues \<Rightarrow> (ConfigOp \<times> string) list" where
  "NATStaticRuleForm_submit rule existingNumbers ruleNumber values =
     (if \<not> NATStaticRuleForm_canSubmit rule existingNumbers ruleNumber values then []
      else (let ops = staticFormToOps ruleNumber rule values
            in map (\<lambda>op1. (op1, change_label op1)) ops))"

definition NATStaticRuleForm_values :: "NATStaticRule option \<Rightarrow> NATStaticFormValues" where
  "NATStaticRuleForm_values rule =
     (case rule of
        Some rule' \<Rightarrow> staticToFormValues rule'
      | None \<Rightarrow> blankStaticFormValues)"

text \<open>\<open>components/nat/NATStaticRuleList.tsx\<close>\<close>

definition NATStaticRuleList_queueDelete :: "string \<Rightarrow> (ConfigOp \<times> string) list" where
  "NATStaticRuleList_queueDelete ruleNumber =
     (let op1 = deleteStaticRuleOp ruleNumber in [(op1, ''delete '' @ js_join '' '' (co_path op1))])"

text \<open>\<open>components/dhcp/NetworkCard.tsx\<close>\<close>

definition NetworkCard_queueDelete :: "DHCPSharedNetwork \<Rightarrow> (ConfigOp \<times> string) list" where
  "NetworkCard_queueDelete network =
     (let basePath = sharedNetworkPath (dn_name network) [];
          pathLabel = ''service dhcp-server shared-network-name '' @ dn_name network
      in [(delete_op basePath, ''delete '' @ pathLabel)])"

definition NetworkCard_CreateSubnetForm_valid ::
    "string list \<Rightarrow> text_input \<Rightarrow> text_input \<Rightarrow> bool" where
  "NetworkCard_CreateSubnetForm_valid existingCidrs cidr subnetId =
     (let trimmedCidr = js_trim cidr;
          cidrValid = cidr_re trimmedCidr;
          cidrTaken = trimmedCidr \<in> set existingCidrs
      in (cidrValid \<and> \<not> cidrTaken) \<and> js_trim subnetId \<noteq> '''')"

definition NetworkCard_CreateSubnetForm_submit ::
    "string \<Rightarrow> string list \<Rightarrow> text_input \<Rightarrow> text_input \<Rightarrow> (ConfigOp \<times> string) list" where
  "NetworkCard_CreateSubnetForm_submit networkName existingCidrs cidr subnetId =
     (let trimmedCidr = js_trim cidr
      in (if \<not> NetworkCard_CreateSubnetForm_valid existingCidrs cidr subnetId then []
          else (let base = subnetPath networkName trimmedCidr []
                in [(set_op (base @ [''subnet-id'']) (js_trim subnetId), ''set ... subnet ''
                     @ trimmedCidr @ '' subnet-id ''
                     @ quoted (js_trim subnetId))])))"

definition NetworkCard_NetworkEditForm_submit ::
    "DHCPSharedNetwork \<Rightarrow> SharedNetworkFormValues \<Rightarrow> (ConfigOp \<times> string) list" where
  "NetworkCard_NetworkEditForm_submit network values =
     (let ops = sharedNetworkFormToOps (dn_name network) (Some network) values
      in map
           (\<lambda>op1. let field1 = last_segment (co_path op1)
                in (op1, op_name (co_op op1)
                    @ '' ... shared-network-name '' @ dn_name network @ '' ''
                    @ field1 @ value_label op1)) ops)"

definition NetworkCard_NetworkEditForm_values :: "DHCPSharedNetwork \<Rightarrow> SharedNetworkFormValues" where
  "NetworkCard_NetworkEditForm_values network = sharedNetworkToFormValues network"

text \<open>\<open>components/dhcp/StaticMappingSection.tsx\<close>\<close>

definition StaticMappingSection_queueDelete ::
    "string \<Rightarrow> string \<Rightarrow> string \<Rightarrow> (ConfigOp \<times> string) list" where
  "StaticMappingSection_queueDelete networkName cidr name =
     [(delete_op (staticMappingPath networkName cidr name []), ''delete ... static-mapping '' @ name)]"

definition StaticMappingSection_MappingFormFields_canSubmit ::
    "DHCPStaticMapping option \<Rightarrow> string list \<Rightarrow> text_input \<Rightarrow> StaticMappingFormValues \<Rightarrow> bool" where
  "StaticMappingSection_MappingFormFields_canSubmit mapping existingNames name values =
     (let trimmedName = js_trim name;
          nameTaken = mapping = None \<and> trimmedName \<in> set existingNames;
          hasIdentifier = js_trim (mv_mac values) \<noteq> ''''
            \<or> js_trim (mv_duid values) \<noteq> '''';
          trimmedIp = js_trim (mv_ipAddress values);
          ipValid = trimmedIp = '''' \<or> isValidIpv4 trimmedIp
      in ((isValidVyOSIdentifier trimmedName \<and> \<not> nameTaken) \<and> hasIdentifier)
         \<and> ipValid)"

definition StaticMappingSection_MappingFormFields_submit ::
    "string \<Rightarrow> string \<Rightarrow> DHCPStaticMapping option \<Rightarrow> string list \<Rightarrow> text_input \<Rightarrow> StaticMappingFormValues \<Rightarrow> (ConfigOp \<times> string) list" where
  "StaticMappingSection_MappingFormFields_submit networkName cidr mapping existingNames name values =
     (let trimmedName = js_trim name
      in (if \<not> StaticMappingSection_MappingFormFields_canSubmit mapping existingNames name
               values
          then []
          else (let ops = staticMappingFormToOps networkName cidr trimmedName mapping values
                in map
                     (\<lambda>op1. let field1 = last_segment (co_path op1)
                          in (op1, op_name (co_op op1)
                              @ '' ... static-mapping '' @ trimmedName
                              @ '' '' @ field1 @ value_label op1)) ops)))"

definition StaticMappingSection_MappingFormFields_values :: "DHCPStaticMapping option \<Rightarrow> StaticMappingFormValues" where
  "StaticMappingSection_MappingFormFields_values mapping =
     (case mapping of
        Some mapping' \<Rightarrow> staticMappingToFormValues mapping'
      | None \<Rightarrow> blankStaticMappingFormValues)"

text \<open>\<open>components/dhcp/SubnetCard.tsx\<close>\<close>

definition SubnetCard_queueDelete ::
    "string \<Rightarrow> DHCPSubnet \<Rightarrow> (ConfigOp \<times> string) list" where
  "SubnetCard_queueDelete networkName subnet =
     (let basePath = subnetPath networkName (ds_cidr subnet) [];
          pathLabel = ''service dhcp-server shared-network-name '' @ networkName @ '' subnet ''
            @ ds_cidr subnet
      in [(delete_op basePath, ''delete '' @ pathLabel)])"

definition SubnetCard_SubnetEditForm_submit ::
    "string \<Rightarrow> DHCPSubnet \<Rightarrow> SubnetFormValues \<Rightarrow> (ConfigOp \<times> string) list" where
  "SubnetCard_SubnetEditForm_submit networkName subnet values =
     (let ops = subnetFormToOps networkName (ds_cidr subnet) (Some subnet) values
      in map
           (\<lambda>op1. let field1 = last_segment (co_path op1)
                in (op1, op_name (co_op op1) @ '' ... subnet '' @ ds_cidr subnet @ '' '' @ field1
                    @ value_label op1)) ops)"

definition SubnetCard_SubnetEditForm_values :: "DHCPSubnet \<Rightarrow> SubnetFormValues" where
  "SubnetCard_SubnetEditForm_values subnet = subnetToFormValues subnet"

text \<open>\<open>components/interfaces/VlanSection.tsx\<close>\<close>

definition VlanSection_queueDelete ::
    "string list \<Rightarrow> string \<Rightarrow> string \<Rightarrow> (ConfigOp \<times> string) list" where
  "VlanSection_queueDelete parentPath parentPathLabel vlanId =
     [(delete_op (vlanPath parentPath vlanId []), ''delete '' @ parentPathLabel @ '' vif '' @ vlanId)]"

definition VlanSection_VlanFormFields_canSubmit ::
    "InterfaceVlan option \<Rightarrow> string list \<Rightarrow> text_input \<Rightarrow> bool" where
  "VlanSection_VlanFormFields_canSubmit vlan existingIds vlanId =
     (let idValid = (digits_re vlanId \<and> js_le (Num 0) (js_number vlanId))
            \<and> js_le (js_number vlanId) (Num 4094);
          idTaken = vlan = None \<and> vlanId \<in> set existingIds
      in idValid \<and> \<not> idTaken)"

definition VlanSection_VlanFormFields_submit ::
    "string list \<Rightarrow> string \<Rightarrow> InterfaceVlan option \<Rightarrow> string list \<Rightarrow> text_input \<Rightarrow> text_input \<Rightarrow> CommonInterfaceFormValues \<Rightarrow> (ConfigOp \<times> string) list" where
  "VlanSection_VlanFormFields_submit parentPath parentPathLabel vlan existingIds vlanId initialAddress values =
     (if \<not> VlanSection_VlanFormFields_canSubmit vlan existingIds vlanId then []
      else (let p = vlanPath parentPath vlanId [];
                ops = vlanFormToOps parentPath vlanId vlan values
            in map
                 (\<lambda>op1. let field1 = last_segment (co_path op1)
                      in (op1, op_name (co_op op1) @ '' '' @ parentPathLabel @ '' vif '' @ vlanId
                          @ '' '' @ field1 @ value_label op1)) ops
               @ (if vlan = None \<and> js_trim initialAddress \<noteq> ''''
                  then [(set_op (p @ [''address'']) (js_trim initialAddress), ''set ''
                         @ parentPathLabel @ '' vif '' @ vlanId
                         @ '' address ''
                         @ quoted (js_trim initialAddress))]
                  else [])))"

definition VlanSection_VlanFormFields_values :: "InterfaceVlan option \<Rightarrow> CommonInterfaceFormValues" where
  "VlanSection_VlanFormFields_values vlan =
     (case vlan of
        Some vlan' \<Rightarrow> vlanToFormValues vlan'
      | None \<Rightarrow> blankVlanFormValues)"

text \<open>\<open>pages/firewall/GroupsPage.tsx\<close>\<close>

definition GroupsPage_CreateGroupForm_valid :: "text_input \<Rightarrow> text_input \<Rightarrow> bool" where
  "GroupsPage_CreateGroupForm_valid name firstMember =
     (isValidVyOSIdentifier (js_trim name) \<and> js_trim firstMember \<noteq> '''')"

definition GroupsPage_CreateGroupForm_submit ::
    "string \<Rightarrow> text_input \<Rightarrow> text_input \<Rightarrow> text_input \<Rightarrow> (ConfigOp \<times> string) list" where
  "GroupsPage_CreateGroupForm_submit ty name description firstMember =
     (if \<not> GroupsPage_CreateGroupForm_valid name firstMember then []
      else (let groupName = js_trim name;
                memberLeaf = GROUP_MEMBER_LEAF ty
            in [(set_op (groupPath ty groupName [memberLeaf]) (js_trim firstMember), ''set group ''
                 @ ty @ '' '' @ groupName @ '' '' @ memberLeaf @ '' ''
                 @ quoted (js_trim firstMember))]
               @ (if js_trim description \<noteq> ''''
                  then [(set_op (groupPath ty groupName [''description'']) (js_trim description),
                           ''set group '' @ ty @ '' '' @ groupName
                         @ '' description ''
                         @ quoted (js_trim description))]
                  else [])))"

definition GroupsPage_GroupCard_queueDelete :: "FirewallGroup \<Rightarrow> (ConfigOp \<times> string) list" where
  "GroupsPage_GroupCard_queueDelete grp =
     [(delete_op (groupPath (fg_type grp) (fg_name grp) []), ''delete group '' @ fg_type grp @ '' ''
       @ fg_name grp)]"

definition GroupsPage_GroupCard_queueAddMember ::
    "FirewallGroup \<Rightarrow> text_input \<Rightarrow> (ConfigOp \<times> string) list" where
  "GroupsPage_GroupCard_queueAddMember grp newMember =
     (let memberLeaf = GROUP_MEMBER_LEAF (fg_type grp)
      in (if \<not> (newMember \<noteq> '''') then []
          else [(set_op (groupPath (fg_type grp) (fg_name grp) [memberLeaf]) newMember,
                   ''set group '' @ fg_type grp @ '' '' @ fg_name grp @ '' ''
                 @ memberLeaf @ '' '' @ quoted newMember)]))"

definition GroupsPage_GroupCard_queueRemoveMember ::
    "FirewallGroup \<Rightarrow> string \<Rightarrow> (ConfigOp \<times> string) list" where
  "GroupsPage_GroupCard_queueRemoveMember grp member =
     (let memberLeaf = GROUP_MEMBER_LEAF (fg_type grp)
      in [(delete_value_op (groupPath (fg_type grp) (fg_name grp) [memberLeaf]) member,
             ''delete group '' @ fg_type grp @ '' '' @ fg_name grp @ '' '' @ memberLeaf
           @ '' '' @ quoted member)])"

text \<open>\<open>pages/firewall/RulesetsPage.tsx\<close>\<close>

definition RulesetsPage_CreateRulesetForm_valid :: "text_input \<Rightarrow> bool" where
  "RulesetsPage_CreateRulesetForm_valid name = isValidVyOSIdentifier name"

definition RulesetsPage_CreateRulesetForm_submit ::
    "text_input \<Rightarrow> text_input \<Rightarrow> text_input \<Rightarrow> text_input \<Rightarrow> text_input \<Rightarrow> text_input \<Rightarrow> (ConfigOp \<times> string) list" where
  "RulesetsPage_CreateRulesetForm_submit name family description firstRuleAction firstRuleProtocol firstRuleDescription =
     (if \<not> RulesetsPage_CreateRulesetForm_valid name then []
      else (let ref = \<lparr>rr_id = name, rr_kind = Custom_kind, rr_family = family\<rparr>
            in [(set_op (rulesetPath ref [''default-action'']) ''drop'', ''set firewall '' @ family
                 @ '' name '' @ name
                 @ '' default-action '' @ [CHR 0x27] @ ''drop'' @ [CHR 0x27])]
               @ (if js_trim description \<noteq> ''''
                  then [(set_op (rulesetPath ref [''description'']) (js_trim description),
                           ''set firewall '' @ family @ '' name '' @ name
                         @ '' description ''
                         @ quoted (js_trim description))]
                  else [])
               @ (if firstRuleAction \<noteq> ''''
                  then (let ruleOps1 = ruleFormToOps ref ''10'' None
                                (blankRuleFormValues\<lparr>rf_action := firstRuleAction,
                                     rf_protocol := firstRuleProtocol,
                                     rf_description := firstRuleDescription\<rparr>)
                        in map (\<lambda>op1. (op1, change_label op1)) ruleOps1)
                  else [])))"

text \<open>\<open>pages/firewall/ZonesPage.tsx\<close>\<close>

definition ZonesPage_CreateZoneForm_valid :: "text_input \<Rightarrow> text_input \<Rightarrow> bool \<Rightarrow> bool" where
  "ZonesPage_CreateZoneForm_valid name interfaces localZone =
     (let ifaceList = filter (\<lambda>s. s \<noteq> '''') (map (\<lambda>s. js_trim s)
                 (js_split (CHR '','') interfaces))
      in isValidVyOSIdentifier (js_trim name) \<and> (localZone \<or> ifaceList \<noteq> []))"

definition ZonesPage_CreateZoneForm_submit ::
    "text_input \<Rightarrow> text_input \<Rightarrow> bool \<Rightarrow> text_input \<Rightarrow> text_input \<Rightarrow> text_input \<Rightarrow> (ConfigOp \<times> string) list" where
  "ZonesPage_CreateZoneForm_submit name interfaces localZone defaultAction firstFromZone firstFromRuleset =
     (let ifaceList = filter (\<lambda>s. s \<noteq> '''') (map (\<lambda>s. js_trim s)
                 (js_split (CHR '','') interfaces))
      in (if \<not> ZonesPage_CreateZoneForm_valid name interfaces localZone then []
          else (let zoneName = js_trim name
                in (if localZone
                    then [(set_flag (zonePath zoneName [''local-zone'']), ''set zone '' @ zoneName
                           @ '' local-zone'')]
                    else map
                           (\<lambda>iface. (set_op (zonePath zoneName [''interface'']) iface,
                                   ''set zone '' @ zoneName
                                 @ '' interface '' @ quoted iface)) ifaceList)
                   @ [(set_op (zonePath zoneName [''default-action'']) defaultAction, ''set zone ''
                       @ zoneName
                       @ '' default-action ''
                       @ quoted defaultAction)]
                   @ (if js_trim firstFromZone \<noteq> ''''
                         \<and> js_trim firstFromRuleset \<noteq> ''''
                      then [(set_op
                               (zonePath zoneName [''from'', js_trim firstFromZone, ''firewall'', ''name''])
                               (js_trim firstFromRuleset), ''set zone ''
                             @ zoneName @ '' from ''
                             @ js_trim firstFromZone
                             @ '' firewall name ''
                             @ quoted (js_trim firstFromRuleset))]
                      else []))))"

definition ZonesPage_ZoneCard_queueDeleteZone :: "FirewallZone \<Rightarrow> (ConfigOp \<times> string) list" where
  "ZonesPage_ZoneCard_queueDeleteZone zone =
     [(delete_op (zonePath (fz_name zone) []), ''delete zone '' @ fz_name zone)]"

definition ZonesPage_ZoneCard_queueSetDefaultAction ::
    "FirewallZone \<Rightarrow> string \<Rightarrow> (ConfigOp \<times> string) list" where
  "ZonesPage_ZoneCard_queueSetDefaultAction zone val =
     [(set_op (zonePath (fz_name zone) [''default-action'']) val, ''set zone '' @ fz_name zone
       @ '' default-action '' @ quoted val)]"

definition ZonesPage_ZoneCard_queueAddInterface ::
    "FirewallZone \<Rightarrow> text_input \<Rightarrow> (ConfigOp \<times> string) list" where
  "ZonesPage_ZoneCard_queueAddInterface zone newInterface =
     (if \<not> (newInterface \<noteq> '''') then []
      else [(set_op (zonePath (fz_name zone) [''interface'']) newInterface, ''set zone ''
             @ fz_name zone @ '' interface ''
             @ quoted newInterface)])"

definition ZonesPage_ZoneCard_queueRemoveInterface ::
    "FirewallZone \<Rightarrow> string \<Rightarrow> (ConfigOp \<times> string) list" where
  "ZonesPage_ZoneCard_queueRemoveInterface zone iface =
     [(delete_value_op (zonePath (fz_name zone) [''interface'']) iface, ''delete zone ''
       @ fz_name zone @ '' interface '' @ quoted iface)]"

definition ZonesPage_ZoneCard_queueAddFrom ::
    "FirewallZone \<Rightarrow> text_input \<Rightarrow> text_input \<Rightarrow> (ConfigOp \<times> string) list" where
  "ZonesPage_ZoneCard_queueAddFrom zone newFromZone newFromRuleset =
     (if \<not> (newFromZone \<noteq> '''') \<or> \<not> (newFromRuleset \<noteq> '''') then []
      else [(set_op (zonePath (fz_name zone) [''from'', newFromZone, ''firewall'', ''name''])
               newFromRuleset, ''set zone '' @ fz_name zone @ '' from '' @ newFromZone
             @ '' firewall name ''
             @ quoted newFromRuleset)])"

definition ZonesPage_ZoneCard_queueRemoveFrom ::
    "FirewallZone \<Rightarrow> string \<Rightarrow> (ConfigOp \<times> string) list" where
  "ZonesPage_ZoneCard_queueRemoveFrom zone srcZone =
     [(delete_op (zonePath (fz_name zone) [''from'', srcZone]), ''delete zone '' @ fz_name zone
       @ '' from '' @ srcZone)]"

text \<open>\<open>pages/dhcp/NetworksPage.tsx\<close>\<close>

definition NetworksPage_CreateNetworkForm_valid ::
    "string list \<Rightarrow> text_input \<Rightarrow> text_input \<Rightarrow> text_input \<Rightarrow> bool" where
  "NetworksPage_CreateNetworkForm_valid existingNames name cidr subnetId =
     (let trimmedName = js_trim name;
          nameTaken = trimmedName \<in> set existingNames;
          trimmedCidr = js_trim cidr;
          cidrValid = cidr_re trimmedCidr
      in ((isValidVyOSIdentifier trimmedName \<and> \<not> nameTaken) \<and> cidrValid)
         \<and> js_trim subnetId \<noteq> '''')"

definition NetworksPage_CreateNetworkForm_submit ::
    "string list \<Rightarrow> text_input \<Rightarrow> text_input \<Rightarrow> text_input \<Rightarrow> text_input \<Rightarrow> text_input \<Rightarrow> (ConfigOp \<times> string) list" where
  "NetworksPage_CreateNetworkForm_submit existingNames name cidr subnetId rangeStart rangeStop =
     (let trimmedName = js_trim name;
          trimmedCidr = js_trim cidr
      in (if \<not> NetworksPage_CreateNetworkForm_valid existingNames name cidr subnetId then []
          else (let p = sharedNetworkPath trimmedName [] @ [''subnet'', trimmedCidr, ''subnet-id'']
                in [(set_op p (js_trim subnetId), ''set service dhcp-server shared-network-name ''
                     @ trimmedName @ '' subnet '' @ trimmedCidr
                     @ '' subnet-id ''
                     @ quoted (js_trim subnetId))]
                   @ (if js_trim rangeStart \<noteq> '''' \<and> js_trim rangeStop \<noteq> ''''
                      then (let rangeBase = rangePath trimmedName trimmedCidr ''0'' []
                            in [(set_op (rangeBase @ [''start'']) (js_trim rangeStart),
                                   ''set ... range 0 start ''
                                 @ quoted (js_trim rangeStart))]
                               @ [(set_op (rangeBase @ [''stop'']) (js_trim rangeStop),
                                     ''set ... range 0 stop ''
                                   @ quoted (js_trim rangeStop))])
                      else []))))"

text \<open>\<open>pages/interfaces/BondingPage.tsx\<close>\<close>

definition BondingPage_CreateBondForm_valid ::
    "string list \<Rightarrow> text_input \<Rightarrow> text_input \<Rightarrow> bool" where
  "BondingPage_CreateBondForm_valid existingNames name firstMember =
     (let trimmedName = js_trim name;
          nameTaken = trimmedName \<in> set existingNames
      in (isValidVyOSIdentifier trimmedName \<and> \<not> nameTaken)
         \<and> js_trim firstMember \<noteq> '''')"

definition BondingPage_CreateBondForm_submit ::
    "string list \<Rightarrow> text_input \<Rightarrow> text_input \<Rightarrow> text_input \<Rightarrow> (ConfigOp \<times> string) list" where
  "BondingPage_CreateBondForm_submit existingNames name mode firstMember =
     (let trimmedName = js_trim name
      in (if \<not> BondingPage_CreateBondForm_valid existingNames name firstMember then []
          else (let member = js_trim firstMember
                in [(set_op (bondPath trimmedName [''member'', ''interface'']) member,
                       ''set interfaces bonding '' @ trimmedName
                     @ '' member interface '' @ quoted member)]
                   @ (if mode \<noteq> ''802.3ad''
                      then [(set_op (bondPath trimmedName [''mode'']) mode,
                               ''set interfaces bonding ''
                             @ trimmedName @ '' mode '' @ quoted mode)]
                      else []))))"

definition BondingPage_BondCard_queueDelete :: "BondInterface \<Rightarrow> (ConfigOp \<times> string) list" where
  "BondingPage_BondCard_queueDelete bond =
     [(delete_op (bondPath (bi_name bond) []), ''delete interfaces bonding '' @ bi_name bond)]"

definition BondingPage_BondCard_queueAddMember ::
    "BondInterface \<Rightarrow> text_input \<Rightarrow> (ConfigOp \<times> string) list" where
  "BondingPage_BondCard_queueAddMember bond newMember =
     (if \<not> (js_trim newMember \<noteq> '''') then []
      else [(set_op (bondPath (bi_name bond) [''member'', ''interface'']) (js_trim newMember),
               ''set interfaces bonding '' @ bi_name bond
             @ '' member interface ''
             @ quoted (js_trim newMember))])"

definition BondingPage_BondCard_queueRemoveMember ::
    "BondInterface \<Rightarrow> string \<Rightarrow> (ConfigOp \<times> string) list" where
  "BondingPage_BondCard_queueRemoveMember bond member =
     [(delete_value_op (bondPath (bi_name bond) [''member'', ''interface'']) member,
         ''delete interfaces bonding '' @ bi_name bond
       @ '' member interface '' @ quoted member)]"

definition BondingPage_BondEditForm_submit ::
    "BondInterface \<Rightarrow> BondFormValues \<Rightarrow> (ConfigOp \<times> string) list" where
  "BondingPage_BondEditForm_submit bond values =
     (let ops = bondFormToOps (bi_name bond) (Some bond) values
      in map
           (\<lambda>op1. let field1 = last_segment (co_path op1)
                in (op1, op_name (co_op op1)
                    @ '' interfaces bonding '' @ bi_name bond @ '' '' @ field1
                    @ value_label op1)) ops)"

definition BondingPage_BondEditForm_values :: "BondInterface \<Rightarrow> BondFormValues" where
  "BondingPage_BondEditForm_values bond = bondToFormValues bond"

text \<open>\<open>pages/interfaces/BridgePage.tsx\<close>\<close>

definition BridgePage_CreateBridgeForm_valid ::
    "string list \<Rightarrow> text_input \<Rightarrow> text_input \<Rightarrow> bool" where
  "BridgePage_CreateBridgeForm_valid existingNames name firstMember =
     (let trimmedName = js_trim name;
          nameTaken = trimmedName \<in> set existingNames
      in (isValidVyOSIdentifier trimmedName \<and> \<not> nameTaken)
         \<and> js_trim firstMember \<noteq> '''')"

definition BridgePage_CreateBridgeForm_submit ::
    "string list \<Rightarrow> text_input \<Rightarrow> text_input \<Rightarrow> (ConfigOp \<times> string) list" where
  "BridgePage_CreateBridgeForm_submit existingNames name firstMember =
     (let trimmedName = js_trim name
      in (if \<not> BridgePage_CreateBridgeForm_valid existingNames name firstMember then []
          else (let member = js_trim firstMember
                in [(set_flag (bridgePath trimmedName [''member'', ''interface'', member]),
                       ''set interfaces bridge '' @ trimmedName
                     @ '' member interface '' @ member)])))"

definition BridgePage_BridgeCard_queueDelete :: "BridgeInterface \<Rightarrow> (ConfigOp \<times> string) list" where
  "BridgePage_BridgeCard_queueDelete bridge =
     [(delete_op (bridgePath (gi_name bridge) []), ''delete interfaces bridge '' @ gi_name bridge)]"

definition BridgePage_BridgeCard_queueAddMember ::
    "BridgeInterface \<Rightarrow> text_input \<Rightarrow> (ConfigOp \<times> string) list" where
  "BridgePage_BridgeCard_queueAddMember bridge newMember =
     (if \<not> (js_trim newMember \<noteq> '''') then []
      else (let member = js_trim newMember
            in [(set_flag (bridgePath (gi_name bridge) [''member'', ''interface'', member]),
                   ''set interfaces bridge '' @ gi_name bridge
                 @ '' member interface '' @ member)]))"

definition BridgePage_MemberRow_queueRemove ::
    "string \<Rightarrow> BridgeMember \<Rightarrow> (ConfigOp \<times> string) list" where
  "BridgePage_MemberRow_queueRemove bridgeName member =
     (let basePath = bridgePath bridgeName [''member'', ''interface'', bm_name member]
      in [(delete_op basePath, ''delete interfaces bridge '' @ bridgeName
           @ '' member interface '' @ bm_name member)])"

definition BridgePage_MemberRow_queueField ::
    "string \<Rightarrow> BridgeMember \<Rightarrow> string \<Rightarrow> string \<Rightarrow> (ConfigOp \<times> string) list" where
  "BridgePage_MemberRow_queueField bridgeName member field1 raw =
     (let basePath = bridgePath bridgeName [''member'', ''interface'', bm_name member];
          val = js_trim raw;
          p = basePath @ [field1]
      in (if val = ''''
          then [(delete_op p, ''delete interfaces bridge '' @ bridgeName
                 @ '' member interface '' @ bm_name member @ '' '' @ field1)]
          else [(set_op p val, ''set interfaces bridge '' @ bridgeName
                 @ '' member interface '' @ bm_name member @ '' '' @ field1 @ '' ''
                 @ quoted val)]))"

definition BridgePage_BridgeEditForm_submit ::
    "BridgeInterface \<Rightarrow> BridgeFormValues \<Rightarrow> (ConfigOp \<times> string) list" where
  "BridgePage_BridgeEditForm_submit bridge values =
     (let ops = bridgeFormToOps (gi_name bridge) (Some bridge) values
      in map
           (\<lambda>op1. let field1 = last_segment (co_path op1)
                in (op1, op_name (co_op op1)
                    @ '' interfaces bridge '' @ gi_name bridge @ '' '' @ field1
                    @ value_label op1)) ops)"

definition BridgePage_BridgeEditForm_values :: "BridgeInterface \<Rightarrow> BridgeFormValues" where
  "BridgePage_BridgeEditForm_values bridge = bridgeToFormValues bridge"

text \<open>\<open>pages/interfaces/EthernetPage.tsx\<close>\<close>

definition EthernetPage_EthernetEditForm_submit ::
    "EthernetInterface \<Rightarrow> CommonInterfaceFormValues \<Rightarrow> (ConfigOp \<times> string) list" where
  "EthernetPage_EthernetEditForm_submit iface values =
     (let ops = ethernetFormToOps (ei_name iface) (Some iface) values
      in map
           (\<lambda>op1. let field1 = last_segment (co_path op1)
                in (op1, op_name (co_op op1)
                    @ '' interfaces ethernet '' @ ei_name iface @ '' '' @ field1
                    @ value_label op1)) ops)"

definition EthernetPage_EthernetEditForm_values :: "EthernetInterface \<Rightarrow> CommonInterfaceFormValues" where
  "EthernetPage_EthernetEditForm_values iface = ethernetToFormValues iface"

text \<open>\<open>pages/interfaces/VrfPage.tsx\<close>\<close>

definition VrfPage_CreateVrfForm_valid :: "text_input \<Rightarrow> text_input \<Rightarrow> bool" where
  "VrfPage_CreateVrfForm_valid name table =
     (let tableValid = digits_re (js_trim table)
      in isValidVyOSIdentifier (js_trim name) \<and> tableValid)"

definition VrfPage_CreateVrfForm_submit ::
    "text_input \<Rightarrow> text_input \<Rightarrow> (ConfigOp \<times> string) list" where
  "VrfPage_CreateVrfForm_submit name table =
     (if \<not> VrfPage_CreateVrfForm_valid name table then []
      else (let vrfName = js_trim name;
                tableId = js_trim table
            in [(set_op (vrfPath vrfName [''table'']) tableId, ''set vrf name '' @ vrfName
                 @ '' table '' @ quoted tableId)]))"

definition VrfPage_VrfRow_queueDelete :: "Vrf \<Rightarrow> (ConfigOp \<times> string) list" where
  "VrfPage_VrfRow_queueDelete vrf =
     [(delete_op (vrfPath (vrf_name vrf) []), ''delete vrf name '' @ vrf_name vrf)]"

subsection \<open>What the editors queue\<close>

inductive network_editor :: "string \<Rightarrow> (ConfigOp \<times> string) list \<Rightarrow> bool" where
  "network_editor ''firewall'' (RuleForm_submit rulesetRef rule existingNumbers ruleNumber values)"
| "rulesetName \<noteq> '''' \<Longrightarrow> network_editor ''firewall'' (ZoneMatrix_queueSet toZone fromZone rulesetName)"
| "network_editor ''firewall'' (ZoneMatrix_queueRemove toZone fromZone)"
| "network_editor ''nat'' (NATRuleForm_submit kind rule existingNumbers ruleNumber values)"
| "network_editor ''nat'' (NATRuleList_queueDelete kind ruleNumber)"
| "network_editor ''nat'' (NATStaticRuleForm_submit rule existingNumbers ruleNumber values)"
| "network_editor ''nat'' (NATStaticRuleList_queueDelete ruleNumber)"
| "network_editor ''service'' (NetworkCard_queueDelete network)"
| "network_editor ''service'' (NetworkCard_CreateSubnetForm_submit networkName existingCidrs cidr subnetId)"
| "network_editor ''service'' (NetworkCard_NetworkEditForm_submit network values)"
| "network_editor ''service'' (StaticMappingSection_queueDelete networkName cidr name)"
| "network_editor ''service'' (StaticMappingSection_MappingFormFields_submit networkName cidr mapping existingNames name values)"
| "network_editor ''service'' (SubnetCard_queueDelete networkName subnet)"
| "network_editor ''service'' (SubnetCard_SubnetEditForm_submit networkName subnet values)"
| "prefix [sec] parentPath \<Longrightarrow> network_editor sec (VlanSection_queueDelete parentPath parentPathLabel vlanId)"
| "prefix [sec] parentPath \<Longrightarrow> network_editor sec (VlanSection_VlanFormFields_submit parentPath parentPathLabel vlan existingIds vlanId initialAddress values)"
| "network_editor ''firewall'' (GroupsPage_CreateGroupForm_submit ty name description firstMember)"
| "network_editor ''firewall'' (GroupsPage_GroupCard_queueDelete grp)"
| "network_editor ''firewall'' (GroupsPage_GroupCard_queueAddMember grp newMember)"
| "network_editor ''firewall'' (GroupsPage_GroupCard_queueRemoveMember grp member)"
| "network_editor ''firewall'' (RulesetsPage_CreateRulesetForm_submit name family description firstRuleAction firstRuleProtocol firstRuleDescription)"
| "network_editor ''firewall'' (ZonesPage_ZoneCard_queueDeleteZone zone)"
| "val \<noteq> '''' \<Longrightarrow> network_editor ''firewall'' (ZonesPage_ZoneCard_queueSetDefaultAction zone val)"
| "network_editor ''firewall'' (ZonesPage_ZoneCard_queueAddInterface zone newInterface)"
| "network_editor ''firewall'' (ZonesPage_ZoneCard_queueRemoveInterface zone iface)"
| "network_editor ''firewall'' (ZonesPage_ZoneCard_queueAddFrom zone newFromZone newFromRuleset)"
| "network_editor ''firewall'' (ZonesPage_ZoneCard_queueRemoveFrom zone srcZone)"
| "network_editor ''service'' (NetworksPage_CreateNetworkForm_submit existingNames name cidr subnetId rangeStart rangeStop)"
| "network_editor ''interfaces'' (BondingPage_BondCard_queueDelete bond)"
| "network_editor ''interfaces'' (BondingPage_BondCard_queueAddMember bond newMember)"
| "network_editor ''interfaces'' (BondingPage_BondCard_queueRemoveMember bond member)"
| "network_editor ''interfaces'' (BondingPage_BondEditForm_submit bond values)"
| "network_editor ''interfaces'' (BridgePage_CreateBridgeForm_submit existingNames name firstMember)"
| "network_editor ''interfaces'' (BridgePage_BridgeCard_queueDelete bridge)"
| "network_editor ''interfaces'' (BridgePage_BridgeCard_queueAddMember bridge newMember)"
| "network_editor ''interfaces'' (BridgePage_MemberRow_queueRemove bridgeName member)"
| "network_editor ''interfaces'' (BridgePage_MemberRow_queueField bridgeName member field1 raw)"
| "network_editor ''interfaces'' (BridgePage_BridgeEditForm_submit bridge values)"
| "network_editor ''interfaces'' (EthernetPage_EthernetEditForm_submit iface values)"
| "network_editor ''vrf'' (VrfPage_VrfRow_queueDelete vrf)"

lemmas network_editor_defs =
  RuleForm_submit_def ruleFormToOps_def rulePath_def rulesetPath_def RuleForm_canSubmit_def
  ZoneMatrix_queueSet_def zonePath_def ZoneMatrix_queueRemove_def NATRuleForm_submit_def
  NATRuleForm_canSubmit_def ruleFormToOps_nat_def natRulePath_def natRuleInterfacePath_def
  NATRuleList_queueDelete_def deleteRuleOp_nat_def NATStaticRuleForm_submit_def
  NATStaticRuleForm_canSubmit_def staticFormToOps_def natStaticRulePath_def
  NATStaticRuleList_queueDelete_def deleteStaticRuleOp_def NetworkCard_queueDelete_def
  sharedNetworkPath_def NetworkCard_CreateSubnetForm_submit_def subnetPath_def
  NetworkCard_CreateSubnetForm_valid_def NetworkCard_NetworkEditForm_submit_def
  sharedNetworkFormToOps_def StaticMappingSection_queueDelete_def staticMappingPath_def
  StaticMappingSection_MappingFormFields_submit_def staticMappingFormToOps_def
  StaticMappingSection_MappingFormFields_canSubmit_def SubnetCard_queueDelete_def
  SubnetCard_SubnetEditForm_submit_def subnetFormToOps_def VlanSection_queueDelete_def
  vlanPath_def VlanSection_VlanFormFields_submit_def VlanSection_VlanFormFields_canSubmit_def
  vlanFormToOps_def GroupsPage_CreateGroupForm_submit_def GroupsPage_CreateGroupForm_valid_def
  groupPath_def GroupsPage_GroupCard_queueDelete_def GroupsPage_GroupCard_queueAddMember_def
  GroupsPage_GroupCard_queueRemoveMember_def RulesetsPage_CreateRulesetForm_submit_def
  RulesetsPage_CreateRulesetForm_valid_def ZonesPage_ZoneCard_queueDeleteZone_def
  ZonesPage_ZoneCard_queueSetDefaultAction_def ZonesPage_ZoneCard_queueAddInterface_def
  ZonesPage_ZoneCard_queueRemoveInterface_def ZonesPage_ZoneCard_queueAddFrom_def
  ZonesPage_ZoneCard_queueRemoveFrom_def NetworksPage_CreateNetworkForm_submit_def rangePath_def
  NetworksPage_CreateNetworkForm_valid_def BondingPage_BondCard_queueDelete_def bondPath_def
  BondingPage_BondCard_queueAddMember_def BondingPage_BondCard_queueRemoveMember_def
  BondingPage_BondEditForm_submit_def bondFormToOps_def BridgePage_CreateBridgeForm_submit_def
  bridgePath_def BridgePage_CreateBridgeForm_valid_def BridgePage_BridgeCard_queueDelete_def
  BridgePage_BridgeCard_queueAddMember_def BridgePage_MemberRow_queueRemove_def
  BridgePage_MemberRow_queueField_def BridgePage_BridgeEditForm_submit_def bridgeFormToOps_def
  EthernetPage_EthernetEditForm_submit_def ethernetFormToOps_def ethernetPath_def
  VrfPage_VrfRow_queueDelete_def vrfPath_def

lemma network_editor_ok: "network_editor sec adds \<Longrightarrow> ops_ok [sec] (map fst adds)"
  by (induction rule: network_editor.induct)
    (auto simp: network_editor_defs Let_def ok_rules o_def case_prod_beta split: option.splits if_splits ruleset_kind.splits)

inductive network_untouched :: "(ConfigOp \<times> string) list \<Rightarrow> bool" where
  "network_untouched (RuleForm_submit rulesetRef (Some rule) existingNumbers ruleNumber (RuleForm_values (Some rule)))"
| "network_untouched (NATRuleForm_submit kind (Some rule) existingNumbers ruleNumber (NATRuleForm_values (Some rule)))"
| "network_untouched (NATStaticRuleForm_submit (Some rule) existingNumbers ruleNumber (NATStaticRuleForm_values (Some rule)))"
| "network_untouched (NetworkCard_NetworkEditForm_submit network (NetworkCard_NetworkEditForm_values network))"
| "network_untouched (StaticMappingSection_MappingFormFields_submit networkName cidr (Some mapping) existingNames name (StaticMappingSection_MappingFormFields_values (Some mapping)))"
| "network_untouched (SubnetCard_SubnetEditForm_submit networkName subnet (SubnetCard_SubnetEditForm_values subnet))"
| "network_untouched (VlanSection_VlanFormFields_submit parentPath parentPathLabel (Some vlan) existingIds vlanId initialAddress (VlanSection_VlanFormFields_values (Some vlan)))"
| "network_untouched (BondingPage_BondEditForm_submit bond (BondingPage_BondEditForm_values bond))"
| "network_untouched (BridgePage_BridgeEditForm_submit bridge (BridgePage_BridgeEditForm_values bridge))"
| "network_untouched (EthernetPage_EthernetEditForm_submit iface (EthernetPage_EthernetEditForm_values iface))"

lemmas network_untouched_defs =
  RuleForm_submit_def ruleFormToOps_def rulePath_def rulesetPath_def RuleForm_canSubmit_def
  RuleForm_values_def NATRuleForm_submit_def NATRuleForm_canSubmit_def ruleFormToOps_nat_def
  natRulePath_def natRuleInterfacePath_def NATRuleForm_values_def NATStaticRuleForm_submit_def
  NATStaticRuleForm_canSubmit_def staticFormToOps_def natStaticRulePath_def
  NATStaticRuleForm_values_def NetworkCard_NetworkEditForm_submit_def sharedNetworkFormToOps_def
  sharedNetworkPath_def NetworkCard_NetworkEditForm_values_def
  StaticMappingSection_MappingFormFields_submit_def staticMappingFormToOps_def
  staticMappingPath_def subnetPath_def StaticMappingSection_MappingFormFields_canSubmit_def
  StaticMappingSection_MappingFormFields_values_def SubnetCard_SubnetEditForm_submit_def
  subnetFormToOps_def SubnetCard_SubnetEditForm_values_def VlanSection_VlanFormFields_submit_def
  vlanPath_def VlanSection_VlanFormFields_canSubmit_def vlanFormToOps_def
  VlanSection_VlanFormFields_values_def BondingPage_BondEditForm_submit_def bondFormToOps_def
  bondPath_def BondingPage_BondEditForm_values_def BridgePage_BridgeEditForm_submit_def
  bridgeFormToOps_def bridgePath_def BridgePage_BridgeEditForm_values_def
  EthernetPage_EthernetEditForm_submit_def ethernetFormToOps_def ethernetPath_def
  EthernetPage_EthernetEditForm_values_def

lemma network_untouched_nothing: "network_untouched adds \<Longrightarrow> adds = []"
  by (induction rule: network_untouched.induct)
    (auto simp: network_untouched_defs Let_def same_rules case_prod_beta split: option.splits if_splits)

inductive network_creates :: "string \<Rightarrow> string list \<Rightarrow> (ConfigOp \<times> string) list \<Rightarrow> bool" where
  "network_creates ruleNumber existingNumbers (RuleForm_submit rulesetRef None existingNumbers ruleNumber values)"
| "network_creates ruleNumber existingNumbers (NATRuleForm_submit kind None existingNumbers ruleNumber values)"
| "network_creates ruleNumber existingNumbers (NATStaticRuleForm_submit None existingNumbers ruleNumber values)"
| "network_creates (js_trim cidr) existingCidrs (NetworkCard_CreateSubnetForm_submit networkName existingCidrs cidr subnetId)"
| "network_creates (js_trim name) existingNames (StaticMappingSection_MappingFormFields_submit networkName cidr None existingNames name values)"
| "network_creates vlanId existingIds (VlanSection_VlanFormFields_submit parentPath parentPathLabel None existingIds vlanId initialAddress values)"
| "network_creates (js_trim name) existingNames (NetworksPage_CreateNetworkForm_submit existingNames name cidr subnetId rangeStart rangeStop)"
| "network_creates (js_trim name) existingNames (BondingPage_CreateBondForm_submit existingNames name mode firstMember)"
| "network_creates (js_trim name) existingNames (BridgePage_CreateBridgeForm_submit existingNames name firstMember)"

lemmas network_creates_defs =
  RuleForm_submit_def RuleForm_canSubmit_def NATRuleForm_submit_def NATRuleForm_canSubmit_def
  NATStaticRuleForm_submit_def NATStaticRuleForm_canSubmit_def
  NetworkCard_CreateSubnetForm_submit_def NetworkCard_CreateSubnetForm_valid_def
  StaticMappingSection_MappingFormFields_submit_def
  StaticMappingSection_MappingFormFields_canSubmit_def VlanSection_VlanFormFields_submit_def
  VlanSection_VlanFormFields_canSubmit_def NetworksPage_CreateNetworkForm_submit_def
  NetworksPage_CreateNetworkForm_valid_def BondingPage_CreateBondForm_submit_def
  BondingPage_CreateBondForm_valid_def BridgePage_CreateBridgeForm_submit_def
  BridgePage_CreateBridgeForm_valid_def

lemma network_creates_new: "network_creates n existing adds \<Longrightarrow> adds = [] \<or> n \<noteq> '''' \<and> n \<notin> set existing"
  by (induction rule: network_creates.induct) (auto simp: network_creates_defs Let_def rule_number_re_def no_blank)

end
