(* ===== verification/UiSystem.thy ===== *)
theory UiSystem
  imports Handlers Containers LiveData Pki System VyosApi
begin

text \<open>
  The editors of the system, PKI and container pages: for each component the condition its button is
  enabled under, the values its form starts from, and the changes (op and label) its handlers queue.
  The arguments are the props and the state a handler reads. A handler's resets of its own input
  fields and the closing of its panel are left out; a callback prop such as \<open>onAdd\<close> is whether the
  parent passes one.
\<close>

text \<open>\<open>components/system/StaticHostMappingList.tsx\<close>\<close>

definition StaticHostMappingList_queueDelete :: "string \<Rightarrow> (ConfigOp \<times> string) list" where
  "StaticHostMappingList_queueDelete hostName =
     (let op1 = deleteStaticHostMappingOp hostName
      in [(op1, ''delete '' @ js_join '' '' (co_path op1))])"

definition StaticHostMappingList_CreateMappingForm_valid ::
    "string list \<Rightarrow> text_input \<Rightarrow> string list \<Rightarrow> bool" where
  "StaticHostMappingList_CreateMappingForm_valid existingHostNames hostName addresses =
     (let trimmedHostName = js_trim hostName;
          taken = trimmedHostName \<in> set existingHostNames
      in (trimmedHostName \<noteq> '''' \<and> \<not> taken) \<and> addresses \<noteq> [])"

definition StaticHostMappingList_CreateMappingForm_submit ::
    "string list \<Rightarrow> text_input \<Rightarrow> string list \<Rightarrow> string list \<Rightarrow> (ConfigOp \<times> string) list" where
  "StaticHostMappingList_CreateMappingForm_submit existingHostNames hostName addresses aliases =
     (let trimmedHostName = js_trim hostName
      in (if \<not> StaticHostMappingList_CreateMappingForm_valid existingHostNames hostName
               addresses
          then []
          else (let base = staticHostMappingPath trimmedHostName [];
                    ops = map (\<lambda>a. set_op (base @ [''inet'']) a) addresses
                      @ map (\<lambda>al. set_op (base @ [''alias'']) al) aliases
                in map (\<lambda>op1. (op1, change_label op1)) ops)))"

text \<open>\<open>components/system/SyslogSection.tsx\<close>\<close>

definition SyslogSection_LocalSection_submit ::
    "SyslogFacilityRule list \<Rightarrow> text_input \<Rightarrow> text_input \<Rightarrow> (ConfigOp \<times> string) list" where
  "SyslogSection_LocalSection_submit facilities facility level =
     (let taken = list_ex (\<lambda>f. sf_facility f = facility) facilities
      in (if taken then []
          else (let ops = addLocalFacilityOps facility level
                in map (\<lambda>op1. (op1, change_label op1)) ops)))"

definition SyslogSection_LocalSection_queueRemove :: "string \<Rightarrow> (ConfigOp \<times> string) list" where
  "SyslogSection_LocalSection_queueRemove f =
     (let op1 = removeLocalFacilityOp f in [(op1, ''delete '' @ js_join '' '' (co_path op1))])"

definition SyslogSection_RemoteSection_queueDelete :: "string \<Rightarrow> (ConfigOp \<times> string) list" where
  "SyslogSection_RemoteSection_queueDelete address =
     (let op1 = deleteRemoteHostOp address in [(op1, ''delete '' @ js_join '' '' (co_path op1))])"

definition SyslogSection_RemoteFacilitiesList_submit ::
    "SyslogRemoteHost \<Rightarrow> text_input \<Rightarrow> text_input \<Rightarrow> (ConfigOp \<times> string) list" where
  "SyslogSection_RemoteFacilitiesList_submit host facility level =
     (let taken = list_ex (\<lambda>f. sf_facility f = facility) (srh_facilities host)
      in (if taken then []
          else (let ops = addRemoteFacilityOps (srh_address host) facility level
                in map (\<lambda>op1. (op1, change_label op1)) ops)))"

definition SyslogSection_RemoteFacilitiesList_queueRemove ::
    "SyslogRemoteHost \<Rightarrow> string \<Rightarrow> (ConfigOp \<times> string) list" where
  "SyslogSection_RemoteFacilitiesList_queueRemove host f =
     (let op1 = removeRemoteFacilityOp (srh_address host) f
      in [(op1, ''delete '' @ js_join '' '' (co_path op1))])"

definition SyslogSection_RemoteFacilitiesList_queueProtocol ::
    "SyslogRemoteHost \<Rightarrow> string \<Rightarrow> (ConfigOp \<times> string) list" where
  "SyslogSection_RemoteFacilitiesList_queueProtocol host protocol =
     (let op1 = setRemoteProtocolOp (srh_address host) protocol
      in [(op1, ''set '' @ js_join '' '' (co_path op1) @ '' '' @ quoted protocol)])"

definition SyslogSection_RemoteFacilitiesList_queuePort ::
    "SyslogRemoteHost \<Rightarrow> string \<Rightarrow> (ConfigOp \<times> string) list" where
  "SyslogSection_RemoteFacilitiesList_queuePort host port =
     (if \<not> (js_trim port \<noteq> '''') then []
      else (let op1 = setRemotePortOp (srh_address host) (js_trim port)
            in [(op1, ''set '' @ js_join '' '' (co_path op1) @ '' '' @ quoted (js_trim port))]))"

definition SyslogSection_CreateRemoteHostForm_valid :: "string list \<Rightarrow> text_input \<Rightarrow> bool" where
  "SyslogSection_CreateRemoteHostForm_valid existingAddresses address =
     (let trimmedAddress = js_trim address;
          taken = trimmedAddress \<in> set existingAddresses
      in trimmedAddress \<noteq> '''' \<and> \<not> taken)"

definition SyslogSection_CreateRemoteHostForm_submit ::
    "string list \<Rightarrow> text_input \<Rightarrow> text_input \<Rightarrow> text_input \<Rightarrow> text_input \<Rightarrow> text_input \<Rightarrow> (ConfigOp \<times> string) list" where
  "SyslogSection_CreateRemoteHostForm_submit existingAddresses address facility level protocol port =
     (let trimmedAddress = js_trim address
      in (if \<not> SyslogSection_CreateRemoteHostForm_valid existingAddresses address then []
          else (let ops = addRemoteHostOps trimmedAddress facility level protocol port
                in map (\<lambda>op1. (op1, change_label op1)) ops)))"

text \<open>\<open>components/system/SystemGeneralSettings.tsx\<close>\<close>

definition SystemGeneralSettings_submit ::
    "SystemGeneralSettings \<Rightarrow> SystemGeneralFormValues \<Rightarrow> (ConfigOp \<times> string) list" where
  "SystemGeneralSettings_submit settings values =
     (let ops = generalFormToOps settings values in map (\<lambda>op1. (op1, change_label op1)) ops)"

definition SystemGeneralSettings_values :: "SystemGeneralSettings \<Rightarrow> SystemGeneralFormValues" where
  "SystemGeneralSettings_values settings = generalToFormValues settings"

text \<open>\<open>components/system/UserForm.tsx\<close>\<close>

definition UserForm_canSubmit ::
    "SystemUser option \<Rightarrow> string list \<Rightarrow> text_input \<Rightarrow> bool" where
  "UserForm_canSubmit user existingUsernames username =
     (let trimmedUsername = js_trim username;
          usernameTaken = user = None \<and> trimmedUsername \<in> set existingUsernames
      in trimmedUsername \<noteq> '''' \<and> \<not> usernameTaken)"

definition UserForm_submit ::
    "SystemUser option \<Rightarrow> string list \<Rightarrow> text_input \<Rightarrow> SystemUserFormValues \<Rightarrow> text_input \<Rightarrow> text_input \<Rightarrow> text_input \<Rightarrow> (ConfigOp \<times> string) list" where
  "UserForm_submit user existingUsernames username values firstKeyIdentifier firstKeyData firstKeyType =
     (let trimmedUsername = js_trim username
      in (if \<not> UserForm_canSubmit user existingUsernames username then []
          else (let ops = userFormToOps trimmedUsername user values;
                    trimmedIdentifier = js_trim firstKeyIdentifier
                in map (\<lambda>op1. (op1, change_label op1)) ops
                   @ (if (user = None \<and> trimmedIdentifier \<noteq> '''')
                         \<and> js_trim firstKeyData \<noteq> ''''
                      then (let keyOps = addPublicKeyOps trimmedUsername trimmedIdentifier
                                    (js_trim firstKeyData) firstKeyType ''''
                            in map (\<lambda>op1. (op1, change_label op1)) keyOps)
                      else []))))"

definition UserForm_values :: "SystemUser option \<Rightarrow> SystemUserFormValues" where
  "UserForm_values user =
     (case user of
        Some user' \<Rightarrow> userToFormValues user'
      | None \<Rightarrow> blankUserFormValues)"

text \<open>\<open>components/system/UserList.tsx\<close>\<close>

definition UserList_queueDelete :: "string \<Rightarrow> (ConfigOp \<times> string) list" where
  "UserList_queueDelete username =
     (let op1 = deleteUserOp username in [(op1, ''delete '' @ js_join '' '' (co_path op1))])"

definition UserList_PublicKeysSection_valid ::
    "SystemUser \<Rightarrow> text_input \<Rightarrow> text_input \<Rightarrow> bool" where
  "UserList_PublicKeysSection_valid user ident key =
     (let trimmedIdentifier = js_trim ident;
          taken = list_ex (\<lambda>k. pk_identifier k = trimmedIdentifier) (su_publicKeys user)
      in (trimmedIdentifier \<noteq> '''' \<and> \<not> taken) \<and> js_trim key \<noteq> '''')"

definition UserList_PublicKeysSection_submit ::
    "SystemUser \<Rightarrow> text_input \<Rightarrow> text_input \<Rightarrow> text_input \<Rightarrow> text_input \<Rightarrow> (ConfigOp \<times> string) list" where
  "UserList_PublicKeysSection_submit user ident key ty options =
     (let trimmedIdentifier = js_trim ident
      in (if \<not> UserList_PublicKeysSection_valid user ident key then []
          else (let ops = addPublicKeyOps (su_username user) trimmedIdentifier (js_trim key) ty
                        options
                in map (\<lambda>op1. (op1, change_label op1)) ops)))"

definition UserList_PublicKeysSection_queueRemove ::
    "SystemUser \<Rightarrow> string \<Rightarrow> (ConfigOp \<times> string) list" where
  "UserList_PublicKeysSection_queueRemove user keyIdentifier =
     (let op1 = removePublicKeyOp (su_username user) keyIdentifier
      in [(op1, ''delete '' @ js_join '' '' (co_path op1))])"

text \<open>\<open>components/pki/CAForm.tsx\<close>\<close>

definition CAForm_canSubmit ::
    "PKICertificateAuthority option \<Rightarrow> string list \<Rightarrow> text_input \<Rightarrow> bool" where
  "CAForm_canSubmit ca existingNames name =
     (let trimmedName = js_trim name;
          nameTaken = ca = None \<and> trimmedName \<in> set existingNames
      in trimmedName \<noteq> '''' \<and> \<not> nameTaken)"

definition CAForm_submit ::
    "PKICertificateAuthority option \<Rightarrow> string list \<Rightarrow> text_input \<Rightarrow> PKICAFormValues \<Rightarrow> text_input \<Rightarrow> (ConfigOp \<times> string) list" where
  "CAForm_submit ca existingNames name values firstCrl =
     (let trimmedName = js_trim name
      in (if \<not> CAForm_canSubmit ca existingNames name then []
          else (let ops = caFormToOps trimmedName ca values
                in map (\<lambda>op1. (op1, change_label op1)) ops
                   @ (if ca = None \<and> js_trim firstCrl \<noteq> ''''
                      then [(set_op (pkiCAPath trimmedName [] @ [''crl'']) (js_trim firstCrl),
                               ''set pki ca '' @ trimmedName
                             @ '' crl ''
                             @ quoted (js_trim firstCrl))]
                      else []))))"

definition CAForm_values :: "PKICertificateAuthority option \<Rightarrow> PKICAFormValues" where
  "CAForm_values ca =
     (case ca of Some ca' \<Rightarrow> caToFormValues ca' | None \<Rightarrow> blankCAFormValues)"

text \<open>\<open>components/pki/CAList.tsx\<close>\<close>

definition CAList_queueDelete :: "string \<Rightarrow> (ConfigOp \<times> string) list" where
  "CAList_queueDelete name =
     (let op1 = deleteCAOp name in [(op1, ''delete '' @ js_join '' '' (co_path op1))])"

text \<open>\<open>components/pki/CertificateForm.tsx\<close>\<close>

definition CertificateForm_canSubmit ::
    "PKICertificate option \<Rightarrow> string list \<Rightarrow> text_input \<Rightarrow> bool" where
  "CertificateForm_canSubmit certificate existingNames name =
     (let trimmedName = js_trim name;
          nameTaken = certificate = None \<and> trimmedName \<in> set existingNames
      in trimmedName \<noteq> '''' \<and> \<not> nameTaken)"

definition CertificateForm_submit ::
    "PKICertificate option \<Rightarrow> string list \<Rightarrow> text_input \<Rightarrow> PKICertificateFormValues \<Rightarrow> (ConfigOp \<times> string) list" where
  "CertificateForm_submit certificate existingNames name values =
     (let trimmedName = js_trim name
      in (if \<not> CertificateForm_canSubmit certificate existingNames name then []
          else (let ops = certificateFormToOps trimmedName certificate values
                in map (\<lambda>op1. (op1, change_label op1)) ops)))"

definition CertificateForm_values :: "PKICertificate option \<Rightarrow> PKICertificateFormValues" where
  "CertificateForm_values certificate =
     (case certificate of
        Some certificate' \<Rightarrow> certificateToFormValues certificate'
      | None \<Rightarrow> blankCertificateFormValues)"

text \<open>\<open>components/pki/CertificateList.tsx\<close>\<close>

definition CertificateList_queueDelete :: "string \<Rightarrow> (ConfigOp \<times> string) list" where
  "CertificateList_queueDelete name =
     (let op1 = deleteCertificateOp name in [(op1, ''delete '' @ js_join '' '' (co_path op1))])"

text \<open>\<open>components/pki/KeyMaterialSection.tsx\<close>\<close>

definition KeyMaterialSection_KeyPairsSubsection_queueDelete :: "string \<Rightarrow> (ConfigOp \<times> string) list" where
  "KeyMaterialSection_KeyPairsSubsection_queueDelete name =
     (let op1 = deleteKeyPairOp name in [(op1, ''delete '' @ js_join '' '' (co_path op1))])"

definition KeyMaterialSection_KeyPairForm_valid :: "string list \<Rightarrow> text_input \<Rightarrow> bool" where
  "KeyMaterialSection_KeyPairForm_valid existingNames name =
     (let trimmedName = js_trim name;
          taken = trimmedName \<in> set existingNames
      in trimmedName \<noteq> '''' \<and> \<not> taken)"

definition KeyMaterialSection_KeyPairForm_submit ::
    "string list \<Rightarrow> text_input \<Rightarrow> PKIKeyPairFormValues \<Rightarrow> (ConfigOp \<times> string) list" where
  "KeyMaterialSection_KeyPairForm_submit existingNames name values =
     (let trimmedName = js_trim name
      in (if \<not> KeyMaterialSection_KeyPairForm_valid existingNames name then []
          else (let ops = keyPairFormToOps trimmedName None values
                in map (\<lambda>op1. (op1, change_label op1)) ops)))"

definition KeyMaterialSection_KeyPairForm_values :: PKIKeyPairFormValues where
  "KeyMaterialSection_KeyPairForm_values = blankKeyPairFormValues"

definition KeyMaterialSection_DHSubsection_queueDelete :: "string \<Rightarrow> (ConfigOp \<times> string) list" where
  "KeyMaterialSection_DHSubsection_queueDelete name =
     (let op1 = deleteDHOp name in [(op1, ''delete '' @ js_join '' '' (co_path op1))])"

definition KeyMaterialSection_DHForm_valid ::
    "string list \<Rightarrow> text_input \<Rightarrow> PKIDHFormValues \<Rightarrow> bool" where
  "KeyMaterialSection_DHForm_valid existingNames name values =
     (let trimmedName = js_trim name;
          taken = trimmedName \<in> set existingNames
      in (trimmedName \<noteq> '''' \<and> \<not> taken)
         \<and> js_trim (pkidhfv_parameters values) \<noteq> '''')"

definition KeyMaterialSection_DHForm_submit ::
    "string list \<Rightarrow> text_input \<Rightarrow> PKIDHFormValues \<Rightarrow> (ConfigOp \<times> string) list" where
  "KeyMaterialSection_DHForm_submit existingNames name values =
     (let trimmedName = js_trim name
      in (if \<not> KeyMaterialSection_DHForm_valid existingNames name values then []
          else (let ops = dhFormToOps trimmedName None values
                in map (\<lambda>op1. (op1, change_label op1)) ops)))"

definition KeyMaterialSection_DHForm_values :: PKIDHFormValues where
  "KeyMaterialSection_DHForm_values = blankDHFormValues"

text \<open>\<open>components/pki/X509DefaultsForm.tsx\<close>\<close>

definition X509DefaultsForm_submit ::
    "PKIX509Defaults \<Rightarrow> PKIX509DefaultsFormValues \<Rightarrow> (ConfigOp \<times> string) list" where
  "X509DefaultsForm_submit defaults values =
     (let ops = x509DefaultsFormToOps defaults values
      in map (\<lambda>op1. (op1, change_label op1)) ops)"

definition X509DefaultsForm_values :: "PKIX509Defaults \<Rightarrow> PKIX509DefaultsFormValues" where
  "X509DefaultsForm_values defaults = x509DefaultsToFormValues defaults"

text \<open>\<open>components/container/ContainerDevicesSection.tsx\<close>\<close>

definition ContainerDevicesSection_valid :: "ContainerDevice list \<Rightarrow> text_input \<Rightarrow> bool" where
  "ContainerDevicesSection_valid devices i =
     (let trimmedId = js_trim i;
          taken = list_ex (\<lambda>d. cd_id d = trimmedId) devices
      in trimmedId \<noteq> '''' \<and> \<not> taken)"

definition ContainerDevicesSection_submit ::
    "string \<Rightarrow> ContainerDevice list \<Rightarrow> bool \<Rightarrow> text_input \<Rightarrow> text_input \<Rightarrow> text_input \<Rightarrow> (ConfigOp \<times> string) list" where
  "ContainerDevicesSection_submit containerName devices onAdd i source destination =
     (let trimmedId = js_trim i
      in (if \<not> ContainerDevicesSection_valid devices i then []
          else (if onAdd then []
                else (let ops = addDeviceOps containerName trimmedId source destination
                      in map (\<lambda>op1. (op1, change_label op1)) ops))))"

definition ContainerDevicesSection_remove ::
    "string \<Rightarrow> bool \<Rightarrow> string \<Rightarrow> (ConfigOp \<times> string) list" where
  "ContainerDevicesSection_remove containerName onRemove devId =
     (if onRemove then []
      else (let op1 = removeDeviceOp containerName devId
            in [(op1, ''delete '' @ js_join '' '' (co_path op1))]))"

text \<open>\<open>components/container/ContainerForm.tsx\<close>\<close>

definition ContainerForm_canSubmit ::
    "ContainerDefinition option \<Rightarrow> string list \<Rightarrow> text_input \<Rightarrow> bool" where
  "ContainerForm_canSubmit container existingNames name =
     (let trimmedName = js_trim name;
          nameTaken = container = None \<and> trimmedName \<in> set existingNames
      in trimmedName \<noteq> '''' \<and> \<not> nameTaken)"

definition ContainerForm_submit ::
    "ContainerDefinition option \<Rightarrow> string list \<Rightarrow> text_input \<Rightarrow> ContainerFormValues \<Rightarrow> ConfigOp list \<Rightarrow> (ConfigOp \<times> string) list" where
  "ContainerForm_submit container existingNames name values nestedOps =
     (let trimmedName = js_trim name
      in (if \<not> ContainerForm_canSubmit container existingNames name then []
          else (let ops = containerFormToOps trimmedName container values
                in map (\<lambda>op1. (op1, change_label op1)) ops
                   @ map (\<lambda>op1. (op1, change_label op1)) nestedOps)))"

definition ContainerForm_values :: "ContainerDefinition option \<Rightarrow> ContainerFormValues" where
  "ContainerForm_values container =
     (case container of
        Some container' \<Rightarrow> containerToFormValues container'
      | None \<Rightarrow> blankContainerFormValues)"

text \<open>\<open>components/container/ContainerHealthCheckSection.tsx\<close>\<close>

definition ContainerHealthCheckSection_save ::
    "string \<Rightarrow> ContainerHealthCheck \<Rightarrow> bool \<Rightarrow> HealthCheckFormValues \<Rightarrow> (ConfigOp \<times> string) list" where
  "ContainerHealthCheckSection_save containerName healthCheck onSave values =
     (if onSave then []
      else (let ops = healthCheckFormToOps containerName healthCheck values
            in map (\<lambda>op1. (op1, change_label op1)) ops))"

definition ContainerHealthCheckSection_values :: "ContainerHealthCheck \<Rightarrow> HealthCheckFormValues" where
  "ContainerHealthCheckSection_values healthCheck = healthCheckToFormValues healthCheck"

text \<open>\<open>components/container/ContainerList.tsx\<close>\<close>

definition ContainerList_queueDelete :: "string \<Rightarrow> (ConfigOp \<times> string) list" where
  "ContainerList_queueDelete name =
     (let op1 = deleteContainerOp name in [(op1, ''delete '' @ js_join '' '' (co_path op1))])"

text \<open>\<open>components/container/ContainerNetworkAttachmentsSection.tsx\<close>\<close>

definition ContainerNetworkAttachmentsSection_valid :: "text_input \<Rightarrow> bool" where
  "ContainerNetworkAttachmentsSection_valid networkName = (networkName \<noteq> '''')"

definition ContainerNetworkAttachmentsSection_submit ::
    "string \<Rightarrow> bool \<Rightarrow> text_input \<Rightarrow> text_input \<Rightarrow> (ConfigOp \<times> string) list" where
  "ContainerNetworkAttachmentsSection_submit containerName onAdd networkName mac =
     (if \<not> ContainerNetworkAttachmentsSection_valid networkName then []
      else (if onAdd then []
            else (let ops = addNetworkAttachmentOps containerName networkName mac
                  in map (\<lambda>op1. (op1, change_label op1)) ops)))"

definition ContainerNetworkAttachmentsSection_remove ::
    "string \<Rightarrow> bool \<Rightarrow> string \<Rightarrow> (ConfigOp \<times> string) list" where
  "ContainerNetworkAttachmentsSection_remove containerName onRemove netName =
     (if onRemove then []
      else (let op1 = removeNetworkAttachmentOp containerName netName
            in [(op1, ''delete '' @ js_join '' '' (co_path op1))]))"

text \<open>\<open>components/container/ContainerPortsSection.tsx\<close>\<close>

definition ContainerPortsSection_valid :: "ContainerPort list \<Rightarrow> text_input \<Rightarrow> bool" where
  "ContainerPortsSection_valid ports i =
     (let trimmedId = js_trim i;
          taken = list_ex (\<lambda>p. ctcp_id p = trimmedId) ports
      in trimmedId \<noteq> '''' \<and> \<not> taken)"

definition ContainerPortsSection_submit ::
    "string \<Rightarrow> ContainerPort list \<Rightarrow> bool \<Rightarrow> text_input \<Rightarrow> text_input \<Rightarrow> text_input \<Rightarrow> text_input \<Rightarrow> (ConfigOp \<times> string) list" where
  "ContainerPortsSection_submit containerName ports onAdd i source destination protocol =
     (let trimmedId = js_trim i
      in (if \<not> ContainerPortsSection_valid ports i then []
          else (if onAdd then []
                else (let ops = addPortOps containerName trimmedId source destination protocol
                      in map (\<lambda>op1. (op1, change_label op1)) ops))))"

definition ContainerPortsSection_remove ::
    "string \<Rightarrow> bool \<Rightarrow> string \<Rightarrow> (ConfigOp \<times> string) list" where
  "ContainerPortsSection_remove containerName onRemove portId =
     (if onRemove then []
      else (let op1 = removePortOp containerName portId
            in [(op1, ''delete '' @ js_join '' '' (co_path op1))]))"

text \<open>\<open>components/container/ContainerTmpfsSection.tsx\<close>\<close>

definition ContainerTmpfsSection_valid :: "ContainerTmpfs list \<Rightarrow> text_input \<Rightarrow> bool" where
  "ContainerTmpfsSection_valid tmpfs i =
     (let trimmedId = js_trim i;
          taken = list_ex (\<lambda>t. ct_id t = trimmedId) tmpfs
      in trimmedId \<noteq> '''' \<and> \<not> taken)"

definition ContainerTmpfsSection_submit ::
    "string \<Rightarrow> ContainerTmpfs list \<Rightarrow> bool \<Rightarrow> text_input \<Rightarrow> text_input \<Rightarrow> text_input \<Rightarrow> (ConfigOp \<times> string) list" where
  "ContainerTmpfsSection_submit containerName tmpfs onAdd i destination siz =
     (let trimmedId = js_trim i
      in (if \<not> ContainerTmpfsSection_valid tmpfs i then []
          else (if onAdd then []
                else (let ops = addTmpfsOps containerName trimmedId destination siz
                      in map (\<lambda>op1. (op1, change_label op1)) ops))))"

definition ContainerTmpfsSection_remove ::
    "string \<Rightarrow> bool \<Rightarrow> string \<Rightarrow> (ConfigOp \<times> string) list" where
  "ContainerTmpfsSection_remove containerName onRemove tmpfsId =
     (if onRemove then []
      else (let op1 = removeTmpfsOp containerName tmpfsId
            in [(op1, ''delete '' @ js_join '' '' (co_path op1))]))"

text \<open>\<open>components/container/ContainerVolumesSection.tsx\<close>\<close>

definition ContainerVolumesSection_valid :: "ContainerVolume list \<Rightarrow> text_input \<Rightarrow> bool" where
  "ContainerVolumesSection_valid volumes i =
     (let trimmedId = js_trim i;
          taken = list_ex (\<lambda>v. ctcv_id v = trimmedId) volumes
      in trimmedId \<noteq> '''' \<and> \<not> taken)"

definition ContainerVolumesSection_submit ::
    "string \<Rightarrow> ContainerVolume list \<Rightarrow> bool \<Rightarrow> text_input \<Rightarrow> text_input \<Rightarrow> text_input \<Rightarrow> text_input \<Rightarrow> text_input \<Rightarrow> (ConfigOp \<times> string) list" where
  "ContainerVolumesSection_submit containerName volumes onAdd i source destination mode propagation =
     (let trimmedId = js_trim i
      in (if \<not> ContainerVolumesSection_valid volumes i then []
          else (if onAdd then []
                else (let ops = addVolumeOps containerName trimmedId source destination mode
                              propagation
                      in map (\<lambda>op1. (op1, change_label op1)) ops))))"

definition ContainerVolumesSection_remove ::
    "string \<Rightarrow> bool \<Rightarrow> string \<Rightarrow> (ConfigOp \<times> string) list" where
  "ContainerVolumesSection_remove containerName onRemove volId =
     (if onRemove then []
      else (let op1 = removeVolumeOp containerName volId
            in [(op1, ''delete '' @ js_join '' '' (co_path op1))]))"

text \<open>\<open>components/container/NetworkForm.tsx\<close>\<close>

definition NetworkForm_canSubmit ::
    "ContainerNetwork option \<Rightarrow> string list \<Rightarrow> text_input \<Rightarrow> bool" where
  "NetworkForm_canSubmit network existingNames name =
     (let trimmedName = js_trim name;
          nameTaken = network = None \<and> trimmedName \<in> set existingNames;
          tooLong = 11 < length trimmedName
      in (trimmedName \<noteq> '''' \<and> \<not> nameTaken) \<and> \<not> tooLong)"

definition NetworkForm_submit ::
    "ContainerNetwork option \<Rightarrow> string list \<Rightarrow> text_input \<Rightarrow> ContainerNetworkFormValues \<Rightarrow> text_input \<Rightarrow> (ConfigOp \<times> string) list" where
  "NetworkForm_submit network existingNames name values initialPrefix =
     (let trimmedName = js_trim name
      in (if \<not> NetworkForm_canSubmit network existingNames name then []
          else (let ops = containerNetworkFormToOps trimmedName network values
                in map (\<lambda>op1. (op1, change_label op1)) ops
                   @ (if network = None \<and> js_trim initialPrefix \<noteq> ''''
                      then [(set_op (containerNetworkPath trimmedName [] @ [''prefix''])
                               (js_trim initialPrefix), ''set container network ''
                             @ trimmedName @ '' prefix ''
                             @ quoted (js_trim initialPrefix))]
                      else []))))"

definition NetworkForm_values :: "ContainerNetwork option \<Rightarrow> ContainerNetworkFormValues" where
  "NetworkForm_values network =
     (case network of
        Some network' \<Rightarrow> containerNetworkToFormValues network'
      | None \<Rightarrow> blankContainerNetworkFormValues)"

text \<open>\<open>components/container/NetworkList.tsx\<close>\<close>

definition NetworkList_queueDelete :: "string \<Rightarrow> (ConfigOp \<times> string) list" where
  "NetworkList_queueDelete name =
     (let op1 = deleteContainerNetworkOp name in [(op1, ''delete '' @ js_join '' '' (co_path op1))])"

text \<open>\<open>components/container/RegistryForm.tsx\<close>\<close>

definition RegistryForm_canSubmit ::
    "ContainerRegistry option \<Rightarrow> string list \<Rightarrow> text_input \<Rightarrow> bool" where
  "RegistryForm_canSubmit registry existingNames name =
     (let trimmedName = js_trim name;
          nameTaken = registry = None \<and> trimmedName \<in> set existingNames
      in trimmedName \<noteq> '''' \<and> \<not> nameTaken)"

definition RegistryForm_submit ::
    "ContainerRegistry option \<Rightarrow> string list \<Rightarrow> text_input \<Rightarrow> ContainerRegistryFormValues \<Rightarrow> (ConfigOp \<times> string) list" where
  "RegistryForm_submit registry existingNames name values =
     (let trimmedName = js_trim name
      in (if \<not> RegistryForm_canSubmit registry existingNames name then []
          else (let ops = containerRegistryFormToOps trimmedName registry values
                in map (\<lambda>op1. (op1, change_label op1)) ops)))"

definition RegistryForm_values :: "ContainerRegistry option \<Rightarrow> ContainerRegistryFormValues" where
  "RegistryForm_values registry =
     (case registry of
        Some registry' \<Rightarrow> containerRegistryToFormValues registry'
      | None \<Rightarrow> blankContainerRegistryFormValues)"

text \<open>\<open>components/container/RegistryList.tsx\<close>\<close>

definition RegistryList_queueDelete :: "string \<Rightarrow> (ConfigOp \<times> string) list" where
  "RegistryList_queueDelete name =
     (let op1 = deleteContainerRegistryOp name in [(op1, ''delete '' @ js_join '' '' (co_path op1))])"

text \<open>\<open>pages/system/ImagesPage.tsx\<close>\<close>

definition ImagesPage_queueSetDefaultBoot :: "string \<Rightarrow> (ConfigOp \<times> string) list" where
  "ImagesPage_queueSetDefaultBoot name =
     [(set_op [''system'', ''image'', ''default-boot''] name, ''set system image default-boot ''
       @ quoted name)]"

subsection \<open>What the editors queue\<close>

inductive system_editor :: "string \<Rightarrow> (ConfigOp \<times> string) list \<Rightarrow> bool" where
  "system_editor ''system'' (StaticHostMappingList_queueDelete hostName)"
| "system_editor ''system'' (SyslogSection_LocalSection_submit facilities facility level)"
| "system_editor ''system'' (SyslogSection_LocalSection_queueRemove f)"
| "system_editor ''system'' (SyslogSection_RemoteSection_queueDelete address)"
| "system_editor ''system'' (SyslogSection_RemoteFacilitiesList_submit host facility level)"
| "system_editor ''system'' (SyslogSection_RemoteFacilitiesList_queueRemove host f)"
| "protocol \<noteq> '''' \<Longrightarrow> system_editor ''system'' (SyslogSection_RemoteFacilitiesList_queueProtocol host protocol)"
| "system_editor ''system'' (SyslogSection_RemoteFacilitiesList_queuePort host port)"
| "system_editor ''system'' (SyslogSection_CreateRemoteHostForm_submit existingAddresses address facility level protocol port)"
| "system_editor ''system'' (SystemGeneralSettings_submit settings values)"
| "system_editor ''system'' (UserForm_submit user existingUsernames username values firstKeyIdentifier firstKeyData firstKeyType)"
| "system_editor ''system'' (UserList_queueDelete username)"
| "system_editor ''system'' (UserList_PublicKeysSection_submit user ident key ty options)"
| "system_editor ''system'' (UserList_PublicKeysSection_queueRemove user keyIdentifier)"
| "system_editor ''pki'' (CAForm_submit ca existingNames name values firstCrl)"
| "system_editor ''pki'' (CAList_queueDelete name)"
| "system_editor ''pki'' (CertificateForm_submit certificate existingNames name values)"
| "system_editor ''pki'' (CertificateList_queueDelete name)"
| "system_editor ''pki'' (KeyMaterialSection_KeyPairsSubsection_queueDelete name)"
| "system_editor ''pki'' (KeyMaterialSection_KeyPairForm_submit existingNames name values)"
| "system_editor ''pki'' (KeyMaterialSection_DHSubsection_queueDelete name)"
| "system_editor ''pki'' (KeyMaterialSection_DHForm_submit existingNames name values)"
| "system_editor ''pki'' (X509DefaultsForm_submit defaults values)"
| "system_editor ''container'' (ContainerDevicesSection_submit containerName devices onAdd i source destination)"
| "system_editor ''container'' (ContainerDevicesSection_remove containerName onRemove devId)"
| "system_editor ''container'' (ContainerHealthCheckSection_save containerName healthCheck onSave values)"
| "system_editor ''container'' (ContainerList_queueDelete name)"
| "system_editor ''container'' (ContainerNetworkAttachmentsSection_submit containerName onAdd networkName mac)"
| "system_editor ''container'' (ContainerNetworkAttachmentsSection_remove containerName onRemove netName)"
| "system_editor ''container'' (ContainerPortsSection_submit containerName ports onAdd i source destination protocol)"
| "system_editor ''container'' (ContainerPortsSection_remove containerName onRemove portId)"
| "system_editor ''container'' (ContainerTmpfsSection_submit containerName tmpfs onAdd i destination siz)"
| "system_editor ''container'' (ContainerTmpfsSection_remove containerName onRemove tmpfsId)"
| "system_editor ''container'' (ContainerVolumesSection_submit containerName volumes onAdd i source destination mode propagation)"
| "system_editor ''container'' (ContainerVolumesSection_remove containerName onRemove volId)"
| "system_editor ''container'' (NetworkForm_submit network existingNames name values initialPrefix)"
| "system_editor ''container'' (NetworkList_queueDelete name)"
| "system_editor ''container'' (RegistryForm_submit registry existingNames name values)"
| "system_editor ''container'' (RegistryList_queueDelete name)"
| "name \<noteq> '''' \<Longrightarrow> system_editor ''system'' (ImagesPage_queueSetDefaultBoot name)"

lemmas system_editor_defs =
  StaticHostMappingList_queueDelete_def deleteStaticHostMappingOp_def staticHostMappingPath_def
  systemPath_def SyslogSection_LocalSection_submit_def addLocalFacilityOps_def syslogLocalPath_def
  facility_ops_def SyslogSection_LocalSection_queueRemove_def removeLocalFacilityOp_def
  SyslogSection_RemoteSection_queueDelete_def deleteRemoteHostOp_def syslogRemotePath_def
  SyslogSection_RemoteFacilitiesList_submit_def addRemoteFacilityOps_def
  SyslogSection_RemoteFacilitiesList_queueRemove_def removeRemoteFacilityOp_def
  SyslogSection_RemoteFacilitiesList_queueProtocol_def setRemoteProtocolOp_def
  SyslogSection_RemoteFacilitiesList_queuePort_def setRemotePortOp_def
  SyslogSection_CreateRemoteHostForm_submit_def SyslogSection_CreateRemoteHostForm_valid_def
  addRemoteHostOps_def SystemGeneralSettings_submit_def generalFormToOps_def UserForm_submit_def
  addPublicKeyOps_def publicKeyPath_def userPath_def userFormToOps_def UserForm_canSubmit_def
  UserList_queueDelete_def deleteUserOp_def UserList_PublicKeysSection_submit_def
  UserList_PublicKeysSection_valid_def UserList_PublicKeysSection_queueRemove_def
  removePublicKeyOp_def CAForm_submit_def caFormToOps_def pkiCAPath_def CAForm_canSubmit_def
  CAList_queueDelete_def deleteCAOp_def CertificateForm_submit_def certificateFormToOps_def
  pkiCertificatePath_def CertificateForm_canSubmit_def CertificateList_queueDelete_def
  deleteCertificateOp_def KeyMaterialSection_KeyPairsSubsection_queueDelete_def
  deleteKeyPairOp_def pkiKeyPairPath_def KeyMaterialSection_KeyPairForm_submit_def
  keyPairFormToOps_def KeyMaterialSection_KeyPairForm_valid_def
  KeyMaterialSection_DHSubsection_queueDelete_def deleteDHOp_def pkiDHPath_def
  KeyMaterialSection_DHForm_submit_def dhFormToOps_def KeyMaterialSection_DHForm_valid_def
  X509DefaultsForm_submit_def x509DefaultsFormToOps_def pkiX509DefaultsPath_def
  ContainerDevicesSection_submit_def ContainerDevicesSection_valid_def addDeviceOps_def
  containerDevicePath_def containerNamePath_def containerPath_def
  ContainerDevicesSection_remove_def removeDeviceOp_def ContainerHealthCheckSection_save_def
  healthCheckFormToOps_def containerHealthCheckPath_def ContainerList_queueDelete_def
  deleteContainerOp_def ContainerNetworkAttachmentsSection_submit_def
  ContainerNetworkAttachmentsSection_valid_def addNetworkAttachmentOps_def
  containerNetworkAttachmentPath_def ContainerNetworkAttachmentsSection_remove_def
  removeNetworkAttachmentOp_def ContainerPortsSection_submit_def addPortOps_def
  containerPortPath_def ContainerPortsSection_valid_def ContainerPortsSection_remove_def
  removePortOp_def ContainerTmpfsSection_submit_def addTmpfsOps_def containerTmpfsPath_def
  ContainerTmpfsSection_valid_def ContainerTmpfsSection_remove_def removeTmpfsOp_def
  ContainerVolumesSection_submit_def ContainerVolumesSection_valid_def addVolumeOps_def
  containerVolumePath_def ContainerVolumesSection_remove_def removeVolumeOp_def
  NetworkForm_submit_def containerNetworkFormToOps_def containerNetworkPath_def
  NetworkForm_canSubmit_def NetworkList_queueDelete_def deleteContainerNetworkOp_def
  RegistryForm_submit_def RegistryForm_canSubmit_def containerRegistryFormToOps_def
  containerRegistryPath_def RegistryList_queueDelete_def deleteContainerRegistryOp_def
  ImagesPage_queueSetDefaultBoot_def

lemma system_editor_ok: "system_editor sec adds \<Longrightarrow> ops_ok [sec] (map fst adds)"
  by (induction rule: system_editor.induct)
    (auto simp: system_editor_defs Let_def ok_rules o_def case_prod_beta split: option.splits if_splits)

inductive system_untouched :: "(ConfigOp \<times> string) list \<Rightarrow> bool" where
  "system_untouched (SystemGeneralSettings_submit settings (SystemGeneralSettings_values settings))"
| "system_untouched (UserForm_submit (Some user) existingUsernames username (UserForm_values (Some user)) firstKeyIdentifier firstKeyData firstKeyType)"
| "system_untouched (CAForm_submit (Some ca) existingNames name (CAForm_values (Some ca)) firstCrl)"
| "system_untouched (CertificateForm_submit (Some certificate) existingNames name (CertificateForm_values (Some certificate)))"
| "system_untouched (X509DefaultsForm_submit defaults (X509DefaultsForm_values defaults))"
| "system_untouched (ContainerHealthCheckSection_save containerName healthCheck onSave (ContainerHealthCheckSection_values healthCheck))"
| "system_untouched (NetworkForm_submit (Some network) existingNames name (NetworkForm_values (Some network)) initialPrefix)"
| "system_untouched (RegistryForm_submit (Some registry) existingNames name (RegistryForm_values (Some registry)))"

lemmas system_untouched_defs =
  SystemGeneralSettings_submit_def generalFormToOps_def systemPath_def
  SystemGeneralSettings_values_def UserForm_submit_def addPublicKeyOps_def publicKeyPath_def
  userPath_def userFormToOps_def UserForm_canSubmit_def UserForm_values_def userToFormValues_def
  CAForm_submit_def caFormToOps_def pkiCAPath_def CAForm_canSubmit_def CAForm_values_def
  caToFormValues_def CertificateForm_submit_def certificateFormToOps_def pkiCertificatePath_def
  CertificateForm_canSubmit_def CertificateForm_values_def certificateToFormValues_def
  X509DefaultsForm_submit_def x509DefaultsFormToOps_def pkiX509DefaultsPath_def
  X509DefaultsForm_values_def ContainerHealthCheckSection_save_def healthCheckFormToOps_def
  containerHealthCheckPath_def containerNamePath_def containerPath_def
  ContainerHealthCheckSection_values_def NetworkForm_submit_def containerNetworkFormToOps_def
  containerNetworkPath_def NetworkForm_canSubmit_def NetworkForm_values_def
  RegistryForm_submit_def RegistryForm_canSubmit_def containerRegistryFormToOps_def
  containerRegistryPath_def RegistryForm_values_def containerRegistryToFormValues_def

lemma system_untouched_nothing: "system_untouched adds \<Longrightarrow> adds = []"
  by (induction rule: system_untouched.induct)
    (auto simp: system_untouched_defs Let_def same_rules case_prod_beta split: option.splits if_splits)

inductive system_creates :: "string \<Rightarrow> string list \<Rightarrow> (ConfigOp \<times> string) list \<Rightarrow> bool" where
  "system_creates (js_trim hostName) existingHostNames (StaticHostMappingList_CreateMappingForm_submit existingHostNames hostName addresses aliases)"
| "system_creates (js_trim address) existingAddresses (SyslogSection_CreateRemoteHostForm_submit existingAddresses address facility level protocol port)"
| "system_creates (js_trim username) existingUsernames (UserForm_submit None existingUsernames username values firstKeyIdentifier firstKeyData firstKeyType)"
| "system_creates (js_trim name) existingNames (CAForm_submit None existingNames name values firstCrl)"
| "system_creates (js_trim name) existingNames (CertificateForm_submit None existingNames name values)"
| "system_creates (js_trim name) existingNames (KeyMaterialSection_KeyPairForm_submit existingNames name values)"
| "system_creates (js_trim name) existingNames (KeyMaterialSection_DHForm_submit existingNames name values)"
| "system_creates (js_trim name) existingNames (ContainerForm_submit None existingNames name values nestedOps)"
| "system_creates (js_trim name) existingNames (NetworkForm_submit None existingNames name values initialPrefix)"
| "system_creates (js_trim name) existingNames (RegistryForm_submit None existingNames name values)"

lemmas system_creates_defs =
  StaticHostMappingList_CreateMappingForm_submit_def
  StaticHostMappingList_CreateMappingForm_valid_def SyslogSection_CreateRemoteHostForm_submit_def
  SyslogSection_CreateRemoteHostForm_valid_def UserForm_submit_def UserForm_canSubmit_def
  CAForm_submit_def CAForm_canSubmit_def CertificateForm_submit_def CertificateForm_canSubmit_def
  KeyMaterialSection_KeyPairForm_submit_def KeyMaterialSection_KeyPairForm_valid_def
  KeyMaterialSection_DHForm_submit_def KeyMaterialSection_DHForm_valid_def
  ContainerForm_submit_def ContainerForm_canSubmit_def NetworkForm_submit_def
  NetworkForm_canSubmit_def RegistryForm_submit_def RegistryForm_canSubmit_def

lemma system_creates_new: "system_creates n existing adds \<Longrightarrow> adds = [] \<or> n \<noteq> '''' \<and> n \<notin> set existing"
  by (induction rule: system_creates.induct) (auto simp: system_creates_defs Let_def rule_number_re_def no_blank)

end
