(* ===== verification/Editors.thy ===== *)
theory Editors
  imports UiRouting UiServices UiVpn UiQos UiNetwork UiSystem
begin

text \<open>
  The editors of every page together: what a click may put in the cart, and what that means for the router
  when the cart is committed. \<open>section_editor sec adds\<close> says that \<open>adds\<close> are the changes (with their
  labels) that one click of an editor of the top-level section \<open>sec\<close> queues; \<open>editor_cart\<close> builds a cart
  from such clicks and from removals, in any order.
\<close>

inductive section_editor :: "string \<Rightarrow> (ConfigOp \<times> string) list \<Rightarrow> bool" where
  "routing_editor sec adds \<Longrightarrow> section_editor sec adds"
| "services_editor sec adds \<Longrightarrow> section_editor sec adds"
| "vpn_editor sec adds \<Longrightarrow> section_editor sec adds"
| "traffic_editor sec adds \<Longrightarrow> section_editor sec adds"
| "network_editor sec adds \<Longrightarrow> section_editor sec adds"
| "system_editor sec adds \<Longrightarrow> section_editor sec adds"

inductive form_untouched :: "(ConfigOp \<times> string) list \<Rightarrow> bool" where
  "routing_untouched adds \<Longrightarrow> form_untouched adds"
| "services_untouched adds \<Longrightarrow> form_untouched adds"
| "vpn_untouched adds \<Longrightarrow> form_untouched adds"
| "traffic_untouched adds \<Longrightarrow> form_untouched adds"
| "network_untouched adds \<Longrightarrow> form_untouched adds"
| "system_untouched adds \<Longrightarrow> form_untouched adds"

inductive form_creates :: "string \<Rightarrow> string list \<Rightarrow> (ConfigOp \<times> string) list \<Rightarrow> bool" where
  "routing_creates n existing adds \<Longrightarrow> form_creates n existing adds"
| "services_creates n existing adds \<Longrightarrow> form_creates n existing adds"
| "vpn_creates n existing adds \<Longrightarrow> form_creates n existing adds"
| "traffic_creates n existing adds \<Longrightarrow> form_creates n existing adds"
| "network_creates n existing adds \<Longrightarrow> form_creates n existing adds"
| "system_creates n existing adds \<Longrightarrow> form_creates n existing adds"

text \<open>The cart after clicks of editors of the sections \<open>S\<close>, removals of single changes and commits of some.\<close>

inductive editor_cart :: "string set \<Rightarrow> PendingChange list \<Rightarrow> bool" for S where
  empty: "editor_cart S []"
| click: "editor_cart S cart \<Longrightarrow> section_editor sec adds \<Longrightarrow> sec \<in> S \<Longrightarrow>
    editor_cart S (queue_labelled uuids adds cart)"
| remove: "editor_cart S cart \<Longrightarrow> editor_cart S (remove_change i cart)"
| committed: "editor_cart S cart \<Longrightarrow> editor_cart S (removeMany ids cart)"

subsection \<open>What a click queues\<close>

lemmas editors_ok =
  routing_editor_ok services_editor_ok vpn_editor_ok traffic_editor_ok network_editor_ok system_editor_ok

lemma section_editor_ops: "section_editor sec adds \<Longrightarrow> ops_ok [sec] (map fst adds)"
  by (induction rule: section_editor.induct) (fact editors_ok)+

lemma op_ok_path: "op_ok [sec] op \<Longrightarrow> \<exists>r. co_path op = sec # r"
  by (auto simp: op_ok_def prefix_def)

lemma queue_labelled_subset: "pc_op ` set (queue_labelled uuids adds cart) \<subseteq> fst ` set adds \<union> pc_op ` set cart"
proof (induction adds arbitrary: uuids cart)
  case (Cons a adds)
  obtain op l where a: "a = (op, l)" by (cases a)
  have add: "pc_op ` set (add_change u op l cart) \<subseteq> insert op (pc_op ` set cart)" for u
    by (auto simp: add_change_def remove_index_def dest: in_set_takeD in_set_dropD split: option.splits)
  show ?case
  proof (cases uuids)
    case (Cons u us)
    let ?c = "add_change u op l cart"
    have "queue_labelled uuids (a # adds) cart = queue_labelled us adds ?c" by (simp add: queue_labelled_def Cons a)
    moreover have "pc_op ` set (queue_labelled us adds ?c) \<subseteq> fst ` set adds \<union> pc_op ` set ?c" by (rule Cons.IH)
    ultimately show ?thesis using add [of u] by (auto simp: a)
  qed (auto simp: queue_labelled_def)
qed (simp add: queue_labelled_def)

text \<open>Every change of such a cart lies in one of its sections.\<close>

lemma editor_cart_ops: "editor_cart S cart \<Longrightarrow> c \<in> set cart \<Longrightarrow> \<exists>sec \<in> S. op_ok [sec] (pc_op c)"
proof (induction arbitrary: c rule: editor_cart.induct)
  case (click cart sec adds uuids)
  have "pc_op c \<in> fst ` set adds \<union> pc_op ` set cart"
    using click.prems queue_labelled_subset [of uuids adds cart] by blast
  then consider op where "op \<in> set (map fst adds)" "pc_op c = op" | d where "d \<in> set cart" "pc_op c = pc_op d"
    by auto
  then show ?case
  proof cases
    case 1
    then have "op_ok [sec] (pc_op c)"
      using section_editor_ops [OF click.hyps(2)] by (auto simp: ops_ok_def list_all_iff)
    then show ?thesis using click.hyps(3) by blast
  next
    case 2
    then show ?thesis using click.IH by metis
  qed
qed (auto simp: remove_change_def removeMany_def)

text \<open>C30. Whatever a click of an editor of a top-level section queues is a \<open>set\<close> or a \<open>delete\<close> at or below
  that section, and never a \<open>set\<close> of the empty value, which the device would take for a bare one.\<close>

theorem editors_well_typed:
  assumes "section_editor sec adds" and "(op, label) \<in> set adds"
  shows "(\<exists>r. co_path op = sec # r) \<and> co_op op \<in> {Set_op, Delete_op} \<and> (co_op op = Set_op \<longrightarrow> co_value op \<noteq> Some '''')"
proof -
  have "op_ok [sec] op"
    using section_editor_ops [OF assms(1)] assms(2) by (force simp: ops_ok_def list_all_iff)
  then show ?thesis using op_ok_path [of sec op] by (cases "co_op op") (auto simp: op_ok_def)
qed

text \<open>C29. A cart filled by any clicks of the editors of some sections, in any order and with any removals, is
  accepted by the router, changes no node outside those sections and does not touch the saved configuration.\<close>

theorem editors_stay_in_section:
  assumes "editor_cart S cart" and "k \<notin> S"
  shows "\<exists>s'. commit_cart cart confirm_time s = (Fake_success, s')
    \<and> device_get (fv_config s') (k # p) = device_get (fv_config s) (k # p) \<and> fv_saved s' = fv_saved s"
proof -
  let ?ops = "map pc_op cart"
  have sec: "\<exists>sec \<in> S. \<exists>r. co_path op = sec # r" if "op \<in> set ?ops" for op
    using editor_cart_ops [OF assms(1)] op_ok_path that by fastforce
  then have run: "run_commands (map to_payload ?ops) (fv_config s) = (Fake_success, device_apply ?ops (fv_config s))"
    by (intro run_commands_ops) fastforce
  have "indep (co_path op) (k # p)" if "op \<in> set ?ops" for op
    using sec [OF that] assms(2) by (auto simp: indep_def)
  then have "device_get (device_apply ?ops (fv_config s)) (k # p) = device_get (fv_config s) (k # p)"
    unfolding device_apply_def by (intro device.ops_frame) blast
  then show ?thesis using run by (simp add: commit_cart_def handleConfigure_def comp_def)
qed

lemmas untouched_nothing =
  routing_untouched_nothing services_untouched_nothing vpn_untouched_nothing traffic_untouched_nothing
  network_untouched_nothing system_untouched_nothing


lemmas creates_new =
  routing_creates_new services_creates_new vpn_creates_new traffic_creates_new network_creates_new system_creates_new


subsection \<open>Examples\<close>

definition new_bridge :: "(ConfigOp \<times> string) list" where
  "new_bridge = BridgePage_CreateBridgeForm_submit [''br0''] '' br1 '' ''eth1''"

definition new_network :: "(ConfigOp \<times> string) list" where
  "new_network = BGPNetworksAndRedistribution_NetworksSection_submit [] ''ipv4-unicast'' ''192.0.2.0/24''"

lemma new_bridge_value:
  "new_bridge = [(set_flag [''interfaces'', ''bridge'', ''br1'', ''member'', ''interface'', ''eth1''],
     ''set interfaces bridge br1 member interface eth1'')]"
  by code_simp

lemma new_bridge_editor: "section_editor ''interfaces'' new_bridge"
  unfolding new_bridge_def by (intro section_editor.intros(5) network_editor.intros)

lemma new_network_editor: "section_editor ''protocols'' new_network"
  unfolding new_network_def by (intro section_editor.intros(1) routing_editor.intros)

lemma editors_well_typed_witness:
  "(\<exists>r. co_path (set_flag [''interfaces'', ''bridge'', ''br1'', ''member'', ''interface'', ''eth1'']) = ''interfaces'' # r)
   \<and> co_op (set_flag [''interfaces'', ''bridge'', ''br1'', ''member'', ''interface'', ''eth1'']) \<in> {Set_op, Delete_op}"
  using editors_well_typed [OF new_bridge_editor, unfolded new_bridge_value, OF list.set_intros(1)] by blast

definition router_with_ssh :: fake_vyos where
  "router_with_ssh = \<lparr>fv_config = [(''service'', JObj [(''ssh'', JObj [(''port'', JStr ''22'')])])],
     fv_saved = [], fv_pending = False\<rparr>"

lemma editors_stay_in_section_witness:
  "\<exists>s'. commit_cart (queue_labelled [''2''] new_network (queue_labelled [''1''] new_bridge [])) 0 router_with_ssh
      = (Fake_success, s')
    \<and> device_get (fv_config s') [''service'', ''ssh'', ''port''] = Some (JStr ''22'') \<and> fv_saved s' = []"
proof -
  let ?S = "{''interfaces'', ''protocols''}"
  have "editor_cart ?S (queue_labelled [''2''] new_network (queue_labelled [''1''] new_bridge []))"
    by (rule editor_cart.click [OF editor_cart.click [OF editor_cart.empty new_bridge_editor] new_network_editor]) simp_all
  moreover have "''service'' \<notin> ?S" by simp
  moreover have "device_get (fv_config router_with_ssh) [''service'', ''ssh'', ''port''] = Some (JStr ''22'')"
    "fv_saved router_with_ssh = []"
    by code_simp+
  ultimately show ?thesis using editors_stay_in_section [of ?S _ "''service''" 0 router_with_ssh] by metis
qed

definition masquerade_rule :: NATRule where
  "masquerade_rule = parseRule_nat ''source'' ''100''
     (Some (JObj [(''outbound-interface'', JObj [(''name'', JStr ''eth0'')]),
                  (''translation'', JObj [(''address'', JStr ''masquerade'')])]))"



end
