(* ===== verification/Widgets.thy ===== *)
theory Widgets
  imports Handlers ConfigEditor
begin

text \<open>
  The controls a component shows, as values: what its markup renders for given props and state, in the order
  of the page. A control knows its label, whether it is enabled, what it shows, and what using it does: an
  input, a choice or a check box of a form gives the component's new state ('s), a button or a switch gives
  the changes it puts in the cart, and a chip list (\<open>components/ChipList.tsx\<close>) edits the leaf at its path.
  Class names, placeholders, tooltips and static text are left out; an icon button has the empty label.
\<close>

datatype 's widget =
    Input string bool string "string \<Rightarrow> 's"
  | Select string bool "string list" string "string \<Rightarrow> 's"
  | Check string bool bool "bool \<Rightarrow> 's"
  | Radio string bool bool 's
  | Toggle string bool bool "bool \<Rightarrow> (ConfigOp \<times> string) list"
  | Choice string bool "string list" string "string \<Rightarrow> (ConfigOp \<times> string) list"
  | Chips string "string list" path
  | Button string bool "(ConfigOp \<times> string) list"

text \<open>The controls under a heading of the same form: the heading tells them apart.\<close>

definition under_heading :: "string \<Rightarrow> string \<Rightarrow> string" where
  "under_heading title l = title @ '' / '' @ l"

fun relabel :: "(string \<Rightarrow> string) \<Rightarrow> 's widget \<Rightarrow> 's widget" where
  "relabel f (Input l on x typ) = Input (f l) on x typ"
| "relabel f (Select l on opts x typ) = Select (f l) on opts x typ"
| "relabel f (Check l on c typ) = Check (f l) on c typ"
| "relabel f (Radio l on c s) = Radio (f l) on c s"
| "relabel f (Toggle l on c q) = Toggle (f l) on c q"
| "relabel f (Choice l on opts x q) = Choice (f l) on opts x q"
| "relabel f (Chips l xs p) = Chips (f l) xs p"
| "relabel f (Button l on adds) = Button (f l) on adds"

definition in_group :: "string \<Rightarrow> 's widget list \<Rightarrow> 's widget list" where
  "in_group title ws = map (relabel (under_heading title)) ws"

subsection \<open>Using a form\<close>

text \<open>What the labelled inputs of a form show, in order.\<close>

datatype shown = Text string | Checked bool

fun shown_of :: "'s widget \<Rightarrow> (string \<times> shown) option" where
  "shown_of (Input l on x typ) = Some (l, Text x)"
| "shown_of (Select l on opts x typ) = Some (l, Text x)"
| "shown_of (Check l on c typ) = Some (l, Checked c)"
| "shown_of (Radio l on c s) = Some (l, Checked c)"
| "shown_of _ = None"

definition screen :: "'s widget list \<Rightarrow> (string \<times> shown) list" where
  "screen ws = List.map_filter shown_of ws"

text \<open>Only the options of a choice can be picked.\<close>

definition among :: "string \<Rightarrow> string list \<Rightarrow> bool" where
  "among t opts \<longleftrightarrow> t \<in> set opts"

text \<open>One use of a control: its label, what is typed, picked or ticked, and the new state.\<close>

inductive uses :: "'s widget \<Rightarrow> string \<Rightarrow> shown \<Rightarrow> 's \<Rightarrow> bool" where
  "uses (Input l True x typ) l (Text t) (typ t)"
| "among t opts \<Longrightarrow> uses (Select l True opts x typ) l (Text t) (typ t)"
| "uses (Check l True c typ) l (Checked (\<not> c)) (typ (\<not> c))"
| "uses (Radio l True False s) l (Checked True) s"

inductive_cases uses_cases: "uses w l y s"

text \<open>The changes a control puts in the cart when it is used.\<close>

inductive clicks :: "'s widget \<Rightarrow> (ConfigOp \<times> string) list \<Rightarrow> bool" where
  "clicks (Button l True adds) adds"
| "clicks (Toggle l True c q) (q (\<not> c))"
| "among t opts \<Longrightarrow> clicks (Choice l True opts x q) (q t)"

inductive_simps clicks_simps [simp]:
  "clicks (Input l on x typ) adds" "clicks (Select l on opts x typ) adds" "clicks (Check l on c tick) adds" "clicks (Radio l on c s) adds"
  "clicks (Toggle l on c q) adds" "clicks (Choice l on opts x pick) adds" "clicks (Chips l xs p) adds"
  "clicks (Button l on adds') adds"

inductive_simps uses_simps [simp]:
  "uses (Input l on x typ) m y s" "uses (Select l on opts x typ) m y s" "uses (Check l on c tick) m y s"
  "uses (Radio l on c s') m y s"
  "uses (Toggle l on c q) m y s" "uses (Choice l on opts x pick) m y s" "uses (Chips l xs p) m y s"
  "uses (Button l on adds) m y s"

lemma screen_simps [simp]:
  "screen [] = []"
  "screen (Input l on x typ # ws) = (l, Text x) # screen ws"
  "screen (Select l on opts x typ # ws) = (l, Text x) # screen ws"
  "screen (Check l on c tick # ws) = (l, Checked c) # screen ws"
  "screen (Radio l on c s # ws) = (l, Checked c) # screen ws"
  "screen (Toggle l on c q # ws) = screen ws"
  "screen (Choice l on opts x' q' # ws) = screen ws"
  "screen (Chips l xs p # ws) = screen ws"
  "screen (Button l on adds # ws) = screen ws"
  "screen (ws @ ws') = screen ws @ screen ws'"
  "screen (map (map_widget f) us) = screen us"
proof -
  show "screen (map (map_widget f) us) = screen us"
  proof (induction us)
    case (Cons u us)
    then show ?case by (cases u) (simp_all add: screen_def List.map_filter_simps)
  qed (simp add: screen_def)
qed (simp_all add: screen_def List.map_filter_simps List.map_filter_def)

lemma screen_in_group [simp]: "screen (in_group title us) = map (\<lambda>(l, y). (under_heading title l, y)) (screen us)"
proof (induction us)
  case (Cons u us)
  then show ?case by (cases u) (simp_all add: in_group_def)
qed (simp add: in_group_def)

lemma clicks_map_widget [simp]: "clicks (map_widget f u) adds \<longleftrightarrow> clicks u adds"
  by (cases u) simp_all

lemma clicks_relabel [simp]: "clicks (relabel g u) adds \<longleftrightarrow> clicks u adds"
  by (cases u) simp_all

lemma uses_map_widget [simp]: "uses (map_widget f u) l y s \<longleftrightarrow> (\<exists>s'. uses u l y s' \<and> s = f s')"
  by (cases u) auto

lemma uses_relabel [simp]: "uses (relabel g u) l y s \<longleftrightarrow> (\<exists>l'. l = g l' \<and> uses u l' y s)"
  by (cases u) auto

lemma set_in_group: "w \<in> set (in_group title us) \<longleftrightarrow> (\<exists>u \<in> set us. w = relabel (under_heading title) u)"
  by (auto simp: in_group_def)

text \<open>What an input shows once it has been used: what was typed, or its digits where it takes a number.\<close>

definition echoes :: "shown \<Rightarrow> shown \<Rightarrow> bool" where
  "echoes y y' \<longleftrightarrow> y' = y \<or> (\<exists>t. y = Text t \<and> y' = Text (number_input t))"

lemma echoes_simps [simp]:
  "echoes y y" "echoes (Text t) (Text (number_input t))" "\<not> echoes (Checked b) (Text t)"
  "echoes (Checked b) (Checked c) \<longleftrightarrow> b = c"
  by (auto simp: echoes_def)

lemma list_all_simps2:
  "list_all P (xs @ ys) \<longleftrightarrow> list_all P xs \<and> list_all P ys"
  "list_all P (if c then xs else ys) \<longleftrightarrow> (if c then list_all P xs else list_all P ys)"
  "list_all P (concat (map g zs)) \<longleftrightarrow> (\<forall>z \<in> set zs. list_all P (g z))"
  "list_all P (map h zs) \<longleftrightarrow> (\<forall>z \<in> set zs. P (h z))"
  by (auto simp: list_all_iff)

definition answers :: "string \<Rightarrow> shown \<Rightarrow> (string \<times> shown) list \<Rightarrow> bool" where
  "answers l y scr \<longleftrightarrow> (\<exists>y'. (l, y') \<in> set scr \<and> echoes y y')"

lemma answers_simps [simp]:
  "\<not> answers l y []"
  "answers l y ((l', y') # scr) \<longleftrightarrow> l = l' \<and> echoes y y' \<or> answers l y scr"
  "answers l y (scr @ scr') \<longleftrightarrow> answers l y scr \<or> answers l y scr'"
  "answers l y (if c then scr else scr') \<longleftrightarrow> (if c then answers l y scr else answers l y scr')"
  "answers (under_heading title l) y (map (\<lambda>(l, y). (under_heading title l, y)) scr) \<longleftrightarrow> answers l y scr"
  by (auto simp: answers_def under_heading_def)

lemma screen_if [simp]: "screen (if c then us else ws) = (if c then screen us else screen ws)"
  by simp

text \<open>Using a control of a view gives a state in which the view shows what was entered, under the same label.\<close>

fun echoing :: "('s \<Rightarrow> 's widget list) \<Rightarrow> 's widget \<Rightarrow> bool" where
  "echoing view (Input l on x typ) \<longleftrightarrow> (on \<longrightarrow> (\<forall>t. answers l (Text t) (screen (view (typ t)))))"
| "echoing view (Select l on opts x typ) \<longleftrightarrow>
     (on \<longrightarrow> (\<forall>t. among t opts \<longrightarrow> answers l (Text t) (screen (view (typ t)))))"
| "echoing view (Check l on c typ) \<longleftrightarrow> (on \<longrightarrow> answers l (Checked (\<not> c)) (screen (view (typ (\<not> c)))))"
| "echoing view (Radio l on c s) \<longleftrightarrow> (on \<and> \<not> c \<longrightarrow> answers l (Checked True) (screen (view s)))"
| "echoing view _ \<longleftrightarrow> True"

definition controlled :: "('s \<Rightarrow> 's widget list) \<Rightarrow> bool" where
  "controlled view \<longleftrightarrow> (\<forall>s. list_all (echoing view) (view s))"

text \<open>An entry \<open>y\<close> in the control labelled \<open>l\<close> of a view, and what the view then shows.\<close>

inductive typing :: "('s \<Rightarrow> 's widget list) \<Rightarrow> string \<Rightarrow> shown \<Rightarrow> (string \<times> shown) list \<Rightarrow> bool" for view where
  "w \<in> set (view s) \<Longrightarrow> uses w l y s' \<Longrightarrow> typing view l y (screen (view s'))"

lemma controlled_typing: "typing view l y scr \<Longrightarrow> controlled view \<Longrightarrow> answers l y scr"
proof (induction rule: typing.induct)
  case (1 w s l y s')
  then have "echoing view w" by (auto simp: controlled_def list_all_iff)
  with 1(2) show ?case by (cases w) auto
qed

lemma answers_screen: "answers l y (screen ws) \<longleftrightarrow> (\<exists>w \<in> set ws. \<exists>y'. shown_of w = Some (l, y') \<and> echoes y y')"
  by (induction ws) (auto simp: screen_def List.map_filter_simps answers_def split: option.splits)

lemma answers_map [simp]:
  "answers l y (screen (map h zs)) \<longleftrightarrow> (\<exists>z \<in> set zs. \<exists>y'. shown_of (h z) = Some (l, y') \<and> echoes y y')"
  "answers l y (screen (concat (map g zs))) \<longleftrightarrow> (\<exists>z \<in> set zs. answers l y (screen (g z)))"
  by (auto simp: answers_screen)

text \<open>Using a control of a view puts changes with the property \<open>P\<close> in the cart.\<close>

fun acting :: "((ConfigOp \<times> string) list \<Rightarrow> bool) \<Rightarrow> 's widget \<Rightarrow> bool" where
  "acting P (Button l on adds) \<longleftrightarrow> (on \<longrightarrow> P adds)"
| "acting P (Toggle l on c q) \<longleftrightarrow> (on \<longrightarrow> P (q (\<not> c)))"
| "acting P (Choice l on opts x q) \<longleftrightarrow> (on \<longrightarrow> (\<forall>t. among t opts \<longrightarrow> P (q t)))"
| "acting P _ \<longleftrightarrow> True"

definition clicked :: "'s widget list \<Rightarrow> (ConfigOp \<times> string) list \<Rightarrow> bool" where
  "clicked ws adds \<longleftrightarrow> (\<exists>w \<in> set ws. clicks w adds)"

lemma acting_clicked: "clicked ws adds \<Longrightarrow> list_all (acting P) ws \<Longrightarrow> P adds"
proof -
  assume "clicked ws adds" and act: "list_all (acting P) ws"
  then obtain w where w: "w \<in> set ws" "clicks w adds" by (auto simp: clicked_def)
  have "acting P w" using w(1) act by (simp add: list_all_iff)
  with w(2) show "P adds" by (cases w) auto
qed

lemmas view_simps = list_all_simps2 in_group_def under_heading_def Let_def

end
