(* ===== verification/ViewRouting.thy ===== *)
theory ViewRouting
  imports Widgets UiRouting
begin

text \<open>
  The controls of the BGP, OSPF, policy and static route pages, component by component: for given
  props and state, the inputs, choices, switches and buttons its markup shows. A child component with a
  state of its own has its own definition; one without is shown by its parent.
\<close>

text \<open>\<open>components/bgp/BGPGlobalSettings.tsx\<close>\<close>

definition BGPGlobalSettings_controls ::
    "BGPConfig \<Rightarrow> BGPGlobalFormValues \<Rightarrow> bool \<Rightarrow> (BGPGlobalFormValues \<times> bool) widget list" where
  "BGPGlobalSettings_controls bgp values dirty =
     [Input ''System AS *'' True (bgv_systemAs values) (\<lambda>t. (values\<lparr>bgv_systemAs := number_input t\<rparr>, True)),
      Input ''Router ID'' True (bgv_routerId values) (\<lambda>t. (values\<lparr>bgv_routerId := t\<rparr>, True)),
      Button ''Save global settings''
        (\<not> (\<not> dirty \<or> js_trim (bgv_systemAs values) = ''''))
        (BGPGlobalSettings_submit bgp values)]"

text \<open>\<open>components/bgp/BGPNetworksAndRedistribution.tsx\<close>\<close>

definition BGP_REDISTRIBUTE_SOURCES_IPV4 :: "string list" where
  "BGP_REDISTRIBUTE_SOURCES_IPV4 =
     [''babel'', ''connected'', ''isis'', ''kernel'', ''nhrp'', ''ospf'', ''rip'', ''static'']"

definition BGP_REDISTRIBUTE_SOURCES_IPV6 :: "string list" where
  "BGP_REDISTRIBUTE_SOURCES_IPV6 =
     [''babel'', ''connected'', ''isis'', ''kernel'', ''nhrp'', ''ospfv3'', ''ripng'', ''static'']"

definition BGPNetworksAndRedistribution_NetworksSection_controls ::
    "BGPNetworkAdvertisement list \<Rightarrow> text_input \<Rightarrow> text_input \<Rightarrow> (text_input \<times> text_input) widget list" where
  "BGPNetworksAndRedistribution_NetworksSection_controls networks family pfx =
     [Select ''Network family'' True [''ipv4'', ''ipv6''] family (\<lambda>t. (t, pfx)),
      Input (if family = ''ipv6'' then ''2001:db8::/32'' else ''198.51.100.0/24'') True pfx
        (\<lambda>t. (family, t)),
      Button ''Add'' (BGPNetworksAndRedistribution_NetworksSection_valid networks family pfx)
        (BGPNetworksAndRedistribution_NetworksSection_submit networks family pfx)]
     @ concat
         (map
              (\<lambda>n. [Button ''Remove'' True (BGPNetworksAndRedistribution_NetworksSection_queueRemove n)])
              networks)"

text \<open>\<open>components/bgp/BGPPeerForm.tsx\<close>\<close>

definition BGPPeerForm_AddressFamilyFields_controls ::
    "BGPAddressFamilyFormValues \<Rightarrow> BGPAddressFamilyFormValues widget list" where
  "BGPPeerForm_AddressFamilyFields_controls values =
     [Check ''Next-hop self'' True (afv_nexthopSelf values) (\<lambda>b. values\<lparr>afv_nexthopSelf := b\<rparr>),
      Check ''Remove private AS'' True (afv_removePrivateAs values)
        (\<lambda>b. values\<lparr>afv_removePrivateAs := b\<rparr>),
      Check ''Soft-reconfiguration inbound'' True (afv_softReconfigurationInbound values)
        (\<lambda>b. values\<lparr>afv_softReconfigurationInbound := b\<rparr>),
      Input ''Maximum prefix'' True (afv_maximumPrefix values)
        (\<lambda>t. values\<lparr>afv_maximumPrefix := number_input t\<rparr>)]"

text \<open>\<open>components/bgp/BGPPeerList.tsx\<close>\<close>

definition BGPPeerList_controls :: "string \<Rightarrow> BGPPeer list \<Rightarrow> unit widget list" where
  "BGPPeerList_controls kind peers =
     concat
       (map
            (\<lambda>peer. [Button ''Delete'' True (BGPPeerList_queueDelete kind
                       (bp_identifier peer))]) peers)"

text \<open>\<open>components/ospf/OSPFAreaForm.tsx\<close>\<close>

definition OSPFAreaForm_controls ::
    "string \<Rightarrow> OSPFArea option \<Rightarrow> string list \<Rightarrow> text_input \<Rightarrow> OSPFAreaFormValues \<Rightarrow> text_input \<Rightarrow> text_input \<Rightarrow> (text_input \<times> OSPFAreaFormValues \<times> text_input \<times> text_input) widget list" where
  "OSPFAreaForm_controls protocol area existingIds i values firstNetwork firstRangePrefix =
     ([Input ''Area ID *'' (area = None) i (\<lambda>t. (t, values, firstNetwork, firstRangePrefix)),
       Select ''Area type'' True ['''', ''stub'', ''nssa''] (av_areaType values)
         (\<lambda>t. (i, values\<lparr>av_areaType := t\<rparr>, firstNetwork, firstRangePrefix))]
      @ (if av_areaType values = ''stub'' \<or> av_areaType values = ''nssa''
         then [Check ''No-summary (totally stubby)'' True (av_noSummary values)
                 (\<lambda>b. (i, values\<lparr>av_noSummary := b\<rparr>, firstNetwork,
                         firstRangePrefix)),
               Input ''Default cost'' True (av_defaultCost values)
                 (\<lambda>t. (i, values\<lparr>av_defaultCost := number_input t\<rparr>,
                         firstNetwork, firstRangePrefix))]
         else [])
      @ (if av_areaType values = ''nssa'' \<and> protocol = ''ospf''
         then [Select ''NSSA translate role'' True ['''', ''always'', ''candidate'', ''never'']
                 (av_nssaTranslate values) (\<lambda>t. (i,
                       values\<lparr>av_nssaTranslate := t\<rparr>, firstNetwork, firstRangePrefix))]
         else [])
      @ (if av_areaType values = ''nssa'' \<and> protocol = ''ospfv3''
         then [Check ''Originate Type-7 default into this NSSA'' True
                 (av_nssaDefaultInformationOriginate values)
                 (\<lambda>b. (i, values\<lparr>av_nssaDefaultInformationOriginate := b\<rparr>,
                         firstNetwork, firstRangePrefix))]
         else [])
      @ (if protocol = ''ospf''
         then [Select ''Authentication'' True ['''', ''plaintext-password'', ''md5'']
                 (av_authentication values)
                 (\<lambda>t. (i, values\<lparr>av_authentication := t\<rparr>, firstNetwork,
                         firstRangePrefix))]
         else []))
     @ (if area = None
        then (if protocol = ''ospf''
              then [Input ''First network (optional)'' True firstNetwork
                      (\<lambda>t. (i, values, t, firstRangePrefix))]
              else [])
             @ [Input ''First range (optional)'' True firstRangePrefix
                  (\<lambda>t. (i, values, firstNetwork, t))]
        else [])
     @ [Button
          (case area of
               Some area' \<Rightarrow> ''Save changes''
             | None \<Rightarrow> ''Queue area creation'')
          (OSPFAreaForm_canSubmit area existingIds i) (OSPFAreaForm_submit protocol area existingIds
             i values firstNetwork firstRangePrefix)]"

text \<open>\<open>components/ospf/OSPFAreaList.tsx\<close>\<close>

definition OSPFAreaList_controls :: "string \<Rightarrow> OSPFArea list \<Rightarrow> unit widget list" where
  "OSPFAreaList_controls protocol areas =
     concat
       (map
            (\<lambda>area. [Button ''Delete'' True (OSPFAreaList_queueDelete protocol (oa_id area))]
                 @ (if protocol = ''ospf''
                    then [Chips (''protocols '' @ protocol @ '' area '' @ oa_id area @ '' network'')
                            (oa_networks area) (ospfAreaPath protocol (oa_id area) []
                             @ [''network''])]
                    else [])) areas)"

definition OSPFAreaList_RangesSection_controls ::
    "string \<Rightarrow> OSPFArea \<Rightarrow> bool \<Rightarrow> text_input \<Rightarrow> bool \<Rightarrow> text_input \<Rightarrow> text_input \<Rightarrow> (text_input \<times> bool \<times> text_input \<times> text_input) widget list" where
  "OSPFAreaList_RangesSection_controls protocol area showAdd pfx notAdvertise cost substitute =
     (if showAdd
      then [Input (if protocol = ''ospfv3'' then ''2001:db8::/32'' else ''192.0.2.0/24'') True pfx
              (\<lambda>t. (t, notAdvertise, cost, substitute)),
            Check ''not-advertise'' True notAdvertise (\<lambda>b. (pfx, b, cost, substitute))]
           @ (if protocol = ''ospf''
              then [Input ''cost (optional)'' True cost (\<lambda>t. (pfx, notAdvertise,
                            number_input t, substitute)),
                    Input ''substitute prefix (optional)'' True substitute
                      (\<lambda>t. (pfx, notAdvertise, cost, t))]
              else [])
           @ [Button ''Add range'' (OSPFAreaList_RangesSection_valid area pfx)
                (OSPFAreaList_RangesSection_submit protocol area pfx notAdvertise cost substitute)]
      else [])
     @ concat (map
            (\<lambda>rangeNode. [Button ''Remove'' True (OSPFAreaList_RangesSection_queueRemove
                       protocol area (oar_prefix rangeNode))]) (oa_ranges area))"

text \<open>\<open>components/ospf/OSPFGlobalSettings.tsx\<close>\<close>

definition OSPFGlobalSettings_controls ::
    "string \<Rightarrow> OSPFGlobalSettings \<Rightarrow> OSPFGlobalFormValues \<Rightarrow> bool \<Rightarrow> (OSPFGlobalFormValues \<times> bool) widget list" where
  "OSPFGlobalSettings_controls protocol settings values dirty =
     ([Input ''Router ID'' True (ogv_routerId values) (\<lambda>t. (values\<lparr>ogv_routerId := t\<rparr>, True)),
       Input ''Auto-cost reference bandwidth (Mbit/s)'' True (ogv_autoCostReferenceBandwidth values)
         (\<lambda>t. (values\<lparr>ogv_autoCostReferenceBandwidth := number_input t\<rparr>, True))]
      @ (if protocol = ''ospf''
         then [Input ''Default metric (redistributed routes)'' True (ogv_defaultMetric values)
                 (\<lambda>t. (values\<lparr>ogv_defaultMetric := number_input t\<rparr>, True))]
         else [])
      @ [Input ''Distance (global)'' True (ogv_distanceGlobal values)
           (\<lambda>t. (values\<lparr>ogv_distanceGlobal := number_input t\<rparr>, True)),
         Input ''Distance (external)'' True (ogv_distanceExternal values)
           (\<lambda>t. (values\<lparr>ogv_distanceExternal := number_input t\<rparr>, True)),
         Input ''Distance (inter-area)'' True (ogv_distanceInterArea values)
           (\<lambda>t. (values\<lparr>ogv_distanceInterArea := number_input t\<rparr>, True)),
         Input ''Distance (intra-area)'' True (ogv_distanceIntraArea values)
           (\<lambda>t. (values\<lparr>ogv_distanceIntraArea := number_input t\<rparr>, True)),
         Check ''Always originate a default route'' True
           (ogv_defaultInformationOriginateAlways values) (\<lambda>b. (values\<lparr>ogv_defaultInformationOriginateAlways := b\<rparr>, True)),
         Input ''Default-route metric'' True (ogv_defaultInformationOriginateMetric values)
           (\<lambda>t. (values\<lparr>ogv_defaultInformationOriginateMetric := number_input t\<rparr>, True)),
         Select ''Default-route metric type'' True ['''', ''1'', ''2'']
           (ogv_defaultInformationOriginateMetricType values)
           (\<lambda>t. (values\<lparr>ogv_defaultInformationOriginateMetricType := t\<rparr>, True))])
     @ [Button ''Save global settings'' dirty (OSPFGlobalSettings_submit protocol settings values)]"

text \<open>\<open>components/ospf/OSPFInterfaceList.tsx\<close>\<close>

definition OSPFInterfaceList_controls :: "string \<Rightarrow> OSPFInterface list \<Rightarrow> unit widget list" where
  "OSPFInterfaceList_controls protocol interfaces =
     concat (map
          (\<lambda>iface. [Button ''Delete'' True (OSPFInterfaceList_queueDelete protocol
                     (oi_name iface))]) interfaces)"

text \<open>\<open>components/ospf/OSPFRedistribution.tsx\<close>\<close>

definition OSPF_REDISTRIBUTE_SOURCES :: "string list" where
  "OSPF_REDISTRIBUTE_SOURCES =
     [''babel'', ''bgp'', ''connected'', ''isis'', ''kernel'', ''nhrp'', ''rip'', ''static'']"

definition OSPFV3_REDISTRIBUTE_SOURCES :: "string list" where
  "OSPFV3_REDISTRIBUTE_SOURCES =
     [''babel'', ''bgp'', ''connected'', ''isis'', ''kernel'', ''ripng'', ''static'']"

definition OSPFRedistribution_controls ::
    "string \<Rightarrow> OSPFRedistribution list \<Rightarrow> text_input \<Rightarrow> text_input \<Rightarrow> text_input \<Rightarrow> (text_input \<times> text_input \<times> text_input) widget list" where
  "OSPFRedistribution_controls protocol redistributions source metric metricType =
     (let sources = (if protocol = ''ospf'' then OSPF_REDISTRIBUTE_SOURCES
             else OSPFV3_REDISTRIBUTE_SOURCES);
          taken = list_ex (\<lambda>r. ord_source r = source) redistributions
      in [Select ''Redistribution source'' True sources source (\<lambda>t. (t, metric, metricType)),
          Input ''metric (optional)'' True metric (\<lambda>t. (source, number_input t, metricType)),
          Select ''Redistribution metric type'' True ['''', ''1'', ''2''] metricType
            (\<lambda>t. (source, metric, t)),
          Button ''Add'' (\<not> taken) (OSPFRedistribution_submit protocol redistributions source
               metric metricType)]
         @ concat (map
                (\<lambda>r. [Button ''Remove'' True (OSPFRedistribution_queueRemove protocol r)])
                redistributions))"

text \<open>\<open>components/policy/LocalRouteSection.tsx\<close>\<close>

definition LocalRouteSection_controls :: "string \<Rightarrow> LocalRouteRule list \<Rightarrow> unit widget list" where
  "LocalRouteSection_controls family rules =
     concat (map
          (\<lambda>rule. [Button ''Delete'' True (LocalRouteSection_queueDelete family
                     (lr_number rule)),
                Chips
                  (''policy local-route''
                     @ (if family = ''ipv6'' then ''6'' else '''') @ '' rule ''
                     @ lr_number rule
                     @ '' source address'') (lr_sourceAddresses rule)
                  (localRouteRulePath family (lr_number rule) [''source''] @ [''address'']),
                Chips
                  (''policy local-route''
                     @ (if family = ''ipv6'' then ''6'' else '''') @ '' rule ''
                     @ lr_number rule
                     @ '' destination address'') (lr_destinationAddresses rule)
                  (localRouteRulePath family (lr_number rule) [''destination''] @ [''address''])])
          rules)"

definition LocalRouteSection_RuleForm_controls ::
    "string \<Rightarrow> LocalRouteRule option \<Rightarrow> string list \<Rightarrow> text_input \<Rightarrow> LocalRouteFormValues \<Rightarrow> (text_input \<times> LocalRouteFormValues) widget list" where
  "LocalRouteSection_RuleForm_controls family rule existingNumbers ruleNumber values =
     [Input ''Rule number'' (rule = None) ruleNumber (\<lambda>t. (number_input t, values)),
      Input ''Protocol'' True (lrv_protocol values) (\<lambda>t. (ruleNumber,
              values\<lparr>lrv_protocol := t\<rparr>)),
      Input ''Firewall mark'' True (lrv_fwmark values) (\<lambda>t. (ruleNumber,
              values\<lparr>lrv_fwmark := number_input t\<rparr>)),
      Input ''Source port'' True (lrv_sourcePort values) (\<lambda>t. (ruleNumber,
              values\<lparr>lrv_sourcePort := number_input t\<rparr>)),
      Input ''Destination port'' True (lrv_destinationPort values)
        (\<lambda>t. (ruleNumber, values\<lparr>lrv_destinationPort := number_input t\<rparr>)),
      Input ''Inbound interface'' True (lrv_inboundInterface values)
        (\<lambda>t. (ruleNumber, values\<lparr>lrv_inboundInterface := t\<rparr>)),
      Input ''Table'' True (lrv_table values) (\<lambda>t. (ruleNumber,
              values\<lparr>lrv_table := number_input t\<rparr>)),
      Input ''VRF'' True (lrv_vrf values) (\<lambda>t. (ruleNumber, values\<lparr>lrv_vrf := t\<rparr>)),
      Button
        (case rule of
             Some rule' \<Rightarrow> ''Save changes''
           | None \<Rightarrow> ''Queue rule creation'')
        (LocalRouteSection_RuleForm_canSubmit rule existingNumbers ruleNumber)
        (LocalRouteSection_RuleForm_submit family rule existingNumbers ruleNumber values)]"

text \<open>\<open>components/policy/PolicyListSection.tsx\<close>\<close>

definition PolicyListSection_controls ::
    "string \<Rightarrow> PolicyList list \<Rightarrow> bool \<Rightarrow> text_input \<Rightarrow> text_input \<Rightarrow> text_input \<Rightarrow> text_input \<Rightarrow> (text_input \<times> text_input \<times> text_input \<times> text_input) widget list" where
  "PolicyListSection_controls kind lists1 showCreate name description firstRuleRegex firstRuleAction =
     (if showCreate
      then [Input ''Name *'' True name (\<lambda>t. (t, description, firstRuleRegex, firstRuleAction)),
            Input ''Description *'' True description (\<lambda>t. (name, t, firstRuleRegex,
                    firstRuleAction)),
            Select ''Action'' True ['''', ''permit'', ''deny''] firstRuleAction
              (\<lambda>t. (name, description, firstRuleRegex, t)),
            Input ''Regex'' True firstRuleRegex (\<lambda>t. (name, description, t, firstRuleAction)),
            Button ''Queue list creation'' (PolicyListSection_valid lists1 name description)
              (PolicyListSection_submitCreate kind lists1 name description firstRuleRegex
                   firstRuleAction)]
      else [])
     @ concat (map
            (\<lambda>xs. [Button ''Delete list'' True (PolicyListSection_queueDelete kind
                       (pl_name xs))]) lists1)"

definition PolicyListSection_RulesSection_controls ::
    "string \<Rightarrow> PolicyList \<Rightarrow> bool \<Rightarrow> text_input \<Rightarrow> PolicyListRuleFormValues \<Rightarrow> (text_input \<times> PolicyListRuleFormValues) widget list" where
  "PolicyListSection_RulesSection_controls kind xs showAdd ruleNumber values =
     (if showAdd
      then [Input ''rule #'' True ruleNumber (\<lambda>t. (number_input t, values)),
            Select '''' True ['''', ''permit'', ''deny''] (prv_action values)
              (\<lambda>t. (ruleNumber, values\<lparr>prv_action := t\<rparr>)),
            Input '''' True (prv_regex values) (\<lambda>t. (ruleNumber, values\<lparr>prv_regex := t\<rparr>)),
            Button ''Add'' (PolicyListSection_RulesSection_valid xs ruleNumber values)
              (PolicyListSection_RulesSection_submit kind xs ruleNumber values)]
      else [])
     @ concat (map
            (\<lambda>rule. [Button ''Remove'' True (PolicyListSection_RulesSection_queueRemove kind
                       xs (plr_number rule))]) (pl_rules xs))"

text \<open>\<open>components/policy/PrefixListSection.tsx\<close>\<close>

definition PrefixListSection_controls ::
    "string \<Rightarrow> PrefixList list \<Rightarrow> bool \<Rightarrow> text_input \<Rightarrow> text_input \<Rightarrow> text_input \<Rightarrow> text_input \<Rightarrow> (text_input \<times> text_input \<times> text_input \<times> text_input) widget list" where
  "PrefixListSection_controls family lists1 showCreate name description firstRulePrefix firstRuleAction =
     (if showCreate
      then [Input ''Name *'' True name (\<lambda>t. (t, description, firstRulePrefix,
                    firstRuleAction)),
            Input ''Description *'' True description (\<lambda>t. (name, t, firstRulePrefix,
                    firstRuleAction)),
            Select ''Action'' True ['''', ''permit'', ''deny''] firstRuleAction
              (\<lambda>t. (name, description, firstRulePrefix, t)),
            Input ''Prefix'' True firstRulePrefix (\<lambda>t. (name, description, t,
                    firstRuleAction)),
            Button ''Queue list creation'' (PrefixListSection_valid lists1 name description)
              (PrefixListSection_submitCreate family lists1 name description firstRulePrefix
                   firstRuleAction)]
      else [])
     @ concat (map
            (\<lambda>xs. [Button ''Delete list'' True (PrefixListSection_queueDelete family
                       (xl_name xs))]) lists1)"

definition PrefixListSection_RulesSection_controls ::
    "string \<Rightarrow> PrefixList \<Rightarrow> bool \<Rightarrow> text_input \<Rightarrow> PrefixListRuleFormValues \<Rightarrow> (text_input \<times> PrefixListRuleFormValues) widget list" where
  "PrefixListSection_RulesSection_controls family xs showAdd ruleNumber values =
     (if showAdd
      then [Input ''rule #'' True ruleNumber (\<lambda>t. (number_input t, values)),
            Select '''' True ['''', ''permit'', ''deny''] (xrv_action values)
              (\<lambda>t. (ruleNumber, values\<lparr>xrv_action := t\<rparr>)),
            Input (if family = ''ipv6'' then ''2001:db8::/32'' else ''192.0.2.0/24'') True
              (xrv_prefix values) (\<lambda>t. (ruleNumber, values\<lparr>xrv_prefix := t\<rparr>)),
            Input ''ge (min length)'' True (xrv_ge values) (\<lambda>t. (ruleNumber,
                    values\<lparr>xrv_ge := number_input t\<rparr>)),
            Input ''le (max length)'' True (xrv_le values) (\<lambda>t. (ruleNumber,
                    values\<lparr>xrv_le := number_input t\<rparr>)),
            Button ''Add'' (PrefixListSection_RulesSection_valid xs ruleNumber values)
              (PrefixListSection_RulesSection_submit family xs ruleNumber values)]
      else [])
     @ concat (map
            (\<lambda>rule. [Button ''Remove'' True (PrefixListSection_RulesSection_queueRemove
                       family xs (xlr_number rule))]) (xl_rules xs))"

text \<open>\<open>components/policy/RouteMapRuleForm.tsx\<close>\<close>

definition RouteMapRuleForm_controls ::
    "string \<Rightarrow> RouteMapRule option \<Rightarrow> string list \<Rightarrow> text_input \<Rightarrow> text_input \<Rightarrow> RouteMapRuleFormValues \<Rightarrow> (text_input \<times> RouteMapRuleFormValues) widget list" where
  "RouteMapRuleForm_controls mapName rule existingNumbers tab ruleNumber values =
     (if tab = ''basic''
      then [Input ''Rule number'' (rule = None) ruleNumber (\<lambda>t. (number_input t, values)),
            Select ''Action'' True ['''', ''permit'', ''deny''] (rmrv_action values)
              (\<lambda>t. (ruleNumber, values\<lparr>rmrv_action := t\<rparr>)),
            Input ''Description'' True (rmrv_description values)
              (\<lambda>t. (ruleNumber, values\<lparr>rmrv_description := t\<rparr>)),
            Input ''Call route-map'' True (rmrv_call values)
              (\<lambda>t. (ruleNumber, values\<lparr>rmrv_call := t\<rparr>)),
            Input ''On match, goto rule'' True (rmrv_onMatchGoto values)
              (\<lambda>t. (ruleNumber, values\<lparr>rmrv_onMatchGoto := number_input t\<rparr>)),
            Check ''On match, continue to next rule'' True (rmrv_onMatchNext values)
              (\<lambda>b. (ruleNumber, values\<lparr>rmrv_onMatchNext := b\<rparr>))]
      else [])
     @ (if tab = ''match''
        then [Input ''AS-path list'' True (rmmv_asPath (rmrv_match values))
                (\<lambda>t. (ruleNumber,
                        values\<lparr>rmrv_match := (rmrv_match values)\<lparr>rmmv_asPath := t\<rparr>\<rparr>)),
              Input ''Protocol'' True (rmmv_protocol (rmrv_match values))
                (\<lambda>t. (ruleNumber,
                        values\<lparr>rmrv_match := (rmrv_match values)\<lparr>rmmv_protocol := t\<rparr>\<rparr>)),
              Input ''Community list'' True (rmmv_communityList (rmrv_match values))
                (\<lambda>t. (ruleNumber,
                        values\<lparr>rmrv_match := (rmrv_match values)\<lparr>rmmv_communityList := t\<rparr>\<rparr>)),
              Check ''Exact community match'' True (rmmv_communityExactMatch (rmrv_match values))
                (\<lambda>b. (ruleNumber,
                        values\<lparr>rmrv_match := (rmrv_match values)\<lparr>rmmv_communityExactMatch := b\<rparr>\<rparr>)),
              Input ''IPv4 prefix list'' True (rmmv_ipPrefixList (rmrv_match values))
                (\<lambda>t. (ruleNumber,
                        values\<lparr>rmrv_match := (rmrv_match values)\<lparr>rmmv_ipPrefixList := t\<rparr>\<rparr>)),
              Input ''IPv6 prefix list'' True (rmmv_ipv6PrefixList (rmrv_match values))
                (\<lambda>t. (ruleNumber,
                        values\<lparr>rmrv_match := (rmrv_match values)\<lparr>rmmv_ipv6PrefixList := t\<rparr>\<rparr>)),
              Input ''Metric'' True (rmmv_metric (rmrv_match values))
                (\<lambda>t. (ruleNumber,
                        values\<lparr>rmrv_match := (rmrv_match values)\<lparr>rmmv_metric := number_input t\<rparr>\<rparr>)),
              Input ''Local preference'' True (rmmv_localPreference (rmrv_match values))
                (\<lambda>t. (ruleNumber,
                        values\<lparr>rmrv_match := (rmrv_match values)\<lparr>rmmv_localPreference := number_input t\<rparr>\<rparr>)),
              Input ''Tag'' True (rmmv_tag (rmrv_match values))
                (\<lambda>t. (ruleNumber,
                        values\<lparr>rmrv_match := (rmrv_match values)\<lparr>rmmv_tag := number_input t\<rparr>\<rparr>))]
        else [])
     @ (if tab = ''set''
        then [Input ''Metric'' True (rmsv_metric (rmrv_set values))
                (\<lambda>t. (ruleNumber,
                        values\<lparr>rmrv_set := (rmrv_set values)\<lparr>rmsv_metric := t\<rparr>\<rparr>)),
              Input ''Local preference'' True (rmsv_localPreference (rmrv_set values))
                (\<lambda>t. (ruleNumber,
                        values\<lparr>rmrv_set := (rmrv_set values)\<lparr>rmsv_localPreference := number_input t\<rparr>\<rparr>)),
              Input ''AS-path prepend'' True (rmsv_asPathPrepend (rmrv_set values))
                (\<lambda>t. (ruleNumber,
                        values\<lparr>rmrv_set := (rmrv_set values)\<lparr>rmsv_asPathPrepend := t\<rparr>\<rparr>)),
              Input ''AS-path exclude'' True (rmsv_asPathExclude (rmrv_set values))
                (\<lambda>t. (ruleNumber,
                        values\<lparr>rmrv_set := (rmrv_set values)\<lparr>rmsv_asPathExclude := t\<rparr>\<rparr>)),
              Input ''Add community'' True (rmsv_communityAdd (rmrv_set values))
                (\<lambda>t. (ruleNumber,
                        values\<lparr>rmrv_set := (rmrv_set values)\<lparr>rmsv_communityAdd := t\<rparr>\<rparr>)),
              Input ''Replace community'' True (rmsv_communityReplace (rmrv_set values))
                (\<lambda>t. (ruleNumber,
                        values\<lparr>rmrv_set := (rmrv_set values)\<lparr>rmsv_communityReplace := t\<rparr>\<rparr>)),
              Input ''Delete community (list name)'' True (rmsv_communityDelete (rmrv_set values))
                (\<lambda>t. (ruleNumber,
                        values\<lparr>rmrv_set := (rmrv_set values)\<lparr>rmsv_communityDelete := t\<rparr>\<rparr>)),
              Check ''Clear all communities'' True (rmsv_communityNone (rmrv_set values))
                (\<lambda>b. (ruleNumber,
                        values\<lparr>rmrv_set := (rmrv_set values)\<lparr>rmsv_communityNone := b\<rparr>\<rparr>)),
              Select ''Origin'' True ['''', ''igp'', ''egp'', ''incomplete'']
                (rmsv_origin (rmrv_set values))
                (\<lambda>t. (ruleNumber,
                        values\<lparr>rmrv_set := (rmrv_set values)\<lparr>rmsv_origin := t\<rparr>\<rparr>)),
              Input ''Tag'' True (rmsv_tag (rmrv_set values))
                (\<lambda>t. (ruleNumber,
                        values\<lparr>rmrv_set := (rmrv_set values)\<lparr>rmsv_tag := number_input t\<rparr>\<rparr>)),
              Input ''Weight'' True (rmsv_weight (rmrv_set values))
                (\<lambda>t. (ruleNumber,
                        values\<lparr>rmrv_set := (rmrv_set values)\<lparr>rmsv_weight := number_input t\<rparr>\<rparr>))]
        else [])
     @ [Button
          (case rule of
               Some rule' \<Rightarrow> ''Save changes''
             | None \<Rightarrow> ''Queue new rule'')
          (RouteMapRuleForm_canSubmit rule existingNumbers ruleNumber)
          (RouteMapRuleForm_submit mapName rule existingNumbers ruleNumber values)]"

text \<open>\<open>components/policy/RouteMapSection.tsx\<close>\<close>

definition RouteMapSection_RulesSection_controls :: "RouteMap \<Rightarrow> unit widget list" where
  "RouteMapSection_RulesSection_controls mp =
     concat (map
          (\<lambda>rule. [Button ''Remove'' True (RouteMapSection_RulesSection_queueDelete mp
                     (rmr_number rule))]) (rm_rules mp))"

text \<open>\<open>components/routing/StaticRouteCard.tsx\<close>\<close>

definition StaticRouteCard_controls :: "StaticRoute \<Rightarrow> unit widget list" where
  "StaticRouteCard_controls route =
     (let basePath = staticRoutePath (sr_family route) (sr_destination route) [];
          chain = (if sr_family route = ''ipv6'' then ''route6'' else ''route'');
          pathLabel = ''protocols static '' @ chain @ '' '' @ sr_destination route
      in [Button ''Delete route'' True (StaticRouteCard_queueDeleteRoute route),
          Chips (pathLabel @ '' dhcp-interface'') (sr_dhcpInterfaces route)
            (basePath @ [''dhcp-interface''])])"

definition StaticRouteCard_ViaSection_controls ::
    "string \<Rightarrow> ViaEntry list \<Rightarrow> string list \<Rightarrow> string \<Rightarrow> unit widget list" where
  "StaticRouteCard_ViaSection_controls leaf ents basePath pathLabel =
     concat (map
          (\<lambda>entry. [Button (if ve_disabled entry then ''Enable'' else ''Disable'') True
                  (StaticRouteCard_ViaSection_queueToggleDisabled leaf basePath pathLabel
                       (ve_key entry) (ve_disabled entry)),
                Button ''Remove'' True (StaticRouteCard_ViaSection_queueRemove leaf basePath
                     pathLabel (ve_key entry))]) ents)"

definition StaticRouteCard_AddViaForm_controls ::
    "string \<Rightarrow> string \<Rightarrow> string list \<Rightarrow> string list \<Rightarrow> string \<Rightarrow> text_input \<Rightarrow> text_input \<Rightarrow> (text_input \<times> text_input) widget list" where
  "StaticRouteCard_AddViaForm_controls leaf keyPlaceholder existingKeys basePath pathLabel key distance =
     [Input keyPlaceholder True key (\<lambda>t. (t, distance)),
      Input ''distance (optional)'' True distance (\<lambda>t. (key, number_input t)),
      Button ''Add'' (StaticRouteCard_AddViaForm_valid existingKeys key)
        (StaticRouteCard_AddViaForm_submit leaf existingKeys basePath pathLabel key distance)]"

definition StaticRouteCard_RejectOrBlackholeSection_controls ::
    "string \<Rightarrow> StaticRouteRejectOrBlackhole option \<Rightarrow> string list \<Rightarrow> string \<Rightarrow> bool \<Rightarrow> text_input \<Rightarrow> text_input \<Rightarrow> (text_input \<times> text_input) widget list" where
  "StaticRouteCard_RejectOrBlackholeSection_controls kind val basePath pathLabel editing distance tag =
     (if val = None \<and> \<not> editing then []
      else (if editing
            then [Input ''distance'' True distance (\<lambda>t. (number_input t, tag)),
                  Input ''tag'' True tag (\<lambda>t. (distance, number_input t)),
                  Button ''Save'' True (StaticRouteCard_RejectOrBlackholeSection_queueEnable kind
                       basePath pathLabel distance tag)]
            else [Button ''Remove'' True (StaticRouteCard_RejectOrBlackholeSection_queueRemove kind
                       basePath pathLabel)]))"

subsection \<open>What is typed and clicked\<close>

lemmas routing_views =
  BGPGlobalSettings_controls_def BGPNetworksAndRedistribution_NetworksSection_controls_def
  BGPPeerForm_AddressFamilyFields_controls_def OSPFAreaForm_controls_def
  OSPFAreaList_RangesSection_controls_def OSPFGlobalSettings_controls_def
  OSPFRedistribution_controls_def OSPFV3_REDISTRIBUTE_SOURCES_def OSPF_REDISTRIBUTE_SOURCES_def
  LocalRouteSection_RuleForm_controls_def PolicyListSection_controls_def
  PolicyListSection_RulesSection_controls_def PrefixListSection_controls_def
  PrefixListSection_RulesSection_controls_def RouteMapRuleForm_controls_def
  StaticRouteCard_AddViaForm_controls_def StaticRouteCard_RejectOrBlackholeSection_controls_def
  BGPPeerList_controls_def OSPFAreaList_controls_def OSPFInterfaceList_controls_def
  LocalRouteSection_controls_def RouteMapSection_RulesSection_controls_def
  StaticRouteCard_controls_def StaticRouteCard_ViaSection_controls_def

lemma routing_controlled:
  "controlled (\<lambda>(values, dirty). BGPGlobalSettings_controls bgp values dirty)"
  "controlled (\<lambda>(family, pfx). BGPNetworksAndRedistribution_NetworksSection_controls networks family pfx)"
  "controlled BGPPeerForm_AddressFamilyFields_controls"
  "controlled (\<lambda>(i, values_2, firstNetwork, firstRangePrefix). OSPFAreaForm_controls protocol area existingIds i values_2 firstNetwork firstRangePrefix)"
  "controlled (\<lambda>(pfx, notAdvertise, cost, substitute). OSPFAreaList_RangesSection_controls protocol area_1 showAdd pfx notAdvertise cost substitute)"
  "controlled (\<lambda>(values_3, dirty). OSPFGlobalSettings_controls protocol settings values_3 dirty)"
  "controlled (\<lambda>(source, metric, metricType). OSPFRedistribution_controls protocol redistributions source metric metricType)"
  "controlled (\<lambda>(ruleNumber, values_4). LocalRouteSection_RuleForm_controls family rule existingNumbers ruleNumber values_4)"
  "controlled (\<lambda>(name, description, firstRuleRegex, firstRuleAction). PolicyListSection_controls kind lists1 showCreate name description firstRuleRegex firstRuleAction)"
  "controlled (\<lambda>(ruleNumber, values_5). PolicyListSection_RulesSection_controls kind xs showAdd ruleNumber values_5)"
  "controlled (\<lambda>(name, description, firstRulePrefix, firstRuleAction). PrefixListSection_controls family lists1_1 showCreate name description firstRulePrefix firstRuleAction)"
  "controlled (\<lambda>(ruleNumber, values_6). PrefixListSection_RulesSection_controls family xs_1 showAdd ruleNumber values_6)"
  "controlled (\<lambda>(ruleNumber, values_7). RouteMapRuleForm_controls mapName rule_1 existingNumbers tab ruleNumber values_7)"
  "controlled (\<lambda>(key, distance). StaticRouteCard_AddViaForm_controls leaf keyPlaceholder existingKeys basePath pathLabel key distance)"
  "controlled (\<lambda>(distance, tag). StaticRouteCard_RejectOrBlackholeSection_controls kind val basePath pathLabel editing distance tag)"
  by (simp_all add: controlled_def routing_views view_simps)

inductive routing_typed :: "string \<Rightarrow> shown \<Rightarrow> (string \<times> shown) list \<Rightarrow> bool" where
  "typing (\<lambda>(values, dirty). BGPGlobalSettings_controls bgp values dirty) l y scr \<Longrightarrow> routing_typed l y scr"
| "typing (\<lambda>(family, pfx). BGPNetworksAndRedistribution_NetworksSection_controls networks family pfx) l y scr \<Longrightarrow> routing_typed l y scr"
| "typing BGPPeerForm_AddressFamilyFields_controls l y scr \<Longrightarrow> routing_typed l y scr"
| "typing (\<lambda>(i, values_2, firstNetwork, firstRangePrefix). OSPFAreaForm_controls protocol area existingIds i values_2 firstNetwork firstRangePrefix) l y scr \<Longrightarrow> routing_typed l y scr"
| "typing (\<lambda>(pfx, notAdvertise, cost, substitute). OSPFAreaList_RangesSection_controls protocol area_1 showAdd pfx notAdvertise cost substitute) l y scr \<Longrightarrow> routing_typed l y scr"
| "typing (\<lambda>(values_3, dirty). OSPFGlobalSettings_controls protocol settings values_3 dirty) l y scr \<Longrightarrow> routing_typed l y scr"
| "typing (\<lambda>(source, metric, metricType). OSPFRedistribution_controls protocol redistributions source metric metricType) l y scr \<Longrightarrow> routing_typed l y scr"
| "typing (\<lambda>(ruleNumber, values_4). LocalRouteSection_RuleForm_controls family rule existingNumbers ruleNumber values_4) l y scr \<Longrightarrow> routing_typed l y scr"
| "typing (\<lambda>(name, description, firstRuleRegex, firstRuleAction). PolicyListSection_controls kind lists1 showCreate name description firstRuleRegex firstRuleAction) l y scr \<Longrightarrow> routing_typed l y scr"
| "typing (\<lambda>(ruleNumber, values_5). PolicyListSection_RulesSection_controls kind xs showAdd ruleNumber values_5) l y scr \<Longrightarrow> routing_typed l y scr"
| "typing (\<lambda>(name, description, firstRulePrefix, firstRuleAction). PrefixListSection_controls family lists1_1 showCreate name description firstRulePrefix firstRuleAction) l y scr \<Longrightarrow> routing_typed l y scr"
| "typing (\<lambda>(ruleNumber, values_6). PrefixListSection_RulesSection_controls family xs_1 showAdd ruleNumber values_6) l y scr \<Longrightarrow> routing_typed l y scr"
| "typing (\<lambda>(ruleNumber, values_7). RouteMapRuleForm_controls mapName rule_1 existingNumbers tab ruleNumber values_7) l y scr \<Longrightarrow> routing_typed l y scr"
| "typing (\<lambda>(key, distance). StaticRouteCard_AddViaForm_controls leaf keyPlaceholder existingKeys basePath pathLabel key distance) l y scr \<Longrightarrow> routing_typed l y scr"
| "typing (\<lambda>(distance, tag). StaticRouteCard_RejectOrBlackholeSection_controls kind val basePath pathLabel editing distance tag) l y scr \<Longrightarrow> routing_typed l y scr"

lemma routing_typed_shown: "routing_typed l y scr \<Longrightarrow> answers l y scr"
  by (induction rule: routing_typed.induct) (erule controlled_typing, rule routing_controlled)+

lemma routing_acting:
  "list_all (acting (routing_editor ''protocols'')) (BGPGlobalSettings_controls bgp values dirty)"
  "list_all (acting (routing_editor ''protocols'')) (BGPNetworksAndRedistribution_NetworksSection_controls networks family pfx)"
  "list_all (acting (routing_editor ''protocols'')) (BGPPeerList_controls kind peers)"
  "list_all (acting (routing_editor ''protocols'')) (OSPFAreaForm_controls protocol area existingIds i values_2 firstNetwork firstRangePrefix)"
  "list_all (acting (routing_editor ''protocols'')) (OSPFAreaList_controls protocol areas)"
  "list_all (acting (routing_editor ''protocols'')) (OSPFAreaList_RangesSection_controls protocol area_1 showAdd pfx notAdvertise cost substitute)"
  "list_all (acting (routing_editor ''protocols'')) (OSPFGlobalSettings_controls protocol settings values_3 dirty)"
  "list_all (acting (routing_editor ''protocols'')) (OSPFInterfaceList_controls protocol interfaces)"
  "list_all (acting (routing_editor ''protocols'')) (OSPFRedistribution_controls protocol redistributions source metric metricType)"
  "list_all (acting (routing_editor ''policy'')) (LocalRouteSection_controls family rules)"
  "list_all (acting (routing_editor ''policy'')) (LocalRouteSection_RuleForm_controls family rule existingNumbers ruleNumber values_4)"
  "list_all (acting (routing_editor ''policy'')) (PolicyListSection_controls kind lists1 showCreate name description firstRuleRegex firstRuleAction)"
  "list_all (acting (routing_editor ''policy'')) (PolicyListSection_RulesSection_controls kind xs showAdd ruleNumber values_5)"
  "list_all (acting (routing_editor ''policy'')) (PrefixListSection_controls family lists1_1 showCreate name description firstRulePrefix firstRuleAction)"
  "list_all (acting (routing_editor ''policy'')) (PrefixListSection_RulesSection_controls family xs_1 showAdd ruleNumber values_6)"
  "list_all (acting (routing_editor ''policy'')) (RouteMapRuleForm_controls mapName rule_1 existingNumbers tab ruleNumber values_7)"
  "list_all (acting (routing_editor ''policy'')) (RouteMapSection_RulesSection_controls mp)"
  "list_all (acting (routing_editor ''protocols'')) (StaticRouteCard_controls route)"
  "prefix [sec] basePath \<Longrightarrow> list_all (acting (routing_editor sec)) (StaticRouteCard_ViaSection_controls leaf ents basePath pathLabel)"
  "prefix [sec] basePath \<Longrightarrow> list_all (acting (routing_editor sec)) (StaticRouteCard_AddViaForm_controls leaf keyPlaceholder existingKeys basePath pathLabel key distance)"
  "prefix [sec] basePath \<Longrightarrow> list_all (acting (routing_editor sec)) (StaticRouteCard_RejectOrBlackholeSection_controls kind val basePath pathLabel editing distance tag)"
  by (simp_all add: routing_views view_simps routing_editor.intros)

text \<open>The changes \<open>adds\<close> that one click in a component of the section \<open>sec\<close> puts in the cart.\<close>

inductive routing_click :: "string \<Rightarrow> (ConfigOp \<times> string) list \<Rightarrow> bool" where
  "clicked (BGPGlobalSettings_controls bgp values dirty) adds \<Longrightarrow> routing_click ''protocols'' adds"
| "clicked (BGPNetworksAndRedistribution_NetworksSection_controls networks family pfx) adds \<Longrightarrow> routing_click ''protocols'' adds"
| "clicked (BGPPeerList_controls kind peers) adds \<Longrightarrow> routing_click ''protocols'' adds"
| "clicked (OSPFAreaForm_controls protocol area existingIds i values_2 firstNetwork firstRangePrefix) adds \<Longrightarrow> routing_click ''protocols'' adds"
| "clicked (OSPFAreaList_controls protocol areas) adds \<Longrightarrow> routing_click ''protocols'' adds"
| "clicked (OSPFAreaList_RangesSection_controls protocol area_1 showAdd pfx notAdvertise cost substitute) adds \<Longrightarrow> routing_click ''protocols'' adds"
| "clicked (OSPFGlobalSettings_controls protocol settings values_3 dirty) adds \<Longrightarrow> routing_click ''protocols'' adds"
| "clicked (OSPFInterfaceList_controls protocol interfaces) adds \<Longrightarrow> routing_click ''protocols'' adds"
| "clicked (OSPFRedistribution_controls protocol redistributions source metric metricType) adds \<Longrightarrow> routing_click ''protocols'' adds"
| "clicked (LocalRouteSection_controls family rules) adds \<Longrightarrow> routing_click ''policy'' adds"
| "clicked (LocalRouteSection_RuleForm_controls family rule existingNumbers ruleNumber values_4) adds \<Longrightarrow> routing_click ''policy'' adds"
| "clicked (PolicyListSection_controls kind lists1 showCreate name description firstRuleRegex firstRuleAction) adds \<Longrightarrow> routing_click ''policy'' adds"
| "clicked (PolicyListSection_RulesSection_controls kind xs showAdd ruleNumber values_5) adds \<Longrightarrow> routing_click ''policy'' adds"
| "clicked (PrefixListSection_controls family lists1_1 showCreate name description firstRulePrefix firstRuleAction) adds \<Longrightarrow> routing_click ''policy'' adds"
| "clicked (PrefixListSection_RulesSection_controls family xs_1 showAdd ruleNumber values_6) adds \<Longrightarrow> routing_click ''policy'' adds"
| "clicked (RouteMapRuleForm_controls mapName rule_1 existingNumbers tab ruleNumber values_7) adds \<Longrightarrow> routing_click ''policy'' adds"
| "clicked (RouteMapSection_RulesSection_controls mp) adds \<Longrightarrow> routing_click ''policy'' adds"
| "clicked (StaticRouteCard_controls route) adds \<Longrightarrow> routing_click ''protocols'' adds"
| "prefix [sec] basePath \<Longrightarrow> clicked (StaticRouteCard_ViaSection_controls leaf ents basePath pathLabel) adds \<Longrightarrow> routing_click sec adds"
| "prefix [sec] basePath \<Longrightarrow> clicked (StaticRouteCard_AddViaForm_controls leaf keyPlaceholder existingKeys basePath pathLabel key distance) adds \<Longrightarrow> routing_click sec adds"
| "prefix [sec] basePath \<Longrightarrow> clicked (StaticRouteCard_RejectOrBlackholeSection_controls kind val basePath pathLabel editing distance tag) adds \<Longrightarrow> routing_click sec adds"

lemma routing_click_editor: "routing_click sec adds \<Longrightarrow> routing_editor sec adds"
  by (induction rule: routing_click.induct) (erule acting_clicked, rule routing_acting, assumption?)+

end
