(* ===== verification/ViewNetwork.thy ===== *)
theory ViewNetwork
  imports Widgets UiNetwork
begin

text \<open>
  The controls of the firewall, NAT, DHCP and interface pages, component by component: for given
  props and state, the inputs, choices, switches and buttons its markup shows. A child component with a
  state of its own has its own definition; one without is shown by its parent.
\<close>

text \<open>\<open>components/firewall/RuleForm.tsx\<close>\<close>

definition RuleForm_MatchFields_controls ::
    "bool \<Rightarrow> MatchFormValues \<Rightarrow> MatchFormValues widget list" where
  "RuleForm_MatchFields_controls showMacAddress values =
     [Input ''Address'' True (mf_address values) (\<lambda>t. values\<lparr>mf_address := t\<rparr>),
      Input ''Port'' True (mf_port values) (\<lambda>t. values\<lparr>mf_port := t\<rparr>)]
     @ (if showMacAddress
        then [Input ''MAC address'' True (mf_macAddress values)
                (\<lambda>t. values\<lparr>mf_macAddress := t\<rparr>)]
        else [])
     @ (if showMacAddress
        then [Input ''MAC group'' True (mf_macGroup values) (\<lambda>t. values\<lparr>mf_macGroup := t\<rparr>)]
        else [])
     @ [Input ''Address group'' True (mf_addressGroup values)
          (\<lambda>t. values\<lparr>mf_addressGroup := t\<rparr>),
        Input ''Network group'' True (mf_networkGroup values)
          (\<lambda>t. values\<lparr>mf_networkGroup := t\<rparr>),
        Input ''Port group'' True (mf_portGroup values) (\<lambda>t. values\<lparr>mf_portGroup := t\<rparr>),
        Input ''Domain group'' True (mf_domainGroup values) (\<lambda>t. values\<lparr>mf_domainGroup := t\<rparr>)]"

definition RuleForm_controls ::
    "RulesetRef \<Rightarrow> FirewallRule option \<Rightarrow> string list \<Rightarrow> text_input \<Rightarrow> text_input \<Rightarrow> RuleFormValues \<Rightarrow> (text_input \<times> RuleFormValues) widget list" where
  "RuleForm_controls rulesetRef rule existingNumbers tab ruleNumber values =
     (if tab = ''basic''
      then [Input ''Rule number'' (rule = None) ruleNumber (\<lambda>t. (number_input t, values)),
            Select ''Action *'' True ([''''] @ RULE_ACTIONS) (rf_action values)
              (\<lambda>t. (ruleNumber, values\<lparr>rf_action := t\<rparr>))]
           @ (if rf_action values = ''jump''
              then [Input ''Jump target (custom chain name)'' True (rf_jumpTarget values)
                      (\<lambda>t. (ruleNumber, values\<lparr>rf_jumpTarget := t\<rparr>))]
              else [])
           @ [Input ''Protocol'' True (rf_protocol values) (\<lambda>t. (ruleNumber,
                      values\<lparr>rf_protocol := t\<rparr>)),
              Input ''Description'' True (rf_description values)
                (\<lambda>t. (ruleNumber, values\<lparr>rf_description := t\<rparr>)),
              Check ''Log matches'' True (rf_log values) (\<lambda>b. (ruleNumber,
                      values\<lparr>rf_log := b\<rparr>)),
              Check ''Disable this rule'' True (rf_disabled values)
                (\<lambda>b. (ruleNumber, values\<lparr>rf_disabled := b\<rparr>))]
      else [])
     @ (if tab = ''match''
        then map (map_widget (\<lambda>m. (ruleNumber, values\<lparr>rf_source := m\<rparr>)))
               (in_group ''Source'' (RuleForm_MatchFields_controls True (rf_source values)))
             @ map
                 (map_widget (\<lambda>m. (ruleNumber, values\<lparr>rf_destination := m\<rparr>)))
                 (in_group ''Destination'' (RuleForm_MatchFields_controls False
                         (rf_destination values)))
        else [])
     @ (if tab = ''advanced''
        then [Input ''Inbound interface'' True (rf_inboundInterface values)
                (\<lambda>t. (ruleNumber, values\<lparr>rf_inboundInterface := t\<rparr>)),
              Input ''Outbound interface'' True (rf_outboundInterface values)
                (\<lambda>t. (ruleNumber, values\<lparr>rf_outboundInterface := t\<rparr>)),
              Input
                (if rr_family rulesetRef = ''ipv6'' then ''ICMPv6 type name''
                   else ''ICMP type name'') True (rf_icmpTypeName values)
                (\<lambda>t. (ruleNumber, values\<lparr>rf_icmpTypeName := t\<rparr>))]
        else [])
     @ [Button
          (case rule of
               Some rule' \<Rightarrow> ''Queue changes''
             | None \<Rightarrow> ''Queue new rule'')
          (RuleForm_canSubmit rule existingNumbers ruleNumber values)
          (RuleForm_submit rulesetRef rule existingNumbers ruleNumber values)]"

text \<open>\<open>components/firewall/ZoneMatrix.tsx\<close>\<close>

definition ZoneMatrix_MatrixCellEditor_controls ::
    "FirewallRuleset list \<Rightarrow> text_input \<Rightarrow> text_input widget list" where
  "ZoneMatrix_MatrixCellEditor_controls rulesets val =
     [Select '''' True ([''''] @ map (\<lambda>rs. fs_id rs) rulesets) val (\<lambda>t. t)]"

text \<open>\<open>components/nat/NATRuleForm.tsx\<close>\<close>

definition NATRuleForm_MatchFields_controls :: "NATMatchFormValues \<Rightarrow> NATMatchFormValues widget list" where
  "NATRuleForm_MatchFields_controls values =
     [Input ''Address'' True (nmv_address values) (\<lambda>t. values\<lparr>nmv_address := t\<rparr>),
      Input ''Port'' True (nmv_port values) (\<lambda>t. values\<lparr>nmv_port := t\<rparr>),
      Input ''Address group'' True (nmv_addressGroup values)
        (\<lambda>t. values\<lparr>nmv_addressGroup := t\<rparr>),
      Input ''Network group'' True (nmv_networkGroup values)
        (\<lambda>t. values\<lparr>nmv_networkGroup := t\<rparr>),
      Input ''Port group'' True (nmv_portGroup values) (\<lambda>t. values\<lparr>nmv_portGroup := t\<rparr>)]"

definition NATRuleForm_controls ::
    "string \<Rightarrow> NATRule option \<Rightarrow> string list \<Rightarrow> text_input \<Rightarrow> text_input \<Rightarrow> NATRuleFormValues \<Rightarrow> (text_input \<times> NATRuleFormValues) widget list" where
  "NATRuleForm_controls kind rule existingNumbers tab ruleNumber values =
     (let interfaceLabel = (if kind = ''source'' then ''Outbound interface''
             else ''Inbound interface'')
      in (if tab = ''basic''
          then [Input ''Rule number'' (rule = None) ruleNumber
                  (\<lambda>t. (number_input t, values)),
                Input interfaceLabel True (nrv_interfaceName values)
                  (\<lambda>t. (ruleNumber, values\<lparr>nrv_interfaceName := t\<rparr>)),
                Input ''Protocol'' True (nrv_protocol values)
                  (\<lambda>t. (ruleNumber, values\<lparr>nrv_protocol := t\<rparr>)),
                Input ''Description'' True (nrv_description values)
                  (\<lambda>t. (ruleNumber, values\<lparr>nrv_description := t\<rparr>)),
                Check ''Log matches'' True (nrv_log values) (\<lambda>b. (ruleNumber,
                        values\<lparr>nrv_log := b\<rparr>)),
                Check ''Exclude from NAT'' True (nrv_exclude values)
                  (\<lambda>b. (ruleNumber, values\<lparr>nrv_exclude := b\<rparr>)),
                Check ''Disable this rule'' True (nrv_disabled values)
                  (\<lambda>b. (ruleNumber, values\<lparr>nrv_disabled := b\<rparr>))]
          else [])
         @ (if tab = ''match''
            then map (map_widget (\<lambda>m. (ruleNumber, values\<lparr>nrv_source := m\<rparr>)))
                   (in_group ''Source'' (NATRuleForm_MatchFields_controls (nrv_source values)))
                 @ map
                     (map_widget (\<lambda>m. (ruleNumber, values\<lparr>nrv_destination := m\<rparr>)))
                     (in_group ''Destination'' (NATRuleForm_MatchFields_controls (nrv_destination values)))
            else [])
         @ (if tab = ''translation''
            then [Input
                    (if kind = ''source''
                       then ''Translation address (or '' @ [CHR 0x27] @ ''masquerade'' @ [CHR 0x27]
                            @ '')''
                       else ''Translation address'') True (nrv_translationAddress values)
                    (\<lambda>t. (ruleNumber, values\<lparr>nrv_translationAddress := t\<rparr>)),
                  Input ''Translation port'' True (nrv_translationPort values)
                    (\<lambda>t. (ruleNumber, values\<lparr>nrv_translationPort := t\<rparr>))]
                 @ (if kind = ''destination''
                    then [Input ''Redirect to local host, port'' True (nrv_redirectPort values)
                            (\<lambda>t. (ruleNumber, values\<lparr>nrv_redirectPort := t\<rparr>))]
                    else [])
            else [])
         @ [Button
              (case rule of
                   Some rule' \<Rightarrow> ''Save changes''
                 | None \<Rightarrow> ''Queue new rule'')
              (NATRuleForm_canSubmit rule existingNumbers ruleNumber)
              (NATRuleForm_submit kind rule existingNumbers ruleNumber values)])"

text \<open>\<open>components/nat/NATRuleList.tsx\<close>\<close>

definition NATRuleList_controls :: "string \<Rightarrow> NATRule list \<Rightarrow> unit widget list" where
  "NATRuleList_controls kind rules =
     concat (map
          (\<lambda>rule. [Button ''Delete'' True (NATRuleList_queueDelete kind (nr_number rule))])
          rules)"

text \<open>\<open>components/nat/NATStaticRuleForm.tsx\<close>\<close>

definition NATStaticRuleForm_controls ::
    "NATStaticRule option \<Rightarrow> string list \<Rightarrow> text_input \<Rightarrow> NATStaticFormValues \<Rightarrow> (text_input \<times> NATStaticFormValues) widget list" where
  "NATStaticRuleForm_controls rule existingNumbers ruleNumber values =
     [Input ''Rule number'' (rule = None) ruleNumber (\<lambda>t. (number_input t, values)),
      Input ''Inbound interface'' True (nsv_interfaceName values)
        (\<lambda>t. (ruleNumber, values\<lparr>nsv_interfaceName := t\<rparr>)),
      Input ''Destination address *'' True (nsv_destinationAddress values)
        (\<lambda>t. (ruleNumber, values\<lparr>nsv_destinationAddress := t\<rparr>)),
      Input ''Translation address *'' True (nsv_translationAddress values)
        (\<lambda>t. (ruleNumber, values\<lparr>nsv_translationAddress := t\<rparr>)),
      Input ''Description'' True (nsv_description values) (\<lambda>t. (ruleNumber,
              values\<lparr>nsv_description := t\<rparr>)),
      Check ''Log matches'' True (nsv_log values) (\<lambda>b. (ruleNumber, values\<lparr>nsv_log := b\<rparr>)),
      Button
        (case rule of
             Some rule' \<Rightarrow> ''Save changes''
           | None \<Rightarrow> ''Queue rule creation'')
        (NATStaticRuleForm_canSubmit rule existingNumbers ruleNumber values)
        (NATStaticRuleForm_submit rule existingNumbers ruleNumber values)]"

text \<open>\<open>components/nat/NATStaticRuleList.tsx\<close>\<close>

definition NATStaticRuleList_controls :: "NATStaticRule list \<Rightarrow> unit widget list" where
  "NATStaticRuleList_controls rules =
     concat (map
          (\<lambda>rule. [Button ''Delete'' True (NATStaticRuleList_queueDelete (ns_number rule))])
          rules)"

text \<open>\<open>components/dhcp/MakeStaticModal.tsx\<close>\<close>

definition MakeStaticModal_controls ::
    "DHCPStaticMapping option \<Rightarrow> text_input \<Rightarrow> StaticMappingFormValues \<Rightarrow> (text_input \<times> StaticMappingFormValues) widget list" where
  "MakeStaticModal_controls mapping name values =
     [Input ''Name'' (\<not> (mapping \<noteq> None)) name (\<lambda>t. (t, values)),
      Input ''IP address'' True (mv_ipAddress values) (\<lambda>t. (name,
              values\<lparr>mv_ipAddress := t\<rparr>)),
      Input ''MAC address'' True (mv_mac values) (\<lambda>t. (name, values\<lparr>mv_mac := t\<rparr>)),
      Input ''DUID'' True (mv_duid values) (\<lambda>t. (name, values\<lparr>mv_duid := t\<rparr>))]"

text \<open>\<open>components/dhcp/NetworkCard.tsx\<close>\<close>

definition NetworkCard_controls :: "DHCPSharedNetwork \<Rightarrow> bool \<Rightarrow> unit widget list" where
  "NetworkCard_controls network expanded =
     (let basePath = sharedNetworkPath (dn_name network) [];
          pathLabel = ''service dhcp-server shared-network-name '' @ dn_name network
      in [Button ''Delete network'' True (NetworkCard_queueDelete network)]
         @ (if expanded
            then [Chips (pathLabel @ '' option name-server'') (do_nameServers (dn_options network))
                    ((basePath @ [''option'']) @ [''name-server'']),
                  Chips (pathLabel @ '' option ntp-server'') (do_ntpServers (dn_options network))
                    ((basePath @ [''option'']) @ [''ntp-server'']),
                  Chips (pathLabel @ '' option domain-search'')
                    (do_domainSearch (dn_options network)) ((basePath @ [''option''])
                     @ [''domain-search''])]
            else []))"

definition NetworkCard_CreateSubnetForm_controls ::
    "string \<Rightarrow> string list \<Rightarrow> text_input \<Rightarrow> text_input \<Rightarrow> (text_input \<times> text_input) widget list" where
  "NetworkCard_CreateSubnetForm_controls networkName existingCidrs cidr subnetId =
     [Input ''Subnet CIDR'' True cidr (\<lambda>t. (t, subnetId)),
      Input ''Subnet ID'' True subnetId (\<lambda>t. (cidr, number_input t)),
      Button ''Queue subnet creation''
        (NetworkCard_CreateSubnetForm_valid existingCidrs cidr subnetId)
        (NetworkCard_CreateSubnetForm_submit networkName existingCidrs cidr subnetId)]"

definition NetworkCard_NetworkEditForm_controls ::
    "DHCPSharedNetwork \<Rightarrow> SharedNetworkFormValues \<Rightarrow> SharedNetworkFormValues widget list" where
  "NetworkCard_NetworkEditForm_controls network values =
     [Input ''Default router'' True (of_defaultRouter values)
        (\<lambda>t. values\<lparr>of_defaultRouter := t\<rparr>),
      Input ''Domain name'' True (of_domainName values) (\<lambda>t. values\<lparr>of_domainName := t\<rparr>),
      Check ''Authoritative (the only DHCP server for this network)'' True (nf_authoritative values)
        (\<lambda>b. values\<lparr>nf_authoritative := b\<rparr>),
      Button ''Queue changes'' True (NetworkCard_NetworkEditForm_submit network values)]"

text \<open>\<open>components/dhcp/StaticMappingSection.tsx\<close>\<close>

definition StaticMappingSection_controls ::
    "string \<Rightarrow> string \<Rightarrow> DHCPStaticMapping list \<Rightarrow> unit widget list" where
  "StaticMappingSection_controls networkName cidr mappings =
     concat (map
          (\<lambda>m. [Button ''Delete'' True (StaticMappingSection_queueDelete networkName cidr
                     (dm_name m))]) mappings)"

definition StaticMappingSection_MappingFormFields_controls ::
    "string \<Rightarrow> string \<Rightarrow> DHCPStaticMapping option \<Rightarrow> string list \<Rightarrow> text_input \<Rightarrow> StaticMappingFormValues \<Rightarrow> (text_input \<times> StaticMappingFormValues) widget list" where
  "StaticMappingSection_MappingFormFields_controls networkName cidr mapping existingNames name values =
     [Input ''Name'' (mapping = None) name (\<lambda>t. (t, values)),
      Input ''IP address'' True (mv_ipAddress values) (\<lambda>t. (name,
              values\<lparr>mv_ipAddress := t\<rparr>)),
      Input ''MAC address'' True (mv_mac values) (\<lambda>t. (name, values\<lparr>mv_mac := t\<rparr>)),
      Input ''DUID'' True (mv_duid values) (\<lambda>t. (name, values\<lparr>mv_duid := t\<rparr>)),
      Button
        (case mapping of
             Some mapping' \<Rightarrow> ''Queue changes''
           | None \<Rightarrow> ''Queue new mapping'')
        (StaticMappingSection_MappingFormFields_canSubmit mapping existingNames name values)
        (StaticMappingSection_MappingFormFields_submit networkName cidr mapping existingNames name
             values)]"

text \<open>\<open>components/dhcp/SubnetCard.tsx\<close>\<close>

definition SubnetCard_controls :: "string \<Rightarrow> DHCPSubnet \<Rightarrow> unit widget list" where
  "SubnetCard_controls networkName subnet =
     (let basePath = subnetPath networkName (ds_cidr subnet) [];
          pathLabel = ''service dhcp-server shared-network-name '' @ networkName @ '' subnet ''
            @ ds_cidr subnet
      in [Button ''Delete subnet'' True (SubnetCard_queueDelete networkName subnet),
          Chips (pathLabel @ '' option name-server'') (do_nameServers (ds_options subnet))
            ((basePath @ [''option'']) @ [''name-server'']),
          Chips (pathLabel @ '' option ntp-server'') (do_ntpServers (ds_options subnet))
            ((basePath @ [''option'']) @ [''ntp-server'']),
          Chips (pathLabel @ '' option domain-search'') (do_domainSearch (ds_options subnet))
            ((basePath @ [''option'']) @ [''domain-search'']),
          Chips (pathLabel @ '' exclude'') (ds_excludes subnet) (basePath @ [''exclude''])])"

definition SubnetCard_SubnetEditForm_controls ::
    "string \<Rightarrow> DHCPSubnet \<Rightarrow> SubnetFormValues \<Rightarrow> SubnetFormValues widget list" where
  "SubnetCard_SubnetEditForm_controls networkName subnet values =
     [Input ''Subnet ID'' True (sf_subnetId values) (\<lambda>t. values\<lparr>sf_subnetId := number_input t\<rparr>),
      Input ''Lease time (seconds)'' True (sf_lease values) (\<lambda>t. values\<lparr>sf_lease := number_input t\<rparr>),
      Input ''Default router'' True (of_defaultRouter values)
        (\<lambda>t. values\<lparr>of_defaultRouter := t\<rparr>),
      Input ''Domain name'' True (of_domainName values) (\<lambda>t. values\<lparr>of_domainName := t\<rparr>),
      Button ''Queue changes'' True (SubnetCard_SubnetEditForm_submit networkName subnet values)]"

text \<open>\<open>components/interfaces/VlanSection.tsx\<close>\<close>

definition VlanSection_controls ::
    "string list \<Rightarrow> string \<Rightarrow> InterfaceVlan list \<Rightarrow> unit widget list" where
  "VlanSection_controls parentPath parentPathLabel vlans =
     concat (map
          (\<lambda>vlan. [Button ''Delete'' True (VlanSection_queueDelete parentPath
                     parentPathLabel (vl_vlanId vlan))]) vlans)"

definition VlanSection_VlanFormFields_controls ::
    "string list \<Rightarrow> string \<Rightarrow> string list \<Rightarrow> InterfaceVlan option \<Rightarrow> string list \<Rightarrow> text_input \<Rightarrow> text_input \<Rightarrow> CommonInterfaceFormValues \<Rightarrow> (text_input \<times> text_input \<times> CommonInterfaceFormValues) widget list" where
  "VlanSection_VlanFormFields_controls parentPath parentPathLabel vrfOptions vlan existingIds vlanId initialAddress values =
     ([Input ''VLAN ID'' (vlan = None) vlanId (\<lambda>t. (number_input t, initialAddress, values)),
       Input ''Description'' True (cv_description values) (\<lambda>t. (vlanId, initialAddress,
               values\<lparr>cv_description := t\<rparr>)),
       Input ''MAC address'' True (cv_mac values) (\<lambda>t. (vlanId, initialAddress,
               values\<lparr>cv_mac := t\<rparr>)),
       Input ''MTU'' True (cv_mtu values) (\<lambda>t. (vlanId, initialAddress,
               values\<lparr>cv_mtu := number_input t\<rparr>)),
       Select ''VRF'' True ([''''] @ vrfOptions) (cv_vrf values)
         (\<lambda>t. (vlanId, initialAddress, values\<lparr>cv_vrf := t\<rparr>))]
      @ (if vlan = None
         then [Input ''Initial address (optional)'' True initialAddress
                 (\<lambda>t. (vlanId, t, values))]
         else [])
      @ [Check ''Disable this VLAN interface'' True (cv_disabled values)
           (\<lambda>b. (vlanId, initialAddress, values\<lparr>cv_disabled := b\<rparr>))])
     @ [Button
          (case vlan of
               Some vlan' \<Rightarrow> ''Queue changes''
             | None \<Rightarrow> ''Queue new VLAN'')
          (VlanSection_VlanFormFields_canSubmit vlan existingIds vlanId)
          (VlanSection_VlanFormFields_submit parentPath parentPathLabel vlan existingIds vlanId
               initialAddress values)]"

text \<open>\<open>pages/firewall/GroupsPage.tsx\<close>\<close>

definition GroupsPage_CreateGroupForm_controls ::
    "string \<Rightarrow> text_input \<Rightarrow> text_input \<Rightarrow> text_input \<Rightarrow> (text_input \<times> text_input \<times> text_input) widget list" where
  "GroupsPage_CreateGroupForm_controls ty name description firstMember =
     [Input ''Name'' True name (\<lambda>t. (t, description, firstMember)),
      Input ''Description (optional)'' True description (\<lambda>t. (name, t, firstMember)),
      Input ''First member'' True firstMember (\<lambda>t. (name, description, t)),
      Button ''Queue group creation'' (GroupsPage_CreateGroupForm_valid name firstMember)
        (GroupsPage_CreateGroupForm_submit ty name description firstMember)]"

definition GroupsPage_GroupCard_controls ::
    "FirewallGroup \<Rightarrow> text_input \<Rightarrow> text_input widget list" where
  "GroupsPage_GroupCard_controls grp newMember =
     [Button ''Delete group'' True (GroupsPage_GroupCard_queueDelete grp)]
     @ concat (map
            (\<lambda>member. [Button (''Remove '' @ member @ '' from group '' @ fg_name grp) True
                    (GroupsPage_GroupCard_queueRemoveMember grp member)]) (fg_members grp))
     @ [Input '''' True newMember (\<lambda>t. t),
        Button ''Add'' (newMember \<noteq> '''') (GroupsPage_GroupCard_queueAddMember grp newMember)]"

text \<open>\<open>pages/firewall/RulesetsPage.tsx\<close>\<close>

definition RulesetsPage_CreateRulesetForm_controls ::
    "text_input \<Rightarrow> text_input \<Rightarrow> text_input \<Rightarrow> text_input \<Rightarrow> text_input \<Rightarrow> text_input \<Rightarrow> (text_input \<times> text_input \<times> text_input \<times> text_input \<times> text_input \<times> text_input) widget list" where
  "RulesetsPage_CreateRulesetForm_controls name family description firstRuleAction firstRuleProtocol firstRuleDescription =
     [Input ''Name'' True name (\<lambda>t. (t, family, description, firstRuleAction,
              firstRuleProtocol, firstRuleDescription)),
      Select ''Family'' True [''ipv4'', ''ipv6''] family (\<lambda>t. (name, t, description,
              firstRuleAction, firstRuleProtocol, firstRuleDescription)),
      Input ''Description (optional)'' True description (\<lambda>t. (name, family, t,
              firstRuleAction, firstRuleProtocol, firstRuleDescription)),
      Select ''Action'' True ['''', ''accept'', ''drop'', ''reject''] firstRuleAction
        (\<lambda>t. (name, family, description, t, firstRuleProtocol, firstRuleDescription)),
      Input ''Protocol (optional)'' True firstRuleProtocol (\<lambda>t. (name, family, description,
              firstRuleAction, t, firstRuleDescription)),
      Input ''Description (optional)'' True firstRuleDescription
        (\<lambda>t. (name, family, description, firstRuleAction, firstRuleProtocol, t)),
      Button ''Queue ruleset creation'' (RulesetsPage_CreateRulesetForm_valid name)
        (RulesetsPage_CreateRulesetForm_submit name family description firstRuleAction
             firstRuleProtocol firstRuleDescription)]"

text \<open>\<open>pages/firewall/ZonesPage.tsx\<close>\<close>

definition ZonesPage_CreateZoneForm_controls ::
    "text_input \<Rightarrow> text_input \<Rightarrow> bool \<Rightarrow> text_input \<Rightarrow> text_input \<Rightarrow> text_input \<Rightarrow> (text_input \<times> text_input \<times> bool \<times> text_input \<times> text_input \<times> text_input) widget list" where
  "ZonesPage_CreateZoneForm_controls name interfaces localZone defaultAction firstFromZone firstFromRuleset =
     [Input ''Name'' True name (\<lambda>t. (t, interfaces, localZone, defaultAction, firstFromZone,
              firstFromRuleset)),
      Select ''Default action'' True [''drop'', ''reject''] defaultAction
        (\<lambda>t. (name, interfaces, localZone, t, firstFromZone, firstFromRuleset)),
      Check ''This is the local zone (traffic to/from the router itself)'' True localZone
        (\<lambda>b. (name, interfaces, b, defaultAction, firstFromZone, firstFromRuleset))]
     @ (if \<not> localZone
        then [Input ''Member interfaces (comma-separated)'' True interfaces
                (\<lambda>t. (name, t, localZone, defaultAction, firstFromZone, firstFromRuleset))]
        else [])
     @ [Input ''source zone'' True firstFromZone (\<lambda>t. (name, interfaces, localZone,
                defaultAction, t, firstFromRuleset)),
        Input ''ruleset name'' True firstFromRuleset (\<lambda>t. (name, interfaces, localZone,
                defaultAction, firstFromZone, t)),
        Button ''Queue zone creation'' (ZonesPage_CreateZoneForm_valid name interfaces localZone)
          (ZonesPage_CreateZoneForm_submit name interfaces localZone defaultAction firstFromZone
               firstFromRuleset)]"

text \<open>\<open>pages/dhcp/NetworksPage.tsx\<close>\<close>

definition NetworksPage_CreateNetworkForm_controls ::
    "string list \<Rightarrow> text_input \<Rightarrow> text_input \<Rightarrow> text_input \<Rightarrow> text_input \<Rightarrow> text_input \<Rightarrow> (text_input \<times> text_input \<times> text_input \<times> text_input \<times> text_input) widget list" where
  "NetworksPage_CreateNetworkForm_controls existingNames name cidr subnetId rangeStart rangeStop =
     [Input ''Name'' True name (\<lambda>t. (t, cidr, subnetId, rangeStart, rangeStop)),
      Input ''First subnet CIDR'' True cidr (\<lambda>t. (name, t, subnetId, rangeStart, rangeStop)),
      Input ''Subnet ID'' True subnetId (\<lambda>t. (name, cidr, number_input t, rangeStart,
              rangeStop)),
      Input ''First range start (optional)'' True rangeStart
        (\<lambda>t. (name, cidr, subnetId, t, rangeStop)),
      Input ''First range stop (optional)'' True rangeStop (\<lambda>t. (name, cidr, subnetId,
              rangeStart, t)),
      Button ''Queue network creation''
        (NetworksPage_CreateNetworkForm_valid existingNames name cidr subnetId)
        (NetworksPage_CreateNetworkForm_submit existingNames name cidr subnetId rangeStart rangeStop)]"

text \<open>\<open>pages/interfaces/BondingPage.tsx\<close>\<close>

definition BondingPage_CreateBondForm_controls ::
    "string list \<Rightarrow> text_input \<Rightarrow> text_input \<Rightarrow> text_input \<Rightarrow> (text_input \<times> text_input \<times> text_input) widget list" where
  "BondingPage_CreateBondForm_controls existingNames name mode firstMember =
     [Input ''Name'' True name (\<lambda>t. (t, mode, firstMember)),
      Select ''Mode'' True BOND_MODES mode (\<lambda>t. (name, t, firstMember)),
      Input ''First member interface'' True firstMember (\<lambda>t. (name, mode, t)),
      Button ''Queue bond creation''
        (BondingPage_CreateBondForm_valid existingNames name firstMember)
        (BondingPage_CreateBondForm_submit existingNames name mode firstMember)]"

definition BondingPage_BondCard_controls ::
    "BondInterface \<Rightarrow> text_input \<Rightarrow> text_input widget list" where
  "BondingPage_BondCard_controls bond newMember =
     [Button ''Delete bond'' True (BondingPage_BondCard_queueDelete bond)]
     @ (concat (map
             (\<lambda>member. [Button
                     (''Remove member '' @ member @ '' from bond '' @ bi_name bond) True
                     (BondingPage_BondCard_queueRemoveMember bond member)]) (bi_members bond))
        @ [Input ''eth2'' True newMember (\<lambda>t. t),
           Button ''Add member'' (js_trim newMember \<noteq> '''')
             (BondingPage_BondCard_queueAddMember bond newMember)])"

definition BondingPage_BondEditForm_controls ::
    "BondInterface \<Rightarrow> string list \<Rightarrow> BondFormValues \<Rightarrow> BondFormValues widget list" where
  "BondingPage_BondEditForm_controls bond vrfOptions values =
     [Input ''Description'' True (cv_description values) (\<lambda>t. values\<lparr>cv_description := t\<rparr>),
      Select ''Mode'' True BOND_MODES (bv_mode values) (\<lambda>t. values\<lparr>bv_mode := t\<rparr>),
      Input ''MAC address'' True (cv_mac values) (\<lambda>t. values\<lparr>cv_mac := t\<rparr>),
      Input ''MTU'' True (cv_mtu values) (\<lambda>t. values\<lparr>cv_mtu := number_input t\<rparr>),
      Select ''VRF'' True ([''''] @ vrfOptions) (cv_vrf values)
        (\<lambda>t. values\<lparr>cv_vrf := t\<rparr>),
      Select ''Hash policy'' True ([''''] @ BOND_HASH_POLICIES) (bv_hashPolicy values)
        (\<lambda>t. values\<lparr>bv_hashPolicy := t\<rparr>),
      Input ''Primary member'' True (bv_primary values) (\<lambda>t. values\<lparr>bv_primary := t\<rparr>),
      Select ''LACP rate'' True ([''''] @ BOND_LACP_RATES) (bv_lacpRate values)
        (\<lambda>t. values\<lparr>bv_lacpRate := t\<rparr>),
      Input ''Min links'' True (bv_minLinks values) (\<lambda>t. values\<lparr>bv_minLinks := number_input t\<rparr>),
      Check ''Disable this interface'' True (cv_disabled values)
        (\<lambda>b. values\<lparr>cv_disabled := b\<rparr>),
      Button ''Queue changes'' True (BondingPage_BondEditForm_submit bond values)]"

text \<open>\<open>pages/interfaces/BridgePage.tsx\<close>\<close>

definition BridgePage_CreateBridgeForm_controls ::
    "string list \<Rightarrow> text_input \<Rightarrow> text_input \<Rightarrow> (text_input \<times> text_input) widget list" where
  "BridgePage_CreateBridgeForm_controls existingNames name firstMember =
     [Input ''Name'' True name (\<lambda>t. (t, firstMember)),
      Input ''First member interface'' True firstMember (\<lambda>t. (name, t)),
      Button ''Queue bridge creation''
        (BridgePage_CreateBridgeForm_valid existingNames name firstMember)
        (BridgePage_CreateBridgeForm_submit existingNames name firstMember)]"

definition BridgePage_BridgeCard_controls ::
    "BridgeInterface \<Rightarrow> text_input \<Rightarrow> text_input widget list" where
  "BridgePage_BridgeCard_controls bridge newMember =
     [Button ''Delete bridge'' True (BridgePage_BridgeCard_queueDelete bridge),
      Input ''eth2'' True newMember (\<lambda>t. t),
      Button ''Add member'' (js_trim newMember \<noteq> '''')
        (BridgePage_BridgeCard_queueAddMember bridge newMember)]"

definition BridgePage_BridgeEditForm_controls ::
    "BridgeInterface \<Rightarrow> string list \<Rightarrow> BridgeFormValues \<Rightarrow> BridgeFormValues widget list" where
  "BridgePage_BridgeEditForm_controls bridge vrfOptions values =
     [Input ''Description'' True (cv_description values) (\<lambda>t. values\<lparr>cv_description := t\<rparr>),
      Input ''MAC address'' True (cv_mac values) (\<lambda>t. values\<lparr>cv_mac := t\<rparr>),
      Input ''MTU'' True (cv_mtu values) (\<lambda>t. values\<lparr>cv_mtu := number_input t\<rparr>),
      Select ''VRF'' True ([''''] @ vrfOptions) (cv_vrf values)
        (\<lambda>t. values\<lparr>cv_vrf := t\<rparr>),
      Select ''VLAN protocol'' (gv_vlanAware values) ([''''] @ BRIDGE_VLAN_PROTOCOLS)
        (gv_vlanProtocol values) (\<lambda>t. values\<lparr>gv_vlanProtocol := t\<rparr>),
      Check ''Enable STP'' True (gv_stp values) (\<lambda>b. values\<lparr>gv_stp := b\<rparr>),
      Check ''VLAN-aware'' True (gv_vlanAware values) (\<lambda>b. values\<lparr>gv_vlanAware := b\<rparr>),
      Check ''Disable this interface'' True (cv_disabled values)
        (\<lambda>b. values\<lparr>cv_disabled := b\<rparr>),
      Button ''Queue changes'' True (BridgePage_BridgeEditForm_submit bridge values)]"

text \<open>\<open>pages/interfaces/EthernetPage.tsx\<close>\<close>

definition EthernetPage_EthernetEditForm_controls ::
    "EthernetInterface \<Rightarrow> string list \<Rightarrow> CommonInterfaceFormValues \<Rightarrow> CommonInterfaceFormValues widget list" where
  "EthernetPage_EthernetEditForm_controls iface vrfOptions values =
     [Input ''Description'' True (cv_description values) (\<lambda>t. values\<lparr>cv_description := t\<rparr>),
      Input ''MAC address'' True (cv_mac values) (\<lambda>t. values\<lparr>cv_mac := t\<rparr>),
      Input ''MTU'' True (cv_mtu values) (\<lambda>t. values\<lparr>cv_mtu := number_input t\<rparr>),
      Select ''VRF'' True ([''''] @ vrfOptions) (cv_vrf values)
        (\<lambda>t. values\<lparr>cv_vrf := t\<rparr>),
      Check ''Disable this interface'' True (cv_disabled values)
        (\<lambda>b. values\<lparr>cv_disabled := b\<rparr>),
      Button ''Queue changes'' True (EthernetPage_EthernetEditForm_submit iface values)]"

text \<open>\<open>pages/interfaces/VrfPage.tsx\<close>\<close>

definition VrfPage_VrfRow_controls :: "Vrf \<Rightarrow> unit widget list" where
  "VrfPage_VrfRow_controls vrf = [Button ''Delete VRF'' True (VrfPage_VrfRow_queueDelete vrf)]"

definition VrfPage_CreateVrfForm_controls ::
    "text_input \<Rightarrow> text_input \<Rightarrow> (text_input \<times> text_input) widget list" where
  "VrfPage_CreateVrfForm_controls name table =
     [Input ''Name'' True name (\<lambda>t. (t, table)),
      Input ''Routing table ID'' True table (\<lambda>t. (name, t)),
      Button ''Queue VRF creation'' (VrfPage_CreateVrfForm_valid name table)
        (VrfPage_CreateVrfForm_submit name table)]"

subsection \<open>What is typed and clicked\<close>

lemmas network_views =
  RuleForm_MatchFields_controls_def RuleForm_controls_def ZoneMatrix_MatrixCellEditor_controls_def
  NATRuleForm_MatchFields_controls_def NATRuleForm_controls_def NATStaticRuleForm_controls_def
  MakeStaticModal_controls_def NetworkCard_CreateSubnetForm_controls_def
  NetworkCard_NetworkEditForm_controls_def StaticMappingSection_MappingFormFields_controls_def
  SubnetCard_SubnetEditForm_controls_def VlanSection_VlanFormFields_controls_def
  GroupsPage_CreateGroupForm_controls_def GroupsPage_GroupCard_controls_def
  RulesetsPage_CreateRulesetForm_controls_def ZonesPage_CreateZoneForm_controls_def
  NetworksPage_CreateNetworkForm_controls_def BondingPage_CreateBondForm_controls_def
  BondingPage_BondCard_controls_def BondingPage_BondEditForm_controls_def
  BridgePage_CreateBridgeForm_controls_def BridgePage_BridgeCard_controls_def
  BridgePage_BridgeEditForm_controls_def EthernetPage_EthernetEditForm_controls_def
  VrfPage_CreateVrfForm_controls_def NATRuleList_controls_def NATStaticRuleList_controls_def
  NetworkCard_controls_def StaticMappingSection_controls_def SubnetCard_controls_def
  VlanSection_controls_def VrfPage_VrfRow_controls_def

lemma network_controlled:
  "controlled (RuleForm_MatchFields_controls showMacAddress)"
  "controlled (\<lambda>(ruleNumber, values_1). RuleForm_controls rulesetRef rule existingNumbers tab ruleNumber values_1)"
  "controlled (ZoneMatrix_MatrixCellEditor_controls rulesets)"
  "controlled NATRuleForm_MatchFields_controls"
  "controlled (\<lambda>(ruleNumber, values_3). NATRuleForm_controls kind rule_1 existingNumbers tab ruleNumber values_3)"
  "controlled (\<lambda>(ruleNumber, values_4). NATStaticRuleForm_controls rule_2 existingNumbers ruleNumber values_4)"
  "controlled (\<lambda>(name, values_5). MakeStaticModal_controls mapping name values_5)"
  "controlled (\<lambda>(cidr, subnetId). NetworkCard_CreateSubnetForm_controls networkName existingCidrs cidr subnetId)"
  "controlled (NetworkCard_NetworkEditForm_controls network)"
  "controlled (\<lambda>(name, values_5). StaticMappingSection_MappingFormFields_controls networkName cidr mapping existingNames name values_5)"
  "controlled (SubnetCard_SubnetEditForm_controls networkName subnet)"
  "controlled (\<lambda>(vlanId, initialAddress, values_8). VlanSection_VlanFormFields_controls parentPath parentPathLabel vrfOptions vlan existingIds vlanId initialAddress values_8)"
  "controlled (\<lambda>(name, description, firstMember). GroupsPage_CreateGroupForm_controls ty name description firstMember)"
  "controlled (GroupsPage_GroupCard_controls grp)"
  "controlled (\<lambda>(name, family, description, firstRuleAction, firstRuleProtocol, firstRuleDescription). RulesetsPage_CreateRulesetForm_controls name family description firstRuleAction firstRuleProtocol firstRuleDescription)"
  "controlled (\<lambda>(name, interfaces, localZone, defaultAction, firstFromZone, firstFromRuleset). ZonesPage_CreateZoneForm_controls name interfaces localZone defaultAction firstFromZone firstFromRuleset)"
  "controlled (\<lambda>(name, cidr, subnetId, rangeStart, rangeStop). NetworksPage_CreateNetworkForm_controls existingNames name cidr subnetId rangeStart rangeStop)"
  "controlled (\<lambda>(name, mode, firstMember). BondingPage_CreateBondForm_controls existingNames name mode firstMember)"
  "controlled (BondingPage_BondCard_controls bond)"
  "controlled (BondingPage_BondEditForm_controls bond vrfOptions)"
  "controlled (\<lambda>(name, firstMember). BridgePage_CreateBridgeForm_controls existingNames name firstMember)"
  "controlled (BridgePage_BridgeCard_controls bridge)"
  "controlled (BridgePage_BridgeEditForm_controls bridge vrfOptions)"
  "controlled (EthernetPage_EthernetEditForm_controls iface vrfOptions)"
  "controlled (\<lambda>(name, table). VrfPage_CreateVrfForm_controls name table)"
  by (simp_all add: controlled_def network_views view_simps)

inductive network_typed :: "string \<Rightarrow> shown \<Rightarrow> (string \<times> shown) list \<Rightarrow> bool" where
  "typing (RuleForm_MatchFields_controls showMacAddress) l y scr \<Longrightarrow> network_typed l y scr"
| "typing (\<lambda>(ruleNumber, values_1). RuleForm_controls rulesetRef rule existingNumbers tab ruleNumber values_1) l y scr \<Longrightarrow> network_typed l y scr"
| "typing (ZoneMatrix_MatrixCellEditor_controls rulesets) l y scr \<Longrightarrow> network_typed l y scr"
| "typing NATRuleForm_MatchFields_controls l y scr \<Longrightarrow> network_typed l y scr"
| "typing (\<lambda>(ruleNumber, values_3). NATRuleForm_controls kind rule_1 existingNumbers tab ruleNumber values_3) l y scr \<Longrightarrow> network_typed l y scr"
| "typing (\<lambda>(ruleNumber, values_4). NATStaticRuleForm_controls rule_2 existingNumbers ruleNumber values_4) l y scr \<Longrightarrow> network_typed l y scr"
| "typing (\<lambda>(name, values_5). MakeStaticModal_controls mapping name values_5) l y scr \<Longrightarrow> network_typed l y scr"
| "typing (\<lambda>(cidr, subnetId). NetworkCard_CreateSubnetForm_controls networkName existingCidrs cidr subnetId) l y scr \<Longrightarrow> network_typed l y scr"
| "typing (NetworkCard_NetworkEditForm_controls network) l y scr \<Longrightarrow> network_typed l y scr"
| "typing (\<lambda>(name, values_5). StaticMappingSection_MappingFormFields_controls networkName cidr mapping existingNames name values_5) l y scr \<Longrightarrow> network_typed l y scr"
| "typing (SubnetCard_SubnetEditForm_controls networkName subnet) l y scr \<Longrightarrow> network_typed l y scr"
| "typing (\<lambda>(vlanId, initialAddress, values_8). VlanSection_VlanFormFields_controls parentPath parentPathLabel vrfOptions vlan existingIds vlanId initialAddress values_8) l y scr \<Longrightarrow> network_typed l y scr"
| "typing (\<lambda>(name, description, firstMember). GroupsPage_CreateGroupForm_controls ty name description firstMember) l y scr \<Longrightarrow> network_typed l y scr"
| "typing (GroupsPage_GroupCard_controls grp) l y scr \<Longrightarrow> network_typed l y scr"
| "typing (\<lambda>(name, family, description, firstRuleAction, firstRuleProtocol, firstRuleDescription). RulesetsPage_CreateRulesetForm_controls name family description firstRuleAction firstRuleProtocol firstRuleDescription) l y scr \<Longrightarrow> network_typed l y scr"
| "typing (\<lambda>(name, interfaces, localZone, defaultAction, firstFromZone, firstFromRuleset). ZonesPage_CreateZoneForm_controls name interfaces localZone defaultAction firstFromZone firstFromRuleset) l y scr \<Longrightarrow> network_typed l y scr"
| "typing (\<lambda>(name, cidr, subnetId, rangeStart, rangeStop). NetworksPage_CreateNetworkForm_controls existingNames name cidr subnetId rangeStart rangeStop) l y scr \<Longrightarrow> network_typed l y scr"
| "typing (\<lambda>(name, mode, firstMember). BondingPage_CreateBondForm_controls existingNames name mode firstMember) l y scr \<Longrightarrow> network_typed l y scr"
| "typing (BondingPage_BondCard_controls bond) l y scr \<Longrightarrow> network_typed l y scr"
| "typing (BondingPage_BondEditForm_controls bond vrfOptions) l y scr \<Longrightarrow> network_typed l y scr"
| "typing (\<lambda>(name, firstMember). BridgePage_CreateBridgeForm_controls existingNames name firstMember) l y scr \<Longrightarrow> network_typed l y scr"
| "typing (BridgePage_BridgeCard_controls bridge) l y scr \<Longrightarrow> network_typed l y scr"
| "typing (BridgePage_BridgeEditForm_controls bridge vrfOptions) l y scr \<Longrightarrow> network_typed l y scr"
| "typing (EthernetPage_EthernetEditForm_controls iface vrfOptions) l y scr \<Longrightarrow> network_typed l y scr"
| "typing (\<lambda>(name, table). VrfPage_CreateVrfForm_controls name table) l y scr \<Longrightarrow> network_typed l y scr"

lemma network_typed_shown: "network_typed l y scr \<Longrightarrow> answers l y scr"
  by (induction rule: network_typed.induct) (erule controlled_typing, rule network_controlled)+

lemma network_acting:
  "list_all (acting (network_editor ''firewall'')) (RuleForm_controls rulesetRef rule existingNumbers tab ruleNumber values_1)"
  "list_all (acting (network_editor ''nat'')) (NATRuleForm_controls kind rule_1 existingNumbers tab ruleNumber values_3)"
  "list_all (acting (network_editor ''nat'')) (NATRuleList_controls kind rules)"
  "list_all (acting (network_editor ''nat'')) (NATStaticRuleForm_controls rule_2 existingNumbers ruleNumber values_4)"
  "list_all (acting (network_editor ''nat'')) (NATStaticRuleList_controls rules_1)"
  "list_all (acting (network_editor ''service'')) (NetworkCard_controls network expanded)"
  "list_all (acting (network_editor ''service'')) (NetworkCard_CreateSubnetForm_controls networkName existingCidrs cidr subnetId)"
  "list_all (acting (network_editor ''service'')) (NetworkCard_NetworkEditForm_controls network values_6)"
  "list_all (acting (network_editor ''service'')) (StaticMappingSection_controls networkName cidr mappings)"
  "list_all (acting (network_editor ''service'')) (StaticMappingSection_MappingFormFields_controls networkName cidr mapping existingNames name values_5)"
  "list_all (acting (network_editor ''service'')) (SubnetCard_controls networkName subnet)"
  "list_all (acting (network_editor ''service'')) (SubnetCard_SubnetEditForm_controls networkName subnet values_7)"
  "prefix [sec] parentPath \<Longrightarrow> list_all (acting (network_editor sec)) (VlanSection_controls parentPath parentPathLabel vlans)"
  "prefix [sec] parentPath \<Longrightarrow> list_all (acting (network_editor sec)) (VlanSection_VlanFormFields_controls parentPath parentPathLabel vrfOptions vlan existingIds vlanId initialAddress values_8)"
  "list_all (acting (network_editor ''firewall'')) (GroupsPage_CreateGroupForm_controls ty name description firstMember)"
  "list_all (acting (network_editor ''firewall'')) (GroupsPage_GroupCard_controls grp newMember)"
  "list_all (acting (network_editor ''firewall'')) (RulesetsPage_CreateRulesetForm_controls name family description firstRuleAction firstRuleProtocol firstRuleDescription)"
  "list_all (acting (network_editor ''service'')) (NetworksPage_CreateNetworkForm_controls existingNames name cidr subnetId rangeStart rangeStop)"
  "list_all (acting (network_editor ''interfaces'')) (BondingPage_BondCard_controls bond newMember)"
  "list_all (acting (network_editor ''interfaces'')) (BondingPage_BondEditForm_controls bond vrfOptions values_9)"
  "list_all (acting (network_editor ''interfaces'')) (BridgePage_CreateBridgeForm_controls existingNames name firstMember)"
  "list_all (acting (network_editor ''interfaces'')) (BridgePage_BridgeCard_controls bridge newMember)"
  "list_all (acting (network_editor ''interfaces'')) (BridgePage_BridgeEditForm_controls bridge vrfOptions values_10)"
  "list_all (acting (network_editor ''interfaces'')) (EthernetPage_EthernetEditForm_controls iface vrfOptions values_8)"
  "list_all (acting (network_editor ''vrf'')) (VrfPage_VrfRow_controls vrf)"
  by (simp_all add: network_views view_simps network_editor.intros)

text \<open>The changes \<open>adds\<close> that one click in a component of the section \<open>sec\<close> puts in the cart.\<close>

inductive network_click :: "string \<Rightarrow> (ConfigOp \<times> string) list \<Rightarrow> bool" where
  "clicked (RuleForm_controls rulesetRef rule existingNumbers tab ruleNumber values_1) adds \<Longrightarrow> network_click ''firewall'' adds"
| "clicked (NATRuleForm_controls kind rule_1 existingNumbers tab ruleNumber values_3) adds \<Longrightarrow> network_click ''nat'' adds"
| "clicked (NATRuleList_controls kind rules) adds \<Longrightarrow> network_click ''nat'' adds"
| "clicked (NATStaticRuleForm_controls rule_2 existingNumbers ruleNumber values_4) adds \<Longrightarrow> network_click ''nat'' adds"
| "clicked (NATStaticRuleList_controls rules_1) adds \<Longrightarrow> network_click ''nat'' adds"
| "clicked (NetworkCard_controls network expanded) adds \<Longrightarrow> network_click ''service'' adds"
| "clicked (NetworkCard_CreateSubnetForm_controls networkName existingCidrs cidr subnetId) adds \<Longrightarrow> network_click ''service'' adds"
| "clicked (NetworkCard_NetworkEditForm_controls network values_6) adds \<Longrightarrow> network_click ''service'' adds"
| "clicked (StaticMappingSection_controls networkName cidr mappings) adds \<Longrightarrow> network_click ''service'' adds"
| "clicked (StaticMappingSection_MappingFormFields_controls networkName cidr mapping existingNames name values_5) adds \<Longrightarrow> network_click ''service'' adds"
| "clicked (SubnetCard_controls networkName subnet) adds \<Longrightarrow> network_click ''service'' adds"
| "clicked (SubnetCard_SubnetEditForm_controls networkName subnet values_7) adds \<Longrightarrow> network_click ''service'' adds"
| "prefix [sec] parentPath \<Longrightarrow> clicked (VlanSection_controls parentPath parentPathLabel vlans) adds \<Longrightarrow> network_click sec adds"
| "prefix [sec] parentPath \<Longrightarrow> clicked (VlanSection_VlanFormFields_controls parentPath parentPathLabel vrfOptions vlan existingIds vlanId initialAddress values_8) adds \<Longrightarrow> network_click sec adds"
| "clicked (GroupsPage_CreateGroupForm_controls ty name description firstMember) adds \<Longrightarrow> network_click ''firewall'' adds"
| "clicked (GroupsPage_GroupCard_controls grp newMember) adds \<Longrightarrow> network_click ''firewall'' adds"
| "clicked (RulesetsPage_CreateRulesetForm_controls name family description firstRuleAction firstRuleProtocol firstRuleDescription) adds \<Longrightarrow> network_click ''firewall'' adds"
| "clicked (NetworksPage_CreateNetworkForm_controls existingNames name cidr subnetId rangeStart rangeStop) adds \<Longrightarrow> network_click ''service'' adds"
| "clicked (BondingPage_BondCard_controls bond newMember) adds \<Longrightarrow> network_click ''interfaces'' adds"
| "clicked (BondingPage_BondEditForm_controls bond vrfOptions values_9) adds \<Longrightarrow> network_click ''interfaces'' adds"
| "clicked (BridgePage_CreateBridgeForm_controls existingNames name firstMember) adds \<Longrightarrow> network_click ''interfaces'' adds"
| "clicked (BridgePage_BridgeCard_controls bridge newMember) adds \<Longrightarrow> network_click ''interfaces'' adds"
| "clicked (BridgePage_BridgeEditForm_controls bridge vrfOptions values_10) adds \<Longrightarrow> network_click ''interfaces'' adds"
| "clicked (EthernetPage_EthernetEditForm_controls iface vrfOptions values_8) adds \<Longrightarrow> network_click ''interfaces'' adds"
| "clicked (VrfPage_VrfRow_controls vrf) adds \<Longrightarrow> network_click ''vrf'' adds"

lemma network_click_editor: "network_click sec adds \<Longrightarrow> network_editor sec adds"
  by (induction rule: network_click.induct) (erule acting_clicked, rule network_acting, assumption?)+

end
