(* ===== verification/ScreenForms.thy ===== *)
theory ScreenForms
  imports FormQueue RuleNumbers ViewRouting ViewNetwork
begin

text \<open>
  The forms of numbered rules on the screen, from the first key to the form opened again after the commit. The
  locale \<open>screen_form\<close> states what such a form must promise: its button queues its ops, its inputs keep what
  the form does not show, and its ops write what it shows. It is interpreted for the rules of the firewall, of
  NAT (source, destination and static), of a route map and of local routing.
\<close>

text \<open>The states the user can reach in a form by using its controls, over all tabs.\<close>

inductive form_session :: "(string \<Rightarrow> 's \<Rightarrow> 's widget list) \<Rightarrow> 's \<Rightarrow> 's \<Rightarrow> bool" for view st0 where
  opened: "form_session view st0 st0"
| used: "form_session view st0 st \<Longrightarrow> w \<in> set (view tab st) \<Longrightarrow> uses w l y st' \<Longrightarrow> form_session view st0 st'"

lemma queue_labelled_form:
  "queue_labelled uuids (map (\<lambda>op. (op, change_label op)) ops) cart = queue_form uuids ops cart"
  by (induction uuids ops arbitrary: cart rule: list_induct2')
    (simp_all add: queue_labelled_def queue_form_def)

locale screen_form =
  fixes view :: "'a option \<Rightarrow> string list \<Rightarrow> string \<Rightarrow> text_input \<times> 'v \<Rightarrow> (text_input \<times> 'v) widget list"
    and values_of :: "'a option \<Rightarrow> 'v"
    and item_at :: "node_map \<Rightarrow> string \<Rightarrow> 'a option"
    and ops_of :: "string \<Rightarrow> 'a option \<Rightarrow> 'v \<Rightarrow> ConfigOp list"
    and shown_ok :: "node_map \<Rightarrow> string \<Rightarrow> bool"
    and kept :: "'v \<Rightarrow> 'v \<Rightarrow> bool"
    and clean :: "'v \<Rightarrow> bool"
  assumes click_ops: "clicked (view it existing tab (n, v)) adds \<Longrightarrow>
      adds = map (\<lambda>op. (op, change_label op)) (ops_of n it v)"
    and same_screen: "screen (view it existing tab st) = screen (view it' existing' tab st)"
    and opened_kept: "shown_ok m n \<Longrightarrow> kept (values_of (item_at m n)) (values_of (item_at m n))"
    and entry_kept: "kept v0 (snd st) \<Longrightarrow> w \<in> set (view it existing tab st) \<Longrightarrow> uses w l y st' \<Longrightarrow> kept v0 (snd st')"
    and read_back: "shown_ok m n \<Longrightarrow> kept (values_of (item_at m n)) v \<Longrightarrow> clean v \<Longrightarrow>
      values_of (item_at (device_apply (ops_of n (item_at m n) v) m) n) = v"
    and accepted: "shown_ok (fv_config s) n \<Longrightarrow> length uuids = length (ops_of n it v) \<Longrightarrow>
      commit_cart (queue_form uuids (ops_of n it v) []) c s
        = (Fake_success, s\<lparr>fv_config := device_apply (ops_of n it v) (fv_config s),
             fv_pending := (if 0 < c then True else fv_pending s)\<rparr>)"
begin

lemma session_kept: "form_session (view it existing) st0 st \<Longrightarrow> kept v0 (snd st0) \<Longrightarrow> kept v0 (snd st)"
  by (induction rule: form_session.induct) (auto intro: entry_kept)

lemma saved_screen:
  assumes "it = item_at (fv_config s) n" and "shown_ok (fv_config s) n"
    and "form_session (view it existing) (n0, values_of it) (n, v)" and "clean v"
    and "clicked (view it existing tab (n, v)) adds" and "length uuids = length adds"
    and "commit_cart (queue_labelled uuids adds []) c s = (reply, s')"
    and "it' = item_at (fv_config s') n"
  shows "reply = Fake_success \<and> values_of it' = v
    \<and> screen (view it' existing' tab' (n, values_of it')) = screen (view it existing tab' (n, v))"
proof -
  have kept: "kept (values_of it) v"
    using session_kept [OF assms(3), of "values_of it"] opened_kept [OF assms(2)] assms(1) by simp
  have adds: "adds = map (\<lambda>op. (op, change_label op)) (ops_of n it v)" by (rule click_ops [OF assms(5)])
  have "commit_cart (queue_labelled uuids adds []) c s
    = (Fake_success, s\<lparr>fv_config := device_apply (ops_of n it v) (fv_config s),
         fv_pending := (if 0 < c then True else fv_pending s)\<rparr>)"
    unfolding adds queue_labelled_form by (rule accepted [OF assms(2)]) (use assms(6) in \<open>simp add: adds\<close>)
  then have run: "reply = Fake_success" "fv_config s' = device_apply (ops_of n it v) (fv_config s)"
    using assms(7) by auto
  have "values_of it' = v"
    unfolding assms(8) run(2) assms(1) by (rule read_back [OF assms(2) _ assms(4)]) (use kept assms(1) in simp)
  then show ?thesis using run(1) same_screen by metis
qed

end

subsection \<open>The rules of the firewall\<close>

definition fw_shown_ok :: "RulesetRef \<Rightarrow> node_map \<Rightarrow> string \<Rightarrow> bool" where
  "fw_shown_ok ref m n \<longleftrightarrow> plain_path (rulePath ref n [])
     \<and> read_str (device_get m (rulePath ref n [''action''])) \<in> set ('''' # RULE_ACTIONS)"

text \<open>The form keeps the destination MAC address it was opened with, and its action is one of the choice's.\<close>

definition fw_kept :: "RuleFormValues \<Rightarrow> RuleFormValues \<Rightarrow> bool" where
  "fw_kept v0 v \<longleftrightarrow> rf_action v \<in> set ('''' # RULE_ACTIONS)
     \<and> mf_macAddress (rf_destination v) = mf_macAddress (rf_destination v0)"

lemma device_rule_mac:
  "mf_macAddress (rf_destination (ruleToFormValues (parseRule family n (device_get m (rulePath rulesetRef n [])))))
   = read_str (device_get m (rulePath rulesetRef n [''destination'', ''mac-address'']))"
  by (subst (2) rulePath_append)
    (simp add: firewall_form_defs device_get_append tree_get_Cons tree_get_Nil)

lemma rule_values: "RuleForm_values (device_rule ref n m)
    = ruleToFormValues (parseRule (rr_family ref) n (device_get m (rulePath ref n [])))"
  using device_rule_values [of ref n m] by (simp add: RuleForm_values_def)

lemma parsed_action: "rf_action (ruleToFormValues (parseRule family n t)) \<in> set ('''' # RULE_ACTIONS)"
  by (auto simp: ruleToFormValues_def parseRule_def find_literal_def or_else_def find_Some_iff split: option.splits)

interpretation fw_screen: screen_form
  "\<lambda>it existing tab st. RuleForm_controls ref it existing tab (fst st) (snd st)"
  RuleForm_values "\<lambda>m n. device_rule ref n m" "ruleFormToOps ref" "fw_shown_ok ref" fw_kept
  "trimmed_form (RULE_SCALAR_FIELDS (rr_family ref))" for ref
proof unfold_locales
  fix it existing tab n v adds
  assume "clicked (RuleForm_controls ref it existing tab (fst (n, v)) (snd (n, v))) adds"
  then show "adds = map (\<lambda>op. (op, change_label op)) (ruleFormToOps ref n it v)"
    by (rule acting_clicked)
      (simp add: RuleForm_controls_def RuleForm_MatchFields_controls_def view_simps RuleForm_submit_def)
next
  fix m n
  show "fw_kept (RuleForm_values (device_rule ref n m)) (RuleForm_values (device_rule ref n m))"
    unfolding fw_kept_def rule_values using parsed_action by blast
next
  fix v0 st w it existing tab l y st'
  assume "fw_kept v0 (snd st)" "w \<in> set (RuleForm_controls ref it existing tab (fst st) (snd st))" "uses w l y st'"
  then show "fw_kept v0 (snd st')"
    by (auto simp: fw_kept_def RuleForm_controls_def RuleForm_MatchFields_controls_def in_group_def among_def
        split: if_splits)
next
  fix m n v
  assume ok: "fw_shown_ok ref m n" and kept: "fw_kept (RuleForm_values (device_rule ref n m)) v"
    and "trimmed_form (RULE_SCALAR_FIELDS (rr_family ref)) v"
  then have "RuleForm_values (device_rule ref n (device_apply (ruleFormToOps ref n (device_rule ref n m) v) m))
    = v\<lparr>rf_destination := (rf_destination v)\<lparr>mf_macAddress :=
        read_str (device_get m (rulePath ref n [''destination'', ''mac-address'']))\<rparr>\<rparr>"
    unfolding rule_values by (intro firewall_form_saved) (simp_all add: fw_shown_ok_def fw_kept_def)
  also have "\<dots> = v" using kept by (simp add: fw_kept_def rule_values device_rule_mac)
  finally show "RuleForm_values (device_rule ref n (device_apply (ruleFormToOps ref n (device_rule ref n m) v) m)) = v" .
next
  fix s :: fake_vyos and n and uuids :: "string list" and it v c
  assume "fw_shown_ok ref (fv_config s) n" and "length uuids = length (ruleFormToOps ref n it v)"
  then show "commit_cart (queue_form uuids (ruleFormToOps ref n it v) []) c s
    = (Fake_success, s\<lparr>fv_config := device_apply (ruleFormToOps ref n it v) (fv_config s),
         fv_pending := (if 0 < c then True else fv_pending s)\<rparr>)"
    by (intro committed_form [where p = "rulePath ref n []", OF _ _ _ rule_fields_indep])
      (simp_all add: fw_shown_ok_def ruleFormToOps_def Let_def RULE_SCALAR_FIELDS_def RULE_FLAG_FIELDS_def)
qed (simp add: RuleForm_controls_def)

subsection \<open>The rules of NAT\<close>

definition nat_shown_ok :: "string \<Rightarrow> node_map \<Rightarrow> string \<Rightarrow> bool" where
  "nat_shown_ok kind m n \<longleftrightarrow> plain_path (natRulePath kind n []) \<and> nat_rule_ok kind (device_get m (natRulePath kind n []))"

lemma nat_values: "NATRuleForm_values (device_item (parseRule_nat kind n) m p)
    = ruleToFormValues_nat (parseRule_nat kind n (device_get m p))"
  by (simp add: NATRuleForm_values_def nat_form.before_form)

interpretation nat_screen: screen_form
  "\<lambda>it existing tab st. NATRuleForm_controls kind it existing tab (fst st) (snd st)"
  NATRuleForm_values "\<lambda>m n. device_item (parseRule_nat kind n) m (natRulePath kind n [])" "ruleFormToOps_nat kind"
  "nat_shown_ok kind" "\<lambda>v0 v. nat_values_ok kind v" "trimmed_form (NAT_FIELDS kind)" for kind
proof unfold_locales
  fix it existing tab n v adds
  assume "clicked (NATRuleForm_controls kind it existing tab (fst (n, v)) (snd (n, v))) adds"
  then show "adds = map (\<lambda>op. (op, change_label op)) (ruleFormToOps_nat kind n it v)"
    by (rule acting_clicked)
      (simp add: NATRuleForm_controls_def NATRuleForm_MatchFields_controls_def view_simps NATRuleForm_submit_def)
next
  fix m n
  assume "nat_shown_ok kind m n"
  then show "nat_values_ok kind (NATRuleForm_values (device_item (parseRule_nat kind n) m (natRulePath kind n [])))"
    by (auto simp: nat_values nat_shown_ok_def nat_values_ok_def nat_rule_ok_def nat_form_defs Let_def)
next
  fix st w it existing tab l y st'
  assume "nat_values_ok kind (snd st)" "w \<in> set (NATRuleForm_controls kind it existing tab (fst st) (snd st))"
    "uses w l y st'"
  then show "nat_values_ok kind (snd st')"
    by (auto simp: nat_values_ok_def NATRuleForm_controls_def NATRuleForm_MatchFields_controls_def in_group_def
        split: if_splits)
next
  fix m n v
  let ?p = "natRulePath kind n []"
  assume "nat_shown_ok kind m n" "nat_values_ok kind v" "trimmed_form (NAT_FIELDS kind) v"
  then show "NATRuleForm_values (device_item (parseRule_nat kind n)
      (device_apply (ruleFormToOps_nat kind n (device_item (parseRule_nat kind n) m ?p) v) m) ?p) = v"
    unfolding nat_values ruleFormToOps_nat_diff
    by (intro nat_form.roundtrip) (simp_all add: nat_shown_ok_def)
next
  fix s :: fake_vyos and n and uuids :: "string list" and it v c
  assume "nat_shown_ok kind (fv_config s) n" and "length uuids = length (ruleFormToOps_nat kind n it v)"
  then show "commit_cart (queue_form uuids (ruleFormToOps_nat kind n it v) []) c s
    = (Fake_success, s\<lparr>fv_config := device_apply (ruleFormToOps_nat kind n it v) (fv_config s),
         fv_pending := (if 0 < c then True else fv_pending s)\<rparr>)"
    by (intro committed_form [OF ruleFormToOps_nat_diff _ _ nat_fields])
      (simp_all add: nat_shown_ok_def NAT_FIELDS_def NAT_SCALAR_FIELDS_def NAT_FLAG_FIELDS_def interfaceSegment_def)
qed (simp add: NATRuleForm_controls_def)

lemma static_values: "NATStaticRuleForm_values (device_item (parseStaticRule n) m p)
    = staticToFormValues (parseStaticRule n (device_get m p))"
  by (simp add: NATStaticRuleForm_values_def nat_static_form.before_form)

interpretation nat_static_screen: screen_form
  "\<lambda>it existing tab st. NATStaticRuleForm_controls it existing (fst st) (snd st)"
  NATStaticRuleForm_values "\<lambda>m n. device_item (parseStaticRule n) m (natStaticRulePath n [])" staticFormToOps
  "\<lambda>m n. plain_path (natStaticRulePath n [])" "\<lambda>v0 v. True" "trimmed_form NAT_STATIC_SCALAR_FIELDS"
proof unfold_locales
  fix it existing and tab :: string and n v adds
  assume "clicked (NATStaticRuleForm_controls it existing (fst (n, v)) (snd (n, v))) adds"
  then show "adds = map (\<lambda>op. (op, change_label op)) (staticFormToOps n it v)"
    by (rule acting_clicked) (simp add: NATStaticRuleForm_controls_def view_simps NATStaticRuleForm_submit_def)
next
  fix m n v
  let ?p = "natStaticRulePath n []"
  assume "trimmed_form NAT_STATIC_SCALAR_FIELDS v"
  then show "NATStaticRuleForm_values (device_item (parseStaticRule n)
      (device_apply (staticFormToOps n (device_item (parseStaticRule n) m ?p) v) m) ?p) = v"
    unfolding static_values staticFormToOps_def Let_def by (intro nat_static_form.roundtrip) simp_all
next
  fix s :: fake_vyos and n and uuids :: "string list" and it v c
  assume "plain_path (natStaticRulePath n [])" and "length uuids = length (staticFormToOps n it v)"
  then show "commit_cart (queue_form uuids (staticFormToOps n it v) []) c s
    = (Fake_success, s\<lparr>fv_config := device_apply (staticFormToOps n it v) (fv_config s),
         fv_pending := (if 0 < c then True else fv_pending s)\<rparr>)"
    by (intro committed_form [where p = "natStaticRulePath n []", OF _ _ _ nat_static_fields])
      (simp_all add: staticFormToOps_def Let_def NAT_STATIC_SCALAR_FIELDS_def NAT_STATIC_FLAG_FIELDS_def)
qed (simp_all add: NATStaticRuleForm_controls_def)

subsection \<open>The rules of a route map and of local routing\<close>

definition route_map_shown_ok :: "string \<Rightarrow> node_map \<Rightarrow> string \<Rightarrow> bool" where
  "route_map_shown_ok mapName m n \<longleftrightarrow> plain_path (routeMapRulePath mapName n [])
     \<and> route_map_rule_ok (device_get m (routeMapRulePath mapName n []))"

lemma route_map_rule_values: "RouteMapRuleForm_values (device_item (parseRouteMapRule n) m p)
    = routeMapRuleToFormValues (parseRouteMapRule n (device_get m p))"
  by (simp add: RouteMapRuleForm_values_def route_map_rule_form.before_form)

interpretation route_map_rule_screen: screen_form
  "\<lambda>it existing tab st. RouteMapRuleForm_controls mapName it existing tab (fst st) (snd st)"
  RouteMapRuleForm_values "\<lambda>m n. device_item (parseRouteMapRule n) m (routeMapRulePath mapName n [])"
  "routeMapRuleFormToOps mapName" "route_map_shown_ok mapName" "\<lambda>v0 v. True"
  "trimmed_form ROUTE_MAP_SCALAR_FIELDS" for mapName
proof unfold_locales
  fix it existing tab n v adds
  assume "clicked (RouteMapRuleForm_controls mapName it existing tab (fst (n, v)) (snd (n, v))) adds"
  then show "adds = map (\<lambda>op. (op, change_label op)) (routeMapRuleFormToOps mapName n it v)"
    by (rule acting_clicked) (simp add: RouteMapRuleForm_controls_def view_simps RouteMapRuleForm_submit_def)
next
  fix m n v
  let ?p = "routeMapRulePath mapName n []"
  assume "route_map_shown_ok mapName m n" "trimmed_form ROUTE_MAP_SCALAR_FIELDS v"
  then show "RouteMapRuleForm_values (device_item (parseRouteMapRule n)
      (device_apply (routeMapRuleFormToOps mapName n (device_item (parseRouteMapRule n) m ?p) v) m) ?p) = v"
    unfolding route_map_rule_values routeMapRuleFormToOps_def Let_def
    by (intro route_map_rule_form.roundtrip) (simp_all add: route_map_shown_ok_def)
next
  fix s :: fake_vyos and n and uuids :: "string list" and it v c
  assume "route_map_shown_ok mapName (fv_config s) n" "length uuids = length (routeMapRuleFormToOps mapName n it v)"
  then show "commit_cart (queue_form uuids (routeMapRuleFormToOps mapName n it v) []) c s
    = (Fake_success, s\<lparr>fv_config := device_apply (routeMapRuleFormToOps mapName n it v) (fv_config s),
         fv_pending := (if 0 < c then True else fv_pending s)\<rparr>)"
    by (intro committed_form [where p = "routeMapRulePath mapName n []", OF _ _ _ route_map_rule_fields])
      (simp_all add: route_map_shown_ok_def routeMapRuleFormToOps_def Let_def ROUTE_MAP_SCALAR_FIELDS_def
        ROUTE_MAP_FLAG_FIELDS_def)
qed (simp_all add: RouteMapRuleForm_controls_def)

lemma local_route_values: "LocalRouteSection_RuleForm_values (device_item (parseLocalRouteRule family n) m p)
    = localRouteToFormValues (parseLocalRouteRule family n (device_get m p))"
  by (simp add: LocalRouteSection_RuleForm_values_def local_route_form.before_form)

interpretation local_route_screen: screen_form
  "\<lambda>it existing tab st. LocalRouteSection_RuleForm_controls family it existing (fst st) (snd st)"
  LocalRouteSection_RuleForm_values
  "\<lambda>m n. device_item (parseLocalRouteRule family n) m (localRouteRulePath family n [])"
  "localRouteFormToOps family" "\<lambda>m n. plain_path (localRouteRulePath family n [])" "\<lambda>v0 v. True"
  "trimmed_form LOCAL_ROUTE_FIELDS" for family
proof unfold_locales
  fix it existing and tab :: string and n v adds
  assume "clicked (LocalRouteSection_RuleForm_controls family it existing (fst (n, v)) (snd (n, v))) adds"
  then show "adds = map (\<lambda>op. (op, change_label op)) (localRouteFormToOps family n it v)"
    by (rule acting_clicked)
      (simp add: LocalRouteSection_RuleForm_controls_def view_simps LocalRouteSection_RuleForm_submit_def)
next
  fix m n v
  let ?p = "localRouteRulePath family n []"
  assume "trimmed_form LOCAL_ROUTE_FIELDS v"
  then show "LocalRouteSection_RuleForm_values (device_item (parseLocalRouteRule family n)
      (device_apply (localRouteFormToOps family n (device_item (parseLocalRouteRule family n) m ?p) v) m) ?p) = v"
    unfolding local_route_values localRouteFormToOps_def Let_def by (intro local_route_form.roundtrip) simp_all
next
  fix s :: fake_vyos and n and uuids :: "string list" and it v c
  assume "plain_path (localRouteRulePath family n [])" "length uuids = length (localRouteFormToOps family n it v)"
  then show "commit_cart (queue_form uuids (localRouteFormToOps family n it v) []) c s
    = (Fake_success, s\<lparr>fv_config := device_apply (localRouteFormToOps family n it v) (fv_config s),
         fv_pending := (if 0 < c then True else fv_pending s)\<rparr>)"
    by (intro committed_form [where p = "localRouteRulePath family n []", OF _ _ _ local_route_fields])
      (simp_all add: localRouteFormToOps_def Let_def LOCAL_ROUTE_FIELDS_def)
qed (simp_all add: LocalRouteSection_RuleForm_controls_def)

end
