(* ===== verification/ViewServices.thy ===== *)
theory ViewServices
  imports Widgets UiServices
begin

text \<open>
  The controls of the service pages, component by component: for given
  props and state, the inputs, choices, switches and buttons its markup shows. A child component with a
  state of its own has its own definition; one without is shown by its parent.
\<close>

text \<open>\<open>components/service/BroadcastRelayList.tsx\<close>\<close>

definition BroadcastRelayList_controls :: "BroadcastRelayConfig \<Rightarrow> unit widget list" where
  "BroadcastRelayList_controls config =
     (if \<not> brc_enabled config
      then [Button ''Enable broadcast relay'' True (BroadcastRelayList_onClick)]
      else [])"

definition BroadcastRelayList_BroadcastRelayEnabled_controls :: "BroadcastRelayConfig \<Rightarrow> unit widget list" where
  "BroadcastRelayList_BroadcastRelayEnabled_controls config =
     [Toggle ''Disable broadcast relay (all instances)'' True (brc_disabled config)
        (\<lambda>_. BroadcastRelayList_BroadcastRelayEnabled_toggleServiceDisable config),
      Button ''Disable entirely (remove config)'' True (BroadcastRelayList_BroadcastRelayEnabled_queueDisable)]
     @ concat
         (map
              (\<lambda>instance1. [Button ''Delete'' True (BroadcastRelayList_BroadcastRelayEnabled_queueDelete (bri_id
                            instance1)),
                    Chips (''service broadcast-relay id '' @ bri_id instance1 @ '' interface'')
                      (bri_interfaces instance1) (broadcastRelayInstancePath (bri_id instance1) []
                       @ [''interface''])]) (brc_instances config))"

definition BroadcastRelayList_InstanceForm_controls ::
    "BroadcastRelayInstance option \<Rightarrow> string list \<Rightarrow> text_input \<Rightarrow> BroadcastRelayInstanceFormValues \<Rightarrow> (text_input \<times> BroadcastRelayInstanceFormValues) widget list" where
  "BroadcastRelayList_InstanceForm_controls instance1 existingIds i values =
     [Input ''ID (1-99) *'' (instance1 = None) i (\<lambda>t. (t, values)),
      Input ''Description'' True (brifv_description values) (\<lambda>t. (i,
              values\<lparr>brifv_description := t\<rparr>)),
      Input ''Source address (IPv4)'' True (brifv_address values)
        (\<lambda>t. (i, values\<lparr>brifv_address := t\<rparr>)),
      Input ''Port'' True (brifv_port values) (\<lambda>t. (i, values\<lparr>brifv_port := t\<rparr>)),
      Check ''Disable this instance'' True (brifv_disabled values)
        (\<lambda>b. (i, values\<lparr>brifv_disabled := b\<rparr>)),
      Button
        (case instance1 of
             Some instance1' \<Rightarrow> ''Save changes''
           | None \<Rightarrow> ''Queue creation'')
        (BroadcastRelayList_InstanceForm_canSubmit instance1 existingIds i)
        (BroadcastRelayList_InstanceForm_submit instance1 existingIds i values)]"

text \<open>\<open>components/service/ConsoleServerList.tsx\<close>\<close>

definition ConsoleServerList_controls :: "ConsoleServerConfig \<Rightarrow> unit widget list" where
  "ConsoleServerList_controls config =
     (if \<not> smcsc_enabled config
      then [Button ''Enable console server'' True (ConsoleServerList_onClick)]
      else [])"

definition ConsoleServerList_ConsoleServerEnabled_controls :: "ConsoleServerConfig \<Rightarrow> unit widget list" where
  "ConsoleServerList_ConsoleServerEnabled_controls config =
     concat
       (map
            (\<lambda>device1. [Button ''Delete'' True (ConsoleServerList_ConsoleServerEnabled_queueDelete (csd_name
                          device1))]) (smcsc_devices config))
     @ [Button ''Disable console server entirely'' True (ConsoleServerList_ConsoleServerEnabled_queueDisable)]"

definition ConsoleServerList_DeviceForm_controls ::
    "ConsoleServerDevice option \<Rightarrow> string list \<Rightarrow> text_input \<Rightarrow> ConsoleServerDeviceFormValues \<Rightarrow> (text_input \<times> ConsoleServerDeviceFormValues) widget list" where
  "ConsoleServerList_DeviceForm_controls device1 existingNames name values =
     [Input ''Device *'' (device1 = None) name (\<lambda>t. (t, values)),
      Input ''Description'' True (csdfv_description values) (\<lambda>t. (name,
              values\<lparr>csdfv_description := t\<rparr>)),
      Input ''Alias'' True (csdfv_alias values) (\<lambda>t. (name, values\<lparr>csdfv_alias := t\<rparr>)),
      Select ''Speed'' True ([''''] @ CONSOLE_SPEEDS) (csdfv_speed values)
        (\<lambda>t. (name, values\<lparr>csdfv_speed := t\<rparr>)),
      Input ''Data bits'' True (csdfv_dataBits values) (\<lambda>t. (name,
              values\<lparr>csdfv_dataBits := t\<rparr>)),
      Input ''Stop bits'' True (csdfv_stopBits values) (\<lambda>t. (name,
              values\<lparr>csdfv_stopBits := t\<rparr>)),
      Select ''Parity'' True ([''''] @ CONSOLE_PARITIES) (csdfv_parity values)
        (\<lambda>t. (name, values\<lparr>csdfv_parity := t\<rparr>)),
      Input ''SSH wrapper port'' True (csdfv_sshPort values)
        (\<lambda>t. (name, values\<lparr>csdfv_sshPort := t\<rparr>)),
      Button
        (case device1 of
             Some device' \<Rightarrow> ''Save changes''
           | None \<Rightarrow> ''Queue creation'')
        (ConsoleServerList_DeviceForm_canSubmit device1 existingNames name)
        (ConsoleServerList_DeviceForm_submit device1 existingNames name values)]"

text \<open>\<open>components/service/DhcpRelaySettings.tsx\<close>\<close>

definition DhcpRelaySettings_V4Settings_controls ::
    "DHCPRelayConfig \<Rightarrow> DHCPRelaySettingsFormValues \<Rightarrow> DHCPRelaySettingsFormValues widget list" where
  "DhcpRelaySettings_V4Settings_controls config values =
     [Input ''Hop count'' True (dhcprsfv_hopCount values) (\<lambda>t. values\<lparr>dhcprsfv_hopCount := t\<rparr>),
      Input ''Max packet size'' True (dhcprsfv_maxSize values)
        (\<lambda>t. values\<lparr>dhcprsfv_maxSize := t\<rparr>),
      Select ''Relay agent packets'' True ([''''] @ DHCP_RELAY_AGENTS_PACKETS_MODES)
        (dhcprsfv_relayAgentsPackets values) (\<lambda>t. values\<lparr>dhcprsfv_relayAgentsPackets := t\<rparr>),
      Check ''Disable DHCP relay'' True (dhcprsfv_disabled values)
        (\<lambda>b. values\<lparr>dhcprsfv_disabled := b\<rparr>),
      Button ''Save settings'' True (DhcpRelaySettings_V4Settings_save config values),
      Chips ''service dhcp-relay interface'' (dhcprc_interfaces config)
        (dhcpRelayPath [] @ [''interface'']),
      Chips ''service dhcp-relay listen-interface'' (dhcprc_listenInterfaces config)
        (dhcpRelayPath [] @ [''listen-interface'']),
      Chips ''service dhcp-relay upstream-interface'' (dhcprc_upstreamInterfaces config)
        (dhcpRelayPath [] @ [''upstream-interface'']),
      Chips ''service dhcp-relay server'' (dhcprc_servers config) (dhcpRelayPath [] @ [''server''])]"

definition DhcpRelaySettings_V6Settings_controls ::
    "DHCPv6RelayConfig \<Rightarrow> DHCPv6RelaySettingsFormValues \<Rightarrow> DHCPv6RelaySettingsFormValues widget list" where
  "DhcpRelaySettings_V6Settings_controls config values =
     [Input ''Max hop count'' True (sndhcprsfv_maxHopCount values)
        (\<lambda>t. values\<lparr>sndhcprsfv_maxHopCount := t\<rparr>),
      Check ''Disable DHCPv6 relay'' True (sndhcprsfv_disabled values)
        (\<lambda>b. values\<lparr>sndhcprsfv_disabled := b\<rparr>),
      Check ''Set DHCPv6 interface-ID option'' True (sndhcprsfv_useInterfaceIdOption values)
        (\<lambda>b. values\<lparr>sndhcprsfv_useInterfaceIdOption := b\<rparr>),
      Button ''Save settings'' True (DhcpRelaySettings_V6Settings_save config values)]"

definition DhcpRelaySettings_ListenInterfaces_controls ::
    "DHCPv6RelayConfig \<Rightarrow> bool \<Rightarrow> text_input \<Rightarrow> text_input \<Rightarrow> (text_input \<times> text_input) widget list" where
  "DhcpRelaySettings_ListenInterfaces_controls config showAdd interfaceName address =
     concat (map
          (\<lambda>li. [Button ''Remove'' True (DhcpRelaySettings_ListenInterfaces_onClick li)])
          (sndhcprc_listenInterfaces config))
     @ (if showAdd
        then [Input ''eth0'' True interfaceName (\<lambda>t. (t, address)),
              Input ''listen address (optional)'' True address (\<lambda>t. (interfaceName, t)),
              Button ''Add'' (DhcpRelaySettings_ListenInterfaces_valid config interfaceName)
                (DhcpRelaySettings_ListenInterfaces_submit config interfaceName address)]
        else [])"

definition DhcpRelaySettings_UpstreamInterfaces_controls ::
    "DHCPv6RelayConfig \<Rightarrow> bool \<Rightarrow> text_input \<Rightarrow> text_input widget list" where
  "DhcpRelaySettings_UpstreamInterfaces_controls config showAdd interfaceName =
     concat (map
          (\<lambda>ui. [Button ''Remove'' True (DhcpRelaySettings_UpstreamInterfaces_onClick ui),
                Chips
                  (''service dhcpv6-relay upstream-interface ''
                     @ dhcprui_interfaceName ui @ '' address'') (dhcprui_addresses ui)
                  (dhcpv6RelayUpstreamInterfacePath (dhcprui_interfaceName ui) [] @ [''address''])])
          (sndhcprc_upstreamInterfaces config))
     @ (if showAdd
        then [Input ''eth1'' True interfaceName (\<lambda>t. t),
              Button ''Add'' (DhcpRelaySettings_UpstreamInterfaces_valid config interfaceName)
                (DhcpRelaySettings_UpstreamInterfaces_submit config interfaceName)]
        else [])"

text \<open>\<open>components/service/Dhcpv6ServerSettings.tsx\<close>\<close>

definition Dhcpv6ServerSettings_controls :: "DHCPv6ServerConfig \<Rightarrow> unit widget list" where
  "Dhcpv6ServerSettings_controls config =
     (if \<not> dhcpsc_enabled config
      then [Button ''Enable DHCPv6 server'' True (Dhcpv6ServerSettings_onClick)]
      else [])"

definition Dhcpv6ServerSettings_Dhcpv6ServerSettingsForm_controls ::
    "DHCPv6ServerConfig \<Rightarrow> DHCPv6GlobalFormValues \<Rightarrow> DHCPv6GlobalFormValues widget list" where
  "Dhcpv6ServerSettings_Dhcpv6ServerSettingsForm_controls config values =
     [Input ''Preference'' True (dhcpgfv_preference values) (\<lambda>t. values\<lparr>dhcpgfv_preference := t\<rparr>),
      Select ''Log level'' True ([''''] @ DHCPV6_LOG_LEVELS) (dhcpgfv_logLevel values)
        (\<lambda>t. values\<lparr>dhcpgfv_logLevel := t\<rparr>),
      Check ''Disable DHCPv6 server'' True (dhcpgfv_disabled values)
        (\<lambda>b. values\<lparr>dhcpgfv_disabled := b\<rparr>),
      Check (''Don'' @ [CHR 0x27] @ ''t install routes for delegated prefixes'') True
        (dhcpgfv_disableRouteAutoinstall values) (\<lambda>b. values\<lparr>dhcpgfv_disableRouteAutoinstall := b\<rparr>),
      Button ''Save settings'' True (Dhcpv6ServerSettings_Dhcpv6ServerSettingsForm_save config
           values),
      Chips ''service dhcpv6-server listen-interface'' (dhcpsc_listenInterfaces config)
        (dhcpv6ServerPath [] @ [''listen-interface'']),
      Chips ''service dhcpv6-server global-parameters name-server''
        (dhcpsc_globalNameServers config) (dhcpv6GlobalParametersPath [] @ [''name-server'']),
      Button ''Disable DHCPv6 server entirely'' True (Dhcpv6ServerSettings_Dhcpv6ServerSettingsForm_queueDisable)]"

definition Dhcpv6ServerSettings_SharedNetworkList_controls :: "DHCPv6ServerConfig \<Rightarrow> unit widget list" where
  "Dhcpv6ServerSettings_SharedNetworkList_controls config =
     concat
       (map
            (\<lambda>network. [Button ''Delete'' True (Dhcpv6ServerSettings_SharedNetworkList_queueDelete (dhcpsn_name
                          network))]) (dhcpsc_sharedNetworks config))"

definition Dhcpv6ServerSettings_SharedNetworkForm_controls ::
    "DHCPv6SharedNetwork option \<Rightarrow> string list \<Rightarrow> text_input \<Rightarrow> DHCPv6SharedNetworkFormValues \<Rightarrow> text_input \<Rightarrow> text_input \<Rightarrow> text_input \<Rightarrow> text_input \<Rightarrow> (text_input \<times> DHCPv6SharedNetworkFormValues \<times> text_input \<times> text_input \<times> text_input \<times> text_input) widget list" where
  "Dhcpv6ServerSettings_SharedNetworkForm_controls network existingNames name values firstSubnetCidr firstSubnetId firstRangeStart firstRangeStop =
     [Input ''Name *'' (network = None) name (\<lambda>t. (t, values, firstSubnetCidr,
              firstSubnetId, firstRangeStart, firstRangeStop)),
      Input ''Description'' True (dhcpsnfv_description values)
        (\<lambda>t. (name, values\<lparr>dhcpsnfv_description := t\<rparr>, firstSubnetCidr,
                firstSubnetId, firstRangeStart, firstRangeStop)),
      Input ''Interface'' True (dhcpsnfv_interface values) (\<lambda>t. (name,
              values\<lparr>dhcpsnfv_interface := t\<rparr>, firstSubnetCidr, firstSubnetId,
              firstRangeStart, firstRangeStop)),
      Check ''Disable this shared network'' True (dhcpsnfv_disabled values)
        (\<lambda>b. (name, values\<lparr>dhcpsnfv_disabled := b\<rparr>, firstSubnetCidr,
                firstSubnetId, firstRangeStart, firstRangeStop))]
     @ (if network = None
        then [Input ''First subnet CIDR (optional)'' True firstSubnetCidr
                (\<lambda>t. (name, values, t, firstSubnetId, firstRangeStart, firstRangeStop)),
              Input ''First subnet ID'' True firstSubnetId (\<lambda>t. (name, values,
                      firstSubnetCidr, t, firstRangeStart, firstRangeStop)),
              Input ''First range start (optional)'' True firstRangeStart
                (\<lambda>t. (name, values, firstSubnetCidr, firstSubnetId, t, firstRangeStop)),
              Input ''First range stop (optional)'' True firstRangeStop
                (\<lambda>t. (name, values, firstSubnetCidr, firstSubnetId, firstRangeStart, t))]
        else [])
     @ [Button
          (case network of
               Some network' \<Rightarrow> ''Save changes''
             | None \<Rightarrow> ''Queue creation'')
          (Dhcpv6ServerSettings_SharedNetworkForm_canSubmit network existingNames name)
          (Dhcpv6ServerSettings_SharedNetworkForm_submit network existingNames name values
               firstSubnetCidr firstSubnetId firstRangeStart firstRangeStop)]"

text \<open>\<open>components/service/Dhcpv6SubnetDetails.tsx\<close>\<close>

definition Dhcpv6SubnetDetails_SubnetContents_controls :: "string \<Rightarrow> DHCPv6Subnet \<Rightarrow> unit widget list" where
  "Dhcpv6SubnetDetails_SubnetContents_controls networkName subnet =
     (let base = dhcpv6SubnetPath networkName (dhcps_cidr subnet) []
      in [Chips (js_join '' '' base @ '' option name-server'')
            (dhcpo_nameServers (dhcps_option subnet)) (dhcpv6OptionPath base [] @ [''name-server'']),
          Chips (js_join '' '' base @ '' option domain-search'')
            (dhcpo_domainSearch (dhcps_option subnet)) (dhcpv6OptionPath base []
             @ [''domain-search'']),
          Chips (js_join '' '' base @ '' option sntp-server'')
            (dhcpo_sntpServers (dhcps_option subnet)) (dhcpv6OptionPath base [] @ [''sntp-server''])])"

definition Dhcpv6SubnetDetails_controls :: "DHCPv6SharedNetwork \<Rightarrow> unit widget list" where
  "Dhcpv6SubnetDetails_controls network =
     concat (map
          (\<lambda>subnet. [Button ''Delete'' True (Dhcpv6SubnetDetails_queueDelete network
                     (dhcps_cidr subnet))]) (dhcpsn_subnets network))"

definition Dhcpv6SubnetDetails_SubnetForm_controls ::
    "string \<Rightarrow> DHCPv6Subnet option \<Rightarrow> string list \<Rightarrow> text_input \<Rightarrow> DHCPv6SubnetFormValues \<Rightarrow> (text_input \<times> DHCPv6SubnetFormValues) widget list" where
  "Dhcpv6SubnetDetails_SubnetForm_controls networkName subnet existingCidrs cidr values =
     [Input ''2001:db8::/64'' (subnet = None) cidr (\<lambda>t. (t, values)),
      Input ''interface'' True (dhcpsfv_interface values) (\<lambda>t. (cidr,
              values\<lparr>dhcpsfv_interface := t\<rparr>)),
      Input ''subnet-id'' True (dhcpsfv_subnetId values) (\<lambda>t. (cidr,
              values\<lparr>dhcpsfv_subnetId := t\<rparr>)),
      Input ''lease default (s)'' True (dhcpsfv_leaseDefault values)
        (\<lambda>t. (cidr, values\<lparr>dhcpsfv_leaseDefault := t\<rparr>)),
      Input ''lease maximum (s)'' True (dhcpsfv_leaseMaximum values)
        (\<lambda>t. (cidr, values\<lparr>dhcpsfv_leaseMaximum := t\<rparr>)),
      Input ''lease minimum (s)'' True (dhcpsfv_leaseMinimum values)
        (\<lambda>t. (cidr, values\<lparr>dhcpsfv_leaseMinimum := t\<rparr>)),
      Button
        (case subnet of Some subnet' \<Rightarrow> ''Save'' | None \<Rightarrow> ''Add subnet'')
        (Dhcpv6SubnetDetails_SubnetForm_canSubmit subnet existingCidrs cidr)
        (Dhcpv6SubnetDetails_SubnetForm_submit networkName subnet existingCidrs cidr values)]"

definition Dhcpv6SubnetDetails_RangesSection_controls ::
    "string \<Rightarrow> DHCPv6Subnet \<Rightarrow> bool \<Rightarrow> text_input \<Rightarrow> text_input \<Rightarrow> text_input \<Rightarrow> text_input \<Rightarrow> (text_input \<times> text_input \<times> text_input \<times> text_input) widget list" where
  "Dhcpv6SubnetDetails_RangesSection_controls networkName subnet showAdd i pfx start stop =
     concat (map
          (\<lambda>r. [Button ''Remove'' True (Dhcpv6SubnetDetails_RangesSection_onClick
                     networkName subnet r)]) (dhcps_ranges subnet))
     @ (if showAdd
        then [Input ''name'' True i (\<lambda>t. (t, pfx, start, stop)),
              Input ''prefix'' True pfx (\<lambda>t. (i, t, start, stop)),
              Input ''start'' True start (\<lambda>t. (i, pfx, t, stop)),
              Input ''stop'' True stop (\<lambda>t. (i, pfx, start, t)),
              Button ''Add range'' (Dhcpv6SubnetDetails_RangesSection_valid subnet i)
                (Dhcpv6SubnetDetails_RangesSection_submit networkName subnet i pfx start stop)]
        else [])"

definition Dhcpv6SubnetDetails_StaticMappingsSection_controls ::
    "string \<Rightarrow> DHCPv6Subnet \<Rightarrow> bool \<Rightarrow> text_input \<Rightarrow> text_input \<Rightarrow> text_input \<Rightarrow> (text_input \<times> text_input \<times> text_input) widget list" where
  "Dhcpv6SubnetDetails_StaticMappingsSection_controls networkName subnet showAdd hostname mac duid =
     concat (map
          (\<lambda>m. [Button ''Remove'' True (Dhcpv6SubnetDetails_StaticMappingsSection_onClick
                     networkName subnet m),
                Chips (''static-mapping '' @ dhcpsm_hostname m @ '' ipv6-address'')
                  (dhcpsm_ipv6Addresses m) ((dhcpv6SubnetPath networkName (dhcps_cidr subnet) []
                    @ [''static-mapping'', dhcpsm_hostname m])
                   @ [''ipv6-address'']),
                Chips (''static-mapping '' @ dhcpsm_hostname m @ '' ipv6-prefix'')
                  (dhcpsm_ipv6Prefixes m) ((dhcpv6SubnetPath networkName (dhcps_cidr subnet) []
                    @ [''static-mapping'', dhcpsm_hostname m])
                   @ [''ipv6-prefix''])]) (dhcps_staticMappings subnet))
     @ (if showAdd
        then [Input ''hostname'' True hostname (\<lambda>t. (t, mac, duid)),
              Input ''mac (optional)'' True mac (\<lambda>t. (hostname, t, duid)),
              Input ''duid (optional)'' True duid (\<lambda>t. (hostname, mac, t)),
              Button ''Add mapping''
                (Dhcpv6SubnetDetails_StaticMappingsSection_valid subnet hostname)
                (Dhcpv6SubnetDetails_StaticMappingsSection_submit networkName subnet hostname mac
                     duid)]
        else [])"

definition Dhcpv6SubnetDetails_PrefixDelegationsSection_controls ::
    "string \<Rightarrow> DHCPv6Subnet \<Rightarrow> bool \<Rightarrow> text_input \<Rightarrow> text_input \<Rightarrow> text_input \<Rightarrow> (text_input \<times> text_input \<times> text_input) widget list" where
  "Dhcpv6SubnetDetails_PrefixDelegationsSection_controls networkName subnet showAdd pfx prefixLength delegatedLength =
     concat
       (map
            (\<lambda>pd. [Button ''Remove'' True (Dhcpv6SubnetDetails_PrefixDelegationsSection_onClick
                       networkName subnet pd)]) (dhcps_prefixDelegations subnet))
     @ (if showAdd
        then [Input ''delegating prefix (bare address)'' True pfx
                (\<lambda>t. (t, prefixLength, delegatedLength)),
              Input ''prefix-length (32-64)'' True prefixLength
                (\<lambda>t. (pfx, t, delegatedLength)),
              Input ''delegated-length (32-96)'' True delegatedLength
                (\<lambda>t. (pfx, prefixLength, t)),
              Button ''Add'' (Dhcpv6SubnetDetails_PrefixDelegationsSection_valid subnet pfx)
                (Dhcpv6SubnetDetails_PrefixDelegationsSection_submit networkName subnet pfx
                     prefixLength delegatedLength)]
        else [])"

text \<open>\<open>components/service/DnsForwardingSettings.tsx\<close>\<close>

definition DnsForwardingSettings_controls :: "DNSForwardingConfig \<Rightarrow> unit widget list" where
  "DnsForwardingSettings_controls config =
     (if \<not> dnsfc_enabled config
      then [Button ''Enable DNS forwarding'' True (DnsForwardingSettings_onClick)]
      else [])"

definition DnsForwardingSettings_DnsForwardingSettingsForm_controls ::
    "DNSForwardingConfig \<Rightarrow> DNSForwardingSettingsFormValues \<Rightarrow> DNSForwardingSettingsFormValues widget list" where
  "DnsForwardingSettings_DnsForwardingSettingsForm_controls config values =
     [Input ''Cache size'' True (dnsfsfv_cacheSize values) (\<lambda>t. values\<lparr>dnsfsfv_cacheSize := t\<rparr>),
      Select ''DNSSEC mode'' True ([''''] @ DNS_FORWARDING_DNSSEC_MODES) (dnsfsfv_dnssec values)
        (\<lambda>t. values\<lparr>dnsfsfv_dnssec := t\<rparr>),
      Input ''Negative TTL (s)'' True (dnsfsfv_negativeTtl values)
        (\<lambda>t. values\<lparr>dnsfsfv_negativeTtl := t\<rparr>),
      Input ''Listen port'' True (dnsfsfv_port values) (\<lambda>t. values\<lparr>dnsfsfv_port := t\<rparr>),
      Check ''Also use system name servers (/etc/resolv.conf)'' True
        (dnsfsfv_useSystemNameServers values) (\<lambda>b. values\<lparr>dnsfsfv_useSystemNameServers := b\<rparr>),
      Check ''Ignore /etc/hosts'' True (dnsfsfv_ignoreHostsFile values)
        (\<lambda>b. values\<lparr>dnsfsfv_ignoreHostsFile := b\<rparr>),
      Check (''Don'' @ [CHR 0x27] @ ''t serve RFC1918 reverse zones'') True
        (dnsfsfv_noServeRfc1918 values) (\<lambda>b. values\<lparr>dnsfsfv_noServeRfc1918 := b\<rparr>),
      Button ''Save settings'' True (DnsForwardingSettings_DnsForwardingSettingsForm_save config
           values),
      Chips ''service dns forwarding dhcp'' (dnsfc_dhcpInterfaces config)
        (dnsForwardingPath [] @ [''dhcp'']),
      Chips ''service dns forwarding allow-from'' (dnsfc_allowFrom config)
        (dnsForwardingPath [] @ [''allow-from'']),
      Chips ''service dns forwarding listen-address'' (dnsfc_listenAddresses config)
        (dnsForwardingPath [] @ [''listen-address'']),
      Chips ''service dns forwarding source-address'' (dnsfc_sourceAddresses config)
        (dnsForwardingPath [] @ [''source-address'']),
      Button ''Disable DNS forwarding entirely'' True (DnsForwardingSettings_DnsForwardingSettingsForm_queueDisable)]"

definition DnsForwardingSettings_NameServersSection_controls ::
    "string list \<Rightarrow> DNSForwardingNameServer list \<Rightarrow> bool \<Rightarrow> text_input \<Rightarrow> text_input \<Rightarrow> (text_input \<times> text_input) widget list" where
  "DnsForwardingSettings_NameServersSection_controls base nameServers showAdd address port =
     (if showAdd
      then [Input ''8.8.8.8'' True address (\<lambda>t. (t, port)),
            Input ''port (optional, default 53)'' True port (\<lambda>t. (address, t)),
            Button ''Add'' (DnsForwardingSettings_NameServersSection_valid nameServers address)
              (DnsForwardingSettings_NameServersSection_submit base nameServers address port)]
      else [])
     @ concat (map
            (\<lambda>ns. [Button ''Remove'' True (DnsForwardingSettings_NameServersSection_onClick
                       base ns)]) nameServers)"

definition DnsForwardingSettings_DomainsSection_controls ::
    "DNSForwardingConfig \<Rightarrow> bool \<Rightarrow> text_input \<Rightarrow> bool \<Rightarrow> bool \<Rightarrow> (text_input \<times> bool \<times> bool) widget list" where
  "DnsForwardingSettings_DomainsSection_controls config showCreate fqdn addnta recursionDesired =
     (if showCreate
      then [Input ''internal.example.com'' True fqdn (\<lambda>t. (t, addnta, recursionDesired)),
            Check ''Add negative trust anchor (no DNSSEC)'' True addnta
              (\<lambda>b. (fqdn, b, recursionDesired)),
            Check ''Recursion desired'' True recursionDesired (\<lambda>b. (fqdn, addnta, b)),
            Button ''Add domain'' (DnsForwardingSettings_DomainsSection_valid config fqdn)
              (DnsForwardingSettings_DomainsSection_submit config fqdn addnta recursionDesired)]
      else [])
     @ concat
         (map
              (\<lambda>dom1. [Button ''Delete'' True (DnsForwardingSettings_DomainsSection_queueDelete (dnsfd_fqdn
                            dom1))]) (dnsfc_domains config))"

text \<open>\<open>components/service/DynamicDnsList.tsx\<close>\<close>

definition DynamicDnsList_controls :: "DynamicDNSConfig \<Rightarrow> unit widget list" where
  "DynamicDnsList_controls config =
     concat (map
          (\<lambda>entry. [Button ''Delete'' True (DynamicDnsList_queueDelete (ddnse_name entry)),
                Chips (''service dns dynamic name '' @ ddnse_name entry @ '' host-name'')
                  (ddnse_hostNames entry) (dynamicDnsEntryPath (ddnse_name entry) []
                   @ [''host-name''])]) (ddnsc_entries config))"

definition DynamicDnsList_EntryForm_controls ::
    "DynamicDNSEntry option \<Rightarrow> string list \<Rightarrow> text_input \<Rightarrow> DynamicDNSEntryFormValues \<Rightarrow> (text_input \<times> DynamicDNSEntryFormValues) widget list" where
  "DynamicDnsList_EntryForm_controls entry existingNames name values =
     [Input ''Name *'' (entry = None) name (\<lambda>t. (t, values)),
      Input ''Description'' True (ddnsefv_description values)
        (\<lambda>t. (name, values\<lparr>ddnsefv_description := t\<rparr>)),
      Input ''Protocol'' True (ddnsefv_protocol values) (\<lambda>t. (name,
              values\<lparr>ddnsefv_protocol := t\<rparr>)),
      Select ''IP version'' True ([''''] @ DYNAMIC_DNS_IP_VERSIONS) (ddnsefv_ipVersion values)
        (\<lambda>t. (name, values\<lparr>ddnsefv_ipVersion := t\<rparr>)),
      Input ''Server'' True (ddnsefv_server values) (\<lambda>t. (name,
              values\<lparr>ddnsefv_server := t\<rparr>)),
      Input ''Zone'' True (ddnsefv_zone values) (\<lambda>t. (name,
              values\<lparr>ddnsefv_zone := t\<rparr>)),
      Input ''Username'' True (ddnsefv_username values) (\<lambda>t. (name,
              values\<lparr>ddnsefv_username := t\<rparr>)),
      Input
        (''Password ''
           @ (case entry of
                Some entry' \<Rightarrow> (if ddnse_hasPassword entry'
                     then ''(configured - leave blank to keep)''
                     else '''')
              | None \<Rightarrow> '''')) True (ddnsefv_password values)
        (\<lambda>t. (name, values\<lparr>ddnsefv_password := t\<rparr>)),
      Input
        (''TSIG key file path ''
           @ (case entry of
                Some entry' \<Rightarrow> (if ddnse_hasKey entry' then ''(configured - leave blank to keep)''
                     else '''')
              | None \<Rightarrow> '''')) True (ddnsefv_key values)
        (\<lambda>t. (name, values\<lparr>ddnsefv_key := t\<rparr>)),
      Input ''TTL (s)'' True (ddnsefv_ttl values) (\<lambda>t. (name,
              values\<lparr>ddnsefv_ttl := t\<rparr>)),
      Input ''Wait time (s)'' True (ddnsefv_waitTime values)
        (\<lambda>t. (name, values\<lparr>ddnsefv_waitTime := t\<rparr>)),
      Input ''Expiry time (s)'' True (ddnsefv_expiryTime values)
        (\<lambda>t. (name, values\<lparr>ddnsefv_expiryTime := t\<rparr>))]
     @ ([Radio ''From a local interface'' True (ddnsefv_addressMode values = ''interface'')
           (name, values\<lparr>ddnsefv_addressMode := ''interface''\<rparr>),
         Radio ''From a web lookup'' True (ddnsefv_addressMode values = ''web'')
           (name, values\<lparr>ddnsefv_addressMode := ''web''\<rparr>)]
        @ (if ddnsefv_addressMode values = ''interface''
           then [Input ''eth0'' True (ddnsefv_addressInterface values)
                   (\<lambda>t. (name, values\<lparr>ddnsefv_addressInterface := t\<rparr>))]
           else [])
        @ (if ddnsefv_addressMode values = ''web''
           then [Input ''https://checkip.example.com'' True (ddnsefv_addressWebUrl values)
                   (\<lambda>t. (name, values\<lparr>ddnsefv_addressWebUrl := t\<rparr>)),
                 Input ''skip pattern (optional)'' True (ddnsefv_addressWebSkip values)
                   (\<lambda>t. (name, values\<lparr>ddnsefv_addressWebSkip := t\<rparr>))]
           else []))
     @ [Button
          (case entry of
               Some entry' \<Rightarrow> ''Save changes''
             | None \<Rightarrow> ''Queue entry creation'')
          (DynamicDnsList_EntryForm_canSubmit entry existingNames name)
          (DynamicDnsList_EntryForm_submit entry existingNames name values)]"

definition DynamicDnsList_GlobalSettings_controls ::
    "DynamicDNSConfig \<Rightarrow> DynamicDNSGlobalFormValues \<Rightarrow> DynamicDNSGlobalFormValues widget list" where
  "DynamicDnsList_GlobalSettings_controls config values =
     [Input ''Polling interval (s)'' True (ddnsgfv_interval values)
        (\<lambda>t. values\<lparr>ddnsgfv_interval := t\<rparr>),
      Input ''VRF'' True (ddnsgfv_vrf values) (\<lambda>t. values\<lparr>ddnsgfv_vrf := t\<rparr>),
      Button ''Save global settings'' True (DynamicDnsList_GlobalSettings_save config values)]"

text \<open>\<open>components/service/EventHandlerList.tsx\<close>\<close>

definition EventHandlerList_controls :: "EventHandlerConfig \<Rightarrow> unit widget list" where
  "EventHandlerList_controls config =
     (if \<not> ehc_enabled config
      then [Button ''Enable event handler'' True (EventHandlerList_onClick)]
      else [])"

definition EventHandlerList_EventHandlerEnabled_controls :: "EventHandlerConfig \<Rightarrow> unit widget list" where
  "EventHandlerList_EventHandlerEnabled_controls config =
     concat
       (map
            (\<lambda>event. [Button ''Delete'' True (EventHandlerList_EventHandlerEnabled_queueDelete (ehe_name
                          event))]) (ehc_events config))
     @ [Button ''Disable event handler entirely'' True (EventHandlerList_EventHandlerEnabled_queueDisable)]"

definition EventHandlerList_EventForm_controls ::
    "EventHandlerEvent option \<Rightarrow> string list \<Rightarrow> text_input \<Rightarrow> EventHandlerEventFormValues \<Rightarrow> (text_input \<times> EventHandlerEventFormValues) widget list" where
  "EventHandlerList_EventForm_controls event existingNames name values =
     [Input ''Name *'' (event = None) name (\<lambda>t. (t, values)),
      Input ''Filter: syslog identifier'' True (ehefv_filterSyslogIdentifier values)
        (\<lambda>t. (name, values\<lparr>ehefv_filterSyslogIdentifier := t\<rparr>)),
      Input ''Filter: pattern'' True (ehefv_filterPattern values)
        (\<lambda>t. (name, values\<lparr>ehefv_filterPattern := t\<rparr>)),
      Input ''Script path'' True (ehefv_scriptPath values) (\<lambda>t. (name,
              values\<lparr>ehefv_scriptPath := t\<rparr>)),
      Input ''Script arguments'' True (ehefv_scriptArguments values)
        (\<lambda>t. (name, values\<lparr>ehefv_scriptArguments := t\<rparr>)),
      Button
        (case event of
             Some event' \<Rightarrow> ''Save changes''
           | None \<Rightarrow> ''Queue creation'')
        (EventHandlerList_EventForm_canSubmit event existingNames name)
        (EventHandlerList_EventForm_submit event existingNames name values)]"

text \<open>\<open>components/service/HttpsSettings.tsx\<close>\<close>

definition HttpsSettings_controls :: "HTTPSConfig \<Rightarrow> unit widget list" where
  "HttpsSettings_controls config =
     (if \<not> httpsc_enabled config
      then [Button ''Enable (defaults: port 443, TLS 1.2 & 1.3)'' True (HttpsSettings_onClick)]
      else [])"

definition HttpsSettings_HttpsSettingsForm_controls ::
    "HTTPSConfig \<Rightarrow> HTTPSFormValues \<Rightarrow> HTTPSFormValues widget list" where
  "HttpsSettings_HttpsSettingsForm_controls config values =
     ([Input ''Port'' True (httpsfv_port values) (\<lambda>t. values\<lparr>httpsfv_port := t\<rparr>),
       Input ''Request body size limit (MB)'' True (httpsfv_requestBodySizeLimit values)
         (\<lambda>t. values\<lparr>httpsfv_requestBodySizeLimit := t\<rparr>),
       Input ''VRF'' True (httpsfv_vrf values) (\<lambda>t. values\<lparr>httpsfv_vrf := t\<rparr>),
       Input ''CA certificate (PKI name)'' True (httpsfv_caCertificate values)
         (\<lambda>t. values\<lparr>httpsfv_caCertificate := t\<rparr>),
       Input ''Certificate (PKI name)'' True (httpsfv_certificate values)
         (\<lambda>t. values\<lparr>httpsfv_certificate := t\<rparr>),
       Input ''DH parameters (PKI name)'' True (httpsfv_dhParams values)
         (\<lambda>t. values\<lparr>httpsfv_dhParams := t\<rparr>),
       Check ''Redirect HTTP to HTTPS'' True (httpsfv_enableHttpRedirect values)
         (\<lambda>b. values\<lparr>httpsfv_enableHttpRedirect := b\<rparr>)]
      @ concat (map
             (\<lambda>version. [Check (''TLS '' @ version) True
                     (version \<in> set (httpsfv_tlsVersions values))
                     (\<lambda>b. values\<lparr>httpsfv_tlsVersions := (if version
                                    \<in> set (httpsfv_tlsVersions values)
                               then filter (\<lambda>x_l. x_l \<noteq> version)
                                      (httpsfv_tlsVersions values)
                               else httpsfv_tlsVersions values @ [version])\<rparr>)])
             HTTPS_TLS_VERSIONS)
      @ [Select ''Auth type'' True ([''''] @ HTTPS_GRAPHQL_AUTH_TYPES)
           (httpsfv_graphqlAuthType values) (\<lambda>t. values\<lparr>httpsfv_graphqlAuthType := t\<rparr>),
         Input ''Token expiration (s)'' True (httpsfv_graphqlExpiration values)
           (\<lambda>t. values\<lparr>httpsfv_graphqlExpiration := t\<rparr>),
         Input ''Secret length (bytes)'' True (httpsfv_graphqlSecretLength values)
           (\<lambda>t. values\<lparr>httpsfv_graphqlSecretLength := t\<rparr>),
         Check ''Enable schema introspection'' True (httpsfv_graphqlIntrospection values)
           (\<lambda>b. values\<lparr>httpsfv_graphqlIntrospection := b\<rparr>),
         Check ''REST API: strict path checking'' True (httpsfv_restStrict values)
           (\<lambda>b. values\<lparr>httpsfv_restStrict := b\<rparr>),
         Button ''Save settings'' True (HttpsSettings_HttpsSettingsForm_save config values)])
     @ [Chips ''service https listen-address'' (httpsc_listenAddresses config)
          (httpsPath [] @ [''listen-address'']),
        Chips ''service https allow-client address'' (httpsc_allowClientAddresses config)
          (httpsAllowClientPath [] @ [''address'']),
        Chips ''service https api graphql cors allow-origin''
          (httpsc_graphqlCorsAllowOrigins config) (httpsGraphqlCorsPath [] @ [''allow-origin'']),
        Button ''Disable HTTPS API entirely'' True (HttpsSettings_HttpsSettingsForm_queueDisable)]"

definition HttpsSettings_ApiKeysSection_controls ::
    "HTTPSConfig \<Rightarrow> bool \<Rightarrow> text_input \<Rightarrow> text_input \<Rightarrow> (text_input \<times> text_input) widget list" where
  "HttpsSettings_ApiKeysSection_controls config showAdd i key =
     (if showAdd
      then [Input ''key id/name'' True i (\<lambda>t. (t, key)),
            Input ''plaintext key value'' True key (\<lambda>t. (i, t)),
            Button ''Add key'' (HttpsSettings_ApiKeysSection_valid config i key)
              (HttpsSettings_ApiKeysSection_submit config i key)]
      else [])
     @ concat
         (map
              (\<lambda>apiKey. [Button ''Remove'' True (HttpsSettings_ApiKeysSection_onClick apiKey)])
              (httpsc_apiKeys config))"

text \<open>\<open>components/service/LldpList.tsx\<close>\<close>

definition LldpList_controls :: "LLDPConfig \<Rightarrow> unit widget list" where
  "LldpList_controls config =
     (if \<not> lldpc_enabled config then [Button ''Enable LLDP'' True (LldpList_onClick)] else [])"

definition LldpList_LldpEnabled_controls ::
    "LLDPConfig \<Rightarrow> LLDPGeneralFormValues \<Rightarrow> LLDPGeneralFormValues widget list" where
  "LldpList_LldpEnabled_controls config values =
     [Check ''CDP'' True (lldpgfv_legacyCdp values) (\<lambda>b. values\<lparr>lldpgfv_legacyCdp := b\<rparr>),
      Check ''EDP'' True (lldpgfv_legacyEdp values) (\<lambda>b. values\<lparr>lldpgfv_legacyEdp := b\<rparr>),
      Check ''FDP'' True (lldpgfv_legacyFdp values) (\<lambda>b. values\<lparr>lldpgfv_legacyFdp := b\<rparr>),
      Check ''SONMP'' True (lldpgfv_legacySonmp values) (\<lambda>b. values\<lparr>lldpgfv_legacySonmp := b\<rparr>),
      Check ''Advertise via SNMP'' True (lldpgfv_snmp values)
        (\<lambda>b. values\<lparr>lldpgfv_snmp := b\<rparr>),
      Button ''Save'' True (LldpList_LldpEnabled_saveGeneral config values),
      Chips ''service lldp management-address'' (lldpc_managementAddresses config)
        (lldpPath [] @ [''management-address''])]
     @ concat
         (map
              (\<lambda>iface. [Button ''Delete'' True (LldpList_LldpEnabled_queueDelete (lldpi_interfaceName iface))])
              (lldpc_interfaces config))
     @ [Button ''Disable LLDP entirely'' True (LldpList_LldpEnabled_queueDisable)]"

definition LldpList_InterfaceForm_controls ::
    "LLDPInterface option \<Rightarrow> string list \<Rightarrow> text_input \<Rightarrow> LLDPInterfaceFormValues \<Rightarrow> (text_input \<times> LLDPInterfaceFormValues) widget list" where
  "LldpList_InterfaceForm_controls iface existingNames interfaceName values =
     [Input (''Interface (or '' @ [CHR 0x22] @ ''all'' @ [CHR 0x22] @ '') *'') (iface = None)
        interfaceName (\<lambda>t. (t, values)),
      Select ''Mode'' True ([''''] @ LLDP_MODES) (lldpifv_mode values)
        (\<lambda>t. (interfaceName, values\<lparr>lldpifv_mode := t\<rparr>)),
      Input ''ELIN (911) number'' True (lldpifv_elin values)
        (\<lambda>t. (interfaceName, values\<lparr>lldpifv_elin := t\<rparr>)),
      Input ''Altitude'' True (lldpifv_altitude values) (\<lambda>t. (interfaceName,
              values\<lparr>lldpifv_altitude := t\<rparr>)),
      Select ''Datum'' True ([''''] @ LLDP_DATUMS) (lldpifv_datum values)
        (\<lambda>t. (interfaceName, values\<lparr>lldpifv_datum := t\<rparr>)),
      Input ''Latitude'' True (lldpifv_latitude values) (\<lambda>t. (interfaceName,
              values\<lparr>lldpifv_latitude := t\<rparr>)),
      Input ''Longitude'' True (lldpifv_longitude values) (\<lambda>t. (interfaceName,
              values\<lparr>lldpifv_longitude := t\<rparr>)),
      Button
        (case iface of
             Some iface' \<Rightarrow> ''Save changes''
           | None \<Rightarrow> ''Queue creation'')
        (LldpList_InterfaceForm_canSubmit iface existingNames interfaceName)
        (LldpList_InterfaceForm_submit iface existingNames interfaceName values)]"

text \<open>\<open>components/service/MdnsSettings.tsx\<close>\<close>

definition MdnsSettings_controls :: "MdnsRepeaterConfig \<Rightarrow> unit widget list" where
  "MdnsSettings_controls config =
     (if \<not> mrc_enabled config
      then [Button ''Enable mDNS repeater'' True (MdnsSettings_onClick)]
      else [])"

definition MdnsSettings_MdnsSettingsForm_controls ::
    "MdnsRepeaterConfig \<Rightarrow> MdnsRepeaterFormValues \<Rightarrow> MdnsRepeaterFormValues widget list" where
  "MdnsSettings_MdnsSettingsForm_controls config values =
     [Select ''IP version'' True ([''''] @ MDNS_IP_VERSIONS) (mrfv_ipVersion values)
        (\<lambda>t. values\<lparr>mrfv_ipVersion := t\<rparr>),
      Input ''Cache entries'' True (mrfv_cacheEntries values)
        (\<lambda>t. values\<lparr>mrfv_cacheEntries := t\<rparr>),
      Check ''Disable mDNS repeater'' True (mrfv_disabled values)
        (\<lambda>b. values\<lparr>mrfv_disabled := b\<rparr>),
      Check ''Disable on non-MASTER VRRP interfaces'' True (mrfv_vrrpDisable values)
        (\<lambda>b. values\<lparr>mrfv_vrrpDisable := b\<rparr>),
      Button ''Save settings'' True (MdnsSettings_MdnsSettingsForm_save config values),
      Chips ''service mdns repeater interface'' (mrc_interfaces config)
        (mdnsRepeaterPath [] @ [''interface'']),
      Chips ''service mdns repeater browse-domain'' (mrc_browseDomains config)
        (mdnsRepeaterPath [] @ [''browse-domain'']),
      Chips ''service mdns repeater allow-service'' (mrc_allowServices config)
        (mdnsRepeaterPath [] @ [''allow-service'']),
      Button ''Disable mDNS repeater entirely'' True (MdnsSettings_MdnsSettingsForm_queueDisable)]"

text \<open>\<open>components/service/MonitoringSettings.tsx\<close>\<close>

definition MonitoringSettings_ZabbixAgentSection_controls :: "MonitoringConfig \<Rightarrow> unit widget list" where
  "MonitoringSettings_ZabbixAgentSection_controls config =
     (let zabbix = mc_zabbixAgent config
      in (if \<not> zac_enabled zabbix
          then [Button ''Enable Zabbix Agent'' True (MonitoringSettings_ZabbixAgentSection_onClick)]
          else []))"

definition MonitoringSettings_NetworkEventSection_controls :: "MonitoringConfig \<Rightarrow> unit widget list" where
  "MonitoringSettings_NetworkEventSection_controls config =
     (let networkEvent = mc_networkEvent config
      in (if \<not> nec_enabled networkEvent
          then [Button ''Enable Network Events'' True (MonitoringSettings_NetworkEventSection_onClick)]
          else []))"

definition MonitoringSettings_NodeExporterSection_controls ::
    "MonitoringConfig \<Rightarrow> NodeExporterFormValues \<Rightarrow> NodeExporterFormValues widget list" where
  "MonitoringSettings_NodeExporterSection_controls config values =
     (let nodeExporter = mc_prometheusNodeExporter config
      in (if \<not> pnec_enabled nodeExporter
          then [Button ''Enable Node Exporter'' True (MonitoringSettings_NodeExporterSection_onClick)]
          else [Input ''Port'' True (nefv_port values) (\<lambda>t. values\<lparr>nefv_port := t\<rparr>),
                Input ''VRF'' True (nefv_vrf values) (\<lambda>t. values\<lparr>nefv_vrf := t\<rparr>),
                Check ''Collect textfile metrics'' True (nefv_collectTextfile values)
                  (\<lambda>b. values\<lparr>nefv_collectTextfile := b\<rparr>),
                Button ''Save settings'' True (MonitoringSettings_NodeExporterSection_save config
                     values),
                Chips ''service monitoring prometheus node-exporter listen-address''
                  (pnec_listenAddresses nodeExporter) (prometheusNodeExporterPath []
                   @ [''listen-address'']),
                Button ''Disable Node Exporter'' True (MonitoringSettings_NodeExporterSection_queueDisable)]))"

definition MonitoringSettings_FrrExporterSection_controls ::
    "MonitoringConfig \<Rightarrow> FrrExporterFormValues \<Rightarrow> FrrExporterFormValues widget list" where
  "MonitoringSettings_FrrExporterSection_controls config values =
     (let frrExporter = mc_prometheusFrrExporter config
      in (if \<not> pfec_enabled frrExporter
          then [Button ''Enable FRR Exporter'' True (MonitoringSettings_FrrExporterSection_onClick)]
          else [Input ''Port'' True (fefv_port values) (\<lambda>t. values\<lparr>fefv_port := t\<rparr>),
                Input ''VRF'' True (fefv_vrf values) (\<lambda>t. values\<lparr>fefv_vrf := t\<rparr>),
                Select ''BGP peer description format'' True
                  ([''''] @ PROMETHEUS_PEER_DESCRIPTION_FORMATS)
                  (fefv_collectBgpPeerDescription values) (\<lambda>t. values\<lparr>fefv_collectBgpPeerDescription := t\<rparr>),
                Check ''BGP accepted/filtered prefixes'' True
                  (fefv_collectBgpAcceptFilteredPrefixes values)
                  (\<lambda>b. values\<lparr>fefv_collectBgpAcceptFilteredPrefixes := b\<rparr>),
                Check ''BGP advertised prefixes'' True (fefv_collectBgpAdvertisedPrefixes values)
                  (\<lambda>b. values\<lparr>fefv_collectBgpAdvertisedPrefixes := b\<rparr>),
                Check ''BGP peer group'' True (fefv_collectBgpPeerGroup values)
                  (\<lambda>b. values\<lparr>fefv_collectBgpPeerGroup := b\<rparr>),
                Check ''BGP peer hostname'' True (fefv_collectBgpPeerHostname values)
                  (\<lambda>b. values\<lparr>fefv_collectBgpPeerHostname := b\<rparr>),
                Check ''BGP peer type'' True (fefv_collectBgpPeerType values)
                  (\<lambda>b. values\<lparr>fefv_collectBgpPeerType := b\<rparr>),
                Check ''BGP L2VPN'' True (fefv_collectBgpL2Vpn values)
                  (\<lambda>b. values\<lparr>fefv_collectBgpL2Vpn := b\<rparr>),
                Check ''PIM'' True (fefv_collectPim values) (\<lambda>b. values\<lparr>fefv_collectPim := b\<rparr>),
                Check ''Detailed routes'' True (fefv_collectDetailedRoutes values)
                  (\<lambda>b. values\<lparr>fefv_collectDetailedRoutes := b\<rparr>),
                Button ''Save settings'' True (MonitoringSettings_FrrExporterSection_save config
                     values),
                Chips ''service monitoring prometheus frr-exporter listen-address''
                  (pfec_listenAddresses frrExporter) (prometheusFrrExporterPath []
                   @ [''listen-address'']),
                Chips ''service monitoring prometheus frr-exporter collector ospf-instance''
                  (pfec_collectOspfInstances frrExporter) (prometheusFrrExporterPath [''collector'']
                   @ [''ospf-instance'']),
                Button ''Disable FRR Exporter'' True (MonitoringSettings_FrrExporterSection_queueDisable)]))"

definition MonitoringSettings_ZabbixAgentForm_controls ::
    "ZabbixAgentConfig \<Rightarrow> ZabbixAgentFormValues \<Rightarrow> ZabbixAgentFormValues widget list" where
  "MonitoringSettings_ZabbixAgentForm_controls zabbix values =
     [Input ''Host name'' True (zafv_hostName values) (\<lambda>t. values\<lparr>zafv_hostName := t\<rparr>),
      Input ''Directory'' True (zafv_directory values) (\<lambda>t. values\<lparr>zafv_directory := t\<rparr>),
      Input ''Port'' True (zafv_port values) (\<lambda>t. values\<lparr>zafv_port := t\<rparr>),
      Input ''PSK ID'' True (zafv_pskId values) (\<lambda>t. values\<lparr>zafv_pskId := t\<rparr>),
      Input
        (''PSK secret ''
           @ (if zac_hasPskSecret zabbix then ''(configured - leave blank to keep)'' else ''''))
        True (zafv_pskSecret values) (\<lambda>t. values\<lparr>zafv_pskSecret := t\<rparr>),
      Input ''Timeout (s)'' True (zafv_timeout values) (\<lambda>t. values\<lparr>zafv_timeout := t\<rparr>),
      Input ''Buffer flush interval (s)'' True (zafv_bufferFlushInterval values)
        (\<lambda>t. values\<lparr>zafv_bufferFlushInterval := t\<rparr>),
      Input ''Buffer size'' True (zafv_bufferSize values) (\<lambda>t. values\<lparr>zafv_bufferSize := t\<rparr>),
      Select ''Debug level'' True ([''''] @ ZABBIX_DEBUG_LEVELS) (zafv_debugLevel values)
        (\<lambda>t. values\<lparr>zafv_debugLevel := t\<rparr>),
      Input ''Log size (MB, 0 = unlimited)'' True (zafv_logSize values)
        (\<lambda>t. values\<lparr>zafv_logSize := t\<rparr>),
      Input ''VRF'' True (zafv_vrf values) (\<lambda>t. values\<lparr>zafv_vrf := t\<rparr>),
      Check ''Log remote commands'' True (zafv_logRemoteCommands values)
        (\<lambda>b. values\<lparr>zafv_logRemoteCommands := b\<rparr>),
      Button ''Save settings'' True (MonitoringSettings_ZabbixAgentForm_save zabbix values),
      Chips ''service monitoring zabbix-agent listen-address'' (zac_listenAddresses zabbix)
        (zabbixAgentPath [] @ [''listen-address'']),
      Chips ''service monitoring zabbix-agent server'' (zac_servers zabbix)
        (zabbixAgentPath [] @ [''server'']),
      Button ''Disable Zabbix Agent'' True (MonitoringSettings_ZabbixAgentForm_queueDisable)]"

definition MonitoringSettings_ServerActiveSection_controls ::
    "ZabbixAgentConfig \<Rightarrow> bool \<Rightarrow> text_input \<Rightarrow> text_input \<Rightarrow> (text_input \<times> text_input) widget list" where
  "MonitoringSettings_ServerActiveSection_controls zabbix showAdd address port =
     (if showAdd
      then [Input ''192.0.2.2'' True address (\<lambda>t. (t, port)),
            Input ''port (optional)'' True port (\<lambda>t. (address, t)),
            Button ''Add'' (MonitoringSettings_ServerActiveSection_valid zabbix address)
              (MonitoringSettings_ServerActiveSection_submit zabbix address port)]
      else [])
     @ concat
         (map
              (\<lambda>s. [Button ''Remove'' True (MonitoringSettings_ServerActiveSection_onClick s)])
              (zac_serverActive zabbix))"

definition MonitoringSettings_NetworkEventForm_controls ::
    "NetworkEventConfig \<Rightarrow> NetworkEventFormValues \<Rightarrow> NetworkEventFormValues widget list" where
  "MonitoringSettings_NetworkEventForm_controls networkEvent values =
     [Check ''Route'' True (sonefv_eventRoute values) (\<lambda>b. values\<lparr>sonefv_eventRoute := b\<rparr>),
      Check ''Link'' True (sonefv_eventLink values) (\<lambda>b. values\<lparr>sonefv_eventLink := b\<rparr>),
      Check ''Address'' True (sonefv_eventAddr values) (\<lambda>b. values\<lparr>sonefv_eventAddr := b\<rparr>),
      Check ''Neighbor'' True (sonefv_eventNeigh values) (\<lambda>b. values\<lparr>sonefv_eventNeigh := b\<rparr>),
      Check ''Rule'' True (sonefv_eventRule values) (\<lambda>b. values\<lparr>sonefv_eventRule := b\<rparr>),
      Input ''Queue size'' True (sonefv_queueSize values) (\<lambda>t. values\<lparr>sonefv_queueSize := t\<rparr>),
      Select ''Log level'' True ([''''] @ NETWORK_EVENT_LOG_LEVELS) (sonefv_logLevel values)
        (\<lambda>t. values\<lparr>sonefv_logLevel := t\<rparr>),
      Button ''Save settings'' True (MonitoringSettings_NetworkEventForm_save networkEvent values),
      Button ''Disable Network Events'' True (MonitoringSettings_NetworkEventForm_queueDisable)]"

text \<open>\<open>components/service/NdpProxyList.tsx\<close>\<close>

definition NdpProxyList_controls :: "NDPProxyConfig \<Rightarrow> unit widget list" where
  "NdpProxyList_controls config =
     (if \<not> ndppc_enabled config then [Button ''Enable NDP proxy'' True (NdpProxyList_onClick)]
      else [])"

definition NdpProxyList_InterfaceForm_controls ::
    "NDPProxyInterface option \<Rightarrow> string list \<Rightarrow> text_input \<Rightarrow> NDPProxyInterfaceFormValues \<Rightarrow> text_input \<Rightarrow> text_input \<Rightarrow> text_input \<Rightarrow> (text_input \<times> NDPProxyInterfaceFormValues \<times> text_input \<times> text_input \<times> text_input) widget list" where
  "NdpProxyList_InterfaceForm_controls iface existingNames interfaceName values firstPrefix firstPrefixMode firstPrefixInterfaceRef =
     [Input ''Interface *'' (iface = None) interfaceName (\<lambda>t. (t, values, firstPrefix,
              firstPrefixMode, firstPrefixInterfaceRef)),
      Input ''Timeout (ms)'' True (ndppifv_timeout values) (\<lambda>t. (interfaceName,
              values\<lparr>ndppifv_timeout := t\<rparr>, firstPrefix, firstPrefixMode,
              firstPrefixInterfaceRef)),
      Input ''TTL (ms)'' True (ndppifv_ttl values) (\<lambda>t. (interfaceName,
              values\<lparr>ndppifv_ttl := t\<rparr>, firstPrefix, firstPrefixMode,
              firstPrefixInterfaceRef)),
      Check ''Disable'' True (ndppifv_disabled values) (\<lambda>b. (interfaceName,
              values\<lparr>ndppifv_disabled := b\<rparr>, firstPrefix, firstPrefixMode,
              firstPrefixInterfaceRef)),
      Check ''Enable router bit'' True (ndppifv_enableRouterBit values)
        (\<lambda>b. (interfaceName, values\<lparr>ndppifv_enableRouterBit := b\<rparr>,
                firstPrefix, firstPrefixMode, firstPrefixInterfaceRef))]
     @ (if iface = None
        then [Input ''2001:db8::/64'' True firstPrefix (\<lambda>t. (interfaceName, values, t,
                      firstPrefixMode, firstPrefixInterfaceRef)),
              Select '''' True ([''''] @ NDP_PROXY_MODES) firstPrefixMode
                (\<lambda>t. (interfaceName, values, firstPrefix, t, firstPrefixInterfaceRef))]
             @ (if firstPrefixMode = ''interface''
                then [Input ''target interface'' True firstPrefixInterfaceRef
                        (\<lambda>t. (interfaceName, values, firstPrefix, firstPrefixMode, t))]
                else [])
        else [])
     @ [Button
          (case iface of
               Some iface' \<Rightarrow> ''Save changes''
             | None \<Rightarrow> ''Queue creation'')
          (NdpProxyList_InterfaceForm_canSubmit iface existingNames interfaceName)
          (NdpProxyList_InterfaceForm_submit iface existingNames interfaceName values firstPrefix
               firstPrefixMode firstPrefixInterfaceRef)]"

definition NdpProxyList_PrefixesSection_controls ::
    "NDPProxyInterface \<Rightarrow> bool \<Rightarrow> text_input \<Rightarrow> text_input \<Rightarrow> text_input \<Rightarrow> (text_input \<times> text_input \<times> text_input) widget list" where
  "NdpProxyList_PrefixesSection_controls iface showAdd pfx mode interfaceRef =
     concat (map
          (\<lambda>p. [Button ''Remove'' True (NdpProxyList_PrefixesSection_onClick iface p)])
          (ndppi_prefixes iface))
     @ (if showAdd
        then [Input ''2001:db8::/64'' True pfx (\<lambda>t. (t, mode, interfaceRef)),
              Select '''' True ([''''] @ NDP_PROXY_MODES) mode (\<lambda>t. (pfx, t, interfaceRef))]
             @ (if mode = ''interface''
                then [Input ''target interface'' True interfaceRef (\<lambda>t. (pfx, mode, t))]
                else [])
             @ [Button ''Add prefix'' (NdpProxyList_PrefixesSection_valid iface pfx)
                  (NdpProxyList_PrefixesSection_submit iface pfx mode interfaceRef)]
        else [])"

text \<open>\<open>components/service/NtpSettings.tsx\<close>\<close>

definition NtpSettings_GeneralSettings_controls ::
    "NTPConfig \<Rightarrow> NTPGeneralFormValues \<Rightarrow> NTPGeneralFormValues widget list" where
  "NtpSettings_GeneralSettings_controls config values =
     [Input ''Bind interface'' True (ntpgfv_interface values)
        (\<lambda>t. values\<lparr>ntpgfv_interface := t\<rparr>),
      Input ''Source interface'' True (ntpgfv_sourceInterface values)
        (\<lambda>t. values\<lparr>ntpgfv_sourceInterface := t\<rparr>),
      Input ''VRF'' True (ntpgfv_vrf values) (\<lambda>t. values\<lparr>ntpgfv_vrf := t\<rparr>),
      Input ''Local reference stratum'' True (ntpgfv_localStratum values)
        (\<lambda>t. values\<lparr>ntpgfv_localStratum := t\<rparr>),
      Select ''Leap second behavior'' True ([''''] @ NTP_LEAP_SECOND_MODES)
        (ntpgfv_leapSecond values) (\<lambda>t. values\<lparr>ntpgfv_leapSecond := t\<rparr>),
      Button ''Save general settings'' True (NtpSettings_GeneralSettings_save config values),
      Chips ''service ntp allow-client address'' (ntpc_allowClientAddresses config)
        (ntpAllowClientPath [] @ [''address'']),
      Chips ''service ntp listen-address'' (ntpc_listenAddresses config)
        (ntpPath [] @ [''listen-address'']),
      Chips ''service ntp source-address'' (ntpc_sourceAddresses config)
        (ntpPath [] @ [''source-address''])]"

text \<open>\<open>components/service/RouterAdvertList.tsx\<close>\<close>

definition RouterAdvertList_InterfaceDetails_controls :: "RouterAdvertInterface \<Rightarrow> unit widget list" where
  "RouterAdvertList_InterfaceDetails_controls iface =
     [Chips (''service router-advert interface '' @ rai_interfaceName iface @ '' dnssl'')
        (rai_dnssl iface) (routerAdvertInterfacePath (rai_interfaceName iface) [] @ [''dnssl'']),
      Chips (''service router-advert interface '' @ rai_interfaceName iface @ '' name-server'')
        (rai_nameServers iface) (routerAdvertInterfacePath (rai_interfaceName iface) []
         @ [''name-server'']),
      Chips (''service router-advert interface '' @ rai_interfaceName iface @ '' source-address'')
        (rai_sourceAddresses iface) (routerAdvertInterfacePath (rai_interfaceName iface) []
         @ [''source-address''])]"

definition RouterAdvertList_controls :: "RouterAdvertConfig \<Rightarrow> unit widget list" where
  "RouterAdvertList_controls config =
     concat
       (map
            (\<lambda>iface. [Button ''Delete'' True (RouterAdvertList_queueDelete (rai_interfaceName iface))])
            (rac_interfaces config))"

definition RouterAdvertList_InterfaceForm_controls ::
    "RouterAdvertInterface option \<Rightarrow> string list \<Rightarrow> text_input \<Rightarrow> RouterAdvertInterfaceFormValues \<Rightarrow> text_input \<Rightarrow> text_input \<Rightarrow> (text_input \<times> RouterAdvertInterfaceFormValues \<times> text_input \<times> text_input) widget list" where
  "RouterAdvertList_InterfaceForm_controls iface existingNames interfaceName values firstPrefix firstRoutePrefix =
     [Input ''Interface *'' (iface = None) interfaceName (\<lambda>t. (t, values, firstPrefix,
              firstRoutePrefix)),
      Input ''Hop limit'' True (raifv_hopLimit values) (\<lambda>t. (interfaceName,
              values\<lparr>raifv_hopLimit := t\<rparr>, firstPrefix, firstRoutePrefix)),
      Input ''Default lifetime (s)'' True (raifv_defaultLifetime values)
        (\<lambda>t. (interfaceName, values\<lparr>raifv_defaultLifetime := t\<rparr>, firstPrefix,
                firstRoutePrefix)),
      Select ''Default preference'' True ([''''] @ RA_PREFERENCES) (raifv_defaultPreference values)
        (\<lambda>t. (interfaceName, values\<lparr>raifv_defaultPreference := t\<rparr>,
                firstPrefix, firstRoutePrefix)),
      Input ''Link MTU'' True (raifv_linkMtu values) (\<lambda>t. (interfaceName,
              values\<lparr>raifv_linkMtu := t\<rparr>, firstPrefix, firstRoutePrefix)),
      Input ''Interval max (s)'' True (raifv_intervalMax values)
        (\<lambda>t. (interfaceName, values\<lparr>raifv_intervalMax := t\<rparr>, firstPrefix,
                firstRoutePrefix)),
      Input ''Interval min (s)'' True (raifv_intervalMin values)
        (\<lambda>t. (interfaceName, values\<lparr>raifv_intervalMin := t\<rparr>, firstPrefix,
                firstRoutePrefix)),
      Input ''Name server lifetime (s)'' True (raifv_nameServerLifetime values)
        (\<lambda>t. (interfaceName, values\<lparr>raifv_nameServerLifetime := t\<rparr>,
                firstPrefix, firstRoutePrefix)),
      Input ''Reachable time (ms)'' True (raifv_reachableTime values)
        (\<lambda>t. (interfaceName, values\<lparr>raifv_reachableTime := t\<rparr>, firstPrefix,
                firstRoutePrefix)),
      Input ''Retrans timer (ms)'' True (raifv_retransTimer values)
        (\<lambda>t. (interfaceName, values\<lparr>raifv_retransTimer := t\<rparr>, firstPrefix,
                firstRoutePrefix)),
      Check ''Managed (use DHCPv6 for addressing)'' True (raifv_managedFlag values)
        (\<lambda>b. (interfaceName, values\<lparr>raifv_managedFlag := b\<rparr>, firstPrefix,
                firstRoutePrefix)),
      Check ''Other-config (use DHCPv6 for other settings)'' True (raifv_otherConfigFlag values)
        (\<lambda>b. (interfaceName, values\<lparr>raifv_otherConfigFlag := b\<rparr>, firstPrefix,
                firstRoutePrefix)),
      Check (''Don'' @ [CHR 0x27] @ ''t actually send advertisements'') True
        (raifv_noSendAdvert values) (\<lambda>b. (interfaceName,
              values\<lparr>raifv_noSendAdvert := b\<rparr>, firstPrefix, firstRoutePrefix)),
      Check ''Omit advertisement interval option'' True (raifv_noSendInterval values)
        (\<lambda>b. (interfaceName, values\<lparr>raifv_noSendInterval := b\<rparr>, firstPrefix,
                firstRoutePrefix))]
     @ (if iface = None
        then [Input ''First prefix (optional)'' True firstPrefix
                (\<lambda>t. (interfaceName, values, t, firstRoutePrefix)),
              Input ''First route (optional)'' True firstRoutePrefix
                (\<lambda>t. (interfaceName, values, firstPrefix, t))]
        else [])
     @ [Button
          (case iface of Some iface' \<Rightarrow> ''Save changes'' | None \<Rightarrow> ''Enable'')
          (RouterAdvertList_InterfaceForm_canSubmit iface existingNames interfaceName)
          (RouterAdvertList_InterfaceForm_submit iface existingNames interfaceName values
               firstPrefix firstRoutePrefix)]"

definition RouterAdvertList_PrefixesSection_controls ::
    "RouterAdvertInterface \<Rightarrow> bool \<Rightarrow> text_input \<Rightarrow> bool \<Rightarrow> bool \<Rightarrow> text_input \<Rightarrow> text_input \<Rightarrow> (text_input \<times> bool \<times> bool \<times> text_input \<times> text_input) widget list" where
  "RouterAdvertList_PrefixesSection_controls iface showAdd pfx noAutonomousFlag noOnLinkFlag preferredLifetime validLifetime =
     concat (map
          (\<lambda>p. [Button ''Remove'' True (RouterAdvertList_PrefixesSection_onClick iface p)])
          (rai_prefixes iface))
     @ (if showAdd
        then [Input ''2001:db8::/64'' True pfx (\<lambda>t. (t, noAutonomousFlag, noOnLinkFlag,
                      preferredLifetime, validLifetime)),
              Input ''preferred-lifetime (s or infinity)'' True preferredLifetime
                (\<lambda>t. (pfx, noAutonomousFlag, noOnLinkFlag, t, validLifetime)),
              Input ''valid-lifetime (s or infinity)'' True validLifetime
                (\<lambda>t. (pfx, noAutonomousFlag, noOnLinkFlag, preferredLifetime, t)),
              Check ''No autonomous flag'' True noAutonomousFlag
                (\<lambda>b. (pfx, b, noOnLinkFlag, preferredLifetime, validLifetime)),
              Check ''No on-link flag'' True noOnLinkFlag (\<lambda>b. (pfx, noAutonomousFlag, b,
                      preferredLifetime, validLifetime)),
              Button ''Add prefix'' (RouterAdvertList_PrefixesSection_valid iface pfx)
                (RouterAdvertList_PrefixesSection_submit iface pfx noAutonomousFlag noOnLinkFlag
                     preferredLifetime validLifetime)]
        else [])"

definition RouterAdvertList_RoutesSection_controls ::
    "RouterAdvertInterface \<Rightarrow> bool \<Rightarrow> text_input \<Rightarrow> text_input \<Rightarrow> text_input \<Rightarrow> (text_input \<times> text_input \<times> text_input) widget list" where
  "RouterAdvertList_RoutesSection_controls iface showAdd pfx validLifetime routePreference =
     concat (map
          (\<lambda>r. [Button ''Remove'' True (RouterAdvertList_RoutesSection_onClick iface r)])
          (rai_routes iface))
     @ (if showAdd
        then [Input ''2001:db8:1::/64'' True pfx (\<lambda>t. (t, validLifetime, routePreference)),
              Input ''valid-lifetime'' True validLifetime (\<lambda>t. (pfx, t, routePreference)),
              Select '''' True ([''''] @ RA_PREFERENCES) routePreference
                (\<lambda>t. (pfx, validLifetime, t)),
              Button ''Add route'' (RouterAdvertList_RoutesSection_valid iface pfx)
                (RouterAdvertList_RoutesSection_submit iface pfx validLifetime routePreference)]
        else [])"

text \<open>\<open>components/service/SnmpSettings.tsx\<close>\<close>

definition SnmpSettings_controls :: "SNMPConfig \<Rightarrow> unit widget list" where
  "SnmpSettings_controls config =
     (if \<not> sosnmpc_enabled config then [Button ''Enable SNMP'' True (SnmpSettings_onClick)]
      else [])"

definition SnmpSettings_SnmpSettingsForm_controls ::
    "SNMPConfig \<Rightarrow> SNMPSettingsFormValues \<Rightarrow> SNMPSettingsFormValues widget list" where
  "SnmpSettings_SnmpSettingsForm_controls config values =
     [Input ''Contact'' True (snmpsfv_contact values) (\<lambda>t. values\<lparr>snmpsfv_contact := t\<rparr>),
      Input ''Location'' True (snmpsfv_location values) (\<lambda>t. values\<lparr>snmpsfv_location := t\<rparr>),
      Input ''Description'' True (snmpsfv_description values)
        (\<lambda>t. values\<lparr>snmpsfv_description := t\<rparr>),
      Input ''Trap source address'' True (snmpsfv_trapSource values)
        (\<lambda>t. values\<lparr>snmpsfv_trapSource := t\<rparr>),
      Select ''Transport protocol'' True ([''''] @ SNMP_PROTOCOLS) (snmpsfv_protocol values)
        (\<lambda>t. values\<lparr>snmpsfv_protocol := t\<rparr>),
      Button ''Save settings'' True (SnmpSettings_SnmpSettingsForm_save config values),
      Button ''Disable SNMP entirely'' True (SnmpSettings_SnmpSettingsForm_queueDisable)]"

definition SnmpSettings_CommunitiesSection_controls ::
    "SNMPConfig \<Rightarrow> bool \<Rightarrow> text_input \<Rightarrow> text_input \<Rightarrow> (text_input \<times> text_input) widget list" where
  "SnmpSettings_CommunitiesSection_controls config showAdd name authorization =
     (if showAdd
      then [Input ''public'' True name (\<lambda>t. (t, authorization)),
            Select '''' True ([''''] @ SNMP_AUTHORIZATION_LEVELS) authorization
              (\<lambda>t. (name, t)),
            Button ''Add'' (SnmpSettings_CommunitiesSection_valid config name)
              (SnmpSettings_CommunitiesSection_submit config name authorization)]
      else [])
     @ concat
         (map
              (\<lambda>community. [Button ''Remove'' True (SnmpSettings_CommunitiesSection_onClick community),
                    Chips (''service snmp community '' @ snmpc_name community @ '' client'')
                      (snmpc_clients community) (snmpCommunityPath (snmpc_name community) []
                       @ [''client'']),
                    Chips (''service snmp community '' @ snmpc_name community @ '' network'')
                      (snmpc_networks community) (snmpCommunityPath (snmpc_name community) []
                       @ [''network''])]) (sosnmpc_communities config))"

definition SnmpSettings_ListenAddressesSection_controls ::
    "SNMPConfig \<Rightarrow> bool \<Rightarrow> text_input \<Rightarrow> text_input \<Rightarrow> (text_input \<times> text_input) widget list" where
  "SnmpSettings_ListenAddressesSection_controls config showAdd address port =
     (if showAdd
      then [Input ''192.0.2.1'' True address (\<lambda>t. (t, port)),
            Input ''port (default 161)'' True port (\<lambda>t. (address, t)),
            Button ''Add'' (SnmpSettings_ListenAddressesSection_valid config address)
              (SnmpSettings_ListenAddressesSection_submit config address port)]
      else [])
     @ concat (map
            (\<lambda>la. [Button ''Remove'' True (SnmpSettings_ListenAddressesSection_onClick la)])
            (sosnmpc_listenAddresses config))"

definition SnmpSettings_TrapTargetsSection_controls ::
    "SNMPConfig \<Rightarrow> bool \<Rightarrow> text_input \<Rightarrow> text_input \<Rightarrow> text_input \<Rightarrow> (text_input \<times> text_input \<times> text_input) widget list" where
  "SnmpSettings_TrapTargetsSection_controls config showAdd address community port =
     (if showAdd
      then [Input ''192.0.2.2'' True address (\<lambda>t. (t, community, port)),
            Input ''community'' True community (\<lambda>t. (address, t, port)),
            Input ''port (default 162)'' True port (\<lambda>t. (address, community, t)),
            Button ''Add'' (SnmpSettings_TrapTargetsSection_valid config address)
              (SnmpSettings_TrapTargetsSection_submit config address community port)]
      else [])
     @ concat (map
            (\<lambda>t. [Button ''Remove'' True (SnmpSettings_TrapTargetsSection_onClick t)])
            (sosnmpc_trapTargets config))"

text \<open>\<open>components/service/Snmpv3Section.tsx\<close>\<close>

definition Snmpv3Section_EngineIdField_controls :: "SNMPv3Config \<Rightarrow> text_input \<Rightarrow> text_input widget list" where
  "Snmpv3Section_EngineIdField_controls v3 val =
     [Input ''Engine ID (hex, even length 2-36)'' True val (\<lambda>t. t),
      Button ''Save'' True (Snmpv3Section_EngineIdField_save v3 val)]"

definition Snmpv3Section_GroupsSection_controls ::
    "SNMPv3Config \<Rightarrow> bool \<Rightarrow> text_input \<Rightarrow> text_input \<Rightarrow> text_input \<Rightarrow> text_input \<Rightarrow> (text_input \<times> text_input \<times> text_input \<times> text_input) widget list" where
  "Snmpv3Section_GroupsSection_controls v3 showAdd name mode seclevel view =
     (if showAdd
      then [Input ''name'' True name (\<lambda>t. (t, mode, seclevel, view)),
            Select '''' True ([''''] @ SNMP_V3_ACCESS_MODES) mode
              (\<lambda>t. (name, t, seclevel, view)),
            Select '''' True ([''''] @ SNMP_V3_SECLEVELS) seclevel
              (\<lambda>t. (name, mode, t, view)),
            Input ''view name'' True view (\<lambda>t. (name, mode, seclevel, t)),
            Button ''Add group'' (Snmpv3Section_GroupsSection_valid v3 name)
              (Snmpv3Section_GroupsSection_submit v3 name mode seclevel view)]
      else [])
     @ concat (map (\<lambda>g. [Button ''Remove'' True (Snmpv3Section_GroupsSection_onClick g)])
            (snmpca_groups v3))"

definition Snmpv3Section_UsersSection_controls ::
    "SNMPv3Config \<Rightarrow> bool \<Rightarrow> text_input \<Rightarrow> text_input \<Rightarrow> text_input \<Rightarrow> text_input \<Rightarrow> text_input \<Rightarrow> text_input \<Rightarrow> text_input \<Rightarrow> (text_input \<times> text_input \<times> text_input \<times> text_input \<times> text_input \<times> text_input \<times> text_input) widget list" where
  "Snmpv3Section_UsersSection_controls v3 showAdd name grp mode authPassword authType privacyPassword privacyType =
     (if showAdd
      then [Input ''username'' True name (\<lambda>t. (t, grp, mode, authPassword, authType,
                    privacyPassword, privacyType)),
            Input ''group name'' True grp (\<lambda>t. (name, t, mode, authPassword, authType,
                    privacyPassword, privacyType)),
            Select '''' True ([''''] @ SNMP_V3_ACCESS_MODES) mode
              (\<lambda>t. (name, grp, t, authPassword, authType, privacyPassword, privacyType)),
            Input ''auth password (min 8 chars)'' True authPassword
              (\<lambda>t. (name, grp, mode, t, authType, privacyPassword, privacyType)),
            Select '''' True ([''''] @ SNMP_V3_AUTH_TYPES) authType
              (\<lambda>t. (name, grp, mode, authPassword, t, privacyPassword, privacyType)),
            Input ''privacy password (min 8 chars)'' True privacyPassword
              (\<lambda>t. (name, grp, mode, authPassword, authType, t, privacyType)),
            Select '''' True ([''''] @ SNMP_V3_PRIVACY_TYPES) privacyType
              (\<lambda>t. (name, grp, mode, authPassword, authType, privacyPassword, t)),
            Button ''Add user'' (Snmpv3Section_UsersSection_valid v3 name)
              (Snmpv3Section_UsersSection_submit v3 name grp mode authPassword authType
                   privacyPassword privacyType)]
      else [])
     @ concat (map (\<lambda>u. [Button ''Remove'' True (Snmpv3Section_UsersSection_onClick u)])
            (snmpca_users v3))"

definition Snmpv3Section_ViewsSection_controls ::
    "SNMPv3Config \<Rightarrow> bool \<Rightarrow> text_input \<Rightarrow> text_input widget list" where
  "Snmpv3Section_ViewsSection_controls v3 showAdd name =
     (if showAdd
      then [Input ''view name'' True name (\<lambda>t. t),
            Button ''Add'' (Snmpv3Section_ViewsSection_valid v3 name)
              (Snmpv3Section_ViewsSection_submit v3 name)]
      else [])
     @ concat (map
            (\<lambda>view. [Button ''Remove'' True (Snmpv3Section_ViewsSection_onClick view)])
            (snmpca_views v3))"

definition Snmpv3Section_ViewOids_controls ::
    "SNMPv3View \<Rightarrow> bool \<Rightarrow> text_input \<Rightarrow> text_input \<Rightarrow> (text_input \<times> text_input) widget list" where
  "Snmpv3Section_ViewOids_controls view showAdd oid msk =
     concat (map
          (\<lambda>o1. [Button ''Remove'' True (Snmpv3Section_ViewOids_onClick view o1),
                Chips
                  (''service snmp v3 view '' @ snmpv_name view @ '' oid '' @ snmpvo_oid o1
                     @ '' exclude'') (snmpvo_exclude o1) (snmpV3ViewOidPath (snmpv_name view)
                     (snmpvo_oid o1) [] @ [''exclude''])]) (snmpv_oids view))
     @ (if showAdd
        then [Input ''1.3.6.1'' True oid (\<lambda>t. (t, msk)),
              Input ''mask (optional)'' True msk (\<lambda>t. (oid, t)),
              Button ''Add'' (Snmpv3Section_ViewOids_valid view oid)
                (Snmpv3Section_ViewOids_submit view oid msk)]
        else [])"

definition Snmpv3Section_V3TrapTargetsSection_controls ::
    "SNMPv3Config \<Rightarrow> bool \<Rightarrow> text_input \<Rightarrow> text_input \<Rightarrow> text_input \<Rightarrow> text_input \<Rightarrow> text_input \<Rightarrow> text_input \<Rightarrow> text_input \<Rightarrow> text_input \<Rightarrow> text_input \<Rightarrow> (text_input \<times> text_input \<times> text_input \<times> text_input \<times> text_input \<times> text_input \<times> text_input \<times> text_input \<times> text_input) widget list" where
  "Snmpv3Section_V3TrapTargetsSection_controls v3 showAdd address authPassword authType privacyPassword privacyType port protocol ty user =
     (if showAdd
      then [Input ''192.0.2.3'' True address (\<lambda>t. (t, authPassword, authType,
                    privacyPassword, privacyType, port, protocol, ty, user)),
            Input ''user name'' True user (\<lambda>t. (address, authPassword, authType,
                    privacyPassword, privacyType, port, protocol, ty, t)),
            Input ''port (default 162)'' True port (\<lambda>t. (address, authPassword, authType,
                    privacyPassword, privacyType, t, protocol, ty, user)),
            Select '''' True ([''''] @ SNMP_PROTOCOLS) protocol
              (\<lambda>t. (address, authPassword, authType, privacyPassword, privacyType, port, t,
                      ty, user)),
            Select '''' True ([''''] @ SNMP_V3_TRAP_TYPES) ty
              (\<lambda>t. (address, authPassword, authType, privacyPassword, privacyType, port,
                      protocol, t, user)),
            Input ''auth password'' True authPassword (\<lambda>t. (address, t, authType,
                    privacyPassword, privacyType, port, protocol, ty, user)),
            Select '''' True ([''''] @ SNMP_V3_AUTH_TYPES) authType
              (\<lambda>t. (address, authPassword, t, privacyPassword, privacyType, port, protocol,
                      ty, user)),
            Input ''privacy password'' True privacyPassword (\<lambda>t. (address, authPassword,
                    authType, t, privacyType, port, protocol, ty, user)),
            Select '''' True ([''''] @ SNMP_V3_PRIVACY_TYPES) privacyType
              (\<lambda>t. (address, authPassword, authType, privacyPassword, t, port, protocol, ty,
                      user)),
            Button ''Add trap target'' (Snmpv3Section_V3TrapTargetsSection_valid v3 address)
              (Snmpv3Section_V3TrapTargetsSection_submit v3 address authPassword authType
                   privacyPassword privacyType port protocol ty user)]
      else [])
     @ concat (map
            (\<lambda>t. [Button ''Remove'' True (Snmpv3Section_V3TrapTargetsSection_onClick t)])
            (snmpca_trapTargets v3))"

text \<open>\<open>components/service/SshSettings.tsx\<close>\<close>

definition SshSettings_controls :: "SSHConfig \<Rightarrow> unit widget list" where
  "SshSettings_controls config =
     (if \<not> sshc_enabled config
      then [Button ''Enable SSH (defaults: port 22, password auth allowed)'' True
              (SshSettings_onClick)]
      else [])"

definition SshSettings_ChipListField_controls ::
    "string list \<Rightarrow> string list \<Rightarrow> string \<Rightarrow> string \<Rightarrow> unit widget list" where
  "SshSettings_ChipListField_controls values basePath leaf pathLabel =
     [Chips pathLabel values (basePath @ [leaf])]"

definition SshSettings_SshSettingsForm_controls ::
    "SSHConfig \<Rightarrow> SSHFormValues \<Rightarrow> SSHFormValues widget list" where
  "SshSettings_SshSettingsForm_controls config values =
     [Select ''Log level'' True ([''''] @ SSH_LOG_LEVELS) (sshfv_loglevel values)
        (\<lambda>t. values\<lparr>sshfv_loglevel := t\<rparr>),
      Input ''Client keepalive interval (s)'' True (sshfv_clientKeepaliveInterval values)
        (\<lambda>t. values\<lparr>sshfv_clientKeepaliveInterval := t\<rparr>),
      Input ''Trusted user CA (PKI name)'' True (sshfv_trustedUserCA values)
        (\<lambda>t. values\<lparr>sshfv_trustedUserCA := t\<rparr>),
      Input ''Rekey after data (MB)'' True (sshfv_rekeyData values)
        (\<lambda>t. values\<lparr>sshfv_rekeyData := t\<rparr>),
      Input ''Rekey after time (min)'' True (sshfv_rekeyTime values)
        (\<lambda>t. values\<lparr>sshfv_rekeyTime := t\<rparr>),
      Check ''Disable password authentication (keys only)'' True
        (sshfv_disablePasswordAuthentication values) (\<lambda>b. values\<lparr>sshfv_disablePasswordAuthentication := b\<rparr>),
      Check ''Disable host validation'' True (sshfv_disableHostValidation values)
        (\<lambda>b. values\<lparr>sshfv_disableHostValidation := b\<rparr>),
      Check ''FIDO: require PIN'' True (sshfv_fidoPinRequired values)
        (\<lambda>b. values\<lparr>sshfv_fidoPinRequired := b\<rparr>),
      Check ''FIDO: require touch'' True (sshfv_fidoTouchRequired values)
        (\<lambda>b. values\<lparr>sshfv_fidoTouchRequired := b\<rparr>),
      Input ''Block time (s)'' True (sshfv_dynamicProtectionBlockTime values)
        (\<lambda>t. values\<lparr>sshfv_dynamicProtectionBlockTime := t\<rparr>),
      Input ''Detect time (s)'' True (sshfv_dynamicProtectionDetectTime values)
        (\<lambda>t. values\<lparr>sshfv_dynamicProtectionDetectTime := t\<rparr>),
      Input ''Threshold'' True (sshfv_dynamicProtectionThreshold values)
        (\<lambda>t. values\<lparr>sshfv_dynamicProtectionThreshold := t\<rparr>),
      Button ''Save settings'' True (SshSettings_SshSettingsForm_save config values),
      Button ''Disable SSH entirely'' True (SshSettings_SshSettingsForm_queueDisable)]"

text \<open>\<open>components/service/TftpSettings.tsx\<close>\<close>

definition TftpSettings_controls :: "TFTPServerConfig \<Rightarrow> unit widget list" where
  "TftpSettings_controls config =
     (if \<not> tftpsc_enabled config
      then [Button ''Enable TFTP server'' True (TftpSettings_onClick)]
      else [])"

definition TftpSettings_TftpSettingsForm_controls ::
    "TFTPServerConfig \<Rightarrow> TFTPServerFormValues \<Rightarrow> TFTPServerFormValues widget list" where
  "TftpSettings_TftpSettingsForm_controls config values =
     [Input ''Directory'' True (tftpsfv_directory values) (\<lambda>t. values\<lparr>tftpsfv_directory := t\<rparr>),
      Input ''Port'' True (tftpsfv_port values) (\<lambda>t. values\<lparr>tftpsfv_port := t\<rparr>),
      Check ''Allow uploads'' True (tftpsfv_allowUpload values)
        (\<lambda>b. values\<lparr>tftpsfv_allowUpload := b\<rparr>),
      Button ''Save settings'' True (TftpSettings_TftpSettingsForm_save config values),
      Button ''Disable TFTP server entirely'' True (TftpSettings_TftpSettingsForm_queueDisable)]"

definition TftpSettings_ListenAddressesSection_controls ::
    "TFTPServerConfig \<Rightarrow> bool \<Rightarrow> text_input \<Rightarrow> text_input \<Rightarrow> (text_input \<times> text_input) widget list" where
  "TftpSettings_ListenAddressesSection_controls config showAdd address vrf =
     (if showAdd
      then [Input ''192.0.2.1'' True address (\<lambda>t. (t, vrf)),
            Input ''vrf (optional)'' True vrf (\<lambda>t. (address, t)),
            Button ''Add'' (TftpSettings_ListenAddressesSection_valid config address)
              (TftpSettings_ListenAddressesSection_submit config address vrf)]
      else [])
     @ concat (map
            (\<lambda>la. [Button ''Remove'' True (TftpSettings_ListenAddressesSection_onClick la)])
            (tftpsc_listenAddresses config))"

subsection \<open>What is typed and clicked\<close>

lemmas services_views =
  BroadcastRelayList_InstanceForm_controls_def ConsoleServerList_DeviceForm_controls_def
  DhcpRelaySettings_V4Settings_controls_def DhcpRelaySettings_V6Settings_controls_def
  DhcpRelaySettings_ListenInterfaces_controls_def
  DhcpRelaySettings_UpstreamInterfaces_controls_def
  Dhcpv6ServerSettings_Dhcpv6ServerSettingsForm_controls_def
  Dhcpv6ServerSettings_SharedNetworkForm_controls_def Dhcpv6SubnetDetails_SubnetForm_controls_def
  Dhcpv6SubnetDetails_RangesSection_controls_def
  Dhcpv6SubnetDetails_StaticMappingsSection_controls_def
  Dhcpv6SubnetDetails_PrefixDelegationsSection_controls_def
  DnsForwardingSettings_DnsForwardingSettingsForm_controls_def
  DnsForwardingSettings_NameServersSection_controls_def
  DnsForwardingSettings_DomainsSection_controls_def DynamicDnsList_EntryForm_controls_def
  DynamicDnsList_GlobalSettings_controls_def EventHandlerList_EventForm_controls_def
  HttpsSettings_HttpsSettingsForm_controls_def HttpsSettings_ApiKeysSection_controls_def
  LldpList_LldpEnabled_controls_def LldpList_InterfaceForm_controls_def
  MdnsSettings_MdnsSettingsForm_controls_def MonitoringSettings_NodeExporterSection_controls_def
  MonitoringSettings_FrrExporterSection_controls_def
  MonitoringSettings_ZabbixAgentForm_controls_def
  MonitoringSettings_ServerActiveSection_controls_def
  MonitoringSettings_NetworkEventForm_controls_def NdpProxyList_InterfaceForm_controls_def
  NdpProxyList_PrefixesSection_controls_def NtpSettings_GeneralSettings_controls_def
  RouterAdvertList_InterfaceForm_controls_def RouterAdvertList_PrefixesSection_controls_def
  RouterAdvertList_RoutesSection_controls_def SnmpSettings_SnmpSettingsForm_controls_def
  SnmpSettings_CommunitiesSection_controls_def SnmpSettings_ListenAddressesSection_controls_def
  SnmpSettings_TrapTargetsSection_controls_def Snmpv3Section_EngineIdField_controls_def
  Snmpv3Section_GroupsSection_controls_def Snmpv3Section_UsersSection_controls_def
  Snmpv3Section_ViewsSection_controls_def Snmpv3Section_ViewOids_controls_def
  Snmpv3Section_V3TrapTargetsSection_controls_def SshSettings_SshSettingsForm_controls_def
  TftpSettings_TftpSettingsForm_controls_def TftpSettings_ListenAddressesSection_controls_def
  BroadcastRelayList_controls_def BroadcastRelayList_BroadcastRelayEnabled_controls_def
  ConsoleServerList_controls_def ConsoleServerList_ConsoleServerEnabled_controls_def
  Dhcpv6ServerSettings_controls_def Dhcpv6ServerSettings_SharedNetworkList_controls_def
  Dhcpv6SubnetDetails_controls_def DnsForwardingSettings_controls_def DynamicDnsList_controls_def
  EventHandlerList_controls_def EventHandlerList_EventHandlerEnabled_controls_def
  HttpsSettings_controls_def LldpList_controls_def MdnsSettings_controls_def
  MonitoringSettings_ZabbixAgentSection_controls_def
  MonitoringSettings_NetworkEventSection_controls_def NdpProxyList_controls_def
  RouterAdvertList_controls_def SnmpSettings_controls_def SshSettings_controls_def
  TftpSettings_controls_def

lemma services_controlled:
  "controlled (\<lambda>(i, values). BroadcastRelayList_InstanceForm_controls instance1 existingIds i values)"
  "controlled (\<lambda>(name, values_1). ConsoleServerList_DeviceForm_controls device1 existingNames name values_1)"
  "controlled (DhcpRelaySettings_V4Settings_controls config_2)"
  "controlled (DhcpRelaySettings_V6Settings_controls config_3)"
  "controlled (\<lambda>(interfaceName, address). DhcpRelaySettings_ListenInterfaces_controls config_3 showAdd interfaceName address)"
  "controlled (DhcpRelaySettings_UpstreamInterfaces_controls config_3 showAdd)"
  "controlled (Dhcpv6ServerSettings_Dhcpv6ServerSettingsForm_controls config_4)"
  "controlled (\<lambda>(name, values_5, firstSubnetCidr, firstSubnetId, firstRangeStart, firstRangeStop). Dhcpv6ServerSettings_SharedNetworkForm_controls network existingNames name values_5 firstSubnetCidr firstSubnetId firstRangeStart firstRangeStop)"
  "controlled (\<lambda>(cidr, values_6). Dhcpv6SubnetDetails_SubnetForm_controls networkName subnet_1 existingCidrs cidr values_6)"
  "controlled (\<lambda>(i, pfx, start, stop). Dhcpv6SubnetDetails_RangesSection_controls networkName subnet showAdd i pfx start stop)"
  "controlled (\<lambda>(hostname, mac, duid). Dhcpv6SubnetDetails_StaticMappingsSection_controls networkName subnet showAdd hostname mac duid)"
  "controlled (\<lambda>(pfx, prefixLength, delegatedLength). Dhcpv6SubnetDetails_PrefixDelegationsSection_controls networkName subnet showAdd pfx prefixLength delegatedLength)"
  "controlled (DnsForwardingSettings_DnsForwardingSettingsForm_controls config_5)"
  "controlled (\<lambda>(address, port). DnsForwardingSettings_NameServersSection_controls base nameServers showAdd address port)"
  "controlled (\<lambda>(fqdn, addnta, recursionDesired). DnsForwardingSettings_DomainsSection_controls config_5 showCreate fqdn addnta recursionDesired)"
  "controlled (\<lambda>(name, values_8). DynamicDnsList_EntryForm_controls entry existingNames name values_8)"
  "controlled (DynamicDnsList_GlobalSettings_controls config_6)"
  "controlled (\<lambda>(name, values_10). EventHandlerList_EventForm_controls event existingNames name values_10)"
  "controlled (HttpsSettings_HttpsSettingsForm_controls config_8)"
  "controlled (\<lambda>(i, key). HttpsSettings_ApiKeysSection_controls config_8 showAdd i key)"
  "controlled (LldpList_LldpEnabled_controls config_9)"
  "controlled (\<lambda>(interfaceName, values_13). LldpList_InterfaceForm_controls iface existingNames interfaceName values_13)"
  "controlled (MdnsSettings_MdnsSettingsForm_controls config_10)"
  "controlled (MonitoringSettings_NodeExporterSection_controls config_11)"
  "controlled (MonitoringSettings_FrrExporterSection_controls config_11)"
  "controlled (MonitoringSettings_ZabbixAgentForm_controls zabbix)"
  "controlled (\<lambda>(address, port). MonitoringSettings_ServerActiveSection_controls zabbix showAdd address port)"
  "controlled (MonitoringSettings_NetworkEventForm_controls networkEvent)"
  "controlled (\<lambda>(interfaceName, values_19, firstPrefix, firstPrefixMode, firstPrefixInterfaceRef). NdpProxyList_InterfaceForm_controls iface_1 existingNames interfaceName values_19 firstPrefix firstPrefixMode firstPrefixInterfaceRef)"
  "controlled (\<lambda>(pfx, mode, interfaceRef). NdpProxyList_PrefixesSection_controls iface_2 showAdd pfx mode interfaceRef)"
  "controlled (NtpSettings_GeneralSettings_controls config_13)"
  "controlled (\<lambda>(interfaceName, values_21, firstPrefix, firstRoutePrefix). RouterAdvertList_InterfaceForm_controls iface_4 existingNames interfaceName values_21 firstPrefix firstRoutePrefix)"
  "controlled (\<lambda>(pfx, noAutonomousFlag, noOnLinkFlag, preferredLifetime, validLifetime). RouterAdvertList_PrefixesSection_controls iface_3 showAdd pfx noAutonomousFlag noOnLinkFlag preferredLifetime validLifetime)"
  "controlled (\<lambda>(pfx, validLifetime, routePreference). RouterAdvertList_RoutesSection_controls iface_3 showAdd pfx validLifetime routePreference)"
  "controlled (SnmpSettings_SnmpSettingsForm_controls config_15)"
  "controlled (\<lambda>(name, authorization). SnmpSettings_CommunitiesSection_controls config_15 showAdd name authorization)"
  "controlled (\<lambda>(address, port). SnmpSettings_ListenAddressesSection_controls config_15 showAdd address port)"
  "controlled (\<lambda>(address, community, port). SnmpSettings_TrapTargetsSection_controls config_15 showAdd address community port)"
  "controlled (Snmpv3Section_EngineIdField_controls v3)"
  "controlled (\<lambda>(name, mode, seclevel, view). Snmpv3Section_GroupsSection_controls v3 showAdd name mode seclevel view)"
  "controlled (\<lambda>(name, grp, mode, authPassword, authType, privacyPassword, privacyType). Snmpv3Section_UsersSection_controls v3 showAdd name grp mode authPassword authType privacyPassword privacyType)"
  "controlled (Snmpv3Section_ViewsSection_controls v3 showAdd)"
  "controlled (\<lambda>(oid, msk). Snmpv3Section_ViewOids_controls view_1 showAdd oid msk)"
  "controlled (\<lambda>(address, authPassword, authType, privacyPassword, privacyType, port, protocol, ty, user). Snmpv3Section_V3TrapTargetsSection_controls v3 showAdd address authPassword authType privacyPassword privacyType port protocol ty user)"
  "controlled (SshSettings_SshSettingsForm_controls config_16)"
  "controlled (TftpSettings_TftpSettingsForm_controls config_17)"
  "controlled (\<lambda>(address, vrf). TftpSettings_ListenAddressesSection_controls config_17 showAdd address vrf)"
  by (simp_all add: controlled_def services_views view_simps)

inductive services_typed :: "string \<Rightarrow> shown \<Rightarrow> (string \<times> shown) list \<Rightarrow> bool" where
  "typing (\<lambda>(i, values). BroadcastRelayList_InstanceForm_controls instance1 existingIds i values) l y scr \<Longrightarrow> services_typed l y scr"
| "typing (\<lambda>(name, values_1). ConsoleServerList_DeviceForm_controls device1 existingNames name values_1) l y scr \<Longrightarrow> services_typed l y scr"
| "typing (DhcpRelaySettings_V4Settings_controls config_2) l y scr \<Longrightarrow> services_typed l y scr"
| "typing (DhcpRelaySettings_V6Settings_controls config_3) l y scr \<Longrightarrow> services_typed l y scr"
| "typing (\<lambda>(interfaceName, address). DhcpRelaySettings_ListenInterfaces_controls config_3 showAdd interfaceName address) l y scr \<Longrightarrow> services_typed l y scr"
| "typing (DhcpRelaySettings_UpstreamInterfaces_controls config_3 showAdd) l y scr \<Longrightarrow> services_typed l y scr"
| "typing (Dhcpv6ServerSettings_Dhcpv6ServerSettingsForm_controls config_4) l y scr \<Longrightarrow> services_typed l y scr"
| "typing (\<lambda>(name, values_5, firstSubnetCidr, firstSubnetId, firstRangeStart, firstRangeStop). Dhcpv6ServerSettings_SharedNetworkForm_controls network existingNames name values_5 firstSubnetCidr firstSubnetId firstRangeStart firstRangeStop) l y scr \<Longrightarrow> services_typed l y scr"
| "typing (\<lambda>(cidr, values_6). Dhcpv6SubnetDetails_SubnetForm_controls networkName subnet_1 existingCidrs cidr values_6) l y scr \<Longrightarrow> services_typed l y scr"
| "typing (\<lambda>(i, pfx, start, stop). Dhcpv6SubnetDetails_RangesSection_controls networkName subnet showAdd i pfx start stop) l y scr \<Longrightarrow> services_typed l y scr"
| "typing (\<lambda>(hostname, mac, duid). Dhcpv6SubnetDetails_StaticMappingsSection_controls networkName subnet showAdd hostname mac duid) l y scr \<Longrightarrow> services_typed l y scr"
| "typing (\<lambda>(pfx, prefixLength, delegatedLength). Dhcpv6SubnetDetails_PrefixDelegationsSection_controls networkName subnet showAdd pfx prefixLength delegatedLength) l y scr \<Longrightarrow> services_typed l y scr"
| "typing (DnsForwardingSettings_DnsForwardingSettingsForm_controls config_5) l y scr \<Longrightarrow> services_typed l y scr"
| "typing (\<lambda>(address, port). DnsForwardingSettings_NameServersSection_controls base nameServers showAdd address port) l y scr \<Longrightarrow> services_typed l y scr"
| "typing (\<lambda>(fqdn, addnta, recursionDesired). DnsForwardingSettings_DomainsSection_controls config_5 showCreate fqdn addnta recursionDesired) l y scr \<Longrightarrow> services_typed l y scr"
| "typing (\<lambda>(name, values_8). DynamicDnsList_EntryForm_controls entry existingNames name values_8) l y scr \<Longrightarrow> services_typed l y scr"
| "typing (DynamicDnsList_GlobalSettings_controls config_6) l y scr \<Longrightarrow> services_typed l y scr"
| "typing (\<lambda>(name, values_10). EventHandlerList_EventForm_controls event existingNames name values_10) l y scr \<Longrightarrow> services_typed l y scr"
| "typing (HttpsSettings_HttpsSettingsForm_controls config_8) l y scr \<Longrightarrow> services_typed l y scr"
| "typing (\<lambda>(i, key). HttpsSettings_ApiKeysSection_controls config_8 showAdd i key) l y scr \<Longrightarrow> services_typed l y scr"
| "typing (LldpList_LldpEnabled_controls config_9) l y scr \<Longrightarrow> services_typed l y scr"
| "typing (\<lambda>(interfaceName, values_13). LldpList_InterfaceForm_controls iface existingNames interfaceName values_13) l y scr \<Longrightarrow> services_typed l y scr"
| "typing (MdnsSettings_MdnsSettingsForm_controls config_10) l y scr \<Longrightarrow> services_typed l y scr"
| "typing (MonitoringSettings_NodeExporterSection_controls config_11) l y scr \<Longrightarrow> services_typed l y scr"
| "typing (MonitoringSettings_FrrExporterSection_controls config_11) l y scr \<Longrightarrow> services_typed l y scr"
| "typing (MonitoringSettings_ZabbixAgentForm_controls zabbix) l y scr \<Longrightarrow> services_typed l y scr"
| "typing (\<lambda>(address, port). MonitoringSettings_ServerActiveSection_controls zabbix showAdd address port) l y scr \<Longrightarrow> services_typed l y scr"
| "typing (MonitoringSettings_NetworkEventForm_controls networkEvent) l y scr \<Longrightarrow> services_typed l y scr"
| "typing (\<lambda>(interfaceName, values_19, firstPrefix, firstPrefixMode, firstPrefixInterfaceRef). NdpProxyList_InterfaceForm_controls iface_1 existingNames interfaceName values_19 firstPrefix firstPrefixMode firstPrefixInterfaceRef) l y scr \<Longrightarrow> services_typed l y scr"
| "typing (\<lambda>(pfx, mode, interfaceRef). NdpProxyList_PrefixesSection_controls iface_2 showAdd pfx mode interfaceRef) l y scr \<Longrightarrow> services_typed l y scr"
| "typing (NtpSettings_GeneralSettings_controls config_13) l y scr \<Longrightarrow> services_typed l y scr"
| "typing (\<lambda>(interfaceName, values_21, firstPrefix, firstRoutePrefix). RouterAdvertList_InterfaceForm_controls iface_4 existingNames interfaceName values_21 firstPrefix firstRoutePrefix) l y scr \<Longrightarrow> services_typed l y scr"
| "typing (\<lambda>(pfx, noAutonomousFlag, noOnLinkFlag, preferredLifetime, validLifetime). RouterAdvertList_PrefixesSection_controls iface_3 showAdd pfx noAutonomousFlag noOnLinkFlag preferredLifetime validLifetime) l y scr \<Longrightarrow> services_typed l y scr"
| "typing (\<lambda>(pfx, validLifetime, routePreference). RouterAdvertList_RoutesSection_controls iface_3 showAdd pfx validLifetime routePreference) l y scr \<Longrightarrow> services_typed l y scr"
| "typing (SnmpSettings_SnmpSettingsForm_controls config_15) l y scr \<Longrightarrow> services_typed l y scr"
| "typing (\<lambda>(name, authorization). SnmpSettings_CommunitiesSection_controls config_15 showAdd name authorization) l y scr \<Longrightarrow> services_typed l y scr"
| "typing (\<lambda>(address, port). SnmpSettings_ListenAddressesSection_controls config_15 showAdd address port) l y scr \<Longrightarrow> services_typed l y scr"
| "typing (\<lambda>(address, community, port). SnmpSettings_TrapTargetsSection_controls config_15 showAdd address community port) l y scr \<Longrightarrow> services_typed l y scr"
| "typing (Snmpv3Section_EngineIdField_controls v3) l y scr \<Longrightarrow> services_typed l y scr"
| "typing (\<lambda>(name, mode, seclevel, view). Snmpv3Section_GroupsSection_controls v3 showAdd name mode seclevel view) l y scr \<Longrightarrow> services_typed l y scr"
| "typing (\<lambda>(name, grp, mode, authPassword, authType, privacyPassword, privacyType). Snmpv3Section_UsersSection_controls v3 showAdd name grp mode authPassword authType privacyPassword privacyType) l y scr \<Longrightarrow> services_typed l y scr"
| "typing (Snmpv3Section_ViewsSection_controls v3 showAdd) l y scr \<Longrightarrow> services_typed l y scr"
| "typing (\<lambda>(oid, msk). Snmpv3Section_ViewOids_controls view_1 showAdd oid msk) l y scr \<Longrightarrow> services_typed l y scr"
| "typing (\<lambda>(address, authPassword, authType, privacyPassword, privacyType, port, protocol, ty, user). Snmpv3Section_V3TrapTargetsSection_controls v3 showAdd address authPassword authType privacyPassword privacyType port protocol ty user) l y scr \<Longrightarrow> services_typed l y scr"
| "typing (SshSettings_SshSettingsForm_controls config_16) l y scr \<Longrightarrow> services_typed l y scr"
| "typing (TftpSettings_TftpSettingsForm_controls config_17) l y scr \<Longrightarrow> services_typed l y scr"
| "typing (\<lambda>(address, vrf). TftpSettings_ListenAddressesSection_controls config_17 showAdd address vrf) l y scr \<Longrightarrow> services_typed l y scr"

lemma services_typed_shown: "services_typed l y scr \<Longrightarrow> answers l y scr"
  by (induction rule: services_typed.induct) (erule controlled_typing, rule services_controlled)+

lemma services_acting:
  "list_all (acting (services_editor ''service'')) (BroadcastRelayList_controls config)"
  "list_all (acting (services_editor ''service'')) (BroadcastRelayList_BroadcastRelayEnabled_controls config)"
  "list_all (acting (services_editor ''service'')) (BroadcastRelayList_InstanceForm_controls instance1 existingIds i values)"
  "list_all (acting (services_editor ''service'')) (ConsoleServerList_controls config_1)"
  "list_all (acting (services_editor ''service'')) (ConsoleServerList_ConsoleServerEnabled_controls config_1)"
  "list_all (acting (services_editor ''service'')) (ConsoleServerList_DeviceForm_controls device1 existingNames name values_1)"
  "list_all (acting (services_editor ''service'')) (DhcpRelaySettings_V4Settings_controls config_2 values_2)"
  "list_all (acting (services_editor ''service'')) (DhcpRelaySettings_V6Settings_controls config_3 values_3)"
  "list_all (acting (services_editor ''service'')) (DhcpRelaySettings_ListenInterfaces_controls config_3 showAdd interfaceName address)"
  "list_all (acting (services_editor ''service'')) (DhcpRelaySettings_UpstreamInterfaces_controls config_3 showAdd interfaceName)"
  "list_all (acting (services_editor ''service'')) (Dhcpv6ServerSettings_controls config_4)"
  "list_all (acting (services_editor ''service'')) (Dhcpv6ServerSettings_Dhcpv6ServerSettingsForm_controls config_4 values_4)"
  "list_all (acting (services_editor ''service'')) (Dhcpv6ServerSettings_SharedNetworkList_controls config_4)"
  "list_all (acting (services_editor ''service'')) (Dhcpv6ServerSettings_SharedNetworkForm_controls network existingNames name values_5 firstSubnetCidr firstSubnetId firstRangeStart firstRangeStop)"
  "list_all (acting (services_editor ''service'')) (Dhcpv6SubnetDetails_controls network_1)"
  "list_all (acting (services_editor ''service'')) (Dhcpv6SubnetDetails_SubnetForm_controls networkName subnet_1 existingCidrs cidr values_6)"
  "list_all (acting (services_editor ''service'')) (Dhcpv6SubnetDetails_RangesSection_controls networkName subnet showAdd i pfx start stop)"
  "list_all (acting (services_editor ''service'')) (Dhcpv6SubnetDetails_StaticMappingsSection_controls networkName subnet showAdd hostname mac duid)"
  "list_all (acting (services_editor ''service'')) (Dhcpv6SubnetDetails_PrefixDelegationsSection_controls networkName subnet showAdd pfx prefixLength delegatedLength)"
  "list_all (acting (services_editor ''service'')) (DnsForwardingSettings_controls config_5)"
  "list_all (acting (services_editor ''service'')) (DnsForwardingSettings_DnsForwardingSettingsForm_controls config_5 values_7)"
  "list_all (acting (services_editor ''service'')) (DnsForwardingSettings_DomainsSection_controls config_5 showCreate fqdn addnta recursionDesired)"
  "list_all (acting (services_editor ''service'')) (DynamicDnsList_controls config_6)"
  "list_all (acting (services_editor ''service'')) (DynamicDnsList_EntryForm_controls entry existingNames name values_8)"
  "list_all (acting (services_editor ''service'')) (DynamicDnsList_GlobalSettings_controls config_6 values_9)"
  "list_all (acting (services_editor ''service'')) (EventHandlerList_controls config_7)"
  "list_all (acting (services_editor ''service'')) (EventHandlerList_EventHandlerEnabled_controls config_7)"
  "list_all (acting (services_editor ''service'')) (EventHandlerList_EventForm_controls event existingNames name values_10)"
  "list_all (acting (services_editor ''service'')) (HttpsSettings_controls config_8)"
  "list_all (acting (services_editor ''service'')) (HttpsSettings_ApiKeysSection_controls config_8 showAdd i key)"
  "list_all (acting (services_editor ''service'')) (LldpList_controls config_9)"
  "list_all (acting (services_editor ''service'')) (LldpList_LldpEnabled_controls config_9 values_12)"
  "list_all (acting (services_editor ''service'')) (LldpList_InterfaceForm_controls iface existingNames interfaceName values_13)"
  "list_all (acting (services_editor ''service'')) (MdnsSettings_controls config_10)"
  "list_all (acting (services_editor ''service'')) (MdnsSettings_MdnsSettingsForm_controls config_10 values_14)"
  "list_all (acting (services_editor ''service'')) (MonitoringSettings_ZabbixAgentSection_controls config_11)"
  "list_all (acting (services_editor ''service'')) (MonitoringSettings_NetworkEventSection_controls config_11)"
  "list_all (acting (services_editor ''service'')) (MonitoringSettings_NodeExporterSection_controls config_11 values_15)"
  "list_all (acting (services_editor ''service'')) (MonitoringSettings_FrrExporterSection_controls config_11 values_16)"
  "list_all (acting (services_editor ''service'')) (MonitoringSettings_ZabbixAgentForm_controls zabbix values_17)"
  "list_all (acting (services_editor ''service'')) (MonitoringSettings_ServerActiveSection_controls zabbix showAdd address port)"
  "list_all (acting (services_editor ''service'')) (MonitoringSettings_NetworkEventForm_controls networkEvent values_18)"
  "list_all (acting (services_editor ''service'')) (NdpProxyList_controls config_12)"
  "list_all (acting (services_editor ''service'')) (NdpProxyList_InterfaceForm_controls iface_1 existingNames interfaceName values_19 firstPrefix firstPrefixMode firstPrefixInterfaceRef)"
  "list_all (acting (services_editor ''service'')) (NdpProxyList_PrefixesSection_controls iface_2 showAdd pfx mode interfaceRef)"
  "list_all (acting (services_editor ''service'')) (NtpSettings_GeneralSettings_controls config_13 values_20)"
  "list_all (acting (services_editor ''service'')) (RouterAdvertList_controls config_14)"
  "list_all (acting (services_editor ''service'')) (RouterAdvertList_InterfaceForm_controls iface_4 existingNames interfaceName values_21 firstPrefix firstRoutePrefix)"
  "list_all (acting (services_editor ''service'')) (RouterAdvertList_PrefixesSection_controls iface_3 showAdd pfx noAutonomousFlag noOnLinkFlag preferredLifetime validLifetime)"
  "list_all (acting (services_editor ''service'')) (RouterAdvertList_RoutesSection_controls iface_3 showAdd pfx validLifetime routePreference)"
  "list_all (acting (services_editor ''service'')) (SnmpSettings_controls config_15)"
  "list_all (acting (services_editor ''service'')) (SnmpSettings_SnmpSettingsForm_controls config_15 values_22)"
  "list_all (acting (services_editor ''service'')) (SnmpSettings_CommunitiesSection_controls config_15 showAdd name authorization)"
  "list_all (acting (services_editor ''service'')) (SnmpSettings_ListenAddressesSection_controls config_15 showAdd address port)"
  "list_all (acting (services_editor ''service'')) (SnmpSettings_TrapTargetsSection_controls config_15 showAdd address community port)"
  "list_all (acting (services_editor ''service'')) (Snmpv3Section_EngineIdField_controls v3 val)"
  "list_all (acting (services_editor ''service'')) (Snmpv3Section_GroupsSection_controls v3 showAdd name mode seclevel view)"
  "list_all (acting (services_editor ''service'')) (Snmpv3Section_UsersSection_controls v3 showAdd name grp mode authPassword authType privacyPassword privacyType)"
  "list_all (acting (services_editor ''service'')) (Snmpv3Section_ViewsSection_controls v3 showAdd name)"
  "list_all (acting (services_editor ''service'')) (Snmpv3Section_ViewOids_controls view_1 showAdd oid msk)"
  "list_all (acting (services_editor ''service'')) (Snmpv3Section_V3TrapTargetsSection_controls v3 showAdd address authPassword authType privacyPassword privacyType port protocol ty user)"
  "list_all (acting (services_editor ''service'')) (SshSettings_controls config_16)"
  "list_all (acting (services_editor ''service'')) (SshSettings_SshSettingsForm_controls config_16 values_24)"
  "list_all (acting (services_editor ''service'')) (TftpSettings_controls config_17)"
  "list_all (acting (services_editor ''service'')) (TftpSettings_TftpSettingsForm_controls config_17 values_25)"
  "list_all (acting (services_editor ''service'')) (TftpSettings_ListenAddressesSection_controls config_17 showAdd address vrf)"
  by (simp_all add: services_views view_simps services_editor.intros)

text \<open>The changes \<open>adds\<close> that one click in a component of the section \<open>sec\<close> puts in the cart.\<close>

inductive services_click :: "string \<Rightarrow> (ConfigOp \<times> string) list \<Rightarrow> bool" where
  "clicked (BroadcastRelayList_controls config) adds \<Longrightarrow> services_click ''service'' adds"
| "clicked (BroadcastRelayList_BroadcastRelayEnabled_controls config) adds \<Longrightarrow> services_click ''service'' adds"
| "clicked (BroadcastRelayList_InstanceForm_controls instance1 existingIds i values) adds \<Longrightarrow> services_click ''service'' adds"
| "clicked (ConsoleServerList_controls config_1) adds \<Longrightarrow> services_click ''service'' adds"
| "clicked (ConsoleServerList_ConsoleServerEnabled_controls config_1) adds \<Longrightarrow> services_click ''service'' adds"
| "clicked (ConsoleServerList_DeviceForm_controls device1 existingNames name values_1) adds \<Longrightarrow> services_click ''service'' adds"
| "clicked (DhcpRelaySettings_V4Settings_controls config_2 values_2) adds \<Longrightarrow> services_click ''service'' adds"
| "clicked (DhcpRelaySettings_V6Settings_controls config_3 values_3) adds \<Longrightarrow> services_click ''service'' adds"
| "clicked (DhcpRelaySettings_ListenInterfaces_controls config_3 showAdd interfaceName address) adds \<Longrightarrow> services_click ''service'' adds"
| "clicked (DhcpRelaySettings_UpstreamInterfaces_controls config_3 showAdd interfaceName) adds \<Longrightarrow> services_click ''service'' adds"
| "clicked (Dhcpv6ServerSettings_controls config_4) adds \<Longrightarrow> services_click ''service'' adds"
| "clicked (Dhcpv6ServerSettings_Dhcpv6ServerSettingsForm_controls config_4 values_4) adds \<Longrightarrow> services_click ''service'' adds"
| "clicked (Dhcpv6ServerSettings_SharedNetworkList_controls config_4) adds \<Longrightarrow> services_click ''service'' adds"
| "clicked (Dhcpv6ServerSettings_SharedNetworkForm_controls network existingNames name values_5 firstSubnetCidr firstSubnetId firstRangeStart firstRangeStop) adds \<Longrightarrow> services_click ''service'' adds"
| "clicked (Dhcpv6SubnetDetails_controls network_1) adds \<Longrightarrow> services_click ''service'' adds"
| "clicked (Dhcpv6SubnetDetails_SubnetForm_controls networkName subnet_1 existingCidrs cidr values_6) adds \<Longrightarrow> services_click ''service'' adds"
| "clicked (Dhcpv6SubnetDetails_RangesSection_controls networkName subnet showAdd i pfx start stop) adds \<Longrightarrow> services_click ''service'' adds"
| "clicked (Dhcpv6SubnetDetails_StaticMappingsSection_controls networkName subnet showAdd hostname mac duid) adds \<Longrightarrow> services_click ''service'' adds"
| "clicked (Dhcpv6SubnetDetails_PrefixDelegationsSection_controls networkName subnet showAdd pfx prefixLength delegatedLength) adds \<Longrightarrow> services_click ''service'' adds"
| "clicked (DnsForwardingSettings_controls config_5) adds \<Longrightarrow> services_click ''service'' adds"
| "clicked (DnsForwardingSettings_DnsForwardingSettingsForm_controls config_5 values_7) adds \<Longrightarrow> services_click ''service'' adds"
| "clicked (DnsForwardingSettings_DomainsSection_controls config_5 showCreate fqdn addnta recursionDesired) adds \<Longrightarrow> services_click ''service'' adds"
| "clicked (DynamicDnsList_controls config_6) adds \<Longrightarrow> services_click ''service'' adds"
| "clicked (DynamicDnsList_EntryForm_controls entry existingNames name values_8) adds \<Longrightarrow> services_click ''service'' adds"
| "clicked (DynamicDnsList_GlobalSettings_controls config_6 values_9) adds \<Longrightarrow> services_click ''service'' adds"
| "clicked (EventHandlerList_controls config_7) adds \<Longrightarrow> services_click ''service'' adds"
| "clicked (EventHandlerList_EventHandlerEnabled_controls config_7) adds \<Longrightarrow> services_click ''service'' adds"
| "clicked (EventHandlerList_EventForm_controls event existingNames name values_10) adds \<Longrightarrow> services_click ''service'' adds"
| "clicked (HttpsSettings_controls config_8) adds \<Longrightarrow> services_click ''service'' adds"
| "clicked (HttpsSettings_ApiKeysSection_controls config_8 showAdd i key) adds \<Longrightarrow> services_click ''service'' adds"
| "clicked (LldpList_controls config_9) adds \<Longrightarrow> services_click ''service'' adds"
| "clicked (LldpList_LldpEnabled_controls config_9 values_12) adds \<Longrightarrow> services_click ''service'' adds"
| "clicked (LldpList_InterfaceForm_controls iface existingNames interfaceName values_13) adds \<Longrightarrow> services_click ''service'' adds"
| "clicked (MdnsSettings_controls config_10) adds \<Longrightarrow> services_click ''service'' adds"
| "clicked (MdnsSettings_MdnsSettingsForm_controls config_10 values_14) adds \<Longrightarrow> services_click ''service'' adds"
| "clicked (MonitoringSettings_ZabbixAgentSection_controls config_11) adds \<Longrightarrow> services_click ''service'' adds"
| "clicked (MonitoringSettings_NetworkEventSection_controls config_11) adds \<Longrightarrow> services_click ''service'' adds"
| "clicked (MonitoringSettings_NodeExporterSection_controls config_11 values_15) adds \<Longrightarrow> services_click ''service'' adds"
| "clicked (MonitoringSettings_FrrExporterSection_controls config_11 values_16) adds \<Longrightarrow> services_click ''service'' adds"
| "clicked (MonitoringSettings_ZabbixAgentForm_controls zabbix values_17) adds \<Longrightarrow> services_click ''service'' adds"
| "clicked (MonitoringSettings_ServerActiveSection_controls zabbix showAdd address port) adds \<Longrightarrow> services_click ''service'' adds"
| "clicked (MonitoringSettings_NetworkEventForm_controls networkEvent values_18) adds \<Longrightarrow> services_click ''service'' adds"
| "clicked (NdpProxyList_controls config_12) adds \<Longrightarrow> services_click ''service'' adds"
| "clicked (NdpProxyList_InterfaceForm_controls iface_1 existingNames interfaceName values_19 firstPrefix firstPrefixMode firstPrefixInterfaceRef) adds \<Longrightarrow> services_click ''service'' adds"
| "clicked (NdpProxyList_PrefixesSection_controls iface_2 showAdd pfx mode interfaceRef) adds \<Longrightarrow> services_click ''service'' adds"
| "clicked (NtpSettings_GeneralSettings_controls config_13 values_20) adds \<Longrightarrow> services_click ''service'' adds"
| "clicked (RouterAdvertList_controls config_14) adds \<Longrightarrow> services_click ''service'' adds"
| "clicked (RouterAdvertList_InterfaceForm_controls iface_4 existingNames interfaceName values_21 firstPrefix firstRoutePrefix) adds \<Longrightarrow> services_click ''service'' adds"
| "clicked (RouterAdvertList_PrefixesSection_controls iface_3 showAdd pfx noAutonomousFlag noOnLinkFlag preferredLifetime validLifetime) adds \<Longrightarrow> services_click ''service'' adds"
| "clicked (RouterAdvertList_RoutesSection_controls iface_3 showAdd pfx validLifetime routePreference) adds \<Longrightarrow> services_click ''service'' adds"
| "clicked (SnmpSettings_controls config_15) adds \<Longrightarrow> services_click ''service'' adds"
| "clicked (SnmpSettings_SnmpSettingsForm_controls config_15 values_22) adds \<Longrightarrow> services_click ''service'' adds"
| "clicked (SnmpSettings_CommunitiesSection_controls config_15 showAdd name authorization) adds \<Longrightarrow> services_click ''service'' adds"
| "clicked (SnmpSettings_ListenAddressesSection_controls config_15 showAdd address port) adds \<Longrightarrow> services_click ''service'' adds"
| "clicked (SnmpSettings_TrapTargetsSection_controls config_15 showAdd address community port) adds \<Longrightarrow> services_click ''service'' adds"
| "clicked (Snmpv3Section_EngineIdField_controls v3 val) adds \<Longrightarrow> services_click ''service'' adds"
| "clicked (Snmpv3Section_GroupsSection_controls v3 showAdd name mode seclevel view) adds \<Longrightarrow> services_click ''service'' adds"
| "clicked (Snmpv3Section_UsersSection_controls v3 showAdd name grp mode authPassword authType privacyPassword privacyType) adds \<Longrightarrow> services_click ''service'' adds"
| "clicked (Snmpv3Section_ViewsSection_controls v3 showAdd name) adds \<Longrightarrow> services_click ''service'' adds"
| "clicked (Snmpv3Section_ViewOids_controls view_1 showAdd oid msk) adds \<Longrightarrow> services_click ''service'' adds"
| "clicked (Snmpv3Section_V3TrapTargetsSection_controls v3 showAdd address authPassword authType privacyPassword privacyType port protocol ty user) adds \<Longrightarrow> services_click ''service'' adds"
| "clicked (SshSettings_controls config_16) adds \<Longrightarrow> services_click ''service'' adds"
| "clicked (SshSettings_SshSettingsForm_controls config_16 values_24) adds \<Longrightarrow> services_click ''service'' adds"
| "clicked (TftpSettings_controls config_17) adds \<Longrightarrow> services_click ''service'' adds"
| "clicked (TftpSettings_TftpSettingsForm_controls config_17 values_25) adds \<Longrightarrow> services_click ''service'' adds"
| "clicked (TftpSettings_ListenAddressesSection_controls config_17 showAdd address vrf) adds \<Longrightarrow> services_click ''service'' adds"

lemma services_click_editor: "services_click sec adds \<Longrightarrow> services_editor sec adds"
  by (induction rule: services_click.induct) (erule acting_clicked, rule services_acting, assumption?)+

end
