(* ===== verification/ViewVpn.thy ===== *)
theory ViewVpn
  imports Widgets UiVpn
begin

text \<open>
  The controls of the VPN pages, component by component: for given
  props and state, the inputs, choices, switches and buttons its markup shows. A child component with a
  state of its own has its own definition; one without is shown by its parent.
\<close>

text \<open>\<open>components/vpn/AccelPppAuthenticationSection.tsx\<close>\<close>

definition AccelPppAuthenticationSection_controls ::
    "string \<Rightarrow> AccelPppConfig \<Rightarrow> AccelPppSettingsFormValues \<Rightarrow> AccelPppSettingsFormValues widget list" where
  "AccelPppAuthenticationSection_controls kind config values =
     [Select ''Mode'' True ([''''] @ ACCEL_PPP_AUTH_MODES) (apsfv_authMode values)
        (\<lambda>t. values\<lparr>apsfv_authMode := t\<rparr>),
      Input ''RADIUS accounting interval (s)'' True (apsfv_radiusAccountingInterimInterval values)
        (\<lambda>t. values\<lparr>apsfv_radiusAccountingInterimInterval := t\<rparr>),
      Input ''RADIUS timeout (s)'' True (apsfv_radiusTimeout values)
        (\<lambda>t. values\<lparr>apsfv_radiusTimeout := t\<rparr>),
      Input ''RADIUS NAS identifier'' True (apsfv_radiusNasIdentifier values)
        (\<lambda>t. values\<lparr>apsfv_radiusNasIdentifier := t\<rparr>)]
     @ concat (map
            (\<lambda>protocol. [Check protocol True
                    (protocol \<in> set (apsfv_authProtocols values))
                    (\<lambda>b. values\<lparr>apsfv_authProtocols := (if protocol
                                   \<in> set (apsfv_authProtocols values)
                              then filter (\<lambda>p_l. p_l \<noteq> protocol)
                                     (apsfv_authProtocols values)
                              else apsfv_authProtocols values @ [protocol])\<rparr>)])
            ACCEL_PPP_PROTOCOLS)
     @ [Button ''Save settings'' True (AccelPppAuthenticationSection_save kind config values)]"

text \<open>\<open>components/vpn/AccelPppClientIpPoolsSection.tsx\<close>\<close>

definition AccelPppClientIpPoolsSection_controls ::
    "string \<Rightarrow> AccelPppConfig \<Rightarrow> bool \<Rightarrow> text_input \<Rightarrow> text_input \<Rightarrow> text_input \<Rightarrow> (text_input \<times> text_input \<times> text_input) widget list" where
  "AccelPppClientIpPoolsSection_controls kind config showAdd name rangesText nextPool =
     (let clientIpPools = apc_clientIpPools config
      in (if showAdd
          then [Input ''pool name'' True name (\<lambda>t. (t, rangesText, nextPool)),
                Input ''192.0.2.0/24, 198.51.100.0/24'' True rangesText
                  (\<lambda>t. (name, t, nextPool)),
                Input ''next pool (optional)'' True nextPool (\<lambda>t. (name, rangesText, t)),
                Button ''Add pool'' (AccelPppClientIpPoolsSection_valid config name)
                  (AccelPppClientIpPoolsSection_submit kind config name rangesText nextPool)]
          else [])
         @ concat (map
                (\<lambda>pool. [Button ''Remove'' True (AccelPppClientIpPoolsSection_onClick kind
                           pool)]) clientIpPools))"

text \<open>\<open>components/vpn/AccelPppClientIpv6PoolsSection.tsx\<close>\<close>

definition AccelPppClientIpv6PoolsSection_controls ::
    "string \<Rightarrow> AccelPppConfig \<Rightarrow> bool \<Rightarrow> text_input \<Rightarrow> text_input \<Rightarrow> text_input \<Rightarrow> (text_input \<times> text_input \<times> text_input) widget list" where
  "AccelPppClientIpv6PoolsSection_controls kind config showAdd name firstPrefix firstPrefixMask =
     (let clientIpv6Pools = apc_clientIpv6Pools config
      in (if showAdd
          then [Input ''pool name'' True name (\<lambda>t. (t, firstPrefix, firstPrefixMask)),
                Input ''first prefix, e.g. 2001:db8::/64 (optional)'' True firstPrefix
                  (\<lambda>t. (name, t, firstPrefixMask)),
                Input ''client prefix length (default 64)'' True firstPrefixMask
                  (\<lambda>t. (name, firstPrefix, t)),
                Button ''Create'' (AccelPppClientIpv6PoolsSection_valid config name)
                  (AccelPppClientIpv6PoolsSection_submit kind config name firstPrefix
                       firstPrefixMask)]
          else [])
         @ concat (map
                (\<lambda>pool. [Button ''Remove pool'' True
                        (AccelPppClientIpv6PoolsSection_onClick kind pool)]) clientIpv6Pools))"

text \<open>\<open>components/vpn/AccelPppIpv6PoolPrefixList.tsx\<close>\<close>

definition AccelPppIpv6PoolPrefixList_controls ::
    "string \<Rightarrow> string \<Rightarrow> AccelPppClientIpv6PoolPrefix list \<Rightarrow> bool \<Rightarrow> text_input \<Rightarrow> text_input \<Rightarrow> (text_input \<times> text_input) widget list" where
  "AccelPppIpv6PoolPrefixList_controls kind poolName prefixes1 showAdd pfx msk =
     (if showAdd
      then [Input ''2001:db8::/64'' True pfx (\<lambda>t. (t, msk)),
            Input ''client prefix length (default 64)'' True msk (\<lambda>t. (pfx, t)),
            Button ''Add prefix'' (AccelPppIpv6PoolPrefixList_valid prefixes1 pfx)
              (AccelPppIpv6PoolPrefixList_submit kind poolName prefixes1 pfx msk)]
      else [])
     @ concat
         (map
              (\<lambda>p. [Button ''Remove'' True (AccelPppIpv6PoolPrefixList_onClick kind poolName
                         p)]) prefixes1)"

text \<open>\<open>components/vpn/AccelPppLocalUsersSubsection.tsx\<close>\<close>

definition AccelPppLocalUsersSubsection_controls ::
    "string \<Rightarrow> AccelPppConfig \<Rightarrow> bool \<Rightarrow> text_input \<Rightarrow> text_input \<Rightarrow> text_input \<Rightarrow> text_input \<Rightarrow> text_input \<Rightarrow> (text_input \<times> text_input \<times> text_input \<times> text_input \<times> text_input) widget list" where
  "AccelPppLocalUsersSubsection_controls kind config showAdd username password staticIp rateLimitUpload rateLimitDownload =
     (let localUsers = apa_localUsers (apc_authentication config)
      in (if showAdd
          then [Input ''username'' True username (\<lambda>t. (t, password, staticIp,
                        rateLimitUpload, rateLimitDownload)),
                Input ''password'' True password (\<lambda>t. (username, t, staticIp,
                        rateLimitUpload, rateLimitDownload)),
                Input ''static IP (optional)'' True staticIp
                  (\<lambda>t. (username, password, t, rateLimitUpload, rateLimitDownload)),
                Input ''upload kbit/s'' True rateLimitUpload
                  (\<lambda>t. (username, password, staticIp, t, rateLimitDownload)),
                Input ''download kbit/s'' True rateLimitDownload
                  (\<lambda>t. (username, password, staticIp, rateLimitUpload, t)),
                Button ''Add'' (AccelPppLocalUsersSubsection_valid config username)
                  (AccelPppLocalUsersSubsection_submit kind config username password staticIp
                       rateLimitUpload rateLimitDownload)]
          else [])
         @ concat (map
                (\<lambda>user. [Button (if aplu_disabled user then ''Enable'' else ''Disable'')
                        True (AccelPppLocalUsersSubsection_onClick kind user),
                      Button ''Remove'' True (AccelPppLocalUsersSubsection_onClick2 kind user)])
                localUsers))"

text \<open>\<open>components/vpn/AccelPppRadiusServersSubsection.tsx\<close>\<close>

definition AccelPppRadiusServersSubsection_controls ::
    "string \<Rightarrow> AccelPppConfig \<Rightarrow> bool \<Rightarrow> text_input \<Rightarrow> text_input \<Rightarrow> text_input \<Rightarrow> (text_input \<times> text_input \<times> text_input) widget list" where
  "AccelPppRadiusServersSubsection_controls kind config showAdd address key port =
     (let servers = apr_servers (apa_radius (apc_authentication config))
      in (if showAdd
          then [Input ''192.0.2.9'' True address (\<lambda>t. (t, key, port)),
                Input ''shared secret'' True key (\<lambda>t. (address, t, port)),
                Input ''port (default 1812)'' True port (\<lambda>t. (address, key, t)),
                Button ''Add server'' (AccelPppRadiusServersSubsection_valid config address)
                  (AccelPppRadiusServersSubsection_submit kind config address key port)]
          else [])
         @ concat (map
                (\<lambda>server. [Button ''Remove'' True (AccelPppRadiusServersSubsection_onClick
                           kind server)]) servers))"

text \<open>\<open>components/vpn/AccelPppSettingsSection.tsx\<close>\<close>

definition AccelPppSettingsSection_controls ::
    "string \<Rightarrow> AccelPppConfig \<Rightarrow> AccelPppSettingsFormValues \<Rightarrow> AccelPppSettingsFormValues widget list" where
  "AccelPppSettingsSection_controls kind config values =
     ([Input ''Description'' True (apsfv_description values)
         (\<lambda>t. values\<lparr>apsfv_description := t\<rparr>)]
      @ (if kind \<noteq> ''sstp''
         then [Input ''Outside address'' True (apsfv_outsideAddress values)
                 (\<lambda>t. values\<lparr>apsfv_outsideAddress := t\<rparr>)]
         else [])
      @ [Input ''Gateway address'' True (apsfv_gatewayAddress values)
           (\<lambda>t. values\<lparr>apsfv_gatewayAddress := t\<rparr>),
         Input ''Default IPv4 pool'' True (apsfv_defaultPool values)
           (\<lambda>t. values\<lparr>apsfv_defaultPool := t\<rparr>),
         Input ''Default IPv6 pool'' True (apsfv_defaultIpv6Pool values)
           (\<lambda>t. values\<lparr>apsfv_defaultIpv6Pool := t\<rparr>),
         Input ''MTU'' True (apsfv_mtu values) (\<lambda>t. values\<lparr>apsfv_mtu := t\<rparr>),
         Input ''Max concurrent sessions'' True (apsfv_maxConcurrentSessions values)
           (\<lambda>t. values\<lparr>apsfv_maxConcurrentSessions := t\<rparr>),
         Input ''Thread count'' True (apsfv_threadCount values)
           (\<lambda>t. values\<lparr>apsfv_threadCount := t\<rparr>),
         Select ''Log level'' True ([''''] @ ACCEL_PPP_LOG_LEVELS) (apsfv_logLevel values)
           (\<lambda>t. values\<lparr>apsfv_logLevel := t\<rparr>),
         Input ''Shaper fwmark'' True (apsfv_shaperFwmark values)
           (\<lambda>t. values\<lparr>apsfv_shaperFwmark := t\<rparr>)]
      @ (if kind = ''sstp''
         then [Input ''Port'' True (apsfv_port values) (\<lambda>t. values\<lparr>apsfv_port := t\<rparr>),
               Input ''TLS SNI host name'' True (apsfv_sstpHostName values)
                 (\<lambda>t. values\<lparr>apsfv_sstpHostName := t\<rparr>),
               Input ''CA certificate (PKI name)'' True (apsfv_caCertificate values)
                 (\<lambda>t. values\<lparr>apsfv_caCertificate := t\<rparr>),
               Input ''Certificate (PKI name)'' True (apsfv_certificate values)
                 (\<lambda>t. values\<lparr>apsfv_certificate := t\<rparr>)]
         else [])
      @ (if kind = ''l2tp''
         then [Input ''LNS host name (sent to client)'' True (apsfv_lnsHostName values)
                 (\<lambda>t. values\<lparr>apsfv_lnsHostName := t\<rparr>),
               Input
                 (''LNS shared secret ''
                    @ (if ll_hasSharedSecret (apc_lns config) then ''(leave blank to keep)''
                       else '''')) True (apsfv_hasLnsSharedSecret values)
                 (\<lambda>t. values\<lparr>apsfv_hasLnsSharedSecret := t\<rparr>),
               Select ''IPsec transport auth mode'' True ['''', ''pre-shared-secret'', ''x509'']
                 (apsfv_ipsecAuthMode values) (\<lambda>t. values\<lparr>apsfv_ipsecAuthMode := t\<rparr>)]
              @ (if apsfv_ipsecAuthMode values = ''pre-shared-secret''
                 then [Input
                         (''IPsec pre-shared secret ''
                            @ (if lis_hasPresharedSecret (apc_ipsecSettings config)
                               then ''(leave blank to keep)''
                               else '''')) True (apsfv_hasIpsecPresharedSecret values)
                         (\<lambda>t. values\<lparr>apsfv_hasIpsecPresharedSecret := t\<rparr>)]
                 else [])
              @ [Input ''IKE lifetime (s)'' True (apsfv_ikeLifetime values)
                   (\<lambda>t. values\<lparr>apsfv_ikeLifetime := t\<rparr>),
                 Input ''ESP lifetime (s)'' True (apsfv_espLifetime values)
                   (\<lambda>t. values\<lparr>apsfv_espLifetime := t\<rparr>)]
         else []))
     @ [Input ''Min MTU'' True (apsfv_minMtu values) (\<lambda>t. values\<lparr>apsfv_minMtu := t\<rparr>),
        Input ''MRU'' True (apsfv_mru values) (\<lambda>t. values\<lparr>apsfv_mru := t\<rparr>),
        Select ''MPPE'' True ([''''] @ ACCEL_PPP_MPPE_OPTIONS) (apsfv_mppe values)
          (\<lambda>t. values\<lparr>apsfv_mppe := t\<rparr>),
        Input ''LCP echo interval (s)'' True (apsfv_lcpEchoInterval values)
          (\<lambda>t. values\<lparr>apsfv_lcpEchoInterval := t\<rparr>),
        Input ''LCP echo failure count'' True (apsfv_lcpEchoFailure values)
          (\<lambda>t. values\<lparr>apsfv_lcpEchoFailure := t\<rparr>),
        Input ''LCP echo timeout (s)'' True (apsfv_lcpEchoTimeout values)
          (\<lambda>t. values\<lparr>apsfv_lcpEchoTimeout := t\<rparr>),
        Select ''IPv4 (IPCP) negotiation'' True ([''''] @ ACCEL_PPP_IP_OPTIONS) (apsfv_ipv4 values)
          (\<lambda>t. values\<lparr>apsfv_ipv4 := t\<rparr>),
        Select ''IPv6 (IPCP) negotiation'' True ([''''] @ ACCEL_PPP_IP_OPTIONS) (apsfv_ipv6 values)
          (\<lambda>t. values\<lparr>apsfv_ipv6 := t\<rparr>),
        Check ''Disable Compression Control Protocol (CCP)'' True (apsfv_disableCcp values)
          (\<lambda>b. values\<lparr>apsfv_disableCcp := b\<rparr>),
        Check ''Enable SNMP master agent mode'' True (apsfv_snmpMasterAgent values)
          (\<lambda>b. values\<lparr>apsfv_snmpMasterAgent := b\<rparr>),
        Input ''Connection limit'' True (apsfv_connectionLimit values)
          (\<lambda>t. values\<lparr>apsfv_connectionLimit := t\<rparr>),
        Input ''Burst'' True (apsfv_burst values) (\<lambda>t. values\<lparr>apsfv_burst := t\<rparr>),
        Input ''Timeout (s)'' True (apsfv_limitsTimeout values)
          (\<lambda>t. values\<lparr>apsfv_limitsTimeout := t\<rparr>),
        Input ''on-pre-up'' True (apsfv_onPreUp values) (\<lambda>t. values\<lparr>apsfv_onPreUp := t\<rparr>),
        Input ''on-up'' True (apsfv_onUp values) (\<lambda>t. values\<lparr>apsfv_onUp := t\<rparr>),
        Input ''on-down'' True (apsfv_onDown values) (\<lambda>t. values\<lparr>apsfv_onDown := t\<rparr>),
        Input ''on-change'' True (apsfv_onChange values) (\<lambda>t. values\<lparr>apsfv_onChange := t\<rparr>),
        Chips
          (''vpn '' @ kind @ '' ''
             @ (if kind = ''sstp'' then '''' else ''remote-access '') @ ''name-server'')
          (apc_nameServers config) (accelPppBasePath kind [] @ [''name-server'']),
        Chips
          (''vpn '' @ kind @ '' ''
             @ (if kind = ''sstp'' then '''' else ''remote-access '') @ ''wins-server'')
          (apc_winsServers config) (accelPppBasePath kind [] @ [''wins-server'']),
        Button ''Save settings'' True (AccelPppSettingsSection_save kind config values)]"

text \<open>\<open>components/vpn/IpsecEspGroupForm.tsx\<close>\<close>

definition IpsecEspGroupForm_controls ::
    "IPsecEspGroup option \<Rightarrow> string list \<Rightarrow> text_input \<Rightarrow> EspGroupFormValues \<Rightarrow> text_input \<Rightarrow> text_input \<Rightarrow> (text_input \<times> EspGroupFormValues \<times> text_input \<times> text_input) widget list" where
  "IpsecEspGroupForm_controls grp existingNames name values firstProposalEncryption firstProposalHash =
     [Input ''Name *'' (grp = None) name (\<lambda>t. (t, values, firstProposalEncryption,
              firstProposalHash)),
      Select ''Mode'' True ([''''] @ IPSEC_ESP_MODES) (egfv_mode values)
        (\<lambda>t. (name, values\<lparr>egfv_mode := t\<rparr>, firstProposalEncryption,
                firstProposalHash)),
      Select ''PFS'' True ([''''] @ IPSEC_PFS_OPTIONS) (egfv_pfs values)
        (\<lambda>t. (name, values\<lparr>egfv_pfs := t\<rparr>, firstProposalEncryption,
                firstProposalHash)),
      Input ''Lifetime (s)'' True (egfv_lifetime values) (\<lambda>t. (name,
              values\<lparr>egfv_lifetime := t\<rparr>, firstProposalEncryption, firstProposalHash)),
      Input ''Life bytes'' True (egfv_lifeBytes values)
        (\<lambda>t. (name, values\<lparr>egfv_lifeBytes := t\<rparr>, firstProposalEncryption,
                firstProposalHash)),
      Input ''Life packets'' True (egfv_lifePackets values) (\<lambda>t. (name,
              values\<lparr>egfv_lifePackets := t\<rparr>, firstProposalEncryption,
              firstProposalHash)),
      Check ''Compression'' True (egfv_compression values) (\<lambda>b. (name,
              values\<lparr>egfv_compression := b\<rparr>, firstProposalEncryption,
              firstProposalHash)),
      Check ''Disable local re-key'' True (egfv_disableRekey values)
        (\<lambda>b. (name, values\<lparr>egfv_disableRekey := b\<rparr>, firstProposalEncryption,
                firstProposalHash))]
     @ (if grp = None
        then [Select ''Encryption'' True ([''''] @ IPSEC_ENCRYPTION_CIPHERS) firstProposalEncryption
                (\<lambda>t. (name, values, t, firstProposalHash)),
              Select ''Hash'' True ([''''] @ IPSEC_HASH_ALGORITHMS) firstProposalHash
                (\<lambda>t. (name, values, firstProposalEncryption, t))]
        else [])
     @ [Button
          (case grp of
               Some grp' \<Rightarrow> ''Save changes''
             | None \<Rightarrow> ''Queue creation'')
          (IpsecEspGroupForm_canSubmit grp existingNames name)
          (IpsecEspGroupForm_submit grp existingNames name values firstProposalEncryption
               firstProposalHash)]"

text \<open>\<open>components/vpn/IpsecEspGroupsSection.tsx\<close>\<close>

definition IpsecEspGroupsSection_controls :: "IPsecConfig \<Rightarrow> unit widget list" where
  "IpsecEspGroupsSection_controls config =
     concat
       (map
            (\<lambda>grp. [Button ''Delete'' True (IpsecEspGroupsSection_queueDelete (ipeg_name grp))])
            (ipc_espGroups config))"

text \<open>\<open>components/vpn/IpsecEspProposals.tsx\<close>\<close>

definition IpsecEspProposals_controls ::
    "IPsecEspGroup \<Rightarrow> bool \<Rightarrow> text_input \<Rightarrow> text_input \<Rightarrow> text_input \<Rightarrow> text_input \<Rightarrow> (text_input \<times> text_input \<times> text_input \<times> text_input) widget list" where
  "IpsecEspProposals_controls grp showAdd i encryption hash esn =
     concat (map (\<lambda>p. [Button ''Remove'' True (IpsecEspProposals_onClick grp p)])
          (ipeg_proposals grp))
     @ (if showAdd
        then [Input ''priority #'' True i (\<lambda>t. (t, encryption, hash, esn)),
              Select '''' True ([''''] @ IPSEC_ENCRYPTION_CIPHERS) encryption
                (\<lambda>t. (i, t, hash, esn)),
              Select '''' True ([''''] @ IPSEC_HASH_ALGORITHMS) hash
                (\<lambda>t. (i, encryption, t, esn)),
              Select '''' True ([''''] @ IPSEC_ESN_OPTIONS) esn
                (\<lambda>t. (i, encryption, hash, t)),
              Button ''Add proposal'' (IpsecEspProposals_valid grp i)
                (IpsecEspProposals_submit grp i encryption hash esn)]
        else [])"

text \<open>\<open>components/vpn/IpsecIkeGroupForm.tsx\<close>\<close>

definition IpsecIkeGroupForm_controls ::
    "IPsecIkeGroup option \<Rightarrow> string list \<Rightarrow> text_input \<Rightarrow> IkeGroupFormValues \<Rightarrow> text_input \<Rightarrow> text_input \<Rightarrow> text_input \<Rightarrow> (text_input \<times> IkeGroupFormValues \<times> text_input \<times> text_input \<times> text_input) widget list" where
  "IpsecIkeGroupForm_controls grp existingNames name values firstProposalDhGroup firstProposalEncryption firstProposalHash =
     [Input ''Name *'' (grp = None) name (\<lambda>t. (t, values, firstProposalDhGroup,
              firstProposalEncryption, firstProposalHash)),
      Select ''Key exchange version'' True ([''''] @ IPSEC_KEY_EXCHANGE_VERSIONS)
        (igfv_keyExchange values) (\<lambda>t. (name, values\<lparr>igfv_keyExchange := t\<rparr>,
              firstProposalDhGroup, firstProposalEncryption, firstProposalHash)),
      Select ''IKEv1 phase-1 mode'' True ([''''] @ IPSEC_IKE_MODES) (igfv_mode values)
        (\<lambda>t. (name, values\<lparr>igfv_mode := t\<rparr>, firstProposalDhGroup,
                firstProposalEncryption, firstProposalHash)),
      Input ''Lifetime (s)'' True (igfv_lifetime values) (\<lambda>t. (name,
              values\<lparr>igfv_lifetime := t\<rparr>, firstProposalDhGroup,
              firstProposalEncryption, firstProposalHash)),
      Select ''Close action'' True ([''''] @ IPSEC_CLOSE_ACTIONS) (igfv_closeAction values)
        (\<lambda>t. (name, values\<lparr>igfv_closeAction := t\<rparr>, firstProposalDhGroup,
                firstProposalEncryption, firstProposalHash)),
      Select ''DPD action'' True ([''''] @ IPSEC_DPD_ACTIONS) (igfv_dpdAction values)
        (\<lambda>t. (name, values\<lparr>igfv_dpdAction := t\<rparr>, firstProposalDhGroup,
                firstProposalEncryption, firstProposalHash)),
      Input ''DPD interval (s)'' True (igfv_dpdInterval values)
        (\<lambda>t. (name, values\<lparr>igfv_dpdInterval := t\<rparr>, firstProposalDhGroup,
                firstProposalEncryption, firstProposalHash)),
      Input ''DPD timeout (s, IKEv1 only)'' True (igfv_dpdTimeout values)
        (\<lambda>t. (name, values\<lparr>igfv_dpdTimeout := t\<rparr>, firstProposalDhGroup,
                firstProposalEncryption, firstProposalHash)),
      Check ''Re-authenticate on re-key (IKEv2)'' True (igfv_ikev2Reauth values)
        (\<lambda>b. (name, values\<lparr>igfv_ikev2Reauth := b\<rparr>, firstProposalDhGroup,
                firstProposalEncryption, firstProposalHash)),
      Check ''Disable MOBIKE (IKEv2)'' True (igfv_disableMobike values)
        (\<lambda>b. (name, values\<lparr>igfv_disableMobike := b\<rparr>, firstProposalDhGroup,
                firstProposalEncryption, firstProposalHash))]
     @ (if grp = None
        then [Select ''DH group'' True ([''''] @ IPSEC_DH_GROUPS) firstProposalDhGroup
                (\<lambda>t. (name, values, t, firstProposalEncryption, firstProposalHash)),
              Select ''Encryption'' True ([''''] @ IPSEC_ENCRYPTION_CIPHERS) firstProposalEncryption
                (\<lambda>t. (name, values, firstProposalDhGroup, t, firstProposalHash)),
              Select ''Hash'' True ([''''] @ IPSEC_HASH_ALGORITHMS) firstProposalHash
                (\<lambda>t. (name, values, firstProposalDhGroup, firstProposalEncryption, t))]
        else [])
     @ [Button
          (case grp of
               Some grp' \<Rightarrow> ''Save changes''
             | None \<Rightarrow> ''Queue creation'')
          (IpsecIkeGroupForm_canSubmit grp existingNames name)
          (IpsecIkeGroupForm_submit grp existingNames name values firstProposalDhGroup
               firstProposalEncryption firstProposalHash)]"

text \<open>\<open>components/vpn/IpsecIkeGroupsSection.tsx\<close>\<close>

definition IpsecIkeGroupsSection_controls :: "IPsecConfig \<Rightarrow> unit widget list" where
  "IpsecIkeGroupsSection_controls config =
     concat
       (map
            (\<lambda>grp. [Button ''Delete'' True (IpsecIkeGroupsSection_queueDelete (ipig_name grp))])
            (ipc_ikeGroups config))"

text \<open>\<open>components/vpn/IpsecIkeProposals.tsx\<close>\<close>

definition IpsecIkeProposals_controls ::
    "IPsecIkeGroup \<Rightarrow> bool \<Rightarrow> text_input \<Rightarrow> text_input \<Rightarrow> text_input \<Rightarrow> text_input \<Rightarrow> text_input \<Rightarrow> (text_input \<times> text_input \<times> text_input \<times> text_input \<times> text_input) widget list" where
  "IpsecIkeProposals_controls grp showAdd i dhGroup prf encryption hash =
     concat (map (\<lambda>p. [Button ''Remove'' True (IpsecIkeProposals_onClick grp p)])
          (ipig_proposals grp))
     @ (if showAdd
        then [Input ''priority #'' True i (\<lambda>t. (t, dhGroup, prf, encryption, hash)),
              Select '''' True ([''''] @ IPSEC_DH_GROUPS) dhGroup
                (\<lambda>t. (i, t, prf, encryption, hash)),
              Select '''' True ([''''] @ IPSEC_PRF_ALGORITHMS) prf
                (\<lambda>t. (i, dhGroup, t, encryption, hash)),
              Select '''' True ([''''] @ IPSEC_ENCRYPTION_CIPHERS) encryption
                (\<lambda>t. (i, dhGroup, prf, t, hash)),
              Select '''' True ([''''] @ IPSEC_HASH_ALGORITHMS) hash
                (\<lambda>t. (i, dhGroup, prf, encryption, t)),
              Button ''Add proposal'' (IpsecIkeProposals_valid grp i)
                (IpsecIkeProposals_submit grp i dhGroup prf encryption hash)]
        else [])"

text \<open>\<open>components/vpn/IpsecPpkSection.tsx\<close>\<close>

definition IpsecPpkSection_controls ::
    "IPsecConfig \<Rightarrow> bool \<Rightarrow> text_input \<Rightarrow> text_input \<Rightarrow> text_input \<Rightarrow> text_input \<Rightarrow> (text_input \<times> text_input \<times> text_input \<times> text_input) widget list" where
  "IpsecPpkSection_controls config showAdd name ids secret secretType =
     (if showAdd
      then [Input ''label'' True name (\<lambda>t. (t, ids, secret, secretType)),
            Select '''' True ([''''] @ IPSEC_SECRET_TYPES) secretType
              (\<lambda>t. (name, ids, secret, t)),
            Input ''IDs, comma-separated'' True ids (\<lambda>t. (name, t, secret, secretType)),
            Input ''secret'' True secret (\<lambda>t. (name, ids, t, secretType)),
            Button ''Add PPK'' (IpsecPpkSection_valid config name)
              (IpsecPpkSection_submit config name ids secret secretType)]
      else [])
     @ concat (map (\<lambda>ppk. [Button ''Remove'' True (IpsecPpkSection_onClick ppk)])
            (ipc_ppks config))"

text \<open>\<open>components/vpn/IpsecPskSection.tsx\<close>\<close>

definition IpsecPskSection_controls ::
    "IPsecConfig \<Rightarrow> bool \<Rightarrow> text_input \<Rightarrow> text_input \<Rightarrow> text_input \<Rightarrow> text_input \<Rightarrow> (text_input \<times> text_input \<times> text_input \<times> text_input) widget list" where
  "IpsecPskSection_controls config showAdd name ids secret secretType =
     (if showAdd
      then [Input ''label, e.g. peer_51-105-0-1'' True name (\<lambda>t. (t, ids, secret, secretType)),
            Select '''' True ([''''] @ IPSEC_SECRET_TYPES) secretType
              (\<lambda>t. (name, ids, secret, t)),
            Input ''IDs, comma-separated (e.g. 192.0.2.1, 51.105.0.1)'' True ids
              (\<lambda>t. (name, t, secret, secretType)),
            Input ''secret'' True secret (\<lambda>t. (name, ids, t, secretType)),
            Button ''Add PSK'' (IpsecPskSection_valid config name)
              (IpsecPskSection_submit config name ids secret secretType)]
      else [])
     @ concat (map (\<lambda>psk. [Button ''Remove'' True (IpsecPskSection_onClick psk)])
            (ipc_psks config))"

text \<open>\<open>components/vpn/IpsecRemoteAccess.tsx\<close>\<close>

definition IpsecRemoteAccess_ConnectionsSection_controls :: "IPsecConfig \<Rightarrow> unit widget list" where
  "IpsecRemoteAccess_ConnectionsSection_controls config =
     (let connections = viipra_connections (ipc_remoteAccess config)
      in concat
           (map
                (\<lambda>conn. [Button ''Delete'' True (IpsecRemoteAccess_ConnectionsSection_queueDelete (iprac_name
                              conn))]) connections))"

definition IpsecRemoteAccess_ConnectionForm_controls ::
    "IPsecRemoteAccessConnection option \<Rightarrow> string list \<Rightarrow> string list \<Rightarrow> string list \<Rightarrow> text_input \<Rightarrow> ConnectionFormValues \<Rightarrow> (text_input \<times> ConnectionFormValues) widget list" where
  "IpsecRemoteAccess_ConnectionForm_controls connection existingNames espGroups ikeGroups name values =
     ([Input ''Name *'' (connection = None) name (\<lambda>t. (t, values)),
       Input ''Description'' True (vicfv_description values)
         (\<lambda>t. (name, values\<lparr>vicfv_description := t\<rparr>)),
       Input ''Local address'' True (vicfv_localAddress values)
         (\<lambda>t. (name, values\<lparr>vicfv_localAddress := t\<rparr>)),
       Select ''ESP group'' True ([''''] @ espGroups) (vicfv_espGroup values)
         (\<lambda>t. (name, values\<lparr>vicfv_espGroup := t\<rparr>)),
       Select ''IKE group'' True ([''''] @ ikeGroups) (vicfv_ikeGroup values)
         (\<lambda>t. (name, values\<lparr>vicfv_ikeGroup := t\<rparr>)),
       Select ''Client auth mode'' True ([''''] @ IPSEC_RA_CLIENT_MODES) (vicfv_clientMode values)
         (\<lambda>t. (name, values\<lparr>vicfv_clientMode := t\<rparr>)),
       Select ''Server auth mode'' True ([''''] @ IPSEC_RA_SERVER_MODES) (vicfv_serverMode values)
         (\<lambda>t. (name, values\<lparr>vicfv_serverMode := t\<rparr>))]
      @ (if vicfv_serverMode values = ''pre-shared-secret''
         then [Input
                 (''Pre-shared secret ''
                    @ (case connection of
                         Some connection' \<Rightarrow> ''(leave blank to keep)''
                       | None \<Rightarrow> '''')) True (vicfv_hasPreSharedSecret values)
                 (\<lambda>t. (name, values\<lparr>vicfv_hasPreSharedSecret := t\<rparr>))]
         else [])
      @ [Input ''EAP ID'' True (vicfv_eapId values) (\<lambda>t. (name,
                 values\<lparr>vicfv_eapId := t\<rparr>)),
         Input ''Inactivity timeout (s)'' True (vicfv_timeout values)
           (\<lambda>t. (name, values\<lparr>vicfv_timeout := t\<rparr>)),
         Select ''Uniqueness'' True ([''''] @ IPSEC_RA_UNIQUE_OPTIONS) (vicfv_unique values)
           (\<lambda>t. (name, values\<lparr>vicfv_unique := t\<rparr>))])
     @ [Check ''Disable this connection'' True (vicfv_disabled values)
          (\<lambda>b. (name, values\<lparr>vicfv_disabled := b\<rparr>)),
        Button
          (case connection of
               Some connection' \<Rightarrow> ''Save changes''
             | None \<Rightarrow> ''Queue creation'')
          (IpsecRemoteAccess_ConnectionForm_canSubmit connection existingNames name)
          (IpsecRemoteAccess_ConnectionForm_submit connection existingNames name values)]"

definition IpsecRemoteAccess_LocalUsersSection_controls ::
    "IPsecRemoteAccessConnection \<Rightarrow> bool \<Rightarrow> text_input \<Rightarrow> text_input \<Rightarrow> (text_input \<times> text_input) widget list" where
  "IpsecRemoteAccess_LocalUsersSection_controls connection showAdd username password =
     concat (map
          (\<lambda>user. [Button ''Remove'' True (IpsecRemoteAccess_LocalUsersSection_onClick
                     connection user)]) (ipraa_localUsers (iprac_authentication connection)))
     @ (if showAdd
        then [Input ''username'' True username (\<lambda>t. (t, password)),
              Input ''password'' True password (\<lambda>t. (username, t)),
              Button ''Add'' (IpsecRemoteAccess_LocalUsersSection_valid connection username)
                (IpsecRemoteAccess_LocalUsersSection_submit connection username password)]
        else [])"

definition IpsecRemoteAccess_PoolsSection_controls ::
    "IPsecConfig \<Rightarrow> bool \<Rightarrow> text_input \<Rightarrow> text_input \<Rightarrow> text_input \<Rightarrow> text_input \<Rightarrow> (text_input \<times> text_input \<times> text_input \<times> text_input) widget list" where
  "IpsecRemoteAccess_PoolsSection_controls config showAdd name pfx rangeStart rangeStop =
     (let pools = viipra_pools (ipc_remoteAccess config)
      in (if showAdd
          then [Input ''pool name'' True name (\<lambda>t. (t, pfx, rangeStart, rangeStop)),
                Input ''prefix (10.10.0.0/24)'' True pfx (\<lambda>t. (name, t, rangeStart,
                        rangeStop)),
                Input ''range start (optional)'' True rangeStart
                  (\<lambda>t. (name, pfx, t, rangeStop)),
                Input ''range stop (optional)'' True rangeStop
                  (\<lambda>t. (name, pfx, rangeStart, t)),
                Button ''Add pool'' (IpsecRemoteAccess_PoolsSection_valid config name)
                  (IpsecRemoteAccess_PoolsSection_submit config name pfx rangeStart rangeStop)]
          else [])
         @ concat
             (map
                  (\<lambda>pool. [Button ''Remove'' True (IpsecRemoteAccess_PoolsSection_onClick pool),
                        Chips
                          (''vpn ipsec remote-access pool '' @ iprap_name pool @ '' name-server'')
                          (iprap_nameServers pool) (ipsecRemoteAccessPoolPath (iprap_name pool) []
                           @ [''name-server''])]) pools))"

definition IpsecRemoteAccess_RadiusSection_controls ::
    "IPsecConfig \<Rightarrow> bool \<Rightarrow> RemoteAccessRadiusSettingsFormValues \<Rightarrow> text_input \<Rightarrow> text_input \<Rightarrow> text_input \<Rightarrow> (RemoteAccessRadiusSettingsFormValues \<times> text_input \<times> text_input \<times> text_input) widget list" where
  "IpsecRemoteAccess_RadiusSection_controls config showAdd values address key port =
     (let radius = viipra_radius (ipc_remoteAccess config)
      in [Input ''Source address'' True (rarsfv_sourceAddress values)
            (\<lambda>t. (values\<lparr>rarsfv_sourceAddress := t\<rparr>, address, key, port)),
          Input ''Session timeout (s)'' True (rarsfv_timeout values)
            (\<lambda>t. (values\<lparr>rarsfv_timeout := t\<rparr>, address, key, port)),
          Input ''NAS identifier'' True (rarsfv_nasIdentifier values)
            (\<lambda>t. (values\<lparr>rarsfv_nasIdentifier := t\<rparr>, address, key, port)),
          Button ''Save settings'' True (IpsecRemoteAccess_RadiusSection_save config values)]
         @ ((if showAdd
             then [Input ''192.0.2.9'' True address (\<lambda>t. (values, t, key, port)),
                   Input ''shared secret'' True key (\<lambda>t. (values, address, t, port)),
                   Input ''port (default 1812)'' True port (\<lambda>t. (values, address, key, t)),
                   Button ''Add server'' (IpsecRemoteAccess_RadiusSection_valid config address)
                     (IpsecRemoteAccess_RadiusSection_submitServer config address key port)]
             else [])
            @ concat
                (map
                     (\<lambda>server. [Button ''Remove'' True
                             (IpsecRemoteAccess_RadiusSection_onClick server)])
                     (iprar_servers radius))))"

text \<open>\<open>components/vpn/IpsecSettings.tsx\<close>\<close>

definition IpsecSettings_controls :: "IPsecConfig \<Rightarrow> unit widget list" where
  "IpsecSettings_controls config =
     (if \<not> ipc_enabled config then [Button ''Enable IPsec'' True (IpsecSettings_onClick)]
      else [])"

definition IpsecSettings_IpsecSettingsForm_controls ::
    "IPsecConfig \<Rightarrow> OptionsFormValues \<Rightarrow> OptionsFormValues widget list" where
  "IpsecSettings_IpsecSettingsForm_controls config values =
     [Input ''Bind interface'' True (ofv_interface values) (\<lambda>t. values\<lparr>ofv_interface := t\<rparr>),
      Input ''Retransmission attempts'' True (ofv_retransmissionAttempts values)
        (\<lambda>t. values\<lparr>ofv_retransmissionAttempts := t\<rparr>),
      Input ''Retransmission base'' True (ofv_retransmissionBase values)
        (\<lambda>t. values\<lparr>ofv_retransmissionBase := t\<rparr>),
      Input ''Retransmission timeout (s)'' True (ofv_retransmissionTimeout values)
        (\<lambda>t. values\<lparr>ofv_retransmissionTimeout := t\<rparr>),
      Check (''Don'' @ [CHR 0x27] @ ''t auto-install routes to remote networks'') True
        (ofv_disableRouteAutoinstall values) (\<lambda>b. values\<lparr>ofv_disableRouteAutoinstall := b\<rparr>),
      Check ''Allow FlexVPN vendor ID (IKEv2)'' True (ofv_flexvpn values)
        (\<lambda>b. values\<lparr>ofv_flexvpn := b\<rparr>),
      Check ''Allow virtual-IP installation'' True (ofv_virtualIp values)
        (\<lambda>b. values\<lparr>ofv_virtualIp := b\<rparr>),
      Toggle ''Disable unique-ID requirement'' True (ipc_disableUniqreqids config)
        (\<lambda>_. IpsecSettings_IpsecSettingsForm_toggleUniqreqids config),
      Button ''Save settings'' True (IpsecSettings_IpsecSettingsForm_save config values),
      Button ''Disable IPsec entirely'' True (IpsecSettings_IpsecSettingsForm_queueDisable)]"

text \<open>\<open>components/vpn/IpsecSiteToSite.tsx\<close>\<close>

definition IpsecSiteToSite_PeerDetails_controls :: "IPsecPeer \<Rightarrow> unit widget list" where
  "IpsecSiteToSite_PeerDetails_controls peer =
     [Chips (''vpn ipsec site-to-site peer '' @ ippb_name peer @ '' remote-address'')
        (ippb_remoteAddresses peer) (ipsecPeerPath (ippb_name peer) [] @ [''remote-address'']),
      Chips (''vpn ipsec site-to-site peer '' @ ippb_name peer @ '' virtual-address'')
        (ippb_virtualAddresses peer) (ipsecPeerPath (ippb_name peer) [] @ [''virtual-address''])]"

definition IpsecSiteToSite_controls :: "IPsecConfig \<Rightarrow> unit widget list" where
  "IpsecSiteToSite_controls config =
     concat (map
          (\<lambda>peer. [Button ''Delete'' True (IpsecSiteToSite_queueDelete (ippb_name peer))])
          (ipc_siteToSitePeers config))"

definition IpsecSiteToSite_PeerForm_controls ::
    "IPsecPeer option \<Rightarrow> string list \<Rightarrow> string list \<Rightarrow> string list \<Rightarrow> text_input \<Rightarrow> text_input \<Rightarrow> PeerFormValues \<Rightarrow> text_input \<Rightarrow> text_input \<Rightarrow> text_input \<Rightarrow> (text_input \<times> text_input \<times> PeerFormValues \<times> text_input \<times> text_input \<times> text_input) widget list" where
  "IpsecSiteToSite_PeerForm_controls peer existingNames espGroups ikeGroups name remoteAddress values firstTunnelId firstTunnelLocalPrefix firstTunnelRemotePrefix =
     ([Input ''Name *'' (peer = None) name (\<lambda>t. (t, remoteAddress, values, firstTunnelId,
               firstTunnelLocalPrefix, firstTunnelRemotePrefix))]
      @ (if peer = None
         then [Input ''Remote address'' True remoteAddress (\<lambda>t. (name, t, values,
                       firstTunnelId, firstTunnelLocalPrefix, firstTunnelRemotePrefix))]
         else [])
      @ [Input ''Local address'' True (pfv_localAddress values)
           (\<lambda>t. (name, remoteAddress, values\<lparr>pfv_localAddress := t\<rparr>,
                   firstTunnelId, firstTunnelLocalPrefix, firstTunnelRemotePrefix)),
         Input ''Description'' True (pfv_description values)
           (\<lambda>t. (name, remoteAddress, values\<lparr>pfv_description := t\<rparr>,
                   firstTunnelId, firstTunnelLocalPrefix, firstTunnelRemotePrefix)),
         Select ''Connection type'' True ([''''] @ IPSEC_CONNECTION_TYPES)
           (pfv_connectionType values) (\<lambda>t. (name, remoteAddress,
                 values\<lparr>pfv_connectionType := t\<rparr>, firstTunnelId,
                 firstTunnelLocalPrefix, firstTunnelRemotePrefix)),
         Select ''Default ESP group'' True ([''''] @ espGroups) (pfv_defaultEspGroup values)
           (\<lambda>t. (name, remoteAddress, values\<lparr>pfv_defaultEspGroup := t\<rparr>,
                   firstTunnelId, firstTunnelLocalPrefix, firstTunnelRemotePrefix)),
         Select ''IKE group'' True ([''''] @ ikeGroups) (pfv_ikeGroup values)
           (\<lambda>t. (name, remoteAddress, values\<lparr>pfv_ikeGroup := t\<rparr>,
                   firstTunnelId, firstTunnelLocalPrefix, firstTunnelRemotePrefix)),
         Select ''Authentication mode'' True ([''''] @ IPSEC_PEER_AUTH_MODES) (pfv_authMode values)
           (\<lambda>t. (name, remoteAddress, values\<lparr>pfv_authMode := t\<rparr>,
                   firstTunnelId, firstTunnelLocalPrefix, firstTunnelRemotePrefix)),
         Input ''Local ID'' True (pfv_localId values) (\<lambda>t. (name, remoteAddress,
                 values\<lparr>pfv_localId := t\<rparr>, firstTunnelId, firstTunnelLocalPrefix,
                 firstTunnelRemotePrefix)),
         Input ''Remote ID'' True (pfv_remoteId values) (\<lambda>t. (name, remoteAddress,
                 values\<lparr>pfv_remoteId := t\<rparr>, firstTunnelId, firstTunnelLocalPrefix,
                 firstTunnelRemotePrefix)),
         Select ''IKEv2 re-auth'' True ([''''] @ IPSEC_IKEV2_REAUTH_OPTIONS)
           (pfv_ikev2Reauth values) (\<lambda>t. (name, remoteAddress,
                 values\<lparr>pfv_ikev2Reauth := t\<rparr>, firstTunnelId, firstTunnelLocalPrefix,
                 firstTunnelRemotePrefix)),
         Select ''Childless IKEv2'' True ([''''] @ IPSEC_CHILDLESS_OPTIONS) (pfv_childless values)
           (\<lambda>t. (name, remoteAddress, values\<lparr>pfv_childless := t\<rparr>,
                   firstTunnelId, firstTunnelLocalPrefix, firstTunnelRemotePrefix)),
         Input ''Replay window'' True (pfv_replayWindow values)
           (\<lambda>t. (name, remoteAddress, values\<lparr>pfv_replayWindow := t\<rparr>,
                   firstTunnelId, firstTunnelLocalPrefix, firstTunnelRemotePrefix))])
     @ [Check ''Disable this peer'' True (pfv_disabled values)
          (\<lambda>b. (name, remoteAddress, values\<lparr>pfv_disabled := b\<rparr>, firstTunnelId,
                  firstTunnelLocalPrefix, firstTunnelRemotePrefix)),
        Check ''Use certificate CN as ID'' True (pfv_useX509Id values)
          (\<lambda>b. (name, remoteAddress, values\<lparr>pfv_useX509Id := b\<rparr>,
                  firstTunnelId, firstTunnelLocalPrefix, firstTunnelRemotePrefix)),
        Check ''Force UDP encapsulation'' True (pfv_forceUdpEncapsulation values)
          (\<lambda>b. (name, remoteAddress, values\<lparr>pfv_forceUdpEncapsulation := b\<rparr>,
                  firstTunnelId, firstTunnelLocalPrefix, firstTunnelRemotePrefix))]
     @ (if peer = None
        then [Input ''Tunnel #'' True firstTunnelId (\<lambda>t. (name, remoteAddress, values,
                      number_input t, firstTunnelLocalPrefix, firstTunnelRemotePrefix)),
              Input ''Local prefix'' True firstTunnelLocalPrefix
                (\<lambda>t. (name, remoteAddress, values, firstTunnelId, t, firstTunnelRemotePrefix)),
              Input ''Remote prefix'' True firstTunnelRemotePrefix
                (\<lambda>t. (name, remoteAddress, values, firstTunnelId, firstTunnelLocalPrefix, t))]
        else [])
     @ [Button
          (case peer of
               Some peer' \<Rightarrow> ''Save changes''
             | None \<Rightarrow> ''Queue creation'')
          (IpsecSiteToSite_PeerForm_canSubmit peer existingNames name)
          (IpsecSiteToSite_PeerForm_submit peer existingNames name remoteAddress values
               firstTunnelId firstTunnelLocalPrefix firstTunnelRemotePrefix)]"

definition IpsecSiteToSite_TunnelsSection_controls ::
    "IPsecPeer \<Rightarrow> bool \<Rightarrow> text_input \<Rightarrow> text_input \<Rightarrow> text_input \<Rightarrow> (text_input \<times> text_input \<times> text_input) widget list" where
  "IpsecSiteToSite_TunnelsSection_controls peer showAdd i espGroup protocol =
     concat
       (map
            (\<lambda>tunnel. [Button ''Remove'' True (IpsecSiteToSite_TunnelsSection_onClick peer
                       tunnel),
                  Chips (''... tunnel '' @ ipt_id tunnel @ '' local prefix'')
                    (ipt_localPrefixes tunnel) ((ipsecPeerPath (ippb_name peer) []
                      @ [''tunnel'', ipt_id tunnel, ''local'']) @ [''prefix'']),
                  Chips (''... tunnel '' @ ipt_id tunnel @ '' remote prefix'')
                    (ipt_remotePrefixes tunnel) ((ipsecPeerPath (ippb_name peer) []
                      @ [''tunnel'', ipt_id tunnel, ''remote'']) @ [''prefix''])])
            (ippb_tunnels peer))
     @ (if showAdd
        then [Input ''tunnel #'' True i (\<lambda>t. (number_input t, espGroup, protocol)),
              Input ''esp-group override (optional)'' True espGroup (\<lambda>t. (i, t, protocol)),
              Input ''protocol (optional)'' True protocol (\<lambda>t. (i, espGroup, t)),
              Button ''Add tunnel'' (IpsecSiteToSite_TunnelsSection_valid peer i)
                (IpsecSiteToSite_TunnelsSection_submit peer i espGroup protocol)]
        else [])"

text \<open>\<open>components/vpn/OpenconnectServer.tsx\<close>\<close>

definition OpenconnectServer_controls :: "OpenconnectConfig \<Rightarrow> unit widget list" where
  "OpenconnectServer_controls config =
     (if \<not> vooc_enabled config
      then [Button ''Enable OpenConnect'' True (OpenconnectServer_onClick)]
      else [Button ''Disable OpenConnect entirely'' True (OpenconnectServer_onClick2)])"

definition OpenconnectServer_SettingsSection_controls ::
    "OpenconnectConfig \<Rightarrow> OpenconnectSettingsFormValues \<Rightarrow> OpenconnectSettingsFormValues widget list" where
  "OpenconnectServer_SettingsSection_controls config values =
     [Input ''Listen address'' True (osfv_listenAddress values)
        (\<lambda>t. values\<lparr>osfv_listenAddress := t\<rparr>),
      Input ''Listen port (TCP)'' True (osfv_listenPortTcp values)
        (\<lambda>t. values\<lparr>osfv_listenPortTcp := t\<rparr>),
      Input ''Listen port (UDP)'' True (osfv_listenPortUdp values)
        (\<lambda>t. values\<lparr>osfv_listenPortUdp := t\<rparr>),
      Select ''TLS minimum version'' True ([''''] @ OPENCONNECT_TLS_VERSIONS)
        (osfv_tlsVersionMin values) (\<lambda>t. values\<lparr>osfv_tlsVersionMin := t\<rparr>),
      Input ''Certificate (PKI name)'' True (osfv_certificate values)
        (\<lambda>t. values\<lparr>osfv_certificate := t\<rparr>),
      Input
        (''Private key passphrase ''
           @ (if os_hasPassphrase (vooc_ssl config) then ''(leave blank to keep)'' else '''')) True
        (osfv_hasPassphrase values) (\<lambda>t. values\<lparr>osfv_hasPassphrase := t\<rparr>),
      Input ''Client IPv4 subnet'' True (osfv_clientIpv4Subnet values)
        (\<lambda>t. values\<lparr>osfv_clientIpv4Subnet := t\<rparr>),
      Input ''Client IPv6 pool prefix'' True (osfv_clientIpv6PoolPrefix values)
        (\<lambda>t. values\<lparr>osfv_clientIpv6PoolPrefix := t\<rparr>),
      Input ''Client IPv6 pool mask'' True (osfv_clientIpv6PoolMask values)
        (\<lambda>t. values\<lparr>osfv_clientIpv6PoolMask := t\<rparr>),
      Select ''Tunnel all DNS'' True ['''', ''yes'', ''no''] (osfv_tunnelAllDns values)
        (\<lambda>t. values\<lparr>osfv_tunnelAllDns := t\<rparr>),
      Input ''Connect script'' True (osfv_scriptConnect values)
        (\<lambda>t. values\<lparr>osfv_scriptConnect := t\<rparr>),
      Input ''Disconnect script'' True (osfv_scriptDisconnect values)
        (\<lambda>t. values\<lparr>osfv_scriptDisconnect := t\<rparr>),
      Check ''Enable HTTP security headers'' True (osfv_httpSecurityHeaders values)
        (\<lambda>b. values\<lparr>osfv_httpSecurityHeaders := b\<rparr>),
      Chips ''vpn openconnect network-settings push-route''
        (ons_pushRoutes (vooc_networkSettings config)) (openconnectNetworkSettingsPath []
         @ [''push-route'']),
      Chips ''vpn openconnect network-settings name-server''
        (ons_nameServers (vooc_networkSettings config)) (openconnectNetworkSettingsPath []
         @ [''name-server'']),
      Chips ''vpn openconnect network-settings split-dns''
        (ons_splitDns (vooc_networkSettings config)) (openconnectNetworkSettingsPath []
         @ [''split-dns'']),
      Chips ''vpn openconnect ssl ca-certificate'' (os_caCertificates (vooc_ssl config))
        ([''vpn'', ''openconnect'', ''ssl''] @ [''ca-certificate'']),
      Button ''Save settings'' True (OpenconnectServer_SettingsSection_save config values)]"

definition OpenconnectServer_AuthenticationSection_controls ::
    "OpenconnectConfig \<Rightarrow> OpenconnectSettingsFormValues \<Rightarrow> OpenconnectSettingsFormValues widget list" where
  "OpenconnectServer_AuthenticationSection_controls config values =
     (let authentication = vooc_authentication config
      in [Select ''Local auth mode'' True ([''''] @ OPENCONNECT_LOCAL_AUTH_MODES)
            (osfv_localAuthMode values) (\<lambda>t. values\<lparr>osfv_localAuthMode := t\<rparr>),
          Input ''Certificate user identifier field'' True
            (osfv_certificateUserIdentifierField values) (\<lambda>t. values\<lparr>osfv_certificateUserIdentifierField := t\<rparr>),
          Input ''RADIUS timeout (s)'' True (osfv_radiusTimeout values)
            (\<lambda>t. values\<lparr>osfv_radiusTimeout := t\<rparr>),
          Check ''Use RADIUS for authentication'' True (osfv_radiusAuthEnabled values)
            (\<lambda>b. values\<lparr>osfv_radiusAuthEnabled := b\<rparr>),
          Check ''RADIUS overrides per-user config (groupconfig)'' True
            (osfv_radiusGroupconfig values) (\<lambda>b. values\<lparr>osfv_radiusGroupconfig := b\<rparr>),
          Chips ''vpn openconnect authentication group'' (oaa_groups authentication)
            ([''vpn'', ''openconnect'', ''authentication''] @ [''group'']),
          Button ''Save settings'' True (OpenconnectServer_AuthenticationSection_save config values)])"

definition OpenconnectServer_LocalUsersSubsection_controls ::
    "OpenconnectConfig \<Rightarrow> bool \<Rightarrow> text_input \<Rightarrow> text_input \<Rightarrow> text_input \<Rightarrow> text_input \<Rightarrow> text_input \<Rightarrow> text_input \<Rightarrow> (text_input \<times> text_input \<times> text_input \<times> text_input \<times> text_input \<times> text_input) widget list" where
  "OpenconnectServer_LocalUsersSubsection_controls config showAdd username password otpKey otpLength otpInterval otpTokenType =
     (let localUsers = oaa_localUsers (vooc_authentication config)
      in (if showAdd
          then [Input ''username'' True username (\<lambda>t. (t, password, otpKey, otpLength,
                        otpInterval, otpTokenType)),
                Input ''password'' True password (\<lambda>t. (username, t, otpKey, otpLength,
                        otpInterval, otpTokenType)),
                Input ''OTP key (hex, optional)'' True otpKey
                  (\<lambda>t. (username, password, t, otpLength, otpInterval, otpTokenType)),
                Input ''OTP digits (6-8)'' True otpLength (\<lambda>t. (username, password, otpKey,
                        t, otpInterval, otpTokenType)),
                Input ''OTP interval (s)'' True otpInterval (\<lambda>t. (username, password,
                        otpKey, otpLength, t, otpTokenType)),
                Select '''' True ([''''] @ OPENCONNECT_OTP_TOKEN_TYPES) otpTokenType
                  (\<lambda>t. (username, password, otpKey, otpLength, otpInterval, t)),
                Button ''Add'' (OpenconnectServer_LocalUsersSubsection_valid config username)
                  (OpenconnectServer_LocalUsersSubsection_submit config username password otpKey
                       otpLength otpInterval otpTokenType)]
          else [])
         @ concat
             (map
                  (\<lambda>user. [Button (if olu_disabled user then ''Enable'' else ''Disable'')
                          True (OpenconnectServer_LocalUsersSubsection_onClick user),
                        Button ''Remove'' True (OpenconnectServer_LocalUsersSubsection_onClick2 user)])
                  localUsers))"

definition OpenconnectServer_AuthRadiusServersSubsection_controls ::
    "OpenconnectConfig \<Rightarrow> bool \<Rightarrow> text_input \<Rightarrow> text_input \<Rightarrow> text_input \<Rightarrow> (text_input \<times> text_input \<times> text_input) widget list" where
  "OpenconnectServer_AuthRadiusServersSubsection_controls config showAdd address key port =
     (let servers = vooar_servers (oaa_radius (vooc_authentication config))
      in (if showAdd
          then [Input ''192.0.2.9'' True address (\<lambda>t. (t, key, port)),
                Input ''shared secret'' True key (\<lambda>t. (address, t, port)),
                Input ''port (default 1812)'' True port (\<lambda>t. (address, key, t)),
                Button ''Add server''
                  (OpenconnectServer_AuthRadiusServersSubsection_valid config address)
                  (OpenconnectServer_AuthRadiusServersSubsection_submit config address key port)]
          else [])
         @ concat
             (map
                  (\<lambda>server. [Button ''Remove'' True (OpenconnectServer_AuthRadiusServersSubsection_onClick server)])
                  servers))"

definition OpenconnectServer_AccountingSection_controls ::
    "OpenconnectConfig \<Rightarrow> bool \<Rightarrow> text_input \<Rightarrow> text_input \<Rightarrow> text_input \<Rightarrow> (text_input \<times> text_input \<times> text_input) widget list" where
  "OpenconnectServer_AccountingSection_controls config showAdd address key port =
     (let accounting = vooc_accounting config
      in [Toggle ''Use RADIUS for accounting'' True (vooa_radiusEnabled accounting)
            (\<lambda>b. OpenconnectServer_AccountingSection_onChange b)]
         @ ((if showAdd
             then [Input ''192.0.2.9'' True address (\<lambda>t. (t, key, port)),
                   Input ''shared secret'' True key (\<lambda>t. (address, t, port)),
                   Input ''acct port (default 1813)'' True port (\<lambda>t. (address, key, t)),
                   Button ''Add server'' (OpenconnectServer_AccountingSection_valid config address)
                     (OpenconnectServer_AccountingSection_submit config address key port)]
             else [])
            @ concat (map
                   (\<lambda>server. [Button ''Remove'' True
                           (OpenconnectServer_AccountingSection_onClick2 server)])
                   (vooa_radiusServers accounting))))"

subsection \<open>What is typed and clicked\<close>

lemmas vpn_views =
  AccelPppAuthenticationSection_controls_def AccelPppClientIpPoolsSection_controls_def
  AccelPppClientIpv6PoolsSection_controls_def AccelPppIpv6PoolPrefixList_controls_def
  AccelPppLocalUsersSubsection_controls_def AccelPppRadiusServersSubsection_controls_def
  AccelPppSettingsSection_controls_def IpsecEspGroupForm_controls_def
  IpsecEspProposals_controls_def IpsecIkeGroupForm_controls_def IpsecIkeProposals_controls_def
  IpsecPpkSection_controls_def IpsecPskSection_controls_def
  IpsecRemoteAccess_ConnectionForm_controls_def IpsecRemoteAccess_LocalUsersSection_controls_def
  IpsecRemoteAccess_PoolsSection_controls_def IpsecRemoteAccess_RadiusSection_controls_def
  IpsecSettings_IpsecSettingsForm_controls_def IpsecSiteToSite_PeerForm_controls_def
  IpsecSiteToSite_TunnelsSection_controls_def OpenconnectServer_SettingsSection_controls_def
  OpenconnectServer_AuthenticationSection_controls_def
  OpenconnectServer_LocalUsersSubsection_controls_def
  OpenconnectServer_AuthRadiusServersSubsection_controls_def
  OpenconnectServer_AccountingSection_controls_def IpsecEspGroupsSection_controls_def
  IpsecIkeGroupsSection_controls_def IpsecRemoteAccess_ConnectionsSection_controls_def
  IpsecSettings_controls_def IpsecSiteToSite_controls_def OpenconnectServer_controls_def

lemma vpn_controlled:
  "controlled (AccelPppAuthenticationSection_controls kind config)"
  "controlled (\<lambda>(name, rangesText, nextPool). AccelPppClientIpPoolsSection_controls kind config showAdd name rangesText nextPool)"
  "controlled (\<lambda>(name, firstPrefix, firstPrefixMask). AccelPppClientIpv6PoolsSection_controls kind config showAdd name firstPrefix firstPrefixMask)"
  "controlled (\<lambda>(pfx, msk). AccelPppIpv6PoolPrefixList_controls kind poolName prefixes1 showAdd pfx msk)"
  "controlled (\<lambda>(username, password, staticIp, rateLimitUpload, rateLimitDownload). AccelPppLocalUsersSubsection_controls kind config showAdd username password staticIp rateLimitUpload rateLimitDownload)"
  "controlled (\<lambda>(address, key, port). AccelPppRadiusServersSubsection_controls kind config showAdd address key port)"
  "controlled (AccelPppSettingsSection_controls kind config)"
  "controlled (\<lambda>(name, values_1, firstProposalEncryption, firstProposalHash). IpsecEspGroupForm_controls grp existingNames name values_1 firstProposalEncryption firstProposalHash)"
  "controlled (\<lambda>(i, encryption, hash, esn). IpsecEspProposals_controls grp_1 showAdd i encryption hash esn)"
  "controlled (\<lambda>(name, values_2, firstProposalDhGroup, firstProposalEncryption, firstProposalHash). IpsecIkeGroupForm_controls grp_2 existingNames name values_2 firstProposalDhGroup firstProposalEncryption firstProposalHash)"
  "controlled (\<lambda>(i, dhGroup, prf, encryption, hash). IpsecIkeProposals_controls grp_3 showAdd i dhGroup prf encryption hash)"
  "controlled (\<lambda>(name, ids, secret, secretType). IpsecPpkSection_controls config_1 showAdd name ids secret secretType)"
  "controlled (\<lambda>(name, ids, secret, secretType). IpsecPskSection_controls config_1 showAdd name ids secret secretType)"
  "controlled (\<lambda>(name, values_3). IpsecRemoteAccess_ConnectionForm_controls connection existingNames espGroups ikeGroups name values_3)"
  "controlled (\<lambda>(username, password). IpsecRemoteAccess_LocalUsersSection_controls connection_1 showAdd username password)"
  "controlled (\<lambda>(name, pfx, rangeStart, rangeStop). IpsecRemoteAccess_PoolsSection_controls config_1 showAdd name pfx rangeStart rangeStop)"
  "controlled (\<lambda>(values_4, address, key, port). IpsecRemoteAccess_RadiusSection_controls config_1 showAdd values_4 address key port)"
  "controlled (IpsecSettings_IpsecSettingsForm_controls config_1)"
  "controlled (\<lambda>(name, remoteAddress, values_6, firstTunnelId, firstTunnelLocalPrefix, firstTunnelRemotePrefix). IpsecSiteToSite_PeerForm_controls peer_1 existingNames espGroups ikeGroups name remoteAddress values_6 firstTunnelId firstTunnelLocalPrefix firstTunnelRemotePrefix)"
  "controlled (\<lambda>(i, espGroup, protocol). IpsecSiteToSite_TunnelsSection_controls peer showAdd i espGroup protocol)"
  "controlled (OpenconnectServer_SettingsSection_controls config_2)"
  "controlled (OpenconnectServer_AuthenticationSection_controls config_2)"
  "controlled (\<lambda>(username, password, otpKey, otpLength, otpInterval, otpTokenType). OpenconnectServer_LocalUsersSubsection_controls config_2 showAdd username password otpKey otpLength otpInterval otpTokenType)"
  "controlled (\<lambda>(address, key, port). OpenconnectServer_AuthRadiusServersSubsection_controls config_2 showAdd address key port)"
  "controlled (\<lambda>(address, key, port). OpenconnectServer_AccountingSection_controls config_2 showAdd address key port)"
  by (simp_all add: controlled_def vpn_views view_simps)

inductive vpn_typed :: "string \<Rightarrow> shown \<Rightarrow> (string \<times> shown) list \<Rightarrow> bool" where
  "typing (AccelPppAuthenticationSection_controls kind config) l y scr \<Longrightarrow> vpn_typed l y scr"
| "typing (\<lambda>(name, rangesText, nextPool). AccelPppClientIpPoolsSection_controls kind config showAdd name rangesText nextPool) l y scr \<Longrightarrow> vpn_typed l y scr"
| "typing (\<lambda>(name, firstPrefix, firstPrefixMask). AccelPppClientIpv6PoolsSection_controls kind config showAdd name firstPrefix firstPrefixMask) l y scr \<Longrightarrow> vpn_typed l y scr"
| "typing (\<lambda>(pfx, msk). AccelPppIpv6PoolPrefixList_controls kind poolName prefixes1 showAdd pfx msk) l y scr \<Longrightarrow> vpn_typed l y scr"
| "typing (\<lambda>(username, password, staticIp, rateLimitUpload, rateLimitDownload). AccelPppLocalUsersSubsection_controls kind config showAdd username password staticIp rateLimitUpload rateLimitDownload) l y scr \<Longrightarrow> vpn_typed l y scr"
| "typing (\<lambda>(address, key, port). AccelPppRadiusServersSubsection_controls kind config showAdd address key port) l y scr \<Longrightarrow> vpn_typed l y scr"
| "typing (AccelPppSettingsSection_controls kind config) l y scr \<Longrightarrow> vpn_typed l y scr"
| "typing (\<lambda>(name, values_1, firstProposalEncryption, firstProposalHash). IpsecEspGroupForm_controls grp existingNames name values_1 firstProposalEncryption firstProposalHash) l y scr \<Longrightarrow> vpn_typed l y scr"
| "typing (\<lambda>(i, encryption, hash, esn). IpsecEspProposals_controls grp_1 showAdd i encryption hash esn) l y scr \<Longrightarrow> vpn_typed l y scr"
| "typing (\<lambda>(name, values_2, firstProposalDhGroup, firstProposalEncryption, firstProposalHash). IpsecIkeGroupForm_controls grp_2 existingNames name values_2 firstProposalDhGroup firstProposalEncryption firstProposalHash) l y scr \<Longrightarrow> vpn_typed l y scr"
| "typing (\<lambda>(i, dhGroup, prf, encryption, hash). IpsecIkeProposals_controls grp_3 showAdd i dhGroup prf encryption hash) l y scr \<Longrightarrow> vpn_typed l y scr"
| "typing (\<lambda>(name, ids, secret, secretType). IpsecPpkSection_controls config_1 showAdd name ids secret secretType) l y scr \<Longrightarrow> vpn_typed l y scr"
| "typing (\<lambda>(name, ids, secret, secretType). IpsecPskSection_controls config_1 showAdd name ids secret secretType) l y scr \<Longrightarrow> vpn_typed l y scr"
| "typing (\<lambda>(name, values_3). IpsecRemoteAccess_ConnectionForm_controls connection existingNames espGroups ikeGroups name values_3) l y scr \<Longrightarrow> vpn_typed l y scr"
| "typing (\<lambda>(username, password). IpsecRemoteAccess_LocalUsersSection_controls connection_1 showAdd username password) l y scr \<Longrightarrow> vpn_typed l y scr"
| "typing (\<lambda>(name, pfx, rangeStart, rangeStop). IpsecRemoteAccess_PoolsSection_controls config_1 showAdd name pfx rangeStart rangeStop) l y scr \<Longrightarrow> vpn_typed l y scr"
| "typing (\<lambda>(values_4, address, key, port). IpsecRemoteAccess_RadiusSection_controls config_1 showAdd values_4 address key port) l y scr \<Longrightarrow> vpn_typed l y scr"
| "typing (IpsecSettings_IpsecSettingsForm_controls config_1) l y scr \<Longrightarrow> vpn_typed l y scr"
| "typing (\<lambda>(name, remoteAddress, values_6, firstTunnelId, firstTunnelLocalPrefix, firstTunnelRemotePrefix). IpsecSiteToSite_PeerForm_controls peer_1 existingNames espGroups ikeGroups name remoteAddress values_6 firstTunnelId firstTunnelLocalPrefix firstTunnelRemotePrefix) l y scr \<Longrightarrow> vpn_typed l y scr"
| "typing (\<lambda>(i, espGroup, protocol). IpsecSiteToSite_TunnelsSection_controls peer showAdd i espGroup protocol) l y scr \<Longrightarrow> vpn_typed l y scr"
| "typing (OpenconnectServer_SettingsSection_controls config_2) l y scr \<Longrightarrow> vpn_typed l y scr"
| "typing (OpenconnectServer_AuthenticationSection_controls config_2) l y scr \<Longrightarrow> vpn_typed l y scr"
| "typing (\<lambda>(username, password, otpKey, otpLength, otpInterval, otpTokenType). OpenconnectServer_LocalUsersSubsection_controls config_2 showAdd username password otpKey otpLength otpInterval otpTokenType) l y scr \<Longrightarrow> vpn_typed l y scr"
| "typing (\<lambda>(address, key, port). OpenconnectServer_AuthRadiusServersSubsection_controls config_2 showAdd address key port) l y scr \<Longrightarrow> vpn_typed l y scr"
| "typing (\<lambda>(address, key, port). OpenconnectServer_AccountingSection_controls config_2 showAdd address key port) l y scr \<Longrightarrow> vpn_typed l y scr"

lemma vpn_typed_shown: "vpn_typed l y scr \<Longrightarrow> answers l y scr"
  by (induction rule: vpn_typed.induct) (erule controlled_typing, rule vpn_controlled)+

lemma vpn_acting:
  "list_all (acting (vpn_editor ''vpn'')) (AccelPppClientIpPoolsSection_controls kind config showAdd name rangesText nextPool)"
  "list_all (acting (vpn_editor ''vpn'')) (AccelPppClientIpv6PoolsSection_controls kind config showAdd name firstPrefix firstPrefixMask)"
  "list_all (acting (vpn_editor ''vpn'')) (AccelPppIpv6PoolPrefixList_controls kind poolName prefixes1 showAdd pfx msk)"
  "list_all (acting (vpn_editor ''vpn'')) (AccelPppLocalUsersSubsection_controls kind config showAdd username password staticIp rateLimitUpload rateLimitDownload)"
  "list_all (acting (vpn_editor ''vpn'')) (AccelPppRadiusServersSubsection_controls kind config showAdd address key port)"
  "list_all (acting (vpn_editor ''vpn'')) (IpsecEspGroupForm_controls grp existingNames name values_1 firstProposalEncryption firstProposalHash)"
  "list_all (acting (vpn_editor ''vpn'')) (IpsecEspGroupsSection_controls config_1)"
  "list_all (acting (vpn_editor ''vpn'')) (IpsecEspProposals_controls grp_1 showAdd i encryption hash esn)"
  "list_all (acting (vpn_editor ''vpn'')) (IpsecIkeGroupForm_controls grp_2 existingNames name values_2 firstProposalDhGroup firstProposalEncryption firstProposalHash)"
  "list_all (acting (vpn_editor ''vpn'')) (IpsecIkeGroupsSection_controls config_1)"
  "list_all (acting (vpn_editor ''vpn'')) (IpsecIkeProposals_controls grp_3 showAdd i dhGroup prf encryption hash)"
  "list_all (acting (vpn_editor ''vpn'')) (IpsecPpkSection_controls config_1 showAdd name ids secret secretType)"
  "list_all (acting (vpn_editor ''vpn'')) (IpsecPskSection_controls config_1 showAdd name ids secret secretType)"
  "list_all (acting (vpn_editor ''vpn'')) (IpsecRemoteAccess_ConnectionsSection_controls config_1)"
  "list_all (acting (vpn_editor ''vpn'')) (IpsecRemoteAccess_ConnectionForm_controls connection existingNames espGroups ikeGroups name values_3)"
  "list_all (acting (vpn_editor ''vpn'')) (IpsecRemoteAccess_LocalUsersSection_controls connection_1 showAdd username password)"
  "list_all (acting (vpn_editor ''vpn'')) (IpsecRemoteAccess_PoolsSection_controls config_1 showAdd name pfx rangeStart rangeStop)"
  "list_all (acting (vpn_editor ''vpn'')) (IpsecRemoteAccess_RadiusSection_controls config_1 showAdd values_4 address key port)"
  "list_all (acting (vpn_editor ''vpn'')) (IpsecSettings_controls config_1)"
  "list_all (acting (vpn_editor ''vpn'')) (IpsecSettings_IpsecSettingsForm_controls config_1 values_5)"
  "list_all (acting (vpn_editor ''vpn'')) (IpsecSiteToSite_controls config_1)"
  "list_all (acting (vpn_editor ''vpn'')) (IpsecSiteToSite_PeerForm_controls peer_1 existingNames espGroups ikeGroups name remoteAddress values_6 firstTunnelId firstTunnelLocalPrefix firstTunnelRemotePrefix)"
  "list_all (acting (vpn_editor ''vpn'')) (IpsecSiteToSite_TunnelsSection_controls peer showAdd i espGroup protocol)"
  "list_all (acting (vpn_editor ''vpn'')) (OpenconnectServer_controls config_2)"
  "list_all (acting (vpn_editor ''vpn'')) (OpenconnectServer_SettingsSection_controls config_2 values_7)"
  "list_all (acting (vpn_editor ''vpn'')) (OpenconnectServer_AuthenticationSection_controls config_2 values_7)"
  "list_all (acting (vpn_editor ''vpn'')) (OpenconnectServer_LocalUsersSubsection_controls config_2 showAdd username password otpKey otpLength otpInterval otpTokenType)"
  "list_all (acting (vpn_editor ''vpn'')) (OpenconnectServer_AuthRadiusServersSubsection_controls config_2 showAdd address key port)"
  "list_all (acting (vpn_editor ''vpn'')) (OpenconnectServer_AccountingSection_controls config_2 showAdd address key port)"
  by (simp_all add: vpn_views view_simps vpn_editor.intros)

text \<open>The changes \<open>adds\<close> that one click in a component of the section \<open>sec\<close> puts in the cart.\<close>

inductive vpn_click :: "string \<Rightarrow> (ConfigOp \<times> string) list \<Rightarrow> bool" where
  "clicked (AccelPppClientIpPoolsSection_controls kind config showAdd name rangesText nextPool) adds \<Longrightarrow> vpn_click ''vpn'' adds"
| "clicked (AccelPppClientIpv6PoolsSection_controls kind config showAdd name firstPrefix firstPrefixMask) adds \<Longrightarrow> vpn_click ''vpn'' adds"
| "clicked (AccelPppIpv6PoolPrefixList_controls kind poolName prefixes1 showAdd pfx msk) adds \<Longrightarrow> vpn_click ''vpn'' adds"
| "clicked (AccelPppLocalUsersSubsection_controls kind config showAdd username password staticIp rateLimitUpload rateLimitDownload) adds \<Longrightarrow> vpn_click ''vpn'' adds"
| "clicked (AccelPppRadiusServersSubsection_controls kind config showAdd address key port) adds \<Longrightarrow> vpn_click ''vpn'' adds"
| "clicked (IpsecEspGroupForm_controls grp existingNames name values_1 firstProposalEncryption firstProposalHash) adds \<Longrightarrow> vpn_click ''vpn'' adds"
| "clicked (IpsecEspGroupsSection_controls config_1) adds \<Longrightarrow> vpn_click ''vpn'' adds"
| "clicked (IpsecEspProposals_controls grp_1 showAdd i encryption hash esn) adds \<Longrightarrow> vpn_click ''vpn'' adds"
| "clicked (IpsecIkeGroupForm_controls grp_2 existingNames name values_2 firstProposalDhGroup firstProposalEncryption firstProposalHash) adds \<Longrightarrow> vpn_click ''vpn'' adds"
| "clicked (IpsecIkeGroupsSection_controls config_1) adds \<Longrightarrow> vpn_click ''vpn'' adds"
| "clicked (IpsecIkeProposals_controls grp_3 showAdd i dhGroup prf encryption hash) adds \<Longrightarrow> vpn_click ''vpn'' adds"
| "clicked (IpsecPpkSection_controls config_1 showAdd name ids secret secretType) adds \<Longrightarrow> vpn_click ''vpn'' adds"
| "clicked (IpsecPskSection_controls config_1 showAdd name ids secret secretType) adds \<Longrightarrow> vpn_click ''vpn'' adds"
| "clicked (IpsecRemoteAccess_ConnectionsSection_controls config_1) adds \<Longrightarrow> vpn_click ''vpn'' adds"
| "clicked (IpsecRemoteAccess_ConnectionForm_controls connection existingNames espGroups ikeGroups name values_3) adds \<Longrightarrow> vpn_click ''vpn'' adds"
| "clicked (IpsecRemoteAccess_LocalUsersSection_controls connection_1 showAdd username password) adds \<Longrightarrow> vpn_click ''vpn'' adds"
| "clicked (IpsecRemoteAccess_PoolsSection_controls config_1 showAdd name pfx rangeStart rangeStop) adds \<Longrightarrow> vpn_click ''vpn'' adds"
| "clicked (IpsecRemoteAccess_RadiusSection_controls config_1 showAdd values_4 address key port) adds \<Longrightarrow> vpn_click ''vpn'' adds"
| "clicked (IpsecSettings_controls config_1) adds \<Longrightarrow> vpn_click ''vpn'' adds"
| "clicked (IpsecSettings_IpsecSettingsForm_controls config_1 values_5) adds \<Longrightarrow> vpn_click ''vpn'' adds"
| "clicked (IpsecSiteToSite_controls config_1) adds \<Longrightarrow> vpn_click ''vpn'' adds"
| "clicked (IpsecSiteToSite_PeerForm_controls peer_1 existingNames espGroups ikeGroups name remoteAddress values_6 firstTunnelId firstTunnelLocalPrefix firstTunnelRemotePrefix) adds \<Longrightarrow> vpn_click ''vpn'' adds"
| "clicked (IpsecSiteToSite_TunnelsSection_controls peer showAdd i espGroup protocol) adds \<Longrightarrow> vpn_click ''vpn'' adds"
| "clicked (OpenconnectServer_controls config_2) adds \<Longrightarrow> vpn_click ''vpn'' adds"
| "clicked (OpenconnectServer_SettingsSection_controls config_2 values_7) adds \<Longrightarrow> vpn_click ''vpn'' adds"
| "clicked (OpenconnectServer_AuthenticationSection_controls config_2 values_7) adds \<Longrightarrow> vpn_click ''vpn'' adds"
| "clicked (OpenconnectServer_LocalUsersSubsection_controls config_2 showAdd username password otpKey otpLength otpInterval otpTokenType) adds \<Longrightarrow> vpn_click ''vpn'' adds"
| "clicked (OpenconnectServer_AuthRadiusServersSubsection_controls config_2 showAdd address key port) adds \<Longrightarrow> vpn_click ''vpn'' adds"
| "clicked (OpenconnectServer_AccountingSection_controls config_2 showAdd address key port) adds \<Longrightarrow> vpn_click ''vpn'' adds"

lemma vpn_click_editor: "vpn_click sec adds \<Longrightarrow> vpn_editor sec adds"
  by (induction rule: vpn_click.induct) (erule acting_clicked, rule vpn_acting, assumption?)+

end
