(* ===== verification/ViewQos.thy ===== *)
theory ViewQos
  imports Widgets UiQos
begin

text \<open>
  The controls of the QoS, load balancing and high availability pages, component by component: for given
  props and state, the inputs, choices, switches and buttons its markup shows. A child component with a
  state of its own has its own definition; one without is shown by its parent.
\<close>

text \<open>\<open>components/qos/CakePolicyList.tsx\<close>\<close>

definition CakePolicyList_controls ::
    "QosCakePolicy list \<Rightarrow> bool \<Rightarrow> text_input \<Rightarrow> text_input widget list" where
  "CakePolicyList_controls policies showAdd newName =
     (let existingNames = map (\<lambda>p. qoqcp_name p) policies
      in (if showAdd
          then [Input ''Name'' True newName (\<lambda>t. t)]
               @ (if js_trim newName \<noteq> ''''
                     \<and> \<not> (js_trim newName \<in> set existingNames)
                  then [Button ''Add policy'' True (CakePolicyList_onClick newName)]
                  else [])
          else [])
         @ concat
             (map
                  (\<lambda>policy. [Button ''Delete'' True (CakePolicyList_queueDelete (qoqcp_name policy))])
                  policies))"

definition CakePolicyList_CakeFields_controls ::
    "QosCakePolicy \<Rightarrow> CakeFormValues \<Rightarrow> CakeFormValues widget list" where
  "CakePolicyList_CakeFields_controls policy values =
     [Input ''bandwidth (optional)'' True (qocfv_bandwidth values)
        (\<lambda>t. values\<lparr>qocfv_bandwidth := t\<rparr>),
      Select '''' True QOS_CAKE_FLOW_ISOLATION_MODES (qocfv_flowIsolation values)
        (\<lambda>t. values\<lparr>qocfv_flowIsolation := t\<rparr>),
      Input ''RTT (ms, default 100)'' True (qocfv_rtt values)
        (\<lambda>t. values\<lparr>qocfv_rtt := t\<rparr>),
      Input ''description'' True (qocfv_description values) (\<lambda>t. values\<lparr>qocfv_description := t\<rparr>),
      Check ''NAT lookup before flow isolation'' True (qocfv_flowIsolationNat values)
        (\<lambda>b. values\<lparr>qocfv_flowIsolationNat := b\<rparr>),
      Check (''Don'' @ [CHR 0x27] @ ''t split GSO super-packets'') True (qocfv_noSplitGso values)
        (\<lambda>b. values\<lparr>qocfv_noSplitGso := b\<rparr>),
      Check ''Aggressive TCP ACK filtering'' True (qocfv_ackFilterAggressive values)
        (\<lambda>b. values\<lparr>qocfv_ackFilterAggressive := b\<rparr>),
      Button ''Save'' True (CakePolicyList_CakeFields_submit policy values)]"

text \<open>\<open>components/qos/FqCodelPolicyList.tsx\<close>\<close>

definition FqCodelPolicyList_controls ::
    "QosFqCodelPolicy list \<Rightarrow> bool \<Rightarrow> text_input \<Rightarrow> text_input widget list" where
  "FqCodelPolicyList_controls policies showAdd newName =
     (let existingNames = map (\<lambda>p. qfcp_name p) policies
      in (if showAdd
          then [Input ''Name'' True newName (\<lambda>t. t)]
               @ (if js_trim newName \<noteq> ''''
                     \<and> \<not> (js_trim newName \<in> set existingNames)
                  then [Button ''Add policy'' True (FqCodelPolicyList_onClick newName)]
                  else [])
          else [])
         @ concat
             (map
                  (\<lambda>policy. [Button ''Delete'' True (FqCodelPolicyList_queueDelete (qfcp_name policy))])
                  policies))"

definition FqCodelPolicyList_FqCodelFields_controls ::
    "QosFqCodelPolicy \<Rightarrow> FqCodelFormValues \<Rightarrow> FqCodelFormValues widget list" where
  "FqCodelPolicyList_FqCodelFields_controls policy values =
     [Input ''target (ms)'' True (fcfv_target values) (\<lambda>t. values\<lparr>fcfv_target := t\<rparr>),
      Input ''interval (ms)'' True (fcfv_interval values) (\<lambda>t. values\<lparr>fcfv_interval := t\<rparr>),
      Input ''flows'' True (fcfv_flows values) (\<lambda>t. values\<lparr>fcfv_flows := t\<rparr>),
      Input ''codel quantum'' True (fcfv_codelQuantum values)
        (\<lambda>t. values\<lparr>fcfv_codelQuantum := t\<rparr>),
      Input ''queue limit (2-10999)'' True (fcfv_queueLimit values)
        (\<lambda>t. values\<lparr>fcfv_queueLimit := t\<rparr>),
      Input ''description'' True (fcfv_description values) (\<lambda>t. values\<lparr>fcfv_description := t\<rparr>),
      Button ''Save'' True (FqCodelPolicyList_FqCodelFields_submit policy values)]"

text \<open>\<open>components/qos/LimiterPolicyList.tsx\<close>\<close>

definition LimiterPolicyList_controls ::
    "QosLimiterPolicy list \<Rightarrow> bool \<Rightarrow> text_input \<Rightarrow> text_input \<Rightarrow> text_input \<Rightarrow> text_input \<Rightarrow> (text_input \<times> text_input \<times> text_input \<times> text_input) widget list" where
  "LimiterPolicyList_controls policies showAdd newName firstClassId firstClassBandwidth defaultBandwidth =
     (let existingNames = map (\<lambda>p. qlp_name p) policies
      in (if showAdd
          then [Input ''Name'' True newName (\<lambda>t. (t, firstClassId, firstClassBandwidth,
                        defaultBandwidth))]
               @ (if js_trim newName \<noteq> ''''
                     \<and> \<not> (js_trim newName \<in> set existingNames)
                  then [Input ''class ID (1-4090)'' True firstClassId
                          (\<lambda>t. (newName, number_input t, firstClassBandwidth,
                                  defaultBandwidth)),
                        Input ''bandwidth'' True firstClassBandwidth
                          (\<lambda>t. (newName, firstClassId, t, defaultBandwidth)),
                        Input ''bandwidth'' True defaultBandwidth
                          (\<lambda>t. (newName, firstClassId, firstClassBandwidth, t)),
                        Button ''Add policy'' True (LimiterPolicyList_addPolicy newName firstClassId
                             firstClassBandwidth defaultBandwidth)]
                  else [])
          else [])
         @ concat
             (map
                  (\<lambda>policy. [Button ''Delete'' True (LimiterPolicyList_queueDelete (qlp_name policy))])
                  policies))"

definition LimiterPolicyList_LimiterClassList_controls ::
    "QosLimiterPolicy \<Rightarrow> bool \<Rightarrow> text_input \<Rightarrow> text_input widget list" where
  "LimiterPolicyList_LimiterClassList_controls policy showAdd newId =
     (let existingIds = map (\<lambda>c. qlc_id c) (qlp_classes policy)
      in (if showAdd
          then [Input ''class ID (1-4090)'' True newId (\<lambda>t. number_input t),
                Button ''Add''
                  (\<not> (\<not> (js_trim newId \<noteq> '''')
                        \<or> js_trim newId \<in> set existingIds))
                  (LimiterPolicyList_LimiterClassList_onClick policy newId)]
          else [])
         @ concat
             (map
                  (\<lambda>cls. [Button ''Remove'' True (LimiterPolicyList_LimiterClassList_queueDelete
                             policy (qlc_id cls))]) (qlp_classes policy)))"

definition LimiterPolicyList_LimiterClassFields_controls ::
    "QosLimiterPolicy \<Rightarrow> QosLimiterClass \<Rightarrow> LimiterClassFormValues \<Rightarrow> LimiterClassFormValues widget list" where
  "LimiterPolicyList_LimiterClassFields_controls policy cls values =
     [Input ''bandwidth'' True (lcfv_bandwidth values) (\<lambda>t. values\<lparr>lcfv_bandwidth := t\<rparr>),
      Input ''burst'' True (lcfv_burst values) (\<lambda>t. values\<lparr>lcfv_burst := t\<rparr>),
      Input ''MTU'' True (lcfv_mtu values) (\<lambda>t. values\<lparr>lcfv_mtu := t\<rparr>),
      Input ''priority (0-20)'' True (lcfv_priority values) (\<lambda>t. values\<lparr>lcfv_priority := t\<rparr>),
      Select '''' True [''drop'', ''continue'', ''ok'', ''reclassify'', ''pipe'']
        (lcfv_policeExceed values) (\<lambda>t. values\<lparr>lcfv_policeExceed := t\<rparr>),
      Select '''' True [''ok'', ''continue'', ''drop'', ''reclassify'', ''pipe'']
        (lcfv_policeNotExceed values) (\<lambda>t. values\<lparr>lcfv_policeNotExceed := t\<rparr>),
      Button ''Save'' True (LimiterPolicyList_LimiterClassFields_submit policy cls values)]"

definition LimiterPolicyList_LimiterDefaultClassPanel_controls ::
    "QosLimiterPolicy \<Rightarrow> LimiterDefaultClassFormValues \<Rightarrow> LimiterDefaultClassFormValues widget list" where
  "LimiterPolicyList_LimiterDefaultClassPanel_controls policy values =
     [Input ''bandwidth'' True (ldcfv_bandwidth values) (\<lambda>t. values\<lparr>ldcfv_bandwidth := t\<rparr>),
      Input ''burst'' True (ldcfv_burst values) (\<lambda>t. values\<lparr>ldcfv_burst := t\<rparr>),
      Select '''' True [''drop'', ''continue'', ''ok'', ''reclassify'', ''pipe'']
        (ldcfv_policeExceed values) (\<lambda>t. values\<lparr>ldcfv_policeExceed := t\<rparr>),
      Select '''' True [''ok'', ''continue'', ''drop'', ''reclassify'', ''pipe'']
        (ldcfv_policeNotExceed values) (\<lambda>t. values\<lparr>ldcfv_policeNotExceed := t\<rparr>),
      Button ''Save default'' True (LimiterPolicyList_LimiterDefaultClassPanel_submit policy values)]"

text \<open>\<open>components/qos/QosInterfaceBindingsList.tsx\<close>\<close>

definition QosInterfaceBindingsList_BindingRow_controls ::
    "string \<Rightarrow> string option \<Rightarrow> string option \<Rightarrow> string list \<Rightarrow> string list \<Rightarrow> unit widget list" where
  "QosInterfaceBindingsList_BindingRow_controls interfaceName ingress egress ingressPolicies egressPolicies =
     [Choice ''Ingress (limiter only)'' True ([''''] @ ingressPolicies) (or_else ingress '''')
        (\<lambda>t. QosInterfaceBindingsList_BindingRow_setDirection interfaceName ''ingress'' t),
      Choice ''Egress'' True ([''''] @ egressPolicies) (or_else egress '''')
        (\<lambda>t. QosInterfaceBindingsList_BindingRow_setDirection interfaceName ''egress'' t)]"

definition QosInterfaceBindingsList_controls :: "bool \<Rightarrow> text_input \<Rightarrow> text_input widget list" where
  "QosInterfaceBindingsList_controls showAdd newIfname =
     (if showAdd then [Input ''eth0'' True newIfname (\<lambda>t. t)] else [])"

text \<open>\<open>components/qos/QosMatchGroupsList.tsx\<close>\<close>

definition QosMatchGroupsList_controls ::
    "QosMatchGroup list \<Rightarrow> bool \<Rightarrow> text_input \<Rightarrow> text_input \<Rightarrow> text_input \<Rightarrow> text_input \<Rightarrow> (text_input \<times> text_input \<times> text_input \<times> text_input) widget list" where
  "QosMatchGroupsList_controls groups showAdd newName firstMatchId firstMatchDestAddress firstMatchDestPort =
     (let existingNames = map (\<lambda>g. qmg_name g) groups
      in (if showAdd
          then [Input ''Name'' True newName (\<lambda>t. (t, firstMatchId, firstMatchDestAddress,
                        firstMatchDestPort))]
               @ (if js_trim newName \<noteq> ''''
                     \<and> \<not> (js_trim newName \<in> set existingNames)
                  then [Input ''match name'' True firstMatchId
                          (\<lambda>t. (newName, t, firstMatchDestAddress, firstMatchDestPort)),
                        Input ''destination address'' True firstMatchDestAddress
                          (\<lambda>t. (newName, firstMatchId, t, firstMatchDestPort)),
                        Input ''destination port'' True firstMatchDestPort
                          (\<lambda>t. (newName, firstMatchId, firstMatchDestAddress, t)),
                        Button ''Add group'' True (QosMatchGroupsList_addGroup newName firstMatchId
                             firstMatchDestAddress firstMatchDestPort)]
                  else [])
          else [])
         @ concat
             (map
                  (\<lambda>grp. [Button ''Delete'' True (QosMatchGroupsList_queueDelete (qmg_name grp))])
                  groups))"

text \<open>\<open>components/qos/QosMatchList.tsx\<close>\<close>

definition QosMatchList_controls ::
    "string list \<Rightarrow> QosMatch list \<Rightarrow> string list \<Rightarrow> string list \<Rightarrow> string \<Rightarrow> bool \<Rightarrow> text_input \<Rightarrow> QosMatchOptions \<Rightarrow> text_input \<Rightarrow> (text_input \<times> QosMatchOptions \<times> text_input) widget list" where
  "QosMatchList_controls basePath matches matchGroups availableMatchGroups pathLabel showAdd matchId options newMatchGroup =
     concat
       (map
            (\<lambda>match. [Button ''Remove'' True (QosMatchList_queueRemove basePath
                       (qm_id match))]) matches)
     @ concat
         (map
              (\<lambda>name. [Button ''Remove'' True (QosMatchList_removeMatchGroupRef basePath
                         name)]) matchGroups)
     @ (if availableMatchGroups \<noteq> []
        then [Select '''' True
                ([''''] @ filter (\<lambda>g. \<not> (g \<in> set matchGroups)) availableMatchGroups)
                newMatchGroup (\<lambda>t. (matchId, options, t)),
              Button ''Add'' (newMatchGroup \<noteq> '''') (QosMatchList_addMatchGroupRef basePath
                   matchGroups pathLabel newMatchGroup)]
        else [])
     @ (if showAdd
        then [Input ''match name'' True matchId (\<lambda>t. (t, options, newMatchGroup)),
              Input ''source address (v4)'' True (qmo_ipSourceAddress options)
                (\<lambda>t. (matchId, options\<lparr>qmo_ipSourceAddress := t\<rparr>,
                        newMatchGroup)),
              Input ''source port'' True (qmo_ipSourcePort options)
                (\<lambda>t. (matchId, options\<lparr>qmo_ipSourcePort := t\<rparr>, newMatchGroup)),
              Input ''protocol'' True (qmo_ipProtocol options)
                (\<lambda>t. (matchId, options\<lparr>qmo_ipProtocol := t\<rparr>, newMatchGroup)),
              Input ''destination address (v4)'' True (qmo_ipDestinationAddress options)
                (\<lambda>t. (matchId, options\<lparr>qmo_ipDestinationAddress := t\<rparr>,
                        newMatchGroup)),
              Input ''destination port'' True (qmo_ipDestinationPort options)
                (\<lambda>t. (matchId, options\<lparr>qmo_ipDestinationPort := t\<rparr>,
                        newMatchGroup)),
              Input ''DSCP'' True (qmo_ipDscp options) (\<lambda>t. (matchId,
                      options\<lparr>qmo_ipDscp := t\<rparr>, newMatchGroup)),
              Input ''source address (v6)'' True (qmo_ipv6SourceAddress options)
                (\<lambda>t. (matchId, options\<lparr>qmo_ipv6SourceAddress := t\<rparr>,
                        newMatchGroup)),
              Input ''destination address (v6)'' True (qmo_ipv6DestinationAddress options)
                (\<lambda>t. (matchId, options\<lparr>qmo_ipv6DestinationAddress := t\<rparr>,
                        newMatchGroup)),
              Input ''ingress interface'' True (qmo_interfaceName options)
                (\<lambda>t. (matchId, options\<lparr>qmo_interfaceName := t\<rparr>, newMatchGroup)),
              Input ''fwmark'' True (qmo_mark options) (\<lambda>t. (matchId,
                      options\<lparr>qmo_mark := t\<rparr>, newMatchGroup)),
              Input ''VLAN tag (vif)'' True (qmo_vif options)
                (\<lambda>t. (matchId, options\<lparr>qmo_vif := t\<rparr>, newMatchGroup)),
              Button ''Add match'' (QosMatchList_valid matches matchId)
                (QosMatchList_submit basePath matches matchId options)]
        else [])"

text \<open>\<open>components/qos/RateControlPolicyList.tsx\<close>\<close>

definition RateControlPolicyList_controls ::
    "QosRateControlPolicy list \<Rightarrow> bool \<Rightarrow> text_input \<Rightarrow> text_input widget list" where
  "RateControlPolicyList_controls policies showAdd newName =
     (let existingNames = map (\<lambda>p. qrcp_name p) policies
      in (if showAdd
          then [Input ''Name'' True newName (\<lambda>t. t)]
               @ (if js_trim newName \<noteq> ''''
                     \<and> \<not> (js_trim newName \<in> set existingNames)
                  then [Button ''Add policy'' True (RateControlPolicyList_onClick newName)]
                  else [])
          else [])
         @ concat
             (map
                  (\<lambda>policy. [Button ''Delete'' True (RateControlPolicyList_queueDelete (qrcp_name
                                policy))]) policies))"

definition RateControlPolicyList_RateControlFields_controls ::
    "QosRateControlPolicy \<Rightarrow> RateControlFormValues \<Rightarrow> RateControlFormValues widget list" where
  "RateControlPolicyList_RateControlFields_controls policy values =
     [Input ''bandwidth'' True (rcfv_bandwidth values) (\<lambda>t. values\<lparr>rcfv_bandwidth := t\<rparr>),
      Input ''burst'' True (rcfv_burst values) (\<lambda>t. values\<lparr>rcfv_burst := t\<rparr>),
      Input ''latency (ms, default 50)'' True (rcfv_latency values)
        (\<lambda>t. values\<lparr>rcfv_latency := t\<rparr>),
      Input ''description'' True (rcfv_description values) (\<lambda>t. values\<lparr>rcfv_description := t\<rparr>),
      Button ''Save'' True (RateControlPolicyList_RateControlFields_submit policy values)]"

text \<open>\<open>components/qos/ShaperHfscPolicyList.tsx\<close>\<close>

definition ShaperHfscPolicyList_CurveFields_controls :: "HfscCurveFormValues \<Rightarrow> HfscCurveFormValues widget list" where
  "ShaperHfscPolicyList_CurveFields_controls values =
     [Input ''m1'' True (qohcfv_m1 values) (\<lambda>t. values\<lparr>qohcfv_m1 := t\<rparr>),
      Input ''d (ms)'' True (qohcfv_d values) (\<lambda>t. values\<lparr>qohcfv_d := t\<rparr>),
      Input ''m2'' True (qohcfv_m2 values) (\<lambda>t. values\<lparr>qohcfv_m2 := t\<rparr>)]"

definition ShaperHfscPolicyList_controls ::
    "QosShaperHfscPolicy list \<Rightarrow> bool \<Rightarrow> text_input \<Rightarrow> text_input \<Rightarrow> text_input \<Rightarrow> text_input \<Rightarrow> (text_input \<times> text_input \<times> text_input \<times> text_input) widget list" where
  "ShaperHfscPolicyList_controls policies showAdd newName firstClassId firstClassLinkshareM2 defaultLinkshareM2 =
     (let existingNames = map (\<lambda>p. qshp_name p) policies
      in (if showAdd
          then [Input ''Name'' True newName (\<lambda>t. (t, firstClassId, firstClassLinkshareM2,
                        defaultLinkshareM2))]
               @ (if js_trim newName \<noteq> ''''
                     \<and> \<not> (js_trim newName \<in> set existingNames)
                  then [Input ''class ID (1-4095)'' True firstClassId
                          (\<lambda>t. (newName, number_input t, firstClassLinkshareM2,
                                  defaultLinkshareM2)),
                        Input ''linkshare rate (m2)'' True firstClassLinkshareM2
                          (\<lambda>t. (newName, firstClassId, t, defaultLinkshareM2)),
                        Input ''linkshare rate (m2)'' True defaultLinkshareM2
                          (\<lambda>t. (newName, firstClassId, firstClassLinkshareM2, t)),
                        Button ''Add policy'' True (ShaperHfscPolicyList_addPolicy newName
                             firstClassId firstClassLinkshareM2 defaultLinkshareM2)]
                  else [])
          else [])
         @ concat
             (map
                  (\<lambda>policy. [Button ''Delete'' True (ShaperHfscPolicyList_queueDelete (qshp_name
                                policy))]) policies))"

definition ShaperHfscPolicyList_HfscPolicyFields_controls ::
    "QosShaperHfscPolicy \<Rightarrow> ShaperHfscPolicyFormValues \<Rightarrow> ShaperHfscPolicyFormValues widget list" where
  "ShaperHfscPolicyList_HfscPolicyFields_controls policy values =
     [Input ''Description'' True (shpfv_description values) (\<lambda>t. \<lparr>shpfv_description = t,
             shpfv_bandwidth = shpfv_bandwidth values\<rparr>),
      Input ''Bandwidth'' True (shpfv_bandwidth values) (\<lambda>t. \<lparr>shpfv_description = shpfv_description values,
             shpfv_bandwidth = t\<rparr>),
      Button ''Save policy'' True (ShaperHfscPolicyList_HfscPolicyFields_submit policy values)]"

definition ShaperHfscPolicyList_HfscClassList_controls ::
    "QosShaperHfscPolicy \<Rightarrow> bool \<Rightarrow> text_input \<Rightarrow> text_input widget list" where
  "ShaperHfscPolicyList_HfscClassList_controls policy showAdd newId =
     (let existingIds = map (\<lambda>c. qoqhc_id c) (qshp_classes policy)
      in (if showAdd
          then [Input ''class ID (1-4095)'' True newId (\<lambda>t. number_input t),
                Button ''Add''
                  (\<not> (\<not> (js_trim newId \<noteq> '''')
                        \<or> js_trim newId \<in> set existingIds))
                  (ShaperHfscPolicyList_HfscClassList_onClick policy newId)]
          else [])
         @ concat
             (map
                  (\<lambda>cls. [Button ''Remove'' True (ShaperHfscPolicyList_HfscClassList_queueDelete
                             policy (qoqhc_id cls))]) (qshp_classes policy)))"

definition ShaperHfscPolicyList_HfscClassFields_controls ::
    "QosShaperHfscPolicy \<Rightarrow> QosHfscClass \<Rightarrow> HfscClassFormValues \<Rightarrow> HfscClassFormValues widget list" where
  "ShaperHfscPolicyList_HfscClassFields_controls policy cls values =
     [Input ''description'' True (hcfva_description values) (\<lambda>t. values\<lparr>hcfva_description := t\<rparr>)]
     @ map (map_widget (\<lambda>m. values\<lparr>hcfva_linkshare := m\<rparr>))
         (ShaperHfscPolicyList_CurveFields_controls (hcfva_linkshare values))
     @ map (map_widget (\<lambda>m. values\<lparr>hcfva_realtime := m\<rparr>))
         (ShaperHfscPolicyList_CurveFields_controls (hcfva_realtime values))
     @ map (map_widget (\<lambda>m. values\<lparr>hcfva_upperlimit := m\<rparr>))
         (ShaperHfscPolicyList_CurveFields_controls (hcfva_upperlimit values))
     @ [Button ''Save'' True (ShaperHfscPolicyList_HfscClassFields_submit policy cls values)]"

definition ShaperHfscPolicyList_HfscDefaultClassPanel_controls ::
    "QosShaperHfscPolicy \<Rightarrow> HfscDefaultClassFormValues \<Rightarrow> HfscDefaultClassFormValues widget list" where
  "ShaperHfscPolicyList_HfscDefaultClassPanel_controls policy values =
     map (map_widget (\<lambda>m. values\<lparr>hdcfv_linkshare := m\<rparr>))
       (ShaperHfscPolicyList_CurveFields_controls (hdcfv_linkshare values))
     @ map (map_widget (\<lambda>m. values\<lparr>hdcfv_realtime := m\<rparr>))
         (ShaperHfscPolicyList_CurveFields_controls (hdcfv_realtime values))
     @ map (map_widget (\<lambda>m. values\<lparr>hdcfv_upperlimit := m\<rparr>))
         (ShaperHfscPolicyList_CurveFields_controls (hdcfv_upperlimit values))
     @ [Button ''Save default'' True (ShaperHfscPolicyList_HfscDefaultClassPanel_submit policy
             values)]"

text \<open>\<open>components/qos/ShaperPolicyList.tsx\<close>\<close>

definition ShaperPolicyList_controls ::
    "QosShaperPolicy list \<Rightarrow> bool \<Rightarrow> text_input \<Rightarrow> text_input \<Rightarrow> text_input \<Rightarrow> text_input \<Rightarrow> text_input \<Rightarrow> text_input \<Rightarrow> (text_input \<times> text_input \<times> text_input \<times> text_input \<times> text_input \<times> text_input) widget list" where
  "ShaperPolicyList_controls policies showAdd newName firstClassId firstClassBandwidth firstClassCeiling defaultBandwidth defaultCeiling =
     (let existingNames = map (\<lambda>p. qsp_name p) policies
      in (if showAdd
          then [Input ''Name'' True newName (\<lambda>t. (t, firstClassId, firstClassBandwidth,
                        firstClassCeiling, defaultBandwidth, defaultCeiling))]
               @ (if js_trim newName \<noteq> ''''
                     \<and> \<not> (js_trim newName \<in> set existingNames)
                  then [Input ''class ID (2-4095)'' True firstClassId
                          (\<lambda>t. (newName, number_input t, firstClassBandwidth,
                                  firstClassCeiling, defaultBandwidth, defaultCeiling)),
                        Input ''bandwidth'' True firstClassBandwidth
                          (\<lambda>t. (newName, firstClassId, t, firstClassCeiling,
                                  defaultBandwidth, defaultCeiling)),
                        Input ''ceiling'' True firstClassCeiling
                          (\<lambda>t. (newName, firstClassId, firstClassBandwidth, t,
                                  defaultBandwidth, defaultCeiling)),
                        Input ''bandwidth'' True defaultBandwidth
                          (\<lambda>t. (newName, firstClassId, firstClassBandwidth,
                                  firstClassCeiling, t, defaultCeiling)),
                        Input ''ceiling'' True defaultCeiling
                          (\<lambda>t. (newName, firstClassId, firstClassBandwidth,
                                  firstClassCeiling, defaultBandwidth, t)),
                        Button ''Add policy'' True (ShaperPolicyList_addPolicy newName firstClassId
                             firstClassBandwidth firstClassCeiling defaultBandwidth defaultCeiling)]
                  else [])
          else [])
         @ concat
             (map
                  (\<lambda>policy. [Button ''Delete'' True (ShaperPolicyList_queueDelete (qsp_name policy))])
                  policies))"

definition ShaperPolicyList_ShaperPolicyFields_controls ::
    "QosShaperPolicy \<Rightarrow> ShaperPolicyFormValues \<Rightarrow> ShaperPolicyFormValues widget list" where
  "ShaperPolicyList_ShaperPolicyFields_controls policy values =
     [Input ''Description'' True (spfv_description values) (\<lambda>t. \<lparr>spfv_description = t,
             spfv_bandwidth = spfv_bandwidth values\<rparr>),
      Input ''Bandwidth'' True (spfv_bandwidth values) (\<lambda>t. \<lparr>spfv_description = spfv_description values,
             spfv_bandwidth = t\<rparr>),
      Button ''Save policy'' True (ShaperPolicyList_ShaperPolicyFields_submit policy values)]"

definition ShaperPolicyList_ShaperClassList_controls ::
    "QosShaperPolicy \<Rightarrow> bool \<Rightarrow> text_input \<Rightarrow> text_input widget list" where
  "ShaperPolicyList_ShaperClassList_controls policy showAdd newId =
     (let existingIds = map (\<lambda>c. qsc_id c) (qsp_classes policy)
      in (if showAdd
          then [Input ''class ID (2-4095)'' True newId (\<lambda>t. number_input t),
                Button ''Add''
                  (\<not> (\<not> (js_trim newId \<noteq> '''')
                        \<or> js_trim newId \<in> set existingIds))
                  (ShaperPolicyList_ShaperClassList_onClick policy newId)]
          else [])
         @ concat (map
                (\<lambda>cls. [Button ''Remove'' True (ShaperPolicyList_ShaperClassList_queueDelete
                           policy (qsc_id cls))]) (qsp_classes policy)))"

definition ShaperPolicyList_ShaperClassFields_controls ::
    "QosShaperPolicy \<Rightarrow> QosShaperClass \<Rightarrow> ShaperClassFormValues \<Rightarrow> ShaperClassFormValues widget list" where
  "ShaperPolicyList_ShaperClassFields_controls policy cls values =
     [Input ''bandwidth'' True (scfv_bandwidth values) (\<lambda>t. values\<lparr>scfv_bandwidth := t\<rparr>),
      Input ''ceiling'' True (scfv_ceiling values) (\<lambda>t. values\<lparr>scfv_ceiling := t\<rparr>),
      Input ''burst'' True (scfv_burst values) (\<lambda>t. values\<lparr>scfv_burst := t\<rparr>),
      Input ''priority (0-20)'' True (scfv_priority values) (\<lambda>t. values\<lparr>scfv_priority := t\<rparr>),
      Select '''' True
        [''fq-codel'', ''drop-tail'', ''fair-queue'', ''priority'', ''random-detect'']
        (scfv_queueType values) (\<lambda>t. values\<lparr>scfv_queueType := t\<rparr>),
      Input ''queue limit'' True (scfv_queueLimit values) (\<lambda>t. values\<lparr>scfv_queueLimit := t\<rparr>),
      Input ''set DSCP'' True (scfv_setDscp values) (\<lambda>t. values\<lparr>scfv_setDscp := t\<rparr>),
      Input ''description'' True (scfv_description values) (\<lambda>t. values\<lparr>scfv_description := t\<rparr>),
      Button ''Save'' True (ShaperPolicyList_ShaperClassFields_submit policy cls values)]"

definition ShaperPolicyList_ShaperDefaultClassPanel_controls ::
    "QosShaperPolicy \<Rightarrow> ShaperDefaultClassFormValues \<Rightarrow> ShaperDefaultClassFormValues widget list" where
  "ShaperPolicyList_ShaperDefaultClassPanel_controls policy values =
     [Input ''bandwidth'' True (sdcfv_bandwidth values) (\<lambda>t. values\<lparr>sdcfv_bandwidth := t\<rparr>),
      Input ''ceiling'' True (sdcfv_ceiling values) (\<lambda>t. values\<lparr>sdcfv_ceiling := t\<rparr>),
      Select '''' True
        [''fq-codel'', ''drop-tail'', ''fair-queue'', ''priority'', ''random-detect'']
        (sdcfv_queueType values) (\<lambda>t. values\<lparr>sdcfv_queueType := t\<rparr>),
      Input ''set DSCP'' True (sdcfv_setDscp values) (\<lambda>t. values\<lparr>sdcfv_setDscp := t\<rparr>),
      Button ''Save default'' True (ShaperPolicyList_ShaperDefaultClassPanel_submit policy values)]"

text \<open>\<open>components/loadbalancing/HaproxyBackendList.tsx\<close>\<close>

definition HaproxyBackendList_controls ::
    "HAProxyBackend list \<Rightarrow> string option \<Rightarrow> unit widget list" where
  "HaproxyBackendList_controls backends editing =
     concat (map
          (\<lambda>backend. (if editing = Some (hapb_name backend) then []
                else [Button ''Delete'' True (HaproxyBackendList_queueDelete (hapb_name backend))]))
          backends)"

definition HaproxyBackendList_HaproxyBackendFormPanel_controls ::
    "HAProxyBackend option \<Rightarrow> string list \<Rightarrow> text_input \<Rightarrow> HAProxyBackendFormValues \<Rightarrow> text_input \<Rightarrow> text_input \<Rightarrow> text_input \<Rightarrow> text_input \<Rightarrow> text_input \<Rightarrow> (text_input \<times> HAProxyBackendFormValues \<times> text_input \<times> text_input \<times> text_input \<times> text_input \<times> text_input) widget list" where
  "HaproxyBackendList_HaproxyBackendFormPanel_controls backend existingNames newName values initialServerName initialServerAddress initialServerPort firstRuleDomainNames firstRuleSetServer =
     (let name = (case backend of
               Some backend' \<Rightarrow> hapb_name backend'
             | None \<Rightarrow> js_trim newName)
      in (if backend = None
          then [Input ''Name'' True newName (\<lambda>t. (t, values, initialServerName,
                        initialServerAddress, initialServerPort, firstRuleDomainNames,
                        firstRuleSetServer))]
          else [])
         @ [Input ''Description'' True (hapbfv_description values)
              (\<lambda>t. (newName, values\<lparr>hapbfv_description := t\<rparr>,
                      initialServerName, initialServerAddress, initialServerPort,
                      firstRuleDomainNames, firstRuleSetServer)),
            Select ''Mode'' True HAPROXY_MODES (hapbfv_mode values)
              (\<lambda>t. (newName, values\<lparr>hapbfv_mode := t\<rparr>, initialServerName,
                      initialServerAddress, initialServerPort, firstRuleDomainNames,
                      firstRuleSetServer)),
            Select ''Balance algorithm'' True HAPROXY_BALANCE_ALGORITHMS (hapbfv_balance values)
              (\<lambda>t. (newName, values\<lparr>hapbfv_balance := t\<rparr>, initialServerName,
                      initialServerAddress, initialServerPort, firstRuleDomainNames,
                      firstRuleSetServer)),
            Select '''' True ([''''] @ HAPROXY_HTTP_CHECK_METHODS) (hapbfv_httpCheckMethod values)
              (\<lambda>t. (newName, values\<lparr>hapbfv_httpCheckMethod := t\<rparr>,
                      initialServerName, initialServerAddress, initialServerPort,
                      firstRuleDomainNames, firstRuleSetServer)),
            Input ''/health'' True (hapbfv_httpCheckUri values)
              (\<lambda>t. (newName, values\<lparr>hapbfv_httpCheckUri := t\<rparr>,
                      initialServerName, initialServerAddress, initialServerPort,
                      firstRuleDomainNames, firstRuleSetServer)),
            Input ''expect status (e.g. 200)'' True (hapbfv_httpCheckExpectStatus values)
              (\<lambda>t. (newName, values\<lparr>hapbfv_httpCheckExpectStatus := t\<rparr>,
                      initialServerName, initialServerAddress, initialServerPort,
                      firstRuleDomainNames, firstRuleSetServer)),
            Input ''or expect string'' True (hapbfv_httpCheckExpectString values)
              (\<lambda>t. (newName, values\<lparr>hapbfv_httpCheckExpectString := t\<rparr>,
                      initialServerName, initialServerAddress, initialServerPort,
                      firstRuleDomainNames, firstRuleSetServer)),
            Select ''Non-HTTP health check (TCP mode only, mutually exclusive with the above)'' True
              ([''''] @ HAPROXY_HEALTH_CHECK_TYPES) (hapbfv_healthCheck values)
              (\<lambda>t. (newName, values\<lparr>hapbfv_healthCheck := t\<rparr>,
                      initialServerName, initialServerAddress, initialServerPort,
                      firstRuleDomainNames, firstRuleSetServer)),
            Check ''HTTP/1.x connection close (server side)'' True (hapbfv_httpServerClose values)
              (\<lambda>b. (newName, values\<lparr>hapbfv_httpServerClose := b\<rparr>,
                      initialServerName, initialServerAddress, initialServerPort,
                      firstRuleDomainNames, firstRuleSetServer)),
            Check (''Don'' @ [CHR 0x27] @ ''t verify backend SSL certificates'') True
              (hapbfv_sslNoVerify values) (\<lambda>b. (newName,
                    values\<lparr>hapbfv_sslNoVerify := b\<rparr>, initialServerName,
                    initialServerAddress, initialServerPort, firstRuleDomainNames,
                    firstRuleSetServer)),
            Input ''SSL CA certificate (optional, PKI name)'' True (hapbfv_sslCaCertificate values)
              (\<lambda>t. (newName, values\<lparr>hapbfv_sslCaCertificate := t\<rparr>,
                      initialServerName, initialServerAddress, initialServerPort,
                      firstRuleDomainNames, firstRuleSetServer)),
            Select ''Log facility (optional)'' True ([''''] @ HAPROXY_LOG_FACILITIES)
              (lfv_loggingFacility values) (\<lambda>t. (newName,
                    values\<lparr>lfv_loggingFacility := t\<rparr>, initialServerName,
                    initialServerAddress, initialServerPort, firstRuleDomainNames,
                    firstRuleSetServer)),
            Select ''Log level'' True HAPROXY_LOG_LEVELS (lfv_loggingLevel values)
              (\<lambda>t. (newName, values\<lparr>lfv_loggingLevel := t\<rparr>, initialServerName,
                      initialServerAddress, initialServerPort, firstRuleDomainNames,
                      firstRuleSetServer)),
            Input ''check'' True (hapbfv_timeoutCheck values)
              (\<lambda>t. (newName, values\<lparr>hapbfv_timeoutCheck := t\<rparr>,
                      initialServerName, initialServerAddress, initialServerPort,
                      firstRuleDomainNames, firstRuleSetServer)),
            Input ''connect'' True (hapbfv_timeoutConnect values)
              (\<lambda>t. (newName, values\<lparr>hapbfv_timeoutConnect := t\<rparr>,
                      initialServerName, initialServerAddress, initialServerPort,
                      firstRuleDomainNames, firstRuleSetServer)),
            Input ''server'' True (hapbfv_timeoutServer values)
              (\<lambda>t. (newName, values\<lparr>hapbfv_timeoutServer := t\<rparr>,
                      initialServerName, initialServerAddress, initialServerPort,
                      firstRuleDomainNames, firstRuleSetServer)),
            Input ''tunnel'' True (hapbfv_timeoutTunnel values)
              (\<lambda>t. (newName, values\<lparr>hapbfv_timeoutTunnel := t\<rparr>,
                      initialServerName, initialServerAddress, initialServerPort,
                      firstRuleDomainNames, firstRuleSetServer))]
         @ (if \<not> (backend \<noteq> None)
            then [Input ''server name (e.g. app1)'' True initialServerName
                    (\<lambda>t. (newName, values, t, initialServerAddress, initialServerPort,
                            firstRuleDomainNames, firstRuleSetServer)),
                  Input ''10.0.0.5'' True initialServerAddress
                    (\<lambda>t. (newName, values, initialServerName, t, initialServerPort,
                            firstRuleDomainNames, firstRuleSetServer)),
                  Input ''8080'' True initialServerPort (\<lambda>t. (newName, values,
                          initialServerName, initialServerAddress, t, firstRuleDomainNames,
                          firstRuleSetServer))]
            else [])
         @ (if \<not> (backend \<noteq> None)
            then [Input ''example.com'' True firstRuleDomainNames
                    (\<lambda>t. (newName, values, initialServerName, initialServerAddress,
                            initialServerPort, t, firstRuleSetServer)),
                  Input ''route to server name'' True firstRuleSetServer
                    (\<lambda>t. (newName, values, initialServerName, initialServerAddress,
                            initialServerPort, firstRuleDomainNames, t))]
            else [])
         @ [Button
              (case backend of
                   Some backend' \<Rightarrow> ''Save''
                 | None \<Rightarrow> ''Add backend'')
              (HaproxyBackendList_HaproxyBackendFormPanel_nameValid backend existingNames newName)
              (HaproxyBackendList_HaproxyBackendFormPanel_submit backend existingNames newName
                   values initialServerName initialServerAddress initialServerPort
                   firstRuleDomainNames firstRuleSetServer)])"

definition HaproxyBackendList_HaproxyServersSection_controls ::
    "HAProxyBackend \<Rightarrow> bool \<Rightarrow> text_input \<Rightarrow> text_input \<Rightarrow> text_input \<Rightarrow> bool \<Rightarrow> (text_input \<times> text_input \<times> text_input \<times> bool) widget list" where
  "HaproxyBackendList_HaproxyServersSection_controls backend showAdd name address port backup =
     concat
       (map
            (\<lambda>server. [Button ''Remove'' True (HaproxyBackendList_HaproxyServersSection_queueRemove
                       backend (lbhaps_name server))]) (hapb_servers backend))
     @ (if showAdd
        then [Input ''app1'' True name (\<lambda>t. (t, address, port, backup)),
              Input ''10.0.0.5'' True address (\<lambda>t. (name, t, port, backup)),
              Input ''8080'' True port (\<lambda>t. (name, address, t, backup)),
              Check ''Backup server'' True backup (\<lambda>b. (name, address, port, b)),
              Button ''Add'' (HaproxyBackendList_HaproxyServersSection_valid backend name)
                (HaproxyBackendList_HaproxyServersSection_submit backend name address port backup)]
        else [])"

definition HaproxyBackendList_HaproxyBackendRulesSection_controls ::
    "HAProxyBackend \<Rightarrow> bool \<Rightarrow> text_input \<Rightarrow> text_input \<Rightarrow> (text_input \<times> text_input) widget list" where
  "HaproxyBackendList_HaproxyBackendRulesSection_controls backend showAdd domainNames setServer =
     concat
       (map
            (\<lambda>rule. [Button ''Remove'' True (HaproxyBackendList_HaproxyBackendRulesSection_queueRemove
                       backend (hapr_id rule))]) (hapb_rules backend))
     @ (if showAdd
        then [Input ''example.com'' True domainNames (\<lambda>t. (t, setServer)),
              Input ''route to server name'' True setServer (\<lambda>t. (domainNames, t)),
              Button ''Add rule'' True (HaproxyBackendList_HaproxyBackendRulesSection_submit backend
                   domainNames setServer)]
        else [])"

text \<open>\<open>components/loadbalancing/HaproxyGlobalSettings.tsx\<close>\<close>

definition HaproxyGlobalSettings_controls ::
    "HAProxyGlobalParameters \<Rightarrow> HAProxyGlobalTimeout \<Rightarrow> string option \<Rightarrow> HAProxyGlobalParametersFormValues \<Rightarrow> HAProxyGlobalTimeoutFormValues \<Rightarrow> text_input \<Rightarrow> (HAProxyGlobalParametersFormValues \<times> HAProxyGlobalTimeoutFormValues \<times> text_input) widget list" where
  "HaproxyGlobalSettings_controls globalParameters globalTimeout vrf params timeout vrfValue =
     [Input ''Max connections (optional)'' True (hapgpfv_maxConnections params)
        (\<lambda>t. (params\<lparr>hapgpfv_maxConnections := t\<rparr>, timeout, vrfValue)),
      Select ''Minimum TLS version'' True HAPROXY_TLS_VERSIONS (hapgpfv_tlsVersionMin params)
        (\<lambda>t. (params\<lparr>hapgpfv_tlsVersionMin := t\<rparr>, timeout, vrfValue)),
      Input ''VRF (optional)'' True vrfValue (\<lambda>t. (params, timeout, t)),
      Select ''Log facility (optional)'' True ([''''] @ HAPROXY_LOG_FACILITIES)
        (lfv_loggingFacility params) (\<lambda>t. (params\<lparr>lfv_loggingFacility := t\<rparr>,
              timeout, vrfValue)),
      Select ''Log level'' True HAPROXY_LOG_LEVELS (lfv_loggingLevel params)
        (\<lambda>t. (params\<lparr>lfv_loggingLevel := t\<rparr>, timeout, vrfValue)),
      Chips ''... global-parameters ssl-bind-ciphers'' (hapgp_sslBindCiphers globalParameters)
        (haproxyPath [''global-parameters''] @ [''ssl-bind-ciphers'']),
      Input ''Check'' True (hapgtfv_check timeout) (\<lambda>t. (params,
              timeout\<lparr>hapgtfv_check := t\<rparr>, vrfValue)),
      Input ''Connect'' True (hapgtfv_connect timeout) (\<lambda>t. (params,
              timeout\<lparr>hapgtfv_connect := t\<rparr>, vrfValue)),
      Input ''Client'' True (hapgtfv_client timeout) (\<lambda>t. (params,
              timeout\<lparr>hapgtfv_client := t\<rparr>, vrfValue)),
      Input ''Server'' True (hapgtfv_server timeout) (\<lambda>t. (params,
              timeout\<lparr>hapgtfv_server := t\<rparr>, vrfValue)),
      Input ''Tunnel'' True (hapgtfv_tunnel timeout) (\<lambda>t. (params,
              timeout\<lparr>hapgtfv_tunnel := t\<rparr>, vrfValue)),
      Button ''Save global settings'' True (HaproxyGlobalSettings_submit globalParameters
           globalTimeout vrf params timeout vrfValue)]"

text \<open>\<open>components/loadbalancing/HaproxyServiceList.tsx\<close>\<close>

definition HaproxyServiceList_controls ::
    "HAProxyService list \<Rightarrow> string option \<Rightarrow> unit widget list" where
  "HaproxyServiceList_controls services editing =
     concat (map
          (\<lambda>service. (if editing = Some (haps_name service) then []
                else [Button ''Delete'' True (HaproxyServiceList_queueDelete (haps_name service)),
                      Chips (''... service '' @ haps_name service @ '' ssl certificate'')
                        (haps_sslCertificates service) ((haproxyServicePath (haps_name service) []
                          @ [''ssl'']) @ [''certificate'']),
                      Chips (''... service '' @ haps_name service @ '' http-compression mime-type'')
                        (haps_httpCompressionMimeTypes service)
                        ((haproxyServicePath (haps_name service) [] @ [''http-compression''])
                           @ [''mime-type''])])) services)"

definition HaproxyServiceList_HaproxyServiceFormPanel_controls ::
    "HAProxyService option \<Rightarrow> HAProxyBackend list \<Rightarrow> string list \<Rightarrow> text_input \<Rightarrow> HAProxyServiceFormValues \<Rightarrow> string list \<Rightarrow> text_input \<Rightarrow> text_input \<Rightarrow> text_input \<Rightarrow> (text_input \<times> HAProxyServiceFormValues \<times> (string list) \<times> text_input \<times> text_input \<times> text_input) widget list" where
  "HaproxyServiceList_HaproxyServiceFormPanel_controls service backends existingNames newName values selectedBackends firstListenAddress firstRuleDomainNames firstRuleSetBackend =
     (if service = None
      then [Input ''Name'' True newName (\<lambda>t. (t, values, selectedBackends,
                    firstListenAddress, firstRuleDomainNames, firstRuleSetBackend))]
      else [])
     @ [Input ''Description'' True (hapsfv_description values)
          (\<lambda>t. (newName, values\<lparr>hapsfv_description := t\<rparr>, selectedBackends,
                  firstListenAddress, firstRuleDomainNames, firstRuleSetBackend)),
        Select ''Mode'' True HAPROXY_MODES (hapsfv_mode values)
          (\<lambda>t. (newName, values\<lparr>hapsfv_mode := t\<rparr>, selectedBackends,
                  firstListenAddress, firstRuleDomainNames, firstRuleSetBackend)),
        Input ''Port'' True (hapsfv_port values) (\<lambda>t. (newName,
                values\<lparr>hapsfv_port := t\<rparr>, selectedBackends, firstListenAddress,
                firstRuleDomainNames, firstRuleSetBackend)),
        Input ''Client timeout (seconds, optional)'' True (hapsfv_timeoutClient values)
          (\<lambda>t. (newName, values\<lparr>hapsfv_timeoutClient := t\<rparr>, selectedBackends,
                  firstListenAddress, firstRuleDomainNames, firstRuleSetBackend))]
     @ concat (map
            (\<lambda>b. [Check (hapb_name b) True (hapb_name b \<in> set selectedBackends)
                    (\<lambda>b'. (newName, values, if (hapb_name b)
                            \<in> set selectedBackends then filter
                                (\<lambda>b_l. b_l \<noteq> (hapb_name b)) selectedBackends else
                                selectedBackends
                          @ [(hapb_name b)], firstListenAddress, firstRuleDomainNames,
                              firstRuleSetBackend))]) backends)
     @ [Check ''Redirect HTTP to HTTPS'' True (hapsfv_redirectHttpToHttps values)
          (\<lambda>b. (newName, values\<lparr>hapsfv_redirectHttpToHttps := b\<rparr>,
                  selectedBackends, firstListenAddress, firstRuleDomainNames, firstRuleSetBackend)),
        Select ''Log facility (optional)'' True ([''''] @ HAPROXY_LOG_FACILITIES)
          (lfv_loggingFacility values) (\<lambda>t. (newName,
                values\<lparr>lfv_loggingFacility := t\<rparr>, selectedBackends,
                firstListenAddress, firstRuleDomainNames, firstRuleSetBackend)),
        Select ''Log level'' True HAPROXY_LOG_LEVELS (lfv_loggingLevel values)
          (\<lambda>t. (newName, values\<lparr>lfv_loggingLevel := t\<rparr>, selectedBackends,
                  firstListenAddress, firstRuleDomainNames, firstRuleSetBackend)),
        Input ''Compression algorithm (optional)'' True (hapsfv_httpCompressionAlgorithm values)
          (\<lambda>t. (newName, values\<lparr>hapsfv_httpCompressionAlgorithm := t\<rparr>,
                  selectedBackends, firstListenAddress, firstRuleDomainNames, firstRuleSetBackend))]
     @ (if service = None
        then [Input ''First listen address (optional)'' True firstListenAddress
                (\<lambda>t. (newName, values, selectedBackends, t, firstRuleDomainNames,
                        firstRuleSetBackend)),
              Input ''First rule: domain names (optional)'' True firstRuleDomainNames
                (\<lambda>t. (newName, values, selectedBackends, firstListenAddress, t,
                        firstRuleSetBackend)),
              Input ''First rule: route to backend'' True firstRuleSetBackend
                (\<lambda>t. (newName, values, selectedBackends, firstListenAddress,
                        firstRuleDomainNames, t))]
        else [])
     @ [Button
          (case service of Some service' \<Rightarrow> ''Save'' | None \<Rightarrow> ''Add service'')
          (HaproxyServiceList_HaproxyServiceFormPanel_nameValid service existingNames newName)
          (HaproxyServiceList_HaproxyServiceFormPanel_submit service existingNames newName values
               selectedBackends firstListenAddress firstRuleDomainNames firstRuleSetBackend)]"

definition HaproxyServiceList_HaproxyListenAddressesSection_controls ::
    "HAProxyService \<Rightarrow> bool \<Rightarrow> text_input \<Rightarrow> bool \<Rightarrow> (text_input \<times> bool) widget list" where
  "HaproxyServiceList_HaproxyListenAddressesSection_controls service showAdd address acceptProxy =
     concat
       (map
            (\<lambda>la. [Button ''Remove'' True (HaproxyServiceList_HaproxyListenAddressesSection_queueRemove
                       service (hapla_address la))]) (haps_listenAddresses service))
     @ (if showAdd
        then [Input ''0.0.0.0 or ::'' True address (\<lambda>t. (t, acceptProxy)),
              Check ''Accept PROXY protocol'' True acceptProxy (\<lambda>b. (address, b)),
              Button ''Add''
                (HaproxyServiceList_HaproxyListenAddressesSection_valid service address)
                (HaproxyServiceList_HaproxyListenAddressesSection_submit service address acceptProxy)]
        else [])"

definition HaproxyServiceList_HaproxyServiceRulesSection_controls ::
    "HAProxyService \<Rightarrow> bool \<Rightarrow> text_input \<Rightarrow> text_input \<Rightarrow> text_input \<Rightarrow> (text_input \<times> text_input \<times> text_input) widget list" where
  "HaproxyServiceList_HaproxyServiceRulesSection_controls service showAdd domainNames urlPathBegin setBackend =
     concat
       (map
            (\<lambda>rule. [Button ''Remove'' True (HaproxyServiceList_HaproxyServiceRulesSection_queueRemove
                       service (hapr_id rule))]) (haps_rules service))
     @ (if showAdd
        then [Input ''example.com, www.example.com'' True domainNames
                (\<lambda>t. (t, urlPathBegin, setBackend)),
              Input ''URL path begins with (optional)'' True urlPathBegin
                (\<lambda>t. (domainNames, t, setBackend)),
              Input ''route to backend name'' True setBackend
                (\<lambda>t. (domainNames, urlPathBegin, t)),
              Button ''Add rule'' True (HaproxyServiceList_HaproxyServiceRulesSection_submit service
                   domainNames urlPathBegin setBackend)]
        else [])"

text \<open>\<open>components/loadbalancing/WanGlobalSettings.tsx\<close>\<close>

definition WanGlobalSettings_controls :: "WANConfig \<Rightarrow> text_input \<Rightarrow> text_input widget list" where
  "WanGlobalSettings_controls wan hook =
     [Toggle ''Disable source NAT'' True (wanc_disableSourceNat wan)
        (\<lambda>b. WanGlobalSettings_toggle (toggleDisableSourceNatOp b)
               ((if b then ''set'' else ''delete'') @ '' load-balancing wan disable-source-nat'')),
      Toggle ''Load-balance locally-originated traffic'' True (wanc_enableLocalTraffic wan)
        (\<lambda>b. WanGlobalSettings_toggle (toggleEnableLocalTrafficOp b)
               ((if b then ''set'' else ''delete'') @ '' load-balancing wan enable-local-traffic'')),
      Toggle ''Flush connections on interface state change'' True (wanc_flushConnections wan)
        (\<lambda>b. WanGlobalSettings_toggle (toggleFlushConnectionsOp b)
               ((if b then ''set'' else ''delete'') @ '' load-balancing wan flush-connections'')),
      Toggle (''Prefer main routing table'' @ [CHR 0x27] @ ''s specific routes'') True
        (wanc_onlyDefaultRoute wan) (\<lambda>b. WanGlobalSettings_toggle
             (toggleOnlyDefaultRouteOp b) ((if b then ''set'' else ''delete'')
              @ '' load-balancing wan only-default-route'')),
      Toggle ''Sticky inbound connections'' True (wanc_stickyInbound wan)
        (\<lambda>b. WanGlobalSettings_toggle (toggleStickyInboundOp b)
               ((if b then ''set'' else ''delete'')
                  @ '' load-balancing wan sticky-connections inbound'')),
      Input ''Hook script (optional)'' True hook (\<lambda>t. t)]"

text \<open>\<open>components/loadbalancing/WanInterfaceHealthList.tsx\<close>\<close>

definition WanInterfaceHealthList_controls ::
    "WANInterfaceHealth list \<Rightarrow> string option \<Rightarrow> unit widget list" where
  "WanInterfaceHealthList_controls interfaceHealth editing =
     concat
       (map
            (\<lambda>health. (if editing = Some (wanih_interface health) then []
                  else [Button ''Delete'' True (WanInterfaceHealthList_queueRemove (wanih_interface health))]))
            interfaceHealth)"

definition WanInterfaceHealthList_InterfaceHealthForm_controls ::
    "WANInterfaceHealth option \<Rightarrow> string list \<Rightarrow> text_input \<Rightarrow> InterfaceHealthFormValues \<Rightarrow> text_input \<Rightarrow> text_input \<Rightarrow> (text_input \<times> InterfaceHealthFormValues \<times> text_input \<times> text_input) widget list" where
  "WanInterfaceHealthList_InterfaceHealthForm_controls health existingNames ifname values firstTestType firstTestTarget =
     [Input ''Interface'' (\<not> (health \<noteq> None)) ifname
        (\<lambda>t. (t, values, firstTestType, firstTestTarget)),
      Input ''Nexthop'' True (ihfv_nexthop values) (\<lambda>t. (ifname,
              values\<lparr>ihfv_nexthop := t\<rparr>, firstTestType, firstTestTarget)),
      Input ''Failure count'' True (ihfv_failureCount values)
        (\<lambda>t. (ifname, values\<lparr>ihfv_failureCount := t\<rparr>, firstTestType,
                firstTestTarget)),
      Input ''Success count'' True (ihfv_successCount values)
        (\<lambda>t. (ifname, values\<lparr>ihfv_successCount := t\<rparr>, firstTestType,
                firstTestTarget))]
     @ (if health = None
        then [Select '''' True WAN_HEALTH_TEST_TYPES firstTestType
                (\<lambda>t. (ifname, values, t, firstTestTarget)),
              Input ''target address'' True firstTestTarget (\<lambda>t. (ifname, values,
                      firstTestType, t))]
        else [])
     @ [Button
          (case health of Some health' \<Rightarrow> ''Save'' | None \<Rightarrow> ''Add interface'')
          (WanInterfaceHealthList_InterfaceHealthForm_valid health existingNames ifname)
          (WanInterfaceHealthList_InterfaceHealthForm_submit health existingNames ifname values
               firstTestType firstTestTarget)]"

definition WanInterfaceHealthList_WanHealthTestsSection_controls ::
    "WANInterfaceHealth \<Rightarrow> bool \<Rightarrow> text_input \<Rightarrow> text_input \<Rightarrow> text_input \<Rightarrow> text_input \<Rightarrow> text_input \<Rightarrow> (text_input \<times> text_input \<times> text_input \<times> text_input \<times> text_input) widget list" where
  "WanInterfaceHealthList_WanHealthTestsSection_controls health showAdd ty target testScript respTime ttlLimit =
     concat
       (map
            (\<lambda>test. [Button ''Remove'' True (WanInterfaceHealthList_WanHealthTestsSection_queueRemove
                       health (wanht_id test))]) (wanih_tests health))
     @ (if showAdd
        then [Select '''' True WAN_HEALTH_TEST_TYPES ty (\<lambda>t. (t, target, testScript,
                      respTime, ttlLimit)),
              Input ''target address'' True target (\<lambda>t. (ty, t, testScript, respTime,
                      ttlLimit)),
              Input ''user-defined test script'' True testScript
                (\<lambda>t. (ty, target, t, respTime, ttlLimit)),
              Input ''resp-time (default 5)'' True respTime (\<lambda>t. (ty, target, testScript, t,
                      ttlLimit)),
              Input ''ttl-limit (default 1)'' True ttlLimit (\<lambda>t. (ty, target, testScript,
                      respTime, t)),
              Button ''Add test'' True (WanInterfaceHealthList_WanHealthTestsSection_submit health
                   ty target testScript respTime ttlLimit)]
        else [])"

text \<open>\<open>components/loadbalancing/WanRuleList.tsx\<close>\<close>

definition WanRuleList_MatchFields_controls :: "WANMatch \<Rightarrow> WANMatch widget list" where
  "WanRuleList_MatchFields_controls values =
     [Input ''Address'' True (or_else (wanm_address values) '''')
        (\<lambda>t. values\<lparr>wanm_address := Some t\<rparr>),
      Input ''Port'' True (or_else (wanm_port values) '''') (\<lambda>t. values\<lparr>wanm_port := Some t\<rparr>),
      Input ''Address group'' True (or_else (wanm_addressGroup values) '''')
        (\<lambda>t. values\<lparr>wanm_addressGroup := Some t\<rparr>),
      Input ''Network group'' True (or_else (wanm_networkGroup values) '''')
        (\<lambda>t. values\<lparr>wanm_networkGroup := Some t\<rparr>),
      Input ''Port group'' True (or_else (wanm_portGroup values) '''')
        (\<lambda>t. values\<lparr>wanm_portGroup := Some t\<rparr>),
      Input ''Domain group'' True (or_else (wanm_domainGroup values) '''')
        (\<lambda>t. values\<lparr>wanm_domainGroup := Some t\<rparr>)]"

definition WanRuleList_controls :: "WANRule list \<Rightarrow> string option \<Rightarrow> unit widget list" where
  "WanRuleList_controls rules editing =
     concat (map
          (\<lambda>rule. (if editing = Some (wanr_id rule) then []
                else [Button ''Delete'' True (WanRuleList_queueDelete (wanr_id rule))])) rules)"

definition WanRuleList_WanRuleInterfacesSection_controls ::
    "WANRule \<Rightarrow> bool \<Rightarrow> text_input \<Rightarrow> text_input \<Rightarrow> (text_input \<times> text_input) widget list" where
  "WanRuleList_WanRuleInterfacesSection_controls rule showAdd name weight =
     concat (map
          (\<lambda>iface. [Button ''Remove'' True (WanRuleList_WanRuleInterfacesSection_queueRemove
                     rule (wanri_name iface))]) (wanr_interfaces rule))
     @ (if showAdd
        then [Input ''eth0'' True name (\<lambda>t. (t, weight)),
              Input ''weight (default 1)'' True weight (\<lambda>t. (name, t)),
              Button ''Add'' (WanRuleList_WanRuleInterfacesSection_valid rule name)
                (WanRuleList_WanRuleInterfacesSection_submit rule name weight)]
        else [])"

text \<open>\<open>components/highavailability/ConntrackSyncSettings.tsx\<close>\<close>

definition ConntrackSyncSettings_controls ::
    "ConntrackSyncConfig \<Rightarrow> VRRPSyncGroup list \<Rightarrow> ConntrackSyncFormValues \<Rightarrow> ConntrackSyncFormValues widget list" where
  "ConntrackSyncSettings_controls config vrrpSyncGroups values =
     [Select ''VRRP sync group'' True ([''''] @ map (\<lambda>g. vrrpsg_name g) vrrpSyncGroups)
        (csfv_vrrpSyncGroup values) (\<lambda>t. values\<lparr>csfv_vrrpSyncGroup := t\<rparr>),
      Input ''Multicast group'' True (csfv_mcastGroup values)
        (\<lambda>t. values\<lparr>csfv_mcastGroup := t\<rparr>),
      Input ''Purge timeout (seconds)'' True (csfv_purgeTimeout values)
        (\<lambda>t. values\<lparr>csfv_purgeTimeout := t\<rparr>),
      Input ''Event listen queue size (MB)'' True (csfv_eventListenQueueSize values)
        (\<lambda>t. values\<lparr>csfv_eventListenQueueSize := t\<rparr>),
      Input ''Sync queue size (MB)'' True (csfv_syncQueueSize values)
        (\<lambda>t. values\<lparr>csfv_syncQueueSize := t\<rparr>),
      Check ''Disable external cache'' True (csfv_disableExternalCache values)
        (\<lambda>b. values\<lparr>csfv_disableExternalCache := b\<rparr>),
      Check ''Disable syslog'' True (csfv_disableSyslog values)
        (\<lambda>b. values\<lparr>csfv_disableSyslog := b\<rparr>),
      Check ''Full resync at startup'' True (csfv_startupResync values)
        (\<lambda>b. values\<lparr>csfv_startupResync := b\<rparr>),
      Button ''Save settings'' True (ConntrackSyncSettings_submit config values),
      Chips ''... accept-protocol'' (csc_acceptProtocols config)
        (conntrackSyncPath [] @ [''accept-protocol'']),
      Chips ''... expect-sync'' (csc_expectSync config) (conntrackSyncPath [] @ [''expect-sync'']),
      Chips ''... ignore-address'' (csc_ignoreAddresses config)
        (conntrackSyncPath [] @ [''ignore-address'']),
      Chips ''... listen-address'' (csc_listenAddresses config)
        (conntrackSyncPath [] @ [''listen-address''])]"

definition ConntrackSyncSettings_ConntrackSyncInterfacesSection_controls ::
    "ConntrackSyncConfig \<Rightarrow> bool \<Rightarrow> text_input \<Rightarrow> text_input \<Rightarrow> text_input \<Rightarrow> (text_input \<times> text_input \<times> text_input) widget list" where
  "ConntrackSyncSettings_ConntrackSyncInterfacesSection_controls config showAdd name peer port =
     concat
       (map
            (\<lambda>iface. [Button ''Remove'' True
                    (ConntrackSyncSettings_ConntrackSyncInterfacesSection_queueRemove (csi_name iface))])
            (csc_interfaces config))
     @ (if showAdd
        then [Input ''eth1'' True name (\<lambda>t. (t, peer, port)),
              Input ''unicast peer (optional)'' True peer (\<lambda>t. (name, t, port)),
              Input ''port (optional)'' True port (\<lambda>t. (name, peer, t)),
              Button ''Add interface''
                (ConntrackSyncSettings_ConntrackSyncInterfacesSection_valid config name)
                (ConntrackSyncSettings_ConntrackSyncInterfacesSection_submit config name peer port)]
        else [])"

text \<open>\<open>components/highavailability/VrrpGroupList.tsx\<close>\<close>

definition VrrpGroupList_controls :: "VRRPGroup list \<Rightarrow> string option \<Rightarrow> unit widget list" where
  "VrrpGroupList_controls groups editing =
     concat (map
          (\<lambda>grp. (if editing = Some (vrrpg_name grp) then []
                else [Button ''Delete'' True (VrrpGroupList_queueDelete (vrrpg_name grp)),
                      Chips (''... group '' @ vrrpg_name grp @ '' peer-address'')
                        (vrrpg_peerAddresses grp) (vrrpGroupPath (vrrpg_name grp) []
                         @ [''peer-address'']),
                      Chips (''... group '' @ vrrpg_name grp @ '' track interface'')
                        (vrrpg_trackInterfaces grp) ((vrrpGroupPath (vrrpg_name grp) []
                          @ [''track'']) @ [''interface''])])) groups)"

definition VrrpGroupList_VrrpGroupFormPanel_controls ::
    "VRRPGroup option \<Rightarrow> string list \<Rightarrow> text_input \<Rightarrow> VRRPGroupFormValues \<Rightarrow> text_input \<Rightarrow> text_input \<Rightarrow> (text_input \<times> VRRPGroupFormValues \<times> text_input \<times> text_input) widget list" where
  "VrrpGroupList_VrrpGroupFormPanel_controls grp existingNames newName values firstAddress firstAddressInterface =
     (if grp = None
      then [Input ''Name'' True newName (\<lambda>t. (t, values, firstAddress, firstAddressInterface))]
      else [])
     @ [Input ''Interface'' True (havrrpgfv_interface values)
          (\<lambda>t. (newName, values\<lparr>havrrpgfv_interface := t\<rparr>, firstAddress,
                  firstAddressInterface)),
        Input ''VRID'' True (havrrpgfv_vrid values) (\<lambda>t. (newName,
                values\<lparr>havrrpgfv_vrid := t\<rparr>, firstAddress, firstAddressInterface)),
        Input ''Priority'' True (havrrpgfv_priority values) (\<lambda>t. (newName,
                values\<lparr>havrrpgfv_priority := t\<rparr>, firstAddress, firstAddressInterface)),
        Input ''Advertise interval (seconds)'' True (havrrpgfv_advertiseInterval values)
          (\<lambda>t. (newName, values\<lparr>havrrpgfv_advertiseInterval := t\<rparr>,
                  firstAddress, firstAddressInterface)),
        Input ''Description'' True (havrrpgfv_description values)
          (\<lambda>t. (newName, values\<lparr>havrrpgfv_description := t\<rparr>, firstAddress,
                  firstAddressInterface)),
        Check ''Disabled'' True (havrrpgfv_disabled values) (\<lambda>b. (newName,
                values\<lparr>havrrpgfv_disabled := b\<rparr>, firstAddress, firstAddressInterface)),
        Check ''Disable preemption'' True (havrrpgfv_noPreempt values)
          (\<lambda>b. (newName, values\<lparr>havrrpgfv_noPreempt := b\<rparr>, firstAddress,
                  firstAddressInterface)),
        Check ''RFC3768 virtual MAC'' True (havrrpgfv_rfc3768Compatibility values)
          (\<lambda>b. (newName, values\<lparr>havrrpgfv_rfc3768Compatibility := b\<rparr>,
                  firstAddress, firstAddressInterface)),
        Check (''Don'' @ [CHR 0x27] @ ''t track this group'' @ [CHR 0x27] @ ''s own interface'')
          True (havrrpgfv_excludeVrrpInterface values) (\<lambda>b. (newName,
                values\<lparr>havrrpgfv_excludeVrrpInterface := b\<rparr>, firstAddress,
                firstAddressInterface)),
        Input ''Preempt delay (seconds)'' True (havrrpgfv_preemptDelay values)
          (\<lambda>t. (newName, values\<lparr>havrrpgfv_preemptDelay := t\<rparr>, firstAddress,
                  firstAddressInterface)),
        Input ''Hello source address (optional)'' True (havrrpgfv_helloSourceAddress values)
          (\<lambda>t. (newName, values\<lparr>havrrpgfv_helloSourceAddress := t\<rparr>,
                  firstAddress, firstAddressInterface)),
        Input '''' True (havrrpgfv_authenticationPassword values)
          (\<lambda>t. (newName, values\<lparr>havrrpgfv_authenticationPassword := t\<rparr>,
                  firstAddress, firstAddressInterface)),
        Select '''' True ['''', ''plaintext-password'', ''ah'']
          (havrrpgfv_authenticationType values) (\<lambda>t. (newName,
                values\<lparr>havrrpgfv_authenticationType := t\<rparr>, firstAddress,
                firstAddressInterface)),
        Input ''ping target'' True (havrrpgfv_healthCheckPing values)
          (\<lambda>t. (newName, values\<lparr>havrrpgfv_healthCheckPing := t\<rparr>, firstAddress,
                  firstAddressInterface)),
        Input ''or script path'' True (havrrpgfv_healthCheckScript values)
          (\<lambda>t. (newName, values\<lparr>havrrpgfv_healthCheckScript := t\<rparr>,
                  firstAddress, firstAddressInterface)),
        Input ''failure count (3)'' True (havrrpgfv_healthCheckFailureCount values)
          (\<lambda>t. (newName, values\<lparr>havrrpgfv_healthCheckFailureCount := t\<rparr>,
                  firstAddress, firstAddressInterface)),
        Input ''interval sec (60)'' True (havrrpgfv_healthCheckInterval values)
          (\<lambda>t. (newName, values\<lparr>havrrpgfv_healthCheckInterval := t\<rparr>,
                  firstAddress, firstAddressInterface)),
        Input ''master'' True (havrrpgfv_transitionMaster values)
          (\<lambda>t. (newName, values\<lparr>havrrpgfv_transitionMaster := t\<rparr>,
                  firstAddress, firstAddressInterface)),
        Input ''backup'' True (havrrpgfv_transitionBackup values)
          (\<lambda>t. (newName, values\<lparr>havrrpgfv_transitionBackup := t\<rparr>,
                  firstAddress, firstAddressInterface)),
        Input ''fault'' True (havrrpgfv_transitionFault values)
          (\<lambda>t. (newName, values\<lparr>havrrpgfv_transitionFault := t\<rparr>, firstAddress,
                  firstAddressInterface)),
        Input ''stop'' True (havrrpgfv_transitionStop values)
          (\<lambda>t. (newName, values\<lparr>havrrpgfv_transitionStop := t\<rparr>, firstAddress,
                  firstAddressInterface))]
     @ (if grp = None
        then [Input ''192.0.2.254/24'' True firstAddress (\<lambda>t. (newName, values, t,
                      firstAddressInterface)),
              Input ''assign to a different interface (optional)'' True firstAddressInterface
                (\<lambda>t. (newName, values, firstAddress, t))]
        else [])
     @ [Button (case grp of Some grp' \<Rightarrow> ''Save'' | None \<Rightarrow> ''Add group'')
          (VrrpGroupList_VrrpGroupFormPanel_nameValid grp existingNames newName)
          (VrrpGroupList_VrrpGroupFormPanel_submit grp existingNames newName values firstAddress
               firstAddressInterface)]"

definition VrrpGroupList_VrrpAddressesSection_controls ::
    "VRRPGroup \<Rightarrow> string \<Rightarrow> bool \<Rightarrow> text_input \<Rightarrow> text_input \<Rightarrow> (text_input \<times> text_input) widget list" where
  "VrrpGroupList_VrrpAddressesSection_controls grp leaf showAdd address iface =
     (let items = (if leaf = ''address'' then vrrpg_addresses grp else vrrpg_excludedAddresses grp)
      in concat
           (map
                (\<lambda>item. [Button ''Remove'' True (VrrpGroupList_VrrpAddressesSection_queueRemove
                           grp leaf (vrrpa_address item))]) items)
         @ (if showAdd
            then [Input ''192.0.2.254/24'' True address (\<lambda>t. (t, iface)),
                  Input ''assign to a different interface (optional)'' True iface
                    (\<lambda>t. (address, t)),
                  Button ''Add'' (VrrpGroupList_VrrpAddressesSection_valid grp leaf address)
                    (VrrpGroupList_VrrpAddressesSection_submit grp leaf address iface)]
            else []))"

text \<open>\<open>components/highavailability/VrrpSyncGroupList.tsx\<close>\<close>

definition VrrpSyncGroupList_controls ::
    "VRRPSyncGroup list \<Rightarrow> string option \<Rightarrow> unit widget list" where
  "VrrpSyncGroupList_controls syncGroups editing =
     concat
       (map
            (\<lambda>syncGroup. (if editing = Some (vrrpsg_name syncGroup) then []
                  else [Button ''Delete'' True (VrrpSyncGroupList_queueDelete (vrrpsg_name syncGroup))]))
            syncGroups)"

definition VrrpSyncGroupList_VrrpSyncGroupFormPanel_controls ::
    "VRRPSyncGroup option \<Rightarrow> VRRPGroup list \<Rightarrow> string list \<Rightarrow> text_input \<Rightarrow> VRRPSyncGroupFormValues \<Rightarrow> string list \<Rightarrow> (text_input \<times> VRRPSyncGroupFormValues \<times> (string list)) widget list" where
  "VrrpSyncGroupList_VrrpSyncGroupFormPanel_controls syncGroup groups existingNames newName values selectedMembers =
     (if syncGroup = None
      then [Input ''Name'' True newName (\<lambda>t. (t, values, selectedMembers))]
      else [])
     @ concat (map
            (\<lambda>g. [Check (vrrpg_name g) True (vrrpg_name g \<in> set selectedMembers)
                    (\<lambda>b. (newName, values, if (vrrpg_name g)
                            \<in> set selectedMembers then filter
                                (\<lambda>m_l. m_l \<noteq> (vrrpg_name g)) selectedMembers else
                                selectedMembers @ [(vrrpg_name g)]))]) groups)
     @ [Input ''ping target'' True (vrrpsgfv_healthCheckPing values)
          (\<lambda>t. (newName, values\<lparr>vrrpsgfv_healthCheckPing := t\<rparr>,
                  selectedMembers)),
        Input ''or script path'' True (vrrpsgfv_healthCheckScript values)
          (\<lambda>t. (newName, values\<lparr>vrrpsgfv_healthCheckScript := t\<rparr>,
                  selectedMembers)),
        Input ''failure count (3)'' True (vrrpsgfv_healthCheckFailureCount values)
          (\<lambda>t. (newName, values\<lparr>vrrpsgfv_healthCheckFailureCount := t\<rparr>,
                  selectedMembers)),
        Input ''interval sec (60)'' True (vrrpsgfv_healthCheckInterval values)
          (\<lambda>t. (newName, values\<lparr>vrrpsgfv_healthCheckInterval := t\<rparr>,
                  selectedMembers)),
        Input ''master'' True (vrrpsgfv_transitionMaster values)
          (\<lambda>t. (newName, values\<lparr>vrrpsgfv_transitionMaster := t\<rparr>,
                  selectedMembers)),
        Input ''backup'' True (vrrpsgfv_transitionBackup values)
          (\<lambda>t. (newName, values\<lparr>vrrpsgfv_transitionBackup := t\<rparr>,
                  selectedMembers)),
        Input ''fault'' True (vrrpsgfv_transitionFault values)
          (\<lambda>t. (newName, values\<lparr>vrrpsgfv_transitionFault := t\<rparr>,
                  selectedMembers)),
        Input ''stop'' True (vrrpsgfv_transitionStop values)
          (\<lambda>t. (newName, values\<lparr>vrrpsgfv_transitionStop := t\<rparr>, selectedMembers)),
        Button
          (case syncGroup of
               Some syncGroup' \<Rightarrow> ''Save''
             | None \<Rightarrow> ''Add sync group'')
          (VrrpSyncGroupList_VrrpSyncGroupFormPanel_nameValid syncGroup existingNames newName)
          (VrrpSyncGroupList_VrrpSyncGroupFormPanel_submit syncGroup existingNames newName values
               selectedMembers)]"

subsection \<open>What is typed and clicked\<close>

lemmas traffic_views =
  CakePolicyList_controls_def CakePolicyList_CakeFields_controls_def
  FqCodelPolicyList_controls_def FqCodelPolicyList_FqCodelFields_controls_def
  LimiterPolicyList_controls_def LimiterPolicyList_LimiterClassList_controls_def
  LimiterPolicyList_LimiterClassFields_controls_def
  LimiterPolicyList_LimiterDefaultClassPanel_controls_def QosInterfaceBindingsList_controls_def
  QosMatchGroupsList_controls_def QosMatchList_controls_def RateControlPolicyList_controls_def
  RateControlPolicyList_RateControlFields_controls_def
  ShaperHfscPolicyList_CurveFields_controls_def ShaperHfscPolicyList_controls_def
  ShaperHfscPolicyList_HfscPolicyFields_controls_def
  ShaperHfscPolicyList_HfscClassList_controls_def
  ShaperHfscPolicyList_HfscClassFields_controls_def
  ShaperHfscPolicyList_HfscDefaultClassPanel_controls_def ShaperPolicyList_controls_def
  ShaperPolicyList_ShaperPolicyFields_controls_def ShaperPolicyList_ShaperClassList_controls_def
  ShaperPolicyList_ShaperClassFields_controls_def
  ShaperPolicyList_ShaperDefaultClassPanel_controls_def
  HaproxyBackendList_HaproxyBackendFormPanel_controls_def
  HaproxyBackendList_HaproxyServersSection_controls_def
  HaproxyBackendList_HaproxyBackendRulesSection_controls_def HaproxyGlobalSettings_controls_def
  HaproxyServiceList_HaproxyServiceFormPanel_controls_def
  HaproxyServiceList_HaproxyListenAddressesSection_controls_def
  HaproxyServiceList_HaproxyServiceRulesSection_controls_def WanGlobalSettings_controls_def
  WanInterfaceHealthList_InterfaceHealthForm_controls_def
  WanInterfaceHealthList_WanHealthTestsSection_controls_def WanRuleList_MatchFields_controls_def
  WanRuleList_WanRuleInterfacesSection_controls_def ConntrackSyncSettings_controls_def
  ConntrackSyncSettings_ConntrackSyncInterfacesSection_controls_def
  VrrpGroupList_VrrpGroupFormPanel_controls_def VrrpGroupList_VrrpAddressesSection_controls_def
  VrrpSyncGroupList_VrrpSyncGroupFormPanel_controls_def
  QosInterfaceBindingsList_BindingRow_controls_def HaproxyBackendList_controls_def
  HaproxyServiceList_controls_def WanInterfaceHealthList_controls_def WanRuleList_controls_def
  VrrpGroupList_controls_def VrrpSyncGroupList_controls_def

lemma HaproxyServiceList_HaproxyServiceFormPanel_controlled: "controlled (\<lambda>(newName, values_13, selectedBackends, firstListenAddress, firstRuleDomainNames, firstRuleSetBackend). HaproxyServiceList_HaproxyServiceFormPanel_controls service backends existingNames newName values_13 selectedBackends firstListenAddress firstRuleDomainNames firstRuleSetBackend)"
  by (simp add: controlled_def HaproxyServiceList_HaproxyServiceFormPanel_controls_def view_simps; blast)

lemma VrrpSyncGroupList_VrrpSyncGroupFormPanel_controlled: "controlled (\<lambda>(newName, values_18, selectedMembers). VrrpSyncGroupList_VrrpSyncGroupFormPanel_controls syncGroup groups_1 existingNames newName values_18 selectedMembers)"
  by (simp add: controlled_def VrrpSyncGroupList_VrrpSyncGroupFormPanel_controls_def view_simps; blast)

lemma traffic_controlled:
  "controlled (CakePolicyList_controls policies showAdd)"
  "controlled (CakePolicyList_CakeFields_controls policy)"
  "controlled (FqCodelPolicyList_controls policies_1 showAdd)"
  "controlled (FqCodelPolicyList_FqCodelFields_controls policy_1)"
  "controlled (\<lambda>(newName, firstClassId, firstClassBandwidth, defaultBandwidth). LimiterPolicyList_controls policies_2 showAdd newName firstClassId firstClassBandwidth defaultBandwidth)"
  "controlled (LimiterPolicyList_LimiterClassList_controls policy_2 showAdd)"
  "controlled (LimiterPolicyList_LimiterClassFields_controls policy_2 cls)"
  "controlled (LimiterPolicyList_LimiterDefaultClassPanel_controls policy_2)"
  "controlled (QosInterfaceBindingsList_controls showAdd)"
  "controlled (\<lambda>(newName, firstMatchId, firstMatchDestAddress, firstMatchDestPort). QosMatchGroupsList_controls groups showAdd newName firstMatchId firstMatchDestAddress firstMatchDestPort)"
  "controlled (\<lambda>(matchId, options, newMatchGroup). QosMatchList_controls basePath matches matchGroups availableMatchGroups pathLabel showAdd matchId options newMatchGroup)"
  "controlled (RateControlPolicyList_controls policies_3 showAdd)"
  "controlled (RateControlPolicyList_RateControlFields_controls policy_3)"
  "controlled ShaperHfscPolicyList_CurveFields_controls"
  "controlled (\<lambda>(newName, firstClassId, firstClassLinkshareM2, defaultLinkshareM2). ShaperHfscPolicyList_controls policies_4 showAdd newName firstClassId firstClassLinkshareM2 defaultLinkshareM2)"
  "controlled (ShaperHfscPolicyList_HfscPolicyFields_controls policy_4)"
  "controlled (ShaperHfscPolicyList_HfscClassList_controls policy_4 showAdd)"
  "controlled (ShaperHfscPolicyList_HfscClassFields_controls policy_4 cls_1)"
  "controlled (ShaperHfscPolicyList_HfscDefaultClassPanel_controls policy_4)"
  "controlled (\<lambda>(newName, firstClassId, firstClassBandwidth, firstClassCeiling, defaultBandwidth, defaultCeiling). ShaperPolicyList_controls policies_5 showAdd newName firstClassId firstClassBandwidth firstClassCeiling defaultBandwidth defaultCeiling)"
  "controlled (ShaperPolicyList_ShaperPolicyFields_controls policy_5)"
  "controlled (ShaperPolicyList_ShaperClassList_controls policy_5 showAdd)"
  "controlled (ShaperPolicyList_ShaperClassFields_controls policy_5 cls_2)"
  "controlled (ShaperPolicyList_ShaperDefaultClassPanel_controls policy_5)"
  "controlled (\<lambda>(newName, values_12, initialServerName, initialServerAddress, initialServerPort, firstRuleDomainNames, firstRuleSetServer). HaproxyBackendList_HaproxyBackendFormPanel_controls backend existingNames newName values_12 initialServerName initialServerAddress initialServerPort firstRuleDomainNames firstRuleSetServer)"
  "controlled (\<lambda>(name, address, port, backup). HaproxyBackendList_HaproxyServersSection_controls backend_1 showAdd name address port backup)"
  "controlled (\<lambda>(domainNames, setServer). HaproxyBackendList_HaproxyBackendRulesSection_controls backend_1 showAdd domainNames setServer)"
  "controlled (\<lambda>(params, timeout, vrfValue). HaproxyGlobalSettings_controls globalParameters globalTimeout vrf params timeout vrfValue)"
  "controlled (\<lambda>(address, acceptProxy). HaproxyServiceList_HaproxyListenAddressesSection_controls service_1 showAdd address acceptProxy)"
  "controlled (\<lambda>(domainNames, urlPathBegin, setBackend). HaproxyServiceList_HaproxyServiceRulesSection_controls service_1 showAdd domainNames urlPathBegin setBackend)"
  "controlled (WanGlobalSettings_controls wan)"
  "controlled (\<lambda>(ifname, values_14, firstTestType, firstTestTarget). WanInterfaceHealthList_InterfaceHealthForm_controls health existingNames ifname values_14 firstTestType firstTestTarget)"
  "controlled (\<lambda>(ty, target, testScript, respTime, ttlLimit). WanInterfaceHealthList_WanHealthTestsSection_controls health_1 showAdd ty target testScript respTime ttlLimit)"
  "controlled WanRuleList_MatchFields_controls"
  "controlled (\<lambda>(name, weight). WanRuleList_WanRuleInterfacesSection_controls rule showAdd name weight)"
  "controlled (ConntrackSyncSettings_controls config vrrpSyncGroups)"
  "controlled (\<lambda>(name, peer, port). ConntrackSyncSettings_ConntrackSyncInterfacesSection_controls config showAdd name peer port)"
  "controlled (\<lambda>(newName, values_17, firstAddress, firstAddressInterface). VrrpGroupList_VrrpGroupFormPanel_controls grp existingNames newName values_17 firstAddress firstAddressInterface)"
  "controlled (\<lambda>(address, iface). VrrpGroupList_VrrpAddressesSection_controls grp_1 leaf showAdd address iface)"
  by (simp_all add: controlled_def traffic_views view_simps)

inductive traffic_typed :: "string \<Rightarrow> shown \<Rightarrow> (string \<times> shown) list \<Rightarrow> bool" where
  "typing (CakePolicyList_controls policies showAdd) l y scr \<Longrightarrow> traffic_typed l y scr"
| "typing (CakePolicyList_CakeFields_controls policy) l y scr \<Longrightarrow> traffic_typed l y scr"
| "typing (FqCodelPolicyList_controls policies_1 showAdd) l y scr \<Longrightarrow> traffic_typed l y scr"
| "typing (FqCodelPolicyList_FqCodelFields_controls policy_1) l y scr \<Longrightarrow> traffic_typed l y scr"
| "typing (\<lambda>(newName, firstClassId, firstClassBandwidth, defaultBandwidth). LimiterPolicyList_controls policies_2 showAdd newName firstClassId firstClassBandwidth defaultBandwidth) l y scr \<Longrightarrow> traffic_typed l y scr"
| "typing (LimiterPolicyList_LimiterClassList_controls policy_2 showAdd) l y scr \<Longrightarrow> traffic_typed l y scr"
| "typing (LimiterPolicyList_LimiterClassFields_controls policy_2 cls) l y scr \<Longrightarrow> traffic_typed l y scr"
| "typing (LimiterPolicyList_LimiterDefaultClassPanel_controls policy_2) l y scr \<Longrightarrow> traffic_typed l y scr"
| "typing (QosInterfaceBindingsList_controls showAdd) l y scr \<Longrightarrow> traffic_typed l y scr"
| "typing (\<lambda>(newName, firstMatchId, firstMatchDestAddress, firstMatchDestPort). QosMatchGroupsList_controls groups showAdd newName firstMatchId firstMatchDestAddress firstMatchDestPort) l y scr \<Longrightarrow> traffic_typed l y scr"
| "typing (\<lambda>(matchId, options, newMatchGroup). QosMatchList_controls basePath matches matchGroups availableMatchGroups pathLabel showAdd matchId options newMatchGroup) l y scr \<Longrightarrow> traffic_typed l y scr"
| "typing (RateControlPolicyList_controls policies_3 showAdd) l y scr \<Longrightarrow> traffic_typed l y scr"
| "typing (RateControlPolicyList_RateControlFields_controls policy_3) l y scr \<Longrightarrow> traffic_typed l y scr"
| "typing ShaperHfscPolicyList_CurveFields_controls l y scr \<Longrightarrow> traffic_typed l y scr"
| "typing (\<lambda>(newName, firstClassId, firstClassLinkshareM2, defaultLinkshareM2). ShaperHfscPolicyList_controls policies_4 showAdd newName firstClassId firstClassLinkshareM2 defaultLinkshareM2) l y scr \<Longrightarrow> traffic_typed l y scr"
| "typing (ShaperHfscPolicyList_HfscPolicyFields_controls policy_4) l y scr \<Longrightarrow> traffic_typed l y scr"
| "typing (ShaperHfscPolicyList_HfscClassList_controls policy_4 showAdd) l y scr \<Longrightarrow> traffic_typed l y scr"
| "typing (ShaperHfscPolicyList_HfscClassFields_controls policy_4 cls_1) l y scr \<Longrightarrow> traffic_typed l y scr"
| "typing (ShaperHfscPolicyList_HfscDefaultClassPanel_controls policy_4) l y scr \<Longrightarrow> traffic_typed l y scr"
| "typing (\<lambda>(newName, firstClassId, firstClassBandwidth, firstClassCeiling, defaultBandwidth, defaultCeiling). ShaperPolicyList_controls policies_5 showAdd newName firstClassId firstClassBandwidth firstClassCeiling defaultBandwidth defaultCeiling) l y scr \<Longrightarrow> traffic_typed l y scr"
| "typing (ShaperPolicyList_ShaperPolicyFields_controls policy_5) l y scr \<Longrightarrow> traffic_typed l y scr"
| "typing (ShaperPolicyList_ShaperClassList_controls policy_5 showAdd) l y scr \<Longrightarrow> traffic_typed l y scr"
| "typing (ShaperPolicyList_ShaperClassFields_controls policy_5 cls_2) l y scr \<Longrightarrow> traffic_typed l y scr"
| "typing (ShaperPolicyList_ShaperDefaultClassPanel_controls policy_5) l y scr \<Longrightarrow> traffic_typed l y scr"
| "typing (\<lambda>(newName, values_12, initialServerName, initialServerAddress, initialServerPort, firstRuleDomainNames, firstRuleSetServer). HaproxyBackendList_HaproxyBackendFormPanel_controls backend existingNames newName values_12 initialServerName initialServerAddress initialServerPort firstRuleDomainNames firstRuleSetServer) l y scr \<Longrightarrow> traffic_typed l y scr"
| "typing (\<lambda>(name, address, port, backup). HaproxyBackendList_HaproxyServersSection_controls backend_1 showAdd name address port backup) l y scr \<Longrightarrow> traffic_typed l y scr"
| "typing (\<lambda>(domainNames, setServer). HaproxyBackendList_HaproxyBackendRulesSection_controls backend_1 showAdd domainNames setServer) l y scr \<Longrightarrow> traffic_typed l y scr"
| "typing (\<lambda>(params, timeout, vrfValue). HaproxyGlobalSettings_controls globalParameters globalTimeout vrf params timeout vrfValue) l y scr \<Longrightarrow> traffic_typed l y scr"
| "typing (\<lambda>(newName, values_13, selectedBackends, firstListenAddress, firstRuleDomainNames, firstRuleSetBackend). HaproxyServiceList_HaproxyServiceFormPanel_controls service backends existingNames newName values_13 selectedBackends firstListenAddress firstRuleDomainNames firstRuleSetBackend) l y scr \<Longrightarrow> traffic_typed l y scr"
| "typing (\<lambda>(address, acceptProxy). HaproxyServiceList_HaproxyListenAddressesSection_controls service_1 showAdd address acceptProxy) l y scr \<Longrightarrow> traffic_typed l y scr"
| "typing (\<lambda>(domainNames, urlPathBegin, setBackend). HaproxyServiceList_HaproxyServiceRulesSection_controls service_1 showAdd domainNames urlPathBegin setBackend) l y scr \<Longrightarrow> traffic_typed l y scr"
| "typing (WanGlobalSettings_controls wan) l y scr \<Longrightarrow> traffic_typed l y scr"
| "typing (\<lambda>(ifname, values_14, firstTestType, firstTestTarget). WanInterfaceHealthList_InterfaceHealthForm_controls health existingNames ifname values_14 firstTestType firstTestTarget) l y scr \<Longrightarrow> traffic_typed l y scr"
| "typing (\<lambda>(ty, target, testScript, respTime, ttlLimit). WanInterfaceHealthList_WanHealthTestsSection_controls health_1 showAdd ty target testScript respTime ttlLimit) l y scr \<Longrightarrow> traffic_typed l y scr"
| "typing WanRuleList_MatchFields_controls l y scr \<Longrightarrow> traffic_typed l y scr"
| "typing (\<lambda>(name, weight). WanRuleList_WanRuleInterfacesSection_controls rule showAdd name weight) l y scr \<Longrightarrow> traffic_typed l y scr"
| "typing (ConntrackSyncSettings_controls config vrrpSyncGroups) l y scr \<Longrightarrow> traffic_typed l y scr"
| "typing (\<lambda>(name, peer, port). ConntrackSyncSettings_ConntrackSyncInterfacesSection_controls config showAdd name peer port) l y scr \<Longrightarrow> traffic_typed l y scr"
| "typing (\<lambda>(newName, values_17, firstAddress, firstAddressInterface). VrrpGroupList_VrrpGroupFormPanel_controls grp existingNames newName values_17 firstAddress firstAddressInterface) l y scr \<Longrightarrow> traffic_typed l y scr"
| "typing (\<lambda>(address, iface). VrrpGroupList_VrrpAddressesSection_controls grp_1 leaf showAdd address iface) l y scr \<Longrightarrow> traffic_typed l y scr"
| "typing (\<lambda>(newName, values_18, selectedMembers). VrrpSyncGroupList_VrrpSyncGroupFormPanel_controls syncGroup groups_1 existingNames newName values_18 selectedMembers) l y scr \<Longrightarrow> traffic_typed l y scr"

lemma traffic_typed_shown: "traffic_typed l y scr \<Longrightarrow> answers l y scr"
  by (induction rule: traffic_typed.induct) (erule controlled_typing, rule HaproxyServiceList_HaproxyServiceFormPanel_controlled VrrpSyncGroupList_VrrpSyncGroupFormPanel_controlled traffic_controlled)+

lemma traffic_acting:
  "list_all (acting (traffic_editor ''qos'')) (CakePolicyList_controls policies showAdd newName)"
  "list_all (acting (traffic_editor ''qos'')) (CakePolicyList_CakeFields_controls policy values)"
  "list_all (acting (traffic_editor ''qos'')) (FqCodelPolicyList_controls policies_1 showAdd newName)"
  "list_all (acting (traffic_editor ''qos'')) (FqCodelPolicyList_FqCodelFields_controls policy_1 values_1)"
  "list_all (acting (traffic_editor ''qos'')) (LimiterPolicyList_controls policies_2 showAdd newName firstClassId firstClassBandwidth defaultBandwidth)"
  "list_all (acting (traffic_editor ''qos'')) (LimiterPolicyList_LimiterClassList_controls policy_2 showAdd newId)"
  "list_all (acting (traffic_editor ''qos'')) (LimiterPolicyList_LimiterClassFields_controls policy_2 cls values_2)"
  "list_all (acting (traffic_editor ''qos'')) (LimiterPolicyList_LimiterDefaultClassPanel_controls policy_2 values_3)"
  "list_all (acting (traffic_editor ''qos'')) (QosInterfaceBindingsList_BindingRow_controls interfaceName ingress egress ingressPolicies egressPolicies)"
  "list_all (acting (traffic_editor ''qos'')) (RateControlPolicyList_controls policies_3 showAdd newName)"
  "list_all (acting (traffic_editor ''qos'')) (RateControlPolicyList_RateControlFields_controls policy_3 values_4)"
  "list_all (acting (traffic_editor ''qos'')) (ShaperHfscPolicyList_controls policies_4 showAdd newName firstClassId firstClassLinkshareM2 defaultLinkshareM2)"
  "list_all (acting (traffic_editor ''qos'')) (ShaperHfscPolicyList_HfscPolicyFields_controls policy_4 values_6)"
  "list_all (acting (traffic_editor ''qos'')) (ShaperHfscPolicyList_HfscClassList_controls policy_4 showAdd newId)"
  "list_all (acting (traffic_editor ''qos'')) (ShaperHfscPolicyList_HfscClassFields_controls policy_4 cls_1 values_7)"
  "list_all (acting (traffic_editor ''qos'')) (ShaperHfscPolicyList_HfscDefaultClassPanel_controls policy_4 values_8)"
  "list_all (acting (traffic_editor ''qos'')) (ShaperPolicyList_controls policies_5 showAdd newName firstClassId firstClassBandwidth firstClassCeiling defaultBandwidth defaultCeiling)"
  "list_all (acting (traffic_editor ''qos'')) (ShaperPolicyList_ShaperPolicyFields_controls policy_5 values_9)"
  "list_all (acting (traffic_editor ''qos'')) (ShaperPolicyList_ShaperClassList_controls policy_5 showAdd newId)"
  "list_all (acting (traffic_editor ''qos'')) (ShaperPolicyList_ShaperClassFields_controls policy_5 cls_2 values_10)"
  "list_all (acting (traffic_editor ''qos'')) (ShaperPolicyList_ShaperDefaultClassPanel_controls policy_5 values_11)"
  "list_all (acting (traffic_editor ''load-balancing'')) (HaproxyBackendList_controls backends editing)"
  "list_all (acting (traffic_editor ''load-balancing'')) (HaproxyBackendList_HaproxyServersSection_controls backend_1 showAdd name address port backup)"
  "list_all (acting (traffic_editor ''load-balancing'')) (HaproxyBackendList_HaproxyBackendRulesSection_controls backend_1 showAdd domainNames setServer)"
  "list_all (acting (traffic_editor ''load-balancing'')) (HaproxyServiceList_controls services editing)"
  "list_all (acting (traffic_editor ''load-balancing'')) (HaproxyServiceList_HaproxyServiceRulesSection_controls service_1 showAdd domainNames urlPathBegin setBackend)"
  "list_all (acting (traffic_editor ''load-balancing'')) (WanInterfaceHealthList_controls interfaceHealth editing)"
  "list_all (acting (traffic_editor ''load-balancing'')) (WanInterfaceHealthList_InterfaceHealthForm_controls health existingNames ifname values_14 firstTestType firstTestTarget)"
  "list_all (acting (traffic_editor ''load-balancing'')) (WanInterfaceHealthList_WanHealthTestsSection_controls health_1 showAdd ty target testScript respTime ttlLimit)"
  "list_all (acting (traffic_editor ''load-balancing'')) (WanRuleList_controls rules editing)"
  "list_all (acting (traffic_editor ''load-balancing'')) (WanRuleList_WanRuleInterfacesSection_controls rule showAdd name weight)"
  "list_all (acting (traffic_editor ''service'')) (ConntrackSyncSettings_controls config vrrpSyncGroups values_16)"
  "list_all (acting (traffic_editor ''service'')) (ConntrackSyncSettings_ConntrackSyncInterfacesSection_controls config showAdd name peer port)"
  "list_all (acting (traffic_editor ''high-availability'')) (VrrpGroupList_controls groups_1 editing)"
  "list_all (acting (traffic_editor ''high-availability'')) (VrrpGroupList_VrrpGroupFormPanel_controls grp existingNames newName values_17 firstAddress firstAddressInterface)"
  "list_all (acting (traffic_editor ''high-availability'')) (VrrpGroupList_VrrpAddressesSection_controls grp_1 leaf showAdd address iface)"
  "list_all (acting (traffic_editor ''high-availability'')) (VrrpSyncGroupList_controls syncGroups editing)"
  by (simp_all add: traffic_views view_simps traffic_editor.intros)

text \<open>The changes \<open>adds\<close> that one click in a component of the section \<open>sec\<close> puts in the cart.\<close>

inductive traffic_click :: "string \<Rightarrow> (ConfigOp \<times> string) list \<Rightarrow> bool" where
  "clicked (CakePolicyList_controls policies showAdd newName) adds \<Longrightarrow> traffic_click ''qos'' adds"
| "clicked (CakePolicyList_CakeFields_controls policy values) adds \<Longrightarrow> traffic_click ''qos'' adds"
| "clicked (FqCodelPolicyList_controls policies_1 showAdd newName) adds \<Longrightarrow> traffic_click ''qos'' adds"
| "clicked (FqCodelPolicyList_FqCodelFields_controls policy_1 values_1) adds \<Longrightarrow> traffic_click ''qos'' adds"
| "clicked (LimiterPolicyList_controls policies_2 showAdd newName firstClassId firstClassBandwidth defaultBandwidth) adds \<Longrightarrow> traffic_click ''qos'' adds"
| "clicked (LimiterPolicyList_LimiterClassList_controls policy_2 showAdd newId) adds \<Longrightarrow> traffic_click ''qos'' adds"
| "clicked (LimiterPolicyList_LimiterClassFields_controls policy_2 cls values_2) adds \<Longrightarrow> traffic_click ''qos'' adds"
| "clicked (LimiterPolicyList_LimiterDefaultClassPanel_controls policy_2 values_3) adds \<Longrightarrow> traffic_click ''qos'' adds"
| "clicked (QosInterfaceBindingsList_BindingRow_controls interfaceName ingress egress ingressPolicies egressPolicies) adds \<Longrightarrow> traffic_click ''qos'' adds"
| "clicked (RateControlPolicyList_controls policies_3 showAdd newName) adds \<Longrightarrow> traffic_click ''qos'' adds"
| "clicked (RateControlPolicyList_RateControlFields_controls policy_3 values_4) adds \<Longrightarrow> traffic_click ''qos'' adds"
| "clicked (ShaperHfscPolicyList_controls policies_4 showAdd newName firstClassId firstClassLinkshareM2 defaultLinkshareM2) adds \<Longrightarrow> traffic_click ''qos'' adds"
| "clicked (ShaperHfscPolicyList_HfscPolicyFields_controls policy_4 values_6) adds \<Longrightarrow> traffic_click ''qos'' adds"
| "clicked (ShaperHfscPolicyList_HfscClassList_controls policy_4 showAdd newId) adds \<Longrightarrow> traffic_click ''qos'' adds"
| "clicked (ShaperHfscPolicyList_HfscClassFields_controls policy_4 cls_1 values_7) adds \<Longrightarrow> traffic_click ''qos'' adds"
| "clicked (ShaperHfscPolicyList_HfscDefaultClassPanel_controls policy_4 values_8) adds \<Longrightarrow> traffic_click ''qos'' adds"
| "clicked (ShaperPolicyList_controls policies_5 showAdd newName firstClassId firstClassBandwidth firstClassCeiling defaultBandwidth defaultCeiling) adds \<Longrightarrow> traffic_click ''qos'' adds"
| "clicked (ShaperPolicyList_ShaperPolicyFields_controls policy_5 values_9) adds \<Longrightarrow> traffic_click ''qos'' adds"
| "clicked (ShaperPolicyList_ShaperClassList_controls policy_5 showAdd newId) adds \<Longrightarrow> traffic_click ''qos'' adds"
| "clicked (ShaperPolicyList_ShaperClassFields_controls policy_5 cls_2 values_10) adds \<Longrightarrow> traffic_click ''qos'' adds"
| "clicked (ShaperPolicyList_ShaperDefaultClassPanel_controls policy_5 values_11) adds \<Longrightarrow> traffic_click ''qos'' adds"
| "clicked (HaproxyBackendList_controls backends editing) adds \<Longrightarrow> traffic_click ''load-balancing'' adds"
| "clicked (HaproxyBackendList_HaproxyServersSection_controls backend_1 showAdd name address port backup) adds \<Longrightarrow> traffic_click ''load-balancing'' adds"
| "clicked (HaproxyBackendList_HaproxyBackendRulesSection_controls backend_1 showAdd domainNames setServer) adds \<Longrightarrow> traffic_click ''load-balancing'' adds"
| "clicked (HaproxyServiceList_controls services editing) adds \<Longrightarrow> traffic_click ''load-balancing'' adds"
| "clicked (HaproxyServiceList_HaproxyServiceRulesSection_controls service_1 showAdd domainNames urlPathBegin setBackend) adds \<Longrightarrow> traffic_click ''load-balancing'' adds"
| "clicked (WanInterfaceHealthList_controls interfaceHealth editing) adds \<Longrightarrow> traffic_click ''load-balancing'' adds"
| "clicked (WanInterfaceHealthList_InterfaceHealthForm_controls health existingNames ifname values_14 firstTestType firstTestTarget) adds \<Longrightarrow> traffic_click ''load-balancing'' adds"
| "clicked (WanInterfaceHealthList_WanHealthTestsSection_controls health_1 showAdd ty target testScript respTime ttlLimit) adds \<Longrightarrow> traffic_click ''load-balancing'' adds"
| "clicked (WanRuleList_controls rules editing) adds \<Longrightarrow> traffic_click ''load-balancing'' adds"
| "clicked (WanRuleList_WanRuleInterfacesSection_controls rule showAdd name weight) adds \<Longrightarrow> traffic_click ''load-balancing'' adds"
| "clicked (ConntrackSyncSettings_controls config vrrpSyncGroups values_16) adds \<Longrightarrow> traffic_click ''service'' adds"
| "clicked (ConntrackSyncSettings_ConntrackSyncInterfacesSection_controls config showAdd name peer port) adds \<Longrightarrow> traffic_click ''service'' adds"
| "clicked (VrrpGroupList_controls groups_1 editing) adds \<Longrightarrow> traffic_click ''high-availability'' adds"
| "clicked (VrrpGroupList_VrrpGroupFormPanel_controls grp existingNames newName values_17 firstAddress firstAddressInterface) adds \<Longrightarrow> traffic_click ''high-availability'' adds"
| "clicked (VrrpGroupList_VrrpAddressesSection_controls grp_1 leaf showAdd address iface) adds \<Longrightarrow> traffic_click ''high-availability'' adds"
| "clicked (VrrpSyncGroupList_controls syncGroups editing) adds \<Longrightarrow> traffic_click ''high-availability'' adds"

lemma traffic_click_editor: "traffic_click sec adds \<Longrightarrow> traffic_editor sec adds"
  by (induction rule: traffic_click.induct) (erule acting_clicked, rule traffic_acting, assumption?)+

end
