(* ===== verification/ViewSystem.thy ===== *)
theory ViewSystem
  imports Widgets UiSystem
begin

text \<open>
  The controls of the system, PKI and container pages, component by component: for given
  props and state, the inputs, choices, switches and buttons its markup shows. A child component with a
  state of its own has its own definition; one without is shown by its parent.
\<close>

text \<open>\<open>components/system/StaticHostMappingList.tsx\<close>\<close>

definition StaticHostMappingList_controls :: "StaticHostMapping list \<Rightarrow> unit widget list" where
  "StaticHostMappingList_controls mappings =
     concat
       (map
            (\<lambda>mapping. [Button ''Delete'' True (StaticHostMappingList_queueDelete (shm_hostName mapping)),
                  Chips
                    (''system static-host-mapping host-name '' @ shm_hostName mapping @ '' inet'')
                    (shm_addresses mapping) (staticHostMappingPath (shm_hostName mapping) []
                     @ [''inet'']),
                  Chips
                    (''system static-host-mapping host-name '' @ shm_hostName mapping @ '' alias'')
                    (shm_aliases mapping) (staticHostMappingPath (shm_hostName mapping) []
                     @ [''alias''])]) mappings)"

text \<open>\<open>components/system/SyslogSection.tsx\<close>\<close>

definition SYSLOG_FACILITIES :: "string list" where
  "SYSLOG_FACILITIES =
     [''all'', ''auth'', ''authpriv'', ''cron'', ''daemon'', ''kern'', ''lpr'', ''mail'', ''mark'',
      ''news'', ''syslog'', ''user'', ''uucp'', ''local0'', ''local1'', ''local2'', ''local3'',
      ''local4'', ''local5'', ''local6'', ''local7'']"

definition SYSLOG_LEVELS :: "string list" where
  "SYSLOG_LEVELS =
     [''all'', ''emerg'', ''alert'', ''crit'', ''err'', ''warning'', ''notice'', ''info'', ''debug'']"

definition SyslogSection_LocalSection_controls ::
    "SyslogFacilityRule list \<Rightarrow> text_input \<Rightarrow> text_input \<Rightarrow> (text_input \<times> text_input) widget list" where
  "SyslogSection_LocalSection_controls facilities facility level =
     (let taken = list_ex (\<lambda>f. sf_facility f = facility) facilities
      in [Select ''Local facility'' True SYSLOG_FACILITIES facility (\<lambda>t. (t, level)),
          Select ''Local level'' True ([''''] @ SYSLOG_LEVELS) level (\<lambda>t. (facility, t)),
          Button ''Add'' (\<not> taken) (SyslogSection_LocalSection_submit facilities facility level)]
         @ concat
             (map
                  (\<lambda>f. [Button ''Remove'' True (SyslogSection_LocalSection_queueRemove (sf_facility f))])
                  facilities))"

definition SyslogSection_RemoteSection_controls :: "SyslogRemoteHost list \<Rightarrow> unit widget list" where
  "SyslogSection_RemoteSection_controls hosts =
     concat
       (map
            (\<lambda>host. [Button ''Delete'' True (SyslogSection_RemoteSection_queueDelete (srh_address host))])
            hosts)"

definition SyslogSection_CreateRemoteHostForm_controls ::
    "string list \<Rightarrow> text_input \<Rightarrow> text_input \<Rightarrow> text_input \<Rightarrow> text_input \<Rightarrow> text_input \<Rightarrow> (text_input \<times> text_input \<times> text_input \<times> text_input \<times> text_input) widget list" where
  "SyslogSection_CreateRemoteHostForm_controls existingAddresses address facility level protocol port =
     [Input ''10.0.0.1'' True address (\<lambda>t. (t, facility, level, protocol, port)),
      Select ''New remote host facility'' True SYSLOG_FACILITIES facility
        (\<lambda>t. (address, t, level, protocol, port)),
      Select ''New remote host level'' True ([''''] @ SYSLOG_LEVELS) level
        (\<lambda>t. (address, facility, t, protocol, port)),
      Select ''New remote host protocol'' True ['''', ''udp'', ''tcp''] protocol
        (\<lambda>t. (address, facility, level, t, port)),
      Input ''port (default: 514)'' True port (\<lambda>t. (address, facility, level, protocol,
              number_input t)),
      Button ''Queue host creation''
        (SyslogSection_CreateRemoteHostForm_valid existingAddresses address)
        (SyslogSection_CreateRemoteHostForm_submit existingAddresses address facility level protocol
             port)]"

text \<open>\<open>components/system/SystemGeneralSettings.tsx\<close>\<close>

definition SystemGeneralSettings_controls ::
    "SystemGeneralSettings \<Rightarrow> SystemGeneralFormValues \<Rightarrow> bool \<Rightarrow> (SystemGeneralFormValues \<times> bool) widget list" where
  "SystemGeneralSettings_controls settings values dirty =
     [Input ''Host name'' True (sgv_hostName values) (\<lambda>t. (values\<lparr>sgv_hostName := t\<rparr>, True)),
      Input ''Domain name'' True (sgv_domainName values) (\<lambda>t. (values\<lparr>sgv_domainName := t\<rparr>, True)),
      Input ''Time zone'' True (sgv_timeZone values) (\<lambda>t. (values\<lparr>sgv_timeZone := t\<rparr>, True)),
      Button ''Save identity settings'' dirty (SystemGeneralSettings_submit settings values),
      Chips ''system name-server'' (sg_nameServers settings) (systemPath [] @ [''name-server'']),
      Chips ''system domain-search'' (sg_domainSearch settings)
        (systemPath [] @ [''domain-search''])]"

text \<open>\<open>components/system/UserForm.tsx\<close>\<close>

definition SSH_KEY_TYPES :: "string list" where
  "SSH_KEY_TYPES =
     [''ssh-ed25519'', ''ssh-rsa'', ''ecdsa-sha2-nistp256'', ''ecdsa-sha2-nistp384'',
      ''ecdsa-sha2-nistp521'', ''ssh-dss'']"

definition UserForm_controls ::
    "SystemUser option \<Rightarrow> string list \<Rightarrow> text_input \<Rightarrow> SystemUserFormValues \<Rightarrow> text_input \<Rightarrow> text_input \<Rightarrow> text_input \<Rightarrow> (text_input \<times> SystemUserFormValues \<times> text_input \<times> text_input \<times> text_input) widget list" where
  "UserForm_controls user existingUsernames username values firstKeyIdentifier firstKeyData firstKeyType =
     [Input ''Username *'' (user = None) username (\<lambda>t. (t, values, firstKeyIdentifier,
              firstKeyData, firstKeyType)),
      Input ''Full name'' True (suv_fullName values) (\<lambda>t. (username,
              values\<lparr>suv_fullName := t\<rparr>, firstKeyIdentifier, firstKeyData,
              firstKeyType)),
      Input
        (''Password ''
           @ (case user of
                Some user' \<Rightarrow> (if su_hasPassword user' then ''(configured - leave blank to keep)''
                     else '''')
              | None \<Rightarrow> '''')) True (suv_password values)
        (\<lambda>t. (username, values\<lparr>suv_password := t\<rparr>, firstKeyIdentifier,
                firstKeyData, firstKeyType)),
      Check ''Disable this account'' True (suv_disabled values)
        (\<lambda>b. (username, values\<lparr>suv_disabled := b\<rparr>, firstKeyIdentifier,
                firstKeyData, firstKeyType))]
     @ (if user = None
        then [Input ''alice@laptop'' True firstKeyIdentifier
                (\<lambda>t. (username, values, t, firstKeyData, firstKeyType)),
              Select '''' True SSH_KEY_TYPES firstKeyType (\<lambda>t. (username, values,
                      firstKeyIdentifier, firstKeyData, t)),
              Input ''AAAAB3NzaC1yc2EA... (base64 key data only, no type prefix or comment)'' True
                firstKeyData (\<lambda>t. (username, values, firstKeyIdentifier, t, firstKeyType))]
        else [])
     @ [Button
          (case user of
               Some user' \<Rightarrow> ''Save changes''
             | None \<Rightarrow> ''Queue user creation'')
          (UserForm_canSubmit user existingUsernames username)
          (UserForm_submit user existingUsernames username values firstKeyIdentifier firstKeyData
               firstKeyType)]"

text \<open>\<open>components/system/UserList.tsx\<close>\<close>

definition UserList_controls :: "SystemUser list \<Rightarrow> unit widget list" where
  "UserList_controls users =
     concat (map (\<lambda>user. [Button ''Delete'' True (UserList_queueDelete (su_username user))])
          users)"

definition UserList_PublicKeysSection_controls ::
    "SystemUser \<Rightarrow> bool \<Rightarrow> text_input \<Rightarrow> text_input \<Rightarrow> text_input \<Rightarrow> text_input \<Rightarrow> (text_input \<times> text_input \<times> text_input \<times> text_input) widget list" where
  "UserList_PublicKeysSection_controls user showAdd ident key ty options =
     (if showAdd
      then [Input ''alice@laptop'' True ident (\<lambda>t. (t, key, ty, options)),
            Select '''' True SSH_KEY_TYPES ty (\<lambda>t. (ident, key, t, options)),
            Input ''AAAAB3NzaC1yc2EA... (base64 key data only, no type prefix or comment)'' True key
              (\<lambda>t. (ident, t, ty, options)),
            Input (''options (optional), e.g. from='' @ [CHR 0x22] @ ''10.0.0.0/24'' @ [CHR 0x22])
              True options (\<lambda>t. (ident, key, ty, t)),
            Button ''Add key'' (UserList_PublicKeysSection_valid user ident key)
              (UserList_PublicKeysSection_submit user ident key ty options)]
      else [])
     @ concat (map
            (\<lambda>pk. [Button ''Remove'' True (UserList_PublicKeysSection_queueRemove user
                       (pk_identifier pk))]) (su_publicKeys user))"

text \<open>\<open>components/pki/CAForm.tsx\<close>\<close>

definition CAForm_controls ::
    "PKICertificateAuthority option \<Rightarrow> string list \<Rightarrow> text_input \<Rightarrow> PKICAFormValues \<Rightarrow> text_input \<Rightarrow> (text_input \<times> PKICAFormValues \<times> text_input) widget list" where
  "CAForm_controls ca existingNames name values firstCrl =
     [Input ''Name *'' (ca = None) name (\<lambda>t. (t, values, firstCrl)),
      Input ''Description'' True (pkicafv_description values)
        (\<lambda>t. (name, values\<lparr>pkicafv_description := t\<rparr>, firstCrl)),
      Input ''Certificate (PEM, single line, no BEGIN/END markers)'' True
        (pkicafv_certificate values) (\<lambda>t. (name,
              values\<lparr>pkicafv_certificate := t\<rparr>, firstCrl)),
      Input
        (''Private key ''
           @ (case ca of
                Some ca' \<Rightarrow> (if pkica_hasPrivateKey ca' then ''(configured - leave blank to keep)''
                     else '''')
              | None \<Rightarrow> '''')) True (pkicafv_privateKey values)
        (\<lambda>t. (name, values\<lparr>pkicafv_privateKey := t\<rparr>, firstCrl)),
      Check ''Private key is password-protected'' True (pkicafv_passwordProtected values)
        (\<lambda>b. (name, values\<lparr>pkicafv_passwordProtected := b\<rparr>, firstCrl)),
      Check ''Install into system CA store'' True (pkicafv_systemInstall values)
        (\<lambda>b. (name, values\<lparr>pkicafv_systemInstall := b\<rparr>, firstCrl)),
      Check ''Revoked'' True (pkicafv_revoked values) (\<lambda>b. (name,
              values\<lparr>pkicafv_revoked := b\<rparr>, firstCrl))]
     @ (if ca = None
        then [Input ''First CRL (optional, PEM, single line)'' True firstCrl
                (\<lambda>t. (name, values, t))]
        else [])
     @ [Button
          (case ca of
               Some ca' \<Rightarrow> ''Save changes''
             | None \<Rightarrow> ''Queue CA creation'') (CAForm_canSubmit ca existingNames name)
          (CAForm_submit ca existingNames name values firstCrl)]"

text \<open>\<open>components/pki/CAList.tsx\<close>\<close>

definition CAList_controls :: "PKICertificateAuthority list \<Rightarrow> unit widget list" where
  "CAList_controls cas =
     concat (map
          (\<lambda>ca. [Button ''Delete'' True (CAList_queueDelete (pkica_name ca)),
                Chips (''pki ca '' @ pkica_name ca @ '' crl'') (pkica_crls ca)
                  (pkiCAPath (pkica_name ca) [] @ [''crl''])]) cas)"

text \<open>\<open>components/pki/CertificateForm.tsx\<close>\<close>

definition CertificateForm_controls ::
    "PKICertificate option \<Rightarrow> string list \<Rightarrow> text_input \<Rightarrow> text_input \<Rightarrow> PKICertificateFormValues \<Rightarrow> (text_input \<times> PKICertificateFormValues) widget list" where
  "CertificateForm_controls certificate existingNames tab name values =
     (if tab = ''basic''
      then [Input ''Name *'' (certificate = None) name (\<lambda>t. (t, values)),
            Input ''Description'' True (pkicfv_description values)
              (\<lambda>t. (name, values\<lparr>pkicfv_description := t\<rparr>)),
            Input ''Certificate (PEM, single line, no BEGIN/END markers)'' True
              (pkicfv_certificate values) (\<lambda>t. (name,
                    values\<lparr>pkicfv_certificate := t\<rparr>)),
            Input
              (''Private key'' @ '' ''
                 @ (case certificate of
                      Some certificate' \<Rightarrow> (if pkic_hasPrivateKey certificate'
                           then ''(configured - leave blank to keep)''
                           else '''')
                    | None \<Rightarrow> '''')) True (pkicfv_privateKey values)
              (\<lambda>t. (name, values\<lparr>pkicfv_privateKey := t\<rparr>)),
            Check ''Private key is password-protected'' True (pkicfv_passwordProtected values)
              (\<lambda>b. (name, values\<lparr>pkicfv_passwordProtected := b\<rparr>)),
            Check ''Revoked'' True (pkicfv_revoked values) (\<lambda>b. (name,
                    values\<lparr>pkicfv_revoked := b\<rparr>))]
      else [])
     @ (if tab = ''acme''
        then [Input ''Email'' True (pkicfv_acmeEmail values)
                (\<lambda>t. (name, values\<lparr>pkicfv_acmeEmail := t\<rparr>)),
              Input ''Listen address'' True (pkicfv_acmeListenAddress values)
                (\<lambda>t. (name, values\<lparr>pkicfv_acmeListenAddress := t\<rparr>)),
              Select ''RSA key size'' True ['''', ''2048'', ''3072'', ''4096'']
                (pkicfv_acmeRsaKeySize values) (\<lambda>t. (name,
                      values\<lparr>pkicfv_acmeRsaKeySize := t\<rparr>)),
              Input ''Directory URL'' True (pkicfv_acmeUrl values)
                (\<lambda>t. (name, values\<lparr>pkicfv_acmeUrl := t\<rparr>))]
        else [])
     @ [Button
          (case certificate of
               Some certificate' \<Rightarrow> ''Save changes''
             | None \<Rightarrow> ''Queue certificate creation'')
          (CertificateForm_canSubmit certificate existingNames name)
          (CertificateForm_submit certificate existingNames name values)]"

text \<open>\<open>components/pki/CertificateList.tsx\<close>\<close>

definition CertificateList_controls :: "PKICertificate list \<Rightarrow> unit widget list" where
  "CertificateList_controls certificates =
     concat (map
          (\<lambda>cert. [Button ''Delete'' True (CertificateList_queueDelete (pkic_name cert)),
                Chips (''pki certificate '' @ pkic_name cert @ '' acme domain-name'')
                  (pkias_domainNames (pkic_acme cert)) (pkiCertificatePath (pkic_name cert)
                     [''acme''] @ [''domain-name''])]) certificates)"

text \<open>\<open>components/pki/KeyMaterialSection.tsx\<close>\<close>

definition KeyMaterialSection_KeyPairsSubsection_controls :: "PKIKeyPair list \<Rightarrow> unit widget list" where
  "KeyMaterialSection_KeyPairsSubsection_controls keyPairs =
     concat
       (map
            (\<lambda>kp. [Button ''Delete'' True (KeyMaterialSection_KeyPairsSubsection_queueDelete (pkikp_name
                          kp))]) keyPairs)"

definition KeyMaterialSection_KeyPairForm_controls ::
    "string list \<Rightarrow> text_input \<Rightarrow> PKIKeyPairFormValues \<Rightarrow> (text_input \<times> PKIKeyPairFormValues) widget list" where
  "KeyMaterialSection_KeyPairForm_controls existingNames name values =
     [Input ''Name *'' True name (\<lambda>t. (t, values)),
      Input ''Public key (PEM, single line)'' True (pkikpfv_publicKey values)
        (\<lambda>t. (name, values\<lparr>pkikpfv_publicKey := t\<rparr>)),
      Input ''Private key (PEM, single line)'' True (pkikpfv_privateKey values)
        (\<lambda>t. (name, values\<lparr>pkikpfv_privateKey := t\<rparr>)),
      Check ''Private key is password-protected'' True (pkikpfv_passwordProtected values)
        (\<lambda>b. (name, values\<lparr>pkikpfv_passwordProtected := b\<rparr>)),
      Button ''Queue key-pair creation'' (KeyMaterialSection_KeyPairForm_valid existingNames name)
        (KeyMaterialSection_KeyPairForm_submit existingNames name values)]"

definition KeyMaterialSection_DHSubsection_controls :: "PKIDHParams list \<Rightarrow> unit widget list" where
  "KeyMaterialSection_DHSubsection_controls dhParams =
     concat
       (map
            (\<lambda>dh. [Button ''Delete'' True (KeyMaterialSection_DHSubsection_queueDelete (pkidhp_name dh))])
            dhParams)"

definition KeyMaterialSection_DHForm_controls ::
    "string list \<Rightarrow> text_input \<Rightarrow> PKIDHFormValues \<Rightarrow> (text_input \<times> PKIDHFormValues) widget list" where
  "KeyMaterialSection_DHForm_controls existingNames name values =
     [Input ''Name *'' True name (\<lambda>t. (t, values)),
      Input ''Parameters (PEM, single line) *'' True (pkidhfv_parameters values)
        (\<lambda>t. (name, \<lparr>pkidhfv_parameters = t\<rparr>)),
      Button ''Queue DH creation'' (KeyMaterialSection_DHForm_valid existingNames name values)
        (KeyMaterialSection_DHForm_submit existingNames name values)]"

text \<open>\<open>components/pki/X509DefaultsForm.tsx\<close>\<close>

definition X509DefaultsForm_controls ::
    "PKIX509Defaults \<Rightarrow> PKIX509DefaultsFormValues \<Rightarrow> bool \<Rightarrow> (PKIX509DefaultsFormValues \<times> bool) widget list" where
  "X509DefaultsForm_controls defaults values dirty =
     [Input ''Country'' True (pkixdfv_country values) (\<lambda>t. (values\<lparr>pkixdfv_country := t\<rparr>, True)),
      Input ''State'' True (pkixdfv_state values) (\<lambda>t. (values\<lparr>pkixdfv_state := t\<rparr>, True)),
      Input ''Locality'' True (pkixdfv_locality values) (\<lambda>t. (values\<lparr>pkixdfv_locality := t\<rparr>, True)),
      Input ''Organization'' True (pkixdfv_organization values)
        (\<lambda>t. (values\<lparr>pkixdfv_organization := t\<rparr>, True)),
      Button ''Save defaults'' dirty (X509DefaultsForm_submit defaults values)]"

text \<open>\<open>components/container/ContainerDevicesSection.tsx\<close>\<close>

definition ContainerDevicesSection_controls ::
    "string \<Rightarrow> ContainerDevice list \<Rightarrow> bool \<Rightarrow> bool \<Rightarrow> bool \<Rightarrow> text_input \<Rightarrow> text_input \<Rightarrow> text_input \<Rightarrow> (text_input \<times> text_input \<times> text_input) widget list" where
  "ContainerDevicesSection_controls containerName devices onAdd onRemove showAdd i source destination =
     concat (map
          (\<lambda>d. [Button ''Remove'' True (ContainerDevicesSection_remove containerName
                     onRemove (cd_id d))]) devices)
     @ (if showAdd
        then [Input ''name'' True i (\<lambda>t. (t, source, destination)),
              Input ''/dev/x (host)'' True source (\<lambda>t. (i, t, destination)),
              Input ''/dev/x (container)'' True destination (\<lambda>t. (i, source, t)),
              Button ''Add device'' (ContainerDevicesSection_valid devices i)
                (ContainerDevicesSection_submit containerName devices onAdd i source destination)]
        else [])"

text \<open>\<open>components/container/ContainerForm.tsx\<close>\<close>

definition ContainerForm_controls ::
    "ContainerDefinition option \<Rightarrow> string list \<Rightarrow> ConfigOp list \<Rightarrow> text_input \<Rightarrow> ContainerFormValues \<Rightarrow> (text_input \<times> ContainerFormValues) widget list" where
  "ContainerForm_controls container existingNames nestedOps name values =
     [Input ''Name *'' (container = None) name (\<lambda>t. (t, values)),
      Input ''Image'' True (cfv_image values) (\<lambda>t. (name, values\<lparr>cfv_image := t\<rparr>)),
      Input ''Description'' True (cfv_description values) (\<lambda>t. (name,
              values\<lparr>cfv_description := t\<rparr>)),
      Input ''Host name'' True (cfv_hostName values) (\<lambda>t. (name,
              values\<lparr>cfv_hostName := t\<rparr>)),
      Input ''Entrypoint (overrides image default)'' True (cfv_entrypoint values)
        (\<lambda>t. (name, values\<lparr>cfv_entrypoint := t\<rparr>)),
      Input ''Command (overrides image default)'' True (cfv_command values)
        (\<lambda>t. (name, values\<lparr>cfv_command := t\<rparr>)),
      Input ''Arguments'' True (cfv_arguments values) (\<lambda>t. (name,
              values\<lparr>cfv_arguments := t\<rparr>)),
      Select ''Restart policy'' True ([''''] @ CONTAINER_RESTART_POLICIES) (cfv_restart values)
        (\<lambda>t. (name, values\<lparr>cfv_restart := t\<rparr>)),
      Select ''Log driver'' True ([''''] @ CONTAINER_LOG_DRIVERS) (cfv_logDriver values)
        (\<lambda>t. (name, values\<lparr>cfv_logDriver := t\<rparr>)),
      Input ''CPU quota (cores, 0 = unlimited)'' True (cfv_cpuQuota values)
        (\<lambda>t. (name, values\<lparr>cfv_cpuQuota := t\<rparr>)),
      Input ''Memory (MB, 0 = unlimited)'' True (cfv_memory values)
        (\<lambda>t. (name, values\<lparr>cfv_memory := t\<rparr>)),
      Input ''Shared memory (MB, 0 = unlimited)'' True (cfv_sharedMemory values)
        (\<lambda>t. (name, values\<lparr>cfv_sharedMemory := t\<rparr>)),
      Input ''UID'' True (cfv_uid values) (\<lambda>t. (name, values\<lparr>cfv_uid := t\<rparr>)),
      Input ''GID'' True (cfv_gid values) (\<lambda>t. (name, values\<lparr>cfv_gid := t\<rparr>)),
      Check ''Disable this container'' True (cfv_disabled values)
        (\<lambda>b. (name, values\<lparr>cfv_disabled := b\<rparr>)),
      Check ''Share host process namespace'' True (cfv_allowHostPid values)
        (\<lambda>b. (name, values\<lparr>cfv_allowHostPid := b\<rparr>)),
      Check ''Share host networking'' True (cfv_allowHostNetworks values)
        (\<lambda>b. (name, values\<lparr>cfv_allowHostNetworks := b\<rparr>)),
      Check ''Privileged (grant root capabilities)'' True (cfv_privileged values)
        (\<lambda>b. (name, values\<lparr>cfv_privileged := b\<rparr>))]
     @ concat (map
            (\<lambda>cap. [Check cap True (cap \<in> set (cfv_capabilities values))
                    (\<lambda>b. (name, values\<lparr>cfv_capabilities := (if cap
                                      \<in> set (cfv_capabilities values)
                                 then filter (\<lambda>c_l. c_l \<noteq> cap)
                                        (cfv_capabilities values)
                                 else cfv_capabilities values @ [cap])\<rparr>))])
            CONTAINER_CAPABILITIES)
     @ [Button
          (case container of
               Some container' \<Rightarrow> ''Save changes''
             | None \<Rightarrow> ''Queue container creation'')
          (ContainerForm_canSubmit container existingNames name)
          (ContainerForm_submit container existingNames name values nestedOps)]"

text \<open>\<open>components/container/ContainerHealthCheckSection.tsx\<close>\<close>

definition ContainerHealthCheckSection_controls ::
    "string \<Rightarrow> ContainerHealthCheck \<Rightarrow> bool \<Rightarrow> HealthCheckFormValues \<Rightarrow> HealthCheckFormValues widget list" where
  "ContainerHealthCheckSection_controls containerName healthCheck onSave values =
     [Input ''command'' True (hcfv_command values) (\<lambda>t. values\<lparr>hcfv_command := t\<rparr>),
      Input ''interval (s, or disable)'' True (hcfv_interval values)
        (\<lambda>t. values\<lparr>hcfv_interval := t\<rparr>),
      Input ''timeout (s)'' True (hcfv_timeout values) (\<lambda>t. values\<lparr>hcfv_timeout := t\<rparr>),
      Input ''retries'' True (hcfv_retry values) (\<lambda>t. values\<lparr>hcfv_retry := t\<rparr>),
      Button ''Save health check'' True (ContainerHealthCheckSection_save containerName healthCheck
           onSave values)]"

text \<open>\<open>components/container/ContainerList.tsx\<close>\<close>

definition ContainerList_controls :: "ContainerDefinition list \<Rightarrow> unit widget list" where
  "ContainerList_controls containers =
     concat
       (map
            (\<lambda>container. [Button ''Delete'' True (ContainerList_queueDelete (ctcd_name container))])
            containers)"

text \<open>\<open>components/container/ContainerNestedSections.tsx\<close>\<close>

definition ContainerNestedSections_controls :: "ContainerDefinition \<Rightarrow> unit widget list" where
  "ContainerNestedSections_controls container =
     [Chips (''container name '' @ ctcd_name container @ '' name-server'')
        (ctcd_nameServers container) (containerNamePath (ctcd_name container) [] @ [''name-server''])]"

text \<open>\<open>components/container/ContainerTmpfsSection.tsx\<close>\<close>

definition ContainerTmpfsSection_controls ::
    "string \<Rightarrow> ContainerTmpfs list \<Rightarrow> bool \<Rightarrow> bool \<Rightarrow> bool \<Rightarrow> text_input \<Rightarrow> text_input \<Rightarrow> text_input \<Rightarrow> (text_input \<times> text_input \<times> text_input) widget list" where
  "ContainerTmpfsSection_controls containerName tmpfs onAdd onRemove showAdd i destination siz =
     concat (map
          (\<lambda>t. [Button ''Remove'' True (ContainerTmpfsSection_remove containerName onRemove
                     (ct_id t))]) tmpfs)
     @ (if showAdd
        then [Input ''name'' True i (\<lambda>t. (t, destination, siz)),
              Input ''/container/dir'' True destination (\<lambda>t. (i, t, siz)),
              Input ''size (MB)'' True siz (\<lambda>t. (i, destination, t)),
              Button ''Add tmpfs mount'' (ContainerTmpfsSection_valid tmpfs i)
                (ContainerTmpfsSection_submit containerName tmpfs onAdd i destination siz)]
        else [])"

text \<open>\<open>components/container/ContainerVolumesSection.tsx\<close>\<close>

definition ContainerVolumesSection_controls ::
    "string \<Rightarrow> ContainerVolume list \<Rightarrow> bool \<Rightarrow> bool \<Rightarrow> bool \<Rightarrow> text_input \<Rightarrow> text_input \<Rightarrow> text_input \<Rightarrow> text_input \<Rightarrow> text_input \<Rightarrow> (text_input \<times> text_input \<times> text_input \<times> text_input \<times> text_input) widget list" where
  "ContainerVolumesSection_controls containerName volumes onAdd onRemove showAdd i source destination mode propagation =
     concat (map
          (\<lambda>vol. [Button ''Remove'' True (ContainerVolumesSection_remove containerName
                     onRemove (ctcv_id vol))]) volumes)
     @ (if showAdd
        then [Input ''name'' True i (\<lambda>t. (t, source, destination, mode, propagation)),
              Input ''/config/my-app/data'' True source (\<lambda>t. (i, t, destination, mode,
                      propagation)),
              Input ''/container/dir'' True destination (\<lambda>t. (i, source, t, mode,
                      propagation)),
              Select '''' True ([''''] @ CONTAINER_VOLUME_MODES) mode
                (\<lambda>t. (i, source, destination, t, propagation)),
              Select '''' True ([''''] @ CONTAINER_VOLUME_PROPAGATIONS) propagation
                (\<lambda>t. (i, source, destination, mode, t)),
              Button ''Add volume mount'' (ContainerVolumesSection_valid volumes i)
                (ContainerVolumesSection_submit containerName volumes onAdd i source destination
                     mode propagation)]
        else [])"

text \<open>\<open>components/container/NetworkForm.tsx\<close>\<close>

definition NetworkForm_controls ::
    "ContainerNetwork option \<Rightarrow> string list \<Rightarrow> text_input \<Rightarrow> ContainerNetworkFormValues \<Rightarrow> text_input \<Rightarrow> (text_input \<times> ContainerNetworkFormValues \<times> text_input) widget list" where
  "NetworkForm_controls network existingNames name values initialPrefix =
     ([Input ''Name * (max 11 characters)'' (network = None) name
         (\<lambda>t. (t, values, initialPrefix)),
       Input ''Description'' True (cnfv_description values) (\<lambda>t. (name,
               values\<lparr>cnfv_description := t\<rparr>, initialPrefix)),
       Input ''MTU'' True (cnfv_mtu values) (\<lambda>t. (name, values\<lparr>cnfv_mtu := t\<rparr>,
               initialPrefix)),
       Input ''VRF'' True (cnfv_vrf values) (\<lambda>t. (name, values\<lparr>cnfv_vrf := t\<rparr>,
               initialPrefix))]
      @ (if network = None
         then [Input ''Initial prefix'' True initialPrefix (\<lambda>t. (name, values, t))]
         else [])
      @ [Select ''Type'' True ['''', ''bridge'', ''macvlan''] (cnfv_type values)
           (\<lambda>t. (name, values\<lparr>cnfv_type := t\<rparr>, initialPrefix))]
      @ (if cnfv_type values = ''macvlan''
         then [Select ''MACVLAN mode'' True ([''''] @ CONTAINER_MACVLAN_MODES)
                 (cnfv_macvlanMode values) (\<lambda>t. (name,
                       values\<lparr>cnfv_macvlanMode := t\<rparr>, initialPrefix)),
               Input ''MACVLAN parent interface'' True (cnfv_macvlanParent values)
                 (\<lambda>t. (name, values\<lparr>cnfv_macvlanParent := t\<rparr>, initialPrefix))]
         else []))
     @ [Check ''Disable the DNS plugin for this network'' True (cnfv_noNameServer values)
          (\<lambda>b. (name, values\<lparr>cnfv_noNameServer := b\<rparr>, initialPrefix)),
        Button
          (case network of
               Some network' \<Rightarrow> ''Save changes''
             | None \<Rightarrow> ''Queue network creation'')
          (NetworkForm_canSubmit network existingNames name)
          (NetworkForm_submit network existingNames name values initialPrefix)]"

text \<open>\<open>components/container/NetworkList.tsx\<close>\<close>

definition NetworkList_controls :: "ContainerNetwork list \<Rightarrow> unit widget list" where
  "NetworkList_controls networks =
     concat (map
          (\<lambda>network. [Button ''Delete'' True (NetworkList_queueDelete (cn_name network)),
                Chips (''container network '' @ cn_name network @ '' gateway'')
                  (cn_gateways network) (containerNetworkPath (cn_name network) [] @ [''gateway'']),
                Chips (''container network '' @ cn_name network @ '' prefix'') (cn_prefixes network)
                  (containerNetworkPath (cn_name network) [] @ [''prefix''])]) networks)"

text \<open>\<open>components/container/RegistryForm.tsx\<close>\<close>

definition RegistryForm_controls ::
    "ContainerRegistry option \<Rightarrow> string list \<Rightarrow> text_input \<Rightarrow> ContainerRegistryFormValues \<Rightarrow> (text_input \<times> ContainerRegistryFormValues) widget list" where
  "RegistryForm_controls registry existingNames name values =
     [Input ''Registry name *'' (registry = None) name (\<lambda>t. (t, values)),
      Input ''Username'' True (crfv_username values) (\<lambda>t. (name,
              values\<lparr>crfv_username := t\<rparr>)),
      Input
        (''Password ''
           @ (case registry of
                Some registry' \<Rightarrow> (if cr_hasPassword registry'
                     then ''(configured - leave blank to keep)''
                     else '''')
              | None \<Rightarrow> '''')) True (crfv_password values)
        (\<lambda>t. (name, values\<lparr>crfv_password := t\<rparr>)),
      Check ''Disable this registry'' True (crfv_disabled values)
        (\<lambda>b. (name, values\<lparr>crfv_disabled := b\<rparr>)),
      Check ''Allow unencrypted / untrusted TLS access'' True (crfv_insecure values)
        (\<lambda>b. (name, values\<lparr>crfv_insecure := b\<rparr>)),
      Input ''Address'' True (crfv_mirrorAddress values) (\<lambda>t. (name,
              values\<lparr>crfv_mirrorAddress := t\<rparr>)),
      Input ''Host name'' True (crfv_mirrorHostName values) (\<lambda>t. (name,
              values\<lparr>crfv_mirrorHostName := t\<rparr>)),
      Input ''Port'' True (crfv_mirrorPort values) (\<lambda>t. (name,
              values\<lparr>crfv_mirrorPort := t\<rparr>)),
      Input ''Path'' True (crfv_mirrorPath values) (\<lambda>t. (name,
              values\<lparr>crfv_mirrorPath := t\<rparr>)),
      Button
        (case registry of
             Some registry' \<Rightarrow> ''Save changes''
           | None \<Rightarrow> ''Queue registry creation'')
        (RegistryForm_canSubmit registry existingNames name)
        (RegistryForm_submit registry existingNames name values)]"

text \<open>\<open>components/container/RegistryList.tsx\<close>\<close>

definition RegistryList_controls :: "ContainerRegistry list \<Rightarrow> unit widget list" where
  "RegistryList_controls registries =
     concat
       (map
            (\<lambda>registry. [Button ''Delete'' True (RegistryList_queueDelete (cr_name registry))])
            registries)"

text \<open>\<open>pages/system/PowerPage.tsx\<close>\<close>

definition PowerPage_PoweroffSection_controls :: "bool \<Rightarrow> text_input \<Rightarrow> text_input widget list" where
  "PowerPage_PoweroffSection_controls showModal typedHostname =
     (if showModal then [Input ''Hostname'' True typedHostname (\<lambda>t. t)] else [])"

subsection \<open>What is typed and clicked\<close>

lemmas system_views =
  SyslogSection_LocalSection_controls_def SYSLOG_FACILITIES_def SYSLOG_LEVELS_def
  SyslogSection_CreateRemoteHostForm_controls_def SystemGeneralSettings_controls_def
  UserForm_controls_def SSH_KEY_TYPES_def UserList_PublicKeysSection_controls_def
  CAForm_controls_def CertificateForm_controls_def KeyMaterialSection_KeyPairForm_controls_def
  KeyMaterialSection_DHForm_controls_def X509DefaultsForm_controls_def
  ContainerDevicesSection_controls_def ContainerForm_controls_def
  ContainerHealthCheckSection_controls_def ContainerTmpfsSection_controls_def
  ContainerVolumesSection_controls_def NetworkForm_controls_def RegistryForm_controls_def
  PowerPage_PoweroffSection_controls_def StaticHostMappingList_controls_def
  SyslogSection_RemoteSection_controls_def UserList_controls_def CAList_controls_def
  CertificateList_controls_def KeyMaterialSection_KeyPairsSubsection_controls_def
  KeyMaterialSection_DHSubsection_controls_def ContainerList_controls_def NetworkList_controls_def
  RegistryList_controls_def

lemma system_controlled:
  "controlled (\<lambda>(facility, level). SyslogSection_LocalSection_controls facilities facility level)"
  "controlled (\<lambda>(address, facility, level, protocol, port). SyslogSection_CreateRemoteHostForm_controls existingAddresses address facility level protocol port)"
  "controlled (\<lambda>(values, dirty). SystemGeneralSettings_controls settings values dirty)"
  "controlled (\<lambda>(username, values_1, firstKeyIdentifier, firstKeyData, firstKeyType). UserForm_controls user existingUsernames username values_1 firstKeyIdentifier firstKeyData firstKeyType)"
  "controlled (\<lambda>(ident, key, ty, options). UserList_PublicKeysSection_controls user_1 showAdd ident key ty options)"
  "controlled (\<lambda>(name, values_2, firstCrl). CAForm_controls ca existingNames name values_2 firstCrl)"
  "controlled (\<lambda>(name, values_3). CertificateForm_controls certificate existingNames tab name values_3)"
  "controlled (\<lambda>(name, values_4). KeyMaterialSection_KeyPairForm_controls existingNames name values_4)"
  "controlled (\<lambda>(name, values_5). KeyMaterialSection_DHForm_controls existingNames name values_5)"
  "controlled (\<lambda>(values_6, dirty). X509DefaultsForm_controls defaults values_6 dirty)"
  "controlled (\<lambda>(i, source, destination). ContainerDevicesSection_controls containerName devices onAdd onRemove showAdd i source destination)"
  "controlled (\<lambda>(name, values_7). ContainerForm_controls container existingNames nestedOps name values_7)"
  "controlled (ContainerHealthCheckSection_controls containerName healthCheck onSave)"
  "controlled (\<lambda>(i, destination, siz). ContainerTmpfsSection_controls containerName tmpfs onAdd onRemove showAdd i destination siz)"
  "controlled (\<lambda>(i, source, destination, mode, propagation). ContainerVolumesSection_controls containerName volumes onAdd onRemove showAdd i source destination mode propagation)"
  "controlled (\<lambda>(name, values_9, initialPrefix). NetworkForm_controls network existingNames name values_9 initialPrefix)"
  "controlled (\<lambda>(name, values_10). RegistryForm_controls registry existingNames name values_10)"
  "controlled (PowerPage_PoweroffSection_controls showModal)"
  by (simp_all add: controlled_def system_views view_simps)

inductive system_typed :: "string \<Rightarrow> shown \<Rightarrow> (string \<times> shown) list \<Rightarrow> bool" where
  "typing (\<lambda>(facility, level). SyslogSection_LocalSection_controls facilities facility level) l y scr \<Longrightarrow> system_typed l y scr"
| "typing (\<lambda>(address, facility, level, protocol, port). SyslogSection_CreateRemoteHostForm_controls existingAddresses address facility level protocol port) l y scr \<Longrightarrow> system_typed l y scr"
| "typing (\<lambda>(values, dirty). SystemGeneralSettings_controls settings values dirty) l y scr \<Longrightarrow> system_typed l y scr"
| "typing (\<lambda>(username, values_1, firstKeyIdentifier, firstKeyData, firstKeyType). UserForm_controls user existingUsernames username values_1 firstKeyIdentifier firstKeyData firstKeyType) l y scr \<Longrightarrow> system_typed l y scr"
| "typing (\<lambda>(ident, key, ty, options). UserList_PublicKeysSection_controls user_1 showAdd ident key ty options) l y scr \<Longrightarrow> system_typed l y scr"
| "typing (\<lambda>(name, values_2, firstCrl). CAForm_controls ca existingNames name values_2 firstCrl) l y scr \<Longrightarrow> system_typed l y scr"
| "typing (\<lambda>(name, values_3). CertificateForm_controls certificate existingNames tab name values_3) l y scr \<Longrightarrow> system_typed l y scr"
| "typing (\<lambda>(name, values_4). KeyMaterialSection_KeyPairForm_controls existingNames name values_4) l y scr \<Longrightarrow> system_typed l y scr"
| "typing (\<lambda>(name, values_5). KeyMaterialSection_DHForm_controls existingNames name values_5) l y scr \<Longrightarrow> system_typed l y scr"
| "typing (\<lambda>(values_6, dirty). X509DefaultsForm_controls defaults values_6 dirty) l y scr \<Longrightarrow> system_typed l y scr"
| "typing (\<lambda>(i, source, destination). ContainerDevicesSection_controls containerName devices onAdd onRemove showAdd i source destination) l y scr \<Longrightarrow> system_typed l y scr"
| "typing (\<lambda>(name, values_7). ContainerForm_controls container existingNames nestedOps name values_7) l y scr \<Longrightarrow> system_typed l y scr"
| "typing (ContainerHealthCheckSection_controls containerName healthCheck onSave) l y scr \<Longrightarrow> system_typed l y scr"
| "typing (\<lambda>(i, destination, siz). ContainerTmpfsSection_controls containerName tmpfs onAdd onRemove showAdd i destination siz) l y scr \<Longrightarrow> system_typed l y scr"
| "typing (\<lambda>(i, source, destination, mode, propagation). ContainerVolumesSection_controls containerName volumes onAdd onRemove showAdd i source destination mode propagation) l y scr \<Longrightarrow> system_typed l y scr"
| "typing (\<lambda>(name, values_9, initialPrefix). NetworkForm_controls network existingNames name values_9 initialPrefix) l y scr \<Longrightarrow> system_typed l y scr"
| "typing (\<lambda>(name, values_10). RegistryForm_controls registry existingNames name values_10) l y scr \<Longrightarrow> system_typed l y scr"
| "typing (PowerPage_PoweroffSection_controls showModal) l y scr \<Longrightarrow> system_typed l y scr"

lemma system_typed_shown: "system_typed l y scr \<Longrightarrow> answers l y scr"
  by (induction rule: system_typed.induct) (erule controlled_typing, rule system_controlled)+

lemma system_acting:
  "list_all (acting (system_editor ''system'')) (StaticHostMappingList_controls mappings)"
  "list_all (acting (system_editor ''system'')) (SyslogSection_LocalSection_controls facilities facility level)"
  "list_all (acting (system_editor ''system'')) (SyslogSection_RemoteSection_controls hosts)"
  "list_all (acting (system_editor ''system'')) (SyslogSection_CreateRemoteHostForm_controls existingAddresses address facility level protocol port)"
  "list_all (acting (system_editor ''system'')) (SystemGeneralSettings_controls settings values dirty)"
  "list_all (acting (system_editor ''system'')) (UserForm_controls user existingUsernames username values_1 firstKeyIdentifier firstKeyData firstKeyType)"
  "list_all (acting (system_editor ''system'')) (UserList_controls users)"
  "list_all (acting (system_editor ''system'')) (UserList_PublicKeysSection_controls user_1 showAdd ident key ty options)"
  "list_all (acting (system_editor ''pki'')) (CAForm_controls ca existingNames name values_2 firstCrl)"
  "list_all (acting (system_editor ''pki'')) (CAList_controls cas)"
  "list_all (acting (system_editor ''pki'')) (CertificateForm_controls certificate existingNames tab name values_3)"
  "list_all (acting (system_editor ''pki'')) (CertificateList_controls certificates)"
  "list_all (acting (system_editor ''pki'')) (KeyMaterialSection_KeyPairsSubsection_controls keyPairs)"
  "list_all (acting (system_editor ''pki'')) (KeyMaterialSection_KeyPairForm_controls existingNames name values_4)"
  "list_all (acting (system_editor ''pki'')) (KeyMaterialSection_DHSubsection_controls dhParams)"
  "list_all (acting (system_editor ''pki'')) (KeyMaterialSection_DHForm_controls existingNames name values_5)"
  "list_all (acting (system_editor ''pki'')) (X509DefaultsForm_controls defaults values_6 dirty)"
  "list_all (acting (system_editor ''container'')) (ContainerDevicesSection_controls containerName devices onAdd onRemove showAdd i source destination)"
  "list_all (acting (system_editor ''container'')) (ContainerHealthCheckSection_controls containerName healthCheck onSave values_8)"
  "list_all (acting (system_editor ''container'')) (ContainerList_controls containers)"
  "list_all (acting (system_editor ''container'')) (ContainerTmpfsSection_controls containerName tmpfs onAdd onRemove showAdd i destination siz)"
  "list_all (acting (system_editor ''container'')) (ContainerVolumesSection_controls containerName volumes onAdd onRemove showAdd i source destination mode propagation)"
  "list_all (acting (system_editor ''container'')) (NetworkForm_controls network existingNames name values_9 initialPrefix)"
  "list_all (acting (system_editor ''container'')) (NetworkList_controls networks)"
  "list_all (acting (system_editor ''container'')) (RegistryForm_controls registry existingNames name values_10)"
  "list_all (acting (system_editor ''container'')) (RegistryList_controls registries)"
  by (simp_all add: system_views view_simps system_editor.intros)

text \<open>The changes \<open>adds\<close> that one click in a component of the section \<open>sec\<close> puts in the cart.\<close>

inductive system_click :: "string \<Rightarrow> (ConfigOp \<times> string) list \<Rightarrow> bool" where
  "clicked (StaticHostMappingList_controls mappings) adds \<Longrightarrow> system_click ''system'' adds"
| "clicked (SyslogSection_LocalSection_controls facilities facility level) adds \<Longrightarrow> system_click ''system'' adds"
| "clicked (SyslogSection_RemoteSection_controls hosts) adds \<Longrightarrow> system_click ''system'' adds"
| "clicked (SyslogSection_CreateRemoteHostForm_controls existingAddresses address facility level protocol port) adds \<Longrightarrow> system_click ''system'' adds"
| "clicked (SystemGeneralSettings_controls settings values dirty) adds \<Longrightarrow> system_click ''system'' adds"
| "clicked (UserForm_controls user existingUsernames username values_1 firstKeyIdentifier firstKeyData firstKeyType) adds \<Longrightarrow> system_click ''system'' adds"
| "clicked (UserList_controls users) adds \<Longrightarrow> system_click ''system'' adds"
| "clicked (UserList_PublicKeysSection_controls user_1 showAdd ident key ty options) adds \<Longrightarrow> system_click ''system'' adds"
| "clicked (CAForm_controls ca existingNames name values_2 firstCrl) adds \<Longrightarrow> system_click ''pki'' adds"
| "clicked (CAList_controls cas) adds \<Longrightarrow> system_click ''pki'' adds"
| "clicked (CertificateForm_controls certificate existingNames tab name values_3) adds \<Longrightarrow> system_click ''pki'' adds"
| "clicked (CertificateList_controls certificates) adds \<Longrightarrow> system_click ''pki'' adds"
| "clicked (KeyMaterialSection_KeyPairsSubsection_controls keyPairs) adds \<Longrightarrow> system_click ''pki'' adds"
| "clicked (KeyMaterialSection_KeyPairForm_controls existingNames name values_4) adds \<Longrightarrow> system_click ''pki'' adds"
| "clicked (KeyMaterialSection_DHSubsection_controls dhParams) adds \<Longrightarrow> system_click ''pki'' adds"
| "clicked (KeyMaterialSection_DHForm_controls existingNames name values_5) adds \<Longrightarrow> system_click ''pki'' adds"
| "clicked (X509DefaultsForm_controls defaults values_6 dirty) adds \<Longrightarrow> system_click ''pki'' adds"
| "clicked (ContainerDevicesSection_controls containerName devices onAdd onRemove showAdd i source destination) adds \<Longrightarrow> system_click ''container'' adds"
| "clicked (ContainerHealthCheckSection_controls containerName healthCheck onSave values_8) adds \<Longrightarrow> system_click ''container'' adds"
| "clicked (ContainerList_controls containers) adds \<Longrightarrow> system_click ''container'' adds"
| "clicked (ContainerTmpfsSection_controls containerName tmpfs onAdd onRemove showAdd i destination siz) adds \<Longrightarrow> system_click ''container'' adds"
| "clicked (ContainerVolumesSection_controls containerName volumes onAdd onRemove showAdd i source destination mode propagation) adds \<Longrightarrow> system_click ''container'' adds"
| "clicked (NetworkForm_controls network existingNames name values_9 initialPrefix) adds \<Longrightarrow> system_click ''container'' adds"
| "clicked (NetworkList_controls networks) adds \<Longrightarrow> system_click ''container'' adds"
| "clicked (RegistryForm_controls registry existingNames name values_10) adds \<Longrightarrow> system_click ''container'' adds"
| "clicked (RegistryList_controls registries) adds \<Longrightarrow> system_click ''container'' adds"

lemma system_click_editor: "system_click sec adds \<Longrightarrow> system_editor sec adds"
  by (induction rule: system_click.induct) (erule acting_clicked, rule system_acting, assumption?)+

end
