(* ===== verification/Screens.thy ===== *)
theory Screens
  imports Editors ScreenForms ViewServices ViewVpn ViewQos ViewSystem
begin

text \<open>
  The pages together: \<open>page_typed l y scr\<close> says that the entry \<open>y\<close> was made in the control labelled \<open>l\<close> of
  some component, which then shows \<open>scr\<close>, and \<open>page_click sec adds\<close> that one click in a component of the
  section \<open>sec\<close> puts \<open>adds\<close> in the cart. The forms of rules are followed from the first key to the form
  opened again after the commit (ScreenForms).
\<close>

inductive page_typed :: "string \<Rightarrow> shown \<Rightarrow> (string \<times> shown) list \<Rightarrow> bool" where
  "routing_typed l y scr \<Longrightarrow> page_typed l y scr"
| "services_typed l y scr \<Longrightarrow> page_typed l y scr"
| "vpn_typed l y scr \<Longrightarrow> page_typed l y scr"
| "traffic_typed l y scr \<Longrightarrow> page_typed l y scr"
| "network_typed l y scr \<Longrightarrow> page_typed l y scr"
| "system_typed l y scr \<Longrightarrow> page_typed l y scr"

inductive page_click :: "string \<Rightarrow> (ConfigOp \<times> string) list \<Rightarrow> bool" where
  "routing_click sec adds \<Longrightarrow> page_click sec adds"
| "services_click sec adds \<Longrightarrow> page_click sec adds"
| "vpn_click sec adds \<Longrightarrow> page_click sec adds"
| "traffic_click sec adds \<Longrightarrow> page_click sec adds"
| "network_click sec adds \<Longrightarrow> page_click sec adds"
| "system_click sec adds \<Longrightarrow> page_click sec adds"

lemmas clicks_are_editors =
  routing_click_editor services_click_editor vpn_click_editor traffic_click_editor network_click_editor
  system_click_editor

lemmas entries_shown =
  routing_typed_shown services_typed_shown vpn_typed_shown traffic_typed_shown network_typed_shown
  system_typed_shown

lemma page_click_editor: "page_click sec adds \<Longrightarrow> section_editor sec adds"
  by (induction rule: page_click.induct) (intro section_editor.intros clicks_are_editors; assumption)+

lemma page_typed_shown: "page_typed l y scr \<Longrightarrow> answers l y scr"
  by (induction rule: page_typed.induct) (erule entries_shown)+

subsection \<open>Forms of rules\<close>

text \<open>
  C1. What the user sees is what the router gets. Open the rule form for what the router has at a rule
  number (or a blank one), use its inputs in any order, over any tabs, and click its button; when the cart is
  committed, the router accepts it, and the form opened again for the rule the router now has holds exactly the
  values that were typed and shows the same screen in every tab. The texts have no blanks around them, which the
  form would strip.
\<close>

theorem firewall_screen_saved:
  assumes "rule = device_rule rulesetRef n (fv_config s)"
    and "read_str (device_get (fv_config s) (rulePath rulesetRef n [''action''])) \<in> set ('''' # RULE_ACTIONS)"
    and "plain_path (rulePath rulesetRef n [])"
    and "form_session (\<lambda>tab (ruleNumber, values). RuleForm_controls rulesetRef rule existing tab ruleNumber values)
      (n0, RuleForm_values rule) (n, v)"
    and "trimmed_form (RULE_SCALAR_FIELDS (rr_family rulesetRef)) v"
    and "clicked (RuleForm_controls rulesetRef rule existing tab n v) adds" and "length uuids = length adds"
    and "commit_cart (queue_labelled uuids adds []) c s = (reply, s')"
    and "rule' = device_rule rulesetRef n (fv_config s')"
  shows "reply = Fake_success \<and> RuleForm_values rule' = v
    \<and> screen (RuleForm_controls rulesetRef rule' existing' tab' n (RuleForm_values rule'))
      = screen (RuleForm_controls rulesetRef rule existing tab' n v)"
proof -
  have ok: "fw_shown_ok rulesetRef (fv_config s) n" using assms(2,3) by (simp add: fw_shown_ok_def)
  have click: "clicked (RuleForm_controls rulesetRef rule existing tab (fst (n, v)) (snd (n, v))) adds" using assms(6) by simp
  show ?thesis
    by (rule fw_screen.saved_screen [OF assms(1) ok assms(4) [unfolded split_beta] assms(5) click assms(7-9), unfolded fst_conv snd_conv])
qed

text \<open>C2. The same of the rules of source and destination NAT: the interface, the two sides and the translation,
  typed over the three tabs, are what the form shows when it is opened again after the commit. A source rule's
  form has no redirect port, so the router's rule is one without.\<close>

theorem nat_screen_saved:
  assumes "rule = device_item (parseRule_nat kind n) (fv_config s) (natRulePath kind n [])"
    and "nat_rule_ok kind (device_get (fv_config s) (natRulePath kind n []))" and "plain_path (natRulePath kind n [])"
    and "form_session (\<lambda>tab (ruleNumber, values). NATRuleForm_controls kind rule existing tab ruleNumber values)
      (n0, NATRuleForm_values rule) (n, v)"
    and "trimmed_form (NAT_FIELDS kind) v"
    and "clicked (NATRuleForm_controls kind rule existing tab n v) adds" and "length uuids = length adds"
    and "commit_cart (queue_labelled uuids adds []) c s = (reply, s')"
    and "rule' = device_item (parseRule_nat kind n) (fv_config s') (natRulePath kind n [])"
  shows "reply = Fake_success \<and> NATRuleForm_values rule' = v
    \<and> screen (NATRuleForm_controls kind rule' existing' tab' n (NATRuleForm_values rule'))
      = screen (NATRuleForm_controls kind rule existing tab' n v)"
proof -
  have ok: "nat_shown_ok kind (fv_config s) n" using assms(2,3) by (simp add: nat_shown_ok_def)
  have click: "clicked (NATRuleForm_controls kind rule existing tab (fst (n, v)) (snd (n, v))) adds" using assms(6) by simp
  show ?thesis
    by (rule nat_screen.saved_screen [OF assms(1) ok assms(4) [unfolded split_beta] assms(5) click assms(7-9), unfolded fst_conv snd_conv])
qed


definition typed_rule :: RuleFormValues where
  "typed_rule = blankRuleFormValues\<lparr>rf_action := ''drop'', rf_log := True\<rparr>"

lemma typed_rule_session:
  "form_session (\<lambda>tab (ruleNumber, values). RuleForm_controls forward_filter None [] tab ruleNumber values)
     (suggestNextNumber [], RuleForm_values None) (''10'', typed_rule)"
proof -
  let ?view = "\<lambda>tab (ruleNumber, values). RuleForm_controls forward_filter None [] tab ruleNumber values"
  let ?b = blankRuleFormValues and ?v = "blankRuleFormValues\<lparr>rf_action := ''drop''\<rparr>"
  have start: "(suggestNextNumber [], RuleForm_values None) = (''10'', ?b)"
    by (simp add: suggestNextNumber_def RuleForm_values_def)
  have picked: "form_session ?view (''10'', ?b) (''10'', ?v)"
    by (rule form_session.used [OF form_session.opened, where tab = "''basic''" and l = "''Action *''"
        and y = "Text ''drop''" and w = "Select ''Action *'' True ('''' # RULE_ACTIONS) (rf_action ?b)
          (\<lambda>t. (''10'', ?b\<lparr>rf_action := t\<rparr>))"])
      (simp_all add: RuleForm_controls_def among_def RULE_ACTIONS_def)
  have typed: "typed_rule = ?v\<lparr>rf_log := True\<rparr>" by (simp add: typed_rule_def)
  show ?thesis unfolding start typed
    by (rule form_session.used [OF picked, where tab = "''basic''" and l = "''Log matches''" and y = "Checked True"
        and w = "Check ''Log matches'' True (rf_log ?v) (\<lambda>b. (''10'', ?v\<lparr>rf_log := b\<rparr>))"])
      (simp_all add: RuleForm_controls_def blankRuleFormValues_def)
qed

theorem firewall_screen_saved_witness:
  "RuleForm_values (device_rule forward_filter ''10'' (fv_config (snd (commit_cart
     (queue_labelled [''1'', ''2''] (RuleForm_submit forward_filter None [] ''10'' typed_rule) []) 0 blank_router))))
   = typed_rule"
proof -
  let ?ref = forward_filter and ?adds = "RuleForm_submit forward_filter None [] ''10'' typed_rule"
  have 1: "None = device_rule ?ref ''10'' (fv_config blank_router)"
    "read_str (device_get (fv_config blank_router) (rulePath ?ref ''10'' [''action''])) \<in> set ('''' # RULE_ACTIONS)"
    "plain_path (rulePath ?ref ''10'' [])" by code_simp+
  have 2: "trimmed_form (RULE_SCALAR_FIELDS (rr_family ?ref)) typed_rule" "length [''1'', ''2''] = length ?adds"
    "RuleForm_canSubmit None [] ''10'' typed_rule" by code_simp+
  have 3: "clicked (RuleForm_controls ?ref None [] ''advanced'' ''10'' typed_rule) ?adds"
    using 2(3) by (simp add: clicked_def RuleForm_controls_def)
  from firewall_screen_saved [OF 1 typed_rule_session 2(1) 3 2(2) surjective_pairing refl, where c = 0]
  show ?thesis by simp
qed

theorem nat_screen_saved_witness:
  "let v = blankRuleFormValues_nat\<lparr>nrv_translationAddress := ''masquerade''\<rparr>
   in NATRuleForm_values (device_item (parseRule_nat ''source'' ''10'') (fv_config (snd (commit_cart
        (queue_labelled [''1''] (NATRuleForm_submit ''source'' None [] ''10'' v) []) 0 blank_router)))
        (natRulePath ''source'' ''10'' [])) = v"
proof -
  let ?b = blankRuleFormValues_nat
  let ?v = "?b\<lparr>nrv_translationAddress := ''masquerade''\<rparr>"
  let ?p = "natRulePath ''source'' ''10'' []" and ?adds = "NATRuleForm_submit ''source'' None [] ''10'' ?v"
  let ?view = "\<lambda>tab (ruleNumber, values). NATRuleForm_controls ''source'' None [] tab ruleNumber values"
  let ?l = "''Translation address (or '' @ [CHR 0x27] @ ''masquerade'' @ [CHR 0x27] @ '')''"
  have 1: "None = device_item (parseRule_nat ''source'' ''10'') (fv_config blank_router) ?p"
    "nat_rule_ok ''source'' (device_get (fv_config blank_router) ?p)" "plain_path ?p" by code_simp+
  have 2: "trimmed_form (NAT_FIELDS ''source'') ?v" "length [''1''] = length ?adds"
    "NATRuleForm_canSubmit None [] ''10''" by code_simp+
  have start: "NATRuleForm_values None = ?b" by (simp add: NATRuleForm_values_def)
  have 3: "form_session ?view (''10'', NATRuleForm_values None) (''10'', ?v)" unfolding start
    by (rule form_session.used [OF form_session.opened, where tab = "''translation''" and l = ?l
        and y = "Text ''masquerade''" and w = "Input ?l True (nrv_translationAddress ?b)
          (\<lambda>t. (''10'', ?b\<lparr>nrv_translationAddress := t\<rparr>))"])
      (simp_all add: NATRuleForm_controls_def)
  have 4: "clicked (NATRuleForm_controls ''source'' None [] ''translation'' ''10'' ?v) ?adds"
    using 2(3) by (simp add: clicked_def NATRuleForm_controls_def)
  from nat_screen_saved [OF 1 3 2(1) 4 2(2) surjective_pairing refl, where c = 0] show ?thesis by (simp add: Let_def)
qed


end
