(* ===== verification/Gates.thy ===== *)
theory Gates
  imports PendingChanges
begin

text \<open>
  The gate of a feature: a page shows the settings of a feature (\<open>service ssh\<close>, \<open>vpn ipsec\<close>) only while its
  toggle (\<open>withPendingEnable\<close>) shows it enabled, an Enable button otherwise, and a Disable button with the
  settings. \<open>gate_cart\<close> is the cart that such a page fills, in any order, together with changes elsewhere and with
  removals from the cart.
\<close>

subsection \<open>The latest change at a path\<close>

definition at_path :: "path \<Rightarrow> PendingChange \<Rightarrow> bool" where
  "at_path p c \<longleftrightarrow> path_key (co_path (pc_op c)) = path_key p"

lemma latest_filter:
  "latestPendingOp cs p = (if filter (at_path p) cs = [] then None else Some (pc_op (last (filter (at_path p) cs))))"
proof (induction cs rule: rev_induct)
  case (snoc c cs)
  then show ?case by (auto simp: latestPendingOp_snoc at_path_def [symmetric])
qed simp

lemma toggle_filter:
  assumes "filter (at_path p) cs = filter (at_path p) cs'"
  shows "withPendingEnable e p cs = withPendingEnable e p cs'"
  by (simp add: withPendingEnable_def hasPendingDelete_def hasPendingSet_def latest_filter assms)

lemma toggle_snoc:
  "withPendingEnable e p (cs @ [c]) =
     (if at_path p c then (case co_op (pc_op c) of Delete_op \<Rightarrow> False | Set_op \<Rightarrow> True | Comment_op \<Rightarrow> e)
      else withPendingEnable e p cs)"
  by (auto simp: withPendingEnable_def hasPendingDelete_def hasPendingSet_def latestPendingOp_snoc at_path_def
      split: ConfigOpKind.splits)

subsection \<open>Carts of a gated page\<close>

text \<open>Every change of the settings was queued while the toggle showed the feature enabled.\<close>

definition gated :: "bool \<Rightarrow> path \<Rightarrow> PendingChange list \<Rightarrow> bool" where
  "gated e p cs \<longleftrightarrow> (\<forall>i < length cs. strict_prefix p (co_path (pc_op (cs ! i))) \<longrightarrow> withPendingEnable e p (take i cs))"

lemma gated_Nil [simp]: "gated e p []"
  by (simp add: gated_def)

lemma gated_snoc [simp]:
  "gated e p (cs @ [c]) \<longleftrightarrow> gated e p cs \<and> (strict_prefix p (co_path (pc_op c)) \<longrightarrow> withPendingEnable e p cs)"
  by (auto simp: gated_def nth_append less_Suc_eq)

definition about :: "path \<Rightarrow> ConfigOp \<Rightarrow> bool" where
  "about p op \<longleftrightarrow> plain_path (co_path op) \<and> co_op op \<noteq> Comment_op
     \<and> (co_path op = p \<or> strict_prefix p (co_path op) \<or> indep (co_path op) p)"

text \<open>Such a cart and the toggle agree about the device.\<close>

lemma below_keeps:
  assumes "device_get m p \<noteq> None" and "strict_prefix p (co_path op)"
  shows "device_get (apply_op setNested deleteNested op m) p \<noteq> None"
proof -
  obtain q where "q \<noteq> []" "co_path op = p @ q" using assms(2) by (auto simp: strict_prefix_def prefix_def)
  then show ?thesis using ops_keep_present [OF assms(1), of "[op]"] by simp
qed

lemma gated_device:
  assumes "plain_path p" and "list_all (\<lambda>c. about p (pc_op c)) cs" and "gated (device_get m p \<noteq> None) p cs"
  shows "withPendingEnable (device_get m p \<noteq> None) p cs = (device_get (device_apply (map pc_op cs) m) p \<noteq> None)"
  using assms(2,3)
proof (induction cs rule: rev_induct)
  case Nil
  then show ?case by (simp add: withPendingEnable_def hasPendingDelete_def hasPendingSet_def)
next
  case (snoc c cs)
  let ?m = "device_apply (map pc_op cs) m" and ?op = "pc_op c"
  have IH: "withPendingEnable (device_get m p \<noteq> None) p cs = (device_get ?m p \<noteq> None)"
    using snoc by simp
  have at: "at_path p c \<longleftrightarrow> co_path ?op = p"
    using snoc.prems(1) path_key_inj [OF _ assms(1)] by (simp add: at_path_def about_def)
  have nil: "p \<noteq> []" using assms(1) by (simp add: plain_path_def)
  from snoc.prems(1) have kind: "co_op ?op \<noteq> Comment_op"
    and "co_path ?op = p \<or> strict_prefix p (co_path ?op) \<or> indep (co_path ?op) p" by (auto simp: about_def)
  then consider "co_path ?op = p" | "strict_prefix p (co_path ?op)" | "indep (co_path ?op) p" by blast
  then show ?case
  proof cases
    case 1
    then show ?thesis using kind apply_op_at [OF nil 1, of ?m]
      by (cases "co_op ?op") (auto simp: toggle_snoc at)
  next
    case 2
    then have "withPendingEnable (device_get m p \<noteq> None) p cs" using snoc.prems(2) by simp
    then show ?thesis using IH below_keeps [OF _ 2, of ?m] 2 by (auto simp: toggle_snoc at)
  next
    case 3
    then have "co_path ?op \<noteq> p" by (auto simp: indep_def)
    then show ?thesis using IH 3 by (simp add: toggle_snoc at device.op_frame)
  qed
qed

text \<open>Dropping changes that are not at the feature's path keeps a cart gated.\<close>

lemma gated_filter:
  assumes "gated e p cs" and "\<forall>c \<in> set cs. at_path p c \<longrightarrow> keep c"
  shows "gated e p (filter keep cs)"
  using assms
proof (induction cs rule: rev_induct)
  case (snoc c cs)
  have "filter (at_path p) (filter keep cs) = filter (at_path p) cs"
    using snoc.prems(2) by (auto intro: filter_cong simp: filter_filter)
  then have "withPendingEnable e p (filter keep cs) = withPendingEnable e p cs" by (rule toggle_filter)
  then show ?case using snoc by simp
qed simp

text \<open>So does taking back the latest delete of the feature, because nothing below it was queued since.\<close>

lemma gated_undelete:
  assumes "gated e p (xs @ d # ys)" and "at_path p d" and "co_op (pc_op d) = Delete_op"
    and "\<forall>c \<in> set ys. \<not> at_path p c"
  shows "gated e p (xs @ ys)"
  using assms(1,4)
proof (induction ys rule: rev_induct)
  case Nil
  then show ?case by simp
next
  case (snoc y ys)
  have off: "\<not> withPendingEnable e p (xs @ d # zs)" if "\<forall>c \<in> set zs. \<not> at_path p c" for zs
    using that
  proof (induction zs rule: rev_induct)
    case Nil
    then show ?case using assms(2,3) toggle_snoc [of e p xs d] by simp
  next
    case (snoc z zs)
    then show ?case using toggle_snoc [of e p "xs @ d # zs" z] by simp
  qed
  have "gated e p ((xs @ d # ys) @ [y])" using snoc.prems(1) by simp
  then have "gated e p (xs @ d # ys)" and "\<not> strict_prefix p (co_path (pc_op y))"
    unfolding gated_snoc using off [of ys] snoc.prems(2) by auto
  then have "gated e p ((xs @ ys) @ [y])" unfolding gated_snoc using snoc by simp
  then show ?case by simp
qed

text \<open>Queueing a change, with the double click and the cancellation.\<close>

lemma last_index_snoc: "last_index P (xs @ [x]) = (if P x then Some (length xs) else last_index P xs)"
proof -
  have "filter (\<lambda>i. P ((xs @ [x]) ! i)) [0..<length xs] = filter (\<lambda>i. P (xs ! i)) [0..<length xs]"
    by (rule filter_cong) (auto simp: nth_append)
  then show ?thesis by (simp add: last_index_def Let_def)
qed

lemma last_index_Some:
  "last_index P xs = Some i \<Longrightarrow> i < length xs \<and> P (xs ! i) \<and> (\<forall>x \<in> set (drop (Suc i) xs). \<not> P x)"
proof (induction xs rule: rev_induct)
  case (snoc x xs)
  then show ?case by (auto simp: last_index_snoc nth_append split: if_splits)
qed (simp add: last_index_def)

lemma add_change_cases:
  obtains (double) "add_change u op l cs = cs" "cs \<noteq> []" "same_op (pc_op (last cs)) op"
  | (cancel) i where "add_change u op l cs = take i cs @ drop (Suc i) cs" "i < length cs"
      "at_path (co_path op) (cs ! i)" "co_op (pc_op (cs ! i)) = Delete_op" "op = set_flag (co_path op)"
      "\<forall>c \<in> set (drop (Suc i) cs). \<not> at_path (co_path op) c"
  | (append) "add_change u op l cs = cs @ [\<lparr>pc_id = u, pc_op = op, pc_label = l\<rparr>]"
proof (cases "cs \<noteq> [] \<and> same_op (pc_op (last cs)) op")
  case False
  show ?thesis
  proof (cases "cancelled_delete cs op")
    case (Some i)
    then have op: "co_op op = Set_op" "co_value op = None"
      and i: "last_index (\<lambda>c. path_key (co_path (pc_op c)) = path_key (co_path op)) cs = Some i"
        "co_op (pc_op (cs ! i)) = Delete_op"
      by (auto simp: cancelled_delete_def split: if_splits option.splits)
    show ?thesis
    proof (rule cancel)
      show "add_change u op l cs = take i cs @ drop (Suc i) cs"
        unfolding add_change_def using False Some by (simp only: if_False remove_index_def option.case)
      show "op = set_flag (co_path op)" using op by (simp add: op_defs)
    qed (use last_index_Some [OF i(1)] i(2) in \<open>auto simp: at_path_def\<close>)
  next
    case None
    then show ?thesis using False append by (simp add: add_change_def)
  qed
qed (simp add: add_change_def double)

lemma gated_drop:
  "gated e p (xs @ d # ys) \<Longrightarrow> \<not> at_path p d \<Longrightarrow> gated e p (xs @ ys)"
proof (induction ys rule: rev_induct)
  case Nil
  then show ?case by simp
next
  case (snoc y ys)
  have "withPendingEnable e p (xs @ d # ys) = withPendingEnable e p (xs @ ys)"
    using snoc.prems(2) by (intro toggle_filter) simp
  moreover have "gated e p ((xs @ d # ys) @ [y])" using snoc.prems(1) by simp
  ultimately have "gated e p ((xs @ ys) @ [y])" unfolding gated_snoc using snoc by simp
  then show ?case by simp
qed

definition gate_ok :: "bool \<Rightarrow> path \<Rightarrow> PendingChange list \<Rightarrow> bool" where
  "gate_ok e p cs \<longleftrightarrow> list_all (\<lambda>c. about p (pc_op c)) cs \<and> gated e p cs"

lemma gate_ok_filter:
  "gate_ok e p cs \<Longrightarrow> \<forall>c \<in> set cs. at_path p c \<longrightarrow> keep c \<Longrightarrow> gate_ok e p (filter keep cs)"
  using gated_filter [of e p cs keep] by (auto simp: gate_ok_def list_all_iff)

lemma gate_ok_add:
  assumes "gate_ok e p cs" and "about p op" and "plain_path p"
    and "strict_prefix p (co_path op) \<Longrightarrow> withPendingEnable e p cs"
  shows "gate_ok e p (add_change u op l cs)"
proof (rule add_change_cases [of u op l cs])
  fix i
  assume eq: "add_change u op l cs = take i cs @ drop (Suc i) cs" and i: "i < length cs"
    and at: "at_path (co_path op) (cs ! i)" "\<forall>c \<in> set (drop (Suc i) cs). \<not> at_path (co_path op) c"
    and del: "co_op (pc_op (cs ! i)) = Delete_op"
  have cs: "cs = take i cs @ cs ! i # drop (Suc i) cs" using i by (simp add: id_take_nth_drop)
  have plain: "plain_path (co_path (pc_op c))" if "c \<in> set cs" for c
    using assms(1) that by (auto simp: gate_ok_def list_all_iff about_def)
  have all: "list_all (\<lambda>c. about p (pc_op c)) (take i cs @ drop (Suc i) cs)"
    using assms(1) by (auto simp: gate_ok_def list_all_iff dest: in_set_takeD in_set_dropD)
  have "gated e p (take i cs @ drop (Suc i) cs)"
  proof (cases "co_path op = p")
    case True
    with gated_undelete [of e p "take i cs" "cs ! i" "drop (Suc i) cs"] at del assms(1) cs show ?thesis
      by (simp add: gate_ok_def)
  next
    case False
    then have "\<not> at_path p (cs ! i)"
      using at(1) path_key_inj [of "co_path op" p] assms(2,3) by (auto simp: at_path_def about_def)
    from gated_drop [OF _ this, of e "take i cs" "drop (Suc i) cs"] assms(1) cs show ?thesis
      by (simp add: gate_ok_def)
  qed
  then show ?thesis using all by (simp add: eq gate_ok_def)
qed (use assms in \<open>auto simp: gate_ok_def\<close>)

subsection \<open>What a gated page does to the cart\<close>

text \<open>\<open>e\<close> says whether the router has the feature now. The page offers Enable or Disable and, while the toggle
  shows the feature enabled, its settings; other pages queue changes elsewhere; and the cart lets the user remove
  changes, here any but those that enable or disable the feature itself.\<close>

inductive gate_cart :: "bool \<Rightarrow> path \<Rightarrow> PendingChange list \<Rightarrow> bool" for e p where
  empty: "gate_cart e p []"
| enable: "gate_cart e p cs \<Longrightarrow> \<not> withPendingEnable e p cs \<Longrightarrow> gate_cart e p (add_change u (set_flag p) l cs)"
| disable: "gate_cart e p cs \<Longrightarrow> withPendingEnable e p cs \<Longrightarrow> gate_cart e p (add_change u (delete_op p) l cs)"
| settings: "gate_cart e p cs \<Longrightarrow> withPendingEnable e p cs \<Longrightarrow> strict_prefix p (co_path op) \<Longrightarrow>
    plain_path (co_path op) \<Longrightarrow> co_op op \<noteq> Comment_op \<Longrightarrow> gate_cart e p (add_change u op l cs)"
| elsewhere: "gate_cart e p cs \<Longrightarrow> indep (co_path op) p \<Longrightarrow> plain_path (co_path op) \<Longrightarrow> co_op op \<noteq> Comment_op \<Longrightarrow>
    gate_cart e p (add_change u op l cs)"
| removed: "gate_cart e p cs \<Longrightarrow> \<forall>c \<in> set cs. co_path (pc_op c) = p \<longrightarrow> keep c \<Longrightarrow> gate_cart e p (filter keep cs)"

lemma gate_cart_ok: "gate_cart e p cs \<Longrightarrow> plain_path p \<Longrightarrow> gate_ok e p cs"
proof (induction rule: gate_cart.induct)
  case (removed cs keep)
  have "\<forall>c \<in> set cs. at_path p c \<longrightarrow> keep c"
    using removed path_key_inj [of _ p] by (auto simp: gate_ok_def list_all_iff about_def at_path_def)
  then show ?case using removed by (intro gate_ok_filter) auto
next
  case empty
  then show ?case by (simp add: gate_ok_def)
qed (auto intro!: gate_ok_add simp: about_def op_defs indep_def)

lemma gate_cart_device:
  "gate_cart (device_get m p \<noteq> None) p cs \<Longrightarrow> plain_path p \<Longrightarrow>
   withPendingEnable (device_get m p \<noteq> None) p cs = (device_get (device_apply (map pc_op cs) m) p \<noteq> None)"
  using gate_cart_ok gated_device by (auto simp: gate_ok_def)

end
