(* ===== verification/ConfigHooks.thy ===== *)
theory ConfigHooks
  imports Gates ServiceDns ServiceManagement ServiceMonitor ServiceNetwork VpnAccelPpp VpnIpsec VpnOpenconnect
    Firewall Interfaces HighAvailability Ospf
begin

text \<open>
  The hooks the pages read their configuration through (\<open>hooks/use*Config.ts\<close>). A hook fetches a top-level
  section and derives the parsed views from it; the hooks of the services and the VPN servers also apply the
  pending changes to each feature's \<open>enabled\<close>. The reply of a query (of a third-party package) is an argument.
  \<open>useBaselineState\<close> keeps the values of a settings form.
\<close>

subsection \<open>\<open>hooks/useServiceConfig.ts\<close>\<close>

record MonitoringHook =
  mh_prometheusNodeExporter :: PrometheusNodeExporterConfig
  mh_prometheusFrrExporter :: PrometheusFrrExporterConfig
  mh_zabbixAgent :: ZabbixAgentConfig
  mh_networkEvent :: NetworkEventConfig

record ServiceHook =
  svh_ntp :: NTPConfig
  svh_dhcpRelay :: DHCPRelayConfig
  svh_dhcpv6Relay :: DHCPv6RelayConfig
  svh_ssh :: SSHConfig
  svh_https :: HTTPSConfig
  svh_dnsDynamic :: DynamicDNSConfig
  svh_dnsForwarding :: DNSForwardingConfig
  svh_routerAdvert :: RouterAdvertConfig
  svh_dhcpv6Server :: DHCPv6ServerConfig
  svh_snmp :: SNMPConfig
  svh_tftp :: TFTPServerConfig
  svh_broadcastRelay :: BroadcastRelayConfig
  svh_mdnsRepeater :: MdnsRepeaterConfig
  svh_lldp :: LLDPConfig
  svh_ndpProxy :: NDPProxyConfig
  svh_eventHandler :: EventHandlerConfig
  svh_consoleServer :: ConsoleServerConfig
  svh_monitoring :: MonitoringHook

definition pending_ssh :: "SSHConfig \<Rightarrow> PendingChange list \<Rightarrow> SSHConfig" where
  "pending_ssh parsed changes = parsed\<lparr>sshc_enabled := withPendingEnable (sshc_enabled parsed) (sshPath []) changes\<rparr>"

definition monitoring_hook :: "collation \<Rightarrow> unknown \<Rightarrow> PendingChange list \<Rightarrow> MonitoringHook" where
  "monitoring_hook lc service changes =
     (let parsed = parseMonitoringConfig lc (child service ''monitoring'');
          node = mc_prometheusNodeExporter parsed;
          frr = mc_prometheusFrrExporter parsed;
          zabbix = mc_zabbixAgent parsed;
          event = mc_networkEvent parsed
      in \<lparr>mh_prometheusNodeExporter = node
             \<lparr>pnec_enabled := withPendingEnable (pnec_enabled node) (prometheusNodeExporterPath []) changes\<rparr>,
          mh_prometheusFrrExporter = frr
             \<lparr>pfec_enabled := withPendingEnable (pfec_enabled frr) (prometheusFrrExporterPath []) changes\<rparr>,
          mh_zabbixAgent = zabbix
             \<lparr>zac_enabled := withPendingEnable (zac_enabled zabbix) (zabbixAgentPath []) changes\<rparr>,
          mh_networkEvent = event
             \<lparr>nec_enabled := withPendingEnable (nec_enabled event) (networkEventPath []) changes\<rparr>\<rparr>)"

definition useServiceConfig :: "collation \<Rightarrow> unknown \<Rightarrow> PendingChange list \<Rightarrow> ServiceHook" where
  "useServiceConfig lc service changes =
     (let https = parseHTTPSConfig lc (child service ''https'');
          dnsForwarding = parseDNSForwardingConfig lc (child (child service ''dns'') ''forwarding'');
          dhcpv6Server = parseDHCPv6ServerConfig lc (child service ''dhcpv6-server'');
          snmp = parseSNMPConfig lc (child service ''snmp'');
          tftp = parseTFTPServerConfig lc (child service ''tftp-server'');
          broadcastRelay = parseBroadcastRelayConfig (child service ''broadcast-relay'');
          mdnsRepeater = parseMdnsRepeaterConfig (child (child service ''mdns'') ''repeater'');
          lldp = parseLLDPConfig lc (child service ''lldp'');
          ndpProxy = parseNDPProxyConfig lc (child service ''ndp-proxy'');
          eventHandler = parseEventHandlerConfig lc (child service ''event-handler'');
          consoleServer = parseConsoleServerConfig lc (child service ''console-server'')
      in \<lparr>svh_ntp = parseNTPConfig lc (child service ''ntp''),
          svh_dhcpRelay = parseDHCPRelayConfig (child service ''dhcp-relay''),
          svh_dhcpv6Relay = parseDHCPv6RelayConfig lc (child service ''dhcpv6-relay''),
          svh_ssh = pending_ssh (parseSSHConfig (child service ''ssh'')) changes,
          svh_https = https\<lparr>httpsc_enabled := withPendingEnable (httpsc_enabled https) (httpsPath []) changes\<rparr>,
          svh_dnsDynamic = parseDynamicDNSConfig lc (child (child service ''dns'') ''dynamic''),
          svh_dnsForwarding = dnsForwarding
             \<lparr>dnsfc_enabled := withPendingEnable (dnsfc_enabled dnsForwarding) (dnsForwardingPath []) changes\<rparr>,
          svh_routerAdvert = parseRouterAdvertConfig lc (child service ''router-advert''),
          svh_dhcpv6Server = dhcpv6Server
             \<lparr>dhcpsc_enabled := withPendingEnable (dhcpsc_enabled dhcpv6Server) (dhcpv6ServerPath []) changes\<rparr>,
          svh_snmp = snmp\<lparr>sosnmpc_enabled := withPendingEnable (sosnmpc_enabled snmp) (snmpPath []) changes\<rparr>,
          svh_tftp = tftp\<lparr>tftpsc_enabled := withPendingEnable (tftpsc_enabled tftp) (tftpServerPath []) changes\<rparr>,
          svh_broadcastRelay = broadcastRelay
             \<lparr>brc_enabled := withPendingEnable (brc_enabled broadcastRelay) (broadcastRelayPath []) changes\<rparr>,
          svh_mdnsRepeater = mdnsRepeater
             \<lparr>mrc_enabled := withPendingEnable (mrc_enabled mdnsRepeater) (mdnsRepeaterPath []) changes\<rparr>,
          svh_lldp = lldp\<lparr>lldpc_enabled := withPendingEnable (lldpc_enabled lldp) (lldpPath []) changes\<rparr>,
          svh_ndpProxy = ndpProxy
             \<lparr>ndppc_enabled := withPendingEnable (ndppc_enabled ndpProxy) (ndpProxyPath []) changes\<rparr>,
          svh_eventHandler = eventHandler
             \<lparr>ehc_enabled := withPendingEnable (ehc_enabled eventHandler) (eventHandlerPath []) changes\<rparr>,
          svh_consoleServer = consoleServer
             \<lparr>smcsc_enabled := withPendingEnable (smcsc_enabled consoleServer) (consoleServerPath []) changes\<rparr>,
          svh_monitoring = monitoring_hook lc service changes\<rparr>)"

subsection \<open>\<open>hooks/useVpnConfig.ts\<close>\<close>

record VpnHook =
  vnh_ipsec :: IPsecConfig
  vnh_l2tp :: AccelPppConfig
  vnh_pptp :: AccelPppConfig
  vnh_sstp :: AccelPppConfig
  vnh_openconnect :: OpenconnectConfig

definition accel_hook :: "collation \<Rightarrow> string \<Rightarrow> unknown \<Rightarrow> PendingChange list \<Rightarrow> AccelPppConfig" where
  "accel_hook lc kind vpn changes =
     (let parsed = parseAccelPppConfig lc kind (child vpn kind)
      in parsed\<lparr>apc_enabled := withPendingEnable (apc_enabled parsed) (accelPppKindPath kind []) changes\<rparr>)"

definition useVpnConfig :: "collation \<Rightarrow> unknown \<Rightarrow> PendingChange list \<Rightarrow> VpnHook" where
  "useVpnConfig lc vpn changes =
     (let ipsec = parseIPsecConfig lc (child vpn ''ipsec'');
          openconnect = parseOpenconnectConfig lc (child vpn ''openconnect'')
      in \<lparr>vnh_ipsec = ipsec\<lparr>ipc_enabled := withPendingEnable (ipc_enabled ipsec) (ipsecPath []) changes\<rparr>,
          vnh_l2tp = accel_hook lc ''l2tp'' vpn changes,
          vnh_pptp = accel_hook lc ''pptp'' vpn changes,
          vnh_sstp = accel_hook lc ''sstp'' vpn changes,
          vnh_openconnect = openconnect
             \<lparr>vooc_enabled := withPendingEnable (vooc_enabled openconnect) (openconnectPath []) changes\<rparr>\<rparr>)"

subsection \<open>The toggles tell the future\<close>

lemma parsed_enabled [simp]:
  "sshc_enabled (parseSSHConfig t) \<longleftrightarrow> t \<noteq> None"
  "httpsc_enabled (parseHTTPSConfig lc t) \<longleftrightarrow> t \<noteq> None"
  "dnsfc_enabled (parseDNSForwardingConfig lc t) \<longleftrightarrow> t \<noteq> None"
  "dhcpsc_enabled (parseDHCPv6ServerConfig lc t) \<longleftrightarrow> t \<noteq> None"
  "sosnmpc_enabled (parseSNMPConfig lc t) \<longleftrightarrow> t \<noteq> None"
  "tftpsc_enabled (parseTFTPServerConfig lc t) \<longleftrightarrow> t \<noteq> None"
  "brc_enabled (parseBroadcastRelayConfig t) \<longleftrightarrow> t \<noteq> None"
  "mrc_enabled (parseMdnsRepeaterConfig t) \<longleftrightarrow> t \<noteq> None"
  "lldpc_enabled (parseLLDPConfig lc t) \<longleftrightarrow> t \<noteq> None"
  "ndppc_enabled (parseNDPProxyConfig lc t) \<longleftrightarrow> t \<noteq> None"
  "ehc_enabled (parseEventHandlerConfig lc t) \<longleftrightarrow> t \<noteq> None"
  "smcsc_enabled (parseConsoleServerConfig lc t) \<longleftrightarrow> t \<noteq> None"
  "ipc_enabled (parseIPsecConfig lc t) \<longleftrightarrow> t \<noteq> None"
  "vooc_enabled (parseOpenconnectConfig lc t) \<longleftrightarrow> t \<noteq> None"
  "apc_enabled (parseAccelPppConfig lc ''sstp'' t) \<longleftrightarrow> t \<noteq> None"
  by (simp_all add: parseSSHConfig_def blankSSHConfig_def parseHTTPSConfig_def blankHTTPSConfig_def
      parseDNSForwardingConfig_def blankDNSForwardingConfig_def parseDHCPv6ServerConfig_def
      blankDHCPv6ServerConfig_def parseSNMPConfig_def blankSNMPConfig_def parseTFTPServerConfig_def
      blankTFTPServerConfig_def parseBroadcastRelayConfig_def blankBroadcastRelayConfig_def
      parseMdnsRepeaterConfig_def blankMdnsRepeaterConfig_def parseLLDPConfig_def blankLLDPConfig_def
      parseNDPProxyConfig_def blankNDPProxyConfig_def parseEventHandlerConfig_def blankEventHandlerConfig_def
      parseConsoleServerConfig_def blankConsoleServerConfig_def parseIPsecConfig_def blankIPsecConfig_def
      parseOpenconnectConfig_def blankOpenconnectConfig_def parseAccelPppConfig_def blankAccelPppConfig_def Let_def)

lemma monitoring_enabled [simp]:
  "pnec_enabled (mc_prometheusNodeExporter (parseMonitoringConfig lc t))
     \<longleftrightarrow> child (child t ''prometheus'') ''node-exporter'' \<noteq> None"
  "pfec_enabled (mc_prometheusFrrExporter (parseMonitoringConfig lc t))
     \<longleftrightarrow> child (child t ''prometheus'') ''frr-exporter'' \<noteq> None"
  "zac_enabled (mc_zabbixAgent (parseMonitoringConfig lc t)) \<longleftrightarrow> child t ''zabbix-agent'' \<noteq> None"
  "nec_enabled (mc_networkEvent (parseMonitoringConfig lc t)) \<longleftrightarrow> child t ''network-event'' \<noteq> None"
  by (simp_all add: parseMonitoringConfig_def blankMonitoringConfig_def parseNodeExporter_def
      parseFrrExporter_def parseZabbixAgent_def parseNetworkEvent_def blankPrometheusNodeExporterConfig_def
      blankPrometheusFrrExporterConfig_def blankZabbixAgentConfig_def blankNetworkEventConfig_def Let_def)

lemma service_enabled:
  "sshc_enabled (svh_ssh (useServiceConfig lc service changes))
     = withPendingEnable (child service ''ssh'' \<noteq> None) (sshPath []) changes"
  "httpsc_enabled (svh_https (useServiceConfig lc service changes))
     = withPendingEnable (child service ''https'' \<noteq> None) (httpsPath []) changes"
  "dnsfc_enabled (svh_dnsForwarding (useServiceConfig lc service changes))
     = withPendingEnable (child (child service ''dns'') ''forwarding'' \<noteq> None) (dnsForwardingPath []) changes"
  "dhcpsc_enabled (svh_dhcpv6Server (useServiceConfig lc service changes))
     = withPendingEnable (child service ''dhcpv6-server'' \<noteq> None) (dhcpv6ServerPath []) changes"
  "sosnmpc_enabled (svh_snmp (useServiceConfig lc service changes))
     = withPendingEnable (child service ''snmp'' \<noteq> None) (snmpPath []) changes"
  "tftpsc_enabled (svh_tftp (useServiceConfig lc service changes))
     = withPendingEnable (child service ''tftp-server'' \<noteq> None) (tftpServerPath []) changes"
  "brc_enabled (svh_broadcastRelay (useServiceConfig lc service changes))
     = withPendingEnable (child service ''broadcast-relay'' \<noteq> None) (broadcastRelayPath []) changes"
  "mrc_enabled (svh_mdnsRepeater (useServiceConfig lc service changes))
     = withPendingEnable (child (child service ''mdns'') ''repeater'' \<noteq> None) (mdnsRepeaterPath []) changes"
  "lldpc_enabled (svh_lldp (useServiceConfig lc service changes))
     = withPendingEnable (child service ''lldp'' \<noteq> None) (lldpPath []) changes"
  "ndppc_enabled (svh_ndpProxy (useServiceConfig lc service changes))
     = withPendingEnable (child service ''ndp-proxy'' \<noteq> None) (ndpProxyPath []) changes"
  "ehc_enabled (svh_eventHandler (useServiceConfig lc service changes))
     = withPendingEnable (child service ''event-handler'' \<noteq> None) (eventHandlerPath []) changes"
  "smcsc_enabled (svh_consoleServer (useServiceConfig lc service changes))
     = withPendingEnable (child service ''console-server'' \<noteq> None) (consoleServerPath []) changes"
  by (simp_all add: useServiceConfig_def pending_ssh_def Let_def)

lemma monitoring_hook_enabled:
  "pnec_enabled (mh_prometheusNodeExporter (monitoring_hook lc service changes))
     = withPendingEnable (child (child (child service ''monitoring'') ''prometheus'') ''node-exporter'' \<noteq> None) (prometheusNodeExporterPath []) changes"
  "pfec_enabled (mh_prometheusFrrExporter (monitoring_hook lc service changes))
     = withPendingEnable (child (child (child service ''monitoring'') ''prometheus'') ''frr-exporter'' \<noteq> None) (prometheusFrrExporterPath []) changes"
  "zac_enabled (mh_zabbixAgent (monitoring_hook lc service changes))
     = withPendingEnable (child (child service ''monitoring'') ''zabbix-agent'' \<noteq> None) (zabbixAgentPath []) changes"
  "nec_enabled (mh_networkEvent (monitoring_hook lc service changes))
     = withPendingEnable (child (child service ''monitoring'') ''network-event'' \<noteq> None) (networkEventPath []) changes"
  by (simp_all add: monitoring_hook_def Let_def)

lemma service_monitoring: "svh_monitoring (useServiceConfig lc service changes) = monitoring_hook lc service changes"
  by (simp add: useServiceConfig_def Let_def)

text \<open>The features with an Enable button: the path of each, and what its page shows for the router \<open>m\<close> and the
  queued changes.\<close>

inductive feature_gate :: "collation \<Rightarrow> node_map \<Rightarrow> PendingChange list \<Rightarrow> path \<Rightarrow> bool \<Rightarrow> bool"
  for lc m changes where
  "h = useServiceConfig lc (device_get m [''service'']) changes \<Longrightarrow>
   (p, shown) \<in> set [
     (sshPath [], sshc_enabled (svh_ssh h)), (httpsPath [], httpsc_enabled (svh_https h)),
     (dnsForwardingPath [], dnsfc_enabled (svh_dnsForwarding h)),
     (dhcpv6ServerPath [], dhcpsc_enabled (svh_dhcpv6Server h)), (snmpPath [], sosnmpc_enabled (svh_snmp h)),
     (tftpServerPath [], tftpsc_enabled (svh_tftp h)), (broadcastRelayPath [], brc_enabled (svh_broadcastRelay h)),
     (mdnsRepeaterPath [], mrc_enabled (svh_mdnsRepeater h)), (lldpPath [], lldpc_enabled (svh_lldp h)),
     (ndpProxyPath [], ndppc_enabled (svh_ndpProxy h)), (eventHandlerPath [], ehc_enabled (svh_eventHandler h)),
     (consoleServerPath [], smcsc_enabled (svh_consoleServer h))] \<Longrightarrow>
   feature_gate lc m changes p shown"
| "h = svh_monitoring (useServiceConfig lc (device_get m [''service'']) changes) \<Longrightarrow>
   (p, shown) \<in> set [
     (prometheusNodeExporterPath [], pnec_enabled (mh_prometheusNodeExporter h)),
     (prometheusFrrExporterPath [], pfec_enabled (mh_prometheusFrrExporter h)),
     (zabbixAgentPath [], zac_enabled (mh_zabbixAgent h)), (networkEventPath [], nec_enabled (mh_networkEvent h))] \<Longrightarrow>
   feature_gate lc m changes p shown"
| "h = useVpnConfig lc (device_get m [''vpn'']) changes \<Longrightarrow>
   (p, shown) \<in> set [
     (ipsecPath [], ipc_enabled (vnh_ipsec h)), (openconnectPath [], vooc_enabled (vnh_openconnect h)),
     (accelPppKindPath ''sstp'' [], apc_enabled (vnh_sstp h))] \<Longrightarrow>
   feature_gate lc m changes p shown"

lemmas gate_paths =
  sshPath_def httpsPath_def dnsForwardingPath_def dhcpv6ServerPath_def snmpPath_def tftpServerPath_def
  broadcastRelayPath_def mdnsRepeaterPath_def lldpPath_def ndpProxyPath_def eventHandlerPath_def
  consoleServerPath_def prometheusNodeExporterPath_def prometheusFrrExporterPath_def zabbixAgentPath_def
  networkEventPath_def monitoringPath_def ipsecPath_def openconnectPath_def accelPppKindPath_def

lemma feature_gate_toggle:
  "feature_gate lc m changes p shown \<Longrightarrow> plain_path p \<and> shown = withPendingEnable (device_get m p \<noteq> None) p changes"
proof (induction rule: feature_gate.induct)
  case (1 h p shown)
  then show ?case
    by (auto simp: service_enabled gate_paths plain_path_def)
next
  case (2 h p shown)
  then show ?case
    by (auto simp: service_monitoring monitoring_hook_enabled gate_paths plain_path_def)
next
  case (3 h p shown)
  then show ?case
    by (auto simp: useVpnConfig_def accel_hook_def Let_def gate_paths plain_path_def)
qed



text \<open>C15. The two exceptions: the L2TP and the PPTP page enable \<open>vpn l2tp\<close> and \<open>vpn pptp\<close> but look for
  \<open>remote-access\<close> below it. Enabling L2TP shows its settings until the change is committed; then, with the node
  on the router, the page offers to enable it again.\<close>

theorem l2tp_enable_lost:
  assumes "kind \<in> {''l2tp'', ''pptp''}" and "device_get (fv_config s) (accelPppKindPath kind []) = None"
    and "cart = add_change u (enableAccelPppOp kind) l []"
    and "fv_config s' = device_apply (map pc_op cart) (fv_config s)"
  shows "apc_enabled (accel_hook lc kind (device_get (fv_config s) [''vpn'']) cart)
    \<and> device_get (fv_config s') (accelPppKindPath kind []) \<noteq> None
    \<and> \<not> apc_enabled (accel_hook lc kind (device_get (fv_config s') [''vpn'']) [])"
proof -
  have cart: "cart = [\<lparr>pc_id = u, pc_op = set_flag [''vpn'', kind], pc_label = l\<rparr>]"
    by (simp add: assms(3) add_change_def cancelled_delete_def last_index_def enableAccelPppOp_def
        accelPppKindPath_def)
  have dev: "device_get (fv_config s') [''vpn'', kind] = Some (JObj [])"
    using device.get_set_flag [of "[''vpn'', kind]" "fv_config s"] assms(2)
    by (simp add: assms(4) cart apply_op_def op_defs accelPppKindPath_def del: device_get_Cons)
  then have "child (device_get (fv_config s') [''vpn'']) kind = Some (JObj [])" by simp
  then have "\<not> apc_enabled (accel_hook lc kind (device_get (fv_config s') [''vpn'']) [])"
    using assms(1) by (auto simp: accel_hook_def parseAccelPppConfig_def blankAccelPppConfig_def Let_def
        withPendingEnable_def hasPendingDelete_def hasPendingSet_def)
  moreover have "apc_enabled (accel_hook lc kind (device_get (fv_config s) [''vpn'']) cart)"
    by (simp add: accel_hook_def Let_def withPendingEnable_def hasPendingDelete_def hasPendingSet_def cart
        latestPendingOp_def op_defs accelPppKindPath_def)
  ultimately show ?thesis using dev by (simp add: accelPppKindPath_def)
qed

theorem l2tp_enable_lost_witness:
  "let s = \<lparr>fv_config = [], fv_saved = [], fv_pending = False\<rparr>;
       cart = add_change ''0'' (enableAccelPppOp ''l2tp'') '''' [];
       m = device_apply (map pc_op cart) []
   in apc_enabled (accel_hook (\<lambda>a b. 0) ''l2tp'' (device_get (fv_config s) [''vpn'']) cart)
      \<and> \<not> apc_enabled (accel_hook (\<lambda>a b. 0) ''l2tp'' (device_get m [''vpn'']) [])"
proof -
  let ?s = "\<lparr>fv_config = [], fv_saved = [], fv_pending = False\<rparr>"
  let ?cart = "add_change ''0'' (enableAccelPppOp ''l2tp'') '''' []"
  let ?s' = "?s\<lparr>fv_config := device_apply (map pc_op ?cart) []\<rparr>"
  have "device_get (fv_config ?s) (accelPppKindPath ''l2tp'' []) = None" by (simp add: accelPppKindPath_def)
  from l2tp_enable_lost [OF _ this refl, where s' = ?s'] show ?thesis by (simp add: Let_def)
qed

subsection \<open>The hooks over two sections, and the firewall\<close>

text \<open>The state of a query that a page looks at, and its data.\<close>

record query_flags =
  cq_isLoading :: bool
  cq_isError :: bool
  cq_isFetching :: bool
  cq_error :: "string option"

record config_query = query_flags +
  cq_data :: unknown

definition both_queries :: "config_query \<Rightarrow> config_query \<Rightarrow> query_flags" where
  "both_queries a b =
     \<lparr>cq_isLoading = (cq_isLoading a \<or> cq_isLoading b),
      cq_isError = (cq_isError a \<or> cq_isError b),
      cq_isFetching = (cq_isFetching a \<or> cq_isFetching b),
      cq_error = (case cq_error a of Some e \<Rightarrow> Some e | None \<Rightarrow> cq_error b)\<rparr>"

record InterfaceHook =
  ifh_ethernetInterfaces :: "EthernetInterface list"
  ifh_bondInterfaces :: "BondInterface list"
  ifh_bridgeInterfaces :: "BridgeInterface list"
  ifh_vrfs :: "Vrf list"
  ifh_query :: query_flags

definition useInterfaceConfig :: "collation \<Rightarrow> config_query \<Rightarrow> config_query \<Rightarrow> InterfaceHook" where
  "useInterfaceConfig lc interfacesQuery vrfQuery =
     (let interfaces = cq_data interfacesQuery;
          vrf = cq_data vrfQuery
      in \<lparr>ifh_ethernetInterfaces = parseEthernetInterfaces lc interfaces,
          ifh_bondInterfaces = parseBondInterfaces lc interfaces,
          ifh_bridgeInterfaces = parseBridgeInterfaces lc interfaces,
          ifh_vrfs = parseVrfs lc vrf,
          ifh_query = both_queries interfacesQuery vrfQuery\<rparr>)"

record HAHook =
  hah_ha :: HAConfig
  hah_conntrackSync :: ConntrackSyncConfig
  hah_query :: query_flags

definition useHAConfig :: "collation \<Rightarrow> config_query \<Rightarrow> config_query \<Rightarrow> HAHook" where
  "useHAConfig lc haQuery conntrackSyncQuery =
     \<lparr>hah_ha = parseHAConfig lc (cq_data haQuery),
      hah_conntrackSync = parseConntrackSyncConfig (cq_data conntrackSyncQuery),
      hah_query = both_queries haQuery conntrackSyncQuery\<rparr>"

record OSPFHook =
  osh_config :: OSPFConfig
  osh_query :: query_flags

definition useOSPFConfig :: "collation \<Rightarrow> config_query \<Rightarrow> config_query \<Rightarrow> OSPFHook" where
  "useOSPFConfig lc ospfQuery ospfv3Query =
     \<lparr>osh_config = parseOSPFConfig lc (cq_data ospfQuery) (cq_data ospfv3Query),
      osh_query = both_queries ospfQuery ospfv3Query\<rparr>"

record FirewallHook =
  fwh_zones :: "FirewallZone list"
  fwh_groups :: "FirewallGroup list"
  fwh_rulesets :: "FirewallRuleset list"
  fwh_globalOptions :: FirewallGlobalOptions

definition useFirewallConfig :: "collation \<Rightarrow> unknown \<Rightarrow> FirewallHook" where
  "useFirewallConfig lc firewall =
     \<lparr>fwh_zones = parseZones lc firewall,
      fwh_groups = parseGroups lc firewall,
      fwh_rulesets = parseRulesets firewall,
      fwh_globalOptions = parseGlobalOptions firewall\<rparr>"

subsection \<open>\<open>hooks/useBaselineState.ts\<close>\<close>

text \<open>\<open>signature\<close> is \<open>JSON.stringify\<close>. Rendering with a baseline of another signature resets the values.\<close>

record 'v baseline_state =
  bl_values :: 'v
  bl_previousSignature :: string

definition baseline_mount :: "('v \<Rightarrow> string) \<Rightarrow> 'v \<Rightarrow> 'v baseline_state" where
  "baseline_mount signature baseline = \<lparr>bl_values = baseline, bl_previousSignature = signature baseline\<rparr>"

definition useBaselineState :: "('v \<Rightarrow> string) \<Rightarrow> 'v \<Rightarrow> 'v baseline_state \<Rightarrow> 'v baseline_state" where
  "useBaselineState signature baseline st =
     (if signature baseline \<noteq> bl_previousSignature st
      then st\<lparr>bl_previousSignature := signature baseline, bl_values := baseline\<rparr>
      else st)"

text \<open>The life of a form: it is rendered with the baseline of the moment, or the user edits its values.\<close>

datatype 'v form_event = Rendered 'v | Edited "'v \<Rightarrow> 'v"

fun form_step :: "('v \<Rightarrow> string) \<Rightarrow> 'v form_event \<Rightarrow> 'v baseline_state \<Rightarrow> 'v baseline_state" where
  "form_step signature (Rendered baseline) st = useBaselineState signature baseline st"
| "form_step signature (Edited f) st = st\<lparr>bl_values := f (bl_values st)\<rparr>"

text \<open>The latest baseline, and the edits made since it last changed.\<close>

fun since_baseline :: "'v form_event list \<Rightarrow> 'v \<times> ('v \<Rightarrow> 'v) list \<Rightarrow> 'v \<times> ('v \<Rightarrow> 'v) list" where
  "since_baseline [] be = be"
| "since_baseline (Rendered b' # evs) (b, es) = since_baseline evs (b', if b' = b then es else [])"
| "since_baseline (Edited f # evs) (b, es) = since_baseline evs (b, es @ [f])"

lemma form_runs:
  assumes "inj signature" and "bl_values st = foldl (\<lambda>v f. f v) b es" and "bl_previousSignature st = signature b"
    and "since_baseline evs (b, es) = (b', es')"
  shows "bl_values (fold (form_step signature) evs st) = foldl (\<lambda>v f. f v) b' es'"
  using assms(2-)
proof (induction evs "(b, es)" arbitrary: b es st rule: since_baseline.induct)
  case (2 c evs b es)
  then show ?case using injD [OF assms(1), of c b] by (cases "c = b") (auto simp: useBaselineState_def)
qed auto

text \<open>C9. A settings form is never stale: over any renders and edits, its values are the current baseline with
  exactly the edits made since that baseline appeared, in order. So a form that was not edited since the router's
  configuration changed shows the configuration, and saving it queues nothing of the old one.\<close>

theorem settings_form_fresh:
  assumes "inj signature" and "since_baseline evs (b, []) = (b', es)"
  shows "bl_values (fold (form_step signature) evs (baseline_mount signature b)) = foldl (\<lambda>v f. f v) b' es"
  by (rule form_runs [OF assms(1) _ _ assms(2)]) (simp_all add: baseline_mount_def)

theorem settings_form_fresh_witness:
  "bl_values (fold (form_step (\<lambda>s. s)) [Edited (\<lambda>v. v @ ''1''), Rendered ''22'', Rendered ''80'', Edited (\<lambda>v. v @ ''8'')]
     (baseline_mount (\<lambda>s. s) ''22'')) = ''808''"
proof -
  have "since_baseline [Edited (\<lambda>v. v @ ''1''), Rendered ''22'', Rendered ''80'', Edited (\<lambda>v. v @ ''8'')] (''22'', [])
    = (''80'', [\<lambda>v. v @ ''8''])" by simp
  from settings_form_fresh [OF _ this, of "\<lambda>s. s"] show ?thesis by simp
qed

end
