(* ===== verification/Pages.thy ===== *)
theory Pages
  imports Widgets FirewallReorder RuleNumbers UiNetwork Containers SafeApply
begin

text \<open>
  Pages with a state of their own: the rules of a firewall ruleset with its forms and drag and drop
  (\<open>pages/firewall/RulesetDetailPage.tsx\<close>), the global options of the firewall, the upgrade page
  (\<open>pages/system/UpgradesPage.tsx\<close>) and the import of a configuration file
  (\<open>components/ImportConfigPanel.tsx\<close>).
\<close>

subsection \<open>\<open>pages/firewall/RulesetDetailPage.tsx\<close>\<close>

definition match_parts :: "FirewallMatch \<Rightarrow> string list" where
  "match_parts m =
     (let shown = (\<lambda>pre v. if or_else v '''' = '''' then [] else [pre @ or_else v ''''])
      in shown '''' (fm_address m) @ shown '':'' (fm_port m) @ shown ''grp:'' (fm_addressGroup m)
         @ shown ''grp:'' (fm_networkGroup m) @ shown ''grp:'' (fm_portGroup m) @ shown '''' (fm_macAddress m)
         @ shown ''grp:'' (fm_macGroup m) @ shown ''grp:'' (fm_domainGroup m))"

definition summarizeMatch :: "FirewallMatch \<Rightarrow> string" where
  "summarizeMatch m = (let parts = match_parts m in if 0 < length parts then js_join '' '' parts else ''any'')"

definition RulesetDetailPage_queueSetDefaultAction :: "RulesetRef \<Rightarrow> string \<Rightarrow> (ConfigOp \<times> string) list" where
  "RulesetDetailPage_queueSetDefaultAction ref val =
     [(set_op (rulesetPath ref [''default-action'']) val,
       ''set '' @ rr_id ref @ '' default-action '' @ [CHR 0x27] @ val @ [CHR 0x27])]"

definition RulesetDetailPage_queueDeleteRule :: "RulesetRef \<Rightarrow> string \<Rightarrow> (ConfigOp \<times> string) list" where
  "RulesetDetailPage_queueDeleteRule ref ruleNumber =
     [(delete_op (rulePath ref ruleNumber []), ''delete '' @ rr_id ref @ '' rule '' @ ruleNumber)]"

definition RulesetDetailPage_reorderRule ::
    "RulesetRef \<Rightarrow> FirewallRule list \<Rightarrow> int \<Rightarrow> int \<Rightarrow> (ConfigOp \<times> string) list" where
  "RulesetDetailPage_reorderRule ref rules fromIndex toIndex =
     map (\<lambda>op. (op, change_label op)) (reorderRuleOps ref rules fromIndex toIndex)"

text \<open>The page's own state.\<close>

record ruleset_page =
  rdp_showAdd :: bool
  rdp_editingRule :: "string option"
  rdp_draggedIndex :: "nat option"
  rdp_dragOverIndex :: "nat option"

definition RulesetDetailPage_mount :: ruleset_page where
  "RulesetDetailPage_mount =
     \<lparr>rdp_showAdd = False, rdp_editingRule = None, rdp_draggedIndex = None, rdp_dragOverIndex = None\<rparr>"

text \<open>What the user does: the buttons above the table and of a row, the drag events of a row, and the submit
  buttons of the two forms with what was typed in them.\<close>

datatype ruleset_event =
    Default_action string
  | Add_rule
  | Edit_rule string
  | Delete_rule string
  | Move_up nat
  | Move_down nat
  | Drag_start nat
  | Drag_over nat
  | Drag_leave nat
  | Drop_on nat
  | Drag_end
  | Submit_new string RuleFormValues
  | Submit_edit RuleFormValues

definition end_drag :: "ruleset_page \<Rightarrow> ruleset_page" where
  "end_drag st = st\<lparr>rdp_draggedIndex := None, rdp_dragOverIndex := None\<rparr>"

definition rule_edited :: "FirewallRule list \<Rightarrow> ruleset_page \<Rightarrow> FirewallRule option" where
  "rule_edited rules st =
     (case rdp_editingRule st of
        Some n \<Rightarrow> if n = '''' then None else List.find (\<lambda>r. fr_number r = n) rules
      | None \<Rightarrow> None)"

fun ruleset_step ::
    "RulesetRef \<Rightarrow> FirewallRule list \<Rightarrow> ruleset_event \<Rightarrow> ruleset_page \<Rightarrow> ruleset_page \<times> (ConfigOp \<times> string) list"
where
  "ruleset_step ref rules (Default_action val) st = (st, RulesetDetailPage_queueSetDefaultAction ref val)"
| "ruleset_step ref rules Add_rule st = (st\<lparr>rdp_showAdd := \<not> rdp_showAdd st, rdp_editingRule := None\<rparr>, [])"
| "ruleset_step ref rules (Edit_rule n) st = (st\<lparr>rdp_editingRule := Some n, rdp_showAdd := False\<rparr>, [])"
| "ruleset_step ref rules (Delete_rule n) st =
     (if rdp_editingRule st = Some n then st\<lparr>rdp_editingRule := None\<rparr> else st,
      RulesetDetailPage_queueDeleteRule ref n)"
| "ruleset_step ref rules (Move_up i) st =
     (st, if i = 0 then [] else RulesetDetailPage_reorderRule ref rules (int i) (int i - 1))"
| "ruleset_step ref rules (Move_down i) st =
     (st, if Suc i = length rules then [] else RulesetDetailPage_reorderRule ref rules (int i) (int i + 1))"
| "ruleset_step ref rules (Drag_start i) st = (st\<lparr>rdp_draggedIndex := Some i\<rparr>, [])"
| "ruleset_step ref rules (Drag_over i) st = (st\<lparr>rdp_dragOverIndex := Some i\<rparr>, [])"
| "ruleset_step ref rules (Drag_leave i) st =
     (st\<lparr>rdp_dragOverIndex := (if rdp_dragOverIndex st = Some i then None else rdp_dragOverIndex st)\<rparr>, [])"
| "ruleset_step ref rules (Drop_on i) st =
     (end_drag st,
      case rdp_draggedIndex st of
        Some d \<Rightarrow> RulesetDetailPage_reorderRule ref rules (int d) (int i)
      | None \<Rightarrow> [])"
| "ruleset_step ref rules Drag_end st = (end_drag st, [])"
| "ruleset_step ref rules (Submit_new n v) st =
     (if rdp_showAdd st \<and> RuleForm_canSubmit None (map fr_number rules) n v
      then (st\<lparr>rdp_showAdd := False\<rparr>, RuleForm_submit ref None (map fr_number rules) n v)
      else (st, []))"
| "ruleset_step ref rules (Submit_edit v) st =
     (case rule_edited rules st of
        Some r \<Rightarrow>
          if RuleForm_canSubmit (Some r) (map fr_number rules) (fr_number r) v
          then (st\<lparr>rdp_editingRule := None\<rparr>, RuleForm_submit ref (Some r) (map fr_number rules) (fr_number r) v)
          else (st, [])
      | None \<Rightarrow> (st, []))"

text \<open>A visit of the page: the events, and all that they queue.\<close>

fun ruleset_visit ::
    "RulesetRef \<Rightarrow> FirewallRule list \<Rightarrow> ruleset_event list \<Rightarrow> ruleset_page \<Rightarrow> ruleset_page \<times> (ConfigOp \<times> string) list"
where
  "ruleset_visit ref rules [] st = (st, [])"
| "ruleset_visit ref rules (ev # evs) st =
     (let (st', adds) = ruleset_step ref rules ev st;
          (st'', adds') = ruleset_visit ref rules evs st'
      in (st'', adds @ adds'))"

subsection \<open>Rules\<close>

text \<open>Two moves before the commit.\<close>

definition four_rules :: node_map where
  "four_rules = [(''firewall'', JObj [(''ipv4'', JObj [(''name'', JObj [(''LAN'', JObj [(''rule'', JObj
     [(''10'', JObj [(''action'', JStr ''accept''), (''protocol'', JStr ''tcp'')]),
      (''20'', JObj [(''action'', JStr ''accept''), (''protocol'', JStr ''udp'')]),
      (''30'', JObj [(''action'', JStr ''drop''), (''protocol'', JStr ''icmp'')]),
      (''40'', JObj [(''action'', JStr ''reject''), (''log'', JObj [])])])])])])])]"

definition lan_ref :: RulesetRef where
  "lan_ref = \<lparr>rr_id = ''LAN'', rr_kind = Custom_kind, rr_family = ''ipv4''\<rparr>"

lemma ruleset_visit_append:
  "ruleset_visit ref rules (evs @ evs') st =
     (let (st', adds) = ruleset_visit ref rules evs st;
          (st'', adds') = ruleset_visit ref rules evs' st'
      in (st'', adds @ adds'))"
  by (induction evs arbitrary: st) (simp_all add: split_beta Let_def)

text \<open>At most one of the two forms is open.\<close>

definition one_form :: "ruleset_page \<Rightarrow> bool" where
  "one_form st \<longleftrightarrow> \<not> (rdp_showAdd st \<and> rdp_editingRule st \<noteq> None)"

lemma one_form_step: "one_form st \<Longrightarrow> one_form (fst (ruleset_step ref rules ev st))"
  by (cases ev) (auto simp: one_form_def end_drag_def split: option.splits)

lemma one_form_visit: "one_form st \<Longrightarrow> one_form (fst (ruleset_visit ref rules evs st))"
  by (induction evs arbitrary: st) (simp_all add: split_beta Let_def one_form_step)

text \<open>The form of a rule opens only by its Edit button.\<close>

lemma edit_opens_step:
  "rdp_editingRule st \<noteq> Some n \<Longrightarrow> ev \<noteq> Edit_rule n \<Longrightarrow> rdp_editingRule (fst (ruleset_step ref rules ev st)) \<noteq> Some n"
  by (cases ev) (auto simp: end_drag_def split: option.splits)

lemma edit_opens_visit:
  "rdp_editingRule st \<noteq> Some n \<Longrightarrow> Edit_rule n \<notin> set evs \<Longrightarrow>
   rdp_editingRule (fst (ruleset_visit ref rules evs st)) \<noteq> Some n"
proof (induction evs arbitrary: st)
  case (Cons ev evs)
  then have "rdp_editingRule (fst (ruleset_step ref rules ev st)) \<noteq> Some n" by (intro edit_opens_step) auto
  with Cons show ?case by (simp add: split_beta Let_def)
qed simp

text \<open>Over any visit of a ruleset's page at most one rule form is open, and after a rule was deleted its
  form stays closed until the user opens it again, so it cannot be submitted by mistake and bring the rule back.\<close>

theorem deleted_rule_form_closed:
  assumes "fst (ruleset_visit ref rules (evs @ Delete_rule n # evs') RulesetDetailPage_mount) = st"
    and "Edit_rule n \<notin> set evs'"
  shows "\<not> (rdp_showAdd st \<and> rdp_editingRule st \<noteq> None) \<and> rdp_editingRule st \<noteq> Some n"
proof -
  let ?st\<^sub>1 = "fst (ruleset_step ref rules (Delete_rule n) (fst (ruleset_visit ref rules evs RulesetDetailPage_mount)))"
  have "rdp_editingRule ?st\<^sub>1 \<noteq> Some n" by simp
  from edit_opens_visit [OF this assms(2), of ref rules] assms(1) have "rdp_editingRule st \<noteq> Some n"
    by (auto simp: ruleset_visit_append split_beta Let_def)
  moreover have "one_form st"
    using one_form_visit [of RulesetDetailPage_mount] assms(1) by (auto simp: one_form_def RulesetDetailPage_mount_def)
  ultimately show ?thesis by (simp add: one_form_def)
qed

theorem deleted_rule_form_closed_witness:
  "rdp_editingRule (fst (ruleset_visit lan_ref (device_rules lan_ref four_rules)
     [Edit_rule ''20'', Delete_rule ''20'', Add_rule, Submit_edit blankRuleFormValues] RulesetDetailPage_mount))
   \<noteq> Some ''20''"
  using deleted_rule_form_closed [of lan_ref "device_rules lan_ref four_rules" "[Edit_rule ''20'']" "''20''"
      "[Add_rule, Submit_edit blankRuleFormValues]", OF refl]
  by simp

text \<open>A drag from one row to another is one move, whatever rows the pointer crosses.\<close>

lemma drag_crosses:
  "set evs \<subseteq> range Drag_over \<union> range Drag_leave \<Longrightarrow> rdp_draggedIndex st = Some i \<Longrightarrow>
   \<exists>st'. ruleset_visit ref rules evs st = (st', []) \<and> rdp_draggedIndex st' = Some i
     \<and> rdp_showAdd st' = rdp_showAdd st \<and> rdp_editingRule st' = rdp_editingRule st"
proof (induction evs arbitrary: st)
  case (Cons ev evs)
  let ?r = "ruleset_step ref rules ev st"
  have ev: "ev \<in> range Drag_over \<union> range Drag_leave" using Cons.prems(1) by simp
  then have r: "snd ?r = []" "rdp_draggedIndex (fst ?r) = Some i" "rdp_showAdd (fst ?r) = rdp_showAdd st"
    "rdp_editingRule (fst ?r) = rdp_editingRule st" using Cons.prems(2) by auto
  show ?case using Cons.IH [of "fst ?r"] Cons.prems(1) r by (auto simp: split_beta Let_def)
qed simp

lemma drag_is_move:
  assumes "set evs \<subseteq> range Drag_over \<union> range Drag_leave"
  shows "snd (ruleset_visit ref rules (Drag_start i # evs @ [Drop_on j]) st)
    = RulesetDetailPage_reorderRule ref rules (int i) (int j)"
  using drag_crosses [OF assms, of "st\<lparr>rdp_draggedIndex := Some i\<rparr>" i ref rules]
  by (auto simp: ruleset_visit_append Let_def)


text \<open>The form that creates a ruleset (\<open>pages/firewall/RulesetsPage.tsx\<close>) does not look for a ruleset of the
  same name: with the name of an existing one it changes its default action and writes into its rule 10.\<close>

lemma create_ruleset_overwrites:
  "let m = device_apply (map fst (RulesetsPage_CreateRulesetForm_submit ''LAN'' ''ipv4'' '''' ''reject'' '''' '''')) four_rules
   in device_get m (rulesetPath lan_ref [''default-action'']) = Some (JStr ''drop'')
      \<and> device_get four_rules (rulesetPath lan_ref [''default-action'']) = None
      \<and> map fr_action (device_rules lan_ref m) ! 0 \<noteq> map fr_action (device_rules lan_ref four_rules) ! 0
      \<and> map fr_number (device_rules lan_ref m) = map fr_number (device_rules lan_ref four_rules)"
  by code_simp

subsection \<open>\<open>pages/firewall/GlobalOptionsPage.tsx\<close>\<close>

definition GlobalOptionsPage_queueToggle :: "string list \<Rightarrow> string \<Rightarrow> (ConfigOp \<times> string) list" where
  "GlobalOptionsPage_queueToggle segments val =
     [(set_op (globalOptionsPath segments) val,
       ''set firewall global-options '' @ js_join '' '' segments @ '' '' @ [CHR 0x27] @ val @ [CHR 0x27])]"

text \<open>The rows; the option \<open>not set\<close> is disabled and cannot be picked.\<close>

definition ToggleRow :: "string \<Rightarrow> string option \<Rightarrow> (string \<Rightarrow> (ConfigOp \<times> string) list) \<Rightarrow> unit widget" where
  "ToggleRow label val onChange = Choice label True [''enable'', ''disable''] (or_else val '''') onChange"

definition ActionRow :: "string \<Rightarrow> string option \<Rightarrow> (string \<Rightarrow> (ConfigOp \<times> string) list) \<Rightarrow> unit widget" where
  "ActionRow label val onChange = Choice label True [''accept'', ''drop'', ''reject''] (or_else val '''') onChange"

definition GlobalOptionsPage_controls :: "FirewallGlobalOptions \<Rightarrow> unit widget list" where
  "GlobalOptionsPage_controls globalOptions =
     [ToggleRow ''Respond to all ping to the router'' (go_allPing globalOptions)
        (GlobalOptionsPage_queueToggle [''all-ping'']),
      ToggleRow ''Respond to broadcast ping'' (go_broadcastPing globalOptions)
        (GlobalOptionsPage_queueToggle [''broadcast-ping'']),
      ToggleRow ''TCP SYN cookies'' (go_synCookies globalOptions)
        (GlobalOptionsPage_queueToggle [''syn-cookies'']),
      ToggleRow ''Log martian (spoofed/unroutable) packets'' (go_logMartians globalOptions)
        (GlobalOptionsPage_queueToggle [''log-martians'']),
      ToggleRow ''Accept IP source-routed packets'' (go_ipSrcRoute globalOptions)
        (GlobalOptionsPage_queueToggle [''ip-src-route'']),
      ActionRow ''Established connections'' (go_stateEstablishedAction globalOptions)
        (GlobalOptionsPage_queueToggle [''state-policy'', ''established'', ''action'']),
      ActionRow ''Related connections'' (go_stateRelatedAction globalOptions)
        (GlobalOptionsPage_queueToggle [''state-policy'', ''related'', ''action'']),
      ActionRow ''Invalid connections'' (go_stateInvalidAction globalOptions)
        (GlobalOptionsPage_queueToggle [''state-policy'', ''invalid'', ''action''])]"

subsection \<open>\<open>pages/system/UpgradesPage.tsx\<close>\<close>

text \<open>The fields of the status that the handler reads. The handler starts the pull of an image unless an upgrade
  is queued already, and queues the change once the pull has succeeded; \<open>pulled\<close> is its outcome.\<close>

record upgrade_status =
  us_containerName :: string
  us_imageRepo :: string

record upgrade_page =
  upp_pullingVersion :: "string option"
  upp_pullError :: "string option"
  upp_queuedVersion :: "string option"

definition UpgradesPage_imagePath :: "upgrade_status \<Rightarrow> path" where
  "UpgradesPage_imagePath status = containerNamePath (us_containerName status) [''image'']"

definition UpgradesPage_imageRef :: "upgrade_status \<Rightarrow> string \<Rightarrow> string" where
  "UpgradesPage_imageRef status version = us_imageRepo status @ '':'' @ version"

definition UpgradesPage_upgradeAlreadyQueued :: "upgrade_status \<Rightarrow> PendingChange list \<Rightarrow> bool" where
  "UpgradesPage_upgradeAlreadyQueued status changes \<longleftrightarrow> hasPendingSet changes (UpgradesPage_imagePath status)"

definition UpgradesPage_handleUpgrade ::
    "upgrade_status \<Rightarrow> PendingChange list \<Rightarrow> string \<Rightarrow> upgrade_page \<Rightarrow> (upgrade_page \<times> string) option" where
  "UpgradesPage_handleUpgrade status changes version st =
     (if UpgradesPage_upgradeAlreadyQueued status changes then None
      else Some (\<lparr>upp_pullingVersion = Some version, upp_pullError = None, upp_queuedVersion = None\<rparr>,
                 UpgradesPage_imageRef status version))"

definition UpgradesPage_handleUpgrade_reply ::
    "upgrade_status \<Rightarrow> string \<Rightarrow> string option \<Rightarrow> upgrade_page \<Rightarrow> upgrade_page \<times> (ConfigOp \<times> string) list" where
  "UpgradesPage_handleUpgrade_reply status version pullFailure st =
     (case pullFailure of
        None \<Rightarrow>
          (let imageRef = UpgradesPage_imageRef status version;
               imagePath = UpgradesPage_imagePath status
           in (st\<lparr>upp_queuedVersion := Some version, upp_pullingVersion := None\<rparr>,
               [(set_op imagePath imageRef,
                 ''set '' @ js_join '' '' imagePath @ '' '' @ [CHR 0x27] @ imageRef @ [CHR 0x27])]))
      | Some msg \<Rightarrow> (st\<lparr>upp_pullError := Some msg, upp_pullingVersion := None\<rparr>, []))"

text \<open>The button of the newest release.\<close>

definition UpgradesPage_canUpgrade :: "upgrade_status \<Rightarrow> PendingChange list \<Rightarrow> bool \<Rightarrow> upgrade_page \<Rightarrow> bool" where
  "UpgradesPage_canUpgrade status changes imageExists st \<longleftrightarrow>
     \<not> (upp_pullingVersion st \<noteq> None \<or> UpgradesPage_upgradeAlreadyQueued status changes \<or> \<not> imageExists)"

text \<open>A failed pull queues nothing; a queued upgrade disables the button until it is discarded or committed.\<close>

lemma failed_pull_queues_nothing: "snd (UpgradesPage_handleUpgrade_reply status version (Some msg) st) = []"
  by (simp add: UpgradesPage_handleUpgrade_reply_def)

lemma upgrade_offered_once:
  assumes "snd (UpgradesPage_handleUpgrade_reply status version None st) = [(op, label)]"
  shows "\<not> UpgradesPage_canUpgrade status (changes @ [\<lparr>pc_id = u, pc_op = op, pc_label = label\<rparr>]) imageExists st'"
  using assms
  by (auto simp: UpgradesPage_handleUpgrade_reply_def UpgradesPage_canUpgrade_def Let_def
      UpgradesPage_upgradeAlreadyQueued_def hasPendingSet_def latestPendingOp_snoc op_defs)

subsection \<open>\<open>components/ImportConfigPanel.tsx\<close>\<close>

text \<open>The panel with the list of committed and unsaved changes it writes to. The safe-apply input and the
  reported default belong to SafeApply; of the confirm window the panel needs to know whether it is open.\<close>

datatype import_mode = Merge_mode | Load_mode

record import_panel =
  imp_fileName :: "string option"
  imp_content :: string
  imp_mode :: import_mode
  imp_acknowledged :: bool
  imp_safe :: safe_input
  imp_busy :: bool
  imp_error :: "string option"
  imp_success :: bool
  imp_window :: bool
  imp_committed :: "PendingChange list"

definition ImportConfigPanel_mount :: "PendingChange list \<Rightarrow> import_panel" where
  "ImportConfigPanel_mount committed =
     \<lparr>imp_fileName = None, imp_content = '''', imp_mode = Merge_mode, imp_acknowledged = False,
      imp_safe = \<lparr>si_enabled = True, si_edited = None\<rparr>, imp_busy = False, imp_error = None,
      imp_success = False, imp_window = False, imp_committed = committed\<rparr>"

definition ImportConfigPanel_canImport :: "jsnum option \<Rightarrow> import_panel \<Rightarrow> bool" where
  "ImportConfigPanel_canImport reported p \<longleftrightarrow>
     js_trim (imp_content p) \<noteq> '''' \<and> si_valid reported (imp_safe p)
     \<and> (imp_mode p = Merge_mode \<or> imp_acknowledged p)"

definition import_mode_name :: "import_mode \<Rightarrow> string" where
  "import_mode_name mode = (case mode of Merge_mode \<Rightarrow> ''merge'' | Load_mode \<Rightarrow> ''load'')"

definition ImportConfigPanel_markImported :: "import_mode \<Rightarrow> string \<Rightarrow> import_panel \<Rightarrow> import_panel" where
  "ImportConfigPanel_markImported mode uuid p =
     (let label = ''import ('' @ import_mode_name mode @ '')''
      in p\<lparr>imp_committed := markCommitted (imp_committed p)
             [\<lparr>pc_id = uuid, pc_op = \<lparr>co_op = Comment_op, co_path = [label], co_value = None\<rparr>,
               pc_label = label\<rparr>]\<rparr>)"

text \<open>What the user does, and what is sent: the content, the mode and the seconds of the confirm window. A reply
  carries the mode that was chosen when its button was clicked, which is the one the handler still sees.\<close>

datatype import_event =
    File_read string string
  | Pick_merge
  | Pick_load
  | Acknowledge bool
  | Safe_apply safe_input
  | Import_click
  | Import_reply import_mode string "(bool, string) sum"
  | Keep_click
  | Keep_reply import_mode string "string option"
  | Window_expired

fun import_step :: "jsnum option \<Rightarrow> import_event \<Rightarrow> import_panel \<Rightarrow>
    import_panel \<times> (string \<times> import_mode \<times> jsnum option) option" where
  "import_step reported (File_read name text) p =
     (p\<lparr>imp_fileName := Some name, imp_success := False, imp_error := None, imp_content := text\<rparr>, None)"
| "import_step reported Pick_merge p = (p\<lparr>imp_mode := Merge_mode, imp_acknowledged := False\<rparr>, None)"
| "import_step reported Pick_load p = (p\<lparr>imp_mode := Load_mode\<rparr>, None)"
| "import_step reported (Acknowledge b) p =
     (if imp_mode p = Load_mode then p\<lparr>imp_acknowledged := b\<rparr> else p, None)"
| "import_step reported (Safe_apply i) p = (p\<lparr>imp_safe := i\<rparr>, None)"
| "import_step reported Import_click p =
     (if ImportConfigPanel_canImport reported p \<and> \<not> imp_busy p
      then (p\<lparr>imp_busy := True, imp_error := None, imp_success := False\<rparr>,
            Some (imp_content p, imp_mode p, confirm_field reported (imp_safe p)))
      else (p, None))"
| "import_step reported (Import_reply mode uuid res) p =
     (case res of
        Inl True \<Rightarrow> (p\<lparr>imp_window := True, imp_busy := False\<rparr>, None)
      | Inl False \<Rightarrow> (ImportConfigPanel_markImported mode uuid (p\<lparr>imp_success := True, imp_busy := False\<rparr>), None)
      | Inr msg \<Rightarrow> (p\<lparr>imp_error := Some msg, imp_busy := False\<rparr>, None))"
| "import_step reported Keep_click p = (p\<lparr>imp_busy := True, imp_error := None\<rparr>, None)"
| "import_step reported (Keep_reply mode uuid failure) p =
     (case failure of
        None \<Rightarrow> (ImportConfigPanel_markImported mode uuid
                  (p\<lparr>imp_window := False, imp_success := True, imp_busy := False\<rparr>), None)
      | Some msg \<Rightarrow> (p\<lparr>imp_error := Some msg, imp_busy := False\<rparr>, None))"
| "import_step reported Window_expired p =
     (p\<lparr>imp_window := False,
        imp_error := Some ''The confirm window ran out, so VyOS reverted the import.''\<rparr>, None)"

definition acknowledged_load :: "import_panel \<Rightarrow> bool" where
  "acknowledged_load p \<longleftrightarrow> (imp_acknowledged p \<longrightarrow> imp_mode p = Load_mode)"

lemma acknowledged_load_step: "acknowledged_load p \<Longrightarrow> acknowledged_load (fst (import_step reported ev p))"
  by (cases ev) (auto simp: acknowledged_load_def ImportConfigPanel_markImported_def Let_def
      split: option.splits sum.splits bool.splits)

text \<open>A full replacement is only sent when its warning was acknowledged, and with the safety net switched on it
  is sent with a rollback window within the range of the router.\<close>

lemma load_acknowledged:
  assumes "snd (import_step reported ev p) = Some (content, Load_mode, secs)"
  shows "imp_acknowledged p \<and> (si_enabled (imp_safe p) \<longrightarrow> (\<exists>x. secs = Some x \<and> in_range x))"
proof -
  from assms have "ev = Import_click" by (cases ev) (auto split: option.splits sum.splits bool.splits)
  with assms have can: "ImportConfigPanel_canImport reported p" "imp_mode p = Load_mode"
    and secs: "secs = confirm_field reported (imp_safe p)" by (auto split: if_splits)
  have "\<exists>x. confirm_field reported (imp_safe p) = Some x \<and> in_range x" if "si_enabled (imp_safe p)"
    using can(1) that by (auto simp: ImportConfigPanel_canImport_def si_valid_def js_le_in_range confirm_field_def
        Let_def in_range_def)
  then show ?thesis using can by (auto simp: ImportConfigPanel_canImport_def secs)
qed

end
